(* ===== verification/Prelude.thy ===== *)
theory Prelude
  imports Main "HOL-Library.List_Lexorder" "HOL-Library.Char_ord" "HOL-Library.Sublist"
begin

text \<open>
  What every component of the development shares: the collections of hints, Rust strings as
  UTF-8 byte lists with the operations the code uses (trimming, characters, char boundaries,
  joining and splitting, decimal formatting), and lemmas on lists and options.
\<close>

named_theorems bt_simps \<open>laws of the ordered maps\<close>
named_theorems pres \<open>introduction rules for preserved predicates\<close>

section \<open>Lists and options\<close>

lemma map_filter_append [simp]:
  "List.map_filter f (xs @ ys) = List.map_filter f xs @ List.map_filter f ys"
  by (simp add: List.map_filter_def)

definition find_index :: "('a \<Rightarrow> bool) \<Rightarrow> 'a list \<Rightarrow> nat option" where
  "find_index P xs =
     (let n = length (takeWhile (\<lambda>x. \<not> P x) xs) in if n < length xs then Some n else None)"

lemma find_index_Nil [simp]: "find_index P [] = None"
  by (simp add: find_index_def)

lemma find_index_Cons:
  "find_index P (x # xs) = (if P x then Some 0 else map_option Suc (find_index P xs))"
  by (simp add: find_index_def)

lemma find_index_SomeD:
  assumes "find_index P xs = Some i"
  shows "i < length xs" and "P (xs ! i)" and "\<forall>j < i. \<not> P (xs ! j)"
proof -
  from assms have i: "i = length (takeWhile (\<lambda>x. \<not> P x) xs)" and lt: "i < length xs"
    by (auto simp: find_index_def Let_def split: if_splits)
  show "i < length xs" by (rule lt)
  show "P (xs ! i)" using i lt nth_length_takeWhile [of "\<lambda>x. \<not> P x" xs] by simp
  show "\<forall>j < i. \<not> P (xs ! j)"
    using i by (metis (mono_tags, lifting) nth_mem set_takeWhileD takeWhile_nth)
qed

lemma find_index_None_iff: "find_index P xs = None \<longleftrightarrow> (\<forall>x \<in> set xs. \<not> P x)"
  by (induction xs) (auto simp: find_index_Cons)

lemma find_SomeD: "find P xs = Some x \<Longrightarrow> x \<in> set xs \<and> P x"
  by (induction xs) (auto split: if_splits)

section \<open>Rust strings: UTF-8 byte lists\<close>

text \<open>
  A \<open>String\<close> or \<open>&str\<close> is the list of its UTF-8 bytes, one \<open>char\<close> of HOL per byte, so that
  \<open>len()\<close> is \<open>length\<close> and the order on strings is the byte order of \<open>Ord for str\<close>.
\<close>

definition is_continuation :: "char \<Rightarrow> bool" where
  "is_continuation c = (128 \<le> (of_char c :: nat) \<and> (of_char c :: nat) < 192)"

text \<open>\<open>str::is_char_boundary\<close>.\<close>

definition is_char_boundary :: "string \<Rightarrow> nat \<Rightarrow> bool" where
  "is_char_boundary s i =
     (i = 0 \<or> i = length s \<or> (i < length s \<and> \<not> is_continuation (s ! i)))"

text \<open>\<open>str::chars\<close>: each character as its own bytes, a lead byte and its continuation bytes.\<close>

function utf8_chars :: "string \<Rightarrow> string list" where
  "utf8_chars [] = []"
| "utf8_chars (c # cs) =
     (c # takeWhile is_continuation cs) # utf8_chars (dropWhile is_continuation cs)"
  by pat_completeness auto
termination
  by (relation "measure length") (auto simp: less_Suc_eq_le length_dropWhile_le)

lemma concat_utf8_chars [simp]: "concat (utf8_chars s) = s"
  by (induction s rule: utf8_chars.induct) simp_all

lemma utf8_chars_Nil_iff [simp]: "utf8_chars s = [] \<longleftrightarrow> s = []"
  by (cases s) simp_all

text \<open>
  The Unicode white space of \<open>char::is_whitespace\<close>, as UTF-8 byte sequences: U+0009 to U+000D,
  U+0020, U+0085, U+00A0, U+1680, U+2000 to U+200A, U+2028, U+2029, U+202F, U+205F, U+3000.
\<close>

definition utf8_white_space :: "string list" where
  "utf8_white_space =
     [[CHR 0x09], [CHR 0x0A], [CHR 0x0B], [CHR 0x0C], [CHR 0x0D], [CHR 0x20],
      [CHR 0xC2, CHR 0x85], [CHR 0xC2, CHR 0xA0], [CHR 0xE1, CHR 0x9A, CHR 0x80],
      [CHR 0xE2, CHR 0x80, CHR 0x80], [CHR 0xE2, CHR 0x80, CHR 0x81],
      [CHR 0xE2, CHR 0x80, CHR 0x82], [CHR 0xE2, CHR 0x80, CHR 0x83],
      [CHR 0xE2, CHR 0x80, CHR 0x84], [CHR 0xE2, CHR 0x80, CHR 0x85],
      [CHR 0xE2, CHR 0x80, CHR 0x86], [CHR 0xE2, CHR 0x80, CHR 0x87],
      [CHR 0xE2, CHR 0x80, CHR 0x88], [CHR 0xE2, CHR 0x80, CHR 0x89],
      [CHR 0xE2, CHR 0x80, CHR 0x8A], [CHR 0xE2, CHR 0x80, CHR 0xA8],
      [CHR 0xE2, CHR 0x80, CHR 0xA9], [CHR 0xE2, CHR 0x80, CHR 0xAF],
      [CHR 0xE2, CHR 0x81, CHR 0x9F], [CHR 0xE3, CHR 0x80, CHR 0x80]]"

text \<open>Both trims work character by character.\<close>

definition trim_start :: "string \<Rightarrow> string" where
  "trim_start s = concat (dropWhile (\<lambda>c. c \<in> set utf8_white_space) (utf8_chars s))"

definition trim_end :: "string \<Rightarrow> string" where
  "trim_end s =
     concat (rev (dropWhile (\<lambda>c. c \<in> set utf8_white_space) (rev (utf8_chars s))))"

definition trim :: "string \<Rightarrow> string" where
  "trim s = trim_end (trim_start s)"

text \<open>\<open>s.trim().is_empty()\<close>: every character is white space.\<close>

definition is_blank :: "string \<Rightarrow> bool" where
  "is_blank s = (trim s = [])"

lemma is_blank_Nil [simp]: "is_blank []"
  by (simp add: is_blank_def trim_def trim_start_def trim_end_def)

lemma utf8_chars_drop: "\<exists>t. drop n (utf8_chars s) = utf8_chars t"
proof (induction s arbitrary: n rule: utf8_chars.induct)
  case 1
  show ?case by (auto intro: exI [of _ "[]"])
next
  case (2 c cs)
  show ?case
  proof (cases n)
    case 0
    then show ?thesis by (intro exI [of _ "c # cs"]) simp
  next
    case (Suc m)
    with 2 show ?thesis by simp
  qed
qed

lemma utf8_chars_concat_dropWhile [simp]:
  "utf8_chars (concat (dropWhile P (utf8_chars s))) = dropWhile P (utf8_chars s)"
proof -
  obtain t where t: "dropWhile P (utf8_chars s) = utf8_chars t"
    using utf8_chars_drop [of "length (takeWhile P (utf8_chars s))" s]
    unfolding dropWhile_eq_drop by blast
  show ?thesis unfolding t by simp
qed

lemma utf8_chars_not_Nil: "c \<in> set (utf8_chars s) \<Longrightarrow> c \<noteq> []"
  by (induction s rule: utf8_chars.induct) auto

lemma dropWhile_both_ends_Nil:
  "dropWhile P (rev (dropWhile P xs)) = [] \<longleftrightarrow> (\<forall>x \<in> set xs. P x)"
proof
  assume "dropWhile P (rev (dropWhile P xs)) = []"
  then have all: "\<forall>x \<in> set (dropWhile P xs). P x"
    unfolding dropWhile_eq_Nil_conv set_rev .
  have "dropWhile P xs = []"
  proof (rule ccontr)
    assume ne: "dropWhile P xs \<noteq> []"
    then have "\<not> P (hd (dropWhile P xs))" by (rule hd_dropWhile)
    with all ne show False by (metis list.set_sel(1))
  qed
  then show "\<forall>x \<in> set xs. P x" unfolding dropWhile_eq_Nil_conv .
next
  assume "\<forall>x \<in> set xs. P x"
  then have "dropWhile P xs = []" unfolding dropWhile_eq_Nil_conv .
  show "dropWhile P (rev (dropWhile P xs)) = []" unfolding \<open>dropWhile P xs = []\<close> by simp
qed

lemma concat_rev_Nil_iff:
  assumes "\<And>x. x \<in> set xs \<Longrightarrow> x \<noteq> []"
  shows "concat (rev xs) = [] \<longleftrightarrow> xs = []"
  using assms by (cases xs) auto

lemma is_blank_iff: "is_blank s \<longleftrightarrow> (\<forall>c \<in> set (utf8_chars s). c \<in> set utf8_white_space)"
proof -
  define P where "P = (\<lambda>c. c \<in> set utf8_white_space)"
  have ne: "x \<noteq> []" if "x \<in> set (dropWhile P (rev (dropWhile P (utf8_chars s))))" for x
    using set_dropWhileD [OF that] set_dropWhileD [of x P "utf8_chars s"] utf8_chars_not_Nil
    unfolding set_rev by blast
  have "trim s = concat (rev (dropWhile P (rev (dropWhile P (utf8_chars s)))))"
    unfolding trim_def trim_start_def trim_end_def utf8_chars_concat_dropWhile P_def ..
  then have "is_blank s \<longleftrightarrow> dropWhile P (rev (dropWhile P (utf8_chars s))) = []"
    unfolding is_blank_def using concat_rev_Nil_iff [OF ne] by metis
  then show ?thesis unfolding dropWhile_both_ends_Nil P_def .
qed

text \<open>A string that starts with an ASCII letter, digit or punctuation is not blank.\<close>

lemma utf8_white_space_hd:
  "w \<in> set utf8_white_space \<Longrightarrow> (of_char (hd w) :: nat) \<le> 32 \<or> 194 \<le> (of_char (hd w) :: nat)"
  by (simp add: utf8_white_space_def) (elim disjE; simp)

lemma not_blank_Cons:
  assumes "33 \<le> (of_char c :: nat)" and "(of_char c :: nat) < 128"
  shows "\<not> is_blank (c # cs)"
proof
  assume "is_blank (c # cs)"
  then have "c # takeWhile is_continuation cs \<in> set utf8_white_space"
    by (simp add: is_blank_iff)
  from utf8_white_space_hd [OF this] assms show False by simp
qed

text \<open>\<open>str::strip_prefix\<close> and \<open>str::strip_suffix\<close>.\<close>

definition strip_prefix :: "string \<Rightarrow> string \<Rightarrow> string option" where
  "strip_prefix p s = (if prefix p s then Some (drop (length p) s) else None)"

definition strip_suffix :: "string \<Rightarrow> string \<Rightarrow> string option" where
  "strip_suffix p s = (if suffix p s then Some (take (length s - length p) s) else None)"

lemma strip_prefix_Some_iff: "strip_prefix p s = Some r \<longleftrightarrow> s = p @ r"
  by (auto simp: strip_prefix_def prefix_def)

definition is_ascii_digit :: "char \<Rightarrow> bool" where
  "is_ascii_digit c = (48 \<le> (of_char c :: nat) \<and> (of_char c :: nat) \<le> 57)"

definition is_ascii_alphanumeric :: "char \<Rightarrow> bool" where
  "is_ascii_alphanumeric c =
     (let n = (of_char c :: nat)
      in (48 \<le> n \<and> n \<le> 57) \<or> (65 \<le> n \<and> n \<le> 90) \<or> (97 \<le> n \<and> n \<le> 122))"

text \<open>\<open>u8::is_ascii_whitespace\<close>: space, tab, line feed, form feed, carriage return.\<close>

definition is_ascii_whitespace :: "char \<Rightarrow> bool" where
  "is_ascii_whitespace c = (c \<in> {CHR 0x20, CHR 0x09, CHR 0x0A, CHR 0x0C, CHR 0x0D})"

text \<open>\<open>[String]::join\<close>.\<close>

fun join_with :: "string \<Rightarrow> string list \<Rightarrow> string" where
  "join_with sep [] = []"
| "join_with sep [x] = x"
| "join_with sep (x # y # zs) = x @ sep @ join_with sep (y # zs)"

text \<open>\<open>str::split\<close> with a one-byte pattern: always at least one part.\<close>

fun split_on :: "char \<Rightarrow> string \<Rightarrow> string list" where
  "split_on d [] = [[]]"
| "split_on d (c # cs) =
     (if c = d then [] # split_on d cs
      else case split_on d cs of [] \<Rightarrow> [[c]] | p # ps \<Rightarrow> (c # p) # ps)"

lemma split_on_not_Nil [simp]: "split_on d s \<noteq> []"
  by (induction s) (auto split: list.splits)

section \<open>Decimal formatting\<close>

definition digit_char :: "nat \<Rightarrow> char" where
  "digit_char d = char_of (48 + d)"

function show_nat :: "nat \<Rightarrow> string" where
  "show_nat n = (if n < 10 then [digit_char n] else show_nat (n div 10) @ [digit_char (n mod 10)])"
  by pat_completeness auto
termination
  by (relation "measure id") auto

declare show_nat.simps [simp del]

definition read_digits :: "string \<Rightarrow> nat" where
  "read_digits s = foldl (\<lambda>n c. 10 * n + ((of_char c :: nat) - 48)) 0 s"

lemma of_char_digit_char: "d < 10 \<Longrightarrow> (of_char (digit_char d) :: nat) = 48 + d"
  by (simp add: digit_char_def)

lemma read_digits_show_nat [simp]: "read_digits (show_nat n) = n"
proof (induction n rule: show_nat.induct)
  case (1 n)
  show ?case
  proof (cases "n < 10")
    case True
    then show ?thesis
      by (simp add: show_nat.simps [of n] read_digits_def of_char_digit_char)
  next
    case False
    then have "read_digits (show_nat n) =
        10 * read_digits (show_nat (n div 10)) + n mod 10"
      by (simp add: show_nat.simps [of n] read_digits_def of_char_digit_char)
    also have "\<dots> = n" using 1 False by simp
    finally show ?thesis .
  qed
qed

lemma show_nat_inject [simp]: "show_nat m = show_nat n \<longleftrightarrow> m = n"
  by (metis read_digits_show_nat)

lemma show_nat_not_Nil [simp]: "show_nat n \<noteq> []"
  by (subst show_nat.simps) simp

lemma show_nat_digits: "c \<in> set (show_nat n) \<Longrightarrow> is_ascii_digit c"
proof (induction n rule: show_nat.induct)
  case (1 n)
  have "is_ascii_digit (digit_char d)" if "d < 10" for d
    using that by (simp add: is_ascii_digit_def of_char_digit_char)
  with 1 show ?case
    by (subst (asm) show_nat.simps) (auto split: if_splits)
qed

end
