(* ===== verification/Ordered_Maps.thy ===== *)
theory Ordered_Maps
  imports Prelude
begin

text \<open>
  \<open>std::collections::BTreeMap\<close> and \<open>BTreeSet\<close>: a strictly sorted association list, which is
  what iteration, \<open>keys()\<close> and the derived \<open>PartialEq\<close> observe of the tree. The clients
  rely on the interface \<open>ordered_map\<close> only; the association list provides it.
\<close>

section \<open>The interface\<close>

locale ordered_map =
  fixes empty :: "'m"
    and insert :: "'k::linorder \<Rightarrow> 'v \<Rightarrow> 'm \<Rightarrow> 'm"
    and remove :: "'k \<Rightarrow> 'm \<Rightarrow> 'm"
    and get :: "'m \<Rightarrow> 'k \<Rightarrow> 'v option"
    and entries :: "'m \<Rightarrow> ('k \<times> 'v) list"
    and invar :: "'m \<Rightarrow> bool"
  assumes get_empty: "get empty k = None"
    and get_insert: "invar m \<Longrightarrow> get (insert k v m) = (get m)(k \<mapsto> v)"
    and get_remove: "invar m \<Longrightarrow> get (remove k m) = (get m)(k := None)"
    and get_entries: "invar m \<Longrightarrow> get m = map_of (entries m)"
    and entries_sorted: "invar m \<Longrightarrow> sorted_wrt (<) (map fst (entries m))"
    and invar_empty: "invar empty"
    and invar_insert: "invar m \<Longrightarrow> invar (insert k v m)"
    and invar_remove: "invar m \<Longrightarrow> invar (remove k m)"
begin

lemma invar_insert_all: "invar m \<Longrightarrow> invar (fold (\<lambda>(k, v). insert k v) kvs m)"
  by (induction kvs arbitrary: m) (auto simp: invar_insert)

text \<open>Inserting a list of bindings overrides, the last binding of a key winning.\<close>

lemma get_insert_all:
  "invar m \<Longrightarrow> get (fold (\<lambda>(k, v). insert k v) kvs m) = get m ++ map_of (rev kvs)"
proof (induction kvs arbitrary: m)
  case Nil
  then show ?case by simp
next
  case (Cons kv kvs)
  then show ?case
    by (cases kv) (auto simp: invar_insert get_insert map_add_def fun_eq_iff map_of_append
        split: option.splits)
qed

lemma distinct_keys: "invar m \<Longrightarrow> distinct (map fst (entries m))"
  by (meson entries_sorted strict_sorted_iff)

lemma get_Some_iff: "invar m \<Longrightarrow> get m k = Some v \<longleftrightarrow> (k, v) \<in> set (entries m)"
  by (simp add: get_entries map_of_eq_Some_iff [OF distinct_keys])

lemma dom_get: "invar m \<Longrightarrow> dom (get m) = fst ` set (entries m)"
  by (simp add: get_entries dom_map_of_conv_image_fst)

end

section \<open>Strictly sorted association lists\<close>

type_synonym ('k, 'v) btree_map = "('k \<times> 'v) list"

type_synonym 'v smap = "(string, 'v) btree_map"

fun bt_insert :: "'k::linorder \<Rightarrow> 'v \<Rightarrow> ('k, 'v) btree_map \<Rightarrow> ('k, 'v) btree_map" where
  "bt_insert k v [] = [(k, v)]"
| "bt_insert k v ((k', v') # m) =
     (if k < k' then (k, v) # (k', v') # m
      else if k = k' then (k, v) # m
      else (k', v') # bt_insert k v m)"

definition bt_remove :: "'k \<Rightarrow> ('k, 'v) btree_map \<Rightarrow> ('k, 'v) btree_map" where
  "bt_remove k m = filter (\<lambda>(k', _). k' \<noteq> k) m"

abbreviation bt_get :: "('k, 'v) btree_map \<Rightarrow> 'k \<Rightarrow> 'v option" where
  "bt_get \<equiv> map_of"

definition bt_keys :: "('k, 'v) btree_map \<Rightarrow> 'k list" where
  "bt_keys m = map fst m"

definition bt_values :: "('k, 'v) btree_map \<Rightarrow> 'v list" where
  "bt_values m = map snd m"

definition bt_contains_key :: "('k, 'v) btree_map \<Rightarrow> 'k \<Rightarrow> bool" where
  "bt_contains_key m k = (map_of m k \<noteq> None)"

definition bt_wf :: "('k::linorder, 'v) btree_map \<Rightarrow> bool" where
  "bt_wf m = sorted_wrt (<) (map fst m)"

text \<open>\<open>extend\<close> and \<open>collect\<close>.\<close>

definition bt_extend :: "('k::linorder, 'v) btree_map \<Rightarrow> ('k \<times> 'v) list \<Rightarrow> ('k, 'v) btree_map" where
  "bt_extend m kvs = fold (\<lambda>(k, v). bt_insert k v) kvs m"

definition bt_collect :: "('k::linorder \<times> 'v) list \<Rightarrow> ('k, 'v) btree_map" where
  "bt_collect kvs = bt_extend [] kvs"

lemma fst_set_bt_insert: "fst ` set (bt_insert k v m) = Set.insert k (fst ` set m)"
  by (induction k v m rule: bt_insert.induct) auto

lemma map_of_bt_insert: "bt_wf m \<Longrightarrow> map_of (bt_insert k v m) = (map_of m)(k \<mapsto> v)"
proof (induction k v m rule: bt_insert.induct)
  case (2 k v k' v' m)
  then show ?case by (auto simp: bt_wf_def fun_eq_iff)
qed (simp add: bt_wf_def)

lemma bt_wf_insert: "bt_wf m \<Longrightarrow> bt_wf (bt_insert k v m)"
proof (induction k v m rule: bt_insert.induct)
  case (2 k v k' v' m)
  have "\<forall>y \<in> fst ` set (bt_insert k v m). k' < y" if "k' < k"
    using that "2.prems" by (auto simp: fst_set_bt_insert bt_wf_def)
  with 2 show ?case by (auto simp: bt_wf_def intro: less_trans)
qed (simp add: bt_wf_def)

lemma map_of_bt_remove: "map_of (bt_remove k m) = (map_of m)(k := None)"
  by (induction m) (auto simp: bt_remove_def fun_eq_iff)

lemma bt_wf_remove: "bt_wf m \<Longrightarrow> bt_wf (bt_remove k m)"
  by (induction m) (auto simp: bt_remove_def bt_wf_def)

interpretation bt: ordered_map "[]" bt_insert bt_remove map_of "\<lambda>m. m" bt_wf
proof unfold_locales
  fix m :: "('a \<times> 'b) list"
  assume "bt_wf m"
  then show "sorted_wrt (<) (map fst m)" by (simp add: bt_wf_def)
next
  show "bt_wf []" by (simp add: bt_wf_def)
qed (simp_all add: map_of_bt_insert map_of_bt_remove bt_wf_insert bt_wf_remove)

lemmas bt_laws [bt_simps] =
  bt.get_insert bt.get_remove bt.invar_insert bt.invar_remove

lemma bt_wf_Nil [simp]: "bt_wf []"
  by (simp add: bt_wf_def)

lemma bt_wf_extend [bt_simps]: "bt_wf m \<Longrightarrow> bt_wf (bt_extend m kvs)"
  by (simp add: bt_extend_def bt.invar_insert_all)

lemma map_of_bt_extend [bt_simps]:
  "bt_wf m \<Longrightarrow> map_of (bt_extend m kvs) = map_of m ++ map_of (rev kvs)"
  by (simp add: bt_extend_def bt.get_insert_all)

lemma bt_wf_collect [simp]: "bt_wf (bt_collect kvs)"
  by (simp add: bt_collect_def bt_extend_def bt.invar_insert_all)

lemma map_of_bt_collect: "map_of (bt_collect kvs) = map_of (rev kvs)"
  by (simp add: bt_collect_def bt_extend_def bt.get_insert_all)

lemma bt_contains_key_iff: "bt_contains_key m k \<longleftrightarrow> k \<in> set (bt_keys m)"
  by (auto simp: bt_contains_key_def bt_keys_def map_of_eq_None_iff)

lemma bt_wf_distinct: "bt_wf m \<Longrightarrow> distinct (bt_keys m)"
  by (simp add: bt_keys_def bt.distinct_keys)

section \<open>Ordered sets\<close>

text \<open>\<open>BTreeSet\<close>: a strictly sorted list; \<open>collect\<close>, \<open>union\<close>, and \<open>contains\<close> by membership.\<close>

definition bs_collect :: "'k::linorder list \<Rightarrow> 'k list" where
  "bs_collect xs = sort (remdups xs)"

definition bs_union :: "'k::linorder list \<Rightarrow> 'k list \<Rightarrow> 'k list" where
  "bs_union xs ys = bs_collect (xs @ ys)"

lemma set_bs_collect [simp]: "set (bs_collect xs) = set xs"
  by (simp add: bs_collect_def)

lemma set_bs_union [simp]: "set (bs_union xs ys) = set xs \<union> set ys"
  by (simp add: bs_union_def)

lemma bs_collect_eq_iff: "bs_collect xs = bs_collect ys \<longleftrightarrow> set xs = set ys"
proof
  assume "bs_collect xs = bs_collect ys"
  then show "set xs = set ys" using set_bs_collect by metis
next
  assume "set xs = set ys"
  then show "bs_collect xs = bs_collect ys"
    unfolding bs_collect_def
    by (intro sorted_distinct_set_unique) auto
qed

end
