(* ===== verification/Effects.thy ===== *)
theory Effects
  imports Prelude
begin

text \<open>
  The asynchronous functions of the runtime, each run as one sequential computation: a function
  from the state it may change to the new state and an error or a value (\<open>Result\<close>). The state
  reached when an error is returned is kept, as \<open>?\<close> keeps what was changed before it.
  A preserved predicate (\<open>preserves\<close>) and a triple with a normal and an error postcondition
  (\<open>triple\<close>) have one rule per combinator.
\<close>

type_synonym ('s, 'e, 'a) eff = "'s \<Rightarrow> 's \<times> ('e + 'a)"

definition ok :: "'a \<Rightarrow> ('s, 'e, 'a) eff" where
  "ok x = (\<lambda>s. (s, Inr x))"

definition err :: "'e \<Rightarrow> ('s, 'e, 'a) eff" where
  "err e = (\<lambda>s. (s, Inl e))"

text \<open>\<open>m.await?\<close> followed by \<open>f\<close>.\<close>

definition and_then :: "('s, 'e, 'a) eff \<Rightarrow> ('a \<Rightarrow> ('s, 'e, 'b) eff) \<Rightarrow> ('s, 'e, 'b) eff" where
  "and_then m f = (\<lambda>s. case m s of (s', Inl e) \<Rightarrow> (s', Inl e) | (s', Inr x) \<Rightarrow> f x s')"

text \<open>\<open>match m.await\<close>: the result itself, error or value.\<close>

definition try_eff :: "('s, 'e, 'a) eff \<Rightarrow> ('s, 'e, 'e + 'a) eff" where
  "try_eff m = (\<lambda>s. let (s', r) = m s in (s', Inr r))"

text \<open>\<open>for x in xs { f(x).await?; }\<close>\<close>

fun for_each :: "'x list \<Rightarrow> ('x \<Rightarrow> ('s, 'e, unit) eff) \<Rightarrow> ('s, 'e, unit) eff" where
  "for_each [] f = ok ()"
| "for_each (x # xs) f = and_then (f x) (\<lambda>_. for_each xs f)"

text \<open>\<open>for x in xs { acc = f(x, acc).await?; }\<close>\<close>

fun for_fold :: "'x list \<Rightarrow> ('x \<Rightarrow> 'a \<Rightarrow> ('s, 'e, 'a) eff) \<Rightarrow> 'a \<Rightarrow> ('s, 'e, 'a) eff" where
  "for_fold [] f acc = ok acc"
| "for_fold (x # xs) f acc = and_then (f x acc) (\<lambda>acc'. for_fold xs f acc')"

text \<open>A \<open>Result\<close> that depends on no state: \<open>r?\<close>.\<close>

definition lift_result :: "'e + 'a \<Rightarrow> ('s, 'e, 'a) eff" where
  "lift_result r = (\<lambda>s. (s, r))"

lemma and_then_simps [simp]:
  "m s = (s', Inl e) \<Longrightarrow> and_then m f s = (s', Inl e)"
  "m s = (s', Inr x) \<Longrightarrow> and_then m f s = f x s'"
  by (simp_all add: and_then_def)

lemma ok_run: "ok x s = (s, Inr x)" and err_run: "err e s = (s, Inl e)"
  by (simp_all add: ok_def err_def)

lemma lift_result_run: "lift_result r s = (s, r)"
  by (simp add: lift_result_def)

lemma runs_simps [simp]:
  "ok x s = (t, r) \<longleftrightarrow> t = s \<and> r = Inr x"
  "err e s = (t, r) \<longleftrightarrow> t = s \<and> r = Inl e"
  "lift_result q s = (t, r) \<longleftrightarrow> t = s \<and> r = q"
  "fst (ok x s) = s" "fst (err e s) = s" "fst (lift_result q s) = s"
  "snd (ok x s) = Inr x" "snd (err e s) = Inl e" "snd (lift_result q s) = q"
  "(case ok x s of (a, b) \<Rightarrow> f a b) = f s (Inr x)"
  "(case err e s of (a, b) \<Rightarrow> f a b) = f s (Inl e)"
  "(case lift_result q s of (a, b) \<Rightarrow> f a b) = f s q"
  by (auto simp: ok_run err_run lift_result_run)

lemma try_eff_run: "try_eff m s = (fst (m s), Inr (snd (m s)))"
  by (simp add: try_eff_def case_prod_beta)

lemma and_then_Inr_iff:
  "and_then m f s = (t, Inr y) \<longleftrightarrow> (\<exists>s' x. m s = (s', Inr x) \<and> f x s' = (t, Inr y))"
  by (auto simp: and_then_def split: prod.splits sum.splits)

lemma and_then_InrE:
  assumes "and_then m f s = (t, Inr y)"
  obtains s' x where "m s = (s', Inr x)" and "f x s' = (t, Inr y)"
  using assms by (auto simp: and_then_Inr_iff)

lemma and_then_Inl_iff:
  "and_then m f s = (t, Inl e) \<longleftrightarrow>
     m s = (t, Inl e) \<or> (\<exists>s' x. m s = (s', Inr x) \<and> f x s' = (t, Inl e))"
  by (auto simp: and_then_def split: prod.splits sum.splits)

section \<open>Preserved predicates\<close>

definition preserves :: "('s \<Rightarrow> bool) \<Rightarrow> ('s, 'e, 'a) eff \<Rightarrow> bool" where
  "preserves P m = (\<forall>s. P s \<longrightarrow> P (fst (m s)))"

lemma preservesI [intro?]: "(\<And>s. P s \<Longrightarrow> P (fst (m s))) \<Longrightarrow> preserves P m"
  by (simp add: preserves_def)

lemma preservesD: "preserves P m \<Longrightarrow> P s \<Longrightarrow> P (fst (m s))"
  by (simp add: preserves_def)

lemma preserves_ok [pres, intro!]: "preserves P (ok x)"
  by (simp add: preserves_def)

lemma preserves_err [pres, intro!]: "preserves P (err e)"
  by (simp add: preserves_def)

lemma preserves_lift_result [pres, intro!]: "preserves P (lift_result r)"
  by (simp add: preserves_def)

lemma preserves_and_then [pres]:
  "preserves P m \<Longrightarrow> (\<And>x. preserves P (f x)) \<Longrightarrow> preserves P (and_then m f)"
  by (force simp: preserves_def and_then_def split: prod.splits sum.splits)

lemma preserves_lift_then:
  "(\<And>x. r = Inr x \<Longrightarrow> preserves P (f x)) \<Longrightarrow> preserves P (and_then (lift_result r) f)"
  by (cases r) (auto simp: preserves_def and_then_def)

lemma preserves_try [pres]: "preserves P m \<Longrightarrow> preserves P (try_eff m)"
  by (simp add: preserves_def try_eff_run)

lemma preserves_for_each [pres]:
  "(\<And>x. x \<in> set xs \<Longrightarrow> preserves P (f x)) \<Longrightarrow> preserves P (for_each xs f)"
  by (induction xs) (auto intro: preserves_and_then)

lemma preserves_for_fold [pres]:
  "(\<And>x a. x \<in> set xs \<Longrightarrow> preserves P (f x a)) \<Longrightarrow> preserves P (for_fold xs f acc)"
  by (induction xs arbitrary: acc) (auto intro!: preserves_and_then)

lemma preserves_if [pres]:
  "(b \<Longrightarrow> preserves P m) \<Longrightarrow> (\<not> b \<Longrightarrow> preserves P n) \<Longrightarrow> preserves P (if b then m else n)"
  by simp

lemma preserves_case_option [pres]:
  "(x = None \<Longrightarrow> preserves P m) \<Longrightarrow> (\<And>y. x = Some y \<Longrightarrow> preserves P (f y)) \<Longrightarrow>
   preserves P (case x of None \<Rightarrow> m | Some y \<Rightarrow> f y)"
  by (cases x) auto

lemma preserves_case_sum [pres]:
  "(\<And>y. x = Inl y \<Longrightarrow> preserves P (f y)) \<Longrightarrow> (\<And>y. x = Inr y \<Longrightarrow> preserves P (g y)) \<Longrightarrow>
   preserves P (case x of Inl y \<Rightarrow> f y | Inr y \<Rightarrow> g y)"
  by (cases x) auto

section \<open>Triples\<close>

definition triple ::
  "('s \<Rightarrow> bool) \<Rightarrow> ('s, 'e, 'a) eff \<Rightarrow> ('a \<Rightarrow> 's \<Rightarrow> bool) \<Rightarrow> ('e \<Rightarrow> 's \<Rightarrow> bool) \<Rightarrow> bool" where
  "triple P m Q E =
     (\<forall>s. P s \<longrightarrow> (case m s of (s', Inl e) \<Rightarrow> E e s' | (s', Inr x) \<Rightarrow> Q x s'))"

lemma tripleI:
  "(\<And>s s' x. P s \<Longrightarrow> m s = (s', Inr x) \<Longrightarrow> Q x s') \<Longrightarrow>
   (\<And>s s' e. P s \<Longrightarrow> m s = (s', Inl e) \<Longrightarrow> E e s') \<Longrightarrow> triple P m Q E"
  by (auto simp: triple_def split: prod.splits sum.splits)

lemma tripleD:
  assumes "triple P m Q E" and "P s"
  shows "m s = (s', Inr x) \<Longrightarrow> Q x s'" and "m s = (s', Inl e) \<Longrightarrow> E e s'"
  using assms by (fastforce simp: triple_def split: prod.splits sum.splits)+

lemma triple_ok: "(\<And>s. P s \<Longrightarrow> Q x s) \<Longrightarrow> triple P (ok x) Q E"
  by (simp add: triple_def)

lemma triple_err: "(\<And>s. P s \<Longrightarrow> E e s) \<Longrightarrow> triple P (err e) Q E"
  by (simp add: triple_def)

lemma triple_and_then:
  assumes m: "triple P m R E" and f: "\<And>x. triple (R x) (f x) Q E"
  shows "triple P (and_then m f) Q E"
proof (rule tripleI)
  fix s s' x assume "P s" and "and_then m f s = (s', Inr x)"
  then obtain t y where "m s = (t, Inr y)" and "f y t = (s', Inr x)"
    by (auto simp: and_then_Inr_iff)
  then show "Q x s'" using tripleD(1) [OF m \<open>P s\<close>] tripleD(1) [OF f] by blast
next
  fix s s' e assume "P s" and "and_then m f s = (s', Inl e)"
  then show "E e s'"
    using tripleD [OF m \<open>P s\<close>] tripleD(2) [OF f] by (auto simp: and_then_Inl_iff)
qed

lemma triple_for_each:
  assumes "\<And>x. x \<in> set xs \<Longrightarrow> triple I (f x) (\<lambda>_. I) E"
  shows "triple I (for_each xs f) (\<lambda>_. I) E"
  using assms by (induction xs) (auto intro: triple_ok triple_and_then)

lemma triple_for_fold:
  assumes "\<And>x a. x \<in> set xs \<Longrightarrow> triple (I a) (f x a) I E"
  shows "triple (I acc) (for_fold xs f acc) I E"
  using assms by (induction xs arbitrary: acc) (auto intro: triple_ok triple_and_then)

text \<open>With the part of the list that is done as an index of the invariant.\<close>

lemma triple_for_fold_done:
  assumes "\<And>ys y zs a. xs = ys @ y # zs \<Longrightarrow> triple (I ys a) (f y a) (I (ys @ [y])) E"
  shows "triple (I [] acc) (for_fold xs f acc) (I xs) E"
proof -
  have "xs = ys @ zs \<Longrightarrow> triple (I ys acc) (for_fold zs f acc) (I xs) E" for ys zs acc
  proof (induction zs arbitrary: ys acc)
    case Nil
    then show ?case by (auto intro: triple_ok)
  next
    case (Cons z zs)
    from Cons.prems have "triple (I ys acc) (f z acc) (I (ys @ [z])) E" by (rule assms)
    moreover have "triple (I (ys @ [z]) a) (for_fold zs f a) (I xs) E" for a
      using Cons.prems by (intro Cons.IH) simp
    ultimately show ?case by (auto intro: triple_and_then)
  qed
  from this [of "[]" xs] show ?thesis by simp
qed

lemma triple_lift_result:
  "(\<And>x s. P s \<Longrightarrow> r = Inr x \<Longrightarrow> Q x s) \<Longrightarrow> (\<And>e s. P s \<Longrightarrow> r = Inl e \<Longrightarrow> E e s) \<Longrightarrow>
   triple P (lift_result r) Q E"
  by (rule tripleI) auto

lemma triple_preserves: "preserves P m \<Longrightarrow> triple P m (\<lambda>_. P) (\<lambda>_. P)"
  by (rule tripleI) (auto simp: preserves_def dest: arg_cong [of _ _ fst] split: prod.splits
      elim!: allE impE)

lemma preserves_triple: "triple P m (\<lambda>_. P) (\<lambda>_. P) \<Longrightarrow> preserves P m"
proof
  fix s assume t: "triple P m (\<lambda>_. P) (\<lambda>_. P)" and P: "P s"
  obtain s' r where m: "m s = (s', r)" by force
  show "P (fst (m s))" using tripleD [OF t P] m by (cases r) auto
qed

lemma triple_pure: "(F \<Longrightarrow> triple P m Q E) \<Longrightarrow> triple (\<lambda>s. P s \<and> F) m Q E"
  by (auto simp: triple_def)

lemma triple_conseq:
  "triple P m Q E \<Longrightarrow> (\<And>s. P' s \<Longrightarrow> P s) \<Longrightarrow> (\<And>x s. Q x s \<Longrightarrow> Q' x s) \<Longrightarrow>
   (\<And>e s. E e s \<Longrightarrow> E' e s) \<Longrightarrow> triple P' m Q' E'"
  by (force simp: triple_def split: prod.splits sum.splits)

section \<open>A computation on one part of the state\<close>

text \<open>
  \<open>zoom get put m\<close> runs \<open>m\<close> on the part of the state that \<open>get\<close> reads and \<open>put\<close> writes.
\<close>

definition zoom :: "('s \<Rightarrow> 't) \<Rightarrow> ('t \<Rightarrow> 's \<Rightarrow> 's) \<Rightarrow> ('t, 'e, 'a) eff \<Rightarrow> ('s, 'e, 'a) eff" where
  "zoom get put m = (\<lambda>s. let (t, r) = m (get s) in (put t s, r))"

lemma preserves_zoom: "(\<And>t s. P s \<Longrightarrow> P (put t s)) \<Longrightarrow> preserves P (zoom get put m)"
  by (simp add: preserves_def zoom_def case_prod_beta)

end
