(* ===== verification/Core_Types.thy ===== *)
theory Core_Types
  imports Ordered_Maps Effects
begin

text \<open>
  The typed data model of \<open>noloong-agent-core\<close> (\<open>src/error.rs\<close>, \<open>src/types/\<close>, and the
  request and scratch types of \<open>src/providers.rs\<close> and \<open>src/phase/mod.rs\<close>), with the fields and
  constructors of the code. Records carry a short prefix because HOL shares field names.
  A \<open>serde_json::Value\<close> is the datatype \<open>json\<close>: an object is an ordered map, as \<open>serde_json::Map\<close>
  is by default, and a floating-point number is kept as its text.
\<close>

section \<open>Errors\<close>

datatype agent_core_error =
    Aborted
  | EventSink string
  | InvalidEffect string
  | MissingModelProvider string
  | MissingTool string
  | PhaseError string
  | Provider string
  | HttpStatus string nat string
  | JsonRpc string
  | StoreError string
  | Io string
  | JsonError string
  | Join string

fun error_to_string :: "agent_core_error \<Rightarrow> string" where
  "error_to_string Aborted = ''run aborted''"
| "error_to_string (EventSink m) = ''event sink failed: '' @ m"
| "error_to_string (InvalidEffect m) = ''invalid effect: '' @ m"
| "error_to_string (MissingModelProvider m) = ''model provider not found: '' @ m"
| "error_to_string (MissingTool m) = ''tool not found: '' @ m"
| "error_to_string (PhaseError m) = ''phase failed: '' @ m"
| "error_to_string (Provider m) = ''provider error: '' @ m"
| "error_to_string (HttpStatus provider status body) =
     provider @ '' request failed with status '' @ show_nat status @ '': '' @ body"
| "error_to_string (JsonRpc m) = ''json-rpc error: '' @ m"
| "error_to_string (StoreError m) = ''store error: '' @ m"
| "error_to_string (Io m) = ''io error: '' @ m"
| "error_to_string (JsonError m) = ''json error: '' @ m"
| "error_to_string (Join m) = ''task join error: '' @ m"

type_synonym 'a result = "agent_core_error + 'a"

section \<open>JSON values\<close>

datatype json =
    JNull
  | JBool bool
  | JInt int
  | JFloat string
  | JString string
  | JArray "json list"
  | JObject "(string \<times> json) list"

type_synonym json_map = "json smap"

text \<open>The \<open>json!({...})\<close> macro: the fields are inserted into an ordered map.\<close>

definition json_object :: "(string \<times> json) list \<Rightarrow> json" where
  "json_object fields = JObject (bt_collect fields)"

text \<open>\<open>Value::get\<close> with a key, and \<open>Value::as_str\<close>.\<close>

fun json_get :: "json \<Rightarrow> string \<Rightarrow> json option" where
  "json_get (JObject m) k = map_of m k"
| "json_get _ k = None"

fun json_as_str :: "json \<Rightarrow> string option" where
  "json_as_str (JString s) = Some s"
| "json_as_str _ = None"

definition json_of_option :: "('a \<Rightarrow> json) \<Rightarrow> 'a option \<Rightarrow> json" where
  "json_of_option f x = (case x of None \<Rightarrow> JNull | Some y \<Rightarrow> f y)"

section \<open>Thinking and media\<close>

datatype thinking_kind = TK_Raw | TK_Summary | TK_Redacted | TK_Encrypted | TK_Custom string

record thinking_block =
  tb_kind :: thinking_kind
  tb_text :: "string option"
  tb_raw :: "json option"
  tb_replay_descriptor :: "json option"
  tb_metadata :: json_map

record thinking_delta =
  td_kind :: thinking_kind
  td_text_delta :: "string option"
  td_raw_snapshot :: "json option"
  td_replay_descriptor :: "json option"
  td_metadata :: json_map

datatype media_kind = MK_File | MK_Image | MK_Audio | MK_Video | MK_Custom string

datatype media_encoding = Base64 | ME_Custom string

datatype media_source =
    Uri string
  | Inline string media_encoding
  | ProviderSource string string

record encoded_media_data =
  emd_data :: string
  emd_encoding :: media_encoding

record media_block =
  mb_kind :: media_kind
  mb_source :: media_source
  mb_data :: "encoded_media_data option"
  mb_mime_type :: "string option"
  mb_name :: "string option"
  mb_replay_descriptor :: "json option"
  mb_metadata :: json_map

record media_delta =
  md_kind :: media_kind
  md_data_delta :: "string option"
  md_source :: "media_source option"
  md_mime_type :: "string option"
  md_name :: "string option"
  md_replay_descriptor :: "json option"
  md_metadata :: json_map
  md_done :: bool

section \<open>Tools\<close>

record tool_call =
  tc_id :: string
  tc_name :: string
  tc_arguments :: json

datatype tool_execution_mode = Sequential | Parallel

record tool_permission_requirement =
  tpr_capability :: string
  tpr_description :: "string option"
  tpr_metadata :: json

record tool_spec =
  ts_name :: string
  ts_description :: string
  ts_input_schema :: json
  ts_execution_mode :: "tool_execution_mode option"
  ts_permissions :: "tool_permission_requirement list"

datatype tool_permission_outcome = Allow | Deny

record tool_permission_decision =
  dec_outcome :: tool_permission_outcome
  dec_reason :: "string option"
  dec_approver :: "string option"
  dec_metadata :: json

record tool_permission_decision_record =
  dr_hook_id :: "string option"
  dr_decision :: tool_permission_decision

record tool_permission_audit =
  ta_tool_call :: tool_call
  ta_permissions :: "tool_permission_requirement list"
  ta_decisions :: "tool_permission_decision_record list"

record tool_approval_request_spec =
  tas_prompt :: "string option"
  tas_reason :: "string option"
  tas_expires_at_ms :: "nat option"
  tas_metadata :: json

record tool_approval_request =
  tar_approval_id :: string
  tar_tool_call :: tool_call
  tar_permissions :: "tool_permission_requirement list"
  tar_hook_id :: "string option"
  tar_request :: tool_approval_request_spec

record tool_approval_resolution =
  res_approval_id :: string
  res_decision :: tool_permission_decision

section \<open>Messages\<close>

datatype message_role = User | Assistant | ToolResultRole | System | CustomRole string

datatype content_block =
    Thinking thinking_block
  | Media media_block
  | Text string
  | Json json
  | ToolCallBlock tool_call
  | ToolResult string string "content_block list" bool
  | ProviderPayload string string json

record agent_message =
  msg_id :: string
  msg_role :: message_role
  msg_content :: "content_block list"
  msg_metadata :: json_map

record tool_update =
  tu_content :: "content_block list"
  tu_details :: json

record tool_output =
  to_content :: "content_block list"
  to_details :: json
  to_is_error :: bool
  to_updates :: "tool_update list"

section \<open>Model streams and requests\<close>

datatype stop_reason = Stop | Length | ToolUse | StopError | StopAborted

datatype model_stream_event =
    Started string
  | ThinkingDelta thinking_delta
  | TextDelta string
  | MediaDelta media_delta
  | ToolCallEvent tool_call
  | Finished stop_reason
  | Failed string

record model_request =
  mr_run_id :: string
  mr_turn_id :: nat
  mr_messages :: "agent_message list"
  mr_context :: json_map
  mr_tools :: "tool_spec list"
  mr_metadata :: json_map

datatype turn_decision = Continue | StopTurn

record phase_scratch =
  sc_input :: "agent_message option"
  sc_model_request :: "model_request option"
  sc_request_messages_override :: "agent_message list option"
  sc_model_events :: "model_stream_event list"
  sc_assistant_message :: "agent_message option"
  sc_tool_calls :: "tool_call list"
  sc_tool_outputs :: "(tool_call \<times> tool_output) list"
  sc_decision :: "turn_decision option"

definition scratch_default :: phase_scratch where
  "scratch_default =
     \<lparr>sc_input = None, sc_model_request = None, sc_request_messages_override = None,
      sc_model_events = [], sc_assistant_message = None, sc_tool_calls = [],
      sc_tool_outputs = [], sc_decision = None\<rparr>"

section \<open>Pausing for approval\<close>

datatype tool_approval_preflight_status =
    Ready
  | Denied tool_permission_decision
  | Pending string nat "string option"

record tool_approval_preflight =
  pf_tool_call :: tool_call
  pf_permission_audit :: tool_permission_audit
  pf_status :: tool_approval_preflight_status

record tool_approval_continuation =
  co_run_id :: string
  co_turn_id :: nat
  co_phase :: string
  co_scratch :: phase_scratch
  co_tool_execution_mode :: tool_execution_mode
  co_preflights :: "tool_approval_preflight list"

datatype run_pause_reason = PauseToolApproval tool_approval_continuation

datatype run_resume_reason = ResumeToolApproval "string list"

section \<open>Effects, events and the state\<close>

datatype context_patch = SetKey string json | RemoveKey string

record message_compaction =
  mc_summary_message :: agent_message
  mc_retained_message_ids :: "string list"
  mc_dropped_message_ids :: "string list"
  mc_tokens_before :: nat
  mc_tokens_after :: nat
  mc_metadata :: json_map

record message_replacement =
  mp_replacement_messages :: "agent_message list"
  mp_replaced_message_ids :: "string list"
  mp_tokens_before :: nat
  mp_tokens_after :: nat
  mp_metadata :: json_map

datatype agent_effect =
    AppendMessage agent_message
  | PatchContext context_patch
  | SetAvailableTools "tool_spec list"
  | CompactMessages message_compaction
  | ReplaceMessages message_replacement

datatype agent_event_kind =
    RunStarted
  | RunCompleted
  | RunAborted
  | RunFailed string
  | TurnStarted
  | TurnCompleted turn_decision
  | PhaseStarted string
  | PhaseCompleted string
  | PhaseFailed string string
  | EffectProposed agent_effect
  | EffectCommitted agent_effect
  | EffectRejected agent_effect string
  | ModelStreamEvent string model_stream_event
  | ToolCallResolved tool_call
  | ToolPermissionRequested tool_call "tool_permission_requirement list"
  | ToolPermissionDecided string string "string option" tool_permission_decision
  | ToolApprovalRequested tool_approval_request
  | ToolApprovalResolved string tool_permission_decision
  | ToolApprovalExpired string tool_permission_decision
  | ToolExecutionStarted string string
  | ToolExecutionUpdate string tool_update
  | ToolExecutionCompleted string tool_output
  | RunPaused run_pause_reason
  | RunResumed run_resume_reason
  | ExtensionEvent string json

record agent_event =
  ev_sequence :: nat
  ev_run_id :: string
  ev_turn_id :: "nat option"
  ev_phase :: "string option"
  ev_kind :: agent_event_kind

datatype run_status = Idle | Running | Completed | RunAbortedStatus | RunFailedStatus | Paused

record agent_state =
  st_run_id :: "string option"
  st_status :: run_status
  st_messages :: "agent_message list"
  st_context :: json_map
  st_available_tools :: "tool_spec smap"
  st_pending_tool_approvals :: "tool_approval_request smap"
  st_active_phase :: "string option"
  st_completed_turns :: nat
  st_last_error :: "string option"

definition agent_state_default :: agent_state where
  "agent_state_default =
     \<lparr>st_run_id = None, st_status = Idle, st_messages = [], st_context = [],
      st_available_tools = [], st_pending_tool_approvals = [], st_active_phase = None,
      st_completed_turns = 0, st_last_error = None\<rparr>"

text \<open>The maps of a state are ordered maps.\<close>

definition state_wf :: "agent_state \<Rightarrow> bool" where
  "state_wf st = (bt_wf (st_context st) \<and> bt_wf (st_available_tools st)
     \<and> bt_wf (st_pending_tool_approvals st))"

section \<open>Message constructors and names\<close>

definition user_message :: "string \<Rightarrow> string \<Rightarrow> agent_message" where
  "user_message i text =
     \<lparr>msg_id = i, msg_role = User, msg_content = [Text text], msg_metadata = []\<rparr>"

definition assistant_message :: "string \<Rightarrow> content_block list \<Rightarrow> agent_message" where
  "assistant_message i content =
     \<lparr>msg_id = i, msg_role = Assistant, msg_content = content, msg_metadata = []\<rparr>"

definition tool_result_message ::
  "string \<Rightarrow> string \<Rightarrow> string \<Rightarrow> tool_output \<Rightarrow> agent_message" where
  "tool_result_message i tool_call_id tool_name output =
     \<lparr>msg_id = i, msg_role = ToolResultRole,
      msg_content = [ToolResult tool_call_id tool_name (to_content output) (to_is_error output)],
      msg_metadata = []\<rparr>"

fun role_as_str :: "message_role \<Rightarrow> string" where
  "role_as_str User = ''user''"
| "role_as_str Assistant = ''assistant''"
| "role_as_str ToolResultRole = ''tool_result''"
| "role_as_str System = ''system''"
| "role_as_str (CustomRole role) = role"

text \<open>\<open>Deserialize for MessageRole\<close>, on the string read.\<close>

definition role_of_str :: "string \<Rightarrow> message_role" where
  "role_of_str s =
     (if s = ''user'' then User else if s = ''assistant'' then Assistant
      else if s = ''tool_result'' then ToolResultRole else if s = ''system'' then System
      else CustomRole s)"

fun thinking_kind_as_str :: "thinking_kind \<Rightarrow> string" where
  "thinking_kind_as_str TK_Raw = ''raw''"
| "thinking_kind_as_str TK_Summary = ''summary''"
| "thinking_kind_as_str TK_Redacted = ''redacted''"
| "thinking_kind_as_str TK_Encrypted = ''encrypted''"
| "thinking_kind_as_str (TK_Custom k) = k"

definition thinking_kind_of_str :: "string \<Rightarrow> thinking_kind" where
  "thinking_kind_of_str s =
     (if s = ''raw'' then TK_Raw else if s = ''summary'' then TK_Summary
      else if s = ''redacted'' then TK_Redacted else if s = ''encrypted'' then TK_Encrypted
      else TK_Custom s)"

fun media_kind_as_str :: "media_kind \<Rightarrow> string" where
  "media_kind_as_str MK_File = ''file''"
| "media_kind_as_str MK_Image = ''image''"
| "media_kind_as_str MK_Audio = ''audio''"
| "media_kind_as_str MK_Video = ''video''"
| "media_kind_as_str (MK_Custom k) = k"

definition media_kind_of_str :: "string \<Rightarrow> media_kind" where
  "media_kind_of_str s =
     (if s = ''file'' then MK_File else if s = ''image'' then MK_Image
      else if s = ''audio'' then MK_Audio else if s = ''video'' then MK_Video
      else MK_Custom s)"

fun media_encoding_as_str :: "media_encoding \<Rightarrow> string" where
  "media_encoding_as_str Base64 = ''base64''"
| "media_encoding_as_str (ME_Custom e) = e"

definition media_encoding_of_str :: "string \<Rightarrow> media_encoding" where
  "media_encoding_of_str s = (if s = ''base64'' then Base64 else ME_Custom s)"

end
