(* ===== verification/Reducer.thy ===== *)
theory Reducer
  imports Core_Types
begin

text \<open>
  The reducer (\<open>src/reducer.rs\<close>): the validation of effects, on their own and against the current
  state, and the application of one event to the state. \<open>&mut AgentState\<close> is returned updated; on
  an error the state the code leaves behind is the one before the event, because every check
  precedes the first write.
\<close>

section \<open>Validation\<close>

definition validate_message_id :: "string \<Rightarrow> unit result" where
  "validate_message_id i =
     (if is_blank i then Inl (InvalidEffect ''message id must not be empty'') else Inr ())"

text \<open>The loop of \<open>unique_message_ids\<close>: \<open>seen\<close> holds the ids inserted so far.\<close>

fun unique_message_ids_from :: "string \<Rightarrow> string list \<Rightarrow> string list \<Rightarrow> string list result" where
  "unique_message_ids_from label seen [] = Inr (bs_collect seen)"
| "unique_message_ids_from label seen (i # ids) =
     (case validate_message_id i of
        Inl e \<Rightarrow> Inl e
      | Inr _ \<Rightarrow>
          if i \<in> set seen
          then Inl (InvalidEffect (''duplicate '' @ label @ '' compaction message id: '' @ i))
          else unique_message_ids_from label (i # seen) ids)"

definition unique_message_ids :: "string list \<Rightarrow> string \<Rightarrow> string list result" where
  "unique_message_ids ids label = unique_message_ids_from label [] ids"

definition validate_message_compaction :: "message_compaction \<Rightarrow> unit result" where
  "validate_message_compaction c =
     (case validate_message_id (msg_id (mc_summary_message c)) of
        Inl e \<Rightarrow> Inl e
      | Inr _ \<Rightarrow>
     if msg_role (mc_summary_message c) \<noteq> System
     then Inl (InvalidEffect ''compaction summary message must use system role'')
     else (case unique_message_ids (mc_retained_message_ids c) ''retained'' of
        Inl e \<Rightarrow> Inl e
      | Inr retained \<Rightarrow>
     (case unique_message_ids (mc_dropped_message_ids c) ''dropped'' of
        Inl e \<Rightarrow> Inl e
      | Inr dropped \<Rightarrow>
     if set retained \<inter> set dropped \<noteq> {}
     then Inl (InvalidEffect ''compaction retained and dropped message ids must not overlap'')
     else if msg_id (mc_summary_message c) \<in> set retained
        \<or> msg_id (mc_summary_message c) \<in> set dropped
     then Inl (InvalidEffect ''compaction summary message id must be new'')
     else Inr ())))"

text \<open>The loop over \<open>retained_ids.union(&dropped_ids)\<close> visits the ids in ascending order.\<close>

definition validate_message_compaction_for_state ::
  "agent_state \<Rightarrow> message_compaction \<Rightarrow> unit result" where
  "validate_message_compaction_for_state st c =
     (let existing_ids = bs_collect (map msg_id (st_messages st));
          covered_ids = bs_union (mc_retained_message_ids c) (mc_dropped_message_ids c)
      in case find (\<lambda>i. i \<notin> set existing_ids) covered_ids of
           Some i \<Rightarrow> Inl (InvalidEffect (''compaction references unknown message id: '' @ i))
         | None \<Rightarrow>
             if msg_id (mc_summary_message c) \<in> set existing_ids
             then Inl (InvalidEffect ''compaction summary message id must not already exist'')
             else if covered_ids \<noteq> existing_ids
             then Inl (InvalidEffect
               ''compaction retained and dropped message ids must cover current messages'')
             else Inr ())"

fun validate_replacement_ids :: "string list \<Rightarrow> agent_message list \<Rightarrow> unit result" where
  "validate_replacement_ids seen [] = Inr ()"
| "validate_replacement_ids seen (m # ms) =
     (case validate_message_id (msg_id m) of
        Inl e \<Rightarrow> Inl e
      | Inr _ \<Rightarrow>
          if msg_id m \<in> set seen
          then Inl (InvalidEffect (''duplicate replacement message id: '' @ msg_id m))
          else validate_replacement_ids (msg_id m # seen) ms)"

definition validate_message_replacement :: "message_replacement \<Rightarrow> unit result" where
  "validate_message_replacement r =
     (if mp_replacement_messages r = []
      then Inl (InvalidEffect ''replacement messages must not be empty'')
      else case validate_replacement_ids [] (mp_replacement_messages r) of
        Inl e \<Rightarrow> Inl e
      | Inr _ \<Rightarrow>
          (case unique_message_ids (mp_replaced_message_ids r) ''replaced'' of
             Inl e \<Rightarrow> Inl e
           | Inr _ \<Rightarrow> Inr ()))"

definition validate_message_replacement_for_state ::
  "agent_state \<Rightarrow> message_replacement \<Rightarrow> unit result" where
  "validate_message_replacement_for_state st r =
     (if bs_collect (mp_replaced_message_ids r) \<noteq> bs_collect (map msg_id (st_messages st))
      then Inl (InvalidEffect ''replacement message ids must cover current messages'')
      else Inr ())"

fun validate_tool_names :: "string list \<Rightarrow> tool_spec list \<Rightarrow> unit result" where
  "validate_tool_names names [] = Inr ()"
| "validate_tool_names names (t # ts) =
     (if is_blank (ts_name t) then Inl (InvalidEffect ''tool name must not be empty'')
      else if ts_name t \<in> set names
      then Inl (InvalidEffect (''duplicate tool name: '' @ ts_name t))
      else validate_tool_names (ts_name t # names) ts)"

definition validate_context_key :: "string \<Rightarrow> unit result" where
  "validate_context_key key =
     (if is_blank key then Inl (InvalidEffect ''context patch key must not be empty'') else Inr ())"

fun validate_effect :: "agent_effect \<Rightarrow> unit result" where
  "validate_effect (AppendMessage m) = validate_message_id (msg_id m)"
| "validate_effect (PatchContext (SetKey key v)) = validate_context_key key"
| "validate_effect (PatchContext (RemoveKey key)) = validate_context_key key"
| "validate_effect (CompactMessages c) = validate_message_compaction c"
| "validate_effect (ReplaceMessages r) = validate_message_replacement r"
| "validate_effect (SetAvailableTools tools) = validate_tool_names [] tools"

definition validate_effect_for_state :: "agent_state \<Rightarrow> agent_effect \<Rightarrow> unit result" where
  "validate_effect_for_state st e =
     (case validate_effect e of
        Inl x \<Rightarrow> Inl x
      | Inr _ \<Rightarrow>
          (case e of
             CompactMessages c \<Rightarrow> validate_message_compaction_for_state st c
           | ReplaceMessages r \<Rightarrow> validate_message_replacement_for_state st r
           | _ \<Rightarrow> Inr ()))"

section \<open>Application\<close>

text \<open>\<open>compacted_messages\<close> of \<open>src/compaction.rs\<close>.\<close>

definition compacted_messages :: "agent_message \<Rightarrow> agent_message list \<Rightarrow> agent_message list" where
  "compacted_messages summary retained = summary # retained"

fun apply_valid_effect :: "agent_state \<Rightarrow> agent_effect \<Rightarrow> agent_state" where
  "apply_valid_effect st (AppendMessage m) = st\<lparr>st_messages := st_messages st @ [m]\<rparr>"
| "apply_valid_effect st (PatchContext (SetKey key v)) =
     st\<lparr>st_context := bt_insert key v (st_context st)\<rparr>"
| "apply_valid_effect st (PatchContext (RemoveKey key)) =
     st\<lparr>st_context := bt_remove key (st_context st)\<rparr>"
| "apply_valid_effect st (SetAvailableTools tools) =
     st\<lparr>st_available_tools := bt_collect (map (\<lambda>t. (ts_name t, t)) tools)\<rparr>"
| "apply_valid_effect st (CompactMessages c) =
     st\<lparr>st_messages := compacted_messages (mc_summary_message c)
          (filter (\<lambda>m. msg_id m \<in> set (mc_retained_message_ids c)) (st_messages st))\<rparr>"
| "apply_valid_effect st (ReplaceMessages r) = st\<lparr>st_messages := mp_replacement_messages r\<rparr>"

definition apply_effect :: "agent_state \<Rightarrow> agent_effect \<Rightarrow> agent_state result" where
  "apply_effect st e =
     (case validate_effect_for_state st e of
        Inl x \<Rightarrow> Inl x
      | Inr _ \<Rightarrow> Inr (apply_valid_effect st e))"

fun apply_event :: "agent_state \<Rightarrow> agent_event \<Rightarrow> agent_state result" where
  "apply_event st ev =
     (case ev_kind ev of
        RunStarted \<Rightarrow>
          Inr (st\<lparr>st_run_id := Some (ev_run_id ev), st_status := Running, st_last_error := None\<rparr>)
      | RunCompleted \<Rightarrow>
          Inr (st\<lparr>st_status := Completed, st_active_phase := None, st_pending_tool_approvals := []\<rparr>)
      | RunAborted \<Rightarrow>
          Inr (st\<lparr>st_status := RunAbortedStatus, st_active_phase := None,
                  st_pending_tool_approvals := []\<rparr>)
      | RunFailed error \<Rightarrow>
          Inr (st\<lparr>st_status := RunFailedStatus, st_last_error := Some error,
                  st_active_phase := None, st_pending_tool_approvals := []\<rparr>)
      | RunPaused reason \<Rightarrow>
          (case reason of PauseToolApproval continuation \<Rightarrow>
             Inr (st\<lparr>st_status := Paused, st_active_phase := Some (co_phase continuation)\<rparr>))
      | RunResumed _ \<Rightarrow> Inr (st\<lparr>st_status := Running, st_last_error := None\<rparr>)
      | TurnCompleted _ \<Rightarrow> Inr (st\<lparr>st_completed_turns := st_completed_turns st + 1\<rparr>)
      | PhaseStarted phase \<Rightarrow> Inr (st\<lparr>st_active_phase := Some phase\<rparr>)
      | PhaseCompleted phase \<Rightarrow>
          Inr (if st_active_phase st = Some phase then st\<lparr>st_active_phase := None\<rparr> else st)
      | PhaseFailed _ error \<Rightarrow>
          Inr (st\<lparr>st_status := RunFailedStatus, st_last_error := Some error,
                  st_active_phase := None\<rparr>)
      | EffectCommitted effect \<Rightarrow> apply_effect st effect
      | ToolApprovalRequested approval \<Rightarrow>
          Inr (st\<lparr>st_pending_tool_approvals :=
                 bt_insert (tar_approval_id approval) approval (st_pending_tool_approvals st)\<rparr>)
      | ToolApprovalResolved approval_id _ \<Rightarrow>
          Inr (st\<lparr>st_pending_tool_approvals :=
                 bt_remove approval_id (st_pending_tool_approvals st)\<rparr>)
      | ToolApprovalExpired approval_id _ \<Rightarrow>
          Inr (st\<lparr>st_pending_tool_approvals :=
                 bt_remove approval_id (st_pending_tool_approvals st)\<rparr>)
      | _ \<Rightarrow> Inr st)"

declare apply_event.simps [simp del]

text \<open>The loop of \<open>reduce_events\<close>, from any state.\<close>

fun reduce_events_from :: "agent_state \<Rightarrow> agent_event list \<Rightarrow> agent_state result" where
  "reduce_events_from st [] = Inr st"
| "reduce_events_from st (ev # evs) =
     (case apply_event st ev of Inl e \<Rightarrow> Inl e | Inr st' \<Rightarrow> reduce_events_from st' evs)"

definition reduce_events :: "agent_event list \<Rightarrow> agent_state result" where
  "reduce_events evs = reduce_events_from agent_state_default evs"

section \<open>What validation guarantees\<close>

lemma validate_message_id_ok [simp]: "validate_message_id i = Inr u \<longleftrightarrow> \<not> is_blank i"
  by (simp add: validate_message_id_def)

lemma unique_message_ids_from_ok:
  "unique_message_ids_from label seen ids = Inr u \<longleftrightarrow>
     distinct ids \<and> set ids \<inter> set seen = {} \<and> (\<forall>i \<in> set ids. \<not> is_blank i)
     \<and> u = bs_collect (rev ids @ seen)"
  by (induction ids arbitrary: seen) (auto split: sum.splits simp: validate_message_id_def)

lemma unique_message_ids_ok:
  "unique_message_ids ids label = Inr u \<longleftrightarrow>
     distinct ids \<and> (\<forall>i \<in> set ids. \<not> is_blank i) \<and> u = bs_collect ids"
proof -
  have "bs_collect (rev ids) = bs_collect ids" by (simp add: bs_collect_eq_iff)
  then show ?thesis by (simp add: unique_message_ids_def unique_message_ids_from_ok)
qed

lemma unique_message_ids_InlD:
  "unique_message_ids ids label = Inl e \<Longrightarrow> \<not> (distinct ids \<and> (\<forall>i \<in> set ids. \<not> is_blank i))"
  using unique_message_ids_ok [of ids label "bs_collect ids"] by auto

lemma validate_message_compaction_ok:
  "validate_message_compaction c = Inr u \<longleftrightarrow>
     \<not> is_blank (msg_id (mc_summary_message c)) \<and> msg_role (mc_summary_message c) = System
     \<and> distinct (mc_retained_message_ids c) \<and> distinct (mc_dropped_message_ids c)
     \<and> (\<forall>i \<in> set (mc_retained_message_ids c) \<union> set (mc_dropped_message_ids c). \<not> is_blank i)
     \<and> set (mc_retained_message_ids c) \<inter> set (mc_dropped_message_ids c) = {}
     \<and> msg_id (mc_summary_message c)
         \<notin> set (mc_retained_message_ids c) \<union> set (mc_dropped_message_ids c)"
proof (cases "unique_message_ids (mc_retained_message_ids c) ''retained''")
  case (Inl e)
  with unique_message_ids_InlD [OF Inl] show ?thesis
    by (auto simp: validate_message_compaction_def split: sum.splits if_splits)
next
  case (Inr retained)
  note R = Inr
  show ?thesis
  proof (cases "unique_message_ids (mc_dropped_message_ids c) ''dropped''")
    case (Inl e)
    with unique_message_ids_InlD [OF Inl] R show ?thesis
      by (auto simp: validate_message_compaction_def split: sum.splits if_splits)
  next
    case (Inr dropped)
    from R Inr have *: "distinct (mc_retained_message_ids c)" "distinct (mc_dropped_message_ids c)"
      "\<forall>i \<in> set (mc_retained_message_ids c) \<union> set (mc_dropped_message_ids c). \<not> is_blank i"
      "set retained = set (mc_retained_message_ids c)" "set dropped = set (mc_dropped_message_ids c)"
      by (auto simp: unique_message_ids_ok)
    have "validate_message_compaction c = Inr u \<longleftrightarrow>
       \<not> is_blank (msg_id (mc_summary_message c)) \<and> msg_role (mc_summary_message c) = System
       \<and> set retained \<inter> set dropped = {}
       \<and> msg_id (mc_summary_message c) \<notin> set retained \<union> set dropped"
      by (simp add: validate_message_compaction_def validate_message_id_def R Inr)
    then show ?thesis unfolding *(4,5) using *(1,2,3) by blast
  qed
qed

lemma validate_message_compaction_for_state_ok:
  "validate_message_compaction_for_state st c = Inr u \<longleftrightarrow>
     set (mc_retained_message_ids c) \<union> set (mc_dropped_message_ids c) = msg_id ` set (st_messages st)
     \<and> msg_id (mc_summary_message c) \<notin> msg_id ` set (st_messages st)"
proof (cases "find (\<lambda>i. i \<notin> msg_id ` set (st_messages st))
    (bs_union (mc_retained_message_ids c) (mc_dropped_message_ids c))")
  case None
  then show ?thesis
    unfolding validate_message_compaction_for_state_def Let_def
    by (auto simp: bs_union_def bs_collect_eq_iff)
next
  case (Some i)
  then have "i \<in> set (mc_retained_message_ids c) \<union> set (mc_dropped_message_ids c)"
    and "i \<notin> msg_id ` set (st_messages st)"
    using find_SomeD [OF Some] by simp_all
  with Some show ?thesis
    unfolding validate_message_compaction_for_state_def Let_def by auto
qed

lemma apply_effect_ok_iff:
  "apply_effect st e = Inr st' \<longleftrightarrow>
     validate_effect_for_state st e = Inr () \<and> st' = apply_valid_effect st e"
  by (auto simp: apply_effect_def split: sum.splits)

lemma validate_effect_for_state_effect:
  "validate_effect_for_state st e = Inr u \<Longrightarrow> validate_effect e = Inr ()"
  by (simp add: validate_effect_for_state_def split: sum.splits)

section \<open>Events and the state\<close>

text \<open>Only a committed effect can be refused by the reducer.\<close>

lemma apply_event_Inl:
  assumes "apply_event st ev = Inl e"
  obtains effect where "ev_kind ev = EffectCommitted effect"
    and "validate_effect_for_state st effect = Inl e"
  using assms
  by (auto simp: apply_event.simps apply_effect_def
      split: agent_event_kind.splits run_pause_reason.splits sum.splits if_splits)

lemma apply_event_not_effect:
  "(\<And>effect. ev_kind ev \<noteq> EffectCommitted effect) \<Longrightarrow> \<exists>st'. apply_event st ev = Inr st'"
  by (cases "apply_event st ev") (auto elim: apply_event_Inl)

text \<open>Only a committed effect changes messages, context or tools.\<close>

lemma apply_event_frame:
  assumes "apply_event st ev = Inr st'" and "\<And>effect. ev_kind ev \<noteq> EffectCommitted effect"
  shows "st_messages st' = st_messages st" and "st_context st' = st_context st"
    and "st_available_tools st' = st_available_tools st"
  using assms
  by (auto simp: apply_event.simps split: agent_event_kind.splits run_pause_reason.splits if_splits)

lemma apply_valid_effect_wf: "state_wf st \<Longrightarrow> state_wf (apply_valid_effect st e)"
  by (induction st e rule: apply_valid_effect.induct) (auto simp: state_wf_def bt_simps)

lemma apply_event_wf:
  assumes "state_wf st" and "apply_event st ev = Inr st'"
  shows "state_wf st'"
proof (cases "\<exists>effect. ev_kind ev = EffectCommitted effect")
  case True
  with assms show ?thesis
    by (auto simp: apply_event.simps apply_effect_ok_iff intro: apply_valid_effect_wf)
next
  case False
  with assms show ?thesis
    by (auto simp: apply_event.simps state_wf_def bt_simps
        split: agent_event_kind.splits run_pause_reason.splits if_splits)
qed

lemma state_wf_default [simp]: "state_wf agent_state_default"
  by (simp add: state_wf_def agent_state_default_def)

lemma reduce_events_from_append:
  "reduce_events_from st (xs @ ys) =
     (case reduce_events_from st xs of Inl e \<Rightarrow> Inl e | Inr st' \<Rightarrow> reduce_events_from st' ys)"
  by (induction xs arbitrary: st) (auto split: sum.splits)

lemma reduce_events_from_snoc:
  "reduce_events_from st xs = Inr st' \<Longrightarrow>
   reduce_events_from st (xs @ [ev]) = apply_event st' ev"
  by (simp add: reduce_events_from_append split: sum.splits)

lemma reduce_events_from_wf:
  "state_wf st \<Longrightarrow> reduce_events_from st evs = Inr st' \<Longrightarrow> state_wf st'"
  by (induction evs arbitrary: st) (auto split: sum.splits dest: apply_event_wf)

end
