(* ===== verification/Compaction.thy ===== *)
theory Compaction
  imports Reducer
begin

text \<open>
  Context compaction planning (\<open>src/compaction.rs\<close>): the configuration, the heuristic token
  estimator, the choice of the cut point and the plan, and the text given to a summarizer.
  Token counts are \<open>nat\<close>: the sums of a conversation stay far below \<open>2^64\<close>. A slice
  \<open>xs[a..b]\<close> panics unless \<open>a \<le> b \<le> len\<close>; \<open>plan_compaction_slices\<close> proves that for every slice
  the planner takes. JSON rendering (\<open>Value::to_string\<close>) and the \<open>f64\<close> trigger ratio are
  parameters: the ratio is seen through the two questions the code asks of it.
\<close>

section \<open>Configuration\<close>

datatype context_compaction_mode = PersistentState | RequestOnly

text \<open>
  \<open>ratio_valid\<close> is \<open>is_finite() && 0.0 < r && r <= 1.0\<close>; \<open>ratio_threshold n\<close> is
  \<open>(n as f64 * r).floor() as u64\<close>.
\<close>

datatype f64_ratio = F64Ratio (ratio_valid: bool) (ratio_threshold: "nat \<Rightarrow> nat")

record context_compaction_config =
  cfg_input_limit_tokens :: nat
  cfg_trigger_ratio :: f64_ratio
  cfg_summary_budget_tokens :: nat
  cfg_keep_recent_tokens :: nat
  cfg_mode :: context_compaction_mode
  cfg_metadata :: json_map

definition compaction_config_validate :: "context_compaction_config \<Rightarrow> unit result" where
  "compaction_config_validate cfg =
     (if cfg_input_limit_tokens cfg = 0
      then Inl (InvalidEffect ''compaction input limit must be greater than zero'')
      else if \<not> ratio_valid (cfg_trigger_ratio cfg)
      then Inl (InvalidEffect ''compaction trigger ratio must be greater than zero and at most one'')
      else if cfg_summary_budget_tokens cfg = 0
      then Inl (InvalidEffect ''compaction summary budget must be greater than zero'')
      else if cfg_keep_recent_tokens cfg = 0
      then Inl (InvalidEffect ''compaction keep recent tokens must be greater than zero'')
      else Inr ())"

definition trigger_threshold :: "context_compaction_config \<Rightarrow> nat" where
  "trigger_threshold cfg = ratio_threshold (cfg_trigger_ratio cfg) (cfg_input_limit_tokens cfg)"

section \<open>Token estimation\<close>

definition MEDIA_TOKEN_ESTIMATE :: nat where
  "MEDIA_TOKEN_ESTIMATE = 1200"

fun estimate_block_chars :: "(json \<Rightarrow> string) \<Rightarrow> content_block \<Rightarrow> nat" where
  "estimate_block_chars js (Text text) = length text"
| "estimate_block_chars js (Json v) = length (js v)"
| "estimate_block_chars js (Thinking t) =
     (case tb_text t of None \<Rightarrow> 0 | Some s \<Rightarrow> length s)
     + (case tb_raw t of None \<Rightarrow> 0 | Some v \<Rightarrow> length (js v))
     + (case tb_replay_descriptor t of None \<Rightarrow> 0 | Some v \<Rightarrow> length (js v))"
| "estimate_block_chars js (Media m) =
     (case mb_source m of Inline d _ \<Rightarrow> length d | _ \<Rightarrow> MEDIA_TOKEN_ESTIMATE * 4)"
| "estimate_block_chars js (ToolCallBlock c) = length (tc_name c) + length (js (tc_arguments c))"
| "estimate_block_chars js (ToolResult i n content e) =
     sum_list (map (estimate_block_chars js) content)"
| "estimate_block_chars js (ProviderPayload p k v) = length p + length k + length (js v)"

definition estimate_content_chars :: "(json \<Rightarrow> string) \<Rightarrow> content_block list \<Rightarrow> nat" where
  "estimate_content_chars js content = sum_list (map (estimate_block_chars js) content)"

text \<open>\<open>chars.div_ceil(4).max(1)\<close>.\<close>

definition estimate_chars_as_tokens :: "nat \<Rightarrow> nat" where
  "estimate_chars_as_tokens chars = max ((chars + 3) div 4) 1"

definition heuristic_estimate_message_tokens :: "(json \<Rightarrow> string) \<Rightarrow> agent_message \<Rightarrow> nat" where
  "heuristic_estimate_message_tokens js m =
     estimate_chars_as_tokens
       (length (role_as_str (msg_role m)) + estimate_content_chars js (msg_content m))"

definition estimate_messages_tokens :: "(agent_message \<Rightarrow> nat) \<Rightarrow> agent_message list \<Rightarrow> nat" where
  "estimate_messages_tokens estimate ms = sum_list (map estimate ms)"

section \<open>The cut point\<close>

definition COMPACTION_METADATA_KEY :: string where
  "COMPACTION_METADATA_KEY = ''noloong.compaction''"

definition is_compaction_summary :: "agent_message \<Rightarrow> bool" where
  "is_compaction_summary m =
     (msg_role m = System \<and> bt_contains_key (msg_metadata m) COMPACTION_METADATA_KEY)"

text \<open>\<open>rposition\<close>: the last index where the predicate holds.\<close>

definition find_previous_compaction_summary :: "agent_message list \<Rightarrow> nat option" where
  "find_previous_compaction_summary ms =
     find (\<lambda>i. is_compaction_summary (ms ! i)) (rev [0..<length ms])"

definition message_visible_text :: "agent_message \<Rightarrow> string option" where
  "message_visible_text m =
     (let text = join_with [CHR 0x0A] (List.map_filter
            (\<lambda>b. case b of Text t \<Rightarrow> Some t | _ \<Rightarrow> None) (msg_content m))
      in if is_blank text then None else Some text)"

definition is_valid_cut_role :: "message_role \<Rightarrow> bool" where
  "is_valid_cut_role r = (r = User \<or> r = Assistant)"

record cut_point =
  cut_first_kept_index :: nat
  cut_turn_start_index :: nat
  cut_is_split_turn :: bool

text \<open>The loop over \<open>(start_index..end_index).rev()\<close> that accumulates recent tokens.\<close>

fun find_target_index :: "nat list \<Rightarrow> nat \<Rightarrow> nat \<Rightarrow> nat list \<Rightarrow> nat option" where
  "find_target_index estimates keep acc [] = None"
| "find_target_index estimates keep acc (i # is) =
     (let acc' = acc + estimates ! i
      in if keep \<le> acc' then Some i else find_target_index estimates keep acc' is)"

definition find_turn_start :: "agent_message list \<Rightarrow> nat \<Rightarrow> nat \<Rightarrow> nat option" where
  "find_turn_start ms entry_index start_index =
     find (\<lambda>i. msg_role (ms ! i) = User) (rev [start_index..<Suc entry_index])"

text \<open>\<open>cut_index\<close> of \<open>find_cut_point\<close>, given \<open>first_valid_cut\<close>.\<close>

definition choose_cut_index ::
  "agent_message list \<Rightarrow> nat list \<Rightarrow> nat \<Rightarrow> nat \<Rightarrow> nat \<Rightarrow> nat \<Rightarrow> nat" where
  "choose_cut_index ms estimates start_index end_index keep first_valid_cut =
     (let valid = (\<lambda>i. is_valid_cut_role (msg_role (ms ! i)))
      in case find_target_index estimates keep 0 (rev [start_index..<end_index]) of
           None \<Rightarrow> first_valid_cut
         | Some target \<Rightarrow>
             (case find valid [target..<end_index] of
                Some c \<Rightarrow> c
              | None \<Rightarrow>
                  (case find valid (rev [start_index..<Suc target]) of
                     Some c \<Rightarrow> c
                   | None \<Rightarrow> first_valid_cut)))"

definition find_cut_point ::
  "agent_message list \<Rightarrow> nat list \<Rightarrow> nat \<Rightarrow> nat \<Rightarrow> nat \<Rightarrow> cut_point option" where
  "find_cut_point ms estimates start_index end_index keep =
     (case find (\<lambda>i. is_valid_cut_role (msg_role (ms ! i))) [start_index..<end_index] of
        None \<Rightarrow> None
      | Some first_valid_cut \<Rightarrow>
          (let cut_index =
                 choose_cut_index ms estimates start_index end_index keep first_valid_cut;
               is_user = (msg_role (ms ! cut_index) = User)
           in case (if is_user then Some cut_index else find_turn_start ms cut_index start_index) of
                None \<Rightarrow> None
              | Some turn_start \<Rightarrow>
                  Some \<lparr>cut_first_kept_index = cut_index, cut_turn_start_index = turn_start,
                        cut_is_split_turn = (\<not> is_user)\<rparr>))"

section \<open>The plan\<close>

record compaction_plan =
  pl_previous_summary :: "string option"
  pl_messages_to_summarize :: "agent_message list"
  pl_turn_prefix_messages :: "agent_message list"
  pl_retained_messages :: "agent_message list"
  pl_tokens_before :: nat
  pl_estimated_retained_tokens :: nat
  pl_is_split_turn :: bool
  pl_retained_message_ids :: "string list"
  pl_dropped_message_ids :: "string list"

datatype compaction_decision = Skip nat | Compact compaction_plan

definition slice :: "nat \<Rightarrow> nat \<Rightarrow> 'a list \<Rightarrow> 'a list" where
  "slice a b xs = take (b - a) (drop a xs)"

text \<open>The first message the planner may cut at: the one after the last summary.\<close>

definition boundary_start :: "agent_message list \<Rightarrow> nat" where
  "boundary_start ms =
     (case find_previous_compaction_summary ms of None \<Rightarrow> 0 | Some i \<Rightarrow> i + 1)"

definition previous_summary_text :: "agent_message list \<Rightarrow> string option" where
  "previous_summary_text ms =
     (case find_previous_compaction_summary ms of
        None \<Rightarrow> None | Some i \<Rightarrow> message_visible_text (ms ! i))"

definition history_end :: "cut_point \<Rightarrow> nat" where
  "history_end cp =
     (if cut_is_split_turn cp then cut_turn_start_index cp else cut_first_kept_index cp)"

definition plan_compaction ::
  "context_compaction_config \<Rightarrow> (agent_message \<Rightarrow> nat) \<Rightarrow> agent_message list
     \<Rightarrow> compaction_decision result" where
  "plan_compaction cfg estimate ms =
     (case compaction_config_validate cfg of Inl e \<Rightarrow> Inl e | Inr _ \<Rightarrow>
      if ms = [] then Inr (Skip 0) else
      let estimates = map estimate ms;
          tokens_before = sum_list estimates
      in if tokens_before < trigger_threshold cfg then Inr (Skip tokens_before) else
      let start = boundary_start ms in
      if length ms \<le> start then Inr (Skip tokens_before) else
      case find_cut_point ms estimates start (length ms) (cfg_keep_recent_tokens cfg) of
        None \<Rightarrow> Inr (Skip tokens_before)
      | Some cp \<Rightarrow>
          if cut_first_kept_index cp = 0 then Inr (Skip tokens_before) else
          let to_summarize =
                filter (\<lambda>m. \<not> is_compaction_summary m) (slice start (history_end cp) ms);
              turn_prefix =
                (if cut_is_split_turn cp
                 then slice (cut_turn_start_index cp) (cut_first_kept_index cp) ms else []);
              retained = drop (cut_first_kept_index cp) ms
          in if to_summarize = [] \<and> turn_prefix = [] \<and> previous_summary_text ms = None
             then Inr (Skip tokens_before)
             else Inr (Compact
               \<lparr>pl_previous_summary = previous_summary_text ms,
                pl_messages_to_summarize = to_summarize,
                pl_turn_prefix_messages = turn_prefix,
                pl_retained_messages = retained,
                pl_tokens_before = tokens_before,
                pl_estimated_retained_tokens =
                  sum_list (drop (cut_first_kept_index cp) estimates),
                pl_is_split_turn = cut_is_split_turn cp,
                pl_retained_message_ids = map msg_id retained,
                pl_dropped_message_ids = map msg_id (take (cut_first_kept_index cp) ms)\<rparr>))"

definition compaction_summary_message ::
  "string \<Rightarrow> nat \<Rightarrow> string \<Rightarrow> json_map \<Rightarrow> agent_message" where
  "compaction_summary_message run_id turn_id summary metadata =
     \<lparr>msg_id = ''compaction-summary-'' @ run_id @ ''-'' @ show_nat turn_id,
      msg_role = System,
      msg_content = [Text summary],
      msg_metadata = bt_insert COMPACTION_METADATA_KEY
        (json_object [(''runId'', JString run_id), (''turnId'', JInt (int turn_id))]) metadata\<rparr>"

section \<open>The cut point lies between two messages of the conversation\<close>

lemma find_target_index_mem:
  "find_target_index estimates keep acc is = Some i \<Longrightarrow> i \<in> set is"
  by (induction estimates keep acc "is" rule: find_target_index.induct)
    (auto simp: Let_def split: if_splits)

lemma choose_cut_index_range:
  fixes estimates :: "nat list" and keep :: nat
  assumes "find (\<lambda>i. is_valid_cut_role (msg_role (ms ! i))) [a..<b] = Some first"
  defines "c \<equiv> choose_cut_index ms estimates a b keep first"
  shows "a \<le> c \<and> c < b \<and> is_valid_cut_role (msg_role (ms ! c))"
proof -
  let ?valid = "\<lambda>i. is_valid_cut_role (msg_role (ms ! i))"
  have first: "a \<le> first \<and> first < b \<and> ?valid first"
    using assms(1) by (auto dest!: find_SomeD)
  show ?thesis
  proof (cases "find_target_index estimates keep 0 (rev [a..<b])")
    case None
    with first show ?thesis by (simp add: c_def choose_cut_index_def)
  next
    case (Some target)
    then have target: "a \<le> target" "target < b" by (auto dest: find_target_index_mem)
    show ?thesis
    proof (cases "find ?valid [target..<b]")
      case (Some c')
      with \<open>find_target_index _ _ _ _ = Some target\<close> have "c = c'"
        by (simp add: c_def choose_cut_index_def)
      with find_SomeD [OF Some] target show ?thesis by auto
    next
      case None
      show ?thesis
      proof (cases "find ?valid (rev [a..<Suc target])")
        case (Some c')
        with None \<open>find_target_index _ _ _ _ = Some target\<close> have "c = c'"
          by (simp add: c_def choose_cut_index_def del: upt_Suc)
        with find_SomeD [OF Some] target show ?thesis by auto
      next
        assume none: "find ?valid (rev [a..<Suc target]) = None"
        with None \<open>find_target_index _ _ _ _ = Some target\<close> have "c = first"
          by (simp add: c_def choose_cut_index_def del: upt_Suc)
        with first show ?thesis by simp
      qed
    qed
  qed
qed

lemma find_cut_point_range:
  assumes "find_cut_point ms estimates a b keep = Some cp"
  shows "a \<le> cut_turn_start_index cp"
    and "cut_turn_start_index cp \<le> cut_first_kept_index cp"
    and "cut_first_kept_index cp < b"
    and "is_valid_cut_role (msg_role (ms ! cut_first_kept_index cp))"
    and "msg_role (ms ! cut_turn_start_index cp) = User"
    and "cut_is_split_turn cp \<longleftrightarrow> msg_role (ms ! cut_first_kept_index cp) \<noteq> User"
    and "\<not> cut_is_split_turn cp \<Longrightarrow> cut_turn_start_index cp = cut_first_kept_index cp"
proof -
  from assms obtain first c t where
    first: "find (\<lambda>i. is_valid_cut_role (msg_role (ms ! i))) [a..<b] = Some first"
    and c: "c = choose_cut_index ms estimates a b keep first"
    and t: "(if msg_role (ms ! c) = User then Some c else find_turn_start ms c a) = Some t"
    and cp: "cp = \<lparr>cut_first_kept_index = c, cut_turn_start_index = t,
      cut_is_split_turn = (msg_role (ms ! c) \<noteq> User)\<rparr>"
    by (auto simp: find_cut_point_def Let_def split: option.splits)
  note range = choose_cut_index_range [OF first, of estimates keep, folded c]
  have "a \<le> t \<and> t \<le> c \<and> msg_role (ms ! t) = User"
  proof (cases "msg_role (ms ! c) = User")
    case True
    with t range show ?thesis by simp
  next
    case False
    with t have "find (\<lambda>i. msg_role (ms ! i) = User) (rev [a..<Suc c]) = Some t"
      by (simp add: find_turn_start_def del: upt_Suc)
    from find_SomeD [OF this] show ?thesis by auto
  qed
  with range cp t show "a \<le> cut_turn_start_index cp"
    and "cut_turn_start_index cp \<le> cut_first_kept_index cp"
    and "cut_first_kept_index cp < b"
    and "is_valid_cut_role (msg_role (ms ! cut_first_kept_index cp))"
    and "msg_role (ms ! cut_turn_start_index cp) = User"
    and "cut_is_split_turn cp \<longleftrightarrow> msg_role (ms ! cut_first_kept_index cp) \<noteq> User"
    and "\<not> cut_is_split_turn cp \<Longrightarrow> cut_turn_start_index cp = cut_first_kept_index cp"
    by simp_all
qed

text \<open>No message from the boundary on is a summary.\<close>

lemma find_rev_None_after:
  assumes "find P (rev [0..<n]) = r" and "(case r of None \<Rightarrow> 0 | Some i \<Rightarrow> i + 1) \<le> j" and "j < n"
  shows "\<not> P j"
  using assms
proof (induction n arbitrary: r)
  case 0
  then show ?case by simp
next
  case (Suc n)
  show ?case
  proof (cases "P n")
    case True
    with Suc.prems show ?thesis by auto
  next
    case False
    with Suc show ?thesis by (cases "j = n") (auto simp: less_Suc_eq)
  qed
qed

lemma boundary_start_no_summary:
  "boundary_start ms \<le> j \<Longrightarrow> j < length ms \<Longrightarrow> \<not> is_compaction_summary (ms ! j)"
  unfolding boundary_start_def find_previous_compaction_summary_def
  by (rule find_rev_None_after [OF refl])

text \<open>What a plan is made of.\<close>

lemma plan_compactionE:
  assumes "plan_compaction cfg estimate ms = Inr (Compact p)"
  obtains cp where
    "find_cut_point ms (map estimate ms) (boundary_start ms) (length ms)
       (cfg_keep_recent_tokens cfg) = Some cp"
    and "compaction_config_validate cfg = Inr ()"
    and "trigger_threshold cfg \<le> sum_list (map estimate ms)"
    and "cut_first_kept_index cp \<noteq> 0"
    and "pl_messages_to_summarize p =
      filter (\<lambda>m. \<not> is_compaction_summary m) (slice (boundary_start ms) (history_end cp) ms)"
    and "pl_turn_prefix_messages p =
      (if cut_is_split_turn cp
       then slice (cut_turn_start_index cp) (cut_first_kept_index cp) ms else [])"
    and "pl_retained_messages p = drop (cut_first_kept_index cp) ms"
    and "pl_retained_message_ids p = map msg_id (drop (cut_first_kept_index cp) ms)"
    and "pl_dropped_message_ids p = map msg_id (take (cut_first_kept_index cp) ms)"
    and "pl_tokens_before p = sum_list (map estimate ms)"
    and "pl_estimated_retained_tokens p = sum_list (drop (cut_first_kept_index cp) (map estimate ms))"
    and "pl_previous_summary p = previous_summary_text ms"
  using assms unfolding plan_compaction_def Let_def
  by (auto split: sum.splits if_splits option.splits)


section \<open>Properties of a plan\<close>

lemma slice_append: "a \<le> b \<Longrightarrow> b \<le> c \<Longrightarrow> slice a b xs @ slice b c xs = slice a c xs"
  using take_add [of "b - a" "c - b" "drop a xs"] by (simp add: slice_def)

lemma slice_eq: "slice a b xs = drop a (take b xs)"
  by (simp add: slice_def drop_take)

lemma slice_no_summary:
  assumes "boundary_start ms \<le> a" and "b \<le> length ms"
  shows "filter (\<lambda>m. \<not> is_compaction_summary m) (slice a b ms) = slice a b ms"
proof (rule filter_True, rule ballI)
  fix m assume "m \<in> set (slice a b ms)"
  then obtain i where "i < b - a" and "m = ms ! (a + i)" and "a + i < length ms"
    by (auto simp: slice_def in_set_conv_nth)
  with assms show "\<not> is_compaction_summary m" by (simp add: boundary_start_no_summary)
qed

lemma compaction_summary_id_not_blank:
  "\<not> is_blank (msg_id (compaction_summary_message run_id turn_id summary metadata))"
  by (simp add: compaction_summary_message_def not_blank_Cons)

lemma plan_compaction_split:
  assumes "plan_compaction cfg estimate ms = Inr (Compact p)"
  shows "\<exists>k. pl_retained_message_ids p = map msg_id (drop k ms)
    \<and> pl_dropped_message_ids p = map msg_id (take k ms)"
  using assms by (elim plan_compactionE) blast

definition sample_config :: context_compaction_config where
  "sample_config =
     \<lparr>cfg_input_limit_tokens = 100, cfg_trigger_ratio = F64Ratio True (\<lambda>n. n div 5),
      cfg_summary_budget_tokens = 10, cfg_keep_recent_tokens = 20, cfg_mode = PersistentState,
      cfg_metadata = []\<rparr>"

text \<open>Two turns, the second one with a tool result.\<close>

definition sample_messages :: "agent_message list" where
  "sample_messages =
     [user_message ''u1'' ''hi'', assistant_message ''a1'' [Text ''hello''],
      user_message ''u2'' ''go'', assistant_message ''a2'' [Text ''done'']]"

definition sample_plan :: compaction_plan where
  "sample_plan =
     \<lparr>pl_previous_summary = None, pl_messages_to_summarize = take 2 sample_messages,
      pl_turn_prefix_messages = [], pl_retained_messages = drop 2 sample_messages,
      pl_tokens_before = 40, pl_estimated_retained_tokens = 20, pl_is_split_turn = False,
      pl_retained_message_ids = [''u2'', ''a2''], pl_dropped_message_ids = [''u1'', ''a1'']\<rparr>"

lemma sample_plan_planned:
  "plan_compaction sample_config (\<lambda>_. 10) sample_messages = Inr (Compact sample_plan)"
  by code_simp

lemma sample_cut:
  "find_cut_point sample_messages (map (\<lambda>_. 10) sample_messages) (boundary_start sample_messages)
     (length sample_messages) 20
   = Some \<lparr>cut_first_kept_index = 2, cut_turn_start_index = 2, cut_is_split_turn = False\<rparr>"
  by code_simp

text \<open>Every slice the planner takes is in range, so it does not panic: the boundary, the start
  of the split turn and the first kept message come in this order, inside the conversation.\<close>

theorem plan_compaction_slices:
  assumes "find_cut_point ms (map estimate ms) (boundary_start ms) (length ms) keep = Some cp"
  shows "boundary_start ms \<le> history_end cp \<and> history_end cp \<le> cut_first_kept_index cp
    \<and> cut_turn_start_index cp \<le> cut_first_kept_index cp \<and> cut_first_kept_index cp < length ms"
  using find_cut_point_range [OF assms] by (auto simp: history_end_def)

theorem plan_compaction_slices_witness:
  "boundary_start sample_messages \<le> 2 \<and> (2::nat) < length sample_messages"
  using plan_compaction_slices [OF sample_cut] by simp

text \<open>C12: a plan loses no message: the conversation splits at one index into dropped and retained
  messages; what is given to the summarizer (history, then the prefix of a split turn) is exactly
  the dropped part after the last summary, in order, and the retained part starts with a user or
  assistant message, never with a tool result.\<close>

theorem plan_compaction_partition:
  assumes "plan_compaction cfg estimate ms = Inr (Compact p)"
  shows "\<exists>k. 0 < k \<and> k < length ms \<and> boundary_start ms \<le> k
    \<and> pl_retained_messages p = drop k ms
    \<and> pl_retained_message_ids p = map msg_id (drop k ms)
    \<and> pl_dropped_message_ids p = map msg_id (take k ms)
    \<and> pl_messages_to_summarize p @ pl_turn_prefix_messages p = drop (boundary_start ms) (take k ms)
    \<and> is_valid_cut_role (msg_role (ms ! k))"
proof -
  from assms obtain cp where cp: "find_cut_point ms (map estimate ms) (boundary_start ms)
      (length ms) (cfg_keep_recent_tokens cfg) = Some cp"
    and k: "cut_first_kept_index cp \<noteq> 0"
    and summ: "pl_messages_to_summarize p =
      filter (\<lambda>m. \<not> is_compaction_summary m) (slice (boundary_start ms) (history_end cp) ms)"
    and pre: "pl_turn_prefix_messages p = (if cut_is_split_turn cp
       then slice (cut_turn_start_index cp) (cut_first_kept_index cp) ms else [])"
    and rest: "pl_retained_messages p = drop (cut_first_kept_index cp) ms"
      "pl_retained_message_ids p = map msg_id (drop (cut_first_kept_index cp) ms)"
      "pl_dropped_message_ids p = map msg_id (take (cut_first_kept_index cp) ms)"
    by (rule plan_compactionE)
  note range = find_cut_point_range [OF cp]
  have "pl_messages_to_summarize p = slice (boundary_start ms) (history_end cp) ms"
    unfolding summ using range by (intro slice_no_summary) (auto simp: history_end_def)
  then have "pl_messages_to_summarize p @ pl_turn_prefix_messages p
      = slice (boundary_start ms) (cut_first_kept_index cp) ms"
    using pre range by (auto simp: history_end_def slice_append)
  with k rest range show ?thesis
    by (intro exI [of _ "cut_first_kept_index cp"]) (auto simp: slice_eq)
qed

theorem plan_compaction_partition_witness:
  "pl_messages_to_summarize sample_plan @ pl_turn_prefix_messages sample_plan
     = drop (boundary_start sample_messages) (take 2 sample_messages)"
proof -
  from plan_compaction_partition [OF sample_plan_planned] obtain k
    where k: "k < length sample_messages"
    and ids: "pl_dropped_message_ids sample_plan = map msg_id (take k sample_messages)"
    and eq: "pl_messages_to_summarize sample_plan @ pl_turn_prefix_messages sample_plan
      = drop (boundary_start sample_messages) (take k sample_messages)"
    by blast
  from arg_cong [OF ids, of length] k have "k = 2" by (simp add: sample_plan_def)
  with eq show ?thesis by simp
qed

text \<open>C13: in persistent mode the effect built from a plan is always accepted: whatever summary
  text and metadata come back, the retained and dropped ids of the plan cover the conversation
  without overlap. It asks that the message ids are distinct and not blank and that the summary
  id of this turn is not in use yet.\<close>

theorem plan_compaction_effect_valid:
  assumes plan: "plan_compaction cfg estimate (st_messages st) = Inr (Compact p)"
    and ids: "distinct (map msg_id (st_messages st))"
      "\<forall>m \<in> set (st_messages st). \<not> is_blank (msg_id m)"
    and fresh: "msg_id (compaction_summary_message run_id turn_id summary metadata)
      \<notin> msg_id ` set (st_messages st)"
  shows "validate_effect_for_state st (CompactMessages
    \<lparr>mc_summary_message = compaction_summary_message run_id turn_id summary metadata,
     mc_retained_message_ids = pl_retained_message_ids p,
     mc_dropped_message_ids = pl_dropped_message_ids p,
     mc_tokens_before = before, mc_tokens_after = after, mc_metadata = md\<rparr>) = Inr ()"
proof -
  let ?c = "\<lparr>mc_summary_message = compaction_summary_message run_id turn_id summary metadata,
     mc_retained_message_ids = pl_retained_message_ids p,
     mc_dropped_message_ids = pl_dropped_message_ids p,
     mc_tokens_before = before, mc_tokens_after = after, mc_metadata = md\<rparr>"
  let ?ms = "st_messages st"
  obtain k where r: "pl_retained_message_ids p = map msg_id (drop k ?ms)"
    and d: "pl_dropped_message_ids p = map msg_id (take k ?ms)"
    using plan_compaction_split [OF plan] by blast
  have union: "set (map msg_id (drop k ?ms)) \<union> set (map msg_id (take k ?ms)) = msg_id ` set ?ms"
    by (metis append_take_drop_id map_append set_append set_map sup_commute)
  have disj: "set (map msg_id (drop k ?ms)) \<inter> set (map msg_id (take k ?ms)) = {}"
    and dist: "distinct (map msg_id (drop k ?ms))" "distinct (map msg_id (take k ?ms))"
    using ids(1) append_take_drop_id [of k ?ms] distinct_append map_append by (metis Int_commute)+
  have "validate_message_compaction ?c = Inr ()"
    unfolding validate_message_compaction_ok
    using fresh compaction_summary_id_not_blank [of run_id turn_id summary metadata] ids(2)
      union disj dist r d
    by (auto simp: compaction_summary_message_def)
  moreover have "validate_message_compaction_for_state st ?c = Inr ()"
    unfolding validate_message_compaction_for_state_ok using fresh union r d by simp
  ultimately show ?thesis by (simp add: validate_effect_for_state_def)
qed

definition sample_state :: agent_state where
  "sample_state = agent_state_default\<lparr>st_messages := sample_messages\<rparr>"

theorem plan_compaction_effect_valid_witness:
  "validate_effect_for_state sample_state (CompactMessages
    \<lparr>mc_summary_message = compaction_summary_message ''run-1'' 2 ''s'' [],
     mc_retained_message_ids = [''u2'', ''a2''], mc_dropped_message_ids = [''u1'', ''a1''],
     mc_tokens_before = 40, mc_tokens_after = 21, mc_metadata = []\<rparr>) = Inr ()"
proof -
  have ms: "st_messages sample_state = sample_messages" by (simp add: sample_state_def)
  have "distinct (map msg_id sample_messages)" by code_simp
  moreover have "\<forall>m \<in> set sample_messages. \<not> is_blank (msg_id m)"
    by (simp add: sample_messages_def user_message_def assistant_message_def not_blank_Cons)
  moreover have "msg_id (compaction_summary_message ''run-1'' 2 ''s'' [])
      \<notin> msg_id ` set sample_messages"
    by (simp add: sample_messages_def user_message_def assistant_message_def
        compaction_summary_message_def)
  ultimately show ?thesis
    using plan_compaction_effect_valid [of sample_config "\<lambda>_. 10" sample_state sample_plan
        "''run-1''" 2 "''s''" "[]"]
    unfolding ms using sample_plan_planned by (simp add: sample_plan_def)
qed

end
