(* ===== verification/Event_Store.thy ===== *)
theory Event_Store
  imports Reducer
begin

text \<open>
  The event store (\<open>src/store/\<close>). The runtime relies on the two operations of the trait
  \<open>EventStore\<close> only; the locale \<open>event_store\<close> states what it needs of them: \<open>append\<close> adds the
  event at the end of the log of the event's run, and of no other, or fails without a trace, and
  \<open>load\<close> returns the log of a run. \<open>InMemoryEventStore\<close> provides it.
\<close>

record 's event_store_ops =
  es_append :: "agent_event \<Rightarrow> ('s, agent_core_error, unit) eff"
  es_load :: "string \<Rightarrow> ('s, agent_core_error, agent_event list) eff"

locale event_store =
  fixes es :: "'s event_store_ops"
    and log :: "'s \<Rightarrow> string \<Rightarrow> agent_event list"
    and invar :: "'s \<Rightarrow> bool"
  assumes append_ok:
      "invar s \<Longrightarrow> es_append es ev s = (s', Inr u) \<Longrightarrow>
       log s' = (log s)(ev_run_id ev := log s (ev_run_id ev) @ [ev])"
    and append_err: "invar s \<Longrightarrow> es_append es ev s = (s', Inl e) \<Longrightarrow> log s' = log s"
    and append_invar: "invar s \<Longrightarrow> invar (fst (es_append es ev s))"
    and load_ok: "invar s \<Longrightarrow> es_load es r s = (s', Inr evs) \<Longrightarrow> evs = log s r"
    and load_log: "invar s \<Longrightarrow> log (fst (es_load es r s)) = log s"
    and load_invar: "invar s \<Longrightarrow> invar (fst (es_load es r s))"
begin

text \<open>Appending a list of events of one run, stopping at the first failure.\<close>

lemma append_all_log:
  assumes "invar s" and "\<forall>ev \<in> set evs. ev_run_id ev = r"
    and "for_each evs (es_append es) s = (s', res)"
  shows "\<exists>n \<le> length evs. log s' = (log s)(r := log s r @ take n evs)
    \<and> (\<forall>u. res = Inr u \<longrightarrow> n = length evs)"
  using assms
proof (induction evs arbitrary: s)
  case Nil
  then show ?case by simp
next
  case (Cons ev evs)
  obtain t x where step: "es_append es ev s = (t, x)" by force
  show ?case
  proof (cases x)
    case (Inl e)
    with Cons.prems step append_err [OF Cons.prems(1)] show ?thesis
      by (intro exI [of _ 0]) auto
  next
    case (Inr u)
    have t: "log t = (log s)(r := log s r @ [ev])"
      using append_ok [OF Cons.prems(1) step [unfolded Inr]] Cons.prems(2) by simp
    have "invar t" using append_invar [OF Cons.prems(1), of ev] step by simp
    with Cons step Inr obtain n where "n \<le> length evs"
      and "log s' = (log t)(r := log t r @ take n evs)"
      and "\<forall>u. res = Inr u \<longrightarrow> n = length evs"
      by fastforce
    with t show ?thesis by (intro exI [of _ "Suc n"]) auto
  qed
qed

text \<open>The other runs keep their logs.\<close>

lemma append_other: "invar s \<Longrightarrow> r \<noteq> ev_run_id ev \<Longrightarrow> log (fst (es_append es ev s)) r = log s r"
  using append_ok [of s ev] append_err [of s ev]
  by (cases "es_append es ev s"; cases "snd (es_append es ev s)") auto

end

section \<open>The in-memory store\<close>

text \<open>\<open>entry(run_id).or_default().push(event)\<close> and \<open>get(run_id).cloned().unwrap_or_default()\<close>.\<close>

type_synonym memory_store = "agent_event list smap"

definition memory_log :: "memory_store \<Rightarrow> string \<Rightarrow> agent_event list" where
  "memory_log s r = (case map_of s r of None \<Rightarrow> [] | Some evs \<Rightarrow> evs)"

definition memory_append :: "agent_event \<Rightarrow> (memory_store, agent_core_error, unit) eff" where
  "memory_append ev s =
     (bt_insert (ev_run_id ev) (memory_log s (ev_run_id ev) @ [ev]) s, Inr ())"

definition memory_load :: "string \<Rightarrow> (memory_store, agent_core_error, agent_event list) eff" where
  "memory_load r s = (s, Inr (memory_log s r))"

definition memory_store_ops :: "memory_store event_store_ops" where
  "memory_store_ops = \<lparr>es_append = memory_append, es_load = memory_load\<rparr>"

interpretation mem: event_store memory_store_ops memory_log bt_wf
  by unfold_locales
    (auto simp: memory_store_ops_def memory_append_def memory_load_def memory_log_def fun_eq_iff
      bt_simps split: if_splits)

lemma memory_log_Nil [simp]: "memory_log [] r = []"
  by (simp add: memory_log_def)

end
