(* ===== verification/Providers.thy ===== *)
theory Providers
  imports Compaction Event_Store
begin

text \<open>
  The trait objects of a runtime (\<open>src/providers.rs\<close>, \<open>src/runtime/mod.rs\<close>, \<open>src/phase/mod.rs\<close>):
  model providers, tools, hooks, context providers, the compactor, the queues and the event sink.
  Their implementations are not part of the runtime, so each method is a parameter: a function of
  its arguments and of a world of type \<open>'w\<close>, everything outside the runtime, which it may change.
  A model provider and a custom phase also call the model stream sink: they are \<open>stream\<close> trees,
  each node an event given to the sink and the rest of the computation on the sink's answer.
  The cancellation token, the wall clock and the order in which the tasks of a \<open>JoinSet\<close> finish
  are read from the world too, so that a theorem holds for every behaviour of them.
\<close>

section \<open>Streams\<close>

datatype ('w, 'a) stream =
    Done 'w "agent_core_error + 'a"
  | Emit 'w model_stream_event "'w \<Rightarrow> agent_core_error + unit \<Rightarrow> ('w, 'a) stream"

text \<open>A computation that emits nothing.\<close>

definition quiet :: "('w, agent_core_error, 'a) eff \<Rightarrow> 'w \<Rightarrow> ('w, 'a) stream" where
  "quiet m w = (case m w of (w', r) \<Rightarrow> Done w' r)"

text \<open>The rest of a computation, given the result of a stream (\<open>match provider.stream_model()\<close>).\<close>

primrec stream_then ::
  "('w, 'a) stream \<Rightarrow> ('w \<Rightarrow> agent_core_error + 'a \<Rightarrow> ('w, 'b) stream) \<Rightarrow> ('w, 'b) stream" where
  "stream_then (Done w r) f = f w r"
| "stream_then (Emit w ev k) f = Emit w ev (\<lambda>w' r. stream_then (k w' r) f)"

text \<open>
  Running a stream with a sink on a state that has the world as a part. The sink is called once
  for each event, in order, and its answer is given back.
\<close>

primrec run_stream ::
  "('w \<Rightarrow> 's \<Rightarrow> 's) \<Rightarrow> ('s \<Rightarrow> 'w) \<Rightarrow> (model_stream_event \<Rightarrow> ('s, agent_core_error, unit) eff)
     \<Rightarrow> ('w, 'a) stream \<Rightarrow> ('s, agent_core_error, 'a) eff" where
  "run_stream put get sink (Done w r) = (\<lambda>s. (put w s, r))"
| "run_stream put get sink (Emit w ev k) =
     (\<lambda>s. case sink ev (put w s) of
        (s', r) \<Rightarrow> run_stream put get sink (k (get s') r) s')"

lemma preserves_run_stream:
  assumes "\<And>w s. P s \<Longrightarrow> P (put w s)" and "\<And>ev. preserves P (sink ev)"
  shows "preserves P (run_stream put get sink st)"
proof (induction st)
  case (Done w r)
  show ?case using assms(1) by (simp add: preserves_def)
next
  case (Emit w ev k)
  show ?case
  proof
    fix s assume "P s"
    obtain s' r where step: "sink ev (put w s) = (s', r)" by force
    with \<open>P s\<close> assms have "P s'" by (metis fst_conv preservesD)
    moreover have "preserves P (run_stream put get sink (k (get s') r))"
      by (rule Emit) auto
    ultimately show "P (fst (run_stream put get sink (Emit w ev k) s))"
      using step by (simp add: preservesD)
  qed
qed

section \<open>Requests and hook contexts\<close>

record tool_request =
  tr_run_id :: string
  tr_turn_id :: nat
  tr_tool_call_id :: string
  tr_tool_name :: string
  tr_arguments :: json
  tr_state :: agent_state

record context_request =
  cr_run_id :: string
  cr_turn_id :: nat
  cr_state :: agent_state

record before_tool_call_context =
  btc_run_id :: string
  btc_turn_id :: nat
  btc_tool_call :: tool_call
  btc_tool_spec :: tool_spec
  btc_state :: agent_state

datatype before_tool_call_result =
    Decision tool_permission_decision
  | Approval tool_approval_request_spec

record after_tool_call_context =
  atc_run_id :: string
  atc_turn_id :: nat
  atc_tool_call :: tool_call
  atc_output :: tool_output
  atc_state :: agent_state

record after_tool_call_result =
  atr_content :: "content_block list option"
  atr_details :: "json option"
  atr_is_error :: "bool option"

text \<open>What every phase hook is given beside its own argument: run, turn and state.\<close>

record hook_scope =
  hs_run_id :: string
  hs_turn_id :: nat
  hs_state :: agent_state

record context_compaction_request =
  ccr_run_id :: string
  ccr_turn_id :: nat
  ccr_current_messages :: "agent_message list"
  ccr_previous_summary :: "string option"
  ccr_messages_to_summarize :: "agent_message list"
  ccr_turn_prefix_messages :: "agent_message list"
  ccr_retained_messages :: "agent_message list"
  ccr_token_budget :: nat
  ccr_tokens_before :: nat
  ccr_estimated_retained_tokens :: nat
  ccr_is_split_turn :: bool
  ccr_metadata :: json_map

datatype context_compaction_output =
    CompactionSummary string json_map
  | CompactionReplacement "agent_message list" json_map

section \<open>The trait objects\<close>

record 'w model_provider =
  mpv_id :: string
  mpv_stream_model :: "model_request \<Rightarrow> 'w \<Rightarrow> ('w, model_stream_event list) stream"

record 'w tool_provider =
  tp_spec :: tool_spec
  tp_execute_tool :: "tool_request \<Rightarrow> ('w, agent_core_error, tool_output) eff"

record 'w context_provider =
  cp_id :: string
  cp_prepare_context :: "context_request \<Rightarrow> ('w, agent_core_error, agent_effect list) eff"

record 'w tool_call_hook =
  th_id :: "string option"
  th_before_tool_call ::
    "before_tool_call_context \<Rightarrow> ('w, agent_core_error, before_tool_call_result option) eff"
  th_after_tool_call ::
    "after_tool_call_context \<Rightarrow> ('w, agent_core_error, after_tool_call_result option) eff"

record 'w phase_hook =
  ph_before_model_request ::
    "hook_scope \<Rightarrow> model_request \<Rightarrow> ('w, agent_core_error, model_request option) eff"
  ph_after_model_request ::
    "hook_scope \<Rightarrow> model_request \<Rightarrow> model_stream_event list
       \<Rightarrow> ('w, agent_core_error, model_stream_event list option) eff"
  ph_before_assistant_commit ::
    "hook_scope \<Rightarrow> model_stream_event list
       \<Rightarrow> ('w, agent_core_error, model_stream_event list option) eff"
  ph_after_assistant_commit ::
    "hook_scope \<Rightarrow> agent_message \<Rightarrow> ('w, agent_core_error, agent_message option) eff"

record 'w context_compaction_runtime =
  cx_config :: context_compaction_config
  cx_compact :: "context_compaction_request \<Rightarrow> ('w, agent_core_error, context_compaction_output) eff"
  cx_estimate_message_tokens :: "agent_message \<Rightarrow> nat"

section \<open>Phases\<close>

record phase_output =
  po_scratch :: phase_scratch
  po_effects :: "agent_effect list"
  po_stream_events :: "model_stream_event list"
  po_resolved_tool_calls :: "tool_call list"
  po_tool_outputs :: "(tool_call \<times> tool_output) list"
  po_completed_tool_outputs :: "(tool_call \<times> tool_output) list"
  po_tool_permission_audits :: "tool_permission_audit list"
  po_completed_tool_permission_audits :: "tool_permission_audit list"
  po_tool_approval_requests :: "tool_approval_request list"
  po_pause :: "run_pause_reason option"

definition output_from_scratch :: "phase_scratch \<Rightarrow> phase_output" where
  "output_from_scratch scratch =
     \<lparr>po_scratch = scratch, po_effects = [], po_stream_events = [], po_resolved_tool_calls = [],
      po_tool_outputs = [], po_completed_tool_outputs = [], po_tool_permission_audits = [],
      po_completed_tool_permission_audits = [], po_tool_approval_requests = [], po_pause = None\<rparr>"

text \<open>
  \<open>PhaseContext\<close>; the runtime, the token and the sink are given by the functions that run a phase.
\<close>

record phase_context =
  pc_run_id :: string
  pc_turn_id :: nat
  pc_state :: agent_state
  pc_scratch :: phase_scratch

datatype standard_phase =
    InputIngest
  | ContextPrepare
  | ContextCompact
  | ModelRequestPrepare
  | ModelStream
  | AssistantCommit
  | ToolCallResolve
  | ToolExecute
  | TurnDecision

fun standard_phase_id :: "standard_phase \<Rightarrow> string" where
  "standard_phase_id InputIngest = ''input.ingest''"
| "standard_phase_id ContextPrepare = ''context.prepare''"
| "standard_phase_id ContextCompact = ''context.compact''"
| "standard_phase_id ModelRequestPrepare = ''model.request.prepare''"
| "standard_phase_id ModelStream = ''model.stream''"
| "standard_phase_id AssistantCommit = ''assistant.commit''"
| "standard_phase_id ToolCallResolve = ''tool.call.resolve''"
| "standard_phase_id ToolExecute = ''tool.execute''"
| "standard_phase_id TurnDecision = ''turn.decision''"

text \<open>
  A registered \<open>PhaseNode\<close>: a standard phase or one supplied by the embedder. A custom phase is
  taken not to start a run of its own on the same runtime.
\<close>

datatype 'w phase_node =
    StandardPhase standard_phase
  | CustomPhase string "phase_context \<Rightarrow> 'w \<Rightarrow> ('w, phase_output) stream"

fun phase_id :: "'w phase_node \<Rightarrow> string" where
  "phase_id (StandardPhase p) = standard_phase_id p"
| "phase_id (CustomPhase i _) = i"

section \<open>The runtime\<close>

text \<open>
  One step of a \<open>JoinSet\<close>: the task at an index finished, or a task was lost (it panicked).
\<close>

datatype join_event = TaskFinished nat | TaskLost string

record ('s, 'w) agent_runtime =
  rt_event_store :: "'s event_store_ops"
  rt_phases :: "'w phase_node list"
  rt_model_providers :: "'w model_provider smap"
  rt_default_model_provider :: string
  rt_tools :: "'w tool_provider smap"
  rt_tool_execution_mode :: tool_execution_mode
  rt_tool_hooks :: "'w tool_call_hook list"
  rt_phase_hooks :: "'w phase_hook list"
  rt_context_providers :: "'w context_provider list"
  rt_context_compaction :: "'w context_compaction_runtime option"
  rt_max_turns :: nat
  rt_run_id_prefix :: "string option"
  rt_cancelled :: "'w \<Rightarrow> 'w \<times> bool"
  rt_schedule :: "nat \<Rightarrow> 'w \<Rightarrow> 'w \<times> join_event list"
  rt_current_unix_ms :: "'w \<Rightarrow> 'w \<times> nat option"

text \<open>\<open>CancellationToken::throw_if_cancelled\<close>.\<close>

definition throw_if_cancelled :: "('s, 'w) agent_runtime \<Rightarrow> ('w, agent_core_error, unit) eff" where
  "throw_if_cancelled rt w =
     (let (w', c) = rt_cancelled rt w in (w', if c then Inl Aborted else Inr ()))"

definition default_model_provider :: "('s, 'w) agent_runtime \<Rightarrow> 'w model_provider result" where
  "default_model_provider rt =
     (case map_of (rt_model_providers rt) (rt_default_model_provider rt) of
        Some p \<Rightarrow> Inr p
      | None \<Rightarrow> Inl (MissingModelProvider (rt_default_model_provider rt)))"

definition tool :: "('s, 'w) agent_runtime \<Rightarrow> string \<Rightarrow> 'w tool_provider result" where
  "tool rt name =
     (case map_of (rt_tools rt) name of Some t \<Rightarrow> Inr t | None \<Rightarrow> Inl (MissingTool name))"

definition tool_specs :: "('s, 'w) agent_runtime \<Rightarrow> 'w tool_provider list" where
  "tool_specs rt = bt_values (rt_tools rt)"

section \<open>Queues and the event sink\<close>

datatype queued_message_intent = Observation | UserInput

record queued_agent_message =
  qm_message :: agent_message
  qm_intent :: queued_message_intent

record 'w runtime_queues =
  rq_steering_messages :: "('w, agent_core_error, queued_agent_message list) eff"
  rq_follow_up_messages :: "('w, agent_core_error, queued_agent_message list) eff"
  rq_prepend_follow_up_messages ::
    "queued_agent_message list \<Rightarrow> ('w, agent_core_error, unit) eff"

type_synonym 'w event_sink = "agent_event \<Rightarrow> ('w, agent_core_error, unit) eff"

datatype agent_input = InputText string | InputMessage agent_message

end
