(* ===== verification/Assistant.thy ===== *)
theory Assistant
  imports Core_Types
begin

text \<open>
  The assembly of an assistant message from the events of a model stream: the deltas of
  \<open>src/types/thinking.rs\<close> and \<open>src/types/media.rs\<close> and the loop of \<open>assistant_commit\<close> in
  \<open>src/phase/assistant.rs\<close>. The loop keeps one open thinking block, one open media block and the
  open text, and flushes them into the content when the kind of event changes.
\<close>

section \<open>Thinking deltas\<close>

definition thinking_delta_is_empty :: "thinking_delta \<Rightarrow> bool" where
  "thinking_delta_is_empty d =
     ((case td_text_delta d of None \<Rightarrow> True | Some s \<Rightarrow> s = [])
      \<and> td_raw_snapshot d = None \<and> td_replay_descriptor d = None \<and> td_metadata d = [])"

definition thinking_block_is_empty :: "thinking_block \<Rightarrow> bool" where
  "thinking_block_is_empty b =
     ((case tb_text b of None \<Rightarrow> True | Some s \<Rightarrow> s = [])
      \<and> tb_raw b = None \<and> tb_replay_descriptor b = None \<and> tb_metadata b = [])"

definition thinking_apply_delta :: "thinking_block \<Rightarrow> thinking_delta \<Rightarrow> thinking_block" where
  "thinking_apply_delta b d =
     b\<lparr>tb_text := (case td_text_delta d of
          Some s \<Rightarrow>
            if s = [] then tb_text b
            else Some ((case tb_text b of None \<Rightarrow> [] | Some t \<Rightarrow> t) @ s)
        | None \<Rightarrow> tb_text b),
       tb_raw := (case td_raw_snapshot d of Some v \<Rightarrow> Some v | None \<Rightarrow> tb_raw b),
       tb_replay_descriptor :=
         (case td_replay_descriptor d of Some v \<Rightarrow> Some v | None \<Rightarrow> tb_replay_descriptor b),
       tb_metadata := bt_extend (tb_metadata b) (td_metadata d)\<rparr>"

definition thinking_from_delta :: "thinking_delta \<Rightarrow> thinking_block" where
  "thinking_from_delta d =
     thinking_apply_delta
       \<lparr>tb_kind = td_kind d, tb_text = None, tb_raw = None, tb_replay_descriptor = None,
        tb_metadata = []\<rparr> d"

section \<open>Media deltas\<close>

definition media_new :: "media_kind \<Rightarrow> media_source \<Rightarrow> media_block" where
  "media_new kind source =
     \<lparr>mb_kind = kind, mb_source = source, mb_data = None, mb_mime_type = None, mb_name = None,
      mb_replay_descriptor = None, mb_metadata = []\<rparr>"

definition append_encoded_data :: "media_block \<Rightarrow> string \<Rightarrow> media_encoding \<Rightarrow> media_block" where
  "append_encoded_data b data_delta encoding =
     (if data_delta = [] then b
      else case mb_data b of
        Some d \<Rightarrow>
          if emd_encoding d = encoding then b\<lparr>mb_data := Some (d\<lparr>emd_data := emd_data d @ data_delta\<rparr>)\<rparr>
          else b\<lparr>mb_data := Some \<lparr>emd_data = data_delta, emd_encoding = encoding\<rparr>\<rparr>
      | None \<Rightarrow> b\<lparr>mb_data := Some \<lparr>emd_data = data_delta, emd_encoding = encoding\<rparr>\<rparr>)"

definition move_inline_source_to_data :: "media_block \<Rightarrow> media_block" where
  "move_inline_source_to_data b =
     (case mb_source b of
        Inline d encoding \<Rightarrow> if d = [] then b else append_encoded_data b d encoding
      | _ \<Rightarrow> b)"

definition is_inline :: "media_source \<Rightarrow> bool" where
  "is_inline s = (case s of Inline _ _ \<Rightarrow> True | _ \<Rightarrow> False)"

text \<open>The two steps of \<open>apply_delta\<close> that change the source and the data.\<close>

definition media_apply_source :: "media_block \<Rightarrow> media_source option \<Rightarrow> media_block" where
  "media_apply_source b source =
     (case source of
        None \<Rightarrow> b
      | Some s \<Rightarrow> (if is_inline s then b else move_inline_source_to_data b)\<lparr>mb_source := s\<rparr>)"

definition media_apply_data :: "media_block \<Rightarrow> string option \<Rightarrow> media_block" where
  "media_apply_data b data_delta =
     (case data_delta of
        None \<Rightarrow> b
      | Some s \<Rightarrow>
          if s = [] then b
          else (case (mb_source b, mb_data b) of
                  (Inline d Base64, None) \<Rightarrow> b\<lparr>mb_source := Inline (d @ s) Base64\<rparr>
                | _ \<Rightarrow> append_encoded_data b s Base64))"

definition media_apply_delta :: "media_block \<Rightarrow> media_delta \<Rightarrow> media_block" where
  "media_apply_delta b d =
     (let b' = media_apply_data (media_apply_source b (md_source d)) (md_data_delta d)
      in b'\<lparr>mb_mime_type := (case md_mime_type d of Some x \<Rightarrow> Some x | None \<Rightarrow> mb_mime_type b'),
            mb_name := (case md_name d of Some x \<Rightarrow> Some x | None \<Rightarrow> mb_name b'),
            mb_replay_descriptor :=
              (case md_replay_descriptor d of Some x \<Rightarrow> Some x | None \<Rightarrow> mb_replay_descriptor b'),
            mb_metadata := bt_extend (mb_metadata b') (md_metadata d)\<rparr>)"

definition media_from_delta :: "media_delta \<Rightarrow> media_block option" where
  "media_from_delta d =
     (case (case md_source d of
              Some s \<Rightarrow> Some s
            | None \<Rightarrow> map_option (\<lambda>x. Inline x Base64) (md_data_delta d)) of
        None \<Rightarrow> None
      | Some source \<Rightarrow>
          let b = media_new (md_kind d) source;
              b' = (case (md_source d, md_data_delta d) of
                      (Some _, Some x) \<Rightarrow> append_encoded_data b x Base64
                    | _ \<Rightarrow> b)
          in Some (b'\<lparr>mb_mime_type := md_mime_type d, mb_name := md_name d,
                      mb_replay_descriptor := md_replay_descriptor d,
                      mb_metadata := bt_extend (mb_metadata b') (md_metadata d)\<rparr>))"

definition media_delta_is_empty :: "media_delta \<Rightarrow> bool" where
  "media_delta_is_empty d =
     ((case md_data_delta d of None \<Rightarrow> True | Some s \<Rightarrow> s = []) \<and> md_source d = None
      \<and> md_mime_type d = None \<and> md_name d = None \<and> md_replay_descriptor d = None
      \<and> md_metadata d = [] \<and> \<not> md_done d)"

definition media_delta_starts_new_block :: "media_block \<Rightarrow> media_delta \<Rightarrow> bool" where
  "media_delta_starts_new_block b d =
     (if mb_kind b \<noteq> md_kind d then True
      else case md_source d of
        None \<Rightarrow> False
      | Some s \<Rightarrow> if mb_source b = s then False else \<not> is_inline (mb_source b))"

section \<open>The loop\<close>

record assembly =
  as_thinking :: "thinking_block option"
  as_media :: "media_block option"
  as_text :: string
  as_content :: "content_block list"

definition assembly_start :: assembly where
  "assembly_start = \<lparr>as_thinking = None, as_media = None, as_text = [], as_content = []\<rparr>"

definition flush_thinking :: "assembly \<Rightarrow> assembly" where
  "flush_thinking a =
     (case as_thinking a of
        None \<Rightarrow> a
      | Some t \<Rightarrow>
          if thinking_block_is_empty t then a\<lparr>as_thinking := None\<rparr>
          else a\<lparr>as_thinking := None, as_content := as_content a @ [Thinking t]\<rparr>)"

definition flush_text :: "assembly \<Rightarrow> assembly" where
  "flush_text a =
     (if as_text a = [] then a
      else a\<lparr>as_text := [], as_content := as_content a @ [Text (as_text a)]\<rparr>)"

definition flush_media :: "assembly \<Rightarrow> assembly" where
  "flush_media a =
     (case as_media a of
        None \<Rightarrow> a
      | Some m \<Rightarrow> a\<lparr>as_media := None, as_content := as_content a @ [Media m]\<rparr>)"

definition add_thinking_delta :: "thinking_delta \<Rightarrow> assembly \<Rightarrow> assembly" where
  "add_thinking_delta d a =
     (if thinking_delta_is_empty d then a
      else let a' = (case as_thinking a of
                       Some b \<Rightarrow> if tb_kind b \<noteq> td_kind d then flush_thinking a else a
                     | None \<Rightarrow> a)
           in case as_thinking a' of
                Some b \<Rightarrow> a'\<lparr>as_thinking := Some (thinking_apply_delta b d)\<rparr>
              | None \<Rightarrow> a'\<lparr>as_thinking := Some (thinking_from_delta d)\<rparr>)"

definition add_media_delta :: "media_delta \<Rightarrow> assembly \<Rightarrow> assembly" where
  "add_media_delta d a =
     (let a' = (case as_media a of
                  Some b \<Rightarrow> if media_delta_starts_new_block b d then flush_media a else a
                | None \<Rightarrow> a);
          a'' = (case as_media a' of
                   Some b \<Rightarrow> a'\<lparr>as_media := Some (media_apply_delta b d)\<rparr>
                 | None \<Rightarrow> a'\<lparr>as_media := media_from_delta d\<rparr>)
      in if md_done d then flush_media a'' else a'')"

definition push_text :: "string \<Rightarrow> assembly \<Rightarrow> assembly" where
  "push_text t a = a\<lparr>as_text := as_text a @ t\<rparr>"

definition push_tool_call :: "tool_call \<Rightarrow> assembly \<Rightarrow> assembly" where
  "push_tool_call c a = a\<lparr>as_content := as_content a @ [ToolCallBlock c]\<rparr>"

fun assemble_event :: "model_stream_event \<Rightarrow> assembly \<Rightarrow> assembly result" where
  "assemble_event (ThinkingDelta d) a = Inr (add_thinking_delta d (flush_text (flush_media a)))"
| "assemble_event (TextDelta t) a =
     Inr (push_text t (flush_media (flush_thinking a)))"
| "assemble_event (MediaDelta d) a =
     Inr (if media_delta_is_empty d then a else add_media_delta d (flush_text (flush_thinking a)))"
| "assemble_event (ToolCallEvent c) a =
     Inr (push_tool_call c (flush_media (flush_text (flush_thinking a))))"
| "assemble_event (Failed e) a = Inl (PhaseError (''model stream failed: '' @ e))"
| "assemble_event (Started p) a = Inr a"
| "assemble_event (Finished r) a = Inr a"

fun assemble_events :: "model_stream_event list \<Rightarrow> assembly \<Rightarrow> assembly result" where
  "assemble_events [] a = Inr a"
| "assemble_events (ev # evs) a =
     (case assemble_event ev a of Inl e \<Rightarrow> Inl e | Inr a' \<Rightarrow> assemble_events evs a')"

definition assistant_content :: "model_stream_event list \<Rightarrow> content_block list result" where
  "assistant_content evs =
     (case assemble_events evs assembly_start of
        Inl e \<Rightarrow> Inl e
      | Inr a \<Rightarrow> Inr (as_content (flush_media (flush_text (flush_thinking a)))))"

section \<open>What the content keeps of the stream\<close>

text \<open>The text, the thinking text and the tool calls of a stream and of a content.\<close>

fun event_text :: "model_stream_event \<Rightarrow> string" where
  "event_text (TextDelta t) = t"
| "event_text _ = []"

fun block_text :: "content_block \<Rightarrow> string" where
  "block_text (Text t) = t"
| "block_text _ = []"

fun event_thinking :: "model_stream_event \<Rightarrow> string" where
  "event_thinking (ThinkingDelta d) = (case td_text_delta d of None \<Rightarrow> [] | Some s \<Rightarrow> s)"
| "event_thinking _ = []"

definition thinking_text :: "thinking_block \<Rightarrow> string" where
  "thinking_text b = (case tb_text b of None \<Rightarrow> [] | Some s \<Rightarrow> s)"

fun block_thinking :: "content_block \<Rightarrow> string" where
  "block_thinking (Thinking b) = thinking_text b"
| "block_thinking _ = []"

fun event_calls :: "model_stream_event \<Rightarrow> tool_call list" where
  "event_calls (ToolCallEvent c) = [c]"
| "event_calls _ = []"

fun block_calls :: "content_block \<Rightarrow> tool_call list" where
  "block_calls (ToolCallBlock c) = [c]"
| "block_calls _ = []"

text \<open>What the assembly holds so far: its content, then what is still open.\<close>

definition asm_text :: "assembly \<Rightarrow> string" where
  "asm_text a = concat (map block_text (as_content a)) @ as_text a"

definition asm_thinking :: "assembly \<Rightarrow> string" where
  "asm_thinking a = concat (map block_thinking (as_content a))
     @ (case as_thinking a of None \<Rightarrow> [] | Some b \<Rightarrow> thinking_text b)"

definition asm_calls :: "assembly \<Rightarrow> tool_call list" where
  "asm_calls a = concat (map block_calls (as_content a))"

definition nonempty_block :: "content_block \<Rightarrow> bool" where
  "nonempty_block b =
     (case b of Text t \<Rightarrow> t \<noteq> [] | Thinking t \<Rightarrow> \<not> thinking_block_is_empty t | _ \<Rightarrow> True)"

definition asm_nonempty :: "assembly \<Rightarrow> bool" where
  "asm_nonempty a = list_all nonempty_block (as_content a)"

lemmas asm_defs = asm_text_def asm_thinking_def asm_calls_def asm_nonempty_def

lemma thinking_text_empty: "thinking_block_is_empty b \<Longrightarrow> thinking_text b = []"
  by (auto simp: thinking_block_is_empty_def thinking_text_def split: option.splits)

lemma thinking_text_apply:
  "thinking_text (thinking_apply_delta b d)
     = thinking_text b @ (case td_text_delta d of None \<Rightarrow> [] | Some s \<Rightarrow> s)"
  by (auto simp: thinking_text_def thinking_apply_delta_def split: option.splits)

lemma thinking_text_new: "tb_text b = None \<Longrightarrow> thinking_text b = []"
  by (simp add: thinking_text_def)

lemma flush_kept [simp]:
  "asm_text (flush_thinking a) = asm_text a" "asm_text (flush_text a) = asm_text a"
  "asm_text (flush_media a) = asm_text a"
  "asm_thinking (flush_thinking a) = asm_thinking a" "asm_thinking (flush_text a) = asm_thinking a"
  "asm_thinking (flush_media a) = asm_thinking a"
  "asm_calls (flush_thinking a) = asm_calls a" "asm_calls (flush_text a) = asm_calls a"
  "asm_calls (flush_media a) = asm_calls a"
  "asm_nonempty (flush_thinking a) = asm_nonempty a" "asm_nonempty (flush_text a) = asm_nonempty a"
  "asm_nonempty (flush_media a) = asm_nonempty a"
  by (auto simp: flush_thinking_def flush_text_def flush_media_def asm_defs thinking_text_empty
      nonempty_block_def split: option.splits)

lemma flush_open [simp]:
  "as_thinking (flush_thinking a) = None" "as_text (flush_text a) = []"
  "as_thinking (flush_text a) = as_thinking a" "as_thinking (flush_media a) = as_thinking a"
  "as_text (flush_thinking a) = as_text a" "as_text (flush_media a) = as_text a"
  by (auto simp: flush_thinking_def flush_text_def flush_media_def split: option.splits)

lemma add_thinking_delta_kept [simp]:
  "asm_text (add_thinking_delta d a) = asm_text a"
  "asm_calls (add_thinking_delta d a) = asm_calls a"
  "asm_nonempty (add_thinking_delta d a) = asm_nonempty a"
  by (auto simp: add_thinking_delta_def Let_def asm_defs flush_thinking_def thinking_text_empty
      nonempty_block_def split: option.splits)

lemma add_thinking_delta_text:
  "asm_thinking (add_thinking_delta d a)
     = asm_thinking a @ (case td_text_delta d of None \<Rightarrow> [] | Some s \<Rightarrow> s)"
  by (auto simp: add_thinking_delta_def Let_def asm_thinking_def thinking_delta_is_empty_def
      flush_thinking_def thinking_text_apply thinking_from_delta_def thinking_text_empty thinking_text_new
      split: option.splits)

lemma add_media_delta_kept [simp]:
  "asm_text (add_media_delta d a) = asm_text a"
  "asm_thinking (add_media_delta d a) = asm_thinking a"
  "asm_calls (add_media_delta d a) = asm_calls a"
  "asm_nonempty (add_media_delta d a) = asm_nonempty a"
  by (auto simp: add_media_delta_def Let_def asm_defs flush_media_def nonempty_block_def
      split: option.splits)

lemma push_text_kept [simp]:
  "asm_text (push_text t a) = asm_text a @ t"
  "asm_thinking (push_text t a) = asm_thinking a"
  "asm_calls (push_text t a) = asm_calls a"
  "asm_nonempty (push_text t a) = asm_nonempty a"
  by (simp_all add: push_text_def asm_defs)

lemma push_tool_call_kept [simp]:
  "asm_text (push_tool_call c a) = asm_text a"
  "asm_thinking (push_tool_call c a) = asm_thinking a"
  "asm_calls (push_tool_call c a) = asm_calls a @ [c]"
  "asm_nonempty (push_tool_call c a) = asm_nonempty a"
  by (simp_all add: push_tool_call_def asm_defs nonempty_block_def)

lemma assemble_event_kept:
  "assemble_event ev a = Inr b \<Longrightarrow>
     asm_text b = asm_text a @ event_text ev
     \<and> asm_thinking b = asm_thinking a @ event_thinking ev
     \<and> asm_calls b = asm_calls a @ event_calls ev
     \<and> asm_nonempty b = asm_nonempty a"
  by (induction ev a rule: assemble_event.induct)
    (auto simp: add_thinking_delta_text split: if_splits)

lemma assemble_events_kept:
  "assemble_events evs a = Inr b \<Longrightarrow>
     asm_text b = asm_text a @ concat (map event_text evs)
     \<and> asm_thinking b = asm_thinking a @ concat (map event_thinking evs)
     \<and> asm_calls b = asm_calls a @ concat (map event_calls evs)
     \<and> asm_nonempty b = asm_nonempty a"
proof (induction evs a rule: assemble_events.induct)
  case (2 ev evs a)
  then show ?case
    by (cases "assemble_event ev a") (auto dest!: assemble_event_kept)
qed simp

lemma assembly_start_holds [simp]:
  "asm_text assembly_start = []" "asm_thinking assembly_start = []"
  "asm_calls assembly_start = []" "asm_nonempty assembly_start"
  by (simp_all add: assembly_start_def asm_defs)

lemma assistant_contentE:
  assumes "assistant_content evs = Inr content"
  obtains a where "assemble_events evs assembly_start = Inr a"
    and "content = as_content (flush_media (flush_text (flush_thinking a)))"
  using assms by (auto simp: assistant_content_def split: sum.splits)

text \<open>C14: an assistant message loses nothing of the model's stream and adds nothing: its visible
  text, its thinking text and its tool calls, read in order, are those of the events in order.\<close>

theorem assistant_content_complete:
  assumes "assistant_content evs = Inr content"
  shows "concat (map block_text content) = concat (map event_text evs)
    \<and> concat (map block_thinking content) = concat (map event_thinking evs)
    \<and> concat (map block_calls content) = concat (map event_calls evs)"
proof -
  from assms obtain a where run: "assemble_events evs assembly_start = Inr a"
    and content: "content = as_content (flush_media (flush_text (flush_thinking a)))"
    by (rule assistant_contentE)
  let ?b = "flush_media (flush_text (flush_thinking a))"
  have "asm_text ?b = concat (map event_text evs)" "asm_thinking ?b = concat (map event_thinking evs)"
    "asm_calls ?b = concat (map event_calls evs)"
    using assemble_events_kept [OF run] by simp_all
  then show ?thesis by (simp add: asm_text_def asm_thinking_def asm_calls_def content)
qed

definition sample_call_event :: tool_call where
  "sample_call_event = \<lparr>tc_id = ''c1'', tc_name = ''ls'', tc_arguments = JNull\<rparr>"

theorem assistant_content_complete_witness:
  "concat (map block_text [Text ''hello'', ToolCallBlock sample_call_event, Text ''!'']) = ''hello!''
   \<and> concat (map block_calls [Text ''hello'', ToolCallBlock sample_call_event, Text ''!''])
     = [sample_call_event]"
  using assistant_content_complete
    [of "[TextDelta ''hel'', TextDelta ''lo'', ToolCallEvent sample_call_event, TextDelta ''!'']"
        "[Text ''hello'', ToolCallBlock sample_call_event, Text ''!'']"]
  by (simp add: assistant_content_def assembly_start_def flush_text_def flush_thinking_def
      flush_media_def push_text_def push_tool_call_def)

text \<open>no block of an assistant message is empty: no text block without text, no thinking block
  without text, raw payload, replay descriptor or metadata.\<close>

theorem assistant_content_no_empty_block:
  assumes "assistant_content evs = Inr content"
  shows "\<forall>b \<in> set content. nonempty_block b"
proof -
  from assms obtain a where run: "assemble_events evs assembly_start = Inr a"
    and content: "content = as_content (flush_media (flush_text (flush_thinking a)))"
    by (rule assistant_contentE)
  have "asm_nonempty (flush_media (flush_text (flush_thinking a)))"
    using assemble_events_kept [OF run] by simp
  then show ?thesis by (simp add: content asm_nonempty_def list_all_iff)
qed

theorem assistant_content_no_empty_block_witness:
  "assistant_content [TextDelta [], TextDelta ''a'', Finished Stop] = Inr [Text ''a'']
   \<and> nonempty_block (Text ''a'')"
proof -
  have content: "assistant_content [TextDelta [], TextDelta ''a'', Finished Stop] = Inr [Text ''a'']"
    by (simp add: assistant_content_def assembly_start_def flush_text_def flush_thinking_def
        flush_media_def push_text_def)
  with assistant_content_no_empty_block [OF content] show ?thesis by simp
qed

text \<open>The assembly fails exactly when the stream reports a failure.\<close>

lemma assemble_events_Inl_iff:
  "(\<exists>e. assemble_events evs a = Inl e) \<longleftrightarrow> (\<exists>msg. Failed msg \<in> set evs)"
proof (induction evs a rule: assemble_events.induct)
  case (2 ev evs a)
  then show ?case by (cases ev) (auto simp: Let_def)
qed simp

lemma assistant_content_fails_iff:
  "(\<exists>e. assistant_content evs = Inl e) \<longleftrightarrow> (\<exists>msg. Failed msg \<in> set evs)"
  using assemble_events_Inl_iff [of evs assembly_start]
  by (auto simp: assistant_content_def split: sum.splits)

end
