(* ===== verification/Standard_Phases.thy ===== *)
theory Standard_Phases
  imports Providers Assistant
begin

text \<open>
  The standard phases of a turn but the execution of tools: \<open>src/phase/standard.rs\<close>,
  \<open>src/phase/hooks.rs\<close>, \<open>assistant_commit\<close> of \<open>src/phase/assistant.rs\<close> and
  \<open>collect_model_stream\<close> of \<open>src/provider_utils.rs\<close>. A phase reads the runtime and its context,
  works on the world and returns a \<open>phase_output\<close>; only the model phase emits events.
\<close>

section \<open>Phase hooks\<close>

text \<open>
  The loop all four hook points share: before each hook the token is checked, and a hook that
  returns a value replaces the current one.
\<close>

definition run_hooks ::
  "('s, 'w) agent_runtime \<Rightarrow> ('h \<Rightarrow> 'a \<Rightarrow> ('w, agent_core_error, 'a option) eff) \<Rightarrow> 'h list
     \<Rightarrow> 'a \<Rightarrow> ('w, agent_core_error, 'a) eff" where
  "run_hooks rt call hooks =
     for_fold hooks (\<lambda>hook current.
       and_then (throw_if_cancelled rt) (\<lambda>_.
       and_then (call hook current) (\<lambda>next_value.
       ok (case next_value of Some x \<Rightarrow> x | None \<Rightarrow> current))))"

definition hook_scope_of :: "phase_context \<Rightarrow> hook_scope" where
  "hook_scope_of c =
     \<lparr>hs_run_id = pc_run_id c, hs_turn_id = pc_turn_id c, hs_state = pc_state c\<rparr>"

definition before_model_request ::
  "('s, 'w) agent_runtime \<Rightarrow> phase_context \<Rightarrow> model_request
     \<Rightarrow> ('w, agent_core_error, model_request) eff" where
  "before_model_request rt c =
     run_hooks rt (\<lambda>hook. ph_before_model_request hook (hook_scope_of c)) (rt_phase_hooks rt)"

definition after_model_request ::
  "('s, 'w) agent_runtime \<Rightarrow> phase_context \<Rightarrow> model_request \<Rightarrow> model_stream_event list
     \<Rightarrow> ('w, agent_core_error, model_stream_event list) eff" where
  "after_model_request rt c request =
     run_hooks rt (\<lambda>hook. ph_after_model_request hook (hook_scope_of c) request) (rt_phase_hooks rt)"

definition before_assistant_commit ::
  "('s, 'w) agent_runtime \<Rightarrow> phase_context \<Rightarrow> model_stream_event list
     \<Rightarrow> ('w, agent_core_error, model_stream_event list) eff" where
  "before_assistant_commit rt c =
     run_hooks rt (\<lambda>hook. ph_before_assistant_commit hook (hook_scope_of c)) (rt_phase_hooks rt)"

definition after_assistant_commit ::
  "('s, 'w) agent_runtime \<Rightarrow> phase_context \<Rightarrow> agent_message
     \<Rightarrow> ('w, agent_core_error, agent_message) eff" where
  "after_assistant_commit rt c =
     run_hooks rt (\<lambda>hook. ph_after_assistant_commit hook (hook_scope_of c)) (rt_phase_hooks rt)"

section \<open>Input and context\<close>

definition input_ingest :: "phase_context \<Rightarrow> phase_output" where
  "input_ingest c =
     (let output = output_from_scratch (pc_scratch c)
      in case sc_input (pc_scratch c) of
           Some input \<Rightarrow>
             if pc_turn_id c = 1
             then output\<lparr>po_effects := po_effects output @ [AppendMessage input]\<rparr> else output
         | None \<Rightarrow> output)"

definition context_prepare ::
  "('s, 'w) agent_runtime \<Rightarrow> phase_context \<Rightarrow> ('w, agent_core_error, phase_output) eff" where
  "context_prepare rt c =
     for_fold (rt_context_providers rt) (\<lambda>provider output.
       and_then (throw_if_cancelled rt) (\<lambda>_.
       and_then (cp_prepare_context provider
         \<lparr>cr_run_id = pc_run_id c, cr_turn_id = pc_turn_id c, cr_state = pc_state c\<rparr>) (\<lambda>effects.
       ok (output\<lparr>po_effects := po_effects output @ effects\<rparr>))))
     (output_from_scratch (pc_scratch c))"

section \<open>Compaction\<close>

fun compaction_mode_json :: "context_compaction_mode \<Rightarrow> json" where
  "compaction_mode_json PersistentState = JString ''persistent_state''"
| "compaction_mode_json RequestOnly = JString ''request_only''"

definition compaction_metadata :: "context_compaction_config \<Rightarrow> nat \<Rightarrow> bool \<Rightarrow> json_map" where
  "compaction_metadata cfg tokens_before is_split_turn =
     bt_insert ''isSplitTurn'' (JBool is_split_turn)
       (bt_insert ''tokensBefore'' (JInt (int tokens_before))
         (bt_insert ''mode'' (compaction_mode_json (cfg_mode cfg)) (cfg_metadata cfg)))"

definition compaction_request ::
  "phase_context \<Rightarrow> context_compaction_config \<Rightarrow> compaction_plan \<Rightarrow> context_compaction_request" where
  "compaction_request c cfg p =
     \<lparr>ccr_run_id = pc_run_id c, ccr_turn_id = pc_turn_id c,
      ccr_current_messages = st_messages (pc_state c),
      ccr_previous_summary = pl_previous_summary p,
      ccr_messages_to_summarize = pl_messages_to_summarize p,
      ccr_turn_prefix_messages = pl_turn_prefix_messages p,
      ccr_retained_messages = pl_retained_messages p,
      ccr_token_budget = cfg_summary_budget_tokens cfg,
      ccr_tokens_before = pl_tokens_before p,
      ccr_estimated_retained_tokens = pl_estimated_retained_tokens p,
      ccr_is_split_turn = pl_is_split_turn p, ccr_metadata = cfg_metadata cfg\<rparr>"

text \<open>The part of \<open>context_compact\<close> after the compactor has answered.\<close>

definition compaction_result ::
  "phase_context \<Rightarrow> 'w context_compaction_runtime \<Rightarrow> compaction_plan \<Rightarrow> context_compaction_output
     \<Rightarrow> phase_output result" where
  "compaction_result c cx p answer =
     (let cfg = cx_config cx;
          output = output_from_scratch (pc_scratch c);
          metadata = compaction_metadata cfg (pl_tokens_before p) (pl_is_split_turn p)
      in case answer of
        CompactionSummary summary result_metadata \<Rightarrow>
          if is_blank summary
          then Inl (PhaseError ''compaction summarizer returned an empty summary'')
          else
            let metadata' = bt_extend metadata result_metadata;
                summary_message =
                  compaction_summary_message (pc_run_id c) (pc_turn_id c) summary metadata';
                compacted = compacted_messages summary_message (pl_retained_messages p);
                tokens_after = estimate_messages_tokens (cx_estimate_message_tokens cx) compacted
            in (case cfg_mode cfg of
                  PersistentState \<Rightarrow>
                    Inr (output\<lparr>po_effects := [CompactMessages
                      \<lparr>mc_summary_message = summary_message,
                       mc_retained_message_ids = pl_retained_message_ids p,
                       mc_dropped_message_ids = pl_dropped_message_ids p,
                       mc_tokens_before = pl_tokens_before p, mc_tokens_after = tokens_after,
                       mc_metadata = metadata'\<rparr>]\<rparr>)
                | RequestOnly \<Rightarrow>
                    Inr (output\<lparr>po_scratch := (po_scratch output)
                      \<lparr>sc_request_messages_override := Some compacted\<rparr>\<rparr>))
      | CompactionReplacement replacement_messages result_metadata \<Rightarrow>
          if replacement_messages = []
          then Inl (PhaseError ''context compactor returned no replacement messages'')
          else
            let metadata' = bt_extend metadata result_metadata;
                tokens_after =
                  estimate_messages_tokens (cx_estimate_message_tokens cx) replacement_messages
            in (case cfg_mode cfg of
                  PersistentState \<Rightarrow>
                    Inr (output\<lparr>po_effects := [ReplaceMessages
                      \<lparr>mp_replacement_messages = replacement_messages,
                       mp_replaced_message_ids = map msg_id (st_messages (pc_state c)),
                       mp_tokens_before = pl_tokens_before p, mp_tokens_after = tokens_after,
                       mp_metadata = metadata'\<rparr>]\<rparr>)
                | RequestOnly \<Rightarrow>
                    Inr (output\<lparr>po_scratch := (po_scratch output)
                      \<lparr>sc_request_messages_override := Some replacement_messages\<rparr>\<rparr>)))"

definition context_compact ::
  "('s, 'w) agent_runtime \<Rightarrow> phase_context \<Rightarrow> ('w, agent_core_error, phase_output) eff" where
  "context_compact rt c =
     (case rt_context_compaction rt of
        None \<Rightarrow> ok (output_from_scratch (pc_scratch c))
      | Some cx \<Rightarrow>
          and_then (throw_if_cancelled rt) (\<lambda>_.
          and_then (lift_result (plan_compaction (cx_config cx) (cx_estimate_message_tokens cx)
            (st_messages (pc_state c)))) (\<lambda>decision.
          case decision of
            Skip _ \<Rightarrow> ok (output_from_scratch (pc_scratch c))
          | Compact p \<Rightarrow>
              and_then (cx_compact cx (compaction_request c (cx_config cx) p)) (\<lambda>answer.
              lift_result (compaction_result c cx p answer)))))"

section \<open>The model\<close>

definition model_request_prepare ::
  "('s, 'w) agent_runtime \<Rightarrow> phase_context \<Rightarrow> ('w, agent_core_error, phase_output) eff" where
  "model_request_prepare rt c =
     (let scratch = pc_scratch c;
          request = \<lparr>mr_run_id = pc_run_id c, mr_turn_id = pc_turn_id c,
            mr_messages = (case sc_request_messages_override scratch of
                             Some ms \<Rightarrow> ms | None \<Rightarrow> st_messages (pc_state c)),
            mr_context = bt_collect (st_context (pc_state c)),
            mr_tools = map tp_spec (tool_specs rt), mr_metadata = []\<rparr>
      in and_then (before_model_request rt c request) (\<lambda>request'.
         ok (output_from_scratch (scratch
           \<lparr>sc_request_messages_override := None, sc_model_request := Some request'\<rparr>))))"

text \<open>
  \<open>collect_model_stream\<close>: the events given to the sink are kept; they replace the returned ones
  when there are any. \<open>emitted\<close> holds those seen so far.
\<close>

primrec collect_stream ::
  "('w, model_stream_event list) stream \<Rightarrow> model_stream_event list
     \<Rightarrow> ('w, model_stream_event list \<times> bool) stream" where
  "collect_stream (Done w r) emitted =
     Done w (case r of
       Inl e \<Rightarrow> Inl e
     | Inr returned \<Rightarrow> Inr (if emitted = [] then (returned, False) else (emitted, True)))"
| "collect_stream (Emit w ev k) emitted =
     Emit w ev (\<lambda>w' r. collect_stream (k w' r) (emitted @ [ev]))"

definition collect_model_stream ::
  "'w model_provider \<Rightarrow> model_request \<Rightarrow> 'w \<Rightarrow> ('w, model_stream_event list \<times> bool) stream" where
  "collect_model_stream provider request w =
     collect_stream (mpv_stream_model provider request w) []"

text \<open>The part of \<open>model_stream\<close> after the stream has been collected.\<close>

definition model_stream_output ::
  "('s, 'w) agent_runtime \<Rightarrow> phase_context \<Rightarrow> model_request \<Rightarrow> model_stream_event list \<times> bool
     \<Rightarrow> ('w, agent_core_error, phase_output) eff" where
  "model_stream_output rt c request = (\<lambda>(events, emitted).
     let output = (output_from_scratch (pc_scratch c))
           \<lparr>po_stream_events := (if emitted then [] else events)\<rparr>
     in and_then
          (if rt_phase_hooks rt \<noteq> [] then after_model_request rt c request events else ok events)
          (\<lambda>events'. ok (output\<lparr>po_scratch := (po_scratch output)\<lparr>sc_model_events := events'\<rparr>\<rparr>)))"

definition model_stream ::
  "('s, 'w) agent_runtime \<Rightarrow> phase_context \<Rightarrow> 'w \<Rightarrow> ('w, phase_output) stream" where
  "model_stream rt c w =
     (case throw_if_cancelled rt w of
        (w', Inl e) \<Rightarrow> Done w' (Inl e)
      | (w', Inr _) \<Rightarrow>
          (case default_model_provider rt of
             Inl e \<Rightarrow> Done w' (Inl e)
           | Inr provider \<Rightarrow>
               (case sc_model_request (pc_scratch c) of
                  None \<Rightarrow> Done w' (Inl (PhaseError ''model request was not prepared''))
                | Some request \<Rightarrow>
                    stream_then (collect_model_stream provider request w') (\<lambda>w'' r.
                      case r of
                        Inl e \<Rightarrow> Done w'' (Inl e)
                      | Inr collected \<Rightarrow> quiet (model_stream_output rt c request collected) w''))))"

section \<open>The assistant message\<close>

definition assistant_commit ::
  "('s, 'w) agent_runtime \<Rightarrow> phase_context \<Rightarrow> ('w, agent_core_error, phase_output) eff" where
  "assistant_commit rt c =
     (let has_hooks = (rt_phase_hooks rt \<noteq> []);
          scratch = pc_scratch c
      in and_then
           (if has_hooks then before_assistant_commit rt c (sc_model_events scratch)
            else ok (sc_model_events scratch)) (\<lambda>events.
         and_then (lift_result (assistant_content events)) (\<lambda>content.
         let message = assistant_message
               (''assistant-'' @ pc_run_id c @ ''-'' @ show_nat (pc_turn_id c)) content
         in and_then
              (if has_hooks then after_assistant_commit rt c message else ok message) (\<lambda>message'.
            ok ((output_from_scratch
              (scratch\<lparr>sc_model_events := events, sc_assistant_message := Some message'\<rparr>))
                \<lparr>po_effects := [AppendMessage message']\<rparr>)))))"

section \<open>Tool calls and the decision\<close>

definition message_tool_calls :: "agent_message \<Rightarrow> tool_call list" where
  "message_tool_calls m =
     List.map_filter (\<lambda>b. case b of ToolCallBlock c \<Rightarrow> Some c | _ \<Rightarrow> None) (msg_content m)"

definition tool_call_resolve :: "phase_context \<Rightarrow> phase_output" where
  "tool_call_resolve c =
     (let output = output_from_scratch (pc_scratch c)
      in case sc_assistant_message (pc_scratch c) of
           None \<Rightarrow> output
         | Some message \<Rightarrow>
             output
               \<lparr>po_scratch := (po_scratch output)
                  \<lparr>sc_tool_calls := sc_tool_calls (po_scratch output) @ message_tool_calls message\<rparr>,
                po_resolved_tool_calls := message_tool_calls message\<rparr>)"

definition turn_decision :: "('s, 'w) agent_runtime \<Rightarrow> phase_context \<Rightarrow> phase_output" where
  "turn_decision rt c =
     (let output = output_from_scratch (pc_scratch c)
      in output\<lparr>po_scratch := (po_scratch output)
           \<lparr>sc_decision := Some
              (if sc_tool_calls (po_scratch output) = [] \<or> rt_max_turns rt \<le> pc_turn_id c
               then StopTurn else Continue)\<rparr>\<rparr>)"

end
