(* ===== verification/Tool_Phase.thy ===== *)
theory Tool_Phase
  imports Standard_Phases
begin

text \<open>
  The tool phase (\<open>src/phase/tool.rs\<close>): the preflight of every call through the before-hooks,
  which may deny it or ask for an approval, the execution of the calls that are ready, in order or
  as tasks of a \<open>JoinSet\<close>, and the second half of a phase that was paused for approvals.
  A spawned task runs here without another task between its steps; the order in which the tasks
  run, and which one is lost, is read from the world (\<open>rt_schedule\<close>).
\<close>

section \<open>Outputs made by the runtime\<close>

definition error_tool_output :: "string \<Rightarrow> tool_output" where
  "error_tool_output message =
     \<lparr>to_content = [Text message], to_details = json_object [], to_is_error = True, to_updates = []\<rparr>"

fun permission_outcome_str :: "tool_permission_outcome \<Rightarrow> string" where
  "permission_outcome_str Allow = ''allow''"
| "permission_outcome_str Deny = ''deny''"

text \<open>The derived \<open>Serialize\<close> of a decision, camelCase names, absent options as null.\<close>

definition permission_decision_json :: "tool_permission_decision \<Rightarrow> json" where
  "permission_decision_json d =
     json_object
       [(''outcome'', JString (permission_outcome_str (dec_outcome d))),
        (''reason'', json_of_option JString (dec_reason d)),
        (''approver'', json_of_option JString (dec_approver d)),
        (''metadata'', dec_metadata d)]"

definition denied_tool_output :: "tool_permission_decision \<Rightarrow> tool_output" where
  "denied_tool_output d =
     (error_tool_output (case dec_reason d of Some r \<Rightarrow> r | None \<Rightarrow> ''tool execution was denied''))
       \<lparr>to_details := json_object [(''permissionDecision'', permission_decision_json d)]\<rparr>"

section \<open>Preflights\<close>

definition tool_approval_id :: "string \<Rightarrow> nat \<Rightarrow> string \<Rightarrow> nat \<Rightarrow> string" where
  "tool_approval_id run_id turn_id tool_call_id hook_index =
     ''approval-'' @ run_id @ ''-'' @ show_nat turn_id @ ''-'' @ tool_call_id @ ''-''
       @ show_nat hook_index"

text \<open>\<open>ToolPreflightContext\<close>; the handles and the token come from the runtime.\<close>

record tool_preflight_context =
  tpc_run_id :: string
  tpc_turn_id :: nat
  tpc_state :: agent_state

type_synonym preflight_result = "tool_approval_preflight \<times> tool_approval_request option"

text \<open>The loop over the hooks that \<open>start_hook_index\<close> leaves, each with its index.\<close>

fun preflight_hooks ::
  "tool_preflight_context \<Rightarrow> tool_call \<Rightarrow> tool_spec \<Rightarrow> tool_permission_audit
     \<Rightarrow> (nat \<times> 'w tool_call_hook) list \<Rightarrow> ('w, agent_core_error, preflight_result) eff" where
  "preflight_hooks pc call spec audit [] =
     ok (\<lparr>pf_tool_call = call, pf_permission_audit = audit, pf_status = Ready\<rparr>, None)"
| "preflight_hooks pc call spec audit ((hook_index, hook) # hooks) =
     and_then (th_before_tool_call hook
       \<lparr>btc_run_id = tpc_run_id pc, btc_turn_id = tpc_turn_id pc, btc_tool_call = call,
        btc_tool_spec = spec, btc_state = tpc_state pc\<rparr>) (\<lambda>result.
     case result of
       None \<Rightarrow> preflight_hooks pc call spec audit hooks
     | Some (Decision decision) \<Rightarrow>
         (let audit' = audit\<lparr>ta_decisions :=
                ta_decisions audit @ [\<lparr>dr_hook_id = th_id hook, dr_decision = decision\<rparr>]\<rparr>
          in if dec_outcome decision = Deny
             then ok (\<lparr>pf_tool_call = call, pf_permission_audit = audit',
                       pf_status = Denied decision\<rparr>, None)
             else preflight_hooks pc call spec audit' hooks)
     | Some (Approval request) \<Rightarrow>
         (let approval_id =
                tool_approval_id (tpc_run_id pc) (tpc_turn_id pc) (tc_id call) hook_index
          in ok (\<lparr>pf_tool_call = call, pf_permission_audit = audit,
                   pf_status = Pending approval_id hook_index (th_id hook)\<rparr>,
                 Some \<lparr>tar_approval_id = approval_id, tar_tool_call = call,
                       tar_permissions = ts_permissions spec, tar_hook_id = th_id hook,
                       tar_request = request\<rparr>)))"

definition prepare_one_tool_call ::
  "('s, 'w) agent_runtime \<Rightarrow> tool_preflight_context \<Rightarrow> tool_call \<Rightarrow> nat
     \<Rightarrow> tool_permission_audit option \<Rightarrow> ('w, agent_core_error, preflight_result) eff" where
  "prepare_one_tool_call rt pc call start_hook_index audit =
     and_then (throw_if_cancelled rt) (\<lambda>_.
     and_then (lift_result (tool rt (tc_name call))) (\<lambda>t.
       let spec = tp_spec t;
           audit' = (case audit of
                       Some a \<Rightarrow> a
                     | None \<Rightarrow> \<lparr>ta_tool_call = call, ta_permissions = ts_permissions spec,
                                ta_decisions = []\<rparr>)
       in preflight_hooks pc call spec audit'
            (drop start_hook_index (enumerate 0 (rt_tool_hooks rt)))))"

definition approval_requests_of :: "preflight_result list \<Rightarrow> tool_approval_request list" where
  "approval_requests_of results = List.map_filter snd results"

definition prepare_tool_preflights_sequential ::
  "('s, 'w) agent_runtime \<Rightarrow> tool_preflight_context \<Rightarrow> tool_call list
     \<Rightarrow> ('w, agent_core_error, tool_approval_preflight list \<times> tool_approval_request list) eff" where
  "prepare_tool_preflights_sequential rt pc calls =
     for_fold calls (\<lambda>call (preflights, approval_requests).
       and_then (prepare_one_tool_call rt pc call 0 None) (\<lambda>(preflight, approval_request).
       ok (preflights @ [preflight],
           approval_requests @ (case approval_request of Some a \<Rightarrow> [a] | None \<Rightarrow> []))))
     ([], [])"

section \<open>Tasks\<close>

text \<open>
  A \<open>JoinSet\<close> over the tasks \<open>0, ..., n - 1\<close>, all spawned before the first join. \<open>join_all\<close> runs and
  joins the tasks still pending in the order of the schedule, then in index order, and returns the
  values in the order they were joined. It stops at the first task that fails or is lost; the
  tasks that were not joined are then aborted.
\<close>

fun join_all ::
  "string \<Rightarrow> (nat \<Rightarrow> ('w, agent_core_error, 'a) eff) \<Rightarrow> join_event list \<Rightarrow> nat list
     \<Rightarrow> ('w, agent_core_error, (nat \<times> 'a) list) eff" where
  "join_all what task (TaskLost reason # es) pending =
     (if pending = [] then ok []
      else err (PhaseError (''parallel '' @ what @ '' task failed: '' @ reason)))"
| "join_all what task (TaskFinished i # es) pending =
     (if i \<in> set pending
      then and_then (task i) (\<lambda>x.
           and_then (join_all what task es (filter (\<lambda>j. j \<noteq> i) pending)) (\<lambda>rest.
           ok ((i, x) # rest)))
      else join_all what task es pending)"
| "join_all what task [] [] = ok []"
| "join_all what task [] (i # pending) =
     and_then (task i) (\<lambda>x.
     and_then (join_all what task [] pending) (\<lambda>rest.
     ok ((i, x) # rest)))"

definition spawn_and_join ::
  "('s, 'w) agent_runtime \<Rightarrow> string \<Rightarrow> nat \<Rightarrow> (nat \<Rightarrow> ('w, agent_core_error, 'a) eff)
     \<Rightarrow> ('w, agent_core_error, (nat \<times> 'a) list) eff" where
  "spawn_and_join rt what n task w =
     (let (w', schedule) = rt_schedule rt n w in join_all what task schedule [0..<n] w')"

text \<open>The slots \<open>vec![None; n]\<close> filled by index, then required to be all present.\<close>

definition in_source_order :: "agent_core_error \<Rightarrow> nat \<Rightarrow> (nat \<times> 'a) list \<Rightarrow> 'a list result" where
  "in_source_order missing n joined =
     (let slots = map (map_of (rev joined)) [0..<n]
      in if None \<in> set slots then Inl missing else Inr (map the slots))"

definition prepare_tool_preflights_parallel ::
  "('s, 'w) agent_runtime \<Rightarrow> tool_preflight_context \<Rightarrow> tool_call list
     \<Rightarrow> ('w, agent_core_error, tool_approval_preflight list \<times> tool_approval_request list) eff" where
  "prepare_tool_preflights_parallel rt pc calls =
     and_then (spawn_and_join rt ''tool preflight'' (length calls)
       (\<lambda>i. prepare_one_tool_call rt pc (calls ! i) 0 None)) (\<lambda>joined.
     and_then (lift_result (in_source_order
       (PhaseError ''parallel tool preflight result missing'') (length calls) joined)) (\<lambda>results.
     ok (map fst results, approval_requests_of results)))"

definition prepare_tool_preflights ::
  "('s, 'w) agent_runtime \<Rightarrow> phase_context \<Rightarrow> tool_call list \<Rightarrow> tool_execution_mode
     \<Rightarrow> ('w, agent_core_error, tool_approval_preflight list \<times> tool_approval_request list) eff" where
  "prepare_tool_preflights rt c calls mode =
     (let pc = \<lparr>tpc_run_id = pc_run_id c, tpc_turn_id = pc_turn_id c, tpc_state = pc_state c\<rparr>
      in if mode = Parallel then prepare_tool_preflights_parallel rt pc calls
         else prepare_tool_preflights_sequential rt pc calls)"

section \<open>Execution\<close>

definition rewrite_output :: "tool_output \<Rightarrow> after_tool_call_result \<Rightarrow> tool_output" where
  "rewrite_output output rewrite =
     output
       \<lparr>to_content := (case atr_content rewrite of Some x \<Rightarrow> x | None \<Rightarrow> to_content output),
        to_details := (case atr_details rewrite of Some x \<Rightarrow> x | None \<Rightarrow> to_details output),
        to_is_error := (case atr_is_error rewrite of Some x \<Rightarrow> x | None \<Rightarrow> to_is_error output)\<rparr>"

definition run_after_hooks ::
  "('s, 'w) agent_runtime \<Rightarrow> phase_context \<Rightarrow> tool_call \<Rightarrow> tool_output
     \<Rightarrow> ('w, agent_core_error, tool_output) eff" where
  "run_after_hooks rt c call =
     for_fold (rt_tool_hooks rt) (\<lambda>hook output.
       and_then (th_after_tool_call hook
         \<lparr>atc_run_id = pc_run_id c, atc_turn_id = pc_turn_id c, atc_tool_call = call,
          atc_output = output, atc_state = pc_state c\<rparr>) (\<lambda>result.
       ok (case result of Some rewrite \<Rightarrow> rewrite_output output rewrite | None \<Rightarrow> output)))"

text \<open>The second half of \<open>execute_prepared_tool_call\<close>: the call itself and the after-hooks.\<close>

definition execute_ready_call ::
  "('s, 'w) agent_runtime \<Rightarrow> phase_context \<Rightarrow> tool_call \<Rightarrow> ('w, agent_core_error, tool_output) eff" where
  "execute_ready_call rt c call =
     and_then (lift_result (tool rt (tc_name call))) (\<lambda>t.
     and_then (try_eff (tp_execute_tool t
       \<lparr>tr_run_id = pc_run_id c, tr_turn_id = pc_turn_id c, tr_tool_call_id = tc_id call,
        tr_tool_name = tc_name call, tr_arguments = tc_arguments call,
        tr_state = pc_state c\<rparr>)) (\<lambda>result.
     and_then (case result of
         Inr output \<Rightarrow> ok output
       | Inl Aborted \<Rightarrow> err Aborted
       | Inl error \<Rightarrow> ok (error_tool_output (error_to_string error)))
     (run_after_hooks rt c call)))"

text \<open>An outcome is the output and the audit.\<close>

definition execute_prepared_tool_call ::
  "('s, 'w) agent_runtime \<Rightarrow> phase_context \<Rightarrow> tool_approval_preflight
     \<Rightarrow> ('w, agent_core_error, tool_output \<times> tool_permission_audit) eff" where
  "execute_prepared_tool_call rt c preflight =
     and_then (throw_if_cancelled rt) (\<lambda>_.
       let call = pf_tool_call preflight; audit = pf_permission_audit preflight
       in case pf_status preflight of
            Denied decision \<Rightarrow> ok (denied_tool_output decision, audit)
          | Pending _ _ _ \<Rightarrow> err (PhaseError ''cannot execute tool with pending approval'')
          | Ready \<Rightarrow> and_then (execute_ready_call rt c call) (\<lambda>output. ok (output, audit)))"

text \<open>What an execution gives: the completed outputs and audits, and the outputs in source order.\<close>

record tool_executions =
  tx_completed_outputs :: "(tool_call \<times> tool_output) list"
  tx_completed_audits :: "tool_permission_audit list"
  tx_source_order_outputs :: "(tool_call \<times> tool_output) list"

definition add_execution ::
  "tool_approval_preflight \<Rightarrow> tool_output \<times> tool_permission_audit \<Rightarrow> tool_executions
     \<Rightarrow> tool_executions" where
  "add_execution preflight outcome x =
     \<lparr>tx_completed_outputs =
        tx_completed_outputs x @ [(pf_tool_call preflight, fst outcome)],
      tx_completed_audits = tx_completed_audits x @ [snd outcome],
      tx_source_order_outputs =
        tx_source_order_outputs x @ [(pf_tool_call preflight, fst outcome)]\<rparr>"

definition execute_prepared_tools_sequential ::
  "('s, 'w) agent_runtime \<Rightarrow> phase_context \<Rightarrow> tool_approval_preflight list
     \<Rightarrow> ('w, agent_core_error, tool_executions) eff" where
  "execute_prepared_tools_sequential rt c preflights =
     for_fold preflights (\<lambda>preflight x.
       and_then (execute_prepared_tool_call rt c preflight) (\<lambda>outcome.
       ok (add_execution preflight outcome x)))
     \<lparr>tx_completed_outputs = [], tx_completed_audits = [], tx_source_order_outputs = []\<rparr>"

definition execute_prepared_tools_parallel ::
  "('s, 'w) agent_runtime \<Rightarrow> phase_context \<Rightarrow> tool_approval_preflight list
     \<Rightarrow> ('w, agent_core_error, tool_executions) eff" where
  "execute_prepared_tools_parallel rt c preflights =
     and_then (spawn_and_join rt ''tool execution'' (length preflights)
       (\<lambda>i. execute_prepared_tool_call rt c (preflights ! i))) (\<lambda>joined.
       let outputs = map (\<lambda>(i, output, audit). (i, pf_tool_call (preflights ! i), output)) joined
       in and_then (lift_result (in_source_order (PhaseError ''parallel tool result missing'')
            (length preflights) outputs)) (\<lambda>source_order.
          ok \<lparr>tx_completed_outputs = map snd outputs,
              tx_completed_audits = map (\<lambda>(i, output, audit). audit) joined,
              tx_source_order_outputs = source_order\<rparr>))"

definition execute_prepared_tools ::
  "('s, 'w) agent_runtime \<Rightarrow> phase_context \<Rightarrow> tool_execution_mode \<Rightarrow> tool_approval_preflight list
     \<Rightarrow> ('w, agent_core_error, tool_executions) eff" where
  "execute_prepared_tools rt c mode preflights =
     (if mode = Sequential then execute_prepared_tools_sequential rt c preflights
      else execute_prepared_tools_parallel rt c preflights)"

section \<open>The phase\<close>

definition set_tool_approval_pause ::
  "phase_output \<Rightarrow> string \<Rightarrow> nat \<Rightarrow> tool_execution_mode \<Rightarrow> tool_approval_preflight list
     \<Rightarrow> tool_approval_request list \<Rightarrow> phase_output" where
  "set_tool_approval_pause output run_id turn_id mode preflights approval_requests =
     output
       \<lparr>po_tool_approval_requests := approval_requests,
        po_pause := Some (PauseToolApproval
          \<lparr>co_run_id = run_id, co_turn_id = turn_id, co_phase = standard_phase_id ToolExecute,
           co_scratch = po_scratch output, co_tool_execution_mode = mode,
           co_preflights = preflights\<rparr>)\<rparr>"

definition tool_result_effect :: "string \<Rightarrow> tool_call \<times> tool_output \<Rightarrow> agent_effect" where
  "tool_result_effect run_id = (\<lambda>(call, output).
     AppendMessage (tool_result_message (''tool-result-'' @ run_id @ ''-'' @ tc_id call)
       (tc_id call) (tc_name call) output))"

definition append_tool_execution_effects ::
  "phase_output \<Rightarrow> string \<Rightarrow> (tool_call \<times> tool_output) list \<Rightarrow> phase_output" where
  "append_tool_execution_effects output run_id source_order_outputs =
     output
       \<lparr>po_scratch := (po_scratch output)
          \<lparr>sc_tool_outputs := sc_tool_outputs (po_scratch output) @ source_order_outputs\<rparr>,
        po_effects := po_effects output @ map (tool_result_effect run_id) source_order_outputs\<rparr>"

definition tool_phase_output :: "phase_output \<Rightarrow> string \<Rightarrow> tool_executions \<Rightarrow> phase_output" where
  "tool_phase_output output run_id x =
     append_tool_execution_effects
       (output\<lparr>po_completed_tool_outputs := tx_completed_outputs x,
               po_completed_tool_permission_audits := tx_completed_audits x\<rparr>)
       run_id (tx_source_order_outputs x)"

definition tool_execution_mode_for_calls ::
  "('s, 'w) agent_runtime \<Rightarrow> tool_call list \<Rightarrow> tool_execution_mode" where
  "tool_execution_mode_for_calls rt calls =
     (if rt_tool_execution_mode rt = Sequential
        \<or> list_ex (\<lambda>call. case tool rt (tc_name call) of
             Inr t \<Rightarrow> ts_execution_mode (tp_spec t) = Some Sequential | Inl _ \<Rightarrow> False) calls
      then Sequential else Parallel)"

definition tool_execute ::
  "('s, 'w) agent_runtime \<Rightarrow> phase_context \<Rightarrow> ('w, agent_core_error, phase_output) eff" where
  "tool_execute rt c =
     (let output = output_from_scratch (pc_scratch c);
          calls = sc_tool_calls (pc_scratch c);
          mode = tool_execution_mode_for_calls rt calls
      in if calls = [] then ok output
         else and_then (prepare_tool_preflights rt c calls mode)
           (\<lambda>(preflights, approval_requests).
           if approval_requests \<noteq> []
           then ok (set_tool_approval_pause output (pc_run_id c) (pc_turn_id c) mode preflights
                      approval_requests)
           else and_then (execute_prepared_tools rt c mode preflights) (\<lambda>x.
             ok (tool_phase_output output (pc_run_id c) x))))"

section \<open>Resuming\<close>

text \<open>
  The loop over the preflights of a continuation: \<open>pending\<close> holds the resolutions not used yet,
  the results so far come first.
\<close>

fun resume_preflights ::
  "('s, 'w) agent_runtime \<Rightarrow> tool_preflight_context \<Rightarrow> tool_approval_preflight list
     \<Rightarrow> tool_approval_resolution smap
     \<Rightarrow> ('w, agent_core_error, preflight_result list \<times> tool_approval_resolution smap) eff" where
  "resume_preflights rt pc [] resolutions = ok ([], resolutions)"
| "resume_preflights rt pc (p # ps) resolutions =
     (case pf_status p of
        Pending approval_id hook_index hook_id \<Rightarrow>
          (case map_of resolutions approval_id of
             None \<Rightarrow> err (PhaseError (''missing tool approval resolution for '' @ approval_id))
           | Some resolution \<Rightarrow>
               (let audit = pf_permission_audit p;
                    audit' = audit\<lparr>ta_decisions := ta_decisions audit
                      @ [\<lparr>dr_hook_id = hook_id, dr_decision = res_decision resolution\<rparr>]\<rparr>;
                    resolutions' = bt_remove approval_id resolutions
                in and_then
                     (if dec_outcome (res_decision resolution) = Deny
                      then ok (\<lparr>pf_tool_call = pf_tool_call p, pf_permission_audit = audit',
                                pf_status = Denied (res_decision resolution)\<rparr>, None)
                      else prepare_one_tool_call rt pc (pf_tool_call p) (hook_index + 1)
                             (Some audit')) (\<lambda>result.
                   and_then (resume_preflights rt pc ps resolutions') (\<lambda>(results, rest).
                   ok (result # results, rest)))))
      | _ \<Rightarrow>
          and_then (resume_preflights rt pc ps resolutions) (\<lambda>(results, rest).
          ok ((p, None) # results, rest)))"

definition resume_tool_approval_continuation ::
  "('s, 'w) agent_runtime \<Rightarrow> tool_approval_continuation \<Rightarrow> agent_state
     \<Rightarrow> tool_approval_resolution list \<Rightarrow> ('w, agent_core_error, phase_output) eff" where
  "resume_tool_approval_continuation rt k state resolutions =
     (if co_phase k \<noteq> standard_phase_id ToolExecute
      then err (PhaseError (''cannot resume approval continuation for phase '' @ co_phase k))
      else
        let pc = \<lparr>tpc_run_id = co_run_id k, tpc_turn_id = co_turn_id k, tpc_state = state\<rparr>;
            by_id = bt_collect (map (\<lambda>r. (res_approval_id r, r)) resolutions);
            c = \<lparr>pc_run_id = co_run_id k, pc_turn_id = co_turn_id k, pc_state = state,
                 pc_scratch = co_scratch k\<rparr>;
            output = output_from_scratch (co_scratch k)
        in and_then (resume_preflights rt pc (co_preflights k) by_id) (\<lambda>(results, rest).
           if rest \<noteq> []
           then err (PhaseError (''unknown tool approval resolution ids: ''
                  @ join_with '', '' (bt_keys rest)))
           else
             let preflights = map fst results; approval_requests = approval_requests_of results
             in if approval_requests \<noteq> []
                then ok (set_tool_approval_pause output (co_run_id k) (co_turn_id k)
                           (co_tool_execution_mode k) preflights approval_requests)
                else and_then (execute_prepared_tools rt c (co_tool_execution_mode k) preflights)
                  (\<lambda>x. ok (tool_phase_output output (co_run_id k) x))))"

section \<open>Running a phase\<close>

definition run_standard_phase ::
  "('s, 'w) agent_runtime \<Rightarrow> standard_phase \<Rightarrow> phase_context \<Rightarrow> 'w \<Rightarrow> ('w, phase_output) stream" where
  "run_standard_phase rt p c =
     (case p of
        InputIngest \<Rightarrow> quiet (ok (input_ingest c))
      | ContextPrepare \<Rightarrow> quiet (context_prepare rt c)
      | ContextCompact \<Rightarrow> quiet (context_compact rt c)
      | ModelRequestPrepare \<Rightarrow> quiet (model_request_prepare rt c)
      | ModelStream \<Rightarrow> model_stream rt c
      | AssistantCommit \<Rightarrow> quiet (assistant_commit rt c)
      | ToolCallResolve \<Rightarrow> quiet (ok (tool_call_resolve c))
      | ToolExecute \<Rightarrow> quiet (tool_execute rt c)
      | TurnDecision \<Rightarrow> quiet (ok (turn_decision rt c)))"

definition run_phase ::
  "('s, 'w) agent_runtime \<Rightarrow> 'w phase_node \<Rightarrow> phase_context \<Rightarrow> 'w \<Rightarrow> ('w, phase_output) stream" where
  "run_phase rt phase c =
     (case phase of StandardPhase p \<Rightarrow> run_standard_phase rt p c | CustomPhase _ f \<Rightarrow> f c)"

end
