(* ===== verification/Recording.thy ===== *)
theory Recording
  imports Providers
begin

text \<open>
  The recording half of \<open>src/runtime/run_loop.rs\<close>: the machine a run works on (the event store,
  the two counters, the state and the world) and the functions that record events, commit effects
  and account for a phase's output. The counters are \<open>nat\<close>; they count events and runs and stay
  far below \<open>2^64\<close>. The section on consistency shows that whatever the store, the sink and the
  phases do, the state in memory is the replay of the run's log.
\<close>

record ('s, 'w) machine =
  m_store :: 's
  m_event_counter :: nat
  m_run_counter :: nat
  m_state :: agent_state
  m_world :: 'w

type_synonym ('s, 'w, 'a) run_eff = "(('s, 'w) machine, agent_core_error, 'a) eff"

text \<open>A computation on the world alone, and reading the state.\<close>

definition in_world :: "('w, agent_core_error, 'a) eff \<Rightarrow> ('s, 'w, 'a) run_eff" where
  "in_world = zoom m_world (\<lambda>w m. m\<lparr>m_world := w\<rparr>)"

definition in_store :: "('s, agent_core_error, 'a) eff \<Rightarrow> ('s, 'w, 'a) run_eff" where
  "in_store = zoom m_store (\<lambda>s m. m\<lparr>m_store := s\<rparr>)"

definition get_state :: "('s, 'w, agent_state) run_eff" where
  "get_state m = (m, Inr (m_state m))"

section \<open>Recording events\<close>

text \<open>\<open>event_counter.fetch_add(1) + 1\<close>.\<close>

definition next_sequence :: "('s, 'w, nat) run_eff" where
  "next_sequence m =
     (let n = m_event_counter m + 1 in (m\<lparr>m_event_counter := n\<rparr>, Inr n))"

text \<open>\<open>apply_event(state, &event)?\<close>.\<close>

definition apply_to_state :: "agent_event \<Rightarrow> ('s, 'w, unit) run_eff" where
  "apply_to_state ev m =
     (case apply_event (m_state m) ev of
        Inl e \<Rightarrow> (m, Inl e)
      | Inr st \<Rightarrow> (m\<lparr>m_state := st\<rparr>, Inr ()))"

text \<open>\<open>if let Some(sink) = sink { sink(event).await.map_err(...)?; }\<close>.\<close>

definition give_to_sink :: "'w event_sink option \<Rightarrow> agent_event \<Rightarrow> ('s, 'w, unit) run_eff" where
  "give_to_sink sink ev =
     (case sink of
        None \<Rightarrow> ok ()
      | Some f \<Rightarrow>
          and_then (try_eff (in_world (f ev))) (\<lambda>r.
            case r of Inl e \<Rightarrow> err (EventSink (error_to_string e)) | Inr _ \<Rightarrow> ok ()))"

definition record_event ::
  "('s, 'w) agent_runtime \<Rightarrow> string \<Rightarrow> nat option \<Rightarrow> string option \<Rightarrow> agent_event_kind
     \<Rightarrow> 'w event_sink option \<Rightarrow> ('s, 'w, unit) run_eff" where
  "record_event rt run_id turn_id phase kind sink =
     and_then next_sequence (\<lambda>sequence.
       let event = \<lparr>ev_sequence = sequence, ev_run_id = run_id, ev_turn_id = turn_id,
                    ev_phase = phase, ev_kind = kind\<rparr>
       in and_then (in_store (es_append (rt_event_store rt) event)) (\<lambda>_.
          and_then (apply_to_state event) (\<lambda>_.
          give_to_sink sink event)))"

text \<open>The sink of a phase: it records a model event without touching the state.\<close>

definition model_stream_sink ::
  "('s, 'w) agent_runtime \<Rightarrow> string \<Rightarrow> nat \<Rightarrow> string \<Rightarrow> 'w event_sink option
     \<Rightarrow> model_stream_event \<Rightarrow> ('s, 'w, unit) run_eff" where
  "model_stream_sink rt run_id turn_id phase sink model_event =
     and_then next_sequence (\<lambda>sequence.
       let event = \<lparr>ev_sequence = sequence, ev_run_id = run_id, ev_turn_id = Some turn_id,
                    ev_phase = Some phase,
                    ev_kind = ModelStreamEvent (rt_default_model_provider rt) model_event\<rparr>
       in and_then (in_store (es_append (rt_event_store rt) event)) (\<lambda>_.
          give_to_sink sink event))"

section \<open>Committing effects\<close>

definition commit_effect ::
  "('s, 'w) agent_runtime \<Rightarrow> string \<Rightarrow> nat option \<Rightarrow> string option \<Rightarrow> agent_effect
     \<Rightarrow> 'w event_sink option \<Rightarrow> ('s, 'w, unit) run_eff" where
  "commit_effect rt run_id turn_id phase effect sink =
     and_then (record_event rt run_id turn_id phase (EffectProposed effect) sink) (\<lambda>_.
     and_then get_state (\<lambda>state.
       case validate_effect_for_state state effect of
         Inr _ \<Rightarrow> record_event rt run_id turn_id phase (EffectCommitted effect) sink
       | Inl error \<Rightarrow>
           and_then (record_event rt run_id turn_id phase
             (EffectRejected effect (error_to_string error)) sink) (\<lambda>_. err error)))"

definition commit_queued_messages ::
  "('s, 'w) agent_runtime \<Rightarrow> string \<Rightarrow> nat option \<Rightarrow> agent_message list
     \<Rightarrow> 'w event_sink option \<Rightarrow> ('s, 'w, unit) run_eff" where
  "commit_queued_messages rt run_id turn_id messages sink =
     for_each messages (\<lambda>message.
       commit_effect rt run_id turn_id None (AppendMessage message) sink)"

definition queued_messages_into_messages :: "queued_agent_message list \<Rightarrow> agent_message list" where
  "queued_messages_into_messages messages = map qm_message messages"

definition split_user_input_messages ::
  "queued_agent_message list \<Rightarrow> queued_agent_message list \<times> queued_agent_message list" where
  "split_user_input_messages messages =
     (filter (\<lambda>m. qm_intent m = Observation) messages,
      filter (\<lambda>m. qm_intent m \<noteq> Observation) messages)"

section \<open>The output of a phase\<close>

datatype phase_record_result = PhaseOutputRecorded phase_output | PhasePaused

text \<open>The body of the loop over the completed tool outputs.\<close>

definition record_tool_output ::
  "('s, 'w) agent_runtime \<Rightarrow> string \<Rightarrow> nat \<Rightarrow> string \<Rightarrow> 'w event_sink option
     \<Rightarrow> tool_permission_audit list \<Rightarrow> nat \<times> tool_call \<times> tool_output \<Rightarrow> ('s, 'w, unit) run_eff" where
  "record_tool_output rt run_id turn_id phase sink audits = (\<lambda>(index, tool_call, tool_output).
     let record = (\<lambda>kind. record_event rt run_id (Some turn_id) (Some phase) kind sink)
     in and_then
          (if index < length audits
           then let audit = audits ! index; audited = ta_tool_call audit
                in if tc_id audited \<noteq> tc_id tool_call \<or> tc_name audited \<noteq> tc_name tool_call
                   then err (PhaseError (''tool permission audit for '' @ tc_id audited
                          @ '' does not match tool output '' @ tc_id tool_call))
                   else and_then (record (ToolPermissionRequested audited (ta_permissions audit)))
                     (\<lambda>_. for_each (ta_decisions audit) (\<lambda>d.
                        record (ToolPermissionDecided (tc_id audited) (tc_name audited)
                          (dr_hook_id d) (dr_decision d))))
           else ok ())
          (\<lambda>_. and_then (record (ToolExecutionStarted (tc_id tool_call) (tc_name tool_call)))
          (\<lambda>_. and_then (for_each (to_updates tool_output) (\<lambda>update.
                  record (ToolExecutionUpdate (tc_id tool_call) update)))
          (\<lambda>_. record (ToolExecutionCompleted (tc_id tool_call) tool_output)))))"

definition record_phase_output ::
  "('s, 'w) agent_runtime \<Rightarrow> string \<Rightarrow> nat \<Rightarrow> string \<Rightarrow> phase_output \<Rightarrow> 'w event_sink option
     \<Rightarrow> ('s, 'w, phase_record_result) run_eff" where
  "record_phase_output rt run_id turn_id phase output sink =
     (let record = (\<lambda>kind. record_event rt run_id (Some turn_id) (Some phase) kind sink);
          outputs = (if po_completed_tool_outputs output = [] then po_tool_outputs output
                     else po_completed_tool_outputs output);
          audits = (if po_completed_tool_permission_audits output = []
                    then po_tool_permission_audits output
                    else po_completed_tool_permission_audits output)
      in and_then (for_each (po_stream_events output) (\<lambda>ev.
             record (ModelStreamEvent (rt_default_model_provider rt) ev)))
         (\<lambda>_. and_then (for_each (po_resolved_tool_calls output) (\<lambda>tool_call.
             record (ToolCallResolved tool_call)))
         (\<lambda>_. if audits \<noteq> [] \<and> length audits \<noteq> length outputs
              then err (PhaseError (''tool permission audit count '' @ show_nat (length audits)
                     @ '' does not match tool output count '' @ show_nat (length outputs)))
              else and_then (for_each (enumerate 0 outputs)
                     (record_tool_output rt run_id turn_id phase sink audits))
         (\<lambda>_. and_then (for_each (po_effects output) (\<lambda>effect.
             commit_effect rt run_id (Some turn_id) (Some phase) effect sink))
         (\<lambda>_. case po_pause output of
                Some reason \<Rightarrow>
                  and_then (for_each (po_tool_approval_requests output) (\<lambda>approval.
                    record (ToolApprovalRequested approval)))
                  (\<lambda>_. and_then (record (RunPaused reason)) (\<lambda>_. ok PhasePaused))
              | None \<Rightarrow> ok (PhaseOutputRecorded (output\<lparr>po_effects := []\<rparr>)))))))"

section \<open>The end of a run\<close>

definition record_run_error ::
  "('s, 'w) agent_runtime \<Rightarrow> string \<Rightarrow> 'w event_sink option \<Rightarrow> agent_core_error
     \<Rightarrow> ('s, 'w, agent_core_error) run_eff" where
  "record_run_error rt run_id sink error =
     (case error of
        Aborted \<Rightarrow>
          and_then (record_event rt run_id None None RunAborted sink) (\<lambda>_. ok Aborted)
      | EventSink message \<Rightarrow>
          and_then (record_event rt run_id None None
            (RunFailed (''event sink failed: '' @ message)) None) (\<lambda>_. ok (EventSink message))
      | _ \<Rightarrow>
          and_then (record_event rt run_id None None (RunFailed (error_to_string error)) sink)
            (\<lambda>_. ok error))"

section \<open>Counters and identifiers\<close>

definition run_id_of :: "string option \<Rightarrow> nat \<Rightarrow> string" where
  "run_id_of run_id_prefix i =
     (case run_id_prefix of
        Some p \<Rightarrow> ''run-'' @ p @ ''-'' @ show_nat i
      | None \<Rightarrow> ''run-'' @ show_nat i)"

definition next_run_id :: "('s, 'w) agent_runtime \<Rightarrow> ('s, 'w, string) run_eff" where
  "next_run_id rt m =
     (let i = m_run_counter m + 1
      in (m\<lparr>m_run_counter := i\<rparr>, Inr (run_id_of (rt_run_id_prefix rt) i)))"

text \<open>\<open>str::parse::<u64>\<close>: an optional plus sign and digits, in range.\<close>

definition parse_u64 :: "string \<Rightarrow> nat option" where
  "parse_u64 s =
     (let digits = (case s of c # cs \<Rightarrow> if c = CHR 0x2B then cs else s | [] \<Rightarrow> [])
      in if digits \<noteq> [] \<and> list_all is_ascii_digit digits \<and> read_digits digits < 2 ^ 64
         then Some (read_digits digits) else None)"

definition run_counter_value_from_run_id :: "string option \<Rightarrow> string \<Rightarrow> nat option" where
  "run_counter_value_from_run_id run_id_prefix run_id =
     (case strip_prefix ''run-'' run_id of
        None \<Rightarrow> None
      | Some rest \<Rightarrow>
          (case run_id_prefix of
             None \<Rightarrow> parse_u64 rest
           | Some p \<Rightarrow>
               (case strip_prefix p rest of
                  None \<Rightarrow> None
                | Some rest' \<Rightarrow>
                    (case strip_prefix ''-'' rest' of None \<Rightarrow> None | Some i \<Rightarrow> parse_u64 i))))"

text \<open>The compare-and-exchange loop raises the counter to \<open>id\<close> and never lowers it.\<close>

definition ensure_run_counter_after_run_id ::
  "('s, 'w) agent_runtime \<Rightarrow> string \<Rightarrow> ('s, 'w, unit) run_eff" where
  "ensure_run_counter_after_run_id rt run_id m =
     (case run_counter_value_from_run_id (rt_run_id_prefix rt) run_id of
        None \<Rightarrow> (m, Inr ())
      | Some i \<Rightarrow> (m\<lparr>m_run_counter := max (m_run_counter m) i\<rparr>, Inr ()))"

definition ensure_event_counter_after :: "agent_event list \<Rightarrow> ('s, 'w, unit) run_eff" where
  "ensure_event_counter_after events m =
     (case events of
        [] \<Rightarrow> (m, Inr ())
      | _ \<Rightarrow>
          (m\<lparr>m_event_counter := max (m_event_counter m) (Max (set (map ev_sequence events)))\<rparr>,
           Inr ()))"

definition phase_index_after :: "('s, 'w) agent_runtime \<Rightarrow> string \<Rightarrow> nat result" where
  "phase_index_after rt pid =
     (case find_index (\<lambda>p. phase_id p = pid) (rt_phases rt) of
        Some i \<Rightarrow> Inr (i + 1)
      | None \<Rightarrow> Inl (PhaseError (''phase '' @ pid @ '' is not registered'')))"

definition normalize_input :: "string \<Rightarrow> agent_input \<Rightarrow> agent_message" where
  "normalize_input run_id input =
     (case input of
        InputText text \<Rightarrow> user_message (''user-'' @ run_id @ ''-1'') text
      | InputMessage message \<Rightarrow> message)"

section \<open>The state is the replay of the log\<close>

text \<open>What recording one event does, case by case.\<close>

definition event_to_record ::
  "string \<Rightarrow> nat option \<Rightarrow> string option \<Rightarrow> agent_event_kind \<Rightarrow> ('s, 'w) machine \<Rightarrow> agent_event" where
  "event_to_record run_id turn_id phase kind m =
     \<lparr>ev_sequence = m_event_counter m + 1, ev_run_id = run_id, ev_turn_id = turn_id,
      ev_phase = phase, ev_kind = kind\<rparr>"

lemma event_to_record_simps [simp]:
  "ev_sequence (event_to_record run_id turn_id phase kind m) = m_event_counter m + 1"
  "ev_run_id (event_to_record run_id turn_id phase kind m) = run_id"
  "ev_kind (event_to_record run_id turn_id phase kind m) = kind"
  by (simp_all add: event_to_record_def)

lemma in_store_run:
  "in_store f m = (m\<lparr>m_store := fst (f (m_store m))\<rparr>, snd (f (m_store m)))"
  by (simp add: in_store_def zoom_def case_prod_beta)

lemma in_world_run:
  "in_world f m = (m\<lparr>m_world := fst (f (m_world m))\<rparr>, snd (f (m_world m)))"
  by (simp add: in_world_def zoom_def case_prod_beta)

lemma give_to_sink_run:
  obtains w r where "give_to_sink sink ev m = (m\<lparr>m_world := w\<rparr>, r)"
    and "r = Inr () \<or> (\<exists>t. r = Inl (EventSink t))"
    and "sink = None \<Longrightarrow> r = Inr () \<and> w = m_world m"
proof (cases sink)
  case None
  then show ?thesis using that [of "m_world m" "Inr ()"] by (simp add: give_to_sink_def)
next
  case (Some f)
  then show ?thesis
    using that [of "fst (f ev (m_world m))"]
    by (cases "snd (f ev (m_world m))")
      (auto simp: give_to_sink_def and_then_def try_eff_run in_world_run)
qed

lemma record_event_cases:
  fixes m :: "('s, 'w) machine"
  assumes "record_event rt run_id turn_id phase kind sink m = (m', r)"
  defines "ev \<equiv> event_to_record run_id turn_id phase kind m"
  obtains
    (store_err) s e where "es_append (rt_event_store rt) ev (m_store m) = (s, Inl e)"
      and "m' = m\<lparr>m_event_counter := m_event_counter m + 1, m_store := s\<rparr>" and "r = Inl e"
  | (refused) s e where "es_append (rt_event_store rt) ev (m_store m) = (s, Inr ())"
      and "apply_event (m_state m) ev = Inl e"
      and "m' = m\<lparr>m_event_counter := m_event_counter m + 1, m_store := s\<rparr>" and "r = Inl e"
  | (recorded) s st w where "es_append (rt_event_store rt) ev (m_store m) = (s, Inr ())"
      and "apply_event (m_state m) ev = Inr st"
      and "m' = m\<lparr>m_event_counter := m_event_counter m + 1, m_store := s, m_state := st,
             m_world := w\<rparr>"
      and "r = Inr () \<or> (\<exists>t. r = Inl (EventSink t))"
      and "sink = None \<Longrightarrow> r = Inr () \<and> w = m_world m"
proof -
  let ?n = "m\<lparr>m_event_counter := m_event_counter m + 1\<rparr>"
  obtain s x where app: "es_append (rt_event_store rt) ev (m_store m) = (s, x)" by force
  have start: "record_event rt run_id turn_id phase kind sink m =
      and_then (in_store (es_append (rt_event_store rt) ev)) (\<lambda>_.
        and_then (apply_to_state ev) (\<lambda>_. give_to_sink sink ev)) ?n"
    by (simp add: record_event_def next_sequence_def and_then_def ev_def event_to_record_def Let_def)
  have stored: "in_store (es_append (rt_event_store rt) ev) ?n = (?n\<lparr>m_store := s\<rparr>, x)"
    using app by (simp add: in_store_run)
  show thesis
  proof (cases x)
    case (Inl e)
    with assms(1) start stored app show thesis by (intro store_err [of s e]) auto
  next
    case (Inr u)
    show thesis
    proof (cases "apply_event (m_state m) ev")
      case (Inl e)
      with assms(1) start stored app Inr show thesis
        by (intro refused [of s e]) (auto simp: apply_to_state_def and_then_def)
    next
      case (Inr st)
      obtain w y where sink: "give_to_sink sink ev (?n\<lparr>m_store := s, m_state := st\<rparr>)
          = (?n\<lparr>m_store := s, m_state := st\<rparr>\<lparr>m_world := w\<rparr>, y)"
        and y: "y = Inr () \<or> (\<exists>t. y = Inl (EventSink t))"
        and none: "sink = None \<Longrightarrow> y = Inr () \<and> w = m_world m"
        by (rule give_to_sink_run [of sink ev "?n\<lparr>m_store := s, m_state := st\<rparr>"]) auto
      from assms(1) start stored Inr \<open>x = Inr u\<close> sink
      have "(m', r) = (?n\<lparr>m_store := s, m_state := st\<rparr>\<lparr>m_world := w\<rparr>, y)"
        by (simp add: apply_to_state_def and_then_def)
      with y none app Inr \<open>x = Inr u\<close> show thesis by (intro recorded [of s st w]) auto
    qed
  qed
qed

text \<open>
  A machine is consistent for a run when the replay of the run's log from the state the run started
  from gives the state in memory, and the log's sequence numbers increase up to the counter.
\<close>

definition consistent ::
  "('s \<Rightarrow> string \<Rightarrow> agent_event list) \<Rightarrow> ('s \<Rightarrow> bool) \<Rightarrow> agent_state \<Rightarrow> string
     \<Rightarrow> ('s, 'w) machine \<Rightarrow> bool" where
  "consistent log invar st0 run_id m =
     (invar (m_store m)
      \<and> reduce_events_from st0 (log (m_store m) run_id) = Inr (m_state m)
      \<and> sorted_wrt (<) (map ev_sequence (log (m_store m) run_id))
      \<and> (\<forall>ev \<in> set (log (m_store m) run_id). ev_sequence ev \<le> m_event_counter m))"

lemma consistentI:
  assumes "invar s" and "log s run_id = evs" and "reduce_events_from st0 evs = Inr (m_state m)"
    and "sorted_wrt (<) (map ev_sequence evs)" and "\<forall>ev \<in> set evs. ev_sequence ev \<le> m_event_counter m"
    and "m_store m = s"
  shows "consistent log invar st0 run_id m"
  using assms by (simp add: consistent_def)

lemma consistent_world [simp]:
  "consistent log invar st0 run_id (m\<lparr>m_world := w\<rparr>) = consistent log invar st0 run_id m"
  by (simp add: consistent_def)

lemma consistent_run_counter [simp]:
  "consistent log invar st0 run_id (m\<lparr>m_run_counter := n\<rparr>) = consistent log invar st0 run_id m"
  by (simp add: consistent_def)

lemma consistent_in_world [pres]: "preserves (consistent log invar st0 run_id) (in_world f)"
  by (simp add: preserves_def in_world_run)

lemma consistent_get_state [pres]: "preserves (consistent log invar st0 run_id) get_state"
  by (simp add: preserves_def get_state_def)

context event_store
begin

text \<open>An append that fails, or one that succeeds with an event the reducer accepts.\<close>

lemma consistent_append_err:
  assumes "consistent log invar st0 run_id m" and "es_append es ev (m_store m) = (s, Inl e)"
  shows "consistent log invar st0 run_id (m\<lparr>m_event_counter := m_event_counter m + n, m_store := s\<rparr>)"
proof -
  have "log s = log (m_store m)" and "invar s"
    using assms append_err append_invar [of "m_store m" ev] by (auto simp: consistent_def)
  with assms(1) show ?thesis by (fastforce simp: consistent_def)
qed

lemma consistent_append_ok:
  assumes m: "consistent log invar st0 run_id m"
    and app: "es_append es ev (m_store m) = (s, Inr u)"
    and st: "apply_event (m_state m) ev = Inr st"
    and ev: "ev_run_id ev = run_id" "ev_sequence ev = m_event_counter m + 1"
  shows "consistent log invar st0 run_id
    (m\<lparr>m_event_counter := m_event_counter m + 1, m_store := s, m_state := st\<rparr>)"
proof (rule consistentI)
  have inv: "invar (m_store m)" using m by (simp add: consistent_def)
  show "invar s" using append_invar [OF inv, of ev] app by simp
  show "log s run_id = log (m_store m) run_id @ [ev]" using append_ok [OF inv app] ev(1) by simp
  show "reduce_events_from st0 (log (m_store m) run_id @ [ev])
      = Inr (m_state (m\<lparr>m_event_counter := m_event_counter m + 1, m_store := s, m_state := st\<rparr>))"
    using m st by (simp add: consistent_def reduce_events_from_snoc)
  show "sorted_wrt (<) (map ev_sequence (log (m_store m) run_id @ [ev]))"
    using m ev(2) by (auto simp: consistent_def sorted_wrt_append less_Suc_eq_le)
  show "\<forall>x \<in> set (log (m_store m) run_id @ [ev]). ev_sequence x \<le> m_event_counter
      (m\<lparr>m_event_counter := m_event_counter m + 1, m_store := s, m_state := st\<rparr>)"
    using m ev(2) by (auto simp: consistent_def intro: le_SucI)
qed simp

lemma record_event_consistent:
  assumes es: "rt_event_store rt = es" and "consistent log invar st0 run_id m"
    and ok: "\<And>n. \<exists>st. apply_event (m_state m) (event_to_record run_id turn_id phase kind m) = Inr st"
  shows "consistent log invar st0 run_id
    (fst (record_event rt run_id turn_id phase kind sink m))"
proof -
  obtain m' r where run: "record_event rt run_id turn_id phase kind sink m = (m', r)" by force
  from run have "consistent log invar st0 run_id m'"
  proof (cases rule: record_event_cases)
    case (store_err s e)
    then show ?thesis using consistent_append_err [OF assms(2), of _ s e 1] es by simp
  next
    case (refused s e)
    then show ?thesis using ok by auto
  next
    case (recorded s st w)
    then show ?thesis using consistent_append_ok [OF assms(2), of _ s "()" st] es by simp
  qed
  with run show ?thesis by simp
qed

lemma preserves_record_event [pres]:
  assumes "rt_event_store rt = es" and "\<And>e. kind \<noteq> EffectCommitted e"
  shows "preserves (consistent log invar st0 run_id)
    (record_event rt run_id turn_id phase kind sink)"
  using assms by (auto intro!: record_event_consistent apply_event_not_effect simp: preserves_def)

lemma preserves_model_stream_sink [pres]:
  fixes rt :: "('s, 'w) agent_runtime"
  assumes es: "rt_event_store rt = es"
  shows "preserves (consistent log invar st0 run_id)
    (model_stream_sink rt run_id turn_id phase sink mev)"
proof
  fix m :: "('s, 'w) machine"
  assume m: "consistent log invar st0 run_id m"
  let ?n = "m\<lparr>m_event_counter := m_event_counter m + 1\<rparr>"
  let ?ev = "\<lparr>ev_sequence = m_event_counter m + 1, ev_run_id = run_id, ev_turn_id = Some turn_id,
    ev_phase = Some phase, ev_kind = ModelStreamEvent (rt_default_model_provider rt) mev\<rparr>"
  obtain s x where app: "es_append es ?ev (m_store m) = (s, x)" by force
  have start: "model_stream_sink rt run_id turn_id phase sink mev m =
      and_then (in_store (es_append es ?ev)) (\<lambda>_. give_to_sink sink ?ev) ?n"
    by (simp add: model_stream_sink_def next_sequence_def and_then_def es Let_def)
  show "consistent log invar st0 run_id (fst (model_stream_sink rt run_id turn_id phase sink mev m))"
  proof (cases x)
    case (Inl e)
    with start app consistent_append_err [OF m, of ?ev s e 1] show ?thesis
      by (simp add: in_store_run and_then_def)
  next
    case (Inr u)
    obtain w r where sink: "give_to_sink sink ?ev (?n\<lparr>m_store := s\<rparr>)
        = (?n\<lparr>m_store := s\<rparr>\<lparr>m_world := w\<rparr>, r)"
      by (rule give_to_sink_run [of sink ?ev "?n\<lparr>m_store := s\<rparr>"])
    have "apply_event (m_state m) ?ev = Inr (m_state m)" by (simp add: apply_event.simps)
    from consistent_append_ok [OF m app [unfolded Inr] this]
    have "consistent log invar st0 run_id (?n\<lparr>m_store := s\<rparr>)" by (simp add: consistent_def)
    with start app Inr sink show ?thesis by (simp add: in_store_run and_then_def)
  qed
qed

text \<open>A committed effect was validated against the very state it is applied to.\<close>

lemma preserves_commit_effect [pres]:
  fixes rt :: "('s, 'w) agent_runtime"
  assumes es: "rt_event_store rt = es"
  shows "preserves (consistent log invar st0 run_id)
    (commit_effect rt run_id turn_id phase effect sink)"
proof -
  let ?P = "consistent log invar st0 run_id"
  have commit: "?P (fst (record_event rt run_id turn_id phase (EffectCommitted effect) sink m))"
    if "?P m" and "validate_effect_for_state (m_state m) effect = Inr u" for m :: "('s, 'w) machine" and u
    using that by (intro record_event_consistent [OF es])
      (auto simp: apply_event.simps apply_effect_def)
  have rest: "preserves ?P (and_then get_state (\<lambda>state. case validate_effect_for_state state effect of
         Inr _ \<Rightarrow> record_event rt run_id turn_id phase (EffectCommitted effect) sink
       | Inl error \<Rightarrow>
           and_then (record_event rt run_id turn_id phase
             (EffectRejected effect (error_to_string error)) sink) (\<lambda>_. err error)))"
  proof
    fix m :: "('s, 'w) machine" assume m: "?P m"
    show "?P (fst (and_then get_state (\<lambda>state. case validate_effect_for_state state effect of
         Inr _ \<Rightarrow> record_event rt run_id turn_id phase (EffectCommitted effect) sink
       | Inl error \<Rightarrow>
           and_then (record_event rt run_id turn_id phase
             (EffectRejected effect (error_to_string error)) sink) (\<lambda>_. err error)) m))"
    proof (cases "validate_effect_for_state (m_state m) effect")
      case (Inr u)
      with commit [OF m Inr] show ?thesis by (simp add: and_then_def get_state_def)
    next
      case (Inl error)
      have "preserves ?P (and_then (record_event rt run_id turn_id phase
             (EffectRejected effect (error_to_string error)) sink) (\<lambda>_. err error))"
        by (intro pres es) simp_all
      from preservesD [OF this m] Inl show ?thesis by (simp add: and_then_def get_state_def)
    qed
  qed
  show ?thesis
    unfolding commit_effect_def
    by (rule preserves_and_then [OF preserves_record_event [OF es] rest]) simp
qed

lemma preserves_commit_queued_messages [pres]:
  "rt_event_store rt = es \<Longrightarrow> preserves (consistent log invar st0 run_id)
     (commit_queued_messages rt run_id turn_id messages sink)"
  unfolding commit_queued_messages_def by (intro pres)

lemma preserves_record_tool_output [pres]:
  "rt_event_store rt = es \<Longrightarrow> preserves (consistent log invar st0 run_id)
     (record_tool_output rt run_id turn_id phase sink audits x)"
  unfolding record_tool_output_def Let_def case_prod_beta by (intro pres) auto

lemma preserves_record_phase_output [pres]:
  "rt_event_store rt = es \<Longrightarrow> preserves (consistent log invar st0 run_id)
     (record_phase_output rt run_id turn_id phase output sink)"
  unfolding record_phase_output_def Let_def by (intro pres) auto

lemma preserves_record_run_error [pres]:
  "rt_event_store rt = es \<Longrightarrow> preserves (consistent log invar st0 run_id)
     (record_run_error rt run_id sink error)"
  unfolding record_run_error_def by (cases error; simp; intro pres; simp)

lemma preserves_next_run_id [pres]: "preserves (consistent log invar st0 r) (next_run_id rt)"
  by (simp add: preserves_def next_run_id_def Let_def)

lemma preserves_load [pres]:
  "preserves (consistent log invar st0 run_id) (in_store (es_load es r))"
  by (auto simp: preserves_def in_store_run consistent_def load_log load_invar)

end

end
