(* ===== verification/Run_Loop.thy ===== *)
theory Run_Loop
  imports Recording Tool_Phase
begin

text \<open>
  The run loop (\<open>src/runtime/run_loop.rs\<close>): one turn runs the phases in order, records what each
  gives and decides with the queues whether another turn follows; a run records its start and its
  end around the turns. Phases of the embedder and messages in the queues can keep the loop going
  for ever, so the loop has fuel, the number of turns it may run, and an exhausted loop returns
  no flow at all (\<open>None\<close>), leaving the machine as it is.
\<close>

datatype run_flow = FlowCompleted | FlowPaused

record run_turn_cursor =
  cu_turn_id :: nat
  cu_scratch :: phase_scratch
  cu_start_phase_index :: nat
  cu_record_turn_started :: bool

record run_report =
  rr_run_id :: string
  rr_events :: "agent_event list"
  rr_state :: agent_state

section \<open>The phases of a turn\<close>

text \<open>One step of the loop over the phases; \<open>Inr None\<close> is a pause.\<close>

definition run_one_phase ::
  "('s, 'w) agent_runtime \<Rightarrow> string \<Rightarrow> nat \<Rightarrow> 'w event_sink option \<Rightarrow> 'w phase_node
     \<Rightarrow> phase_scratch \<Rightarrow> ('s, 'w, phase_scratch option) run_eff" where
  "run_one_phase rt run_id turn_id sink phase scratch =
     (let pid = phase_id phase;
          record = (\<lambda>kind. record_event rt run_id (Some turn_id) (Some pid) kind sink)
      in and_then (record (PhaseStarted pid)) (\<lambda>_.
         and_then get_state (\<lambda>state.
         and_then (try_eff (\<lambda>m. run_stream (\<lambda>w s. s\<lparr>m_world := w\<rparr>) m_world
             (model_stream_sink rt run_id turn_id pid sink)
             (run_phase rt phase
               \<lparr>pc_run_id = run_id, pc_turn_id = turn_id, pc_state = state, pc_scratch = scratch\<rparr>
               (m_world m)) m)) (\<lambda>result.
         case result of
           Inl error \<Rightarrow>
             and_then (record (PhaseFailed pid (error_to_string error))) (\<lambda>_. err error)
         | Inr output \<Rightarrow>
             and_then (record_phase_output rt run_id turn_id pid output sink) (\<lambda>recorded.
             case recorded of
               PhasePaused \<Rightarrow> ok None
             | PhaseOutputRecorded output' \<Rightarrow>
                 and_then (record (PhaseCompleted pid)) (\<lambda>_. ok (Some (po_scratch output'))))))))"

fun run_phases ::
  "('s, 'w) agent_runtime \<Rightarrow> string \<Rightarrow> nat \<Rightarrow> 'w event_sink option \<Rightarrow> 'w phase_node list
     \<Rightarrow> phase_scratch \<Rightarrow> ('s, 'w, phase_scratch option) run_eff" where
  "run_phases rt run_id turn_id sink [] scratch = ok (Some scratch)"
| "run_phases rt run_id turn_id sink (phase # phases) scratch =
     and_then (run_one_phase rt run_id turn_id sink phase scratch) (\<lambda>r.
     case r of
       None \<Rightarrow> ok None
     | Some scratch' \<Rightarrow> run_phases rt run_id turn_id sink phases scratch')"

section \<open>The end of a turn\<close>

text \<open>What follows a turn: the next turn, or the end of the loop.\<close>

datatype turn_step = NextTurn run_turn_cursor | LoopEnds run_flow

text \<open>The steering messages taken after a turn: \<open>Inr None\<close> is \<open>continue\<close>.\<close>

definition take_steering ::
  "('s, 'w) agent_runtime \<Rightarrow> string \<Rightarrow> nat \<Rightarrow> 'w event_sink option \<Rightarrow> 'w runtime_queues
     \<Rightarrow> turn_decision \<Rightarrow> ('s, 'w, bool option) run_eff" where
  "take_steering rt run_id turn_id sink queues decision =
     and_then (in_world (rq_steering_messages queues)) (\<lambda>steering.
     if steering = [] then ok (Some False)
     else if decision = StopTurn
     then (case split_user_input_messages steering of (observations, user_inputs) \<Rightarrow>
       and_then
         (if observations = [] then ok False
          else and_then (commit_queued_messages rt run_id (Some turn_id)
                 (queued_messages_into_messages observations) sink) (\<lambda>_. ok True))
         (\<lambda>committed_stop_steering.
       and_then
         (if user_inputs = [] then ok ()
          else in_world (rq_prepend_follow_up_messages queues user_inputs))
         (\<lambda>_. ok (Some committed_stop_steering))))
     else and_then (commit_queued_messages rt run_id (Some turn_id)
            (queued_messages_into_messages steering) sink) (\<lambda>_. ok None))"

text \<open>The follow-up messages taken after a turn that stops: whether there were any.\<close>

definition take_follow_up ::
  "('s, 'w) agent_runtime \<Rightarrow> string \<Rightarrow> nat \<Rightarrow> 'w event_sink option \<Rightarrow> 'w runtime_queues
     \<Rightarrow> ('s, 'w, bool) run_eff" where
  "take_follow_up rt run_id turn_id sink queues =
     and_then (in_world (rq_follow_up_messages queues)) (\<lambda>follow_up.
     if follow_up = [] then ok False
     else and_then (commit_queued_messages rt run_id (Some turn_id)
            (queued_messages_into_messages follow_up) sink) (\<lambda>_. ok True))"

text \<open>
  The end of the loop body. A \<open>continue\<close> keeps the start index and the flag of the cursor; only
  the last line of the loop resets them.
\<close>

definition continue_cursor :: "run_turn_cursor \<Rightarrow> run_turn_cursor" where
  "continue_cursor cu = cu\<lparr>cu_turn_id := cu_turn_id cu + 1, cu_scratch := scratch_default\<rparr>"

definition next_cursor :: "run_turn_cursor \<Rightarrow> run_turn_cursor" where
  "next_cursor cu =
     (continue_cursor cu)\<lparr>cu_start_phase_index := 0, cu_record_turn_started := True\<rparr>"

definition after_turn ::
  "('s, 'w) agent_runtime \<Rightarrow> string \<Rightarrow> 'w event_sink option \<Rightarrow> 'w runtime_queues option
     \<Rightarrow> run_turn_cursor \<Rightarrow> turn_decision \<Rightarrow> ('s, 'w, turn_step) run_eff" where
  "after_turn rt run_id sink queues cu decision =
     and_then (case queues of
         None \<Rightarrow> ok (Some False)
       | Some q \<Rightarrow> take_steering rt run_id (cu_turn_id cu) sink q decision) (\<lambda>steered.
     case steered of
       None \<Rightarrow> ok (NextTurn (continue_cursor cu))
     | Some committed_stop_steering \<Rightarrow>
         if decision = StopTurn
         then and_then (case queues of
                None \<Rightarrow> ok False
              | Some q \<Rightarrow> take_follow_up rt run_id (cu_turn_id cu) sink q) (\<lambda>followed.
              ok (if followed \<or> committed_stop_steering then NextTurn (continue_cursor cu)
                  else LoopEnds FlowCompleted))
         else ok (NextTurn (next_cursor cu)))"

definition run_turn ::
  "('s, 'w) agent_runtime \<Rightarrow> string \<Rightarrow> 'w event_sink option \<Rightarrow> 'w runtime_queues option
     \<Rightarrow> run_turn_cursor \<Rightarrow> ('s, 'w, turn_step) run_eff" where
  "run_turn rt run_id sink queues cu =
     (let turn_id = cu_turn_id cu
      in and_then (in_world (throw_if_cancelled rt)) (\<lambda>_.
         and_then (if cu_record_turn_started cu
                   then record_event rt run_id (Some turn_id) None TurnStarted sink
                   else ok ()) (\<lambda>_.
         and_then (run_phases rt run_id turn_id sink
             (drop (cu_start_phase_index cu) (rt_phases rt)) (cu_scratch cu)) (\<lambda>r.
         case r of
           None \<Rightarrow> ok (LoopEnds FlowPaused)
         | Some scratch \<Rightarrow>
             (let decision = (case sc_decision scratch of Some d \<Rightarrow> d | None \<Rightarrow> StopTurn)
              in and_then (record_event rt run_id (Some turn_id) None (TurnCompleted decision) sink)
                 (\<lambda>_. after_turn rt run_id sink queues cu decision))))))"

fun run_turns_from ::
  "nat \<Rightarrow> ('s, 'w) agent_runtime \<Rightarrow> string \<Rightarrow> 'w event_sink option \<Rightarrow> 'w runtime_queues option
     \<Rightarrow> run_turn_cursor \<Rightarrow> ('s, 'w, run_flow option) run_eff" where
  "run_turns_from 0 rt run_id sink queues cu = ok None"
| "run_turns_from (Suc fuel) rt run_id sink queues cu =
     and_then (run_turn rt run_id sink queues cu) (\<lambda>step.
     case step of
       LoopEnds flow \<Rightarrow> ok (Some flow)
     | NextTurn cu' \<Rightarrow> run_turns_from fuel rt run_id sink queues cu')"

section \<open>A run\<close>

definition first_cursor :: "agent_message option \<Rightarrow> run_turn_cursor" where
  "first_cursor input =
     \<lparr>cu_turn_id = 1, cu_scratch = scratch_default\<lparr>sc_input := input\<rparr>,
      cu_start_phase_index = 0, cu_record_turn_started = True\<rparr>"

text \<open>The initial steering of \<open>run_with_options\<close>.\<close>

definition initial_steering ::
  "('s, 'w) agent_runtime \<Rightarrow> string \<Rightarrow> 'w event_sink option \<Rightarrow> 'w runtime_queues option
     \<Rightarrow> ('s, 'w, unit) run_eff" where
  "initial_steering rt run_id sink queues =
     (case queues of
        None \<Rightarrow> ok ()
      | Some q \<Rightarrow>
          and_then (in_world (rq_steering_messages q)) (\<lambda>steering.
          if steering = [] then ok ()
          else commit_queued_messages rt run_id None (queued_messages_into_messages steering) sink))"

text \<open>The \<open>match result\<close> that closes a run: the flow, or the error once it is recorded.\<close>

definition finish_run ::
  "('s, 'w) agent_runtime \<Rightarrow> string \<Rightarrow> 'w event_sink option \<Rightarrow> agent_core_error + run_flow option
     \<Rightarrow> ('s, 'w, run_flow option) run_eff" where
  "finish_run rt run_id sink result =
     (case result of
        Inr None \<Rightarrow> ok None
      | Inr (Some FlowCompleted) \<Rightarrow>
          and_then (record_event rt run_id None None RunCompleted sink) (\<lambda>_.
          ok (Some FlowCompleted))
      | Inr (Some FlowPaused) \<Rightarrow> ok (Some FlowPaused)
      | Inl error \<Rightarrow>
          and_then (record_run_error rt run_id sink error) (\<lambda>error'. err error'))"

definition run_events ::
  "('s, 'w) agent_runtime \<Rightarrow> string \<Rightarrow> ('s, 'w, agent_event list) run_eff" where
  "run_events rt run_id = in_store (es_load (rt_event_store rt) run_id)"

definition run_in_state ::
  "nat \<Rightarrow> ('s, 'w) agent_runtime \<Rightarrow> string \<Rightarrow> agent_message option \<Rightarrow> 'w event_sink option
     \<Rightarrow> 'w runtime_queues option \<Rightarrow> ('s, 'w, run_flow option) run_eff" where
  "run_in_state fuel rt run_id input sink queues =
     and_then (record_event rt run_id None None RunStarted sink) (\<lambda>_.
     and_then (initial_steering rt run_id sink queues) (\<lambda>_.
     and_then (try_eff (run_turns_from fuel rt run_id sink queues (first_cursor input)))
       (finish_run rt run_id sink)))"

definition run_with_options ::
  "nat \<Rightarrow> ('s, 'w) agent_runtime \<Rightarrow> agent_input option \<Rightarrow> agent_state \<Rightarrow> 'w event_sink option
     \<Rightarrow> 'w runtime_queues option \<Rightarrow> ('s, 'w, run_report option) run_eff" where
  "run_with_options fuel rt input initial_state sink queues =
     and_then (next_run_id rt) (\<lambda>run_id m.
       and_then (run_in_state fuel rt run_id (map_option (normalize_input run_id) input) sink queues)
         (\<lambda>flow. case flow of
            None \<Rightarrow> ok None
          | Some _ \<Rightarrow>
              and_then (run_events rt run_id) (\<lambda>events.
              and_then get_state (\<lambda>state.
              and_then
                (if st_messages state = [] \<and> st_context state = [] \<and> st_available_tools state = []
                 then lift_result (reduce_events events) else ok state) (\<lambda>replayed.
              ok (Some \<lparr>rr_run_id = run_id, rr_events = events, rr_state = replayed\<rparr>)))))
         (m\<lparr>m_state := initial_state\<rparr>))"

section \<open>A run keeps the state and the log in step\<close>

lemma preserves_case_phase_record_result [pres]:
  "(\<And>output. preserves P (f output)) \<Longrightarrow> preserves P n \<Longrightarrow>
   preserves P (case r of PhaseOutputRecorded output \<Rightarrow> f output | PhasePaused \<Rightarrow> n)"
  by (cases r) auto

lemma preserves_case_run_flow [pres]:
  "preserves P m \<Longrightarrow> preserves P n \<Longrightarrow>
   preserves P (case flow of FlowCompleted \<Rightarrow> m | FlowPaused \<Rightarrow> n)"
  by (cases flow) auto

lemma preserves_case_turn_step [pres]:
  "(\<And>cu. preserves P (f cu)) \<Longrightarrow> (\<And>flow. preserves P (g flow)) \<Longrightarrow>
   preserves P (case t of NextTurn cu \<Rightarrow> f cu | LoopEnds flow \<Rightarrow> g flow)"
  by (cases t) auto

context event_store
begin

lemma preserves_run_phase_stream [pres]:
  fixes rt :: "('s, 'w) agent_runtime"
  assumes "rt_event_store rt = es"
  shows "preserves (consistent log invar st0 run_id)
    (\<lambda>m. run_stream (\<lambda>w s. s\<lparr>m_world := w\<rparr>) m_world (model_stream_sink rt run_id turn_id pid sink)
       (run_phase rt phase c (m_world m)) m)"
proof
  fix m :: "('s, 'w) machine"
  assume m: "consistent log invar st0 run_id m"
  have "preserves (consistent log invar st0 run_id)
    (run_stream (\<lambda>w s. s\<lparr>m_world := w\<rparr>) m_world (model_stream_sink rt run_id turn_id pid sink)
       (run_phase rt phase c (m_world m)))"
    by (intro preserves_run_stream preserves_model_stream_sink assms) simp
  then show "consistent log invar st0 run_id
    (fst (run_stream (\<lambda>w s. s\<lparr>m_world := w\<rparr>) m_world (model_stream_sink rt run_id turn_id pid sink)
       (run_phase rt phase c (m_world m)) m))"
    using m by (rule preservesD)
qed

lemma preserves_run_one_phase [pres]:
  "rt_event_store rt = es \<Longrightarrow> preserves (consistent log invar st0 run_id)
     (run_one_phase rt run_id turn_id sink phase scratch)"
  unfolding run_one_phase_def Let_def
  by (intro pres; simp)

lemma preserves_run_phases [pres]:
  "rt_event_store rt = es \<Longrightarrow> preserves (consistent log invar st0 run_id)
     (run_phases rt run_id turn_id sink phases scratch)"
  by (induction phases arbitrary: scratch) (auto intro!: pres)

lemma preserves_take_steering [pres]:
  "rt_event_store rt = es \<Longrightarrow> preserves (consistent log invar st0 run_id)
     (take_steering rt run_id turn_id sink queues decision)"
  unfolding take_steering_def case_prod_beta by (intro pres)

lemma preserves_take_follow_up [pres]:
  "rt_event_store rt = es \<Longrightarrow> preserves (consistent log invar st0 run_id)
     (take_follow_up rt run_id turn_id sink queues)"
  unfolding take_follow_up_def by (intro pres)

lemma preserves_after_turn [pres]:
  "rt_event_store rt = es \<Longrightarrow> preserves (consistent log invar st0 run_id)
     (after_turn rt run_id sink queues cu decision)"
  unfolding after_turn_def by (intro pres)

lemma preserves_run_turn [pres]:
  "rt_event_store rt = es \<Longrightarrow> preserves (consistent log invar st0 run_id)
     (run_turn rt run_id sink queues cu)"
  unfolding run_turn_def Let_def by (intro pres; simp)

lemma preserves_run_turns_from [pres]:
  "rt_event_store rt = es \<Longrightarrow> preserves (consistent log invar st0 run_id)
     (run_turns_from fuel rt run_id sink queues cu)"
  by (induction fuel arbitrary: cu) (auto intro!: pres)

lemma preserves_initial_steering [pres]:
  "rt_event_store rt = es \<Longrightarrow> preserves (consistent log invar st0 run_id)
     (initial_steering rt run_id sink queues)"
  unfolding initial_steering_def by (intro pres)

lemma preserves_finish_run [pres]:
  "rt_event_store rt = es \<Longrightarrow> preserves (consistent log invar st0 run_id)
     (finish_run rt run_id sink result)"
  unfolding finish_run_def
  by (intro pres; simp)

lemma preserves_run_in_state [pres]:
  "rt_event_store rt = es \<Longrightarrow> preserves (consistent log invar st0 run_id)
     (run_in_state fuel rt run_id input sink queues)"
  unfolding run_in_state_def by (intro pres; simp)

lemma run_with_options_consistent:
  assumes es: "rt_event_store rt = es" and inv: "invar (m_store m)"
    and run_id: "run_id = run_id_of (rt_run_id_prefix rt) (m_run_counter m + 1)"
    and new: "log (m_store m) run_id = []"
  shows "consistent log invar initial_state run_id
    (fst (run_with_options fuel rt input initial_state sink queues m))"
proof -
  let ?P = "consistent log invar initial_state run_id"
  let ?m = "m\<lparr>m_run_counter := m_run_counter m + 1, m_state := initial_state\<rparr>"
  let ?rest = "and_then (run_in_state fuel rt run_id (map_option (normalize_input run_id) input) sink queues)
         (\<lambda>flow. case flow of
            None \<Rightarrow> ok None
          | Some _ \<Rightarrow>
              and_then (run_events rt run_id) (\<lambda>events.
              and_then get_state (\<lambda>state.
              and_then
                (if st_messages state = [] \<and> st_context state = [] \<and> st_available_tools state = []
                 then lift_result (reduce_events events) else ok state) (\<lambda>replayed.
              ok (Some \<lparr>rr_run_id = run_id, rr_events = events, rr_state = replayed\<rparr>)))))"
  have start: "?P ?m" using inv new by (simp add: consistent_def)
  have "next_run_id rt m = (m\<lparr>m_run_counter := m_run_counter m + 1\<rparr>, Inr run_id)"
    by (simp add: next_run_id_def run_id Let_def)
  then have run: "run_with_options fuel rt input initial_state sink queues m = ?rest ?m"
    unfolding run_with_options_def by (subst and_then_simps(2)) auto
  have "preserves ?P ?rest" unfolding run_events_def es by (intro pres es)
  from preservesD [OF this start] show ?thesis unfolding run .
qed

end

end
