(* ===== verification/Approval_Resume.thy ===== *)
theory Approval_Resume
  imports Run_Loop
begin

text \<open>
  Resuming and aborting a paused run (\<open>src/runtime/approval.rs\<close>): the state is rebuilt from the
  run's own events, the resolutions are matched with the pending approvals of the last pause, the
  rest of the tool phase runs, and the run loop goes on with the phase after it.
\<close>

record resolved_tool_approval =
  rta_resolution :: tool_approval_resolution
  rta_expired :: bool

definition latest_tool_approval_continuation ::
  "agent_event list \<Rightarrow> tool_approval_continuation result" where
  "latest_tool_approval_continuation events =
     (case List.map_filter (\<lambda>ev. case ev_kind ev of
             RunPaused (PauseToolApproval k) \<Rightarrow> Some k | _ \<Rightarrow> None) (rev events) of
        k # _ \<Rightarrow> Inr k
      | [] \<Rightarrow> Inl (PhaseError ''paused run has no tool approval continuation''))"

definition pending_tool_approval_ids :: "tool_approval_continuation \<Rightarrow> string list" where
  "pending_tool_approval_ids k =
     List.map_filter (\<lambda>p. case pf_status p of Pending i _ _ \<Rightarrow> Some i | _ \<Rightarrow> None) (co_preflights k)"

definition timeout_tool_approval_resolution :: "string \<Rightarrow> nat option \<Rightarrow> tool_approval_resolution" where
  "timeout_tool_approval_resolution approval_id expires_at_ms =
     \<lparr>res_approval_id = approval_id,
      res_decision =
        \<lparr>dec_outcome = Deny, dec_reason = Some ''tool approval timed out'', dec_approver = None,
         dec_metadata = json_object
           [(''timeout'', JBool True),
            (''expiresAtMs'', json_of_option (\<lambda>n. JInt (int n)) expires_at_ms)]\<rparr>\<rparr>"

text \<open>The first loop: the resolutions by id, a duplicate id refused.\<close>

fun provided_resolutions ::
  "tool_approval_resolution list \<Rightarrow> tool_approval_resolution smap
     \<Rightarrow> tool_approval_resolution smap result" where
  "provided_resolutions [] provided = Inr provided"
| "provided_resolutions (r # rs) provided =
     (if bt_contains_key provided (res_approval_id r)
      then Inl (PhaseError ''duplicate tool approval resolution id'')
      else provided_resolutions rs (bt_insert (res_approval_id r) r provided))"

text \<open>The second loop: for each pending id its resolution, an expiry, or a missing entry.\<close>

fun resolve_pending ::
  "agent_state \<Rightarrow> nat \<Rightarrow> string list \<Rightarrow> tool_approval_resolution smap
     \<Rightarrow> (resolved_tool_approval list \<times> string list \<times> tool_approval_resolution smap) result" where
  "resolve_pending st now_ms [] provided = Inr ([], [], provided)"
| "resolve_pending st now_ms (i # is) provided =
     (case map_of provided i of
        Some r \<Rightarrow>
          (case resolve_pending st now_ms is (bt_remove i provided) of
             Inl e \<Rightarrow> Inl e
           | Inr (resolved, missing, rest) \<Rightarrow>
               Inr (\<lparr>rta_resolution = r, rta_expired = False\<rparr> # resolved, missing, rest))
      | None \<Rightarrow>
          (case map_of (st_pending_tool_approvals st) i of
             None \<Rightarrow> Inl (PhaseError (''pending tool approval '' @ i @ '' is not present in state''))
           | Some approval \<Rightarrow>
               (let expires_at_ms = tas_expires_at_ms (tar_request approval);
                    expired = (case expires_at_ms of None \<Rightarrow> False | Some t \<Rightarrow> t \<le> now_ms)
                in case resolve_pending st now_ms is provided of
                     Inl e \<Rightarrow> Inl e
                   | Inr (resolved, missing, rest) \<Rightarrow>
                       if expired
                       then Inr (\<lparr>rta_resolution = timeout_tool_approval_resolution i expires_at_ms,
                                  rta_expired = True\<rparr> # resolved, missing, rest)
                       else Inr (resolved, i # missing, rest))))"

definition resolve_tool_approval_decisions ::
  "agent_state \<Rightarrow> tool_approval_continuation \<Rightarrow> nat \<Rightarrow> tool_approval_resolution list
     \<Rightarrow> resolved_tool_approval list result" where
  "resolve_tool_approval_decisions st k now_ms resolutions =
     (case provided_resolutions resolutions [] of
        Inl e \<Rightarrow> Inl e
      | Inr provided \<Rightarrow>
          (case resolve_pending st now_ms (pending_tool_approval_ids k) provided of
             Inl e \<Rightarrow> Inl e
           | Inr (resolved, missing, rest) \<Rightarrow>
               if rest \<noteq> []
               then Inl (PhaseError (''unknown tool approval resolution ids: ''
                      @ join_with '', '' (bt_keys rest)))
               else if missing \<noteq> []
               then Inl (PhaseError (''missing tool approval resolutions: ''
                      @ join_with '', '' missing))
               else Inr resolved))"

text \<open>\<open>clock::current_unix_ms().unwrap_or_default()\<close>.\<close>

definition current_unix_ms :: "('s, 'w) agent_runtime \<Rightarrow> ('w, agent_core_error, nat) eff" where
  "current_unix_ms rt w =
     (let (w', now) = rt_current_unix_ms rt w
      in (w', Inr (case now of Some n \<Rightarrow> n | None \<Rightarrow> 0)))"

section \<open>Resuming\<close>

definition set_state :: "agent_state \<Rightarrow> ('s, 'w, unit) run_eff" where
  "set_state st m = (m\<lparr>m_state := st\<rparr>, Inr ())"

text \<open>
  The common start: the events of the run, the counter moved past them, the state rebuilt, and the
  check that it is paused.
\<close>

definition load_paused_run ::
  "('s, 'w) agent_runtime \<Rightarrow> string \<Rightarrow> ('s, 'w, agent_event list) run_eff" where
  "load_paused_run rt run_id =
     and_then (run_events rt run_id) (\<lambda>events.
     if events = [] then err (PhaseError (''run '' @ run_id @ '' does not exist''))
     else and_then (ensure_event_counter_after events) (\<lambda>_.
          and_then (lift_result (reduce_events events)) (\<lambda>state.
          and_then (set_state state) (\<lambda>_.
          if st_status state \<noteq> Paused
          then err (PhaseError (''run '' @ run_id @ '' is not paused''))
          else ok events))))"

definition record_resolutions ::
  "('s, 'w) agent_runtime \<Rightarrow> string \<Rightarrow> tool_approval_continuation \<Rightarrow> resolved_tool_approval list
     \<Rightarrow> 'w event_sink option \<Rightarrow> ('s, 'w, unit) run_eff" where
  "record_resolutions rt run_id k resolved sink =
     (let record = (\<lambda>kind.
            record_event rt run_id (Some (co_turn_id k)) (Some (co_phase k)) kind sink)
      in and_then (for_each resolved (\<lambda>a.
           let i = res_approval_id (rta_resolution a); d = res_decision (rta_resolution a)
           in record (if rta_expired a then ToolApprovalExpired i d else ToolApprovalResolved i d)))
         (\<lambda>_. record (RunResumed (ResumeToolApproval
                (map (\<lambda>a. res_approval_id (rta_resolution a)) resolved)))))"

text \<open>The \<open>async\<close> block: the rest of the paused phase, then the turns after it.\<close>

definition resume_turns ::
  "nat \<Rightarrow> ('s, 'w) agent_runtime \<Rightarrow> string \<Rightarrow> tool_approval_continuation
     \<Rightarrow> tool_approval_resolution list \<Rightarrow> 'w event_sink option \<Rightarrow> 'w runtime_queues option
     \<Rightarrow> ('s, 'w, run_flow option) run_eff" where
  "resume_turns fuel rt run_id k resolutions sink queues =
     (let pid = co_phase k; turn_id = co_turn_id k;
          record = (\<lambda>kind. record_event rt run_id (Some turn_id) (Some pid) kind sink)
      in and_then get_state (\<lambda>state.
         and_then (try_eff (in_world (resume_tool_approval_continuation rt k state resolutions)))
         (\<lambda>result.
         case result of
           Inl error \<Rightarrow>
             and_then (record (PhaseFailed pid (error_to_string error))) (\<lambda>_. err error)
         | Inr output \<Rightarrow>
             and_then (record_phase_output rt run_id turn_id pid output sink) (\<lambda>recorded.
             case recorded of
               PhaseOutputRecorded output' \<Rightarrow>
                 and_then (record (PhaseCompleted pid)) (\<lambda>_.
                 and_then (lift_result (phase_index_after rt pid)) (\<lambda>next_phase_index.
                 run_turns_from fuel rt run_id sink queues
                   \<lparr>cu_turn_id = turn_id, cu_scratch = po_scratch output',
                    cu_start_phase_index = next_phase_index, cu_record_turn_started = False\<rparr>))
             | PhasePaused \<Rightarrow> ok (Some FlowPaused)))))"

definition resume_tool_approvals_internal ::
  "nat \<Rightarrow> ('s, 'w) agent_runtime \<Rightarrow> string \<Rightarrow> tool_approval_resolution list
     \<Rightarrow> 'w event_sink option \<Rightarrow> 'w runtime_queues option
     \<Rightarrow> ('s, 'w, run_report option) run_eff" where
  "resume_tool_approvals_internal fuel rt run_id resolutions sink queues =
     and_then (load_paused_run rt run_id) (\<lambda>events.
     and_then get_state (\<lambda>state.
     and_then (lift_result (latest_tool_approval_continuation events)) (\<lambda>k.
     and_then (in_world (current_unix_ms rt)) (\<lambda>now_ms.
     and_then (lift_result (resolve_tool_approval_decisions state k now_ms resolutions)) (\<lambda>resolved.
     and_then (record_resolutions rt run_id k resolved sink) (\<lambda>_.
     and_then (try_eff (resume_turns fuel rt run_id k (map rta_resolution resolved) sink queues))
       (\<lambda>result.
     and_then (finish_run rt run_id sink result) (\<lambda>flow.
     case flow of
       None \<Rightarrow> ok None
     | Some _ \<Rightarrow>
         and_then (run_events rt run_id) (\<lambda>events'.
         and_then get_state (\<lambda>state'.
         ok (Some \<lparr>rr_run_id = run_id, rr_events = events', rr_state = state'\<rparr>)))))))))))"

definition abort_paused_run ::
  "('s, 'w) agent_runtime \<Rightarrow> string \<Rightarrow> 'w event_sink option \<Rightarrow> ('s, 'w, run_report) run_eff" where
  "abort_paused_run rt run_id sink =
     and_then (load_paused_run rt run_id) (\<lambda>_.
     and_then (record_event rt run_id None None RunAborted sink) (\<lambda>_.
     and_then (run_events rt run_id) (\<lambda>events.
     and_then get_state (\<lambda>state.
     ok \<lparr>rr_run_id = run_id, rr_events = events, rr_state = state\<rparr>))))"

section \<open>Matching resolutions with approvals\<close>

lemma provided_resolutions_ok:
  assumes "bt_wf provided" and "provided_resolutions rs provided = Inr out"
  shows "bt_wf out \<and> distinct (map res_approval_id rs)
    \<and> set (map res_approval_id rs) \<inter> dom (map_of provided) = {}
    \<and> map_of out = map_of provided ++ map_of (map (\<lambda>r. (res_approval_id r, r)) rs)"
  using assms
proof (induction rs provided rule: provided_resolutions.induct)
  case (1 provided)
  then show ?case by simp
next
  case (2 r rs provided)
  then have fresh: "map_of provided (res_approval_id r) = None"
    and rec: "provided_resolutions rs (bt_insert (res_approval_id r) r provided) = Inr out"
    and not: "\<not> bt_contains_key provided (res_approval_id r)"
    by (auto simp: bt_contains_key_def split: if_splits)
  note IH = "2.IH" [OF not _ rec]
  have wf: "bt_wf (bt_insert (res_approval_id r) r provided)"
    using "2.prems"(1) by (simp add: bt_simps)
  from IH [OF wf, unfolded map_of_bt_insert [OF "2.prems"(1)]] have *: "bt_wf out" "distinct (map res_approval_id rs)"
    "set (map res_approval_id rs) \<inter> dom ((map_of provided)(res_approval_id r \<mapsto> r)) = {}"
    "map_of out = (map_of provided)(res_approval_id r \<mapsto> r)
       ++ map_of (map (\<lambda>r. (res_approval_id r, r)) rs)"
    by blast+
  have none: "map_of (map (\<lambda>r. (res_approval_id r, r)) rs) (res_approval_id r) = None"
    using *(3) by (auto simp: map_of_eq_None_iff)
  have "map_of out = map_of provided ++ map_of (map (\<lambda>r. (res_approval_id r, r)) (r # rs))"
    using *(4) none by (auto simp: fun_eq_iff map_add_def split: option.splits)
  moreover have "distinct (map res_approval_id (r # rs))" using *(2,3) by auto
  moreover have "set (map res_approval_id (r # rs)) \<inter> dom (map_of provided) = {}"
    using *(3) fresh by auto
  ultimately show ?case using *(1) by blast
qed

text \<open>Every binding is under its own id.\<close>

definition keyed :: "tool_approval_resolution smap \<Rightarrow> bool" where
  "keyed m = (\<forall>i r. map_of m i = Some r \<longrightarrow> res_approval_id r = i)"

lemma keyed_remove: "keyed m \<Longrightarrow> keyed (bt_remove i m)"
  by (simp add: keyed_def map_of_bt_remove)

lemma map_of_by_id:
  "map_of (map (\<lambda>r. (res_approval_id r, r)) rs) i = Some r \<Longrightarrow> r \<in> set rs \<and> res_approval_id r = i"
  by (induction rs) (auto split: if_splits)

lemma provided_resolutions_from_empty:
  assumes "provided_resolutions rs [] = Inr out"
  shows "bt_wf out \<and> distinct (map res_approval_id rs) \<and> keyed out
    \<and> (\<forall>i r. map_of out i = Some r \<longrightarrow> r \<in> set rs) \<and> dom (map_of out) = res_approval_id ` set rs"
proof -
  note * = provided_resolutions_ok [OF bt_wf_Nil assms]
  then have "map_of out = map_of (map (\<lambda>r. (res_approval_id r, r)) rs)" by simp
  with * show ?thesis
    by (auto simp: keyed_def dom_map_of_conv_image_fst image_image dest!: map_of_by_id)
qed

definition timed_out :: "agent_state \<Rightarrow> nat \<Rightarrow> string \<Rightarrow> bool" where
  "timed_out st now_ms i =
     (\<exists>a t. map_of (st_pending_tool_approvals st) i = Some a
        \<and> tas_expires_at_ms (tar_request a) = Some t \<and> t \<le> now_ms)"

definition resolution_justified ::
  "agent_state \<Rightarrow> nat \<Rightarrow> (string \<Rightarrow> tool_approval_resolution option) \<Rightarrow> resolved_tool_approval \<Rightarrow> bool" where
  "resolution_justified st now_ms provided a =
     (let r = rta_resolution a
      in if rta_expired a
         then timed_out st now_ms (res_approval_id r) \<and> dec_outcome (res_decision r) = Deny
         else provided (res_approval_id r) = Some r)"

lemma resolve_pending_ok:
  assumes "resolve_pending st now_ms is provided = Inr (resolved, missing, rest)"
    and "keyed provided"
  shows "(missing = [] \<longrightarrow> map (\<lambda>a. res_approval_id (rta_resolution a)) resolved = is)
    \<and> list_all (resolution_justified st now_ms (map_of provided)) resolved
    \<and> (\<forall>i. map_of rest i = (if i \<in> set is then None else map_of provided i))"
  using assms
proof (induction st now_ms "is" provided arbitrary: resolved missing rest
    rule: resolve_pending.induct)
  case (1 st now_ms provided)
  then show ?case by simp
next
  case (2 st now_ms i "is" provided)
  show ?case
  proof (cases "map_of provided i")
    case (Some r)
    then obtain resolved' where rec: "resolve_pending st now_ms is (bt_remove i provided)
        = Inr (resolved', missing, rest)"
      and resolved: "resolved = \<lparr>rta_resolution = r, rta_expired = False\<rparr> # resolved'"
      using "2.prems"(1) by (auto split: sum.splits)
    have r: "res_approval_id r = i" using "2.prems"(2) Some by (simp add: keyed_def)
    note IH = "2.IH"(2) [OF Some rec keyed_remove [OF "2.prems"(2)]]
    have "list_all (resolution_justified st now_ms (map_of provided)) resolved'"
      using IH by (auto simp: list_all_iff resolution_justified_def Let_def map_of_bt_remove
          split: if_splits)
    moreover have "resolution_justified st now_ms (map_of provided)
        \<lparr>rta_resolution = r, rta_expired = False\<rparr>"
      using Some r by (simp add: resolution_justified_def)
    moreover have "map_of rest j = (if j \<in> set (i # is) then None else map_of provided j)" for j
      using IH by (simp add: map_of_bt_remove)
    ultimately show ?thesis using IH r unfolding resolved by auto
  next
    case None
    then obtain a where a: "map_of (st_pending_tool_approvals st) i = Some a"
      using "2.prems"(1) by (auto split: option.splits)
    obtain resolved' missing' where rec: "resolve_pending st now_ms is provided
        = Inr (resolved', missing', rest)"
      using "2.prems"(1) None a by (auto simp: Let_def split: sum.splits if_splits)
    note IH = "2.IH"(1) [OF None a refl refl rec "2.prems"(2)]
    show ?thesis
    proof (cases "case tas_expires_at_ms (tar_request a) of None \<Rightarrow> False | Some t \<Rightarrow> t \<le> now_ms")
      case True
      then have "timed_out st now_ms i" using a by (auto simp: timed_out_def split: option.splits)
      moreover from True have "resolved = \<lparr>rta_resolution = timeout_tool_approval_resolution i
          (tas_expires_at_ms (tar_request a)), rta_expired = True\<rparr> # resolved' \<and> missing = missing'"
        using "2.prems"(1) None a rec by (simp add: Let_def)
      ultimately show ?thesis
        using IH None by (auto simp: resolution_justified_def timeout_tool_approval_resolution_def)
    next
      case False
      then have "resolved = resolved' \<and> missing = i # missing'"
        using "2.prems"(1) None a rec by (simp add: Let_def)
      then show ?thesis using IH None by auto
    qed
  qed
qed


text \<open>One approval was given, the deadline of the other one has passed.\<close>

definition two_pending :: tool_approval_continuation where
  "two_pending =
     (let call = \<lparr>tc_id = ''c'', tc_name = ''edit'', tc_arguments = JNull\<rparr>;
          waiting = (\<lambda>i. \<lparr>pf_tool_call = call, pf_permission_audit =
            \<lparr>ta_tool_call = call, ta_permissions = [], ta_decisions = []\<rparr>,
            pf_status = Pending i 0 None\<rparr>)
      in \<lparr>co_run_id = ''run-1'', co_turn_id = 1, co_phase = ''tool.execute'',
          co_scratch = scratch_default, co_tool_execution_mode = Sequential,
          co_preflights = [waiting ''a1'', waiting ''a2'']\<rparr>)"

definition two_pending_state :: agent_state where
  "two_pending_state = agent_state_default\<lparr>st_pending_tool_approvals :=
     [(''a2'', \<lparr>tar_approval_id = ''a2'',
        tar_tool_call = \<lparr>tc_id = ''c'', tc_name = ''edit'', tc_arguments = JNull\<rparr>,
        tar_permissions = [], tar_hook_id = None,
        tar_request = \<lparr>tas_prompt = None, tas_reason = None, tas_expires_at_ms = Some 5,
          tas_metadata = JNull\<rparr>\<rparr>)]\<rparr>"

definition one_allowed :: tool_approval_resolution where
  "one_allowed = \<lparr>res_approval_id = ''a1'', res_decision = \<lparr>dec_outcome = Allow, dec_reason = None,
     dec_approver = None, dec_metadata = JNull\<rparr>\<rparr>"


end
