(* ===== verification/Sample_Runtime.thy ===== *)
theory Sample_Runtime
  imports Tool_Phase
begin

text \<open>
  A small concrete runtime for the instances of the theorems: the world is the list of the names of
  the tools that were executed, one hook denies \<open>rm\<close>, the next one asks for an approval of \<open>edit\<close>,
  the model calls a tool in its first turn and answers with text in the next.
\<close>

definition sample_spec :: "string \<Rightarrow> tool_spec" where
  "sample_spec name =
     \<lparr>ts_name = name, ts_description = ''a tool'', ts_input_schema = JNull,
      ts_execution_mode = None, ts_permissions = []\<rparr>"

definition sample_output :: tool_output where
  "sample_output =
     \<lparr>to_content = [Text ''ok''], to_details = JNull, to_is_error = False, to_updates = []\<rparr>"

definition sample_tool :: "string \<Rightarrow> string list tool_provider" where
  "sample_tool name =
     \<lparr>tp_spec = sample_spec name,
      tp_execute_tool = (\<lambda>r w. (w @ [tr_tool_name r], Inr sample_output))\<rparr>"

definition sample_decision :: "tool_permission_outcome \<Rightarrow> tool_permission_decision" where
  "sample_decision outcome =
     \<lparr>dec_outcome = outcome, dec_reason = None, dec_approver = None, dec_metadata = JNull\<rparr>"

definition deny_hook :: "string list tool_call_hook" where
  "deny_hook =
     \<lparr>th_id = Some ''deny'',
      th_before_tool_call = (\<lambda>ctx w. (w, Inr
        (if tc_name (btc_tool_call ctx) = ''rm'' then Some (Decision (sample_decision Deny))
         else None))),
      th_after_tool_call = (\<lambda>ctx w. (w, Inr None))\<rparr>"

definition ask_hook :: "string list tool_call_hook" where
  "ask_hook =
     \<lparr>th_id = Some ''ask'',
      th_before_tool_call = (\<lambda>ctx w. (w, Inr
        (if tc_name (btc_tool_call ctx) = ''edit''
         then Some (Approval \<lparr>tas_prompt = None, tas_reason = None, tas_expires_at_ms = None,
                              tas_metadata = JNull\<rparr>)
         else None))),
      th_after_tool_call = (\<lambda>ctx w. (w, Inr None))\<rparr>"

definition sample_call :: "string \<Rightarrow> string \<Rightarrow> tool_call" where
  "sample_call i name = \<lparr>tc_id = i, tc_name = name, tc_arguments = JNull\<rparr>"

text \<open>The model calls \<open>name\<close> in turn 1.\<close>

definition sample_model :: "string \<Rightarrow> string list model_provider" where
  "sample_model name =
     \<lparr>mpv_id = ''model'',
      mpv_stream_model = (\<lambda>request w.
        if mr_turn_id request = 1
        then Emit w (ToolCallEvent (sample_call ''c1'' name)) (\<lambda>w' r.
               case r of Inl e \<Rightarrow> Done w' (Inl e) | Inr _ \<Rightarrow> Done w' (Inr []))
        else Done w (Inr [TextDelta ''done'']))\<rparr>"

definition sample_runtime :: "string \<Rightarrow> (memory_store, string list) agent_runtime" where
  "sample_runtime name =
     \<lparr>rt_event_store = memory_store_ops,
      rt_phases = map StandardPhase
        [InputIngest, ContextPrepare, ModelRequestPrepare, ModelStream, AssistantCommit,
         ToolCallResolve, ToolExecute, TurnDecision],
      rt_model_providers = [(''model'', sample_model name)],
      rt_default_model_provider = ''model'',
      rt_tools = bt_collect [(''edit'', sample_tool ''edit''), (''ls'', sample_tool ''ls''),
        (''rm'', sample_tool ''rm'')],
      rt_tool_execution_mode = Parallel,
      rt_tool_hooks = [deny_hook, ask_hook],
      rt_phase_hooks = [], rt_context_providers = [], rt_context_compaction = None,
      rt_max_turns = 4, rt_run_id_prefix = None,
      rt_cancelled = (\<lambda>w. (w, False)),
      rt_schedule = (\<lambda>n w. (w, map TaskFinished (rev [0..<n]))),
      rt_current_unix_ms = (\<lambda>w. (w, Some 0))\<rparr>"

definition sample_context :: "tool_call list \<Rightarrow> phase_context" where
  "sample_context calls =
     \<lparr>pc_run_id = ''run-1'', pc_turn_id = 1, pc_state = agent_state_default,
      pc_scratch = scratch_default\<lparr>sc_tool_calls := calls\<rparr>\<rparr>"

definition sample_calls :: "tool_call list" where
  "sample_calls = [sample_call ''a'' ''ls'', sample_call ''b'' ''rm'', sample_call ''c'' ''ls'']"

end
