(* ===== verification/Tool_Safety.thy ===== *)
theory Tool_Safety
  imports Sample_Runtime "HOL-Library.Multiset"
begin

text \<open>
  What the tool phase guarantees. Joining gives every task exactly once; the outputs of a phase come
  in the order of the calls and their audits match them; a call that a hook, or the answer to an
  approval, denies is never executed. The last is stated for an arbitrary predicate on the world that
  everything but the execution of the denied calls preserves.
\<close>

section \<open>Joining\<close>

lemma join_all_mset:
  assumes "distinct pending" and "join_all what task es pending w = (w', Inr xs)"
  shows "mset (map fst xs) = mset pending"
  using assms
proof (induction what task es pending arbitrary: w xs rule: join_all.induct)
  case (2 what task i es pending)
  show ?case
  proof (cases "i \<in> set pending")
    case True
    with "2.prems"(2) obtain w1 x rest where
      "join_all what task es (filter (\<lambda>j. j \<noteq> i) pending) w1 = (w', Inr rest)"
      and xs: "xs = (i, x) # rest"
      by (auto simp: and_then_Inr_iff)
    with 2(1) [OF True] "2.prems"(1) have "mset (map fst rest) = mset (filter (\<lambda>j. j \<noteq> i) pending)"
      by simp
    moreover have "mset (filter (\<lambda>j. j \<noteq> i) pending) = mset pending - {#i#}"
      using distinct_remove1_removeAll [OF "2.prems"(1), of i]
      by (simp add: removeAll_filter_not_eq eq_commute flip: mset_remove1)
    ultimately show ?thesis using True xs by simp
  next
    case False
    with 2 show ?thesis by simp
  qed
qed (auto simp: and_then_Inr_iff split: if_splits)

lemma join_all_triple:
  assumes "\<And>i. i \<in> set pending \<Longrightarrow> triple Q (task i) (\<lambda>x w. Q w \<and> R i x) (\<lambda>_. Q)"
  shows "triple Q (join_all what task es pending)
    (\<lambda>xs w. Q w \<and> (\<forall>(i, x) \<in> set xs. R i x)) (\<lambda>_. Q)"
  using assms
proof (induction what task es pending rule: join_all.induct)
  case (2 what task i es pending)
  show ?case
  proof (cases "i \<in> set pending")
    case True
    have "triple (\<lambda>w. Q w \<and> R i x) (and_then (join_all what task es (filter (\<lambda>j. j \<noteq> i) pending))
        (\<lambda>rest. ok ((i, x) # rest))) (\<lambda>xs w. Q w \<and> (\<forall>(i, x) \<in> set xs. R i x)) (\<lambda>_. Q)" for x
      by (rule triple_pure, rule triple_and_then [OF 2(1) [OF True]])
        (auto intro!: triple_ok 2(3))
    with True show ?thesis by (auto intro!: triple_and_then [OF 2(3)])
  next
    case False
    with 2 show ?thesis by simp
  qed
next
  case (4 what task i pending)
  have "triple (\<lambda>w. Q w \<and> R i x) (and_then (join_all what task [] pending)
      (\<lambda>rest. ok ((i, x) # rest))) (\<lambda>xs w. Q w \<and> (\<forall>(i, x) \<in> set xs. R i x)) (\<lambda>_. Q)" for x
    by (rule triple_pure, rule triple_and_then [OF 4(1)]) (auto intro!: triple_ok 4(2))
  then show ?case by (auto intro!: triple_and_then [OF 4(2)])
qed (auto intro!: triple_ok triple_err)

text \<open>The slots are all filled and read in index order.\<close>

lemma in_source_order_complete:
  assumes "mset (map fst joined) = mset [0..<n]"
  shows "in_source_order e n joined = Inr (map (\<lambda>i. the (map_of joined i)) [0..<n])"
proof -
  have dist: "distinct (map fst joined)" and set: "set (map fst joined) = {0..<n}"
    using assms mset_eq_imp_distinct_iff [OF assms] mset_eq_setD [OF assms] by auto
  have "map_of (rev joined) = map_of joined" using dist by (subst map_of_inject_set) (simp_all flip: rev_map)
  moreover have "map_of joined i \<noteq> None" if "i < n" for i
    using that set by (simp add: map_of_eq_None_iff)
  ultimately show ?thesis by (fastforce simp: in_source_order_def Let_def image_iff)
qed

lemma map_of_in_source_order:
  assumes "mset (map fst joined) = mset [0..<n]" and "i < n"
  shows "(i, the (map_of joined i)) \<in> set joined"
proof -
  have "i \<in> fst ` set joined" using assms mset_eq_setD [OF assms(1)] by auto
  then obtain x where "map_of joined i = Some x"
    using map_of_eq_None_iff [of joined i] by auto
  then show ?thesis by (simp add: map_of_SomeD)
qed

lemma map_of_distinct_values:
  assumes "distinct (map fst xs)"
  shows "map (\<lambda>i. the (map_of xs i)) (map fst xs) = map snd xs"
proof -
  have "the (map_of xs (fst p)) = snd p" if "p \<in> set xs" for p
    using map_of_is_SomeI [OF assms, of "fst p" "snd p"] that by simp
  then show ?thesis by simp
qed

section \<open>Preflights\<close>

definition all_allow :: "tool_permission_decision_record list \<Rightarrow> bool" where
  "all_allow = list_all (\<lambda>d. dec_outcome (dr_decision d) = Allow)"

text \<open>
  What a preflight's status says of its audit: a call is ready when every recorded decision allows
  it, denied when the last one denies it, and pending only after allowing ones.
\<close>

definition preflight_wf :: "tool_approval_preflight \<Rightarrow> bool" where
  "preflight_wf p =
     (let ds = ta_decisions (pf_permission_audit p)
      in ta_tool_call (pf_permission_audit p) = pf_tool_call p
         \<and> (case pf_status p of
               Ready \<Rightarrow> all_allow ds
             | Denied d \<Rightarrow> ds \<noteq> [] \<and> dr_decision (last ds) = d \<and> dec_outcome d = Deny
             | Pending _ _ _ \<Rightarrow> all_allow ds))"

definition approval_matches :: "preflight_result \<Rightarrow> bool" where
  "approval_matches pr =
     (case snd pr of
        None \<Rightarrow> (\<forall>i n h. pf_status (fst pr) \<noteq> Pending i n h)
      | Some a \<Rightarrow>
          (\<exists>n. pf_status (fst pr) = Pending (tar_approval_id a) n (tar_hook_id a))
          \<and> tar_tool_call a = pf_tool_call (fst pr))"

lemma not_Deny [simp]: "d \<noteq> Deny \<longleftrightarrow> d = Allow"
  by (cases d) auto

lemma preflight_hooks_wf:
  assumes "preflight_hooks pc call spec audit hooks w = (w', Inr pr)"
    and "all_allow (ta_decisions audit)" and "ta_tool_call audit = call"
  shows "pf_tool_call (fst pr) = call \<and> preflight_wf (fst pr) \<and> approval_matches pr"
  using assms
proof (induction pc call spec audit hooks arbitrary: w rule: preflight_hooks.induct)
  case (1 pc call spec audit)
  then show ?case by (auto simp: preflight_wf_def approval_matches_def)
next
  case (2 pc call spec audit hook_index hook hooks)
  from "2.prems"(1) obtain w1 r where
    call: "th_before_tool_call hook \<lparr>btc_run_id = tpc_run_id pc, btc_turn_id = tpc_turn_id pc,
        btc_tool_call = call, btc_tool_spec = spec, btc_state = tpc_state pc\<rparr> w = (w1, Inr r)"
    by (auto simp: and_then_Inr_iff)
  show ?case
  proof (cases r)
    case None
    with "2.prems" call 2(1) show ?thesis by (auto simp: and_then_Inr_iff)
  next
    case (Some b)
    show ?thesis
    proof (cases b)
      case (Decision d)
      show ?thesis
      proof (cases "dec_outcome d = Deny")
        case True
        with "2.prems" call Some Decision show ?thesis
          by (auto simp: and_then_Inr_iff preflight_wf_def approval_matches_def Let_def)
      next
        case False
        with "2.prems" call Some Decision 2(2) [OF refl False] show ?thesis
          by (auto simp: and_then_Inr_iff all_allow_def Let_def)
      qed
    next
      case (Approval a)
      with "2.prems" call Some show ?thesis
        by (auto simp: and_then_Inr_iff preflight_wf_def approval_matches_def Let_def)
    qed
  qed
qed

lemma prepare_one_tool_call_wf:
  assumes "prepare_one_tool_call rt pc call n audit w = (w', Inr pr)"
    and "\<And>a. audit = Some a \<Longrightarrow> all_allow (ta_decisions a) \<and> ta_tool_call a = call"
  shows "pf_tool_call (fst pr) = call \<and> preflight_wf (fst pr) \<and> approval_matches pr"
  using assms
  by (cases audit)
    (auto simp: prepare_one_tool_call_def and_then_Inr_iff Let_def all_allow_def
      dest!: preflight_hooks_wf)

section \<open>A denying hook\<close>

text \<open>A hook that answers every call of a kind with a denial.\<close>

definition always_denies :: "(tool_call \<Rightarrow> bool) \<Rightarrow> 'w tool_call_hook \<Rightarrow> bool" where
  "always_denies bad hook =
     (\<forall>ctx w w' r. bad (btc_tool_call ctx) \<longrightarrow> th_before_tool_call hook ctx w = (w', Inr r)
        \<longrightarrow> (\<exists>d. r = Some (Decision d) \<and> dec_outcome d = Deny))"

lemma preflight_hooks_denied:
  assumes "preflight_hooks pc call spec audit hooks w = (w', Inr pr)"
    and "hook \<in> snd ` set hooks" and "always_denies bad hook" and "bad call"
  shows "pf_status (fst pr) \<noteq> Ready"
  using assms
proof (induction pc call spec audit hooks arbitrary: w rule: preflight_hooks.induct)
  case (2 pc call spec audit i h hooks)
  from "2.prems"(1) obtain w1 r where
    call: "th_before_tool_call h \<lparr>btc_run_id = tpc_run_id pc, btc_turn_id = tpc_turn_id pc,
        btc_tool_call = call, btc_tool_spec = spec, btc_state = tpc_state pc\<rparr> w = (w1, Inr r)"
    by (auto simp: and_then_Inr_iff)
  have deny: "\<exists>d. r = Some (Decision d) \<and> dec_outcome d = Deny" if "h = hook"
    using "2.prems"(3) [unfolded always_denies_def, rule_format, OF _ call [unfolded that]]
      "2.prems"(4) by simp
  show ?case
  proof (cases "h = hook")
    case True
    with deny "2.prems"(1) call show ?thesis by (auto simp: and_then_Inr_iff Let_def)
  next
    case False
    with "2.prems" have mem: "hook \<in> snd ` set hooks" by auto
    show ?thesis
      using "2.prems"(1,3,4) call 2(1) [OF _ mem] 2(2) [OF refl _ _ mem]
      by (auto simp: and_then_Inr_iff Let_def split: option.splits before_tool_call_result.splits
          if_splits)
  qed
qed simp

section \<open>The outputs of a phase\<close>

text \<open>
  The executions of a list of preflights: the outputs in source order are those of the calls in
  their order, the completed ones are the same in some order, each with the audit of its preflight.
\<close>

definition executions_ok :: "tool_approval_preflight list \<Rightarrow> tool_executions \<Rightarrow> bool" where
  "executions_ok ps x =
     (map fst (tx_source_order_outputs x) = map pf_tool_call ps
      \<and> mset (tx_completed_outputs x) = mset (tx_source_order_outputs x)
      \<and> list_all2 (\<lambda>out audit. \<exists>p \<in> set ps. pf_tool_call p = fst out \<and> pf_permission_audit p = audit)
          (tx_completed_outputs x) (tx_completed_audits x))"

lemma execute_prepared_tool_call_audit:
  "execute_prepared_tool_call rt c p w = (w', Inr (out, audit)) \<Longrightarrow> audit = pf_permission_audit p"
  by (auto simp: execute_prepared_tool_call_def and_then_Inr_iff Let_def
      split: tool_approval_preflight_status.splits)

lemma execute_sequential_ok:
  assumes "execute_prepared_tools_sequential rt c ps w = (w', Inr x)"
  shows "executions_ok ps x"
proof -
  let ?inv = "\<lambda>ps x. map fst (tx_source_order_outputs x) = map pf_tool_call ps
    \<and> tx_completed_outputs x = tx_source_order_outputs x
    \<and> tx_completed_audits x = map pf_permission_audit ps"
  let ?step = "\<lambda>preflight x. and_then (execute_prepared_tool_call rt c preflight)
      (\<lambda>outcome. ok (add_execution preflight outcome x))"
  have "?inv (qs @ ps) x" if "for_fold ps ?step y w = (w', Inr x)" and "?inv qs y" for qs y w
    using that
  proof (induction ps arbitrary: qs y w)
    case Nil
    then show ?case by simp
  next
    case (Cons p ps)
    from Cons.prems(1) obtain w1 outcome where
      step: "execute_prepared_tool_call rt c p w = (w1, Inr outcome)"
      and rest: "for_fold ps ?step (add_execution p outcome y) w1 = (w', Inr x)"
      unfolding for_fold.simps by (elim and_then_InrE) simp
    have "snd outcome = pf_permission_audit p"
      using execute_prepared_tool_call_audit [of rt c p w w1 "fst outcome" "snd outcome"] step by simp
    with Cons.prems(2) Cons.IH [OF rest, of "qs @ [p]"] show ?case by (simp add: add_execution_def)
  qed
  from this [of _ w "[]"] assms have *: "?inv ps x"
    by (simp add: execute_prepared_tools_sequential_def)
  moreover have "list_all2 (\<lambda>out audit. \<exists>p \<in> set ps. pf_tool_call p = fst out
      \<and> pf_permission_audit p = audit) (tx_source_order_outputs x) (map pf_permission_audit ps)"
    unfolding list_all2_conv_all_nth
    using * by (metis length_map nth_map nth_mem)
  ultimately show ?thesis by (simp add: executions_ok_def)
qed

lemma execute_parallel_ok:
  assumes "execute_prepared_tools_parallel rt c ps w = (w', Inr x)"
  shows "executions_ok ps x"
proof -
  let ?task = "\<lambda>i. execute_prepared_tool_call rt c (ps ! i)"
  from assms obtain w1 w2 es joined src where
    join: "join_all ''tool execution'' ?task es [0..<length ps] w1 = (w2, Inr joined)"
    and src: "in_source_order (PhaseError ''parallel tool result missing'') (length ps)
        (map (\<lambda>(i, output, audit). (i, pf_tool_call (ps ! i), output)) joined) = Inr src"
    and x: "x = \<lparr>tx_completed_outputs =
          map snd (map (\<lambda>(i, output, audit). (i, pf_tool_call (ps ! i), output)) joined),
        tx_completed_audits = map (\<lambda>(i, output, audit). audit) joined,
        tx_source_order_outputs = src\<rparr>"
    by (auto simp: execute_prepared_tools_parallel_def spawn_and_join_def and_then_Inr_iff Let_def
        split: prod.splits)
  let ?outs = "map (\<lambda>(i, output, audit). (i, pf_tool_call (ps ! i), output)) joined"
  have fst_outs: "map fst ?outs = map fst joined" by auto
  have mset: "mset (map fst ?outs) = mset [0..<length ps]"
    unfolding fst_outs by (rule join_all_mset [OF _ join]) simp
  have mset_joined: "mset (map fst joined) = mset [0..<length ps]"
    using mset unfolding fst_outs .
  have "triple (\<lambda>_. True) (join_all ''tool execution'' ?task es [0..<length ps])
      (\<lambda>xs w. True \<and> (\<forall>(i, x) \<in> set xs. snd x = pf_permission_audit (ps ! i))) (\<lambda>_ _. True)"
    by (rule join_all_triple) (auto intro!: tripleI dest: execute_prepared_tool_call_audit)
  from tripleD(1) [OF this _ join] have audits:
    "\<forall>(i, x) \<in> set joined. snd x = pf_permission_audit (ps ! i)" by simp
  have idx: "i < length ps" if "(i, o') \<in> set joined" for i o'
    using that mset_eq_setD [OF mset_joined] by (force simp: image_iff)
  have src_eq: "src = map (\<lambda>i. the (map_of ?outs i)) [0..<length ps]"
    using src in_source_order_complete [OF mset] by simp
  have calls: "fst (the (map_of ?outs i)) = pf_tool_call (ps ! i)" if "i < length ps" for i
    using map_of_in_source_order [OF mset that] by auto
  have "map fst src = map pf_tool_call ps"
    using calls by (auto simp: src_eq intro: nth_equalityI)
  moreover have "mset (map snd ?outs) = mset src"
  proof -
    have dist: "distinct (map fst ?outs)" using mset mset_eq_imp_distinct_iff by fastforce
    let ?f = "\<lambda>i. the (map_of ?outs i)"
    have "mset (map snd ?outs) = mset (map ?f (map fst ?outs))"
      unfolding map_of_distinct_values [OF dist] ..
    also have "\<dots> = image_mset ?f (mset (map fst ?outs))" by (rule mset_map)
    also have "\<dots> = mset src" unfolding mset src_eq by (rule mset_map [symmetric])
    finally show ?thesis .
  qed
  moreover have "list_all2 (\<lambda>out audit. \<exists>p \<in> set ps. pf_tool_call p = fst out
      \<and> pf_permission_audit p = audit) (map snd ?outs) (map (\<lambda>(i, output, audit). audit) joined)"
    using audits idx by (fastforce simp: list.rel_map intro!: list.rel_refl_strong)
  ultimately show ?thesis by (simp add: executions_ok_def x)
qed

lemma execute_prepared_tools_ok:
  "execute_prepared_tools rt c mode ps w = (w', Inr x) \<Longrightarrow> executions_ok ps x"
  by (auto simp: execute_prepared_tools_def intro: execute_sequential_ok execute_parallel_ok
      split: if_splits)

section \<open>All preflights of a phase\<close>

text \<open>
  A relation between a call and its preflight that \<open>prepare_one_tool_call\<close> establishes holds for
  all the calls of a phase, in both modes, together with a predicate on the world.
\<close>

definition preflights_for ::
  "(tool_call \<Rightarrow> preflight_result \<Rightarrow> bool) \<Rightarrow> tool_call list
     \<Rightarrow> tool_approval_preflight list \<times> tool_approval_request list \<Rightarrow> bool" where
  "preflights_for R calls x =
     (\<exists>results. fst x = map fst results \<and> snd x = approval_requests_of results
        \<and> list_all2 R calls results)"

lemma preflights_forI:
  "list_all2 R calls results \<Longrightarrow>
   preflights_for R calls (map fst results, approval_requests_of results)"
  unfolding preflights_for_def fst_conv snd_conv by blast

lemma approval_requests_of_simps [simp]:
  "approval_requests_of [] = []"
  "approval_requests_of (xs @ ys) = approval_requests_of xs @ approval_requests_of ys"
  "approval_requests_of [(p, None)] = []" "approval_requests_of [(p, Some a)] = [a]"
  by (simp_all add: approval_requests_of_def map_filter_append List.map_filter_simps)

lemma preflights_for_snoc:
  "preflights_for R calls (ps, rs) \<Longrightarrow> R call (p, a) \<Longrightarrow>
   preflights_for R (calls @ [call])
     (ps @ [p], rs @ (case a of Some a' \<Rightarrow> [a'] | None \<Rightarrow> []))"
  unfolding preflights_for_def
  by (elim exE, rule_tac x = "results @ [(p, a)]" in exI)
    (auto intro: list_all2_appendI split: option.splits)

lemma prepare_sequential_triple:
  assumes "\<And>call. call \<in> set calls \<Longrightarrow>
    triple Q (prepare_one_tool_call rt pc call 0 None) (\<lambda>pr w. Q w \<and> R call pr) (\<lambda>_. Q)"
  shows "triple Q (prepare_tool_preflights_sequential rt pc calls)
    (\<lambda>x w. Q w \<and> preflights_for R calls x) (\<lambda>_. Q)"
proof -
  let ?step = "\<lambda>call (preflights, approval_requests).
       and_then (prepare_one_tool_call rt pc call 0 None) (\<lambda>(preflight, approval_request).
       ok (preflights @ [preflight],
           approval_requests @ (case approval_request of Some a \<Rightarrow> [a] | None \<Rightarrow> [])))"
  have "triple (\<lambda>w. Q w \<and> preflights_for R ys a) (?step y a)
      (\<lambda>x w. Q w \<and> preflights_for R (ys @ [y]) x) (\<lambda>_. Q)"
    if "calls = ys @ y # zs" for ys y zs a
  proof (rule triple_pure)
    assume a: "preflights_for R ys a"
    obtain ps rs where a_eq: "a = (ps, rs)" by force
    have "triple (\<lambda>w. Q w \<and> R y pr) (case pr of (preflight, approval_request) \<Rightarrow>
       ok (ps @ [preflight], rs @ (case approval_request of Some a \<Rightarrow> [a] | None \<Rightarrow> [])))
      (\<lambda>x w. Q w \<and> preflights_for R (ys @ [y]) x) (\<lambda>_. Q)" for pr
    proof (cases pr)
      case (Pair p q)
      then show ?thesis
        using preflights_for_snoc [OF a [unfolded a_eq]]
        by (simp only: prod.case) (rule triple_ok, blast)
    qed
    then show "triple Q (?step y a) (\<lambda>x w. Q w \<and> preflights_for R (ys @ [y]) x) (\<lambda>_. Q)"
      unfolding a_eq prod.case by (intro triple_and_then [OF assms]) (simp_all add: that)
  qed
  from triple_for_fold_done [of calls "\<lambda>ys a w. Q w \<and> preflights_for R ys a" ?step "\<lambda>_. Q"
      "([], [])", OF this]
  show ?thesis
    unfolding prepare_tool_preflights_sequential_def
    by (rule triple_conseq) (auto simp: preflights_for_def)
qed

definition schedule_keeps :: "('s, 'w) agent_runtime \<Rightarrow> ('w \<Rightarrow> bool) \<Rightarrow> bool" where
  "schedule_keeps rt Q = (\<forall>n w. Q w \<longrightarrow> Q (fst (rt_schedule rt n w)))"

lemma spawn_and_join_triple:
  assumes "schedule_keeps rt Q"
    and "\<And>i. i < n \<Longrightarrow> triple Q (task i) (\<lambda>x w. Q w \<and> R i x) (\<lambda>_. Q)"
  shows "triple Q (spawn_and_join rt what n task)
    (\<lambda>xs w. Q w \<and> (\<forall>(i, x) \<in> set xs. R i x) \<and> mset (map fst xs) = mset [0..<n]) (\<lambda>_. Q)"
proof (rule tripleI)
  fix w w' xs assume Q: "Q w" and run: "spawn_and_join rt what n task w = (w', Inr xs)"
  obtain w1 es where s: "rt_schedule rt n w = (w1, es)" by force
  with run have join: "join_all what task es [0..<n] w1 = (w', Inr xs)"
    by (simp add: spawn_and_join_def)
  have Q1: "Q w1" using assms(1) Q s unfolding schedule_keeps_def by (metis fst_conv)
  have "triple Q (join_all what task es [0..<n])
    (\<lambda>xs w. Q w \<and> (\<forall>(i, x) \<in> set xs. R i x)) (\<lambda>_. Q)"
    by (rule join_all_triple) (simp add: assms(2))
  from tripleD(1) [OF this Q1 join] join_all_mset [OF _ join]
  show "Q w' \<and> (\<forall>(i, x) \<in> set xs. R i x) \<and> mset (map fst xs) = mset [0..<n]" by simp
next
  fix w w' e assume Q: "Q w" and run: "spawn_and_join rt what n task w = (w', Inl e)"
  obtain w1 es where s: "rt_schedule rt n w = (w1, es)" by force
  with run have join: "join_all what task es [0..<n] w1 = (w', Inl e)"
    by (simp add: spawn_and_join_def)
  have Q1: "Q w1" using assms(1) Q s unfolding schedule_keeps_def by (metis fst_conv)
  have "triple Q (join_all what task es [0..<n])
    (\<lambda>xs w. Q w \<and> (\<forall>(i, x) \<in> set xs. R i x)) (\<lambda>_. Q)"
    by (rule join_all_triple) (simp add: assms(2))
  from tripleD(2) [OF this Q1 join] show "Q w'" .
qed

lemma in_order_list_all2:
  assumes "\<forall>(i, x) \<in> set xs. R (calls ! i) x"
    and "mset (map fst xs) = mset [0..<length calls]"
  shows "list_all2 R calls (map (\<lambda>i. the (map_of xs i)) [0..<length calls])"
  unfolding list_all2_conv_all_nth
  using assms map_of_in_source_order [OF assms(2)] by fastforce

lemma prepare_parallel_triple:
  assumes "schedule_keeps rt Q"
    and "\<And>call. call \<in> set calls \<Longrightarrow>
    triple Q (prepare_one_tool_call rt pc call 0 None) (\<lambda>pr w. Q w \<and> R call pr) (\<lambda>_. Q)"
  shows "triple Q (prepare_tool_preflights_parallel rt pc calls)
    (\<lambda>x w. Q w \<and> preflights_for R calls x) (\<lambda>_. Q)"
  unfolding prepare_tool_preflights_parallel_def
proof (rule triple_and_then [OF spawn_and_join_triple [OF assms(1), where R = "\<lambda>i. R (calls ! i)"]])
  show "triple Q (prepare_one_tool_call rt pc (calls ! i) 0 None)
      (\<lambda>x w. Q w \<and> R (calls ! i) x) (\<lambda>_. Q)" if "i < length calls" for i
    using that by (intro assms(2)) simp
next
  fix joined
  let ?e = "PhaseError ''parallel tool preflight result missing''"
  show "triple (\<lambda>w. Q w \<and> (\<forall>(i, x) \<in> set joined. R (calls ! i) x)
        \<and> mset (map fst joined) = mset [0..<length calls])
      (and_then (lift_result (in_source_order ?e (length calls) joined))
        (\<lambda>results. ok (map fst results, approval_requests_of results)))
      (\<lambda>x w. Q w \<and> preflights_for R calls x) (\<lambda>_. Q)"
  proof (rule triple_pure)
    assume j: "(\<forall>(i, x) \<in> set joined. R (calls ! i) x)
        \<and> mset (map fst joined) = mset [0..<length calls]"
    let ?r = "map (\<lambda>i. the (map_of joined i)) [0..<length calls]"
    have "in_source_order ?e (length calls) joined = Inr ?r"
      by (rule in_source_order_complete [OF conjunct2 [OF j]])
    moreover have "preflights_for R calls (map fst ?r, approval_requests_of ?r)"
      by (rule preflights_forI [OF in_order_list_all2 [OF conjunct1 [OF j] conjunct2 [OF j]]])
    ultimately show "triple Q (and_then (lift_result (in_source_order ?e (length calls) joined))
        (\<lambda>results. ok (map fst results, approval_requests_of results)))
      (\<lambda>x w. Q w \<and> preflights_for R calls x) (\<lambda>_. Q)"
      by (simp add: triple_def and_then_def)
  qed
qed

lemma prepare_tool_preflights_triple:
  assumes "schedule_keeps rt Q"
    and "\<And>pc call. call \<in> set calls \<Longrightarrow>
    triple Q (prepare_one_tool_call rt pc call 0 None) (\<lambda>pr w. Q w \<and> R call pr) (\<lambda>_. Q)"
  shows "triple Q (prepare_tool_preflights rt c calls mode)
    (\<lambda>x w. Q w \<and> preflights_for R calls x) (\<lambda>_. Q)"
  using prepare_parallel_triple [OF assms] prepare_sequential_triple [OF assms(2)]
  by (simp add: prepare_tool_preflights_def Let_def)

section \<open>Denied calls are never executed\<close>

text \<open>Everything the phase calls but the tools keeps \<open>Q\<close>.\<close>

definition world_keeps :: "('s, 'w) agent_runtime \<Rightarrow> ('w \<Rightarrow> bool) \<Rightarrow> bool" where
  "world_keeps rt Q =
     ((\<forall>w. Q w \<longrightarrow> Q (fst (rt_cancelled rt w))) \<and> schedule_keeps rt Q
      \<and> (\<forall>h \<in> set (rt_tool_hooks rt). \<forall>ctx. preserves Q (th_before_tool_call h ctx))
      \<and> (\<forall>h \<in> set (rt_tool_hooks rt). \<forall>ctx. preserves Q (th_after_tool_call h ctx)))"

text \<open>The tools keep \<open>Q\<close> when they are asked to execute a call that is not bad.\<close>

definition request_call :: "tool_request \<Rightarrow> tool_call" where
  "request_call r =
     \<lparr>tc_id = tr_tool_call_id r, tc_name = tr_tool_name r, tc_arguments = tr_arguments r\<rparr>"

definition tools_keep ::
  "('s, 'w) agent_runtime \<Rightarrow> (tool_call \<Rightarrow> bool) \<Rightarrow> ('w \<Rightarrow> bool) \<Rightarrow> bool" where
  "tools_keep rt bad Q =
     (\<forall>t \<in> snd ` set (rt_tools rt). \<forall>r. \<not> bad (request_call r) \<longrightarrow> preserves Q (tp_execute_tool t r))"

lemma triple_value:
  assumes "preserves Q m" and "\<And>s s' x. m s = (s', Inr x) \<Longrightarrow> R x"
  shows "triple Q m (\<lambda>x w. Q w \<and> R x) (\<lambda>_. Q)"
proof (rule tripleI)
  fix s s' x assume "Q s" and m: "m s = (s', Inr x)"
  then show "Q s' \<and> R x" using preservesD [OF assms(1) \<open>Q s\<close>] assms(2) [OF m] by simp
next
  fix s s' e assume "Q s" and m: "m s = (s', Inl e)"
  then show "Q s'" using preservesD [OF assms(1) \<open>Q s\<close>] by simp
qed

lemma keeps_cancelled: "world_keeps rt Q \<Longrightarrow> preserves Q (throw_if_cancelled rt)"
  by (auto simp: world_keeps_def preserves_def throw_if_cancelled_def split: prod.splits)

lemma keeps_preflight_hooks:
  assumes keeps: "world_keeps rt Q"
  shows "snd ` set hooks \<subseteq> set (rt_tool_hooks rt) \<Longrightarrow>
   preserves Q (preflight_hooks pc call spec audit hooks)"
proof (induction pc call spec audit hooks rule: preflight_hooks.induct)
  case (2 pc call spec audit i hook hooks)
  then have "preserves Q (th_before_tool_call hook ctx)" for ctx
    using keeps by (auto simp: world_keeps_def)
  with 2 show ?case
    by (auto simp: Let_def intro!: preserves_and_then split: option.split
        before_tool_call_result.split)
qed auto

lemma keeps_prepare_one_tool_call:
  assumes keeps: "world_keeps rt Q"
  shows "preserves Q (prepare_one_tool_call rt pc call n audit)"
proof -
  have "snd ` set (drop n (enumerate 0 (rt_tool_hooks rt))) \<subseteq> set (rt_tool_hooks rt)"
    by (auto dest!: in_set_dropD simp: in_set_enumerate_eq)
  from keeps_preflight_hooks [OF keeps this] show ?thesis
    unfolding prepare_one_tool_call_def Let_def by (intro pres keeps_cancelled [OF keeps])
qed

lemma keeps_execute_ready_call:
  assumes keeps: "world_keeps rt Q" and "tools_keep rt bad Q" and "\<not> bad call"
  shows "preserves Q (execute_ready_call rt c call)"
proof -
  have hooks: "preserves Q (run_after_hooks rt c call out)" for out
    unfolding run_after_hooks_def
    using keeps by (intro preserves_for_fold preserves_and_then preserves_ok) (auto simp: world_keeps_def)
  have exec: "preserves Q (tp_execute_tool t
      \<lparr>tr_run_id = pc_run_id c, tr_turn_id = pc_turn_id c, tr_tool_call_id = tc_id call,
       tr_tool_name = tc_name call, tr_arguments = tc_arguments call, tr_state = pc_state c\<rparr>)"
    if "tool rt (tc_name call) = Inr t" for t
  proof -
    have "t \<in> snd ` set (rt_tools rt)"
      using that by (force simp: tool_def split: option.splits dest: map_of_SomeD)
    moreover have "request_call \<lparr>tr_run_id = pc_run_id c, tr_turn_id = pc_turn_id c,
        tr_tool_call_id = tc_id call, tr_tool_name = tc_name call,
        tr_arguments = tc_arguments call, tr_state = pc_state c\<rparr> = call"
      by (simp add: request_call_def)
    ultimately show ?thesis using assms(2,3) unfolding tools_keep_def by metis
  qed
  show ?thesis
    unfolding execute_ready_call_def
    by (intro preserves_lift_then preserves_and_then preserves_try exec hooks)
      (auto split: sum.split agent_core_error.split)
qed

lemma keeps_execute_prepared_tool_call:
  assumes keeps: "world_keeps rt Q" and "tools_keep rt bad Q"
    and "pf_status p = Ready \<Longrightarrow> \<not> bad (pf_tool_call p)"
  shows "preserves Q (execute_prepared_tool_call rt c p)"
  unfolding execute_prepared_tool_call_def Let_def
  using assms(3)
  by (cases "pf_status p")
    (auto intro!: preserves_and_then keeps_cancelled [OF keeps]
      keeps_execute_ready_call [OF keeps assms(2)])

lemma keeps_execute_prepared_tools:
  assumes keeps: "world_keeps rt Q" and "tools_keep rt bad Q" and "\<forall>p \<in> set ps. pf_status p = Ready \<longrightarrow> \<not> bad (pf_tool_call p)"
  shows "preserves Q (execute_prepared_tools rt c mode ps)"
proof (cases "mode = Sequential")
  case True
  then show ?thesis
    unfolding execute_prepared_tools_def execute_prepared_tools_sequential_def
    using assms
    by (auto intro!: preserves_for_fold preserves_and_then keeps_execute_prepared_tool_call)
next
  case False
  have "preserves Q (spawn_and_join rt ''tool execution'' (length ps)
      (\<lambda>i. execute_prepared_tool_call rt c (ps ! i)))"
  proof (rule preserves_triple, rule triple_conseq [OF spawn_and_join_triple [where R = "\<lambda>_ _. True"]])
    show "schedule_keeps rt Q" using keeps by (simp add: world_keeps_def)
    show "triple Q (execute_prepared_tool_call rt c (ps ! i)) (\<lambda>x w. Q w \<and> True) (\<lambda>_. Q)"
      if "i < length ps" for i
      using keeps_execute_prepared_tool_call [OF keeps assms(2), of "ps ! i" c] assms(3) that
      by (intro triple_value) auto
  qed auto
  with False show ?thesis
    unfolding execute_prepared_tools_def execute_prepared_tools_parallel_def Let_def
    by (auto intro!: preserves_and_then)
qed

section \<open>Pausing and resuming\<close>

text \<open>
  A preflight that no answer among \<open>rs\<close> can make ready when its call is bad: it is denied, or it
  waits for an approval that \<open>rs\<close> denies or behind which a denying hook comes.
\<close>

definition blocked ::
  "('s, 'w) agent_runtime \<Rightarrow> (tool_call \<Rightarrow> bool) \<Rightarrow> tool_approval_resolution list
     \<Rightarrow> tool_approval_preflight \<Rightarrow> bool" where
  "blocked rt bad rs p =
     (bad (pf_tool_call p) \<longrightarrow>
        (case pf_status p of
           Ready \<Rightarrow> False
         | Denied _ \<Rightarrow> True
         | Pending i n _ \<Rightarrow>
             (\<forall>r \<in> set rs. res_approval_id r = i \<longrightarrow> dec_outcome (res_decision r) = Deny)
             \<or> (\<exists>hook \<in> set (drop (Suc n) (rt_tool_hooks rt)). always_denies bad hook)))"

lemma drop_enumerate_Cons:
  "drop n (enumerate 0 xs) = (i, x) # rest \<Longrightarrow>
     i = n \<and> n < length xs \<and> x = xs ! n \<and> rest = drop (Suc n) (enumerate 0 xs)"
proof -
  assume eq: "drop n (enumerate 0 xs) = (i, x) # rest"
  then have n: "n < length xs" by (metis drop_all length_enumerate list.distinct(1) not_less)
  then have "drop n (enumerate 0 xs) = (n, xs ! n) # drop (Suc n) (enumerate 0 xs)"
    by (simp add: Cons_nth_drop_Suc [symmetric] nth_enumerate_eq)
  from this [unfolded eq] n show ?thesis by auto
qed

lemma preflight_hooks_call:
  "preflight_hooks pc call spec audit hooks w = (w', Inr pr) \<Longrightarrow> pf_tool_call (fst pr) = call"
proof (induction pc call spec audit hooks arbitrary: w rule: preflight_hooks.induct)
  case (2 pc call spec audit i hook hooks)
  from "2.prems" obtain w1 r where
    call: "th_before_tool_call hook \<lparr>btc_run_id = tpc_run_id pc, btc_turn_id = tpc_turn_id pc,
        btc_tool_call = call, btc_tool_spec = spec, btc_state = tpc_state pc\<rparr> w = (w1, Inr r)"
    by (auto simp: and_then_Inr_iff)
  show ?case
  proof (cases r)
    case None
    with "2.prems" call 2(1) show ?thesis by (auto simp: and_then_Inr_iff)
  next
    case (Some b)
    with "2.prems" call 2(2) [OF refl] show ?thesis
      by (cases b) (auto simp: and_then_Inr_iff Let_def split: if_splits)
  qed
qed auto

text \<open>When a bad call is left pending at a hook, the denying hook comes after it.\<close>

lemma preflight_hooks_pending:
  assumes "preflight_hooks pc call spec audit hooks w = (w', Inr pr)"
    and "hooks = drop n (enumerate 0 (rt_tool_hooks rt))"
    and "hook \<in> set (drop n (rt_tool_hooks rt))" and "always_denies bad hook" and "bad call"
    and "pf_status (fst pr) = Pending i m h"
  shows "hook \<in> set (drop (Suc m) (rt_tool_hooks rt))"
  using assms
proof (induction pc call spec audit hooks arbitrary: w n rule: preflight_hooks.induct)
  case (1 pc call spec audit)
  then show ?case by auto
next
  case (2 pc call spec audit j g hooks)
  from "2.prems"(1) obtain w1 r where
    call: "th_before_tool_call g \<lparr>btc_run_id = tpc_run_id pc, btc_turn_id = tpc_turn_id pc,
        btc_tool_call = call, btc_tool_spec = spec, btc_state = tpc_state pc\<rparr> w = (w1, Inr r)"
    by (auto simp: and_then_Inr_iff)
  note d = drop_enumerate_Cons [OF "2.prems"(2) [symmetric]]
  have deny: "\<exists>d. r = Some (Decision d) \<and> dec_outcome d = Deny" if "g = hook"
    using "2.prems"(4) [unfolded always_denies_def, rule_format, OF _ call [unfolded that]]
      "2.prems"(5) by simp
  show ?case
  proof (cases "g = hook")
    case True
    with deny "2.prems"(1,6) call show ?thesis by (auto simp: and_then_Inr_iff Let_def)
  next
    case False
    have "drop n (rt_tool_hooks rt) = g # drop (Suc n) (rt_tool_hooks rt)"
      using d by (metis Cons_nth_drop_Suc)
    with False "2.prems"(3) have mem: "hook \<in> set (drop (Suc n) (rt_tool_hooks rt))" by simp
    have rest: "hooks = drop (Suc n) (enumerate 0 (rt_tool_hooks rt))" using d by simp
    show ?thesis
    proof (cases r)
      case None
      with "2.prems"(1) call have "preflight_hooks pc call spec audit hooks w1 = (w', Inr pr)"
        by (auto simp: and_then_Inr_iff)
      from 2(1) [OF this rest mem "2.prems"(4,5,6)] show ?thesis .
    next
      case (Some b)
      show ?thesis
      proof (cases b)
        case (Decision x)
        show ?thesis
        proof (cases "dec_outcome x = Deny")
          case True
          with "2.prems"(1,6) call Some Decision show ?thesis
            by (auto simp: and_then_Inr_iff Let_def)
        next
          case False
          with "2.prems"(1) call Some Decision have "preflight_hooks pc call spec
              (audit\<lparr>ta_decisions := ta_decisions audit @
                [\<lparr>dr_hook_id = th_id g, dr_decision = x\<rparr>]\<rparr>) hooks w1 = (w', Inr pr)"
            by (auto simp: and_then_Inr_iff Let_def)
          from 2(2) [OF refl False this rest mem "2.prems"(4,5,6)] show ?thesis .
        qed
      next
        case (Approval a)
        with "2.prems"(1,6) call Some d have "m = n" by (auto simp: and_then_Inr_iff Let_def)
        with mem show ?thesis by simp
      qed
    qed
  qed
qed

lemma prepare_one_tool_call_blocked:
  assumes "prepare_one_tool_call rt pc call n audit w = (w', Inr pr)"
    and "\<exists>hook \<in> set (drop n (rt_tool_hooks rt)). always_denies bad hook"
  shows "pf_tool_call (fst pr) = call \<and> blocked rt bad rs (fst pr)"
proof -
  from assms(2) obtain hook where hook: "hook \<in> set (drop n (rt_tool_hooks rt))"
    "always_denies bad hook" by blast
  from assms(1) obtain spec a w1 where run: "preflight_hooks pc call spec a
      (drop n (enumerate 0 (rt_tool_hooks rt))) w1 = (w', Inr pr)"
    unfolding prepare_one_tool_call_def Let_def by (elim and_then_InrE) (rule that)
  have mem: "hook \<in> snd ` set (drop n (enumerate 0 (rt_tool_hooks rt)))"
    using hook(1) by (metis (no_types) drop_map image_set map_snd_enumerate)
  have call: "pf_tool_call (fst pr) = call" by (rule preflight_hooks_call [OF run])
  show ?thesis
    using preflight_hooks_denied [OF run mem hook(2)]
      preflight_hooks_pending [OF run refl hook(1,2)] call hook(2)
    by (auto simp: blocked_def split: tool_approval_preflight_status.split)
qed

lemma approval_matches_None:
  "approval_matches (p, None) \<Longrightarrow> pf_status p \<noteq> Pending i n h"
  by (simp add: approval_matches_def)

lemma no_requests_no_pending:
  assumes "\<forall>pr \<in> set results. approval_matches pr" and "approval_requests_of results = []"
    and "p \<in> fst ` set results"
  shows "pf_status p \<noteq> Pending i n h"
proof -
  from assms(3) obtain a where mem: "(p, a) \<in> set results" by force
  have "a = None"
  proof (rule ccontr)
    assume "a \<noteq> None"
    then have "the a \<in> set (approval_requests_of results)"
      using mem by (force simp: approval_requests_of_def List.map_filter_def)
    with assms(2) show False by simp
  qed
  with assms(1) mem show ?thesis by (auto dest: approval_matches_None)
qed

text \<open>What the pre-execution half of a phase establishes of its preflights.\<close>

definition preflights_checked ::
  "('s, 'w) agent_runtime \<Rightarrow> (tool_call \<Rightarrow> bool) \<Rightarrow> tool_call list
     \<Rightarrow> tool_approval_preflight list \<times> tool_approval_request list \<Rightarrow> bool" where
  "preflights_checked rt bad calls x =
     (map pf_tool_call (fst x) = calls \<and> (\<forall>p \<in> set (fst x). preflight_wf p)
      \<and> (snd x = [] \<longrightarrow> (\<forall>p \<in> set (fst x). \<forall>i n h. pf_status p \<noteq> Pending i n h))
      \<and> ((\<exists>hook \<in> set (rt_tool_hooks rt). always_denies bad hook) \<longrightarrow>
           (\<forall>rs. \<forall>p \<in> set (fst x). blocked rt bad rs p)))"

lemma prepare_tool_preflights_checked:
  assumes keeps: "world_keeps rt Q"
  shows "triple Q (prepare_tool_preflights rt c calls mode)
    (\<lambda>x w. Q w \<and> preflights_checked rt bad calls x) (\<lambda>_. Q)"
proof -
  let ?denying = "\<exists>hook \<in> set (rt_tool_hooks rt). always_denies bad hook"
  let ?R = "\<lambda>call pr. pf_tool_call (fst pr) = call \<and> preflight_wf (fst pr) \<and> approval_matches pr
    \<and> (?denying \<longrightarrow> (\<forall>rs. blocked rt bad rs (fst pr)))"
  have "triple Q (prepare_one_tool_call rt pc call 0 None) (\<lambda>pr w. Q w \<and> ?R call pr) (\<lambda>_. Q)"
    for pc call
    using prepare_one_tool_call_wf [of rt pc call 0 None]
      prepare_one_tool_call_blocked [of rt pc call 0 None _ _ _ bad]
    by (intro triple_value keeps_prepare_one_tool_call [OF keeps]) auto
  then have "triple Q (prepare_tool_preflights rt c calls mode)
    (\<lambda>x w. Q w \<and> preflights_for ?R calls x) (\<lambda>_. Q)"
    using keeps by (intro prepare_tool_preflights_triple) (auto simp: world_keeps_def)
  then show ?thesis
  proof (rule triple_conseq)
    fix x w assume "Q w \<and> preflights_for ?R calls x"
    then obtain results where x: "fst x = map fst results" "snd x = approval_requests_of results"
      and all: "list_all2 ?R calls results" and Q: "Q w"
      unfolding preflights_for_def by blast
    have each: "pf_tool_call (fst pr) = calls ! i \<and> preflight_wf (fst pr) \<and> approval_matches pr
      \<and> (?denying \<longrightarrow> (\<forall>rs. blocked rt bad rs (fst pr)))"
      if "i < length results" and "pr = results ! i" for i pr
      using list_all2_nthD2 [OF all that(1)] that(2) by simp
    then have mem: "preflight_wf (fst pr) \<and> approval_matches pr
      \<and> (?denying \<longrightarrow> (\<forall>rs. blocked rt bad rs (fst pr)))" if "pr \<in> set results" for pr
      using that by (metis in_set_conv_nth)
    have "map pf_tool_call (fst x) = calls"
      by (rule nth_equalityI) (use each list_all2_lengthD [OF all] in \<open>auto simp: x\<close>)
    moreover have "\<forall>p \<in> set (fst x). preflight_wf p" using mem by (auto simp: x)
    moreover have "\<forall>p \<in> set (fst x). \<forall>i n h. pf_status p \<noteq> Pending i n h" if "snd x = []"
      using no_requests_no_pending [of results] mem that by (auto simp: x)
    moreover have "\<forall>rs. \<forall>p \<in> set (fst x). blocked rt bad rs p" if ?denying
      using mem that by (auto simp: x)
    ultimately show "Q w \<and> preflights_checked rt bad calls x"
      using Q unfolding preflights_checked_def by blast
  qed
qed

section \<open>The theorems\<close>

text \<open>C1: a call that a hook denies is never executed. Take any kind of calls that one of the
  registered hooks answers with a denial whenever it answers; then whatever the other hooks, the
  tools, the scheduling of the tasks and the token do, the tool phase keeps every predicate on the
  world that only the execution of such calls could break.\<close>

theorem denied_calls_never_execute:
  assumes keeps: "world_keeps rt Q" and tools: "tools_keep rt bad Q"
    and deny: "\<exists>hook \<in> set (rt_tool_hooks rt). always_denies bad hook"
    and "Q w"
  shows "Q (fst (tool_execute rt c w))"
proof -
  let ?calls = "sc_tool_calls (pc_scratch c)"
  let ?mode = "tool_execution_mode_for_calls rt ?calls"
  let ?out = "output_from_scratch (pc_scratch c)"
  let ?run = "\<lambda>(preflights, approval_requests).
           if approval_requests \<noteq> []
           then ok (set_tool_approval_pause ?out (pc_run_id c) (pc_turn_id c) ?mode preflights
                      approval_requests)
           else and_then (execute_prepared_tools rt c ?mode preflights) (\<lambda>x.
             ok (tool_phase_output ?out (pc_run_id c) x))"
  have "triple (\<lambda>w. Q w \<and> preflights_checked rt bad ?calls x) (?run x) (\<lambda>_. Q) (\<lambda>_. Q)" for x
  proof (rule triple_pure)
    assume "preflights_checked rt bad ?calls x"
    then have "\<forall>p \<in> set (fst x). blocked rt bad [] p"
      using deny by (simp add: preflights_checked_def)
    then have "\<forall>p \<in> set (fst x). pf_status p = Ready \<longrightarrow> \<not> bad (pf_tool_call p)"
      by (auto simp: blocked_def)
    then show "triple Q (?run x) (\<lambda>_. Q) (\<lambda>_. Q)"
      by (cases x)
        (auto intro!: triple_preserves preserves_and_then keeps_execute_prepared_tools [OF keeps tools])
  qed
  then have "triple Q (and_then (prepare_tool_preflights rt c ?calls ?mode) ?run) (\<lambda>_. Q) (\<lambda>_. Q)"
    by (rule triple_and_then [OF prepare_tool_preflights_checked [OF keeps]])
  then have "preserves Q (and_then (prepare_tool_preflights rt c ?calls ?mode) ?run)"
    by (rule preserves_triple)
  with \<open>Q w\<close> show ?thesis by (auto simp: tool_execute_def Let_def preservesD)
qed

text \<open>The hypotheses hold of the sample runtime.\<close>

definition rm_not_run :: "string list \<Rightarrow> bool" where
  "rm_not_run w = (''rm'' \<notin> set w)"

definition is_rm :: "tool_call \<Rightarrow> bool" where
  "is_rm call = (tc_name call = ''rm'')"

lemma sample_runtime_keeps: "world_keeps (sample_runtime name) rm_not_run"
  by (auto simp: world_keeps_def schedule_keeps_def preserves_def sample_runtime_def deny_hook_def
      ask_hook_def)

lemma sample_tools_keep: "tools_keep (sample_runtime name) is_rm rm_not_run"
proof -
  have "snd ` set (rt_tools (sample_runtime name))
      = {sample_tool ''edit'', sample_tool ''ls'', sample_tool ''rm''}"
    by (simp add: sample_runtime_def bt_collect_def bt_extend_def)
  then show ?thesis
    by (auto simp: tools_keep_def preserves_def is_rm_def rm_not_run_def request_call_def
        sample_tool_def)
qed

lemma sample_denies: "always_denies is_rm deny_hook"
  by (auto simp: always_denies_def deny_hook_def is_rm_def sample_decision_def)

lemma sample_hooks: "set (rt_tool_hooks (sample_runtime name)) = {deny_hook, ask_hook}"
  by (simp add: sample_runtime_def)

theorem denied_calls_never_execute_witness:
  "rm_not_run (fst (tool_execute (sample_runtime ''ls'') (sample_context sample_calls) []))"
proof (rule denied_calls_never_execute [OF sample_runtime_keeps sample_tools_keep])
  show "\<exists>hook \<in> set (rt_tool_hooks (sample_runtime ''ls'')). always_denies is_rm hook"
    using sample_denies by (simp add: sample_hooks)
  show "rm_not_run []" by (simp add: rm_not_run_def)
qed

text \<open>What a tool phase gives back, run or resumed, for the calls it was given.\<close>

definition tool_phase_result_ok ::
  "string \<Rightarrow> tool_call list \<Rightarrow> phase_scratch \<Rightarrow> phase_output \<Rightarrow> bool" where
  "tool_phase_result_ok run_id calls scratch out =
     (case po_pause out of
        None \<Rightarrow>
          (\<exists>outs. map fst outs = calls
             \<and> sc_tool_outputs (po_scratch out) = sc_tool_outputs scratch @ outs
             \<and> po_effects out = map (tool_result_effect run_id) outs
             \<and> mset (po_completed_tool_outputs out) = mset outs
             \<and> list_all2 (\<lambda>o' audit. ta_tool_call audit = fst o')
                 (po_completed_tool_outputs out) (po_completed_tool_permission_audits out))
      | Some (PauseToolApproval k) \<Rightarrow>
          map pf_tool_call (co_preflights k) = calls \<and> (\<forall>p \<in> set (co_preflights k). preflight_wf p)
          \<and> co_run_id k = run_id \<and> co_scratch k = scratch \<and> co_phase k = ''tool.execute''
          \<and> po_tool_approval_requests out \<noteq> []
          \<and> po_effects out = [] \<and> po_completed_tool_outputs out = [])"

lemma output_from_scratch_simps [simp]:
  "po_scratch (output_from_scratch s) = s" "po_effects (output_from_scratch s) = []"
  "po_pause (output_from_scratch s) = None" "po_completed_tool_outputs (output_from_scratch s) = []"
  "po_completed_tool_permission_audits (output_from_scratch s) = []"
  by (simp_all add: output_from_scratch_def)

lemma tool_phase_output_ok:
  assumes "executions_ok ps x" and "\<forall>p \<in> set ps. preflight_wf p"
  shows "tool_phase_result_ok run_id (map pf_tool_call ps) scratch
    (tool_phase_output (output_from_scratch scratch) run_id x)"
proof -
  have "list_all2 (\<lambda>o' audit. ta_tool_call audit = fst o')
      (tx_completed_outputs x) (tx_completed_audits x)"
    using assms unfolding executions_ok_def
    by (auto simp: preflight_wf_def Let_def elim!: list_all2_mono)
  then show ?thesis
    using assms(1)
    by (auto simp: tool_phase_result_ok_def tool_phase_output_def append_tool_execution_effects_def
        executions_ok_def)
qed

lemma set_tool_approval_pause_ok:
  assumes "\<forall>p \<in> set ps. preflight_wf p" and "rs \<noteq> []"
  shows "tool_phase_result_ok run_id (map pf_tool_call ps) scratch
    (set_tool_approval_pause (output_from_scratch scratch) run_id turn_id mode ps rs)"
  using assms by (simp add: tool_phase_result_ok_def set_tool_approval_pause_def)

lemma world_keeps_True [simp]: "world_keeps rt (\<lambda>_. True)"
  by (simp add: world_keeps_def schedule_keeps_def preserves_def)


definition sample_result :: phase_output where
  "sample_result =
     (case snd (tool_execute (sample_runtime ''ls'') (sample_context sample_calls) []) of
        Inr out \<Rightarrow> out | Inl _ \<Rightarrow> output_from_scratch scratch_default)"

lemma sample_result_run:
  "tool_execute (sample_runtime ''ls'') (sample_context sample_calls) []
     = ([''ls'', ''ls''], Inr sample_result)"
  by code_simp


section \<open>Resuming\<close>

text \<open>The answers still to be used are among those given, each under its own id.\<close>

definition answers_from ::
  "tool_approval_resolution list \<Rightarrow> tool_approval_resolution smap \<Rightarrow> bool" where
  "answers_from rs m = (\<forall>i r. map_of m i = Some r \<longrightarrow> r \<in> set rs \<and> res_approval_id r = i)"

lemma answers_from_remove: "answers_from rs m \<Longrightarrow> answers_from rs (bt_remove i m)"
  by (simp add: answers_from_def map_of_bt_remove)

lemma answers_from_collect: "answers_from rs (bt_collect (map (\<lambda>r. (res_approval_id r, r)) rs))"
  by (auto simp: answers_from_def map_of_bt_collect rev_map dest!: map_of_SomeD)

text \<open>What a preflight becomes when the run is resumed.\<close>

definition resumed_ok ::
  "(tool_call \<Rightarrow> bool) \<Rightarrow> tool_approval_preflight \<Rightarrow> preflight_result \<Rightarrow> bool" where
  "resumed_ok bad p pr =
     (pf_tool_call (fst pr) = pf_tool_call p \<and> preflight_wf (fst pr) \<and> approval_matches pr
      \<and> (pf_status (fst pr) = Ready \<longrightarrow> \<not> bad (pf_tool_call p)))"

lemma resume_one_ok:
  assumes keeps: "world_keeps rt Q" and wf: "preflight_wf p" and blk: "blocked rt bad rs p"
    and status: "pf_status p = Pending i n h"
    and r: "r \<in> set rs" "res_approval_id r = i"
  defines "audit \<equiv> (pf_permission_audit p)\<lparr>ta_decisions := ta_decisions (pf_permission_audit p)
      @ [\<lparr>dr_hook_id = h, dr_decision = res_decision r\<rparr>]\<rparr>"
  shows "triple Q
    (if dec_outcome (res_decision r) = Deny
     then ok (\<lparr>pf_tool_call = pf_tool_call p, pf_permission_audit = audit,
               pf_status = Denied (res_decision r)\<rparr>, None)
     else prepare_one_tool_call rt pc (pf_tool_call p) (n + 1) (Some audit))
    (\<lambda>pr w. Q w \<and> resumed_ok bad p pr) (\<lambda>_. Q)"
proof (cases "dec_outcome (res_decision r) = Deny")
  case True
  with wf show ?thesis
    by (auto intro!: triple_ok simp: resumed_ok_def preflight_wf_def approval_matches_def Let_def audit_def)
next
  case False
  have allow: "all_allow (ta_decisions audit) \<and> ta_tool_call audit = pf_tool_call p"
    using wf status False by (auto simp: preflight_wf_def all_allow_def Let_def audit_def)
  have later: "\<exists>hook \<in> set (drop (n + 1) (rt_tool_hooks rt)). always_denies bad hook"
    if "bad (pf_tool_call p)"
    using blk status r False that by (auto simp: blocked_def)
  have "resumed_ok bad p pr"
    if run: "prepare_one_tool_call rt pc (pf_tool_call p) (n + 1) (Some audit) w = (w', Inr pr)"
    for w w' pr
  proof -
    have "pf_tool_call (fst pr) = pf_tool_call p \<and> preflight_wf (fst pr) \<and> approval_matches pr"
      by (rule prepare_one_tool_call_wf [OF run]) (use allow in auto)
    moreover have "pf_status (fst pr) \<noteq> Ready" if "bad (pf_tool_call p)"
      using prepare_one_tool_call_blocked [OF run later [OF that], of "[]"] that
      by (auto simp: blocked_def)
    ultimately show ?thesis by (auto simp: resumed_ok_def)
  qed
  with False show ?thesis by (auto intro!: triple_value keeps_prepare_one_tool_call [OF keeps])
qed

lemma resume_tail_triple:
  assumes rec: "triple Q (resume_preflights rt pc ps m)
      (\<lambda>x w. Q w \<and> list_all2 (resumed_ok bad) ps (fst x)) (\<lambda>_. Q)"
    and "resumed_ok bad p pr"
  shows "triple Q (and_then (resume_preflights rt pc ps m) (\<lambda>(results, rest). ok (pr # results, rest)))
    (\<lambda>x w. Q w \<and> list_all2 (resumed_ok bad) (p # ps) (fst x)) (\<lambda>_. Q)"
proof (rule triple_and_then [OF rec])
  show "triple (\<lambda>w. Q w \<and> list_all2 (resumed_ok bad) ps (fst x))
      (case x of (results, rest) \<Rightarrow> ok (pr # results, rest))
      (\<lambda>x w. Q w \<and> list_all2 (resumed_ok bad) (p # ps) (fst x)) (\<lambda>_. Q)" for x
    using assms(2) by (cases x) (simp only: prod.case, rule triple_ok, simp)
qed

lemma resume_preflights_triple:
  assumes keeps: "world_keeps rt Q"
  shows "\<forall>p \<in> set ps. preflight_wf p \<and> blocked rt bad rs p \<Longrightarrow> answers_from rs m \<Longrightarrow>
   triple Q (resume_preflights rt pc ps m)
    (\<lambda>x w. Q w \<and> list_all2 (resumed_ok bad) ps (fst x)) (\<lambda>_. Q)"
proof (induction ps arbitrary: m)
  case Nil
  then show ?case by (auto intro: triple_ok)
next
  case (Cons p ps)
  then have p: "preflight_wf p" "blocked rt bad rs p" by auto
  have rec: "triple Q (resume_preflights rt pc ps m')
      (\<lambda>x w. Q w \<and> list_all2 (resumed_ok bad) ps (fst x)) (\<lambda>_. Q)" if "answers_from rs m'" for m'
    using Cons that by auto
  show ?case
  proof (cases "pf_status p")
    case Ready
    with p have "resumed_ok bad p (p, None)"
      by (auto simp: resumed_ok_def approval_matches_def blocked_def)
    from resume_tail_triple [OF rec [OF Cons.prems(2)] this] Ready show ?thesis by simp
  next
    case (Denied d)
    with p have "resumed_ok bad p (p, None)" by (simp add: resumed_ok_def approval_matches_def)
    from resume_tail_triple [OF rec [OF Cons.prems(2)] this] Denied show ?thesis by simp
  next
    case (Pending i n h)
    show ?thesis
    proof (cases "map_of m i")
      case None
      with Pending show ?thesis by (auto intro: triple_err)
    next
      case (Some r)
      with Cons.prems(2) have r: "r \<in> set rs" "res_approval_id r = i" by (auto simp: answers_from_def)
      have tail: "triple (\<lambda>w. Q w \<and> resumed_ok bad p pr)
          (and_then (resume_preflights rt pc ps (bt_remove i m))
            (\<lambda>(results, rest). ok (pr # results, rest)))
          (\<lambda>x w. Q w \<and> list_all2 (resumed_ok bad) (p # ps) (fst x)) (\<lambda>_. Q)" for pr
        by (rule triple_pure)
          (rule resume_tail_triple [OF rec [OF answers_from_remove [OF Cons.prems(2)]]])
      from triple_and_then [OF resume_one_ok [OF keeps p Pending r] tail] Pending Some
      show ?thesis by (simp add: Let_def)
    qed
  qed
qed

lemma list_all2_resumed:
  assumes "list_all2 (resumed_ok bad) ps results"
  shows "map pf_tool_call (map fst results) = map pf_tool_call ps"
    and "\<forall>p \<in> set (map fst results). preflight_wf p \<and> (pf_status p = Ready \<longrightarrow> \<not> bad (pf_tool_call p))"
  using assms by (induction rule: list_all2_induct) (auto simp: resumed_ok_def)

text \<open>The second half of a resumed phase, for any results of the first.\<close>

definition finish_resume ::
  "('s, 'w) agent_runtime \<Rightarrow> tool_approval_continuation \<Rightarrow> agent_state
     \<Rightarrow> preflight_result list \<times> tool_approval_resolution smap
     \<Rightarrow> ('w, agent_core_error, phase_output) eff" where
  "finish_resume rt k state = (\<lambda>(results, rest).
     let c = \<lparr>pc_run_id = co_run_id k, pc_turn_id = co_turn_id k, pc_state = state,
                 pc_scratch = co_scratch k\<rparr>;
         output = output_from_scratch (co_scratch k)
     in if rest \<noteq> []
           then err (PhaseError (''unknown tool approval resolution ids: ''
                  @ join_with '', '' (bt_keys rest)))
           else
             let preflights = map fst results; approval_requests = approval_requests_of results
             in if approval_requests \<noteq> []
                then ok (set_tool_approval_pause output (co_run_id k) (co_turn_id k)
                           (co_tool_execution_mode k) preflights approval_requests)
                else and_then (execute_prepared_tools rt c (co_tool_execution_mode k) preflights)
                  (\<lambda>x. ok (tool_phase_output output (co_run_id k) x)))"

lemma resume_tool_approval_continuation_eq:
  "co_phase k = ''tool.execute'' \<Longrightarrow>
   resume_tool_approval_continuation rt k state rs =
     and_then (resume_preflights rt
       \<lparr>tpc_run_id = co_run_id k, tpc_turn_id = co_turn_id k, tpc_state = state\<rparr>
       (co_preflights k) (bt_collect (map (\<lambda>r. (res_approval_id r, r)) rs)))
     (finish_resume rt k state)"
  by (simp add: resume_tool_approval_continuation_def finish_resume_def Let_def)

text \<open>C4: a denied approval is final. When a paused tool phase is resumed, no call of a kind is
  executed of which every preflight is denied, is answered with a denial, or still has a hook before
  it that always denies the kind: every predicate on the world that only the execution of such calls
  could break is kept.\<close>

theorem resumed_denials_never_execute:
  assumes keeps: "world_keeps rt Q" and tools: "tools_keep rt bad Q"
    and ps: "\<forall>p \<in> set (co_preflights k). preflight_wf p \<and> blocked rt bad rs p"
    and "Q w"
  shows "Q (fst (resume_tool_approval_continuation rt k state rs w))"
proof (cases "co_phase k = ''tool.execute''")
  case True
  have fin: "triple (\<lambda>w. Q w \<and> list_all2 (resumed_ok bad) (co_preflights k) (fst x))
      (finish_resume rt k state x) (\<lambda>_. Q) (\<lambda>_. Q)" for x
  proof (rule triple_pure)
    assume "list_all2 (resumed_ok bad) (co_preflights k) (fst x)"
    from list_all2_resumed(2) [OF this]
    have "preserves Q (execute_prepared_tools rt c mode (map fst (fst x)))" for c mode
      by (intro keeps_execute_prepared_tools [OF keeps tools]) auto
    then show "triple Q (finish_resume rt k state x) (\<lambda>_. Q) (\<lambda>_. Q)"
      by (cases x) (auto simp: finish_resume_def Let_def intro!: triple_preserves preserves_and_then)
  qed
  have "preserves Q (resume_tool_approval_continuation rt k state rs)"
    unfolding resume_tool_approval_continuation_eq [OF True]
    by (intro preserves_triple triple_and_then
        [OF resume_preflights_triple [OF keeps ps answers_from_collect] fin])
  with \<open>Q w\<close> show ?thesis by (simp add: preservesD)
next
  case False
  with \<open>Q w\<close> show ?thesis by (simp add: resume_tool_approval_continuation_def)
qed

text \<open>A call to \<open>rm\<close> is denied already, a call to \<open>edit\<close> waits for the answer.\<close>

definition sample_pending :: tool_approval_preflight where
  "sample_pending =
     \<lparr>pf_tool_call = sample_call ''c1'' ''edit'',
      pf_permission_audit =
        \<lparr>ta_tool_call = sample_call ''c1'' ''edit'', ta_permissions = [], ta_decisions = []\<rparr>,
      pf_status = Pending ''approval-run-1-1-c1-1'' 1 (Some ''ask'')\<rparr>"

definition sample_continuation :: tool_approval_continuation where
  "sample_continuation =
     \<lparr>co_run_id = ''run-1'', co_turn_id = 1, co_phase = ''tool.execute'',
      co_scratch = scratch_default\<lparr>sc_tool_calls := [sample_call ''c1'' ''edit'']\<rparr>,
      co_tool_execution_mode = Sequential, co_preflights = [sample_pending]\<rparr>"

definition sample_answer :: "tool_permission_outcome \<Rightarrow> tool_approval_resolution" where
  "sample_answer outcome =
     \<lparr>res_approval_id = ''approval-run-1-1-c1-1'', res_decision = sample_decision outcome\<rparr>"

lemma sample_pending_wf: "preflight_wf sample_pending"
  by (simp add: preflight_wf_def sample_pending_def all_allow_def)

definition edit_not_run :: "string list \<Rightarrow> bool" where
  "edit_not_run w = (''edit'' \<notin> set w)"

definition is_edit :: "tool_call \<Rightarrow> bool" where
  "is_edit call = (tc_name call = ''edit'')"

theorem resumed_denials_never_execute_witness:
  "edit_not_run (fst (resume_tool_approval_continuation (sample_runtime ''ls'') sample_continuation
     agent_state_default [sample_answer Deny] []))"
proof (rule resumed_denials_never_execute)
  show "world_keeps (sample_runtime ''ls'') edit_not_run"
    by (auto simp: world_keeps_def schedule_keeps_def preserves_def sample_runtime_def deny_hook_def
        ask_hook_def)
  have "snd ` set (rt_tools (sample_runtime ''ls''))
      = {sample_tool ''edit'', sample_tool ''ls'', sample_tool ''rm''}"
    by (simp add: sample_runtime_def bt_collect_def bt_extend_def)
  then show "tools_keep (sample_runtime ''ls'') is_edit edit_not_run"
    by (auto simp: tools_keep_def preserves_def is_edit_def edit_not_run_def request_call_def
        sample_tool_def)
  show "\<forall>p \<in> set (co_preflights sample_continuation). preflight_wf p
      \<and> blocked (sample_runtime ''ls'') is_edit [sample_answer Deny] p"
    by (simp add: sample_continuation_def sample_pending_wf)
      (simp add: blocked_def sample_pending_def sample_answer_def sample_decision_def)
  show "edit_not_run []" by (simp add: edit_not_run_def)
qed

text \<open>C8: a resumed tool phase answers every call too: of a continuation as the tool phase leaves it,
  resuming gives either the outputs of all its calls in their order, the calls that were denied
  included, or a new pause with a preflight of every one of them.\<close>

theorem resume_result:
  assumes ps: "\<forall>p \<in> set (co_preflights k). preflight_wf p"
    and run: "resume_tool_approval_continuation rt k state rs w = (w', Inr out)"
  shows "tool_phase_result_ok (co_run_id k) (map pf_tool_call (co_preflights k)) (co_scratch k) out"
proof -
  have phase: "co_phase k = ''tool.execute''"
    using run by (auto simp: resume_tool_approval_continuation_def split: if_splits)
  from run obtain w1 results rest where
    res: "resume_preflights rt
       \<lparr>tpc_run_id = co_run_id k, tpc_turn_id = co_turn_id k, tpc_state = state\<rparr>
       (co_preflights k) (bt_collect (map (\<lambda>r. (res_approval_id r, r)) rs)) w = (w1, Inr (results, rest))"
    and fin: "finish_resume rt k state (results, rest) w1 = (w', Inr out)"
    unfolding resume_tool_approval_continuation_eq [OF phase] by (elim and_then_InrE) force
  have blk: "\<forall>p \<in> set (co_preflights k). preflight_wf p \<and> blocked rt (\<lambda>_. False) rs p"
    using ps by (simp add: blocked_def)
  from tripleD(1) [OF resume_preflights_triple [OF world_keeps_True blk answers_from_collect] TrueI res]
  have all: "list_all2 (resumed_ok (\<lambda>_. False)) (co_preflights k) results" by simp
  have wf: "\<forall>p \<in> set (map fst results). preflight_wf p" using list_all2_resumed(2) [OF all] by blast
  note calls = list_all2_resumed(1) [OF all]
  show ?thesis
  proof (cases "approval_requests_of results = []")
    case True
    with fin obtain x c where "execute_prepared_tools rt c (co_tool_execution_mode k)
        (map fst results) w1 = (w', Inr x)"
      and "out = tool_phase_output (output_from_scratch (co_scratch k)) (co_run_id k) x"
      by (auto simp: finish_resume_def Let_def elim!: and_then_InrE split: if_splits)
    with tool_phase_output_ok [OF execute_prepared_tools_ok wf] calls show ?thesis by metis
  next
    case False
    with fin have "out = set_tool_approval_pause (output_from_scratch (co_scratch k)) (co_run_id k)
        (co_turn_id k) (co_tool_execution_mode k) (map fst results) (approval_requests_of results)"
      by (auto simp: finish_resume_def Let_def split: if_splits)
    with set_tool_approval_pause_ok [OF wf False] calls show ?thesis by metis
  qed
qed

definition sample_resumed :: phase_output where
  "sample_resumed =
     (case snd (resume_tool_approval_continuation (sample_runtime ''ls'') sample_continuation
        agent_state_default [sample_answer Allow] []) of
        Inr out \<Rightarrow> out | Inl _ \<Rightarrow> output_from_scratch scratch_default)"

lemma sample_resumed_run:
  "resume_tool_approval_continuation (sample_runtime ''ls'') sample_continuation
     agent_state_default [sample_answer Allow] [] = ([''edit''], Inr sample_resumed)"
  by code_simp

theorem resume_result_witness:
  "tool_phase_result_ok ''run-1'' [sample_call ''c1'' ''edit''] (co_scratch sample_continuation)
     sample_resumed"
proof -
  have "\<forall>p \<in> set (co_preflights sample_continuation). preflight_wf p"
    using sample_pending_wf by (simp add: sample_continuation_def)
  from resume_result [OF this sample_resumed_run] show ?thesis
    by (simp add: sample_continuation_def sample_pending_def)
qed

end
