(* ===== verification/Run_Properties.thy ===== *)
theory Run_Properties
  imports Approval_Resume Sample_Runtime
begin

text \<open>
  What a run guarantees, on the in-memory event store: the state is the replay of the run's log, an
  effect is committed or rejected and never both, and a report is that of a completed or a paused run.
\<close>

section \<open>Recording on the in-memory store\<close>

lemma memory_log_append:
  "bt_wf s \<Longrightarrow> memory_log (fst (memory_append ev s)) r =
     memory_log s r @ (if ev_run_id ev = r then [ev] else [])"
  by (simp add: memory_append_def memory_log_def map_of_bt_insert)

text \<open>With the in-memory store an event that is not a refused effect is always recorded.\<close>

definition recorded ::
  "string \<Rightarrow> agent_event \<Rightarrow> (memory_store, 'w) machine \<Rightarrow> (memory_store, 'w) machine \<Rightarrow> bool" where
  "recorded run_id ev m m' =
     (m_store m' = fst (memory_append ev (m_store m)) \<and> apply_event (m_state m) ev = Inr (m_state m')
      \<and> m_event_counter m' = m_event_counter m + 1 \<and> m_run_counter m' = m_run_counter m)"

lemma record_event_memory:
  assumes "rt_event_store rt = memory_store_ops"
    and "apply_event (m_state m) (event_to_record run_id turn_id phase kind m) = Inr st"
    and "record_event rt run_id turn_id phase kind sink m = (m', r)"
  shows "recorded run_id (event_to_record run_id turn_id phase kind m) m m' \<and> m_state m' = st
    \<and> (r = Inr () \<or> (\<exists>t. r = Inl (EventSink t))) \<and> (sink = None \<longrightarrow> r = Inr () \<and> m_world m' = m_world m)"
  using assms(3)
proof (cases rule: record_event_cases)
  case (store_err s e)
  then show ?thesis using assms(1) by (simp add: memory_store_ops_def memory_append_def)
next
  case (refused s e)
  then show ?thesis using assms(2) by simp
next
  case (recorded s st' w)
  from recorded(2) assms(2) have "st' = st" by simp
  from recorded(1) assms(1) have s: "s = fst (memory_append
      (event_to_record run_id turn_id phase kind m) (m_store m))"
    by (simp add: memory_store_ops_def memory_append_def)
  show ?thesis
    using recorded(2,3,4,5) \<open>st' = st\<close> by (auto simp: Run_Properties.recorded_def s)
qed

lemma record_event_memory_quiet:
  assumes "rt_event_store rt = memory_store_ops"
    and "apply_event (m_state m) (event_to_record run_id turn_id phase kind m) = Inr st"
  shows "record_event rt run_id turn_id phase kind None m =
    (m\<lparr>m_event_counter := m_event_counter m + 1,
       m_store := fst (memory_append (event_to_record run_id turn_id phase kind m) (m_store m)),
       m_state := st\<rparr>, Inr ())"
proof -
  obtain m' r where run: "record_event rt run_id turn_id phase kind None m = (m', r)" by force
  from record_event_memory [OF assms run] run show ?thesis
    by (auto simp: recorded_def intro!: machine.equality)
qed

section \<open>Effects are committed or rejected\<close>

lemma apply_event_no_op:
  "ev_kind ev = EffectProposed e \<or> ev_kind ev = EffectRejected e reason \<Longrightarrow> apply_event st ev = Inr st"
  by (auto simp: apply_event.simps)


definition sample_machine :: "(memory_store, string list) machine" where
  "sample_machine =
     \<lparr>m_store = [], m_event_counter = 0, m_run_counter = 0, m_state = agent_state_default,
      m_world = []\<rparr>"


section \<open>The state is the replay of the log\<close>

text \<open>C2: whatever the phases, hooks, tools, queues and the sink do, and however the run ends, the
  state in memory is the one obtained by replaying the run's log from the state the run started
  with, and the events of the log are numbered in increasing order.\<close>

theorem run_state_is_replay:
  assumes es: "rt_event_store rt = memory_store_ops" and "bt_wf (m_store m)"
    and "memory_log (m_store m) (run_id_of (rt_run_id_prefix rt) (m_run_counter m + 1)) = []"
    and "run_with_options fuel rt input initial_state sink queues m = (m', r)"
  shows "reduce_events_from initial_state
        (memory_log (m_store m') (run_id_of (rt_run_id_prefix rt) (m_run_counter m + 1)))
      = Inr (m_state m')
    \<and> sorted_wrt (<) (map ev_sequence
        (memory_log (m_store m') (run_id_of (rt_run_id_prefix rt) (m_run_counter m + 1))))"
  using mem.run_with_options_consistent [OF es assms(2) refl assms(3),
      of initial_state fuel input sink queues] assms(4)
  by (simp add: consistent_def)

theorem run_state_is_replay_witness:
  "reduce_events_from agent_state_default (memory_log (m_store (fst (run_with_options 3
      (sample_runtime ''ls'') (Some (InputText ''hi'')) agent_state_default None None
      sample_machine))) ''run-1'')
   = Inr (m_state (fst (run_with_options 3 (sample_runtime ''ls'') (Some (InputText ''hi''))
      agent_state_default None None sample_machine)))"
proof -
  obtain m' r where run: "run_with_options 3 (sample_runtime ''ls'') (Some (InputText ''hi''))
      agent_state_default None None sample_machine = (m', r)" by force
  have *: "rt_event_store (sample_runtime ''ls'') = memory_store_ops" "bt_wf (m_store sample_machine)"
    "memory_log (m_store sample_machine) (run_id_of (rt_run_id_prefix (sample_runtime ''ls''))
       (m_run_counter sample_machine + 1)) = []"
    "run_id_of (rt_run_id_prefix (sample_runtime ''ls'')) (m_run_counter sample_machine + 1) = ''run-1''"
    by (simp_all add: sample_runtime_def sample_machine_def run_id_of_def) code_simp
  from run_state_is_replay [OF *(1-3) run, unfolded *(4)] show ?thesis unfolding run by simp
qed

section \<open>How a run ends\<close>

lemma triple_after:
  assumes "preserves P m" and "\<And>x. triple P (f x) Q (\<lambda>_ _. True)"
  shows "triple P (and_then m f) Q (\<lambda>_ _. True)"
  by (rule triple_and_then [OF triple_conseq [OF triple_preserves [OF assms(1)]] assms(2)]) simp_all

lemma triple_trivial: "(\<And>x s. Q x s) \<Longrightarrow> triple P m Q (\<lambda>_ _. True)"
  by (rule tripleI) simp_all

lemma triple_with_preserves:
  "preserves P m \<Longrightarrow> triple P m Q (\<lambda>_ _. True) \<Longrightarrow> triple P m (\<lambda>x s. P s \<and> Q x s) (\<lambda>_ _. True)"
  by (rule tripleI) (auto dest: tripleD preservesD [of P m])

text \<open>The machine right after an event of some kind was recorded in a consistent machine.\<close>

definition just_recorded ::
  "agent_state \<Rightarrow> string \<Rightarrow> (agent_event_kind \<Rightarrow> bool) \<Rightarrow> (memory_store, 'w) machine \<Rightarrow> bool" where
  "just_recorded st0 run_id P m =
     (\<exists>evs ev st. memory_log (m_store m) run_id = evs @ [ev] \<and> P (ev_kind ev)
        \<and> apply_event st ev = Inr (m_state m) \<and> consistent memory_log bt_wf st0 run_id m)"

lemma record_event_just_recorded:
  assumes es: "rt_event_store rt = memory_store_ops" and "P kind"
    and "\<And>e. kind \<noteq> EffectCommitted e"
  shows "triple (consistent memory_log bt_wf st0 run_id)
    (record_event rt run_id turn_id phase kind sink)
    (\<lambda>_. just_recorded st0 run_id P) (\<lambda>_ _. True)"
proof (rule tripleI)
  fix m m' u assume m: "consistent memory_log bt_wf st0 run_id m"
    and run: "record_event rt run_id turn_id phase kind sink m = (m', Inr u)"
  let ?ev = "event_to_record run_id turn_id phase kind m"
  obtain st where st: "apply_event (m_state m) ?ev = Inr st"
    using apply_event_not_effect [of ?ev "m_state m"] assms(3) by auto
  note rec = record_event_memory [OF es st run]
  have "bt_wf (m_store m)" using m by (simp add: consistent_def)
  then have "memory_log (m_store m') run_id = memory_log (m_store m) run_id @ [?ev]"
    using rec memory_log_append by (auto simp: recorded_def)
  moreover have "consistent memory_log bt_wf st0 run_id m'"
    using preservesD [OF mem.preserves_record_event [OF es assms(3)] m] run by (metis fst_conv)
  moreover have "apply_event (m_state m) ?ev = Inr (m_state m')"
    using rec by (simp add: recorded_def)
  moreover have "P (ev_kind ?ev)" using assms(2) by simp
  ultimately show "just_recorded st0 run_id P m'" unfolding just_recorded_def by blast
qed simp

definition is_pause :: "agent_event_kind \<Rightarrow> bool" where
  "is_pause k = (\<exists>reason. k = RunPaused reason)"

lemma is_pause_simps [simp]: "is_pause (RunPaused reason)"
  by (simp add: is_pause_def)

lemma record_phase_output_paused:
  assumes es: "rt_event_store rt = memory_store_ops"
  shows "triple (consistent memory_log bt_wf st0 run_id)
    (record_phase_output rt run_id turn_id phase out sink)
    (\<lambda>r m. r = PhasePaused \<longrightarrow> just_recorded st0 run_id is_pause m) (\<lambda>_ _. True)"
proof -
  let ?C = "consistent memory_log bt_wf st0 run_id"
  let ?rec = "\<lambda>kind. record_event rt run_id (Some turn_id) (Some phase) kind sink"
  have pause: "triple ?C (and_then (?rec (RunPaused reason)) (\<lambda>_. ok PhasePaused))
    (\<lambda>r m. r = PhasePaused \<longrightarrow> just_recorded st0 run_id is_pause m) (\<lambda>_ _. True)" for reason
    by (rule triple_and_then [OF record_event_just_recorded [OF es, where P = is_pause]])
      (auto intro!: triple_ok)
  have keep: "preserves ?C (?rec kind)" if "\<And>e. kind \<noteq> EffectCommitted e" for kind
    using mem.preserves_record_event [OF es that] .
  show ?thesis
    unfolding record_phase_output_def Let_def
    by (intro triple_after preserves_for_each keep mem.preserves_record_tool_output
        mem.preserves_commit_effect es)
      (auto split: option.split intro!: triple_after preserves_for_each keep pause triple_ok triple_err
        mem.preserves_record_tool_output mem.preserves_commit_effect es)
qed

lemma run_one_phase_paused:
  assumes es: "rt_event_store rt = memory_store_ops"
  shows "triple (consistent memory_log bt_wf st0 run_id)
    (run_one_phase rt run_id turn_id sink phase scratch)
    (\<lambda>r m. r = None \<longrightarrow> just_recorded st0 run_id is_pause m) (\<lambda>_ _. True)"
proof -
  let ?C = "consistent memory_log bt_wf st0 run_id"
  have rec: "triple ?C (and_then (record_phase_output rt run_id turn_id (phase_id phase) out sink)
      (\<lambda>recorded. case recorded of
               PhasePaused \<Rightarrow> ok None
             | PhaseOutputRecorded output' \<Rightarrow>
                 and_then (record_event rt run_id (Some turn_id) (Some (phase_id phase))
                   (PhaseCompleted (phase_id phase)) sink) (\<lambda>_. ok (Some (po_scratch output')))))
    (\<lambda>r m. r = None \<longrightarrow> just_recorded st0 run_id is_pause m) (\<lambda>_ _. True)" for out
  proof (rule triple_and_then [OF record_phase_output_paused [OF es]])
    fix x :: phase_record_result
    show "triple (\<lambda>m. x = PhasePaused \<longrightarrow> just_recorded st0 run_id is_pause m)
      (case x of
               PhasePaused \<Rightarrow> ok None
             | PhaseOutputRecorded output' \<Rightarrow>
                 and_then (record_event rt run_id (Some turn_id) (Some (phase_id phase))
                   (PhaseCompleted (phase_id phase)) sink) (\<lambda>_. ok (Some (po_scratch output'))))
      (\<lambda>r m. r = None \<longrightarrow> just_recorded st0 run_id is_pause m) (\<lambda>_ _. True)"
    proof (cases x)
      case (PhaseOutputRecorded out')
      then show ?thesis by (auto intro!: tripleI elim!: and_then_InrE)
    next
      case PhasePaused
      then show ?thesis by (auto intro!: triple_ok)
    qed
  qed
  have fail: "triple ?C (and_then (record_event rt run_id (Some turn_id) (Some (phase_id phase))
      (PhaseFailed (phase_id phase) e) sink) (\<lambda>_. err error))
    (\<lambda>r m. r = None \<longrightarrow> just_recorded st0 run_id is_pause m) (\<lambda>_ _. True)" for e error
    by (auto intro!: tripleI elim!: and_then_InrE)
  show ?thesis
    unfolding run_one_phase_def Let_def
    by (intro triple_after preserves_try mem.preserves_run_phase_stream mem.preserves_record_event
        consistent_get_state es)
      (auto split: sum.split intro: rec fail)
qed

lemma run_phases_paused:
  assumes es: "rt_event_store rt = memory_store_ops"
  shows "triple (consistent memory_log bt_wf st0 run_id)
    (run_phases rt run_id turn_id sink phases scratch)
    (\<lambda>r m. r = None \<longrightarrow> just_recorded st0 run_id is_pause m) (\<lambda>_ _. True)"
proof (induction phases arbitrary: scratch)
  case Nil
  then show ?case by (auto intro: triple_ok)
next
  case (Cons phase phases)
  let ?C = "consistent memory_log bt_wf st0 run_id"
  have "triple (\<lambda>m. ?C m \<and> (r = None \<longrightarrow> just_recorded st0 run_id is_pause m))
    (case r of None \<Rightarrow> ok None
     | Some scratch' \<Rightarrow> run_phases rt run_id turn_id sink phases scratch')
    (\<lambda>r m. r = None \<longrightarrow> just_recorded st0 run_id is_pause m) (\<lambda>_ _. True)" for r
    using Cons.IH by (cases r) (auto intro: triple_ok triple_conseq)
  then show ?case
    unfolding run_phases.simps
    by (rule triple_and_then [OF triple_with_preserves
        [OF mem.preserves_run_one_phase [OF es] run_one_phase_paused [OF es]]])
qed

lemma run_turn_paused:
  assumes es: "rt_event_store rt = memory_store_ops"
  shows "triple (consistent memory_log bt_wf st0 run_id) (run_turn rt run_id sink queues cu)
    (\<lambda>s m. s = LoopEnds FlowPaused \<longrightarrow> just_recorded st0 run_id is_pause m) (\<lambda>_ _. True)"
proof -
  let ?C = "consistent memory_log bt_wf st0 run_id"
  let ?Q = "\<lambda>s m. s = LoopEnds FlowPaused \<longrightarrow> just_recorded st0 run_id is_pause m"
  have after: "triple ?C (after_turn rt run_id sink queues cu d) ?Q (\<lambda>_ _. True)" for d
    unfolding after_turn_def
    by (rule tripleI) (auto elim!: and_then_InrE split: option.splits if_splits)
  have rest: "triple (\<lambda>m. r = None \<longrightarrow> just_recorded st0 run_id is_pause m)
    (case r of
           None \<Rightarrow> ok (LoopEnds FlowPaused)
         | Some scratch \<Rightarrow>
             (let decision = (case sc_decision scratch of Some d \<Rightarrow> d | None \<Rightarrow> StopTurn)
              in and_then (record_event rt run_id (Some (cu_turn_id cu)) None (TurnCompleted decision) sink)
                 (\<lambda>_. after_turn rt run_id sink queues cu decision))) ?Q (\<lambda>_ _. True)" for r
  proof (cases r)
    case None
    then show ?thesis by (auto intro!: triple_ok)
  next
    case (Some scratch)
    have "s \<noteq> LoopEnds FlowPaused"
      if "after_turn rt run_id sink queues cu d m = (m', Inr s)" for d m m' s
      using that unfolding after_turn_def
      by (auto elim!: and_then_InrE split: option.splits if_splits)
    then show ?thesis using Some by (auto intro!: tripleI elim!: and_then_InrE simp: Let_def)
  qed
  show ?thesis
    unfolding run_turn_def Let_def
    by (intro triple_after consistent_in_world preserves_if mem.preserves_record_event es
        preserves_ok triple_and_then [OF run_phases_paused [OF es] rest [unfolded Let_def]]) simp
qed

lemma run_turns_from_paused:
  assumes es: "rt_event_store rt = memory_store_ops"
  shows "triple (consistent memory_log bt_wf st0 run_id)
    (run_turns_from fuel rt run_id sink queues cu)
    (\<lambda>r m. r = Some FlowPaused \<longrightarrow> just_recorded st0 run_id is_pause m) (\<lambda>_ _. True)"
proof (induction fuel arbitrary: cu)
  case 0
  then show ?case by (auto intro: triple_ok)
next
  case (Suc fuel)
  let ?C = "consistent memory_log bt_wf st0 run_id"
  have "triple (\<lambda>m. ?C m \<and> (s = LoopEnds FlowPaused \<longrightarrow> just_recorded st0 run_id is_pause m))
    (case s of LoopEnds flow \<Rightarrow> ok (Some flow)
     | NextTurn cu' \<Rightarrow> run_turns_from fuel rt run_id sink queues cu')
    (\<lambda>r m. r = Some FlowPaused \<longrightarrow> just_recorded st0 run_id is_pause m) (\<lambda>_ _. True)" for s
    using Suc.IH by (cases s) (auto intro: triple_ok triple_conseq)
  then show ?case
    unfolding run_turns_from.simps
    by (rule triple_and_then [OF triple_with_preserves
        [OF mem.preserves_run_turn [OF es] run_turn_paused [OF es]]])
qed

text \<open>What the last event says of the state.\<close>

definition run_ended :: "agent_event_kind \<Rightarrow> agent_state \<Rightarrow> bool" where
  "run_ended k st =
     (case k of
        RunCompleted \<Rightarrow>
          st_status st = Completed \<and> st_active_phase st = None \<and> st_pending_tool_approvals st = []
      | RunAborted \<Rightarrow>
          st_status st = RunAbortedStatus \<and> st_active_phase st = None
          \<and> st_pending_tool_approvals st = []
      | RunFailed e \<Rightarrow>
          st_status st = RunFailedStatus \<and> st_last_error st = Some e \<and> st_active_phase st = None
          \<and> st_pending_tool_approvals st = []
      | RunPaused (PauseToolApproval c) \<Rightarrow>
          st_status st = Paused \<and> st_active_phase st = Some (co_phase c)
      | _ \<Rightarrow> False)"

lemma apply_event_ended:
  "apply_event st ev = Inr st' \<Longrightarrow>
   ev_kind ev = RunCompleted \<or> ev_kind ev = RunAborted \<or> (\<exists>e. ev_kind ev = RunFailed e)
     \<or> is_pause (ev_kind ev) \<Longrightarrow> run_ended (ev_kind ev) st'"
  by (auto simp: apply_event.simps run_ended_def is_pause_def split: run_pause_reason.splits)

definition run_closed :: "agent_event_kind \<Rightarrow> bool" where
  "run_closed k = (k = RunCompleted \<or> is_pause k)"

lemma finish_run_closed:
  assumes es: "rt_event_store rt = memory_store_ops"
    and paused: "\<And>m. result = Inr (Some FlowPaused) \<Longrightarrow> I m \<Longrightarrow> just_recorded st0 run_id is_pause m"
    and cons: "\<And>m. I m \<Longrightarrow> consistent memory_log bt_wf st0 run_id m"
  shows "triple I (finish_run rt run_id sink result)
    (\<lambda>flow m. flow \<noteq> None \<longrightarrow> just_recorded st0 run_id run_closed m) (\<lambda>_ _. True)"
proof -
  have weaken: "just_recorded st0 run_id run_closed m"
    if "just_recorded st0 run_id P m" and "\<And>k. P k \<Longrightarrow> run_closed k" for P m
    using that unfolding just_recorded_def by blast
  have completed: "triple I (and_then (record_event rt run_id None None RunCompleted sink)
      (\<lambda>_. ok (Some FlowCompleted)))
    (\<lambda>flow m. flow \<noteq> None \<longrightarrow> just_recorded st0 run_id run_closed m) (\<lambda>_ _. True)"
  proof (rule triple_and_then)
    have "triple (consistent memory_log bt_wf st0 run_id)
      (record_event rt run_id None None RunCompleted sink)
      (\<lambda>_. just_recorded st0 run_id run_closed) (\<lambda>_ _. True)"
      by (rule record_event_just_recorded [OF es]) (simp_all add: run_closed_def)
    then show "triple I (record_event rt run_id None None RunCompleted sink)
      (\<lambda>_. just_recorded st0 run_id run_closed) (\<lambda>_ _. True)"
      by (rule triple_conseq) (simp_all add: cons)
  qed (auto intro!: triple_ok)
  show ?thesis
  proof (cases result)
    case (Inl e)
    then show ?thesis
      by (auto simp: finish_run_def intro!: tripleI elim!: and_then_InrE)
  next
    case (Inr flow)
    show ?thesis
    proof (cases flow)
      case None
      with Inr show ?thesis by (auto simp: finish_run_def intro!: triple_ok)
    next
      case (Some f)
      show ?thesis
      proof (cases f)
        case FlowCompleted
        with Inr Some completed show ?thesis by (simp add: finish_run_def)
      next
        case FlowPaused
        with Inr Some show ?thesis
          by (auto simp: finish_run_def run_closed_def intro!: triple_ok weaken dest!: paused)
      qed
    qed
  qed
qed

lemma run_in_state_closed:
  assumes es: "rt_event_store rt = memory_store_ops"
  shows "triple (consistent memory_log bt_wf st0 run_id)
    (run_in_state fuel rt run_id input sink queues)
    (\<lambda>flow m. flow \<noteq> None \<longrightarrow> just_recorded st0 run_id run_closed m) (\<lambda>_ _. True)"
proof -
  let ?C = "consistent memory_log bt_wf st0 run_id"
  have turns: "triple ?C (try_eff (run_turns_from fuel rt run_id sink queues cu))
    (\<lambda>r m. ?C m \<and> (r = Inr (Some FlowPaused) \<longrightarrow> just_recorded st0 run_id is_pause m)) (\<lambda>_ _. True)" for cu
  proof (rule tripleI)
    fix m m' r
    assume m: "?C m" and "try_eff (run_turns_from fuel rt run_id sink queues cu) m = (m', Inr r)"
    then have run: "run_turns_from fuel rt run_id sink queues cu m = (m', r)"
      by (auto simp: try_eff_def Let_def split: prod.splits)
    have "?C m'" using preservesD [OF mem.preserves_run_turns_from [OF es] m] run by (metis fst_conv)
    moreover have "just_recorded st0 run_id is_pause m'" if "r = Inr (Some FlowPaused)"
      using tripleD(1) [OF run_turns_from_paused [OF es] m] run that by blast
    ultimately show "?C m' \<and> (r = Inr (Some FlowPaused) \<longrightarrow> just_recorded st0 run_id is_pause m')"
      by blast
  qed simp
  show ?thesis
    unfolding run_in_state_def
    by (intro triple_after mem.preserves_record_event mem.preserves_initial_steering es
        triple_and_then [OF turns] finish_run_closed) auto
qed

text \<open>The runs of the machine, seen from the start of \<open>run_with_options\<close>.\<close>

definition started :: "agent_state \<Rightarrow> (memory_store, 'w) machine \<Rightarrow> (memory_store, 'w) machine" where
  "started st m = m\<lparr>m_run_counter := m_run_counter m + 1, m_state := st\<rparr>"

lemma run_with_options_cases:
  fixes rt :: "(memory_store, 'w) agent_runtime"
  assumes run: "run_with_options fuel rt input st0 sink queues m = (m', r)"
    and es: "rt_event_store rt = memory_store_ops"
  defines "run_id \<equiv> run_id_of (rt_run_id_prefix rt) (m_run_counter m + 1)"
  obtains
    (failed) e where "run_in_state fuel rt run_id (map_option (normalize_input run_id) input) sink
        queues (started st0 m) = (m', Inl e)" and "r = Inl e"
  | (no_fuel) "run_in_state fuel rt run_id (map_option (normalize_input run_id) input) sink
        queues (started st0 m) = (m', Inr None)" and "r = Inr None"
  | (reported) flow where "run_in_state fuel rt run_id (map_option (normalize_input run_id) input)
        sink queues (started st0 m) = (m', Inr (Some flow))"
      and "r = (case (if st_messages (m_state m') = [] \<and> st_context (m_state m') = []
                   \<and> st_available_tools (m_state m') = []
                 then reduce_events (memory_log (m_store m') run_id) else Inr (m_state m')) of
             Inl e \<Rightarrow> Inl e
           | Inr st \<Rightarrow> Inr (Some \<lparr>rr_run_id = run_id, rr_events = memory_log (m_store m') run_id,
               rr_state = st\<rparr>))"
proof -
  let ?run = "run_in_state fuel rt run_id (map_option (normalize_input run_id) input) sink queues"
  have next_id: "next_run_id rt m = (m\<lparr>m_run_counter := m_run_counter m + 1\<rparr>, Inr run_id)"
    by (simp add: next_run_id_def Let_def run_id_def)
  have load: "run_events rt run_id m1 = (m1, Inr (memory_log (m_store m1) run_id))" for m1 :: "(memory_store, 'w) machine"
    by (simp add: run_events_def es in_store_run memory_store_ops_def memory_load_def)
  let ?rest = "\<lambda>flow. case flow of
            None \<Rightarrow> ok None
          | Some _ \<Rightarrow>
              and_then (run_events rt run_id) (\<lambda>events.
              and_then get_state (\<lambda>state.
              and_then
                (if st_messages state = [] \<and> st_context state = [] \<and> st_available_tools state = []
                 then lift_result (reduce_events events) else ok state) (\<lambda>replayed.
              ok (Some \<lparr>rr_run_id = run_id, rr_events = events, rr_state = replayed\<rparr>))))"
  obtain m1 x where x: "?run (started st0 m) = (m1, x)" by force
  have "run_with_options fuel rt input st0 sink queues m = and_then ?run ?rest (started st0 m)"
    unfolding run_with_options_def started_def by (subst and_then_simps(2)) (auto simp: next_id)
  with run have rest: "and_then ?run ?rest (started st0 m) = (m', r)" by simp
  show thesis
  proof (cases x)
    case (Inl e)
    with rest x show thesis by (intro failed [of e]) simp_all
  next
    case (Inr flow)
    with rest x have rest': "?rest flow m1 = (m', r)" by simp
    show thesis
    proof (cases flow)
      case None
      with rest' x Inr show thesis by (intro no_fuel) simp_all
    next
      case (Some f)
      have "m' = m1 \<and> r = (case (if st_messages (m_state m1) = [] \<and> st_context (m_state m1) = []
                   \<and> st_available_tools (m_state m1) = []
                 then reduce_events (memory_log (m_store m1) run_id) else Inr (m_state m1)) of
             Inl e \<Rightarrow> Inl e
           | Inr st \<Rightarrow> Inr (Some \<lparr>rr_run_id = run_id, rr_events = memory_log (m_store m1) run_id,
               rr_state = st\<rparr>))"
        using rest' Some by (auto simp: and_then_def load get_state_def split: sum.splits if_splits)
      then show thesis using reported [of f] x Inr Some by blast
    qed
  qed
qed

text \<open>C5: a run that returns a report returns the run's whole log, which ends with the run completed or
  paused, and the reported state says so: completed with no active phase and no open approval, or
  paused in the phase that waits for the approvals.\<close>

theorem run_report_terminal:
  assumes es: "rt_event_store rt = memory_store_ops" and wf: "bt_wf (m_store m)"
    and new: "memory_log (m_store m) (run_id_of (rt_run_id_prefix rt) (m_run_counter m + 1)) = []"
    and run: "run_with_options fuel rt input st0 sink queues m = (m', Inr (Some report))"
  shows "rr_run_id report = run_id_of (rt_run_id_prefix rt) (m_run_counter m + 1)
    \<and> rr_events report = memory_log (m_store m') (rr_run_id report)
    \<and> (\<exists>evs ev. rr_events report = evs @ [ev]
         \<and> (ev_kind ev = RunCompleted \<or> (\<exists>reason. ev_kind ev = RunPaused reason))
         \<and> run_ended (ev_kind ev) (rr_state report))"
proof -
  let ?run_id = "run_id_of (rt_run_id_prefix rt) (m_run_counter m + 1)"
  have start: "consistent memory_log bt_wf st0 ?run_id (started st0 m)"
    using wf new by (simp add: consistent_def started_def)
  show ?thesis
    using run es
  proof (cases rule: run_with_options_cases)
    case (reported flow)
    have "just_recorded st0 ?run_id run_closed m'"
      using tripleD(1) [OF run_in_state_closed [OF es] start reported(1)] by simp
    then obtain evs ev st where log: "memory_log (m_store m') ?run_id = evs @ [ev]"
      and closed: "run_closed (ev_kind ev)" and st: "apply_event st ev = Inr (m_state m')"
      unfolding just_recorded_def by blast
    have ended: "run_ended (ev_kind ev) st''" if "apply_event st' ev = Inr st''" for st' st''
      using apply_event_ended [OF that] closed by (auto simp: run_closed_def)
    have replayed: "run_ended (ev_kind ev) x"
      if "reduce_events_from agent_state_default (evs @ [ev]) = Inr x" for x
      using that by (auto simp: reduce_events_from_append split: sum.splits intro: ended)
    have "run_ended (ev_kind ev) (rr_state report) \<and> rr_run_id report = ?run_id
        \<and> rr_events report = evs @ [ev]"
      using reported(2) log ended [OF st]
      by (auto simp: reduce_events_def intro: replayed split: sum.splits if_splits)
    then show ?thesis using closed log by (auto simp: run_closed_def is_pause_def)
  qed simp_all
qed


section \<open>A run evaluated\<close>

text \<open>
  The shortest runtime: one phase that decides. The equations evaluate a run on the in-memory store
  from the outside in, each computation applied to a machine.
\<close>

definition brief_runtime :: "(memory_store, string list) agent_runtime" where
  "brief_runtime = (sample_runtime ''ls'')\<lparr>rt_phases := [StandardPhase TurnDecision]\<rparr>"

lemma brief_runtime_simps [simp]:
  "rt_event_store brief_runtime = memory_store_ops"
  "rt_phases brief_runtime = [StandardPhase TurnDecision]"
  "rt_run_id_prefix brief_runtime = None" "rt_max_turns brief_runtime = 4"
  "rt_cancelled brief_runtime w = (w, False)"
  by (simp_all add: brief_runtime_def sample_runtime_def)

lemma record_event_memory_eq:
  assumes "rt_event_store rt = memory_store_ops"
  shows "record_event rt run_id turn_id phase kind None m =
    (let ev = event_to_record run_id turn_id phase kind m;
         m1 = m\<lparr>m_event_counter := m_event_counter m + 1,
                m_store := fst (memory_append ev (m_store m))\<rparr>
     in case apply_event (m_state m) ev of
          Inl e \<Rightarrow> (m1, Inl e) | Inr st \<Rightarrow> (m1\<lparr>m_state := st\<rparr>, Inr ()))"
  using assms
  by (auto simp: record_event_def next_sequence_def and_then_def event_to_record_def in_store_run
      Let_def memory_store_ops_def memory_append_def apply_to_state_def give_to_sink_def
      split: sum.splits)

lemmas run_evals = and_then_def [THEN fun_cong] try_eff_run in_world_run in_store_run ok_run err_run
  lift_result_run record_event_memory_eq run_with_options_def [THEN fun_cong]
  run_in_state_def [THEN fun_cong] initial_steering_def [THEN fun_cong] run_turn_def [THEN fun_cong]
  run_turns_from.simps [THEN fun_cong] run_phases.simps [THEN fun_cong]
  run_one_phase_def [THEN fun_cong] record_phase_output_def [THEN fun_cong]
  for_each.simps [THEN fun_cong] after_turn_def [THEN fun_cong] finish_run_def [THEN fun_cong]
  run_events_def [THEN fun_cong] next_run_id_def get_state_def throw_if_cancelled_def quiet_def
  Let_def apply_event.simps

lemmas sample_evals = eval_nat_numeral first_cursor_def sample_machine_def run_phase_def
  run_standard_phase_def turn_decision_def reduce_events_def event_to_record_def memory_append_def
  memory_log_def output_from_scratch_def scratch_default_def memory_store_ops_def memory_load_def
  agent_state_default_def

lemma brief_run:
  obtains m' report where "run_with_options 3 brief_runtime None agent_state_default None None
    sample_machine = (m', Inr (Some report))"
proof -
  have "case snd (run_with_options 3 brief_runtime None agent_state_default None None sample_machine)
      of Inr (Some _) \<Rightarrow> True | _ \<Rightarrow> False"
    by (simp add: run_evals sample_evals del: runs_simps)
  then show thesis
    using that
    by (cases "run_with_options 3 brief_runtime None agent_state_default None None sample_machine")
      (auto split: sum.splits option.splits)
qed

theorem run_report_terminal_witness:
  "case run_with_options 3 brief_runtime None agent_state_default None None sample_machine of
     (m', Inr (Some report)) \<Rightarrow>
       rr_run_id report = run_id_of None 1
       \<and> (\<exists>evs ev. rr_events report = evs @ [ev] \<and> run_ended (ev_kind ev) (rr_state report))
   | _ \<Rightarrow> False"
proof -
  obtain m' report where run: "run_with_options 3 brief_runtime None agent_state_default None None
    sample_machine = (m', Inr (Some report))" by (rule brief_run)
  have *: "rt_event_store brief_runtime = memory_store_ops" "bt_wf (m_store sample_machine)"
    "memory_log (m_store sample_machine) (run_id_of (rt_run_id_prefix brief_runtime)
       (m_run_counter sample_machine + 1)) = []"
    "run_id_of (rt_run_id_prefix brief_runtime) (m_run_counter sample_machine + 1) = run_id_of None 1"
    by (simp_all add: sample_machine_def)
  from run_report_terminal [OF *(1-3) run, unfolded *(4)]
  show ?thesis unfolding run prod.case sum.case option.case by blast
qed

end
