(* ===== verification/Run_Outcomes.thy ===== *)
theory Run_Outcomes
  imports Run_Properties
begin

text \<open>
  How a run without queues ends: an error leaves a failed or an aborted run in the log and in the
  state, and a runtime whose last phase decides on the turn ends within its maximum of turns.
\<close>

section \<open>Errors\<close>

text \<open>The event that closes a run that returns an error.\<close>

definition error_kind :: "agent_core_error \<Rightarrow> agent_event_kind" where
  "error_kind e = (if e = Aborted then RunAborted else RunFailed (error_to_string e))"

lemma record_event_quiet:
  assumes es: "rt_event_store rt = memory_store_ops" and "P kind"
    and "\<And>e. kind \<noteq> EffectCommitted e"
  shows "triple (consistent memory_log bt_wf st0 run_id)
    (record_event rt run_id turn_id phase kind None)
    (\<lambda>_. just_recorded st0 run_id P) (\<lambda>_ _. False)"
proof (rule tripleI)
  fix m m' u assume "consistent memory_log bt_wf st0 run_id m"
    and "record_event rt run_id turn_id phase kind None m = (m', Inr u)"
  then show "just_recorded st0 run_id P m'"
    using tripleD(1) [OF record_event_just_recorded [of rt P kind st0 run_id turn_id phase None, OF assms]]
    by blast
next
  fix m m' e assume "record_event rt run_id turn_id phase kind None m = (m', Inl e)"
  moreover obtain st where "apply_event (m_state m) (event_to_record run_id turn_id phase kind m) = Inr st"
    using apply_event_not_effect [of "event_to_record run_id turn_id phase kind m" "m_state m"] assms(3)
    by auto
  ultimately show False using record_event_memory [OF es] by blast
qed

lemma just_recorded_consistent:
  "just_recorded st0 run_id P m \<Longrightarrow> consistent memory_log bt_wf st0 run_id m"
  by (auto simp: just_recorded_def)

text \<open>A sequence in which the first part keeps the precondition.\<close>

lemma triple_seq:
  "triple P m (\<lambda>_. P) E \<Longrightarrow> (\<And>x. triple P (f x) Q E) \<Longrightarrow> triple P (and_then m f) Q E"
  by (rule triple_and_then)

lemma record_run_error_quiet:
  assumes es: "rt_event_store rt = memory_store_ops"
  shows "triple (consistent memory_log bt_wf st0 run_id) (record_run_error rt run_id None e)
    (\<lambda>e' m. e' = e \<and> just_recorded st0 run_id (\<lambda>k. k = error_kind e) m) (\<lambda>_ _. False)"
proof -
  have "triple (consistent memory_log bt_wf st0 run_id)
      (and_then (record_event rt run_id None None (error_kind e) None) (\<lambda>_. ok e))
      (\<lambda>e' m. e' = e \<and> just_recorded st0 run_id (\<lambda>k. k = error_kind e) m) (\<lambda>_ _. False)"
    by (rule triple_and_then [OF record_event_quiet [OF es, where P = "\<lambda>k. k = error_kind e"]])
      (auto simp: error_kind_def intro: triple_ok)
  then show ?thesis
    by (cases e) (simp_all add: record_run_error_def error_kind_def)
qed

lemma finish_run_error:
  assumes es: "rt_event_store rt = memory_store_ops"
  shows "triple (consistent memory_log bt_wf st0 run_id) (finish_run rt run_id None result)
    (\<lambda>_ _. True) (\<lambda>e m. just_recorded st0 run_id (\<lambda>k. k = error_kind e) m)"
proof (cases result)
  case (Inl e)
  have "triple (consistent memory_log bt_wf st0 run_id)
    (and_then (record_run_error rt run_id None e) (\<lambda>error'. err error'))
    (\<lambda>_ _. True) (\<lambda>e m. just_recorded st0 run_id (\<lambda>k. k = error_kind e) m)"
  proof (rule triple_and_then)
    show "triple (consistent memory_log bt_wf st0 run_id) (record_run_error rt run_id None e)
      (\<lambda>e' m. e' = e \<and> just_recorded st0 run_id (\<lambda>k. k = error_kind e) m)
      (\<lambda>e m. just_recorded st0 run_id (\<lambda>k. k = error_kind e) m)"
      by (rule triple_conseq [OF record_run_error_quiet [OF es]]) auto
  qed (auto intro: triple_err)
  with Inl show ?thesis by (simp add: finish_run_def)
next
  case (Inr flow)
  have "triple (consistent memory_log bt_wf st0 run_id)
    (and_then (record_event rt run_id None None RunCompleted None) (\<lambda>_. ok (Some FlowCompleted)))
    (\<lambda>_ _. True) (\<lambda>e m. just_recorded st0 run_id (\<lambda>k. k = error_kind e) m)"
    by (rule triple_and_then [OF triple_conseq [OF record_event_quiet [OF es, where P = "\<lambda>_. True"]]])
      (auto intro: triple_ok)
  with Inr show ?thesis
    by (auto simp: finish_run_def intro: triple_ok split: option.split run_flow.split)
qed

lemma triple_try:
  "preserves P m \<Longrightarrow> triple P (try_eff m) (\<lambda>_. P) (\<lambda>_ _. False)"
  by (rule tripleI) (auto simp: try_eff_run preserves_def)

lemma run_in_state_error:
  assumes es: "rt_event_store rt = memory_store_ops"
  shows "triple (consistent memory_log bt_wf st0 run_id) (run_in_state fuel rt run_id input None None)
    (\<lambda>_ _. True) (\<lambda>e m. just_recorded st0 run_id (\<lambda>k. k = error_kind e) m)"
proof -
  let ?C = "consistent memory_log bt_wf st0 run_id"
  let ?E = "\<lambda>e m. just_recorded st0 run_id (\<lambda>k. k = error_kind e) m"
  have "triple ?C (record_event rt run_id None None RunStarted None) (\<lambda>_. ?C) ?E"
    by (rule triple_conseq [OF record_event_quiet [OF es, where P = "\<lambda>_. True"]])
      (auto dest: just_recorded_consistent)
  moreover have "triple ?C (try_eff (run_turns_from fuel rt run_id None None cu)) (\<lambda>_. ?C) ?E" for cu
    by (rule triple_conseq [OF triple_try [OF mem.preserves_run_turns_from [OF es]]]) auto
  ultimately show ?thesis
    unfolding run_in_state_def initial_steering_def option.case
    by (intro triple_seq finish_run_error es triple_ok)
qed

text \<open>C6: a run that returns an error, without a sink and queues, leaves a log that ends with the
  abort, if it was cancelled, or else with the failure and the error's message, and a state that
  says the same, with no active phase and no open approval.\<close>

theorem run_error_terminal:
  assumes es: "rt_event_store rt = memory_store_ops" and wf: "bt_wf (m_store m)"
    and new: "memory_log (m_store m) (run_id_of (rt_run_id_prefix rt) (m_run_counter m + 1)) = []"
    and run: "run_with_options fuel rt input agent_state_default None None m = (m', Inl e)"
  shows "\<exists>evs ev.
      memory_log (m_store m') (run_id_of (rt_run_id_prefix rt) (m_run_counter m + 1)) = evs @ [ev]
      \<and> ev_kind ev = (if e = Aborted then RunAborted else RunFailed (error_to_string e))
      \<and> run_ended (ev_kind ev) (m_state m')"
proof -
  let ?run_id = "run_id_of (rt_run_id_prefix rt) (m_run_counter m + 1)"
  have start: "consistent memory_log bt_wf agent_state_default ?run_id (started agent_state_default m)"
    using wf new by (simp add: consistent_def started_def)
  show ?thesis
    using run es
  proof (cases rule: run_with_options_cases)
    case (failed e')
    then have "just_recorded agent_state_default ?run_id (\<lambda>k. k = error_kind e) m'"
      using tripleD(2) [OF run_in_state_error [OF es] start] by simp
    then obtain evs ev st where "memory_log (m_store m') ?run_id = evs @ [ev]"
      and kind: "ev_kind ev = error_kind e" and "apply_event st ev = Inr (m_state m')"
      unfolding just_recorded_def by blast
    then show ?thesis using apply_event_ended [of st ev "m_state m'"] by (auto simp: error_kind_def)
  next
    case (reported flow)
    have "consistent memory_log bt_wf agent_state_default ?run_id m'"
      using preservesD [OF mem.preserves_run_in_state [OF es] start] reported(1) by (metis fst_conv)
    then show ?thesis using reported(2)
      by (simp add: consistent_def reduce_events_def split: if_splits)
  qed simp
qed

definition cancelled_runtime :: "(memory_store, string list) agent_runtime" where
  "cancelled_runtime = brief_runtime\<lparr>rt_cancelled := \<lambda>w. (w, True)\<rparr>"

lemma cancelled_runtime_simps [simp]:
  "rt_event_store cancelled_runtime = memory_store_ops" "rt_run_id_prefix cancelled_runtime = None"
  "rt_cancelled cancelled_runtime w = (w, True)"
  by (simp_all add: cancelled_runtime_def)

lemma cancelled_run:
  obtains m' where "run_with_options 1 cancelled_runtime None agent_state_default None None
    sample_machine = (m', Inl Aborted)"
proof -
  have "snd (run_with_options 1 cancelled_runtime None agent_state_default None None sample_machine)
      = Inl Aborted"
    by (simp add: run_evals record_run_error_def sample_evals del: runs_simps)
  then show thesis
    using that
    by (cases "run_with_options 1 cancelled_runtime None agent_state_default None None sample_machine")
      simp
qed

theorem run_error_terminal_witness:
  "case run_with_options 1 cancelled_runtime None agent_state_default None None sample_machine of
     (m', _) \<Rightarrow> \<exists>evs ev. memory_log (m_store m') (run_id_of None 1) = evs @ [ev]
       \<and> ev_kind ev = RunAborted \<and> st_status (m_state m') = RunAbortedStatus"
proof -
  obtain m' where run: "run_with_options 1 cancelled_runtime None agent_state_default None None
    sample_machine = (m', Inl Aborted)" by (rule cancelled_run)
  have *: "rt_event_store cancelled_runtime = memory_store_ops" "bt_wf (m_store sample_machine)"
    "memory_log (m_store sample_machine) (run_id_of (rt_run_id_prefix cancelled_runtime)
       (m_run_counter sample_machine + 1)) = []"
    "run_id_of (rt_run_id_prefix cancelled_runtime) (m_run_counter sample_machine + 1) = run_id_of None 1"
    by (simp_all add: sample_machine_def)
  from run_error_terminal [OF *(1-3) run, unfolded *(4)] show ?thesis
    unfolding run prod.case by (fastforce simp: run_ended_def)
qed

section \<open>The bound on the turns\<close>

text \<open>The decision of the last phase reaches the end of the turn.\<close>

lemma record_phase_output_scratch:
  assumes "record_phase_output rt run_id turn_id phase out sink m = (m', Inr r)"
  shows "r = PhasePaused \<or> r = PhaseOutputRecorded (out\<lparr>po_effects := []\<rparr>)"
  using assms unfolding record_phase_output_def Let_def
  by (auto elim!: and_then_InrE split: if_splits option.splits)

definition decision_of :: "('s, 'w) agent_runtime \<Rightarrow> nat \<Rightarrow> phase_scratch \<Rightarrow> bool" where
  "decision_of rt turn_id scratch =
     (\<exists>d. sc_decision scratch = Some d \<and> (rt_max_turns rt \<le> turn_id \<longrightarrow> d = StopTurn))"

lemma turn_decision_phase:
  assumes "run_one_phase rt run_id turn_id sink (StandardPhase TurnDecision) scratch m
    = (m', Inr (Some scratch'))"
  shows "decision_of rt turn_id scratch'"
proof -
  have decides: "decision_of rt turn_id (po_scratch (turn_decision rt
      \<lparr>pc_run_id = run_id, pc_turn_id = turn_id, pc_state = st, pc_scratch = scratch\<rparr>))" for st
    by (auto simp: decision_of_def turn_decision_def Let_def)
  show ?thesis
    using assms unfolding run_one_phase_def Let_def
    by (auto elim!: and_then_InrE dest!: record_phase_output_scratch
        simp: get_state_def try_eff_run run_phase_def run_standard_phase_def quiet_def decides
        split: sum.splits phase_record_result.splits)
qed

lemma run_phases_snoc:
  "run_phases rt run_id turn_id sink (ps @ [p]) scratch m = (m', Inr (Some scratch')) \<Longrightarrow>
   \<exists>m1 s. run_one_phase rt run_id turn_id sink p s m1 = (m', Inr (Some scratch'))"
proof (induction ps arbitrary: scratch m)
  case Nil
  then show ?case by (force elim!: and_then_InrE split: option.splits)
next
  case (Cons p' ps)
  then show ?case by (fastforce elim!: and_then_InrE split: option.splits)
qed

text \<open>The runtime's phases end with the standard decision, as those of the standard builder do.\<close>

definition decides_last :: "('s, 'w) agent_runtime \<Rightarrow> bool" where
  "decides_last rt = (\<exists>ps. rt_phases rt = ps @ [StandardPhase TurnDecision])"

lemma run_turn_bound:
  assumes "decides_last rt" and "cu_start_phase_index cu < length (rt_phases rt)"
    and "run_turn rt run_id sink None cu m = (m', Inr (NextTurn cu'))"
  shows "cu_turn_id cu' = cu_turn_id cu + 1 \<and> cu_start_phase_index cu' = 0
    \<and> cu_turn_id cu < rt_max_turns rt"
proof -
  obtain ps where ps: "rt_phases rt = ps @ [StandardPhase TurnDecision]"
    using assms(1) by (auto simp: decides_last_def)
  then have drop: "drop (cu_start_phase_index cu) (rt_phases rt)
      = drop (cu_start_phase_index cu) ps @ [StandardPhase TurnDecision]"
    using assms(2) by simp
  have decided: "decision_of rt (cu_turn_id cu) scratch"
    if "run_phases rt run_id (cu_turn_id cu) sink (drop (cu_start_phase_index cu) (rt_phases rt))
      scratch0 m1 = (m2, Inr (Some scratch))" for scratch0 scratch m1 m2
    using run_phases_snoc [OF that [unfolded drop]] turn_decision_phase by blast
  show ?thesis
    using assms(3) unfolding run_turn_def Let_def
    by (auto elim!: and_then_InrE dest!: decided
        simp: after_turn_def decision_of_def next_cursor_def continue_cursor_def
        split: option.splits if_splits)
qed

lemma run_turns_from_bound:
  assumes last: "decides_last rt"
  shows "cu_start_phase_index cu < length (rt_phases rt) \<Longrightarrow> rt_max_turns rt - cu_turn_id cu < fuel \<Longrightarrow>
    run_turns_from fuel rt run_id sink None cu m \<noteq> (m', Inr None)"
proof (induction fuel arbitrary: cu m)
  case 0
  then show ?case by simp
next
  case (Suc fuel)
  have pos: "0 < length (rt_phases rt)" using last by (auto simp: decides_last_def)
  show ?case
  proof
    assume "run_turns_from (Suc fuel) rt run_id sink None cu m = (m', Inr None)"
    then obtain m1 cu' where step: "run_turn rt run_id sink None cu m = (m1, Inr (NextTurn cu'))"
      and rest: "run_turns_from fuel rt run_id sink None cu' m1 = (m', Inr None)"
      by (auto elim!: and_then_InrE split: turn_step.splits)
    from run_turn_bound [OF last Suc.prems(1) step] Suc.prems(2) pos
    have "cu_start_phase_index cu' < length (rt_phases rt)" "rt_max_turns rt - cu_turn_id cu' < fuel"
      by auto
    from Suc.IH [OF this] rest show False by blast
  qed
qed

text \<open>C3: without queues a run ends: with the turn decision as the last phase, fuel for
  \<open>max_turns\<close> turns (and for one when it is 0) is always enough, whatever the model, the tools and
  the hooks do.\<close>

theorem run_within_max_turns:
  assumes last: "decides_last rt" and fuel: "max 1 (rt_max_turns rt) \<le> fuel"
  shows "snd (run_with_options fuel rt input st0 sink None m) \<noteq> Inr None"
proof
  assume none: "snd (run_with_options fuel rt input st0 sink None m) = Inr None"
  have pos: "0 < length (rt_phases rt)" using last by (auto simp: decides_last_def)
  have enough: "run_turns_from fuel rt run_id sink None (first_cursor inp) m1 = (m2, r)
      \<Longrightarrow> r \<noteq> Inr None" for run_id inp m1 m2 r
    using run_turns_from_bound [OF last, of "first_cursor inp" fuel] pos fuel
    by (auto simp: first_cursor_def)
  obtain m' where "run_with_options fuel rt input st0 sink None m = (m', Inr None)"
    using none by (metis surjective_pairing)
  then show False
    unfolding run_with_options_def
    by (auto elim!: and_then_InrE simp: run_in_state_def finish_run_def try_eff_run
        enough [OF surjective_pairing]
        split: option.splits sum.splits run_flow.splits)
qed

theorem run_within_max_turns_witness:
  "snd (run_with_options 4 (sample_runtime ''ls'') (Some (InputText ''hi'')) agent_state_default None
      None sample_machine) \<noteq> Inr None"
  by (rule run_within_max_turns) (simp_all add: decides_last_def sample_runtime_def)

end
