(* ===== verification/Resume_Properties.thy ===== *)
theory Resume_Properties
  imports Run_Outcomes
begin

text \<open>
  What resuming and aborting a paused run guarantee on the in-memory store: the state starts from
  the replay of the run's own log, a report is self-consistent and that of a completed, paused or
  aborted run, and resuming ends within the turns the runtime allows.
\<close>

section \<open>Loading the paused run\<close>

lemma run_events_memory:
  "rt_event_store rt = memory_store_ops \<Longrightarrow>
   run_events rt run_id m = (m, Inr (memory_log (m_store m) run_id))"
  by (simp add: run_events_def in_store_run memory_store_ops_def memory_load_def)

lemma load_paused_run_ok:
  assumes es: "rt_event_store rt = memory_store_ops" and wf: "bt_wf (m_store m)"
    and sorted: "sorted_wrt (<) (map ev_sequence (memory_log (m_store m) run_id))"
    and run: "load_paused_run rt run_id m = (m', Inr events)"
  shows "consistent memory_log bt_wf agent_state_default run_id m' \<and> m_store m' = m_store m
    \<and> events = memory_log (m_store m) run_id \<and> events \<noteq> [] \<and> st_status (m_state m') = Paused"
proof -
  let ?evs = "memory_log (m_store m) run_id"
  from run es obtain st where evs: "events = ?evs" "?evs \<noteq> []"
    and st: "reduce_events ?evs = Inr st" "st_status st = Paused"
    and m': "m' = m\<lparr>m_event_counter := max (m_event_counter m) (Max (set (map ev_sequence ?evs))),
        m_state := st\<rparr>"
    by (cases ?evs) (auto simp: load_paused_run_def and_then_def run_events_memory
        ensure_event_counter_after_def set_state_def split: sum.splits if_splits)
  have "ev_sequence ev \<le> Max (set (map ev_sequence ?evs))" if "ev \<in> set ?evs" for ev
    using that by (intro Max_ge) auto
  then have "consistent memory_log bt_wf agent_state_default run_id m'"
    using wf sorted st by (auto simp: consistent_def m' reduce_events_def le_max_iff_disj)
  then show ?thesis using evs st by (simp add: m')
qed

section \<open>The turns of a resumed run\<close>

lemma preserves_record_resolutions:
  "rt_event_store rt = memory_store_ops \<Longrightarrow> preserves (consistent memory_log bt_wf st0 run_id)
     (record_resolutions rt run_id k resolved sink)"
  unfolding record_resolutions_def Let_def
  by (intro pres mem.preserves_record_event) auto

lemma preserves_resume_turns:
  "rt_event_store rt = memory_store_ops \<Longrightarrow> preserves (consistent memory_log bt_wf st0 run_id)
     (resume_turns fuel rt run_id k rs sink queues)"
  unfolding resume_turns_def Let_def
  by (intro pres mem.preserves_record_event mem.preserves_record_phase_output
      mem.preserves_run_turns_from) auto

lemma resume_turns_paused:
  assumes es: "rt_event_store rt = memory_store_ops"
  shows "triple (consistent memory_log bt_wf st0 run_id)
    (resume_turns fuel rt run_id k rs sink queues)
    (\<lambda>r m. r = Some FlowPaused \<longrightarrow> just_recorded st0 run_id is_pause m) (\<lambda>_ _. True)"
proof -
  let ?C = "consistent memory_log bt_wf st0 run_id"
  let ?Q = "\<lambda>r m. r = Some FlowPaused \<longrightarrow> just_recorded st0 run_id is_pause m"
  let ?rec = "\<lambda>kind. record_event rt run_id (Some (co_turn_id k)) (Some (co_phase k)) kind sink"
  have fail: "triple ?C (and_then (?rec (PhaseFailed (co_phase k) t)) (\<lambda>_. err e)) ?Q (\<lambda>_ _. True)"
    for t e
    by (auto intro!: tripleI elim!: and_then_InrE)
  have go_on: "triple ?C (and_then (?rec (PhaseCompleted (co_phase k))) (\<lambda>_.
      and_then (lift_result (phase_index_after rt (co_phase k))) (\<lambda>next_phase_index.
      run_turns_from fuel rt run_id sink queues (cu next_phase_index)))) ?Q (\<lambda>_ _. True)" for cu
    by (intro triple_after mem.preserves_record_event es preserves_lift_result
        run_turns_from_paused) simp
  have out: "triple (\<lambda>m. ?C m \<and> (recorded = PhasePaused \<longrightarrow> just_recorded st0 run_id is_pause m))
    (case recorded of
       PhaseOutputRecorded output' \<Rightarrow>
         and_then (?rec (PhaseCompleted (co_phase k))) (\<lambda>_.
         and_then (lift_result (phase_index_after rt (co_phase k))) (\<lambda>next_phase_index.
         run_turns_from fuel rt run_id sink queues
           \<lparr>cu_turn_id = co_turn_id k, cu_scratch = po_scratch output',
            cu_start_phase_index = next_phase_index, cu_record_turn_started = False\<rparr>))
     | PhasePaused \<Rightarrow> ok (Some FlowPaused)) ?Q (\<lambda>_ _. True)" for recorded
    by (cases recorded) (auto intro: triple_ok triple_conseq [OF go_on])
  show ?thesis
    unfolding resume_turns_def Let_def
    by (intro triple_after consistent_get_state preserves_try consistent_in_world)
      (auto split: sum.split intro: fail intro!: triple_and_then [OF triple_with_preserves
          [OF mem.preserves_record_phase_output [OF es] record_phase_output_paused [OF es]] out])
qed

lemma resume_closed:
  assumes es: "rt_event_store rt = memory_store_ops"
  shows "triple (consistent memory_log bt_wf st0 run_id)
    (and_then (record_resolutions rt run_id k resolved sink) (\<lambda>_.
     and_then (try_eff (resume_turns fuel rt run_id k rs sink queues)) (finish_run rt run_id sink)))
    (\<lambda>flow m. flow \<noteq> None \<longrightarrow> just_recorded st0 run_id run_closed m) (\<lambda>_ _. True)"
proof -
  let ?C = "consistent memory_log bt_wf st0 run_id"
  have turns: "triple ?C (try_eff (resume_turns fuel rt run_id k rs sink queues))
    (\<lambda>r m. ?C m \<and> (r = Inr (Some FlowPaused) \<longrightarrow> just_recorded st0 run_id is_pause m)) (\<lambda>_ _. True)"
  proof (rule tripleI)
    fix m m' r
    assume m: "?C m" and "try_eff (resume_turns fuel rt run_id k rs sink queues) m = (m', Inr r)"
    then have run: "resume_turns fuel rt run_id k rs sink queues m = (m', r)"
      by (auto simp: try_eff_def Let_def split: prod.splits)
    have "?C m'" using preservesD [OF preserves_resume_turns [OF es] m] run by (metis fst_conv)
    moreover have "just_recorded st0 run_id is_pause m'" if "r = Inr (Some FlowPaused)"
      using tripleD(1) [OF resume_turns_paused [OF es] m] run that by blast
    ultimately show "?C m' \<and> (r = Inr (Some FlowPaused) \<longrightarrow> just_recorded st0 run_id is_pause m')"
      by blast
  qed simp
  show ?thesis
    by (intro triple_after preserves_record_resolutions es triple_and_then [OF turns]
        finish_run_closed) auto
qed

section \<open>Reports\<close>

lemma report_of_just_recorded:
  assumes "just_recorded agent_state_default run_id P m" and "\<And>k. P k \<Longrightarrow> run_closed k \<or> k = RunAborted"
  shows "\<exists>evs ev. memory_log (m_store m) run_id = evs @ [ev] \<and> P (ev_kind ev)
      \<and> run_ended (ev_kind ev) (m_state m)"
    and "reduce_events (memory_log (m_store m) run_id) = Inr (m_state m)"
proof -
  from assms(1) obtain evs ev st where log: "memory_log (m_store m) run_id = evs @ [ev]"
    and "P (ev_kind ev)" and "apply_event st ev = Inr (m_state m)"
    and c: "consistent memory_log bt_wf agent_state_default run_id m"
    unfolding just_recorded_def by blast
  moreover from this assms(2) have "run_ended (ev_kind ev) (m_state m)"
    using apply_event_ended by (fastforce simp: run_closed_def)
  ultimately show "\<exists>evs ev. memory_log (m_store m) run_id = evs @ [ev] \<and> P (ev_kind ev)
      \<and> run_ended (ev_kind ev) (m_state m)" by blast
  show "reduce_events (memory_log (m_store m) run_id) = Inr (m_state m)"
    using c by (simp add: consistent_def reduce_events_def)
qed

lemma resume_cases:
  assumes es: "rt_event_store rt = memory_store_ops"
    and run: "resume_tool_approvals_internal fuel rt run_id rs sink queues m = (m', Inr (Some report))"
  obtains m1 m2 events k resolved flow where "load_paused_run rt run_id m = (m1, Inr events)"
    and "latest_tool_approval_continuation events = Inr k"
    and "m2 = m1\<lparr>m_world := m_world m2\<rparr>"
    and "(and_then (record_resolutions rt run_id k resolved sink) (\<lambda>_.
      and_then (try_eff (resume_turns fuel rt run_id k (map rta_resolution resolved) sink queues))
        (finish_run rt run_id sink))) m2 = (m', Inr (Some flow))"
    and "report = \<lparr>rr_run_id = run_id, rr_events = memory_log (m_store m') run_id,
      rr_state = m_state m'\<rparr>"
proof -
  from run obtain m1 events k m2 now resolved m3 m4 r flow where
    "load_paused_run rt run_id m = (m1, Inr events)"
    "Inr k = latest_tool_approval_continuation events"
    "in_world (current_unix_ms rt) m1 = (m2, Inr now)"
    "record_resolutions rt run_id k resolved sink m2 = (m3, Inr ())"
    "try_eff (resume_turns fuel rt run_id k (map rta_resolution resolved) sink queues) m3 = (m4, Inr r)"
    "finish_run rt run_id sink r m4 = (m', Inr (Some flow))"
    "report = \<lparr>rr_run_id = run_id, rr_events = memory_log (m_store m') run_id, rr_state = m_state m'\<rparr>"
    unfolding resume_tool_approvals_internal_def
    by (auto elim!: and_then_InrE simp: get_state_def run_events_memory [OF es] split: option.splits)
  then show thesis
    by (intro that [of m1 events k m2 resolved flow]) (auto simp: in_world_run and_then_def)
qed

text \<open>C9: a resumed run that returns a report returns the run's whole log and a state that is the replay
  of that log; the run is completed, or paused again, and the state says so.\<close>

theorem resume_report_terminal:
  assumes es: "rt_event_store rt = memory_store_ops" and wf: "bt_wf (m_store m)"
    and sorted: "sorted_wrt (<) (map ev_sequence (memory_log (m_store m) run_id))"
    and run: "resume_tool_approvals_internal fuel rt run_id rs sink queues m = (m', Inr (Some report))"
  shows "rr_run_id report = run_id \<and> rr_events report = memory_log (m_store m') run_id
    \<and> reduce_events (rr_events report) = Inr (rr_state report)
    \<and> (\<exists>evs ev. rr_events report = evs @ [ev]
         \<and> (ev_kind ev = RunCompleted \<or> (\<exists>reason. ev_kind ev = RunPaused reason))
         \<and> run_ended (ev_kind ev) (rr_state report))"
  using es run
proof (cases rule: resume_cases)
  case (1 m1 m2 events k resolved flow)
  have "consistent memory_log bt_wf agent_state_default run_id m1"
    using load_paused_run_ok [OF es wf sorted 1(1)] by simp
  then have "consistent memory_log bt_wf agent_state_default run_id m2"
    by (subst 1(3)) simp
  from tripleD(1) [OF resume_closed [OF es] this 1(4)]
  have jr: "just_recorded agent_state_default run_id run_closed m'" by simp
  from report_of_just_recorded [OF jr] show ?thesis
    unfolding 1(5) by (auto simp: run_closed_def is_pause_def)
qed


section \<open>A paused run\<close>

text \<open>A run whose first turn waits for the approval of one call.\<close>

definition approval_runtime :: "(memory_store, string list) agent_runtime" where
  "approval_runtime =
     (sample_runtime ''ls'')\<lparr>rt_phases := [StandardPhase ToolExecute, StandardPhase TurnDecision]\<rparr>"

definition paused_continuation :: tool_approval_continuation where
  "paused_continuation =
     \<lparr>co_run_id = ''run-1'', co_turn_id = 1, co_phase = ''tool.execute'', co_scratch = scratch_default,
      co_tool_execution_mode = Sequential,
      co_preflights =
        [\<lparr>pf_tool_call = sample_call ''a'' ''edit'',
          pf_permission_audit =
            \<lparr>ta_tool_call = sample_call ''a'' ''edit'', ta_permissions = [], ta_decisions = []\<rparr>,
          pf_status = Pending ''ap1'' 1 (Some ''ask'')\<rparr>]\<rparr>"

definition paused_log :: "agent_event list" where
  "paused_log =
     [\<lparr>ev_sequence = 1, ev_run_id = ''run-1'', ev_turn_id = None, ev_phase = None, ev_kind = RunStarted\<rparr>,
      \<lparr>ev_sequence = 2, ev_run_id = ''run-1'', ev_turn_id = Some 1, ev_phase = Some ''tool.execute'',
       ev_kind = RunPaused (PauseToolApproval paused_continuation)\<rparr>]"

definition paused_machine :: "(memory_store, string list) machine" where
  "paused_machine =
     \<lparr>m_store = [(''run-1'', paused_log)], m_event_counter = 2, m_run_counter = 1,
      m_state = agent_state_default, m_world = []\<rparr>"

definition denial :: tool_approval_resolution where
  "denial = \<lparr>res_approval_id = ''ap1'', res_decision = sample_decision Deny\<rparr>"

lemma approval_runtime_simps [simp]:
  "rt_event_store approval_runtime = memory_store_ops"
  "rt_phases approval_runtime = [StandardPhase ToolExecute, StandardPhase TurnDecision]"
  "rt_run_id_prefix approval_runtime = None" "rt_max_turns approval_runtime = 4"
  "rt_cancelled approval_runtime w = (w, False)" "rt_current_unix_ms approval_runtime w = (w, Some 0)"
  by (simp_all add: approval_runtime_def sample_runtime_def)

lemma paused_machine_ok:
  "bt_wf (m_store paused_machine)"
  "memory_log (m_store paused_machine) ''run-1'' = paused_log"
  "sorted_wrt (<) (map ev_sequence (memory_log (m_store paused_machine) ''run-1''))"
  by (simp_all add: paused_machine_def memory_log_def paused_log_def bt_wf_def)

lemmas resume_evals = resume_tool_approvals_internal_def [THEN fun_cong]
  load_paused_run_def [THEN fun_cong] set_state_def current_unix_ms_def record_resolutions_def [THEN fun_cong]
  resume_turns_def [THEN fun_cong]
  resume_tool_approval_continuation_def [THEN fun_cong] resume_preflights.simps [THEN fun_cong]
  execute_prepared_tools_def [THEN fun_cong] execute_prepared_tools_sequential_def [THEN fun_cong]
  execute_prepared_tool_call_def [THEN fun_cong] for_fold.simps [THEN fun_cong] record_tool_output_def [THEN fun_cong]
  commit_effect_def [THEN fun_cong]
  resolve_tool_approval_decisions_def
  pending_tool_approval_ids_def

lemma paused_run_denied:
  obtains m' report where "resume_tool_approvals_internal 4 approval_runtime ''run-1'' [denial] None
    None paused_machine = (m', Inr (Some report))"
proof -
  have loaded: "memory_log [(''run-1'', paused_log)] ''run-1'' = paused_log"
    using paused_machine_ok(2) by (simp add: paused_machine_def)
  have reduced: "reduce_events paused_log = Inr (agent_state_default\<lparr>st_run_id := Some ''run-1'',
      st_status := Paused, st_active_phase := Some ''tool.execute''\<rparr>)"
    by (simp add: reduce_events_def paused_log_def apply_event.simps paused_continuation_def
        agent_state_default_def)
  have continuation: "latest_tool_approval_continuation paused_log = Inr paused_continuation"
    and last_sequence: "paused_log \<noteq> []" "ensure_event_counter_after paused_log m
      = (m\<lparr>m_event_counter := max (m_event_counter m) 2\<rparr>, Inr ())" for m :: "(memory_store, string list) machine"
    by (simp_all add: latest_tool_approval_continuation_def paused_log_def map_filter_simps
        ensure_event_counter_after_def)
  have index: "phase_index_after approval_runtime ''tool.execute'' = Inr 1"
    by (simp add: phase_index_after_def find_index_Cons)
  have "case snd (resume_tool_approvals_internal 4 approval_runtime ''run-1'' [denial] None None
      paused_machine) of Inr (Some _) \<Rightarrow> True | _ \<Rightarrow> False"
    by (simp add: resume_evals run_evals run_events_memory paused_machine_def loaded index
        reduced continuation last_sequence memory_store_ops_def memory_load_def
        first_cursor_def run_phase_def run_standard_phase_def turn_decision_def event_to_record_def
        map_filter_simps output_from_scratch_def scratch_default_def agent_state_default_def
        paused_continuation_def denial_def sample_call_def sample_decision_def bt_contains_key_def
        bt_remove_def bt_collect_def bt_extend_def tool_phase_output_def append_tool_execution_effects_def
        tool_result_effect_def tool_result_message_def denied_tool_output_def approval_requests_of_def
        add_execution_def error_tool_output_def validate_effect_for_state_def validate_message_id_def
        not_blank_Cons apply_effect_def eval_nat_numeral del: runs_simps)
  then show thesis
    using that
    by (cases "resume_tool_approvals_internal 4 approval_runtime ''run-1'' [denial] None None paused_machine")
      (auto split: sum.splits option.splits)
qed

theorem resume_report_terminal_witness:
  "case resume_tool_approvals_internal 4 approval_runtime ''run-1'' [denial] None None paused_machine of
     (m', Inr (Some report)) \<Rightarrow> reduce_events (rr_events report) = Inr (rr_state report)
       \<and> (\<exists>evs ev. rr_events report = evs @ [ev] \<and> run_ended (ev_kind ev) (rr_state report))
   | _ \<Rightarrow> False"
proof -
  obtain m' report where run: "resume_tool_approvals_internal 4 approval_runtime ''run-1'' [denial] None
    None paused_machine = (m', Inr (Some report))" by (rule paused_run_denied)
  have es: "rt_event_store approval_runtime = memory_store_ops" by simp
  show ?thesis
    using resume_report_terminal [OF es paused_machine_ok(1,3) run]
    unfolding run prod.case sum.case option.case by blast
qed


end
