(* ===== verification/Agent.thy ===== *)
theory Agent
  imports Resume_Properties
begin

text \<open>
  The agent (\<open>src/agent.rs\<close>): one runtime with a state that outlives its runs, the two message
  queues, the listeners and the token of the active run. What is shared behind locks is part of the
  world of the runtime (\<open>agent_inner\<close>), so tools, hooks and listeners may steer the agent, cancel
  it or change its queues while a run is going on. A listener is an opaque handle; a parameter says
  what a call of it does.
\<close>

section \<open>The queues\<close>

datatype queue_mode = QueueAll | OneAtATime

record pending_message_queue =
  pq_mode :: queue_mode
  pq_messages :: "queued_agent_message list"

definition pq_new :: "queue_mode \<Rightarrow> pending_message_queue" where
  "pq_new mode = \<lparr>pq_mode = mode, pq_messages = []\<rparr>"

definition pq_enqueue :: "queued_agent_message \<Rightarrow> pending_message_queue \<Rightarrow> pending_message_queue" where
  "pq_enqueue message q = q\<lparr>pq_messages := pq_messages q @ [message]\<rparr>"

text \<open>\<open>for message in messages.into_iter().rev() { push_front(message) }\<close>.\<close>

definition pq_prepend ::
  "queued_agent_message list \<Rightarrow> pending_message_queue \<Rightarrow> pending_message_queue" where
  "pq_prepend messages q = q\<lparr>pq_messages := fold (#) (rev messages) (pq_messages q)\<rparr>"

definition pq_clear :: "pending_message_queue \<Rightarrow> pending_message_queue" where
  "pq_clear q = q\<lparr>pq_messages := []\<rparr>"

definition pq_edit ::
  "(queued_agent_message list \<Rightarrow> queued_agent_message list) \<Rightarrow> pending_message_queue
     \<Rightarrow> pending_message_queue" where
  "pq_edit edit q = q\<lparr>pq_messages := edit (pq_messages q)\<rparr>"

definition pq_drain ::
  "pending_message_queue \<Rightarrow> pending_message_queue \<times> queued_agent_message list" where
  "pq_drain q =
     (case pq_mode q of
        QueueAll \<Rightarrow> (q\<lparr>pq_messages := []\<rparr>, pq_messages q)
      | OneAtATime \<Rightarrow> (q\<lparr>pq_messages := drop 1 (pq_messages q)\<rparr>, take 1 (pq_messages q)))"

text \<open>
  What the run loop relies on: a drain takes a front part of the queue, not empty unless the queue
  is, and prepended messages are the next ones to be drained.
\<close>

locale message_queue =
  fixes enqueue :: "'m \<Rightarrow> 'q \<Rightarrow> 'q"
    and prepend :: "'m list \<Rightarrow> 'q \<Rightarrow> 'q"
    and drain :: "'q \<Rightarrow> 'q \<times> 'm list"
    and contents :: "'q \<Rightarrow> 'm list"
  assumes enqueue: "contents (enqueue m q) = contents q @ [m]"
    and prepend: "contents (prepend ms q) = ms @ contents q"
    and drain: "snd (drain q) @ contents (fst (drain q)) = contents q"
    and drain_some: "contents q \<noteq> [] \<Longrightarrow> snd (drain q) \<noteq> []"
begin

primrec drain_times :: "nat \<Rightarrow> 'q \<Rightarrow> 'q \<times> 'm list" where
  "drain_times 0 q = (q, [])"
| "drain_times (Suc n) q =
     (let (q1, ms) = drain q; (q2, ms') = drain_times n q1 in (q2, ms @ ms'))"

text \<open>Repeated drains give the messages in the order of the queue, none lost and none twice.\<close>

lemma drain_times: "snd (drain_times n q) @ contents (fst (drain_times n q)) = contents q"
proof (induction n arbitrary: q)
  case (Suc n)
  obtain q1 ms where one: "drain q = (q1, ms)" by force
  obtain q2 ms' where more: "drain_times n q1 = (q2, ms')" by force
  have "ms @ contents q1 = contents q" using drain [of q] one by simp
  moreover have "ms' @ contents q2 = contents q1" using Suc [of q1] more by simp
  ultimately show ?case by (simp add: one more)
qed simp

lemma drain_shortens: "contents q \<noteq> [] \<Longrightarrow> length (contents (fst (drain q))) < length (contents q)"
  using drain [of q] drain_some [of q] by (metis length_append length_greater_0_conv less_add_same_cancel2)

lemma drain_times_all: "length (contents q) \<le> n \<Longrightarrow> snd (drain_times n q) = contents q"
proof (induction n arbitrary: q)
  case 0
  then show ?case by simp
next
  case (Suc n)
  show ?case
  proof (cases "contents q = []")
    case True
    with drain_times [of "Suc n" q] show ?thesis by simp
  next
    case False
    with Suc drain_shortens [OF False] have "snd (drain_times n (fst (drain q))) = contents (fst (drain q))"
      by simp
    with drain [of q] show ?thesis by (simp add: case_prod_beta Let_def)
  qed
qed

end

interpretation pq: message_queue pq_enqueue pq_prepend pq_drain pq_messages
proof
  show "pq_messages (pq_enqueue m q) = pq_messages q @ [m]" for m q by (simp add: pq_enqueue_def)
  show "pq_messages (pq_prepend ms q) = ms @ pq_messages q" for ms q
    by (simp add: pq_prepend_def fold_Cons_rev)
  show "snd (pq_drain q) @ pq_messages (fst (pq_drain q)) = pq_messages q" for q
    by (cases "pq_mode q"; cases "pq_messages q") (simp_all add: pq_drain_def)
  show "pq_messages q \<noteq> [] \<Longrightarrow> snd (pq_drain q) \<noteq> []" for q
    by (cases "pq_mode q"; cases "pq_messages q") (simp_all add: pq_drain_def)
qed

section \<open>The agent\<close>

text \<open>\<open>ai_active_run\<close> is the token of the active run, as whether it is cancelled.\<close>

record ('l, 'x) agent_inner =
  ai_state :: agent_state
  ai_listeners :: "(nat, 'l) btree_map"
  ai_listener_counter :: nat
  ai_active_run :: "bool option"
  ai_steering_queue :: pending_message_queue
  ai_follow_up_queue :: pending_message_queue
  ai_env :: 'x

text \<open>The handles of an agent: its runtime and what calling a listener does.\<close>

type_synonym ('l, 'x) agent_world = "('l, 'x) agent_inner"
type_synonym ('l, 'x) listen = "'l \<Rightarrow> agent_event \<Rightarrow> (('l, 'x) agent_inner, agent_core_error, unit) eff"

definition agent_queues :: "('l, 'x) agent_world runtime_queues" where
  "agent_queues =
     \<lparr>rq_steering_messages = (\<lambda>w.
        let (q, ms) = pq_drain (ai_steering_queue w) in (w\<lparr>ai_steering_queue := q\<rparr>, Inr ms)),
      rq_follow_up_messages = (\<lambda>w.
        let (q, ms) = pq_drain (ai_follow_up_queue w) in (w\<lparr>ai_follow_up_queue := q\<rparr>, Inr ms)),
      rq_prepend_follow_up_messages = (\<lambda>ms w.
        (w\<lparr>ai_follow_up_queue := pq_prepend ms (ai_follow_up_queue w)\<rparr>, Inr ()))\<rparr>"

text \<open>The sink of a run: the event is applied to the agent's state, then given to each listener.\<close>

definition event_sink :: "('l, 'x) listen \<Rightarrow> ('l, 'x) agent_world event_sink" where
  "event_sink listen event =
     and_then (\<lambda>w. case apply_event (ai_state w) event of
         Inl e \<Rightarrow> (w, Inl e) | Inr st \<Rightarrow> (w\<lparr>ai_state := st\<rparr>, Inr (bt_values (ai_listeners w))))
       (\<lambda>listeners. for_each listeners (\<lambda>listener. listen listener event))"

text \<open>The token a run of the agent is given: that of the active run.\<close>

definition with_agent_token ::
  "('s, ('l, 'x) agent_world) agent_runtime \<Rightarrow> ('s, ('l, 'x) agent_world) agent_runtime" where
  "with_agent_token rt = rt\<lparr>rt_cancelled := \<lambda>w. (w, ai_active_run w = Some True)\<rparr>"

definition set_active :: "bool option \<Rightarrow> ('l, 'x) agent_world \<Rightarrow> ('l, 'x) agent_world" where
  "set_active a w = w\<lparr>ai_active_run := a\<rparr>"

type_synonym ('s, 'l, 'x, 'a) agent_eff = "('s, ('l, 'x) agent_world, 'a) run_eff"

text \<open>\<open>Ok None\<close> is a run out of fuel, which leaves the agent as it is in the middle of the run.\<close>

definition run_exclusive ::
  "(agent_state \<Rightarrow> ('s, 'l, 'x, run_report option) agent_eff) \<Rightarrow> ('s, 'l, 'x, unit option) agent_eff" where
  "run_exclusive operation m =
     (if ai_active_run (m_world m) \<noteq> None
      then (m, Inl (PhaseError ''agent is already running''))
      else
        (let initial_state = ai_state (m_world m)
         in case operation initial_state (m\<lparr>m_world := set_active (Some False) (m_world m)\<rparr>) of
              (m', Inr None) \<Rightarrow> (m', Inr None)
            | (m', Inr (Some report)) \<Rightarrow>
                (m'\<lparr>m_world := set_active None ((m_world m')\<lparr>ai_state := rr_state report\<rparr>)\<rparr>,
                 Inr (Some ()))
            | (m', Inl e) \<Rightarrow> (m'\<lparr>m_world := set_active None (m_world m')\<rparr>, Inl e)))"

definition start_run ::
  "nat \<Rightarrow> ('s, ('l, 'x) agent_world) agent_runtime \<Rightarrow> ('l, 'x) listen \<Rightarrow> agent_input option
     \<Rightarrow> ('s, 'l, 'x, unit option) agent_eff" where
  "start_run fuel rt listen input =
     run_exclusive (\<lambda>initial_state.
       run_with_options fuel (with_agent_token rt) input initial_state (Some (event_sink listen))
         (Some agent_queues))"

definition prompt ::
  "nat \<Rightarrow> ('s, ('l, 'x) agent_world) agent_runtime \<Rightarrow> ('l, 'x) listen \<Rightarrow> agent_input
     \<Rightarrow> ('s, 'l, 'x, unit option) agent_eff" where
  "prompt fuel rt listen input = start_run fuel rt listen (Some input)"

definition continue_run ::
  "nat \<Rightarrow> ('s, ('l, 'x) agent_world) agent_runtime \<Rightarrow> ('l, 'x) listen
     \<Rightarrow> ('s, 'l, 'x, unit option) agent_eff" where
  "continue_run fuel rt listen m =
     (case rev (st_messages (ai_state (m_world m))) of
        [] \<Rightarrow> (m, Inl (PhaseError ''no messages to continue from''))
      | last_message # _ \<Rightarrow>
          if msg_role last_message = Assistant
          then (m, Inl (PhaseError ''cannot continue from assistant message''))
          else start_run fuel rt listen None m)"

definition resume_tool_approvals_for_run ::
  "nat \<Rightarrow> ('s, ('l, 'x) agent_world) agent_runtime \<Rightarrow> ('l, 'x) listen \<Rightarrow> string
     \<Rightarrow> tool_approval_resolution list \<Rightarrow> ('s, 'l, 'x, unit option) agent_eff" where
  "resume_tool_approvals_for_run fuel rt listen run_id resolutions =
     run_exclusive (\<lambda>_.
       resume_tool_approvals_internal fuel (with_agent_token rt) run_id resolutions
         (Some (event_sink listen)) (Some agent_queues))"

definition resume_tool_approvals ::
  "nat \<Rightarrow> ('s, ('l, 'x) agent_world) agent_runtime \<Rightarrow> ('l, 'x) listen
     \<Rightarrow> tool_approval_resolution list \<Rightarrow> ('s, 'l, 'x, unit option) agent_eff" where
  "resume_tool_approvals fuel rt listen resolutions m =
     (let st = ai_state (m_world m)
      in if st_status st \<noteq> Paused then (m, Inl (PhaseError ''agent is not paused''))
         else case st_run_id st of
                None \<Rightarrow> (m, Inl (PhaseError ''paused agent has no run id''))
              | Some run_id \<Rightarrow> resume_tool_approvals_for_run fuel rt listen run_id resolutions m)"

definition resume_tool_approval ::
  "nat \<Rightarrow> ('s, ('l, 'x) agent_world) agent_runtime \<Rightarrow> ('l, 'x) listen
     \<Rightarrow> tool_approval_resolution \<Rightarrow> ('s, 'l, 'x, unit option) agent_eff" where
  "resume_tool_approval fuel rt listen resolution = resume_tool_approvals fuel rt listen [resolution]"

definition resume_due_tool_approval_timeouts ::
  "nat \<Rightarrow> ('s, ('l, 'x) agent_world) agent_runtime \<Rightarrow> ('l, 'x) listen
     \<Rightarrow> ('s, 'l, 'x, unit option) agent_eff" where
  "resume_due_tool_approval_timeouts fuel rt listen = resume_tool_approvals fuel rt listen []"

section \<open>Operations on what is shared\<close>

definition steer_queued ::
  "queued_agent_message \<Rightarrow> ('l, 'x) agent_world \<Rightarrow> ('l, 'x) agent_world" where
  "steer_queued message w = w\<lparr>ai_steering_queue := pq_enqueue message (ai_steering_queue w)\<rparr>"

definition queued_observation :: "agent_message \<Rightarrow> queued_agent_message" where
  "queued_observation message = \<lparr>qm_message = message, qm_intent = Observation\<rparr>"

definition queued_user_input :: "agent_message \<Rightarrow> queued_agent_message" where
  "queued_user_input message = \<lparr>qm_message = message, qm_intent = UserInput\<rparr>"

definition steer :: "agent_message \<Rightarrow> ('l, 'x) agent_world \<Rightarrow> ('l, 'x) agent_world" where
  "steer message = steer_queued (queued_observation message)"

definition steer_user_input :: "agent_message \<Rightarrow> ('l, 'x) agent_world \<Rightarrow> ('l, 'x) agent_world" where
  "steer_user_input message = steer_queued (queued_user_input message)"

definition follow_up_queued ::
  "queued_agent_message \<Rightarrow> ('l, 'x) agent_world \<Rightarrow> ('l, 'x) agent_world" where
  "follow_up_queued message w = w\<lparr>ai_follow_up_queue := pq_enqueue message (ai_follow_up_queue w)\<rparr>"

definition follow_up :: "agent_message \<Rightarrow> ('l, 'x) agent_world \<Rightarrow> ('l, 'x) agent_world" where
  "follow_up message = follow_up_queued (queued_user_input message)"

definition edit_steering_queue ::
  "(queued_agent_message list \<Rightarrow> queued_agent_message list) \<Rightarrow> ('l, 'x) agent_world
     \<Rightarrow> ('l, 'x) agent_world" where
  "edit_steering_queue edit w = w\<lparr>ai_steering_queue := pq_edit edit (ai_steering_queue w)\<rparr>"

definition edit_follow_up_queue ::
  "(queued_agent_message list \<Rightarrow> queued_agent_message list) \<Rightarrow> ('l, 'x) agent_world
     \<Rightarrow> ('l, 'x) agent_world" where
  "edit_follow_up_queue edit w = w\<lparr>ai_follow_up_queue := pq_edit edit (ai_follow_up_queue w)\<rparr>"

definition set_steering_mode :: "queue_mode \<Rightarrow> ('l, 'x) agent_world \<Rightarrow> ('l, 'x) agent_world" where
  "set_steering_mode mode w = w\<lparr>ai_steering_queue := (ai_steering_queue w)\<lparr>pq_mode := mode\<rparr>\<rparr>"

definition set_follow_up_mode :: "queue_mode \<Rightarrow> ('l, 'x) agent_world \<Rightarrow> ('l, 'x) agent_world" where
  "set_follow_up_mode mode w = w\<lparr>ai_follow_up_queue := (ai_follow_up_queue w)\<lparr>pq_mode := mode\<rparr>\<rparr>"

definition clear_all_queues :: "('l, 'x) agent_world \<Rightarrow> ('l, 'x) agent_world" where
  "clear_all_queues w =
     w\<lparr>ai_steering_queue := pq_clear (ai_steering_queue w),
       ai_follow_up_queue := pq_clear (ai_follow_up_queue w)\<rparr>"

definition reset :: "('l, 'x) agent_world \<Rightarrow> ('l, 'x) agent_world" where
  "reset w = clear_all_queues (w\<lparr>ai_state := agent_state_default\<rparr>)"

definition subscribe :: "'l \<Rightarrow> ('l, 'x) agent_world \<Rightarrow> ('l, 'x) agent_world \<times> nat" where
  "subscribe listener w =
     (let i = ai_listener_counter w + 1
      in (w\<lparr>ai_listener_counter := i, ai_listeners := bt_insert i listener (ai_listeners w)\<rparr>, i))"

definition unsubscribe :: "nat \<Rightarrow> ('l, 'x) agent_world \<Rightarrow> ('l, 'x) agent_world" where
  "unsubscribe i w = w\<lparr>ai_listeners := bt_remove i (ai_listeners w)\<rparr>"

text \<open>\<open>abort\<close>: the active run is cancelled, or else a paused run is aborted in its log.\<close>

definition abort ::
  "('s, ('l, 'x) agent_world) agent_runtime \<Rightarrow> ('l, 'x) listen
     \<Rightarrow> ('s, ('l, 'x) agent_world) machine \<Rightarrow> ('s, ('l, 'x) agent_world) machine" where
  "abort rt listen m =
     (if ai_active_run (m_world m) \<noteq> None
      then m\<lparr>m_world := set_active (Some True) (m_world m)\<rparr>
      else
        (let st = ai_state (m_world m)
         in case (if st_status st = Paused then st_run_id st else None) of
              None \<Rightarrow> m
            | Some run_id \<Rightarrow> fst (abort_paused_run rt run_id (Some (event_sink listen)) m)))"

text \<open>\<open>AgentBuilder::build\<close>, given the runtime.\<close>

definition new_agent_inner :: "agent_state \<Rightarrow> 'x \<Rightarrow> ('l, 'x) agent_world" where
  "new_agent_inner initial_state env =
     \<lparr>ai_state = initial_state, ai_listeners = [], ai_listener_counter = 0, ai_active_run = None,
      ai_steering_queue = pq_new OneAtATime, ai_follow_up_queue = pq_new OneAtATime, ai_env = env\<rparr>"

end
