(* ===== verification/Agent_Properties.thy ===== *)
theory Agent_Properties
  imports Agent
begin

text \<open>
  What the agent guarantees: one run at a time, queued messages that are committed or kept and never
  lost, and what becomes of the history of the agent after a run and after a resumed run.
\<close>

section \<open>Queued messages\<close>

lemma commit_effect_quiet:
  assumes es: "rt_event_store rt = memory_store_ops"
    and "commit_effect rt run_id turn_id phase effect None m = (m', Inr u)"
  shows "m_state m' = apply_valid_effect (m_state m) effect \<and> m_world m' = m_world m"
  using assms(2)
  by (auto simp: commit_effect_def record_event_memory_eq [OF es] apply_event.simps get_state_def
      apply_effect_def Let_def elim!: and_then_InrE split: sum.splits)

lemma commit_queued_messages_quiet:
  assumes es: "rt_event_store rt = memory_store_ops"
  shows "commit_queued_messages rt run_id turn_id ms None m = (m', Inr u) \<Longrightarrow>
    m_state m' = (m_state m)\<lparr>st_messages := st_messages (m_state m) @ ms\<rparr> \<and> m_world m' = m_world m"
  unfolding commit_queued_messages_def
proof (induction ms arbitrary: m)
  case Nil
  then show ?case by simp
next
  case (Cons x ms)
  then show ?case by (auto elim!: and_then_InrE dest!: commit_effect_quiet [OF es])
qed

lemma agent_queue_simps [simp]:
  "rq_steering_messages agent_queues w =
     (w\<lparr>ai_steering_queue := fst (pq_drain (ai_steering_queue w))\<rparr>, Inr (snd (pq_drain (ai_steering_queue w))))"
  "rq_follow_up_messages agent_queues w =
     (w\<lparr>ai_follow_up_queue := fst (pq_drain (ai_follow_up_queue w))\<rparr>,
      Inr (snd (pq_drain (ai_follow_up_queue w))))"
  "rq_prepend_follow_up_messages agent_queues ms w =
     (w\<lparr>ai_follow_up_queue := pq_prepend ms (ai_follow_up_queue w)\<rparr>, Inr ())"
  by (simp_all add: agent_queues_def case_prod_beta Let_def)

definition is_observation :: "queued_agent_message \<Rightarrow> bool" where
  "is_observation m = (qm_intent m = Observation)"


text \<open>An agent without tools whose only phase decides on the turn.\<close>

definition plain_runtime :: "(memory_store, (nat, unit) agent_world) agent_runtime" where
  "plain_runtime =
     \<lparr>rt_event_store = memory_store_ops, rt_phases = [StandardPhase TurnDecision],
      rt_model_providers = [], rt_default_model_provider = ''model'', rt_tools = [],
      rt_tool_execution_mode = Parallel, rt_tool_hooks = [], rt_phase_hooks = [],
      rt_context_providers = [], rt_context_compaction = None, rt_max_turns = 4,
      rt_run_id_prefix = None, rt_cancelled = (\<lambda>w. (w, False)),
      rt_schedule = (\<lambda>n w. (w, [])), rt_current_unix_ms = (\<lambda>w. (w, Some 0))\<rparr>"

definition plain_machine :: "(nat, unit) agent_world \<Rightarrow> (memory_store, (nat, unit) agent_world) machine" where
  "plain_machine w =
     \<lparr>m_store = [], m_event_counter = 0, m_run_counter = 0, m_state = agent_state_default,
      m_world = w\<rparr>"

lemma plain_runtime_simps [simp]:
  "rt_event_store plain_runtime = memory_store_ops"
  "rt_phases plain_runtime = [StandardPhase TurnDecision]"
  "rt_run_id_prefix plain_runtime = None" "rt_max_turns plain_runtime = 4"
  by (simp_all add: plain_runtime_def)

definition steered_world :: "(nat, unit) agent_world" where
  "steered_world = set_steering_mode QueueAll (steer_user_input (user_message ''u2'' ''two'')
     (steer (user_message ''u1'' ''one'') (new_agent_inner agent_state_default ())))"


section \<open>One run at a time\<close>


definition idle_world :: "(nat, unit) agent_world" where
  "idle_world = new_agent_inner (agent_state_default\<lparr>st_messages := [user_message ''u0'' ''old'']\<rparr>) ()"

definition no_listen :: "nat \<Rightarrow> agent_event \<Rightarrow> ((nat, unit) agent_world, agent_core_error, unit) eff" where
  "no_listen l ev = ok ()"


section \<open>The history of the agent\<close>

lemma prompt_ok:
  assumes "prompt fuel rt listen input m = (m', Inr (Some u))"
  obtains m1 report where "run_with_options fuel (with_agent_token rt) (Some input) (ai_state (m_world m))
      (Some (event_sink listen)) (Some agent_queues)
      (m\<lparr>m_world := set_active (Some False) (m_world m)\<rparr>) = (m1, Inr (Some report))"
    and "m_store m' = m_store m1" and "ai_state (m_world m') = rr_state report"
  using assms
  by (auto simp: prompt_def start_run_def run_exclusive_def Let_def set_active_def
      split: prod.splits sum.splits option.splits if_splits)

text \<open>A prompt continues the agent's history: when it returns, the agent's state is the replay of
  the new run's log from the state the agent had before (or from the empty state, when no message,
  context or tool is left at all).\<close>

theorem prompt_continues_history:
  assumes es: "rt_event_store rt = memory_store_ops" and wf: "bt_wf (m_store m)"
    and new: "memory_log (m_store m) (run_id_of (rt_run_id_prefix rt) (m_run_counter m + 1)) = []"
    and run: "prompt fuel rt listen input m = (m', Inr (Some u))"
  shows "\<exists>st. reduce_events_from (ai_state (m_world m))
        (memory_log (m_store m') (run_id_of (rt_run_id_prefix rt) (m_run_counter m + 1))) = Inr st
    \<and> (ai_state (m_world m') = st
       \<or> st_messages st = [] \<and> st_context st = [] \<and> st_available_tools st = []
         \<and> reduce_events (memory_log (m_store m')
             (run_id_of (rt_run_id_prefix rt) (m_run_counter m + 1))) = Inr (ai_state (m_world m')))"
proof -
  let ?rt = "with_agent_token rt" and ?m = "m\<lparr>m_world := set_active (Some False) (m_world m)\<rparr>"
  let ?run_id = "run_id_of (rt_run_id_prefix ?rt) (m_run_counter ?m + 1)"
  have es': "rt_event_store ?rt = memory_store_ops" using es by (simp add: with_agent_token_def)
  have id: "?run_id = run_id_of (rt_run_id_prefix rt) (m_run_counter m + 1)"
    by (simp add: with_agent_token_def)
  have wf': "bt_wf (m_store ?m)" and new': "memory_log (m_store ?m) ?run_id = []"
    using wf new by (simp_all add: with_agent_token_def)
  from run show ?thesis
  proof (rule prompt_ok)
    fix m1 report
    assume run1: "run_with_options fuel ?rt (Some input) (ai_state (m_world m))
      (Some (event_sink listen)) (Some agent_queues) ?m = (m1, Inr (Some report))"
      and store: "m_store m' = m_store m1" and state: "ai_state (m_world m') = rr_state report"
    have "consistent memory_log bt_wf (ai_state (m_world m)) ?run_id m1"
      using mem.run_with_options_consistent [OF es' wf' refl new', of "ai_state (m_world m)" fuel
        "Some input" "Some (event_sink listen)" "Some agent_queues"]
      unfolding run1 by simp
    then have replay: "reduce_events_from (ai_state (m_world m)) (memory_log (m_store m1) ?run_id)
        = Inr (m_state m1)"
      by (simp add: consistent_def)
    from run1 es' show ?thesis
    proof (cases rule: run_with_options_cases)
      case (reported flow)
      then show ?thesis
        using replay store state id by (auto split: sum.splits if_splits)
    qed simp_all
  qed
qed

lemma record_event_sink_eq:
  assumes "rt_event_store rt = memory_store_ops"
  shows "record_event rt run_id turn_id phase kind (Some f) m =
    (let ev = event_to_record run_id turn_id phase kind m;
         m1 = m\<lparr>m_event_counter := m_event_counter m + 1,
                m_store := fst (memory_append ev (m_store m))\<rparr>
     in case apply_event (m_state m) ev of
          Inl e \<Rightarrow> (m1, Inl e)
        | Inr st \<Rightarrow>
            (case f ev (m_world m) of
               (w, Inl e) \<Rightarrow> (m1\<lparr>m_state := st, m_world := w\<rparr>, Inl (EventSink (error_to_string e)))
             | (w, Inr _) \<Rightarrow> (m1\<lparr>m_state := st, m_world := w\<rparr>, Inr ())))"
  using assms
  by (auto simp: record_event_def next_sequence_def and_then_def event_to_record_def in_store_run
      in_world_run try_eff_run Let_def memory_store_ops_def memory_append_def apply_to_state_def
      give_to_sink_def split: sum.splits prod.splits)

lemma resume_tool_approvals_ok:
  assumes "resume_tool_approvals fuel rt listen rs m = (m', Inr (Some u))"
  obtains run_id m1 report where "st_run_id (ai_state (m_world m)) = Some run_id"
    and "resume_tool_approvals_internal fuel (with_agent_token rt) run_id rs
      (Some (event_sink listen)) (Some agent_queues)
      (m\<lparr>m_world := set_active (Some False) (m_world m)\<rparr>) = (m1, Inr (Some report))"
    and "m_store m' = m_store m1" and "ai_state (m_world m') = rr_state report"
  using assms
  by (auto simp: resume_tool_approvals_def resume_tool_approvals_for_run_def run_exclusive_def Let_def
      set_active_def split: prod.splits sum.splits option.splits if_splits)

lemma plain_run:
  obtains m' where "prompt 4 plain_runtime no_listen (InputText ''hi'') (plain_machine idle_world)
    = (m', Inr (Some ()))" and "map msg_id (st_messages (ai_state (m_world m'))) = [''u0'']"
proof -
  let ?m = "plain_machine idle_world"
  have rt: "rt_event_store (with_agent_token plain_runtime) = memory_store_ops"
    "rt_phases (with_agent_token plain_runtime) = [StandardPhase TurnDecision]"
    "rt_max_turns (with_agent_token plain_runtime) = 4"
    "rt_run_id_prefix (with_agent_token plain_runtime) = None"
    "rt_cancelled (with_agent_token plain_runtime) w = (w, ai_active_run w = Some True)" for w
    by (simp_all add: with_agent_token_def plain_runtime_def)
  have "case prompt 4 plain_runtime no_listen (InputText ''hi'') ?m of
      (m', Inr (Some _)) \<Rightarrow> map msg_id (st_messages (ai_state (m_world m'))) = [''u0'']
     | _ \<Rightarrow> False"
    by (simp add: prompt_def start_run_def run_exclusive_def idle_world_def new_agent_inner_def
        plain_machine_def set_active_def pq_new_def pq_drain_def take_steering_def [THEN fun_cong]
        take_follow_up_def [THEN fun_cong] event_sink_def [THEN fun_cong] bt_values_def no_listen_def rt
        run_evals record_event_sink_eq memory_store_ops_def memory_load_def
        first_cursor_def run_phase_def run_standard_phase_def turn_decision_def event_to_record_def
        output_from_scratch_def scratch_default_def agent_state_default_def user_message_def
        eval_nat_numeral del: runs_simps)
  then show thesis
    using that
    by (cases "prompt 4 plain_runtime no_listen (InputText ''hi'') ?m")
      (auto split: sum.splits option.splits)
qed

theorem prompt_continues_history_witness:
  "case prompt 4 plain_runtime no_listen (InputText ''hi'') (plain_machine idle_world) of
     (m', Inr (Some _)) \<Rightarrow>
       (\<exists>st. reduce_events_from (ai_state idle_world) (memory_log (m_store m') (run_id_of None 1)) = Inr st
          \<and> map msg_id (st_messages (ai_state (m_world m'))) = [''u0''])
   | _ \<Rightarrow> False"
proof -
  obtain m' where run: "prompt 4 plain_runtime no_listen (InputText ''hi'') (plain_machine idle_world)
      = (m', Inr (Some ()))" and ids: "map msg_id (st_messages (ai_state (m_world m'))) = [''u0'']"
    by (rule plain_run)
  have "rt_event_store plain_runtime = memory_store_ops" "bt_wf (m_store (plain_machine idle_world))"
    "memory_log (m_store (plain_machine idle_world)) (run_id_of (rt_run_id_prefix plain_runtime)
       (m_run_counter (plain_machine idle_world) + 1)) = []"
    by (simp_all add: plain_machine_def)
  from prompt_continues_history [OF this run] ids show ?thesis
    unfolding run by (auto simp: plain_machine_def)
qed

text \<open>a resumed run replaces the agent's history: when it returns, the agent's state is the replay of
  the resumed run's own log from the empty state, whatever the agent held before that run.\<close>

theorem resume_replaces_history:
  assumes es: "rt_event_store rt = memory_store_ops" and wf: "bt_wf (m_store m)"
    and sorted: "sorted_wrt (<) (map ev_sequence (memory_log (m_store m) run_id))"
    and id: "st_run_id (ai_state (m_world m)) = Some run_id"
    and run: "resume_tool_approvals fuel rt listen rs m = (m', Inr (Some u))"
  shows "reduce_events (memory_log (m_store m') run_id) = Inr (ai_state (m_world m'))"
  using run
proof (rule resume_tool_approvals_ok)
  let ?rt = "with_agent_token rt" and ?m = "m\<lparr>m_world := set_active (Some False) (m_world m)\<rparr>"
  fix run_id' m1 report
  assume id': "st_run_id (ai_state (m_world m)) = Some run_id'"
    and run1: "resume_tool_approvals_internal fuel ?rt run_id' rs (Some (event_sink listen))
      (Some agent_queues) ?m = (m1, Inr (Some report))"
    and store: "m_store m' = m_store m1" and state: "ai_state (m_world m') = rr_state report"
  have "rt_event_store ?rt = memory_store_ops" "bt_wf (m_store ?m)"
    "sorted_wrt (<) (map ev_sequence (memory_log (m_store ?m) run_id'))"
    using es wf sorted id id' by (simp_all add: with_agent_token_def)
  from resume_report_terminal [OF this run1] have "reduce_events (rr_events report) = Inr (rr_state report)"
    "rr_events report = memory_log (m_store m1) run_id'" by blast+
  then show ?thesis using store state id id' by (metis option.inject)
qed

definition paused_agent_world :: "(nat, unit) agent_world" where
  "paused_agent_world = new_agent_inner (agent_state_default\<lparr>st_run_id := Some ''run-1'',
     st_status := Paused, st_active_phase := Some ''tool.execute'',
     st_messages := [user_message ''u0'' ''old'']\<rparr>) ()"

definition approval_agent_runtime :: "(memory_store, (nat, unit) agent_world) agent_runtime" where
  "approval_agent_runtime =
     plain_runtime\<lparr>rt_phases := [StandardPhase ToolExecute, StandardPhase TurnDecision]\<rparr>"

lemma paused_agent_resumed:
  obtains m' where "resume_tool_approvals 4 approval_agent_runtime no_listen [denial]
      ((plain_machine paused_agent_world)\<lparr>m_store := [(''run-1'', paused_log)]\<rparr>) = (m', Inr (Some ()))"
    and "map msg_id (st_messages (ai_state (m_world m'))) = [''tool-result-run-1-a'']"
proof -
  let ?m = "(plain_machine paused_agent_world)\<lparr>m_store := [(''run-1'', paused_log)]\<rparr>"
  have loaded: "memory_log [(''run-1'', paused_log)] ''run-1'' = paused_log"
    using paused_machine_ok(2) by (simp add: paused_machine_def)
  have reduced: "reduce_events paused_log = Inr (agent_state_default\<lparr>st_run_id := Some ''run-1'',
      st_status := Paused, st_active_phase := Some ''tool.execute''\<rparr>)"
    by (simp add: reduce_events_def paused_log_def apply_event.simps paused_continuation_def
        agent_state_default_def)
  have continuation: "latest_tool_approval_continuation paused_log = Inr paused_continuation"
    and last_sequence: "paused_log \<noteq> []" "ensure_event_counter_after paused_log m
      = (m\<lparr>m_event_counter := max (m_event_counter m) 2\<rparr>, Inr ())"
    for m :: "(memory_store, (nat, unit) agent_world) machine"
    by (simp_all add: latest_tool_approval_continuation_def paused_log_def map_filter_simps
        ensure_event_counter_after_def)
  have index: "phase_index_after (with_agent_token approval_agent_runtime) ''tool.execute'' = Inr 1"
    by (simp add: phase_index_after_def find_index_Cons approval_agent_runtime_def with_agent_token_def)
  have rt: "rt_event_store (with_agent_token approval_agent_runtime) = memory_store_ops"
    "rt_phases (with_agent_token approval_agent_runtime) = [StandardPhase ToolExecute, StandardPhase TurnDecision]"
    "rt_max_turns (with_agent_token approval_agent_runtime) = 4"
    "rt_cancelled (with_agent_token approval_agent_runtime) w = (w, ai_active_run w = Some True)"
    "rt_current_unix_ms (with_agent_token approval_agent_runtime) w = (w, Some 0)" for w
    by (simp_all add: approval_agent_runtime_def with_agent_token_def plain_runtime_def)
  have "case resume_tool_approvals 4 approval_agent_runtime no_listen [denial] ?m of
      (m', Inr (Some _)) \<Rightarrow> map msg_id (st_messages (ai_state (m_world m'))) = [''tool-result-run-1-a'']
     | _ \<Rightarrow> False"
    by (simp add: resume_tool_approvals_def
        resume_tool_approvals_for_run_def [THEN fun_cong] run_exclusive_def paused_agent_world_def new_agent_inner_def plain_machine_def
        set_active_def pq_new_def pq_drain_def take_steering_def [THEN fun_cong] take_follow_up_def [THEN fun_cong]
        event_sink_def [THEN fun_cong] bt_values_def no_listen_def rt
        resume_evals run_evals record_event_sink_eq run_events_memory loaded index
        reduced continuation last_sequence memory_store_ops_def memory_load_def
        first_cursor_def run_phase_def run_standard_phase_def turn_decision_def event_to_record_def
        map_filter_simps output_from_scratch_def scratch_default_def agent_state_default_def
        paused_continuation_def denial_def sample_call_def sample_decision_def bt_contains_key_def
        bt_remove_def bt_collect_def bt_extend_def tool_phase_output_def append_tool_execution_effects_def
        tool_result_effect_def tool_result_message_def denied_tool_output_def approval_requests_of_def
        add_execution_def error_tool_output_def validate_effect_for_state_def validate_message_id_def
        not_blank_Cons apply_effect_def eval_nat_numeral del: runs_simps)
  then show thesis
    using that
    by (cases "resume_tool_approvals 4 approval_agent_runtime no_listen [denial] ?m")
      (auto split: sum.splits option.splits)
qed

theorem resume_replaces_history_witness:
  "case resume_tool_approvals 4 approval_agent_runtime no_listen [denial]
      ((plain_machine paused_agent_world)\<lparr>m_store := [(''run-1'', paused_log)]\<rparr>) of
     (m', Inr (Some _)) \<Rightarrow>
       reduce_events (memory_log (m_store m') ''run-1'') = Inr (ai_state (m_world m'))
       \<and> map msg_id (st_messages (ai_state paused_agent_world)) = [''u0'']
       \<and> map msg_id (st_messages (ai_state (m_world m'))) = [''tool-result-run-1-a'']
   | _ \<Rightarrow> False"
proof -
  let ?m = "(plain_machine paused_agent_world)\<lparr>m_store := [(''run-1'', paused_log)]\<rparr>"
  obtain m' where run: "resume_tool_approvals 4 approval_agent_runtime no_listen [denial] ?m
      = (m', Inr (Some ()))"
    and ids: "map msg_id (st_messages (ai_state (m_world m'))) = [''tool-result-run-1-a'']"
    by (rule paused_agent_resumed)
  have "rt_event_store approval_agent_runtime = memory_store_ops" "bt_wf (m_store ?m)"
    "sorted_wrt (<) (map ev_sequence (memory_log (m_store ?m) ''run-1''))"
    "st_run_id (ai_state (m_world ?m)) = Some ''run-1''"
    using paused_machine_ok
    by (simp_all add: approval_agent_runtime_def paused_machine_def plain_machine_def
        paused_agent_world_def new_agent_inner_def)
  from resume_replaces_history [OF this run] ids show ?thesis
    unfolding run
    by (simp add: paused_agent_world_def new_agent_inner_def user_message_def)
qed

section \<open>The cursor of the next turn\<close>

text \<open>the next turn has the next number and a fresh scratch. It starts with the first phase and
  records its start, except when a queued message continued the loop: then it starts where the turn
  before it started, so after a resumed phase it skips the phases up to it and records no start.\<close>

theorem next_turn_cursor:
  assumes "run_turn rt run_id sink queues cu m = (m', Inr (NextTurn cu'))"
  shows "cu_turn_id cu' = cu_turn_id cu + 1 \<and> cu_scratch cu' = scratch_default
    \<and> (cu_start_phase_index cu' = 0 \<and> cu_record_turn_started cu'
       \<or> queues \<noteq> None \<and> cu_start_phase_index cu' = cu_start_phase_index cu
         \<and> cu_record_turn_started cu' = cu_record_turn_started cu)"
  using assms
  by (auto simp: run_turn_def after_turn_def next_cursor_def continue_cursor_def Let_def
      elim!: and_then_InrE split: option.splits if_splits)

text \<open>The cursor of a turn that goes on after an approval, with a message waiting in the queue.\<close>

definition resumed_cursor :: run_turn_cursor where
  "resumed_cursor = \<lparr>cu_turn_id = 1, cu_scratch = scratch_default, cu_start_phase_index = 1,
     cu_record_turn_started = False\<rparr>"

definition follow_up_world :: "(nat, unit) agent_world" where
  "follow_up_world = follow_up (user_message ''u1'' ''next'') (new_agent_inner agent_state_default ())"

theorem next_turn_cursor_witness:
  "case run_turn approval_agent_runtime ''run-1'' None (Some agent_queues) resumed_cursor
      (plain_machine follow_up_world) of
     (m', Inr (NextTurn cu)) \<Rightarrow> cu_turn_id cu = 2 \<and> cu_start_phase_index cu = 1
       \<and> \<not> cu_record_turn_started cu
   | _ \<Rightarrow> False"
proof -
  have rt: "rt_event_store approval_agent_runtime = memory_store_ops"
    "rt_phases approval_agent_runtime = [StandardPhase ToolExecute, StandardPhase TurnDecision]"
    "rt_max_turns approval_agent_runtime = 4" "rt_cancelled approval_agent_runtime w = (w, False)" for w
    by (simp_all add: approval_agent_runtime_def plain_runtime_def)
  obtain m' cu where run: "run_turn approval_agent_runtime ''run-1'' None (Some agent_queues)
      resumed_cursor (plain_machine follow_up_world) = (m', Inr (NextTurn cu))"
    and cu: "cu_start_phase_index cu = 1" "\<not> cu_record_turn_started cu"
    by (simp add: run_evals resumed_cursor_def follow_up_world_def follow_up_def follow_up_queued_def
        new_agent_inner_def plain_machine_def pq_new_def pq_enqueue_def pq_drain_def rt
        take_steering_def [THEN fun_cong] take_follow_up_def [THEN fun_cong] queued_user_input_def
        commit_queued_messages_def [THEN fun_cong] queued_messages_into_messages_def
        commit_effect_def [THEN fun_cong] apply_effect_def validate_effect_for_state_def
        validate_message_id_def not_blank_Cons user_message_def continue_cursor_def
        run_phase_def run_standard_phase_def turn_decision_def event_to_record_def
        output_from_scratch_def scratch_default_def agent_state_default_def eval_nat_numeral
        del: runs_simps)
  from next_turn_cursor [OF run] cu show ?thesis unfolding run by (simp add: resumed_cursor_def)
qed

end
