(* ===== verification/Utf8.thy ===== *)
theory Utf8
  imports Prelude
begin

text \<open>
  The validation of UTF-8 of Rust's standard library (\<open>str::from_utf8\<close>), which the code calls on
  bytes it receives: the first error with its index and its length, as \<open>Utf8Error\<close> reports them,
  and the message of the error.
\<close>

definition byte_in :: "nat \<Rightarrow> nat \<Rightarrow> char \<Rightarrow> bool" where
  "byte_in a b c = (a \<le> (of_char c :: nat) \<and> (of_char c :: nat) \<le> b)"

text \<open>The range of the second byte, and the number of bytes, by the first byte.\<close>

definition utf8_lead :: "char \<Rightarrow> ((char \<Rightarrow> bool) \<times> nat) option" where
  "utf8_lead c =
     (if byte_in 0xC2 0xDF c then Some (byte_in 0x80 0xBF, 2)
      else if byte_in 0xE0 0xE0 c then Some (byte_in 0xA0 0xBF, 3)
      else if byte_in 0xE1 0xEC c \<or> byte_in 0xEE 0xEF c then Some (byte_in 0x80 0xBF, 3)
      else if byte_in 0xED 0xED c then Some (byte_in 0x80 0x9F, 3)
      else if byte_in 0xF0 0xF0 c then Some (byte_in 0x90 0xBF, 4)
      else if byte_in 0xF1 0xF3 c then Some (byte_in 0x80 0xBF, 4)
      else if byte_in 0xF4 0xF4 c then Some (byte_in 0x80 0x8F, 4)
      else None)"

text \<open>\<open>None\<close> when the bytes are a character; else the error's length, if the input goes on.\<close>

definition utf8_char_error :: "(char \<Rightarrow> bool) \<Rightarrow> nat \<Rightarrow> string \<Rightarrow> nat option option" where
  "utf8_char_error second n rest =
     (let ok = (second # replicate (n - 2) is_continuation);
          good = length (takeWhile (\<lambda>(P, c). P c) (zip ok rest))
      in if good = n - 1 then None
         else if good = length rest then Some None
         else Some (Some (good + 1)))"

function utf8_error :: "nat \<Rightarrow> string \<Rightarrow> (nat \<times> nat option) option" where
  "utf8_error i [] = None"
| "utf8_error i (c # cs) =
     (if byte_in 0 0x7F c then utf8_error (i + 1) cs
      else case utf8_lead c of
        None \<Rightarrow> Some (i, Some 1)
      | Some (second, n) \<Rightarrow>
          (case utf8_char_error second n cs of
             Some len \<Rightarrow> Some (i, len)
           | None \<Rightarrow> utf8_error (i + n) (drop (n - 1) cs)))"
  by pat_completeness auto
termination
  by (relation "measure (\<lambda>(i, s). length s)") auto

definition utf8_error_message :: "nat \<times> nat option \<Rightarrow> string" where
  "utf8_error_message = (\<lambda>(i, len).
     case len of
       Some n \<Rightarrow> ''invalid utf-8 sequence of '' @ show_nat n @ '' bytes from index '' @ show_nat i
     | None \<Rightarrow> ''incomplete utf-8 byte sequence from index '' @ show_nat i)"

text \<open>\<open>str::from_utf8\<close>: the bytes themselves, or the message.\<close>

definition from_utf8 :: "string \<Rightarrow> string + string" where
  "from_utf8 s = (case utf8_error 0 s of None \<Rightarrow> Inr s | Some e \<Rightarrow> Inl (utf8_error_message e))"

lemma from_utf8_Inr: "from_utf8 s = Inr t \<Longrightarrow> t = s"
  by (auto simp: from_utf8_def split: option.splits)

text \<open>\<open>String::from_utf8_lossy\<close>: each error becomes one replacement character.\<close>

definition replacement_character :: string where
  "replacement_character = [CHR 0xEF, CHR 0xBF, CHR 0xBD]"

fun from_utf8_lossy_fuel :: "nat \<Rightarrow> string \<Rightarrow> string" where
  "from_utf8_lossy_fuel 0 s = []"
| "from_utf8_lossy_fuel (Suc n) s =
     (case utf8_error 0 s of
        None \<Rightarrow> s
      | Some (i, None) \<Rightarrow> take i s @ replacement_character
      | Some (i, Some len) \<Rightarrow>
          take i s @ replacement_character @ from_utf8_lossy_fuel n (drop (i + len) s))"

definition from_utf8_lossy :: "string \<Rightarrow> string" where
  "from_utf8_lossy s = from_utf8_lossy_fuel (length s + 1) s"

end
