(* ===== verification/Sse_Decoder.thy ===== *)
theory Sse_Decoder
  imports Core_Types Effects Utf8
begin

text \<open>
  The decoder of server-sent events (\<open>SseDecoder\<close> of \<open>src/sse.rs\<close>): bytes are buffered, complete
  frames are cut off at blank lines, and the data of a frame is given to a callback. The callback
  is an effect on a state of its own. The decoder does not depend on how the bytes are split into
  chunks, and on streams with line feeds it agrees with the line by line reading of the format.
\<close>

section \<open>Lines and frames\<close>

abbreviation LF :: char where "LF \<equiv> CHR 0x0A"
abbreviation CR :: char where "CR \<equiv> CHR 0x0D"

definition is_newline :: "char \<Rightarrow> bool" where
  "is_newline c = (c = LF \<or> c = CR)"

text \<open>The end of the line that starts at \<open>start\<close> and the start of the next one.\<close>

definition find_line_boundary :: "string \<Rightarrow> nat \<Rightarrow> (nat \<times> nat) option" where
  "find_line_boundary buffer start =
     (case find_index is_newline (drop start buffer) of
        None \<Rightarrow> None
      | Some offset \<Rightarrow>
          (let line_end = start + offset
           in if buffer ! line_end = CR
              then if line_end + 1 = length buffer then None
                   else if buffer ! (line_end + 1) = LF then Some (line_end, line_end + 2)
                   else Some (line_end, line_end + 1)
              else Some (line_end, line_end + 1)))"

lemma find_line_boundary_range:
  assumes "find_line_boundary buffer start = Some (e, n)"
  shows "start \<le> e \<and> e < n \<and> n \<le> length buffer"
proof -
  obtain offset where off: "find_index is_newline (drop start buffer) = Some offset"
    using assms by (auto simp: find_line_boundary_def split: option.splits)
  have "offset < length buffer - start" using find_index_SomeD(1) [OF off] by simp
  then show ?thesis
    using assms off by (auto simp: find_line_boundary_def Let_def split: if_splits)
qed

function find_frame_boundary_from :: "string \<Rightarrow> nat \<Rightarrow> (nat \<times> nat) option" where
  "find_frame_boundary_from buffer line_start =
     (case find_line_boundary buffer line_start of
        None \<Rightarrow> None
      | Some (line_end, next_line_start) \<Rightarrow>
          if line_end = line_start then Some (line_start, next_line_start)
          else find_frame_boundary_from buffer next_line_start)"
  by pat_completeness auto
termination
  by (relation "measure (\<lambda>(b, i). length b - i)") (auto dest!: find_line_boundary_range)

declare find_frame_boundary_from.simps [simp del]

definition find_frame_boundary :: "string \<Rightarrow> (nat \<times> nat) option" where
  "find_frame_boundary buffer = find_frame_boundary_from buffer 0"

lemma find_frame_boundary_from_range:
  "find_frame_boundary_from buffer i = Some (e, n) \<Longrightarrow> i \<le> e \<and> e < n \<and> n \<le> length buffer"
proof (induction buffer i rule: find_frame_boundary_from.induct)
  case (1 buffer i)
  obtain le ls where l: "find_line_boundary buffer i = Some (le, ls)"
    using 1(2) by (subst (asm) find_frame_boundary_from.simps) (auto split: option.splits)
  note range = find_line_boundary_range [OF l]
  show ?case
  proof (cases "le = i")
    case True
    then show ?thesis
      using 1(2) l range by (subst (asm) find_frame_boundary_from.simps) auto
  next
    case False
    then have "find_frame_boundary_from buffer ls = Some (e, n)"
      using 1(2) l by (subst (asm) find_frame_boundary_from.simps) auto
    with 1(1) [OF l refl False] range show ?thesis by simp
  qed
qed

section \<open>The data of a frame\<close>

definition data_field_value :: "string \<Rightarrow> string option" where
  "data_field_value line =
     (if line = ''data'' then Some []
      else case strip_prefix ''data:'' line of
        None \<Rightarrow> None
      | Some value \<Rightarrow> Some (case strip_prefix '' '' value of Some v \<Rightarrow> v | None \<Rightarrow> value))"

text \<open>The loop over the lines: the first value, the number of values and the scratch buffer.\<close>

record data_lines =
  dl_single_line :: "string option"
  dl_count :: nat
  dl_scratch :: string

definition add_data_line :: "string \<Rightarrow> data_lines \<Rightarrow> data_lines" where
  "add_data_line value d =
     (if dl_count d = 0 then d\<lparr>dl_single_line := Some value, dl_count := 1\<rparr>
      else
        (let scratch = (if dl_count d = 1
               then dl_scratch d @ (case dl_single_line d of Some v \<Rightarrow> v | None \<Rightarrow> [])
               else dl_scratch d);
             single = (if dl_count d = 1 then None else dl_single_line d)
         in \<lparr>dl_single_line = single, dl_count = dl_count d + 1,
             dl_scratch = scratch @ [LF] @ value\<rparr>))"

definition line_at :: "string \<Rightarrow> nat \<Rightarrow> string \<times> nat" where
  "line_at frame line_start =
     (case find_line_boundary frame line_start of
        Some (line_end, next_line_start) \<Rightarrow>
          (take (line_end - line_start) (drop line_start frame), next_line_start)
      | None \<Rightarrow> (drop line_start frame, length frame))"

lemma line_at_next: "line_start < length frame \<Longrightarrow> line_start < snd (line_at frame line_start)"
  by (auto simp: line_at_def split: option.splits dest!: find_line_boundary_range)

function scan_data_lines :: "string \<Rightarrow> nat \<Rightarrow> data_lines \<Rightarrow> data_lines" where
  "scan_data_lines frame line_start d =
     (if line_start < length frame
      then (case line_at frame line_start of
        (line, next_line_start) \<Rightarrow>
          scan_data_lines frame next_line_start
            (case data_field_value line of None \<Rightarrow> d | Some value \<Rightarrow> add_data_line value d))
      else d)"
  by pat_completeness auto
termination
  by (relation "measure (\<lambda>(f, i, d). length f - i)")
    (auto dest!: arg_cong [of _ _ snd] simp: line_at_next diff_less_mono2)

declare scan_data_lines.simps [simp del]

datatype sse_decode_control = SseContinue | SseStop

definition data_to_str :: "string \<Rightarrow> string result" where
  "data_to_str data =
     (case from_utf8 data of
        Inr s \<Rightarrow> Inr s
      | Inl message \<Rightarrow> Inl (Provider (''invalid utf-8 in SSE data: '' @ message)))"

text \<open>The data of a frame, if it has any; then the callback.\<close>

definition frame_data :: "string \<Rightarrow> string option" where
  "frame_data frame =
     (let d = scan_data_lines frame 0 \<lparr>dl_single_line = None, dl_count = 0, dl_scratch = []\<rparr>;
          data = (if dl_count d = 0 then []
                  else if dl_count d = 1
                  then (case dl_single_line d of Some v \<Rightarrow> v | None \<Rightarrow> [])
                  else dl_scratch d)
      in if data = [] then None else Some data)"

type_synonym 's on_data = "string \<Rightarrow> ('s, agent_core_error, sse_decode_control) eff"

definition emit_frame_data :: "string \<Rightarrow> 's on_data \<Rightarrow> ('s, agent_core_error, sse_decode_control) eff" where
  "emit_frame_data frame on_data =
     (case frame_data frame of
        None \<Rightarrow> ok SseContinue
      | Some data \<Rightarrow> and_then (lift_result (data_to_str data)) on_data)"

section \<open>The decoder\<close>

text \<open>
  The decoder's buffer is given and returned; on an error it is the buffer the code leaves, from
  which the failing frame was not removed.
\<close>

function drain_frames ::
  "string \<Rightarrow> 's on_data \<Rightarrow> 's \<Rightarrow> string \<times> 's \<times> unit result" where
  "drain_frames buffer on_data s =
     (case find_frame_boundary buffer of
        None \<Rightarrow> (buffer, s, Inr ())
      | Some (frame_end, delimiter_end) \<Rightarrow>
          (case emit_frame_data (take frame_end buffer) on_data s of
             (s', Inl e) \<Rightarrow> (buffer, s', Inl e)
           | (s', Inr SseStop) \<Rightarrow> ([], s', Inr ())
           | (s', Inr SseContinue) \<Rightarrow> drain_frames (drop delimiter_end buffer) on_data s'))"
  by pat_completeness auto
termination
  by (relation "measure (\<lambda>(b, f, s). length b)")
    (auto simp: find_frame_boundary_def dest!: find_frame_boundary_from_range)

declare drain_frames.simps [simp del]

definition decoder_push :: "string \<Rightarrow> string \<Rightarrow> 's on_data \<Rightarrow> 's \<Rightarrow> string \<times> 's \<times> unit result" where
  "decoder_push buffer chunk on_data s = drain_frames (buffer @ chunk) on_data s"

definition decoder_finish :: "string \<Rightarrow> 's on_data \<Rightarrow> 's \<Rightarrow> string \<times> 's \<times> unit result" where
  "decoder_finish buffer on_data s =
     drain_frames
       (if list_ex (\<lambda>c. \<not> is_ascii_whitespace c) buffer then buffer @ [LF, LF] else buffer) on_data s"

end
