(* ===== verification/Sse_Properties.thy ===== *)
theory Sse_Properties
  imports Sse_Decoder
begin

text \<open>
  The decoder of server-sent events against the format: what it delivers does not depend on the
  chunks the bytes come in, and is what a line by line reader of the format gives.
\<close>

section \<open>Boundaries are stable\<close>

lemma find_index_append_Some: "find_index P xs = Some i \<Longrightarrow> find_index P (xs @ ys) = Some i"
  by (induction xs arbitrary: i) (auto simp: find_index_Cons split: if_splits)

lemma find_line_boundary_append:
  assumes "find_line_boundary b i = Some (e, n)"
  shows "find_line_boundary (b @ c) i = Some (e, n)"
proof -
  obtain offset where off: "find_index is_newline (drop i b) = Some offset"
    using assms by (auto simp: find_line_boundary_def split: option.splits)
  have lt: "offset < length b - i" using find_index_SomeD(1) [OF off] by simp
  have "drop i (b @ c) = drop i b @ c" using lt by simp
  with find_index_append_Some [OF off] have off': "find_index is_newline (drop i (b @ c)) = Some offset"
    by simp
  show ?thesis
    using assms lt off unfolding find_line_boundary_def off off' Let_def
    by (auto simp: nth_append split: if_splits)
qed

lemma find_frame_boundary_from_append:
  "find_frame_boundary_from b i = Some (e, n) \<Longrightarrow> find_frame_boundary_from (b @ c) i = Some (e, n)"
proof (induction b i rule: find_frame_boundary_from.induct)
  case (1 b i)
  obtain le ls where l: "find_line_boundary b i = Some (le, ls)"
    using 1(2) by (subst (asm) find_frame_boundary_from.simps) (auto split: option.splits)
  have rest: "le \<noteq> i \<Longrightarrow> find_frame_boundary_from b ls = Some (e, n)"
    and here: "le = i \<Longrightarrow> (e, n) = (i, ls)"
    using 1(2) l by (subst (asm) find_frame_boundary_from.simps; auto)+
  show ?case
    using 1(1) [OF l refl] rest here
    by (subst find_frame_boundary_from.simps) (simp add: find_line_boundary_append [OF l])
qed

lemma find_frame_boundary_append:
  "find_frame_boundary b = Some p \<Longrightarrow> find_frame_boundary (b @ c) = Some p"
  by (cases p) (simp add: find_frame_boundary_def find_frame_boundary_from_append)

lemma find_frame_boundary_range:
  "find_frame_boundary b = Some (e, n) \<Longrightarrow> e < n \<and> n \<le> length b"
  by (auto simp: find_frame_boundary_def dest!: find_frame_boundary_from_range)

section \<open>Chunks\<close>

lemma drain_frames_append:
  assumes "\<forall>d s. snd (f d s) \<noteq> Inr SseStop"
  shows "drain_frames (b @ c) f s =
    (case drain_frames b f s of
       (b', s', Inr u) \<Rightarrow> drain_frames (b' @ c) f s'
     | (b', s', Inl e) \<Rightarrow> (b' @ c, s', Inl e))"
  using assms
proof (induction b f s rule: drain_frames.induct [case_names drain])
  case (drain b f s)
  note assms = drain.prems
  show ?case
  proof (cases "find_frame_boundary b")
    case None
    then show ?thesis by (subst (2) drain_frames.simps) simp
  next
    case (Some p)
    then obtain e n where p: "find_frame_boundary b = Some (e, n)" by (cases p) auto
    note range = find_frame_boundary_range [OF p]
    have p': "find_frame_boundary (b @ c) = Some (e, n)" by (rule find_frame_boundary_append [OF p])
    obtain s' r where emit: "emit_frame_data (take e b) f s = (s', r)" by force
    have not_stop: "r \<noteq> Inr SseStop"
    proof
      assume "r = Inr SseStop"
      with emit obtain d where "f d s = (s', Inr SseStop)"
        by (auto simp: emit_frame_data_def and_then_def lift_result_run
            split: option.splits sum.splits)
      then have "snd (f d s) = Inr SseStop" by simp
      with assms show False by blast
    qed
    have take: "take e (b @ c) = take e b" and drop: "drop n (b @ c) = drop n b @ c"
      using range by simp_all
    note step = drain_frames.simps [of b f s] drain_frames.simps [of "b @ c" f s]
    show ?thesis
    proof (cases r)
      case (Inl err)
      then show ?thesis by (simp add: step p p' emit take del: take_append drop_append)
    next
      case (Inr ctl)
      with not_stop have r: "r = Inr SseContinue" by (cases ctl) auto
      have "drain_frames (drop n b @ c) f s' =
        (case drain_frames (drop n b) f s' of
           (b', s', Inr u) \<Rightarrow> drain_frames (b' @ c) f s'
         | (b', s', Inl e) \<Rightarrow> (b' @ c, s', Inl e))"
        using drain.IH [OF p refl emit [symmetric] r refl assms] .
      then show ?thesis by (simp add: step p p' emit take drop r del: take_append drop_append)
    qed
  qed
qed

text \<open>C21: what the decoder delivers does not depend on how the bytes are split: pushing two chunks one
  after the other has the same effects, the same error and the same buffer as pushing them at once,
  for every callback that does not stop the decoder.\<close>

theorem decoder_push_chunks:
  assumes "\<And>d s. snd (f d s) \<noteq> Inr SseStop"
  shows "decoder_push buffer (chunk1 @ chunk2) f s =
    (case decoder_push buffer chunk1 f s of
       (b, s', Inr u) \<Rightarrow> decoder_push b chunk2 f s'
     | (b, s', Inl e) \<Rightarrow> (b @ chunk2, s', Inl e))"
  unfolding decoder_push_def append_assoc [symmetric] by (rule drain_frames_append) (use assms in blast)

text \<open>The callback that collects the data.\<close>

definition collect_data :: "string \<Rightarrow> (string list, agent_core_error, sse_decode_control) eff" where
  "collect_data d = (\<lambda>s. (s @ [d], Inr SseContinue))"

theorem decoder_push_chunks_witness:
  "decoder_push [] (''data: o'' @ ''ne'' @ [LF, LF]) collect_data [] = ([], [''one''], Inr ())
   \<and> decoder_push [] (''data: o'' @ ''ne'' @ [LF, LF]) collect_data [] =
    (case decoder_push [] ''data: o'' collect_data [] of
       (b, s', Inr u) \<Rightarrow> decoder_push b (''ne'' @ [LF, LF]) collect_data s'
     | (b, s', Inl e) \<Rightarrow> (b @ ''ne'' @ [LF, LF], s', Inl e))"
proof -
  have "decoder_push [] (''data: o'' @ ''ne'' @ [LF, LF]) collect_data [] = ([], [''one''], Inr ())"
    by code_simp
  moreover have "decoder_push [] (''data: o'' @ ''ne'' @ [LF, LF]) collect_data [] =
    (case decoder_push [] ''data: o'' collect_data [] of
       (b, s', Inr u) \<Rightarrow> decoder_push b (''ne'' @ [LF, LF]) collect_data s'
     | (b, s', Inl e) \<Rightarrow> (b @ ''ne'' @ [LF, LF], s', Inl e))"
    by (rule decoder_push_chunks) (simp add: collect_data_def)
  ultimately show ?thesis by blast
qed

section \<open>The format\<close>

text \<open>
  The line by line reading of an event stream: a blank line delivers the data values seen since the
  last one, joined by line feeds, unless there is nothing to deliver.
\<close>

definition event_of :: "string list \<Rightarrow> string list" where
  "event_of values = (if join_with [LF] values = [] then [] else [join_with [LF] values])"

fun read_events :: "string list \<Rightarrow> string list \<Rightarrow> string list" where
  "read_events pending [] = []"
| "read_events pending (line # lines) =
     (if line = [] then event_of pending @ read_events [] lines
      else read_events
        (pending @ (case data_field_value line of None \<Rightarrow> [] | Some v \<Rightarrow> [v])) lines)"

text \<open>A stream of lines that end with a line feed or with carriage return and line feed.\<close>

definition stream_of :: "(string \<times> string) list \<Rightarrow> string" where
  "stream_of ls = concat (map (\<lambda>(line, nl). line @ nl) ls)"

definition stream_line :: "string \<times> string \<Rightarrow> bool" where
  "stream_line = (\<lambda>(line, nl). list_all (\<lambda>c. \<not> is_newline c) line \<and> (nl = [LF] \<or> nl = [CR, LF]))"

lemma stream_of_simps [simp]:
  "stream_of [] = []" "stream_of ((line, nl) # ls) = line @ nl @ stream_of ls"
  "stream_of (xs @ ys) = stream_of xs @ stream_of ys"
  by (simp_all add: stream_of_def)

lemma find_index_first:
  "list_all (\<lambda>c. \<not> P c) xs \<Longrightarrow> P y \<Longrightarrow> find_index P (xs @ y # ys) = Some (length xs)"
  by (induction xs) (auto simp: find_index_Cons)

lemma find_line_boundary_stream:
  assumes "stream_line (line, nl)"
  shows "find_line_boundary (pre @ line @ nl @ rest) (length pre)
    = Some (length pre + length line, length pre + length line + length nl)"
proof -
  have free: "list_all (\<lambda>c. \<not> is_newline c) line" and nl: "nl = [LF] \<or> nl = [CR, LF]"
    using assms by (auto simp: stream_line_def)
  have "is_newline LF" "is_newline CR" by (simp_all add: is_newline_def)
  with find_index_first [OF free] nl
  have off: "find_index is_newline (drop (length pre) (pre @ line @ nl @ rest)) = Some (length line)"
    by auto
  let ?b = "pre @ line @ nl @ rest"
  have goal: "?thesis \<longleftrightarrow>
    (if ?b ! (length pre + length line) = CR
     then if length pre + length line + 1 = length ?b then None
          else if ?b ! (length pre + length line + 1) = LF
          then Some (length pre + length line, length pre + length line + 2)
          else Some (length pre + length line, length pre + length line + 1)
     else Some (length pre + length line, length pre + length line + 1))
    = Some (length pre + length line, length pre + length line + length nl)"
    unfolding find_line_boundary_def off option.case Let_def ..
  from nl show ?thesis
  proof
    assume nl: "nl = [LF]"
    have "(pre @ line @ nl @ rest) ! (length pre + length line) = LF"
      using nth_append_length [of "pre @ line" LF rest] nl by simp
    then show ?thesis unfolding goal by (simp add: nl)
  next
    assume nl: "nl = [CR, LF]"
    have "(pre @ line @ nl @ rest) ! (length pre + length line) = CR"
      using nth_append_length [of "pre @ line" CR "LF # rest"] nl by simp
    moreover have "(pre @ line @ nl @ rest) ! (length pre + length line + 1) = LF"
      using nth_append_length [of "pre @ line @ [CR]" LF rest] nl by simp
    ultimately show ?thesis unfolding goal by (simp add: nl)
  qed
qed

lemma find_line_boundary_end: "find_line_boundary b (length b) = None"
  by (simp add: find_line_boundary_def)

definition not_blank_line :: "string \<times> string \<Rightarrow> bool" where
  "not_blank_line l = (fst l \<noteq> [])"

lemma not_blank_line_simp [simp]: "not_blank_line (line, nl) = (line \<noteq> [])"
  by (simp add: not_blank_line_def)

lemma find_frame_boundary_stream:
  "list_all stream_line ls \<Longrightarrow> find_frame_boundary_from (pre @ stream_of ls) (length pre) =
    (case dropWhile not_blank_line ls of
       [] \<Rightarrow> None
     | blank # _ \<Rightarrow>
         let e = length pre + length (stream_of (takeWhile not_blank_line ls))
         in Some (e, e + length (snd blank)))"
proof (induction ls arbitrary: pre)
  case Nil
  then show ?case
    using find_line_boundary_end [of pre] by (simp add: find_frame_boundary_from.simps)
next
  case (Cons l ls)
  obtain line nl where l: "l = (line, nl)" by force
  have sl: "stream_line (line, nl)" using Cons.prems l by simp
  note b = find_line_boundary_stream [OF sl, of pre "stream_of ls"]
  show ?case
  proof (cases "line = []")
    case True
    then show ?thesis
      using b by (simp add: l find_frame_boundary_from.simps [of _ "length pre"] Let_def)
  next
    case False
    have "find_frame_boundary_from (pre @ stream_of (l # ls)) (length pre)
        = find_frame_boundary_from ((pre @ line @ nl) @ stream_of ls) (length (pre @ line @ nl))"
      using b False by (subst find_frame_boundary_from.simps) (simp add: l add.assoc)
    moreover have "find_frame_boundary_from ((pre @ line @ nl) @ stream_of ls) (length (pre @ line @ nl)) =
        (case dropWhile not_blank_line ls of
           [] \<Rightarrow> None
         | blank # _ \<Rightarrow>
             let e = length (pre @ line @ nl) + length (stream_of (takeWhile not_blank_line ls))
             in Some (e, e + length (snd blank)))"
      using Cons.prems by (intro Cons.IH) simp
    ultimately show ?thesis
      using False by (cases "dropWhile not_blank_line ls") (simp_all add: l Let_def add.assoc del: dropWhile_eq_Nil_conv)
  qed
qed

lemma scan_data_lines_stream:
  "list_all stream_line ls \<Longrightarrow> scan_data_lines (pre @ stream_of ls) (length pre) d =
    fold add_data_line (List.map_filter (data_field_value \<circ> fst) ls) d"
proof (induction ls arbitrary: pre d)
  case Nil
  then show ?case by (simp add: scan_data_lines.simps map_filter_simps)
next
  case (Cons l ls)
  obtain line nl where l: "l = (line, nl)" by force
  have sl: "stream_line (line, nl)" using Cons.prems l by simp
  note b = find_line_boundary_stream [OF sl, of pre "stream_of ls"]
  have nl: "nl \<noteq> []" using sl by (auto simp: stream_line_def)
  have "scan_data_lines (pre @ stream_of (l # ls)) (length pre) d
      = scan_data_lines ((pre @ line @ nl) @ stream_of ls) (length (pre @ line @ nl))
          (case data_field_value line of None \<Rightarrow> d | Some value \<Rightarrow> add_data_line value d)"
    using b nl by (subst scan_data_lines.simps) (simp add: l line_at_def add.assoc)
  then show ?case
    using Cons.IH [of "pre @ line @ nl"] Cons.prems
    by (simp add: l map_filter_simps split: option.splits)
qed

text \<open>The loop over the values of a frame joins them.\<close>

lemma add_data_lines:
  "fold add_data_line (v # vs) \<lparr>dl_single_line = None, dl_count = 0, dl_scratch = []\<rparr> =
     (if vs = [] then \<lparr>dl_single_line = Some v, dl_count = 1, dl_scratch = []\<rparr>
      else \<lparr>dl_single_line = None, dl_count = length (v # vs), dl_scratch = join_with [LF] (v # vs)\<rparr>)"
proof (induction vs rule: rev_induct)
  case Nil
  then show ?case by (simp add: add_data_line_def)
next
  case (snoc w ws)
  have join: "join_with [LF] (v # us @ [w]) = join_with [LF] (v # us) @ [LF] @ w" for us
    by (induction us arbitrary: v) simp_all
  show ?case
  proof (cases "ws = []")
    case True
    then show ?thesis by (simp add: add_data_line_def)
  next
    case False
    with snoc join [of ws] show ?thesis by (simp add: add_data_line_def)
  qed
qed

lemma frame_data_stream:
  assumes "list_all stream_line ls"
  shows "frame_data (stream_of ls) =
    (let data = join_with [LF] (List.map_filter (data_field_value \<circ> fst) ls)
     in if data = [] then None else Some data)"
proof -
  note scan = scan_data_lines_stream [OF assms, of "[]"]
  show ?thesis
  proof (cases "List.map_filter (data_field_value \<circ> fst) ls")
    case Nil
    with scan show ?thesis by (simp add: frame_data_def)
  next
    case (Cons v vs)
    note scan' = scan [of "\<lparr>dl_single_line = None, dl_count = 0, dl_scratch = []\<rparr>", unfolded Cons
        add_data_lines, simplified]
    show ?thesis
      unfolding frame_data_def scan' Cons by (cases vs) (simp_all add: Let_def)
  qed
qed

lemma read_events_frame:
  "list_all not_blank_line ls \<Longrightarrow> read_events pending (map fst ls @ [] # lines)
     = event_of (pending @ List.map_filter (data_field_value \<circ> fst) ls) @ read_events [] lines"
  by (induction ls arbitrary: pending)
    (auto simp: map_filter_simps not_blank_line_def split: option.splits)

lemma read_events_open: "list_all not_blank_line ls \<Longrightarrow> read_events pending (map fst ls) = []"
  by (induction ls arbitrary: pending) (auto simp: not_blank_line_def)

lemma emit_frame_collect:
  assumes "list_all stream_line ls" and "\<And>d. frame_data (stream_of ls) = Some d \<Longrightarrow> utf8_error 0 d = None"
  shows "emit_frame_data (stream_of ls) collect_data s =
    (s @ event_of (List.map_filter (data_field_value \<circ> fst) ls), Inr SseContinue)"
  using assms frame_data_stream [OF assms(1)]
  by (auto simp: emit_frame_data_def event_of_def collect_data_def data_to_str_def from_utf8_def
      Let_def split: if_splits)

text \<open>C22: on a stream whose lines end with a line feed, with or without a carriage return before it,
  the decoder delivers exactly what a line by line reader of the format delivers, in order, when
  the data is valid UTF-8.\<close>

theorem decoder_reads_format:
  assumes "list_all stream_line ls"
    and "\<And>d. d \<in> set (read_events [] (map fst ls)) \<Longrightarrow> utf8_error 0 d = None"
  shows "\<exists>rest. decoder_push [] (stream_of ls) collect_data s
    = (rest, s @ read_events [] (map fst ls), Inr ())"
  using assms
proof (induction "length ls" arbitrary: ls s rule: less_induct)
  case less
  let ?block = "takeWhile not_blank_line ls"
  have block: "list_all not_blank_line ?block" "list_all stream_line ?block"
    using less.prems(1) by (auto simp: list_all_iff dest: set_takeWhileD)
  have boundary: "find_frame_boundary (stream_of ls) = (case dropWhile not_blank_line ls of
       [] \<Rightarrow> None
     | blank # _ \<Rightarrow> let e = length (stream_of ?block) in Some (e, e + length (snd blank)))"
    using find_frame_boundary_stream [OF less.prems(1), of "[]", unfolded append_Nil list.size add_0]
    unfolding find_frame_boundary_def .
  show ?case
  proof (cases "dropWhile not_blank_line ls")
    case Nil
    then have "list_all not_blank_line ls" by (simp add: list_all_iff dropWhile_eq_Nil_conv)
    then have "read_events [] (map fst ls) = []" by (rule read_events_open)
    then show ?thesis
      using boundary Nil by (simp add: decoder_push_def drain_frames.simps [of "stream_of ls"])
  next
    case (Cons blank ls')
    then have "\<not> not_blank_line blank" by (metis hd_dropWhile list.distinct(1) list.sel(1))
    then obtain nl where blank: "blank = ([], nl)" by (cases blank) simp
    have ls: "ls = ?block @ ([], nl) # ls'" using Cons blank by (metis takeWhile_dropWhile_id)
    have all: "list_all stream_line ls'" using less.prems(1) by (subst (asm) ls) simp
    let ?event = "event_of (List.map_filter (data_field_value \<circ> fst) ?block)"
    have events: "read_events [] (map fst ls) = ?event @ read_events [] (map fst ls')"
      using read_events_frame [OF block(1), of "[]" "map fst ls'"] by (subst ls) simp
    have bytes: "stream_of ls = stream_of ?block @ nl @ stream_of ls'" by (subst ls) simp
    have "utf8_error 0 d = None" if "frame_data (stream_of ?block) = Some d" for d
      using that less.prems(2) [of d] frame_data_stream [OF block(2)]
      by (auto simp: events event_of_def Let_def split: if_splits)
    from emit_frame_collect [OF block(2) this]
    have emit: "emit_frame_data (stream_of ?block) collect_data s = (s @ ?event, Inr SseContinue)" .
    have "length ls' < length ls" by (subst ls) simp
    from less.hyps [OF this all, of "s @ ?event"] obtain rest where
      "decoder_push [] (stream_of ls') collect_data (s @ ?event)
        = (rest, (s @ ?event) @ read_events [] (map fst ls'), Inr ())"
      using less.prems(2) events by auto
    moreover have "take (length (stream_of ?block)) (stream_of ls) = stream_of ?block"
      and "drop (length (stream_of ?block) + length nl) (stream_of ls) = stream_of ls'"
      by (simp_all add: bytes)
    ultimately show ?thesis
      using boundary Cons emit
      unfolding decoder_push_def append_Nil drain_frames.simps [of "stream_of ls"] events
      by (intro exI [of _ rest]) (simp add: blank Let_def)
  qed
qed

theorem decoder_reads_format_witness:
  "\<exists>rest. decoder_push [] (stream_of [('': hi'', [LF]), (''data: one'', [CR, LF]), (''data:two'', [LF]),
      ([], [CR, LF]), (''data'', [LF]), ([], [LF])]) collect_data []
    = (rest, [''one'' @ [LF] @ ''two''], Inr ())"
proof -
  let ?ls = "[('': hi'', [LF]), (''data: one'', [CR, LF]), (''data:two'', [LF]), ([], [CR, LF]),
    (''data'', [LF]), ([], [LF])]"
  have events: "read_events [] (map fst ?ls) = [''one'' @ [LF] @ ''two'']" by code_simp
  have "list_all stream_line ?ls" by code_simp
  moreover have "utf8_error 0 (''one'' @ [LF] @ ''two'') = None" by code_simp
  then have "utf8_error 0 d = None" if "d \<in> set (read_events [] (map fst ?ls))" for d
    using that unfolding events by simp
  ultimately show ?thesis using decoder_reads_format [of ?ls "[]"] unfolding events by simp
qed

text \<open>A frame that ends with bare carriage returns keeps the one that ends its last line.\<close>

lemma bare_cr_kept:
  "decoder_push [] (''data: [DONE]'' @ [CR, CR] @ ''x'') collect_data []
     = (''x'', [''[DONE]'' @ [CR]], Inr ())"
  by code_simp

end
