(* ===== verification/Sse_Stream.thy ===== *)
theory Sse_Stream
  imports Sse_Decoder "HOL-Library.Code_Target_Nat"
begin

text \<open>
  Reading a model stream over server-sent events (\<open>src/sse.rs\<close>): attempts, retries before any data,
  the drain of chunks and the emission of events. The HTTP client is a parameter: a request gives,
  from the world, what the \<open>select!\<close> over it yields, and a response carries what the \<open>select!\<close> over
  each of its chunks will yield, in order; the end of the list is the end of the stream.
  A \<open>Duration\<close> is a number of nanoseconds.
\<close>

section \<open>Reconnecting\<close>

record sse_reconnect_config =
  rc_max_reconnects :: nat
  rc_initial_backoff :: nat
  rc_max_backoff :: nat

definition reconnect_disabled :: sse_reconnect_config where
  "reconnect_disabled = \<lparr>rc_max_reconnects = 0, rc_initial_backoff = 0, rc_max_backoff = 0\<rparr>"

definition reconnect_default :: sse_reconnect_config where
  "reconnect_default =
     \<lparr>rc_max_reconnects = 2, rc_initial_backoff = 200 * 10 ^ 6, rc_max_backoff = 2 * 10 ^ 9\<rparr>"

text \<open>\<open>Duration::MAX\<close>, \<open>checked_mul\<close> and \<open>u32::saturating_pow\<close>.\<close>

definition duration_max :: nat where
  "duration_max = (2 ^ 64 - 1) * 10 ^ 9 + 999999999"

definition duration_checked_mul :: "nat \<Rightarrow> nat \<Rightarrow> nat option" where
  "duration_checked_mul d n = (if d * n \<le> duration_max then Some (d * n) else None)"

definition u32_saturating_pow :: "nat \<Rightarrow> nat \<Rightarrow> nat" where
  "u32_saturating_pow b e = min (b ^ e) (2 ^ 32 - 1)"

definition reconnect_delay :: "sse_reconnect_config \<Rightarrow> nat \<Rightarrow> nat" where
  "reconnect_delay config reconnects =
     (let multiplier = u32_saturating_pow 2 (min reconnects 31)
      in min (case duration_checked_mul (rc_initial_backoff config) multiplier of
                Some d \<Rightarrow> d | None \<Rightarrow> rc_max_backoff config)
             (rc_max_backoff config))"

definition is_retryable_status :: "nat \<Rightarrow> bool" where
  "is_retryable_status status = (status = 408 \<or> status = 429 \<or> (500 \<le> status \<and> status < 600))"

section \<open>The client\<close>

datatype chunk_event = Chunk string | ChunkFailed string | ChunkCancelled | ChunkIdle

text \<open>A response: its status with its display form, and its chunks.\<close>

record http_response =
  hr_status :: nat
  hr_status_text :: string
  hr_chunks :: "chunk_event list"

datatype request_event =
    RequestNotBuilt agent_core_error
  | RequestFailed string
  | RequestCancelled
  | RequestTimedOut
  | Responded http_response

record sse_frame_result =
  fr_events :: "model_stream_event list"
  fr_terminal :: bool

record 'w sse_client =
  sc_provider_label :: string
  sc_reconnect :: sse_reconnect_config
  sc_cancelled :: "('w, agent_core_error, unit) eff"
  sc_request :: "'w \<Rightarrow> 'w \<times> request_event"
  sc_sleep :: "nat \<Rightarrow> ('w, agent_core_error, unit) eff"
  sc_stream :: "model_stream_event \<Rightarrow> ('w, agent_core_error, unit) eff"
  sc_handle_data :: "string \<Rightarrow> ('w, agent_core_error, sse_frame_result) eff"

text \<open>The mutable state of an attempt: the world, the events so far and the locals of the reader.\<close>

record 'w sse_state =
  ss_world :: 'w
  ss_events :: "model_stream_event list"
  ss_data_delivered :: bool
  ss_terminal :: bool
  ss_frame_results :: "sse_frame_result list"

definition on_world :: "('w, agent_core_error, 'a) eff \<Rightarrow> ('w sse_state, agent_core_error, 'a) eff" where
  "on_world = zoom ss_world (\<lambda>w s. s\<lparr>ss_world := w\<rparr>)"

section \<open>Reading a response\<close>

definition emit_model_stream_event ::
  "'w sse_client \<Rightarrow> model_stream_event \<Rightarrow> ('w sse_state, agent_core_error, unit) eff" where
  "emit_model_stream_event c ev =
     and_then (on_world (sc_stream c ev)) (\<lambda>_ s. (s\<lparr>ss_events := ss_events s @ [ev]\<rparr>, Inr ()))"

definition handle_decoded_data :: "'w sse_client \<Rightarrow> 'w sse_state on_data" where
  "handle_decoded_data c data s =
     and_then (on_world (sc_handle_data c data)) (\<lambda>r s'.
       (s'\<lparr>ss_terminal := ss_terminal s' \<or> fr_terminal r,
           ss_frame_results := ss_frame_results s' @ [r]\<rparr>,
        Inr (if fr_terminal r then SseStop else SseContinue)))
     (s\<lparr>ss_data_delivered := True\<rparr>)"

definition emit_frame_results :: "'w sse_client \<Rightarrow> ('w sse_state, agent_core_error, unit) eff" where
  "emit_frame_results c s =
     for_each (concat (map fr_events (ss_frame_results s))) (emit_model_stream_event c)
       (s\<lparr>ss_frame_results := []\<rparr>)"

datatype sse_attempt_outcome = SseTerminal | RetryableBeforeData string

definition broken_stream :: "bool \<Rightarrow> string \<Rightarrow> sse_attempt_outcome result" where
  "broken_stream data_delivered message =
     (if data_delivered then Inl (Provider message) else Inr (RetryableBeforeData message))"

text \<open>The loop of \<open>read_sse_response\<close>, with the decoder's buffer.\<close>

fun read_chunks ::
  "'w sse_client \<Rightarrow> chunk_event list \<Rightarrow> string \<Rightarrow> 'w sse_state
     \<Rightarrow> 'w sse_state \<times> sse_attempt_outcome result" where
  "read_chunks c [] buffer s =
     (case decoder_finish buffer (handle_decoded_data c) s of
        (_, s', Inl e) \<Rightarrow> (s', Inl e)
      | (_, s', Inr _) \<Rightarrow>
          (case emit_frame_results c s' of
             (s'', Inl e) \<Rightarrow> (s'', Inl e)
           | (s'', Inr _) \<Rightarrow>
               if ss_terminal s'' then (s'', Inr SseTerminal)
               else (s'', broken_stream (ss_data_delivered s'')
                      (sc_provider_label c @ '' stream ended before terminal event''))))"
| "read_chunks c (Chunk chunk # chunks) buffer s =
     (case decoder_push buffer chunk (handle_decoded_data c) s of
        (_, s', Inl e) \<Rightarrow> (s', Inl e)
      | (buffer', s', Inr _) \<Rightarrow>
          (case emit_frame_results c s' of
             (s'', Inl e) \<Rightarrow> (s'', Inl e)
           | (s'', Inr _) \<Rightarrow>
               if ss_terminal s'' then (s'', Inr SseTerminal)
               else read_chunks c chunks buffer' s''))"
| "read_chunks c (ChunkFailed error # chunks) buffer s =
     (s, broken_stream (ss_data_delivered s)
           (sc_provider_label c @ '' stream chunk failed: '' @ error))"
| "read_chunks c (ChunkCancelled # chunks) buffer s = (s, Inl Aborted)"
| "read_chunks c (ChunkIdle # chunks) buffer s =
     (s, broken_stream (ss_data_delivered s) (sc_provider_label c @ '' stream timed out''))"

definition read_sse_response ::
  "'w sse_client \<Rightarrow> http_response \<Rightarrow> ('w sse_state, agent_core_error, sse_attempt_outcome) eff" where
  "read_sse_response c response s =
     read_chunks c (hr_chunks response) []
       (s\<lparr>ss_data_delivered := False, ss_terminal := False, ss_frame_results := []\<rparr>)"

section \<open>Errors of the server\<close>

definition HTTP_ERROR_BODY_PREVIEW_LIMIT :: nat where
  "HTTP_ERROR_BODY_PREVIEW_LIMIT = 2048"

fun read_error_body_preview :: "chunk_event list \<Rightarrow> string \<Rightarrow> string result" where
  "read_error_body_preview chunks body =
     (if HTTP_ERROR_BODY_PREVIEW_LIMIT \<le> length body then Inr (from_utf8_lossy body)
      else case chunks of
        [] \<Rightarrow> Inr (from_utf8_lossy body)
      | Chunk chunk # rest \<Rightarrow>
          read_error_body_preview rest
            (body @ take (HTTP_ERROR_BODY_PREVIEW_LIMIT - length body) chunk)
      | ChunkCancelled # rest \<Rightarrow> Inl Aborted
      | _ # rest \<Rightarrow> Inr (from_utf8_lossy body))"

declare read_error_body_preview.simps [simp del]

definition handle_http_error ::
  "'w sse_client \<Rightarrow> http_response \<Rightarrow> sse_attempt_outcome result" where
  "handle_http_error c response =
     (case read_error_body_preview (hr_chunks response) [] of
        Inl e \<Rightarrow> Inl e
      | Inr body \<Rightarrow>
          if is_retryable_status (hr_status response)
          then Inr (RetryableBeforeData (sc_provider_label c @ '' request failed with status ''
                 @ hr_status_text response @ '': '' @ body))
          else Inl (HttpStatus (sc_provider_label c) (hr_status response) body))"

section \<open>Attempts\<close>

definition run_sse_attempt ::
  "'w sse_client \<Rightarrow> ('w sse_state, agent_core_error, sse_attempt_outcome) eff" where
  "run_sse_attempt c =
     and_then (on_world (sc_cancelled c)) (\<lambda>_ s.
       case sc_request c (ss_world s) of (w, request) \<Rightarrow>
         (let s' = s\<lparr>ss_world := w\<rparr>
          in case request of
               RequestNotBuilt e \<Rightarrow> (s', Inl e)
             | RequestFailed error \<Rightarrow>
                 (s', Inr (RetryableBeforeData
                    (sc_provider_label c @ '' request failed before SSE data: '' @ error)))
             | RequestCancelled \<Rightarrow> (s', Inl Aborted)
             | RequestTimedOut \<Rightarrow>
                 (s', Inl (Provider (sc_provider_label c @ '' request timed out'')))
             | Responded response \<Rightarrow>
                 if 200 \<le> hr_status response \<and> hr_status response < 300
                 then read_sse_response c response s'
                 else (s', handle_http_error c response)))"

definition sleep_before_reconnect ::
  "'w sse_client \<Rightarrow> nat \<Rightarrow> ('w sse_state, agent_core_error, unit) eff" where
  "sleep_before_reconnect c reconnects =
     (let delay = reconnect_delay (sc_reconnect c) reconnects
      in if delay = 0 then ok () else on_world (sc_sleep c delay))"

function run_sse_from :: "'w sse_client \<Rightarrow> nat \<Rightarrow> 'w sse_state \<Rightarrow> 'w sse_state \<times> unit result" where
  "run_sse_from c reconnects s =
     (case run_sse_attempt c s of
        (s', Inl e) \<Rightarrow> (s', Inl e)
      | (s', Inr SseTerminal) \<Rightarrow> (s', Inr ())
      | (s', Inr (RetryableBeforeData message)) \<Rightarrow>
          if rc_max_reconnects (sc_reconnect c) \<le> reconnects
          then (s', Inl (Provider (sc_provider_label c @ '' stream failed after ''
                 @ show_nat reconnects @ '' reconnect attempt(s): '' @ message)))
          else (case sleep_before_reconnect c reconnects s' of
                  (s'', Inl e) \<Rightarrow> (s'', Inl e)
                | (s'', Inr _) \<Rightarrow> run_sse_from c (reconnects + 1) s''))"
  by pat_completeness auto
termination
  by (relation "measure (\<lambda>(c, n, s). rc_max_reconnects (sc_reconnect c) - n)") auto

declare run_sse_from.simps [simp del]

definition run_sse_model_stream ::
  "'w sse_client \<Rightarrow> ('w sse_state, agent_core_error, unit) eff" where
  "run_sse_model_stream c = run_sse_from c 0"

section \<open>Retries are silent\<close>

lemma emit_frame_results_Nil:
  "ss_frame_results s = [] \<Longrightarrow> emit_frame_results c s = (s, Inr ())"
  by (simp add: emit_frame_results_def)

text \<open>A drain that hands no data to the callback does not depend on the callback.\<close>

lemma handle_decoded_data_delivers:
  "ss_data_delivered (fst (handle_decoded_data c data s))"
  by (auto simp: handle_decoded_data_def and_then_def on_world_def zoom_def split: prod.splits sum.splits)

lemma emit_frame_data_silent:
  assumes "emit_frame_data frame (handle_decoded_data c) s = (s', r)" and "\<not> ss_data_delivered s'"
  shows "s' = s \<and> (\<forall>f. emit_frame_data frame f s = (s, r))"
proof (cases "frame_data frame")
  case None
  with assms show ?thesis by (auto simp: emit_frame_data_def)
next
  case (Some data)
  show ?thesis
  proof (cases "data_to_str data")
    case (Inl e)
    with Some assms show ?thesis by (auto simp: emit_frame_data_def)
  next
    case (Inr d)
    with Some assms handle_decoded_data_delivers [of c d s] show ?thesis
      by (simp add: emit_frame_data_def and_then_def lift_result_run split: prod.splits)
  qed
qed

lemma drain_frames_delivered:
  "ss_data_delivered s \<Longrightarrow> ss_data_delivered (fst (snd (drain_frames b (handle_decoded_data c) s)))"
proof (induction b "handle_decoded_data c" s rule: drain_frames.induct [case_names drain])
  case (drain b s)
  have keep: "ss_data_delivered s'" if "emit_frame_data frame (handle_decoded_data c) s = (s', r)"
    for frame s' r
    using emit_frame_data_silent [OF that] drain.prems by blast
  show ?case
    using drain.hyps drain.prems keep
    by (subst drain_frames.simps) (auto split: option.splits prod.splits sum.splits sse_decode_control.splits)
qed

lemma drain_frames_step:
  assumes "find_frame_boundary b = Some (e, n)"
  shows "drain_frames b f s =
    (case emit_frame_data (take e b) f s of
       (s', Inl x) \<Rightarrow> (b, s', Inl x)
     | (s', Inr SseStop) \<Rightarrow> ([], s', Inr ())
     | (s', Inr SseContinue) \<Rightarrow> drain_frames (drop n b) f s')"
  using assms by (subst drain_frames.simps) simp

lemma drain_frames_none:
  "find_frame_boundary b = None \<Longrightarrow> drain_frames b f s = (b, s, Inr ())"
  by (subst drain_frames.simps) simp

lemma drain_frames_silent:
  "drain_frames b (handle_decoded_data c) s = (b', s', r) \<Longrightarrow> \<not> ss_data_delivered s' \<Longrightarrow>
   s' = s \<and> (\<forall>f. drain_frames b f s = (b', s, r))"
proof (induction b "handle_decoded_data c" s arbitrary: b' s' r rule: drain_frames.induct [case_names drain])
  case (drain b s)
  show ?case
  proof (cases "find_frame_boundary b")
    case None
    with drain.prems show ?thesis by (simp add: drain_frames_none)
  next
    case (Some p)
    then obtain e n where p: "find_frame_boundary b = Some (e, n)" by (cases p) auto
    obtain t q where emit: "emit_frame_data (take e b) (handle_decoded_data c) s = (t, q)" by force
    have t: "\<not> ss_data_delivered t"
      using drain.prems drain_frames_delivered [of t "drop n b" c]
      by (auto simp: drain_frames_step [OF p] emit split: sum.splits sse_decode_control.splits)
    note silent = emit_frame_data_silent [OF emit t]
    show ?thesis
    proof (cases q)
      case (Inl x)
      with drain.prems(1) emit have "b' = b" and "s' = t" and "r = Inl x"
        by (simp_all add: drain_frames_step [OF p])
      with silent Inl show ?thesis by (simp add: drain_frames_step [OF p])
    next
      case (Inr control)
      show ?thesis
      proof (cases control)
        case SseContinue
        with Inr drain.prems emit have rest: "drain_frames (drop n b) (handle_decoded_data c) t = (b', s', r)"
          by (simp add: drain_frames_step [OF p])
        have "s' = t \<and> (\<forall>f. drain_frames (drop n b) f t = (b', t, r))"
          by (rule drain.hyps [OF p refl emit [symmetric] Inr SseContinue rest drain.prems(2)])
        with silent Inr SseContinue show ?thesis by (simp add: drain_frames_step [OF p])
      next
        case SseStop
        with Inr drain.prems silent emit show ?thesis by (simp add: drain_frames_step [OF p])
      qed
    qed
  qed
qed

lemma emit_frame_results_keeps:
  assumes "emit_frame_results c s = (s', r)"
  shows "ss_data_delivered s' = ss_data_delivered s" and "ss_frame_results s' = []"
proof -
  let ?P = "\<lambda>t. ss_data_delivered t = ss_data_delivered s \<and> ss_frame_results t = []"
  have "preserves ?P (emit_model_stream_event c ev)" for ev
    by (auto simp: preserves_def emit_model_stream_event_def on_world_def zoom_def and_then_def
        split: prod.splits sum.splits)
  then have "preserves ?P (for_each (concat (map fr_events (ss_frame_results s)))
    (emit_model_stream_event c))"
    by (blast intro: preserves_for_each)
  from preservesD [OF this, of "s\<lparr>ss_frame_results := []\<rparr>"] assms
  show "ss_data_delivered s' = ss_data_delivered s" and "ss_frame_results s' = []"
    by (simp_all add: emit_frame_results_def)
qed

lemma decoder_silent:
  assumes "drain_frames b0 (handle_decoded_data c) s = (b, t, Inr ())"
    and "emit_frame_results c t = (u, r)"
    and "\<not> ss_data_delivered u" and "ss_frame_results s = []"
  shows "t = s \<and> u = s \<and> r = Inr () \<and> (\<forall>f. drain_frames b0 f s = (b, s, Inr ()))
    \<and> emit_frame_results c' s = (s, Inr ())"
proof -
  have "\<not> ss_data_delivered t" using assms(2,3) emit_frame_results_keeps by blast
  from drain_frames_silent [OF assms(1) this] assms(2,4) show ?thesis
    by (simp add: emit_frame_results_Nil)
qed

lemma broken_stream_retry:
  "broken_stream d m = Inr (RetryableBeforeData m') \<longleftrightarrow> \<not> d \<and> m' = m"
  by (auto simp: broken_stream_def)

lemma broken_stream_terminal: "broken_stream d m \<noteq> Inr SseTerminal"
  by (simp add: broken_stream_def)

lemma read_chunks_silent:
  assumes "sc_provider_label c' = sc_provider_label c"
  shows "read_chunks c chunks buffer s = (s', Inr (RetryableBeforeData m)) \<Longrightarrow>
    ss_frame_results s = [] \<Longrightarrow>
    \<not> ss_data_delivered s' \<and> s' = s \<and> read_chunks c' chunks buffer s = (s', Inr (RetryableBeforeData m))"
  using assms
proof (induction c chunks buffer s rule: read_chunks.induct)
  case (1 c buffer s)
  from "1.prems" obtain b t u r where run: "decoder_finish buffer (handle_decoded_data c) s = (b, t, Inr ())"
    "emit_frame_results c t = (u, Inr r)" "\<not> ss_terminal u"
    "s' = u" "\<not> ss_data_delivered u" "m = sc_provider_label c @ '' stream ended before terminal event''"
    by (auto simp: broken_stream_retry split: prod.splits sum.splits if_splits)
  from decoder_silent [OF run(1) [unfolded decoder_finish_def] run(2,5) "1.prems"(2), of c'] run "1.prems"(3)
  show ?case by (simp add: broken_stream_def decoder_finish_def)
next
  case (2 c chunk chunks buffer s)
  from "2.prems" obtain b t u where run: "decoder_push buffer chunk (handle_decoded_data c) s = (b, t, Inr ())"
    "emit_frame_results c t = (u, Inr ())" "\<not> ss_terminal u"
    "read_chunks c chunks b u = (s', Inr (RetryableBeforeData m))"
    by (auto split: prod.splits sum.splits if_splits)
  have rest: "\<not> ss_data_delivered s' \<and> s' = u \<and> read_chunks c' chunks b u = (s', Inr (RetryableBeforeData m))"
    by (rule "2.IH") (use run emit_frame_results_keeps "2.prems" in auto)
  then have "\<not> ss_data_delivered u" by blast
  from decoder_silent [OF run(1) [unfolded decoder_push_def] run(2) this "2.prems"(2), of c'] run(3) rest this
  show ?case by (auto simp: decoder_push_def)
qed (auto simp: broken_stream_retry broken_stream_def split: if_splits)

section \<open>A scripted client for instances\<close>

definition scripted_client :: "request_event list sse_client" where
  "scripted_client =
     \<lparr>sc_provider_label = ''p'', sc_reconnect = reconnect_default, sc_cancelled = ok (),
      sc_request = (\<lambda>w. case w of [] \<Rightarrow> ([], RequestCancelled) | q # qs \<Rightarrow> (qs, q)),
      sc_sleep = (\<lambda>d. ok ()), sc_stream = (\<lambda>ev. ok ()),
      sc_handle_data = (\<lambda>data. ok (if data = ''end'' then \<lparr>fr_events = [Finished Stop], fr_terminal = True\<rparr>
        else \<lparr>fr_events = [TextDelta data], fr_terminal = False\<rparr>))\<rparr>"

definition sse_state_of :: "'w \<Rightarrow> 'w sse_state" where
  "sse_state_of w = \<lparr>ss_world = w, ss_events = [], ss_data_delivered = False, ss_terminal = False,
     ss_frame_results = []\<rparr>"

section \<open>Properties\<close>

lemma on_world_events [simp]:
  "ss_events (fst (on_world m s)) = ss_events s"
  by (auto simp: on_world_def zoom_def split: prod.splits)

lemma read_sse_response_silent:
  assumes "read_sse_response c response s = (s', Inr (RetryableBeforeData m))"
    and "sc_provider_label c' = sc_provider_label c"
  shows "ss_events s' = ss_events s \<and> \<not> ss_data_delivered s' \<and>
    read_sse_response c' response s = (s', Inr (RetryableBeforeData m))"
  using assms(1) read_chunks_silent [OF assms(2)] unfolding read_sse_response_def by fastforce

lemma handle_http_error_label:
  "sc_provider_label c' = sc_provider_label c \<Longrightarrow> handle_http_error c' r = handle_http_error c r"
  by (simp add: handle_http_error_def split: sum.split)

text \<open>C23: an attempt is only ever retried when it delivered nothing. If an attempt ends as retryable, no
  event was added to the stream's events, and neither the provider's data handler nor the stream
  observer was called: with any other handler and observer the attempt runs exactly the same.\<close>

theorem retry_is_silent:
  assumes "run_sse_attempt c s = (s', Inr (RetryableBeforeData m))"
  shows "ss_events s' = ss_events s \<and>
    run_sse_attempt (c\<lparr>sc_handle_data := on_data, sc_stream := observer\<rparr>) s
      = (s', Inr (RetryableBeforeData m))"
proof -
  let ?c = "c\<lparr>sc_handle_data := on_data, sc_stream := observer\<rparr>"
  from assms obtain t where t: "on_world (sc_cancelled c) s = (t, Inr ())"
    by (auto simp: run_sse_attempt_def and_then_Inr_iff)
  have events: "ss_events t = ss_events s" using on_world_events [of "sc_cancelled c" s] t by simp
  obtain w q where q: "sc_request c (ss_world t) = (w, q)" by force
  note run = assms [unfolded run_sse_attempt_def]
  show ?thesis
  proof (cases q)
    case (Responded response)
    show ?thesis
    proof (cases "200 \<le> hr_status response \<and> hr_status response < 300")
      case True
      with run t q Responded
      have "read_sse_response c response (t\<lparr>ss_world := w\<rparr>) = (s', Inr (RetryableBeforeData m))"
        by simp
      from read_sse_response_silent [OF this, of ?c] t q Responded True events show ?thesis
        by (simp add: run_sse_attempt_def)
    next
      case False
      with run t q Responded events handle_http_error_label [of ?c c response] show ?thesis
        by (auto simp: run_sse_attempt_def)
    qed
  qed (use run t q events in \<open>auto simp: run_sse_attempt_def\<close>)
qed

theorem retry_is_silent_witness:
  "run_sse_attempt (scripted_client\<lparr>sc_handle_data := (\<lambda>data. err Aborted), sc_stream := (\<lambda>ev. err Aborted)\<rparr>)
     (sse_state_of [Responded \<lparr>hr_status = 200, hr_status_text = [],
        hr_chunks = [Chunk (''data: x'' @ [LF]), ChunkIdle]\<rparr>])
   = (sse_state_of [], Inr (RetryableBeforeData ''p stream timed out''))"
proof -
  have "run_sse_attempt scripted_client
     (sse_state_of [Responded \<lparr>hr_status = 200, hr_status_text = [],
        hr_chunks = [Chunk (''data: x'' @ [LF]), ChunkIdle]\<rparr>])
   = (sse_state_of [], Inr (RetryableBeforeData ''p stream timed out''))"
    by code_simp
  from retry_is_silent [OF this] show ?thesis by blast
qed

lemma run_sse_from_last_attempt:
  "run_sse_from c n s = (s', r) \<Longrightarrow>
   \<exists>t u q. ss_events t = ss_events s \<and> run_sse_attempt c t = (u, q) \<and> ss_events s' = ss_events u
     \<and> (r = Inr () \<longleftrightarrow> q = Inr SseTerminal)"
proof (induction c n s rule: run_sse_from.induct)
  case (1 c n s)
  obtain u q where attempt: "run_sse_attempt c s = (u, q)" by force
  have run: "run_sse_from c n s = (s', r)" by fact
  show ?case
  proof (cases "\<exists>m. q = Inr (RetryableBeforeData m)")
    case False
    with run attempt have "s' = u" and "r = Inr () \<longleftrightarrow> q = Inr SseTerminal"
      by (auto simp: run_sse_from.simps [of c n s] split: sum.splits sse_attempt_outcome.splits)
    with attempt show ?thesis by blast
  next
    case True
    then obtain m where q: "q = Inr (RetryableBeforeData m)" by blast
    have u: "ss_events u = ss_events s" using retry_is_silent attempt q by blast
    obtain v z where sleep: "sleep_before_reconnect c n u = (v, z)" by force
    have v: "ss_events v = ss_events u"
      using sleep arg_cong [OF sleep, of fst]
      by (auto simp: sleep_before_reconnect_def Let_def on_world_def zoom_def split: if_splits prod.splits)
    have fail: ?thesis if "ss_events s' = ss_events s" and "r \<noteq> Inr ()"
      using that u q attempt by (intro exI [of _ s] exI [of _ u] exI [of _ q]) simp
    consider "rc_max_reconnects (sc_reconnect c) \<le> n"
      | e where "\<not> rc_max_reconnects (sc_reconnect c) \<le> n" "z = Inl e"
      | "\<not> rc_max_reconnects (sc_reconnect c) \<le> n" "z = Inr ()"
      by (cases z) auto
    then show ?thesis
    proof cases
      case 3
      with run attempt q sleep have "run_sse_from c (n + 1) v = (s', r)"
        by (simp add: run_sse_from.simps [of c n s])
      from "1.IH" [OF attempt [symmetric] q refl 3(1) sleep [symmetric] 3(2) this] u v
      show ?thesis by simp
    next
      case 1
      with run attempt q have "s' = u" and "r \<noteq> Inr ()"
        by (auto simp: run_sse_from.simps [of c n s])
      with fail u show ?thesis by simp
    next
      case (2 e)
      with run attempt q sleep have "s' = v" and "r \<noteq> Inr ()"
        by (auto simp: run_sse_from.simps [of c n s])
      with fail u v show ?thesis by simp
    qed
  qed
qed

text \<open>The events of a stream come from its last attempt alone. However many times the client
  reconnects, there is one attempt, the last, that starts with the events the stream had at the
  beginning and ends with the events the stream ends with: reconnecting never duplicates or drops
  an event. The stream succeeds exactly when that attempt reached a terminal event.\<close>

theorem stream_events_of_last_attempt:
  assumes "run_sse_model_stream c s = (s', r)"
  shows "\<exists>t u q. ss_events t = ss_events s \<and> run_sse_attempt c t = (u, q)
    \<and> ss_events s' = ss_events u \<and> (r = Inr () \<longleftrightarrow> q = Inr SseTerminal)"
  using assms unfolding run_sse_model_stream_def by (rule run_sse_from_last_attempt)

theorem stream_events_of_last_attempt_witness:
  "\<exists>t u q. ss_events t = [] \<and> run_sse_attempt scripted_client t = (u, q)
     \<and> ss_events u = [TextDelta ''hi'', Finished Stop] \<and> q = Inr SseTerminal"
proof -
  let ?w = "[RequestFailed ''reset'',
    Responded \<lparr>hr_status = 200, hr_status_text = [],
      hr_chunks = [Chunk (''data: hi'' @ [LF, LF]), Chunk (''data: end'' @ [LF, LF])]\<rparr>]"
  have run: "ss_events (fst (run_sse_model_stream scripted_client (sse_state_of ?w)))
      = [TextDelta ''hi'', Finished Stop]
    \<and> snd (run_sse_model_stream scripted_client (sse_state_of ?w)) = Inr ()"
    by code_simp
  obtain s' r where s': "run_sse_model_stream scripted_client (sse_state_of ?w) = (s', r)" by force
  have init: "ss_events (sse_state_of ?w) = []" by (simp add: sse_state_of_def)
  have out: "ss_events s' = [TextDelta ''hi'', Finished Stop]" "r = Inr ()"
    using run unfolding s' by simp_all
  show ?thesis using stream_events_of_last_attempt [OF s', unfolded init out] by metis
qed

text \<open>The delay before a reconnect never exceeds the configured maximum, never decreases from one
  reconnect to the next, and up to thirty-one reconnects it is the initial backoff doubled at each
  reconnect, cut off at the maximum.\<close>

theorem reconnect_delay_bounds:
  assumes "rc_max_backoff config \<le> duration_max"
  shows "reconnect_delay config n
      = min (rc_initial_backoff config * 2 ^ min n 31) (rc_max_backoff config)
    \<and> reconnect_delay config n \<le> reconnect_delay config (n + 1)"
proof -
  have pow: "u32_saturating_pow 2 (min k 31) = 2 ^ min k 31" for k
  proof -
    have "(2::nat) ^ min k 31 \<le> 2 ^ 31" by (rule power_increasing) auto
    then show ?thesis by (simp add: u32_saturating_pow_def)
  qed
  have delay: "reconnect_delay config k
      = min (rc_initial_backoff config * 2 ^ min k 31) (rc_max_backoff config)" for k
    using assms by (auto simp: reconnect_delay_def duration_checked_mul_def pow Let_def)
  have "(2::nat) ^ min n 31 \<le> 2 ^ min (n + 1) 31" by (rule power_increasing) auto
  then show ?thesis unfolding delay by (simp add: min.coboundedI1 min_le_iff_disj mult_le_mono2)
qed

theorem reconnect_delay_bounds_witness:
  "map (reconnect_delay reconnect_default) [0, 1, 2, 3, 4] = map ((*) (10 ^ 6)) [200, 400, 800, 1600, 2000]"
  using reconnect_delay_bounds [of reconnect_default]
  by (simp add: reconnect_default_def duration_max_def)

end
