(* ===== verification/Sse_Handler.thy ===== *)
theory Sse_Handler
  imports Sse_Stream
begin

text \<open>
  The contract between the stream reader of \<open>src/sse.rs\<close> and the model providers that read it. A
  provider gives a client whose data handler keeps an invariant of its own state and of the events
  given out so far, those still to be emitted included; the reader then delivers exactly these
  events, in order, and succeeds only after the handler saw a terminal frame.
\<close>

section \<open>Where errors come from\<close>

text \<open>
  Errors of a kind \<open>U\<close> that neither the cancellation, the sleep, the stream observer nor the data
  handler raise: a stream that fails with one of them failed before it read any data.
\<close>

definition server_errors :: "(agent_core_error \<Rightarrow> bool) \<Rightarrow> 'w sse_client \<Rightarrow> bool" where
  "server_errors U c =
     ((\<forall>w w' e. sc_cancelled c w = (w', Inl e) \<longrightarrow> \<not> U e)
      \<and> (\<forall>d w w' e. sc_sleep c d w = (w', Inl e) \<longrightarrow> \<not> U e)
      \<and> (\<forall>ev w w' e. sc_stream c ev w = (w', Inl e) \<longrightarrow> \<not> U e)
      \<and> (\<forall>data w w' e. sc_handle_data c data w = (w', Inl e) \<longrightarrow> \<not> U e)
      \<and> \<not> U Aborted \<and> (\<forall>m. \<not> U (Provider m)))"

lemma emit_frame_data_error:
  assumes "server_errors U c" and "emit_frame_data frame (handle_decoded_data c) s = (s', Inl e)"
  shows "\<not> U e"
  using assms
  by (auto simp: server_errors_def emit_frame_data_def and_then_Inl_iff data_to_str_def
      handle_decoded_data_def on_world_def zoom_def split: option.splits sum.splits prod.splits)

lemma drain_frames_error:
  "server_errors U c \<Longrightarrow> drain_frames b (handle_decoded_data c) s = (b', s', Inl e) \<Longrightarrow> \<not> U e"
proof (induction b "handle_decoded_data c" s arbitrary: b' s' rule: drain_frames.induct [case_names drain])
  case (drain b s)
  show ?case
  proof (cases "find_frame_boundary b")
    case None
    with drain.prems show ?thesis by (simp add: drain_frames_none)
  next
    case (Some p)
    then obtain f n where p: "find_frame_boundary b = Some (f, n)" by (cases p) auto
    obtain t q where emit: "emit_frame_data (take f b) (handle_decoded_data c) s = (t, q)" by force
    show ?thesis
    proof (cases q)
      case (Inl x)
      with drain.prems emit show ?thesis
        using emit_frame_data_error [OF drain.prems(1)] by (auto simp: drain_frames_step [OF p])
    next
      case (Inr ctl)
      with drain.prems(2) emit have "ctl = SseContinue"
        and "drain_frames (drop n b) (handle_decoded_data c) t = (b', s', Inl e)"
        by (cases ctl; simp add: drain_frames_step [OF p])+
      from drain.hyps [OF p refl emit [symmetric] Inr this(1) drain.prems(1) this(2)] show ?thesis .
    qed
  qed
qed

lemma emit_frame_results_error:
  assumes "server_errors U c" and "emit_frame_results c s = (s', Inl e)"
  shows "\<not> U e"
proof -
  have "for_each evs (emit_model_stream_event c) t = (t', Inl e) \<Longrightarrow> \<not> U e" for evs t t'
    using assms(1)
    by (induction evs arbitrary: t)
      (auto simp: and_then_Inl_iff emit_model_stream_event_def on_world_def zoom_def server_errors_def
        split: prod.splits)
  with assms(2) show ?thesis unfolding emit_frame_results_def by blast
qed

lemma read_chunks_error:
  "server_errors U c \<Longrightarrow> read_chunks c chunks buffer s = (s', Inl e) \<Longrightarrow> \<not> U e"
proof (induction c chunks buffer s rule: read_chunks.induct)
  case (1 c buffer s)
  then show ?case
    using drain_frames_error emit_frame_results_error
    by (auto simp: decoder_finish_def broken_stream_def server_errors_def
        split: prod.splits sum.splits if_splits) blast+
next
  case (2 c chunk chunks buffer s)
  obtain b t q where push: "decoder_push buffer chunk (handle_decoded_data c) s = (b, t, q)"
    by (cases "decoder_push buffer chunk (handle_decoded_data c) s") auto
  show ?case
  proof (cases q)
    case (Inl x)
    with "2.prems" push show ?thesis
      using drain_frames_error [OF "2.prems"(1)] by (auto simp: decoder_push_def)
  next
    case (Inr y)
    obtain u z where emit: "emit_frame_results c t = (u, z)" by force
    show ?thesis
    proof (cases z)
      case (Inl x)
      with "2.prems" push Inr emit show ?thesis
        using emit_frame_results_error [OF "2.prems"(1)] by auto
    next
      case z: (Inr y')
      with "2.prems"(2) push Inr emit have "\<not> ss_terminal u" "read_chunks c chunks b u = (s', Inl e)"
        by (auto split: if_splits)
      with "2.IH" [OF push [symmetric] refl Inr emit [symmetric] z] "2.prems"(1) show ?thesis by blast
    qed
  qed
qed (auto simp: broken_stream_def server_errors_def split: if_splits)

section \<open>The contract\<close>

locale sse_handler =
  fixes c :: "'w sse_client"
    and J :: "'w \<Rightarrow> model_stream_event list \<Rightarrow> bool"
    and Z :: "'w \<Rightarrow> bool"
  assumes cancelled: "J w evs \<Longrightarrow> sc_cancelled c w = (w', Inr ()) \<Longrightarrow> J w' evs \<and> Z w' = Z w"
    and request: "J w evs \<Longrightarrow> sc_request c w = (w', q) \<Longrightarrow> J w' evs \<and> Z w' = Z w"
    and sleep: "J w evs \<Longrightarrow> sc_sleep c d w = (w', Inr ()) \<Longrightarrow> J w' evs \<and> Z w' = Z w"
    and stream: "J w evs \<Longrightarrow> sc_stream c ev w = (w', Inr ()) \<Longrightarrow> J w' evs \<and> Z w' = Z w"
    and handle: "J w evs \<Longrightarrow> \<not> Z w \<Longrightarrow> sc_handle_data c data w = (w', Inr r) \<Longrightarrow>
      J w' (evs @ fr_events r) \<and> (Z w' \<longleftrightarrow> fr_terminal r)"
begin

definition pending :: "'w sse_state \<Rightarrow> model_stream_event list" where
  "pending s = ss_events s @ concat (map fr_events (ss_frame_results s))"

definition reading :: "'w sse_state \<Rightarrow> bool" where
  "reading s = (J (ss_world s) (pending s) \<and> ss_terminal s = Z (ss_world s))"

lemma handle_decoded_data_reading:
  assumes "reading s" and "\<not> ss_terminal s"
    and "handle_decoded_data c data s = (s', Inr ctl)"
  shows "reading s' \<and> (ctl = SseContinue \<longrightarrow> \<not> ss_terminal s')"
proof -
  let ?s = "s\<lparr>ss_data_delivered := True\<rparr>"
  from assms(3) obtain w r where w: "sc_handle_data c data (ss_world s) = (w, Inr r)"
    and s': "s' = ?s\<lparr>ss_world := w, ss_terminal := ss_terminal s \<or> fr_terminal r,
      ss_frame_results := ss_frame_results s @ [r]\<rparr>"
    and ctl: "ctl = (if fr_terminal r then SseStop else SseContinue)"
    by (auto simp: handle_decoded_data_def and_then_def on_world_def zoom_def
        split: prod.splits sum.splits)
  from assms(1,2) handle [OF _ _ w, of "pending s"] show ?thesis
    by (auto simp: reading_def pending_def s' ctl)
qed

lemma emit_frame_data_reading:
  assumes "reading s" and "\<not> ss_terminal s"
    and "emit_frame_data frame (handle_decoded_data c) s = (s', Inr ctl)"
  shows "reading s' \<and> (ctl = SseContinue \<longrightarrow> \<not> ss_terminal s')"
proof (cases "frame_data frame")
  case None
  with assms show ?thesis by (simp add: emit_frame_data_def)
next
  case (Some data)
  with assms(3) obtain d where "handle_decoded_data c d s = (s', Inr ctl)"
    by (auto simp: emit_frame_data_def and_then_Inr_iff)
  with handle_decoded_data_reading [OF assms(1,2)] show ?thesis by blast
qed

lemma drain_frames_reading:
  "reading s \<Longrightarrow> \<not> ss_terminal s \<Longrightarrow>
   drain_frames b (handle_decoded_data c) s = (b', s', Inr ()) \<Longrightarrow> reading s'"
proof (induction b "handle_decoded_data c" s arbitrary: b' s' rule: drain_frames.induct [case_names drain])
  case (drain b s)
  show ?case
  proof (cases "find_frame_boundary b")
    case None
    with drain.prems show ?thesis by (simp add: drain_frames_none)
  next
    case (Some p)
    then obtain e n where p: "find_frame_boundary b = Some (e, n)" by (cases p) auto
    obtain t q where emit: "emit_frame_data (take e b) (handle_decoded_data c) s = (t, q)" by force
    from drain.prems(3) emit obtain ctl where q: "q = Inr ctl"
      by (cases q) (auto simp: drain_frames_step [OF p])
    have t: "reading t" "ctl = SseContinue \<longrightarrow> \<not> ss_terminal t"
      using emit_frame_data_reading [OF drain.prems(1,2) emit [unfolded q]] by blast+
    show ?thesis
    proof (cases ctl)
      case SseContinue
      with q drain.prems(3) emit
      have rest: "drain_frames (drop n b) (handle_decoded_data c) t = (b', s', Inr ())"
        by (simp add: drain_frames_step [OF p])
      from t(2) SseContinue have "\<not> ss_terminal t" by blast
      from drain.hyps [OF p refl emit [symmetric] q SseContinue t(1) this rest] show ?thesis .
    next
      case SseStop
      with q drain.prems(3) emit t show ?thesis by (simp add: drain_frames_step [OF p])
    qed
  qed
qed

lemma emit_model_stream_event_Inr:
  "emit_model_stream_event c ev s = (t, Inr ()) \<longleftrightarrow>
     (\<exists>w. sc_stream c ev (ss_world s) = (w, Inr ())
        \<and> t = s\<lparr>ss_world := w, ss_events := ss_events s @ [ev]\<rparr>)"
  by (auto simp: emit_model_stream_event_def on_world_def zoom_def and_then_def
      split: prod.splits sum.splits)

lemma emit_events_reading:
  "J (ss_world s) (ss_events s @ evs) \<Longrightarrow> ss_terminal s = Z (ss_world s) \<Longrightarrow>
   ss_frame_results s = [] \<Longrightarrow> for_each evs (emit_model_stream_event c) s = (s', Inr ()) \<Longrightarrow>
   reading s' \<and> ss_frame_results s' = []"
proof (induction evs arbitrary: s)
  case Nil
  then show ?case by (simp add: reading_def pending_def ok_def)
next
  case (Cons ev evs)
  from Cons.prems(4) obtain w where w: "sc_stream c ev (ss_world s) = (w, Inr ())"
    and rest: "for_each evs (emit_model_stream_event c)
      (s\<lparr>ss_world := w, ss_events := ss_events s @ [ev]\<rparr>) = (s', Inr ())"
    by (auto simp: and_then_Inr_iff emit_model_stream_event_Inr)
  from Cons.prems(1-3) stream [OF _ w] show ?case by (intro Cons.IH [OF _ _ _ rest]) auto
qed

lemma emit_frame_results_reading:
  assumes "reading s" and "emit_frame_results c s = (s', Inr ())"
  shows "reading s' \<and> ss_frame_results s' = []"
proof -
  let ?s = "s\<lparr>ss_frame_results := []\<rparr>"
  from assms(2) have "for_each (concat (map fr_events (ss_frame_results s)))
      (emit_model_stream_event c) ?s = (s', Inr ())"
    by (simp add: emit_frame_results_def)
  with assms(1) show ?thesis
    by (intro emit_events_reading [of ?s]) (auto simp: reading_def pending_def)
qed

lemma read_chunks_reading:
  "reading s \<Longrightarrow> ss_frame_results s = [] \<Longrightarrow> \<not> ss_terminal s \<Longrightarrow>
   read_chunks c' chunks buffer s = (s', Inr out) \<Longrightarrow> c' = c \<Longrightarrow>
   reading s' \<and> ss_frame_results s' = [] \<and> (out = SseTerminal \<longleftrightarrow> Z (ss_world s'))"
proof (induction c' chunks buffer s rule: read_chunks.induct)
  case (1 c' buffer s)
  from "1.prems" obtain b t u where run: "decoder_finish buffer (handle_decoded_data c) s = (b, t, Inr ())"
    "emit_frame_results c t = (u, Inr ())"
    and out: "(if ss_terminal u then (u, Inr SseTerminal)
      else (u, broken_stream (ss_data_delivered u)
        (sc_provider_label c @ '' stream ended before terminal event''))) = (s', Inr out)"
    by (auto split: prod.splits sum.splits)
  have "reading t" using run(1) "1.prems"(1,3) drain_frames_reading by (auto simp: decoder_finish_def)
  note u = emit_frame_results_reading [OF this run(2)]
  have "s' = u" using out by (simp split: if_splits)
  moreover have "out = SseTerminal \<longleftrightarrow> ss_terminal u"
    using out by (auto simp: broken_stream_def split: if_splits)
  ultimately show ?case using u by (simp add: reading_def)
next
  case (2 c' chunk chunks buffer s)
  from "2.prems" obtain b t u where run: "decoder_push buffer chunk (handle_decoded_data c) s = (b, t, Inr ())"
    "emit_frame_results c t = (u, Inr ())"
    and rest: "if ss_terminal u then s' = u \<and> out = SseTerminal
      else read_chunks c chunks b u = (s', Inr out)"
    by (auto split: prod.splits sum.splits if_splits)
  have "reading t" using run(1) "2.prems"(1,3) drain_frames_reading by (auto simp: decoder_push_def)
  note u = emit_frame_results_reading [OF this run(2)]
  show ?case
  proof (cases "ss_terminal u")
    case True
    with u rest show ?thesis by (auto simp: reading_def)
  next
    case False
    show ?thesis
      by (rule "2.IH") (use run u rest False "2.prems"(5) in auto)
  qed
qed (auto simp: broken_stream_def reading_def split: if_splits)

text \<open>
  An attempt starts before any terminal frame and, unless it ends with one, ends so: also when it
  fails with an error of the server.
\<close>

lemma run_sse_attempt_reading:
  assumes J: "J (ss_world s) (ss_events s)" "\<not> Z (ss_world s)"
    and run: "run_sse_attempt c s = (s', Inr out)"
  shows "J (ss_world s') (ss_events s') \<and> (out = SseTerminal \<longleftrightarrow> Z (ss_world s'))"
proof -
  from run obtain w0 where w0: "sc_cancelled c (ss_world s) = (w0, Inr ())"
    by (auto simp: run_sse_attempt_def and_then_Inr_iff on_world_def zoom_def split: prod.splits)
  obtain w q where q: "sc_request c w0 = (w, q)" by force
  have Jw: "J w (ss_events s)" "\<not> Z w"
    using request [OF _ q] cancelled [OF J(1) w0] J(2) by auto
  let ?s = "s\<lparr>ss_world := w\<rparr>"
  have run': "(case q of Responded response \<Rightarrow>
      if 200 \<le> hr_status response \<and> hr_status response < 300
      then read_sse_response c response ?s else (?s, handle_http_error c response)
    | RequestNotBuilt e \<Rightarrow> (?s, Inl e) | RequestFailed error \<Rightarrow> (?s, Inr (RetryableBeforeData
        (sc_provider_label c @ '' request failed before SSE data: '' @ error)))
    | RequestCancelled \<Rightarrow> (?s, Inl Aborted)
    | RequestTimedOut \<Rightarrow> (?s, Inl (Provider (sc_provider_label c @ '' request timed out''))))
    = (s', Inr out)"
    using run w0 q
    by (auto simp: run_sse_attempt_def and_then_def on_world_def zoom_def split: prod.splits request_event.splits)
  show ?thesis
  proof (cases q)
    case (Responded response)
    show ?thesis
    proof (cases "200 \<le> hr_status response \<and> hr_status response < 300")
      case True
      let ?t = "?s\<lparr>ss_data_delivered := False, ss_terminal := False, ss_frame_results := []\<rparr>"
      from True Responded run' have "read_chunks c (hr_chunks response) [] ?t = (s', Inr out)"
        by (simp add: read_sse_response_def)
      from read_chunks_reading [OF _ _ _ this refl] Jw show ?thesis
        by (auto simp: reading_def pending_def)
    next
      case False
      with Responded run' Jw show ?thesis
        by (auto simp: handle_http_error_def split: sum.splits if_splits)
    qed
  qed (use run' Jw in auto)
qed

lemma sleep_reading:
  assumes "sleep_before_reconnect c n u = (v, Inr ())" and "J (ss_world u) (ss_events u)"
  shows "J (ss_world v) (ss_events v) \<and> Z (ss_world v) = Z (ss_world u)"
  using assms sleep
  by (auto simp: sleep_before_reconnect_def on_world_def zoom_def Let_def split: if_splits prod.splits)

lemma run_sse_from_reading:
  "J (ss_world s) (ss_events s) \<Longrightarrow> \<not> Z (ss_world s) \<Longrightarrow> run_sse_from c n s = (s', Inr ()) \<Longrightarrow>
   J (ss_world s') (ss_events s') \<and> Z (ss_world s')"
proof (induction "rc_max_reconnects (sc_reconnect c) - n" arbitrary: n s rule: less_induct)
  case less
  obtain u q where attempt: "run_sse_attempt c s = (u, q)" by force
  from less.prems(3) attempt obtain out where q: "q = Inr out"
    by (cases q) (auto simp: run_sse_from.simps [of c n s])
  note u = run_sse_attempt_reading [OF less.prems(1,2) attempt [unfolded q]]
  show ?case
  proof (cases out)
    case SseTerminal
    with u q attempt less.prems(3) show ?thesis by (simp add: run_sse_from.simps [of c n s])
  next
    case (RetryableBeforeData m)
    with q attempt less.prems(3) have lt: "\<not> rc_max_reconnects (sc_reconnect c) \<le> n"
      by (auto simp: run_sse_from.simps [of c n s])
    obtain v z where sleep': "sleep_before_reconnect c n u = (v, z)" by force
    with RetryableBeforeData q attempt lt less.prems(3) have z: "z = Inr ()"
      and rest: "run_sse_from c (n + 1) v = (s', Inr ())"
      by (auto simp: run_sse_from.simps [of c n s] split: sum.splits)
    from sleep_reading [OF sleep' [unfolded z]] u RetryableBeforeData
    have "J (ss_world v) (ss_events v)" "\<not> Z (ss_world v)" by auto
    with rest lt show ?thesis by (intro less.hyps [of "n + 1"]) auto
  qed
qed

lemma run_sse_model_stream_reading:
  "J (ss_world s) (ss_events s) \<Longrightarrow> \<not> Z (ss_world s) \<Longrightarrow> run_sse_model_stream c s = (s', Inr ()) \<Longrightarrow>
   J (ss_world s') (ss_events s') \<and> Z (ss_world s')"
  unfolding run_sse_model_stream_def by (rule run_sse_from_reading)

lemma run_sse_attempt_error:
  assumes "server_errors U c" and J: "J (ss_world s) (ss_events s)" "\<not> Z (ss_world s)"
    and run: "run_sse_attempt c s = (s', Inl e)" and U: "U e"
  shows "J (ss_world s') (ss_events s') \<and> \<not> Z (ss_world s')"
proof -
  have errs: "\<not> U Aborted" "\<And>m. \<not> U (Provider m)" "\<And>w w' e. sc_cancelled c w = (w', Inl e) \<Longrightarrow> \<not> U e"
    using assms(1) by (auto simp: server_errors_def)
  with run U obtain w0 where w0: "sc_cancelled c (ss_world s) = (w0, Inr ())"
    by (auto simp: run_sse_attempt_def and_then_Inl_iff on_world_def zoom_def split: prod.splits)
  obtain w q where q: "sc_request c w0 = (w, q)" by force
  have Jw: "J w (ss_events s)" "\<not> Z w"
    using request [OF _ q] cancelled [OF J(1) w0] J(2) by auto
  show ?thesis
    using run w0 q Jw U errs read_chunks_error [OF assms(1)]
    by (cases q) (auto simp: run_sse_attempt_def and_then_def on_world_def zoom_def
        read_sse_response_def Let_def split: if_splits)
qed

lemma run_sse_from_error:
  "server_errors U c \<Longrightarrow> J (ss_world s) (ss_events s) \<Longrightarrow> \<not> Z (ss_world s) \<Longrightarrow>
   run_sse_from c n s = (s', Inl e) \<Longrightarrow> U e \<Longrightarrow>
   J (ss_world s') (ss_events s') \<and> \<not> Z (ss_world s')"
proof (induction "rc_max_reconnects (sc_reconnect c) - n" arbitrary: n s rule: less_induct)
  case less
  obtain u q where attempt: "run_sse_attempt c s = (u, q)" by force
  show ?case
  proof (cases q)
    case (Inl x)
    with attempt less.prems(4) have "u = s'" "x = e" by (simp_all add: run_sse_from.simps [of c n s])
    with run_sse_attempt_error [OF less.prems(1-3)] attempt Inl less.prems(5) show ?thesis by blast
  next
    case (Inr out)
    note u = run_sse_attempt_reading [OF less.prems(2,3) attempt [unfolded Inr]]
    show ?thesis
    proof (cases out)
      case SseTerminal
      with attempt Inr less.prems(4) show ?thesis by (simp add: run_sse_from.simps [of c n s])
    next
      case (RetryableBeforeData m)
      show ?thesis
      proof (cases "rc_max_reconnects (sc_reconnect c) \<le> n")
        case True
        with attempt Inr RetryableBeforeData less.prems show ?thesis
          by (auto simp: run_sse_from.simps [of c n s] server_errors_def)
      next
        case False
        obtain v z where sleep': "sleep_before_reconnect c n u = (v, z)" by force
        have z: "z = Inr () \<or> (\<exists>x. z = Inl x \<and> \<not> U x)"
          using sleep' less.prems(1)
          by (cases z) (auto simp: sleep_before_reconnect_def on_world_def zoom_def Let_def server_errors_def
              split: if_splits prod.splits)
        with False attempt Inr RetryableBeforeData sleep' less.prems(4,5)
        have z: "z = Inr ()" and rest: "run_sse_from c (n + 1) v = (s', Inl e)"
          by (auto simp: run_sse_from.simps [of c n s])
        from sleep_reading [OF sleep' [unfolded z]] u RetryableBeforeData
        have "J (ss_world v) (ss_events v)" "\<not> Z (ss_world v)" by auto
        with rest False less.prems(1,5) show ?thesis
          by (intro less.hyps [of "n + 1"]) auto
      qed
    qed
  qed
qed

lemma run_sse_model_stream_error:
  "server_errors U c \<Longrightarrow> J (ss_world s) (ss_events s) \<Longrightarrow> \<not> Z (ss_world s) \<Longrightarrow>
   run_sse_model_stream c s = (s', Inl e) \<Longrightarrow> U e \<Longrightarrow>
   J (ss_world s') (ss_events s') \<and> \<not> Z (ss_world s')"
  unfolding run_sse_model_stream_def by (rule run_sse_from_error)

end

end
