(* ===== verification/Tool_Names.thy ===== *)
theory Tool_Names
  imports Core_Types "HOL-Library.Word"
begin

unbundle bit_operations_syntax

text \<open>
  The names under which tools are shown to a model provider (\<open>src/tool_names.rs\<close>): every declared
  name gets a provider name of safe characters and of bounded length, with a stable suffix where
  names would collide. The lemmas show that the codec is a bijection between the declared names and
  their provider names. The counter of attempts, an \<open>u32\<close>, is a natural number.
\<close>

section \<open>Safe names\<close>

definition MAX_PROVIDER_TOOL_NAME_LEN :: nat where
  "MAX_PROVIDER_TOOL_NAME_LEN = 64"

definition safe_char :: "char \<Rightarrow> bool" where
  "safe_char c = (is_ascii_alphanumeric c \<or> c = CHR ''_'' \<or> c = CHR ''-'')"

text \<open>A character that is more than one byte is not ASCII, so it is replaced.\<close>

definition safe_character :: "string \<Rightarrow> char" where
  "safe_character character =
     (case character of
        [c] \<Rightarrow> if safe_char c then c else CHR ''_''
      | _ \<Rightarrow> CHR ''_'')"

definition provider_safe_base :: "string \<Rightarrow> string" where
  "provider_safe_base canonical =
     (let encoded = map safe_character (utf8_chars canonical)
      in if encoded = [] then ''tool'' else encoded)"

text \<open>FNV-1a on 64 bits; the low 32 bits are shown as eight hexadecimal digits.\<close>

definition fnv_step :: "char \<Rightarrow> 64 word \<Rightarrow> 64 word" where
  "fnv_step byte hash = (hash XOR word_of_nat (of_char byte)) * 0x00000100000001b3"

definition hex_digit :: "nat \<Rightarrow> char" where
  "hex_digit d = (if d < 10 then digit_char d else char_of (87 + d))"

definition hex8 :: "32 word \<Rightarrow> string" where
  "hex8 w = map (\<lambda>i. hex_digit (unat (drop_bit (4 * i) w AND 15))) (rev [0..<8])"

definition stable_suffix :: "string \<Rightarrow> string" where
  "stable_suffix value = hex8 (ucast (fold fnv_step value 0xcbf29ce484222325))"

definition suffixed_provider_name :: "string \<Rightarrow> string \<Rightarrow> nat option \<Rightarrow> string" where
  "suffixed_provider_name base sfx attempt =
     (let sfx = (case attempt of
            Some attempt \<Rightarrow> ''_'' @ sfx @ ''_'' @ show_nat attempt
          | None \<Rightarrow> ''_'' @ sfx);
          max_base_len = MAX_PROVIDER_TOOL_NAME_LEN - length sfx
      in take max_base_len base @ sfx)"

lemma suffixed_provider_name_attempt:
  "\<exists>p. suffixed_provider_name base sfx (Some n) = p @ ''_'' @ show_nat n"
  by (auto simp: suffixed_provider_name_def Let_def)

lemma takeWhile_rev_show_nat:
  "takeWhile (\<lambda>c. c \<noteq> CHR ''_'') (rev (p @ ''_'' @ show_nat n)) = rev (show_nat n)"
proof -
  have "\<forall>c \<in> set (rev (show_nat n)). c \<noteq> CHR ''_''"
    using show_nat_digits by (fastforce simp: is_ascii_digit_def)
  then have "takeWhile (\<lambda>c. c \<noteq> CHR ''_'') (rev (show_nat n) @ rev (p @ ''_'')) = rev (show_nat n)"
    by (subst takeWhile_append2) auto
  then show ?thesis by simp
qed

lemma suffixed_provider_name_inj: "inj (\<lambda>n. suffixed_provider_name base sfx (Some n))"
proof (rule injI)
  fix m n
  assume "suffixed_provider_name base sfx (Some m) = suffixed_provider_name base sfx (Some n)"
  then obtain p q where "p @ ''_'' @ show_nat m = q @ ''_'' @ show_nat n"
    using suffixed_provider_name_attempt by metis
  then have "rev (show_nat m) = rev (show_nat n)"
    using takeWhile_rev_show_nat by metis
  then show "m = n" by simp
qed

text \<open>
  The loop that counts attempts until a name is free. Distinct attempts give distinct names, so the
  number of used names that are still ahead decreases.
\<close>

definition used_ahead :: "string \<Rightarrow> string \<Rightarrow> nat \<Rightarrow> string list \<Rightarrow> nat set" where
  "used_ahead base sfx attempt used =
     {n. attempt \<le> n \<and> suffixed_provider_name base sfx (Some n) \<in> set used}"

lemma finite_used_ahead: "finite (used_ahead base sfx attempt used)"
proof -
  have "finite ((\<lambda>n. suffixed_provider_name base sfx (Some n)) -` set used)"
    by (rule finite_vimageI [OF finite_set suffixed_provider_name_inj])
  then show ?thesis by (rule rev_finite_subset) (auto simp: used_ahead_def)
qed

function next_free_name :: "string \<Rightarrow> string \<Rightarrow> nat \<Rightarrow> string list \<Rightarrow> string" where
  "next_free_name base sfx attempt used =
     (let candidate = suffixed_provider_name base sfx (Some attempt)
      in if candidate \<in> set used then next_free_name base sfx (attempt + 1) used
         else candidate)"
  by pat_completeness auto
termination
proof (relation "measure (\<lambda>(b, s, n, u). card (used_ahead b s n u))")
  fix base sfx attempt used candidate
  assume "candidate = suffixed_provider_name base sfx (Some attempt)"
    and "candidate \<in> set used"
  then have "attempt \<in> used_ahead base sfx attempt used - used_ahead base sfx (attempt + 1) used"
    by (simp add: used_ahead_def)
  moreover have "used_ahead base sfx (attempt + 1) used \<subseteq> used_ahead base sfx attempt used"
    by (auto simp: used_ahead_def)
  ultimately have "used_ahead base sfx (attempt + 1) used \<subset> used_ahead base sfx attempt used"
    by blast
  from psubset_card_mono [OF finite_used_ahead this]
  show "((base, sfx, attempt + 1, used), base, sfx, attempt, used)
      \<in> measure (\<lambda>(b, s, n, u). card (used_ahead b s n u))" by simp
qed simp

declare next_free_name.simps [simp del]

text \<open>The name and the set of names used with it.\<close>

definition unique_provider_name ::
  "string \<Rightarrow> string \<Rightarrow> bool \<Rightarrow> string list \<Rightarrow> string \<times> string list" where
  "unique_provider_name base canonical needs_suffix used =
     (let sfx = stable_suffix canonical;
          candidate = (if needs_suffix \<or> MAX_PROVIDER_TOOL_NAME_LEN < length base
            then suffixed_provider_name base sfx None else base);
          name = (if candidate \<in> set used then next_free_name base sfx 2 used else candidate)
      in (name, bs_collect (name # used)))"

section \<open>The codec\<close>

record provider_tool_name_codec =
  canonical_to_provider :: "string smap"
  provider_to_canonical :: "string smap"

definition block_tool_name :: "content_block \<Rightarrow> string option" where
  "block_tool_name block =
     (case block of
        ToolCallBlock tool_call \<Rightarrow> Some (tc_name tool_call)
      | ToolResult tool_call_id tool_name content is_error \<Rightarrow> Some tool_name
      | _ \<Rightarrow> None)"

definition message_tool_names :: "agent_message list \<Rightarrow> string list" where
  "message_tool_names messages =
     concat (map (\<lambda>message. List.map_filter block_tool_name (msg_content message)) messages)"

text \<open>\<open>groups.entry(base).or_default()\<close>.\<close>

definition group_names :: "string list smap \<Rightarrow> string \<Rightarrow> string list" where
  "group_names groups base = (case map_of groups base of None \<Rightarrow> [] | Some names \<Rightarrow> names)"

definition add_to_group :: "string \<Rightarrow> string list smap \<Rightarrow> string list smap" where
  "add_to_group name groups =
     (let base = provider_safe_base name
      in bt_insert base (bs_collect (name # group_names groups base)) groups)"

type_synonym codec_state = "string list \<times> provider_tool_name_codec"

definition add_canonical :: "string \<Rightarrow> bool \<Rightarrow> string \<Rightarrow> codec_state \<Rightarrow> codec_state" where
  "add_canonical base needs_suffix canonical st =
     (case st of (used, codec) \<Rightarrow>
        (case unique_provider_name base canonical needs_suffix used of (provider, used') \<Rightarrow>
           (used',
            \<lparr>canonical_to_provider = bt_insert canonical provider (canonical_to_provider codec),
             provider_to_canonical = bt_insert provider canonical (provider_to_canonical codec)\<rparr>)))"

definition add_group :: "string \<times> string list \<Rightarrow> codec_state \<Rightarrow> codec_state" where
  "add_group grp st =
     (case grp of (base, canonical_names) \<Rightarrow>
        (let needs_suffix = (1 < length canonical_names \<or> base \<in> set (fst st))
         in fold (add_canonical base needs_suffix) canonical_names st))"

definition new_with_extra_names :: "tool_spec list \<Rightarrow> string list \<Rightarrow> provider_tool_name_codec" where
  "new_with_extra_names tools extra_names =
     (let groups = fold add_to_group (map ts_name tools @ extra_names) []
      in snd (fold add_group groups
           ([], \<lparr>canonical_to_provider = [], provider_to_canonical = []\<rparr>)))"

definition new_with_message_history ::
  "tool_spec list \<Rightarrow> agent_message list \<Rightarrow> provider_tool_name_codec" where
  "new_with_message_history tools messages =
     new_with_extra_names tools (message_tool_names messages)"

definition display_list :: "string list \<Rightarrow> string" where
  "display_list values = (if values = [] then ''<none>'' else join_with '', '' values)"

definition display_aliases :: "string smap \<Rightarrow> string" where
  "display_aliases aliases =
     (if aliases = [] then ''<none>''
      else join_with '', '' (map (\<lambda>(provider, canonical). provider @ ''->'' @ canonical) aliases))"

definition provider_name ::
  "provider_tool_name_codec \<Rightarrow> string \<Rightarrow> string \<Rightarrow> string \<Rightarrow> string result" where
  "provider_name codec canonical provider_id model =
     (case map_of (canonical_to_provider codec) canonical of
        Some provider \<Rightarrow> Inr provider
      | None \<Rightarrow> Inl (Provider (''provider tool-name encode failed for provider `'' @ provider_id
          @ ''` model `'' @ model @ ''`: undeclared canonical tool `'' @ canonical
          @ ''`; declared canonical tools: ''
          @ display_list (bt_keys (canonical_to_provider codec)))))"

definition canonical_name ::
  "provider_tool_name_codec \<Rightarrow> string \<Rightarrow> string \<Rightarrow> string \<Rightarrow> string result" where
  "canonical_name codec provider provider_id model =
     (case map_of (provider_to_canonical codec) provider of
        Some canonical \<Rightarrow> Inr canonical
      | None \<Rightarrow> Inl (Provider (''provider tool-name decode failed for provider `'' @ provider_id
          @ ''` model `'' @ model @ ''`: unknown provider tool alias `'' @ provider
          @ ''`; known aliases: '' @ display_aliases (provider_to_canonical codec))))"

section \<open>Names are safe and short\<close>

lemma length_hex8 [simp]: "length (hex8 w) = 8"
  by (simp add: hex8_def)

lemma safe_digit_char: "d < 10 \<Longrightarrow> safe_char (digit_char d)"
  by (simp add: safe_char_def is_ascii_alphanumeric_def of_char_digit_char)

lemma safe_hex_digit: "d < 16 \<Longrightarrow> safe_char (hex_digit d)"
  by (simp add: hex_digit_def safe_digit_char)
    (simp add: safe_char_def is_ascii_alphanumeric_def)

lemma safe_hex8: "list_all safe_char (hex8 w)"
proof -
  have "unat (v AND 15) < 16" for v :: "32 word"
  proof -
    have "v AND 15 \<le> 15" by (rule word_and_le1)
    then show ?thesis by (simp add: word_le_nat_alt)
  qed
  then show ?thesis by (simp add: hex8_def list_all_iff safe_hex_digit)
qed

lemma safe_show_nat: "list_all safe_char (show_nat n)"
  using show_nat_digits by (fastforce simp: list_all_iff safe_char_def is_ascii_digit_def is_ascii_alphanumeric_def)

lemma length_stable_suffix [simp]: "length (stable_suffix v) = 8"
  and safe_stable_suffix: "list_all safe_char (stable_suffix v)"
  by (simp_all add: stable_suffix_def safe_hex8)

lemma provider_safe_base_ok:
  "provider_safe_base c \<noteq> [] \<and> list_all safe_char (provider_safe_base c)"
proof -
  have "safe_char (safe_character ch)" for ch
    by (auto simp: safe_character_def safe_char_def split: list.splits)
  then show ?thesis
    by (auto simp: provider_safe_base_def list_all_iff safe_char_def is_ascii_alphanumeric_def)
qed

lemma next_free_name_attempt:
  "\<exists>n. next_free_name base sfx attempt used = suffixed_provider_name base sfx (Some n)
     \<and> n \<le> attempt + card (used_ahead base sfx attempt used)
     \<and> next_free_name base sfx attempt used \<notin> set used"
proof (induction base sfx attempt used rule: next_free_name.induct)
  case (1 base sfx attempt used)
  let ?c = "suffixed_provider_name base sfx (Some attempt)"
  show ?case
  proof (cases "?c \<in> set used")
    case True
    have "used_ahead base sfx attempt used
        = insert attempt (used_ahead base sfx (attempt + 1) used)"
      using True by (auto simp: used_ahead_def not_less_eq_eq le_antisym)
    moreover have "attempt \<notin> used_ahead base sfx (attempt + 1) used" by (simp add: used_ahead_def)
    ultimately have "card (used_ahead base sfx attempt used)
        = card (used_ahead base sfx (attempt + 1) used) + 1"
      using finite_used_ahead by simp
    with "1.IH" [OF refl True] True show ?thesis
      by (simp add: next_free_name.simps [of base sfx attempt] Let_def)
  next
    case False
    then show ?thesis
      by (auto simp: next_free_name.simps [of base sfx attempt] Let_def)
  qed
qed

lemma card_used_ahead: "card (used_ahead base sfx attempt used) \<le> length used"
proof -
  let ?f = "\<lambda>n. suffixed_provider_name base sfx (Some n)"
  have "card (used_ahead base sfx attempt used) = card (?f ` used_ahead base sfx attempt used)"
    by (rule card_image [symmetric]) (rule inj_on_subset [OF suffixed_provider_name_inj], simp)
  also have "\<dots> \<le> card (set used)"
    by (rule card_mono) (auto simp: used_ahead_def)
  also have "\<dots> \<le> length used" by (rule card_length)
  finally show ?thesis .
qed

lemma length_show_nat: "n < 10 ^ Suc k \<Longrightarrow> length (show_nat n) \<le> Suc k"
proof (induction k arbitrary: n)
  case 0
  then show ?case by (subst show_nat.simps) simp
next
  case (Suc k)
  have "n div 10 < 10 ^ Suc k" using Suc.prems by (simp add: less_mult_imp_div_less mult.commute)
  from Suc.IH [OF this] show ?case by (subst show_nat.simps) simp
qed

definition provider_name_ok :: "string \<Rightarrow> bool" where
  "provider_name_ok p =
     (p \<noteq> [] \<and> length p \<le> MAX_PROVIDER_TOOL_NAME_LEN \<and> list_all safe_char p)"

lemma suffixed_provider_name_ok:
  assumes "list_all safe_char base" "list_all safe_char sfx" "length sfx = 8"
    and "case attempt of None \<Rightarrow> True | Some n \<Rightarrow> n < 2 ^ 32"
  shows "provider_name_ok (suffixed_provider_name base sfx attempt)"
proof -
  have digits: "length (show_nat n) \<le> 10" if "n < 2 ^ 32" for n
    using that length_show_nat [of n 9] by simp
  have sep: "safe_char (CHR ''_'')" by (simp add: safe_char_def)
  have "list_all safe_char (take k base)" for k
    using assms(1) by (auto simp: list_all_iff dest: in_set_takeD)
  with assms sep digits safe_show_nat show ?thesis
    by (auto simp: provider_name_ok_def suffixed_provider_name_def Let_def MAX_PROVIDER_TOOL_NAME_LEN_def
        split: option.splits)
      (fastforce simp: min_def)+
qed

lemma unique_provider_name_spec:
  assumes "unique_provider_name base canonical needs_suffix used = (p, used')"
    and "list_all safe_char base" "base \<noteq> []" "length used + 2 < 2 ^ 32"
  shows "p \<notin> set used \<and> set used' = insert p (set used) \<and> length used' \<le> length used + 1
    \<and> provider_name_ok p"
proof -
  let ?sfx = "stable_suffix canonical"
  define candidate where "candidate = (if needs_suffix \<or> MAX_PROVIDER_TOOL_NAME_LEN < length base
            then suffixed_provider_name base ?sfx None else base)"
  have p: "p = (if candidate \<in> set used then next_free_name base ?sfx 2 used else candidate)"
    and used': "used' = bs_collect (p # used)"
    using assms(1) by (auto simp: unique_provider_name_def Let_def candidate_def)
  have "provider_name_ok candidate"
    using assms(2,3) suffixed_provider_name_ok [of base ?sfx None] safe_stable_suffix
    by (auto simp: candidate_def provider_name_ok_def)
  moreover obtain n where n: "next_free_name base ?sfx 2 used = suffixed_provider_name base ?sfx (Some n)"
    "n \<le> 2 + card (used_ahead base ?sfx 2 used)" "next_free_name base ?sfx 2 used \<notin> set used"
    using next_free_name_attempt by blast
  moreover have "n < 2 ^ 32" using n(2) card_used_ahead [of base ?sfx 2 used] assms(4) by linarith
  ultimately have "provider_name_ok p" and "p \<notin> set used"
    using assms(2) suffixed_provider_name_ok [of base ?sfx "Some n"] safe_stable_suffix
    by (simp_all add: p)
  moreover have "length used' \<le> length used + 1"
    unfolding used' bs_collect_def using length_remdups_leq [of "p # used"] by simp
  ultimately show ?thesis by (simp add: used')
qed

section \<open>The codec is a bijection\<close>

definition codec_inv :: "string set \<Rightarrow> codec_state \<Rightarrow> bool" where
  "codec_inv names st =
     (case st of (used, codec) \<Rightarrow>
        bt_wf (canonical_to_provider codec) \<and> bt_wf (provider_to_canonical codec)
        \<and> dom (map_of (canonical_to_provider codec)) = names
        \<and> dom (map_of (provider_to_canonical codec)) = set used
        \<and> (\<forall>c p. map_of (canonical_to_provider codec) c = Some p
               \<longleftrightarrow> map_of (provider_to_canonical codec) p = Some c)
        \<and> (\<forall>p \<in> set used. provider_name_ok p)
        \<and> length used \<le> card names)"

lemma codec_inv_empty:
  "codec_inv {} ([], \<lparr>canonical_to_provider = [], provider_to_canonical = []\<rparr>)"
  by (simp add: codec_inv_def)

lemma add_canonical_inv:
  assumes inv: "codec_inv names st" and "finite names" "c \<notin> names" "card names + 2 < 2 ^ 32"
    and "list_all safe_char base" "base \<noteq> []"
  shows "codec_inv (insert c names) (add_canonical base needs_suffix c st)"
proof -
  obtain used codec where st: "st = (used, codec)" by (cases st) auto
  obtain p used' where u: "unique_provider_name base c needs_suffix used = (p, used')" by force
  have len: "length used + 2 < 2 ^ 32" using inv assms(4) by (auto simp: st codec_inv_def)
  note spec = unique_provider_name_spec [OF u assms(5,6) len]
  have fresh: "map_of (provider_to_canonical codec) p = None"
    and new: "map_of (canonical_to_provider codec) c = None"
    using inv spec assms(3) by (auto simp: st codec_inv_def domIff [symmetric])
  have "map_of (canonical_to_provider codec) c' \<noteq> Some p" for c'
    using inv fresh by (auto simp: st codec_inv_def)
  moreover have "map_of (provider_to_canonical codec) p' \<noteq> Some c" for p'
  proof
    assume "map_of (provider_to_canonical codec) p' = Some c"
    with inv have "map_of (canonical_to_provider codec) c = Some p'" by (simp add: st codec_inv_def)
    with new show False by simp
  qed
  ultimately show ?thesis
    using inv spec assms(2,3) unfolding codec_inv_def st add_canonical_def
    by (auto simp: u bt_simps)
qed

lemma add_canonicals_inv:
  "codec_inv names st \<Longrightarrow> finite names \<Longrightarrow> distinct cs \<Longrightarrow> set cs \<inter> names = {} \<Longrightarrow>
   card names + length cs + 2 < 2 ^ 32 \<Longrightarrow> list_all safe_char base \<Longrightarrow> base \<noteq> [] \<Longrightarrow>
   codec_inv (names \<union> set cs) (fold (add_canonical base needs_suffix) cs st)"
proof (induction cs arbitrary: names st)
  case Nil
  then show ?case by simp
next
  case (Cons c cs)
  have "codec_inv (insert c names) (add_canonical base needs_suffix c st)"
    using Cons.prems by (intro add_canonical_inv) auto
  from Cons.IH [OF this] Cons.prems show ?case by (simp add: insert_absorb)
qed

lemma add_groups_inv:
  "codec_inv names st \<Longrightarrow> finite names \<Longrightarrow> distinct (concat (map snd groups)) \<Longrightarrow>
   set (concat (map snd groups)) \<inter> names = {} \<Longrightarrow>
   card names + length (concat (map snd groups)) + 2 < 2 ^ 32 \<Longrightarrow>
   (\<forall>b \<in> fst ` set groups. list_all safe_char b \<and> b \<noteq> []) \<Longrightarrow>
   codec_inv (names \<union> set (concat (map snd groups))) (fold add_group groups st)"
proof (induction groups arbitrary: names st)
  case Nil
  then show ?case by simp
next
  case (Cons grp groups)
  obtain b cs where g: "grp = (b, cs)" by (cases grp) auto
  have inv: "codec_inv (names \<union> set cs) (add_group grp st)"
    using Cons.prems by (auto simp: g add_group_def intro!: add_canonicals_inv)
  have "card (names \<union> set cs) \<le> card names + length cs"
    by (rule order_trans [OF card_Un_le]) (simp add: card_length)
  with Cons.IH [OF inv] Cons.prems g show ?case
    by (auto simp: Un_assoc Int_Un_distrib)
qed

text \<open>The groups hold each name once, under its base.\<close>

definition groups_inv :: "string set \<Rightarrow> string list smap \<Rightarrow> bool" where
  "groups_inv names groups =
     (bt_wf groups
      \<and> (\<forall>b. distinct (group_names groups b)
            \<and> set (group_names groups b) = {n \<in> names. provider_safe_base n = b}
            \<and> map_of groups b \<noteq> Some []))"

lemma bs_collect_not_Nil: "x \<in> set xs \<Longrightarrow> bs_collect xs \<noteq> []"
  using set_bs_collect [of xs] by (metis empty_iff list.set(1))

lemma add_to_group_inv:
  assumes "groups_inv names groups"
  shows "groups_inv (insert n names) (add_to_group n groups)"
proof -
  let ?g = "add_to_group n groups"
  have wf: "bt_wf groups" using assms by (simp add: groups_inv_def)
  have "map_of ?g = (map_of groups)(provider_safe_base n \<mapsto>
      bs_collect (n # group_names groups (provider_safe_base n)))"
    using wf by (simp add: add_to_group_def Let_def bt_simps)
  then have "group_names ?g b = (if b = provider_safe_base n
      then bs_collect (n # group_names groups b) else group_names groups b)"
    and "map_of ?g b \<noteq> Some []" for b
    using assms by (auto simp: group_names_def groups_inv_def bs_collect_not_Nil [of n])
  moreover have "bt_wf ?g" using wf by (simp add: add_to_group_def Let_def bt_simps)
  moreover have "distinct (bs_collect xs)" for xs :: "string list" by (simp add: bs_collect_def)
  ultimately show ?thesis using assms by (auto simp: groups_inv_def)
qed

lemma groups_inv_fold:
  "groups_inv names groups \<Longrightarrow> groups_inv (names \<union> set ns) (fold add_to_group ns groups)"
proof (induction ns arbitrary: names groups)
  case (Cons n ns)
  from Cons.IH [OF add_to_group_inv [OF Cons.prems]] show ?case by simp
qed simp

lemma groups_inv_concat:
  assumes "groups_inv names groups"
  shows "set (concat (map snd groups)) = names \<and> distinct (concat (map snd groups))"
proof -
  have wf: "bt_wf groups" using assms by (simp add: groups_inv_def)
  have entry: "distinct (snd g) \<and> set (snd g) = {n \<in> names. provider_safe_base n = fst g} \<and> snd g \<noteq> []"
    if "g \<in> set groups" for g
  proof -
    have "map_of groups (fst g) = Some (snd g)" using that bt.get_Some_iff [OF wf] by simp
    with assms show ?thesis by (auto simp: groups_inv_def group_names_def dest: spec [of _ "fst g"])
  qed
  have keys: "distinct (map fst groups)" using bt.distinct_keys [OF wf] by simp
  have inj: "x = y" if "x \<in> set groups" "y \<in> set groups" "snd x = snd y" for x y
  proof -
    have "snd x \<noteq> []" using entry that(1) by blast
    then obtain n where "n \<in> set (snd x)" by (meson last_in_set)
    then have "fst x = fst y"
      using entry [OF that(1)] entry [OF that(2)] that(3) by auto
    with that show ?thesis by (simp add: prod_eq_iff)
  qed
  have "distinct (map snd groups)"
    using keys inj by (auto simp: distinct_map inj_on_def)
  moreover have disjoint: "set (snd x) \<inter> set (snd y) = {}"
    if "x \<in> set groups" "y \<in> set groups" "snd x \<noteq> snd y" for x y
  proof -
    have "fst x \<noteq> fst y"
      using eq_key_imp_eq_value [OF keys, of "fst x" "snd x" "snd y"] that by auto
    with entry [OF that(1)] entry [OF that(2)] show ?thesis by auto
  qed
  ultimately have "distinct (concat (map snd groups))"
    using entry disjoint by (intro distinct_concat) (unfold set_map, blast+)
  moreover have "n \<in> set (concat (map snd groups)) \<longleftrightarrow> n \<in> names" for n
  proof
    assume "n \<in> names"
    then have "n \<in> set (group_names groups (provider_safe_base n))"
      using assms by (simp add: groups_inv_def)
    then obtain ns where "map_of groups (provider_safe_base n) = Some ns" "n \<in> set ns"
      by (cases "map_of groups (provider_safe_base n)") (simp_all add: group_names_def)
    then show "n \<in> set (concat (map snd groups))" by (force dest: map_of_SomeD)
  qed (use entry in auto)
  ultimately show ?thesis by blast
qed

lemma groups_inv_base:
  assumes "groups_inv names groups" "b \<in> fst ` set groups"
  shows "list_all safe_char b \<and> b \<noteq> []"
proof -
  have wf: "bt_wf groups" using assms by (simp add: groups_inv_def)
  obtain ns where "(b, ns) \<in> set groups" using assms(2) by auto
  then have "map_of groups b = Some ns" using bt.get_Some_iff [OF wf] by simp
  with assms(1) obtain n where "n \<in> set (group_names groups b)"
    by (auto simp: groups_inv_def group_names_def) (metis last_in_set option.simps(5))
  with assms(1) have "b = provider_safe_base n" by (simp add: groups_inv_def)
  with provider_safe_base_ok show ?thesis by simp
qed

lemma codec_inv_new:
  assumes "length tools + length extra_names + 2 < 2 ^ 32"
  shows "\<exists>used. codec_inv (set (map ts_name tools @ extra_names))
    (used, new_with_extra_names tools extra_names)"
proof -
  let ?names = "map ts_name tools @ extra_names"
  let ?groups = "fold add_to_group ?names []"
  have "groups_inv {} []" by (simp add: groups_inv_def group_names_def)
  from groups_inv_fold [OF this, of ?names] have groups: "groups_inv (set ?names) ?groups" by simp
  note all = groups_inv_concat [OF groups]
  have "length (concat (map snd ?groups)) = card (set ?names)"
    using all by (metis distinct_card)
  also have "\<dots> \<le> length ?names" by (rule card_length)
  finally have len: "length (concat (map snd ?groups)) + 2 < 2 ^ 32" using assms by simp
  have "codec_inv ({} \<union> set (concat (map snd ?groups)))
    (fold add_group ?groups ([], \<lparr>canonical_to_provider = [], provider_to_canonical = []\<rparr>))"
    using all len groups_inv_base [OF groups]
    by (intro add_groups_inv codec_inv_empty) auto
  then show ?thesis
    using all by (auto simp: new_with_extra_names_def Let_def)
      (metis prod.collapse)
qed

lemma codec_names_declared:
  assumes "length tools + length (message_tool_names messages) + 2 < 2 ^ 32"
    and "canonical_name (new_with_message_history tools messages) p i m = Inr n"
  shows "n \<in> set (map ts_name tools @ message_tool_names messages)"
proof -
  obtain used where "codec_inv (set (map ts_name tools @ message_tool_names messages))
      (used, new_with_message_history tools messages)"
    using codec_inv_new [OF assms(1)] by (auto simp: new_with_message_history_def)
  with assms(2) show ?thesis
    by (auto simp: codec_inv_def canonical_name_def dom_def set_eq_iff split: option.splits)
qed

text \<open>C24: the codec is a bijection between the declared tool names, those of the tools and of the
  message history, and their provider names: a name can be encoded exactly when it is declared,
  decoding gives back the name that was encoded and the reverse, and every provider name is not
  empty, has at most 64 characters and only letters, digits, underscores and hyphens.\<close>

theorem tool_name_codec_bijection:
  assumes "length tools + length (message_tool_names messages) + 2 < 2 ^ 32"
    and "codec = new_with_message_history tools messages"
  shows "(provider_name codec n provider_id model = Inr p
      \<longleftrightarrow> canonical_name codec p provider_id model = Inr n)
    \<and> ((\<exists>q. provider_name codec n provider_id model = Inr q)
      \<longleftrightarrow> n \<in> set (map ts_name tools @ message_tool_names messages))
    \<and> (canonical_name codec p provider_id model = Inr n
      \<longrightarrow> p \<noteq> [] \<and> length p \<le> 64 \<and> list_all safe_char p)"
proof -
  obtain used where inv: "codec_inv (set (map ts_name tools @ message_tool_names messages)) (used, codec)"
    using codec_inv_new [OF assms(1)] assms(2) by (auto simp: new_with_message_history_def)
  then have iff: "map_of (canonical_to_provider codec) n = Some p
      \<longleftrightarrow> map_of (provider_to_canonical codec) p = Some n"
    and ok: "map_of (provider_to_canonical codec) p = Some n \<Longrightarrow> provider_name_ok p"
    and declared: "(\<exists>q. map_of (canonical_to_provider codec) n = Some q)
      \<longleftrightarrow> n \<in> set (map ts_name tools @ message_tool_names messages)"
    unfolding codec_inv_def prod.case by (blast, fastforce, blast)
  have names: "provider_name codec n provider_id model = Inr q
      \<longleftrightarrow> map_of (canonical_to_provider codec) n = Some q" for q
    by (simp add: provider_name_def split: option.split)
  have "canonical_name codec p provider_id model = Inr n
      \<longleftrightarrow> map_of (provider_to_canonical codec) p = Some n"
    by (simp add: canonical_name_def split: option.split)
  with iff declared ok show ?thesis
    unfolding names provider_name_ok_def MAX_PROVIDER_TOOL_NAME_LEN_def by blast
qed

definition named_tool :: "string \<Rightarrow> tool_spec" where
  "named_tool name = \<lparr>ts_name = name, ts_description = [], ts_input_schema = JNull,
     ts_execution_mode = None, ts_permissions = []\<rparr>"

theorem tool_name_codec_bijection_witness:
  "case provider_name (new_with_message_history [named_tool ''host.exec'', named_tool ''host_exec''] [])
      ''host.exec'' ''p'' ''m'' of
     Inl e \<Rightarrow> False
   | Inr p \<Rightarrow> p = ''host_exec_7564c396'' \<and> canonical_name
       (new_with_message_history [named_tool ''host.exec'', named_tool ''host_exec''] []) p ''p'' ''m''
       = Inr ''host.exec''"
proof -
  let ?tools = "[named_tool ''host.exec'', named_tool ''host_exec'']"
  let ?codec = "new_with_message_history ?tools []"
  have name: "provider_name ?codec ''host.exec'' ''p'' ''m'' = Inr ''host_exec_7564c396''" by code_simp
  then show ?thesis
    using tool_name_codec_bijection [of ?tools "[]" ?codec "''host.exec''" "''p''" "''m''" "''host_exec_7564c396''"]
    by (simp add: message_tool_names_def)
qed

end
