(* ===== verification/Provider_Utils.thy ===== *)
theory Provider_Utils
  imports Core_Types
begin

text \<open>
  What the built-in model providers share (\<open>src/provider_utils.rs\<close>, \<open>src/http_auth.rs\<close>,
  \<open>src/tool_arguments.rs\<close>): request headers with their authorization, local media files turned into
  inline data, the scope of replay descriptors and the arguments of a tool call. The crates these
  functions call (http header syntax, URLs, base64, JSON text), the file system and the environment
  are parameters.
\<close>

section \<open>Results\<close>

text \<open>\<open>r?\<close>, and \<open>collect\<close> into a \<open>Result\<close> of a vector.\<close>

definition r_then :: "'e + 'a \<Rightarrow> ('a \<Rightarrow> 'e + 'b) \<Rightarrow> 'e + 'b" where
  "r_then r f = (case r of Inl e \<Rightarrow> Inl e | Inr x \<Rightarrow> f x)"

fun r_collect :: "('a \<Rightarrow> 'e + 'b) \<Rightarrow> 'a list \<Rightarrow> 'e + 'b list" where
  "r_collect f [] = Inr []"
| "r_collect f (x # xs) =
     r_then (f x) (\<lambda>y. r_then (r_collect f xs) (\<lambda>ys. Inr (y # ys)))"

lemma r_then_simps [simp]: "r_then (Inl e) f = Inl e" "r_then (Inr x) f = f x"
  by (simp_all add: r_then_def)

lemma r_then_Inr_iff: "r_then r f = Inr y \<longleftrightarrow> (\<exists>x. r = Inr x \<and> f x = Inr y)"
  by (cases r) auto

lemma r_collect_Inr_iff: "r_collect f xs = Inr ys \<longleftrightarrow> list_all2 (\<lambda>x y. f x = Inr y) xs ys"
  by (induction xs arbitrary: ys) (auto simp: r_then_Inr_iff list_all2_Cons1)

lemma r_collect_ok: "(\<exists>ys. r_collect f xs = Inr ys) \<longleftrightarrow> (\<forall>x \<in> set xs. \<exists>y. f x = Inr y)"
  by (induction xs) (auto simp: r_then_Inr_iff)

section \<open>Libraries\<close>

text \<open>JSON text: \<open>serde_json::from_str\<close>, with the message of its error, and \<open>Value::to_string\<close>.\<close>

record json_text =
  js_parse :: "string \<Rightarrow> string + json"
  js_show :: "json \<Rightarrow> string"

text \<open>The http crate: a name is checked and normalised, a value is checked.\<close>

record http_lib =
  hl_header_name :: "string \<Rightarrow> string + string"
  hl_header_value :: "string \<Rightarrow> string + string"
  hl_env_var :: "string \<Rightarrow> string option"

record parsed_url =
  pu_scheme :: string
  pu_file_path :: "string option"

record 'w local_files =
  lf_parse_url :: "string \<Rightarrow> string + parsed_url"
  lf_read :: "string \<Rightarrow> 'w \<Rightarrow> 'w \<times> (string + string)"
  lf_base64 :: "string \<Rightarrow> string"
  lf_file_name :: "string \<Rightarrow> string option"

definition parse_tool_arguments :: "json_text \<Rightarrow> string \<Rightarrow> json" where
  "parse_tool_arguments js arguments_json =
     (if is_blank arguments_json then JObject []
      else case js_parse js arguments_json of
        Inl e \<Rightarrow> JString arguments_json
      | Inr v \<Rightarrow> v)"

section \<open>Reading JSON\<close>

fun json_as_array :: "json \<Rightarrow> json list option" where
  "json_as_array (JArray vs) = Some vs"
| "json_as_array _ = None"

fun json_as_object :: "json \<Rightarrow> json_map option" where
  "json_as_object (JObject m) = Some m"
| "json_as_object _ = None"

fun json_as_bool :: "json \<Rightarrow> bool option" where
  "json_as_bool (JBool b) = Some b"
| "json_as_bool _ = None"

text \<open>\<open>get(key).and_then(Value::as_str)\<close>, and the same with \<open>!s.is_empty()\<close>.\<close>

definition get_str :: "json_map \<Rightarrow> string \<Rightarrow> string option" where
  "get_str m key = Option.bind (map_of m key) json_as_str"

definition non_empty :: "string option \<Rightarrow> string option" where
  "non_empty s = (if s = Some [] then None else s)"

text \<open>\<open>entry(index).or_insert_with(default)\<close> and the changes made to the entry.\<close>

definition update_entry ::
  "'k::linorder \<Rightarrow> 'v \<Rightarrow> ('v \<Rightarrow> 'v) \<Rightarrow> ('k, 'v) btree_map \<Rightarrow> ('k, 'v) btree_map" where
  "update_entry key initial f m =
     bt_insert key (f (case map_of m key of Some v \<Rightarrow> v | None \<Rightarrow> initial)) m"

section \<open>Authorization\<close>

record http_auth_context =
  hac_provider_id :: string
  hac_method :: string
  hac_url :: string
  hac_attempt :: nat
  hac_metadata :: json_map

definition http_auth_context_new :: "string \<Rightarrow> string \<Rightarrow> string \<Rightarrow> nat \<Rightarrow> http_auth_context" where
  "http_auth_context_new provider_id method url attempt =
     \<lparr>hac_provider_id = provider_id, hac_method = method, hac_url = url, hac_attempt = attempt,
      hac_metadata = []\<rparr>"

record http_auth_header =
  hah_name :: string
  hah_value :: string

record http_auth_headers =
  hhs_headers :: "http_auth_header list"
  hhs_metadata :: json_map

datatype http_auth_refresh_reason = Unauthorized | Proactive

record http_auth_refresh_context =
  hrc_context :: http_auth_context
  hrc_reason :: http_auth_refresh_reason
  hrc_status :: "nat option"
  hrc_metadata :: json_map

definition refresh_context_unauthorized :: "http_auth_context \<Rightarrow> nat \<Rightarrow> http_auth_refresh_context" where
  "refresh_context_unauthorized ctxt status =
     \<lparr>hrc_context = ctxt, hrc_reason = Unauthorized, hrc_status = Some status, hrc_metadata = []\<rparr>"

definition refresh_context_proactive :: "http_auth_context \<Rightarrow> http_auth_refresh_context" where
  "refresh_context_proactive ctxt =
     \<lparr>hrc_context = ctxt, hrc_reason = Proactive, hrc_status = None, hrc_metadata = []\<rparr>"

record http_auth_refresh_result =
  hrr_retry :: bool
  hrr_headers :: "http_auth_header list option"
  hrr_metadata :: json_map

definition refresh_deny :: http_auth_refresh_result where
  "refresh_deny = \<lparr>hrr_retry = False, hrr_headers = None, hrr_metadata = []\<rparr>"

definition refresh_retry :: http_auth_refresh_result where
  "refresh_retry = \<lparr>hrr_retry = True, hrr_headers = None, hrr_metadata = []\<rparr>"

definition refresh_retry_with_headers :: "http_auth_header list \<Rightarrow> http_auth_refresh_result" where
  "refresh_retry_with_headers headers =
     \<lparr>hrr_retry = True, hrr_headers = Some headers, hrr_metadata = []\<rparr>"

record 'w http_auth_provider =
  ha_id :: string
  ha_headers :: "http_auth_context \<Rightarrow> ('w, agent_core_error, http_auth_headers) eff"
  ha_refresh :: "http_auth_refresh_context \<Rightarrow> ('w, agent_core_error, http_auth_refresh_result) eff"

text \<open>A \<open>HeaderMap\<close> that is only filled by \<open>insert\<close> has one value for a name.\<close>

type_synonym header_map = "string smap"

fun insert_headers :: "http_lib \<Rightarrow> (string \<times> string) list \<Rightarrow> header_map \<Rightarrow> header_map result" where
  "insert_headers http [] rendered = Inr rendered"
| "insert_headers http ((name, value) # headers) rendered =
     (case hl_header_name http name of
        Inl error \<Rightarrow> Inl (Provider (''invalid header name: '' @ error))
      | Inr name' \<Rightarrow>
          (case hl_header_value http value of
             Inl error \<Rightarrow> Inl (Provider (''invalid header value: '' @ error))
           | Inr value' \<Rightarrow> insert_headers http headers (bt_insert name' value' rendered)))"

definition headers_from_map :: "http_lib \<Rightarrow> string smap \<Rightarrow> header_map result" where
  "headers_from_map http headers = insert_headers http headers []"

definition headers_from_http_auth :: "http_lib \<Rightarrow> http_auth_header list \<Rightarrow> header_map result" where
  "headers_from_http_auth http headers =
     insert_headers http (map (\<lambda>h. (hah_name h, hah_value h)) headers) []"

definition resolve_api_key :: "http_lib \<Rightarrow> string option \<Rightarrow> string option \<Rightarrow> string option result" where
  "resolve_api_key http api_key api_key_env =
     (case api_key of
        Some api_key \<Rightarrow> Inr (Some api_key)
      | None \<Rightarrow>
          (case api_key_env of
             None \<Rightarrow> Inr None
           | Some api_key_env \<Rightarrow>
               (case hl_env_var http api_key_env of
                  Some value \<Rightarrow> Inr (Some value)
                | None \<Rightarrow> Inl (Provider (''missing API key environment variable: '' @ api_key_env)))))"

definition resolve_auth_headers ::
  "http_lib \<Rightarrow> 'w http_auth_provider option \<Rightarrow> string option \<Rightarrow> string option \<Rightarrow> http_auth_context
     \<Rightarrow> http_auth_header list option \<Rightarrow> ('w, agent_core_error, header_map) eff" where
  "resolve_auth_headers http auth_provider api_key api_key_env ctxt refreshed_headers =
     (case refreshed_headers of
        Some refreshed_headers \<Rightarrow> lift_result (headers_from_http_auth http refreshed_headers)
      | None \<Rightarrow>
          (case auth_provider of
             Some auth_provider \<Rightarrow>
               and_then (ha_headers auth_provider ctxt) (\<lambda>headers.
               lift_result (headers_from_http_auth http (hhs_headers headers)))
           | None \<Rightarrow>
               lift_result (case resolve_api_key http api_key api_key_env of
                  Inl e \<Rightarrow> Inl e
                | Inr None \<Rightarrow> Inr []
                | Inr (Some api_key) \<Rightarrow>
                    (case hl_header_value http (''Bearer '' @ api_key) of
                       Inl error \<Rightarrow>
                         Inl (Provider (''invalid bearer authorization header: '' @ error))
                     | Inr value \<Rightarrow> Inr [(''authorization'', value)]))))"

definition refresh_auth_provider ::
  "'w http_auth_provider option \<Rightarrow> http_auth_refresh_context
     \<Rightarrow> ('w, agent_core_error, http_auth_refresh_result option) eff" where
  "refresh_auth_provider auth_provider ctxt =
     (case auth_provider of
        None \<Rightarrow> ok None
      | Some auth_provider \<Rightarrow>
          and_then (ha_refresh auth_provider ctxt) (\<lambda>result. ok (Some result)))"

section \<open>Local media files\<close>

datatype local_file_policy = InlineFile | LeaveFile | RejectFile string

definition local_file_uri_path :: "'w local_files \<Rightarrow> media_block \<Rightarrow> string option result" where
  "local_file_uri_path lf media =
     (case mb_source media of
        Uri uri \<Rightarrow>
          (case lf_parse_url lf uri of
             Inl error \<Rightarrow>
               if prefix ''file:'' (trim_start uri)
               then Inl (Provider (''local file URI cannot be parsed: '' @ uri @ '': '' @ error))
               else Inr None
           | Inr url \<Rightarrow>
               if pu_scheme url \<noteq> ''file'' then Inr None
               else case pu_file_path url of
                 Some path \<Rightarrow> Inr (Some path)
               | None \<Rightarrow> Inl (Provider (''local file URI cannot be converted to a path: '' @ uri)))
      | _ \<Rightarrow> Inr None)"

definition inline_local_file_uri_media ::
  "'w local_files \<Rightarrow> media_block \<Rightarrow> ('w, agent_core_error, media_block \<times> bool) eff" where
  "inline_local_file_uri_media lf media =
     and_then (lift_result (local_file_uri_path lf media)) (\<lambda>path.
     case path of
       None \<Rightarrow> ok (media, False)
     | Some path \<Rightarrow> (\<lambda>w. case lf_read lf path w of
           (w', Inl error) \<Rightarrow>
             (w', Inl (Provider (''failed to read local media file '' @ path @ '': '' @ error)))
         | (w', Inr data) \<Rightarrow>
             (w', Inr (media\<lparr>mb_name := (if mb_name media = None then lf_file_name lf path
                                        else mb_name media),
                             mb_source := Inline (lf_base64 lf data) Base64\<rparr>, True))))"

definition materialize_local_file_uri_media ::
  "'w local_files \<Rightarrow> (media_block \<Rightarrow> local_file_policy) \<Rightarrow> media_block
     \<Rightarrow> ('w, agent_core_error, media_block) eff" where
  "materialize_local_file_uri_media lf policy media =
     and_then (lift_result (local_file_uri_path lf media)) (\<lambda>path.
     if path = None then ok media
     else case policy media of
       InlineFile \<Rightarrow> and_then (inline_local_file_uri_media lf media) (\<lambda>(media', _). ok media')
     | LeaveFile \<Rightarrow> ok media
     | RejectFile message \<Rightarrow> err (Provider message))"

fun materialize_content ::
  "'w local_files \<Rightarrow> (media_block \<Rightarrow> local_file_policy) \<Rightarrow> content_block list
     \<Rightarrow> ('w, agent_core_error, content_block list) eff" where
  "materialize_content lf policy [] = ok []"
| "materialize_content lf policy (block # blocks) =
     and_then
       (case block of
          Media media \<Rightarrow>
            and_then (materialize_local_file_uri_media lf policy media) (\<lambda>media'. ok (Media media'))
        | ToolResult tool_call_id tool_name content is_error \<Rightarrow>
            and_then (materialize_content lf policy content) (\<lambda>content'.
            ok (ToolResult tool_call_id tool_name content' is_error))
        | _ \<Rightarrow> ok block) (\<lambda>block'.
     and_then (materialize_content lf policy blocks) (\<lambda>blocks'. ok (block' # blocks')))"

fun materialize_messages ::
  "'w local_files \<Rightarrow> (media_block \<Rightarrow> local_file_policy) \<Rightarrow> agent_message list
     \<Rightarrow> ('w, agent_core_error, agent_message list) eff" where
  "materialize_messages lf policy [] = ok []"
| "materialize_messages lf policy (message # messages) =
     and_then (materialize_content lf policy (msg_content message)) (\<lambda>content.
     and_then (materialize_messages lf policy messages) (\<lambda>messages'.
     ok (message\<lparr>msg_content := content\<rparr> # messages')))"

definition materialize_local_file_uri_media_in_request ::
  "'w local_files \<Rightarrow> (media_block \<Rightarrow> local_file_policy) \<Rightarrow> model_request
     \<Rightarrow> ('w, agent_core_error, model_request) eff" where
  "materialize_local_file_uri_media_in_request lf policy request =
     and_then (materialize_messages lf policy (mr_messages request)) (\<lambda>messages.
     ok (request\<lparr>mr_messages := messages\<rparr>))"

section \<open>Replay scope\<close>

datatype replay_scope_match = ScopeMatch | ScopeIgnore | ScopeUnsupported

definition replay_scope_match ::
  "nat \<Rightarrow> string \<Rightarrow> string \<Rightarrow> string \<Rightarrow> string \<Rightarrow> string \<Rightarrow> string \<Rightarrow> replay_scope_match" where
  "replay_scope_match version kind expected_kind provider_id expected_provider_id model expected_model =
     (if version \<noteq> 1 \<or> kind \<noteq> expected_kind then ScopeUnsupported
      else if provider_id \<noteq> expected_provider_id \<or> model \<noteq> expected_model then ScopeIgnore
      else ScopeMatch)"

text \<open>
  What \<open>serde\<close> reads as a string, an unsigned number and a unit variant; a structure with unknown
  fields ignored is read from an object or, positionally, from an array.
\<close>

fun json_as_u64 :: "json \<Rightarrow> nat option" where
  "json_as_u64 (JInt i) = (if 0 \<le> i \<and> i < 2 ^ 64 then Some (nat i) else None)"
| "json_as_u64 _ = None"

fun json_variant :: "json \<Rightarrow> string option" where
  "json_variant (JString s) = Some s"
| "json_variant (JObject [(k, JNull)]) = Some k"
| "json_variant _ = None"

fun json_struct_fields :: "string list \<Rightarrow> json \<Rightarrow> json list option" where
  "json_struct_fields names (JObject m) = those (map (map_of m) names)"
| "json_struct_fields names (JArray vs) = (if length vs = length names then Some vs else None)"
| "json_struct_fields names _ = None"

text \<open>The same with one more, optional field, and the reading of an optional string.\<close>

fun json_struct_fields_opt ::
  "string list \<Rightarrow> string \<Rightarrow> json \<Rightarrow> (json list \<times> json option) option" where
  "json_struct_fields_opt names opt (JObject m) =
     map_option (\<lambda>vs. (vs, map_of m opt)) (those (map (map_of m) names))"
| "json_struct_fields_opt names opt (JArray vs) =
     (if length vs = length names then Some (vs, None)
      else if length vs = length names + 1 then Some (butlast vs, Some (last vs)) else None)"
| "json_struct_fields_opt names opt _ = None"

fun json_opt_str :: "json option \<Rightarrow> string option option" where
  "json_opt_str None = Some None"
| "json_opt_str (Some JNull) = Some None"
| "json_opt_str (Some (JString s)) = Some (Some s)"
| "json_opt_str (Some _) = None"

text \<open>\<open>value.get(key).and_then(Value::as_object)\<close>, and the same with \<open>as_u64\<close>.\<close>

definition get_object :: "json \<Rightarrow> string \<Rightarrow> json_map option" where
  "get_object value key = Option.bind (json_get value key) json_as_object"

definition get_u64 :: "json \<Rightarrow> string \<Rightarrow> nat option" where
  "get_u64 value key = Option.bind (json_get value key) json_as_u64"

text \<open>\<open>a.or(b)\<close>.\<close>

definition or_else :: "'a option \<Rightarrow> 'a option \<Rightarrow> 'a option" where
  "or_else x y = (case x of None \<Rightarrow> y | Some _ \<Rightarrow> x)"

end
