(* ===== verification/Provider_Env.thy ===== *)
theory Provider_Env
  imports Provider_Utils Tool_Names Sse_Handler
begin

text \<open>
  What the built-in model providers run in (\<open>src/chat_completions.rs\<close>, \<open>src/responses.rs\<close>,
  \<open>src/anthropic_messages.rs\<close>): the HTTP client, the world together with the provider's own stream
  state, the client given to the stream reader, and the loop that refreshes the authorization once
  after a 401. The data handler of a provider is a locale, which gives the reader's contract.
\<close>

text \<open>
  The HTTP client: the check for cancellation, a POST with a JSON body, whose outcome is what the
  \<open>select!\<close> over it yields, and the sleep of \<open>tokio\<close>.
\<close>

record 'w http_client =
  hc_cancelled :: "('w, agent_core_error, unit) eff"
  hc_post :: "string \<Rightarrow> header_map \<Rightarrow> json \<Rightarrow> 'w \<Rightarrow> 'w \<times> request_event"
  hc_sleep :: "nat \<Rightarrow> ('w, agent_core_error, unit) eff"

record 'w provider_env =
  pe_json :: json_text
  pe_http :: http_lib
  pe_client :: "'w http_client"
  pe_files :: "'w local_files"

record ('w, 'x) provider_world =
  pw_world :: 'w
  pw_state :: 'x

definition in_pw :: "('w, 'e, 'a) eff \<Rightarrow> (('w, 'x) provider_world, 'e, 'a) eff" where
  "in_pw = zoom pw_world (\<lambda>w p. p\<lparr>pw_world := w\<rparr>)"

definition in_ps :: "('x, 'e, 'a) eff \<Rightarrow> (('w, 'x) provider_world, 'e, 'a) eff" where
  "in_ps = zoom pw_state (\<lambda>x p. p\<lparr>pw_state := x\<rparr>)"

type_synonym 'w model_stream_sink = "model_stream_event \<Rightarrow> ('w, agent_core_error, unit) eff"
type_synonym 'x frame_handler = "string \<Rightarrow> ('x, agent_core_error, sse_frame_result) eff"

text \<open>The client of a request: \<open>SseStreamOptions\<close> and the two closures given with it.\<close>

definition provider_client ::
  "string \<Rightarrow> sse_reconnect_config \<Rightarrow> 'w provider_env \<Rightarrow> string \<Rightarrow> header_map \<Rightarrow> json
     \<Rightarrow> 'w model_stream_sink \<Rightarrow> 'x frame_handler \<Rightarrow> ('w, 'x) provider_world sse_client" where
  "provider_client label reconnect env url headers payload stream handle =
     \<lparr>sc_provider_label = label,
      sc_reconnect = reconnect,
      sc_cancelled = in_pw (hc_cancelled (pe_client env)),
      sc_request = (\<lambda>p. case hc_post (pe_client env) url headers payload (pw_world p) of
                      (w, q) \<Rightarrow> (p\<lparr>pw_world := w\<rparr>, q)),
      sc_sleep = (\<lambda>d. in_pw (hc_sleep (pe_client env) d)),
      sc_stream = (\<lambda>ev. in_pw (stream ev)),
      sc_handle_data = (\<lambda>data. in_ps (handle data))\<rparr>"

definition provider_start :: "'w \<Rightarrow> 'x \<Rightarrow> ('w, 'x) provider_world sse_state" where
  "provider_start w x =
     \<lparr>ss_world = \<lparr>pw_world = w, pw_state = x\<rparr>, ss_events = [], ss_data_delivered = False,
      ss_terminal = False, ss_frame_results = []\<rparr>"

text \<open>\<open>trim_end_matches('/')\<close>.\<close>

definition trim_end_slashes :: "string \<Rightarrow> string" where
  "trim_end_slashes s = rev (dropWhile (\<lambda>c. c = CHR ''/'') (rev s))"

text \<open>Emitting the last events appends them.\<close>

lemma emit_events_append:
  "for_each evs (emit_model_stream_event c) s = (s', Inr ()) \<Longrightarrow> ss_events s' = ss_events s @ evs"
proof (induction evs arbitrary: s)
  case (Cons ev evs)
  then obtain t where t: "emit_model_stream_event c ev s = (t, Inr ())"
    and rest: "for_each evs (emit_model_stream_event c) t = (s', Inr ())"
    by (auto simp: and_then_Inr_iff)
  from t have "ss_events t = ss_events s @ [ev]"
    by (auto simp: emit_model_stream_event_def and_then_Inr_iff on_world_def zoom_def split: prod.splits)
  with Cons.IH [OF rest] show ?case by simp
qed simp

text \<open>Materializing local files changes neither the tools nor the names in the history.\<close>

lemma materialize_content_names:
  "materialize_content lf policy content w = (w', Inr content') \<Longrightarrow>
   List.map_filter block_tool_name content' = List.map_filter block_tool_name content"
proof (induction content arbitrary: w w' content')
  case (Cons block blocks)
  from Cons.prems obtain block' blocks' v where
    block: "(case block of
          Media media \<Rightarrow>
            and_then (materialize_local_file_uri_media lf policy media) (\<lambda>media'. ok (Media media'))
        | ToolResult tool_call_id tool_name content is_error \<Rightarrow>
            and_then (materialize_content lf policy content) (\<lambda>content'.
            ok (ToolResult tool_call_id tool_name content' is_error))
        | _ \<Rightarrow> ok block) w = (v, Inr block')"
    and rest: "materialize_content lf policy blocks v = (w', Inr blocks')"
    and c: "content' = block' # blocks'"
    by (auto simp: and_then_Inr_iff)
  from block have "block_tool_name block' = block_tool_name block"
    by (auto simp: block_tool_name_def and_then_Inr_iff split: content_block.splits)
  with Cons.IH [OF rest] c show ?case by (simp add: map_filter_simps split: option.split)
qed simp

lemma materialize_messages_names:
  "materialize_messages lf policy messages w = (w', Inr messages') \<Longrightarrow>
   message_tool_names messages' = message_tool_names messages"
  by (induction messages arbitrary: w w' messages')
    (auto simp: and_then_Inr_iff message_tool_names_def dest!: materialize_content_names)

section \<open>Terminal events\<close>

definition terminal_event :: "model_stream_event \<Rightarrow> bool" where
  "terminal_event ev = (case ev of Finished reason \<Rightarrow> True | Failed message \<Rightarrow> True | _ \<Rightarrow> False)"

text \<open>Some events, none of them terminal, and then a terminal one if the stream is finished.\<close>

definition single_terminal :: "bool \<Rightarrow> model_stream_event list \<Rightarrow> bool" where
  "single_terminal finished evs =
     (\<exists>body last. evs = body @ last \<and> \<not> list_ex terminal_event body
        \<and> (if finished then \<exists>ev. last = [ev] \<and> terminal_event ev else last = []))"

lemma single_terminal_Nil [simp]: "single_terminal False []"
  by (simp add: single_terminal_def)

lemma single_terminal_append:
  "single_terminal False evs \<Longrightarrow> \<not> list_ex terminal_event more' \<Longrightarrow> single_terminal False (evs @ more')"
  by (simp add: single_terminal_def)

lemma single_terminal_finish:
  "single_terminal False evs \<Longrightarrow> \<not> list_ex terminal_event more' \<Longrightarrow> terminal_event ev \<Longrightarrow>
   single_terminal True (evs @ more' @ [ev])"
  unfolding single_terminal_def by (rule exI [of _ "evs @ more'"]) auto

text \<open>An event that calls one of the declared tools.\<close>

definition call_event_of :: "string list \<Rightarrow> model_stream_event \<Rightarrow> bool" where
  "call_event_of names ev = (case ev of ToolCallEvent call \<Rightarrow> tc_name call \<in> set names | _ \<Rightarrow> False)"

section \<open>Attempts with a refresh of the authorization\<close>

text \<open>
  The loop over attempts: \<open>headers\<close> gives the headers of an attempt, \<open>context\<close> its authorization
  context. A 401 of the first attempt asks the authorization provider, if there is one, to refresh.
\<close>

definition is_unauthorized :: "agent_core_error \<Rightarrow> bool" where
  "is_unauthorized e = (case e of HttpStatus p status body \<Rightarrow> status = 401 | _ \<Rightarrow> False)"

function run_attempts ::
  "(header_map \<Rightarrow> ('w, 'x) provider_world sse_client)
     \<Rightarrow> (nat \<Rightarrow> http_auth_header list option \<Rightarrow> ('w, agent_core_error, header_map) eff)
     \<Rightarrow> (nat \<Rightarrow> http_auth_context) \<Rightarrow> 'w http_auth_provider option
     \<Rightarrow> nat \<Rightarrow> http_auth_header list option \<Rightarrow> ('w, 'x) provider_world sse_state
     \<Rightarrow> ('w, 'x) provider_world sse_state \<times> unit result" where
  "run_attempts client headers ctxt auth attempt refreshed s =
     (case on_world (in_pw (headers attempt refreshed)) s of
        (s, Inl e) \<Rightarrow> (s, Inl e)
      | (s, Inr h) \<Rightarrow>
          (case run_sse_model_stream (client h) s of
             (s, Inr _) \<Rightarrow> (s, Inr ())
           | (s, Inl e) \<Rightarrow>
               if is_unauthorized e \<and> attempt = 0 \<and> auth \<noteq> None
               then (case on_world (in_pw (refresh_auth_provider auth
                        (refresh_context_unauthorized (ctxt attempt) 401))) s of
                       (s, Inl e') \<Rightarrow> (s, Inl e')
                     | (s, Inr None) \<Rightarrow> (s, Inl e)
                     | (s, Inr (Some refresh)) \<Rightarrow>
                         if hrr_retry refresh
                         then run_attempts client headers ctxt auth (attempt + 1)
                                (hrr_headers refresh) s
                         else (s, Inl e))
               else (s, Inl e)))"
  by pat_completeness auto
termination
  by (relation "measure (\<lambda>(c, h, x, a, n, r, s). 1 - n)") auto

declare run_attempts.simps [simp del]

section \<open>The contract of a data handler\<close>

locale frame_handling =
  fixes handle :: "'x frame_handler"
    and I :: "'x \<Rightarrow> model_stream_event list \<Rightarrow> bool"
    and Z :: "'x \<Rightarrow> bool"
  assumes handle: "I x evs \<Longrightarrow> \<not> Z x \<Longrightarrow> handle data x = (x', Inr r) \<Longrightarrow>
      I x' (evs @ fr_events r) \<and> (Z x' \<longleftrightarrow> fr_terminal r)"

sublocale frame_handling \<subseteq> client: sse_handler
    "provider_client label reconnect env url headers payload stream handle"
    "\<lambda>p. I (pw_state p)" "\<lambda>p. Z (pw_state p)"
  for label reconnect env url headers payload stream
  by unfold_locales
    (auto simp: provider_client_def in_pw_def in_ps_def zoom_def dest: handle split: prod.splits)

text \<open>
  Nothing but the server answers 401, the assumption under which a refresh starts afresh: neither the
  client's own errors nor the stream observer's have that status, nor the data handler's.
\<close>

definition quiet_environment :: "'w provider_env \<Rightarrow> 'w model_stream_sink \<Rightarrow> bool" where
  "quiet_environment env stream =
     ((\<forall>w w' e. hc_cancelled (pe_client env) w = (w', Inl e) \<longrightarrow> \<not> is_unauthorized e)
      \<and> (\<forall>d w w' e. hc_sleep (pe_client env) d w = (w', Inl e) \<longrightarrow> \<not> is_unauthorized e)
      \<and> (\<forall>ev w w' e. stream ev w = (w', Inl e) \<longrightarrow> \<not> is_unauthorized e))"

definition unauthorized_from_server ::
  "'w provider_env \<Rightarrow> 'w model_stream_sink \<Rightarrow> 'x frame_handler \<Rightarrow> bool" where
  "unauthorized_from_server env stream handle =
     (quiet_environment env stream
      \<and> (\<forall>data x x' e. handle data x = (x', Inl e) \<longrightarrow> \<not> is_unauthorized e))"

lemma server_errors_provider_client:
  "unauthorized_from_server env stream handle \<Longrightarrow>
   server_errors is_unauthorized (provider_client label reconnect env url h payload stream handle)"
  by (auto simp: unauthorized_from_server_def quiet_environment_def server_errors_def provider_client_def in_pw_def in_ps_def
      zoom_def is_unauthorized_def split: prod.splits)

lemma on_world_in_pw:
  "on_world (in_pw m) s = (s', r) \<Longrightarrow>
   pw_state (ss_world s') = pw_state (ss_world s) \<and> ss_events s' = ss_events s"
  by (auto simp: on_world_def in_pw_def zoom_def split: prod.splits)

context frame_handling
begin

text \<open>
  When the attempts succeed, the events are those the handler gave, and it saw a terminal frame,
  also when the authorization was refreshed in between.
\<close>

lemma run_attempts_reading:
  assumes "unauthorized_from_server env stream handle"
  shows "run_attempts (\<lambda>h. provider_client label reconnect env url h payload stream handle)
      headers ctxt auth attempt refreshed s = (s', Inr ()) \<Longrightarrow>
    I (pw_state (ss_world s)) (ss_events s) \<Longrightarrow> \<not> Z (pw_state (ss_world s)) \<Longrightarrow>
    I (pw_state (ss_world s')) (ss_events s') \<and> Z (pw_state (ss_world s'))"
proof (induction "1 - attempt" arbitrary: attempt refreshed s rule: less_induct)
  case less
  let ?client = "\<lambda>h. provider_client label reconnect env url h payload stream handle"
  let ?I = "\<lambda>s. I (pw_state (ss_world s)) (ss_events s)" and ?Z = "\<lambda>s. Z (pw_state (ss_world s))"
  obtain t q where t: "on_world (in_pw (headers attempt refreshed)) s = (t, q)" by force
  have It: "?I t" "\<not> ?Z t" using on_world_in_pw [OF t] less.prems(2,3) by simp_all
  from less.prems(1) t obtain h where q: "q = Inr h"
    by (cases q) (auto simp: run_attempts.simps [of _ _ _ _ attempt])
  obtain u z where u: "run_sse_model_stream (?client h) t = (u, z)" by force
  show ?case
  proof (cases z)
    case (Inr y)
    with less.prems(1) t q u have "s' = u" by (simp add: run_attempts.simps [of _ _ _ _ attempt])
    with client.run_sse_model_stream_reading [OF It] u Inr show ?thesis by auto
  next
    case (Inl e)
    with less.prems(1) t q u have first: "is_unauthorized e" "attempt = 0" "auth \<noteq> None"
      by (auto simp: run_attempts.simps [of _ _ _ _ attempt] split: if_splits)
    have Iu: "?I u \<and> \<not> ?Z u"
      by (rule client.run_sse_model_stream_error
        [OF server_errors_provider_client [OF assms] It u [unfolded Inl] first(1)])
    obtain v x where v: "on_world (in_pw (refresh_auth_provider auth
        (refresh_context_unauthorized (ctxt attempt) 401))) u = (v, x)" by force
    have Iv: "?I v" "\<not> ?Z v" using on_world_in_pw [OF v] Iu by simp_all
    from less.prems(1) t q u Inl first v obtain refresh where "x = Inr (Some refresh)"
      and "hrr_retry refresh"
      and "run_attempts ?client headers ctxt auth (attempt + 1) (hrr_headers refresh) v = (s', Inr ())"
      by (auto simp: run_attempts.simps [of _ _ _ _ 0] split: sum.splits option.splits if_splits)
    from less.hyps [OF _ this(3) Iv] first(2) show ?thesis by simp
  qed
qed

end

text \<open>
  A concrete environment of the model providers, on which instances of the theorems are evaluated: a
  client that gives the responses listed in its world, and a request with one tool.
\<close>

definition sample_env_with :: "json_text \<Rightarrow> request_event list provider_env" where
  "sample_env_with js =
     \<lparr>pe_json = js,
      pe_http = \<lparr>hl_header_name = Inr, hl_header_value = Inr, hl_env_var = (\<lambda>_. Some ''key'')\<rparr>,
      pe_client = \<lparr>hc_cancelled = ok (),
        hc_post = (\<lambda>url h payload w. case w of [] \<Rightarrow> ([], RequestCancelled) | q # qs \<Rightarrow> (qs, q)),
        hc_sleep = (\<lambda>d. ok ())\<rparr>,
      pe_files = \<lparr>lf_parse_url = (\<lambda>_. Inl ''relative URL''), lf_read = (\<lambda>p w. (w, Inl ''none'')),
        lf_base64 = (\<lambda>s. s), lf_file_name = (\<lambda>s. None)\<rparr>\<rparr>"

definition sample_request :: model_request where
  "sample_request = \<lparr>mr_run_id = ''run-1'', mr_turn_id = 1, mr_messages = [], mr_context = [],
     mr_tools = [named_tool ''host.exec''], mr_metadata = []\<rparr>"

definition sample_response :: "string list \<Rightarrow> request_event" where
  "sample_response chunks =
     Responded \<lparr>hr_status = 200, hr_status_text = [], hr_chunks = map Chunk chunks\<rparr>"

end
