(* ===== verification/Chat_Payload.thy ===== *)
theory Chat_Payload
  imports Provider_Utils Tool_Names Sse_Stream
begin

text \<open>
  The request of the chat completions provider (\<open>src/chat_completions.rs\<close>): its configuration and
  the JSON payload that renders the messages, media, tools and replayed reasoning of a model request.
  A floating-point setting is kept as the JSON value it becomes.
\<close>

section \<open>Configuration\<close>

datatype chat_image_detail = DetailAuto | DetailLow | DetailHigh | DetailCustom string

fun image_detail_as_str :: "chat_image_detail \<Rightarrow> string" where
  "image_detail_as_str DetailAuto = ''auto''"
| "image_detail_as_str DetailLow = ''low''"
| "image_detail_as_str DetailHigh = ''high''"
| "image_detail_as_str (DetailCustom detail) = detail"

datatype chat_output_modality = ModalityText | ModalityAudio | ModalityCustom string

fun output_modality_as_str :: "chat_output_modality \<Rightarrow> string" where
  "output_modality_as_str ModalityText = ''text''"
| "output_modality_as_str ModalityAudio = ''audio''"
| "output_modality_as_str (ModalityCustom modality) = modality"

datatype chat_audio_format = Wav | Mp3 | Flac | Opus | Pcm16 | AudioCustom string

fun audio_format_as_str :: "chat_audio_format \<Rightarrow> string" where
  "audio_format_as_str Wav = ''wav''"
| "audio_format_as_str Mp3 = ''mp3''"
| "audio_format_as_str Flac = ''flac''"
| "audio_format_as_str Opus = ''opus''"
| "audio_format_as_str Pcm16 = ''pcm16''"
| "audio_format_as_str (AudioCustom format) = format"

definition audio_format_from_wire :: "string \<Rightarrow> chat_audio_format" where
  "audio_format_from_wire format =
     (if format = ''wav'' then Wav else if format = ''mp3'' then Mp3
      else if format = ''flac'' then Flac else if format = ''opus'' then Opus
      else if format = ''pcm16'' then Pcm16 else AudioCustom format)"

fun audio_format_mime_type :: "chat_audio_format \<Rightarrow> string option" where
  "audio_format_mime_type Wav = Some ''audio/wav''"
| "audio_format_mime_type Mp3 = Some ''audio/mpeg''"
| "audio_format_mime_type Flac = Some ''audio/flac''"
| "audio_format_mime_type Opus = Some ''audio/opus''"
| "audio_format_mime_type Pcm16 = Some ''audio/pcm''"
| "audio_format_mime_type (AudioCustom format) = None"

record chat_output_audio_config =
  coa_format :: chat_audio_format
  coa_voice :: string

record 'w chat_config =
  cc_id :: string
  cc_base_url :: string
  cc_model :: string
  cc_api_key :: "string option"
  cc_api_key_env :: "string option"
  cc_auth_provider :: "'w http_auth_provider option"
  cc_headers :: "string smap"
  cc_extra_body :: json_map
  cc_max_completion_tokens :: "nat option"
  cc_temperature :: "json option"
  cc_request_timeout :: nat
  cc_stream_idle_timeout :: nat
  cc_stream_reconnect :: sse_reconnect_config
  cc_include_usage :: bool
  cc_image_detail :: chat_image_detail
  cc_allow_provider_video_file_media :: bool
  cc_output_modalities :: "chat_output_modality list"
  cc_output_audio :: "chat_output_audio_config option"

definition chat_config_new :: "string \<Rightarrow> string \<Rightarrow> 'w chat_config" where
  "chat_config_new provider_id model =
     \<lparr>cc_id = provider_id, cc_base_url = ''https://api.openai.com/v1'', cc_model = model, cc_api_key = None,
      cc_api_key_env = Some ''OPENAI_API_KEY'', cc_auth_provider = None, cc_headers = [],
      cc_extra_body = [], cc_max_completion_tokens = None, cc_temperature = None,
      cc_request_timeout = 60 * 10 ^ 9, cc_stream_idle_timeout = 300 * 10 ^ 9,
      cc_stream_reconnect = reconnect_default, cc_include_usage = True,
      cc_image_detail = DetailAuto, cc_allow_provider_video_file_media = False,
      cc_output_modalities = [ModalityText], cc_output_audio = None\<rparr>"

definition enable_audio_output ::
  "chat_audio_format \<Rightarrow> string \<Rightarrow> 'w chat_config \<Rightarrow> 'w chat_config" where
  "enable_audio_output format voice config =
     config\<lparr>cc_output_modalities :=
         (if list_ex (\<lambda>m. output_modality_as_str m = ''audio'') (cc_output_modalities config)
          then cc_output_modalities config else cc_output_modalities config @ [ModalityAudio]),
       cc_output_audio := Some \<lparr>coa_format = format, coa_voice = voice\<rparr>\<rparr>"

definition effective_output_modalities :: "'w chat_config \<Rightarrow> string list result" where
  "effective_output_modalities config =
     (let modalities = (if cc_output_modalities config = [] then [''text'']
            else map output_modality_as_str (cc_output_modalities config));
          has_audio = (''audio'' \<in> set modalities)
      in if cc_output_audio config \<noteq> None \<and> \<not> has_audio then Inr (modalities @ [''audio''])
         else if cc_output_audio config = None \<and> has_audio
         then Inl (Provider ''audio output modality requires output audio config'')
         else Inr modalities)"

section \<open>Text\<close>

fun render_text_block :: "json_text \<Rightarrow> content_block \<Rightarrow> string option result" where
  "render_text_block js (Text text) = Inr (Some text)"
| "render_text_block js (Json value) = Inr (Some (js_show js value))"
| "render_text_block js (Thinking thinking) = Inr (tb_text thinking)"
| "render_text_block js (Media media) =
     Inl (Provider ''media blocks cannot be rendered as chat message text'')"
| "render_text_block js (ToolCallBlock call) =
     Inl (Provider ''tool blocks cannot be rendered as chat message text'')"
| "render_text_block js (ToolResult tool_call_id tool_name content is_error) =
     Inl (Provider ''tool blocks cannot be rendered as chat message text'')"
| "render_text_block js (ProviderPayload provider_id model payload) =
     Inl (Provider ''provider payload blocks cannot be rendered as chat message text'')"

definition LF_str :: string where
  "LF_str = [CHR 0x0A]"

definition render_content_text :: "json_text \<Rightarrow> content_block list \<Rightarrow> string result" where
  "render_content_text js content =
     r_then (r_collect (render_text_block js) content) (\<lambda>parts.
     Inr (join_with LF_str (List.map_filter (\<lambda>part. part) parts)))"

definition chat_text_part :: "string \<Rightarrow> json" where
  "chat_text_part text = json_object [(''type'', JString ''text''), (''text'', JString text)]"

section \<open>Media\<close>

definition data_url :: "string \<Rightarrow> string \<Rightarrow> string" where
  "data_url mime_type data = ''data:'' @ mime_type @ '';base64,'' @ data"

definition image_to_chat_content_part :: "'w chat_config \<Rightarrow> media_block \<Rightarrow> json result" where
  "image_to_chat_content_part config media =
     r_then (case mb_source media of
         Uri uri \<Rightarrow> Inr uri
       | Inline data Base64 \<Rightarrow>
           (case mb_mime_type media of
              None \<Rightarrow> Inl (Provider ''inline image media requires mime_type'')
            | Some mime_type \<Rightarrow> Inr (data_url mime_type data))
       | Inline data _ \<Rightarrow> Inl (Provider ''inline image media must use base64 encoding'')
       | ProviderSource provider_id media_id \<Rightarrow>
           Inl (Provider ''provider-referenced image media cannot be rendered as chat completions image_url''))
     (\<lambda>url. Inr (json_object [(''type'', JString ''image_url''),
        (''image_url'', json_object [(''url'', JString url),
           (''detail'', JString (image_detail_as_str (cc_image_detail config)))])]))"

definition input_audio_format :: "media_block \<Rightarrow> string result" where
  "input_audio_format media =
     (case mb_mime_type media of
        Some mime_type \<Rightarrow>
          if mime_type \<in> {''audio/wav'', ''audio/x-wav''} then Inr ''wav''
          else if mime_type \<in> {''audio/mpeg'', ''audio/mp3''} then Inr ''mp3''
          else Inl (Provider (''unsupported chat completions input audio MIME type: '' @ mime_type))
      | None \<Rightarrow> Inl (Provider ''chat completions input audio requires mime_type''))"

definition audio_to_chat_content_part :: "media_block \<Rightarrow> json result" where
  "audio_to_chat_content_part media =
     (case mb_source media of
        Inline data Base64 \<Rightarrow>
          r_then (input_audio_format media) (\<lambda>format.
          Inr (json_object [(''type'', JString ''input_audio''),
            (''input_audio'', json_object [(''data'', JString data), (''format'', JString format)])]))
      | _ \<Rightarrow> Inl (Provider ''chat completions audio input requires inline base64 media''))"

definition provider_file_to_chat_content_part :: "'w chat_config \<Rightarrow> media_block \<Rightarrow> json result" where
  "provider_file_to_chat_content_part config media =
     (case mb_source media of
        ProviderSource provider_id media_id \<Rightarrow>
          if provider_id \<noteq> cc_id config
          then Inl (Provider ''provider media source does not match the chat completions provider id'')
          else Inr (json_object [(''type'', JString ''file''),
                 (''file'', json_object [(''file_id'', JString media_id)])])
      | _ \<Rightarrow> Inl (Provider ''provider file media requires a provider source''))"

definition video_to_chat_content_part :: "'w chat_config \<Rightarrow> media_block \<Rightarrow> json result" where
  "video_to_chat_content_part config media =
     (let video_url = (\<lambda>url. json_object [(''type'', JString ''video_url''),
        (''video_url'', json_object [(''url'', JString url)])])
      in case mb_source media of
        Uri uri \<Rightarrow> Inr (video_url uri)
      | Inline data Base64 \<Rightarrow>
          (case mb_mime_type media of
             None \<Rightarrow> Inl (Provider ''inline video media requires mime_type'')
           | Some mime_type \<Rightarrow> Inr (video_url (data_url mime_type data)))
      | Inline data _ \<Rightarrow> Inl (Provider ''inline video media must use base64 encoding'')
      | ProviderSource provider_id media_id \<Rightarrow>
          if cc_allow_provider_video_file_media config
          then provider_file_to_chat_content_part config media
          else Inl (Provider ''provider video media requires allow_provider_video_file_media(true)''))"

definition file_to_chat_content_part :: "'w chat_config \<Rightarrow> media_block \<Rightarrow> json result" where
  "file_to_chat_content_part config media =
     (case mb_source media of
        ProviderSource provider_id media_id \<Rightarrow> provider_file_to_chat_content_part config media
      | Inline data Base64 \<Rightarrow>
          Inr (json_object [(''type'', JString ''file''),
            (''file'', json_object ((''file_data'', JString data) #
               (case mb_name media of None \<Rightarrow> [] | Some name \<Rightarrow> [(''filename'', JString name)])))])
      | Inline data _ \<Rightarrow> Inl (Provider ''inline file media must use base64 encoding'')
      | Uri uri \<Rightarrow> Inl (Provider ''chat completions file input does not support URI media''))"

definition media_to_chat_content_part :: "'w chat_config \<Rightarrow> media_block \<Rightarrow> json result" where
  "media_to_chat_content_part config media =
     (case mb_kind media of
        MK_Image \<Rightarrow> image_to_chat_content_part config media
      | MK_Audio \<Rightarrow> audio_to_chat_content_part media
      | MK_File \<Rightarrow> file_to_chat_content_part config media
      | MK_Video \<Rightarrow> video_to_chat_content_part config media
      | MK_Custom _ \<Rightarrow> Inl (Provider
          ''custom media kinds cannot be rendered by the built-in chat completions provider''))"

section \<open>Replay\<close>

definition OPENAI_CHAT_REASONING_REPLAY_KIND :: string where
  "OPENAI_CHAT_REASONING_REPLAY_KIND = ''openai_chat_reasoning_replay''"

definition OPENAI_CHAT_MEDIA_REPLAY_KIND :: string where
  "OPENAI_CHAT_MEDIA_REPLAY_KIND = ''openai_chat_media_replay''"

datatype reasoning_field = ReasoningContent | Reasoning | ReasoningText | ReasoningDetails

fun wire_name :: "reasoning_field \<Rightarrow> string" where
  "wire_name ReasoningContent = ''reasoning_content''"
| "wire_name Reasoning = ''reasoning''"
| "wire_name ReasoningText = ''reasoning_text''"
| "wire_name ReasoningDetails = ''reasoning_details''"

definition reasoning_field_of_name :: "string \<Rightarrow> reasoning_field option" where
  "reasoning_field_of_name s =
     find (\<lambda>f. wire_name f = s) [ReasoningContent, Reasoning, ReasoningText, ReasoningDetails]"

record chat_reasoning_replay_descriptor =
  crd_v :: nat
  crd_kind :: string
  crd_provider_id :: string
  crd_model :: string
  crd_field :: reasoning_field

datatype media_replay_field = MediaReplayAudio

record chat_media_replay_descriptor =
  cmd_v :: nat
  cmd_kind :: string
  cmd_provider_id :: string
  cmd_model :: string
  cmd_field :: media_replay_field

definition replay_descriptor_fields :: "string list" where
  "replay_descriptor_fields = [''v'', ''kind'', ''providerId'', ''model'', ''field'']"

definition reasoning_descriptor_to_json :: "chat_reasoning_replay_descriptor \<Rightarrow> json" where
  "reasoning_descriptor_to_json d =
     json_object [(''v'', JInt (int (crd_v d))), (''kind'', JString (crd_kind d)),
       (''providerId'', JString (crd_provider_id d)), (''model'', JString (crd_model d)),
       (''field'', JString (wire_name (crd_field d)))]"

definition reasoning_descriptor_of_json :: "json \<Rightarrow> chat_reasoning_replay_descriptor option" where
  "reasoning_descriptor_of_json value =
     (case json_struct_fields replay_descriptor_fields value of
        Some [v, kind, provider_id, model, field] \<Rightarrow>
          (case (json_as_u64 v, json_as_str kind, json_as_str provider_id, json_as_str model,
                 Option.bind (json_variant field) reasoning_field_of_name) of
             (Some v, Some kind, Some provider_id, Some model, Some field) \<Rightarrow>
               Some \<lparr>crd_v = v, crd_kind = kind, crd_provider_id = provider_id, crd_model = model,
                     crd_field = field\<rparr>
           | _ \<Rightarrow> None)
      | _ \<Rightarrow> None)"

definition media_descriptor_to_json :: "chat_media_replay_descriptor \<Rightarrow> json" where
  "media_descriptor_to_json d =
     json_object [(''v'', JInt (int (cmd_v d))), (''kind'', JString (cmd_kind d)),
       (''providerId'', JString (cmd_provider_id d)), (''model'', JString (cmd_model d)),
       (''field'', JString ''audio'')]"

definition media_descriptor_of_json :: "json \<Rightarrow> chat_media_replay_descriptor option" where
  "media_descriptor_of_json value =
     (case json_struct_fields replay_descriptor_fields value of
        Some [v, kind, provider_id, model, field] \<Rightarrow>
          (case (json_as_u64 v, json_as_str kind, json_as_str provider_id, json_as_str model,
                 json_variant field) of
             (Some v, Some kind, Some provider_id, Some model, Some field) \<Rightarrow>
               if field = ''audio''
               then Some \<lparr>cmd_v = v, cmd_kind = kind, cmd_provider_id = provider_id,
                          cmd_model = model, cmd_field = MediaReplayAudio\<rparr>
               else None
           | _ \<Rightarrow> None)
      | _ \<Rightarrow> None)"

definition replay_reasoning ::
  "'w chat_config \<Rightarrow> thinking_block \<Rightarrow> (string \<times> json) option" where
  "replay_reasoning config thinking =
     Option.bind (tb_replay_descriptor thinking) (\<lambda>value.
     Option.bind (reasoning_descriptor_of_json value) (\<lambda>d.
       if replay_scope_match (crd_v d) (crd_kind d) OPENAI_CHAT_REASONING_REPLAY_KIND
            (crd_provider_id d) (cc_id config) (crd_model d) (cc_model config) = ScopeMatch
       then map_option (\<lambda>raw. (wire_name (crd_field d), raw)) (tb_raw thinking)
       else None))"

datatype media_replay = RenderAudio json | IgnoreMedia | UnsupportedMedia

definition replay_media :: "'w chat_config \<Rightarrow> media_block \<Rightarrow> media_replay" where
  "replay_media config media =
     (case mb_replay_descriptor media of
        None \<Rightarrow> UnsupportedMedia
      | Some value \<Rightarrow>
          (case media_descriptor_of_json value of
             None \<Rightarrow> UnsupportedMedia
           | Some d \<Rightarrow>
               (case replay_scope_match (cmd_v d) (cmd_kind d) OPENAI_CHAT_MEDIA_REPLAY_KIND
                       (cmd_provider_id d) (cc_id config) (cmd_model d) (cc_model config) of
                  ScopeIgnore \<Rightarrow> IgnoreMedia
                | ScopeUnsupported \<Rightarrow> UnsupportedMedia
                | ScopeMatch \<Rightarrow>
                    if cmd_field d \<noteq> MediaReplayAudio \<or> mb_kind media \<noteq> MK_Audio
                    then UnsupportedMedia
                    else case mb_source media of
                      ProviderSource provider_id media_id \<Rightarrow>
                        if provider_id \<noteq> cc_id config then UnsupportedMedia
                        else RenderAudio (json_object [(''id'', JString media_id)])
                    | _ \<Rightarrow> UnsupportedMedia)))"

section \<open>Messages\<close>

text \<open>\<open>text_parts\<close> and, from the first media block on, \<open>content_parts\<close>.\<close>

fun render_user_parts ::
  "json_text \<Rightarrow> 'w chat_config \<Rightarrow> content_block list \<Rightarrow> string list \<Rightarrow> json list option
     \<Rightarrow> (string list \<times> json list option) result" where
  "render_user_parts js config [] text_parts content_parts = Inr (text_parts, content_parts)"
| "render_user_parts js config (Media media # blocks) text_parts content_parts =
     (let (text_parts', parts) = (case content_parts of
            Some parts \<Rightarrow> (text_parts, parts)
          | None \<Rightarrow> ([], map chat_text_part (filter (\<lambda>text. text \<noteq> []) text_parts)))
      in r_then (media_to_chat_content_part config media) (\<lambda>part.
         render_user_parts js config blocks text_parts' (Some (parts @ [part]))))"
| "render_user_parts js config (block # blocks) text_parts content_parts =
     r_then (render_text_block js block) (\<lambda>text.
       case (text, content_parts) of
         (None, _) \<Rightarrow> render_user_parts js config blocks text_parts content_parts
       | (Some text, Some parts) \<Rightarrow>
           render_user_parts js config blocks text_parts
             (Some (if text = [] then parts else parts @ [chat_text_part text]))
       | (Some text, None) \<Rightarrow>
           render_user_parts js config blocks (text_parts @ [text]) None)"

definition render_user_content :: "json_text \<Rightarrow> 'w chat_config \<Rightarrow> content_block list \<Rightarrow> json result" where
  "render_user_content js config content =
     r_then (render_user_parts js config content [] None) (\<lambda>(text_parts, content_parts).
     case content_parts of
       Some parts \<Rightarrow> Inr (JArray parts)
     | None \<Rightarrow> Inr (JString (join_with LF_str text_parts)))"

record assistant_parts =
  ap_rendered :: json_map
  ap_text_parts :: "string list"
  ap_tool_calls :: "json list"

definition or_insert :: "string \<Rightarrow> json \<Rightarrow> json_map \<Rightarrow> json_map" where
  "or_insert key value m = (if bt_contains_key m key then m else bt_insert key value m)"

definition chat_tool_call ::
  "json_text \<Rightarrow> 'w chat_config \<Rightarrow> provider_tool_name_codec \<Rightarrow> tool_call \<Rightarrow> json result" where
  "chat_tool_call js config tool_names call =
     r_then (provider_name tool_names (tc_name call) (cc_id config) (cc_model config)) (\<lambda>name.
     Inr (json_object [(''id'', JString (tc_id call)), (''type'', JString ''function''),
       (''function'', json_object [(''name'', JString name),
          (''arguments'', JString (js_show js (tc_arguments call)))])]))"

definition add_assistant_block ::
  "json_text \<Rightarrow> 'w chat_config \<Rightarrow> provider_tool_name_codec \<Rightarrow> content_block \<Rightarrow> assistant_parts
     \<Rightarrow> assistant_parts result" where
  "add_assistant_block js config tool_names block p =
     (case block of
        Text text \<Rightarrow> Inr (p\<lparr>ap_text_parts := ap_text_parts p @ [text]\<rparr>)
      | Json value \<Rightarrow> Inr (p\<lparr>ap_text_parts := ap_text_parts p @ [js_show js value]\<rparr>)
      | Thinking thinking \<Rightarrow>
          (case replay_reasoning config thinking of
             None \<Rightarrow> Inr p
           | Some (field, value) \<Rightarrow> Inr (p\<lparr>ap_rendered := or_insert field value (ap_rendered p)\<rparr>))
      | Media media \<Rightarrow>
          (case replay_media config media of
             RenderAudio value \<Rightarrow> Inr (p\<lparr>ap_rendered := or_insert ''audio'' value (ap_rendered p)\<rparr>)
           | IgnoreMedia \<Rightarrow> Inr p
           | UnsupportedMedia \<Rightarrow> Inl (Provider
               ''assistant media blocks cannot be rendered for chat completions without a matching replay descriptor''))
      | ToolCallBlock call \<Rightarrow>
          r_then (chat_tool_call js config tool_names call) (\<lambda>rendered.
          Inr (p\<lparr>ap_tool_calls := ap_tool_calls p @ [rendered]\<rparr>))
      | ToolResult _ _ _ _ \<Rightarrow> Inr p
      | ProviderPayload _ _ _ \<Rightarrow> Inl (Provider
          ''provider payload blocks cannot be rendered for chat completions''))"

fun add_assistant_blocks ::
  "json_text \<Rightarrow> 'w chat_config \<Rightarrow> provider_tool_name_codec \<Rightarrow> content_block list \<Rightarrow> assistant_parts
     \<Rightarrow> assistant_parts result" where
  "add_assistant_blocks js config tool_names [] p = Inr p"
| "add_assistant_blocks js config tool_names (block # blocks) p =
     r_then (add_assistant_block js config tool_names block p)
       (add_assistant_blocks js config tool_names blocks)"

definition to_assistant_message ::
  "json_text \<Rightarrow> 'w chat_config \<Rightarrow> provider_tool_name_codec \<Rightarrow> agent_message \<Rightarrow> json result" where
  "to_assistant_message js config tool_names message =
     r_then (add_assistant_blocks js config tool_names (msg_content message)
               \<lparr>ap_rendered = [], ap_text_parts = [], ap_tool_calls = []\<rparr>) (\<lambda>p.
     let rendered = bt_insert ''role'' (JString ''assistant'') (ap_rendered p);
         rendered = bt_insert ''content''
           (if ap_text_parts p = [] \<and> ap_tool_calls p \<noteq> [] then JNull
            else JString (join_with LF_str (ap_text_parts p))) rendered
     in Inr (JObject (if ap_tool_calls p = [] then rendered
                      else bt_insert ''tool_calls'' (JArray (ap_tool_calls p)) rendered)))"

fun to_tool_result_messages ::
  "json_text \<Rightarrow> 'w chat_config \<Rightarrow> provider_tool_name_codec \<Rightarrow> content_block list \<Rightarrow> json list result" where
  "to_tool_result_messages js config tool_names [] = Inr []"
| "to_tool_result_messages js config tool_names (ToolResult tool_call_id tool_name content e # blocks) =
     r_then (provider_name tool_names tool_name (cc_id config) (cc_model config)) (\<lambda>name.
     r_then (render_content_text js content) (\<lambda>text.
     r_then (to_tool_result_messages js config tool_names blocks) (\<lambda>rest.
     Inr (json_object [(''role'', JString ''tool''), (''tool_call_id'', JString tool_call_id),
       (''name'', JString name), (''content'', JString text)] # rest))))"
| "to_tool_result_messages js config tool_names (_ # blocks) =
     to_tool_result_messages js config tool_names blocks"

definition to_chat_message ::
  "json_text \<Rightarrow> 'w chat_config \<Rightarrow> provider_tool_name_codec \<Rightarrow> agent_message \<Rightarrow> json list result" where
  "to_chat_message js config tool_names message =
     (case msg_role message of
        System \<Rightarrow>
          r_then (render_content_text js (msg_content message)) (\<lambda>text.
          Inr [json_object [(''role'', JString ''system''), (''content'', JString text)]])
      | Assistant \<Rightarrow>
          r_then (to_assistant_message js config tool_names message) (\<lambda>value. Inr [value])
      | ToolResultRole \<Rightarrow> to_tool_result_messages js config tool_names (msg_content message)
      | role \<Rightarrow>
          r_then (render_user_content js config (msg_content message)) (\<lambda>content.
          Inr [json_object [(''role'', JString (role_as_str role)), (''content'', content)]]))"

definition to_chat_messages ::
  "json_text \<Rightarrow> 'w chat_config \<Rightarrow> provider_tool_name_codec \<Rightarrow> model_request \<Rightarrow> json list result" where
  "to_chat_messages js config tool_names request =
     r_then (r_collect (to_chat_message js config tool_names) (mr_messages request)) (\<lambda>messages.
     Inr (concat messages))"

definition to_chat_tool ::
  "'w chat_config \<Rightarrow> provider_tool_name_codec \<Rightarrow> tool_spec \<Rightarrow> json result" where
  "to_chat_tool config tool_names tool =
     r_then (provider_name tool_names (ts_name tool) (cc_id config) (cc_model config)) (\<lambda>name.
     Inr (json_object [(''type'', JString ''function''),
       (''function'', json_object [(''name'', JString name),
          (''description'', JString (ts_description tool)), (''parameters'', ts_input_schema tool)])]))"

definition to_chat_tools ::
  "'w chat_config \<Rightarrow> provider_tool_name_codec \<Rightarrow> tool_spec list \<Rightarrow> json list result" where
  "to_chat_tools config tool_names tools = r_collect (to_chat_tool config tool_names) tools"

section \<open>The payload\<close>

definition build_chat_payload ::
  "json_text \<Rightarrow> 'w chat_config \<Rightarrow> provider_tool_name_codec \<Rightarrow> model_request \<Rightarrow> json result" where
  "build_chat_payload js config tool_names request =
     r_then (to_chat_messages js config tool_names request) (\<lambda>messages.
     r_then (effective_output_modalities config) (\<lambda>modalities.
     r_then (if mr_tools request = [] then Inr []
             else r_then (to_chat_tools config tool_names (mr_tools request)) (\<lambda>tools.
               Inr [(''tools'', JArray tools)])) (\<lambda>tools.
     Inr (JObject (bt_extend (bt_collect
       ([(''model'', JString (cc_model config)), (''messages'', JArray messages),
         (''stream'', JBool True)]
        @ (if cc_include_usage config
           then [(''stream_options'', json_object [(''include_usage'', JBool True)])] else [])
        @ (case cc_max_completion_tokens config of None \<Rightarrow> []
           | Some n \<Rightarrow> [(''max_completion_tokens'', JInt (int n))])
        @ (case cc_temperature config of None \<Rightarrow> [] | Some t \<Rightarrow> [(''temperature'', t)])
        @ (if modalities = [''text''] then []
           else [(''modalities'', JArray (map JString modalities))])
        @ (case cc_output_audio config of None \<Rightarrow> []
           | Some audio \<Rightarrow> [(''audio'', json_object
               [(''format'', JString (audio_format_as_str (coa_format audio))),
                (''voice'', JString (coa_voice audio))])])
        @ tools)) (cc_extra_body config))))))"

end
