(* ===== verification/Chat_Stream.thy ===== *)
theory Chat_Stream
  imports Chat_Payload Assistant
begin

text \<open>
  The stream of the chat completions provider (\<open>src/chat_completions.rs\<close>): the state that decodes
  the chunks of a response, the assembly of tool calls from their fragments, the merging of reasoning
  that arrives as increments or as growing snapshots, and the loop of the provider with the refresh
  of its authorization.
\<close>

section \<open>Merging reasoning\<close>

definition merge_reasoning_text :: "string \<Rightarrow> string \<Rightarrow> string" where
  "merge_reasoning_text existing incoming =
     (if prefix existing incoming then incoming else existing @ incoming)"

definition merge_reasoning_list :: "json list \<Rightarrow> json list \<Rightarrow> json list" where
  "merge_reasoning_list existing incoming =
     (if prefix existing incoming then incoming else existing @ incoming)"

definition merge_detail_value :: "string \<Rightarrow> json option \<Rightarrow> json \<Rightarrow> json" where
  "merge_detail_value key previous value =
     (case (previous, value) of
        (Some (JString previous), JString incoming) \<Rightarrow>
          if key \<in> {''text'', ''data'', ''summary''}
          then JString (merge_reasoning_text previous incoming) else value
      | (Some (JArray previous), JArray incoming) \<Rightarrow>
          if key = ''summary'' then JArray (merge_reasoning_list previous incoming) else value
      | _ \<Rightarrow> value)"

definition merge_reasoning_detail :: "json_map \<Rightarrow> json_map \<Rightarrow> json_map" where
  "merge_reasoning_detail existing incoming =
     fold (\<lambda>(key, value) m. bt_insert key (merge_detail_value key (map_of m key) value) m)
       incoming existing"

definition find_reasoning_detail_index :: "json list \<Rightarrow> json_map \<Rightarrow> nat option" where
  "find_reasoning_detail_index details needle =
     (case Option.bind (Option.bind (map_of needle ''index'') json_as_u64) (\<lambda>index.
             find_index (\<lambda>detail. Option.bind (json_get detail ''index'') json_as_u64 = Some index)
               details) of
        Some offset \<Rightarrow> Some offset
      | None \<Rightarrow>
          Option.bind (get_str needle ''id'') (\<lambda>i.
            find_index (\<lambda>detail. Option.bind (json_get detail ''id'') json_as_str = Some i) details))"

definition merge_reasoning_details :: "json list \<Rightarrow> json list \<Rightarrow> json list" where
  "merge_reasoning_details existing incoming =
     fold (\<lambda>incoming_detail merged.
         case json_as_object incoming_detail of
           None \<Rightarrow> merged
         | Some incoming_object \<Rightarrow>
             (case find_reasoning_detail_index merged incoming_object of
                Some index \<Rightarrow>
                  (let existing_object = (case json_as_object (merged ! index) of
                         Some m \<Rightarrow> m | None \<Rightarrow> [])
                   in merged[index := JObject (merge_reasoning_detail existing_object incoming_object)])
              | None \<Rightarrow> merged @ [JObject incoming_object]))
       incoming existing"

definition merge_reasoning_details_value :: "json \<Rightarrow> json \<Rightarrow> json" where
  "merge_reasoning_details_value existing incoming =
     (case (existing, incoming) of
        (JObject existing, JObject incoming) \<Rightarrow> JObject (merge_reasoning_detail existing incoming)
      | (JArray existing, JArray incoming) \<Rightarrow> JArray (merge_reasoning_details existing incoming)
      | _ \<Rightarrow> incoming)"

definition merge_reasoning_value :: "reasoning_field \<Rightarrow> json \<Rightarrow> json \<Rightarrow> json" where
  "merge_reasoning_value field existing incoming =
     (if field = ReasoningDetails then merge_reasoning_details_value existing incoming
      else case (existing, incoming) of
        (JString existing, JString incoming) \<Rightarrow> JString (merge_reasoning_text existing incoming)
      | (JObject existing, JObject incoming) \<Rightarrow> JObject (merge_reasoning_detail existing incoming)
      | _ \<Rightarrow> incoming)"

definition normalize_reasoning_details :: "json \<Rightarrow> json option" where
  "normalize_reasoning_details value =
     (case value of
        JObject m \<Rightarrow> if m \<noteq> [] then Some (JObject m) else None
      | JArray values \<Rightarrow>
          (let values = filter (\<lambda>v. json_as_object v \<noteq> None) values
           in if values \<noteq> [] then Some (JArray values) else None)
      | _ \<Rightarrow> None)"

definition extract_reasoning_value :: "json_map \<Rightarrow> (reasoning_field \<times> json) option" where
  "extract_reasoning_value delta =
     (case find (\<lambda>field. case map_of delta (wire_name field) of
                  Some (JString text) \<Rightarrow> text \<noteq> []
                | Some (JObject m) \<Rightarrow> m \<noteq> []
                | Some (JArray vs) \<Rightarrow> vs \<noteq> []
                | _ \<Rightarrow> False) [ReasoningContent, Reasoning, ReasoningText] of
        Some field \<Rightarrow> map_option (\<lambda>value. (field, value)) (map_of delta (wire_name field))
      | None \<Rightarrow>
          Option.bind (map_of delta (wire_name ReasoningDetails)) (\<lambda>value.
            map_option (\<lambda>details. (ReasoningDetails, details)) (normalize_reasoning_details value)))"

section \<open>Rendering reasoning\<close>

definition blank_line :: string where
  "blank_line = [CHR 0x0A, CHR 0x0A]"

definition reasoning_detail_text :: "json_map \<Rightarrow> string" where
  "reasoning_detail_text detail =
     (case get_str detail ''text'' of
        Some text \<Rightarrow> text
      | None \<Rightarrow>
          (case map_of detail ''summary'' of
             Some (JString summary) \<Rightarrow> summary
           | Some (JArray parts) \<Rightarrow>
               join_with blank_line (filter (\<lambda>text. text \<noteq> [])
                 (List.map_filter (\<lambda>part. Option.bind (json_get part ''text'') json_as_str) parts))
           | _ \<Rightarrow> []))"

definition render_reasoning_value :: "json \<Rightarrow> string" where
  "render_reasoning_value value =
     (case value of
        JString text \<Rightarrow> text
      | JObject detail \<Rightarrow> reasoning_detail_text detail
      | JArray details \<Rightarrow>
          join_with blank_line (filter (\<lambda>text. text \<noteq> [])
            (map reasoning_detail_text (List.map_filter json_as_object details)))
      | _ \<Rightarrow> [])"

definition is_summary_detail :: "json \<Rightarrow> bool" where
  "is_summary_detail detail =
     (json_get detail ''text'' = None \<and> json_get detail ''summary'' \<noteq> None)"

definition reasoning_value_kind :: "json \<Rightarrow> thinking_kind" where
  "reasoning_value_kind value =
     (case value of
        JObject detail \<Rightarrow> if is_summary_detail value then TK_Summary else TK_Raw
      | JArray details \<Rightarrow> if list_all is_summary_detail details then TK_Summary else TK_Raw
      | _ \<Rightarrow> TK_Raw)"

definition delta_from_cumulative_value :: "string \<Rightarrow> string \<Rightarrow> string" where
  "delta_from_cumulative_value previous current =
     (case strip_prefix previous current of Some delta \<Rightarrow> delta | None \<Rightarrow> current)"

section \<open>The state of a stream\<close>

text \<open>The derived order of the fields, which orders the map of the reasoning states.\<close>

fun reasoning_field_rank :: "reasoning_field \<Rightarrow> nat" where
  "reasoning_field_rank ReasoningContent = 0"
| "reasoning_field_rank Reasoning = 1"
| "reasoning_field_rank ReasoningText = 2"
| "reasoning_field_rank ReasoningDetails = 3"

instantiation reasoning_field :: linorder
begin

definition less_eq_reasoning_field :: "reasoning_field \<Rightarrow> reasoning_field \<Rightarrow> bool" where
  "less_eq_reasoning_field f g = (reasoning_field_rank f \<le> reasoning_field_rank g)"

definition less_reasoning_field :: "reasoning_field \<Rightarrow> reasoning_field \<Rightarrow> bool" where
  "less_reasoning_field f g = (reasoning_field_rank f < reasoning_field_rank g)"

instance
proof
  fix f g :: reasoning_field
  assume "f \<le> g" and "g \<le> f"
  then show "f = g"
    unfolding less_eq_reasoning_field_def by (cases f; cases g) simp_all
qed (auto simp: less_eq_reasoning_field_def less_reasoning_field_def)

end

record partial_tool_call =
  ptc_id :: string
  ptc_name :: string
  ptc_arguments_json :: string

record reasoning_replay_state =
  rr_field :: reasoning_field
  rr_value :: json
  rr_rendered :: string

record chat_stream_state =
  cs_provider_id :: string
  cs_model :: string
  cs_tool_names :: provider_tool_name_codec
  cs_tool_calls :: "(nat, partial_tool_call) btree_map"
  cs_reasoning :: "(reasoning_field, reasoning_replay_state) btree_map"
  cs_stop_reason :: "stop_reason option"
  cs_tool_calls_emitted :: bool
  cs_finished :: bool
  cs_done :: bool

definition chat_stream_state_new ::
  "'w chat_config \<Rightarrow> provider_tool_name_codec \<Rightarrow> chat_stream_state" where
  "chat_stream_state_new config tool_names =
     \<lparr>cs_provider_id = cc_id config, cs_model = cc_model config, cs_tool_names = tool_names,
      cs_tool_calls = [], cs_reasoning = [], cs_stop_reason = None, cs_tool_calls_emitted = False,
      cs_finished = False, cs_done = False\<rparr>"

definition map_finish_reason :: "string \<Rightarrow> stop_reason" where
  "map_finish_reason finish_reason =
     (if finish_reason \<in> {''stop'', ''end''} then Stop
      else if finish_reason = ''length'' then Length
      else if finish_reason \<in> {''function_call'', ''tool_calls'', ''tool_use''} then ToolUse
      else StopError)"

section \<open>Tool calls\<close>

text \<open>The name and the arguments of a \<open>function\<close> object.\<close>

definition absorb_function :: "json_map \<Rightarrow> partial_tool_call \<Rightarrow> partial_tool_call" where
  "absorb_function m partial =
     (let partial = (case non_empty (get_str m ''name'') of
            Some name \<Rightarrow> partial\<lparr>ptc_name := name\<rparr> | None \<Rightarrow> partial)
      in case get_str m ''arguments'' of
           Some arguments \<Rightarrow> partial\<lparr>ptc_arguments_json := ptc_arguments_json partial @ arguments\<rparr>
         | None \<Rightarrow> partial)"

definition absorb_chunk :: "json_map \<Rightarrow> partial_tool_call \<Rightarrow> partial_tool_call" where
  "absorb_chunk chunk partial =
     (let partial = (case non_empty (get_str chunk ''id'') of
            Some i \<Rightarrow> partial\<lparr>ptc_id := i\<rparr> | None \<Rightarrow> partial)
      in case Option.bind (map_of chunk ''function'') json_as_object of
           Some m \<Rightarrow> absorb_function m partial
         | None \<Rightarrow> partial)"

definition chunk_index :: "nat \<Rightarrow> json_map \<Rightarrow> nat" where
  "chunk_index fallback_index chunk =
     (case Option.bind (map_of chunk ''index'') json_as_u64 of
        Some index \<Rightarrow> index | None \<Rightarrow> fallback_index)"

definition absorb_tool_call_chunk :: "nat \<times> json \<Rightarrow> chat_stream_state \<Rightarrow> chat_stream_state" where
  "absorb_tool_call_chunk c st =
     (case c of (fallback_index, chunk) \<Rightarrow>
        (case json_as_object chunk of
           None \<Rightarrow> st
         | Some chunk \<Rightarrow>
             (let index = chunk_index fallback_index chunk
              in st\<lparr>cs_tool_calls := update_entry index
                   \<lparr>ptc_id = ''call-'' @ show_nat index, ptc_name = [], ptc_arguments_json = []\<rparr>
                   (absorb_chunk chunk) (cs_tool_calls st)\<rparr>)))"

definition absorb_tool_call_chunks :: "json list \<Rightarrow> chat_stream_state \<Rightarrow> chat_stream_state" where
  "absorb_tool_call_chunks chunks st = fold absorb_tool_call_chunk (enumerate 0 chunks) st"

definition absorb_legacy_function_call :: "json_map \<Rightarrow> chat_stream_state \<Rightarrow> chat_stream_state" where
  "absorb_legacy_function_call function_call st =
     st\<lparr>cs_tool_calls := update_entry 0
        \<lparr>ptc_id = ''function-call-0'', ptc_name = [], ptc_arguments_json = []\<rparr>
        (absorb_function function_call) (cs_tool_calls st)\<rparr>"

definition to_event ::
  "json_text \<Rightarrow> chat_stream_state \<Rightarrow> partial_tool_call \<Rightarrow> model_stream_event result" where
  "to_event js st partial =
     r_then (canonical_name (cs_tool_names st) (ptc_name partial) (cs_provider_id st) (cs_model st))
       (\<lambda>name. Inr (ToolCallEvent \<lparr>tc_id = ptc_id partial, tc_name = name,
          tc_arguments = parse_tool_arguments js (ptc_arguments_json partial)\<rparr>))"

section \<open>Deltas\<close>

definition extract_thinking_delta ::
  "json_map \<Rightarrow> chat_stream_state \<Rightarrow> chat_stream_state \<times> thinking_delta option" where
  "extract_thinking_delta delta st =
     (case extract_reasoning_value delta of
        None \<Rightarrow> (st, None)
      | Some (field, incoming) \<Rightarrow>
          (let reasoning = (case map_of (cs_reasoning st) field of
                 Some r \<Rightarrow> r
               | None \<Rightarrow> \<lparr>rr_field = field, rr_value = JNull, rr_rendered = []\<rparr>);
               value = merge_reasoning_value (rr_field reasoning) (rr_value reasoning) incoming;
               rendered = render_reasoning_value value;
               text_delta = delta_from_cumulative_value (rr_rendered reasoning) rendered;
               reasoning = reasoning\<lparr>rr_value := value, rr_rendered := rendered\<rparr>
           in (st\<lparr>cs_reasoning := bt_insert field reasoning (cs_reasoning st)\<rparr>,
               Some \<lparr>td_kind = reasoning_value_kind value,
                     td_text_delta = (if text_delta = [] then None else Some text_delta),
                     td_raw_snapshot = Some value,
                     td_replay_descriptor = Some (reasoning_descriptor_to_json
                       \<lparr>crd_v = 1, crd_kind = OPENAI_CHAT_REASONING_REPLAY_KIND,
                        crd_provider_id = cs_provider_id st, crd_model = cs_model st,
                        crd_field = rr_field reasoning\<rparr>),
                     td_metadata = [(''field'', JString (wire_name (rr_field reasoning)))]\<rparr>)))"

definition extract_audio_delta :: "json_map \<Rightarrow> chat_stream_state \<Rightarrow> media_delta option" where
  "extract_audio_delta delta st =
     Option.bind (Option.bind (map_of delta ''audio'') json_as_object) (\<lambda>audio.
     let data = (case map_of audio ''data'' of Some d \<Rightarrow> Some d | None \<Rightarrow> map_of audio ''delta'');
         source = map_option (ProviderSource (cs_provider_id st)) (non_empty (get_str audio ''id''));
         d = \<lparr>md_kind = MK_Audio,
              md_data_delta = non_empty (Option.bind data json_as_str),
              md_source = source,
              md_mime_type = Option.bind (get_str audio ''format'') (\<lambda>format.
                 audio_format_mime_type (audio_format_from_wire format)),
              md_name = None,
              md_replay_descriptor = map_option (\<lambda>_. media_descriptor_to_json
                 \<lparr>cmd_v = 1, cmd_kind = OPENAI_CHAT_MEDIA_REPLAY_KIND,
                  cmd_provider_id = cs_provider_id st, cmd_model = cs_model st,
                  cmd_field = MediaReplayAudio\<rparr>) source,
              md_metadata = bt_collect (List.map_filter
                 (\<lambda>key. map_option (\<lambda>value. (key, value)) (map_of audio key))
                 [''id'', ''transcript'', ''expires_at'', ''expiresAt'', ''format'']),
              md_done = (Option.bind (map_of audio ''done'') json_as_bool = Some True)\<rparr>
     in if media_delta_is_empty d then None else Some d)"

definition apply_delta ::
  "json_map \<Rightarrow> chat_stream_state \<Rightarrow> chat_stream_state \<times> model_stream_event list" where
  "apply_delta delta st =
     (let text_events = (case non_empty (get_str delta ''content'') of
            Some text \<Rightarrow> [TextDelta text] | None \<Rightarrow> []);
          audio_events = (case extract_audio_delta delta st of
            Some d \<Rightarrow> [MediaDelta d] | None \<Rightarrow> []);
          (st, thinking) = extract_thinking_delta delta st;
          thinking_events = (case thinking of Some d \<Rightarrow> [ThinkingDelta d] | None \<Rightarrow> []);
          st = (case Option.bind (map_of delta ''tool_calls'') json_as_array of
            Some chunks \<Rightarrow> absorb_tool_call_chunks chunks st | None \<Rightarrow> st);
          st = (case Option.bind (map_of delta ''function_call'') json_as_object of
            Some call \<Rightarrow> absorb_legacy_function_call call st | None \<Rightarrow> st)
      in (st, text_events @ audio_events @ thinking_events))"

fun apply_choices ::
  "json list \<Rightarrow> chat_stream_state \<Rightarrow> chat_stream_state \<times> model_stream_event list" where
  "apply_choices [] st = (st, [])"
| "apply_choices (choice # choices) st =
     (let st = (case Option.bind (json_get choice ''finish_reason'') json_as_str of
            Some reason \<Rightarrow> st\<lparr>cs_stop_reason := Some (map_finish_reason reason)\<rparr> | None \<Rightarrow> st);
          (st, events) = (case Option.bind (json_get choice ''delta'') json_as_object of
            Some delta \<Rightarrow> apply_delta delta st | None \<Rightarrow> (st, []));
          (st, later) = apply_choices choices st
      in (st, events @ later))"

definition apply_value :: "json \<Rightarrow> chat_stream_state \<Rightarrow> chat_stream_state \<times> model_stream_event list" where
  "apply_value value st =
     (case Option.bind (json_get value ''choices'') json_as_array of
        None \<Rightarrow> (st, [])
      | Some choices \<Rightarrow> apply_choices choices st)"

definition apply_chunk ::
  "json_text \<Rightarrow> string \<Rightarrow> (chat_stream_state, agent_core_error, model_stream_event list) eff" where
  "apply_chunk js data st =
     (case js_parse js data of
        Inl error \<Rightarrow> (st, Inl (JsonError error))
      | Inr value \<Rightarrow> (case apply_value value st of (st', events) \<Rightarrow> (st', Inr events)))"

definition finish_events ::
  "json_text \<Rightarrow> (chat_stream_state, agent_core_error, model_stream_event list) eff" where
  "finish_events js st =
     (if cs_finished st then (st, Inr [])
      else
        (let emit = \<not> cs_tool_calls_emitted st;
             st' = st\<lparr>cs_finished := True, cs_tool_calls_emitted := True\<rparr>
         in (st', r_then (if emit then r_collect (to_event js st) (bt_values (cs_tool_calls st))
                          else Inr []) (\<lambda>calls.
              Inr (calls @ [Finished (case cs_stop_reason st of
                 Some reason \<Rightarrow> reason | None \<Rightarrow> Stop)])))))"

end
