(* ===== verification/Chat_Provider.thy ===== *)
theory Chat_Provider
  imports Chat_Stream Provider_Env
begin

text \<open>
  The chat completions provider (\<open>src/chat_completions.rs\<close>, \<open>stream_model\<close>): the request, its
  headers, the attempts and the events of the stream; and the shape of the events it returns.
\<close>

definition chat_endpoint :: "'w chat_config \<Rightarrow> string" where
  "chat_endpoint config = trim_end_slashes (cc_base_url config) @ ''/chat/completions''"

definition chat_auth_context :: "'w chat_config \<Rightarrow> nat \<Rightarrow> http_auth_context" where
  "chat_auth_context config attempt =
     http_auth_context_new (cc_id config) ''POST'' (chat_endpoint config) attempt"

definition chat_request_headers ::
  "'w provider_env \<Rightarrow> 'w chat_config \<Rightarrow> nat \<Rightarrow> http_auth_header list option
     \<Rightarrow> ('w, agent_core_error, header_map) eff" where
  "chat_request_headers env config attempt refreshed_headers =
     and_then (lift_result (headers_from_map (pe_http env) (cc_headers config))) (\<lambda>headers.
     and_then (resolve_auth_headers (pe_http env) (cc_auth_provider config) (cc_api_key config)
         (cc_api_key_env config) (chat_auth_context config attempt) refreshed_headers) (\<lambda>auth.
     ok (bt_extend headers auth)))"

definition chat_media_policy :: "media_block \<Rightarrow> local_file_policy" where
  "chat_media_policy media = (case mb_kind media of MK_Custom k \<Rightarrow> LeaveFile | _ \<Rightarrow> InlineFile)"

text \<open>The state of the data closure: \<open>started\<close> and the stream state.\<close>

record chat_handler =
  ch_started :: bool
  ch_state :: chat_stream_state

definition chat_handle_data :: "json_text \<Rightarrow> string \<Rightarrow> chat_handler frame_handler" where
  "chat_handle_data js stream_id data x =
     (let events = (if ch_started x then [] else [Started stream_id]);
          x = x\<lparr>ch_started := True\<rparr>
      in if data = ''[DONE]''
         then (x\<lparr>ch_state := (ch_state x)\<lparr>cs_done := True\<rparr>\<rparr>,
               Inr \<lparr>fr_events = events, fr_terminal = True\<rparr>)
         else case apply_chunk js data (ch_state x) of
             (st, Inl e) \<Rightarrow> (x\<lparr>ch_state := st\<rparr>, Inl e)
           | (st, Inr later) \<Rightarrow> (x\<lparr>ch_state := st\<rparr>,
               Inr \<lparr>fr_events = events @ later, fr_terminal = cs_done st\<rparr>))"

definition chat_stream_id :: "model_request \<Rightarrow> string" where
  "chat_stream_id request =
     ''chat-completions-'' @ mr_run_id request @ ''-'' @ show_nat (mr_turn_id request)"

text \<open>The attempts on a prepared payload, then the events that finish the stream.\<close>

definition chat_stream_payload ::
  "'w provider_env \<Rightarrow> 'w chat_config \<Rightarrow> 'w model_stream_sink \<Rightarrow> provider_tool_name_codec \<Rightarrow> string
     \<Rightarrow> json \<Rightarrow> 'w \<Rightarrow> 'w \<times> model_stream_event list result" where
  "chat_stream_payload env config stream tool_names stream_id payload w =
     (let client = (\<lambda>h. provider_client ''chat completions'' (cc_stream_reconnect config) env
            (chat_endpoint config) h payload stream (chat_handle_data (pe_json env) stream_id))
      in case run_attempts client (chat_request_headers env config) (chat_auth_context config)
                (cc_auth_provider config) 0 None
                (provider_start w \<lparr>ch_started = False,
                   ch_state = chat_stream_state_new config tool_names\<rparr>) of
           (s, Inl e) \<Rightarrow> (pw_world (ss_world s), Inl e)
         | (s, Inr _) \<Rightarrow>
             (case finish_events (pe_json env) (ch_state (pw_state (ss_world s))) of
                (st, Inl e) \<Rightarrow> (pw_world (ss_world s), Inl e)
              | (st, Inr events) \<Rightarrow>
                  (case for_each events (emit_model_stream_event (client [])) s of
                     (s, Inl e) \<Rightarrow> (pw_world (ss_world s), Inl e)
                   | (s, Inr _) \<Rightarrow> (pw_world (ss_world s), Inr (ss_events s)))))"

definition chat_stream_model ::
  "'w provider_env \<Rightarrow> 'w chat_config \<Rightarrow> model_request \<Rightarrow> 'w model_stream_sink
     \<Rightarrow> ('w, agent_core_error, model_stream_event list) eff" where
  "chat_stream_model env config request stream =
     and_then (hc_cancelled (pe_client env)) (\<lambda>_.
     and_then (materialize_local_file_uri_media_in_request (pe_files env) chat_media_policy request)
       (\<lambda>request.
     let tool_names = new_with_message_history (mr_tools request) (mr_messages request)
     in and_then (lift_result (build_chat_payload (pe_json env) config tool_names request)) (\<lambda>payload.
        chat_stream_payload env config stream tool_names (chat_stream_id request) payload)))"

section \<open>The shape of a stream\<close>

definition delta_event :: "model_stream_event \<Rightarrow> bool" where
  "delta_event ev = (case ev of TextDelta t \<Rightarrow> t \<noteq> [] | MediaDelta d \<Rightarrow> \<not> media_delta_is_empty d
     | ThinkingDelta d \<Rightarrow> True | _ \<Rightarrow> False)"

lemma apply_delta_events: "list_all delta_event (snd (apply_delta delta st))"
  by (auto simp: apply_delta_def Let_def extract_audio_delta_def non_empty_def delta_event_def
      split: option.splits prod.splits bind_splits if_splits)

lemma apply_choices_events: "list_all delta_event (snd (apply_choices choices st))"
proof (induction choices arbitrary: st)
  case (Cons choice choices)
  show ?case
    using Cons.IH apply_delta_events
    by (auto simp: Let_def split: prod.splits option.splits) (metis snd_conv)+
qed simp

lemma apply_value_events: "list_all delta_event (snd (apply_value value st))"
  by (simp add: apply_value_def apply_choices_events split: option.split)

text \<open>Chunks change neither the codec nor what says that the stream is finished.\<close>

definition chat_fixed ::
  "chat_stream_state \<Rightarrow> provider_tool_name_codec \<times> bool \<times> bool \<times> bool" where
  "chat_fixed st = (cs_tool_names st, cs_finished st, cs_tool_calls_emitted st, cs_done st)"

lemma chat_fixed_updates [simp]:
  "chat_fixed (st\<lparr>cs_tool_calls := a\<rparr>) = chat_fixed st"
  "chat_fixed (st\<lparr>cs_reasoning := b\<rparr>) = chat_fixed st"
  "chat_fixed (st\<lparr>cs_stop_reason := c\<rparr>) = chat_fixed st"
  by (simp_all add: chat_fixed_def)

lemma absorb_tool_call_chunks_fixed [simp]:
  "chat_fixed (absorb_tool_call_chunks chunks st) = chat_fixed st"
proof -
  have "chat_fixed (absorb_tool_call_chunk c st) = chat_fixed st" for c st
    by (auto simp: absorb_tool_call_chunk_def Let_def split: prod.splits option.splits)
  then have "chat_fixed (fold absorb_tool_call_chunk cs st) = chat_fixed st" for cs
    by (induction cs arbitrary: st) simp_all
  then show ?thesis by (simp add: absorb_tool_call_chunks_def)
qed

lemma apply_delta_fixed [simp]: "chat_fixed (fst (apply_delta delta st)) = chat_fixed st"
  by (auto simp: apply_delta_def Let_def extract_thinking_delta_def absorb_legacy_function_call_def
      split: option.splits prod.splits)

lemma apply_choices_fixed [simp]: "chat_fixed (fst (apply_choices choices st)) = chat_fixed st"
  by (induction choices arbitrary: st) (simp_all add: Let_def case_prod_beta split: option.split)

lemma apply_value_fixed [simp]: "chat_fixed (fst (apply_value v st)) = chat_fixed st"
  by (simp add: apply_value_def split: option.split)

text \<open>What holds of the handler and of the events it has given.\<close>

definition chat_events ::
  "string \<Rightarrow> provider_tool_name_codec \<Rightarrow> chat_handler \<Rightarrow> model_stream_event list \<Rightarrow> bool" where
  "chat_events stream_id tool_names x evs =
     (chat_fixed (ch_state x) = (tool_names, False, False, cs_done (ch_state x))
      \<and> (cs_done (ch_state x) \<longrightarrow> ch_started x)
      \<and> (if ch_started x then \<exists>deltas. evs = Started stream_id # deltas \<and> list_all delta_event deltas
         else evs = []))"

interpretation chat: frame_handling "chat_handle_data js stream_id"
    "chat_events stream_id tool_names" "\<lambda>x. cs_done (ch_state x)"
  for js stream_id tool_names
proof
  fix x x' :: chat_handler and evs data r
  assume I: "chat_events stream_id tool_names x evs" and undone: "\<not> cs_done (ch_state x)"
    and run: "chat_handle_data js stream_id data x = (x', Inr r)"
  show "chat_events stream_id tool_names x' (evs @ fr_events r)
      \<and> (cs_done (ch_state x') \<longleftrightarrow> fr_terminal r)"
  proof (cases "data = ''[DONE]''")
    case True
    with I run show ?thesis
      by (auto simp: chat_handle_data_def chat_events_def chat_fixed_def split: if_splits)
  next
    case False
    with run obtain v where parse: "js_parse js data = Inr v"
      by (auto simp: chat_handle_data_def apply_chunk_def Let_def split: sum.splits)
    obtain st evs' where av: "apply_value v (ch_state x) = (st, evs')" by force
    have "chat_fixed st = chat_fixed (ch_state x)" "list_all delta_event evs'"
      using apply_value_fixed [of v "ch_state x"] apply_value_events [of v "ch_state x"]
      unfolding av by simp_all
    with parse av False I run show ?thesis
      by (auto simp: chat_handle_data_def apply_chunk_def chat_events_def chat_fixed_def Let_def
          split: prod.splits if_splits)
  qed
qed

lemma chat_unauthorized_from_server:
  "quiet_environment env stream \<Longrightarrow>
   unauthorized_from_server env stream (chat_handle_data js stream_id)"
  by (auto simp: unauthorized_from_server_def chat_handle_data_def apply_chunk_def Let_def
      is_unauthorized_def split: if_splits sum.splits prod.splits)

lemma finish_events_shape:
  assumes "finish_events js st = (st', Inr evs)"
    and "chat_fixed st = (new_with_message_history tools messages, False, False, d)"
    and "length tools + length (message_tool_names messages) + 2 < 2 ^ 32"
  shows "\<exists>calls reason. evs = calls @ [Finished reason]
    \<and> list_all (call_event_of (map ts_name tools @ message_tool_names messages)) calls"
proof -
  have "call_event_of (map ts_name tools @ message_tool_names messages) ev"
    if "to_event js st call = Inr ev" for call ev
    using that codec_names_declared [OF assms(3)] assms(2)
    by (auto simp: chat_fixed_def to_event_def r_then_Inr_iff call_event_of_def)
  then have "list_all (call_event_of (map ts_name tools @ message_tool_names messages)) evs"
    if "r_collect (to_event js st) calls = Inr evs" for calls evs
    using that by (auto simp: r_collect_Inr_iff list_all2_conv_all_nth list_all_length)
  with assms(1,2) show ?thesis
    by (auto simp: chat_fixed_def finish_events_def Let_def r_then_Inr_iff split: if_splits)
qed


end
