(* ===== verification/Chat_Properties.thy ===== *)
theory Chat_Properties
  imports Chat_Provider Provider_Env
begin

text \<open>
  What the chat completions provider guarantees of its streams and requests
  (\<open>src/chat_completions.rs\<close>): the shape of a returned stream, the assembly of tool calls from
  interleaved fragments, the text of reasoning, and which requests can be rendered.
\<close>

section \<open>The shape of a stream\<close>

lemma chat_stream_payload_shape:
  assumes run: "chat_stream_payload env config stream
      (new_with_message_history tools messages) stream_id payload w = (w', Inr evs)"
    and quiet: "quiet_environment env stream"
    and names: "length tools + length (message_tool_names messages) + 2 < 2 ^ 32"
  shows "\<exists>deltas calls reason. evs = Started stream_id # deltas @ calls @ [Finished reason]
    \<and> list_all delta_event deltas
    \<and> list_all (call_event_of (map ts_name tools @ message_tool_names messages)) calls"
proof -
  let ?codec = "new_with_message_history tools messages"
  let ?client = "\<lambda>h. provider_client ''chat completions'' (cc_stream_reconnect config) env
     (chat_endpoint config) h payload stream (chat_handle_data (pe_json env) stream_id)"
  let ?start = "provider_start w \<lparr>ch_started = False, ch_state = chat_stream_state_new config ?codec\<rparr>"
  obtain s q where attempts: "run_attempts ?client (chat_request_headers env config)
      (chat_auth_context config) (cc_auth_provider config) 0 None ?start = (s, q)" by force
  with run have q: "q = Inr ()" by (cases q) (auto simp: chat_stream_payload_def Let_def)
  have "chat_events stream_id ?codec (pw_state (ss_world ?start)) (ss_events ?start)"
    and "\<not> cs_done (ch_state (pw_state (ss_world ?start)))"
    by (simp_all add: provider_start_def chat_events_def chat_fixed_def chat_stream_state_new_def)
  from chat.run_attempts_reading [OF chat_unauthorized_from_server [OF quiet] attempts [unfolded q] this]
  obtain deltas where deltas: "ss_events s = Started stream_id # deltas" "list_all delta_event deltas"
    and state: "chat_fixed (ch_state (pw_state (ss_world s))) = (?codec, False, False, True)"
    by (auto simp: chat_events_def)
  obtain st r where finish: "finish_events (pe_json env) (ch_state (pw_state (ss_world s))) = (st, r)"
    by force
  with run attempts q obtain last where r: "r = Inr last"
    by (cases r) (auto simp: chat_stream_payload_def Let_def)
  obtain t z where emit: "for_each last (emit_model_stream_event (?client [])) s = (t, z)" by force
  from run attempts q finish r emit have "z = Inr ()" "evs = ss_events t"
    by (auto simp: chat_stream_payload_def Let_def split: sum.splits)
  with emit_events_append emit have "evs = ss_events s @ last" by auto
  with deltas finish_events_shape [OF finish [unfolded r] state names] show ?thesis by auto
qed


text \<open>A server that answers a tool call and then ends the stream.\<close>

definition call_chunk :: "string \<Rightarrow> string \<Rightarrow> string \<Rightarrow> json" where
  "call_chunk i name arguments = json_object [(''choices'', JArray [json_object [(''delta'',
     json_object [(''tool_calls'', JArray [json_object [(''index'', JInt 0), (''id'', JString i),
       (''function'', json_object [(''name'', JString name), (''arguments'', JString arguments)])]])])]])]"

definition sample_json :: json_text where
  "sample_json = \<lparr>js_parse = (\<lambda>s. if s = ''c'' then Inr (call_chunk ''t1'' ''host_exec'' ''ls'')
       else Inl ''not json''), js_show = (\<lambda>v. ''json'')\<rparr>"

definition sample_env :: "request_event list provider_env" where
  "sample_env = sample_env_with sample_json"

definition sample_world :: "request_event list" where
  "sample_world = [sample_response [''data:c'' @ [LF, LF], ''data:[DONE]'' @ [LF, LF]]]"


section \<open>Tool calls\<close>

text \<open>The chunks of an index, in order, and what they contribute.\<close>

definition own_chunk :: "nat \<Rightarrow> nat \<times> json \<Rightarrow> json_map option" where
  "own_chunk index c =
     (case c of (fallback_index, chunk) \<Rightarrow>
        (case json_as_object chunk of
           None \<Rightarrow> None
         | Some m \<Rightarrow> if chunk_index fallback_index m = index then Some m else None))"

definition own_chunks :: "nat \<Rightarrow> json list \<Rightarrow> json_map list" where
  "own_chunks index chunks = List.map_filter (own_chunk index) (enumerate 0 chunks)"

definition chunk_function :: "json_map \<Rightarrow> json_map" where
  "chunk_function chunk =
     (case Option.bind (map_of chunk ''function'') json_as_object of Some m \<Rightarrow> m | None \<Rightarrow> [])"

definition chunk_arguments :: "json_map \<Rightarrow> string" where
  "chunk_arguments chunk =
     (case get_str (chunk_function chunk) ''arguments'' of Some s \<Rightarrow> s | None \<Rightarrow> [])"

definition last_or :: "'a \<Rightarrow> 'a list \<Rightarrow> 'a" where
  "last_or x xs = (if xs = [] then x else last xs)"

definition initial_call :: "nat \<Rightarrow> partial_tool_call" where
  "initial_call index =
     \<lparr>ptc_id = ''call-'' @ show_nat index, ptc_name = [], ptc_arguments_json = []\<rparr>"

definition assembled_call :: "partial_tool_call \<Rightarrow> json_map list \<Rightarrow> partial_tool_call" where
  "assembled_call p chunks =
     \<lparr>ptc_id = last_or (ptc_id p) (List.map_filter (\<lambda>m. non_empty (get_str m ''id'')) chunks),
      ptc_name = last_or (ptc_name p)
        (List.map_filter (\<lambda>m. non_empty (get_str (chunk_function m) ''name'')) chunks),
      ptc_arguments_json = ptc_arguments_json p @ concat (map chunk_arguments chunks)\<rparr>"

lemma absorb_chunk_assembles:
  "absorb_chunk m p = assembled_call p [m]"
  by (auto simp: absorb_chunk_def assembled_call_def absorb_function_def chunk_arguments_def
      chunk_function_def last_or_def map_filter_simps get_str_def non_empty_def Let_def
      split: option.split)

lemma assembled_call_append:
  "assembled_call (assembled_call p xs) ys = assembled_call p (xs @ ys)"
  by (simp add: assembled_call_def last_or_def)

lemma fold_absorb_chunk: "fold absorb_chunk ms p = assembled_call p ms"
proof (induction ms arbitrary: p)
  case Nil
  show ?case by (simp add: assembled_call_def last_or_def map_filter_simps)
next
  case (Cons m ms)
  then show ?case by (simp add: absorb_chunk_assembles assembled_call_append)
qed

text \<open>The calls of a state, an entry for an index that has none being the initial one.\<close>

definition call_at :: "nat \<Rightarrow> chat_stream_state \<Rightarrow> partial_tool_call" where
  "call_at index st =
     (case map_of (cs_tool_calls st) index of Some p \<Rightarrow> p | None \<Rightarrow> initial_call index)"

lemma absorb_tool_call_chunk_at:
  assumes "bt_wf (cs_tool_calls st)"
  shows "bt_wf (cs_tool_calls (absorb_tool_call_chunk c st)) \<and>
    map_of (cs_tool_calls (absorb_tool_call_chunk c st)) index =
      (case own_chunk index c of
         Some m \<Rightarrow> Some (absorb_chunk m (call_at index st))
       | None \<Rightarrow> map_of (cs_tool_calls st) index)"
  using assms
  by (auto simp: absorb_tool_call_chunk_def own_chunk_def update_entry_def call_at_def initial_call_def
      Let_def bt_simps split: prod.splits option.splits)

lemma fold_absorb_tool_call_chunk_at:
  "bt_wf (cs_tool_calls st) \<Longrightarrow>
   bt_wf (cs_tool_calls (fold absorb_tool_call_chunk cs st)) \<and>
   map_of (cs_tool_calls (fold absorb_tool_call_chunk cs st)) index =
     (let own = List.map_filter (own_chunk index) cs
      in if own = [] then map_of (cs_tool_calls st) index
         else Some (fold absorb_chunk own (call_at index st)))"
proof (induction cs arbitrary: st)
  case Nil
  then show ?case by (simp add: map_filter_simps)
next
  case (Cons c cs)
  note step = absorb_tool_call_chunk_at [OF Cons.prems, of c]
  note IH = Cons.IH [OF conjunct1 [OF step [of index]]]
  show ?case
  proof (cases "own_chunk index c")
    case None
    with step [of index] IH show ?thesis
      by (simp add: map_filter_simps call_at_def Let_def)
  next
    case (Some m)
    with step [of index] IH show ?thesis
      by (auto simp: map_filter_simps call_at_def Let_def)
  qed
qed

text \<open>fragments of tool calls that arrive interleaved are assembled call by call: the call of an
  index has the last identifier and the last name that its own fragments carry, or the default
  identifier, and its arguments are exactly the concatenation of its own fragments, in order; an
  index without fragments has no call.\<close>

theorem tool_calls_assembled:
  assumes "cs_tool_calls st = []"
  shows "map_of (cs_tool_calls (fold absorb_tool_call_chunks arrays st)) index =
    (let own = concat (map (own_chunks index) arrays)
     in if own = [] then None else Some (assembled_call (initial_call index) own))"
proof -
  have gen: "bt_wf (cs_tool_calls st) \<Longrightarrow>
     map_of (cs_tool_calls (fold absorb_tool_call_chunks arrays st)) index =
      (let own = concat (map (own_chunks index) arrays)
       in if own = [] then map_of (cs_tool_calls st) index
          else Some (assembled_call (call_at index st) own))" for st
  proof (induction arrays arbitrary: st)
    case (Cons chunks arrays)
    let ?st = "absorb_tool_call_chunks chunks st"
    note step = fold_absorb_tool_call_chunk_at [OF Cons.prems, of "enumerate 0 chunks" index]
    have wf: "bt_wf (cs_tool_calls ?st)"
      and at: "map_of (cs_tool_calls ?st) index = (if own_chunks index chunks = []
        then map_of (cs_tool_calls st) index
        else Some (assembled_call (call_at index st) (own_chunks index chunks)))"
      using step by (auto simp: absorb_tool_call_chunks_def own_chunks_def Let_def fold_absorb_chunk)
    have "call_at index ?st = (if own_chunks index chunks = [] then call_at index st
        else assembled_call (call_at index st) (own_chunks index chunks))"
      by (simp add: call_at_def at)
    moreover define rest where "rest = concat (map (own_chunks index) arrays)"
    ultimately show ?case
      using Cons.IH [OF wf, folded rest_def] at
      by (simp add: Let_def assembled_call_append del: fold_simps concat_eq_Nil_conv
          flip: rest_def)
  qed simp
  show ?thesis using gen [of st] assms by (simp add: call_at_def)
qed

text \<open>Two calls whose fragments alternate.\<close>

definition fragment :: "nat \<Rightarrow> string \<Rightarrow> string \<Rightarrow> string \<Rightarrow> json" where
  "fragment index i name arguments = json_object [(''index'', JInt (int index)), (''id'', JString i),
     (''function'', json_object [(''name'', JString name), (''arguments'', JString arguments)])]"

theorem tool_calls_assembled_witness:
  "map_of (cs_tool_calls (fold absorb_tool_call_chunks
      [[fragment 0 ''a'' ''f'' ''x''], [fragment 1 ''b'' ''g'' ''1''],
       [fragment 0 [] [] ''y'', fragment 1 [] [] ''2'']]
      (chat_stream_state_new (chat_config_new ''p'' ''m'') (new_with_extra_names [] [])))) 1
   = Some \<lparr>ptc_id = ''b'', ptc_name = ''g'', ptc_arguments_json = ''12''\<rparr>"
proof -
  have "(let own = concat (map (own_chunks 1) [[fragment 0 ''a'' ''f'' ''x''], [fragment 1 ''b'' ''g'' ''1''],
       [fragment 0 [] [] ''y'', fragment 1 [] [] ''2'']])
     in if own = [] then None else Some (assembled_call (initial_call 1) own))
     = Some \<lparr>ptc_id = ''b'', ptc_name = ''g'', ptc_arguments_json = ''12''\<rparr>"
    by code_simp
  then show ?thesis
    by (subst tool_calls_assembled) (simp_all add: chat_stream_state_new_def)
qed

section \<open>Reasoning\<close>

text \<open>The thinking deltas of a list of deltas, in order.\<close>

fun thinking_deltas :: "json_map list \<Rightarrow> chat_stream_state \<Rightarrow> thinking_delta list" where
  "thinking_deltas [] st = []"
| "thinking_deltas (d # ds) st =
     (case extract_thinking_delta d st of
        (st', Some t) \<Rightarrow> t # thinking_deltas ds st'
      | (st', None) \<Rightarrow> thinking_deltas ds st')"

definition delta_text :: "thinking_delta \<Rightarrow> string" where
  "delta_text t = (case td_text_delta t of Some s \<Rightarrow> s | None \<Rightarrow> [])"

text \<open>The state once some text was read in a field.\<close>

definition reasoning_text :: "reasoning_field \<Rightarrow> string \<Rightarrow> chat_stream_state \<Rightarrow> bool" where
  "reasoning_text f seen st =
     (bt_wf (cs_reasoning st) \<and> map_of (cs_reasoning st) f = Some
        \<lparr>rr_field = f, rr_value = JString seen, rr_rendered = seen\<rparr>)"

lemma merge_extends: "prefix existing (merge_reasoning_text existing incoming)"
  by (auto simp: merge_reasoning_text_def)

lemma delta_from_cumulative_append: "previous @ delta_from_cumulative_value previous (previous @ s) = previous @ s"
  by (simp add: delta_from_cumulative_value_def strip_prefix_def)

lemma extract_thinking_delta_text:
  assumes "extract_reasoning_value d = Some (f, JString t)" "f \<noteq> ReasoningDetails"
    and "reasoning_text f seen st"
  shows "\<exists>st' td. extract_thinking_delta d st = (st', Some td)
    \<and> reasoning_text f (merge_reasoning_text seen t) st'
    \<and> seen @ delta_text td = merge_reasoning_text seen t
    \<and> td_raw_snapshot td = Some (JString (merge_reasoning_text seen t))"
proof -
  obtain s where s: "merge_reasoning_text seen t = seen @ s"
    using merge_extends [of seen t] by (auto simp: prefix_def)
  have "delta_from_cumulative_value seen (seen @ s) = s"
    by (simp add: delta_from_cumulative_value_def strip_prefix_def)
  with assms s show ?thesis
    by (auto simp: extract_thinking_delta_def reasoning_text_def merge_reasoning_value_def
        render_reasoning_value_def delta_text_def Let_def bt_simps)
qed

lemma thinking_deltas_text:
  "reasoning_text f seen st \<Longrightarrow> f \<noteq> ReasoningDetails \<Longrightarrow>
   map extract_reasoning_value ds = map (\<lambda>t. Some (f, JString t)) ts \<Longrightarrow>
   seen @ concat (map delta_text (thinking_deltas ds st)) = foldl merge_reasoning_text seen ts"
proof (induction ds arbitrary: ts seen st)
  case Nil
  then show ?case by simp
next
  case (Cons d ds)
  from Cons.prems(3) obtain t ts' where ts: "ts = t # ts'" "extract_reasoning_value d = Some (f, JString t)"
    "map extract_reasoning_value ds = map (\<lambda>t. Some (f, JString t)) ts'"
    by (cases ts) auto
  from extract_thinking_delta_text [OF ts(2) Cons.prems(2,1)] obtain st' td where
    step: "extract_thinking_delta d st = (st', Some td)" "reasoning_text f (merge_reasoning_text seen t) st'"
      "seen @ delta_text td = merge_reasoning_text seen t" by blast
  from Cons.IH [OF step(2) Cons.prems(2) ts(3)] step(1) ts(1) show ?case
    by (simp flip: step(3))
qed

text \<open>the reasoning that arrives as text in one field is given out once: the text deltas of the
  stream concatenate to the merge of what arrived. Where each piece repeats all of the text before it
  and extends it, that is the last piece; where no piece does, it is the concatenation of the pieces;
  so a piece that happens to start with the text so far, such as an exact repetition of a single
  first piece, is taken for a growing snapshot and its repetition is dropped.\<close>

theorem reasoning_text_deltas:
  assumes "cs_reasoning st = []" and "f \<noteq> ReasoningDetails"
    and "map extract_reasoning_value ds = map (\<lambda>t. Some (f, JString t)) ts"
  shows "concat (map delta_text (thinking_deltas ds st)) = foldl merge_reasoning_text [] ts
    \<and> (sorted_wrt prefix ts \<longrightarrow> ts \<noteq> [] \<longrightarrow> foldl merge_reasoning_text [] ts = last ts)
    \<and> ((\<forall>k < length ts. 0 < k \<longrightarrow> \<not> prefix (concat (take k ts)) (ts ! k)) \<longrightarrow>
        foldl merge_reasoning_text [] ts = concat ts)"
proof (intro conjI impI)
  show "concat (map delta_text (thinking_deltas ds st)) = foldl merge_reasoning_text [] ts"
  proof (cases ds)
    case Nil
    with assms(3) show ?thesis by simp
  next
    case (Cons d ds')
    with assms(3) obtain t ts' where ts: "ts = t # ts'" "extract_reasoning_value d = Some (f, JString t)"
      "map extract_reasoning_value ds' = map (\<lambda>t. Some (f, JString t)) ts'"
      by (cases ts) auto
    obtain st' td where step: "extract_thinking_delta d st = (st', Some td)"
      "reasoning_text f t st'" "delta_text td = t"
      using assms(1,2) ts(2)
      by (auto simp: extract_thinking_delta_def reasoning_text_def merge_reasoning_value_def
          render_reasoning_value_def delta_text_def delta_from_cumulative_value_def strip_prefix_def
          Let_def bt_wf_def)
    from thinking_deltas_text [OF step(2) assms(2) ts(3)] step Cons ts(1) show ?thesis
      by (simp add: merge_reasoning_text_def)
  qed
next
  have "sorted_wrt prefix (t # ts) \<Longrightarrow> foldl merge_reasoning_text t ts = last (t # ts)" for t ts
    by (induction ts arbitrary: t) (auto simp: merge_reasoning_text_def)
  moreover assume "sorted_wrt prefix ts" and "ts \<noteq> []"
  ultimately show "foldl merge_reasoning_text [] ts = last ts"
    by (cases ts) (auto simp: merge_reasoning_text_def)
next
  assume pieces: "\<forall>k < length ts. 0 < k \<longrightarrow> \<not> prefix (concat (take k ts)) (ts ! k)"
  have "n \<le> length ts \<Longrightarrow> foldl merge_reasoning_text [] (take n ts) = concat (take n ts)" for n
  proof (induction n)
    case (Suc n)
    then have "foldl merge_reasoning_text [] (take (Suc n) ts)
        = merge_reasoning_text (concat (take n ts)) (ts ! n)"
      by (simp add: take_Suc_conv_app_nth)
    also have "\<dots> = concat (take n ts) @ ts ! n"
      using pieces Suc.prems by (cases n) (auto simp: merge_reasoning_text_def)
    finally show ?case using Suc.prems by (simp add: take_Suc_conv_app_nth)
  qed simp
  from this [of "length ts"] show "foldl merge_reasoning_text [] ts = concat ts" by simp
qed

text \<open>A model that says ha twice.\<close>

theorem reasoning_text_deltas_witness:
  "concat (map delta_text (thinking_deltas
      [[(''reasoning'', JString ''ha'')], [(''reasoning'', JString ''ha'')]]
      (chat_stream_state_new (chat_config_new ''p'' ''m'') (new_with_extra_names [] [])))) = ''ha''"
proof -
  have "map extract_reasoning_value [[(''reasoning'', JString ''ha'')], [(''reasoning'', JString ''ha'')]]
      = map (\<lambda>t. Some (Reasoning, JString t)) [''ha'', ''ha'']"
    by code_simp
  from reasoning_text_deltas [OF _ _ this] show ?thesis
    by (simp add: chat_stream_state_new_def merge_reasoning_text_def)
qed

end
