(* ===== verification/Anthropic_Payload.thy ===== *)
theory Anthropic_Payload
  imports Provider_Utils Tool_Names Sse_Stream
begin

text \<open>
  The request of the Anthropic provider (\<open>src/anthropic_messages.rs\<close>): its configuration, headers,
  and the JSON payload that renders system content, messages, media, tools and replayed thinking.
  A floating-point setting is kept as the JSON value it becomes.
\<close>

section \<open>Configuration\<close>

datatype anthropic_auth_scheme = XApiKey | Bearer

datatype anthropic_effort =
  EffortLow | EffortMedium | EffortHigh | EffortXHigh | EffortMax | EffortCustom string

fun anthropic_effort_as_str :: "anthropic_effort \<Rightarrow> string" where
  "anthropic_effort_as_str EffortLow = ''low''"
| "anthropic_effort_as_str EffortMedium = ''medium''"
| "anthropic_effort_as_str EffortHigh = ''high''"
| "anthropic_effort_as_str EffortXHigh = ''xhigh''"
| "anthropic_effort_as_str EffortMax = ''max''"
| "anthropic_effort_as_str (EffortCustom effort) = effort"

datatype anthropic_thinking_config = ThinkingManual nat | ThinkingAdaptive | ThinkingDisabled

record anthropic_config =
  ac_id :: string
  ac_base_url :: string
  ac_model :: string
  ac_api_key :: "string option"
  ac_api_key_env :: "string option"
  ac_auth_scheme :: anthropic_auth_scheme
  ac_headers :: "string smap"
  ac_extra_body :: json_map
  ac_max_tokens :: nat
  ac_temperature :: "json option"
  ac_request_timeout :: nat
  ac_stream_idle_timeout :: nat
  ac_stream_reconnect :: sse_reconnect_config
  ac_anthropic_version :: "string option"
  ac_beta_headers :: "string list"
  ac_output_effort :: "anthropic_effort option"
  ac_thinking :: "anthropic_thinking_config option"
  ac_allow_files_api_media :: bool

definition anthropic_config_new :: "string \<Rightarrow> string \<Rightarrow> anthropic_config" where
  "anthropic_config_new provider_id model =
     \<lparr>ac_id = provider_id, ac_base_url = ''https://api.anthropic.com'', ac_model = model,
      ac_api_key = None, ac_api_key_env = Some ''ANTHROPIC_API_KEY'', ac_auth_scheme = XApiKey,
      ac_headers = [], ac_extra_body = [], ac_max_tokens = 1024, ac_temperature = None,
      ac_request_timeout = 60 * 10 ^ 9, ac_stream_idle_timeout = 300 * 10 ^ 9,
      ac_stream_reconnect = reconnect_default, ac_anthropic_version = Some ''2023-06-01'',
      ac_beta_headers = [], ac_output_effort = None, ac_thinking = None,
      ac_allow_files_api_media = False\<rparr>"

section \<open>Headers\<close>

definition FILES_API_BETA_HEADER :: string where
  "FILES_API_BETA_HEADER = ''files-api-2025-04-14''"

definition effective_beta_headers :: "anthropic_config \<Rightarrow> string list" where
  "effective_beta_headers config =
     (if ac_allow_files_api_media config \<and> FILES_API_BETA_HEADER \<notin> set (ac_beta_headers config)
      then ac_beta_headers config @ [FILES_API_BETA_HEADER] else ac_beta_headers config)"

definition anthropic_headers_from_config :: "http_lib \<Rightarrow> anthropic_config \<Rightarrow> header_map result" where
  "anthropic_headers_from_config http config =
     r_then (headers_from_map http (ac_headers config)) (\<lambda>headers.
     r_then (case ac_anthropic_version config of
         None \<Rightarrow> Inr headers
       | Some version \<Rightarrow>
           (case hl_header_value http version of
              Inl error \<Rightarrow> Inl (Provider (''invalid anthropic-version header: '' @ error))
            | Inr value \<Rightarrow> Inr (bt_insert ''anthropic-version'' value headers))) (\<lambda>headers.
     let beta_headers = effective_beta_headers config
     in if beta_headers = [] then Inr headers
        else case hl_header_value http (join_with '','' beta_headers) of
           Inl error \<Rightarrow> Inl (Provider (''invalid anthropic-beta header: '' @ error))
         | Inr value \<Rightarrow> Inr (bt_insert ''anthropic-beta'' value headers)))"

section \<open>Replay of thinking\<close>

definition ANTHROPIC_THINKING_REPLAY_KIND :: string where
  "ANTHROPIC_THINKING_REPLAY_KIND = ''anthropic_messages_thinking_replay''"

record anthropic_replay_descriptor =
  ard_v :: nat
  ard_kind :: string
  ard_provider_id :: string
  ard_model :: string
  ard_signature :: "string option"

definition anthropic_descriptor_to_json :: "anthropic_replay_descriptor \<Rightarrow> json" where
  "anthropic_descriptor_to_json d =
     json_object ([(''v'', JInt (int (ard_v d))), (''kind'', JString (ard_kind d)),
       (''providerId'', JString (ard_provider_id d)), (''model'', JString (ard_model d))]
       @ (case ard_signature d of None \<Rightarrow> [] | Some s \<Rightarrow> [(''signature'', JString s)]))"

definition anthropic_descriptor_of_json :: "json \<Rightarrow> anthropic_replay_descriptor option" where
  "anthropic_descriptor_of_json value =
     (case json_struct_fields_opt [''v'', ''kind'', ''providerId'', ''model''] ''signature'' value of
        Some ([v, kind, provider_id, model], signature) \<Rightarrow>
          (case (json_as_u64 v, json_as_str kind, json_as_str provider_id, json_as_str model,
                 json_opt_str signature) of
             (Some v, Some kind, Some provider_id, Some model, Some signature) \<Rightarrow>
               Some \<lparr>ard_v = v, ard_kind = kind, ard_provider_id = provider_id, ard_model = model,
                     ard_signature = signature\<rparr>
           | _ \<Rightarrow> None)
      | _ \<Rightarrow> None)"

definition anthropic_replay_thinking :: "anthropic_config \<Rightarrow> thinking_block \<Rightarrow> json option" where
  "anthropic_replay_thinking config thinking =
     Option.bind (tb_replay_descriptor thinking) (\<lambda>value.
     Option.bind (anthropic_descriptor_of_json value) (\<lambda>d.
       if replay_scope_match (ard_v d) (ard_kind d) ANTHROPIC_THINKING_REPLAY_KIND
            (ard_provider_id d) (ac_id config) (ard_model d) (ac_model config) \<noteq> ScopeMatch
       then None
       else map_option (\<lambda>text.
         json_object ([(''type'', JString ''thinking''), (''thinking'', JString text)]
           @ (case or_else (ard_signature d) (get_str (tb_metadata thinking) ''signature'') of
                None \<Rightarrow> [] | Some s \<Rightarrow> [(''signature'', JString s)])))
         (or_else (Option.bind (tb_raw thinking) (\<lambda>raw. Option.bind (json_get raw ''thinking'') json_as_str))
            (tb_text thinking))))"

section \<open>Media\<close>

definition media_source_to_anthropic_source :: "media_block \<Rightarrow> string \<Rightarrow> json result" where
  "media_source_to_anthropic_source media label =
     (case mb_source media of
        Inline data Base64 \<Rightarrow>
          (case mb_mime_type media of
             None \<Rightarrow> Inl (Provider (''inline '' @ label @ '' media requires mime_type''))
           | Some mime_type \<Rightarrow> Inr (json_object [(''type'', JString ''base64''),
               (''media_type'', JString mime_type), (''data'', JString data)]))
      | Inline data _ \<Rightarrow> Inl (Provider (''inline '' @ label @ '' media must use base64 encoding''))
      | Uri uri \<Rightarrow> Inr (json_object [(''type'', JString ''url''), (''url'', JString uri)])
      | ProviderSource provider_id media_id \<Rightarrow>
          Inl (Provider (''provider-referenced '' @ label @ '' media is not supported'')))"

definition media_source_to_anthropic_document_source ::
  "anthropic_config \<Rightarrow> media_block \<Rightarrow> json result" where
  "media_source_to_anthropic_document_source config media =
     (case mb_source media of
        ProviderSource provider_id media_id \<Rightarrow>
          if \<not> ac_allow_files_api_media config
          then Inl (Provider ''provider file media requires allow_files_api_media(true)'')
          else if provider_id \<noteq> ac_id config
          then Inl (Provider ''provider file media source does not match the anthropic provider id'')
          else Inr (json_object [(''type'', JString ''file''), (''file_id'', JString media_id)])
      | _ \<Rightarrow> media_source_to_anthropic_source media ''document'')"

definition image_to_anthropic_block :: "media_block \<Rightarrow> json result" where
  "image_to_anthropic_block media =
     r_then (media_source_to_anthropic_source media ''image'') (\<lambda>source.
     Inr (json_object [(''type'', JString ''image''), (''source'', source)]))"

definition document_to_anthropic_block :: "anthropic_config \<Rightarrow> media_block \<Rightarrow> json result" where
  "document_to_anthropic_block config media =
     r_then (media_source_to_anthropic_document_source config media) (\<lambda>source.
     Inr (json_object ([(''type'', JString ''document''), (''source'', source)]
       @ (case mb_name media of None \<Rightarrow> [] | Some name \<Rightarrow> [(''title'', JString name)]))))"

definition media_to_anthropic_block :: "anthropic_config \<Rightarrow> media_block \<Rightarrow> json result" where
  "media_to_anthropic_block config media =
     (case mb_kind media of
        MK_Image \<Rightarrow> image_to_anthropic_block media
      | MK_File \<Rightarrow> document_to_anthropic_block config media
      | MK_Audio \<Rightarrow> Inl (Provider
          ''audio media is not supported by the built-in anthropic messages provider v1'')
      | MK_Video \<Rightarrow> Inl (Provider
          ''video media is not supported by the built-in anthropic messages provider v1'')
      | MK_Custom kind \<Rightarrow> Inl (Provider
          (''custom media kind cannot be rendered by anthropic messages: '' @ kind)))"

section \<open>Content\<close>

datatype thinking_render_policy =
  RenderThinkingText | RenderThinkingReplay anthropic_config | RejectThinking string

definition anthropic_text_block :: "string \<Rightarrow> json" where
  "anthropic_text_block text = json_object [(''type'', JString ''text''), (''text'', JString text)]"

definition render_text_json_thinking ::
  "json_text \<Rightarrow> content_block \<Rightarrow> thinking_render_policy \<Rightarrow> json option result" where
  "render_text_json_thinking js block thinking_policy =
     (case block of
        Text text \<Rightarrow> Inr (Some (anthropic_text_block text))
      | Json value \<Rightarrow> Inr (Some (anthropic_text_block (js_show js value)))
      | Thinking thinking \<Rightarrow>
          (case thinking_policy of
             RenderThinkingText \<Rightarrow> Inr (map_option anthropic_text_block (tb_text thinking))
           | RenderThinkingReplay config \<Rightarrow> Inr (anthropic_replay_thinking config thinking)
           | RejectThinking message \<Rightarrow> Inl (Provider message))
      | _ \<Rightarrow> Inr None)"

text \<open>
  The loop over content blocks: text, JSON and thinking by the policy, other blocks by
  \<open>other_block\<close>, which gives nothing for a block already rendered.
\<close>

definition render_blocks ::
  "json_text \<Rightarrow> thinking_render_policy \<Rightarrow> (content_block \<Rightarrow> json list result) \<Rightarrow> content_block list
     \<Rightarrow> json list result" where
  "render_blocks js thinking_policy other_block content =
     r_then (r_collect (\<lambda>block.
         r_then (render_text_json_thinking js block thinking_policy) (\<lambda>rendered.
         case rendered of Some value \<Rightarrow> Inr [value] | None \<Rightarrow> other_block block)) content)
       (\<lambda>blocks. Inr (concat blocks))"

definition anthropic_payload_error :: "'a result" where
  "anthropic_payload_error =
     Inl (Provider ''provider payload blocks cannot be rendered for anthropic messages'')"

definition render_anthropic_user_content ::
  "json_text \<Rightarrow> anthropic_config \<Rightarrow> content_block list \<Rightarrow> json list result" where
  "render_anthropic_user_content js config content =
     render_blocks js RenderThinkingText (\<lambda>block. case block of
        Media media \<Rightarrow> r_then (media_to_anthropic_block config media) (\<lambda>value. Inr [value])
      | ToolCallBlock call \<Rightarrow>
          Inl (Provider ''tool blocks cannot be rendered as anthropic user content'')
      | ToolResult _ _ _ _ \<Rightarrow>
          Inl (Provider ''tool blocks cannot be rendered as anthropic user content'')
      | ProviderPayload _ _ _ \<Rightarrow> anthropic_payload_error
      | _ \<Rightarrow> Inr []) content"

definition render_anthropic_content_text_only ::
  "json_text \<Rightarrow> content_block list \<Rightarrow> json list result" where
  "render_anthropic_content_text_only js content =
     render_blocks js RenderThinkingText (\<lambda>block. case block of
        Media media \<Rightarrow> Inl (Provider ''media blocks cannot be rendered as anthropic system content'')
      | ToolCallBlock call \<Rightarrow>
          Inl (Provider ''tool blocks cannot be rendered as anthropic text content'')
      | ToolResult _ _ _ _ \<Rightarrow>
          Inl (Provider ''tool blocks cannot be rendered as anthropic text content'')
      | ProviderPayload _ _ _ \<Rightarrow> anthropic_payload_error
      | _ \<Rightarrow> Inr []) content"

definition render_anthropic_assistant_content ::
  "json_text \<Rightarrow> anthropic_config \<Rightarrow> provider_tool_name_codec \<Rightarrow> content_block list
     \<Rightarrow> json list result" where
  "render_anthropic_assistant_content js config tool_names content =
     render_blocks js (RenderThinkingReplay config) (\<lambda>block. case block of
        ToolCallBlock call \<Rightarrow>
          r_then (provider_name tool_names (tc_name call) (ac_id config) (ac_model config)) (\<lambda>name.
          Inr [json_object [(''type'', JString ''tool_use''), (''id'', JString (tc_id call)),
            (''name'', JString name), (''input'', tc_arguments call)]])
      | Media media \<Rightarrow>
          Inl (Provider ''assistant media blocks cannot be rendered for anthropic messages'')
      | ToolResult _ _ _ _ \<Rightarrow>
          Inl (Provider ''tool result blocks cannot be rendered as anthropic assistant content'')
      | ProviderPayload _ _ _ \<Rightarrow> anthropic_payload_error
      | _ \<Rightarrow> Inr []) content"

definition render_tool_result_content ::
  "json_text \<Rightarrow> anthropic_config \<Rightarrow> content_block list \<Rightarrow> json list result" where
  "render_tool_result_content js config content =
     render_blocks js (RejectThinking ''thinking blocks cannot be rendered as anthropic tool results'')
       (\<lambda>block. case block of
        Media media \<Rightarrow> r_then (media_to_anthropic_block config media) (\<lambda>value. Inr [value])
      | ToolCallBlock call \<Rightarrow>
          Inl (Provider ''nested tool blocks cannot be rendered as anthropic tool results'')
      | ToolResult _ _ _ _ \<Rightarrow>
          Inl (Provider ''nested tool blocks cannot be rendered as anthropic tool results'')
      | ProviderPayload _ _ _ \<Rightarrow> anthropic_payload_error
      | _ \<Rightarrow> Inr []) content"

definition render_anthropic_tool_results ::
  "json_text \<Rightarrow> anthropic_config \<Rightarrow> content_block list \<Rightarrow> json list result" where
  "render_anthropic_tool_results js config content =
     r_collect (\<lambda>block. case block of
        ToolResult tool_call_id tool_name content is_error \<Rightarrow>
          r_then (render_tool_result_content js config content) (\<lambda>rendered.
          Inr (json_object [(''type'', JString ''tool_result''),
            (''tool_use_id'', JString tool_call_id), (''content'', JArray rendered),
            (''is_error'', JBool is_error)]))
      | _ \<Rightarrow> Inl (Provider
          ''only tool result blocks can be rendered as anthropic tool result messages'')) content"

section \<open>Messages and the payload\<close>

definition is_system :: "agent_message \<Rightarrow> bool" where
  "is_system message = (msg_role message = System)"

definition render_system_messages :: "json_text \<Rightarrow> agent_message list \<Rightarrow> json option result" where
  "render_system_messages js messages =
     r_then (r_collect (\<lambda>message. render_anthropic_content_text_only js (msg_content message))
              (filter is_system messages)) (\<lambda>blocks.
     Inr (if concat blocks = [] then None else Some (JArray (concat blocks))))"

definition to_anthropic_message ::
  "json_text \<Rightarrow> anthropic_config \<Rightarrow> provider_tool_name_codec \<Rightarrow> agent_message \<Rightarrow> json list result" where
  "to_anthropic_message js config tool_names message =
     (let with_role = (\<lambda>role content. r_then content (\<lambda>blocks.
        Inr [json_object [(''role'', JString role), (''content'', JArray blocks)]]))
      in case msg_role message of
        User \<Rightarrow> with_role ''user'' (render_anthropic_user_content js config (msg_content message))
      | Assistant \<Rightarrow> with_role ''assistant''
          (render_anthropic_assistant_content js config tool_names (msg_content message))
      | ToolResultRole \<Rightarrow>
          with_role ''user'' (render_anthropic_tool_results js config (msg_content message))
      | CustomRole role \<Rightarrow> Inl (Provider
          (''custom role cannot be rendered for anthropic messages: '' @ role))
      | System \<Rightarrow> Inr [])"

definition to_anthropic_messages ::
  "json_text \<Rightarrow> anthropic_config \<Rightarrow> provider_tool_name_codec \<Rightarrow> model_request \<Rightarrow> json list result" where
  "to_anthropic_messages js config tool_names request =
     r_then (r_collect (to_anthropic_message js config tool_names)
              (filter (\<lambda>m. \<not> is_system m) (mr_messages request))) (\<lambda>messages.
     Inr (concat messages))"

definition to_anthropic_tool ::
  "anthropic_config \<Rightarrow> provider_tool_name_codec \<Rightarrow> tool_spec \<Rightarrow> json result" where
  "to_anthropic_tool config tool_names tool =
     r_then (provider_name tool_names (ts_name tool) (ac_id config) (ac_model config)) (\<lambda>name.
     Inr (json_object [(''name'', JString name), (''description'', JString (ts_description tool)),
       (''input_schema'', ts_input_schema tool)]))"

fun anthropic_thinking_to_value :: "anthropic_thinking_config \<Rightarrow> json" where
  "anthropic_thinking_to_value (ThinkingManual budget_tokens) =
     json_object [(''type'', JString ''enabled''), (''budget_tokens'', JInt (int budget_tokens))]"
| "anthropic_thinking_to_value ThinkingAdaptive = json_object [(''type'', JString ''adaptive'')]"
| "anthropic_thinking_to_value ThinkingDisabled = json_object [(''type'', JString ''disabled'')]"

definition build_anthropic_payload ::
  "json_text \<Rightarrow> anthropic_config \<Rightarrow> provider_tool_name_codec \<Rightarrow> model_request \<Rightarrow> json result" where
  "build_anthropic_payload js config tool_names request =
     (let payload = [(''model'', JString (ac_model config)),
            (''max_tokens'', JInt (int (ac_max_tokens config))), (''stream'', JBool True)]
          @ (case ac_temperature config of None \<Rightarrow> [] | Some t \<Rightarrow> [(''temperature'', t)])
          @ (case ac_output_effort config of None \<Rightarrow> [] | Some effort \<Rightarrow>
               [(''output_config'',
                 json_object [(''effort'', JString (anthropic_effort_as_str effort))])])
          @ (case ac_thinking config of None \<Rightarrow> [] | Some thinking \<Rightarrow>
               [(''thinking'', anthropic_thinking_to_value thinking)])
      in r_then (r_collect (to_anthropic_tool config tool_names) (mr_tools request)) (\<lambda>tools.
         r_then (render_system_messages js (mr_messages request)) (\<lambda>system.
         r_then (to_anthropic_messages js config tool_names request) (\<lambda>messages.
         Inr (JObject (bt_extend (bt_collect (payload
            @ (if mr_tools request = [] then [] else [(''tools'', JArray tools)])
            @ (case system of None \<Rightarrow> [] | Some system \<Rightarrow> [(''system'', system)])
            @ [(''messages'', JArray messages)])) (ac_extra_body config)))))))"

end
