(* ===== verification/Anthropic_Stream.thy ===== *)
theory Anthropic_Stream
  imports Anthropic_Payload
begin

text \<open>
  The stream of the Anthropic provider (\<open>src/anthropic_messages.rs\<close>): the state that decodes the
  chunks of a response, the content blocks under assembly by their index, and the events that finish
  the stream.
\<close>

record anthropic_tool_call =
  atc_id :: string
  atc_name :: string
  atc_arguments_json :: string

definition anthropic_tool_call_default :: anthropic_tool_call where
  "anthropic_tool_call_default = \<lparr>atc_id = [], atc_name = [], atc_arguments_json = []\<rparr>"

record anthropic_thinking_state =
  ats_thinking :: string
  ats_signature :: "string option"

definition anthropic_thinking_default :: anthropic_thinking_state where
  "anthropic_thinking_default = \<lparr>ats_thinking = [], ats_signature = None\<rparr>"

record anthropic_stream_state =
  as_provider_id :: string
  as_model :: string
  as_run_id :: string
  as_turn_id :: nat
  as_tool_names :: provider_tool_name_codec
  as_tool_calls :: "(nat, anthropic_tool_call) btree_map"
  as_thinking :: "(nat, anthropic_thinking_state) btree_map"
  as_stop_reason :: "stop_reason option"
  as_finished :: bool
  as_done :: bool

definition anthropic_stream_state_new ::
  "anthropic_config \<Rightarrow> model_request \<Rightarrow> provider_tool_name_codec \<Rightarrow> anthropic_stream_state" where
  "anthropic_stream_state_new config request tool_names =
     \<lparr>as_provider_id = ac_id config, as_model = ac_model config, as_run_id = mr_run_id request,
      as_turn_id = mr_turn_id request, as_tool_names = tool_names, as_tool_calls = [],
      as_thinking = [], as_stop_reason = None, as_finished = False, as_done = False\<rparr>"

definition map_stop_reason :: "string \<Rightarrow> stop_reason" where
  "map_stop_reason stop_reason =
     (if stop_reason = ''end_turn'' \<or> stop_reason = ''stop_sequence'' then Stop
      else if stop_reason = ''max_tokens'' then Length
      else if stop_reason = ''tool_use'' then ToolUse
      else StopError)"

section \<open>Events\<close>

definition anthropic_started_event :: "json \<Rightarrow> anthropic_stream_state \<Rightarrow> model_stream_event" where
  "anthropic_started_event value st =
     Started (case Option.bind (get_object value ''message'') (\<lambda>m. get_str m ''id'') of
        Some stream_id \<Rightarrow> stream_id
      | None \<Rightarrow> ''anthropic-messages-'' @ as_run_id st @ ''-'' @ show_nat (as_turn_id st))"

definition anthropic_thinking_delta ::
  "string \<Rightarrow> string \<Rightarrow> nat \<Rightarrow> anthropic_thinking_state \<Rightarrow> string option \<Rightarrow> bool
     \<Rightarrow> model_stream_event" where
  "anthropic_thinking_delta provider_id model index state text_delta include_raw_snapshot =
     ThinkingDelta
       \<lparr>td_kind = TK_Raw,
        td_text_delta = text_delta,
        td_raw_snapshot =
          (if include_raw_snapshot
           then Some (json_object [(''thinking'', JString (ats_thinking state)),
                  (''signature'', json_of_option JString (ats_signature state))])
           else None),
        td_replay_descriptor = Some (anthropic_descriptor_to_json
          \<lparr>ard_v = 1, ard_kind = ANTHROPIC_THINKING_REPLAY_KIND, ard_provider_id = provider_id,
           ard_model = model, ard_signature = ats_signature state\<rparr>),
        td_metadata = bt_collect ((''index'', JInt (int index)) #
          (case ats_signature state of None \<Rightarrow> [] | Some s \<Rightarrow> [(''signature'', JString s)]))\<rparr>"

definition anthropic_to_event ::
  "json_text \<Rightarrow> nat \<Rightarrow> provider_tool_name_codec \<Rightarrow> string \<Rightarrow> string \<Rightarrow> anthropic_tool_call
     \<Rightarrow> model_stream_event result" where
  "anthropic_to_event js index tool_names provider_id model call =
     r_then (canonical_name tool_names (atc_name call) provider_id model) (\<lambda>name.
     Inr (ToolCallEvent
       \<lparr>tc_id = (if atc_id call = [] then ''toolu-'' @ show_nat index else atc_id call),
        tc_name = name,
        tc_arguments = parse_tool_arguments js (atc_arguments_json call)\<rparr>))"

definition anthropic_finish_events ::
  "anthropic_stream_state \<Rightarrow> anthropic_stream_state \<times> model_stream_event list" where
  "anthropic_finish_events st =
     (if as_finished st then (st, [])
      else (st\<lparr>as_finished := True\<rparr>,
            [Finished (case as_stop_reason st of Some reason \<Rightarrow> reason | None \<Rightarrow> Stop)]))"

section \<open>Content blocks\<close>

definition or_empty :: "string option \<Rightarrow> string" where
  "or_empty s = (case s of Some s \<Rightarrow> s | None \<Rightarrow> [])"

definition initial_arguments :: "json_text \<Rightarrow> json_map \<Rightarrow> string" where
  "initial_arguments js block =
     (case map_of block ''input'' of
        None \<Rightarrow> []
      | Some input \<Rightarrow>
          if input = JNull \<or> js_show js input = ''{}'' then [] else js_show js input)"

definition apply_content_block_start ::
  "json_text \<Rightarrow> json \<Rightarrow> anthropic_stream_state \<Rightarrow> anthropic_stream_state" where
  "apply_content_block_start js value st =
     (case (get_u64 value ''index'', get_object value ''content_block'') of
        (Some index, Some block) \<Rightarrow>
          (if get_str block ''type'' = Some ''tool_use''
           then st\<lparr>as_tool_calls := bt_insert index
                  \<lparr>atc_id = or_empty (get_str block ''id''), atc_name = or_empty (get_str block ''name''),
                   atc_arguments_json = initial_arguments js block\<rparr> (as_tool_calls st)\<rparr>
           else if get_str block ''type'' = Some ''thinking''
           then st\<lparr>as_thinking := update_entry index anthropic_thinking_default (\<lambda>s. s) (as_thinking st)\<rparr>
           else st)
      | _ \<Rightarrow> st)"

definition thinking_entry :: "anthropic_stream_state \<Rightarrow> nat \<Rightarrow> anthropic_thinking_state" where
  "thinking_entry st index =
     (case map_of (as_thinking st) index of Some s \<Rightarrow> s | None \<Rightarrow> anthropic_thinking_default)"

definition apply_content_block_delta ::
  "json \<Rightarrow> anthropic_stream_state \<Rightarrow> anthropic_stream_state \<times> model_stream_event list" where
  "apply_content_block_delta value st =
     (case (get_u64 value ''index'', get_object value ''delta'') of
        (Some index, Some delta) \<Rightarrow>
          (if get_str delta ''type'' = Some ''text_delta''
           then (case non_empty (get_str delta ''text'') of
                   Some text \<Rightarrow> (st, [TextDelta text])
                 | None \<Rightarrow> (st, []))
           else if get_str delta ''type'' = Some ''input_json_delta''
           then (st\<lparr>as_tool_calls := update_entry index anthropic_tool_call_default
                    (\<lambda>c. c\<lparr>atc_arguments_json :=
                       atc_arguments_json c @ or_empty (get_str delta ''partial_json'')\<rparr>)
                    (as_tool_calls st)\<rparr>, [])
           else if get_str delta ''type'' = Some ''thinking_delta''
           then (case get_str delta ''thinking'' of
                   None \<Rightarrow> (st, [])
                 | Some thinking \<Rightarrow>
                     (let state = (thinking_entry st index)
                            \<lparr>ats_thinking := ats_thinking (thinking_entry st index) @ thinking\<rparr>
                      in (st\<lparr>as_thinking := bt_insert index state (as_thinking st)\<rparr>,
                          [anthropic_thinking_delta (as_provider_id st) (as_model st) index state
                             (Some thinking) False])))
           else if get_str delta ''type'' = Some ''signature_delta''
           then (case get_str delta ''signature'' of
                   None \<Rightarrow> (st, [])
                 | Some signature \<Rightarrow>
                     (let state = (thinking_entry st index)\<lparr>ats_signature := Some signature\<rparr>
                      in (st\<lparr>as_thinking := bt_insert index state (as_thinking st)\<rparr>,
                          [anthropic_thinking_delta (as_provider_id st) (as_model st) index state
                             None True])))
           else (st, []))
      | _ \<Rightarrow> (st, []))"

definition apply_content_block_stop ::
  "json_text \<Rightarrow> json \<Rightarrow> (anthropic_stream_state, agent_core_error, model_stream_event list) eff" where
  "apply_content_block_stop js value st =
     (case get_u64 value ''index'' of
        None \<Rightarrow> (st, Inr [])
      | Some index \<Rightarrow>
          (case map_of (as_tool_calls st) index of
             Some call \<Rightarrow>
               (st\<lparr>as_tool_calls := bt_remove index (as_tool_calls st)\<rparr>,
                r_then (anthropic_to_event js index (as_tool_names st) (as_provider_id st) (as_model st) call)
                  (\<lambda>ev. Inr [ev]))
           | None \<Rightarrow>
               (case map_of (as_thinking st) index of
                  Some thinking \<Rightarrow>
                    (st\<lparr>as_thinking := bt_remove index (as_thinking st)\<rparr>,
                     Inr [anthropic_thinking_delta (as_provider_id st) (as_model st) index thinking None True])
                | None \<Rightarrow> (st, Inr []))))"

section \<open>Chunks\<close>

definition anthropic_error_message :: "json \<Rightarrow> string" where
  "anthropic_error_message value =
     (case Option.bind (get_object value ''error'') (\<lambda>e. get_str e ''message'') of
        Some message \<Rightarrow> message
      | None \<Rightarrow> ''anthropic messages stream error'')"

definition apply_message_delta :: "json \<Rightarrow> anthropic_stream_state \<Rightarrow> anthropic_stream_state" where
  "apply_message_delta value st =
     (case Option.bind (get_object value ''delta'') (\<lambda>d. get_str d ''stop_reason'') of
        Some reason \<Rightarrow> st\<lparr>as_stop_reason := Some (map_stop_reason reason)\<rparr>
      | None \<Rightarrow> st)"

definition anthropic_apply_value ::
  "json_text \<Rightarrow> json \<Rightarrow> (anthropic_stream_state, agent_core_error, model_stream_event list) eff" where
  "anthropic_apply_value js value st =
     (case Option.bind (json_get value ''type'') json_as_str of
        None \<Rightarrow> (st, Inr [])
      | Some event_type \<Rightarrow>
          if event_type = ''message_start'' then (st, Inr [anthropic_started_event value st])
          else if event_type = ''content_block_start''
          then (apply_content_block_start js value st, Inr [])
          else if event_type = ''content_block_delta''
          then (case apply_content_block_delta value st of (st, events) \<Rightarrow> (st, Inr events))
          else if event_type = ''content_block_stop'' then apply_content_block_stop js value st
          else if event_type = ''message_delta'' then (apply_message_delta value st, Inr [])
          else if event_type = ''message_stop''
          then (case anthropic_finish_events (st\<lparr>as_done := True\<rparr>) of (st, events) \<Rightarrow> (st, Inr events))
          else if event_type = ''error''
          then (st\<lparr>as_done := True, as_finished := True\<rparr>, Inr [Failed (anthropic_error_message value)])
          else (st, Inr []))"

definition anthropic_apply_chunk ::
  "json_text \<Rightarrow> string \<Rightarrow> (anthropic_stream_state, agent_core_error, model_stream_event list) eff" where
  "anthropic_apply_chunk js data st =
     (if trim data = ''[DONE]''
      then (case anthropic_finish_events (st\<lparr>as_done := True\<rparr>) of (st, events) \<Rightarrow> (st, Inr events))
      else case js_parse js data of
         Inl error \<Rightarrow> (st, Inl (JsonError error))
       | Inr value \<Rightarrow> anthropic_apply_value js value st)"

end
