(* ===== verification/Anthropic_Provider.thy ===== *)
theory Anthropic_Provider
  imports Anthropic_Stream Provider_Env
begin

text \<open>
  The Anthropic provider (\<open>src/anthropic_messages.rs\<close>, \<open>stream_model\<close>): its request, and the shape of
  the streams it returns.
\<close>

section \<open>The provider\<close>

definition anthropic_endpoint :: "anthropic_config \<Rightarrow> string" where
  "anthropic_endpoint config = trim_end_slashes (ac_base_url config) @ ''/v1/messages''"

definition anthropic_media_policy :: "media_block \<Rightarrow> local_file_policy" where
  "anthropic_media_policy media =
     (case mb_kind media of MK_Image \<Rightarrow> InlineFile | MK_File \<Rightarrow> InlineFile | _ \<Rightarrow> LeaveFile)"

text \<open>The headers of the request: \<open>RequestBuilder::header\<close> and \<open>bearer_auth\<close> append a header.\<close>

definition anthropic_request_headers ::
  "anthropic_config \<Rightarrow> header_map \<Rightarrow> string option \<Rightarrow> (string \<times> string) list" where
  "anthropic_request_headers config headers api_key =
     (case api_key of
        None \<Rightarrow> headers
      | Some api_key \<Rightarrow> headers @
          [case ac_auth_scheme config of
             XApiKey \<Rightarrow> (''x-api-key'', api_key)
           | Bearer \<Rightarrow> (''authorization'', ''Bearer '' @ api_key)])"

definition anthropic_handle_data :: "json_text \<Rightarrow> anthropic_stream_state frame_handler" where
  "anthropic_handle_data js data st =
     (case anthropic_apply_chunk js data st of
        (st, Inl e) \<Rightarrow> (st, Inl e)
      | (st, Inr events) \<Rightarrow> (st, Inr \<lparr>fr_events = events, fr_terminal = as_done st\<rparr>))"

definition anthropic_stream_payload ::
  "'w provider_env \<Rightarrow> anthropic_config \<Rightarrow> 'w model_stream_sink \<Rightarrow> (string \<times> string) list \<Rightarrow> json
     \<Rightarrow> anthropic_stream_state \<Rightarrow> 'w \<Rightarrow> 'w \<times> model_stream_event list result" where
  "anthropic_stream_payload env config stream headers payload state w =
     (let client = provider_client ''anthropic messages'' (ac_stream_reconnect config) env
            (anthropic_endpoint config) headers payload stream (anthropic_handle_data (pe_json env))
      in case run_sse_model_stream client (provider_start w state) of
           (s, Inl e) \<Rightarrow> (pw_world (ss_world s), Inl e)
         | (s, Inr _) \<Rightarrow>
             (case for_each (snd (anthropic_finish_events (pw_state (ss_world s))))
                      (emit_model_stream_event client) s of
                (s, Inl e) \<Rightarrow> (pw_world (ss_world s), Inl e)
              | (s, Inr _) \<Rightarrow> (pw_world (ss_world s), Inr (ss_events s))))"

definition anthropic_stream_model ::
  "'w provider_env \<Rightarrow> anthropic_config \<Rightarrow> model_request \<Rightarrow> 'w model_stream_sink
     \<Rightarrow> ('w, agent_core_error, model_stream_event list) eff" where
  "anthropic_stream_model env config request stream =
     and_then (hc_cancelled (pe_client env)) (\<lambda>_.
     and_then (materialize_local_file_uri_media_in_request (pe_files env) anthropic_media_policy request)
       (\<lambda>request.
     let tool_names = new_with_message_history (mr_tools request) (mr_messages request)
     in and_then (lift_result (build_anthropic_payload (pe_json env) config tool_names request)) (\<lambda>payload.
        and_then (lift_result (anthropic_headers_from_config (pe_http env) config)) (\<lambda>headers.
        and_then (lift_result (resolve_api_key (pe_http env) (ac_api_key config) (ac_api_key_env config)))
          (\<lambda>api_key.
        anthropic_stream_payload env config stream (anthropic_request_headers config headers api_key)
          payload (anthropic_stream_state_new config request tool_names))))))"

section \<open>The shape of a stream\<close>

lemma apply_content_block_start_fixed [simp]:
  "as_finished (apply_content_block_start js value st) = as_finished st"
  "as_done (apply_content_block_start js value st) = as_done st"
  by (simp_all add: apply_content_block_start_def split: option.split)

lemma apply_message_delta_fixed [simp]:
  "as_finished (apply_message_delta value st) = as_finished st"
  "as_done (apply_message_delta value st) = as_done st"
  by (simp_all add: apply_message_delta_def split: option.split)

lemma apply_content_block_delta_fixed:
  "apply_content_block_delta value st = (st', evs) \<Longrightarrow>
   as_finished st' = as_finished st \<and> as_done st' = as_done st \<and> \<not> list_ex terminal_event evs"
  by (auto simp: apply_content_block_delta_def anthropic_thinking_delta_def terminal_event_def Let_def
      split: option.splits if_splits)

lemma apply_content_block_stop_fixed:
  "apply_content_block_stop js value st = (st', Inr evs) \<Longrightarrow>
   as_finished st' = as_finished st \<and> as_done st' = as_done st \<and> \<not> list_ex terminal_event evs"
  by (auto simp: apply_content_block_stop_def anthropic_thinking_delta_def terminal_event_def
      anthropic_to_event_def r_then_Inr_iff split: option.splits)

text \<open>A chunk either goes on or finishes the stream with one terminal event.\<close>

lemma anthropic_apply_chunk_events:
  assumes "anthropic_apply_chunk js data st = (st', Inr evs)" and "\<not> as_done st" "\<not> as_finished st"
  shows "(\<not> as_done st' \<and> \<not> as_finished st' \<and> \<not> list_ex terminal_event evs)
    \<or> (as_done st' \<and> as_finished st' \<and> (\<exists>ev. evs = [ev] \<and> terminal_event ev))"
proof -
  have finish: "anthropic_finish_events (st\<lparr>as_done := True\<rparr>) = (st', evs) \<Longrightarrow> ?thesis"
    using assms(3) by (auto simp: anthropic_finish_events_def terminal_event_def)
  from assms finish show ?thesis
    by (auto simp: anthropic_apply_chunk_def anthropic_apply_value_def anthropic_started_event_def
        terminal_event_def split: if_splits sum.splits option.splits prod.splits
        dest!: apply_content_block_delta_fixed apply_content_block_stop_fixed)
qed

definition anthropic_events :: "anthropic_stream_state \<Rightarrow> model_stream_event list \<Rightarrow> bool" where
  "anthropic_events st evs =
     (as_finished st = as_done st \<and> single_terminal (as_done st) evs)"

interpretation anthropic: frame_handling "anthropic_handle_data js" anthropic_events as_done
  for js
proof
  fix x x' :: anthropic_stream_state and evs data r
  assume I: "anthropic_events x evs" and undone: "\<not> as_done x"
    and run: "anthropic_handle_data js data x = (x', Inr r)"
  from run obtain more' where chunk: "anthropic_apply_chunk js data x = (x', Inr more')"
    and r: "r = \<lparr>fr_events = more', fr_terminal = as_done x'\<rparr>"
    by (auto simp: anthropic_handle_data_def split: prod.splits sum.splits)
  from anthropic_apply_chunk_events [OF chunk undone] I undone r
  show "anthropic_events x' (evs @ fr_events r) \<and> (as_done x' \<longleftrightarrow> fr_terminal r)"
    using single_terminal_append single_terminal_finish [of evs "[]"]
    by (auto simp: anthropic_events_def)
qed

text \<open>C28: a stream that the Anthropic provider returns ends with one terminal event, a finish or a
  failure that the server reported, and no event before it is terminal; whatever the server sends
  and however the stream was split and reconnected, nothing follows the terminal event and none is
  missing.\<close>

theorem anthropic_stream_single_terminal:
  assumes "anthropic_stream_model env config request stream w = (w', Inr evs)"
  shows "\<exists>body last. evs = body @ [last] \<and> terminal_event last \<and> \<not> list_ex terminal_event body"
proof -
  from assms obtain headers payload state v where
    run: "anthropic_stream_payload env config stream headers payload state v = (w', Inr evs)"
    and state: "\<not> as_done state" "\<not> as_finished state"
    by (auto simp: anthropic_stream_model_def and_then_Inr_iff anthropic_stream_state_new_def Let_def)
  let ?client = "provider_client ''anthropic messages'' (ac_stream_reconnect config) env
     (anthropic_endpoint config) headers payload stream (anthropic_handle_data (pe_json env))"
  obtain s q where sse: "run_sse_model_stream ?client (provider_start v state) = (s, q)" by force
  with run have q: "q = Inr ()" by (cases q) (auto simp: anthropic_stream_payload_def Let_def)
  have "anthropic_events (pw_state (ss_world (provider_start v state))) (ss_events (provider_start v state))"
    and "\<not> as_done (pw_state (ss_world (provider_start v state)))"
    using state by (simp_all add: provider_start_def anthropic_events_def)
  from anthropic.client.run_sse_model_stream_reading [OF this sse [unfolded q]]
  have fin: "as_finished (pw_state (ss_world s))" and evs: "single_terminal True (ss_events s)"
    by (auto simp: anthropic_events_def)
  from run sse q fin have "evs = ss_events s"
    by (simp add: anthropic_stream_payload_def Let_def anthropic_finish_events_def ok_run)
  with evs show ?thesis by (auto simp: single_terminal_def)
qed

text \<open>A server that starts a message, answers a text and stops.\<close>

definition sample_anthropic_json :: json_text where
  "sample_anthropic_json = \<lparr>js_parse = (\<lambda>s.
       if s = ''s'' then Inr (json_object [(''type'', JString ''message_start'')])
       else if s = ''t'' then Inr (json_object [(''type'', JString ''content_block_delta''),
         (''index'', JInt 0), (''delta'', json_object [(''type'', JString ''text_delta''),
            (''text'', JString ''hi'')])])
       else Inr (json_object [(''type'', JString ''message_stop'')])), js_show = (\<lambda>v. ''json'')\<rparr>"

definition sample_anthropic_world :: "request_event list" where
  "sample_anthropic_world = [sample_response
     [''data:s'' @ [LF, LF] @ ''data:'', ''t'' @ [LF, LF], ''data:e'' @ [LF, LF]]]"

theorem anthropic_stream_single_terminal_witness:
  "\<exists>body last. [Started ''anthropic-messages-run-1-1'', TextDelta ''hi'', Finished Stop] = body @ [last]
    \<and> terminal_event last \<and> \<not> list_ex terminal_event body"
proof -
  let ?config = "anthropic_config_new ''p'' ''m''" and ?codec = "new_with_message_history (mr_tools sample_request) []"
  let ?env = "sample_env_with sample_anthropic_json"
  let ?evs = "[Started ''anthropic-messages-run-1-1'', TextDelta ''hi'', Finished Stop]"
  have "case build_anthropic_payload sample_anthropic_json ?config ?codec sample_request
      of Inr p \<Rightarrow> True | Inl e \<Rightarrow> False"
    by code_simp
  then obtain payload where payload: "build_anthropic_payload sample_anthropic_json ?config ?codec sample_request
      = Inr payload" by (auto split: sum.splits)
  obtain headers where headers: "anthropic_headers_from_config (pe_http ?env) ?config = Inr headers"
    by (simp add: anthropic_headers_from_config_def headers_from_map_def anthropic_config_new_def
        sample_env_with_def effective_beta_headers_def)
  have "anthropic_stream_payload ?env ?config (\<lambda>ev. ok ())
      (anthropic_request_headers ?config headers (Some ''key'')) payload
      (anthropic_stream_state_new ?config sample_request ?codec) sample_anthropic_world = ([], Inr ?evs)"
    by code_simp
  moreover have same: "sample_request\<lparr>mr_messages := []\<rparr> = sample_request" by (simp add: sample_request_def)
  moreover have "mr_messages sample_request = []" by (simp add: sample_request_def)
  moreover have "hc_cancelled (pe_client ?env) = ok ()" "pe_json ?env = sample_anthropic_json"
    "resolve_api_key (pe_http ?env) (ac_api_key ?config) (ac_api_key_env ?config) = Inr (Some ''key'')"
    by (simp_all add: sample_env_with_def resolve_api_key_def anthropic_config_new_def)
  ultimately have "anthropic_stream_model ?env ?config sample_request (\<lambda>ev. ok ()) sample_anthropic_world
      = ([], Inr ?evs)"
    using payload headers
    by (simp add: anthropic_stream_model_def materialize_local_file_uri_media_in_request_def and_then_def
        ok_run lift_result_run Let_def same)
  from anthropic_stream_single_terminal [OF this] show ?thesis .
qed

end
