(* ===== verification/Responses_Payload.thy ===== *)
theory Responses_Payload
  imports Provider_Utils Tool_Names Sse_Stream
begin

text \<open>
  The request of the responses provider (\<open>src/responses.rs\<close>): its configuration, the rendering of
  messages as input items and instructions, and the replay of items that an earlier response gave,
  which a stateless conversation may send again only when they are self-contained.
  A floating-point setting is kept as the JSON value it becomes.
\<close>

section \<open>Configuration\<close>

datatype responses_state_mode = Stateless | Stateful

definition state_mode_store :: "responses_state_mode \<Rightarrow> bool" where
  "state_mode_store mode = (mode = Stateful)"

definition is_stateless :: "responses_state_mode \<Rightarrow> bool" where
  "is_stateless mode = (mode = Stateless)"

datatype responses_replay_item_source = RequestHistory | ThinkingHistory | CompactOutput

datatype responses_reasoning_effort =
  REffortMinimal | REffortLow | REffortMedium | REffortHigh | REffortXHigh | REffortCustom string

fun responses_effort_as_str :: "responses_reasoning_effort \<Rightarrow> string" where
  "responses_effort_as_str REffortMinimal = ''minimal''"
| "responses_effort_as_str REffortLow = ''low''"
| "responses_effort_as_str REffortMedium = ''medium''"
| "responses_effort_as_str REffortHigh = ''high''"
| "responses_effort_as_str REffortXHigh = ''xhigh''"
| "responses_effort_as_str (REffortCustom effort) = effort"

datatype responses_reasoning_summary =
  SummaryAuto | SummaryConcise | SummaryDetailed | SummaryNone | SummaryCustom string

fun responses_summary_as_str :: "responses_reasoning_summary \<Rightarrow> string" where
  "responses_summary_as_str SummaryAuto = ''auto''"
| "responses_summary_as_str SummaryConcise = ''concise''"
| "responses_summary_as_str SummaryDetailed = ''detailed''"
| "responses_summary_as_str SummaryNone = ''none''"
| "responses_summary_as_str (SummaryCustom summary) = summary"

record responses_reasoning_config =
  rrc_effort :: "responses_reasoning_effort option"
  rrc_summary :: "responses_reasoning_summary option"

record 'w responses_config =
  rs_id :: string
  rs_base_url :: string
  rs_model :: string
  rs_api_key :: "string option"
  rs_api_key_env :: "string option"
  rs_auth_provider :: "'w http_auth_provider option"
  rs_headers :: "string smap"
  rs_extra_body :: json_map
  rs_max_output_tokens :: "nat option"
  rs_temperature :: "json option"
  rs_text :: "json option"
  rs_fallback_instructions :: "string option"
  rs_request_timeout :: nat
  rs_stream_idle_timeout :: nat
  rs_stream_reconnect :: sse_reconnect_config
  rs_state_mode :: responses_state_mode
  rs_reasoning :: "responses_reasoning_config option"
  rs_include_encrypted_reasoning :: bool
  rs_native_tools :: "json list"
  rs_function_tool_strict :: "bool option"
  rs_allow_file_data_url_input :: bool

definition responses_config_new :: "string \<Rightarrow> string \<Rightarrow> 'w responses_config" where
  "responses_config_new provider_id model =
     \<lparr>rs_id = provider_id, rs_base_url = ''https://api.openai.com/v1'', rs_model = model,
      rs_api_key = None, rs_api_key_env = Some ''OPENAI_API_KEY'', rs_auth_provider = None,
      rs_headers = [], rs_extra_body = [], rs_max_output_tokens = None, rs_temperature = None,
      rs_text = None, rs_fallback_instructions = None, rs_request_timeout = 60 * 10 ^ 9,
      rs_stream_idle_timeout = 300 * 10 ^ 9, rs_stream_reconnect = reconnect_default,
      rs_state_mode = Stateless, rs_reasoning = None, rs_include_encrypted_reasoning = False,
      rs_native_tools = [], rs_function_tool_strict = None, rs_allow_file_data_url_input = False\<rparr>"

record responses_render_config =
  rr_provider_id :: string
  rr_model :: string
  rr_extra_body :: json_map
  rr_max_output_tokens :: "nat option"
  rr_temperature :: "json option"
  rr_text :: "json option"
  rr_fallback_instructions :: "string option"
  rr_state_mode :: responses_state_mode
  rr_reasoning :: "responses_reasoning_config option"
  rr_include_encrypted_reasoning :: bool
  rr_native_tools :: "json list"
  rr_function_tool_strict :: "bool option"
  rr_allow_file_data_url_input :: bool

definition responses_render_config_new :: "string \<Rightarrow> string \<Rightarrow> responses_render_config" where
  "responses_render_config_new provider_id model =
     \<lparr>rr_provider_id = provider_id, rr_model = model, rr_extra_body = [],
      rr_max_output_tokens = None, rr_temperature = None, rr_text = None,
      rr_fallback_instructions = None, rr_state_mode = Stateless, rr_reasoning = None,
      rr_include_encrypted_reasoning = False, rr_native_tools = [],
      rr_function_tool_strict = None, rr_allow_file_data_url_input = False\<rparr>"

definition responses_render_config_from :: "'w responses_config \<Rightarrow> responses_render_config" where
  "responses_render_config_from config =
     \<lparr>rr_provider_id = rs_id config, rr_model = rs_model config, rr_extra_body = rs_extra_body config,
      rr_max_output_tokens = rs_max_output_tokens config, rr_temperature = rs_temperature config,
      rr_text = rs_text config, rr_fallback_instructions = rs_fallback_instructions config,
      rr_state_mode = rs_state_mode config, rr_reasoning = rs_reasoning config,
      rr_include_encrypted_reasoning = rs_include_encrypted_reasoning config,
      rr_native_tools = rs_native_tools config,
      rr_function_tool_strict = rs_function_tool_strict config,
      rr_allow_file_data_url_input = rs_allow_file_data_url_input config\<rparr>"

section \<open>Replayed items\<close>

definition has_non_empty_string :: "json \<Rightarrow> string \<Rightarrow> bool" where
  "has_non_empty_string item key =
     (case json_get item key of Some (JString s) \<Rightarrow> s \<noteq> [] | _ \<Rightarrow> False)"

definition has_non_empty_array :: "json \<Rightarrow> string \<Rightarrow> bool" where
  "has_non_empty_array item key =
     (case json_get item key of Some (JArray vs) \<Rightarrow> vs \<noteq> [] | _ \<Rightarrow> False)"

definition is_stateless_reasoning_replayable :: "json \<Rightarrow> bool" where
  "is_stateless_reasoning_replayable item =
     (has_non_empty_string item ''encrypted_content'' \<or> has_non_empty_array item ''summary''
      \<or> has_non_empty_array item ''content'')"

definition unsafe_responses_replay_item ::
  "responses_replay_item_source \<Rightarrow> string \<Rightarrow> json option result" where
  "unsafe_responses_replay_item source message =
     (case source of
        RequestHistory \<Rightarrow> Inl (Provider message)
      | ThinkingHistory \<Rightarrow> Inr None
      | CompactOutput \<Rightarrow> Inr None)"

fun strip_response_item_id :: "json \<Rightarrow> json" where
  "strip_response_item_id (JObject m) = JObject (bt_remove ''id'' m)"
| "strip_response_item_id item = item"

definition ensure_reasoning_summary_array :: "json \<Rightarrow> json result" where
  "ensure_reasoning_summary_array item =
     (case item of
        JObject m \<Rightarrow>
          (case map_of m ''summary'' of
             Some (JArray vs) \<Rightarrow> Inr item
           | Some _ \<Rightarrow> Inl (Provider ''responses reasoning replay summary must be an array'')
           | None \<Rightarrow> Inr (JObject (bt_insert ''summary'' (JArray []) m)))
      | _ \<Rightarrow> Inr item)"

definition item_type :: "json \<Rightarrow> string option" where
  "item_type item = Option.bind (json_get item ''type'') json_as_str"

definition normalize_stateful_responses_replay_item :: "json \<Rightarrow> json result" where
  "normalize_stateful_responses_replay_item item =
     (if item_type item = Some ''reasoning'' then ensure_reasoning_summary_array item else Inr item)"

definition normalize_responses_replay_item ::
  "json \<Rightarrow> responses_state_mode \<Rightarrow> responses_replay_item_source \<Rightarrow> json option result" where
  "normalize_responses_replay_item item state_mode source =
     (if state_mode = Stateful
      then r_then (normalize_stateful_responses_replay_item item) (\<lambda>item. Inr (Some item))
      else case item_type item of
        None \<Rightarrow> unsafe_responses_replay_item source ''responses replay item is missing type''
      | Some type \<Rightarrow>
          if type = ''message'' then Inr (Some (strip_response_item_id item))
          else if type = ''reasoning''
          then (if source = ThinkingHistory \<and> \<not> has_non_empty_string item ''encrypted_content''
                then Inr None
                else if is_stateless_reasoning_replayable item
                then r_then (ensure_reasoning_summary_array (strip_response_item_id item))
                       (\<lambda>item. Inr (Some item))
                else unsafe_responses_replay_item source
                  ''stateless responses reasoning replay requires encrypted_content, non-empty summary, or non-empty content'')
          else if type = ''compaction'' \<or> type = ''context_compaction''
          then (if has_non_empty_string item ''encrypted_content''
                then Inr (Some (strip_response_item_id item))
                else unsafe_responses_replay_item source
                  ''stateless responses compaction replay requires encrypted_content'')
          else unsafe_responses_replay_item source
            (''stateless responses replay item is not safe to replay: '' @ type))"

definition RESPONSES_REASONING_REPLAY_KIND :: string where
  "RESPONSES_REASONING_REPLAY_KIND = ''openai_responses_reasoning_replay''"

record responses_replay_descriptor =
  rrd_v :: nat
  rrd_kind :: string
  rrd_provider_id :: string
  rrd_model :: string
  rrd_item_id :: "string option"

definition responses_descriptor_to_json :: "responses_replay_descriptor \<Rightarrow> json" where
  "responses_descriptor_to_json d =
     json_object ([(''v'', JInt (int (rrd_v d))), (''kind'', JString (rrd_kind d)),
       (''providerId'', JString (rrd_provider_id d)), (''model'', JString (rrd_model d))]
       @ (case rrd_item_id d of None \<Rightarrow> [] | Some s \<Rightarrow> [(''itemId'', JString s)]))"

definition responses_descriptor_of_json :: "json \<Rightarrow> responses_replay_descriptor option" where
  "responses_descriptor_of_json value =
     (case json_struct_fields_opt [''v'', ''kind'', ''providerId'', ''model''] ''itemId'' value of
        Some ([v, kind, provider_id, model], item_id) \<Rightarrow>
          (case (json_as_u64 v, json_as_str kind, json_as_str provider_id, json_as_str model,
                 json_opt_str item_id) of
             (Some v, Some kind, Some provider_id, Some model, Some item_id) \<Rightarrow>
               Some \<lparr>rrd_v = v, rrd_kind = kind, rrd_provider_id = provider_id, rrd_model = model,
                     rrd_item_id = item_id\<rparr>
           | _ \<Rightarrow> None)
      | _ \<Rightarrow> None)"

definition responses_replay_reasoning ::
  "responses_render_config \<Rightarrow> thinking_block \<Rightarrow> json option result" where
  "responses_replay_reasoning config thinking =
     (case Option.bind (tb_replay_descriptor thinking) responses_descriptor_of_json of
        None \<Rightarrow> Inr None
      | Some d \<Rightarrow>
          if replay_scope_match (rrd_v d) (rrd_kind d) RESPONSES_REASONING_REPLAY_KIND
               (rrd_provider_id d) (rr_provider_id config) (rrd_model d) (rr_model config) \<noteq> ScopeMatch
          then Inr None
          else case tb_raw thinking of
            None \<Rightarrow> Inr None
          | Some raw \<Rightarrow>
              if rr_state_mode config = Stateless \<and> \<not> has_non_empty_string raw ''encrypted_content''
              then Inr None
              else normalize_responses_replay_item raw (rr_state_mode config) ThinkingHistory)"

section \<open>Media\<close>

definition responses_data_url :: "media_block \<Rightarrow> string \<Rightarrow> string \<Rightarrow> string result" where
  "responses_data_url media data label =
     (case mb_mime_type media of
        None \<Rightarrow> Inl (Provider (''inline '' @ label @ '' media requires mime_type''))
      | Some mime_type \<Rightarrow> Inr (''data:'' @ mime_type @ '';base64,'' @ data))"

definition ensure_provider_scope :: "responses_render_config \<Rightarrow> string \<Rightarrow> string \<Rightarrow> unit result" where
  "ensure_provider_scope config provider_id label =
     (if provider_id = rr_provider_id config then Inr ()
      else Inl (Provider (''provider '' @ label @
             '' media source does not match the responses provider id'')))"

definition image_to_responses_part :: "responses_render_config \<Rightarrow> media_block \<Rightarrow> json result" where
  "image_to_responses_part config media =
     r_then (case mb_source media of
         Uri uri \<Rightarrow> Inr (''image_url'', JString uri)
       | Inline data Base64 \<Rightarrow>
           r_then (responses_data_url media data ''image'') (\<lambda>url. Inr (''image_url'', JString url))
       | Inline data _ \<Rightarrow> Inl (Provider ''inline image media must use base64 encoding'')
       | ProviderSource provider_id media_id \<Rightarrow>
           r_then (ensure_provider_scope config provider_id ''image'') (\<lambda>_.
           Inr (''file_id'', JString media_id)))
     (\<lambda>field. Inr (json_object [(''type'', JString ''input_image''), field]))"

definition file_to_responses_part :: "responses_render_config \<Rightarrow> media_block \<Rightarrow> json result" where
  "file_to_responses_part config media =
     r_then (case mb_source media of
         Uri uri \<Rightarrow> Inr [(''file_url'', JString uri)]
       | ProviderSource provider_id media_id \<Rightarrow>
           r_then (ensure_provider_scope config provider_id ''file'') (\<lambda>_.
           Inr [(''file_id'', JString media_id)])
       | Inline data Base64 \<Rightarrow>
           if \<not> rr_allow_file_data_url_input config
           then Inl (Provider
             ''inline file media requires allow_file_data_url_input(true) for responses api'')
           else r_then (responses_data_url media data ''file'') (\<lambda>url.
             Inr ((''file_data'', JString url) #
               (case mb_name media of None \<Rightarrow> [] | Some name \<Rightarrow> [(''filename'', JString name)])))
       | Inline data _ \<Rightarrow> Inl (Provider ''inline file media must use base64 encoding''))
     (\<lambda>fields. Inr (json_object ((''type'', JString ''input_file'') # fields)))"

definition media_to_responses_input_part ::
  "responses_render_config \<Rightarrow> media_block \<Rightarrow> json result" where
  "media_to_responses_input_part config media =
     (case mb_kind media of
        MK_Image \<Rightarrow> image_to_responses_part config media
      | MK_File \<Rightarrow> file_to_responses_part config media
      | MK_Audio \<Rightarrow> Inl (Provider
          ''audio media is not supported by the built-in responses api provider v1'')
      | MK_Video \<Rightarrow> Inl (Provider
          ''video media is not supported by the built-in responses api provider v1'')
      | MK_Custom kind \<Rightarrow> Inl (Provider
          (''custom media kind cannot be rendered by responses api: '' @ kind)))"

section \<open>Messages\<close>

definition RESPONSES_PROVIDER_PAYLOAD :: string where
  "RESPONSES_PROVIDER_PAYLOAD = ''openai.responses''"

definition RESPONSES_RESPONSE_ITEM_PAYLOAD :: string where
  "RESPONSES_RESPONSE_ITEM_PAYLOAD = ''response_item''"

fun is_provider_payload :: "content_block \<Rightarrow> bool" where
  "is_provider_payload (ProviderPayload _ _ _) = True"
| "is_provider_payload _ = False"

definition provider_payload_item ::
  "responses_state_mode \<Rightarrow> content_block \<Rightarrow> json list result" where
  "provider_payload_item state_mode block =
     (case block of
        ProviderPayload provider kind value \<Rightarrow>
          if provider \<noteq> RESPONSES_PROVIDER_PAYLOAD \<or> kind \<noteq> RESPONSES_RESPONSE_ITEM_PAYLOAD
          then Inl (Provider (''unsupported responses provider payload: '' @ provider @ ''/'' @ kind))
          else r_then (normalize_responses_replay_item value state_mode RequestHistory) (\<lambda>item.
            Inr (case item of None \<Rightarrow> [] | Some item \<Rightarrow> [item]))
      | _ \<Rightarrow> Inr [])"

definition render_responses_provider_payload_items ::
  "responses_state_mode \<Rightarrow> content_block list \<Rightarrow> json list option result" where
  "render_responses_provider_payload_items state_mode content =
     (let payload_count = length (filter is_provider_payload content)
      in if payload_count = 0 then Inr None
         else if payload_count \<noteq> length content
         then Inl (Provider ''responses provider payload blocks cannot be mixed with normal content'')
         else r_then (r_collect (provider_payload_item state_mode) content) (\<lambda>items.
           Inr (Some (concat items))))"

definition input_text_part :: "string \<Rightarrow> json" where
  "input_text_part text = json_object [(''type'', JString ''input_text''), (''text'', JString text)]"

definition output_text_part :: "string \<Rightarrow> json" where
  "output_text_part text =
     json_object [(''type'', JString ''output_text''), (''text'', JString text), (''annotations'', JArray [])]"

definition responses_user_part ::
  "json_text \<Rightarrow> responses_render_config \<Rightarrow> content_block \<Rightarrow> json list result" where
  "responses_user_part js config block =
     (case block of
        Text text \<Rightarrow> Inr [input_text_part text]
      | Json value \<Rightarrow> Inr [input_text_part (js_show js value)]
      | Thinking thinking \<Rightarrow>
          Inr (case tb_text thinking of None \<Rightarrow> [] | Some text \<Rightarrow> [input_text_part text])
      | Media media \<Rightarrow>
          r_then (media_to_responses_input_part config media) (\<lambda>part. Inr [part])
      | ProviderPayload _ _ _ \<Rightarrow> Inl (Provider
          ''provider payload blocks must occupy an entire responses message'')
      | _ \<Rightarrow> Inl (Provider ''tool blocks cannot be rendered as responses user content''))"

definition responses_user_content ::
  "json_text \<Rightarrow> responses_render_config \<Rightarrow> content_block list \<Rightarrow> json list result" where
  "responses_user_content js config content =
     r_then (r_collect (responses_user_part js config) content) (\<lambda>parts. Inr (concat parts))"

definition flush_assistant_text_message :: "json list \<Rightarrow> json list \<Rightarrow> json list" where
  "flush_assistant_text_message items text_parts =
     (if text_parts = [] then items
      else items @ [json_object [(''type'', JString ''message''), (''status'', JString ''completed''),
        (''role'', JString ''assistant''), (''content'', JArray text_parts)]])"

definition function_call_item ::
  "json_text \<Rightarrow> responses_render_config \<Rightarrow> provider_tool_name_codec \<Rightarrow> tool_call \<Rightarrow> json result" where
  "function_call_item js config tool_names call =
     r_then (provider_name tool_names (tc_name call) (rr_provider_id config) (rr_model config)) (\<lambda>name.
     Inr (json_object [(''type'', JString ''function_call''), (''call_id'', JString (tc_id call)),
       (''name'', JString name), (''arguments'', JString (js_show js (tc_arguments call))),
       (''status'', JString ''completed'')]))"

text \<open>The loop over the blocks of an assistant message, with \<open>items\<close> and \<open>text_parts\<close>.\<close>

fun render_assistant_items ::
  "json_text \<Rightarrow> responses_render_config \<Rightarrow> provider_tool_name_codec \<Rightarrow> content_block list
     \<Rightarrow> json list \<Rightarrow> json list \<Rightarrow> json list result" where
  "render_assistant_items js config tool_names [] items text_parts =
     Inr (flush_assistant_text_message items text_parts)"
| "render_assistant_items js config tool_names (block # blocks) items text_parts =
     (case block of
        Text text \<Rightarrow>
          render_assistant_items js config tool_names blocks items (text_parts @ [output_text_part text])
      | Json value \<Rightarrow>
          render_assistant_items js config tool_names blocks items
            (text_parts @ [output_text_part (js_show js value)])
      | Thinking thinking \<Rightarrow>
          r_then (responses_replay_reasoning config thinking) (\<lambda>item.
          render_assistant_items js config tool_names blocks
            (flush_assistant_text_message items text_parts
               @ (case item of None \<Rightarrow> [] | Some item \<Rightarrow> [item])) [])
      | ToolCallBlock call \<Rightarrow>
          r_then (function_call_item js config tool_names call) (\<lambda>item.
          render_assistant_items js config tool_names blocks
            (flush_assistant_text_message items text_parts @ [item]) [])
      | Media media \<Rightarrow> Inl (Provider
          ''assistant media blocks cannot be rendered for responses api v1'')
      | ToolResult _ _ _ _ \<Rightarrow> Inl (Provider
          ''tool result blocks cannot be rendered as responses assistant content'')
      | ProviderPayload _ _ _ \<Rightarrow> Inl (Provider
          ''provider payload blocks must occupy an entire responses message''))"

definition text_only_block ::
  "json_text \<Rightarrow> string \<Rightarrow> string \<Rightarrow> content_block \<Rightarrow> string list result" where
  "text_only_block js media_error tool_error block =
     (case block of
        Text text \<Rightarrow> Inr [text]
      | Json value \<Rightarrow> Inr [js_show js value]
      | Thinking thinking \<Rightarrow> Inr (case tb_text thinking of None \<Rightarrow> [] | Some text \<Rightarrow> [text])
      | Media media \<Rightarrow> Inl (Provider media_error)
      | ProviderPayload _ _ _ \<Rightarrow> Inl (Provider
          ''provider payload blocks cannot be rendered as plain responses text'')
      | _ \<Rightarrow> Inl (Provider tool_error))"

definition render_text_only_blocks ::
  "json_text \<Rightarrow> content_block list \<Rightarrow> string \<Rightarrow> string \<Rightarrow> string list result" where
  "render_text_only_blocks js content media_error tool_error =
     r_then (r_collect (text_only_block js media_error tool_error) content) (\<lambda>parts. Inr (concat parts))"

definition render_tool_result_output :: "json_text \<Rightarrow> content_block list \<Rightarrow> string result" where
  "render_tool_result_output js content =
     r_then (render_text_only_blocks js content
         ''media blocks cannot be rendered as responses tool results''
         ''nested tool blocks cannot be rendered as responses tool results'') (\<lambda>parts.
     Inr (join_with [CHR 0x0A] parts))"

definition render_tool_result_items :: "json_text \<Rightarrow> content_block list \<Rightarrow> json list result" where
  "render_tool_result_items js content =
     r_collect (\<lambda>block. case block of
        ToolResult tool_call_id tool_name content is_error \<Rightarrow>
          r_then (render_tool_result_output js content) (\<lambda>output.
          Inr (json_object [(''type'', JString ''function_call_output''),
            (''call_id'', JString tool_call_id), (''output'', JString output)]))
      | _ \<Rightarrow> Inl (Provider
          ''only tool result blocks can be rendered as responses tool result messages'')) content"

text \<open>What a message adds to the input and to the parts of the instructions.\<close>

definition render_responses_message ::
  "json_text \<Rightarrow> responses_render_config \<Rightarrow> provider_tool_name_codec \<Rightarrow> agent_message
     \<Rightarrow> (json list \<times> string list) result" where
  "render_responses_message js config tool_names message =
     r_then (render_responses_provider_payload_items (rr_state_mode config) (msg_content message))
       (\<lambda>payload_items.
     case payload_items of
       Some items \<Rightarrow> Inr (items, [])
     | None \<Rightarrow>
         (case msg_role message of
            System \<Rightarrow>
              r_then (render_text_only_blocks js (msg_content message)
                ''media blocks cannot be rendered as responses instructions''
                ''tool blocks cannot be rendered as responses instructions'') (\<lambda>parts. Inr ([], parts))
          | User \<Rightarrow>
              r_then (responses_user_content js config (msg_content message)) (\<lambda>content.
              Inr ([json_object [(''type'', JString ''message''), (''role'', JString ''user''),
                 (''content'', JArray content)]], []))
          | Assistant \<Rightarrow>
              r_then (render_assistant_items js config tool_names (msg_content message) [] [])
                (\<lambda>items. Inr (items, []))
          | ToolResultRole \<Rightarrow>
              r_then (render_tool_result_items js (msg_content message)) (\<lambda>items. Inr (items, []))
          | CustomRole role \<Rightarrow> Inl (Provider
              (''custom role cannot be rendered for responses api: '' @ role))))"

record rendered_responses_messages =
  rrm_input :: "json list"
  rrm_instructions :: "string option"

definition render_responses_messages ::
  "json_text \<Rightarrow> responses_render_config \<Rightarrow> provider_tool_name_codec \<Rightarrow> agent_message list
     \<Rightarrow> rendered_responses_messages result" where
  "render_responses_messages js config tool_names messages =
     r_then (r_collect (render_responses_message js config tool_names) messages) (\<lambda>rendered.
     let instruction_parts = concat (map snd rendered)
     in Inr \<lparr>rrm_input = concat (map fst rendered),
             rrm_instructions = (if instruction_parts = [] then None
               else Some (join_with [CHR 0x0A] instruction_parts))\<rparr>)"

section \<open>The payload\<close>

definition to_responses_function_tool ::
  "responses_render_config \<Rightarrow> provider_tool_name_codec \<Rightarrow> tool_spec \<Rightarrow> json result" where
  "to_responses_function_tool config tool_names tool =
     r_then (provider_name tool_names (ts_name tool) (rr_provider_id config) (rr_model config)) (\<lambda>name.
     Inr (json_object ([(''type'', JString ''function''), (''name'', JString name),
       (''description'', JString (ts_description tool)), (''parameters'', ts_input_schema tool)]
       @ (case rr_function_tool_strict config of None \<Rightarrow> [] | Some strict \<Rightarrow> [(''strict'', JBool strict)]))))"

definition to_responses_tools ::
  "responses_render_config \<Rightarrow> provider_tool_name_codec \<Rightarrow> tool_spec list \<Rightarrow> json list result" where
  "to_responses_tools config tool_names tools =
     r_then (r_collect (to_responses_function_tool config tool_names) tools) (\<lambda>rendered.
     Inr (rendered @ rr_native_tools config))"

definition should_include_encrypted_reasoning :: "responses_render_config \<Rightarrow> bool" where
  "should_include_encrypted_reasoning config =
     (rr_include_encrypted_reasoning config
      \<or> (is_stateless (rr_state_mode config) \<and> rr_reasoning config \<noteq> None))"

definition reasoning_to_value :: "responses_reasoning_config \<Rightarrow> json" where
  "reasoning_to_value reasoning =
     json_object ((case rrc_effort reasoning of None \<Rightarrow> []
          | Some effort \<Rightarrow> [(''effort'', JString (responses_effort_as_str effort))])
       @ (case rrc_summary reasoning of None \<Rightarrow> []
          | Some summary \<Rightarrow> [(''summary'', JString (responses_summary_as_str summary))]))"

definition validate_responses_extra_body :: "json_map \<Rightarrow> unit result" where
  "validate_responses_extra_body extra_body =
     (case find (\<lambda>reserved. bt_contains_key extra_body reserved) [''store'', ''include''] of
        Some reserved \<Rightarrow>
          Inl (Provider (''responses extra body cannot override reserved field: '' @ reserved))
      | None \<Rightarrow> Inr ())"

text \<open>The instructions: those of the messages or else the fallback, if not empty.\<close>

definition effective_instructions ::
  "responses_render_config \<Rightarrow> string option \<Rightarrow> string option" where
  "effective_instructions config instructions =
     (let chosen = (case instructions of None \<Rightarrow> rr_fallback_instructions config | Some i \<Rightarrow> Some i)
      in if chosen = Some [] then None else chosen)"

definition render_responses_api_request_with_tool_names ::
  "json_text \<Rightarrow> responses_render_config \<Rightarrow> provider_tool_name_codec \<Rightarrow> model_request \<Rightarrow> json result" where
  "render_responses_api_request_with_tool_names js config tool_names request =
     r_then (validate_responses_extra_body (rr_extra_body config)) (\<lambda>_.
     r_then (render_responses_messages js config tool_names (mr_messages request)) (\<lambda>messages.
     r_then (to_responses_tools config tool_names (mr_tools request)) (\<lambda>tools.
     Inr (JObject (bt_extend (bt_collect
       ([(''model'', JString (rr_model config)), (''input'', JArray (rrm_input messages)),
         (''stream'', JBool True), (''store'', JBool (state_mode_store (rr_state_mode config)))]
        @ (case rr_max_output_tokens config of None \<Rightarrow> [] | Some n \<Rightarrow>
             [(''max_output_tokens'', JInt (int n))])
        @ (case rr_temperature config of None \<Rightarrow> [] | Some t \<Rightarrow> [(''temperature'', t)])
        @ (case rr_text config of None \<Rightarrow> [] | Some t \<Rightarrow> [(''text'', t)])
        @ (case rr_reasoning config of None \<Rightarrow> [] | Some r \<Rightarrow> [(''reasoning'', reasoning_to_value r)])
        @ (if should_include_encrypted_reasoning config
           then [(''include'', JArray [JString ''reasoning.encrypted_content''])] else [])
        @ (case effective_instructions config (rrm_instructions messages) of None \<Rightarrow> []
           | Some i \<Rightarrow> [(''instructions'', JString i)])
        @ (if tools = [] then [] else [(''tools'', JArray tools)]))) (rr_extra_body config))))))"

definition render_responses_api_request ::
  "json_text \<Rightarrow> responses_render_config \<Rightarrow> model_request \<Rightarrow> json result" where
  "render_responses_api_request js config request =
     render_responses_api_request_with_tool_names js config
       (new_with_message_history (mr_tools request) (mr_messages request)) request"

text \<open>
  What a normalized replay item of the responses provider is (\<open>src/responses.rs\<close>): normalizing it
  again changes nothing, and in a stateless conversation it is self-contained.
\<close>

definition json_wf :: "json \<Rightarrow> bool" where
  "json_wf value = (case value of JObject m \<Rightarrow> bt_wf m | _ \<Rightarrow> True)"

lemma json_get_strip [simp]:
  "json_get (strip_response_item_id item) k = (if k = ''id'' then None else json_get item k)"
  by (cases item) (simp_all add: map_of_bt_remove)

lemma strip_response_item_id_absent:
  "json_get item ''id'' = None \<Longrightarrow> strip_response_item_id item = item"
  by (cases item) (force simp: bt_remove_def map_of_eq_None_iff filter_id_conv)+

lemma json_get_ensure_summary:
  "ensure_reasoning_summary_array item = Inr item' \<Longrightarrow> json_wf item \<Longrightarrow> k \<noteq> ''summary'' \<Longrightarrow>
   json_get item' k = json_get item k"
  by (auto simp: ensure_reasoning_summary_array_def json_wf_def map_of_bt_insert
      split: json.splits option.splits)

lemma ensure_summary_array:
  "ensure_reasoning_summary_array item = Inr item' \<Longrightarrow> json_wf item \<Longrightarrow>
   ensure_reasoning_summary_array item' = Inr item'
   \<and> has_non_empty_array item' ''summary'' = has_non_empty_array item ''summary''"
  by (auto simp: ensure_reasoning_summary_array_def json_wf_def map_of_bt_insert
      has_non_empty_array_def split: json.splits option.splits)

lemma json_wf_strip [simp]: "json_wf item \<Longrightarrow> json_wf (strip_response_item_id item)"
  by (cases item) (auto simp: json_wf_def bt_wf_remove)

lemma item_type_strip [simp]: "item_type (strip_response_item_id item) = item_type item"
  by (simp add: item_type_def)

lemma has_non_empty_strip [simp]:
  "k \<noteq> ''id'' \<Longrightarrow> has_non_empty_string (strip_response_item_id item) k = has_non_empty_string item k"
  "k \<noteq> ''id'' \<Longrightarrow> has_non_empty_array (strip_response_item_id item) k = has_non_empty_array item k"
  by (simp_all add: has_non_empty_string_def has_non_empty_array_def)

text \<open>Adding the summary keeps what the normalization looks at.\<close>

lemma ensure_summary_keeps:
  assumes "ensure_reasoning_summary_array item = Inr item'" and "json_wf item"
  shows "item_type item' = item_type item"
    and "json_get item' ''id'' = json_get item ''id''"
    and "has_non_empty_string item' ''encrypted_content'' = has_non_empty_string item ''encrypted_content''"
    and "is_stateless_reasoning_replayable item' = is_stateless_reasoning_replayable item"
  using json_get_ensure_summary [OF assms] ensure_summary_array [OF assms]
  by (simp_all add: item_type_def has_non_empty_string_def has_non_empty_array_def
      is_stateless_reasoning_replayable_def)

lemma unsafe_replay_item_not_Some [simp]: "unsafe_responses_replay_item source message \<noteq> Inr (Some item)"
  by (cases source) (simp_all add: unsafe_responses_replay_item_def)

lemma normalize_reasoning_item:
  assumes "item_type item = Some ''reasoning''" and "json_wf item"
    and "normalize_responses_replay_item item Stateless source = Inr (Some item')"
  shows "normalize_responses_replay_item item' Stateless source = Inr (Some item')
    \<and> json_get item' ''id'' = None \<and> item_type item' = Some ''reasoning''
    \<and> is_stateless_reasoning_replayable item'"
proof -
  let ?item = "strip_response_item_id item"
  from assms(1,3) have run: "ensure_reasoning_summary_array ?item = Inr item'"
    and ok: "is_stateless_reasoning_replayable item"
    "source = ThinkingHistory \<Longrightarrow> has_non_empty_string item ''encrypted_content''"
    by (auto simp: normalize_responses_replay_item_def r_then_Inr_iff split: if_splits)
  note keeps = ensure_summary_keeps [OF run json_wf_strip [OF assms(2)]]
    and again = ensure_summary_array [OF run json_wf_strip [OF assms(2)]]
  from keeps(2) have none: "json_get item' ''id'' = None" by simp
  from ok(1) keeps(4) have replayable: "is_stateless_reasoning_replayable item'"
    by (simp add: is_stateless_reasoning_replayable_def)
  from assms(1) keeps(1) have type: "item_type item' = Some ''reasoning''" by simp
  from ok(2) keeps(3) have "source = ThinkingHistory \<Longrightarrow> has_non_empty_string item' ''encrypted_content''"
    by simp
  with none type replayable again show ?thesis
    by (auto simp: normalize_responses_replay_item_def strip_response_item_id_absent)
qed

text \<open>Normalizing an item for replay is idempotent: the item that comes out is not changed when
  it is normalized again, as happens when a conversation is replayed turn after turn. In a stateless
  conversation that item is self-contained: it has no identifier that refers to the server's state,
  and it is a message, a reasoning item with content of its own, or carries encrypted content.\<close>

theorem replay_items_normalized:
  assumes "normalize_responses_replay_item item mode source = Inr (Some item')" and "json_wf item"
  shows "normalize_responses_replay_item item' mode source = Inr (Some item')
    \<and> (mode = Stateless \<longrightarrow> json_get item' ''id'' = None
        \<and> (item_type item' = Some ''message''
           \<or> item_type item' = Some ''reasoning'' \<and> is_stateless_reasoning_replayable item'
           \<or> has_non_empty_string item' ''encrypted_content''))"
proof (cases mode)
  case Stateful
  with assms ensure_summary_array ensure_summary_keeps show ?thesis
    by (auto simp: normalize_responses_replay_item_def normalize_stateful_responses_replay_item_def
        r_then_Inr_iff split: if_splits)
next
  case Stateless
  with assms(1) obtain type where type: "item_type item = Some type"
    by (auto simp: normalize_responses_replay_item_def split: option.splits)
  show ?thesis
  proof (cases "type = ''reasoning''")
    case True
    with normalize_reasoning_item [of item source item'] type Stateless assms show ?thesis by simp
  next
    case False
    with assms(1) type Stateless have "item' = strip_response_item_id item"
      "type = ''message'' \<or> (type = ''compaction'' \<or> type = ''context_compaction'')
         \<and> has_non_empty_string item ''encrypted_content''"
      by (auto simp: normalize_responses_replay_item_def split: if_splits)
    with type Stateless show ?thesis
      by (auto simp: normalize_responses_replay_item_def strip_response_item_id_absent)
  qed
qed

theorem replay_items_normalized_witness:
  "normalize_responses_replay_item
      (JObject [(''encrypted_content'', JString ''x''), (''summary'', JArray []), (''type'', JString ''reasoning'')])
      Stateless ThinkingHistory
    = Inr (Some (JObject [(''encrypted_content'', JString ''x''), (''summary'', JArray []),
        (''type'', JString ''reasoning'')]))"
proof -
  let ?item = "JObject [(''encrypted_content'', JString ''x''), (''id'', JString ''rs_1''),
    (''type'', JString ''reasoning'')]"
  let ?item' = "JObject [(''encrypted_content'', JString ''x''), (''summary'', JArray []),
    (''type'', JString ''reasoning'')]"
  have "normalize_responses_replay_item ?item Stateless ThinkingHistory = Inr (Some ?item')" and "json_wf ?item"
    by code_simp+
  from replay_items_normalized [OF this] show ?thesis by simp
qed

end
