(* ===== verification/Responses_Stream.thy ===== *)
theory Responses_Stream
  imports Responses_Payload
begin

text \<open>
  The stream of the responses provider (\<open>src/responses.rs\<close>): the state that decodes the chunks of a
  response, function calls and reasoning items by the key of their output item, and the events that
  finish the stream.
\<close>

record responses_tool_call =
  rtc_id :: string
  rtc_item_id :: string
  rtc_name :: string
  rtc_arguments_json :: string

definition responses_tool_call_default :: responses_tool_call where
  "responses_tool_call_default =
     \<lparr>rtc_id = [], rtc_item_id = [], rtc_name = [], rtc_arguments_json = []\<rparr>"

record responses_reasoning_state =
  rrs_kind :: thinking_kind
  rrs_text :: string

definition responses_reasoning_default :: responses_reasoning_state where
  "responses_reasoning_default = \<lparr>rrs_kind = TK_Raw, rrs_text = []\<rparr>"

record responses_stream_state =
  rss_provider_id :: string
  rss_model :: string
  rss_run_id :: string
  rss_turn_id :: nat
  rss_state_mode :: responses_state_mode
  rss_tool_names :: provider_tool_name_codec
  rss_started :: bool
  rss_tool_calls :: "responses_tool_call smap"
  rss_tool_keys_by_output_index :: "(nat, string) btree_map"
  rss_emitted_tool_calls :: "string list"
  rss_reasoning :: "responses_reasoning_state smap"
  rss_emitted_reasoning_items :: "string list"
  rss_stop_reason :: "stop_reason option"
  rss_finished :: bool
  rss_done :: bool

definition responses_stream_state_new ::
  "'w responses_config \<Rightarrow> model_request \<Rightarrow> provider_tool_name_codec \<Rightarrow> responses_stream_state" where
  "responses_stream_state_new config request tool_names =
     \<lparr>rss_provider_id = rs_id config, rss_model = rs_model config, rss_run_id = mr_run_id request,
      rss_turn_id = mr_turn_id request, rss_state_mode = rs_state_mode config,
      rss_tool_names = tool_names, rss_started = False, rss_tool_calls = [],
      rss_tool_keys_by_output_index = [], rss_emitted_tool_calls = [], rss_reasoning = [],
      rss_emitted_reasoning_items = [], rss_stop_reason = None, rss_finished = False,
      rss_done = False\<rparr>"

type_synonym responses_step =
  "(responses_stream_state, agent_core_error, model_stream_event list) eff"

section \<open>Keys\<close>

definition response_id :: "json \<Rightarrow> string option" where
  "response_id value = Option.bind (get_object value ''response'') (\<lambda>r. get_str r ''id'')"

definition tool_key_from_item :: "json_map \<Rightarrow> string" where
  "tool_key_from_item item =
     (case or_else (get_str item ''id'') (get_str item ''call_id'') of
        Some key \<Rightarrow> key | None \<Rightarrow> ''output-0'')"

definition get_value_str :: "json \<Rightarrow> string \<Rightarrow> string option" where
  "get_value_str value key = Option.bind (json_get value key) json_as_str"

definition reasoning_key_from_event :: "json \<Rightarrow> string" where
  "reasoning_key_from_event value =
     (case or_else (get_value_str value ''item_id'')
             (map_option (\<lambda>index. ''reasoning-'' @ show_nat index) (get_u64 value ''output_index'')) of
        Some key \<Rightarrow> key | None \<Rightarrow> ''reasoning-0'')"

definition reasoning_item_identity :: "json_text \<Rightarrow> json_map \<Rightarrow> string \<times> string option" where
  "reasoning_item_identity js item =
     (case get_str item ''id'' of
        Some key \<Rightarrow> (key, Some key)
      | None \<Rightarrow> (js_show js (JObject item), None))"

definition tool_key_from_event :: "json \<Rightarrow> responses_stream_state \<Rightarrow> string" where
  "tool_key_from_event value st =
     (case or_else (get_value_str value ''item_id'')
        (or_else (Option.bind (get_u64 value ''output_index'')
                    (map_of (rss_tool_keys_by_output_index st)))
           (map_option (\<lambda>index. ''output-'' @ show_nat index) (get_u64 value ''output_index''))) of
        Some key \<Rightarrow> key | None \<Rightarrow> ''output-0'')"

definition map_incomplete_stop_reason :: "json \<Rightarrow> stop_reason" where
  "map_incomplete_stop_reason value =
     (let reason = or_else
        (Option.bind (get_object value ''response'') (\<lambda>response.
         Option.bind (Option.bind (map_of response ''incomplete_details'') json_as_object) (\<lambda>details.
         get_str details ''reason'')))
        (Option.bind (get_object value ''incomplete_details'') (\<lambda>details. get_str details ''reason''))
      in if reason = Some ''max_output_tokens'' \<or> reason = Some ''max_tokens'' then Length
         else StopError)"

section \<open>Start and finish\<close>

definition responses_started_event ::
  "json \<Rightarrow> responses_stream_state \<Rightarrow> responses_stream_state \<times> model_stream_event" where
  "responses_started_event value st =
     (st\<lparr>rss_started := True\<rparr>,
      Started (case response_id value of
         Some stream_id \<Rightarrow> stream_id
       | None \<Rightarrow> ''responses-api-'' @ rss_run_id st @ ''-'' @ show_nat (rss_turn_id st)))"

definition ensure_started ::
  "responses_stream_state \<Rightarrow> responses_stream_state \<times> model_stream_event list" where
  "ensure_started st =
     (if rss_started st then (st, [])
      else case responses_started_event JNull st of (st, ev) \<Rightarrow> (st, [ev]))"

text \<open>\<open>ensure_started\<close>, then the given events.\<close>

definition started_with ::
  "model_stream_event list \<Rightarrow> responses_stream_state
     \<Rightarrow> responses_stream_state \<times> model_stream_event list" where
  "started_with events st = (case ensure_started st of (st, first) \<Rightarrow> (st, first @ events))"

definition responses_finish_events ::
  "responses_stream_state \<Rightarrow> responses_stream_state \<times> model_stream_event list" where
  "responses_finish_events st =
     (if rss_finished st then (st, [])
      else started_with
        [Finished (case rss_stop_reason st of Some reason \<Rightarrow> reason | None \<Rightarrow> Stop)]
        (st\<lparr>rss_finished := True\<rparr>))"

definition failed_event ::
  "json \<Rightarrow> responses_stream_state \<Rightarrow> responses_stream_state \<times> model_stream_event" where
  "failed_event value st =
     (st\<lparr>rss_done := True, rss_finished := True\<rparr>,
      Failed (case or_else
          (Option.bind (json_get value ''error'') (\<lambda>error.
             or_else (Option.bind (json_as_object error) (\<lambda>m. get_str m ''message''))
               (json_as_str error)))
          (get_value_str value ''message'') of
        Some error \<Rightarrow> error | None \<Rightarrow> ''responses api stream error''))"

section \<open>Text\<close>

definition text_delta_events ::
  "string option \<Rightarrow> responses_stream_state \<Rightarrow> responses_stream_state \<times> model_stream_event list" where
  "text_delta_events text st =
     (case non_empty text of None \<Rightarrow> (st, []) | Some text \<Rightarrow> started_with [TextDelta text] st)"

definition output_text_delta ::
  "json \<Rightarrow> responses_stream_state \<Rightarrow> responses_stream_state \<times> model_stream_event list" where
  "output_text_delta value = text_delta_events (get_value_str value ''delta'')"

definition content_part_delta ::
  "json \<Rightarrow> responses_stream_state \<Rightarrow> responses_stream_state \<times> model_stream_event list" where
  "content_part_delta value =
     text_delta_events (or_else (get_value_str value ''delta'')
       (or_else (Option.bind (get_object value ''delta'') (\<lambda>delta. get_str delta ''text''))
          (Option.bind (get_object value ''part'') (\<lambda>part. get_str part ''text''))))"

section \<open>Function calls\<close>

definition absorb_call_fields :: "json_map \<Rightarrow> responses_tool_call \<Rightarrow> responses_tool_call" where
  "absorb_call_fields item partial =
     (let partial = (case non_empty (get_str item ''call_id'') of
            Some i \<Rightarrow> partial\<lparr>rtc_id := i\<rparr> | None \<Rightarrow> partial);
          partial = (case get_str item ''id'' of
            Some i \<Rightarrow> if rtc_item_id partial = [] then partial\<lparr>rtc_item_id := i\<rparr> else partial
          | None \<Rightarrow> partial);
          partial = (case non_empty (get_str item ''name'') of
            Some name \<Rightarrow> partial\<lparr>rtc_name := name\<rparr> | None \<Rightarrow> partial)
      in case get_str item ''arguments'' of
           Some arguments \<Rightarrow> partial\<lparr>rtc_arguments_json := arguments\<rparr>
         | None \<Rightarrow> partial)"

definition absorb_function_call_item ::
  "json_map \<Rightarrow> nat option \<Rightarrow> responses_stream_state \<Rightarrow> responses_stream_state" where
  "absorb_function_call_item item output_index st =
     (let key = tool_key_from_item item;
          st = st\<lparr>rss_tool_calls := update_entry key responses_tool_call_default
                 (absorb_call_fields item) (rss_tool_calls st)\<rparr>
      in case output_index of
           Some index \<Rightarrow> st\<lparr>rss_tool_keys_by_output_index :=
             bt_insert index key (rss_tool_keys_by_output_index st)\<rparr>
         | None \<Rightarrow> st)"

definition absorb_output_item_added :: "json \<Rightarrow> responses_stream_state \<Rightarrow> responses_stream_state" where
  "absorb_output_item_added value st =
     (case get_object value ''item'' of
        None \<Rightarrow> st
      | Some item \<Rightarrow>
          if get_str item ''type'' = Some ''function_call''
          then absorb_function_call_item item (get_u64 value ''output_index'') st else st)"

definition absorb_function_arguments_delta ::
  "json \<Rightarrow> responses_stream_state \<Rightarrow> responses_stream_state" where
  "absorb_function_arguments_delta value st =
     (case get_value_str value ''delta'' of
        None \<Rightarrow> st
      | Some delta \<Rightarrow>
          st\<lparr>rss_tool_calls := update_entry (tool_key_from_event value st) responses_tool_call_default
               (\<lambda>c. c\<lparr>rtc_arguments_json := rtc_arguments_json c @ delta\<rparr>) (rss_tool_calls st)\<rparr>)"

definition responses_to_event ::
  "json_text \<Rightarrow> string \<Rightarrow> responses_stream_state \<Rightarrow> responses_tool_call \<Rightarrow> model_stream_event result" where
  "responses_to_event js key st call =
     r_then (canonical_name (rss_tool_names st) (rtc_name call) (rss_provider_id st) (rss_model st))
       (\<lambda>name. Inr (ToolCallEvent
         \<lparr>tc_id = (if rtc_id call = [] then key else rtc_id call), tc_name = name,
          tc_arguments = parse_tool_arguments js (rtc_arguments_json call)\<rparr>))"

definition emit_tool_call_from_key :: "json_text \<Rightarrow> string \<Rightarrow> responses_step" where
  "emit_tool_call_from_key js key st =
     (if key \<in> set (rss_emitted_tool_calls st) then (st, Inr [])
      else
        (let st = st\<lparr>rss_emitted_tool_calls := bs_union (rss_emitted_tool_calls st) [key]\<rparr>
         in case map_of (rss_tool_calls st) key of
              None \<Rightarrow> (st, Inr [])
            | Some call \<Rightarrow>
                (case responses_to_event js key st call of
                   Inl e \<Rightarrow> (st, Inl e)
                 | Inr ev \<Rightarrow> (case started_with [ev] st of (st, events) \<Rightarrow> (st, Inr events)))))"

definition emit_tool_call :: "json_text \<Rightarrow> json \<Rightarrow> responses_step" where
  "emit_tool_call js value st = emit_tool_call_from_key js (tool_key_from_event value st) st"

definition function_arguments_done :: "json_text \<Rightarrow> json \<Rightarrow> responses_step" where
  "function_arguments_done js value st =
     emit_tool_call js value
       (case get_object value ''item'' of
          Some item \<Rightarrow> absorb_function_call_item item (get_u64 value ''output_index'') st
        | None \<Rightarrow>
            (case get_value_str value ''arguments'' of
               Some arguments \<Rightarrow>
                 st\<lparr>rss_tool_calls := update_entry (tool_key_from_event value st)
                    responses_tool_call_default (\<lambda>c. c\<lparr>rtc_arguments_json := arguments\<rparr>)
                    (rss_tool_calls st)\<rparr>
             | None \<Rightarrow> st))"

section \<open>Reasoning\<close>

definition responses_thinking_delta ::
  "responses_stream_state \<Rightarrow> thinking_kind \<Rightarrow> string option \<Rightarrow> json option \<Rightarrow> string option \<Rightarrow> bool
     \<Rightarrow> model_stream_event" where
  "responses_thinking_delta st kind text_delta raw_snapshot item_id replayable =
     ThinkingDelta
       \<lparr>td_kind = kind, td_text_delta = text_delta, td_raw_snapshot = raw_snapshot,
        td_replay_descriptor =
          (if replayable
           then Some (responses_descriptor_to_json
             \<lparr>rrd_v = 1, rrd_kind = RESPONSES_REASONING_REPLAY_KIND,
              rrd_provider_id = rss_provider_id st, rrd_model = rss_model st, rrd_item_id = item_id\<rparr>)
           else None),
        td_metadata = (case item_id of None \<Rightarrow> [] | Some i \<Rightarrow> [(''itemId'', JString i)])\<rparr>"

definition reasoning_entry :: "responses_stream_state \<Rightarrow> string \<Rightarrow> responses_reasoning_state" where
  "reasoning_entry st key =
     (case map_of (rss_reasoning st) key of Some r \<Rightarrow> r | None \<Rightarrow> responses_reasoning_default)"

definition reasoning_text_delta ::
  "json \<Rightarrow> thinking_kind \<Rightarrow> responses_stream_state
     \<Rightarrow> responses_stream_state \<times> model_stream_event list" where
  "reasoning_text_delta value kind st =
     (case non_empty (get_value_str value ''delta'') of
        None \<Rightarrow> (st, [])
      | Some text \<Rightarrow>
          (let key = reasoning_key_from_event value;
               st = st\<lparr>rss_reasoning := bt_insert key
                  \<lparr>rrs_kind = kind, rrs_text = rrs_text (reasoning_entry st key) @ text\<rparr>
                  (rss_reasoning st)\<rparr>
           in started_with [responses_thinking_delta st kind (Some text) None (Some key) False] st))"

definition reasoning_snapshot :: "string \<Rightarrow> responses_reasoning_state \<Rightarrow> json" where
  "reasoning_snapshot key state =
     (if rrs_kind state = TK_Summary
      then json_object [(''type'', JString ''reasoning''), (''id'', JString key),
        (''summary'', JArray [json_object [(''type'', JString ''summary_text''),
           (''text'', JString (rrs_text state))]])]
      else json_object [(''type'', JString ''reasoning''), (''id'', JString key),
        (''summary'', JArray []),
        (''content'', JArray [json_object [(''type'', JString ''reasoning_text''),
           (''text'', JString (rrs_text state))]])])"

definition reasoning_text_done ::
  "json \<Rightarrow> responses_stream_state \<Rightarrow> responses_stream_state \<times> model_stream_event list" where
  "reasoning_text_done value st =
     (let key = reasoning_key_from_event value;
          st = (case get_value_str value ''text'' of
            Some text \<Rightarrow> st\<lparr>rss_reasoning := update_entry key responses_reasoning_default
               (\<lambda>r. r\<lparr>rrs_text := text\<rparr>) (rss_reasoning st)\<rparr>
          | None \<Rightarrow> st)
      in case map_of (rss_reasoning st) key of
           None \<Rightarrow> (st, [])
         | Some state \<Rightarrow> started_with
             [responses_thinking_delta st (rrs_kind state) None (Some (reasoning_snapshot key state))
                (Some key) False] st)"

definition is_replayable_reasoning_item :: "json_map \<Rightarrow> responses_stream_state \<Rightarrow> bool" where
  "is_replayable_reasoning_item item st =
     (non_empty (get_str item
        (case rss_state_mode st of Stateless \<Rightarrow> ''encrypted_content'' | Stateful \<Rightarrow> ''id'')) \<noteq> None)"

definition reasoning_item_kind :: "json_map \<Rightarrow> thinking_kind" where
  "reasoning_item_kind item =
     (if map_of item ''encrypted_content'' \<noteq> None then TK_Encrypted
      else if has_non_empty_array (JObject item) ''summary'' then TK_Summary
      else TK_Raw)"

definition reasoning_item_events ::
  "json_text \<Rightarrow> json_map \<Rightarrow> responses_stream_state
     \<Rightarrow> responses_stream_state \<times> model_stream_event list" where
  "reasoning_item_events js item st =
     (case reasoning_item_identity js item of (identity, item_id) \<Rightarrow>
        if identity \<in> set (rss_emitted_reasoning_items st) then (st, [])
        else (st\<lparr>rss_emitted_reasoning_items := bs_union (rss_emitted_reasoning_items st) [identity]\<rparr>,
          [responses_thinking_delta st (reasoning_item_kind item) None (Some (JObject item)) item_id
             (is_replayable_reasoning_item item st)]))"

section \<open>Output items and completion\<close>

definition output_item_done :: "json_text \<Rightarrow> json \<Rightarrow> responses_step" where
  "output_item_done js value st =
     (case get_object value ''item'' of
        None \<Rightarrow> (st, Inr [])
      | Some item \<Rightarrow>
          if get_str item ''type'' = Some ''function_call''
          then emit_tool_call js value
                 (absorb_function_call_item item (get_u64 value ''output_index'') st)
          else if get_str item ''type'' = Some ''reasoning''
          then (case ensure_started st of (st, first) \<Rightarrow>
                case reasoning_item_events js item st of (st, events) \<Rightarrow> (st, Inr (first @ events)))
          else (st, Inr []))"

definition output_item_event :: "json_text \<Rightarrow> json_map \<Rightarrow> responses_step" where
  "output_item_event js item st =
     (if get_str item ''type'' = Some ''function_call''
      then (let key = tool_key_from_item item
            in if key \<in> set (rss_emitted_tool_calls st) then (st, Inr [])
               else emit_tool_call_from_key js key (absorb_function_call_item item None st))
      else if get_str item ''type'' = Some ''reasoning''
      then (case reasoning_item_events js item st of (st, events) \<Rightarrow> (st, Inr events))
      else (st, Inr []))"

fun output_item_events :: "json_text \<Rightarrow> json_map list \<Rightarrow> responses_step" where
  "output_item_events js [] st = (st, Inr [])"
| "output_item_events js (item # items) st =
     and_then (output_item_event js item) (\<lambda>events.
     and_then (output_item_events js items) (\<lambda>later. ok (events @ later))) st"

definition response_completed :: "json_text \<Rightarrow> json \<Rightarrow> responses_step" where
  "response_completed js value st =
     (case ensure_started st of (st, first) \<Rightarrow>
        and_then
          (case Option.bind (get_object value ''response'') (\<lambda>response.
                  Option.bind (map_of response ''output'') json_as_array) of
             Some output \<Rightarrow> output_item_events js (List.map_filter json_as_object output)
           | None \<Rightarrow> ok []) (\<lambda>events st.
        case responses_finish_events (st\<lparr>rss_done := True\<rparr>) of
          (st, final) \<Rightarrow> (st, Inr (first @ events @ final))) st)"

definition response_incomplete :: "json_text \<Rightarrow> json \<Rightarrow> responses_step" where
  "response_incomplete js value st =
     response_completed js value (st\<lparr>rss_stop_reason := Some (map_incomplete_stop_reason value)\<rparr>)"

section \<open>Chunks\<close>

definition responses_apply_value :: "json_text \<Rightarrow> json \<Rightarrow> responses_step" where
  "responses_apply_value js value st =
     (let pure = (\<lambda>(st, events). (st, Inr events))
      in case item_type value of
        None \<Rightarrow> (st, Inr [])
      | Some event_type \<Rightarrow>
          if event_type = ''response.created''
          then (case responses_started_event value st of (st, ev) \<Rightarrow> (st, Inr [ev]))
          else if event_type = ''response.output_text.delta'' then pure (output_text_delta value st)
          else if event_type = ''response.content_part.delta'' then pure (content_part_delta value st)
          else if event_type = ''response.output_item.added''
          then (absorb_output_item_added value st, Inr [])
          else if event_type = ''response.function_call_arguments.delta''
          then (absorb_function_arguments_delta value st, Inr [])
          else if event_type = ''response.function_call_arguments.done''
          then function_arguments_done js value st
          else if event_type = ''response.output_item.done'' then output_item_done js value st
          else if event_type = ''response.reasoning_summary_text.delta''
          then pure (reasoning_text_delta value TK_Summary st)
          else if event_type = ''response.reasoning_text.delta''
          then pure (reasoning_text_delta value TK_Raw st)
          else if event_type \<in> {''response.reasoning_summary_text.done'', ''response.reasoning_text.done''}
          then pure (reasoning_text_done value st)
          else if event_type \<in> {''response.completed'', ''response.done''}
          then response_completed js value st
          else if event_type = ''response.incomplete'' then response_incomplete js value st
          else if event_type \<in> {''response.failed'', ''response.error'', ''error''}
          then (case failed_event value st of (st, ev) \<Rightarrow> (st, Inr [ev]))
          else (st, Inr []))"

definition responses_apply_chunk :: "json_text \<Rightarrow> string \<Rightarrow> responses_step" where
  "responses_apply_chunk js data st =
     (if trim data = ''[DONE]''
      then (case responses_finish_events (st\<lparr>rss_done := True\<rparr>) of (st, events) \<Rightarrow> (st, Inr events))
      else case js_parse js data of
         Inl error \<Rightarrow> (st, Inl (JsonError error))
       | Inr value \<Rightarrow> responses_apply_value js value st)"

end
