(* ===== verification/Responses_Provider.thy ===== *)
theory Responses_Provider
  imports Responses_Stream Provider_Env
begin

text \<open>
  The responses provider (\<open>src/responses.rs\<close>, \<open>stream_model\<close>): its request and attempts, and the shape
  of the streams it returns.
\<close>

section \<open>The provider\<close>

record 'w responses_provider =
  rp_config :: "'w responses_config"
  rp_endpoint :: string
  rp_headers :: header_map

definition responses_provider_new ::
  "http_lib \<Rightarrow> 'w responses_config \<Rightarrow> 'w responses_provider result" where
  "responses_provider_new http config =
     r_then (headers_from_map http (rs_headers config)) (\<lambda>headers.
     Inr \<lparr>rp_config = config, rp_endpoint = trim_end_slashes (rs_base_url config) @ ''/responses'',
          rp_headers = headers\<rparr>)"

definition responses_auth_context :: "'w responses_provider \<Rightarrow> nat \<Rightarrow> http_auth_context" where
  "responses_auth_context provider attempt =
     http_auth_context_new (rs_id (rp_config provider)) ''POST'' (rp_endpoint provider) attempt"

definition responses_request_headers ::
  "'w provider_env \<Rightarrow> 'w responses_provider \<Rightarrow> nat \<Rightarrow> http_auth_header list option
     \<Rightarrow> ('w, agent_core_error, header_map) eff" where
  "responses_request_headers env provider attempt refreshed_headers =
     (let config = rp_config provider
      in and_then (resolve_auth_headers (pe_http env) (rs_auth_provider config) (rs_api_key config)
           (rs_api_key_env config) (responses_auth_context provider attempt) refreshed_headers) (\<lambda>auth.
         ok (bt_extend (rp_headers provider) auth)))"

definition responses_media_policy :: "'w responses_config \<Rightarrow> media_block \<Rightarrow> local_file_policy" where
  "responses_media_policy config media =
     (case mb_kind media of
        MK_Image \<Rightarrow> InlineFile
      | MK_File \<Rightarrow>
          if rs_allow_file_data_url_input config then InlineFile
          else RejectFile
            ''local file media requires allow_file_data_url_input(true) for responses api''
      | _ \<Rightarrow> LeaveFile)"

definition responses_handle_data :: "json_text \<Rightarrow> responses_stream_state frame_handler" where
  "responses_handle_data js data st =
     (case responses_apply_chunk js data st of
        (st, Inl e) \<Rightarrow> (st, Inl e)
      | (st, Inr events) \<Rightarrow> (st, Inr \<lparr>fr_events = events, fr_terminal = rss_done st\<rparr>))"

definition responses_stream_payload ::
  "'w provider_env \<Rightarrow> 'w responses_provider \<Rightarrow> 'w model_stream_sink \<Rightarrow> json \<Rightarrow> responses_stream_state
     \<Rightarrow> 'w \<Rightarrow> 'w \<times> model_stream_event list result" where
  "responses_stream_payload env provider stream payload state w =
     (let config = rp_config provider;
          client = (\<lambda>h. provider_client ''responses api'' (rs_stream_reconnect config) env
            (rp_endpoint provider) h payload stream (responses_handle_data (pe_json env)))
      in case run_attempts client (responses_request_headers env provider)
                (responses_auth_context provider) (rs_auth_provider config) 0 None
                (provider_start w state) of
           (s, Inl e) \<Rightarrow> (pw_world (ss_world s), Inl e)
         | (s, Inr _) \<Rightarrow>
             (case for_each (snd (responses_finish_events (pw_state (ss_world s))))
                      (emit_model_stream_event (client [])) s of
                (s, Inl e) \<Rightarrow> (pw_world (ss_world s), Inl e)
              | (s, Inr _) \<Rightarrow> (pw_world (ss_world s), Inr (ss_events s))))"

definition responses_stream_model ::
  "'w provider_env \<Rightarrow> 'w responses_provider \<Rightarrow> model_request \<Rightarrow> 'w model_stream_sink
     \<Rightarrow> ('w, agent_core_error, model_stream_event list) eff" where
  "responses_stream_model env provider request stream =
     and_then (hc_cancelled (pe_client env)) (\<lambda>_.
     and_then (materialize_local_file_uri_media_in_request (pe_files env)
         (responses_media_policy (rp_config provider)) request) (\<lambda>request.
     let tool_names = new_with_message_history (mr_tools request) (mr_messages request)
     in and_then (lift_result (render_responses_api_request_with_tool_names (pe_json env)
            (responses_render_config_from (rp_config provider)) tool_names request)) (\<lambda>payload.
        responses_stream_payload env provider stream payload
          (responses_stream_state_new (rp_config provider) request tool_names))))"

section \<open>The events of a step\<close>

definition start_event :: "model_stream_event \<Rightarrow> bool" where
  "start_event ev = (case ev of Started stream_id \<Rightarrow> True | _ \<Rightarrow> False)"

text \<open>A step that does not finish the stream: what it emits before the start is a start event.\<close>

definition going_on ::
  "responses_stream_state \<Rightarrow> responses_stream_state \<Rightarrow> model_stream_event list \<Rightarrow> bool" where
  "going_on st st' evs =
     (rss_finished st' = rss_finished st \<and> rss_done st' = rss_done st
      \<and> \<not> list_ex terminal_event evs
      \<and> (rss_started st \<longrightarrow> rss_started st')
      \<and> (\<not> rss_started st \<longrightarrow> (if evs = [] then \<not> rss_started st'
            else start_event (hd evs) \<and> rss_started st')))"

lemma going_on_trans:
  "going_on st st1 evs1 \<Longrightarrow> going_on st1 st2 evs2 \<Longrightarrow> going_on st st2 (evs1 @ evs2)"
  by (auto simp: going_on_def hd_append split: if_splits)

lemma going_on_silent:
  "rss_finished st' = rss_finished st \<Longrightarrow> rss_done st' = rss_done st \<Longrightarrow> rss_started st' = rss_started st
   \<Longrightarrow> going_on st st' []"
  by (simp add: going_on_def)

lemma going_on_same_start:
  "going_on st' st'' evs \<Longrightarrow> rss_finished st' = rss_finished st \<Longrightarrow> rss_done st' = rss_done st \<Longrightarrow>
   rss_started st' = rss_started st \<Longrightarrow> going_on st st'' evs"
  by (simp add: going_on_def)

lemma ensure_started_going_on:
  "ensure_started st = (st', evs) \<Longrightarrow> going_on st st' evs \<and> rss_started st'"
  by (auto simp: ensure_started_def responses_started_event_def going_on_def start_event_def
      terminal_event_def split: if_splits)

lemma started_with_going_on:
  assumes "started_with evs st = (st', evs')" and "\<not> list_ex terminal_event evs"
  shows "going_on st st' evs'"
proof -
  from assms(1) obtain first where first: "ensure_started st = (st', first)" and evs': "evs' = first @ evs"
    by (auto simp: started_with_def split: prod.splits)
  have "going_on st' st' evs" if "rss_started st'" using that assms(2) by (simp add: going_on_def)
  with ensure_started_going_on [OF first] going_on_trans evs' show ?thesis by blast
qed

lemma thinking_not_terminal [simp]:
  "\<not> terminal_event (responses_thinking_delta st kind text_delta raw_snapshot item_id replayable)"
  by (simp add: responses_thinking_delta_def terminal_event_def)

lemma delta_not_terminal [simp]:
  "\<not> terminal_event (TextDelta text)" "\<not> terminal_event (ToolCallEvent call)"
  by (simp_all add: terminal_event_def)

lemma text_delta_events_going_on:
  "text_delta_events text st = (st', evs) \<Longrightarrow> going_on st st' evs"
  by (auto simp: text_delta_events_def going_on_silent split: option.splits intro: started_with_going_on)

lemma absorb_function_call_item_fixed [simp]:
  "rss_finished (absorb_function_call_item item i st) = rss_finished st"
  "rss_done (absorb_function_call_item item i st) = rss_done st"
  "rss_started (absorb_function_call_item item i st) = rss_started st"
  by (simp_all add: absorb_function_call_item_def Let_def split: option.split)

lemma absorb_output_item_added_going_on: "going_on st (absorb_output_item_added value st) []"
  by (intro going_on_silent) (simp_all add: absorb_output_item_added_def split: option.split)

lemma absorb_function_arguments_delta_going_on:
  "going_on st (absorb_function_arguments_delta value st) []"
  by (intro going_on_silent) (simp_all add: absorb_function_arguments_delta_def split: option.split)

lemma emit_tool_call_from_key_going_on:
  assumes "emit_tool_call_from_key js key st = (st', Inr evs)"
  shows "going_on st st' evs"
proof (cases "key \<in> set (rss_emitted_tool_calls st)")
  case True
  with assms show ?thesis by (auto simp: emit_tool_call_from_key_def intro: going_on_silent)
next
  case False
  let ?st = "st\<lparr>rss_emitted_tool_calls := bs_union (rss_emitted_tool_calls st) [key]\<rparr>"
  show ?thesis
  proof (cases "map_of (rss_tool_calls st) key")
    case None
    with False assms show ?thesis by (auto simp: emit_tool_call_from_key_def Let_def intro: going_on_silent)
  next
    case (Some call)
    with False assms obtain ev where ev: "responses_to_event js key ?st call = Inr ev"
      and run: "started_with [ev] ?st = (st', evs)"
      by (auto simp: emit_tool_call_from_key_def Let_def split: sum.splits prod.splits)
    from ev have "\<not> terminal_event ev" by (auto simp: responses_to_event_def r_then_Inr_iff)
    with started_with_going_on [OF run] have "going_on ?st st' evs" by simp
    then show ?thesis by (rule going_on_same_start) simp_all
  qed
qed

lemma emit_tool_call_going_on:
  "emit_tool_call js value st = (st', Inr evs) \<Longrightarrow> going_on st st' evs"
  by (simp add: emit_tool_call_def emit_tool_call_from_key_going_on)

lemma function_arguments_done_going_on:
  "function_arguments_done js value st = (st', Inr evs) \<Longrightarrow> going_on st st' evs"
  unfolding function_arguments_done_def
  by (drule emit_tool_call_going_on) (auto elim!: going_on_same_start split: option.splits)

lemma reasoning_text_delta_going_on:
  "reasoning_text_delta value kind st = (st', evs) \<Longrightarrow> going_on st st' evs"
  by (auto simp: reasoning_text_delta_def Let_def going_on_silent split: option.splits
      dest!: started_with_going_on elim!: going_on_same_start)

lemma reasoning_text_done_going_on:
  "reasoning_text_done value st = (st', evs) \<Longrightarrow> going_on st st' evs"
  by (auto simp: reasoning_text_done_def Let_def going_on_silent split: option.splits
      dest!: started_with_going_on elim!: going_on_same_start)

lemma reasoning_item_events_going_on:
  "reasoning_item_events js item st = (st', evs) \<Longrightarrow> rss_started st \<Longrightarrow> going_on st st' evs"
  by (auto simp: reasoning_item_events_def going_on_def split: prod.splits if_splits)

lemma output_item_done_going_on:
  assumes "output_item_done js value st = (st', Inr evs)"
  shows "going_on st st' evs"
proof -
  have "going_on st st' (first @ events)"
    if "ensure_started st = (st1, first)" "reasoning_item_events js item st1 = (st', events)"
    for st1 first events item
    using that ensure_started_going_on reasoning_item_events_going_on going_on_trans by blast
  with assms show ?thesis
    by (auto simp: output_item_done_def going_on_silent split: option.splits if_splits prod.splits
        dest!: emit_tool_call_going_on elim!: going_on_same_start)
qed

lemma output_item_event_going_on:
  "output_item_event js item st = (st', Inr evs) \<Longrightarrow> rss_started st \<Longrightarrow> going_on st st' evs"
  by (auto simp: output_item_event_def Let_def going_on_silent split: if_splits prod.splits
      dest!: emit_tool_call_from_key_going_on elim!: going_on_same_start
      intro: reasoning_item_events_going_on)

lemma going_on_started: "going_on st st' evs \<Longrightarrow> rss_started st \<Longrightarrow> rss_started st'"
  by (simp add: going_on_def)

lemma output_item_events_going_on:
  "output_item_events js items st = (st', Inr evs) \<Longrightarrow> rss_started st \<Longrightarrow> going_on st st' evs"
proof (induction items arbitrary: st evs)
  case Nil
  then show ?case by (simp add: going_on_silent)
next
  case (Cons item items)
  from Cons.prems(1) obtain st1 events later where "output_item_event js item st = (st1, Inr events)"
    and "output_item_events js items st1 = (st', Inr later)" and "evs = events @ later"
    by (auto simp: and_then_Inr_iff)
  with Cons.IH Cons.prems(2) output_item_event_going_on going_on_started going_on_trans
  show ?case by metis
qed

section \<open>The last step\<close>

text \<open>A step that finishes the stream.\<close>

definition finishing ::
  "responses_stream_state \<Rightarrow> responses_stream_state \<Rightarrow> model_stream_event list \<Rightarrow> bool" where
  "finishing st st' evs =
     (rss_finished st' \<and> rss_done st'
      \<and> ((\<exists>message. evs = [Failed message])
        \<or> (\<exists>body reason. evs = body @ [Finished reason] \<and> \<not> list_ex terminal_event body
             \<and> (rss_started st \<or> body \<noteq> [] \<and> start_event (hd body)))))"

lemma going_on_finish:
  assumes "going_on st st1 evs" and "\<not> rss_finished st" and "rss_started st1 \<or> evs = []"
    and "responses_finish_events (st1\<lparr>rss_done := True\<rparr>) = (st', final)"
  shows "finishing st st' (evs @ final)"
proof -
  from assms(1,2,4) obtain reason first where final: "final = first @ [Finished reason]"
    and first: "ensure_started (st1\<lparr>rss_done := True, rss_finished := True\<rparr>) = (st', first)"
    by (auto simp: responses_finish_events_def started_with_def going_on_def split: if_splits prod.splits)
  from first have start: "if rss_started st1 then first = [] else \<exists>i. first = [Started i]"
    and over: "rss_finished st' \<and> rss_done st'"
    by (auto simp: ensure_started_def responses_started_event_def split: if_splits)
  have "\<not> list_ex terminal_event (evs @ first)
      \<and> (rss_started st \<or> evs @ first \<noteq> [] \<and> start_event (hd (evs @ first)))"
    using assms(1,3) start
    by (auto simp: going_on_def terminal_event_def start_event_def hd_append split: if_splits)
  with final over show ?thesis unfolding finishing_def by (metis append.assoc)
qed

lemma response_completed_finishing:
  assumes "response_completed js value st = (st', Inr evs)" and "\<not> rss_finished st"
  shows "finishing st st' evs"
proof -
  obtain st1 first where first: "ensure_started st = (st1, first)" by force
  with assms(1) obtain st2 events where
    run: "(case Option.bind (get_object value ''response'') (\<lambda>response.
              Option.bind (map_of response ''output'') json_as_array) of
             Some output \<Rightarrow> output_item_events js (List.map_filter json_as_object output)
           | None \<Rightarrow> ok []) st1 = (st2, Inr events)"
    and fin: "(case responses_finish_events (st2\<lparr>rss_done := True\<rparr>) of
        (st, final) \<Rightarrow> (st, Inr (first @ events @ final))) = (st', Inr evs :: _ list result)"
    by (auto simp: response_completed_def and_then_Inr_iff simp del: split_paired_Ex)
  from fin obtain final where final: "responses_finish_events (st2\<lparr>rss_done := True\<rparr>) = (st', final)"
    and evs: "evs = first @ events @ final"
    by (cases "responses_finish_events (st2\<lparr>rss_done := True\<rparr>)") auto
  note started = ensure_started_going_on [OF first]
  from run have "going_on st1 st2 events"
    using started output_item_events_going_on
    by (auto simp: ok_run going_on_silent split: option.splits)
  with started going_on_trans have "going_on st st2 (first @ events)" "rss_started st2"
    by (blast intro: going_on_started)+
  from going_on_finish [OF this(1) assms(2) _ final] this(2) evs show ?thesis by simp
qed

lemma finishing_same_start:
  "finishing st1 st' evs \<Longrightarrow> rss_started st1 = rss_started st \<Longrightarrow> finishing st st' evs"
  by (simp add: finishing_def)

text \<open>A case split over a chain of conditions, without the conditions.\<close>

lemma if_eqE: "(if c then a else b) = x \<Longrightarrow> (a = x \<Longrightarrow> P) \<Longrightarrow> (b = x \<Longrightarrow> P) \<Longrightarrow> P"
  by (simp split: if_splits)

lemma responses_apply_value_events:
  assumes "responses_apply_value js value st = (st', Inr evs)" and "\<not> rss_finished st"
  shows "going_on st st' evs \<or> finishing st st' evs"
proof -
  have created: "going_on st st1 [ev]" if "responses_started_event v st = (st1, ev)" for v st1 ev
    using that by (auto simp: responses_started_event_def going_on_def start_event_def terminal_event_def)
  have failed: "finishing st st1 [ev]" if "failed_event v st = (st1, ev)" for v st1 ev
    using that by (auto simp: failed_event_def finishing_def)
  have incomplete: "finishing st st' evs" if "response_incomplete js value st = (st', Inr evs)"
    using that assms(2) unfolding response_incomplete_def
    by (auto dest!: response_completed_finishing elim!: finishing_same_start)
  show ?thesis
  proof (cases "item_type value")
    case None
    with assms(1) show ?thesis by (auto simp: responses_apply_value_def intro: going_on_silent)
  next
    case (Some event_type)
    show ?thesis
      using assms(1) unfolding responses_apply_value_def Let_def Some option.case
    proof (elim if_eqE)
      assume "response_completed js value st = (st', Inr evs)"
      with assms(2) show ?thesis by (simp add: response_completed_finishing)
    next
      assume "response_incomplete js value st = (st', Inr evs)"
      then show ?thesis by (simp add: incomplete)
    qed (use created failed in \<open>auto simp: output_text_delta_def content_part_delta_def
        going_on_silent absorb_output_item_added_going_on absorb_function_arguments_delta_going_on
        split: prod.splits intro: text_delta_events_going_on function_arguments_done_going_on
        output_item_done_going_on reasoning_text_delta_going_on reasoning_text_done_going_on\<close>)
  qed
qed

lemma responses_apply_chunk_events:
  assumes "responses_apply_chunk js data st = (st', Inr evs)" and "\<not> rss_finished st"
  shows "going_on st st' evs \<or> finishing st st' evs"
proof (cases "trim data = ''[DONE]''")
  case True
  with assms(1) have "responses_finish_events (st\<lparr>rss_done := True\<rparr>) = (st', evs)"
    by (auto simp: responses_apply_chunk_def split: prod.splits)
  from going_on_finish [OF going_on_silent [OF refl refl refl] assms(2) _ this] show ?thesis by simp
next
  case False
  with assms responses_apply_value_events show ?thesis
    by (auto simp: responses_apply_chunk_def split: sum.splits)
qed

section \<open>The shape of a stream\<close>

text \<open>The events of a stream that is over, and what holds while it is read.\<close>

definition ended :: "model_stream_event list \<Rightarrow> bool" where
  "ended evs = ((\<exists>message. evs = [Failed message])
     \<or> (\<exists>stream_id body last. evs = Started stream_id # body @ [last]
          \<and> terminal_event last \<and> \<not> list_ex terminal_event body))"

definition responses_events :: "responses_stream_state \<Rightarrow> model_stream_event list \<Rightarrow> bool" where
  "responses_events st evs =
     (rss_finished st = rss_done st
      \<and> (if rss_done st then ended evs
         else \<not> list_ex terminal_event evs
           \<and> (if evs = [] then \<not> rss_started st else start_event (hd evs) \<and> rss_started st)))"

lemma start_eventE: "start_event ev \<Longrightarrow> \<exists>stream_id. ev = Started stream_id"
  by (auto simp: start_event_def split: model_stream_event.splits)

lemma ended_intro:
  "\<not> list_ex terminal_event body \<Longrightarrow> body \<noteq> [] \<Longrightarrow> start_event (hd body) \<Longrightarrow> terminal_event ev \<Longrightarrow>
   ended (body @ [ev])"
  unfolding ended_def by (cases body) (auto dest: start_eventE)

interpretation responses: frame_handling "responses_handle_data js" responses_events rss_done
  for js
proof
  fix x x' :: responses_stream_state and evs data r
  assume I: "responses_events x evs" and undone: "\<not> rss_done x"
    and run: "responses_handle_data js data x = (x', Inr r)"
  from run obtain later where chunk: "responses_apply_chunk js data x = (x', Inr later)"
    and r: "r = \<lparr>fr_events = later, fr_terminal = rss_done x'\<rparr>"
    by (auto simp: responses_handle_data_def split: prod.splits sum.splits)
  from I undone have opn: "\<not> rss_finished x" "\<not> list_ex terminal_event evs"
    "if evs = [] then \<not> rss_started x else start_event (hd evs) \<and> rss_started x"
    by (auto simp: responses_events_def)
  from responses_apply_chunk_events [OF chunk this(1)]
  have "responses_events x' (evs @ later)"
  proof
    assume "going_on x x' later"
    with opn undone show ?thesis
      by (auto simp: going_on_def responses_events_def hd_append split: if_splits)
  next
    assume fin: "finishing x x' later"
    then consider m where "later = [Failed m]"
      | body reason where "later = body @ [Finished reason]" "\<not> list_ex terminal_event body"
        "rss_started x \<or> body \<noteq> [] \<and> start_event (hd body)"
      unfolding finishing_def by blast
    then have "ended (evs @ later)"
    proof cases
      case 1
      then show ?thesis
        using opn ended_intro [of evs "Failed m"]
        by (cases "evs = []") (simp_all add: ended_def terminal_event_def)
    next
      case 2
      then show ?thesis
        using opn ended_intro [of "evs @ body" "Finished reason"]
        by (auto simp: terminal_event_def hd_append split: if_splits)
    qed
    with fin show ?thesis by (simp add: finishing_def responses_events_def)
  qed
  with r show "responses_events x' (evs @ fr_events r) \<and> (rss_done x' \<longleftrightarrow> fr_terminal r)" by simp
qed

section \<open>Errors of the handler\<close>

lemma emit_tool_call_from_key_error:
  "emit_tool_call_from_key js key st = (st', Inl e) \<Longrightarrow> \<not> is_unauthorized e"
  by (auto simp: emit_tool_call_from_key_def responses_to_event_def canonical_name_def r_then_def
      is_unauthorized_def Let_def split: if_splits option.splits prod.splits sum.splits)

lemma output_item_events_error:
  "output_item_events js items st = (st', Inl e) \<Longrightarrow> \<not> is_unauthorized e"
proof (induction items arbitrary: st)
  case (Cons item items)
  have "\<not> is_unauthorized e" if "output_item_event js item st = (st', Inl e)"
    using that by (auto simp: output_item_event_def Let_def emit_tool_call_from_key_error
        split: if_splits prod.splits)
  with Cons show ?case by (auto simp: and_then_def ok_run split: prod.splits sum.splits)
qed simp

lemma response_completed_error:
  "response_completed js value st = (st', Inl e) \<Longrightarrow> \<not> is_unauthorized e"
  by (auto simp: response_completed_def and_then_def ok_run output_item_events_error
      split: prod.splits sum.splits option.splits)

lemma responses_apply_value_error:
  assumes "responses_apply_value js value st = (st', Inl e)"
  shows "\<not> is_unauthorized e"
proof (cases "item_type value")
  case None
  with assms show ?thesis by (simp add: responses_apply_value_def)
next
  case (Some event_type)
  show ?thesis
    using assms unfolding responses_apply_value_def Let_def Some option.case
    by (elim if_eqE)
      (auto simp: function_arguments_done_def emit_tool_call_def output_item_done_def
        response_incomplete_def emit_tool_call_from_key_error response_completed_error
        split: prod.splits option.splits if_splits)
qed

lemma responses_apply_chunk_error:
  "responses_apply_chunk js data st = (st', Inl e) \<Longrightarrow> \<not> is_unauthorized e"
  using responses_apply_value_error
  by (auto simp: responses_apply_chunk_def is_unauthorized_def split: if_splits sum.splits prod.splits)

lemma responses_unauthorized_from_server:
  "quiet_environment env stream \<Longrightarrow> unauthorized_from_server env stream (responses_handle_data js)"
  by (auto simp: unauthorized_from_server_def responses_handle_data_def responses_apply_chunk_error
      split: sum.splits prod.splits)


text \<open>A server that adds a function call, sends its arguments and completes the response with it.\<close>

definition sample_call_item :: json where
  "sample_call_item = json_object [(''type'', JString ''function_call''), (''id'', JString ''i1''),
     (''call_id'', JString ''c1''), (''name'', JString ''host_exec''), (''arguments'', JString ''ls'')]"

definition sample_responses_json :: json_text where
  "sample_responses_json = \<lparr>js_parse = (\<lambda>s.
       if s = ''d'' then Inr (json_object [(''type'', JString ''response.output_item.done''),
          (''output_index'', JInt 0), (''item'', sample_call_item)])
       else if s = ''c'' then Inr (json_object [(''type'', JString ''response.completed''),
          (''response'', json_object [(''output'', JArray [sample_call_item])])])
       else Inl ''not json''), js_show = (\<lambda>v. ''json'')\<rparr>"

definition sample_responses_provider :: "request_event list responses_provider" where
  "sample_responses_provider = \<lparr>rp_config = responses_config_new ''p'' ''m'',
     rp_endpoint = ''https://api.openai.com/v1/responses'', rp_headers = []\<rparr>"

definition sample_responses_world :: "request_event list" where
  "sample_responses_world = [sample_response [''data:d'' @ [LF, LF], ''data:c'' @ [LF, LF]]]"


end
