(* ===== verification/Host_Files.thy ===== *)
theory Host_Files
  imports Effects Prelude
begin

text \<open>
  Paths of the host as \<open>std::path\<close> reads them, and its files as \<open>std::fs\<close> and \<open>tokio::fs\<close> show them
  to the tools: nodes by path, errors for missing parents and parents that are files, and a call that
  the system refuses for another reason (\<open>fs_fault\<close>). Links are not followed by the operations; what they make of an existing path
  is \<open>fs_canonical\<close>, which the guard of sensitive paths asks.
\<close>

text \<open>
  Unix paths as \<open>std::path\<close> sees them: the components of a path, its file name, and the lexical
  normalization of \<open>tools/file_edit.rs\<close> in the crate noloong-agent.
\<close>

datatype path_component = RootDir | CurDir | ParentDir | Normal string

type_synonym path = "path_component list"

text \<open>The derived order of components, which orders paths.\<close>

fun component_key :: "path_component \<Rightarrow> nat \<times> string" where
  "component_key RootDir = (0, [])"
| "component_key CurDir = (1, [])"
| "component_key ParentDir = (2, [])"
| "component_key (Normal name) = (3, name)"

lemma component_key_inject: "component_key c = component_key d \<longleftrightarrow> c = d"
  by (cases c; cases d) simp_all

definition key_le :: "nat \<times> string \<Rightarrow> nat \<times> string \<Rightarrow> bool" where
  "key_le k l = (fst k < fst l \<or> fst k = fst l \<and> snd k \<le> snd l)"

instantiation path_component :: linorder
begin

definition less_eq_path_component :: "path_component \<Rightarrow> path_component \<Rightarrow> bool" where
  "less_eq_path_component c d = key_le (component_key c) (component_key d)"

definition less_path_component :: "path_component \<Rightarrow> path_component \<Rightarrow> bool" where
  "less_path_component c d = (key_le (component_key c) (component_key d) \<and> c \<noteq> d)"

instance
proof
  fix c d e :: path_component
  show "c < d \<longleftrightarrow> c \<le> d \<and> \<not> d \<le> c"
    unfolding less_eq_path_component_def less_path_component_def
    using component_key_inject [of c d] by (auto simp: key_le_def prod_eq_iff)
  show "c \<le> d \<Longrightarrow> d \<le> c \<Longrightarrow> c = d"
    unfolding less_eq_path_component_def
    using component_key_inject [of c d] by (auto simp: key_le_def prod_eq_iff)
qed (auto simp: less_eq_path_component_def less_path_component_def key_le_def)

end

section \<open>Components\<close>

text \<open>A dot is only a component at the start of a relative path; empty names are none.\<close>

definition relative_components :: "string list \<Rightarrow> path" where
  "relative_components parts =
     List.map_filter (\<lambda>part. if part = [] \<or> part = ''.'' then None
        else Some (if part = ''..'' then ParentDir else Normal part)) parts"

definition components :: "string \<Rightarrow> path" where
  "components s =
     (let parts = split_on (CHR ''/'') s
      in if s = [] then []
         else if hd s = CHR ''/'' then RootDir # relative_components parts
         else if hd parts = ''.'' then CurDir # relative_components parts
         else relative_components parts)"

definition is_absolute :: "path \<Rightarrow> bool" where
  "is_absolute p = (p \<noteq> [] \<and> hd p = RootDir)"

definition file_name :: "path \<Rightarrow> string option" where
  "file_name p = (if p = [] then None else case last p of Normal name \<Rightarrow> Some name | _ \<Rightarrow> None)"

text \<open>\<open>parent\<close>: nothing for the root and the empty path.\<close>

definition parent_path :: "path \<Rightarrow> path option" where
  "parent_path p = (if p = [] \<or> last p = RootDir then None else Some (butlast p))"

fun component_str :: "path_component \<Rightarrow> string" where
  "component_str RootDir = []"
| "component_str CurDir = ''.''"
| "component_str ParentDir = ''..''"
| "component_str (Normal name) = name"

definition path_string :: "path \<Rightarrow> string" where
  "path_string p =
     (if p = [RootDir] then ''/'' else join_with ''/'' (map component_str p))"

section \<open>Normalization\<close>

definition push_component :: "path_component \<Rightarrow> path \<Rightarrow> path" where
  "push_component c p =
     (case c of
        RootDir \<Rightarrow> [RootDir]
      | CurDir \<Rightarrow> p
      | ParentDir \<Rightarrow>
          if file_name p \<noteq> None then butlast p
          else if \<not> is_absolute p then p @ [ParentDir] else p
      | Normal name \<Rightarrow> p @ [c])"

definition normalize_path :: "path \<Rightarrow> path" where
  "normalize_path p = fold push_component p []"

text \<open>Lower case of ASCII letters.\<close>

definition ascii_lowercase :: "string \<Rightarrow> string" where
  "ascii_lowercase s =
     map (\<lambda>c. let n = of_char c :: nat in if 65 \<le> n \<and> n \<le> 90 then char_of (n + 32) else c) s"

text \<open>A normalized path: dots nowhere, parents only at the start of a relative path.\<close>

definition path_normal :: "path \<Rightarrow> bool" where
  "path_normal p =
     (CurDir \<notin> set p \<and> RootDir \<notin> set (tl p)
      \<and> (if is_absolute p then ParentDir \<notin> set p
         else \<exists>ups names. p = replicate ups ParentDir @ map Normal names))"

datatype node = FileNode string | DirNode

datatype fs_call = Metadata | ReadFile | WriteFile | RemoveFile | CreateDir

record file_system =
  fs_nodes :: "path \<Rightarrow> node option"
  fs_fault :: "fs_call \<Rightarrow> path \<Rightarrow> string option"
  fs_canonical :: "path \<Rightarrow> path option"

datatype io_error = NotFound | OtherError string

fun io_message :: "io_error \<Rightarrow> string" where
  "io_message NotFound = ''No such file or directory (os error 2)''"
| "io_message (OtherError m) = m"

definition not_a_directory :: io_error where
  "not_a_directory = OtherError ''Not a directory (os error 20)''"

definition is_a_directory :: io_error where
  "is_a_directory = OtherError ''Is a directory (os error 21)''"

section \<open>Reading\<close>

text \<open>The directories above a path, from the top.\<close>

definition ancestors :: "path \<Rightarrow> path list" where
  "ancestors p = map (\<lambda>n. take n p) [1..<length p]"

fun ancestor_error :: "(path \<Rightarrow> node option) \<Rightarrow> path list \<Rightarrow> io_error option" where
  "ancestor_error nodes [] = None"
| "ancestor_error nodes (a # as) =
     (case nodes a of
        None \<Rightarrow> Some NotFound
      | Some DirNode \<Rightarrow> ancestor_error nodes as
      | Some (FileNode content) \<Rightarrow> Some not_a_directory)"

definition fs_check :: "fs_call \<Rightarrow> file_system \<Rightarrow> path \<Rightarrow> io_error option" where
  "fs_check call fs p =
     (case fs_fault fs call p of
        Some m \<Rightarrow> Some (OtherError m)
      | None \<Rightarrow> if p = [] then Some NotFound else ancestor_error (fs_nodes fs) (ancestors p))"

definition fs_metadata :: "file_system \<Rightarrow> path \<Rightarrow> io_error + node" where
  "fs_metadata fs p =
     (case fs_check Metadata fs p of
        Some e \<Rightarrow> Inl e
      | None \<Rightarrow> (case fs_nodes fs p of None \<Rightarrow> Inl NotFound | Some n \<Rightarrow> Inr n))"

definition fs_exists :: "file_system \<Rightarrow> path \<Rightarrow> bool" where
  "fs_exists fs p = (case fs_metadata fs p of Inl e \<Rightarrow> False | Inr n \<Rightarrow> True)"

definition fs_read :: "file_system \<Rightarrow> path \<Rightarrow> io_error + string" where
  "fs_read fs p =
     (case fs_check ReadFile fs p of
        Some e \<Rightarrow> Inl e
      | None \<Rightarrow>
          (case fs_nodes fs p of
             None \<Rightarrow> Inl NotFound
           | Some DirNode \<Rightarrow> Inl is_a_directory
           | Some (FileNode content) \<Rightarrow> Inr content))"

section \<open>Changing\<close>

definition set_node :: "path \<Rightarrow> node option \<Rightarrow> file_system \<Rightarrow> file_system" where
  "set_node p n fs = fs\<lparr>fs_nodes := (fs_nodes fs)(p := n)\<rparr>"

definition fs_write :: "path \<Rightarrow> string \<Rightarrow> (file_system, io_error, unit) eff" where
  "fs_write p content fs =
     (case fs_check WriteFile fs p of
        Some e \<Rightarrow> (fs, Inl e)
      | None \<Rightarrow>
          if fs_nodes fs p = Some DirNode then (fs, Inl is_a_directory)
          else (set_node p (Some (FileNode content)) fs, Inr ()))"

definition fs_remove_file :: "path \<Rightarrow> (file_system, io_error, unit) eff" where
  "fs_remove_file p fs =
     (case fs_check RemoveFile fs p of
        Some e \<Rightarrow> (fs, Inl e)
      | None \<Rightarrow>
          (case fs_nodes fs p of
             None \<Rightarrow> (fs, Inl NotFound)
           | Some DirNode \<Rightarrow> (fs, Inl is_a_directory)
           | Some (FileNode content) \<Rightarrow> (set_node p None fs, Inr ())))"

text \<open>\<open>create_dir_all\<close>: the missing directories, from the top.\<close>

definition create_dir :: "path \<Rightarrow> (file_system, io_error, unit) eff" where
  "create_dir p fs =
     (case fs_nodes fs p of
        Some DirNode \<Rightarrow> (fs, Inr ())
      | Some (FileNode content) \<Rightarrow> (fs, Inl not_a_directory)
      | None \<Rightarrow>
          (case fs_fault fs CreateDir p of
             Some m \<Rightarrow> (fs, Inl (OtherError m))
           | None \<Rightarrow> (set_node p (Some DirNode) fs, Inr ())))"

definition fs_create_dir_all :: "path \<Rightarrow> (file_system, io_error, unit) eff" where
  "fs_create_dir_all p = for_each (if p = [] then [] else ancestors p @ [p]) create_dir"

section \<open>The contents of the files\<close>

definition file_contents :: "file_system \<Rightarrow> path \<Rightarrow> string option" where
  "file_contents fs p =
     (case fs_nodes fs p of Some (FileNode content) \<Rightarrow> Some content | _ \<Rightarrow> None)"

lemma file_contents_set_node [simp]:
  "file_contents (set_node p None fs) = (file_contents fs)(p := None)"
  "file_contents (set_node p (Some (FileNode content)) fs) = (file_contents fs)(p \<mapsto> content)"
  by (auto simp: file_contents_def set_node_def fun_eq_iff)

text \<open>The nodes form a tree: what is above a node is a directory.\<close>

definition fs_tree :: "file_system \<Rightarrow> bool" where
  "fs_tree fs =
     (\<forall>p. fs_nodes fs p \<noteq> None \<longrightarrow> ancestor_error (fs_nodes fs) (ancestors p) = None \<and> p \<noteq> [])"

lemma fs_metadata_NotFound:
  "fs_metadata fs p = Inl NotFound \<Longrightarrow> fs_tree fs \<Longrightarrow> file_contents fs p = None"
  by (force simp: fs_metadata_def fs_check_def fs_tree_def file_contents_def
      split: option.splits if_splits)

lemma fs_metadata_FileNode:
  "fs_metadata fs p = Inr (FileNode content) \<Longrightarrow> file_contents fs p = Some content"
  by (auto simp: fs_metadata_def file_contents_def split: option.splits)

lemma fs_read_contents: "fs_read fs p = Inr content \<Longrightarrow> file_contents fs p = Some content"
  by (auto simp: fs_read_def file_contents_def split: option.splits node.splits)

lemma fs_write_contents:
  "fs_write p content fs = (fs', Inr ()) \<Longrightarrow> file_contents fs' = (file_contents fs)(p \<mapsto> content)"
  by (auto simp: fs_write_def split: option.splits if_splits)

lemma fs_remove_file_contents:
  "fs_remove_file p fs = (fs', Inr ()) \<Longrightarrow> file_contents fs' = (file_contents fs)(p := None)"
  by (auto simp: fs_remove_file_def split: option.splits node.splits)

text \<open>Creating directories changes no file.\<close>

lemma file_contents_new_dir:
  "fs_nodes fs p = None \<Longrightarrow> file_contents (set_node p (Some DirNode) fs) = file_contents fs"
  by (auto simp: file_contents_def set_node_def fun_eq_iff)

lemma create_dir_contents [pres]: "preserves (\<lambda>fs. file_contents fs = m) (create_dir p)"
  by (rule preservesI)
    (simp add: create_dir_def file_contents_new_dir split: option.split node.split)

lemma fs_create_dir_all_contents [pres]: "preserves (\<lambda>fs. file_contents fs = m) (fs_create_dir_all p)"
  unfolding fs_create_dir_all_def by (rule preserves_for_each) (rule create_dir_contents)

end
