(* ===== verification/Command_Safety.thy ===== *)
theory Command_Safety
  imports Host_Files
begin

text \<open>
  The classification of host commands (\<open>crates/noloong-agent/src/approval/command_safety.rs\<close>): a
  script of plain commands is split into words, nested shells are followed, and known read-only
  commands are safe. All characters the parser looks at are ASCII, so it is modelled on the bytes of
  the script.
\<close>

datatype command_safety = Safe | Dangerous | Unknown

section \<open>The parser of plain commands\<close>

definition TAB :: char where "TAB = CHR 0x09"
definition SQUOTE :: char where "SQUOTE = CHR 0x27"
definition DQUOTE :: char where "DQUOTE = CHR 0x22"
definition BACKSLASH :: char where "BACKSLASH = CHR 0x5C"

definition unsupported_char :: "char \<Rightarrow> bool" where
  "unsupported_char ch =
     (ch \<in> {CHR ''$'', CHR 0x60, CHR ''<'', CHR ''>'', CHR 0x0A, CHR 0x0D})"

definition glob_char :: "char \<Rightarrow> bool" where
  "glob_char ch = (ch \<in> {CHR ''*'', CHR ''?'', CHR ''['', CHR '']''})"

definition finish_word :: "string list \<Rightarrow> string \<Rightarrow> string list" where
  "finish_word current word = (if word = [] then current else current @ [word])"

definition finish_command ::
  "string list list \<Rightarrow> string list \<Rightarrow> string \<Rightarrow> string list list option" where
  "finish_command commands current word =
     (if finish_word current word = [] then None else Some (commands @ [finish_word current word]))"

function parse_from ::
  "string \<Rightarrow> char option \<Rightarrow> string list list \<Rightarrow> string list \<Rightarrow> string \<Rightarrow> string list list option" where
  "parse_from [] quote commands current word =
     (if quote \<noteq> None then None
      else Some (if finish_word current word = [] then commands
                 else commands @ [finish_word current word]))"
| "parse_from (ch # rest) quote commands current word =
     (if unsupported_char ch then None
      else case quote of
        Some quote_ch \<Rightarrow>
          if ch = quote_ch then parse_from rest None commands current word
          else if glob_char ch then None
          else parse_from rest quote commands current (word @ [ch])
      | None \<Rightarrow>
          if ch = SQUOTE \<or> ch = DQUOTE then parse_from rest (Some ch) commands current word
          else if ch = BACKSLASH
          then (case rest of
                  [] \<Rightarrow> None
                | escaped # rest' \<Rightarrow>
                    if unsupported_char escaped then None
                    else parse_from rest' None commands current (word @ [escaped]))
          else if ch = CHR '' '' \<or> ch = TAB
          then parse_from rest None commands (finish_word current word) []
          else if ch = CHR '';''
          then Option.bind (finish_command commands current word) (\<lambda>commands.
               parse_from rest None commands [] [])
          else if ch = CHR ''|''
          then Option.bind (finish_command commands current word) (\<lambda>commands.
               parse_from (if rest \<noteq> [] \<and> hd rest = CHR ''|'' then tl rest else rest) None commands [] [])
          else if ch = CHR ''&''
          then (if rest \<noteq> [] \<and> hd rest = CHR ''&''
                then Option.bind (finish_command commands current word) (\<lambda>commands.
                     parse_from (tl rest) None commands [] [])
                else None)
          else if glob_char ch then None
          else parse_from rest None commands current (word @ [ch]))"
  by pat_completeness auto
termination
  by (relation "measure (\<lambda>(s, _). length s)") auto

declare parse_from.simps [simp del]

definition parse_plain_commands :: "string \<Rightarrow> string list list option" where
  "parse_plain_commands script = parse_from script None [] [] []"

section \<open>Words\<close>

definition executable_name :: "string \<Rightarrow> string" where
  "executable_name raw =
     (case file_name (components raw) of Some name \<Rightarrow> name | None \<Rightarrow> raw)"

definition shell_executable_name :: "string \<Rightarrow> string" where
  "shell_executable_name shell =
     (case file_name (components shell) of
        Some name \<Rightarrow> ascii_lowercase name
      | None \<Rightarrow> ascii_lowercase shell)"

definition is_unsupported_shell :: "string \<Rightarrow> bool" where
  "is_unsupported_shell shell =
     (shell_executable_name shell \<in> {''cmd'', ''cmd.exe'', ''powershell'', ''powershell.exe'',
        ''pwsh'', ''pwsh.exe''})"

definition is_shell_wrapper :: "string list \<Rightarrow> bool" where
  "is_shell_wrapper words =
     (length words = 3
      \<and> executable_name (words ! 0) \<in> {''sh'', ''bash'', ''zsh'', ''dash'', ''ash''}
      \<and> words ! 1 \<in> {''-c'', ''-lc''})"

definition has_env_assignment_prefix :: "string list \<Rightarrow> bool" where
  "has_env_assignment_prefix words =
     (case words of [] \<Rightarrow> False
      | word # _ \<Rightarrow> CHR ''='' \<in> set word \<and> \<not> prefix ''-'' word)"

fun is_dangerous_words :: "string list \<Rightarrow> bool" where
  "is_dangerous_words [] = False"
| "is_dangerous_words (word # words) =
     (if executable_name word = ''rm''
      then words \<noteq> [] \<and> hd words \<in> {''-f'', ''-rf'', ''-fr''}
      else if executable_name word = ''sudo'' then is_dangerous_words words
      else False)"

definition is_safe_ripgrep :: "string list \<Rightarrow> bool" where
  "is_safe_ripgrep words =
     (\<not> list_ex (\<lambda>arg. arg \<in> {''--pre'', ''--hostname-bin'', ''--search-zip'', ''-z''}
          \<or> prefix ''--pre='' arg \<or> prefix ''--hostname-bin='' arg) (drop 1 words))"

definition is_valid_sed_print_range :: "string \<Rightarrow> bool" where
  "is_valid_sed_print_range value =
     (case strip_suffix ''p'' value of
        None \<Rightarrow> False
      | Some value \<Rightarrow> value \<noteq> []
          \<and> list_all (\<lambda>part. part \<noteq> [] \<and> list_all is_ascii_digit part) (split_on (CHR '','') value))"

definition is_safe_sed :: "string list \<Rightarrow> bool" where
  "is_safe_sed words =
     ((length words = 3 \<or> length words = 4)
      \<and> executable_name (words ! 0) = ''sed'' \<and> words ! 1 = ''-n''
      \<and> is_valid_sed_print_range (words ! 2))"

section \<open>Git\<close>

definition GIT_GLOBAL_OPTIONS_WITH_VALUE :: "string list" where
  "GIT_GLOBAL_OPTIONS_WITH_VALUE =
     [''-C'', ''-c'', ''--config-env'', ''--exec-path'', ''--git-dir'', ''--namespace'',
      ''--super-prefix'', ''--work-tree'']"

definition git_global_option_matches_inline_value :: "string \<Rightarrow> string \<Rightarrow> bool" where
  "git_global_option_matches_inline_value arg option =
     (case strip_prefix option arg of
        None \<Rightarrow> False
      | Some rest \<Rightarrow> if prefix ''--'' option then prefix ''='' rest else rest \<noteq> [])"

definition git_global_option_has_separate_value :: "string \<Rightarrow> bool" where
  "git_global_option_has_separate_value arg = (arg \<in> set GIT_GLOBAL_OPTIONS_WITH_VALUE)"

definition git_global_option_has_inline_value :: "string \<Rightarrow> bool" where
  "git_global_option_has_inline_value arg =
     list_ex (git_global_option_matches_inline_value arg) GIT_GLOBAL_OPTIONS_WITH_VALUE"

definition git_global_option_requires_prompt :: "string \<Rightarrow> bool" where
  "git_global_option_requires_prompt arg =
     (git_global_option_has_separate_value arg \<or> git_global_option_has_inline_value arg)"

text \<open>The loop of \<open>find_git_subcommand\<close>, from an index on, with \<open>skip_next\<close>.\<close>

fun find_subcommand_from :: "string list \<Rightarrow> nat \<Rightarrow> string list \<Rightarrow> bool \<Rightarrow> (nat \<times> string) option" where
  "find_subcommand_from [] index subcommands skip_next = None"
| "find_subcommand_from (arg # args) index subcommands skip_next =
     (if skip_next then find_subcommand_from args (index + 1) subcommands False
      else if git_global_option_has_inline_value arg
      then find_subcommand_from args (index + 1) subcommands False
      else if git_global_option_has_separate_value arg
      then find_subcommand_from args (index + 1) subcommands True
      else if arg = ''--'' \<or> prefix ''-'' arg
      then find_subcommand_from args (index + 1) subcommands False
      else if arg \<in> set subcommands then Some (index, arg)
      else None)"

definition find_git_subcommand :: "string list \<Rightarrow> string list \<Rightarrow> (nat \<times> string) option" where
  "find_git_subcommand words subcommands =
     (if words = [] \<or> executable_name (hd words) \<noteq> ''git'' then None
      else find_subcommand_from (tl words) 1 subcommands False)"

definition git_args_are_read_only :: "string list \<Rightarrow> bool" where
  "git_args_are_read_only args =
     (\<not> list_ex (\<lambda>arg. arg \<in> {''--output'', ''--ext-diff'', ''--textconv'', ''--exec'', ''--paginate''}
          \<or> prefix ''--output='' arg \<or> prefix ''--exec='' arg) args)"

definition git_branch_args_are_read_only :: "string list \<Rightarrow> bool" where
  "git_branch_args_are_read_only args =
     list_all (\<lambda>arg. arg \<in> {''--list'', ''-l'', ''--show-current'', ''-a'', ''--all'', ''-r'',
        ''--remotes'', ''-v'', ''-vv'', ''--verbose''} \<or> prefix ''--format='' arg) args"

definition is_safe_git :: "string list \<Rightarrow> bool" where
  "is_safe_git words =
     (if list_ex git_global_option_requires_prompt (drop 1 words) then False
      else case find_git_subcommand words [''status'', ''log'', ''diff'', ''show'', ''branch''] of
        None \<Rightarrow> False
      | Some (subcommand_index, subcommand) \<Rightarrow>
          (let args = drop (subcommand_index + 1) words
           in if subcommand \<in> {''status'', ''log'', ''diff'', ''show''} then git_args_are_read_only args
              else if subcommand = ''branch''
              then git_args_are_read_only args \<and> git_branch_args_are_read_only args
              else False))"

definition is_safe_words :: "string list \<Rightarrow> bool" where
  "is_safe_words words =
     (if words = [] then False
      else let command = executable_name (hd words)
        in if command \<in> {''cat'', ''pwd'', ''ls'', ''grep'', ''head'', ''tail'', ''wc''} then True
           else if command = ''rg'' then is_safe_ripgrep words
           else if command = ''sed'' then is_safe_sed words
           else if command = ''git'' then is_safe_git words
           else False)"

section \<open>Successful parses\<close>

text \<open>The steps of a parse that succeeds; what is shown of them is shown by rule induction.\<close>

inductive parses ::
  "string \<Rightarrow> char option \<Rightarrow> string list list \<Rightarrow> string list \<Rightarrow> string \<Rightarrow> string list list \<Rightarrow> bool" where
  parse_end: "finish_word current word = [] \<Longrightarrow> parses [] None commands current word commands"
| parse_last: "finish_word current word \<noteq> [] \<Longrightarrow>
    parses [] None commands current word (commands @ [finish_word current word])"
| parse_close: "parses rest None commands current word result \<Longrightarrow>
    parses (q # rest) (Some q) commands current word result"
| parse_quoted: "ch \<noteq> q \<Longrightarrow> \<not> unsupported_char ch \<Longrightarrow> \<not> glob_char ch \<Longrightarrow>
    parses rest (Some q) commands current (word @ [ch]) result \<Longrightarrow>
    parses (ch # rest) (Some q) commands current word result"
| parse_open: "ch = SQUOTE \<or> ch = DQUOTE \<Longrightarrow> parses rest (Some ch) commands current word result \<Longrightarrow>
    parses (ch # rest) None commands current word result"
| parse_escaped: "\<not> unsupported_char e \<Longrightarrow> parses rest None commands current (word @ [e]) result \<Longrightarrow>
    parses (BACKSLASH # e # rest) None commands current word result"
| parse_blank: "ch = CHR '' '' \<or> ch = TAB \<Longrightarrow>
    parses rest None commands (finish_word current word) [] result \<Longrightarrow>
    parses (ch # rest) None commands current word result"
| parse_separator: "ch = CHR '';'' \<or> ch = CHR ''|'' \<and> (rest = [] \<or> hd rest \<noteq> CHR ''|'') \<Longrightarrow>
    finish_command commands current word = Some commands' \<Longrightarrow>
    parses rest None commands' [] [] result \<Longrightarrow>
    parses (ch # rest) None commands current word result"
| parse_double: "ch = CHR ''|'' \<or> ch = CHR ''&'' \<Longrightarrow>
    finish_command commands current word = Some commands' \<Longrightarrow>
    parses rest None commands' [] [] result \<Longrightarrow>
    parses (ch # ch # rest) None commands current word result"
| parse_plain: "\<not> unsupported_char ch \<Longrightarrow> \<not> glob_char ch \<Longrightarrow>
    ch \<notin> {SQUOTE, DQUOTE, BACKSLASH, CHR '' '', TAB, CHR '';'', CHR ''|'', CHR ''&''} \<Longrightarrow>
    parses rest None commands current (word @ [ch]) result \<Longrightarrow>
    parses (ch # rest) None commands current word result"

lemma separators:
  "CHR '';'' \<noteq> SQUOTE \<and> CHR '';'' \<noteq> DQUOTE \<and> CHR '';'' \<noteq> BACKSLASH \<and> CHR '';'' \<noteq> CHR '' '' \<and> CHR '';'' \<noteq> TAB"
  "CHR ''|'' \<noteq> SQUOTE \<and> CHR ''|'' \<noteq> DQUOTE \<and> CHR ''|'' \<noteq> BACKSLASH \<and> CHR ''|'' \<noteq> CHR '' '' \<and> CHR ''|'' \<noteq> TAB"
  "CHR ''&'' \<noteq> SQUOTE \<and> CHR ''&'' \<noteq> DQUOTE \<and> CHR ''&'' \<noteq> BACKSLASH \<and> CHR ''&'' \<noteq> CHR '' '' \<and> CHR ''&'' \<noteq> TAB"
  by (simp_all add: SQUOTE_def DQUOTE_def BACKSLASH_def TAB_def)

lemma tl_hd: "rest \<noteq> [] \<Longrightarrow> hd rest = ch \<Longrightarrow> rest = ch # tl rest"
  by (cases rest) simp_all

lemma parse_from_parses:
  "parse_from s quote commands current word = Some result \<Longrightarrow>
   parses s quote commands current word result"
proof (induction s quote commands current word rule: parse_from.induct)
  case (1 quote commands current word)
  then show ?case by (auto simp: parse_from.simps(1) intro: parse_end parse_last split: if_splits)
next
  case (2 ch rest quote commands current word)
  note run = "2.prems" [unfolded parse_from.simps(2) [of ch rest quote commands current word]]
  show ?case
  proof (cases quote)
    case (Some q)
    with run "2.IH"(8,9) show ?thesis
      by (auto intro: parse_close parse_quoted split: if_splits)
  next
    case None
    note IH = "2.IH"(1-7) [OF _ None]
    from run have ok: "\<not> unsupported_char ch" by (simp split: if_splits)
    note run = run [unfolded None option.case if_not_P [OF ok]]
    consider (quote) "ch = SQUOTE \<or> ch = DQUOTE"
      | (backslash) "ch = BACKSLASH" "\<not> (ch = SQUOTE \<or> ch = DQUOTE)"
      | (blank) "ch = CHR '' '' \<or> ch = TAB" "\<not> (ch = SQUOTE \<or> ch = DQUOTE)" "ch \<noteq> BACKSLASH"
      | (semicolon) "ch = CHR '';''"
      | (pipe) "ch = CHR ''|''"
      | (ampersand) "ch = CHR ''&''"
      | (other) "ch \<notin> {SQUOTE, DQUOTE, BACKSLASH, CHR '' '', TAB, CHR '';'', CHR ''|'', CHR ''&''}"
      by blast
    then show ?thesis
    proof cases
      case quote
      with run have "parse_from rest (Some ch) commands current word = Some result" by simp
      with IH(1) [OF ok quote] quote None show ?thesis by (simp add: parse_open)
    next
      case backslash
      with run obtain e rest' where "rest = e # rest'" "\<not> unsupported_char e"
        "parse_from rest' None commands current (word @ [e]) = Some result"
        by (simp split: list.splits if_splits)
      with IH(2) [OF ok backslash(2,1)] backslash None show ?thesis by (simp add: parse_escaped)
    next
      case blank
      with run have "parse_from rest None commands (finish_word current word) [] = Some result" by simp
      with IH(3) [OF ok blank(2,3,1)] blank None show ?thesis by (simp add: parse_blank)
    next
      case semicolon
      with run obtain commands' where "finish_command commands current word = Some commands'"
        "parse_from rest None commands' [] [] = Some result"
        by (auto simp: separators split: bind_splits)
      with IH(4) [OF ok] semicolon None show ?thesis by (simp add: parse_separator separators)
    next
      case pipe
      with run obtain commands' where c: "finish_command commands current word = Some commands'"
        "parse_from (if rest \<noteq> [] \<and> hd rest = CHR ''|'' then tl rest else rest) None commands' [] []
           = Some result"
        by (auto simp: separators split: bind_splits)
      with IH(5) [OF ok] pipe have
        "parses (if rest \<noteq> [] \<and> hd rest = CHR ''|'' then tl rest else rest) None commands' [] [] result"
        by (simp add: separators)
      with c(1) pipe None tl_hd [of rest ch] show ?thesis
        by (cases "rest \<noteq> [] \<and> hd rest = CHR ''|''")
          (auto intro: parse_separator, metis parse_double)
    next
      case ampersand
      with run obtain commands' where c: "rest \<noteq> [] \<and> hd rest = CHR ''&''"
        "finish_command commands current word = Some commands'"
        "parse_from (tl rest) None commands' [] [] = Some result"
        by (auto simp: separators split: bind_splits if_splits)
      with IH(6) [OF ok] ampersand have "parses (tl rest) None commands' [] [] result"
        by (simp add: separators)
      with c(1,2) ampersand None tl_hd [of rest ch] show ?thesis by (metis parse_double)
    next
      case other
      with run have "\<not> glob_char ch" "parse_from rest None commands current (word @ [ch]) = Some result"
        by (simp_all split: if_splits)
      with IH(7) [OF ok] other None ok show ?thesis by (simp add: parse_plain)
    qed
  qed
qed

section \<open>The words of a script are not longer than the script\<close>

definition words_size :: "string list list \<Rightarrow> string list \<Rightarrow> string \<Rightarrow> nat" where
  "words_size commands current word =
     sum_list (map length (concat commands)) + sum_list (map length current) + length word"

lemma words_size_finish_word [simp]:
  "words_size commands (finish_word current word) [] = words_size commands current word"
  by (simp add: words_size_def finish_word_def)

lemma words_size_finish_command:
  "finish_command commands current word = Some commands' \<Longrightarrow>
   words_size commands' [] [] = words_size commands current word"
  by (auto simp: finish_command_def words_size_def finish_word_def split: if_splits)

lemma words_size_push [simp]:
  "words_size commands current (word @ [ch]) = Suc (words_size commands current word)"
  by (simp add: words_size_def)

lemma parses_size:
  "parses s quote commands current word result \<Longrightarrow>
   words_size result [] [] \<le> words_size commands current word + length s"
proof (induction rule: parses.induct)
  case (parse_end current word commands)
  then show ?case by (simp add: words_size_def finish_word_def split: if_splits)
next
  case (parse_last current word commands)
  then show ?case by (simp add: words_size_def finish_word_def split: if_splits)
qed (auto dest: words_size_finish_command)

lemma parse_plain_commands_size:
  assumes "parse_plain_commands script = Some commands" and "command \<in> set commands"
  shows "sum_list (map length command) \<le> length script"
proof -
  from assms(1) have "sum_list (map length (concat commands)) \<le> length script"
    using parses_size [OF parse_from_parses] by (force simp: parse_plain_commands_def words_size_def)
  moreover have "sum_list (map length command) \<le> sum_list (map length (concat commands))"
    using assms(2) by (induction commands) auto
  ultimately show ?thesis by simp
qed

section \<open>Classification\<close>

text \<open>The loop over the commands of a script, with \<open>saw_unknown\<close>.\<close>

fun combine_safety :: "command_safety list \<Rightarrow> bool \<Rightarrow> command_safety" where
  "combine_safety [] saw_unknown = (if saw_unknown then Unknown else Safe)"
| "combine_safety (Safe # classes) saw_unknown = combine_safety classes saw_unknown"
| "combine_safety (Dangerous # classes) saw_unknown = Dangerous"
| "combine_safety (Unknown # classes) saw_unknown = combine_safety classes True"

lemma combine_safety_Safe_iff:
  "combine_safety classes saw_unknown = Safe \<longleftrightarrow> \<not> saw_unknown \<and> (\<forall>c \<in> set classes. c = Safe)"
  by (induction classes saw_unknown rule: combine_safety.induct) auto

definition classify_plain_words :: "string list \<Rightarrow> command_safety" where
  "classify_plain_words words =
     (if is_dangerous_words words then Dangerous
      else if is_safe_words words then Safe else Unknown)"

text \<open>
  \<open>classify_script\<close> and \<open>classify_words\<close> call each other; the recursion ends because the script of a
  nested shell is shorter than the script it stands in.
\<close>

function classify_script :: "string \<Rightarrow> command_safety" where
  "classify_script script =
     (case parse_plain_commands script of
        None \<Rightarrow> Unknown
      | Some commands \<Rightarrow>
          if commands = [] then Unknown
          else combine_safety (map (\<lambda>words.
              if words = [] \<or> has_env_assignment_prefix words then Unknown
              else if is_shell_wrapper words then classify_script (words ! 2)
              else classify_plain_words words) commands) False)"
  by pat_completeness auto

lemma executable_name_Nil: "executable_name [] = []"
  by (simp add: executable_name_def components_def file_name_def)

lemma wrapped_script_shorter:
  assumes "parse_plain_commands script = Some commands" and "words \<in> set commands"
    and "is_shell_wrapper words"
  shows "length (words ! 2) < length script"
proof -
  from assms(3) have three: "length words = 3" and "executable_name (words ! 0) \<noteq> []"
    by (auto simp: is_shell_wrapper_def)
  then have "words ! 0 \<noteq> []" using executable_name_Nil by metis
  with three obtain a b c where "words = [a, b, c]" and "a \<noteq> []"
    by (auto simp: length_Suc_conv numeral_3_eq_3)
  then have "length (words ! 2) < sum_list (map length words)" by simp
  with parse_plain_commands_size [OF assms(1,2)] show ?thesis by simp
qed

termination classify_script
  by (relation "measure length") (auto intro: wrapped_script_shorter)

declare classify_script.simps [simp del]

definition classify_words :: "string list \<Rightarrow> command_safety" where
  "classify_words words =
     (if words = [] \<or> has_env_assignment_prefix words then Unknown
      else if is_shell_wrapper words then classify_script (words ! 2)
      else classify_plain_words words)"

definition classify_host_command :: "string \<Rightarrow> string option \<Rightarrow> command_safety" where
  "classify_host_command command shell =
     (if (case shell of Some shell \<Rightarrow> is_unsupported_shell shell | None \<Rightarrow> False) then Unknown
      else classify_script command)"

lemma classify_script_Safe_iff:
  "classify_script script = Safe \<longleftrightarrow>
   (\<exists>commands. parse_plain_commands script = Some commands \<and> commands \<noteq> []
      \<and> (\<forall>words \<in> set commands. classify_words words = Safe))"
  by (subst classify_script.simps)
    (auto simp: combine_safety_Safe_iff classify_words_def split: option.split)

section \<open>The commands a shell runs\<close>

text \<open>
  The grammar of the shell that the scripts are written in, for scripts of plain commands: quotes,
  escapes, comments and the separators of a list. Expansions, redirections, groups and background
  commands are outside of it. A word that is quoted may be empty.
\<close>

datatype shell_token = Word string | Separator

definition opt_word :: "string option \<Rightarrow> shell_token list" where
  "opt_word word = (case word of None \<Rightarrow> [] | Some w \<Rightarrow> [Word w])"

definition extend_word :: "string option \<Rightarrow> string \<Rightarrow> string option" where
  "extend_word word s = Some (case word of None \<Rightarrow> s | Some w \<Rightarrow> w @ s)"

definition shell_meta :: "char \<Rightarrow> bool" where
  "shell_meta ch = (unsupported_char ch \<or> glob_char ch
     \<or> ch \<in> {CHR ''('', CHR '')'', CHR ''{'', CHR ''}'', CHR ''~'', CHR ''!''})"

function shell_lex :: "string \<Rightarrow> char option \<Rightarrow> string option \<Rightarrow> shell_token list option" where
  "shell_lex [] quote word = (if quote = None then Some (opt_word word) else None)"
| "shell_lex (ch # rest) quote word =
     (case quote of
        Some q \<Rightarrow>
          if ch = q then shell_lex rest None (extend_word word [])
          else if q = DQUOTE \<and> (ch = CHR ''$'' \<or> ch = CHR 0x60) then None
          else if q = DQUOTE \<and> ch = BACKSLASH \<and> rest \<noteq> []
                  \<and> hd rest \<in> {CHR ''$'', CHR 0x60, DQUOTE, BACKSLASH, CHR 0x0A}
          then shell_lex (tl rest) quote
                 (extend_word word (if hd rest = CHR 0x0A then [] else [hd rest]))
          else shell_lex rest quote (extend_word word [ch])
      | None \<Rightarrow>
          if ch = SQUOTE \<or> ch = DQUOTE then shell_lex rest (Some ch) (extend_word word [])
          else if ch = BACKSLASH
          then (case rest of [] \<Rightarrow> None
                | e # rest' \<Rightarrow> shell_lex rest' None (extend_word word (if e = CHR 0x0A then [] else [e])))
          else if ch = CHR ''#'' \<and> word = None
          then (if CHR 0x0A \<in> set rest then None else Some [])
          else if ch = CHR '' '' \<or> ch = TAB
          then map_option ((@) (opt_word word)) (shell_lex rest None None)
          else if ch = CHR '';''
          then map_option (\<lambda>ts. opt_word word @ Separator # ts) (shell_lex rest None None)
          else if ch = CHR ''|''
          then map_option (\<lambda>ts. opt_word word @ Separator # ts)
                 (shell_lex (if rest \<noteq> [] \<and> hd rest = CHR ''|'' then tl rest else rest) None None)
          else if ch = CHR ''&''
          then (if rest \<noteq> [] \<and> hd rest = CHR ''&''
                then map_option (\<lambda>ts. opt_word word @ Separator # ts) (shell_lex (tl rest) None None)
                else None)
          else if shell_meta ch then None
          else shell_lex rest None (extend_word word [ch]))"
  by pat_completeness auto
termination
  by (relation "measure (\<lambda>(s, _). length s)") auto

declare shell_lex.simps [simp del]

fun shell_group :: "shell_token list \<Rightarrow> string list \<Rightarrow> string list list option" where
  "shell_group [] current = Some (if current = [] then [] else [current])"
| "shell_group (Word word # tokens) current = shell_group tokens (current @ [word])"
| "shell_group (Separator # tokens) current =
     (if current = [] then None else map_option ((#) current) (shell_group tokens []))"

definition shell_commands :: "string \<Rightarrow> string list list option" where
  "shell_commands script =
     Option.bind (shell_lex script None None) (\<lambda>tokens. shell_group tokens [])"

definition non_empty_words :: "string list \<Rightarrow> string list" where
  "non_empty_words words = filter (\<lambda>word. word \<noteq> []) words"

text \<open>
  A read-only command: one on the list of safe commands, or a shell that runs a script all of whose
  commands are read-only. Empty words do not count.
\<close>

inductive read_only :: "string list \<Rightarrow> bool" where
  no_command: "non_empty_words words = [] \<Longrightarrow> read_only words"
| safe_command: "is_safe_words (non_empty_words words) \<Longrightarrow> read_only words"
| nested_shell: "is_shell_wrapper (non_empty_words words) \<Longrightarrow>
    (\<And>commands command. shell_commands (non_empty_words words ! 2) = Some commands \<Longrightarrow>
       command \<in> set commands \<Longrightarrow> read_only command) \<Longrightarrow> read_only words"

section \<open>Safe scripts run read-only commands\<close>

definition word_of :: "string option \<Rightarrow> string" where
  "word_of word = (case word of None \<Rightarrow> [] | Some w \<Rightarrow> w)"

lemma word_of_simps [simp]:
  "word_of None = []" "word_of (extend_word word s) = word_of word @ s"
  by (simp_all add: word_of_def extend_word_def split: option.split)

definition words_of :: "string option \<Rightarrow> string list" where
  "words_of word = (case word of None \<Rightarrow> [] | Some w \<Rightarrow> [w])"

lemma shell_group_opt_word [simp]:
  "shell_group (opt_word word @ tokens) current = shell_group tokens (current @ words_of word)"
  "shell_group (opt_word word) current = shell_group [] (current @ words_of word)"
  by (simp_all add: opt_word_def words_of_def split: option.split)

lemma non_empty_words_of [simp]:
  "non_empty_words (current @ words_of word) = finish_word (non_empty_words current) (word_of word)"
  by (simp add: non_empty_words_def words_of_def word_of_def finish_word_def split: option.split)

lemma finish_command_set:
  "finish_command commands current word = Some commands' \<Longrightarrow>
   commands' = commands @ [finish_word current word]"
  by (simp add: finish_command_def split: if_splits)

lemma parses_prefix: "parses s quote commands current word result \<Longrightarrow> set commands \<subseteq> set result"
  by (induction rule: parses.induct) (auto simp: finish_command_def split: if_splits)

lemma parses_shell:
  assumes "parses s quote commands current word result"
    and "BACKSLASH \<notin> set s" and "CHR ''#'' \<notin> set s"
    and "shell_lex s quote w = Some tokens" and "shell_group tokens current' = Some commands'"
    and "current = non_empty_words current'" and "word = word_of w"
  shows "\<forall>c \<in> set commands'. non_empty_words c = [] \<or> non_empty_words c \<in> set result"
  using assms
proof (induction arbitrary: w tokens current' commands' rule: parses.induct)
  case (parse_end current word commands)
  then show ?case by (auto simp: shell_lex.simps split: if_splits)
next
  case (parse_last current word commands)
  then show ?case by (auto simp: shell_lex.simps split: if_splits)
next
  case (parse_close rest commands current word result q)
  then show ?case by (simp add: shell_lex.simps(2) [of q rest])
next
  case (parse_quoted ch q rest commands current word result)
  from parse_quoted.prems parse_quoted.hyps have "shell_lex rest (Some q) (extend_word w [ch]) = Some tokens"
    by (auto simp: shell_lex.simps(2) [of ch rest] unsupported_char_def split: if_splits)
  with parse_quoted.IH [OF _ _ this] parse_quoted.prems show ?case by simp
next
  case (parse_open ch rest commands current word result)
  from parse_open.prems parse_open.hyps have "shell_lex rest (Some ch) (extend_word w []) = Some tokens"
    by (auto simp: shell_lex.simps(2) [of ch rest])
  with parse_open.IH [OF _ _ this] parse_open.prems show ?case by simp
next
  case (parse_escaped e rest commands current word result)
  then show ?case by simp
next
  case (parse_blank ch rest commands current word result)
  from parse_blank.prems parse_blank.hyps obtain ts where
    ts: "shell_lex rest None None = Some ts" "tokens = opt_word w @ ts"
    by (auto simp: shell_lex.simps(2) [of ch rest] SQUOTE_def DQUOTE_def BACKSLASH_def TAB_def
        split: if_splits)
  with parse_blank.prems have "shell_group ts (current' @ words_of w) = Some commands'" by simp
  with parse_blank.IH [OF _ _ ts(1) this] parse_blank.prems show ?case by simp
next
  case (parse_separator ch rest commands current word commands2 result)
  from parse_separator.prems parse_separator.hyps obtain ts where
    ts: "shell_lex rest None None = Some ts" "tokens = opt_word w @ Separator # ts"
    using separators by (auto simp: shell_lex.simps(2) [of ch rest] split: if_splits)
  with parse_separator.prems obtain more' where more': "shell_group ts [] = Some more'"
    "commands' = (current' @ words_of w) # more'"
    by (auto split: if_splits)
  have "finish_word current word \<in> set result"
    using finish_command_set [OF parse_separator.hyps(2)] parses_prefix [OF parse_separator.hyps(3)] by auto
  with parse_separator.IH [OF _ _ ts(1) more'(1)] more'(2) parse_separator.prems show ?case
    by (auto simp: non_empty_words_def [of "[]"])
next
  case (parse_double ch commands current word commands2 rest result)
  from parse_double.prems parse_double.hyps obtain ts where
    ts: "shell_lex rest None None = Some ts" "tokens = opt_word w @ Separator # ts"
    using separators by (auto simp: shell_lex.simps(2) [of ch "ch # rest"] split: if_splits)
  with parse_double.prems obtain more' where more': "shell_group ts [] = Some more'"
    "commands' = (current' @ words_of w) # more'"
    by (auto split: if_splits)
  have "finish_word current word \<in> set result"
    using finish_command_set [OF parse_double.hyps(2)] parses_prefix [OF parse_double.hyps(3)] by auto
  with parse_double.IH [OF _ _ ts(1) more'(1)] more'(2) parse_double.prems show ?case
    by (auto simp: non_empty_words_def [of "[]"])
next
  case (parse_plain ch rest commands current word result)
  from parse_plain.prems parse_plain.hyps have "shell_lex rest None (extend_word w [ch]) = Some tokens"
    by (auto simp: shell_lex.simps(2) [of ch rest] split: if_splits)
  with parse_plain.IH [OF _ _ this] parse_plain.prems show ?case by simp
qed

lemma parse_plain_commands_shell:
  assumes "parse_plain_commands script = Some result" and "shell_commands script = Some commands"
    and "BACKSLASH \<notin> set script" and "CHR ''#'' \<notin> set script" and "c \<in> set commands"
  shows "non_empty_words c = [] \<or> non_empty_words c \<in> set result"
proof -
  from assms(2) obtain tokens where "shell_lex script None None = Some tokens"
    and "shell_group tokens [] = Some commands"
    by (auto simp: shell_commands_def split: bind_splits)
  moreover from assms(1) have "parses script None [] [] [] result"
    unfolding parse_plain_commands_def by (rule parse_from_parses)
  moreover have "[] = non_empty_words []" by (simp add: non_empty_words_def)
  ultimately have "\<forall>c \<in> set commands. non_empty_words c = [] \<or> non_empty_words c \<in> set result"
    using parses_shell assms(3,4) by (metis word_of_simps(1))
  with assms(5) show ?thesis by blast
qed

text \<open>The characters of the words of a successful parse are those of the script.\<close>

lemma parses_chars:
  "parses s quote commands current word result \<Longrightarrow>
   \<Union> (set ` set (concat result)) \<subseteq> \<Union> (set ` set (concat commands)) \<union> \<Union> (set ` set current) \<union> set word \<union> set s"
  by (induction rule: parses.induct)
    (auto simp: finish_command_def finish_word_def split: if_splits; blast)+

lemma parse_plain_commands_chars:
  assumes "parse_plain_commands script = Some result" and "words \<in> set result" and "word \<in> set words"
  shows "set word \<subseteq> set script"
proof -
  have "\<Union> (set ` set (concat result)) \<subseteq> set script"
    using parses_chars [OF parse_from_parses] assms(1) by (force simp: parse_plain_commands_def)
  with assms(2,3) show ?thesis by auto
qed

lemma safe_script_read_only:
  "classify_script script = Safe \<Longrightarrow> BACKSLASH \<notin> set script \<Longrightarrow> CHR ''#'' \<notin> set script \<Longrightarrow>
   shell_commands script = Some commands \<Longrightarrow> c \<in> set commands \<Longrightarrow> read_only c"
proof (induction "length script" arbitrary: script commands c rule: less_induct)
  case less
  from less.prems(1) obtain result where result: "parse_plain_commands script = Some result"
    and safe: "\<forall>words \<in> set result. classify_words words = Safe"
    by (auto simp: classify_script_Safe_iff)
  let ?words = "non_empty_words c"
  from parse_plain_commands_shell [OF result less.prems(4,2,3,5)] consider
    "?words = []" | "?words \<in> set result" "is_shell_wrapper ?words" "?words \<noteq> []"
    | "?words \<in> set result" "\<not> is_shell_wrapper ?words" "?words \<noteq> []" by blast
  then show ?case
  proof cases
    case 1
    then show ?thesis by (rule no_command)
  next
    case 2
    have "?words ! 2 \<in> set ?words" using 2(2) by (intro nth_mem) (simp add: is_shell_wrapper_def)
    from parse_plain_commands_chars [OF result 2(1) this] less.prems(2,3)
    have "BACKSLASH \<notin> set (?words ! 2)" "CHR ''#'' \<notin> set (?words ! 2)" by auto
    moreover have "classify_script (?words ! 2) = Safe"
      using safe 2 by (auto simp: classify_words_def split: if_splits)
    ultimately have "read_only command"
      if "shell_commands (?words ! 2) = Some commands'" "command \<in> set commands'" for commands' command
      using that by (intro less.hyps [OF wrapped_script_shorter [OF result 2(1,2)]])
    with 2(2) show ?thesis by (rule nested_shell)
  next
    case 3
    with safe have "is_safe_words ?words"
      by (auto simp: classify_words_def classify_plain_words_def split: if_splits)
    then show ?thesis by (rule safe_command)
  qed
qed



section \<open>What the classification does not see\<close>

text \<open>
  Backslashes and comments cannot be left out: in double quotes the shell takes an escaped quote for
  a character, the parser for the end of the string.
\<close>

lemma escaped_quote_hides_command:
  "let script = ''ls '' @ [DQUOTE, BACKSLASH, DQUOTE, DQUOTE] @ '' ; rm -rf x #'' @ [DQUOTE]
   in classify_host_command script None = Safe
      \<and> shell_commands script = Some [[''ls'', [DQUOTE]], [''rm'', ''-rf'', ''x'']]"
  by code_simp

text \<open>The directory of an executable and a script given to \<open>sed\<close> as its last argument do not matter.\<close>

lemma any_directory_safe: "classify_host_command ''/tmp/evil/ls'' None = Safe"
  by code_simp

lemma sed_script_safe:
  "classify_host_command (''sed -n 1p '' @ [SQUOTE] @ ''-e1e reboot'' @ [SQUOTE]) None = Safe"
  by code_simp

end
