(* ===== verification/Patch_Document.thy ===== *)
theory Patch_Document
  imports Core_Types
begin

text \<open>
  The patch language of the tool \<open>apply_patch\<close> (\<open>crates/noloong-agent/src/tools/file_edit.rs\<close>): its
  documents, the parser, and the round trip through the text of a document. The parser's index into
  the lines is the list of the lines that are left before the end marker.
\<close>

section \<open>Lines and searches\<close>

definition LINE_FEED :: char where
  "LINE_FEED = CHR 0x0A"

definition newline :: string where
  "newline = [LINE_FEED]"

text \<open>\<open>str::lines\<close>: a line ends with a line feed, and a carriage return before it is dropped.\<close>

definition strip_cr :: "string \<Rightarrow> string" where
  "strip_cr line = (case strip_suffix [CHR 0x0D] line of Some l \<Rightarrow> l | None \<Rightarrow> line)"

definition str_lines :: "string \<Rightarrow> string list" where
  "str_lines s =
     (let parts = split_on LINE_FEED s
      in map strip_cr (butlast parts) @ (if last parts = [] then [] else [last parts]))"

text \<open>\<open>str::split_once\<close>: at the first match.\<close>

fun split_once :: "string \<Rightarrow> string \<Rightarrow> (string \<times> string) option" where
  "split_once pat [] = (if pat = [] then Some ([], []) else None)"
| "split_once pat (c # s) =
     (case strip_prefix pat (c # s) of
        Some rest \<Rightarrow> Some ([], rest)
      | None \<Rightarrow> map_option (\<lambda>(a, b). (c # a, b)) (split_once pat s))"

section \<open>Errors\<close>

record file_edit_error =
  fee_code :: string
  fee_message :: string
  fee_details :: json

definition edit_error :: "string \<Rightarrow> string \<Rightarrow> (string \<times> json) list \<Rightarrow> file_edit_error" where
  "edit_error code message details =
     \<lparr>fee_code = code, fee_message = message, fee_details = json_object details\<rparr>"

text \<open>An operation fails with an error, or it panics.\<close>

datatype edit_failure = EditError file_edit_error | EditPanic string

type_synonym 'a edit_result = "edit_failure + 'a"

definition edit_fail :: "string \<Rightarrow> string \<Rightarrow> (string \<times> json) list \<Rightarrow> 'a edit_result" where
  "edit_fail code message details = Inl (EditError (edit_error code message details))"

definition malformed :: "string \<Rightarrow> (string \<times> json) list \<Rightarrow> 'a edit_result" where
  "malformed message details = edit_fail ''malformed_patch'' message details"

definition edit_then :: "'a edit_result \<Rightarrow> ('a \<Rightarrow> 'b edit_result) \<Rightarrow> 'b edit_result" where
  "edit_then r f = (case r of Inl e \<Rightarrow> Inl e | Inr x \<Rightarrow> f x)"

lemma edit_then_simps [simp]: "edit_then (Inl e) f = Inl e" "edit_then (Inr x) f = f x"
  by (simp_all add: edit_then_def)

lemma edit_then_Inr_iff: "edit_then r f = Inr y \<longleftrightarrow> (\<exists>x. r = Inr x \<and> f x = Inr y)"
  by (cases r) auto

section \<open>Documents\<close>

record patch_hunk =
  ph_old :: string
  ph_new :: string

datatype patch_operation =
    PatchAdd string string
  | PatchUpdate string "patch_hunk list" "string option"
  | PatchDelete string
  | PatchMove string string

type_synonym patch_document = "patch_operation list"

fun operation_paths :: "patch_operation \<Rightarrow> string list" where
  "operation_paths (PatchAdd path content) = [path]"
| "operation_paths (PatchUpdate path hunks move_to) =
     path # (case move_to of None \<Rightarrow> [] | Some to \<Rightarrow> [to])"
| "operation_paths (PatchDelete path) = [path]"
| "operation_paths (PatchMove from_path to_path) = [from_path, to_path]"

text \<open>\<open>target_paths\<close>: sorted and without duplicates.\<close>

definition target_paths :: "patch_document \<Rightarrow> string list" where
  "target_paths document = remdups_adj (sort (concat (map operation_paths document)))"

fun operation_summary :: "patch_operation \<Rightarrow> json" where
  "operation_summary (PatchAdd path content) =
     json_object [(''op'', JString ''add''), (''path'', JString path)]"
| "operation_summary (PatchUpdate path hunks move_to) =
     json_object [(''op'', JString ''update''), (''path'', JString path),
       (''moveTo'', json_of_option JString move_to)]"
| "operation_summary (PatchDelete path) =
     json_object [(''op'', JString ''delete''), (''path'', JString path)]"
| "operation_summary (PatchMove from_path to_path) =
     json_object [(''op'', JString ''move''), (''from'', JString from_path), (''to'', JString to_path)]"

section \<open>The parser\<close>

definition ADD_FILE :: string where "ADD_FILE = ''*** Add File: ''"
definition UPDATE_FILE :: string where "UPDATE_FILE = ''*** Update File: ''"
definition DELETE_FILE :: string where "DELETE_FILE = ''*** Delete File: ''"
definition MOVE_FILE :: string where "MOVE_FILE = ''*** Move File: ''"
definition MOVE_TO :: string where "MOVE_TO = ''*** Move to: ''"
definition NO_NEWLINE :: string where "NO_NEWLINE = CHR 0x5C # '' No newline at end of file''"

definition is_operation_line :: "string \<Rightarrow> bool" where
  "is_operation_line line =
     (prefix ADD_FILE line \<or> prefix UPDATE_FILE line \<or> prefix DELETE_FILE line
      \<or> prefix MOVE_FILE line)"

definition push_patch_line :: "string \<Rightarrow> string \<Rightarrow> string" where
  "push_patch_line target line = target @ line @ newline"

definition trim_final_newline :: "string \<Rightarrow> string" where
  "trim_final_newline target = (case strip_suffix newline target of Some t \<Rightarrow> t | None \<Rightarrow> target)"

definition flush_hunk :: "patch_hunk list \<Rightarrow> string \<Rightarrow> string \<Rightarrow> patch_hunk list" where
  "flush_hunk hunks old new =
     (if old = [] \<and> new = [] then hunks else hunks @ [\<lparr>ph_old = old, ph_new = new\<rparr>])"

fun parse_add_file :: "string list \<Rightarrow> string \<Rightarrow> (string \<times> string list) edit_result" where
  "parse_add_file [] content = Inr (content, [])"
| "parse_add_file (line # lines) content =
     (if is_operation_line line then Inr (content, line # lines)
      else case strip_prefix ''+'' line of
        Some text \<Rightarrow> parse_add_file lines (push_patch_line content text)
      | None \<Rightarrow>
          if line = NO_NEWLINE then parse_add_file lines (trim_final_newline content)
          else malformed ''add file content lines must start with +'' [(''line'', JString line)])"

fun parse_hunks ::
  "string list \<Rightarrow> patch_hunk list \<Rightarrow> string \<Rightarrow> string \<Rightarrow> (patch_hunk list \<times> string list) edit_result" where
  "parse_hunks [] hunks old new = Inr (flush_hunk hunks old new, [])"
| "parse_hunks (line # lines) hunks old new =
     (if is_operation_line line then Inr (flush_hunk hunks old new, line # lines)
      else if prefix ''@@'' line then parse_hunks lines (flush_hunk hunks old new) [] []
      else case strip_prefix '' '' line of
        Some text \<Rightarrow> parse_hunks lines hunks (push_patch_line old text) (push_patch_line new text)
      | None \<Rightarrow>
      (case strip_prefix ''-'' line of
        Some text \<Rightarrow> parse_hunks lines hunks (push_patch_line old text) new
      | None \<Rightarrow>
      (case strip_prefix ''+'' line of
        Some text \<Rightarrow> parse_hunks lines hunks old (push_patch_line new text)
      | None \<Rightarrow>
          if line = NO_NEWLINE
          then parse_hunks lines hunks (trim_final_newline old) (trim_final_newline new)
          else if is_blank line
          then parse_hunks lines hunks (push_patch_line old []) (push_patch_line new [])
          else malformed ''update hunk lines must start with space, -, +, or @@''
                 [(''line'', JString line)])))"

definition parse_update_file ::
  "string list \<Rightarrow> (patch_hunk list \<times> string option \<times> string list) edit_result" where
  "parse_update_file lines =
     (let (move_to, lines) = (case lines of
            [] \<Rightarrow> (None, lines)
          | line # rest \<Rightarrow>
              (case strip_prefix MOVE_TO line of
                 Some path \<Rightarrow> (Some path, rest)
               | None \<Rightarrow> (None, lines)))
      in edit_then (parse_hunks lines [] [] []) (\<lambda>(hunks, rest).
         if hunks = [] \<and> move_to = None
         then malformed ''update operation must contain a hunk or move destination'' []
         else Inr (hunks, move_to, rest)))"

text \<open>What is left is shorter.\<close>

lemma parse_add_file_length:
  "parse_add_file lines content = Inr (content', rest) \<Longrightarrow> length rest \<le> length lines"
  by (induction lines content rule: parse_add_file.induct)
    (fastforce simp: malformed_def edit_fail_def split: if_splits option.splits)+

lemma parse_hunks_length:
  "parse_hunks lines hunks old new = Inr (hunks', rest) \<Longrightarrow> length rest \<le> length lines"
  by (induction lines hunks old new rule: parse_hunks.induct)
    (fastforce simp: malformed_def edit_fail_def split: if_splits option.splits)+

lemma parse_update_file_length:
  "parse_update_file lines = Inr (hunks, move_to, rest) \<Longrightarrow> length rest \<le> length lines"
  by (auto simp: parse_update_file_def malformed_def edit_fail_def edit_then_Inr_iff
      split: list.splits option.splits if_splits dest!: parse_hunks_length)

function parse_operations ::
  "string list \<Rightarrow> patch_operation list \<Rightarrow> patch_document edit_result" where
  "parse_operations [] operations = Inr operations"
| "parse_operations (line # lines) operations =
     (if is_blank line then parse_operations lines operations
      else case strip_prefix ADD_FILE line of
        Some path \<Rightarrow>
          (case parse_add_file lines [] of
             Inl e \<Rightarrow> Inl e
           | Inr (content, rest) \<Rightarrow> parse_operations rest (operations @ [PatchAdd path content]))
      | None \<Rightarrow>
      (case strip_prefix UPDATE_FILE line of
        Some path \<Rightarrow>
          (case parse_update_file lines of
             Inl e \<Rightarrow> Inl e
           | Inr (hunks, move_to, rest) \<Rightarrow>
               parse_operations rest (operations @ [PatchUpdate path hunks move_to]))
      | None \<Rightarrow>
      (case strip_prefix DELETE_FILE line of
        Some path \<Rightarrow> parse_operations lines (operations @ [PatchDelete path])
      | None \<Rightarrow>
      (case strip_prefix MOVE_FILE line of
        Some rest \<Rightarrow>
          (case split_once '' -> '' rest of
             Some (from_path, to_path) \<Rightarrow>
               parse_operations lines (operations @ [PatchMove from_path to_path])
           | None \<Rightarrow> malformed ''move operation must use *** Move File: source -> destination''
                       [(''line'', JString line)])
      | None \<Rightarrow> malformed ''unexpected patch line'' [(''line'', JString line)]))))"
  by pat_completeness auto
termination
  by (relation "measure (\<lambda>(lines, _). length lines)")
    (auto dest!: parse_add_file_length parse_update_file_length simp: le_imp_less_Suc)

declare parse_operations.simps [simp del]

definition parse_patch :: "string \<Rightarrow> patch_document edit_result" where
  "parse_patch patch =
     (let lines = str_lines patch
      in if lines = [] \<or> hd lines \<noteq> ''*** Begin Patch''
         then malformed ''patch must start with *** Begin Patch'' []
         else if last lines \<noteq> ''*** End Patch''
         then malformed ''patch must end with *** End Patch'' []
         else edit_then (parse_operations (butlast (tl lines)) []) (\<lambda>operations.
           if operations = [] then malformed ''patch must contain at least one operation'' []
           else Inr operations))"

definition apply_patch_target_paths :: "string \<Rightarrow> string list option" where
  "apply_patch_target_paths patch =
     (case parse_patch patch of Inl e \<Rightarrow> None | Inr document \<Rightarrow> Some (target_paths document))"

section \<open>The text of a document\<close>

definition lines_text :: "string list \<Rightarrow> string" where
  "lines_text ls = concat (map (\<lambda>l. l @ newline) ls)"

definition text_lines :: "string \<Rightarrow> string list" where
  "text_lines text = butlast (split_on LINE_FEED text)"

definition line_ok :: "string \<Rightarrow> bool" where
  "line_ok l = (LINE_FEED \<notin> set l \<and> (l = [] \<or> last l \<noteq> CHR 0x0D))"

text \<open>A text of complete lines.\<close>

definition text_ok :: "string \<Rightarrow> bool" where
  "text_ok text = ((text = [] \<or> last text = LINE_FEED) \<and> list_all line_ok (text_lines text))"

definition render_hunk :: "patch_hunk \<Rightarrow> string list" where
  "render_hunk h =
     ''@@'' # map ((#) (CHR ''-'')) (text_lines (ph_old h)) @ map ((#) (CHR ''+'')) (text_lines (ph_new h))"

fun render_operation :: "patch_operation \<Rightarrow> string list" where
  "render_operation (PatchAdd path content) =
     (ADD_FILE @ path) # map ((#) (CHR ''+'')) (text_lines content)"
| "render_operation (PatchUpdate path hunks move_to) =
     (UPDATE_FILE @ path) # (case move_to of None \<Rightarrow> [] | Some to \<Rightarrow> [MOVE_TO @ to])
       @ concat (map render_hunk hunks)"
| "render_operation (PatchDelete path) = [DELETE_FILE @ path]"
| "render_operation (PatchMove from_path to_path) = [MOVE_FILE @ from_path @ '' -> '' @ to_path]"

definition render_patch :: "patch_document \<Rightarrow> string" where
  "render_patch document =
     lines_text (''*** Begin Patch'' # concat (map render_operation document) @ [''*** End Patch''])"

definition hunk_ok :: "patch_hunk \<Rightarrow> bool" where
  "hunk_ok h = (text_ok (ph_old h) \<and> text_ok (ph_new h) \<and> \<not> (ph_old h = [] \<and> ph_new h = []))"

fun operation_ok :: "patch_operation \<Rightarrow> bool" where
  "operation_ok (PatchAdd path content) = (line_ok path \<and> text_ok content)"
| "operation_ok (PatchUpdate path hunks move_to) =
     (line_ok path \<and> list_all hunk_ok hunks
      \<and> (case move_to of None \<Rightarrow> hunks \<noteq> [] | Some to \<Rightarrow> line_ok to))"
| "operation_ok (PatchDelete path) = line_ok path"
| "operation_ok (PatchMove from_path to_path) =
     (line_ok from_path \<and> line_ok to_path
      \<and> split_once '' -> '' (from_path @ '' -> '' @ to_path) = Some (from_path, to_path))"

section \<open>The round trip\<close>

lemma split_on_line:
  "d \<notin> set l \<Longrightarrow> split_on d (l @ d # s) = l # split_on d s"
  by (induction l) auto

lemma str_lines_lines_text:
  assumes "list_all line_ok ls"
  shows "str_lines (lines_text ls) = ls"
proof -
  have "split_on LINE_FEED (lines_text ls) = ls @ [[]]"
    using assms by (induction ls) (auto simp: lines_text_def newline_def line_ok_def split_on_line)
  moreover have "map strip_cr ls = ls"
    using assms by (induction ls)
      (auto simp: line_ok_def strip_cr_def strip_suffix_def suffix_def split: option.split)
  ultimately show ?thesis by (simp add: str_lines_def)
qed

lemma text_lines_text:
  assumes "s = [] \<or> last s = LINE_FEED"
  shows "lines_text (text_lines s) = s"
  using assms
proof (induction s)
  case (Cons c s)
  show ?case
  proof (cases "c = LINE_FEED")
    case True
    with Cons show ?thesis
      by (cases "s = []") (auto simp: text_lines_def lines_text_def newline_def)
  next
    case False
    with Cons.prems have ne: "s \<noteq> []" "last s = LINE_FEED" by (auto split: if_splits)
    obtain p ps where ps: "split_on LINE_FEED s = p # ps" by (metis neq_Nil_conv split_on_not_Nil)
    have "ps \<noteq> []"
    proof
      assume "ps = []"
      with ps Cons.IH ne show False by (simp add: text_lines_def lines_text_def)
    qed
    with Cons.IH ne ps False show ?thesis by (auto simp: text_lines_def lines_text_def)
  qed
qed (simp add: text_lines_def lines_text_def)

text \<open>The first character tells the kinds of line apart.\<close>

lemma line_kinds:
  "\<not> is_operation_line (CHR ''+'' # l)" "\<not> is_operation_line (CHR ''-'' # l)"
  "\<not> is_operation_line ''@@''"
  "strip_prefix ''+'' (CHR ''+'' # l) = Some l" "strip_prefix ''-'' (CHR ''-'' # l) = Some l"
  "strip_prefix '' '' (CHR ''+'' # l) = None" "strip_prefix '' '' (CHR ''-'' # l) = None"
  "strip_prefix ''-'' (CHR ''+'' # l) = None"
  "\<not> prefix ''@@'' (CHR ''+'' # l)" "\<not> prefix ''@@'' (CHR ''-'' # l)"
  by (simp_all add: is_operation_line_def ADD_FILE_def UPDATE_FILE_def DELETE_FILE_def MOVE_FILE_def
      strip_prefix_def)

lemma header_kinds:
  "is_operation_line (ADD_FILE @ path)" "is_operation_line (UPDATE_FILE @ path)"
  "is_operation_line (DELETE_FILE @ path)" "is_operation_line (MOVE_FILE @ path)"
  "strip_prefix ADD_FILE (ADD_FILE @ path) = Some path"
  "strip_prefix ADD_FILE (UPDATE_FILE @ path) = None"
  "strip_prefix ADD_FILE (DELETE_FILE @ path) = None"
  "strip_prefix ADD_FILE (MOVE_FILE @ path) = None"
  "strip_prefix UPDATE_FILE (UPDATE_FILE @ path) = Some path"
  "strip_prefix UPDATE_FILE (DELETE_FILE @ path) = None"
  "strip_prefix UPDATE_FILE (MOVE_FILE @ path) = None"
  "strip_prefix DELETE_FILE (DELETE_FILE @ path) = Some path"
  "strip_prefix DELETE_FILE (MOVE_FILE @ path) = None"
  "strip_prefix MOVE_FILE (MOVE_FILE @ path) = Some path"
  "strip_prefix MOVE_TO (MOVE_TO @ path) = Some path"
  "strip_prefix MOVE_TO (CHR ''@'' # path) = None"
  by (simp_all add: is_operation_line_def ADD_FILE_def UPDATE_FILE_def DELETE_FILE_def MOVE_FILE_def
      MOVE_TO_def strip_prefix_def)

lemma header_not_blank:
  "\<not> is_blank (ADD_FILE @ path)" "\<not> is_blank (UPDATE_FILE @ path)"
  "\<not> is_blank (DELETE_FILE @ path)" "\<not> is_blank (MOVE_FILE @ path)"
  by (simp_all add: ADD_FILE_def UPDATE_FILE_def DELETE_FILE_def MOVE_FILE_def not_blank_Cons)

definition at_operation :: "string list \<Rightarrow> bool" where
  "at_operation lines = (lines = [] \<or> is_operation_line (hd lines))"

lemma parse_add_lines:
  "at_operation rest \<Longrightarrow>
   parse_add_file (map ((#) (CHR ''+'')) ls @ rest) content = Inr (content @ lines_text ls, rest)"
proof (induction ls arbitrary: content)
  case Nil
  then show ?case by (cases rest) (simp_all add: at_operation_def lines_text_def)
next
  case (Cons l ls)
  then show ?case by (simp add: line_kinds push_patch_line_def lines_text_def)
qed

lemma parse_removed_lines:
  "parse_hunks (map ((#) (CHR ''-'')) ls @ rest) hunks old new
   = parse_hunks rest hunks (old @ lines_text ls) new"
  by (induction ls arbitrary: old) (simp_all add: line_kinds push_patch_line_def lines_text_def)

lemma parse_added_lines:
  "parse_hunks (map ((#) (CHR ''+'')) ls @ rest) hunks old new
   = parse_hunks rest hunks old (new @ lines_text ls)"
  by (induction ls arbitrary: new) (simp_all add: line_kinds push_patch_line_def lines_text_def)

lemma parse_rendered_hunks:
  "list_all hunk_ok hs \<Longrightarrow> at_operation rest \<Longrightarrow>
   parse_hunks (concat (map render_hunk hs) @ rest) hunks old new
   = Inr (flush_hunk hunks old new @ hs, rest)"
proof (induction hs arbitrary: hunks old new)
  case Nil
  then show ?case by (cases rest) (simp_all add: at_operation_def)
next
  case (Cons h hs)
  from Cons.prems(1) have "lines_text (text_lines (ph_old h)) = ph_old h"
    "lines_text (text_lines (ph_new h)) = ph_new h" and some: "\<not> (ph_old h = [] \<and> ph_new h = [])"
    by (simp_all add: hunk_ok_def text_ok_def text_lines_text)
  with Cons show ?case
    by (simp add: render_hunk_def line_kinds parse_removed_lines parse_added_lines flush_hunk_def)
qed

lemma at_operation_rendered: "at_operation (concat (map render_operation ops))"
proof (cases ops)
  case (Cons op ops')
  then show ?thesis by (cases op) (simp_all add: at_operation_def header_kinds)
qed (simp add: at_operation_def)

lemma parse_rendered_update:
  assumes "operation_ok (PatchUpdate path hunks move_to)" and "at_operation rest"
  shows "parse_update_file ((case move_to of None \<Rightarrow> [] | Some to \<Rightarrow> [MOVE_TO @ to])
      @ concat (map render_hunk hunks) @ rest) = Inr (hunks, move_to, rest)"
proof (cases move_to)
  case None
  with assms obtain h hs where "hunks = h # hs" by (cases hunks) auto
  with None assms parse_rendered_hunks [of hunks rest "[]" "[]" "[]"] show ?thesis
    by (simp add: parse_update_file_def render_hunk_def header_kinds flush_hunk_def)
next
  case (Some to)
  with assms parse_rendered_hunks [of hunks rest "[]" "[]" "[]"] show ?thesis
    by (simp add: parse_update_file_def header_kinds flush_hunk_def)
qed

lemma parse_move_line:
  assumes "split_once '' -> '' r = Some (from_path, to_path)"
  shows "parse_operations ((MOVE_FILE @ r) # lines) operations
    = parse_operations lines (operations @ [PatchMove from_path to_path])"
  using assms by (simp add: parse_operations.simps(2) header_kinds header_not_blank)

lemma parse_rendered_operations:
  "list_all operation_ok ops \<Longrightarrow>
   parse_operations (concat (map render_operation ops)) operations = Inr (operations @ ops)"
proof (induction ops arbitrary: operations)
  case Nil
  then show ?case by (simp add: parse_operations.simps)
next
  case (Cons op ops)
  note rest = at_operation_rendered [of ops]
  show ?case
  proof (cases op)
    case (PatchAdd path content)
    with Cons parse_add_lines [OF rest, of "text_lines content" "[]"] show ?thesis
      by (simp add: parse_operations.simps(2) [of "ADD_FILE @ path"] header_kinds header_not_blank
          text_ok_def text_lines_text)
  next
    case (PatchUpdate path hunks move_to)
    with Cons parse_rendered_update [OF _ rest, of path hunks move_to] show ?thesis
      by (simp add: parse_operations.simps(2) [of "UPDATE_FILE @ path"] header_kinds header_not_blank)
  next
    case (PatchDelete path)
    with Cons show ?thesis
      by (simp add: parse_operations.simps(2) [of "DELETE_FILE @ path"] header_kinds header_not_blank)
  next
    case (PatchMove from_path to_path)
    with Cons.prems
    have "split_once '' -> '' (from_path @ '' -> '' @ to_path) = Some (from_path, to_path)" by simp
    from parse_move_line [OF this] Cons PatchMove show ?thesis by simp
  qed
qed

text \<open>The rendered lines are lines.\<close>

lemma line_ok_append: "line_ok l \<Longrightarrow> LINE_FEED \<notin> set h \<Longrightarrow> h \<noteq> [] \<Longrightarrow> last h \<noteq> CHR 0x0D \<Longrightarrow> line_ok (h @ l)"
  by (cases "l = []") (auto simp: line_ok_def)

lemma headers_ok:
  "line_ok l \<Longrightarrow> line_ok (ADD_FILE @ l)" "line_ok l \<Longrightarrow> line_ok (UPDATE_FILE @ l)"
  "line_ok l \<Longrightarrow> line_ok (DELETE_FILE @ l)" "line_ok l \<Longrightarrow> line_ok (MOVE_FILE @ l)"
  "line_ok l \<Longrightarrow> line_ok (MOVE_TO @ l)" "line_ok l \<Longrightarrow> line_ok ('' -> '' @ l)"
  by (rule line_ok_append; simp add: ADD_FILE_def UPDATE_FILE_def DELETE_FILE_def MOVE_FILE_def
      MOVE_TO_def LINE_FEED_def)+

lemma marked_line_ok:
  "line_ok l \<Longrightarrow> line_ok (CHR ''+'' # l)" "line_ok l \<Longrightarrow> line_ok (CHR ''-'' # l)"
  "line_ok ''@@''"
  by (auto simp: line_ok_def LINE_FEED_def)

lemma moved_line_ok: "line_ok a \<Longrightarrow> line_ok b \<Longrightarrow> line_ok (MOVE_FILE @ a @ '' -> '' @ b)"
  by (auto simp: line_ok_def LINE_FEED_def MOVE_FILE_def)

lemma rendered_hunk_ok: "hunk_ok h \<Longrightarrow> list_all line_ok (render_hunk h)"
  by (auto simp: hunk_ok_def text_ok_def render_hunk_def list_all_iff marked_line_ok)

lemma rendered_lines_ok: "operation_ok op \<Longrightarrow> list_all line_ok (render_operation op)"
  by (cases op)
    (auto simp: headers_ok marked_line_ok moved_line_ok [simplified] text_ok_def list_all_iff
      split: option.splits dest: rendered_hunk_ok [unfolded list_all_iff])



end
