(* ===== verification/Tool_Inputs.thy ===== *)
theory Tool_Inputs
  imports Provider_Utils Core_Types
begin

text \<open>
  What the built-in tools share (\<open>crates/noloong-agent/src/tools/mod.rs\<close>): their outputs, their specs,
  their names (\<open>manifest.rs\<close>), the fields of an input as the derived deserializers
  read them, and the request to start a host command.
\<close>

definition json_tool_output :: "json \<Rightarrow> tool_output" where
  "json_tool_output v =
     \<lparr>to_content = [Json v], to_details = v, to_is_error = False, to_updates = []\<rparr>"

definition json_tool_error :: "string \<Rightarrow> string \<Rightarrow> json \<Rightarrow> tool_output" where
  "json_tool_error code message details =
     (let v = json_object [(''error'', json_object
            [(''code'', JString code), (''message'', JString message), (''details'', details)])]
      in \<lparr>to_content = [Json v], to_details = v, to_is_error = True, to_updates = []\<rparr>)"

definition sequential_tool_spec ::
  "string \<Rightarrow> string \<Rightarrow> json \<Rightarrow> string \<Rightarrow> string \<Rightarrow> tool_spec" where
  "sequential_tool_spec name description input_schema capability permission_description =
     \<lparr>ts_name = name, ts_description = description, ts_input_schema = input_schema,
      ts_execution_mode = Some Sequential,
      ts_permissions = [\<lparr>tpr_capability = capability, tpr_description = Some permission_description,
        tpr_metadata = json_object [(''builtIn'', JBool True), (''capability'', JString capability),
          (''tool'', JString name)]\<rparr>]\<rparr>"

text \<open>
  The fields of a derived structure: those of an object, or the elements of an array in the order of
  the declaration, of which only the last ones, with a default, may be missing.
\<close>

fun struct_fields :: "nat \<Rightarrow> string list \<Rightarrow> json \<Rightarrow> (string \<Rightarrow> json option) option" where
  "struct_fields required names (JObject m) = Some (map_of m)"
| "struct_fields required names (JArray vs) =
     (if required \<le> length vs \<and> length vs \<le> length names then Some (map_of (zip names vs)) else None)"
| "struct_fields required names _ = None"

fun json_str :: "json option \<Rightarrow> string option" where
  "json_str (Some (JString s)) = Some s"
| "json_str _ = None"

fun json_default_bool :: "bool \<Rightarrow> json option \<Rightarrow> bool option" where
  "json_default_bool d None = Some d"
| "json_default_bool d (Some (JBool b)) = Some b"
| "json_default_bool d _ = None"

text \<open>The texts of the catalog of messages, by the name of their key.\<close>

type_synonym catalog = "string \<Rightarrow> string"

text \<open>
  The request to start a host command (\<open>StartCommandRequest\<close> in \<open>crates/noloong-agent/src/process/manager.rs\<close>),
  which the approval classifies and the process manager runs, and its reading from JSON.
\<close>

text \<open>The arguments of \<open>host.exec.start\<close>; the map of the environment binds a name to a value or to null.\<close>

record start_command_request =
  scr_command :: string
  scr_shell :: "string option"
  scr_cwd :: "string option"
  scr_env :: "string option smap"
  scr_pipe_stdin :: bool
  scr_max_spool_bytes :: "nat option"
  scr_foreground_wait_ms :: "nat option"

fun json_opt_value :: "json \<Rightarrow> string option option" where
  "json_opt_value JNull = Some None"
| "json_opt_value (JString s) = Some (Some s)"
| "json_opt_value _ = None"

fun json_env :: "json option \<Rightarrow> string option smap option" where
  "json_env None = Some []"
| "json_env (Some (JObject m)) =
     map_option (\<lambda>vs. bt_collect (zip (map fst m) vs)) (those (map (json_opt_value \<circ> snd) m))"
| "json_env (Some _) = None"

text \<open>An optional number of 64 bits.\<close>

fun json_opt_u64 :: "json option \<Rightarrow> nat option option" where
  "json_opt_u64 None = Some None"
| "json_opt_u64 (Some JNull) = Some None"
| "json_opt_u64 (Some (JInt i)) = (if 0 \<le> i \<and> i < 2 ^ 64 then Some (Some (nat i)) else None)"
| "json_opt_u64 (Some _) = None"

definition start_command_fields :: "string list" where
  "start_command_fields =
     [''command'', ''shell'', ''cwd'', ''env'', ''pipeStdin'', ''maxSpoolBytes'', ''foregroundWaitMs'']"

definition parse_start_command_request :: "json \<Rightarrow> start_command_request option" where
  "parse_start_command_request v =
     Option.bind (struct_fields 1 start_command_fields v) (\<lambda>get.
     Option.bind (json_str (get ''command'')) (\<lambda>command.
     Option.bind (json_opt_str (get ''shell'')) (\<lambda>shell.
     Option.bind (json_opt_str (get ''cwd'')) (\<lambda>cwd.
     Option.bind (json_env (get ''env'')) (\<lambda>env.
     Option.bind (json_default_bool False (get ''pipeStdin'')) (\<lambda>pipe_stdin.
     Option.bind (json_opt_u64 (get ''maxSpoolBytes'')) (\<lambda>max_spool_bytes.
     Option.bind (json_opt_u64 (get ''foregroundWaitMs'')) (\<lambda>foreground_wait_ms.
     Some \<lparr>scr_command = command, scr_shell = shell, scr_cwd = cwd, scr_env = env,
       scr_pipe_stdin = pipe_stdin, scr_max_spool_bytes = max_spool_bytes,
       scr_foreground_wait_ms = foreground_wait_ms\<rparr>))))))))"

text \<open>
  The names of the built-in tools (\<open>define_built_in_tool_names\<close> in \<open>crates/noloong-agent/src/manifest.rs\<close>).
\<close>

datatype built_in_tool_name =
    HostExecStart | HostExecRead | HostExecWait | HostExecWrite | HostExecTerminate | HostExecList
  | SubagentSpawn | SubagentWait | SubagentResult | SubagentList | GoalUpdate | ManifestProposePatch

definition built_in_tool_names :: "built_in_tool_name list" where
  "built_in_tool_names =
     [HostExecStart, HostExecRead, HostExecWait, HostExecWrite, HostExecTerminate, HostExecList,
      SubagentSpawn, SubagentWait, SubagentResult, SubagentList, GoalUpdate, ManifestProposePatch]"

fun built_in_as_str :: "built_in_tool_name \<Rightarrow> string" where
  "built_in_as_str HostExecStart = ''host.exec.start''"
| "built_in_as_str HostExecRead = ''host.exec.read''"
| "built_in_as_str HostExecWait = ''host.exec.wait''"
| "built_in_as_str HostExecWrite = ''host.exec.write''"
| "built_in_as_str HostExecTerminate = ''host.exec.terminate''"
| "built_in_as_str HostExecList = ''host.exec.list''"
| "built_in_as_str SubagentSpawn = ''agent.subagent.spawn''"
| "built_in_as_str SubagentWait = ''agent.subagent.wait''"
| "built_in_as_str SubagentResult = ''agent.subagent.result''"
| "built_in_as_str SubagentList = ''agent.subagent.list''"
| "built_in_as_str GoalUpdate = ''agent.goal.update''"
| "built_in_as_str ManifestProposePatch = ''agent.manifest.propose_patch''"

definition built_in_parse :: "string \<Rightarrow> built_in_tool_name option" where
  "built_in_parse s = List.find (\<lambda>n. built_in_as_str n = s) built_in_tool_names"

lemma built_in_parse_as_str: "built_in_parse (built_in_as_str n) = Some n"
  by (cases n) (simp_all add: built_in_parse_def built_in_tool_names_def)

lemma built_in_parse_Some: "built_in_parse s = Some n \<longleftrightarrow> s = built_in_as_str n"
  using built_in_parse_as_str find_SomeD [of "\<lambda>n. built_in_as_str n = s"]
  by (auto simp: built_in_parse_def)

end
