(* ===== verification/File_Edit.thy ===== *)
theory File_Edit
  imports Host_Files Patch_Document Tool_Inputs Utf8
begin

text \<open>
  The tools \<open>write_file\<close> and \<open>apply_patch\<close> (\<open>crates/noloong-agent/src/tools/file_edit.rs\<close>): where a path
  leads and which paths are refused, the replacement of a string, and a patch, which is validated
  against the files and the staged changes before any file is written. A call runs alone: the locks
  of the paths it edits order the calls that share one.
\<close>

record file_edit_manager =
  fem_root :: path

definition file_edit_manager_new :: "path \<Rightarrow> file_edit_manager" where
  "file_edit_manager_new root = \<lparr>fem_root = normalize_path root\<rparr>"

record resolved_path =
  rp_requested :: string
  rp_resolved :: path

type_synonym 'a edit_eff = "(file_system, edit_failure, 'a) eff"

text \<open>\<open>FileEditError::io\<close>, and a call of the file system whose error becomes one.\<close>

definition path_details :: "path \<Rightarrow> (string \<times> json) list" where
  "path_details p = [(''path'', JString (path_string p))]"

definition edit_io :: "string \<Rightarrow> path \<Rightarrow> io_error \<Rightarrow> edit_failure" where
  "edit_io code p e = EditError (edit_error code (io_message e) (path_details p))"

definition io_eff :: "string \<Rightarrow> path \<Rightarrow> (file_system, io_error, 'a) eff \<Rightarrow> 'a edit_eff" where
  "io_eff code p m fs =
     (case m fs of (fs', r) \<Rightarrow> (fs', case r of Inl e \<Rightarrow> Inl (edit_io code p e) | Inr x \<Rightarrow> Inr x))"

section \<open>Where a path leads\<close>

datatype sensitive_path_rule = PrefixRule string | ExactRule string

definition sensitive_path_rules :: "sensitive_path_rule list" where
  "sensitive_path_rules =
     [PrefixRule ''/etc'', PrefixRule ''/boot'', PrefixRule ''/lib/systemd'',
      PrefixRule ''/usr/lib/systemd'', PrefixRule ''/run/systemd'', PrefixRule ''/System'',
      PrefixRule ''/Library'', PrefixRule ''/private/etc'', PrefixRule ''/private/var/db'',
      ExactRule ''/var/run/docker.sock'', ExactRule ''/run/docker.sock'',
      ExactRule ''/private/var/run/docker.sock'']"

fun rule_matches :: "sensitive_path_rule \<Rightarrow> path \<Rightarrow> bool" where
  "rule_matches (PrefixRule s) p = prefix (components s) p"
| "rule_matches (ExactRule s) p = (p = components s)"

fun rule_as_json :: "sensitive_path_rule \<Rightarrow> json" where
  "rule_as_json (PrefixRule s) = json_object [(''kind'', JString ''prefix''), (''path'', JString s)]"
| "rule_as_json (ExactRule s) = json_object [(''kind'', JString ''exact''), (''path'', JString s)]"

definition reject_sensitive_path :: "path \<Rightarrow> unit edit_result" where
  "reject_sensitive_path p =
     (case List.find (\<lambda>rule. rule_matches rule p) sensitive_path_rules of
        None \<Rightarrow> Inr ()
      | Some rule \<Rightarrow> edit_fail ''sensitive_path'' ''refusing to edit a sensitive system path''
          (path_details p @ [(''rule'', rule_as_json rule)]))"

text \<open>
  The guard: the part of the path that exists, as the system names it, and the names that are missing
  below it, the last one first.
\<close>

function guard_from :: "file_system \<Rightarrow> path \<Rightarrow> path \<Rightarrow> string list \<Rightarrow> path" where
  "guard_from fs p existing missing =
     (if fs_exists fs existing
      then normalize_path
        ((case fs_canonical fs existing of Some c \<Rightarrow> c | None \<Rightarrow> normalize_path existing)
         @ map Normal (rev missing))
      else case parent_path existing of
        None \<Rightarrow> normalize_path p
      | Some parent \<Rightarrow>
          guard_from fs p parent
            (case file_name existing of Some name \<Rightarrow> missing @ [name] | None \<Rightarrow> missing))"
  by pat_completeness auto
termination
  by (relation "measure (\<lambda>(_, _, existing, _). length existing)")
    (auto simp: parent_path_def split: if_splits)

declare guard_from.simps [simp del]

definition canonical_guard_path :: "file_system \<Rightarrow> path \<Rightarrow> path" where
  "canonical_guard_path fs p = guard_from fs p p []"

definition edit_path :: "file_edit_manager \<Rightarrow> string \<Rightarrow> path" where
  "edit_path m path =
     (let raw = components path
      in if is_absolute raw then normalize_path raw else normalize_path (fem_root m @ raw))"

definition resolve_path :: "file_edit_manager \<Rightarrow> file_system \<Rightarrow> string \<Rightarrow> resolved_path edit_result" where
  "resolve_path m fs path =
     (if is_blank path
      then edit_fail ''invalid_path'' ''path must not be empty'' [(''path'', JString path)]
      else let resolved = edit_path m path
        in edit_then (reject_sensitive_path resolved) (\<lambda>_.
           edit_then (reject_sensitive_path (canonical_guard_path fs resolved)) (\<lambda>_.
           Inr \<lparr>rp_requested = path, rp_resolved = resolved\<rparr>)))"

section \<open>Checks of a path\<close>

definition target_is_directory :: "path \<Rightarrow> 'a edit_result" where
  "target_is_directory p = edit_fail ''target_is_directory'' ''target path is a directory'' (path_details p)"

definition ensure_not_directory :: "file_system \<Rightarrow> path \<Rightarrow> unit edit_result" where
  "ensure_not_directory fs p =
     (case fs_metadata fs p of
        Inr DirNode \<Rightarrow> target_is_directory p
      | Inr (FileNode content) \<Rightarrow> Inr ()
      | Inl NotFound \<Rightarrow> Inr ()
      | Inl e \<Rightarrow> Inl (edit_io ''metadata_failed'' p e))"

definition read_existing_file :: "file_system \<Rightarrow> path \<Rightarrow> string edit_result" where
  "read_existing_file fs p =
     (case fs_read fs p of
        Inr bytes \<Rightarrow> Inr bytes
      | Inl NotFound \<Rightarrow> edit_fail ''path_missing'' ''target path does not exist'' (path_details p)
      | Inl e \<Rightarrow>
          (case fs_metadata fs p of
             Inr DirNode \<Rightarrow> target_is_directory p
           | _ \<Rightarrow> Inl (edit_io ''read_failed'' p e)))"

definition utf8_text :: "path \<Rightarrow> string \<Rightarrow> string edit_result" where
  "utf8_text p bytes =
     (case from_utf8 bytes of
        Inr s \<Rightarrow> Inr s
      | Inl m \<Rightarrow> edit_fail ''invalid_utf8'' m (path_details p))"

definition read_required_text :: "file_system \<Rightarrow> path \<Rightarrow> string edit_result" where
  "read_required_text fs p = edit_then (read_existing_file fs p) (utf8_text p)"

definition create_parent_dirs :: "path \<Rightarrow> bool edit_eff" where
  "create_parent_dirs p fs =
     (case parent_path p of
        None \<Rightarrow> (fs, Inr False)
      | Some parent \<Rightarrow>
          (case fs_metadata fs parent of
             Inr DirNode \<Rightarrow> (fs, Inr False)
           | Inr (FileNode content) \<Rightarrow>
               (fs, edit_fail ''parent_not_directory'' ''parent path exists but is not a directory''
                 (path_details parent))
           | Inl NotFound \<Rightarrow>
               and_then (io_eff ''create_parent_failed'' parent (fs_create_dir_all parent)) (\<lambda>_. ok True) fs
           | Inl e \<Rightarrow> (fs, Inl (edit_io ''metadata_failed'' parent e))))"

section \<open>Replacing text\<close>

text \<open>\<open>match_indices\<close> counted, \<open>replace\<close> and \<open>replacen\<close> once: matches do not overlap.\<close>

lemma split_once_append: "split_once pat s = Some (a, b) \<Longrightarrow> s = a @ pat @ b"
  by (induction pat s arbitrary: a b rule: split_once.induct)
    (auto simp: strip_prefix_def prefix_def split: option.splits if_splits)

function match_count :: "string \<Rightarrow> string \<Rightarrow> nat" where
  "match_count pat s =
     (if pat = [] then 0
      else case split_once pat s of None \<Rightarrow> 0 | Some (before, after) \<Rightarrow> Suc (match_count pat after))"
  by pat_completeness auto
termination
  by (relation "measure (\<lambda>(pat, s). length s)") (auto dest: split_once_append)

function replace_all :: "string \<Rightarrow> string \<Rightarrow> string \<Rightarrow> string" where
  "replace_all pat new s =
     (if pat = [] then s
      else case split_once pat s of
        None \<Rightarrow> s
      | Some (before, after) \<Rightarrow> before @ new @ replace_all pat new after)"
  by pat_completeness auto
termination
  by (relation "measure (\<lambda>(pat, new, s). length s)") (auto dest: split_once_append)

declare match_count.simps [simp del] replace_all.simps [simp del]

definition replace_first :: "string \<Rightarrow> string \<Rightarrow> string \<Rightarrow> string" where
  "replace_first pat new s =
     (case split_once pat s of None \<Rightarrow> s | Some (before, after) \<Rightarrow> before @ new @ after)"

definition replace_string ::
  "string \<Rightarrow> string \<Rightarrow> string \<Rightarrow> bool \<Rightarrow> path \<Rightarrow> (string \<times> nat) edit_result" where
  "replace_string current old_string new_string all p =
     (if old_string = []
      then edit_fail ''invalid_input'' ''oldString must not be empty'' (path_details p)
      else let matches = match_count old_string current
        in if matches = 0
           then edit_fail ''replace_no_match'' ''oldString was not found'' (path_details p)
           else if \<not> all \<and> matches \<noteq> 1
           then edit_fail ''replace_ambiguous''
             ''oldString matched more than once; set replaceAll to true to replace all matches''
             (path_details p @ [(''matches'', JInt (int matches))])
           else Inr (if all then replace_all old_string new_string current
                     else replace_first old_string new_string current,
                     if all then matches else 1))"

definition apply_hunk :: "string \<Rightarrow> patch_hunk \<Rightarrow> path \<Rightarrow> string edit_result" where
  "apply_hunk current h p =
     (let mismatch = (\<lambda>n. edit_fail ''patch_context_mismatch'' ''update hunk context must match exactly once''
            (path_details p @ [(''matches'', JInt n)]))
      in if ph_old h = []
         then edit_fail ''patch_context_empty'' ''update hunk must include context or removed lines''
           (path_details p)
         else case split_once (ph_old h) current of
           None \<Rightarrow> mismatch 0
         | Some (before, after) \<Rightarrow>
             if split_once (ph_old h) after \<noteq> None then mismatch 2 else Inr (before @ ph_new h @ after))"

fun apply_hunks :: "string \<Rightarrow> patch_hunk list \<Rightarrow> path \<Rightarrow> string edit_result" where
  "apply_hunks content [] p = Inr content"
| "apply_hunks content (h # hs) p = edit_then (apply_hunk content h p) (\<lambda>c. apply_hunks c hs p)"

section \<open>Staged changes\<close>

datatype staged_file = StagedWrite string | StagedDelete

type_synonym staged_files = "(path, staged_file) btree_map"

definition staged_exists :: "path \<Rightarrow> 'a edit_result" where
  "staged_exists p =
     edit_fail ''path_exists'' ''target path already exists in staged patch'' (path_details p)"

definition staged_deleted :: "path \<Rightarrow> 'a edit_result" where
  "staged_deleted p =
     edit_fail ''path_missing'' ''target path has already been deleted in staged patch'' (path_details p)"

definition ensure_path_absent :: "file_system \<Rightarrow> path \<Rightarrow> staged_files \<Rightarrow> unit edit_result" where
  "ensure_path_absent fs p staged =
     (case map_of staged p of
        Some StagedDelete \<Rightarrow> Inr ()
      | Some (StagedWrite content) \<Rightarrow> staged_exists p
      | None \<Rightarrow>
          (case fs_metadata fs p of
             Inr DirNode \<Rightarrow> target_is_directory p
           | Inr (FileNode content) \<Rightarrow>
               edit_fail ''path_exists'' ''target path already exists'' (path_details p)
           | Inl NotFound \<Rightarrow> Inr ()
           | Inl e \<Rightarrow> Inl (edit_io ''metadata_failed'' p e)))"

definition ensure_path_exists :: "file_system \<Rightarrow> path \<Rightarrow> staged_files \<Rightarrow> unit edit_result" where
  "ensure_path_exists fs p staged =
     (case map_of staged p of
        Some (StagedWrite content) \<Rightarrow> Inr ()
      | Some StagedDelete \<Rightarrow> staged_deleted p
      | None \<Rightarrow>
          (case fs_metadata fs p of
             Inr DirNode \<Rightarrow> target_is_directory p
           | Inr (FileNode content) \<Rightarrow> Inr ()
           | Inl NotFound \<Rightarrow> edit_fail ''path_missing'' ''target path does not exist'' (path_details p)
           | Inl e \<Rightarrow> Inl (edit_io ''metadata_failed'' p e)))"

definition read_staged_bytes :: "file_system \<Rightarrow> path \<Rightarrow> staged_files \<Rightarrow> string edit_result" where
  "read_staged_bytes fs p staged =
     (case map_of staged p of
        Some (StagedWrite content) \<Rightarrow> Inr content
      | Some StagedDelete \<Rightarrow> staged_deleted p
      | None \<Rightarrow> read_existing_file fs p)"

definition read_staged_text :: "file_system \<Rightarrow> path \<Rightarrow> staged_files \<Rightarrow> string edit_result" where
  "read_staged_text fs p staged = edit_then (read_staged_bytes fs p staged) (utf8_text p)"

section \<open>A patch\<close>

fun resolve_paths ::
  "file_edit_manager \<Rightarrow> file_system \<Rightarrow> string list \<Rightarrow> (path, resolved_path) btree_map
   \<Rightarrow> (path, resolved_path) btree_map edit_result" where
  "resolve_paths m fs [] paths = Inr paths"
| "resolve_paths m fs (s # ss) paths =
     edit_then (resolve_path m fs s) (\<lambda>r. resolve_paths m fs ss (bt_insert (rp_resolved r) r paths))"

text \<open>The paths of an operation are resolved in the order in which the operation names them.\<close>

definition resolve_patch_paths ::
  "file_edit_manager \<Rightarrow> file_system \<Rightarrow> patch_document \<Rightarrow> resolved_path list edit_result" where
  "resolve_patch_paths m fs document =
     edit_then (resolve_paths m fs (concat (map operation_paths document)) []) (\<lambda>paths.
       Inr (bt_values paths))"

type_synonym path_by_request = "(string, path) btree_map"

definition requested_path :: "path_by_request \<Rightarrow> string \<Rightarrow> string \<Rightarrow> path edit_result" where
  "requested_path by_request path message =
     (case map_of by_request path of Some p \<Rightarrow> Inr p | None \<Rightarrow> Inl (EditPanic message))"

fun validate_operation ::
  "file_system \<Rightarrow> path_by_request \<Rightarrow> patch_operation \<Rightarrow> staged_files \<Rightarrow> staged_files edit_result" where
  "validate_operation fs by_request (PatchAdd path content) staged =
     edit_then (requested_path by_request path ''patch path is resolved'') (\<lambda>p.
     edit_then (ensure_path_absent fs p staged) (\<lambda>_.
     Inr (bt_insert p (StagedWrite content) staged)))"
| "validate_operation fs by_request (PatchUpdate path hunks move_to) staged =
     edit_then (requested_path by_request path ''patch path is resolved'') (\<lambda>p.
     edit_then (read_staged_text fs p staged) (\<lambda>current.
     edit_then (apply_hunks current hunks p) (\<lambda>content.
     case move_to of
       Some to \<Rightarrow>
         edit_then (requested_path by_request to ''move destination is resolved'') (\<lambda>destination.
         edit_then (ensure_path_absent fs destination staged) (\<lambda>_.
         Inr (bt_insert destination (StagedWrite content) (bt_insert p StagedDelete staged))))
     | None \<Rightarrow> Inr (bt_insert p (StagedWrite content) staged))))"
| "validate_operation fs by_request (PatchDelete path) staged =
     edit_then (requested_path by_request path ''patch path is resolved'') (\<lambda>p.
     edit_then (ensure_path_exists fs p staged) (\<lambda>_.
     Inr (bt_insert p StagedDelete staged)))"
| "validate_operation fs by_request (PatchMove from_path to_path) staged =
     edit_then (requested_path by_request from_path ''move source is resolved'') (\<lambda>source.
     edit_then (requested_path by_request to_path ''move destination is resolved'') (\<lambda>destination.
     edit_then (read_staged_bytes fs source staged) (\<lambda>content.
     edit_then (ensure_path_absent fs destination staged) (\<lambda>_.
     Inr (bt_insert destination (StagedWrite content) (bt_insert source StagedDelete staged))))))"

fun validate_operations ::
  "file_system \<Rightarrow> path_by_request \<Rightarrow> patch_operation list \<Rightarrow> staged_files \<Rightarrow> staged_files edit_result" where
  "validate_operations fs by_request [] staged = Inr staged"
| "validate_operations fs by_request (op # ops) staged =
     edit_then (validate_operation fs by_request op staged) (validate_operations fs by_request ops)"

definition path_by_request :: "resolved_path list \<Rightarrow> path_by_request" where
  "path_by_request paths = bt_collect (map (\<lambda>r. (rp_requested r, rp_resolved r)) paths)"

definition validate_patch ::
  "file_system \<Rightarrow> patch_document \<Rightarrow> resolved_path list \<Rightarrow> staged_files edit_result" where
  "validate_patch fs document paths = validate_operations fs (path_by_request paths) document []"

definition commit_staged_file :: "path \<times> staged_file \<Rightarrow> unit edit_eff" where
  "commit_staged_file = (\<lambda>(p, change).
     case change of
       StagedWrite content \<Rightarrow>
         and_then (create_parent_dirs p) (\<lambda>_. io_eff ''write_failed'' p (fs_write p content))
     | StagedDelete \<Rightarrow> io_eff ''delete_failed'' p (fs_remove_file p))"

definition commit_staged_files :: "staged_files \<Rightarrow> unit edit_eff" where
  "commit_staged_files staged = for_each staged commit_staged_file"

definition resolved_path_json :: "resolved_path \<Rightarrow> json" where
  "resolved_path_json r =
     json_object [(''path'', JString (rp_requested r)),
       (''resolvedPath'', JString (path_string (rp_resolved r)))]"

text \<open>The steps before the first change, and the whole tool call.\<close>

definition prepare_patch ::
  "file_edit_manager \<Rightarrow> file_system \<Rightarrow> string
   \<Rightarrow> (patch_document \<times> resolved_path list \<times> staged_files) edit_result" where
  "prepare_patch m fs patch =
     edit_then (parse_patch patch) (\<lambda>document.
     edit_then (resolve_patch_paths m fs document) (\<lambda>paths.
     edit_then (validate_patch fs document paths) (\<lambda>staged.
     Inr (document, paths, staged))))"

definition apply_patch_text :: "file_edit_manager \<Rightarrow> string \<Rightarrow> json edit_eff" where
  "apply_patch_text m patch fs =
     (case prepare_patch m fs patch of
        Inl e \<Rightarrow> (fs, Inl e)
      | Inr (document, paths, staged) \<Rightarrow>
          and_then (commit_staged_files staged) (\<lambda>_. ok (json_object
            [(''operations'', JArray (map operation_summary document)),
             (''paths'', JArray (map resolved_path_json paths)),
             (''filesChanged'', JInt (int (length staged)))])) fs)"

section \<open>Writing a file\<close>

record write_file_input =
  wfi_path :: string
  wfi_content :: "string option"
  wfi_old_string :: "string option"
  wfi_new_string :: "string option"
  wfi_replace_all :: bool

datatype write_file_operation = WriteOp string | ReplaceOp string string bool

definition write_operation :: "write_file_input \<Rightarrow> write_file_operation edit_result" where
  "write_operation i =
     (let invalid = (\<lambda>message. edit_fail ''invalid_input'' message [(''path'', JString (wfi_path i))])
      in case (wfi_content i, wfi_old_string i, wfi_new_string i) of
        (Some content, None, None) \<Rightarrow>
          if wfi_replace_all i then invalid ''replaceAll is only valid with oldString and newString''
          else Inr (WriteOp content)
      | (None, Some old_string, Some new_string) \<Rightarrow>
          Inr (ReplaceOp old_string new_string (wfi_replace_all i))
      | (Some _, _, _) \<Rightarrow>
          invalid ''write_file accepts either content or oldString/newString, not both''
      | _ \<Rightarrow> invalid ''write_file requires either content or both oldString and newString'')"

definition write_text :: "file_edit_manager \<Rightarrow> write_file_input \<Rightarrow> json edit_eff" where
  "write_text m i fs =
     (case edit_then (write_operation i) (\<lambda>operation.
           edit_then (resolve_path m fs (wfi_path i)) (\<lambda>r.
           edit_then (ensure_not_directory fs (rp_resolved r)) (\<lambda>_. Inr (operation, r)))) of
        Inl e \<Rightarrow> (fs, Inl e)
      | Inr (operation, r) \<Rightarrow>
          (let p = rp_resolved r;
               reply = (\<lambda>mode bytes created rest. json_object
                 ([(''mode'', JString mode), (''path'', JString (rp_requested r)),
                   (''resolvedPath'', JString (path_string p)), (''bytesWritten'', JInt (int bytes)),
                   (''createdParentDirs'', JBool created)] @ rest))
           in case operation of
             WriteOp content \<Rightarrow>
               and_then (create_parent_dirs p) (\<lambda>created.
               and_then (io_eff ''write_failed'' p (fs_write p content)) (\<lambda>_.
               ok (reply ''write'' (length content) created []))) fs
           | ReplaceOp old_string new_string all \<Rightarrow>
               (case edit_then (read_required_text fs p) (\<lambda>current.
                     replace_string current old_string new_string all p) of
                  Inl e \<Rightarrow> (fs, Inl e)
                | Inr (updated, replacements) \<Rightarrow>
                    and_then (io_eff ''write_failed'' p (fs_write p updated)) (\<lambda>_.
                    ok (reply ''replace'' (length updated) False
                      [(''replacements'', JInt (int replacements))])) fs)))"

section \<open>The tools\<close>

definition write_file_input_of_json :: "json \<Rightarrow> write_file_input option" where
  "write_file_input_of_json v =
     Option.bind (struct_fields 4 [''path'', ''content'', ''oldString'', ''newString'', ''replaceAll''] v) (\<lambda>get.
     Option.bind (json_str (get ''path'')) (\<lambda>path.
     Option.bind (json_opt_str (get ''content'')) (\<lambda>content.
     Option.bind (json_opt_str (get ''oldString'')) (\<lambda>old_string.
     Option.bind (json_opt_str (get ''newString'')) (\<lambda>new_string.
     Option.bind (json_default_bool False (get ''replaceAll'')) (\<lambda>all.
     Some \<lparr>wfi_path = path, wfi_content = content, wfi_old_string = old_string,
       wfi_new_string = new_string, wfi_replace_all = all\<rparr>))))))"

definition apply_patch_input_of_json :: "json \<Rightarrow> string option" where
  "apply_patch_input_of_json v =
     Option.bind (struct_fields 1 [''patch''] v) (\<lambda>get. json_str (get ''patch''))"

definition FILE_EDIT_PERMISSION_CAPABILITY :: string where
  "FILE_EDIT_PERMISSION_CAPABILITY = ''host.file.write''"

definition WRITE_FILE_TOOL_NAME :: string where "WRITE_FILE_TOOL_NAME = ''write_file''"
definition APPLY_PATCH_TOOL_NAME :: string where "APPLY_PATCH_TOOL_NAME = ''apply_patch''"

definition file_edit_tool_spec :: "string \<Rightarrow> string \<Rightarrow> json \<Rightarrow> catalog \<Rightarrow> tool_spec" where
  "file_edit_tool_spec name description input_schema texts =
     sequential_tool_spec name description input_schema FILE_EDIT_PERMISSION_CAPABILITY
       (texts ''FileEditPermissionDescription'')"

definition json_type :: "string \<Rightarrow> json" where
  "json_type t = json_object [(''type'', JString t)]"

definition json_required :: "string list \<Rightarrow> string \<times> json" where
  "json_required names = (''required'', JArray (map JString names))"

definition write_file_spec :: "catalog \<Rightarrow> tool_spec" where
  "write_file_spec texts =
     file_edit_tool_spec WRITE_FILE_TOOL_NAME (texts ''FileWriteDescription'')
       (json_object
         [(''type'', JString ''object''), json_required [''path''],
          (''properties'', json_object
            [(''path'', json_type ''string''), (''content'', json_type ''string''),
             (''oldString'', json_type ''string''), (''newString'', json_type ''string''),
             (''replaceAll'', json_type ''boolean'')]),
          (''oneOf'', JArray
            [json_object
               [json_required [''content''],
                (''not'', json_object [(''anyOf'', JArray
                  [json_object [json_required [''oldString'']], json_object [json_required [''newString'']],
                   json_object [json_required [''replaceAll'']]])])],
             json_object
               [json_required [''oldString'', ''newString''],
                (''not'', json_object [json_required [''content'']])]])]) texts"

definition apply_patch_spec :: "catalog \<Rightarrow> tool_spec" where
  "apply_patch_spec texts =
     file_edit_tool_spec APPLY_PATCH_TOOL_NAME (texts ''FileApplyPatchDescription'')
       (json_object
         [(''type'', JString ''object''), json_required [''patch''],
          (''properties'', json_object [(''patch'', json_type ''string'')])]) texts"

text \<open>
  The outcome of a call: an error of the runtime when it was cancelled, a panic of the task, or the
  output. The message of the deserializer is a parameter.
\<close>

definition file_edit_error_output :: "file_edit_error \<Rightarrow> tool_output" where
  "file_edit_error_output e = json_tool_error (fee_code e) (fee_message e) (fee_details e)"

datatype tool_failure = ToolError agent_core_error | ToolPanic string

definition edit_output :: "json edit_eff \<Rightarrow> (file_system, tool_failure, tool_output) eff" where
  "edit_output m fs =
     (case m fs of (fs', r) \<Rightarrow> (fs',
        case r of
          Inr v \<Rightarrow> Inr (json_tool_output v)
        | Inl (EditError e) \<Rightarrow> Inr (file_edit_error_output e)
        | Inl (EditPanic message) \<Rightarrow> Inl (ToolPanic message)))"

definition invalid_edit_input :: "string \<Rightarrow> string \<Rightarrow> tool_output" where
  "invalid_edit_input name message =
     file_edit_error_output (edit_error ''invalid_input'' (''invalid '' @ name @ '' input: '' @ message) [])"

definition write_file_execute ::
  "(json \<Rightarrow> string) \<Rightarrow> file_edit_manager \<Rightarrow> bool \<Rightarrow> json
   \<Rightarrow> (file_system, tool_failure, tool_output) eff" where
  "write_file_execute message m cancelled arguments =
     (if cancelled then err (ToolError Aborted)
      else case write_file_input_of_json arguments of
        None \<Rightarrow> ok (invalid_edit_input WRITE_FILE_TOOL_NAME (message arguments))
      | Some i \<Rightarrow> edit_output (write_text m i))"

definition apply_patch_execute ::
  "(json \<Rightarrow> string) \<Rightarrow> file_edit_manager \<Rightarrow> bool \<Rightarrow> json
   \<Rightarrow> (file_system, tool_failure, tool_output) eff" where
  "apply_patch_execute message m cancelled arguments =
     (if cancelled then err (ToolError Aborted)
      else case apply_patch_input_of_json arguments of
        None \<Rightarrow> ok (invalid_edit_input APPLY_PATCH_TOOL_NAME (message arguments))
      | Some patch \<Rightarrow> edit_output (apply_patch_text m patch))"

end
