(* ===== verification/File_Edit_Properties.thy ===== *)
theory File_Edit_Properties
  imports File_Edit
begin

text \<open>
  What the edit tools do to the files: a patch that succeeds has the effect of its operations, one
  after the other, on the contents of the files, and whatever the outcome, no other file and no
  sensitive path is changed.
\<close>

section \<open>The effect of a patch\<close>

type_synonym files = "path \<Rightarrow> string option"

text \<open>A hunk replaces the first place where its old text occurs; it does not occur after it.\<close>

inductive hunk_effect :: "patch_hunk \<Rightarrow> string \<Rightarrow> string \<Rightarrow> bool" where
  hunk: "ph_old h \<noteq> [] \<Longrightarrow> s = before @ ph_old h @ after
    \<Longrightarrow> (\<And>i. i < length before \<Longrightarrow> \<not> prefix (ph_old h) (drop i s))
    \<Longrightarrow> \<not> sublist (ph_old h) after
    \<Longrightarrow> hunk_effect h s (before @ ph_new h @ after)"

inductive hunks_effect :: "patch_hunk list \<Rightarrow> string \<Rightarrow> string \<Rightarrow> bool" where
  no_hunks: "hunks_effect [] s s"
| more_hunks: "hunk_effect h s t \<Longrightarrow> hunks_effect hs t u \<Longrightarrow> hunks_effect (h # hs) s u"

inductive operation_effect :: "file_edit_manager \<Rightarrow> patch_operation \<Rightarrow> files \<Rightarrow> files \<Rightarrow> bool" where
  add: "files (edit_path m path) = None
    \<Longrightarrow> operation_effect m (PatchAdd path content) files (files(edit_path m path \<mapsto> content))"
| update: "files (edit_path m path) = Some s \<Longrightarrow> hunks_effect hunks s t
    \<Longrightarrow> operation_effect m (PatchUpdate path hunks None) files (files(edit_path m path \<mapsto> t))"
| update_move: "files (edit_path m path) = Some s \<Longrightarrow> hunks_effect hunks s t
    \<Longrightarrow> files (edit_path m to) = None
    \<Longrightarrow> operation_effect m (PatchUpdate path hunks (Some to)) files
          (files(edit_path m path := None, edit_path m to \<mapsto> t))"
| delete: "files (edit_path m path) \<noteq> None
    \<Longrightarrow> operation_effect m (PatchDelete path) files (files(edit_path m path := None))"
| move: "files (edit_path m from_path) = Some s \<Longrightarrow> files (edit_path m to_path) = None
    \<Longrightarrow> operation_effect m (PatchMove from_path to_path) files
          (files(edit_path m from_path := None, edit_path m to_path \<mapsto> s))"

inductive patch_effect :: "file_edit_manager \<Rightarrow> patch_document \<Rightarrow> files \<Rightarrow> files \<Rightarrow> bool" where
  no_operations: "patch_effect m [] files files"
| more_operations: "operation_effect m op files files1 \<Longrightarrow> patch_effect m ops files1 files2
    \<Longrightarrow> patch_effect m (op # ops) files files2"

text \<open>A path that the tools may edit.\<close>

definition editable :: "file_system \<Rightarrow> path \<Rightarrow> bool" where
  "editable fs p =
     (\<forall>rule \<in> set sensitive_path_rules. \<not> rule_matches rule p \<and> \<not> rule_matches rule (canonical_guard_path fs p))"

lemma reject_sensitive_path_Inr:
  "reject_sensitive_path p = Inr u \<longleftrightarrow> (\<forall>rule \<in> set sensitive_path_rules. \<not> rule_matches rule p)"
  by (auto simp: reject_sensitive_path_def edit_fail_def find_None_iff split: option.splits)
    (auto simp: find_Some_iff)

lemma resolve_path_Inr:
  "resolve_path m fs s = Inr r \<Longrightarrow> r = \<lparr>rp_requested = s, rp_resolved = edit_path m s\<rparr> \<and> editable fs (edit_path m s)"
  by (auto simp: resolve_path_def edit_fail_def edit_then_Inr_iff reject_sensitive_path_Inr editable_def
      Let_def split: if_splits)

section \<open>Resolved paths\<close>

lemma set_bt_insert: "set (bt_insert k v m) \<subseteq> insert (k, v) (set m)"
  by (induction k v m rule: bt_insert.induct) auto

definition paths_ok :: "file_edit_manager \<Rightarrow> file_system \<Rightarrow> string set \<Rightarrow> resolved_path list \<Rightarrow> bool" where
  "paths_ok m fs names paths =
     (\<forall>r \<in> set paths. rp_requested r \<in> names \<and> rp_resolved r = edit_path m (rp_requested r)
        \<and> editable fs (rp_resolved r))"

lemma resolve_paths_ok:
  "resolve_paths m fs ss paths = Inr paths' \<Longrightarrow> paths_ok m fs names (bt_values paths)
    \<Longrightarrow> set ss \<subseteq> names \<Longrightarrow> paths_ok m fs names (bt_values paths')"
proof (induction ss arbitrary: paths)
  case (Cons s ss)
  from Cons.prems(1) obtain r where r: "resolve_path m fs s = Inr r"
    and rest: "resolve_paths m fs ss (bt_insert (rp_resolved r) r paths) = Inr paths'"
    by (auto simp: edit_then_Inr_iff)
  have "set (bt_values (bt_insert (rp_resolved r) r paths)) \<subseteq> insert r (set (bt_values paths))"
    using image_mono [OF set_bt_insert [of "rp_resolved r" r paths], of snd] by (simp add: bt_values_def)
  moreover have "rp_requested r \<in> names \<and> rp_resolved r = edit_path m (rp_requested r)
      \<and> editable fs (rp_resolved r)"
    using Cons.prems(3) resolve_path_Inr [OF r] by simp
  ultimately have "paths_ok m fs names (bt_values (bt_insert (rp_resolved r) r paths))"
    using Cons.prems(2) unfolding paths_ok_def by blast
  from Cons.IH [OF rest this] Cons.prems(3) show ?case by simp
qed simp

lemma requested_path_ok:
  assumes "paths_ok m fs names paths" and "map_of (path_by_request paths) s = Some p"
  shows "p = edit_path m s \<and> s \<in> names \<and> editable fs p"
proof -
  from map_of_SomeD [OF assms(2) [unfolded path_by_request_def map_of_bt_collect]]
  have "(s, p) \<in> set (map (\<lambda>r. (rp_requested r, rp_resolved r)) paths)" by simp
  with assms(1) show ?thesis by (auto simp: paths_ok_def)
qed

section \<open>Hunks\<close>

lemma split_once_first:
  "split_once pat s = Some (before, after) \<Longrightarrow> i < length before \<Longrightarrow> \<not> prefix pat (drop i s)"
proof (induction pat s arbitrary: before i rule: split_once.induct)
  case (2 pat c s)
  then show ?case
    by (cases i) (auto simp: strip_prefix_def split: option.splits if_splits)
qed (auto split: if_splits)

lemma split_once_None: "split_once pat s = None \<Longrightarrow> \<not> sublist pat s"
  by (induction pat s rule: split_once.induct)
    (auto simp: strip_prefix_def sublist_Cons_right split: option.splits if_splits)

lemma apply_hunk_effect:
  assumes "apply_hunk s h p = Inr t"
  shows "hunk_effect h s t"
proof -
  from assms obtain before after where first: "split_once (ph_old h) s = Some (before, after)"
    and "split_once (ph_old h) after = None" "ph_old h \<noteq> []" "t = before @ ph_new h @ after"
    by (cases "split_once (ph_old h) s")
      (auto simp: apply_hunk_def edit_fail_def Let_def simp del: not_None_eq not_Some_eq split: if_splits)
  with split_once_append [OF first] split_once_first [OF first] split_once_None show ?thesis
    by (auto intro: hunk)
qed

lemma apply_hunks_effect: "apply_hunks s hs p = Inr t \<Longrightarrow> hunks_effect hs s t"
  by (induction s hs p rule: apply_hunks.induct)
    (auto simp: edit_then_Inr_iff intro: no_hunks more_hunks apply_hunk_effect)

section \<open>Staged changes over the files\<close>

definition overlay :: "file_system \<Rightarrow> staged_files \<Rightarrow> files" where
  "overlay fs staged p =
     (case map_of staged p of
        Some (StagedWrite content) \<Rightarrow> Some content
      | Some StagedDelete \<Rightarrow> None
      | None \<Rightarrow> file_contents fs p)"

lemma overlay_Nil: "overlay fs [] = file_contents fs"
  by (simp add: overlay_def fun_eq_iff)

lemma overlay_insert:
  "bt_wf staged \<Longrightarrow> overlay fs (bt_insert p (StagedWrite content) staged) = (overlay fs staged)(p \<mapsto> content)"
  "bt_wf staged \<Longrightarrow> overlay fs (bt_insert p StagedDelete staged) = (overlay fs staged)(p := None)"
  by (auto simp: overlay_def fun_eq_iff map_of_bt_insert)

lemma ensure_path_absent_overlay:
  "ensure_path_absent fs p staged = Inr u \<Longrightarrow> fs_tree fs \<Longrightarrow> overlay fs staged p = None"
  by (auto simp: ensure_path_absent_def overlay_def edit_fail_def staged_exists_def target_is_directory_def
      dest: fs_metadata_NotFound split: option.splits staged_file.splits sum.splits node.splits io_error.splits)

lemma ensure_path_exists_overlay:
  "ensure_path_exists fs p staged = Inr u \<Longrightarrow> overlay fs staged p \<noteq> None"
  by (auto simp: ensure_path_exists_def overlay_def edit_fail_def staged_deleted_def target_is_directory_def
      dest: fs_metadata_FileNode split: option.splits staged_file.splits sum.splits node.splits io_error.splits)

lemma read_existing_file_contents:
  "read_existing_file fs p = Inr content \<Longrightarrow> file_contents fs p = Some content"
  by (auto simp: read_existing_file_def edit_fail_def target_is_directory_def
      dest: fs_read_contents split: sum.splits node.splits io_error.splits)

lemma read_staged_bytes_overlay:
  "read_staged_bytes fs p staged = Inr content \<Longrightarrow> overlay fs staged p = Some content"
  by (auto simp: read_staged_bytes_def overlay_def edit_fail_def staged_deleted_def
      dest: read_existing_file_contents split: option.splits staged_file.splits)

lemma utf8_text_Inr: "utf8_text p bytes = Inr s \<Longrightarrow> s = bytes"
  by (auto simp: utf8_text_def edit_fail_def dest: from_utf8_Inr split: sum.splits)

lemma read_staged_text_overlay:
  "read_staged_text fs p staged = Inr s \<Longrightarrow> overlay fs staged p = Some s"
  by (auto simp: read_staged_text_def edit_then_Inr_iff dest!: utf8_text_Inr read_staged_bytes_overlay)

lemma requested_path_Inr: "requested_path by_request s message = Inr p \<Longrightarrow> map_of by_request s = Some p"
  by (simp add: requested_path_def split: option.splits)

section \<open>Validation\<close>

definition staged_ok :: "(path \<Rightarrow> bool) \<Rightarrow> staged_files \<Rightarrow> bool" where
  "staged_ok P staged = (bt_wf staged \<and> (\<forall>p \<in> fst ` set staged. P p))"

lemma staged_ok_Nil: "staged_ok P []"
  by (simp add: staged_ok_def)

lemma staged_ok_insert: "staged_ok P staged \<Longrightarrow> P p \<Longrightarrow> staged_ok P (bt_insert p change staged)"
  by (simp add: staged_ok_def bt_wf_insert fst_set_bt_insert)

lemmas validation_facts =
  requested_path_Inr ensure_path_absent_overlay ensure_path_exists_overlay read_staged_bytes_overlay
  read_staged_text_overlay apply_hunks_effect

lemma validate_operation_effect:
  assumes "validate_operation fs by_request op staged = Inr staged'" and "staged_ok P staged" and "fs_tree fs"
    and by_request: "\<And>s p. map_of by_request s = Some p \<Longrightarrow> p = edit_path m s \<and> P p"
  shows "operation_effect m op (overlay fs staged) (overlay fs staged') \<and> staged_ok P staged'"
proof -
  from assms(2) have wf: "bt_wf staged" by (simp add: staged_ok_def)
  note facts = staged_ok_insert overlay_insert bt_wf_insert wf assms(2,3)
  show ?thesis
  proof (cases op)
    case (PatchAdd path content)
    with assms(1) obtain p u where "map_of by_request path = Some p"
      "ensure_path_absent fs p staged = Inr u" "staged' = bt_insert p (StagedWrite content) staged"
      by (auto simp: edit_then_Inr_iff dest: requested_path_Inr)
    with PatchAdd by_request [of path p] show ?thesis
      by (auto simp: facts intro!: add ensure_path_absent_overlay)
  next
    case (PatchDelete path)
    with assms(1) obtain p u where "map_of by_request path = Some p"
      "ensure_path_exists fs p staged = Inr u" "staged' = bt_insert p StagedDelete staged"
      by (auto simp: edit_then_Inr_iff dest: requested_path_Inr)
    with PatchDelete by_request [of path p] show ?thesis
      by (auto simp: facts intro!: delete dest: ensure_path_exists_overlay)
  next
    case (PatchMove from_path to_path)
    with assms(1) obtain p d s u where "map_of by_request from_path = Some p"
      "map_of by_request to_path = Some d" "read_staged_bytes fs p staged = Inr s"
      "ensure_path_absent fs d staged = Inr u"
      "staged' = bt_insert d (StagedWrite s) (bt_insert p StagedDelete staged)"
      by (auto simp: edit_then_Inr_iff dest!: requested_path_Inr)
    with PatchMove by_request [of from_path p] by_request [of to_path d] show ?thesis
      by (auto simp: facts intro!: move dest: read_staged_bytes_overlay ensure_path_absent_overlay)
  next
    case (PatchUpdate path hunks move_to)
    with assms(1) obtain p s t where p: "map_of by_request path = Some p"
      and s: "read_staged_text fs p staged = Inr s" and t: "apply_hunks s hunks p = Inr t"
      by (auto simp: edit_then_Inr_iff dest!: requested_path_Inr)
    note t = apply_hunks_effect [OF t]
    show ?thesis
    proof (cases move_to)
      case None
      with PatchUpdate p s t assms(1) by_request [of path p] apply_hunks_effect show ?thesis
        by (auto simp: facts edit_then_Inr_iff requested_path_def intro!: update dest!: read_staged_text_overlay)
    next
      case (Some to)
      with PatchUpdate assms(1) p s obtain d u t where "map_of by_request to = Some d"
        "apply_hunks s hunks p = Inr t" "ensure_path_absent fs d staged = Inr u"
        "staged' = bt_insert d (StagedWrite t) (bt_insert p StagedDelete staged)"
        by (auto simp: edit_then_Inr_iff requested_path_def split: option.splits)
      with PatchUpdate Some p s by_request [of path p] by_request [of to d] show ?thesis
        by (auto simp: facts intro!: update_move
            dest: read_staged_text_overlay ensure_path_absent_overlay apply_hunks_effect)
    qed
  qed
qed

lemma validate_operations_effect:
  assumes "validate_operations fs by_request ops staged = Inr staged'" and "staged_ok P staged"
    and "fs_tree fs" and "\<And>s p. map_of by_request s = Some p \<Longrightarrow> p = edit_path m s \<and> P p"
  shows "patch_effect m ops (overlay fs staged) (overlay fs staged') \<and> staged_ok P staged'"
  using assms(1,2)
proof (induction ops arbitrary: staged)
  case Nil
  then show ?case by (auto intro: no_operations)
next
  case (Cons op ops)
  then obtain staged1 where step: "validate_operation fs by_request op staged = Inr staged1"
    and rest: "validate_operations fs by_request ops staged1 = Inr staged'"
    by (auto simp: edit_then_Inr_iff)
  from validate_operation_effect [OF step Cons.prems(2) assms(3,4)] Cons.IH [OF rest]
  show ?case by (blast intro: more_operations)
qed

section \<open>The commit\<close>

lemma io_eff_Inr: "io_eff code p m fs = (fs', Inr x) \<longleftrightarrow> m fs = (fs', Inr x)"
  by (auto simp: io_eff_def split: prod.splits sum.splits)

lemma preserves_io_eff [pres]: "preserves P m \<Longrightarrow> preserves P (io_eff code p m)"
  by (auto simp: preserves_def io_eff_def split: prod.splits)

lemma create_parent_dirs_contents [pres]: "preserves (\<lambda>fs. file_contents fs = m) (create_parent_dirs p)"
proof (rule preservesI)
  fix fs assume fs: "file_contents fs = m"
  have "preserves (\<lambda>fs. file_contents fs = m)
      (and_then (io_eff code q (fs_create_dir_all q)) (\<lambda>_. ok True))" for code q
    by (intro pres)
  from preservesD [OF this fs] fs show "file_contents (fst (create_parent_dirs p fs)) = m"
    by (simp add: create_parent_dirs_def split: option.split sum.split node.split io_error.split)
qed

lemma create_parent_dirs_result:
  "create_parent_dirs p fs = (fs', r) \<Longrightarrow> file_contents fs' = file_contents fs"
  using preservesD [OF create_parent_dirs_contents [of "file_contents fs" p], of fs] by simp

definition staged_value :: "staged_file \<Rightarrow> string option" where
  "staged_value change = (case change of StagedWrite content \<Rightarrow> Some content | StagedDelete \<Rightarrow> None)"

lemma commit_staged_file_Inr:
  assumes "commit_staged_file (p, change) fs = (fs', Inr ())"
  shows "file_contents fs' = (file_contents fs)(p := staged_value change)"
proof (cases change)
  case (StagedWrite content)
  with assms obtain fs1 created where "create_parent_dirs p fs = (fs1, Inr created)"
    and "fs_write p content fs1 = (fs', Inr ())"
    by (auto simp: commit_staged_file_def io_eff_Inr elim!: and_then_InrE)
  with StagedWrite show ?thesis
    by (simp add: staged_value_def fs_write_contents create_parent_dirs_result)
next
  case StagedDelete
  with assms show ?thesis
    by (simp add: commit_staged_file_def io_eff_Inr staged_value_def fs_remove_file_contents)
qed

lemma commit_staged_files_Inr:
  "for_each staged commit_staged_file fs = (fs', Inr ()) \<Longrightarrow> distinct (map fst staged)
    \<Longrightarrow> file_contents fs' = overlay fs staged"
proof (induction staged arbitrary: fs)
  case Nil
  then show ?case by (simp add: overlay_Nil)
next
  case (Cons entry staged)
  obtain p change where entry: "entry = (p, change)" by (cases entry)
  from Cons.prems(1) obtain fs1 where step: "commit_staged_file (p, change) fs = (fs1, Inr ())"
    and rest: "for_each staged commit_staged_file fs1 = (fs', Inr ())"
    by (auto simp: entry elim!: and_then_InrE)
  have "map_of staged p = None" using Cons.prems(2) entry by (auto simp: map_of_eq_None_iff)
  with Cons.IH [OF rest] Cons.prems(2) commit_staged_file_Inr [OF step] show ?case
    by (auto simp: overlay_def entry staged_value_def fun_eq_iff split: option.splits staged_file.splits)
qed

text \<open>A commit, whether it succeeds or not, changes the staged paths only.\<close>

lemma fs_write_frame: "q \<noteq> p \<Longrightarrow> preserves (\<lambda>fs. file_contents fs q = x) (fs_write p content)"
  by (rule preservesI) (auto simp: fs_write_def split: option.splits)

lemma fs_remove_file_frame: "q \<noteq> p \<Longrightarrow> preserves (\<lambda>fs. file_contents fs q = x) (fs_remove_file p)"
  by (rule preservesI) (auto simp: fs_remove_file_def split: option.splits node.splits)

lemma create_parent_dirs_frame: "preserves (\<lambda>fs. file_contents fs q = x) (create_parent_dirs p)"
  using create_parent_dirs_contents by (auto simp: preserves_def)

lemma commit_staged_file_frame:
  "q \<noteq> fst entry \<Longrightarrow> preserves (\<lambda>fs. file_contents fs q = x) (commit_staged_file entry)"
  by (auto simp: commit_staged_file_def split: prod.split staged_file.split
      intro!: preserves_and_then preserves_io_eff create_parent_dirs_frame fs_write_frame fs_remove_file_frame)

lemma commit_staged_files_frame:
  "q \<notin> fst ` set staged \<Longrightarrow> preserves (\<lambda>fs. file_contents fs q = x) (commit_staged_files staged)"
  unfolding commit_staged_files_def by (intro preserves_for_each commit_staged_file_frame) auto

section \<open>The tool\<close>

lemma prepare_patch_ok:
  assumes "prepare_patch m fs patch = Inr (document, paths, staged)" and "fs_tree fs"
  shows "parse_patch patch = Inr document
    \<and> patch_effect m document (file_contents fs) (overlay fs staged)
    \<and> staged_ok (\<lambda>p. p \<in> edit_path m ` set (target_paths document) \<and> editable fs p) staged"
proof -
  let ?names = "set (target_paths document)"
  let ?P = "\<lambda>p. p \<in> edit_path m ` ?names \<and> editable fs p"
  from assms(1) obtain entries where doc: "parse_patch patch = Inr document"
    and entries: "resolve_paths m fs (concat (map operation_paths document)) [] = Inr entries"
    and paths: "paths = bt_values entries" and staged: "validate_patch fs document paths = Inr staged"
    by (auto simp: prepare_patch_def edit_then_Inr_iff resolve_patch_paths_def)
  have "set (concat (map operation_paths document)) \<subseteq> ?names"
    by (auto simp: target_paths_def)
  moreover have "paths_ok m fs ?names (bt_values [])" by (simp add: paths_ok_def bt_values_def)
  ultimately have "paths_ok m fs ?names paths"
    unfolding paths by (intro resolve_paths_ok [OF entries])
  with requested_path_ok have by_request:
    "p = edit_path m s \<and> ?P p" if "map_of (path_by_request paths) s = Some p" for s p
    using that by blast
  from validate_operations_effect [OF staged [unfolded validate_patch_def] staged_ok_Nil assms(2) by_request]
  show ?thesis using doc by (simp add: overlay_Nil)
qed

text \<open>C32: a call of apply_patch that succeeds has the effect of the operations of the patch on the
  contents of the files, applied one after the other; and whatever its outcome, a file whose contents
  it changed is a target of the patch and neither its path nor the path the system has for it is
  sensitive.\<close>

theorem apply_patch_effect:
  assumes "fs_tree fs" and "apply_patch_text m patch fs = (fs', r)"
  shows "(\<forall>v. r = Inr v \<longrightarrow> (\<exists>document. parse_patch patch = Inr document
      \<and> patch_effect m document (file_contents fs) (file_contents fs')))
    \<and> (\<forall>p. file_contents fs' p \<noteq> file_contents fs p \<longrightarrow> (\<exists>document s. parse_patch patch = Inr document
      \<and> s \<in> set (target_paths document) \<and> p = edit_path m s \<and> editable fs p))"
proof (cases "prepare_patch m fs patch")
  case (Inl e)
  with assms(2) show ?thesis by (auto simp: apply_patch_text_def)
next
  case (Inr prepared)
  obtain document paths staged where prepared: "prepared = (document, paths, staged)"
    by (cases prepared) auto
  note ok = prepare_patch_ok [OF Inr [unfolded prepared] assms(1)]
  from ok have wf: "bt_wf staged" by (simp add: staged_ok_def)
  obtain fs1 c where commit: "commit_staged_files staged fs = (fs1, c)" by (cases "commit_staged_files staged fs")
  with assms(2) Inr prepared have fs': "fs' = fs1" and r: "\<exists>v. r = Inr v \<Longrightarrow> c = Inr ()"
    by (auto simp: apply_patch_text_def and_then_def split: sum.splits)
  have contents: "file_contents fs' = overlay fs staged" if "r = Inr v" for v
    using commit_staged_files_Inr [of staged fs fs1] bt_wf_distinct [OF wf] r that commit fs'
    by (auto simp: commit_staged_files_def bt_keys_def)
  have unchanged: "file_contents fs' p = file_contents fs p" if "p \<notin> fst ` set staged" for p
    using preservesD [OF commit_staged_files_frame [OF that, where x = "file_contents fs p"], of fs]
      commit fs' by simp
  have target: "p \<in> edit_path m ` set (target_paths document) \<and> editable fs p"
    if "file_contents fs' p \<noteq> file_contents fs p" for p
  proof -
    from unchanged that have "p \<in> fst ` set staged" by blast
    with ok show ?thesis unfolding staged_ok_def by blast
  qed
  show ?thesis
  proof (intro conjI allI impI)
    fix v assume "r = Inr v"
    with contents ok show "\<exists>document. parse_patch patch = Inr document
        \<and> patch_effect m document (file_contents fs) (file_contents fs')" by simp
  next
    fix p assume "file_contents fs' p \<noteq> file_contents fs p"
    from target [OF this] ok show "\<exists>document s. parse_patch patch = Inr document
        \<and> s \<in> set (target_paths document) \<and> p = edit_path m s \<and> editable fs p" by blast
  qed
qed

section \<open>A sample\<close>

definition sample_manager :: file_edit_manager where
  "sample_manager = file_edit_manager_new [RootDir, Normal ''w'']"

definition sample_files :: file_system where
  "sample_files =
     \<lparr>fs_nodes = (\<lambda>p. if p = [RootDir] \<or> p = [RootDir, Normal ''w''] then Some DirNode
        else if p = [RootDir, Normal ''w'', Normal ''a''] then Some (FileNode (''x'' @ newline)) else None),
      fs_fault = (\<lambda>_ _. None), fs_canonical = Some\<rparr>"

definition sample_patch :: string where
  "sample_patch = lines_text [''*** Begin Patch'', ''*** Update File: a'', ''@@'', ''-x'', ''+y'',
     ''*** Move File: a -> d/b'', ''*** End Patch'']"

lemma sample_files_tree: "fs_tree sample_files"
  by (auto simp: fs_tree_def sample_files_def ancestors_def upt_rec split: if_splits)

theorem apply_patch_effect_witness:
  "patch_effect sample_manager
     [PatchUpdate ''a'' [\<lparr>ph_old = ''x'' @ newline, ph_new = ''y'' @ newline\<rparr>] None, PatchMove ''a'' ''d/b'']
     (file_contents sample_files)
     (file_contents (fst (apply_patch_text sample_manager sample_patch sample_files)))"
proof -
  have "(case snd (apply_patch_text sample_manager sample_patch sample_files) of Inr v \<Rightarrow> True | Inl e \<Rightarrow> False)"
    by code_simp
  then obtain fs' v where call: "apply_patch_text sample_manager sample_patch sample_files = (fs', Inr v)"
    by (cases "apply_patch_text sample_manager sample_patch sample_files") (auto split: sum.splits)
  have "parse_patch sample_patch = Inr
     [PatchUpdate ''a'' [\<lparr>ph_old = ''x'' @ newline, ph_new = ''y'' @ newline\<rparr>] None, PatchMove ''a'' ''d/b'']"
    by code_simp
  with apply_patch_effect [OF sample_files_tree call] call show ?thesis by auto
qed

section \<open>Cases the code does not handle\<close>

text \<open>Two spellings of a path in one patch: only one is found again.\<close>

lemma second_spelling_panics:
  "snd (apply_patch_text sample_manager (lines_text [''*** Begin Patch'', ''*** Update File: a'', ''@@'',
      ''-x'', ''+y'', ''*** Delete File: ./a'', ''*** End Patch'']) sample_files)
   = Inl (EditPanic ''patch path is resolved'')"
  by code_simp

text \<open>
  A patch that adds a file and deletes it again passes the validation and fails in the commit, after
  another file was changed.
\<close>

lemma added_and_deleted_fails:
  "let (fs', r) = apply_patch_text sample_manager (lines_text [''*** Begin Patch'', ''*** Update File: a'',
      ''@@'', ''-x'', ''+y'', ''*** Add File: b'', ''+z'', ''*** Delete File: b'', ''*** End Patch'']) sample_files
   in r = Inl (edit_io ''delete_failed'' [RootDir, Normal ''w'', Normal ''b''] NotFound)
      \<and> file_contents fs' [RootDir, Normal ''w'', Normal ''a''] = Some (''y'' @ newline)"
  by code_simp

text \<open>A match of a hunk may start inside a line, and matches that overlap count as one.\<close>

lemma hunk_inside_line:
  "apply_hunk (''ab'' @ newline) \<lparr>ph_old = ''b'' @ newline, ph_new = ''c'' @ newline\<rparr> [] = Inr (''ac'' @ newline)"
  by code_simp

lemma overlapping_matches:
  "apply_hunk (lines_text [''x'', ''x'', ''x'']) \<lparr>ph_old = lines_text [''x'', ''x''], ph_new = ''y'' @ newline\<rparr> []
   = Inr (lines_text [''y'', ''x''])"
  by code_simp

end
