(* ===== verification/Approval.thy ===== *)
theory Approval
  imports Command_Safety Patch_Document Tool_Inputs Providers
begin

text \<open>
  The built-in approval of tool calls (\<open>crates/noloong-agent/src/approval/\<close>): the classification of a
  call, the keys under which a session remembers what was approved, and the hook that allows, denies
  or asks.
\<close>

section \<open>Cache keys\<close>

fun canonical_json :: "json \<Rightarrow> json" where
  "canonical_json (JArray vs) = JArray (map canonical_json vs)"
| "canonical_json (JObject m) =
     JObject (bt_collect (bt_collect (map (\<lambda>(k, v). (k, canonical_json v)) m)))"
| "canonical_json v = v"

definition cache_key_from_json :: "json_text \<Rightarrow> json \<Rightarrow> string" where
  "cache_key_from_json js v = js_show js (canonical_json v)"

definition host_exec_start_cache_key :: "json_text \<Rightarrow> start_command_request \<Rightarrow> string" where
  "host_exec_start_cache_key js r =
     (let number = json_of_option (\<lambda>n. JInt (int n))
      in cache_key_from_json js (json_object
        [(''tool'', JString (built_in_as_str HostExecStart)), (''command'', JString (scr_command r)),
         (''shell'', json_of_option JString (scr_shell r)), (''cwd'', json_of_option JString (scr_cwd r)),
         (''env'', JObject (map (\<lambda>(k, v). (k, json_of_option JString v)) (scr_env r))),
         (''pipeStdin'', JBool (scr_pipe_stdin r)),
         (''foregroundWaitMs'', number (scr_foreground_wait_ms r)),
         (''maxSpoolBytes'', number (scr_max_spool_bytes r))]))"

definition host_exec_start_approval_input ::
  "json_text \<Rightarrow> tool_call \<Rightarrow> (start_command_request \<times> string) option" where
  "host_exec_start_approval_input js call =
     map_option (\<lambda>r. (r, host_exec_start_cache_key js r)) (parse_start_command_request (tc_arguments call))"

definition approval_cache_key_for_tool_call :: "json_text \<Rightarrow> tool_call \<Rightarrow> string option" where
  "approval_cache_key_for_tool_call js call =
     Option.bind (built_in_parse (tc_name call)) (\<lambda>name.
       case name of
         HostExecStart \<Rightarrow> map_option snd (host_exec_start_approval_input js call)
       | HostExecWrite \<Rightarrow>
           map_option (\<lambda>job. cache_key_from_json js
               (json_object [(''tool'', JString (built_in_as_str name)), (''jobId'', JString job)]))
             (Option.bind (json_get (tc_arguments call) ''jobId'') json_as_str)
       | HostExecTerminate \<Rightarrow>
           map_option (\<lambda>job. cache_key_from_json js
               (json_object [(''tool'', JString (built_in_as_str name)), (''jobId'', JString job)]))
             (Option.bind (json_get (tc_arguments call) ''jobId'') json_as_str)
       | _ \<Rightarrow> None)"

definition BUILT_IN_APPROVAL_HOOK_ID :: string where
  "BUILT_IN_APPROVAL_HOOK_ID = ''noloong.builtin.approval''"
definition APPROVAL_CACHE_KEY_METADATA :: string where
  "APPROVAL_CACHE_KEY_METADATA = ''approvalCacheKey''"

definition cache_key_from_approval_resolution ::
  "json_text \<Rightarrow> tool_approval_request \<Rightarrow> tool_permission_decision \<Rightarrow> string option" where
  "cache_key_from_approval_resolution js approval decision =
     (if tar_hook_id approval \<noteq> Some BUILT_IN_APPROVAL_HOOK_ID \<or> dec_outcome decision \<noteq> Allow then None
      else Option.bind (Option.bind (json_get (tas_metadata (tar_request approval)) APPROVAL_CACHE_KEY_METADATA)
              json_as_str) (\<lambda>metadata_key.
           Option.bind (approval_cache_key_for_tool_call js (tar_tool_call approval)) (\<lambda>tool_call_key.
           if metadata_key = tool_call_key then Some metadata_key else None)))"

text \<open>\<open>AgentSession::record_tool_approval_resolution\<close>: the cache, and whether the key is new.\<close>

type_synonym approval_cache = "string set"

definition record_tool_approval_resolution ::
  "json_text \<Rightarrow> tool_approval_request \<Rightarrow> tool_permission_decision \<Rightarrow> approval_cache \<Rightarrow> approval_cache \<times> bool" where
  "record_tool_approval_resolution js approval decision cache =
     (case cache_key_from_approval_resolution js approval decision of
        None \<Rightarrow> (cache, False)
      | Some key \<Rightarrow> (insert key cache, key \<notin> cache))"

section \<open>Decisions and metadata\<close>

definition allow_decision :: "string \<Rightarrow> string \<Rightarrow> json \<Rightarrow> tool_permission_decision" where
  "allow_decision reason approver metadata =
     \<lparr>dec_outcome = Allow, dec_reason = Some reason, dec_approver = Some approver, dec_metadata = metadata\<rparr>"

definition deny_decision :: "string \<Rightarrow> string \<Rightarrow> json \<Rightarrow> tool_permission_decision" where
  "deny_decision reason approver metadata =
     \<lparr>dec_outcome = Deny, dec_reason = Some reason, dec_approver = Some approver, dec_metadata = metadata\<rparr>"

definition tool_metadata_fields :: "tool_call \<Rightarrow> (string \<times> json) list" where
  "tool_metadata_fields call =
     [(''toolName'', JString (tc_name call)), (''toolCallId'', JString (tc_id call))]"

definition tool_metadata :: "tool_call \<Rightarrow> json" where
  "tool_metadata call = json_object (tool_metadata_fields call)"

definition human_reviewer_tool_metadata :: "tool_call \<Rightarrow> json" where
  "human_reviewer_tool_metadata call =
     json_object (tool_metadata_fields call @ [(''reviewer'', JString ''human'')])"

section \<open>Classification\<close>

datatype approval_class = ClassAllow | ClassNeedsApproval | ClassDeny

fun class_as_str :: "approval_class \<Rightarrow> string" where
  "class_as_str ClassAllow = ''allow''"
| "class_as_str ClassNeedsApproval = ''needs_approval''"
| "class_as_str ClassDeny = ''deny''"

record approval_classification =
  cl_decision :: approval_class
  cl_source :: string
  cl_reason :: string
  cl_cache_key :: "string option"
  cl_extra_metadata :: json_map

definition classification ::
  "approval_class \<Rightarrow> string \<Rightarrow> string \<Rightarrow> string option \<Rightarrow> approval_classification" where
  "classification decision source reason cache_key =
     \<lparr>cl_decision = decision, cl_source = source, cl_reason = reason, cl_cache_key = cache_key,
      cl_extra_metadata = []\<rparr>"

definition with_metadata :: "string \<Rightarrow> json \<Rightarrow> approval_classification \<Rightarrow> approval_classification" where
  "with_metadata key v c = c\<lparr>cl_extra_metadata := bt_insert key v (cl_extra_metadata c)\<rparr>"

fun classification_metadata :: "approval_classification \<Rightarrow> json \<Rightarrow> json" where
  "classification_metadata c (JObject m) =
     JObject (bt_extend m
       ([(''classificationSource'', JString (cl_source c)), (''classificationReason'', JString (cl_reason c)),
         (''classificationDecision'', JString (class_as_str (cl_decision c)))]
        @ (case cl_cache_key c of None \<Rightarrow> [] | Some key \<Rightarrow> [(APPROVAL_CACHE_KEY_METADATA, JString key)])
        @ cl_extra_metadata c))"
| "classification_metadata c base = base"

definition terminal_decision ::
  "approval_classification \<Rightarrow> string \<Rightarrow> tool_call \<Rightarrow> tool_permission_decision option" where
  "terminal_decision c default_reason call =
     (let metadata = classification_metadata c (tool_metadata call)
      in case cl_decision c of
        ClassAllow \<Rightarrow> Some (allow_decision default_reason ''policy'' metadata)
      | ClassDeny \<Rightarrow> Some (deny_decision (cl_reason c) ''policy'' metadata)
      | ClassNeedsApproval \<Rightarrow> None)"

text \<open>\<open>host.exec.start\<close> is classified before the other tools.\<close>

definition lifecycle_tools :: "built_in_tool_name set" where
  "lifecycle_tools =
     {HostExecRead, HostExecWait, HostExecList, SubagentSpawn, SubagentWait, SubagentResult, SubagentList,
      GoalUpdate}"

definition classify_built_in_tool :: "built_in_tool_name \<Rightarrow> string option \<Rightarrow> approval_classification" where
  "classify_built_in_tool name cache_key =
     (if name \<in> lifecycle_tools
      then classification ClassAllow ''built_in_tool'' ''allowed built-in host lifecycle operation'' cache_key
      else if name = ManifestProposePatch
      then classification ClassNeedsApproval ''built_in_tool'' ''manifest changes require approval'' cache_key
      else classification ClassNeedsApproval ''built_in_tool''
        ''host command control operation requires approval'' cache_key)"

definition file_edit_target_paths :: "tool_call \<Rightarrow> string list option" where
  "file_edit_target_paths call =
     (if tc_name call = ''write_file''
      then map_option (\<lambda>p. [p]) (Option.bind (json_get (tc_arguments call) ''path'') json_as_str)
      else if tc_name call = ''apply_patch''
      then Option.bind (Option.bind (json_get (tc_arguments call) ''patch'') json_as_str) (\<lambda>patch.
        Option.bind (apply_patch_target_paths patch) (\<lambda>paths. if paths = [] then None else Some paths))
      else None)"

definition classify_file_edit_tool :: "tool_call \<Rightarrow> approval_classification option" where
  "classify_file_edit_tool call =
     (if tc_name call \<noteq> ''write_file'' \<and> tc_name call \<noteq> ''apply_patch'' then None
      else let c = with_metadata ''tool'' (JString (tc_name call)) (with_metadata ''builtIn'' (JBool True)
             (with_metadata ''capability'' (JString ''host.file.write'')
               (classification ClassNeedsApproval ''file_edit'' ''file edits require approval'' None)))
        in Some (case file_edit_target_paths call of
             None \<Rightarrow> c
           | Some paths \<Rightarrow> with_metadata ''targetPaths'' (JArray (map JString paths)) c))"

definition classify_host_exec_start ::
  "start_command_request option \<Rightarrow> string option \<Rightarrow> approval_classification" where
  "classify_host_exec_start request cache_key =
     (let needs = (\<lambda>reason. classification ClassNeedsApproval ''host_command'' reason cache_key)
      in case request of
        None \<Rightarrow> needs ''host command arguments could not be classified''
      | Some r \<Rightarrow>
          if is_blank (scr_command r)
          then classification ClassDeny ''host_command'' ''host command is empty'' cache_key
          else case classify_host_command (scr_command r) (scr_shell r) of
            Safe \<Rightarrow> classification ClassAllow ''host_command'' ''known safe read-only host command'' cache_key
          | Dangerous \<Rightarrow> needs ''dangerous host command requires approval''
          | Unknown \<Rightarrow> needs ''unknown host command requires approval'')"

section \<open>The hook\<close>

datatype approval_policy = AllowAll | RequireApproval | AutoReview bool

record approval_texts =
  at_allow_reason :: string
  at_human_required_reason :: string
  at_human_fallback_reason :: string
  at_auto_review_denied_reason :: string
  at_prompt :: "tool_call \<Rightarrow> string"

type_synonym 'w approval_reviewer =
  "before_tool_call_context \<Rightarrow> ('w, agent_core_error, tool_permission_decision) eff"

record 'w approval_hook =
  ah_policy :: approval_policy
  ah_texts :: approval_texts
  ah_reviewer :: "'w approval_reviewer option"
  ah_cache :: "approval_cache option"

definition cached_classification ::
  "approval_cache option \<Rightarrow> string option \<Rightarrow> approval_classification option" where
  "cached_classification cache cache_key =
     (case (cache_key, cache) of
        (Some key, Some keys) \<Rightarrow>
          if key \<in> keys
          then Some (classification ClassAllow ''session_cache''
            ''tool call matches a previous session approval'' cache_key)
          else None
      | _ \<Rightarrow> None)"

definition classify_call ::
  "json_text \<Rightarrow> approval_cache option \<Rightarrow> tool_call \<Rightarrow> approval_classification" where
  "classify_call js cache call =
     (case classify_file_edit_tool call of
        Some c \<Rightarrow> c
      | None \<Rightarrow>
          (case built_in_parse (tc_name call) of
             Some HostExecStart \<Rightarrow>
               (let request = host_exec_start_approval_input js call;
                    cache_key = map_option snd request
                in case cached_classification cache cache_key of
                  Some c \<Rightarrow> c
                | None \<Rightarrow> classify_host_exec_start (map_option fst request) cache_key)
           | Some name \<Rightarrow>
               (let cache_key = approval_cache_key_for_tool_call js call
                in case cached_classification cache cache_key of
                  Some c \<Rightarrow> c
                | None \<Rightarrow> classify_built_in_tool name cache_key)
           | None \<Rightarrow> classification ClassNeedsApproval ''unknown_tool'' ''unknown tools require approval'' None))"

definition approval_request ::
  "approval_texts \<Rightarrow> tool_call \<Rightarrow> approval_classification \<Rightarrow> string \<Rightarrow> tool_approval_request_spec" where
  "approval_request texts call c reason =
     \<lparr>tas_prompt = Some (at_prompt texts call), tas_reason = Some reason, tas_expires_at_ms = None,
      tas_metadata = classification_metadata c (human_reviewer_tool_metadata call)\<rparr>"

definition result_from_classification ::
  "approval_texts \<Rightarrow> tool_call \<Rightarrow> approval_classification \<Rightarrow> before_tool_call_result" where
  "result_from_classification texts call c =
     (case terminal_decision c (at_allow_reason texts) call of
        Some d \<Rightarrow> Decision d
      | None \<Rightarrow> Approval (approval_request texts call c (at_human_required_reason texts)))"

definition result_with_auto_review ::
  "'w approval_hook \<Rightarrow> before_tool_call_context \<Rightarrow> approval_classification \<Rightarrow> bool
   \<Rightarrow> ('w, agent_core_error, before_tool_call_result) eff" where
  "result_with_auto_review hook context c fallback_to_human =
     (let texts = ah_texts hook; call = btc_tool_call context
      in case terminal_decision c (at_allow_reason texts) call of
        Some d \<Rightarrow> ok (Decision d)
      | None \<Rightarrow>
          (case ah_reviewer hook of
             Some reviewer \<Rightarrow> and_then (reviewer context) (\<lambda>d. ok (Decision d))
           | None \<Rightarrow>
               if fallback_to_human
               then ok (Approval (approval_request texts call c (at_human_fallback_reason texts)))
               else ok (Decision (deny_decision (at_auto_review_denied_reason texts) ''policy''
                 (json_object [(''policy'', JString ''auto_review''), (''fallbackToHuman'', JBool False)])))))"

definition approval_before_tool_call ::
  "json_text \<Rightarrow> 'w approval_hook \<Rightarrow> before_tool_call_context
   \<Rightarrow> ('w, agent_core_error, before_tool_call_result option) eff" where
  "approval_before_tool_call js hook context =
     (let texts = ah_texts hook; call = btc_tool_call context; c = classify_call js (ah_cache hook) call
      in case ah_policy hook of
        AllowAll \<Rightarrow> ok (Some (Decision (allow_decision (at_allow_reason texts) ''policy''
          (json_object [(''policy'', JString ''allow_all'')]))))
      | RequireApproval \<Rightarrow> ok (Some (result_from_classification texts call c))
      | AutoReview fallback_to_human \<Rightarrow>
          and_then (result_with_auto_review hook context c fallback_to_human) (\<lambda>r. ok (Some r)))"

definition built_in_approval_hook :: "json_text \<Rightarrow> 'w approval_hook \<Rightarrow> 'w tool_call_hook" where
  "built_in_approval_hook js hook =
     \<lparr>th_id = Some BUILT_IN_APPROVAL_HOOK_ID,
      th_before_tool_call = approval_before_tool_call js hook,
      th_after_tool_call = (\<lambda>_. ok None)\<rparr>"

end
