(* ===== verification/Approval_Properties.thy ===== *)
theory Approval_Properties
  imports Approval
begin

text \<open>
  Why a call runs without asking: it is a lifecycle operation, a command classified as safe, or its key
  is the key of a call that was approved in the session; a reviewer decides under automatic review.
\<close>

section \<open>What a session remembers\<close>

type_synonym resolved_approval = "tool_approval_request \<times> tool_permission_decision"

definition session_cache :: "json_text \<Rightarrow> resolved_approval list \<Rightarrow> approval_cache" where
  "session_cache js log =
     fold (\<lambda>(approval, decision) cache. fst (record_tool_approval_resolution js approval decision cache)) log {}"

definition approves :: "json_text \<Rightarrow> resolved_approval \<Rightarrow> string \<Rightarrow> bool" where
  "approves js = (\<lambda>(approval, decision) key.
     dec_outcome decision = Allow \<and> tar_hook_id approval = Some BUILT_IN_APPROVAL_HOOK_ID
     \<and> approval_cache_key_for_tool_call js (tar_tool_call approval) = Some key)"

lemma recorded_key_approves:
  "cache_key_from_approval_resolution js approval decision = Some key \<Longrightarrow> approves js (approval, decision) key"
  by (auto simp: cache_key_from_approval_resolution_def approves_def split: if_splits bind_splits)

lemma session_cache_approved:
  assumes "key \<in> session_cache js log"
  shows "\<exists>a \<in> set log. approves js a key"
proof -
  have "key \<in> fold (\<lambda>(approval, decision) cache. fst (record_tool_approval_resolution js approval decision cache)) log cache
      \<Longrightarrow> key \<in> cache \<or> (\<exists>a \<in> set log. approves js a key)" for cache
  proof (induction log arbitrary: cache)
    case (Cons a log)
    obtain approval decision where a: "a = (approval, decision)" by (cases a)
    from Cons.prems have "key \<in> fold (\<lambda>(approval, decision) cache.
        fst (record_tool_approval_resolution js approval decision cache)) log
          (fst (record_tool_approval_resolution js approval decision cache))"
      by (simp add: a)
    from Cons.IH [OF this] show ?case
      by (auto simp: a record_tool_approval_resolution_def dest: recorded_key_approves split: option.splits)
  qed simp
  from this [of "{}"] assms show ?thesis by (simp add: session_cache_def)
qed

section \<open>Why a call is allowed\<close>

definition safe_start :: "tool_call \<Rightarrow> bool" where
  "safe_start call =
     (tc_name call = built_in_as_str HostExecStart
      \<and> (case parse_start_command_request (tc_arguments call) of
           None \<Rightarrow> False
         | Some r \<Rightarrow> \<not> is_blank (scr_command r) \<and> classify_host_command (scr_command r) (scr_shell r) = Safe))"

lemma classification_sel [simp]:
  "cl_decision (classification d source reason key) = d"
  "cl_decision (with_metadata k v c) = cl_decision c"
  by (simp_all add: classification_def with_metadata_def)

lemma classify_file_edit_needs:
  "classify_file_edit_tool call = Some c \<Longrightarrow> cl_decision c = ClassNeedsApproval"
  by (auto simp: classify_file_edit_tool_def Let_def split: if_splits option.splits)

lemma cached_classification_Some:
  "cached_classification cache key = Some c \<Longrightarrow> \<exists>k keys. key = Some k \<and> cache = Some keys \<and> k \<in> keys"
  by (auto simp: cached_classification_def split: option.splits if_splits)

lemma classify_host_exec_start_allow:
  "cl_decision (classify_host_exec_start request key) = ClassAllow \<Longrightarrow>
   \<exists>r. request = Some r \<and> \<not> is_blank (scr_command r) \<and> classify_host_command (scr_command r) (scr_shell r) = Safe"
  by (auto simp: classify_host_exec_start_def Let_def split: option.splits if_splits command_safety.splits)

lemma classify_built_in_allow:
  "cl_decision (classify_built_in_tool name key) = ClassAllow \<Longrightarrow> name \<in> lifecycle_tools"
  by (auto simp: classify_built_in_tool_def split: if_splits)

lemma start_key:
  "tc_name call = built_in_as_str HostExecStart \<Longrightarrow>
   approval_cache_key_for_tool_call js call = map_option snd (host_exec_start_approval_input js call)"
  by (simp add: approval_cache_key_for_tool_call_def built_in_parse_as_str del: built_in_as_str.simps)

definition allowed_class :: "json_text \<Rightarrow> approval_cache option \<Rightarrow> tool_call \<Rightarrow> bool" where
  "allowed_class js cache call =
     ((\<exists>name \<in> lifecycle_tools. tc_name call = built_in_as_str name) \<or> safe_start call
      \<or> (\<exists>key keys. cache = Some keys \<and> key \<in> keys \<and> approval_cache_key_for_tool_call js call = Some key))"

lemma classify_call_allow:
  assumes "cl_decision (classify_call js cache call) = ClassAllow"
  shows "allowed_class js cache call"
proof (cases "classify_file_edit_tool call")
  case (Some c)
  with assms classify_file_edit_needs [OF Some] show ?thesis by (simp add: classify_call_def)
next
  case None
  note no_edit = None
  show ?thesis
  proof (cases "built_in_parse (tc_name call)")
    case None
    with no_edit assms show ?thesis by (simp add: classify_call_def)
  next
    case (Some name)
    then have name: "tc_name call = built_in_as_str name" by (simp add: built_in_parse_Some)
    show ?thesis
    proof (cases "name = HostExecStart")
      case True
      let ?request = "host_exec_start_approval_input js call"
      show ?thesis
      proof (cases "cached_classification cache (map_option snd ?request)")
        case None
        with True no_edit Some assms
        have "cl_decision (classify_host_exec_start (map_option fst ?request) (map_option snd ?request)) = ClassAllow"
          by (simp add: classify_call_def Let_def)
        from classify_host_exec_start_allow [OF this] name True show ?thesis
          by (auto simp: allowed_class_def safe_start_def host_exec_start_approval_input_def)
      next
        case (Some c)
        from cached_classification_Some [OF this] start_key [of call js] name True show ?thesis
          by (auto simp: allowed_class_def simp del: built_in_as_str.simps)
      qed
    next
      case False
      let ?key = "approval_cache_key_for_tool_call js call"
      show ?thesis
      proof (cases "cached_classification cache ?key")
        case None
        with False no_edit Some assms have "cl_decision (classify_built_in_tool name ?key) = ClassAllow"
          by (cases name) (simp_all add: classify_call_def Let_def)
        from classify_built_in_allow [OF this] name show ?thesis by (auto simp: allowed_class_def)
      next
        case (Some c)
        from cached_classification_Some [OF this] show ?thesis by (auto simp: allowed_class_def)
      qed
    qed
  qed
qed

lemma terminal_decision_outcome:
  "terminal_decision c reason call = Some d \<Longrightarrow> dec_outcome d = Allow \<Longrightarrow> cl_decision c = ClassAllow"
  by (auto simp: terminal_decision_def deny_decision_def Let_def split: approval_class.splits)

text \<open>C33: in a session with the approvals of the log, a call that the built-in hook allows without
  asking, under another policy than allowing everything, is a lifecycle operation of the host tools,
  starts a command that is classified as safe, has the cache key of a call that a human allowed in the
  session, or was allowed by the reviewer of the automatic review.\<close>

theorem allowed_without_asking:
  assumes "ah_policy hook \<noteq> AllowAll" and "ah_cache hook = Some (session_cache js log)"
    and "approval_before_tool_call js hook context w = (w', Inr (Some (Decision d)))" and "dec_outcome d = Allow"
  shows "(\<exists>name \<in> lifecycle_tools. tc_name (btc_tool_call context) = built_in_as_str name)
    \<or> safe_start (btc_tool_call context)
    \<or> (\<exists>a \<in> set log. \<exists>key. approves js a key
        \<and> approval_cache_key_for_tool_call js (btc_tool_call context) = Some key)
    \<or> (\<exists>fallback reviewer. ah_policy hook = AutoReview fallback \<and> ah_reviewer hook = Some reviewer
        \<and> reviewer context w = (w', Inr d))"
proof -
  let ?call = "btc_tool_call context"
  let ?c = "classify_call js (ah_cache hook) ?call"
  let ?terminal = "terminal_decision ?c (at_allow_reason (ah_texts hook)) ?call"
  have allowed: ?thesis if "?terminal = Some d"
    using classify_call_allow [OF terminal_decision_outcome [OF that assms(4)]] assms(2) session_cache_approved
    by (fastforce simp: allowed_class_def)
  show ?thesis
  proof (cases "ah_policy hook")
    case RequireApproval
    with assms(3) have "?terminal = Some d"
      by (auto simp: approval_before_tool_call_def result_from_classification_def Let_def split: option.splits)
    then show ?thesis by (rule allowed)
  next
    case (AutoReview fallback)
    show ?thesis
    proof (cases ?terminal)
      case None
      with AutoReview assms(3,4) obtain reviewer where "ah_reviewer hook = Some reviewer"
        "reviewer context w = (w', Inr d)"
        by (auto simp: approval_before_tool_call_def result_with_auto_review_def deny_decision_def Let_def
            elim!: and_then_InrE split: option.splits if_splits)
      with AutoReview show ?thesis by blast
    next
      case (Some d')
      with AutoReview assms(3) have "d' = d"
        by (auto simp: approval_before_tool_call_def result_with_auto_review_def Let_def elim!: and_then_InrE)
      with Some allowed show ?thesis by simp
    qed
  qed (use assms(1) in simp)
qed

section \<open>A sample\<close>

definition sample_js :: json_text where
  "sample_js =
     \<lparr>js_parse = (\<lambda>s. Inr JNull),
      js_show = (\<lambda>v. case v of
          JObject m \<Rightarrow> concat (map (\<lambda>(k, v). case v of JString s \<Rightarrow> k @ '':'' @ s | _ \<Rightarrow> k) m)
        | _ \<Rightarrow> [])\<rparr>"

definition start_call :: "(string \<times> json) list \<Rightarrow> tool_call" where
  "start_call arguments =
     \<lparr>tc_id = ''c'', tc_name = ''host.exec.start'', tc_arguments = json_object arguments\<rparr>"

definition sample_context :: "tool_call \<Rightarrow> before_tool_call_context" where
  "sample_context call =
     \<lparr>btc_run_id = ''r'', btc_turn_id = 1, btc_tool_call = call,
      btc_tool_spec = sequential_tool_spec (tc_name call) [] JNull ''host.command'' [],
      btc_state = agent_state_default\<rparr>"

definition sample_texts :: approval_texts where
  "sample_texts =
     \<lparr>at_allow_reason = ''allowed by application approval policy'',
      at_human_required_reason = ''human approval required'',
      at_human_fallback_reason = ''auto-review is disabled; human approval required'',
      at_auto_review_denied_reason = ''auto-review is disabled and human fallback is disabled'',
      at_prompt = tc_name\<rparr>"

definition python_call :: tool_call where
  "python_call = start_call [(''command'', JString ''python x.py'')]"

text \<open>What was asked for that call, and allowed.\<close>

definition sample_log :: "resolved_approval list" where
  "sample_log =
     [(\<lparr>tar_approval_id = ''a'', tar_tool_call = python_call, tar_permissions = [],
        tar_hook_id = Some BUILT_IN_APPROVAL_HOOK_ID,
        tar_request = approval_request sample_texts python_call (classify_call sample_js (Some {}) python_call) []\<rparr>,
       allow_decision ''approved'' ''human'' JNull)]"

definition sample_hook :: "unit approval_hook" where
  "sample_hook =
     \<lparr>ah_policy = RequireApproval, ah_texts = sample_texts, ah_reviewer = None,
      ah_cache = Some (session_cache sample_js sample_log)\<rparr>"

theorem allowed_without_asking_witness:
  "\<exists>a \<in> set sample_log. \<exists>key. approves sample_js a key
     \<and> approval_cache_key_for_tool_call sample_js python_call = Some key"
proof -
  have "(case approval_before_tool_call sample_js sample_hook (sample_context python_call) () of
      (w, Inr (Some (Decision d))) \<Rightarrow> dec_outcome d = Allow | _ \<Rightarrow> False)"
    by code_simp
  then obtain d where call:
    "approval_before_tool_call sample_js sample_hook (sample_context python_call) () = ((), Inr (Some (Decision d)))"
    and allow: "dec_outcome d = Allow"
    by (auto split: prod.splits sum.splits option.splits before_tool_call_result.splits)
  have hook: "ah_policy sample_hook = RequireApproval" "ah_cache sample_hook = Some (session_cache sample_js sample_log)"
    by (simp_all add: sample_hook_def)
  have "\<not> safe_start python_call" by code_simp
  moreover have "\<not> (\<exists>name \<in> lifecycle_tools. tc_name python_call = built_in_as_str name)" by code_simp
  moreover have "btc_tool_call (sample_context python_call) = python_call" by (simp add: sample_context_def)
  ultimately show ?thesis
    using allowed_without_asking [OF _ hook(2) call allow] hook(1) by simp
qed

section \<open>A key determines the request\<close>

lemma bt_insert_last: "\<forall>k' \<in> fst ` set m. k' < k \<Longrightarrow> bt_insert k v m = m @ [(k, v)]"
  by (induction k v m rule: bt_insert.induct) auto

lemma bt_collect_sorted: "bt_wf m \<Longrightarrow> bt_collect m = m"
proof (induction m rule: rev_induct)
  case (snoc kv m)
  then show ?case
    by (cases kv) (auto simp: bt_wf_def sorted_wrt_append bt_collect_def bt_extend_def intro!: bt_insert_last)
qed (simp add: bt_collect_def bt_extend_def)

lemma canonical_object:
  assumes "bt_wf m"
  shows "canonical_json (JObject m) = JObject (map (\<lambda>(k, v). (k, canonical_json v)) m)"
proof -
  have "bt_wf (map (\<lambda>(k, v). (k, canonical_json v)) m)"
    using assms by (simp add: bt_wf_def comp_def case_prod_beta)
  then show ?thesis by (simp add: bt_collect_sorted)
qed

lemma canonical_get:
  "json_get (canonical_json (json_object kvs)) k = map_option canonical_json (map_of (rev kvs) k)"
  unfolding json_object_def canonical_object [OF bt_wf_collect]
  by (simp add: map_of_map map_of_bt_collect)

lemma canonical_scalar:
  "canonical_json (json_of_option JString o') = json_of_option JString o'"
  "canonical_json (json_of_option (\<lambda>n. JInt (int n)) n) = json_of_option (\<lambda>n. JInt (int n)) n"
  by (simp_all add: json_of_option_def split: option.split)

lemma json_of_option_inject:
  "json_of_option JString a = json_of_option JString b \<longleftrightarrow> a = b"
  "json_of_option (\<lambda>n. JInt (int n)) m = json_of_option (\<lambda>n. JInt (int n)) n \<longleftrightarrow> m = n"
  by (auto simp: json_of_option_def split: option.splits)

lemma canonical_env:
  assumes "bt_wf env"
  shows "canonical_json (JObject (map (\<lambda>(k, v). (k, json_of_option JString v)) env))
    = JObject (map (\<lambda>(k, v). (k, json_of_option JString v)) env)"
proof -
  have "bt_wf (map (\<lambda>(k, v). (k, json_of_option JString v)) env)"
    using assms by (simp add: bt_wf_def comp_def case_prod_beta)
  then show ?thesis by (simp only: canonical_object) (simp add: canonical_scalar comp_def case_prod_beta)
qed

lemma same_key_same_request:
  assumes "inj (js_show js)" and "bt_wf (scr_env r)" and "bt_wf (scr_env r')"
    and key: "host_exec_start_cache_key js r = host_exec_start_cache_key js r'"
  shows "r = r'"
proof -
  let ?fields = "\<lambda>r. [(''tool'', JString (built_in_as_str HostExecStart)), (''command'', JString (scr_command r)),
         (''shell'', json_of_option JString (scr_shell r)), (''cwd'', json_of_option JString (scr_cwd r)),
         (''env'', JObject (map (\<lambda>(k, v). (k, json_of_option JString v)) (scr_env r))),
         (''pipeStdin'', JBool (scr_pipe_stdin r)),
         (''foregroundWaitMs'', json_of_option (\<lambda>n. JInt (int n)) (scr_foreground_wait_ms r)),
         (''maxSpoolBytes'', json_of_option (\<lambda>n. JInt (int n)) (scr_max_spool_bytes r))]"
  from key assms(1) have "canonical_json (json_object (?fields r)) = canonical_json (json_object (?fields r'))"
    by (simp add: host_exec_start_cache_key_def cache_key_from_json_def Let_def inj_eq del: built_in_as_str.simps)
  then have get: "map_option canonical_json (map_of (rev (?fields r)) k)
      = map_option canonical_json (map_of (rev (?fields r')) k)" for k
    by (metis canonical_get)
  have env: "scr_env r = scr_env r'"
    using get [of "''env''"] assms(2,3)
    by (simp add: canonical_env del: canonical_json.simps)
      (auto dest!: map_injective intro: injI simp: json_of_option_inject)
  show ?thesis
    using get [of "''command''"] get [of "''shell''"] get [of "''cwd''"] get [of "''pipeStdin''"]
      get [of "''foregroundWaitMs''"] get [of "''maxSpoolBytes''"] env
    by (simp add: canonical_scalar json_of_option_inject)
qed

section \<open>What the classification does not look at\<close>

text \<open>The environment, from which the shell takes the directories of the commands, and the shell itself.\<close>

lemma environment_ignored:
  "cl_decision (classify_call sample_js None
     (start_call [(''command'', JString ''ls''), (''env'', json_object [(''PATH'', JString ''/tmp/evil'')])])) = ClassAllow"
  by code_simp

lemma shell_ignored:
  "cl_decision (classify_call sample_js None
     (start_call [(''command'', JString ''ls''), (''shell'', JString ''/tmp/evil/program'')])) = ClassAllow"
  by code_simp

text \<open>The key of a write has no text: one approval covers every later input of the job.\<close>

lemma write_key_without_text:
  "approval_cache_key_for_tool_call js \<lparr>tc_id = i, tc_name = ''host.exec.write'',
     tc_arguments = json_object [(''jobId'', JString job), (''text'', JString text)]\<rparr>
   = approval_cache_key_for_tool_call js \<lparr>tc_id = i', tc_name = ''host.exec.write'',
     tc_arguments = json_object [(''jobId'', JString job), (''text'', JString text')]\<rparr>"
  by (simp add: approval_cache_key_for_tool_call_def built_in_parse_as_str [of HostExecWrite, simplified]
      json_object_def map_of_bt_collect)

end
