(* ===== verification/Output_Buffer.thy ===== *)
theory Output_Buffer
  imports Utf8
begin

text \<open>
  The spooled output of a host process (\<open>OutputBuffer\<close> in \<open>crates/noloong-agent/src/process/manager.rs\<close>)
  and the limits on texts it uses (\<open>text.rs\<close>). The output is kept as numbered chunks, the oldest of
  which are dropped when there are too many bytes; a reader asks for what follows its cursor.
\<close>

section \<open>Texts of at most so many bytes\<close>

fun boundary_before :: "string \<Rightarrow> nat \<Rightarrow> nat" where
  "boundary_before s 0 = 0"
| "boundary_before s (Suc n) = (if is_char_boundary s (Suc n) then Suc n else boundary_before s n)"

definition prefix_to_bytes :: "string \<Rightarrow> nat \<Rightarrow> string" where
  "prefix_to_bytes s max_bytes =
     (if length s \<le> max_bytes then s else take (boundary_before s max_bytes) s)"

function boundary_after :: "string \<Rightarrow> nat \<Rightarrow> nat" where
  "boundary_after s n =
     (if n < length s \<and> \<not> is_char_boundary s n then boundary_after s (Suc n) else n)"
  by pat_completeness auto
termination
  by (relation "measure (\<lambda>(s, n). length s - n)") auto

declare boundary_after.simps [simp del]

definition suffix_to_bytes :: "string \<Rightarrow> nat \<Rightarrow> string" where
  "suffix_to_bytes s max_bytes =
     (if length s \<le> max_bytes then s else drop (boundary_after s (length s - max_bytes)) s)"

lemma boundary_before_le: "boundary_before s n \<le> n"
  by (induction s n rule: boundary_before.induct) auto

lemma length_prefix_to_bytes: "length (prefix_to_bytes s n) \<le> n"
  using boundary_before_le [of s n] by (simp add: prefix_to_bytes_def)

lemma prefix_prefix_to_bytes: "prefix (prefix_to_bytes s n) s"
  by (simp add: prefix_to_bytes_def take_is_prefix)

lemma boundary_after_ge: "n \<le> boundary_after s n"
proof (induction s n rule: boundary_after.induct)
  case (1 s n)
  then show ?case by (subst boundary_after.simps) (auto split: if_splits)
qed

lemma length_suffix_to_bytes: "length (suffix_to_bytes s n) \<le> n"
  using boundary_after_ge [of "length s - n" s] by (auto simp: suffix_to_bytes_def)

section \<open>The buffer\<close>

datatype process_output_stream = Stdout | Stderr

record output_chunk =
  oc_seq :: nat
  oc_stream :: process_output_stream
  oc_text :: string
  oc_byte_len :: nat

record output_buffer =
  ob_chunks :: "output_chunk list"
  ob_next_seq :: nat
  ob_dropped_before_seq :: nat
  ob_total_bytes :: nat
  ob_max_bytes :: nat

definition USIZE_MAX :: nat where
  "USIZE_MAX = 2 ^ 64 - 1"

definition buffer_new :: "nat \<Rightarrow> output_buffer" where
  "buffer_new max_bytes =
     \<lparr>ob_chunks = [], ob_next_seq = 1, ob_dropped_before_seq = 0, ob_total_bytes = 0,
      ob_max_bytes = max max_bytes 1024\<rparr>"

text \<open>The loop that drops the oldest chunks.\<close>

fun drop_excess :: "nat \<Rightarrow> output_chunk list \<Rightarrow> nat \<Rightarrow> nat \<Rightarrow> output_chunk list \<times> nat \<times> nat" where
  "drop_excess max_bytes [] tot dropped = ([], tot, dropped)"
| "drop_excess max_bytes (c # cs) tot dropped =
     (if max_bytes < tot then drop_excess max_bytes cs (tot - oc_byte_len c) (oc_seq c)
      else (c # cs, tot, dropped))"

definition make_chunk :: "nat \<Rightarrow> process_output_stream \<Rightarrow> string \<Rightarrow> output_chunk" where
  "make_chunk seq stream s = \<lparr>oc_seq = seq, oc_stream = stream, oc_text = s, oc_byte_len = length s\<rparr>"

definition push_chunk :: "process_output_stream \<Rightarrow> string \<Rightarrow> output_buffer \<Rightarrow> output_buffer" where
  "push_chunk stream bytes b =
     (let s = prefix_to_bytes (from_utf8_lossy bytes) (ob_max_bytes b);
          chunk = make_chunk (ob_next_seq b) stream s;
          (chunks, tot, dropped) = drop_excess (ob_max_bytes b) (ob_chunks b @ [chunk])
            (ob_total_bytes b + oc_byte_len chunk) (ob_dropped_before_seq b)
      in b\<lparr>ob_chunks := chunks, ob_next_seq := ob_next_seq b + 1, ob_dropped_before_seq := dropped,
           ob_total_bytes := tot\<rparr>)"

text \<open>\<open>slice::chunks\<close>.\<close>

function byte_chunks :: "nat \<Rightarrow> string \<Rightarrow> string list" where
  "byte_chunks n bytes =
     (if bytes = [] \<or> n = 0 then [] else take n bytes # byte_chunks n (drop n bytes))"
  by pat_completeness auto
termination
  by (relation "measure (\<lambda>(n, bytes). length bytes)") auto

declare byte_chunks.simps [simp del]

definition buffer_push :: "process_output_stream \<Rightarrow> string \<Rightarrow> output_buffer \<Rightarrow> output_buffer" where
  "buffer_push stream bytes b =
     fold (push_chunk stream) (byte_chunks (max (ob_max_bytes b) 1) bytes) b"

definition truncate_chunk :: "output_chunk \<Rightarrow> nat \<Rightarrow> output_chunk" where
  "truncate_chunk c max_bytes = make_chunk (oc_seq c) (oc_stream c) (prefix_to_bytes (oc_text c) max_bytes)"

definition truncate_chunk_tail :: "output_chunk \<Rightarrow> nat \<Rightarrow> output_chunk" where
  "truncate_chunk_tail c max_bytes = make_chunk (oc_seq c) (oc_stream c) (suffix_to_bytes (oc_text c) max_bytes)"

text \<open>The chunks that fit, in order; \<open>shorten\<close> shortens the first one that does not.\<close>

fun chunks_up_to ::
  "(output_chunk \<Rightarrow> nat \<Rightarrow> output_chunk) \<Rightarrow> nat \<Rightarrow> nat \<Rightarrow> output_chunk list \<Rightarrow> output_chunk list \<times> bool" where
  "chunks_up_to shorten max_bytes used [] = ([], False)"
| "chunks_up_to shorten max_bytes used (c # cs) =
     (let remaining = max_bytes - used
      in if remaining = 0 then ([], True)
         else if remaining < oc_byte_len c then ([shorten c remaining], True)
         else case chunks_up_to shorten max_bytes (used + oc_byte_len c) cs of (r, t) \<Rightarrow> (c # r, t))"

type_synonym buffer_view = "output_chunk list \<times> nat \<times> nat \<times> bool"

definition buffer_read :: "nat \<Rightarrow> nat option \<Rightarrow> output_buffer \<Rightarrow> buffer_view" where
  "buffer_read after_seq max_bytes b =
     (let dropped = ob_dropped_before_seq b;
          max_bytes = (case max_bytes of Some n \<Rightarrow> n | None \<Rightarrow> USIZE_MAX)
      in if max_bytes = 0 then ([], max after_seq dropped, dropped, True)
         else let (chunks, t) = chunks_up_to truncate_chunk max_bytes 0
                    (filter (\<lambda>c. after_seq < oc_seq c) (ob_chunks b))
           in (chunks, if chunks = [] then max after_seq dropped else oc_seq (last chunks), dropped,
               after_seq < dropped \<or> t))"

definition buffer_tail :: "nat \<Rightarrow> output_buffer \<Rightarrow> buffer_view" where
  "buffer_tail max_bytes b =
     (let dropped = ob_dropped_before_seq b;
          (selected, t) = chunks_up_to truncate_chunk_tail (max max_bytes 1) 0 (rev (ob_chunks b));
          chunks = rev selected
      in (chunks, ob_next_seq b - 1, dropped,
          0 < dropped \<or> t
          \<or> (chunks \<noteq> [] \<and> ob_chunks b \<noteq> [] \<and> oc_seq (hd (ob_chunks b)) < oc_seq (hd chunks))))"

section \<open>What was written\<close>

definition chunk_texts :: "nat \<Rightarrow> string \<Rightarrow> string list" where
  "chunk_texts max_bytes bytes =
     map (\<lambda>part. prefix_to_bytes (from_utf8_lossy part) max_bytes) (byte_chunks (max max_bytes 1) bytes)"

definition numbered :: "(process_output_stream \<times> string) list \<Rightarrow> output_chunk list" where
  "numbered h = map (\<lambda>(i, stream, s). make_chunk (Suc i) stream s) (enumerate 0 h)"

definition buffer_holds :: "nat \<Rightarrow> (process_output_stream \<times> string) list \<Rightarrow> output_buffer \<Rightarrow> bool" where
  "buffer_holds max_bytes h b =
     (ob_max_bytes b = max_bytes \<and> ob_next_seq b = length h + 1 \<and> ob_dropped_before_seq b \<le> length h
      \<and> ob_chunks b = drop (ob_dropped_before_seq b) (numbered h)
      \<and> ob_total_bytes b = sum_list (map oc_byte_len (ob_chunks b)) \<and> ob_total_bytes b \<le> max_bytes)"

lemma length_numbered [simp]: "length (numbered h) = length h"
  by (simp add: numbered_def)

lemma nth_numbered: "i < length h \<Longrightarrow> numbered h ! i = (case h ! i of (stream, s) \<Rightarrow> make_chunk (Suc i) stream s)"
  by (simp add: numbered_def nth_enumerate_eq split: prod.split)

lemma numbered_append [simp]: "numbered (h @ [(stream, s)]) = numbered h @ [make_chunk (Suc (length h)) stream s]"
  by (simp add: numbered_def enumerate_append_eq)

lemma seq_numbered: "i < length h \<Longrightarrow> oc_seq (numbered h ! i) = Suc i"
  by (simp add: nth_numbered make_chunk_def split: prod.split)

lemma drop_excess_drop:
  assumes "drop_excess m (drop d (numbered h)) tot d = (cs, tot', d')" and "d \<le> length h"
    and "tot = sum_list (map oc_byte_len (drop d (numbered h)))"
  shows "d' \<le> length h \<and> cs = drop d' (numbered h) \<and> tot' = sum_list (map oc_byte_len cs) \<and> tot' \<le> m"
  using assms
proof (induction "length h - d" arbitrary: d tot)
  case 0
  then show ?case by simp
next
  case (Suc n)
  then have "d < length h" by simp
  then have split: "drop d (numbered h) = numbered h ! d # drop (Suc d) (numbered h)"
    by (simp add: Cons_nth_drop_Suc)
  show ?case
  proof (cases "m < tot")
    case True
    with Suc.prems split \<open>d < length h\<close>
    have "drop_excess m (drop (Suc d) (numbered h)) (tot - oc_byte_len (numbered h ! d)) (Suc d) = (cs, tot', d')"
      by (simp add: seq_numbered)
    moreover have "n = length h - Suc d" using Suc.hyps(2) by simp
    moreover have "Suc d \<le> length h" using \<open>d < length h\<close> by simp
    moreover have "tot - oc_byte_len (numbered h ! d) = sum_list (map oc_byte_len (drop (Suc d) (numbered h)))"
      using Suc.prems(3) split by simp
    ultimately show ?thesis by (intro Suc.hyps(1))
  next
    case False
    with Suc.prems split show ?thesis by auto
  qed
qed

lemma push_chunk_holds:
  assumes "buffer_holds m h b"
  shows "buffer_holds m (h @ [(stream, prefix_to_bytes (from_utf8_lossy bytes) m)]) (push_chunk stream bytes b)"
proof -
  let ?s = "prefix_to_bytes (from_utf8_lossy bytes) m"
  let ?h = "h @ [(stream, ?s)]"
  obtain cs tot d where step: "drop_excess m (ob_chunks b @ [make_chunk (ob_next_seq b) stream ?s])
      (ob_total_bytes b + length ?s) (ob_dropped_before_seq b) = (cs, tot, d)"
    by (metis prod_cases3)
  from assms have chunks: "ob_chunks b @ [make_chunk (ob_next_seq b) stream ?s]
      = drop (ob_dropped_before_seq b) (numbered ?h)"
    by (simp add: buffer_holds_def)
  from assms have "ob_total_bytes b + length ?s
      = sum_list (map oc_byte_len (ob_chunks b @ [make_chunk (ob_next_seq b) stream ?s]))"
    by (simp add: buffer_holds_def make_chunk_def)
  with chunks have result: "d \<le> length ?h \<and> cs = drop d (numbered ?h) \<and> tot = sum_list (map oc_byte_len cs) \<and> tot \<le> m"
    using step assms by (intro drop_excess_drop [of m "ob_dropped_before_seq b" ?h]) (simp_all add: buffer_holds_def)
  from assms step have "push_chunk stream bytes b
      = b\<lparr>ob_chunks := cs, ob_next_seq := length ?h + 1, ob_dropped_before_seq := d, ob_total_bytes := tot\<rparr>"
    by (simp add: buffer_holds_def push_chunk_def make_chunk_def Let_def)
  with assms result show ?thesis by (auto simp: buffer_holds_def simp del: numbered_append)
qed

lemma buffer_push_holds:
  assumes "buffer_holds m h b"
  shows "buffer_holds m (h @ map (Pair stream) (chunk_texts m bytes)) (buffer_push stream bytes b)"
proof -
  have "buffer_holds m (h @ map (\<lambda>part. (stream, prefix_to_bytes (from_utf8_lossy part) m)) parts)
      (fold (push_chunk stream) parts b)" for parts
    using assms
  proof (induction parts arbitrary: h b)
    case (Cons part parts)
    from Cons.IH [OF push_chunk_holds [OF Cons.prems]] show ?case by simp
  qed simp
  moreover from assms have "ob_max_bytes b = m" by (simp add: buffer_holds_def)
  ultimately show ?thesis by (simp add: buffer_push_def chunk_texts_def comp_def)
qed

lemma buffer_new_holds: "buffer_holds (max m 1024) [] (buffer_new m)"
  by (simp add: buffer_holds_def buffer_new_def numbered_def)

section \<open>Reading after a cursor\<close>

lemma filter_numbered:
  "filter (\<lambda>c. a < oc_seq c) (drop d (numbered h)) = drop (max a d) (numbered h)"
proof (induction h rule: rev_induct)
  case Nil
  then show ?case by (simp add: numbered_def)
next
  case (snoc x h)
  obtain stream s where x: "x = (stream, s)" by (cases x)
  from snoc show ?case
    by (cases "d \<le> length h"; cases "a \<le> length h") (auto simp: x make_chunk_def max_def)
qed

lemma chunks_up_to_complete: "chunks_up_to shorten n used cs = (r, False) \<Longrightarrow> r = cs"
  by (induction shorten n used cs arbitrary: r rule: chunks_up_to.induct)
    (auto simp: Let_def split: if_splits prod.splits)

lemma chunks_up_to_seqs:
  assumes "\<And>c n. oc_seq (shorten c n) = oc_seq c" and "chunks_up_to shorten n used cs = (r, t)"
  shows "map oc_seq r = take (length r) (map oc_seq cs) \<and> length r \<le> length cs"
  using assms(2)
proof (induction cs arbitrary: used r t)
  case (Cons c cs)
  then show ?case
    by (auto simp: Let_def assms(1) split: if_splits prod.splits)
qed simp

lemma seq_truncate_chunk [simp]:
  "oc_seq (truncate_chunk c n) = oc_seq c" "oc_seq (truncate_chunk_tail c n) = oc_seq c"
  by (simp_all add: truncate_chunk_def truncate_chunk_tail_def make_chunk_def)

lemma seqs_numbered: "map oc_seq (drop d (numbered h)) = [Suc d..<Suc (length h)]"
  by (rule nth_equalityI) (auto simp: seq_numbered simp del: upt_Suc)

lemma buffer_read_next:
  assumes holds: "buffer_holds m h b" and cursor: "after_seq \<le> length h"
    and read: "buffer_read after_seq limit b = (cs, next_cursor, dropped, t)"
  shows "next_cursor \<le> length h
    \<and> next_cursor = max after_seq (ob_dropped_before_seq b) + length cs
    \<and> (\<not> t \<longrightarrow> ob_dropped_before_seq b \<le> after_seq \<and> cs = drop after_seq (numbered h))"
proof -
  let ?d = "ob_dropped_before_seq b"
  let ?c = "max after_seq ?d"
  let ?n = "case limit of Some n \<Rightarrow> n | None \<Rightarrow> USIZE_MAX"
  have le: "?c \<le> length h" using holds cursor by (simp add: buffer_holds_def)
  have rest: "filter (\<lambda>c. after_seq < oc_seq c) (ob_chunks b) = drop ?c (numbered h)"
    using holds by (simp add: buffer_holds_def filter_numbered)
  show ?thesis
  proof (cases "?n = 0")
    case True
    with read le show ?thesis by (auto simp: buffer_read_def Let_def simp del: upt_Suc)
  next
    case False
    obtain r u where run: "chunks_up_to truncate_chunk ?n 0 (drop ?c (numbered h)) = (r, u)"
      by (cases "chunks_up_to truncate_chunk ?n 0 (drop ?c (numbered h))")
    with read False have cs: "cs = r" and nxt: "next_cursor = (if r = [] then ?c else oc_seq (last r))"
      and t: "t \<longleftrightarrow> after_seq < ?d \<or> u"
      by (auto simp: buffer_read_def Let_def rest)
    from chunks_up_to_seqs [OF seq_truncate_chunk(1) run]
    have seqs: "map oc_seq r = take (length r) [Suc ?c..<Suc (length h)]" and len: "length r \<le> length h - ?c"
      by (simp_all add: seqs_numbered)
    from seqs len le have seqs': "map oc_seq r = [Suc ?c..<Suc (?c + length r)]"
      by (simp add: take_upt del: upt_Suc)
    have "next_cursor = ?c + length r"
    proof (cases "r = []")
      case False
      then have "oc_seq (last r) = last (map oc_seq r)" by (simp add: last_map)
      with False nxt show ?thesis by (simp add: seqs' del: upt_Suc)
    qed (simp add: nxt)
    moreover from this have "next_cursor \<le> length h" using len le by linarith
    moreover have "?d \<le> after_seq \<and> cs = drop after_seq (numbered h)" if "\<not> t"
      using that t run chunks_up_to_complete [of truncate_chunk ?n 0 "drop ?c (numbered h)" r] cs by (auto simp: max_def)
    ultimately show ?thesis by (simp add: cs)
  qed
qed

section \<open>A reader that follows its cursor\<close>

datatype buffer_op = PushBytes process_output_stream string | ReadUpTo "nat option"

record buffer_reader =
  br_buffer :: output_buffer
  br_cursor :: nat
  br_received :: "output_chunk list"
  br_truncated :: bool

fun reader_step :: "buffer_op \<Rightarrow> buffer_reader \<Rightarrow> buffer_reader" where
  "reader_step (PushBytes stream bytes) r = r\<lparr>br_buffer := buffer_push stream bytes (br_buffer r)\<rparr>"
| "reader_step (ReadUpTo limit) r =
     (case buffer_read (br_cursor r) limit (br_buffer r) of (chunks, next_cursor, dropped, t) \<Rightarrow>
        r\<lparr>br_cursor := next_cursor, br_received := br_received r @ chunks, br_truncated := br_truncated r \<or> t\<rparr>)"

definition run_reader :: "nat \<Rightarrow> buffer_op list \<Rightarrow> buffer_reader" where
  "run_reader max_bytes ops =
     fold reader_step ops
       \<lparr>br_buffer = buffer_new max_bytes, br_cursor = 0, br_received = [], br_truncated = False\<rparr>"

definition written :: "nat \<Rightarrow> buffer_op list \<Rightarrow> (process_output_stream \<times> string) list" where
  "written max_bytes ops =
     concat (map (\<lambda>op. case op of
         PushBytes stream bytes \<Rightarrow> map (Pair stream) (chunk_texts (max max_bytes 1024) bytes)
       | ReadUpTo limit \<Rightarrow> []) ops)"

definition reader_ok :: "nat \<Rightarrow> (process_output_stream \<times> string) list \<Rightarrow> buffer_reader \<Rightarrow> bool" where
  "reader_ok m h r =
     (buffer_holds m h (br_buffer r) \<and> br_cursor r \<le> length h
      \<and> (\<not> br_truncated r \<longrightarrow> br_received r = take (br_cursor r) (numbered h)))"

lemma take_numbered_append: "n \<le> length h \<Longrightarrow> take n (numbered (h @ h')) = take n (numbered h)"
  by (auto simp: numbered_def enumerate_append_eq)

lemma run_reader_ok: "reader_ok (max max_bytes 1024) (written max_bytes ops) (run_reader max_bytes ops)"
proof (induction ops rule: rev_induct)
  case Nil
  then show ?case by (simp add: reader_ok_def run_reader_def written_def buffer_new_holds)
next
  case (snoc op ops)
  let ?m = "max max_bytes 1024" and ?h = "written max_bytes ops" and ?r = "run_reader max_bytes ops"
  from snoc have holds: "buffer_holds ?m ?h (br_buffer ?r)" and cursor: "br_cursor ?r \<le> length ?h"
    and received: "\<not> br_truncated ?r \<Longrightarrow> br_received ?r = take (br_cursor ?r) (numbered ?h)"
    by (simp_all add: reader_ok_def)
  show ?case
  proof (cases op)
    case (PushBytes stream bytes)
    with buffer_push_holds [OF holds, of stream bytes] cursor received show ?thesis
      by (simp add: reader_ok_def run_reader_def written_def take_numbered_append)
  next
    case (ReadUpTo limit)
    obtain cs n d t where read: "buffer_read (br_cursor ?r) limit (br_buffer ?r) = (cs, n, d, t)"
      by (metis prod_cases4)
    note nxt = buffer_read_next [OF holds cursor read]
    have "br_received ?r @ cs = take n (numbered ?h)" if "\<not> br_truncated ?r" "\<not> t"
    proof -
      from nxt that have cs: "cs = drop (br_cursor ?r) (numbered ?h)" and "n = br_cursor ?r + length cs"
        by (auto simp: max_def)
      with cursor have "n = length ?h" by simp
      with received [OF that(1)] cs show ?thesis by simp
    qed
    with ReadUpTo read nxt holds show ?thesis
      by (auto simp: reader_ok_def run_reader_def written_def)
  qed
qed

text \<open>C34: a reader that follows the cursor it is given, with any limits and between any writes, and that
  is never told of a truncation, has received after its last read exactly the chunks that were written,
  each once and in order; and the buffer never holds more bytes than its limit.\<close>

theorem untruncated_reads_complete:
  assumes "\<not> br_truncated (run_reader max_bytes (ops @ [ReadUpTo limit]))"
  shows "br_received (run_reader max_bytes (ops @ [ReadUpTo limit])) = numbered (written max_bytes ops)
    \<and> ob_total_bytes (br_buffer (run_reader max_bytes ops)) \<le> max max_bytes 1024"
proof -
  let ?m = "max max_bytes 1024" and ?h = "written max_bytes ops" and ?r = "run_reader max_bytes ops"
  from run_reader_ok [of max_bytes ops] have holds: "buffer_holds ?m ?h (br_buffer ?r)"
    and cursor: "br_cursor ?r \<le> length ?h"
    and received: "\<not> br_truncated ?r \<Longrightarrow> br_received ?r = take (br_cursor ?r) (numbered ?h)"
    by (simp_all add: reader_ok_def)
  obtain cs n d t where read: "buffer_read (br_cursor ?r) limit (br_buffer ?r) = (cs, n, d, t)"
    by (metis prod_cases4)
  then have last: "run_reader max_bytes (ops @ [ReadUpTo limit])
      = ?r\<lparr>br_cursor := n, br_received := br_received ?r @ cs, br_truncated := br_truncated ?r \<or> t\<rparr>"
    by (simp add: run_reader_def)
  with assms have untruncated: "\<not> br_truncated ?r" "\<not> t" by simp_all
  with buffer_read_next [OF holds cursor read] have "cs = drop (br_cursor ?r) (numbered ?h)" by blast
  with received [OF untruncated(1)] last holds show ?thesis by (auto simp: buffer_holds_def)
qed

theorem untruncated_reads_complete_witness:
  "br_received (run_reader 0 [PushBytes Stdout ''ab'', ReadUpTo (Some 2), PushBytes Stderr ''c'', ReadUpTo (Some 64)])
   = [make_chunk 1 Stdout ''ab'', make_chunk 2 Stderr ''c'']"
proof -
  let ?ops = "[PushBytes Stdout ''ab'', ReadUpTo (Some 2), PushBytes Stderr ''c'']"
  have "\<not> br_truncated (run_reader 0 (?ops @ [ReadUpTo (Some 64)]))"
    and "numbered (written 0 ?ops) = [make_chunk 1 Stdout ''ab'', make_chunk 2 Stderr ''c'']"
    by code_simp+
  with untruncated_reads_complete [of 0 ?ops "Some 64"] show ?thesis by simp
qed

text \<open>
  The cursor goes past a chunk that was cut: the rest of it cannot be read any more. A character that is
  split between two reads of the pipe is replaced.
\<close>

lemma rest_of_cut_chunk_lost:
  "map oc_text (br_received (run_reader 0 [PushBytes Stdout ''abcdef'', ReadUpTo (Some 2), ReadUpTo (Some 64)])) = [''ab'']"
  by code_simp

lemma split_character_replaced:
  "map oc_text (br_received (run_reader 0 [PushBytes Stdout [CHR 0xC3], PushBytes Stdout [CHR 0xA9], ReadUpTo (Some 64)]))
   = [replacement_character, replacement_character]"
  by code_simp

end
