(* ===== verification/Process_Manager.thy ===== *)
theory Process_Manager
  imports Output_Buffer Tool_Inputs Command_Safety
begin

text \<open>
  The manager of host processes (\<open>crates/noloong-agent/src/process/manager.rs\<close>). A
  process itself, its pipes and the clock are outside: what they do is a list of events of a job (output
  that was read, a failed read, the end), given to the operation that waits for them.
\<close>

section \<open>Jobs\<close>

datatype job_status = Running | Exited "int option" | Terminated | Failed string

definition is_running :: "job_status \<Rightarrow> bool" where
  "is_running status = (status = Running)"

record job_handle =
  jh_job_id :: string
  jh_command :: string
  jh_shell :: string
  jh_cwd :: string
  jh_stdin :: bool
  jh_status :: job_status
  jh_ended_at_ms :: "nat option"
  jh_output :: output_buffer
  jh_started_at_ms :: nat

record job_snapshot =
  js_job_id :: string
  js_command :: string
  js_shell :: string
  js_cwd :: string
  js_status :: job_status
  js_started_at_ms :: nat
  js_ended_at_ms :: "nat option"
  js_next_cursor :: nat
  js_dropped_before_seq :: nat

definition snapshot_for_handle :: "job_handle \<Rightarrow> job_snapshot" where
  "snapshot_for_handle h =
     \<lparr>js_job_id = jh_job_id h, js_command = jh_command h, js_shell = jh_shell h, js_cwd = jh_cwd h,
      js_status = jh_status h, js_started_at_ms = jh_started_at_ms h, js_ended_at_ms = jh_ended_at_ms h,
      js_next_cursor = ob_next_seq (jh_output h) - 1,
      js_dropped_before_seq = ob_dropped_before_seq (jh_output h)\<rparr>"

record process_output =
  po_job_id :: string
  po_chunks :: "output_chunk list"
  po_next_cursor :: nat
  po_dropped_before_seq :: nat
  po_truncated :: bool
  po_status :: job_status

definition process_output_of :: "string \<Rightarrow> job_status \<Rightarrow> buffer_view \<Rightarrow> process_output" where
  "process_output_of job_id status = (\<lambda>(chunks, next_cursor, dropped, t).
     \<lparr>po_job_id = job_id, po_chunks = chunks, po_next_cursor = next_cursor,
      po_dropped_before_seq = dropped, po_truncated = t, po_status = status\<rparr>)"

text \<open>What the readers of the pipes and the watcher of the process do to a job, with the time.\<close>

datatype job_event =
    JobOutput process_output_stream string
  | JobReadError string nat
  | JobEnded job_status nat

fun apply_job_event :: "job_event \<Rightarrow> job_handle \<Rightarrow> job_handle" where
  "apply_job_event (JobOutput stream bytes) h = h\<lparr>jh_output := buffer_push stream bytes (jh_output h)\<rparr>"
| "apply_job_event (JobReadError message now) h =
     h\<lparr>jh_status := Failed message, jh_ended_at_ms := Some now\<rparr>"
| "apply_job_event (JobEnded status now) h =
     h\<lparr>jh_stdin := False, jh_status := (if is_running (jh_status h) then status else jh_status h),
       jh_ended_at_ms := Some (case jh_ended_at_ms h of None \<Rightarrow> now | Some t \<Rightarrow> t)\<rparr>"

text \<open>The completion that the listeners are told.\<close>

definition DEFAULT_COMPLETION_TAIL_BYTES :: nat where
  "DEFAULT_COMPLETION_TAIL_BYTES = 16 * 1024"

definition completion_for_handle :: "job_handle \<Rightarrow> job_snapshot \<times> process_output" where
  "completion_for_handle h =
     (snapshot_for_handle h,
      process_output_of (jh_job_id h) (jh_status h) (buffer_tail DEFAULT_COMPLETION_TAIL_BYTES (jh_output h)))"

section \<open>The manager\<close>

datatype process_error = Invalid string | UnknownJob string | SpawnError string | ProcessIo string

fun process_error_to_string :: "process_error \<Rightarrow> string" where
  "process_error_to_string (Invalid m) = ''invalid process request: '' @ m"
| "process_error_to_string (UnknownJob j) = ''unknown process job: '' @ j"
| "process_error_to_string (SpawnError m) = ''failed to spawn process: '' @ m"
| "process_error_to_string (ProcessIo m) = ''process io failed: '' @ m"

record process_manager =
  pm_counter :: nat
  pm_jobs :: "job_handle smap"
  pm_default_spool_bytes :: nat

definition process_manager_new :: process_manager where
  "process_manager_new = \<lparr>pm_counter = 0, pm_jobs = [], pm_default_spool_bytes = 1024 * 1024\<rparr>"

type_synonym 'a process_eff = "(process_manager, process_error, 'a) eff"

definition PROCESS_EMPTY_COMMAND_MESSAGE :: string where
  "PROCESS_EMPTY_COMMAND_MESSAGE = ''command must not be empty''"

definition stdin_disabled_message :: "string \<Rightarrow> string" where
  "stdin_disabled_message job_id = ''job '' @ job_id @ '' does not accept stdin''"

definition shell_command_argv :: "string \<Rightarrow> string \<Rightarrow> string \<times> string list" where
  "shell_command_argv shell command =
     (let name = shell_executable_name shell
      in if name = ''cmd'' \<or> name = ''cmd.exe'' then (shell, [''/C'', command])
         else if prefix ''powershell'' name \<or> name = ''pwsh'' \<or> name = ''pwsh.exe''
         then (shell, [''-NoLogo'', ''-NoProfile'', ''-Command'', command])
         else (shell, [''-lc'', command]))"

text \<open>
  What the host gives: its default shell, the current directory, the spawning of a program with its
  arguments, directory, changes of the environment and input pipe, and the time.
\<close>

record process_host =
  host_default_shell :: string
  host_current_dir :: "string + string"
  host_spawn :: "string \<times> string list \<times> string \<times> string option smap \<times> bool \<Rightarrow> string option"
  host_now_ms :: nat

definition get_job :: "string \<Rightarrow> process_manager \<Rightarrow> process_error + job_handle" where
  "get_job job_id m =
     (case map_of (pm_jobs m) job_id of None \<Rightarrow> Inl (UnknownJob job_id) | Some h \<Rightarrow> Inr h)"

definition set_job :: "job_handle \<Rightarrow> process_manager \<Rightarrow> process_manager" where
  "set_job h m = m\<lparr>pm_jobs := bt_insert (jh_job_id h) h (pm_jobs m)\<rparr>"

definition job_events :: "string \<Rightarrow> job_event list \<Rightarrow> process_manager \<Rightarrow> process_manager" where
  "job_events job_id events m =
     (case map_of (pm_jobs m) job_id of
        None \<Rightarrow> m
      | Some h \<Rightarrow> m\<lparr>pm_jobs := bt_insert job_id (fold apply_job_event events h) (pm_jobs m)\<rparr>)"

definition manager_snapshot :: "string \<Rightarrow> job_snapshot process_eff" where
  "manager_snapshot job_id m =
     (m, case get_job job_id m of Inl e \<Rightarrow> Inl e | Inr h \<Rightarrow> Inr (snapshot_for_handle h))"

text \<open>
  A wait: the events that come before it ends. Without a limit of time it ends when the job does, so
  that events after which the job still runs are no run of it (\<open>None\<close>).
\<close>

record wait_outcome =
  wo_job_id :: string
  wo_status :: job_status
  wo_timed_out :: bool

definition manager_wait ::
  "string \<Rightarrow> nat option \<Rightarrow> job_event list \<Rightarrow> process_manager
   \<Rightarrow> process_manager \<times> (process_error + wait_outcome option)" where
  "manager_wait job_id timeout_ms events m =
     (case get_job job_id m of
        Inl e \<Rightarrow> (m, Inl e)
      | Inr h \<Rightarrow>
          (let m' = job_events job_id events m;
               status = jh_status (fold apply_job_event events h);
               outcome = (\<lambda>t. \<lparr>wo_job_id = job_id, wo_status = status, wo_timed_out = t\<rparr>)
           in (m', Inr (if \<not> is_running status then Some (outcome False)
                        else if timeout_ms = None then None else Some (outcome True)))))"

definition manager_start ::
  "process_host \<Rightarrow> start_command_request \<Rightarrow> job_event list \<Rightarrow> job_snapshot process_eff" where
  "manager_start host request events m =
     (if is_blank (scr_command request) then (m, Inl (Invalid PROCESS_EMPTY_COMMAND_MESSAGE))
      else
        let job_id = ''host-job-'' @ show_nat (pm_counter m + 1);
            m = m\<lparr>pm_counter := pm_counter m + 1\<rparr>;
            shell = (case scr_shell request of Some s \<Rightarrow> s | None \<Rightarrow> host_default_shell host)
        in case (case scr_cwd request of Some d \<Rightarrow> Inr d | None \<Rightarrow> host_current_dir host) of
          Inl e \<Rightarrow> (m, Inl (ProcessIo e))
        | Inr cwd \<Rightarrow>
            (let (program, args) = shell_command_argv shell (scr_command request)
             in case host_spawn host (program, args, cwd, scr_env request, scr_pipe_stdin request) of
               Some e \<Rightarrow> (m, Inl (SpawnError e))
             | None \<Rightarrow>
                 let h = \<lparr>jh_job_id = job_id, jh_command = scr_command request, jh_shell = shell, jh_cwd = cwd,
                          jh_stdin = scr_pipe_stdin request, jh_status = Running, jh_ended_at_ms = None,
                          jh_output = buffer_new (case scr_max_spool_bytes request of
                              Some n \<Rightarrow> n | None \<Rightarrow> pm_default_spool_bytes m),
                          jh_started_at_ms = host_now_ms host\<rparr>
                 in manager_snapshot job_id
                      ((if scr_foreground_wait_ms request = None then id else job_events job_id events)
                         (set_job h m))))"

record read_output_request =
  ror_after_seq :: "nat option"
  ror_max_bytes :: "nat option"
  ror_wait_ms :: "nat option"

text \<open>A read waits for output only when it was asked to, there is none after its cursor and the job runs.\<close>

definition read_waits :: "read_output_request \<Rightarrow> job_handle \<Rightarrow> bool" where
  "read_waits request h =
     (ror_wait_ms request \<noteq> None
      \<and> \<not> list_ex (\<lambda>c. (case ror_after_seq request of None \<Rightarrow> 0 | Some n \<Rightarrow> n) < oc_seq c) (ob_chunks (jh_output h))
      \<and> is_running (jh_status h))"

definition manager_read ::
  "string \<Rightarrow> read_output_request \<Rightarrow> job_event list \<Rightarrow> process_output process_eff" where
  "manager_read job_id request events m =
     (case get_job job_id m of
        Inl e \<Rightarrow> (m, Inl e)
      | Inr h \<Rightarrow>
          (let (m, h) = (if read_waits request h
                 then (job_events job_id events m, fold apply_job_event events h) else (m, h))
           in (m, Inr (process_output_of job_id (jh_status h)
                 (buffer_read (case ror_after_seq request of None \<Rightarrow> 0 | Some n \<Rightarrow> n)
                    (ror_max_bytes request) (jh_output h))))))"

definition manager_write ::
  "(string \<Rightarrow> string option) \<Rightarrow> string \<Rightarrow> string \<Rightarrow> job_snapshot process_eff" where
  "manager_write write_error job_id s m =
     (case get_job job_id m of
        Inl e \<Rightarrow> (m, Inl e)
      | Inr h \<Rightarrow>
          if \<not> jh_stdin h then (m, Inl (Invalid (stdin_disabled_message job_id)))
          else case write_error s of
            Some e \<Rightarrow> (m, Inl (ProcessIo e))
          | None \<Rightarrow> (m, Inr (snapshot_for_handle h)))"

text \<open>A running job is killed and waited for: the events end it.\<close>

definition manager_terminate :: "string \<Rightarrow> job_event list \<Rightarrow> job_snapshot process_eff" where
  "manager_terminate job_id events m =
     (case get_job job_id m of
        Inl e \<Rightarrow> (m, Inl e)
      | Inr h \<Rightarrow>
          manager_snapshot job_id (if is_running (jh_status h) then job_events job_id events m else m))"

definition manager_list :: "process_manager \<Rightarrow> job_snapshot list" where
  "manager_list m = map snapshot_for_handle (bt_values (pm_jobs m))"

fun close_jobs :: "(string \<Rightarrow> job_event list) \<Rightarrow> string list \<Rightarrow> unit process_eff" where
  "close_jobs events [] m = (m, Inr ())"
| "close_jobs events (job_id # job_ids) m =
     (case get_job job_id m of
        Inl e \<Rightarrow> (m, Inl e)
      | Inr h \<Rightarrow>
          if is_running (jh_status h)
          then and_then (manager_terminate job_id (events job_id)) (\<lambda>_. close_jobs events job_ids) m
          else close_jobs events job_ids m)"

definition manager_close :: "(string \<Rightarrow> job_event list) \<Rightarrow> unit process_eff" where
  "manager_close events m = close_jobs events (bt_keys (pm_jobs m)) m"

section \<open>Every job has its own number\<close>

definition job_number :: "process_manager \<Rightarrow> string \<Rightarrow> bool" where
  "job_number m k = (\<exists>n \<in> {1..pm_counter m}. k = ''host-job-'' @ show_nat n)"

definition manager_wf :: "process_manager \<Rightarrow> bool" where
  "manager_wf m =
     (bt_wf (pm_jobs m)
      \<and> (\<forall>k h. map_of (pm_jobs m) k = Some h \<longrightarrow> jh_job_id h = k \<and> job_number m k))"

lemma manager_wf_new: "manager_wf process_manager_new"
  by (simp add: manager_wf_def process_manager_new_def)

lemma get_job_Inr: "get_job job_id m = Inr h \<longleftrightarrow> map_of (pm_jobs m) job_id = Some h"
  by (simp add: get_job_def split: option.splits)

lemma job_number_mono: "job_number m k \<Longrightarrow> pm_counter m \<le> pm_counter m' \<Longrightarrow> job_number m' k"
  by (auto simp: job_number_def)

lemma manager_wf_insert:
  assumes "manager_wf m" and "jh_job_id h = k" and "job_number m' k" and "pm_counter m \<le> pm_counter m'"
    and "pm_jobs m' = bt_insert k h (pm_jobs m)"
  shows "manager_wf m'"
  using assms by (auto simp: manager_wf_def bt_wf_insert map_of_bt_insert intro: job_number_mono)

lemma job_id_events [simp]: "jh_job_id (fold apply_job_event events h) = jh_job_id h"
proof (induction events arbitrary: h)
  case (Cons e events)
  have "jh_job_id (apply_job_event e h) = jh_job_id h" by (cases e) simp_all
  with Cons show ?case by simp
qed simp

lemma pm_counter_events [simp]: "pm_counter (job_events job_id events m) = pm_counter m"
  by (simp add: job_events_def split: option.split)

lemma manager_wf_events:
  assumes wf: "manager_wf m"
  shows "manager_wf (job_events job_id events m)"
proof (cases "map_of (pm_jobs m) job_id")
  case None
  with wf show ?thesis by (simp add: job_events_def)
next
  case (Some h)
  let ?h = "fold apply_job_event events h"
  from Some wf have "jh_job_id ?h = job_id" "job_number m job_id" by (auto simp: manager_wf_def)
  then show ?thesis
    by (intro manager_wf_insert [OF wf]) (simp_all add: job_events_def Some job_number_def)
qed

lemma fst_manager_snapshot [simp]: "fst (manager_snapshot job_id m) = m"
  by (simp add: manager_snapshot_def)

lemma fresh_job_number:
  assumes "manager_wf m"
  shows "map_of (pm_jobs m) (''host-job-'' @ show_nat (pm_counter m + 1)) = None"
proof (rule ccontr)
  assume "\<not> ?thesis"
  with assms have "job_number m (''host-job-'' @ show_nat (pm_counter m + 1))" by (auto simp: manager_wf_def)
  then show False by (auto simp: job_number_def)
qed

lemma manager_start_wf:
  assumes "manager_wf m"
  shows "manager_wf (fst (manager_start host request events m))"
proof -
  let ?m = "m\<lparr>pm_counter := pm_counter m + 1\<rparr>"
  have counted: "manager_wf ?m"
    using assms job_number_mono [of m _ ?m] by (simp add: manager_wf_def)
  have "manager_wf (set_job h ?m)" if "jh_job_id h = ''host-job-'' @ show_nat (pm_counter m + 1)" for h
  proof (rule manager_wf_insert [OF counted])
    show "job_number (set_job h ?m) (jh_job_id h)" by (auto simp: that set_job_def job_number_def)
  qed (simp_all add: set_job_def)
  with assms counted show ?thesis
    by (auto simp: manager_start_def Let_def manager_wf_events split: sum.split option.split prod.split)
qed

lemma manager_ops_wf:
  assumes "manager_wf m"
  shows "manager_wf (fst (manager_wait job_id timeout_ms events m))"
    and "manager_wf (fst (manager_read job_id request events m))"
    and "manager_wf (fst (manager_write write_error job_id s m))"
    and "manager_wf (fst (manager_terminate job_id events m))"
  using assms manager_wf_events
  by (auto simp: manager_wait_def manager_read_def manager_write_def manager_terminate_def Let_def
      split: sum.splits option.splits)

lemma manager_close_wf: "manager_wf m \<Longrightarrow> manager_wf (fst (manager_close events m))"
proof -
  have "manager_wf m \<Longrightarrow> manager_wf (fst (close_jobs events job_ids m))" for job_ids m
    by (induction job_ids arbitrary: m)
      (auto simp: and_then_def manager_terminate_def manager_snapshot_def get_job_Inr manager_wf_events
        split: sum.splits)
  then show "manager_wf m \<Longrightarrow> manager_wf (fst (manager_close events m))" by (simp add: manager_close_def)
qed

text \<open>An ended job stays as it ended, unless a reader of its pipes fails.\<close>

lemma ended_status_final:
  "\<not> is_running (jh_status h) \<Longrightarrow> (\<And>message now. JobReadError message now \<notin> set events)
    \<Longrightarrow> jh_status (fold apply_job_event events h) = jh_status h"
proof (induction events arbitrary: h)
  case (Cons e events)
  have "jh_status (apply_job_event e h) = jh_status h"
    using Cons.prems by (cases e) auto
  with Cons show ?case by simp
qed simp

end
