(* ===== verification/Host_Exec.thy ===== *)
theory Host_Exec
  imports Process_Manager Providers
begin

text \<open>
  The tools \<open>host.exec.*\<close> over the process manager (\<open>crates/noloong-agent/src/tools/host_exec.rs\<close>). The
  rendered messages are parameters, as is what happens to the processes meanwhile.
\<close>

section \<open>Inputs\<close>

definition start_command_input :: "json \<Rightarrow> start_command_request option" where
  "start_command_input v =
     (case v of
        JArray vs \<Rightarrow> if length vs = length start_command_fields then parse_start_command_request v else None
      | _ \<Rightarrow> parse_start_command_request v)"

definition read_input :: "json \<Rightarrow> (string \<times> read_output_request) option" where
  "read_input v =
     Option.bind (struct_fields 4 [''jobId'', ''afterSeq'', ''maxBytes'', ''waitMs''] v) (\<lambda>get.
     Option.bind (json_str (get ''jobId'')) (\<lambda>job_id.
     Option.bind (json_opt_u64 (get ''afterSeq'')) (\<lambda>after_seq.
     Option.bind (json_opt_u64 (get ''maxBytes'')) (\<lambda>max_bytes.
     Option.bind (json_opt_u64 (get ''waitMs'')) (\<lambda>wait_ms.
     Some (job_id, \<lparr>ror_after_seq = after_seq, ror_max_bytes = max_bytes, ror_wait_ms = wait_ms\<rparr>))))))"

definition wait_input :: "json \<Rightarrow> (string \<times> nat option) option" where
  "wait_input v =
     Option.bind (struct_fields 2 [''jobId'', ''timeoutMs''] v) (\<lambda>get.
     Option.bind (json_str (get ''jobId'')) (\<lambda>job_id.
     Option.bind (json_opt_u64 (get ''timeoutMs'')) (\<lambda>timeout_ms.
     Some (job_id, timeout_ms))))"

definition write_input :: "json \<Rightarrow> (string \<times> string) option" where
  "write_input v =
     Option.bind (struct_fields 2 [''jobId'', ''text''] v) (\<lambda>get.
     Option.bind (json_str (get ''jobId'')) (\<lambda>job_id.
     Option.bind (json_str (get ''text'')) (\<lambda>s.
     Some (job_id, s))))"

definition job_input :: "json \<Rightarrow> string option" where
  "job_input v = Option.bind (struct_fields 1 [''jobId''] v) (\<lambda>get. json_str (get ''jobId''))"

section \<open>Outputs\<close>

fun status_json :: "job_status \<Rightarrow> json" where
  "status_json Running = json_object [(''state'', JString ''running'')]"
| "status_json (Exited code) =
     json_object [(''state'', JString ''exited''), (''code'', json_of_option JInt code)]"
| "status_json Terminated = json_object [(''state'', JString ''terminated'')]"
| "status_json (Failed message) = json_object [(''state'', JString ''failed''), (''error'', JString message)]"

definition json_nat :: "nat \<Rightarrow> json" where
  "json_nat n = JInt (int n)"

definition snapshot_json :: "job_snapshot \<Rightarrow> json" where
  "snapshot_json s =
     json_object
       [(''jobId'', JString (js_job_id s)), (''command'', JString (js_command s)),
        (''shell'', JString (js_shell s)), (''cwd'', JString (js_cwd s)), (''status'', status_json (js_status s)),
        (''startedAtMs'', json_nat (js_started_at_ms s)),
        (''endedAtMs'', json_of_option json_nat (js_ended_at_ms s)),
        (''nextCursor'', json_nat (js_next_cursor s)),
        (''droppedBeforeSeq'', json_nat (js_dropped_before_seq s))]"

fun stream_str :: "process_output_stream \<Rightarrow> string" where
  "stream_str Stdout = ''stdout''"
| "stream_str Stderr = ''stderr''"

definition chunk_json :: "output_chunk \<Rightarrow> json" where
  "chunk_json c =
     json_object [(''seq'', json_nat (oc_seq c)), (''stream'', JString (stream_str (oc_stream c))),
       (''text'', JString (oc_text c)), (''byteLen'', json_nat (oc_byte_len c))]"

definition process_tool_output :: "process_output \<Rightarrow> tool_output" where
  "process_tool_output p =
     \<lparr>to_content = [Json (json_object [(''jobId'', JString (po_job_id p)),
        (''chunks'', JArray (map chunk_json (po_chunks p)))])],
      to_details = json_object [(''jobId'', JString (po_job_id p)),
        (''nextCursor'', json_nat (po_next_cursor p)),
        (''droppedBeforeSeq'', json_nat (po_dropped_before_seq p)), (''truncated'', JBool (po_truncated p)),
        (''status'', status_json (po_status p))],
      to_is_error = False, to_updates = []\<rparr>"

definition wait_outcome_json :: "wait_outcome \<Rightarrow> json" where
  "wait_outcome_json o' =
     json_object [(''jobId'', JString (wo_job_id o')), (''status'', status_json (wo_status o')),
       (''timedOut'', JBool (wo_timed_out o'))]"

section \<open>The tools\<close>

record host_exec_texts =
  het_input_error :: "json \<Rightarrow> string"
  het_process_error :: "process_error \<Rightarrow> string"

type_synonym host_exec_eff = "(process_manager, agent_core_error, tool_output) eff"

text \<open>What every tool does around its operation: the cancellation, the input and the error.\<close>

definition host_exec_call ::
  "host_exec_texts \<Rightarrow> bool \<Rightarrow> (json \<Rightarrow> 'i option) \<Rightarrow> ('i \<Rightarrow> tool_output process_eff) \<Rightarrow> json \<Rightarrow> host_exec_eff" where
  "host_exec_call texts cancelled input operation arguments m =
     (if cancelled then (m, Inl Aborted)
      else case input arguments of
        None \<Rightarrow> (m, Inl (InvalidEffect (het_input_error texts arguments)))
      | Some i \<Rightarrow>
          (case operation i m of
             (m', Inl e) \<Rightarrow> (m', Inl (Provider (het_process_error texts e)))
           | (m', Inr output) \<Rightarrow> (m', Inr output)))"

definition map_eff :: "('a \<Rightarrow> 'b) \<Rightarrow> ('s, 'e, 'a) eff \<Rightarrow> ('s, 'e, 'b) eff" where
  "map_eff f m = and_then m (\<lambda>x. ok (f x))"

definition host_exec_start ::
  "host_exec_texts \<Rightarrow> process_host \<Rightarrow> job_event list \<Rightarrow> bool \<Rightarrow> json \<Rightarrow> host_exec_eff" where
  "host_exec_start texts host events cancelled =
     host_exec_call texts cancelled start_command_input (\<lambda>request.
       map_eff (\<lambda>s. json_tool_output (snapshot_json s)) (manager_start host request events))"

definition host_exec_read ::
  "host_exec_texts \<Rightarrow> job_event list \<Rightarrow> bool \<Rightarrow> json \<Rightarrow> host_exec_eff" where
  "host_exec_read texts events cancelled =
     host_exec_call texts cancelled read_input (\<lambda>(job_id, request).
       map_eff process_tool_output (manager_read job_id request events))"

definition host_exec_write ::
  "host_exec_texts \<Rightarrow> (string \<Rightarrow> string option) \<Rightarrow> bool \<Rightarrow> json \<Rightarrow> host_exec_eff" where
  "host_exec_write texts write_error cancelled =
     host_exec_call texts cancelled write_input (\<lambda>(job_id, s).
       map_eff (\<lambda>s. json_tool_output (snapshot_json s)) (manager_write write_error job_id s))"

definition host_exec_terminate ::
  "host_exec_texts \<Rightarrow> job_event list \<Rightarrow> bool \<Rightarrow> json \<Rightarrow> host_exec_eff" where
  "host_exec_terminate texts events cancelled =
     host_exec_call texts cancelled job_input (\<lambda>job_id.
       map_eff (\<lambda>s. json_tool_output (snapshot_json s)) (manager_terminate job_id events))"

definition host_exec_list :: "host_exec_texts \<Rightarrow> bool \<Rightarrow> json \<Rightarrow> host_exec_eff" where
  "host_exec_list texts cancelled =
     host_exec_call texts cancelled Some (\<lambda>_ m.
       (m, Inr (json_tool_output (json_object [(''jobs'', JArray (map snapshot_json (manager_list m)))]))))"

text \<open>A wait that does not return is \<open>None\<close>, as in the manager.\<close>

definition host_exec_wait ::
  "host_exec_texts \<Rightarrow> job_event list \<Rightarrow> bool \<Rightarrow> json \<Rightarrow> process_manager
   \<Rightarrow> process_manager \<times> (agent_core_error + tool_output) option" where
  "host_exec_wait texts events cancelled arguments m =
     (if cancelled then (m, Some (Inl Aborted))
      else case wait_input arguments of
        None \<Rightarrow> (m, Some (Inl (InvalidEffect (het_input_error texts arguments))))
      | Some (job_id, timeout_ms) \<Rightarrow>
          (case manager_wait job_id timeout_ms events m of
             (m', Inl e) \<Rightarrow> (m', Some (Inl (Provider (het_process_error texts e))))
           | (m', Inr None) \<Rightarrow> (m', None)
           | (m', Inr (Some outcome)) \<Rightarrow> (m', Some (Inr (json_tool_output (wait_outcome_json outcome))))))"

section \<open>Specs\<close>

definition int_type :: "nat \<Rightarrow> json" where
  "int_type minimum = json_object [(''type'', JString ''integer''), (''minimum'', json_nat minimum)]"

definition str_type :: json where
  "str_type = json_object [(''type'', JString ''string'')]"

definition host_exec_spec ::
  "catalog \<Rightarrow> built_in_tool_name \<Rightarrow> string \<Rightarrow> string list \<Rightarrow> (string \<times> json) list \<Rightarrow> tool_spec" where
  "host_exec_spec texts name description required properties =
     sequential_tool_spec (built_in_as_str name) (texts description)
       (json_object ([(''type'', JString ''object''), (''properties'', json_object properties)]
          @ (if required = [] then [] else [(''required'', JArray (map JString required))])))
       ''host.command'' (texts ''HostCommandPermissionDescription'')"

definition start_spec :: "catalog \<Rightarrow> tool_spec" where
  "start_spec texts =
     host_exec_spec texts HostExecStart ''HostExecStartDescription'' [''command'']
        [(''command'', str_type), (''shell'', str_type), (''cwd'', str_type),
         (''env'', json_object [(''type'', JString ''object'')]),
         (''pipeStdin'', json_object [(''type'', JString ''boolean'')]),
         (''foregroundWaitMs'', int_type 0), (''maxSpoolBytes'', int_type 1024)]"

definition read_spec :: "catalog \<Rightarrow> tool_spec" where
  "read_spec texts =
     host_exec_spec texts HostExecRead ''HostExecReadDescription'' [''jobId'']
        [(''jobId'', str_type), (''afterSeq'', int_type 0), (''maxBytes'', int_type 1), (''waitMs'', int_type 0)]"

definition wait_spec :: "catalog \<Rightarrow> tool_spec" where
  "wait_spec texts =
     host_exec_spec texts HostExecWait ''HostExecWaitDescription'' [''jobId'']
        [(''jobId'', str_type), (''timeoutMs'', int_type 0)]"

definition write_spec :: "catalog \<Rightarrow> tool_spec" where
  "write_spec texts =
     host_exec_spec texts HostExecWrite ''HostExecWriteDescription'' [''jobId'', ''text'']
        [(''jobId'', str_type), (''text'', str_type)]"

definition terminate_spec :: "catalog \<Rightarrow> tool_spec" where
  "terminate_spec texts =
     host_exec_spec texts HostExecTerminate ''HostExecTerminateDescription'' [''jobId'']
        [(''jobId'', str_type)]"

definition list_spec :: "catalog \<Rightarrow> tool_spec" where
  "list_spec texts =
     host_exec_spec texts HostExecList ''HostExecListDescription'' [] []"

text \<open>Every call of a tool keeps the manager well-formed.\<close>

lemma host_exec_call_wf:
  assumes "manager_wf m" and "\<And>i m. manager_wf m \<Longrightarrow> manager_wf (fst (operation i m))"
  shows "manager_wf (fst (host_exec_call texts cancelled input operation arguments m))"
proof (cases "input arguments")
  case (Some i)
  with assms(1) assms(2) [OF assms(1), of i] show ?thesis
    by (cases "operation i m") (auto simp: host_exec_call_def split: sum.splits)
qed (simp add: host_exec_call_def assms(1))

lemma fst_map_eff [simp]: "fst (map_eff f p m) = fst (p m)"
  by (simp add: map_eff_def and_then_def split: prod.split sum.split)

lemma host_exec_wf:
  assumes "manager_wf m"
  shows "manager_wf (fst (host_exec_start texts host events cancelled arguments m))"
    and "manager_wf (fst (host_exec_read texts events cancelled arguments m))"
    and "manager_wf (fst (host_exec_write texts write_error cancelled arguments m))"
    and "manager_wf (fst (host_exec_terminate texts events cancelled arguments m))"
    and "manager_wf (fst (host_exec_list texts cancelled arguments m))"
  unfolding host_exec_start_def host_exec_read_def host_exec_write_def host_exec_terminate_def host_exec_list_def
  by (rule host_exec_call_wf [OF assms]; simp add: manager_start_wf manager_ops_wf split: prod.split)+

end
