(* ===== verification/Plugin.thy ===== *)
theory Plugin
  imports Core_Types
begin

text \<open>
  Declarations of plugins (\<open>crates/noloong-agent/src/plugin.rs\<close>): their components, validation and
  summaries, and the configuration of a stdio extension (\<open>StdioExtensionConfig\<close> and
  \<open>ExtensionCapabilitySelector\<close> of the crate noloong-agent-core) that a declaration gives with an
  environment of the host.
\<close>

section \<open>Capability selectors\<close>

datatype capability_selector =
    ModelProviderSel string
  | ToolSel string
  | ContextProviderSel string
  | PhaseNodeSel string
  | PhaseHookSel string
  | ToolCallHookSel string
  | CompactionSummarizerSel string
  | ContextCompactorSel string
  | HttpAuthProviderSel string

fun selector_id :: "capability_selector \<Rightarrow> string" where
  "selector_id (ModelProviderSel i) = i"
| "selector_id (ToolSel i) = i"
| "selector_id (ContextProviderSel i) = i"
| "selector_id (PhaseNodeSel i) = i"
| "selector_id (PhaseHookSel i) = i"
| "selector_id (ToolCallHookSel i) = i"
| "selector_id (CompactionSummarizerSel i) = i"
| "selector_id (ContextCompactorSel i) = i"
| "selector_id (HttpAuthProviderSel i) = i"

definition selector_validate :: "capability_selector \<Rightarrow> string + unit" where
  "selector_validate s =
     (if is_blank (selector_id s) then Inl ''extension capability selector id must not be empty'' else Inr ())"

fun capability_selector_summary :: "capability_selector \<Rightarrow> string" where
  "capability_selector_summary (ModelProviderSel i) = ''model_provider:'' @ i"
| "capability_selector_summary (ToolSel i) = ''tool:'' @ i"
| "capability_selector_summary (ContextProviderSel i) = ''context_provider:'' @ i"
| "capability_selector_summary (PhaseNodeSel i) = ''phase_node:'' @ i"
| "capability_selector_summary (PhaseHookSel i) = ''phase_hook:'' @ i"
| "capability_selector_summary (ToolCallHookSel i) = ''tool_call_hook:'' @ i"
| "capability_selector_summary (CompactionSummarizerSel i) = ''compaction_summarizer:'' @ i"
| "capability_selector_summary (ContextCompactorSel i) = ''context_compactor:'' @ i"
| "capability_selector_summary (HttpAuthProviderSel i) = ''http_auth_provider:'' @ i"

section \<open>Validation\<close>

type_synonym declaration_check = "string + unit"

definition and_check :: "declaration_check \<Rightarrow> declaration_check \<Rightarrow> declaration_check" where
  "and_check a b = (case a of Inl e \<Rightarrow> Inl e | Inr _ \<Rightarrow> b)"

lemma and_check_Inr [simp]: "and_check a b = Inr () \<longleftrightarrow> a = Inr () \<and> b = Inr ()"
  by (simp add: and_check_def split: sum.split)

fun check_all :: "('a \<Rightarrow> declaration_check) \<Rightarrow> 'a list \<Rightarrow> declaration_check" where
  "check_all f [] = Inr ()"
| "check_all f (x # xs) = and_check (f x) (check_all f xs)"

definition plugin_non_empty :: "string \<Rightarrow> string \<Rightarrow> declaration_check" where
  "plugin_non_empty field s = (if is_blank s then Inl (field @ '' must not be empty'') else Inr ())"

definition validate_positive_timeout :: "string \<Rightarrow> nat option \<Rightarrow> declaration_check" where
  "validate_positive_timeout field t =
     (if t = Some 0 then Inl (field @ '' must be greater than zero'') else Inr ())"

fun validate_strings_from :: "string \<Rightarrow> string set \<Rightarrow> string list \<Rightarrow> declaration_check" where
  "validate_strings_from field seen [] = Inr ()"
| "validate_strings_from field seen (s # ss) =
     and_check (plugin_non_empty field s)
       (if s \<in> seen then Inl (''duplicate '' @ field @ '' entry: '' @ s)
        else validate_strings_from field (insert s seen) ss)"

definition validate_string_list :: "string \<Rightarrow> string list \<Rightarrow> declaration_check" where
  "validate_string_list field ss = validate_strings_from field {} ss"

fun validate_selectors_from ::
  "capability_selector set \<Rightarrow> capability_selector list \<Rightarrow> declaration_check" where
  "validate_selectors_from seen [] = Inr ()"
| "validate_selectors_from seen (s # ss) =
     and_check (selector_validate s)
       (if s \<in> seen then Inl (''duplicate allowed capability: '' @ capability_selector_summary s)
        else validate_selectors_from (insert s seen) ss)"

definition validate_capability_selectors :: "capability_selector list \<Rightarrow> declaration_check" where
  "validate_capability_selectors ss = validate_selectors_from {} ss"

definition NUL :: char where
  "NUL = CHR 0x00"

definition validate_stdio_command :: "string \<Rightarrow> string list \<Rightarrow> declaration_check" where
  "validate_stdio_command command args =
     and_check (plugin_non_empty ''command'' command)
       (if list_ex (\<lambda>arg. NUL \<in> set arg) args then Inl ''plugin args must not contain NUL bytes'' else Inr ())"

section \<open>Declarations\<close>

datatype plugin_env_source = EnvHost string

datatype mcp_header_source = StaticHeader string | HostEnvHeader string "string option"

record stdio_plugin_transport =
  spt_command :: string
  spt_args :: "string list"
  spt_cwd :: "string option"
  spt_env :: "plugin_env_source smap"
  spt_request_timeout_secs :: "nat option"
  spt_stream_timeout_secs :: "nat option"

record mcp_stdio_transport =
  mst_command :: string
  mst_args :: "string list"
  mst_cwd :: "string option"
  mst_env :: "plugin_env_source smap"
  mst_request_timeout_secs :: "nat option"

record mcp_streamable_http_transport =
  mht_url :: string
  mht_headers :: "mcp_header_source smap"
  mht_connect_timeout_secs :: "nat option"
  mht_request_timeout_secs :: "nat option"

datatype mcp_plugin_transport = McpStdio mcp_stdio_transport | StreamableHttp mcp_streamable_http_transport

record mcp_plugin_component =
  mpc_server_id :: string
  mpc_transport :: mcp_plugin_transport
  mpc_enabled_tools :: "string list"
  mpc_disabled_tools :: "string list"
  mpc_tool_name_prefix :: "string option"
  mpc_request_timeout_secs :: "nat option"

record extension_plugin_component =
  epc_transport :: stdio_plugin_transport
  epc_allowed_capabilities :: "capability_selector list"

datatype plugin_component =
    SkillsComponent "string list"
  | McpComponent mcp_plugin_component
  | ExtensionComponent extension_plugin_component

datatype plugin_load_failure_policy = DisableForRun | FailRun

record agent_plugin_declaration =
  apd_plugin_id :: string
  apd_display_name :: string
  apd_description :: "string option"
  apd_components :: "plugin_component list"
  apd_enabled :: bool
  apd_on_load_failure :: plugin_load_failure_policy

fun env_source_validate :: "plugin_env_source \<Rightarrow> declaration_check" where
  "env_source_validate (EnvHost name) = plugin_non_empty ''host env name'' name"

fun header_source_validate :: "mcp_header_source \<Rightarrow> declaration_check" where
  "header_source_validate (StaticHeader v) = plugin_non_empty ''static header value'' v"
| "header_source_validate (HostEnvHeader name header_prefix) = plugin_non_empty ''host env name'' name"

definition validate_env :: "plugin_env_source smap \<Rightarrow> declaration_check" where
  "validate_env env =
     check_all (\<lambda>(target, source). and_check (plugin_non_empty ''env target name'' target)
       (env_source_validate source)) env"

definition stdio_transport_validate :: "stdio_plugin_transport \<Rightarrow> declaration_check" where
  "stdio_transport_validate t =
     and_check (validate_stdio_command (spt_command t) (spt_args t))
    (and_check (validate_env (spt_env t))
    (and_check (validate_positive_timeout ''requestTimeoutSecs'' (spt_request_timeout_secs t))
       (validate_positive_timeout ''streamTimeoutSecs'' (spt_stream_timeout_secs t))))"

definition mcp_stdio_validate :: "mcp_stdio_transport \<Rightarrow> declaration_check" where
  "mcp_stdio_validate t =
     and_check (validate_stdio_command (mst_command t) (mst_args t))
    (and_check (validate_env (mst_env t))
       (validate_positive_timeout ''requestTimeoutSecs'' (mst_request_timeout_secs t)))"

definition mcp_http_validate :: "mcp_streamable_http_transport \<Rightarrow> declaration_check" where
  "mcp_http_validate t =
     and_check (plugin_non_empty ''url'' (mht_url t))
    (and_check (check_all (\<lambda>(name, source). and_check (plugin_non_empty ''header name'' name)
        (header_source_validate source)) (mht_headers t))
    (and_check (validate_positive_timeout ''connectTimeoutSecs'' (mht_connect_timeout_secs t))
       (validate_positive_timeout ''requestTimeoutSecs'' (mht_request_timeout_secs t))))"

fun mcp_transport_validate :: "mcp_plugin_transport \<Rightarrow> declaration_check" where
  "mcp_transport_validate (McpStdio t) = mcp_stdio_validate t"
| "mcp_transport_validate (StreamableHttp t) = mcp_http_validate t"

definition mcp_component_validate :: "mcp_plugin_component \<Rightarrow> declaration_check" where
  "mcp_component_validate c =
     and_check (plugin_non_empty ''serverId'' (mpc_server_id c))
    (and_check (mcp_transport_validate (mpc_transport c))
    (and_check (validate_string_list ''enabledTools'' (mpc_enabled_tools c))
    (and_check (validate_string_list ''disabledTools'' (mpc_disabled_tools c))
    (and_check (case mpc_tool_name_prefix c of None \<Rightarrow> Inr () | Some p \<Rightarrow> plugin_non_empty ''toolNamePrefix'' p)
       (validate_positive_timeout ''requestTimeoutSecs'' (mpc_request_timeout_secs c))))))"

definition extension_component_validate :: "extension_plugin_component \<Rightarrow> declaration_check" where
  "extension_component_validate c =
     and_check (stdio_transport_validate (epc_transport c))
       (validate_capability_selectors (epc_allowed_capabilities c))"

definition skills_component_validate :: "string list \<Rightarrow> declaration_check" where
  "skills_component_validate roots =
     (if roots = [] then Inl ''skills roots must contain at least one path''
      else check_all (plugin_non_empty ''skills root'') roots)"

fun component_validate :: "plugin_component \<Rightarrow> declaration_check" where
  "component_validate (SkillsComponent roots) = skills_component_validate roots"
| "component_validate (McpComponent c) = mcp_component_validate c"
| "component_validate (ExtensionComponent c) = extension_component_validate c"

definition declaration_validate :: "agent_plugin_declaration \<Rightarrow> declaration_check" where
  "declaration_validate d =
     and_check (plugin_non_empty ''pluginId'' (apd_plugin_id d))
    (and_check (plugin_non_empty ''displayName'' (apd_display_name d))
    (if apd_components d = [] then Inl ''components must contain at least one component''
     else check_all component_validate (apd_components d)))"

section \<open>Summaries\<close>

definition show_bool :: "bool \<Rightarrow> string" where
  "show_bool b = (if b then ''true'' else ''false'')"

fun env_source_summary :: "plugin_env_source \<Rightarrow> string" where
  "env_source_summary (EnvHost name) = ''host_env:'' @ name"

fun header_source_summary :: "mcp_header_source \<Rightarrow> string" where
  "header_source_summary (StaticHeader v) = ''static:<redacted>''"
| "header_source_summary (HostEnvHeader name header_prefix) = ''host_env:'' @ name"

definition stdio_summary :: "string \<Rightarrow> string list \<Rightarrow> string option \<Rightarrow> plugin_env_source smap \<Rightarrow> string" where
  "stdio_summary command args cwd env =
     ''stdio command=`'' @ command @ ''` args=`'' @ join_with '' '' args @ ''` cwd=`''
     @ (case cwd of None \<Rightarrow> ''(session cwd)'' | Some d \<Rightarrow> d) @ ''` env=[''
     @ join_with '', '' (map (\<lambda>(target, source). target @ ''<='' @ env_source_summary source) env) @ '']''"

definition mcp_http_summary :: "mcp_streamable_http_transport \<Rightarrow> string" where
  "mcp_http_summary t =
     ''streamable_http url='' @ mht_url t @ '' headers=[''
     @ join_with '', '' (map (\<lambda>(name, source). name @ ''<='' @ header_source_summary source) (mht_headers t)) @ '']''"

fun mcp_transport_summary :: "mcp_plugin_transport \<Rightarrow> string" where
  "mcp_transport_summary (McpStdio t) = stdio_summary (mst_command t) (mst_args t) (mst_cwd t) (mst_env t)"
| "mcp_transport_summary (StreamableHttp t) = mcp_http_summary t"

definition mcp_component_summary :: "mcp_plugin_component \<Rightarrow> string" where
  "mcp_component_summary c =
     ''mcp serverId='' @ mpc_server_id c @ '' transport='' @ mcp_transport_summary (mpc_transport c)
     @ '' toolNamePrefix='' @ (case mpc_tool_name_prefix c of None \<Rightarrow> ''(default)'' | Some p \<Rightarrow> p)
     @ '' enabledTools='' @ show_nat (length (mpc_enabled_tools c))
     @ '' disabledTools='' @ show_nat (length (mpc_disabled_tools c))"

definition extension_component_summary :: "extension_plugin_component \<Rightarrow> string" where
  "extension_component_summary c =
     (let t = epc_transport c
      in ''noloong_extension transport='' @ stdio_summary (spt_command t) (spt_args t) (spt_cwd t) (spt_env t)
         @ '' allowedCapabilities=[''
         @ join_with '', '' (map capability_selector_summary (epc_allowed_capabilities c)) @ '']'')"

definition skills_component_summary :: "string list \<Rightarrow> string" where
  "skills_component_summary roots = ''skills roots=['' @ join_with '', '' roots @ '']''"

fun component_summary :: "plugin_component \<Rightarrow> string" where
  "component_summary (SkillsComponent roots) = skills_component_summary roots"
| "component_summary (McpComponent c) = mcp_component_summary c"
| "component_summary (ExtensionComponent c) = extension_component_summary c"

fun load_failure_as_str :: "plugin_load_failure_policy \<Rightarrow> string" where
  "load_failure_as_str DisableForRun = ''disable_for_run''"
| "load_failure_as_str FailRun = ''fail_run''"

definition declaration_summary :: "agent_plugin_declaration \<Rightarrow> string" where
  "declaration_summary d =
     ''plugin '' @ apd_plugin_id d @ '' ('' @ apd_display_name d @ '') enabled='' @ show_bool (apd_enabled d)
     @ '' onLoadFailure='' @ load_failure_as_str (apd_on_load_failure d)
     @ '' components=['' @ join_with '', '' (map component_summary (apd_components d)) @ '']''"

section \<open>Loading\<close>

datatype plugin_load_error =
    InvalidDeclaration string string
  | MissingHostEnv string string string
  | Startup string string

fun show_plugin_load_error :: "plugin_load_error \<Rightarrow> string" where
  "show_plugin_load_error (InvalidDeclaration plugin_id message) =
     ''invalid plugin declaration `'' @ plugin_id @ ''`: '' @ message"
| "show_plugin_load_error (MissingHostEnv plugin_id target name) =
     ''plugin `'' @ plugin_id @ ''` requires host environment variable `'' @ name @ ''` for `'' @ target @ ''`''"
| "show_plugin_load_error (Startup plugin_id message) =
     ''plugin `'' @ plugin_id @ ''` failed to load: '' @ message"

text \<open>The environment of the host is a function of the name.\<close>

definition host_env :: "(string \<Rightarrow> string option) \<Rightarrow> string \<Rightarrow> string \<Rightarrow> string \<Rightarrow> plugin_load_error + string" where
  "host_env env_source plugin_id target name =
     (case env_source name of
        Some v \<Rightarrow> if is_blank v then Inl (MissingHostEnv plugin_id target name) else Inr v
      | None \<Rightarrow> Inl (MissingHostEnv plugin_id target name))"

fun env_source_resolve ::
  "(string \<Rightarrow> string option) \<Rightarrow> string \<Rightarrow> string \<Rightarrow> plugin_env_source \<Rightarrow> plugin_load_error + string" where
  "env_source_resolve env_source plugin_id target (EnvHost name) = host_env env_source plugin_id target name"

fun header_source_resolve ::
  "(string \<Rightarrow> string option) \<Rightarrow> string \<Rightarrow> string \<Rightarrow> mcp_header_source \<Rightarrow> plugin_load_error + string" where
  "header_source_resolve env_source plugin_id target (StaticHeader v) = Inr v"
| "header_source_resolve env_source plugin_id target (HostEnvHeader name header_prefix) =
     (case host_env env_source plugin_id target name of
        Inl e \<Rightarrow> Inl e
      | Inr v \<Rightarrow> Inr ((case header_prefix of None \<Rightarrow> [] | Some p \<Rightarrow> p) @ v))"

text \<open>Timeouts in milliseconds.\<close>

record stdio_extension_config =
  sec_command :: string
  sec_args :: "string list"
  sec_cwd :: "string option"
  sec_env :: "string smap"
  sec_clear_env :: bool
  sec_allowed_capabilities :: "capability_selector set option"
  sec_request_timeout_ms :: nat
  sec_stream_timeout_ms :: nat

definition stdio_extension_config_new :: "string \<Rightarrow> stdio_extension_config" where
  "stdio_extension_config_new command =
     \<lparr>sec_command = command, sec_args = [], sec_cwd = None, sec_env = [], sec_clear_env = False,
      sec_allowed_capabilities = None, sec_request_timeout_ms = 5000, sec_stream_timeout_ms = 30000\<rparr>"

fun resolve_env ::
  "(string \<Rightarrow> string option) \<Rightarrow> string \<Rightarrow> plugin_env_source smap \<Rightarrow> string smap \<Rightarrow> plugin_load_error + string smap" where
  "resolve_env env_source plugin_id [] resolved = Inr resolved"
| "resolve_env env_source plugin_id ((target, source) # env) resolved =
     (case env_source_resolve env_source plugin_id target source of
        Inl e \<Rightarrow> Inl e
      | Inr v \<Rightarrow> resolve_env env_source plugin_id env (bt_insert target v resolved))"

definition to_stdio_extension_config ::
  "extension_plugin_component \<Rightarrow> string \<Rightarrow> (string \<Rightarrow> string option) \<Rightarrow> plugin_load_error + stdio_extension_config" where
  "to_stdio_extension_config c plugin_id env_source =
     (case extension_component_validate c of
        Inl message \<Rightarrow> Inl (InvalidDeclaration plugin_id message)
      | Inr _ \<Rightarrow>
          (let t = epc_transport c; config = stdio_extension_config_new (spt_command t)
           in case resolve_env env_source plugin_id (spt_env t) [] of
             Inl e \<Rightarrow> Inl e
           | Inr env \<Rightarrow> Inr (config
               \<lparr>sec_args := spt_args t, sec_cwd := spt_cwd t, sec_env := env, sec_clear_env := True,
                sec_allowed_capabilities := Some (set (epc_allowed_capabilities c)),
                sec_request_timeout_ms := (case spt_request_timeout_secs t of
                    Some n \<Rightarrow> n * 1000 | None \<Rightarrow> sec_request_timeout_ms config),
                sec_stream_timeout_ms := (case spt_stream_timeout_secs t of
                    Some n \<Rightarrow> n * 1000 | None \<Rightarrow> sec_stream_timeout_ms config)\<rparr>)))"

section \<open>What a loaded extension gets\<close>

text \<open>
  Its environment has the declared names only, each with the value the host has for it, and its
  capabilities are the declared ones.
\<close>

lemma resolve_env_lookup:
  assumes "resolve_env env_source plugin_id env resolved = Inr env'" and "bt_wf resolved"
  shows "bt_wf env' \<and> map_of env' target =
    (case map_of (rev env) target of
       Some (EnvHost name) \<Rightarrow> env_source name
     | None \<Rightarrow> map_of resolved target)"
  using assms
proof (induction env_source plugin_id env resolved rule: resolve_env.induct)
  case (2 env_source plugin_id t source env resolved)
  obtain name where source: "source = EnvHost name" by (cases source) auto
  from "2.prems"(1) obtain v where v: "env_source name = Some v"
    and rest: "resolve_env env_source plugin_id env (bt_insert t v resolved) = Inr env'"
    by (auto simp: source host_env_def split: option.splits sum.splits if_splits)
  have "\<not> is_blank v" using "2.prems"(1) v by (auto simp: source host_env_def split: if_splits)
  with v have resolves: "env_source_resolve env_source plugin_id t source = Inr v"
    by (simp add: source host_env_def)
  from "2.IH" [OF resolves rest] "2.prems"(2) v show ?case
    by (auto simp: bt_wf_insert map_of_bt_insert map_of_append source split: option.splits)
qed simp

lemma extension_config_declared:
  assumes "to_stdio_extension_config c plugin_id env_source = Inr config"
    and "map_of (sec_env config) target = Some v"
  shows "\<exists>name. map_of (rev (spt_env (epc_transport c))) target = Some (EnvHost name) \<and> env_source name = Some v"
    and "sec_clear_env config \<and> sec_allowed_capabilities config = Some (set (epc_allowed_capabilities c))"
proof -
  from assms(1) obtain env where env: "resolve_env env_source plugin_id (spt_env (epc_transport c)) [] = Inr env"
    and config: "sec_env config = env"
      "sec_clear_env config \<and> sec_allowed_capabilities config = Some (set (epc_allowed_capabilities c))"
    by (auto simp: to_stdio_extension_config_def Let_def split: sum.splits)
  show "sec_clear_env config \<and> sec_allowed_capabilities config = Some (set (epc_allowed_capabilities c))"
    by (rule config(2))
  from resolve_env_lookup [OF env, of target] assms(2) config(1)
  show "\<exists>name. map_of (rev (spt_env (epc_transport c))) target = Some (EnvHost name) \<and> env_source name = Some v"
    by (auto split: option.splits plugin_env_source.splits)
qed

end
