(* ===== verification/System_Prompt.thy ===== *)
theory System_Prompt
  imports Host_Files
begin

text \<open>
  The system prompt of an agent (\<open>AgentSystemPrompt\<close> in \<open>crates/noloong-agent/src/manifest.rs\<close>) and its
  resolution to a text (\<open>crates/noloong-agent/src/system_prompt.rs\<close>). The texts of the built-in
  prompts are files of the repository; they are the record \<open>prompt_texts\<close> here.
\<close>

section \<open>Prompts\<close>

datatype agent_locale = En | Zh

text \<open>\<open>Locale\<close> of \<open>crates/noloong-agent/src/host.rs\<close>; the environment is a function of the name.\<close>

definition locale_parse :: "string \<Rightarrow> agent_locale option" where
  "locale_parse s =
     (let normalized = ascii_lowercase (trim s)
      in if normalized = [] then None
         else if prefix ''zh'' normalized then Some Zh
         else if prefix ''en'' normalized \<or> normalized = ''c'' \<or> normalized = ''posix'' then Some En
         else None)"

fun first_locale :: "(string \<Rightarrow> string option) \<Rightarrow> string list \<Rightarrow> agent_locale option" where
  "first_locale env [] = None"
| "first_locale env (n # ns) =
     (case Option.bind (env n) locale_parse of Some l \<Rightarrow> Some l | None \<Rightarrow> first_locale env ns)"

definition locale_detect :: "(string \<Rightarrow> string option) \<Rightarrow> agent_locale" where
  "locale_detect env =
     (case first_locale env [''LC_ALL'', ''LC_MESSAGES'', ''LANG''] of Some l \<Rightarrow> l | None \<Rightarrow> En)"

fun locale_code :: "agent_locale \<Rightarrow> string" where
  "locale_code En = ''en''"
| "locale_code Zh = ''zh''"

lemma locale_parse_en: "locale_parse ''en'' = Some En"
  by code_simp

lemma locale_parse_zh: "locale_parse ''zh'' = Some Zh"
  by code_simp

lemma locale_parse_code: "locale_parse (locale_code l) = Some l"
  by (cases l) (simp_all add: locale_parse_en locale_parse_zh)

datatype system_prompt_source = BuiltInSource | CustomSource

fun prompt_source_as_str :: "system_prompt_source \<Rightarrow> string" where
  "prompt_source_as_str BuiltInSource = ''built_in''"
| "prompt_source_as_str CustomSource = ''custom''"

datatype prompt_profile = AutoProfile | GeneralProfile | OpenAiProfile

fun prompt_profile_as_str :: "prompt_profile \<Rightarrow> string" where
  "prompt_profile_as_str AutoProfile = ''auto''"
| "prompt_profile_as_str GeneralProfile = ''general''"
| "prompt_profile_as_str OpenAiProfile = ''openai''"

record prompt_addition =
  pa_id :: string
  pa_text :: string
  pa_enabled :: bool

definition prompt_addition_new :: "string \<Rightarrow> string \<Rightarrow> prompt_addition" where
  "prompt_addition_new i t = \<lparr>pa_id = i, pa_text = t, pa_enabled = True\<rparr>"

datatype agent_system_prompt =
    BuiltInPrompt prompt_profile "prompt_addition list"
  | CustomPrompt string "prompt_addition list"

definition default_system_prompt :: agent_system_prompt where
  "default_system_prompt = BuiltInPrompt AutoProfile []"

definition custom_system_prompt :: "string \<Rightarrow> agent_system_prompt" where
  "custom_system_prompt p = CustomPrompt p []"

fun prompt_source :: "agent_system_prompt \<Rightarrow> system_prompt_source" where
  "prompt_source (BuiltInPrompt _ _) = BuiltInSource"
| "prompt_source (CustomPrompt _ _) = CustomSource"

fun prompt_additions :: "agent_system_prompt \<Rightarrow> prompt_addition list" where
  "prompt_additions (BuiltInPrompt _ as) = as"
| "prompt_additions (CustomPrompt _ as) = as"

text \<open>Writing through \<open>additions_mut\<close>.\<close>

fun set_prompt_additions :: "prompt_addition list \<Rightarrow> agent_system_prompt \<Rightarrow> agent_system_prompt" where
  "set_prompt_additions as (BuiltInPrompt profile _) = BuiltInPrompt profile as"
| "set_prompt_additions as (CustomPrompt p _) = CustomPrompt p as"

lemma prompt_additions_set [simp]: "prompt_additions (set_prompt_additions as p) = as"
  by (cases p) simp_all

lemma set_prompt_additions_same [simp]: "set_prompt_additions (prompt_additions p) p = p"
  by (cases p) simp_all

section \<open>Resolution\<close>

record prompt_model_context =
  pmc_provider_id :: string
  pmc_model_name :: string
  pmc_input_limit_tokens :: "nat option"

record resolved_system_prompt =
  rsp_source :: system_prompt_source
  rsp_configured_profile :: "prompt_profile option"
  rsp_resolved_profile :: "prompt_profile option"
  rsp_locale :: agent_locale
  rsp_model :: "prompt_model_context option"
  rsp_base_text :: string
  rsp_additions :: "prompt_addition list"
  rsp_enabled_addition_ids :: "string list"
  rsp_effective_text :: string

record prompt_texts =
  ptx_openai_en :: string
  ptx_openai_zh :: string
  ptx_general_en :: string
  ptx_general_zh :: string

fun built_in_prompt_for_profile :: "prompt_texts \<Rightarrow> agent_locale \<Rightarrow> prompt_profile \<Rightarrow> string" where
  "built_in_prompt_for_profile tx En OpenAiProfile = ptx_openai_en tx"
| "built_in_prompt_for_profile tx Zh OpenAiProfile = ptx_openai_zh tx"
| "built_in_prompt_for_profile tx En _ = ptx_general_en tx"
| "built_in_prompt_for_profile tx Zh _ = ptx_general_zh tx"

definition built_in_system_prompt :: "prompt_texts \<Rightarrow> agent_locale \<Rightarrow> string" where
  "built_in_system_prompt tx locale = built_in_prompt_for_profile tx locale GeneralProfile"

text \<open>\<open>str::replace\<close> with a one-byte pattern.\<close>

definition replace_char :: "char \<Rightarrow> string \<Rightarrow> string \<Rightarrow> string" where
  "replace_char c r s = concat (map (\<lambda>x. if x = c then r else [x]) s)"

definition is_openai_provider :: "string \<Rightarrow> bool" where
  "is_openai_provider provider_id =
     (replace_char (CHR ''-'') ''_'' (ascii_lowercase provider_id) \<in> {''openai'', ''chatgpt_responses''})"

definition is_openai_model_name :: "string \<Rightarrow> bool" where
  "is_openai_model_name name = prefix ''gpt-'' (replace_char (CHR ''_'') ''-'' (ascii_lowercase name))"

definition is_openai_model_context :: "prompt_model_context \<Rightarrow> bool" where
  "is_openai_model_context m =
     (is_openai_provider (pmc_provider_id m) \<or> is_openai_model_name (pmc_model_name m))"

definition resolve_built_in_profile :: "prompt_profile \<Rightarrow> prompt_model_context option \<Rightarrow> prompt_profile" where
  "resolve_built_in_profile profile model =
     (case profile of
        AutoProfile \<Rightarrow>
          if (case model of None \<Rightarrow> False | Some m \<Rightarrow> is_openai_model_context m)
          then OpenAiProfile else GeneralProfile
      | explicit \<Rightarrow> explicit)"

definition escape_xml_attribute :: "string \<Rightarrow> string" where
  "escape_xml_attribute s =
     replace_char (CHR ''>'') ''&gt;'' (replace_char (CHR ''<'') ''&lt;''
       (replace_char (CHR 0x22) ''&quot;'' (replace_char (CHR ''&'') ''&amp;'' s)))"

definition render_addition :: "prompt_addition \<Rightarrow> string" where
  "render_addition a =
     ''<addition id='' @ [CHR 0x22] @ escape_xml_attribute (pa_id a) @ [CHR 0x22] @ ''>'' @ [CHR 0x0A]
     @ trim (pa_text a) @ [CHR 0x0A] @ ''</addition>'' @ [CHR 0x0A]"

definition render_effective_system_prompt :: "string \<Rightarrow> prompt_addition list \<Rightarrow> string" where
  "render_effective_system_prompt base additions =
     (let enabled = filter pa_enabled additions
      in if enabled = [] then base
         else trim_end base @ [CHR 0x0A, CHR 0x0A] @ ''<system_prompt_additions>'' @ [CHR 0x0A]
              @ concat (map render_addition enabled)
              @ ''</system_prompt_additions>'' @ [CHR 0x0A])"

definition resolved_prompt ::
  "system_prompt_source \<Rightarrow> prompt_profile option \<Rightarrow> prompt_profile option \<Rightarrow> agent_locale
   \<Rightarrow> prompt_model_context option \<Rightarrow> string \<Rightarrow> prompt_addition list \<Rightarrow> resolved_system_prompt" where
  "resolved_prompt source configured resolved locale model base additions =
     \<lparr>rsp_source = source, rsp_configured_profile = configured, rsp_resolved_profile = resolved,
      rsp_locale = locale, rsp_model = model, rsp_base_text = base, rsp_additions = additions,
      rsp_enabled_addition_ids = map pa_id (filter pa_enabled additions),
      rsp_effective_text = render_effective_system_prompt base additions\<rparr>"

fun resolve_system_prompt ::
  "prompt_texts \<Rightarrow> agent_locale \<Rightarrow> agent_system_prompt \<Rightarrow> prompt_model_context option
   \<Rightarrow> resolved_system_prompt" where
  "resolve_system_prompt tx locale (BuiltInPrompt profile additions) model =
     (let resolved = resolve_built_in_profile profile model
      in resolved_prompt BuiltInSource (Some profile) (Some resolved) locale model
           (built_in_prompt_for_profile tx locale resolved) additions)"
| "resolve_system_prompt tx locale (CustomPrompt p additions) model =
     resolved_prompt CustomSource None None locale model p additions"

definition prompt_effective_text ::
  "prompt_texts \<Rightarrow> agent_system_prompt \<Rightarrow> agent_locale \<Rightarrow> prompt_model_context option \<Rightarrow> string" where
  "prompt_effective_text tx p locale model = rsp_effective_text (resolve_system_prompt tx locale p model)"

text \<open>An addition's id cannot close the attribute it stands in, nor open a tag.\<close>

lemma set_replace_char_in: "x \<in> set (replace_char c r s) \<Longrightarrow> (x \<in> set s \<and> x \<noteq> c) \<or> x \<in> set r"
  by (auto simp: replace_char_def split: if_splits)

lemma escape_xml_attribute_safe:
  "CHR 0x22 \<notin> set (escape_xml_attribute s) \<and> CHR ''<'' \<notin> set (escape_xml_attribute s)
   \<and> CHR ''>'' \<notin> set (escape_xml_attribute s)"
  by (auto simp: escape_xml_attribute_def dest!: set_replace_char_in)

text \<open>Disabled additions leave no trace in the text.\<close>

lemma render_only_enabled:
  "render_effective_system_prompt base (filter pa_enabled additions) = render_effective_system_prompt base additions"
  by (simp add: render_effective_system_prompt_def)

end
