(* ===== verification/Manifest.thy ===== *)
theory Manifest
  imports System_Prompt Plugin Approval
begin

text \<open>
  The manifest of an agent and the patches that change it (\<open>crates/noloong-agent/src/manifest.rs\<close>),
  and the store of proposed patches.
\<close>

section \<open>Errors\<close>

datatype manifest_error =
    InvalidManifest string
  | UnknownTool string
  | UnknownPromptAddition string
  | UnknownPlugin string
  | PluginAlreadyExists string
  | UnknownProposal string
  | UnsupportedPatch string

fun show_manifest_error :: "manifest_error \<Rightarrow> string" where
  "show_manifest_error (InvalidManifest m) = ''invalid manifest patch: '' @ m"
| "show_manifest_error (UnknownTool n) = ''unknown built-in tool: '' @ n"
| "show_manifest_error (UnknownPromptAddition i) = ''unknown system prompt addition: '' @ i"
| "show_manifest_error (UnknownPlugin i) = ''unknown plugin: '' @ i"
| "show_manifest_error (PluginAlreadyExists i) = ''plugin already exists: '' @ i"
| "show_manifest_error (UnknownProposal i) = ''unknown manifest proposal: '' @ i"
| "show_manifest_error (UnsupportedPatch m) = ''unsupported manifest patch: '' @ m"

type_synonym manifest_check = "manifest_error + unit"

section \<open>Validation\<close>

definition check_then :: "manifest_check \<Rightarrow> manifest_check \<Rightarrow> manifest_check" where
  "check_then a b = (case a of Inl e \<Rightarrow> Inl e | Inr _ \<Rightarrow> b)"

lemma check_then_Inr [simp]: "check_then a b = Inr () \<longleftrightarrow> a = Inr () \<and> b = Inr ()"
  by (simp add: check_then_def split: sum.split)

fun manifest_check_all :: "('a \<Rightarrow> manifest_check) \<Rightarrow> 'a list \<Rightarrow> manifest_check" where
  "manifest_check_all f [] = Inr ()"
| "manifest_check_all f (x # xs) = check_then (f x) (manifest_check_all f xs)"

lemma manifest_check_all_Inr [simp]: "manifest_check_all f xs = Inr () \<longleftrightarrow> (\<forall>x \<in> set xs. f x = Inr ())"
  by (induction xs) auto

definition validate_plugin :: "agent_plugin_declaration \<Rightarrow> manifest_check" where
  "validate_plugin p =
     (case declaration_validate p of Inl m \<Rightarrow> Inl (InvalidManifest m) | Inr _ \<Rightarrow> Inr ())"

definition manifest_non_empty :: "string \<Rightarrow> string \<Rightarrow> manifest_check" where
  "manifest_non_empty field s =
     (if is_blank s then Inl (InvalidManifest (field @ '' must not be empty'')) else Inr ())"

definition validate_addition :: "prompt_addition \<Rightarrow> manifest_check" where
  "validate_addition a =
     check_then (manifest_non_empty ''system prompt addition id'' (pa_id a))
       (manifest_non_empty ''system prompt addition text'' (pa_text a))"

fun validate_unique_ids_from :: "string set \<Rightarrow> string list \<Rightarrow> manifest_check" where
  "validate_unique_ids_from seen [] = Inr ()"
| "validate_unique_ids_from seen (i # ids) =
     (if i \<in> seen then Inl (InvalidManifest (''duplicate system prompt addition id: '' @ i))
      else validate_unique_ids_from (insert i seen) ids)"

definition validate_unique_addition_ids :: "string list \<Rightarrow> manifest_check" where
  "validate_unique_addition_ids ids = validate_unique_ids_from {} ids"

definition validate_additions :: "prompt_addition list \<Rightarrow> manifest_check" where
  "validate_additions as =
     check_then (manifest_check_all validate_addition as) (validate_unique_addition_ids (map pa_id as))"

definition validate_addition_ids :: "string list \<Rightarrow> manifest_check" where
  "validate_addition_ids ids =
     check_then (manifest_check_all (manifest_non_empty ''system prompt addition id'') ids)
       (validate_unique_addition_ids ids)"

fun validate_system_prompt :: "agent_system_prompt \<Rightarrow> manifest_check" where
  "validate_system_prompt (CustomPrompt p as) =
     (if is_blank p then Inl (InvalidManifest ''system prompt must not be empty'') else validate_additions as)"
| "validate_system_prompt (BuiltInPrompt _ as) = validate_additions as"

section \<open>The manifest\<close>

datatype file_edit_tool_policy = AutoByModel | ApplyPatchPolicy | WriteFilePolicy | FileEditDisabled

fun file_edit_policy_as_str :: "file_edit_tool_policy \<Rightarrow> string" where
  "file_edit_policy_as_str AutoByModel = ''auto_by_model''"
| "file_edit_policy_as_str ApplyPatchPolicy = ''apply_patch''"
| "file_edit_policy_as_str WriteFilePolicy = ''write_file''"
| "file_edit_policy_as_str FileEditDisabled = ''disabled''"

record agent_manifest =
  am_locale :: agent_locale
  am_system_prompt :: agent_system_prompt
  am_enabled_tools :: "built_in_tool_name set"
  am_file_edit_tool_policy :: file_edit_tool_policy
  am_approval_policy :: approval_policy
  am_plugins :: "agent_plugin_declaration smap"
  am_reserved_phase_profile :: "json smap"

definition default_enabled_tools :: "built_in_tool_name set" where
  "default_enabled_tools = set built_in_tool_names"

definition manifest_new :: "agent_system_prompt \<Rightarrow> agent_manifest" where
  "manifest_new p =
     \<lparr>am_locale = En, am_system_prompt = p, am_enabled_tools = default_enabled_tools,
      am_file_edit_tool_policy = AutoByModel, am_approval_policy = RequireApproval,
      am_plugins = [], am_reserved_phase_profile = []\<rparr>"

definition default_manifest :: agent_manifest where
  "default_manifest = manifest_new (BuiltInPrompt AutoProfile [])"

definition with_enabled_tool :: "built_in_tool_name \<Rightarrow> agent_manifest \<Rightarrow> agent_manifest" where
  "with_enabled_tool n m = m\<lparr>am_enabled_tools := insert n (am_enabled_tools m)\<rparr>"

definition with_file_edit_tool_policy :: "file_edit_tool_policy \<Rightarrow> agent_manifest \<Rightarrow> agent_manifest" where
  "with_file_edit_tool_policy p m = m\<lparr>am_file_edit_tool_policy := p\<rparr>"

definition effective_system_prompt :: "prompt_texts \<Rightarrow> agent_manifest \<Rightarrow> string" where
  "effective_system_prompt tx m = prompt_effective_text tx (am_system_prompt m) (am_locale m) None"

definition validate_plugin_entry :: "string \<times> agent_plugin_declaration \<Rightarrow> manifest_check" where
  "validate_plugin_entry = (\<lambda>(key, p).
     if key \<noteq> apd_plugin_id p
     then Inl (InvalidManifest (''plugin map key `'' @ key @ ''` does not match pluginId `'' @ apd_plugin_id p @ ''`''))
     else validate_plugin p)"

definition manifest_validate :: "agent_manifest \<Rightarrow> manifest_check" where
  "manifest_validate m =
     check_then (validate_system_prompt (am_system_prompt m)) (manifest_check_all validate_plugin_entry (am_plugins m))"

definition register_plugin :: "agent_plugin_declaration \<Rightarrow> agent_manifest \<Rightarrow> agent_manifest \<times> manifest_check" where
  "register_plugin p m =
     (case validate_plugin p of
        Inl e \<Rightarrow> (m, Inl e)
      | Inr _ \<Rightarrow>
          if bt_contains_key (am_plugins m) (apd_plugin_id p) then (m, Inl (PluginAlreadyExists (apd_plugin_id p)))
          else (m\<lparr>am_plugins := bt_insert (apd_plugin_id p) p (am_plugins m)\<rparr>, Inr ()))"

definition with_plugin :: "agent_plugin_declaration \<Rightarrow> agent_manifest \<Rightarrow> manifest_error + agent_manifest" where
  "with_plugin p m = (case register_plugin p m of (m', Inl e) \<Rightarrow> Inl e | (m', Inr _) \<Rightarrow> Inr m')"

section \<open>Patches\<close>

datatype manifest_patch =
    ReplaceSystemPrompt string
  | UseBuiltInSystemPrompt
  | SetPromptProfile prompt_profile
  | UpsertAddition prompt_addition
  | RemoveAddition string
  | SetAdditionEnabled string bool
  | ReorderAdditions "string list"
  | ClearAdditions
  | SetLocale agent_locale
  | EnableTool built_in_tool_name
  | DisableTool built_in_tool_name
  | UpdateApprovalPolicy approval_policy
  | UpdateFileEditToolPolicy file_edit_tool_policy
  | RegisterPlugin agent_plugin_declaration
  | SetPluginEnabled string bool
  | RemovePlugin string
  | ReservedPhaseProfile string json

definition reserved_patch_error :: manifest_error where
  "reserved_patch_error = UnsupportedPatch ''phase profile patches are reserved for a later version''"

fun patch_validate :: "manifest_patch \<Rightarrow> manifest_check" where
  "patch_validate (ReplaceSystemPrompt p) =
     (if is_blank p then Inl (InvalidManifest ''system prompt must not be empty'') else Inr ())"
| "patch_validate (UpsertAddition a) = validate_addition a"
| "patch_validate (RemoveAddition i) = manifest_non_empty ''system prompt addition id'' i"
| "patch_validate (SetAdditionEnabled i _) = manifest_non_empty ''system prompt addition id'' i"
| "patch_validate (ReorderAdditions ids) = validate_addition_ids ids"
| "patch_validate (ReservedPhaseProfile _ _) = Inl reserved_patch_error"
| "patch_validate (RegisterPlugin p) = validate_plugin p"
| "patch_validate (SetPluginEnabled i _) = manifest_non_empty ''pluginId'' i"
| "patch_validate (RemovePlugin i) = manifest_non_empty ''pluginId'' i"
| "patch_validate _ = Inr ()"

fun patch_summary :: "manifest_patch \<Rightarrow> string" where
  "patch_summary (ReplaceSystemPrompt _) = ''replace system prompt''"
| "patch_summary UseBuiltInSystemPrompt = ''use built-in system prompt''"
| "patch_summary (SetPromptProfile profile) =
     ''set built-in system prompt profile to '' @ prompt_profile_as_str profile"
| "patch_summary (UpsertAddition a) = ''upsert system prompt addition '' @ pa_id a"
| "patch_summary (RemoveAddition i) = ''remove system prompt addition '' @ i"
| "patch_summary (SetAdditionEnabled i b) = ''set system prompt addition '' @ i @ '' enabled='' @ show_bool b"
| "patch_summary (ReorderAdditions _) = ''reorder system prompt additions''"
| "patch_summary ClearAdditions = ''clear system prompt additions''"
| "patch_summary (SetLocale l) = ''set locale to '' @ locale_code l"
| "patch_summary (EnableTool n) = ''enable tool '' @ built_in_as_str n"
| "patch_summary (DisableTool n) = ''disable tool '' @ built_in_as_str n"
| "patch_summary (UpdateApprovalPolicy _) = ''update approval policy''"
| "patch_summary (UpdateFileEditToolPolicy p) = ''update file edit tool policy to '' @ file_edit_policy_as_str p"
| "patch_summary (RegisterPlugin p) = ''register '' @ declaration_summary p"
| "patch_summary (SetPluginEnabled i b) = ''set plugin '' @ i @ '' enabled='' @ show_bool b"
| "patch_summary (RemovePlugin i) = ''remove plugin '' @ i"
| "patch_summary (ReservedPhaseProfile d _) = ''reserved phase profile patch: '' @ d"

definition remove_addition :: "string \<Rightarrow> prompt_addition list \<Rightarrow> manifest_error + prompt_addition list" where
  "remove_addition i as =
     (case find_index (\<lambda>a. pa_id a = i) as of
        None \<Rightarrow> Inl (UnknownPromptAddition i)
      | Some k \<Rightarrow> Inr (take k as @ drop (Suc k) as))"

fun reorder_from ::
  "prompt_addition smap \<Rightarrow> prompt_addition list \<Rightarrow> string list \<Rightarrow> prompt_addition list \<times> manifest_check" where
  "reorder_from by_id as [] = (as, Inr ())"
| "reorder_from by_id as (i # ids) =
     (case bt_get by_id i of
        None \<Rightarrow> (as, Inl (UnknownPromptAddition i))
      | Some a \<Rightarrow> reorder_from (bt_remove i by_id) (as @ [a]) ids)"

text \<open>The list is drained before the requested order is put back.\<close>

definition reorder_additions ::
  "string list \<Rightarrow> prompt_addition list \<Rightarrow> prompt_addition list \<times> manifest_check" where
  "reorder_additions ids as =
     (if set (map pa_id as) \<noteq> set ids
      then (as, Inl (InvalidManifest ''system prompt addition reorder ids must match current addition ids''))
      else reorder_from (bt_collect (map (\<lambda>a. (pa_id a, a)) as)) [] ids)"

definition upsert_addition :: "prompt_addition \<Rightarrow> prompt_addition list \<Rightarrow> prompt_addition list" where
  "upsert_addition a as =
     (case find_index (\<lambda>x. pa_id x = pa_id a) as of None \<Rightarrow> as @ [a] | Some k \<Rightarrow> as[k := a])"

definition set_addition_enabled ::
  "string \<Rightarrow> bool \<Rightarrow> prompt_addition list \<Rightarrow> manifest_error + prompt_addition list" where
  "set_addition_enabled i b as =
     (case find_index (\<lambda>a. pa_id a = i) as of
        None \<Rightarrow> Inl (UnknownPromptAddition i)
      | Some k \<Rightarrow> Inr (as[k := (as ! k)\<lparr>pa_enabled := b\<rparr>]))"

definition put_additions :: "prompt_addition list \<Rightarrow> agent_manifest \<Rightarrow> agent_manifest" where
  "put_additions as m = m\<lparr>am_system_prompt := set_prompt_additions as (am_system_prompt m)\<rparr>"

text \<open>The change of a valid patch: the manifest left behind, and the result.\<close>

fun change_manifest :: "manifest_patch \<Rightarrow> agent_manifest \<Rightarrow> agent_manifest \<times> manifest_check" where
  "change_manifest (ReplaceSystemPrompt p) m =
     (m\<lparr>am_system_prompt := CustomPrompt p (prompt_additions (am_system_prompt m))\<rparr>, Inr ())"
| "change_manifest UseBuiltInSystemPrompt m =
     (m\<lparr>am_system_prompt := BuiltInPrompt AutoProfile (prompt_additions (am_system_prompt m))\<rparr>, Inr ())"
| "change_manifest (SetPromptProfile profile) m =
     (m\<lparr>am_system_prompt := BuiltInPrompt profile (prompt_additions (am_system_prompt m))\<rparr>, Inr ())"
| "change_manifest (UpsertAddition a) m =
     (put_additions (upsert_addition a (prompt_additions (am_system_prompt m))) m, Inr ())"
| "change_manifest (RemoveAddition i) m =
     (case remove_addition i (prompt_additions (am_system_prompt m)) of
        Inl e \<Rightarrow> (m, Inl e) | Inr as \<Rightarrow> (put_additions as m, Inr ()))"
| "change_manifest (SetAdditionEnabled i b) m =
     (case set_addition_enabled i b (prompt_additions (am_system_prompt m)) of
        Inl e \<Rightarrow> (m, Inl e) | Inr as \<Rightarrow> (put_additions as m, Inr ()))"
| "change_manifest (ReorderAdditions ids) m =
     (let (as, r) = reorder_additions ids (prompt_additions (am_system_prompt m)) in (put_additions as m, r))"
| "change_manifest ClearAdditions m = (put_additions [] m, Inr ())"
| "change_manifest (SetLocale l) m = (m\<lparr>am_locale := l\<rparr>, Inr ())"
| "change_manifest (EnableTool n) m = (m\<lparr>am_enabled_tools := insert n (am_enabled_tools m)\<rparr>, Inr ())"
| "change_manifest (DisableTool n) m = (m\<lparr>am_enabled_tools := am_enabled_tools m - {n}\<rparr>, Inr ())"
| "change_manifest (UpdateApprovalPolicy p) m = (m\<lparr>am_approval_policy := p\<rparr>, Inr ())"
| "change_manifest (UpdateFileEditToolPolicy p) m = (m\<lparr>am_file_edit_tool_policy := p\<rparr>, Inr ())"
| "change_manifest (RegisterPlugin p) m = register_plugin p m"
| "change_manifest (SetPluginEnabled i b) m =
     (case bt_get (am_plugins m) i of
        None \<Rightarrow> (m, Inl (UnknownPlugin i))
      | Some p \<Rightarrow> (m\<lparr>am_plugins := bt_insert i (p\<lparr>apd_enabled := b\<rparr>) (am_plugins m)\<rparr>, Inr ()))"
| "change_manifest (RemovePlugin i) m =
     (if bt_contains_key (am_plugins m) i then (m\<lparr>am_plugins := bt_remove i (am_plugins m)\<rparr>, Inr ())
      else (m, Inl (UnknownPlugin i)))"
| "change_manifest (ReservedPhaseProfile _ _) m = (m, Inl reserved_patch_error)"

definition apply_manifest_patch :: "manifest_patch \<Rightarrow> agent_manifest \<Rightarrow> agent_manifest \<times> manifest_check" where
  "apply_manifest_patch p m = (case patch_validate p of Inl e \<Rightarrow> (m, Inl e) | Inr _ \<Rightarrow> change_manifest p m)"

section \<open>Proposals\<close>

record manifest_patch_proposal =
  mpp_proposal_id :: string
  mpp_patch :: manifest_patch
  mpp_summary :: string

record manifest_proposal_store =
  mps_counter :: nat
  mps_pending :: "manifest_patch_proposal smap"
  mps_approved :: "manifest_patch_proposal list"

definition empty_proposal_store :: manifest_proposal_store where
  "empty_proposal_store = \<lparr>mps_counter = 0, mps_pending = [], mps_approved = []\<rparr>"

definition record_pending_proposal_with_summary ::
  "manifest_patch \<Rightarrow> string option \<Rightarrow> manifest_proposal_store
   \<Rightarrow> manifest_proposal_store \<times> (manifest_error + manifest_patch_proposal)" where
  "record_pending_proposal_with_summary p summary st =
     (case patch_validate p of
        Inl e \<Rightarrow> (st, Inl e)
      | Inr _ \<Rightarrow>
          (let i = ''manifest-proposal-'' @ show_nat (mps_counter st + 1);
               proposal = \<lparr>mpp_proposal_id = i, mpp_patch = p,
                 mpp_summary = (case summary of Some s \<Rightarrow> s | None \<Rightarrow> patch_summary p)\<rparr>
           in (st\<lparr>mps_counter := mps_counter st + 1, mps_pending := bt_insert i proposal (mps_pending st)\<rparr>,
               Inr proposal)))"

definition record_pending_proposal ::
  "manifest_patch \<Rightarrow> manifest_proposal_store
   \<Rightarrow> manifest_proposal_store \<times> (manifest_error + manifest_patch_proposal)" where
  "record_pending_proposal p st = record_pending_proposal_with_summary p None st"

definition approve_proposal ::
  "string \<Rightarrow> manifest_proposal_store \<Rightarrow> manifest_proposal_store \<times> (manifest_error + manifest_patch_proposal)" where
  "approve_proposal i st =
     (case bt_get (mps_pending st) i of
        None \<Rightarrow> (st, Inl (UnknownProposal i))
      | Some p \<Rightarrow> (st\<lparr>mps_pending := bt_remove i (mps_pending st), mps_approved := mps_approved st @ [p]\<rparr>, Inr p))"

definition pending_len :: "manifest_proposal_store \<Rightarrow> nat" where
  "pending_len st = length (mps_pending st)"

definition pending_proposals :: "manifest_proposal_store \<Rightarrow> manifest_patch_proposal list" where
  "pending_proposals st = bt_values (mps_pending st)"

definition drain_approved :: "manifest_proposal_store \<Rightarrow> manifest_proposal_store \<times> manifest_patch_proposal list" where
  "drain_approved st = (st\<lparr>mps_approved := []\<rparr>, mps_approved st)"

definition approved_len :: "manifest_proposal_store \<Rightarrow> nat" where
  "approved_len st = length (mps_approved st)"

end
