(* ===== verification/Manifest_Properties.thy ===== *)
theory Manifest_Properties
  imports Manifest
begin

text \<open>
  The manifest under patches: the additions of the prompt keep distinct identifiers, the plugins are
  filed under their own identifiers, and a patch that fails changes nothing.
\<close>

section \<open>Validity\<close>

lemma validate_unique_ids_from_iff:
  "validate_unique_ids_from seen ids = Inr () \<longleftrightarrow> distinct ids \<and> set ids \<inter> seen = {}"
  by (induction seen ids rule: validate_unique_ids_from.induct) auto

lemma validate_unique_addition_ids_iff [simp]: "validate_unique_addition_ids ids = Inr () \<longleftrightarrow> distinct ids"
  by (simp add: validate_unique_addition_ids_def validate_unique_ids_from_iff)

lemma manifest_non_empty_iff [simp]: "manifest_non_empty field s = Inr () \<longleftrightarrow> \<not> is_blank s"
  by (simp add: manifest_non_empty_def)

lemma validate_addition_iff: "validate_addition a = Inr () \<longleftrightarrow> \<not> is_blank (pa_id a) \<and> \<not> is_blank (pa_text a)"
  by (simp add: validate_addition_def)

lemma validate_additions_iff:
  "validate_additions as = Inr () \<longleftrightarrow> (\<forall>a \<in> set as. validate_addition a = Inr ()) \<and> distinct (map pa_id as)"
  by (simp add: validate_additions_def)

lemma validate_plugin_iff: "validate_plugin p = Inr () \<longleftrightarrow> declaration_validate p = Inr ()"
  by (auto simp: validate_plugin_def split: sum.splits)

lemma validate_plugin_entry_iff:
  "validate_plugin_entry (k, p) = Inr () \<longleftrightarrow> k = apd_plugin_id p \<and> validate_plugin p = Inr ()"
  by (simp add: validate_plugin_entry_def)

lemma declaration_validate_enabled [simp]:
  "declaration_validate (p\<lparr>apd_enabled := b\<rparr>) = declaration_validate p"
  by (simp add: declaration_validate_def)

definition plugins_filed :: "agent_plugin_declaration smap \<Rightarrow> bool" where
  "plugins_filed ps \<longleftrightarrow> bt_wf ps \<and> (\<forall>e \<in> set ps. validate_plugin_entry e = Inr ())"

lemma set_bt_insert_subset: "set (bt_insert k v m) \<subseteq> insert (k, v) (set m)"
  by (induction k v m rule: bt_insert.induct) auto

lemma plugins_filed_insert:
  assumes "plugins_filed ps" and "validate_plugin_entry (k, p) = Inr ()"
  shows "plugins_filed (bt_insert k p ps)"
  using assms set_bt_insert_subset [of k p ps] by (auto simp: plugins_filed_def bt_wf_insert)

lemma plugins_filed_remove: "plugins_filed ps \<Longrightarrow> plugins_filed (bt_remove k ps)"
  by (simp add: plugins_filed_def bt_wf_remove) (auto simp: bt_remove_def)

lemma manifest_validate_iff:
  "manifest_validate m = Inr () \<and> bt_wf (am_plugins m) \<longleftrightarrow>
     validate_system_prompt (am_system_prompt m) = Inr () \<and> plugins_filed (am_plugins m)"
  by (auto simp: manifest_validate_def plugins_filed_def)

lemma validate_prompt_additions:
  "validate_system_prompt p = Inr () \<Longrightarrow> validate_additions (prompt_additions p) = Inr ()"
  by (cases p) (auto split: if_splits)

lemma validate_set_additions:
  "validate_system_prompt p = Inr () \<Longrightarrow> validate_additions as = Inr ()
   \<Longrightarrow> validate_system_prompt (set_prompt_additions as p) = Inr ()"
  by (cases p) (auto split: if_splits)

section \<open>Additions\<close>

lemma upsert_addition_valid:
  assumes "validate_additions as = Inr ()" and "validate_addition a = Inr ()"
  shows "validate_additions (upsert_addition a as) = Inr ()"
proof (cases "find_index (\<lambda>x. pa_id x = pa_id a) as")
  case None
  then have "upsert_addition a as = as @ [a]" and "\<forall>x \<in> set as. pa_id x \<noteq> pa_id a"
    by (simp add: upsert_addition_def) (use None in \<open>simp add: find_index_None_iff\<close>)
  with assms show ?thesis by (auto simp: validate_additions_iff)
next
  case (Some k)
  from find_index_SomeD(1,2) [OF Some] have "map pa_id (as[k := a]) = map pa_id as"
    by (metis list_update_id map_update)
  moreover have "set (as[k := a]) \<subseteq> insert a (set as)" by (rule set_update_subset_insert)
  ultimately show ?thesis using assms Some by (auto simp: upsert_addition_def validate_additions_iff)
qed

lemma remove_addition_valid:
  assumes "validate_additions as = Inr ()" and "remove_addition i as = Inr as'"
  shows "validate_additions as' = Inr ()"
proof -
  from assms(2) obtain k where k: "find_index (\<lambda>a. pa_id a = i) as = Some k" and as': "as' = take k as @ drop (Suc k) as"
    by (auto simp: remove_addition_def split: option.splits)
  from find_index_SomeD(1) [OF k] have "as = take k as @ as ! k # drop (Suc k) as"
    by (simp add: id_take_nth_drop)
  then obtain xs x ys where "as = xs @ x # ys" and "as' = xs @ ys" using as' by blast
  with assms(1) show ?thesis by (auto simp: validate_additions_iff)
qed

lemma set_addition_enabled_valid:
  assumes "validate_additions as = Inr ()" and "set_addition_enabled i b as = Inr as'"
  shows "validate_additions as' = Inr ()"
proof -
  from assms(2) obtain k where k: "find_index (\<lambda>a. pa_id a = i) as = Some k"
    and as': "as' = as[k := (as ! k)\<lparr>pa_enabled := b\<rparr>]"
    by (auto simp: set_addition_enabled_def split: option.splits)
  from find_index_SomeD(1) [OF k] have lt: "k < length as" .
  then have "map pa_id as' = map pa_id as"
    by (simp add: as' map_update) (metis list_update_id map_update nth_map)
  moreover have "set as' \<subseteq> insert ((as ! k)\<lparr>pa_enabled := b\<rparr>) (set as)"
    unfolding as' by (rule set_update_subset_insert)
  ultimately show ?thesis using assms(1) lt nth_mem [OF lt]
    by (auto simp: validate_additions_iff validate_addition_iff)
qed

lemma reorder_from_all:
  "distinct ids \<Longrightarrow> \<forall>i \<in> set ids. map_of by_id i = Some (f i)
   \<Longrightarrow> reorder_from by_id as ids = (as @ map f ids, Inr ())"
proof (induction ids arbitrary: by_id as)
  case (Cons i ids)
  from Cons.prems have "\<forall>j \<in> set ids. map_of (bt_remove i by_id) j = Some (f j)"
    by (auto simp: map_of_bt_remove)
  with Cons show ?case by simp
qed simp

lemma reorder_additions_outcome:
  assumes valid: "validate_additions as = Inr ()" and "distinct ids"
    and reorder: "reorder_additions ids as = (as', r)"
  shows "if set ids = set (map pa_id as) then r = Inr () \<and> map pa_id as' = ids \<and> set as' = set as
         else as' = as \<and> (\<exists>e. r = Inl e)"
proof (cases "set ids = set (map pa_id as)")
  case True
  let ?by_id = "bt_collect (map (\<lambda>a. (pa_id a, a)) as)"
  have by_id: "map_of ?by_id (pa_id a) = Some a" if "a \<in> set as" for a
  proof -
    have "distinct (map fst (rev (map (\<lambda>a. (pa_id a, a)) as)))"
      using valid by (simp add: validate_additions_iff rev_map [symmetric] comp_def)
    moreover have "(pa_id a, a) \<in> set (rev (map (\<lambda>a. (pa_id a, a)) as))" using that by auto
    ultimately show ?thesis unfolding map_of_bt_collect by (rule map_of_is_SomeI)
  qed
  define f where "f i = the (map_of ?by_id i)" for i
  have f: "f (pa_id a) = a" if "a \<in> set as" for a by (simp add: f_def by_id that)
  have "\<forall>i \<in> set ids. map_of ?by_id i = Some (f i)"
    using True by_id by (auto simp: f_def)
  with reorder_from_all [OF \<open>distinct ids\<close> this, of "[]"] reorder True
  have r: "r = Inr ()" "as' = map f ids" by (auto simp: reorder_additions_def)
  have "map (\<lambda>i. pa_id (f i)) ids = ids" using True f by (intro map_idI) auto
  moreover have "f ` set ids = set as" using True f by (auto simp: image_image)
  ultimately show ?thesis using True r by (simp add: comp_def)
next
  case False
  then have "reorder_additions ids as =
    (as, Inl (InvalidManifest ''system prompt addition reorder ids must match current addition ids''))"
    by (subst reorder_additions_def) (rule if_P, blast)
  with reorder False show ?thesis by auto
qed

lemma reorder_additions_valid:
  assumes "validate_additions as = Inr ()" and "distinct ids" and "reorder_additions ids as = (as', r)"
  shows "validate_additions as' = Inr ()"
  using reorder_additions_outcome [OF assms] assms(1,2)
  by (auto simp: validate_additions_iff split: if_splits)

section \<open>Patches\<close>

lemma put_additions_valid:
  assumes "validate_system_prompt (am_system_prompt m) = Inr ()" and "plugins_filed (am_plugins m)"
    and "validate_additions as = Inr ()"
  shows "validate_system_prompt (am_system_prompt (put_additions as m)) = Inr ()
    \<and> plugins_filed (am_plugins (put_additions as m))"
  using assms by (simp add: put_additions_def validate_set_additions)

lemma register_plugin_valid:
  assumes "plugins_filed (am_plugins m)" and "register_plugin p m = (m', r)"
  shows "plugins_filed (am_plugins m')" and "am_system_prompt m' = am_system_prompt m"
    and "case r of Inl e \<Rightarrow> m' = m | Inr _ \<Rightarrow> True"
proof -
  have "plugins_filed (bt_insert (apd_plugin_id p) p (am_plugins m))" if "validate_plugin p = Inr ()"
    using assms(1) that by (simp add: plugins_filed_insert validate_plugin_entry_iff)
  with assms show "plugins_filed (am_plugins m')" and "am_system_prompt m' = am_system_prompt m"
    and "case r of Inl e \<Rightarrow> m' = m | Inr _ \<Rightarrow> True"
    by (auto simp: register_plugin_def split: sum.splits if_splits)
qed

lemma change_plugins_valid:
  assumes prompt: "validate_system_prompt (am_system_prompt m) = Inr ()"
    and plugins: "plugins_filed (am_plugins m)" and change: "change_manifest p m = (m', r)"
    and p: "p \<in> {RegisterPlugin q, SetPluginEnabled i b, RemovePlugin i}"
  shows "validate_system_prompt (am_system_prompt m') = Inr () \<and> plugins_filed (am_plugins m')"
proof -
  consider "p = RegisterPlugin q" | "p = SetPluginEnabled i b" | "p = RemovePlugin i" using p by blast
  then show ?thesis
  proof cases
    case 1
    with change prompt register_plugin_valid [OF plugins, of q m' r] show ?thesis by simp
  next
    case 2
    show ?thesis
    proof (cases "map_of (am_plugins m) i")
      case (Some q)
      with plugins have entry: "validate_plugin_entry (i, q) = Inr ()"
        by (auto simp: plugins_filed_def dest: map_of_SomeD)
      then have "plugins_filed (bt_insert i (q\<lparr>apd_enabled := b\<rparr>) (am_plugins m))"
        by (intro plugins_filed_insert [OF plugins]) (simp add: validate_plugin_entry_iff validate_plugin_iff)
      with change 2 Some prompt show ?thesis by auto
    qed (use change 2 prompt plugins in auto)
  next
    case 3
    with change prompt plugins plugins_filed_remove [OF plugins, of i] show ?thesis
      by (cases "bt_contains_key (am_plugins m) i") auto
  qed
qed

lemma change_manifest_valid:
  assumes prompt: "validate_system_prompt (am_system_prompt m) = Inr ()"
    and plugins: "plugins_filed (am_plugins m)"
    and patch: "patch_validate p = Inr ()" and change: "change_manifest p m = (m', r)"
  shows "validate_system_prompt (am_system_prompt m') = Inr () \<and> plugins_filed (am_plugins m')"
proof -
  note additions = validate_prompt_additions [OF prompt]
  show ?thesis
  proof (cases p)
    case (UpsertAddition a)
    with patch have "validate_addition a = Inr ()" by simp
    from upsert_addition_valid [OF additions this] have
      "validate_additions (upsert_addition a (prompt_additions (am_system_prompt m))) = Inr ()" .
    from put_additions_valid [OF prompt plugins this] change UpsertAddition show ?thesis by simp
  next
    case (RemoveAddition i)
    show ?thesis
    proof (cases "remove_addition i (prompt_additions (am_system_prompt m))")
      case (Inr as)
      from put_additions_valid [OF prompt plugins remove_addition_valid [OF additions Inr]]
        change RemoveAddition Inr show ?thesis by simp
    qed (use change RemoveAddition prompt plugins in auto)
  next
    case (SetAdditionEnabled i b)
    show ?thesis
    proof (cases "set_addition_enabled i b (prompt_additions (am_system_prompt m))")
      case (Inr as)
      from put_additions_valid [OF prompt plugins set_addition_enabled_valid [OF additions Inr]]
        change SetAdditionEnabled Inr show ?thesis by simp
    qed (use change SetAdditionEnabled prompt plugins in auto)
  next
    case ClearAdditions
    have "validate_additions [] = Inr ()" by (simp add: validate_additions_iff)
    from put_additions_valid [OF prompt plugins this] change ClearAdditions show ?thesis by simp
  next
    case (ReplaceSystemPrompt q)
    with change patch additions plugins show ?thesis by (auto split: if_splits)
  next
    case UseBuiltInSystemPrompt
    with change additions plugins show ?thesis by auto
  next
    case (SetPromptProfile profile)
    with change additions plugins show ?thesis by auto
  next
    case (ReorderAdditions ids)
    with change obtain as where "reorder_additions ids (prompt_additions (am_system_prompt m)) = (as, r)"
      and m': "m' = put_additions as m" by (auto split: prod.splits)
    with reorder_additions_valid [OF additions _ this(1)] patch ReorderAdditions
    have "validate_additions as = Inr ()" by (simp add: validate_addition_ids_def)
    with put_additions_valid [OF prompt plugins] m' show ?thesis by simp
  next
    case (RegisterPlugin q)
    with change_plugins_valid [OF prompt plugins change] show ?thesis by blast
  next
    case (SetPluginEnabled i b)
    with change_plugins_valid [OF prompt plugins change] show ?thesis by blast
  next
    case (RemovePlugin i)
    with change_plugins_valid [OF prompt plugins change] show ?thesis by blast
  qed (use change patch prompt plugins in auto)
qed

lemma change_manifest_failed:
  assumes "validate_system_prompt (am_system_prompt m) = Inr ()"
    and "patch_validate p = Inr ()" and "change_manifest p m = (m', Inl e)"
  shows "m' = m"
proof (cases p)
  case (ReorderAdditions ids)
  with assms(3) obtain as where reorder: "reorder_additions ids (prompt_additions (am_system_prompt m)) = (as, Inl e)"
    and m': "m' = put_additions as m" by (auto split: prod.splits)
  from reorder_additions_outcome [OF validate_prompt_additions [OF assms(1)] _ reorder] assms(2) ReorderAdditions
  have "as = prompt_additions (am_system_prompt m)"
    by (auto simp: validate_addition_ids_def split: if_splits)
  with m' show ?thesis by (simp add: put_additions_def)
qed (use assms(3) in \<open>auto simp: register_plugin_def split: sum.splits option.splits if_splits\<close>)

text \<open>C35: Patching a manifest keeps it valid and is all or nothing: when the manifest is valid (the prompt is not empty, the additions of the prompt are not empty and have distinct identifiers, every plugin is a valid declaration filed under its own identifier), the manifest after any patch, accepted or refused, is valid again, and a patch that reports an error has changed nothing, although the reordering of the additions first takes all of them out.\<close>
theorem manifest_patch_keeps_valid:
  assumes "manifest_validate m = Inr ()" and "bt_wf (am_plugins m)"
    and "apply_manifest_patch p m = (m', r)"
  shows "manifest_validate m' = Inr () \<and> bt_wf (am_plugins m') \<and> (\<forall>e. r = Inl e \<longrightarrow> m' = m)"
proof -
  have valid: "validate_system_prompt (am_system_prompt m) = Inr ()" "plugins_filed (am_plugins m)"
    using assms(1,2) manifest_validate_iff by auto
  consider (refused) e where "patch_validate p = Inl e" "m' = m"
    | (changed) "patch_validate p = Inr ()" "change_manifest p m = (m', r)"
    using assms(3) by (cases "patch_validate p") (auto simp: apply_manifest_patch_def)
  then show ?thesis
  proof cases
    case refused
    with assms(1,2) show ?thesis by simp
  next
    case changed
    with change_manifest_valid [OF valid changed] change_manifest_failed [OF valid(1) changed(1)]
    show ?thesis by (auto simp: manifest_validate_iff)
  qed
qed

definition sample_manifest :: agent_manifest where
  "sample_manifest = manifest_new (BuiltInPrompt GeneralProfile
     [prompt_addition_new ''style'' ''Be brief.'', prompt_addition_new ''team'' ''Ask Ana.''])"

definition sample_patch :: manifest_patch where
  "sample_patch = ReorderAdditions [''team'', ''style'']"

lemma manifest_patch_keeps_valid_witness:
  "manifest_validate (fst (apply_manifest_patch sample_patch sample_manifest)) = Inr ()
   \<and> map pa_id (prompt_additions (am_system_prompt (fst (apply_manifest_patch sample_patch sample_manifest))))
     = [''team'', ''style'']"
proof -
  have valid: "manifest_validate sample_manifest = Inr ()" by code_simp
  have filed: "bt_wf (am_plugins sample_manifest)" by code_simp
  have "map pa_id (prompt_additions (am_system_prompt (fst (apply_manifest_patch sample_patch sample_manifest))))
     = [''team'', ''style'']" by code_simp
  then show ?thesis
    using manifest_patch_keeps_valid [OF valid filed, of sample_patch
        "fst (apply_manifest_patch sample_patch sample_manifest)"
        "snd (apply_manifest_patch sample_patch sample_manifest)"] by simp
qed

end
