(* ===== verification/Interaction_Access.thy ===== *)
theory Interaction_Access
  imports Tool_Inputs
begin

text \<open>
  Errors of the interaction protocol (\<open>crates/noloong-agent/src/interaction/error.rs\<close>), and what a client
  of it is granted (the capabilities of \<open>crates/noloong-agent/src/interaction/wire.rs\<close>).
\<close>

section \<open>Errors\<close>

record interaction_error =
  ie_code :: int
  ie_message :: string
  ie_data :: "json option"

definition interaction_error_new :: "int \<Rightarrow> string \<Rightarrow> interaction_error" where
  "interaction_error_new code message = \<lparr>ie_code = code, ie_message = message, ie_data = None\<rparr>"

definition ERROR_METHOD_NOT_FOUND :: int where
  "ERROR_METHOD_NOT_FOUND = -32601"
definition ERROR_INVALID_PARAMS :: int where
  "ERROR_INVALID_PARAMS = -32602"
definition ERROR_INTERNAL :: int where
  "ERROR_INTERNAL = -32603"
definition ERROR_UNAUTHORIZED :: int where
  "ERROR_UNAUTHORIZED = -32070"
definition ERROR_BUSY :: int where
  "ERROR_BUSY = -32071"
definition ERROR_NOT_FOUND :: int where
  "ERROR_NOT_FOUND = -32072"

definition method_not_found :: "string \<Rightarrow> interaction_error" where
  "method_not_found method = interaction_error_new ERROR_METHOD_NOT_FOUND (''unknown method: '' @ method)"

definition invalid_params :: "string \<Rightarrow> interaction_error" where
  "invalid_params message = interaction_error_new ERROR_INVALID_PARAMS message"

definition internal_error :: "string \<Rightarrow> interaction_error" where
  "internal_error message = interaction_error_new ERROR_INTERNAL message"

definition unauthorized :: "string \<Rightarrow> string \<Rightarrow> string \<Rightarrow> interaction_error" where
  "unauthorized method capability message =
     (interaction_error_new ERROR_UNAUTHORIZED message)
     \<lparr>ie_data := Some (json_object
        [(''method'', JString method), (''requiredCapability'', JString capability)])\<rparr>"

definition busy_error :: "string \<Rightarrow> interaction_error" where
  "busy_error message = interaction_error_new ERROR_BUSY message"

definition not_found :: "string \<Rightarrow> interaction_error" where
  "not_found message = interaction_error_new ERROR_NOT_FOUND message"

fun interaction_of_core_error :: "agent_core_error \<Rightarrow> interaction_error" where
  "interaction_of_core_error (PhaseError message) = busy_error message"
| "interaction_of_core_error e = internal_error (error_to_string e)"

section \<open>Capabilities\<close>

datatype authority_capability =
    AgentRun | AgentQueue | ApprovalResolve | ManifestApply | ProcessControl
  | CapSubagentSpawn | GoalManage | AutomationManage | SessionDelete

fun capability_as_str :: "authority_capability \<Rightarrow> string" where
  "capability_as_str AgentRun = ''agent.run''"
| "capability_as_str AgentQueue = ''agent.queue''"
| "capability_as_str ApprovalResolve = ''approval.resolve''"
| "capability_as_str ManifestApply = ''manifest.apply''"
| "capability_as_str ProcessControl = ''process.control''"
| "capability_as_str CapSubagentSpawn = ''subagent.spawn''"
| "capability_as_str GoalManage = ''goal.manage''"
| "capability_as_str AutomationManage = ''automation.manage''"
| "capability_as_str SessionDelete = ''session.delete''"

definition all_capabilities :: "authority_capability list" where
  "all_capabilities =
     [AgentRun, AgentQueue, ApprovalResolve, ManifestApply, ProcessControl, CapSubagentSpawn,
      GoalManage, AutomationManage, SessionDelete]"

definition capability_parse :: "string \<Rightarrow> interaction_error + authority_capability" where
  "capability_parse s =
     (case List.find (\<lambda>c. capability_as_str c = s) all_capabilities of
        Some c \<Rightarrow> Inr c
      | None \<Rightarrow> Inl (invalid_params (''unknown authority capability: '' @ s)))"

lemma capability_parse_as_str: "capability_parse (capability_as_str c) = Inr c"
  by (cases c) (simp_all add: capability_parse_def all_capabilities_def)

record ux_capabilities =
  ux_raw_events :: bool
  ux_display_events :: bool
  ux_stream_text :: bool
  ux_edit_message :: bool
  ux_markdown :: bool
  ux_max_message_bytes :: "nat option"

definition ux_default :: ux_capabilities where
  "ux_default =
     \<lparr>ux_raw_events = False, ux_display_events = False, ux_stream_text = False, ux_edit_message = False,
      ux_markdown = False, ux_max_message_bytes = None\<rparr>"

definition ux_all :: ux_capabilities where
  "ux_all =
     \<lparr>ux_raw_events = True, ux_display_events = True, ux_stream_text = True, ux_edit_message = True,
      ux_markdown = True, ux_max_message_bytes = None\<rparr>"

fun granted_max_bytes :: "nat option \<Rightarrow> nat option \<Rightarrow> nat option" where
  "granted_max_bytes (Some allowed) (Some requested) = Some (min allowed requested)"
| "granted_max_bytes (Some allowed) None = Some allowed"
| "granted_max_bytes None (Some requested) = Some requested"
| "granted_max_bytes None None = None"

definition ux_grant :: "ux_capabilities \<Rightarrow> ux_capabilities \<Rightarrow> ux_capabilities" where
  "ux_grant allowed requested =
     \<lparr>ux_raw_events = (ux_raw_events allowed \<and> ux_raw_events requested),
      ux_display_events = (ux_display_events allowed \<and> ux_display_events requested),
      ux_stream_text = (ux_stream_text allowed \<and> ux_stream_text requested),
      ux_edit_message = (ux_edit_message allowed \<and> ux_edit_message requested),
      ux_markdown = (ux_markdown allowed \<and> ux_markdown requested),
      ux_max_message_bytes = granted_max_bytes (ux_max_message_bytes allowed) (ux_max_message_bytes requested)\<rparr>"

record client_info =
  ci_name :: string
  ci_version :: "string option"
  ci_requested_authority :: "authority_capability set"
  ci_requested_ux :: ux_capabilities
  ci_metadata :: json_map

record capability_grant =
  cg_authority :: "authority_capability set"
  cg_ux :: ux_capabilities

definition default_grant :: capability_grant where
  "default_grant = \<lparr>cg_authority = {}, cg_ux = ux_default\<rparr>"

record capability_policy =
  cp_allowed_authority :: "authority_capability set"
  cp_allowed_ux :: ux_capabilities

definition policy_allow_all :: capability_policy where
  "policy_allow_all = \<lparr>cp_allowed_authority = set all_capabilities, cp_allowed_ux = ux_all\<rparr>"

definition policy_grant :: "capability_policy \<Rightarrow> client_info \<Rightarrow> capability_grant" where
  "policy_grant p client =
     \<lparr>cg_authority = ci_requested_authority client \<inter> cp_allowed_authority p,
      cg_ux = ux_grant (cp_allowed_ux p) (ci_requested_ux client)\<rparr>"

definition authorize :: "capability_grant \<Rightarrow> string \<Rightarrow> authority_capability \<Rightarrow> interaction_error + unit" where
  "authorize grant method required =
     (if required \<in> cg_authority grant then Inr ()
      else Inl (unauthorized method (capability_as_str required)
             (''method '' @ method @ '' requires '' @ capability_as_str required)))"

lemma authorize_Inr: "authorize grant method required = Inr () \<longleftrightarrow> required \<in> cg_authority grant"
  by (simp add: authorize_def)

text \<open>A grant is within the policy and within the request; a byte limit of either binds it.\<close>

lemma policy_grant_within:
  "cg_authority (policy_grant p client) \<subseteq> cp_allowed_authority p"
  "cg_authority (policy_grant p client) \<subseteq> ci_requested_authority client"
  by (simp_all add: policy_grant_def)

lemma granted_max_bytes_bound:
  assumes "allowed = Some n \<or> requested = Some n"
  shows "\<exists>k \<le> n. granted_max_bytes allowed requested = Some k"
  using assms by (cases allowed; cases requested) auto

lemma ux_grant_idem: "ux_grant allowed (ux_grant allowed requested) = ux_grant allowed requested"
  by (cases "ux_max_message_bytes allowed"; cases "ux_max_message_bytes requested") (simp_all add: ux_grant_def)

end
