(* ===== verification/Goals.thy ===== *)
theory Goals
  imports Interaction_Access Tool_Inputs
begin

text \<open>
  Goals of sessions (\<open>crates/noloong-agent/src/interaction/goal.rs\<close>) and the tool that updates them
  (\<open>crates/noloong-agent/src/tools/goal.rs\<close>). The clock is a parameter, in milliseconds.
\<close>

datatype goal_status = Pursuing | GoalPaused | Achieved | Unmet | BudgetLimited | Cleared

record goal_audit =
  ga_reason :: string
  ga_run_id :: string
  ga_turn_id :: nat
  ga_pending :: bool
  ga_summary :: "string option"
  ga_evidence :: "string option"
  ga_audited_at_ms :: nat

record goal_record =
  go_goal_id :: string
  go_session_id :: string
  go_objective :: string
  go_status :: goal_status
  go_token_budget :: "nat option"
  go_last_audit :: "goal_audit option"
  go_metadata :: json_map
  go_created_at_ms :: nat
  go_updated_at_ms :: nat

definition goal_new :: "nat \<Rightarrow> string \<Rightarrow> string \<Rightarrow> goal_record" where
  "goal_new now session_id objective =
     \<lparr>go_goal_id = ''goal-'' @ session_id @ ''-'' @ show_nat now, go_session_id = session_id,
      go_objective = objective, go_status = Pursuing, go_token_budget = None, go_last_audit = None,
      go_metadata = [], go_created_at_ms = now, go_updated_at_ms = now\<rparr>"

definition is_pursuing :: "goal_record \<Rightarrow> bool" where
  "is_pursuing g = (go_status g = Pursuing)"

definition goal_mark_updated :: "nat \<Rightarrow> goal_record \<Rightarrow> goal_record" where
  "goal_mark_updated now g = g\<lparr>go_updated_at_ms := now\<rparr>"

definition audit_pending :: "goal_record \<Rightarrow> bool" where
  "audit_pending g = (case go_last_audit g of Some a \<Rightarrow> ga_pending a | None \<Rightarrow> False)"

definition is_goal_update_allowed :: "goal_status \<Rightarrow> bool" where
  "is_goal_update_allowed s = (s \<in> {Pursuing, Achieved, Unmet, BudgetLimited})"

definition trim_non_empty :: "string \<Rightarrow> string option" where
  "trim_non_empty s = (let t = trim s in if t = [] then None else Some t)"

definition GOAL_AUDIT_SOURCE_TYPE :: string where
  "GOAL_AUDIT_SOURCE_TYPE = ''goal_audit''"
definition GOAL_AUDIT_REASON_TURN_END :: string where
  "GOAL_AUDIT_REASON_TURN_END = ''turn_end''"
definition GOAL_AUDIT_REASON_TOOL_UPDATE :: string where
  "GOAL_AUDIT_REASON_TOOL_UPDATE = ''tool_update''"
definition GOAL_AUDIT_MESSAGE_ID_PREFIX :: string where
  "GOAL_AUDIT_MESSAGE_ID_PREFIX = ''goal-audit''"
definition GOAL_UPDATE_STATUS_ERROR :: string where
  "GOAL_UPDATE_STATUS_ERROR = ''goal update status must be pursuing, achieved, unmet, or budget_limited''"
definition GOAL_UPDATE_ALLOWED_STATUS_VALUES :: "string list" where
  "GOAL_UPDATE_ALLOWED_STATUS_VALUES = [''pursuing'', ''achieved'', ''unmet'', ''budget_limited'']"

definition goal_audit_message :: "goal_record \<Rightarrow> string \<Rightarrow> nat \<Rightarrow> agent_message" where
  "goal_audit_message g run_id turn_id =
     (let m = user_message (GOAL_AUDIT_MESSAGE_ID_PREFIX @ ''-'' @ run_id @ ''-'' @ show_nat turn_id)
        (''Goal audit request.'' @ [CHR 0x0A, CHR 0x0A] @ ''Current goal: '' @ go_objective g
         @ [CHR 0x0A, CHR 0x0A]
         @ ''Review the latest turn against this goal. If the goal status changed, call `agent.goal.update` with the new status, summary, and evidence. If evidence is insufficient, keep the goal pursuing. Do not mark the goal complete using prose alone.'')
      in m\<lparr>msg_metadata := bt_insert ''source'' (json_object
           [(''type'', JString GOAL_AUDIT_SOURCE_TYPE), (''goalId'', JString (go_goal_id g)),
            (''sessionId'', JString (go_session_id g)), (''auditReason'', JString GOAL_AUDIT_REASON_TURN_END)])
           (msg_metadata m)\<rparr>)"

section \<open>Serialization\<close>

fun goal_status_str :: "goal_status \<Rightarrow> string" where
  "goal_status_str Pursuing = ''pursuing''"
| "goal_status_str GoalPaused = ''paused''"
| "goal_status_str Achieved = ''achieved''"
| "goal_status_str Unmet = ''unmet''"
| "goal_status_str BudgetLimited = ''budget_limited''"
| "goal_status_str Cleared = ''cleared''"

definition goal_statuses :: "goal_status list" where
  "goal_statuses = [Pursuing, GoalPaused, Achieved, Unmet, BudgetLimited, Cleared]"

definition goal_status_of_str :: "string \<Rightarrow> goal_status option" where
  "goal_status_of_str s = List.find (\<lambda>g. goal_status_str g = s) goal_statuses"

lemma goal_status_of_str_str: "goal_status_of_str (goal_status_str s) = Some s"
  by (cases s) (simp_all add: goal_status_of_str_def goal_statuses_def)

text \<open>Fields that are skipped when there is no value.\<close>

definition some_field :: "string \<Rightarrow> ('a \<Rightarrow> json) \<Rightarrow> 'a option \<Rightarrow> (string \<times> json) list" where
  "some_field k f v = (case v of Some x \<Rightarrow> [(k, f x)] | None \<Rightarrow> [])"

definition goal_audit_json :: "goal_audit \<Rightarrow> json" where
  "goal_audit_json a =
     json_object ([(''reason'', JString (ga_reason a)), (''runId'', JString (ga_run_id a)),
       (''turnId'', JInt (int (ga_turn_id a))), (''pending'', JBool (ga_pending a))]
       @ some_field ''summary'' JString (ga_summary a) @ some_field ''evidence'' JString (ga_evidence a)
       @ [(''auditedAtMs'', JInt (int (ga_audited_at_ms a)))])"

definition goal_json :: "goal_record \<Rightarrow> json" where
  "goal_json g =
     json_object ([(''goalId'', JString (go_goal_id g)), (''sessionId'', JString (go_session_id g)),
       (''objective'', JString (go_objective g)), (''status'', JString (goal_status_str (go_status g)))]
       @ some_field ''tokenBudget'' (\<lambda>n. JInt (int n)) (go_token_budget g)
       @ some_field ''lastAudit'' goal_audit_json (go_last_audit g)
       @ [(''metadata'', JObject (go_metadata g)), (''createdAtMs'', JInt (int (go_created_at_ms g))),
          (''updatedAtMs'', JInt (int (go_updated_at_ms g)))])"

section \<open>The tool\<close>

record goal_update_request =
  gur_status :: goal_status
  gur_summary :: "string option"
  gur_evidence :: "string option"

definition goal_update_input ::
  "json \<Rightarrow> (goal_status \<times> string option \<times> string option) option" where
  "goal_update_input v =
     Option.bind (struct_fields 3 [''status'', ''summary'', ''evidence''] v) (\<lambda>get.
     Option.bind (Option.bind (json_str (get ''status'')) goal_status_of_str) (\<lambda>status.
     Option.bind (json_opt_str (get ''summary'')) (\<lambda>summary.
     Option.bind (json_opt_str (get ''evidence'')) (\<lambda>evidence.
     Some (status, summary, evidence)))))"

definition goal_input_request ::
  "goal_status \<times> string option \<times> string option \<Rightarrow> agent_core_error + goal_update_request" where
  "goal_input_request = (\<lambda>(status, summary, evidence).
     if \<not> is_goal_update_allowed status then Inl (InvalidEffect GOAL_UPDATE_STATUS_ERROR)
     else Inr \<lparr>gur_status = status, gur_summary = Option.bind summary trim_non_empty,
               gur_evidence = Option.bind evidence trim_non_empty\<rparr>)"

definition update_goal_audit :: "nat \<Rightarrow> goal_record \<Rightarrow> goal_update_request \<Rightarrow> string \<Rightarrow> nat \<Rightarrow> goal_record" where
  "update_goal_audit now g request run_id turn_id =
     goal_mark_updated now (g
       \<lparr>go_status := gur_status request,
        go_last_audit := Some
          \<lparr>ga_reason = GOAL_AUDIT_REASON_TOOL_UPDATE, ga_run_id = run_id, ga_turn_id = turn_id,
           ga_pending = False, ga_summary = gur_summary request, ga_evidence = gur_evidence request,
           ga_audited_at_ms = now\<rparr>\<rparr>)"

definition GOAL_PERMISSION_CAPABILITY :: string where
  "GOAL_PERMISSION_CAPABILITY = ''agent.goal''"

definition goal_update_spec :: "catalog \<Rightarrow> tool_spec" where
  "goal_update_spec cat =
     sequential_tool_spec (built_in_as_str GoalUpdate) (cat ''GoalUpdateDescription'')
       (json_object
         [(''type'', JString ''object''), (''required'', JArray [JString ''status'']),
          (''additionalProperties'', JBool False),
          (''properties'', json_object
            [(''status'', json_object [(''type'', JString ''string''),
                (''enum'', JArray (map JString GOAL_UPDATE_ALLOWED_STATUS_VALUES))]),
             (''summary'', json_object [(''type'', JString ''string'')]),
             (''evidence'', json_object [(''type'', JString ''string'')])])])
       GOAL_PERMISSION_CAPABILITY (cat ''GoalPermissionDescription'')"

text \<open>The controller of the goals is a parameter here; the registry of the sessions provides it.\<close>

type_synonym 'w goal_controller =
  "goal_update_request \<Rightarrow> string \<Rightarrow> nat \<Rightarrow> ('w, agent_core_error, goal_record) eff"

definition goal_update_execute ::
  "(json \<Rightarrow> string) \<Rightarrow> 'w goal_controller \<Rightarrow> bool \<Rightarrow> json \<Rightarrow> string \<Rightarrow> nat \<Rightarrow> ('w, agent_core_error, tool_output) eff" where
  "goal_update_execute input_error controller cancelled arguments run_id turn_id w =
     (if cancelled then (w, Inl Aborted)
      else case goal_update_input arguments of
        None \<Rightarrow> (w, Inl (InvalidEffect (input_error arguments)))
      | Some input \<Rightarrow>
          (case goal_input_request input of
             Inl e \<Rightarrow> (w, Inl e)
           | Inr request \<Rightarrow>
               (case controller request run_id turn_id w of
                  (w', Inl e) \<Rightarrow> (w', Inl e)
                | (w', Inr g) \<Rightarrow> (w', Inr (json_tool_output (goal_json g))))))"

text \<open>The statuses the schema offers are those the tool accepts; a tool call never pauses or clears a goal.\<close>

lemma goal_update_statuses:
  "s \<in> set GOAL_UPDATE_ALLOWED_STATUS_VALUES
   \<longleftrightarrow> (\<exists>g. goal_status_of_str s = Some g \<and> is_goal_update_allowed g)"
proof
  assume "s \<in> set GOAL_UPDATE_ALLOWED_STATUS_VALUES"
  then show "\<exists>g. goal_status_of_str s = Some g \<and> is_goal_update_allowed g"
    by (auto simp: GOAL_UPDATE_ALLOWED_STATUS_VALUES_def is_goal_update_allowed_def
        goal_status_of_str_def goal_statuses_def)
next
  assume "\<exists>g. goal_status_of_str s = Some g \<and> is_goal_update_allowed g"
  then obtain g where "goal_status_of_str s = Some g" and allowed: "is_goal_update_allowed g" by blast
  then have "s = goal_status_str g" by (auto simp: goal_status_of_str_def dest: find_SomeD)
  with allowed show "s \<in> set GOAL_UPDATE_ALLOWED_STATUS_VALUES"
    by (auto simp: is_goal_update_allowed_def GOAL_UPDATE_ALLOWED_STATUS_VALUES_def)
qed

lemma goal_input_request_allowed:
  "goal_input_request input = Inr request \<Longrightarrow> is_goal_update_allowed (gur_status request)"
  by (cases input) (auto simp: goal_input_request_def split: if_splits)

end
