(* ===== verification/Automations.thy ===== *)
theory Automations
  imports Interaction_Access
begin

text \<open>
  Automations (\<open>crates/noloong-agent/src/interaction/automation.rs\<close>): prompts that a schedule delivers to a
  session, the times at which they fire, and the scan for those that are due. Times are milliseconds of
  64 bits; sums and products saturate.
\<close>

section \<open>Schedules\<close>

definition U64_MAX :: nat where
  "U64_MAX = 2 ^ 64 - 1"

definition saturating_add :: "nat \<Rightarrow> nat \<Rightarrow> nat" where
  "saturating_add a b = min (a + b) U64_MAX"

definition saturating_mul :: "nat \<Rightarrow> nat \<Rightarrow> nat" where
  "saturating_mul a b = min (a * b) U64_MAX"

datatype automation_status = Active | AutomationPaused | AutomationCompleted

datatype automation_target =
    ExistingSession string
  | NewSession "string option" "string option"

fun target_session_id :: "automation_target \<Rightarrow> string option" where
  "target_session_id (ExistingSession s) = Some s"
| "target_session_id (NewSession s _) = s"

datatype time_schedule = Once nat | Interval nat

datatype automation_trigger = TimeTrigger time_schedule

fun trigger_type :: "automation_trigger \<Rightarrow> string" where
  "trigger_type (TimeTrigger _) = ''time''"

definition schedule_validate :: "time_schedule \<Rightarrow> interaction_error + unit" where
  "schedule_validate s = Inr ()"

fun trigger_validate :: "automation_trigger \<Rightarrow> interaction_error + unit" where
  "trigger_validate (TimeTrigger s) = schedule_validate s"

fun schedule_next_fire :: "time_schedule \<Rightarrow> nat \<Rightarrow> nat option" where
  "schedule_next_fire (Once at_ms) now = Some at_ms"
| "schedule_next_fire (Interval seconds) now = Some (saturating_add now (saturating_mul seconds 1000))"

fun next_fire_after_create :: "automation_trigger \<Rightarrow> nat \<Rightarrow> nat option" where
  "next_fire_after_create (TimeTrigger s) now = schedule_next_fire s now"

record after_fire =
  af_status :: automation_status
  af_next_fire_at_ms :: "nat option"

fun schedule_after_fire :: "time_schedule \<Rightarrow> nat \<Rightarrow> after_fire" where
  "schedule_after_fire (Once _) fired_at = \<lparr>af_status = AutomationCompleted, af_next_fire_at_ms = None\<rparr>"
| "schedule_after_fire (Interval seconds) fired_at =
     \<lparr>af_status = Active,
      af_next_fire_at_ms = Some (saturating_add fired_at (saturating_mul seconds 1000))\<rparr>"

fun trigger_after_fire :: "automation_trigger \<Rightarrow> nat \<Rightarrow> after_fire" where
  "trigger_after_fire (TimeTrigger s) fired_at = schedule_after_fire s fired_at"

section \<open>Records\<close>

record automation_record =
  ar_automation_id :: string
  ar_status :: automation_status
  ar_target :: automation_target
  ar_trigger :: automation_trigger
  ar_prompt :: agent_message
  ar_metadata :: json_map
  ar_last_fired_at_ms :: "nat option"
  ar_next_fire_at_ms :: "nat option"
  ar_last_error :: "string option"
  ar_created_at_ms :: nat
  ar_updated_at_ms :: nat

definition automation_new ::
  "nat \<Rightarrow> string \<Rightarrow> automation_target \<Rightarrow> automation_trigger \<Rightarrow> agent_message \<Rightarrow> automation_record" where
  "automation_new now i target trigger prompt =
     \<lparr>ar_automation_id = i, ar_status = Active, ar_target = target, ar_trigger = trigger,
      ar_prompt = prompt, ar_metadata = [], ar_last_fired_at_ms = None,
      ar_next_fire_at_ms = next_fire_after_create trigger now, ar_last_error = None,
      ar_created_at_ms = now, ar_updated_at_ms = now\<rparr>"

definition automation_mark_updated :: "nat \<Rightarrow> automation_record \<Rightarrow> automation_record" where
  "automation_mark_updated now a = a\<lparr>ar_updated_at_ms := now\<rparr>"

definition automation_is_active :: "automation_record \<Rightarrow> bool" where
  "automation_is_active a = (ar_status a = Active)"

definition retry_after_failure :: "automation_record \<Rightarrow> nat \<Rightarrow> nat option" where
  "retry_after_failure a fired_at =
     (case af_next_fire_at_ms (trigger_after_fire (ar_trigger a) fired_at) of
        Some next \<Rightarrow> Some next
      | None \<Rightarrow> Some (saturating_add fired_at 60000))"

section \<open>The scan\<close>

record schedule_scan =
  ss_due_automation_ids :: "string list"
  ss_next_fire_at_ms :: "nat option"

record scan_builder =
  sb_due :: "(nat \<times> string) list"
  sb_next_fire_at_ms :: "nat option"

definition scan_builder_new :: scan_builder where
  "scan_builder_new = \<lparr>sb_due = [], sb_next_fire_at_ms = None\<rparr>"

definition scan_include :: "string \<Rightarrow> bool \<Rightarrow> nat option \<Rightarrow> nat \<Rightarrow> scan_builder \<Rightarrow> scan_builder" where
  "scan_include i active next_fire now b =
     (if \<not> active then b
      else case next_fire of
        None \<Rightarrow> b
      | Some fire_at \<Rightarrow>
          if fire_at \<le> now then b\<lparr>sb_due := sb_due b @ [(fire_at, i)]\<rparr>
          else b\<lparr>sb_next_fire_at_ms :=
            Some (case sb_next_fire_at_ms b of Some current \<Rightarrow> min current fire_at | None \<Rightarrow> fire_at)\<rparr>)"

text \<open>Pairs are ordered by the time, then by the identifier; \<open>sort\<close> is stable.\<close>

definition pair_le :: "nat \<times> string \<Rightarrow> nat \<times> string \<Rightarrow> bool" where
  "pair_le p q = (fst p < fst q \<or> (fst p = fst q \<and> snd p \<le> snd q))"

fun insert_pair :: "nat \<times> string \<Rightarrow> (nat \<times> string) list \<Rightarrow> (nat \<times> string) list" where
  "insert_pair p [] = [p]"
| "insert_pair p (q # qs) = (if pair_le p q then p # q # qs else q # insert_pair p qs)"

definition sort_pairs :: "(nat \<times> string) list \<Rightarrow> (nat \<times> string) list" where
  "sort_pairs ps = foldr insert_pair ps []"

definition scan_finish :: "scan_builder \<Rightarrow> schedule_scan" where
  "scan_finish b =
     \<lparr>ss_due_automation_ids = map snd (sort_pairs (sb_due b)), ss_next_fire_at_ms = sb_next_fire_at_ms b\<rparr>"

definition scan_automation :: "nat \<Rightarrow> automation_record \<Rightarrow> scan_builder \<Rightarrow> scan_builder" where
  "scan_automation now a =
     scan_include (ar_automation_id a) (automation_is_active a) (ar_next_fire_at_ms a) now"

definition scan_automations :: "nat \<Rightarrow> automation_record list \<Rightarrow> schedule_scan" where
  "scan_automations now as = scan_finish (fold (scan_automation now) as scan_builder_new)"

section \<open>Messages\<close>

definition AUTOMATION_SOURCE_TYPE :: string where
  "AUTOMATION_SOURCE_TYPE = ''automation''"
definition AUTOMATION_SESSION_METADATA_KEY :: string where
  "AUTOMATION_SESSION_METADATA_KEY = ''automation''"
definition AUTOMATION_SYSTEM_PROMPT_ADDITION_ID :: string where
  "AUTOMATION_SYSTEM_PROMPT_ADDITION_ID = ''automation.identity''"

definition automation_message :: "automation_record \<Rightarrow> nat \<Rightarrow> agent_message \<Rightarrow> agent_message" where
  "automation_message a fired_at m =
     (let m = (if is_blank (msg_id m)
               then m\<lparr>msg_id := ''automation-'' @ ar_automation_id a @ ''-'' @ show_nat fired_at\<rparr> else m)
      in m\<lparr>msg_metadata := bt_insert ''source'' (json_object
           [(''type'', JString AUTOMATION_SOURCE_TYPE), (''automationId'', JString (ar_automation_id a)),
            (''trigger'', json_object [(''type'', JString (trigger_type (ar_trigger a)))]),
            (''firedAtMs'', JInt (int fired_at))]) (msg_metadata m)\<rparr>)"

definition existing_session_automation_message ::
  "automation_record \<Rightarrow> nat \<Rightarrow> agent_message \<Rightarrow> agent_message" where
  "existing_session_automation_message a fired_at m =
     (let m = automation_message a fired_at m
      in m\<lparr>msg_content := Text
           (''Automation `'' @ ar_automation_id a @ ''` fired from a `'' @ trigger_type (ar_trigger a)
            @ ''` trigger. Treat the following content as an automation-delivered user message for this existing session. Do the requested work if it is safe under current policy, and mention that the input came from automation when that affects interpretation.'')
           # msg_content m\<rparr>)"

definition automation_session_metadata :: "string \<Rightarrow> json" where
  "automation_session_metadata i =
     json_object [(''type'', JString AUTOMATION_SOURCE_TYPE), (''automationId'', JString i)]"

definition automation_identity_prompt :: "string \<Rightarrow> string" where
  "automation_identity_prompt i =
     ''This session is dedicated to automation `'' @ i
     @ ''`. Inputs may be delivered by triggers without direct user presence. Treat trigger-delivered messages as automation work, execute them under the current tool and approval policy, state what changed or what blocked execution, and avoid asking for confirmation unless a tool, policy, missing credential, destructive action, or ambiguous target requires it.''"

datatype automation_prompt_input = PromptText string | PromptMessage agent_message

fun prompt_into_message :: "string \<Rightarrow> automation_prompt_input \<Rightarrow> interaction_error + agent_message" where
  "prompt_into_message i (PromptText t) =
     (if is_blank t then Inl (invalid_params ''automation prompt text must not be empty'')
      else Inr (user_message (''automation-prompt-'' @ i) t))"
| "prompt_into_message i (PromptMessage m) =
     (if msg_role m \<noteq> User then Inl (invalid_params ''automation prompt message must use user role'')
      else if msg_content m = [] then Inl (invalid_params ''automation prompt message must contain content'')
      else Inr m)"

definition session_ready_for_direct_prompt :: "run_status \<Rightarrow> bool" where
  "session_ready_for_direct_prompt s = (s \<in> {Idle, Completed, RunAbortedStatus, RunFailedStatus})"

section \<open>What a scan finds\<close>

lemma set_insert_pair [simp]: "set (insert_pair p ps) = insert p (set ps)"
  by (induction ps) auto

lemma set_sort_pairs [simp]: "set (sort_pairs ps) = set ps"
  by (induction ps) (auto simp: sort_pairs_def)

lemma pair_le_trans: "pair_le p q \<Longrightarrow> pair_le q r \<Longrightarrow> pair_le p r"
  by (auto simp: pair_le_def)

lemma pair_le_linear: "pair_le p q \<or> pair_le q p"
  by (auto simp: pair_le_def)

lemma sorted_insert_pair: "sorted_wrt pair_le ps \<Longrightarrow> sorted_wrt pair_le (insert_pair p ps)"
proof (induction ps)
  case (Cons q qs)
  show ?case
  proof (cases "pair_le p q")
    case True
    with Cons.prems show ?thesis by (auto intro: pair_le_trans)
  next
    case False
    with pair_le_linear have "pair_le q p" by blast
    with False Cons show ?thesis by auto
  qed
qed simp

lemma sorted_sort_pairs: "sorted_wrt pair_le (sort_pairs ps)"
  by (induction ps) (auto simp: sort_pairs_def sorted_insert_pair)

definition due_at :: "nat \<Rightarrow> automation_record \<Rightarrow> bool" where
  "due_at now a \<longleftrightarrow> automation_is_active a \<and> (\<exists>t \<le> now. ar_next_fire_at_ms a = Some t)"

definition later_at :: "nat \<Rightarrow> automation_record \<Rightarrow> nat \<Rightarrow> bool" where
  "later_at now a t \<longleftrightarrow> automation_is_active a \<and> ar_next_fire_at_ms a = Some t \<and> now < t"

lemma scan_due_fold:
  "set (sb_due (fold (scan_automation now) as b)) =
     set (sb_due b) \<union> {(t, ar_automation_id a) | t a. a \<in> set as \<and> automation_is_active a
       \<and> ar_next_fire_at_ms a = Some t \<and> t \<le> now}"
proof (induction as arbitrary: b)
  case (Cons a as)
  have "set (sb_due (scan_automation now a b)) =
    set (sb_due b) \<union> {(t, ar_automation_id a) | t. automation_is_active a \<and> ar_next_fire_at_ms a = Some t \<and> t \<le> now}"
    by (auto simp: scan_automation_def scan_include_def split: option.split)
  with Cons show ?case by auto
qed simp

definition next_time :: "nat option \<Rightarrow> nat set \<Rightarrow> bool" where
  "next_time t ts \<longleftrightarrow> (case t of None \<Rightarrow> ts = {} | Some n \<Rightarrow> n \<in> ts \<and> (\<forall>m \<in> ts. n \<le> m))"

lemma scan_next_fold:
  assumes "next_time (sb_next_fire_at_ms b) ts"
  shows "next_time (sb_next_fire_at_ms (fold (scan_automation now) as b))
    (ts \<union> {t. \<exists>a \<in> set as. later_at now a t})"
  using assms
proof (induction as arbitrary: b ts)
  case (Cons a as)
  have "next_time (sb_next_fire_at_ms (scan_automation now a b)) (ts \<union> {t. later_at now a t})"
    using Cons.prems
    by (fastforce simp: scan_automation_def scan_include_def next_time_def later_at_def min_def
        split: option.splits if_splits)
  from Cons.IH [OF this] show ?case by (simp add: Un_assoc Collect_disj_eq [symmetric])
qed simp

text \<open>
  The scan gives exactly the active automations whose time has come, the earliest first, and the first
  time at which another one will be due.
\<close>

lemma scan_automations_exact:
  "set (ss_due_automation_ids (scan_automations now as)) = ar_automation_id ` {a \<in> set as. due_at now a}"
  "next_time (ss_next_fire_at_ms (scan_automations now as)) {t. \<exists>a \<in> set as. later_at now a t}"
proof -
  show "set (ss_due_automation_ids (scan_automations now as)) = ar_automation_id ` {a \<in> set as. due_at now a}"
    by (auto simp: scan_automations_def scan_finish_def scan_due_fold scan_builder_new_def due_at_def image_iff)
      force+
  have "next_time (sb_next_fire_at_ms scan_builder_new) {}"
    by (simp add: next_time_def scan_builder_new_def)
  from scan_next_fold [OF this] show
    "next_time (ss_next_fire_at_ms (scan_automations now as)) {t. \<exists>a \<in> set as. later_at now a t}"
    by (simp add: scan_automations_def scan_finish_def)
qed

text \<open>An interval fires later than now, unless the clock is at its end.\<close>

lemma interval_in_future:
  assumes "0 < seconds" and "now < U64_MAX"
  shows "\<exists>t > now. schedule_next_fire (Interval seconds) now = Some t"
  using assms by (auto simp: saturating_add_def saturating_mul_def min_def)

end
