(* ===== verification/Session_Store.thy ===== *)
theory Session_Store
  imports Manifest Goals Automations Agent
begin

text \<open>
  The records of agent sessions, the interface of the store that keeps sessions, goals and automations
  (\<open>crates/noloong-agent/src/interaction/store/\<close>: \<open>snapshot.rs\<close>, \<open>traits.rs\<close>), and the in-memory store
  (\<open>memory.rs\<close>).
\<close>

section \<open>Records\<close>

datatype session_status =
    SessionIdle | SessionRunning | SessionCompleted | SessionAborted | SessionFailed | SessionPaused

fun session_status_of :: "run_status \<Rightarrow> session_status" where
  "session_status_of Idle = SessionIdle"
| "session_status_of Running = SessionRunning"
| "session_status_of Completed = SessionCompleted"
| "session_status_of RunAbortedStatus = SessionAborted"
| "session_status_of RunFailedStatus = SessionFailed"
| "session_status_of Paused = SessionPaused"

fun session_status_str :: "session_status \<Rightarrow> string" where
  "session_status_str SessionIdle = ''idle''"
| "session_status_str SessionRunning = ''running''"
| "session_status_str SessionCompleted = ''completed''"
| "session_status_str SessionAborted = ''aborted''"
| "session_status_str SessionFailed = ''failed''"
| "session_status_str SessionPaused = ''paused''"

definition is_settled :: "session_status \<Rightarrow> bool" where
  "is_settled s = (s \<noteq> SessionRunning)"

datatype session_message_intent = SessionObservation | SessionUserInput

record session_queued_message =
  sqm_message :: agent_message
  sqm_intent :: session_message_intent

fun session_intent_of :: "queued_message_intent \<Rightarrow> session_message_intent" where
  "session_intent_of Observation = SessionObservation"
| "session_intent_of UserInput = SessionUserInput"

definition session_queued_from_core :: "queued_agent_message \<Rightarrow> session_queued_message" where
  "session_queued_from_core m = \<lparr>sqm_message = qm_message m, sqm_intent = session_intent_of (qm_intent m)\<rparr>"

definition session_queued_into_core :: "session_queued_message \<Rightarrow> queued_agent_message" where
  "session_queued_into_core m =
     (case sqm_intent m of
        SessionObservation \<Rightarrow> queued_observation (sqm_message m)
      | SessionUserInput \<Rightarrow> queued_user_input (sqm_message m))"

record session_queue_state =
  sqs_mode :: queue_mode
  sqs_messages :: "session_queued_message list"

definition session_queue_default :: session_queue_state where
  "session_queue_default = \<lparr>sqs_mode = OneAtATime, sqs_messages = []\<rparr>"

definition session_queue_from_core :: "queue_mode \<Rightarrow> queued_agent_message list \<Rightarrow> session_queue_state" where
  "session_queue_from_core mode ms = \<lparr>sqs_mode = mode, sqs_messages = map session_queued_from_core ms\<rparr>"

definition session_queue_into_core :: "session_queue_state \<Rightarrow> queued_agent_message list" where
  "session_queue_into_core q = map session_queued_into_core (sqs_messages q)"

record session_queues =
  sq_steering :: session_queue_state
  sq_follow_up :: session_queue_state

definition session_queues_default :: session_queues where
  "session_queues_default = \<lparr>sq_steering = session_queue_default, sq_follow_up = session_queue_default\<rparr>"

definition SESSION_RECORD_SCHEMA_VERSION :: nat where
  "SESSION_RECORD_SCHEMA_VERSION = 1"

record session_record =
  sr_schema_version :: nat
  sr_session_id :: string
  sr_profile_id :: string
  sr_parent_session_id :: "string option"
  sr_role :: "string option"
  sr_run_id_prefix :: string
  sr_manifest :: agent_manifest
  sr_state :: agent_state
  sr_queues :: session_queues
  sr_metadata :: json_map
  sr_created_at_ms :: nat
  sr_updated_at_ms :: nat

definition validate_schema_version :: "session_record \<Rightarrow> string + unit" where
  "validate_schema_version r =
     (if sr_schema_version r = SESSION_RECORD_SCHEMA_VERSION then Inr ()
      else Inl (''unsupported agent session record schema version: '' @ show_nat (sr_schema_version r)))"

text \<open>A queue that is saved and restored is the same queue.\<close>

lemma session_queued_roundtrip: "session_queued_into_core (session_queued_from_core m) = m"
  by (cases m; cases "qm_intent m")
    (simp_all add: session_queued_from_core_def session_queued_into_core_def queued_observation_def
      queued_user_input_def)

lemma session_queue_roundtrip: "session_queue_into_core (session_queue_from_core mode ms) = ms"
  by (induction ms) (simp_all add: session_queue_from_core_def session_queue_into_core_def session_queued_roundtrip)

section \<open>The filter of a list of sessions\<close>

record session_list_filter =
  slf_parent_session_id :: "string option"
  slf_profile_id :: "string option"
  slf_status :: "session_status option"
  slf_metadata_equals :: json_map

definition session_list_filter_default :: session_list_filter where
  "session_list_filter_default =
     \<lparr>slf_parent_session_id = None, slf_profile_id = None, slf_status = None, slf_metadata_equals = []\<rparr>"

fun metadata_filter_value_supported :: "json \<Rightarrow> bool" where
  "metadata_filter_value_supported (JString _) = True"
| "metadata_filter_value_supported (JInt _) = True"
| "metadata_filter_value_supported (JFloat _) = True"
| "metadata_filter_value_supported (JBool _) = True"
| "metadata_filter_value_supported _ = False"

fun filter_entries_validate :: "(string \<times> json) list \<Rightarrow> interaction_error + unit" where
  "filter_entries_validate [] = Inr ()"
| "filter_entries_validate ((k, v) # es) =
     (if is_blank k then Inl (invalid_params ''session metadata filter keys must not be empty'')
      else if \<not> metadata_filter_value_supported v
      then Inl (invalid_params (''session metadata filter value for '' @ k @ '' must be a string, number, or bool''))
      else filter_entries_validate es)"

definition session_list_filter_validate :: "session_list_filter \<Rightarrow> interaction_error + unit" where
  "session_list_filter_validate f = filter_entries_validate (slf_metadata_equals f)"

definition record_matches_filter :: "session_record \<Rightarrow> session_list_filter \<Rightarrow> bool" where
  "record_matches_filter r f =
     ((case slf_parent_session_id f of None \<Rightarrow> True | Some p \<Rightarrow> sr_parent_session_id r = Some p)
      \<and> (case slf_profile_id f of None \<Rightarrow> True | Some p \<Rightarrow> sr_profile_id r = p)
      \<and> (case slf_status f of None \<Rightarrow> True | Some s \<Rightarrow> s = session_status_of (st_status (sr_state r)))
      \<and> list_all (\<lambda>(k, v). map_of (sr_metadata r) k = Some v) (slf_metadata_equals f))"

section \<open>The interface\<close>

definition duplicate_session_error :: "string \<Rightarrow> interaction_error" where
  "duplicate_session_error i = invalid_params (''session already exists: '' @ i)"

definition missing_session_error :: "string \<Rightarrow> interaction_error" where
  "missing_session_error i = not_found (''session not found: '' @ i)"

definition duplicate_automation_error :: "string \<Rightarrow> interaction_error" where
  "duplicate_automation_error i = invalid_params (''automation already exists: '' @ i)"

definition missing_automation_error :: "string \<Rightarrow> interaction_error" where
  "missing_automation_error i = not_found (''automation not found: '' @ i)"

type_synonym ('s, 'a) store_eff = "('s, interaction_error, 'a) eff"

record 's registry_store =
  rs_insert :: "session_record \<Rightarrow> ('s, unit) store_eff"
  rs_save :: "session_record \<Rightarrow> ('s, unit) store_eff"
  rs_remove :: "string \<Rightarrow> ('s, unit) store_eff"
  rs_get :: "string \<Rightarrow> ('s, session_record option) store_eff"
  rs_list :: "session_list_filter \<Rightarrow> ('s, session_record list) store_eff"
  rs_save_goal :: "goal_record \<Rightarrow> ('s, unit) store_eff"
  rs_get_goal :: "string \<Rightarrow> ('s, goal_record option) store_eff"
  rs_list_goals :: "('s, goal_record list) store_eff"
  rs_remove_goal :: "string \<Rightarrow> ('s, unit) store_eff"
  rs_insert_automation :: "automation_record \<Rightarrow> ('s, unit) store_eff"
  rs_save_automation :: "automation_record \<Rightarrow> ('s, unit) store_eff"
  rs_get_automation :: "string \<Rightarrow> ('s, automation_record option) store_eff"
  rs_list_automations :: "('s, automation_record list) store_eff"
  rs_scan_automation_schedule :: "nat \<Rightarrow> ('s, schedule_scan) store_eff"
  rs_remove_automation :: "string \<Rightarrow> ('s, unit) store_eff"

text \<open>
  What the registry relies on, for records of one kind with an identifier: an inserted or saved record is
  the one that is found under its identifier, other records stay, an insertion does not replace and a
  save does not create, and an operation that fails changes nothing.
\<close>

locale keyed_store =
  fixes key :: "'r \<Rightarrow> string"
    and insert save :: "'r \<Rightarrow> ('s, unit) store_eff"
    and remove :: "string \<Rightarrow> ('s, unit) store_eff"
    and get :: "string \<Rightarrow> ('s, 'r option) store_eff"
    and contents :: "'s \<Rightarrow> string \<Rightarrow> 'r option"
    and invar :: "'s \<Rightarrow> bool"
  assumes insert: "invar s \<Longrightarrow> insert r s = (s', Inr ()) \<Longrightarrow>
      contents s (key r) = None \<and> contents s' = (contents s)(key r \<mapsto> r)"
    and insert_free: "invar s \<Longrightarrow> contents s (key r) = None \<Longrightarrow> \<exists>s'. insert r s = (s', Inr ())"
    and save: "invar s \<Longrightarrow> save r s = (s', Inr ()) \<Longrightarrow>
      contents s (key r) \<noteq> None \<and> contents s' = (contents s)(key r \<mapsto> r)"
    and remove: "invar s \<Longrightarrow> remove i s = (s', Inr ()) \<Longrightarrow> contents s' = (contents s)(i := None)"
    and get: "invar s \<Longrightarrow> get i s = (s', Inr v) \<Longrightarrow> s' = s \<and> v = contents s i"
    and failed: "insert r s = (s', Inl e) \<or> save r s = (s', Inl e) \<or> remove i s = (s', Inl e) \<Longrightarrow> s' = s"
    and invar_insert: "invar s \<Longrightarrow> invar (fst (insert r s))"
    and invar_save: "invar s \<Longrightarrow> invar (fst (save r s))"
    and invar_remove: "invar s \<Longrightarrow> invar (fst (remove i s))"
begin

definition filed :: "'s \<Rightarrow> bool" where
  "filed s \<longleftrightarrow> invar s \<and> (\<forall>i r. contents s i = Some r \<longrightarrow> key r = i)"

lemma filed_insert: "filed s \<Longrightarrow> filed (fst (insert r s))"
proof (cases "snd (insert r s)")
  case (Inl e)
  then have "insert r s = (fst (insert r s), Inl e)" by (metis prod.collapse)
  with failed [of r s _ e] have "fst (insert r s) = s" by blast
  then show "filed s \<Longrightarrow> filed (fst (insert r s))" by simp
next
  case (Inr u)
  then have "insert r s = (fst (insert r s), Inr ())" by (metis prod.collapse unit.exhaust)
  with insert [of s r] invar_insert [of s r]
  show "filed s \<Longrightarrow> filed (fst (insert r s))" unfolding filed_def by (metis fun_upd_apply option.inject)
qed

lemma filed_save: "filed s \<Longrightarrow> filed (fst (save r s))"
proof (cases "snd (save r s)")
  case (Inl e)
  then have "save r s = (fst (save r s), Inl e)" by (metis prod.collapse)
  with failed [of r s _ e] have "fst (save r s) = s" by blast
  then show "filed s \<Longrightarrow> filed (fst (save r s))" by simp
next
  case (Inr u)
  then have "save r s = (fst (save r s), Inr ())" by (metis prod.collapse unit.exhaust)
  with save [of s r] invar_save [of s r]
  show "filed s \<Longrightarrow> filed (fst (save r s))" unfolding filed_def by (metis fun_upd_apply option.inject)
qed

lemma get_key: "filed s \<Longrightarrow> get i s = (s', Inr (Some r)) \<Longrightarrow> key r = i"
  using get [of s i s' "Some r"] by (auto simp: filed_def)

lemma insert_twice: "invar s \<Longrightarrow> insert r s = (s', Inr ()) \<Longrightarrow> key r' = key r \<Longrightarrow> snd (insert r' s') \<noteq> Inr ()"
  using insert [of s r s'] insert [of s' r'] invar_insert [of s r]
  by (metis fst_conv fun_upd_same option.distinct(1) prod.collapse)

end

section \<open>The in-memory store\<close>

record memory_store =
  ms_records :: "session_record smap"
  ms_goals :: "goal_record smap"
  ms_automations :: "automation_record smap"

definition memory_store_default :: memory_store where
  "memory_store_default = \<lparr>ms_records = [], ms_goals = [], ms_automations = []\<rparr>"

definition memory_insert :: "session_record \<Rightarrow> (memory_store, unit) store_eff" where
  "memory_insert r s =
     (if bt_contains_key (ms_records s) (sr_session_id r)
      then (s, Inl (duplicate_session_error (sr_session_id r)))
      else (s\<lparr>ms_records := bt_insert (sr_session_id r) r (ms_records s)\<rparr>, Inr ()))"

definition memory_save :: "session_record \<Rightarrow> (memory_store, unit) store_eff" where
  "memory_save r s =
     (if \<not> bt_contains_key (ms_records s) (sr_session_id r)
      then (s, Inl (missing_session_error (sr_session_id r)))
      else (s\<lparr>ms_records := bt_insert (sr_session_id r) r (ms_records s)\<rparr>, Inr ()))"

definition memory_remove :: "string \<Rightarrow> (memory_store, unit) store_eff" where
  "memory_remove i s = (s\<lparr>ms_records := bt_remove i (ms_records s)\<rparr>, Inr ())"

definition memory_get :: "string \<Rightarrow> (memory_store, session_record option) store_eff" where
  "memory_get i s = (s, Inr (bt_get (ms_records s) i))"

definition memory_list :: "session_list_filter \<Rightarrow> (memory_store, session_record list) store_eff" where
  "memory_list f s = (s, Inr (filter (\<lambda>r. record_matches_filter r f) (bt_values (ms_records s))))"

definition memory_save_goal :: "goal_record \<Rightarrow> (memory_store, unit) store_eff" where
  "memory_save_goal g s = (s\<lparr>ms_goals := bt_insert (go_session_id g) g (ms_goals s)\<rparr>, Inr ())"

definition memory_get_goal :: "string \<Rightarrow> (memory_store, goal_record option) store_eff" where
  "memory_get_goal i s = (s, Inr (bt_get (ms_goals s) i))"

definition memory_list_goals :: "(memory_store, goal_record list) store_eff" where
  "memory_list_goals s = (s, Inr (bt_values (ms_goals s)))"

definition memory_remove_goal :: "string \<Rightarrow> (memory_store, unit) store_eff" where
  "memory_remove_goal i s = (s\<lparr>ms_goals := bt_remove i (ms_goals s)\<rparr>, Inr ())"

definition memory_insert_automation :: "automation_record \<Rightarrow> (memory_store, unit) store_eff" where
  "memory_insert_automation a s =
     (if bt_contains_key (ms_automations s) (ar_automation_id a)
      then (s, Inl (duplicate_automation_error (ar_automation_id a)))
      else (s\<lparr>ms_automations := bt_insert (ar_automation_id a) a (ms_automations s)\<rparr>, Inr ()))"

definition memory_save_automation :: "automation_record \<Rightarrow> (memory_store, unit) store_eff" where
  "memory_save_automation a s =
     (if \<not> bt_contains_key (ms_automations s) (ar_automation_id a)
      then (s, Inl (missing_automation_error (ar_automation_id a)))
      else (s\<lparr>ms_automations := bt_insert (ar_automation_id a) a (ms_automations s)\<rparr>, Inr ()))"

definition memory_get_automation :: "string \<Rightarrow> (memory_store, automation_record option) store_eff" where
  "memory_get_automation i s = (s, Inr (bt_get (ms_automations s) i))"

definition memory_list_automations :: "(memory_store, automation_record list) store_eff" where
  "memory_list_automations s = (s, Inr (bt_values (ms_automations s)))"

definition memory_scan_automation_schedule :: "nat \<Rightarrow> (memory_store, schedule_scan) store_eff" where
  "memory_scan_automation_schedule now s = (s, Inr (scan_automations now (bt_values (ms_automations s))))"

definition memory_remove_automation :: "string \<Rightarrow> (memory_store, unit) store_eff" where
  "memory_remove_automation i s = (s\<lparr>ms_automations := bt_remove i (ms_automations s)\<rparr>, Inr ())"

definition memory_registry_store :: "memory_store registry_store" where
  "memory_registry_store =
     \<lparr>rs_insert = memory_insert, rs_save = memory_save, rs_remove = memory_remove, rs_get = memory_get,
      rs_list = memory_list, rs_save_goal = memory_save_goal, rs_get_goal = memory_get_goal,
      rs_list_goals = memory_list_goals, rs_remove_goal = memory_remove_goal,
      rs_insert_automation = memory_insert_automation, rs_save_automation = memory_save_automation,
      rs_get_automation = memory_get_automation, rs_list_automations = memory_list_automations,
      rs_scan_automation_schedule = memory_scan_automation_schedule,
      rs_remove_automation = memory_remove_automation\<rparr>"

definition memory_wf :: "memory_store \<Rightarrow> bool" where
  "memory_wf s \<longleftrightarrow> bt_wf (ms_records s) \<and> bt_wf (ms_goals s) \<and> bt_wf (ms_automations s)"

lemmas memory_session_defs =
  memory_insert_def memory_save_def memory_remove_def memory_get_def memory_wf_def

lemmas memory_automation_defs =
  memory_insert_automation_def memory_save_automation_def memory_remove_automation_def
  memory_get_automation_def memory_wf_def

interpretation memory_sessions: keyed_store sr_session_id memory_insert memory_save memory_remove memory_get
  "\<lambda>s. map_of (ms_records s)" memory_wf
  by unfold_locales
    (auto simp: memory_session_defs bt_contains_key_def map_of_bt_insert map_of_bt_remove bt_wf_insert
      bt_wf_remove split: if_splits)

interpretation memory_automations: keyed_store ar_automation_id memory_insert_automation
  memory_save_automation memory_remove_automation memory_get_automation
  "\<lambda>s. map_of (ms_automations s)" memory_wf
  by unfold_locales
    (auto simp: memory_automation_defs bt_contains_key_def map_of_bt_insert map_of_bt_remove bt_wf_insert
      bt_wf_remove split: if_splits)

end
