(* ===== verification/Subagent_Tools.thy ===== *)
theory Subagent_Tools
  imports Goals Session_Store
begin

text \<open>
  The tools over subagents (\<open>crates/noloong-agent/src/tools/subagent.rs\<close>): their inputs and outputs, and the
  last assistant message of a session as its result. The controller is a record of functions that the
  registry of the sessions provides.
\<close>

section \<open>Results\<close>

record subagent_spawn_input =
  ssi_role :: "string option"
  ssi_prompt :: string
  ssi_metadata :: json_map

record subagent_summary =
  sas_session_id :: string
  sas_role :: "string option"
  sas_status :: string

record subagent_final_output =
  sfo_message :: agent_message
  sfo_final_text :: string

record subagent_result =
  sar_summary :: subagent_summary
  sar_settled :: bool
  sar_final_output :: "subagent_final_output option"

record subagent_wait_outcome =
  swo_timed_out :: bool
  swo_results :: "subagent_result list"

text \<open>The texts of a message, each but the first after a line feed when there is text before it.\<close>

fun assistant_text_from :: "string \<Rightarrow> content_block list \<Rightarrow> string" where
  "assistant_text_from acc [] = acc"
| "assistant_text_from acc (Text t # bs) =
     assistant_text_from ((if acc = [] then [] else acc @ [CHR 0x0A]) @ t) bs"
| "assistant_text_from acc (b # bs) = assistant_text_from acc bs"

definition assistant_text :: "agent_message \<Rightarrow> string" where
  "assistant_text m = assistant_text_from [] (msg_content m)"

definition final_assistant_output :: "agent_state \<Rightarrow> subagent_final_output option" where
  "final_assistant_output st =
     map_option (\<lambda>m. \<lparr>sfo_message = m, sfo_final_text = assistant_text m\<rparr>)
       (List.find (\<lambda>m. msg_role m = Assistant) (rev (st_messages st)))"

lemma assistant_text_nonempty:
  "\<forall>t \<in> set ts. t \<noteq> [] \<Longrightarrow>
     assistant_text_from [] (map Text ts) = join_with [CHR 0x0A] ts"
proof -
  have join: "join_with [CHR 0x0A] (t # ts) = t @ concat (map (\<lambda>t. CHR 0x0A # t) ts)" for t ts
    by (induction ts arbitrary: t) simp_all
  have all: "acc \<noteq> [] \<Longrightarrow> assistant_text_from acc (map Text us) =
      acc @ concat (map (\<lambda>t. CHR 0x0A # t) us)" for acc us
    by (induction us arbitrary: acc) simp_all
  show "\<forall>t \<in> set ts. t \<noteq> [] \<Longrightarrow> ?thesis"
    by (cases ts) (simp_all add: all join)
qed

section \<open>Inputs\<close>

definition subagent_spawn_input_of :: "json \<Rightarrow> subagent_spawn_input option" where
  "subagent_spawn_input_of v =
     Option.bind (struct_fields 2 [''role'', ''prompt'', ''metadata''] v) (\<lambda>get.
     Option.bind (json_opt_str (get ''role'')) (\<lambda>role.
     Option.bind (json_str (get ''prompt'')) (\<lambda>prompt.
     Option.bind (case get ''metadata'' of None \<Rightarrow> Some [] | Some (JObject m) \<Rightarrow> Some m | _ \<Rightarrow> None)
       (\<lambda>metadata. Some \<lparr>ssi_role = role, ssi_prompt = prompt, ssi_metadata = metadata\<rparr>))))"

definition subagent_spawn_request :: "subagent_spawn_input \<Rightarrow> agent_core_error + subagent_spawn_input" where
  "subagent_spawn_request i =
     (let prompt = trim (ssi_prompt i)
      in if prompt = [] then Inl (InvalidEffect ''prompt must not be empty'')
         else Inr \<lparr>ssi_role = Option.bind (ssi_role i) trim_non_empty, ssi_prompt = prompt,
                   ssi_metadata = ssi_metadata i\<rparr>)"

definition subagent_wait_input :: "json \<Rightarrow> (string list \<times> nat option) option" where
  "subagent_wait_input v =
     Option.bind (struct_fields 2 [''sessionIds'', ''timeoutMs''] v) (\<lambda>get.
     Option.bind (case get ''sessionIds'' of Some (JArray vs) \<Rightarrow> those (map json_as_str vs) | _ \<Rightarrow> None) (\<lambda>ids.
     Option.bind (json_opt_u64 (get ''timeoutMs'')) (\<lambda>timeout_ms. Some (ids, timeout_ms))))"

definition subagent_result_input :: "json \<Rightarrow> string option" where
  "subagent_result_input v = Option.bind (struct_fields 1 [''sessionId''] v) (\<lambda>get. json_str (get ''sessionId''))"

definition MIN_SUBAGENT_WAIT_TIMEOUT_MS :: nat where
  "MIN_SUBAGENT_WAIT_TIMEOUT_MS = 1"
definition DEFAULT_SUBAGENT_WAIT_TIMEOUT_MS :: nat where
  "DEFAULT_SUBAGENT_WAIT_TIMEOUT_MS = 30000"
definition MAX_SUBAGENT_WAIT_TIMEOUT_MS :: nat where
  "MAX_SUBAGENT_WAIT_TIMEOUT_MS = 600000"

definition validate_timeout :: "nat option \<Rightarrow> agent_core_error + nat" where
  "validate_timeout t =
     (let ms = (case t of Some n \<Rightarrow> n | None \<Rightarrow> DEFAULT_SUBAGENT_WAIT_TIMEOUT_MS)
      in if MIN_SUBAGENT_WAIT_TIMEOUT_MS \<le> ms \<and> ms \<le> MAX_SUBAGENT_WAIT_TIMEOUT_MS then Inr ms
         else Inl (InvalidEffect (''timeoutMs must be between '' @ show_nat MIN_SUBAGENT_WAIT_TIMEOUT_MS
           @ '' and '' @ show_nat MAX_SUBAGENT_WAIT_TIMEOUT_MS)))"

lemma validate_timeout_bounds: "validate_timeout t = Inr ms \<Longrightarrow> 1 \<le> ms \<and> ms \<le> 600000"
  by (auto simp: validate_timeout_def MIN_SUBAGENT_WAIT_TIMEOUT_MS_def MAX_SUBAGENT_WAIT_TIMEOUT_MS_def Let_def
      split: if_splits)

lemma validate_timeout_default: "validate_timeout None = Inr DEFAULT_SUBAGENT_WAIT_TIMEOUT_MS"
  by (simp add: validate_timeout_def MIN_SUBAGENT_WAIT_TIMEOUT_MS_def MAX_SUBAGENT_WAIT_TIMEOUT_MS_def
      DEFAULT_SUBAGENT_WAIT_TIMEOUT_MS_def)

section \<open>The tools\<close>

record 'w subagent_controller =
  sc_spawn :: "subagent_spawn_input \<Rightarrow> ('w, agent_core_error, subagent_summary) eff"
  sc_wait :: "string list \<Rightarrow> nat \<Rightarrow> ('w, agent_core_error, subagent_wait_outcome) eff"
  sc_result :: "string \<Rightarrow> ('w, agent_core_error, subagent_result) eff"
  sc_list :: "('w, agent_core_error, subagent_summary list) eff"

definition summary_fields :: "subagent_summary \<Rightarrow> (string \<times> json) list" where
  "summary_fields s =
     [(''sessionId'', JString (sas_session_id s))] @ some_field ''role'' JString (sas_role s)
     @ [(''status'', JString (sas_status s))]"

text \<open>The JSON of a message is a parameter.\<close>

definition result_json :: "(agent_message \<Rightarrow> json) \<Rightarrow> subagent_result \<Rightarrow> json" where
  "result_json message_json r =
     json_object (summary_fields (sar_summary r) @ [(''settled'', JBool (sar_settled r))]
       @ some_field ''finalOutput'' (\<lambda>f. json_object
           [(''message'', message_json (sfo_message f)), (''finalText'', JString (sfo_final_text f))])
         (sar_final_output r))"

definition subagent_outcome_json :: "(agent_message \<Rightarrow> json) \<Rightarrow> subagent_wait_outcome \<Rightarrow> json" where
  "subagent_outcome_json message_json w =
     json_object [(''timedOut'', JBool (swo_timed_out w)),
       (''results'', JArray (map (result_json message_json) (swo_results w)))]"

type_synonym 'w subagent_tool = "bool \<Rightarrow> json \<Rightarrow> ('w, agent_core_error, tool_output) eff"

definition subagent_spawn_execute :: "(json \<Rightarrow> string) \<Rightarrow> 'w subagent_controller \<Rightarrow> 'w subagent_tool" where
  "subagent_spawn_execute input_error c cancelled arguments =
     (if cancelled then err Aborted
      else case subagent_spawn_input_of arguments of
        None \<Rightarrow> err (InvalidEffect (input_error arguments))
      | Some i \<Rightarrow>
          and_then (lift_result (subagent_spawn_request i)) (\<lambda>request.
          and_then (sc_spawn c request) (\<lambda>summary.
          ok (json_tool_output (json_object (summary_fields summary))))))"

definition subagent_wait_execute ::
  "(json \<Rightarrow> string) \<Rightarrow> (agent_message \<Rightarrow> json) \<Rightarrow> 'w subagent_controller \<Rightarrow> 'w subagent_tool" where
  "subagent_wait_execute input_error message_json c cancelled arguments =
     (if cancelled then err Aborted
      else case subagent_wait_input arguments of
        None \<Rightarrow> err (InvalidEffect (input_error arguments))
      | Some (ids, t) \<Rightarrow>
          and_then (lift_result (validate_timeout t)) (\<lambda>timeout_ms.
          if ids = [] then err (InvalidEffect ''sessionIds must contain at least one subagent session id'')
          else and_then (sc_wait c ids timeout_ms) (\<lambda>outcome.
            ok (json_tool_output (subagent_outcome_json message_json outcome)))))"

definition subagent_result_execute ::
  "(json \<Rightarrow> string) \<Rightarrow> (agent_message \<Rightarrow> json) \<Rightarrow> 'w subagent_controller \<Rightarrow> 'w subagent_tool" where
  "subagent_result_execute input_error message_json c cancelled arguments =
     (if cancelled then err Aborted
      else case subagent_result_input arguments of
        None \<Rightarrow> err (InvalidEffect (input_error arguments))
      | Some i \<Rightarrow>
          and_then (sc_result c i) (\<lambda>r. ok (json_tool_output (result_json message_json r))))"

definition subagent_list_execute :: "'w subagent_controller \<Rightarrow> 'w subagent_tool" where
  "subagent_list_execute c cancelled arguments =
     (if cancelled then err Aborted
      else and_then (sc_list c) (\<lambda>summaries.
        ok (json_tool_output (json_object
          [(''subagents'', JArray (map (\<lambda>s. json_object (summary_fields s)) summaries))]))))"

definition subagent_tool_spec :: "string \<Rightarrow> string \<Rightarrow> json \<Rightarrow> string \<Rightarrow> tool_spec" where
  "subagent_tool_spec name description schema permission =
     sequential_tool_spec name description schema ''agent.subagent'' permission"

definition subagent_spawn_spec :: "catalog \<Rightarrow> tool_spec" where
  "subagent_spawn_spec cat =
     subagent_tool_spec (built_in_as_str SubagentSpawn) (cat ''SubagentSpawnDescription'')
       (json_object [(''type'', JString ''object''), (''required'', JArray [JString ''prompt'']),
         (''properties'', json_object
           [(''role'', json_object [(''type'', JString ''string'')]),
            (''prompt'', json_object [(''type'', JString ''string'')]),
            (''metadata'', json_object [(''type'', JString ''object'')])])])
       (cat ''SubagentPermissionDescription'')"

definition subagent_wait_spec :: "catalog \<Rightarrow> tool_spec" where
  "subagent_wait_spec cat =
     subagent_tool_spec (built_in_as_str SubagentWait) (cat ''SubagentWaitDescription'')
       (json_object [(''type'', JString ''object''), (''required'', JArray [JString ''sessionIds'']),
         (''properties'', json_object
           [(''sessionIds'', json_object [(''type'', JString ''array''),
               (''items'', json_object [(''type'', JString ''string'')]), (''minItems'', JInt 1)]),
            (''timeoutMs'', json_object [(''type'', JString ''integer''),
               (''minimum'', JInt (int MIN_SUBAGENT_WAIT_TIMEOUT_MS)),
               (''maximum'', JInt (int MAX_SUBAGENT_WAIT_TIMEOUT_MS))])])])
       (cat ''SubagentPermissionDescription'')"

definition subagent_result_spec :: "catalog \<Rightarrow> tool_spec" where
  "subagent_result_spec cat =
     subagent_tool_spec (built_in_as_str SubagentResult) (cat ''SubagentResultDescription'')
       (json_object [(''type'', JString ''object''), (''required'', JArray [JString ''sessionId'']),
         (''properties'', json_object [(''sessionId'', json_object [(''type'', JString ''string'')])])])
       (cat ''SubagentPermissionDescription'')"

definition subagent_list_spec :: "catalog \<Rightarrow> tool_spec" where
  "subagent_list_spec cat =
     subagent_tool_spec (built_in_as_str SubagentList) (cat ''SubagentListDescription'')
       (json_object [(''type'', JString ''object''), (''properties'', JObject [])])
       (cat ''SubagentPermissionDescription'')"

end
