(* ===== verification/Session_Registry.thy ===== *)
theory Session_Registry
  imports Subagent_Tools Tool_Names
begin

text \<open>
  The registry of agent sessions (\<open>crates/noloong-agent/src/interaction/registry.rs\<close>): sessions are created,
  loaded, listed, changed and deleted, and each may have a goal. The store and the profiles are records
  of functions. A prompt given to the agent of a session may do anything to the registry, since the
  listeners of the agent and its tools call it. Operations of different tasks are taken one after the
  other; the sets of identifiers that another task has reserved are part of the state.
\<close>

section \<open>The registry\<close>

record profile_descriptor =
  pd_profile_id :: string
  pd_display_name :: string
  pd_description :: "string option"
  pd_default_manifest_patches :: "manifest_patch list"
  pd_metadata :: json_map

text \<open>A profile builds the runtime of a session, or fails.\<close>

record runtime_profile =
  pf_descriptor :: profile_descriptor
  pf_build_runtime :: "session_record \<Rightarrow> interaction_error + unit"

text \<open>A loaded session: its record, and the session and the agent built from it.\<close>

record 'l live_session =
  lv_record :: session_record
  lv_manifest :: agent_manifest
  lv_active_goal :: "goal_record option"
  lv_agent :: "('l, unit) agent_inner"

record ('s, 'l) registry =
  rg_store :: 's
  rg_sessions :: "'l live_session smap"
  rg_creating_sessions :: "string set"
  rg_firing_automations :: "string set"

type_synonym ('s, 'l, 'a) registry_eff = "(('s, 'l) registry, interaction_error, 'a) eff"

record ('s, 'l) registry_env =
  re_profiles :: "runtime_profile smap"
  re_default_profile_id :: string
  re_store :: "'s registry_store"
  re_await :: "string \<Rightarrow> ('s, 'l) registry \<Rightarrow> ('s, 'l) registry"
  re_prompt :: "string \<Rightarrow> agent_message \<Rightarrow> (('s, 'l) registry, agent_core_error, unit) eff"
  re_abort :: "string \<Rightarrow> ('s, 'l) registry \<Rightarrow> ('s, 'l) registry"

record session_descriptor =
  sd_session_id :: string
  sd_profile_id :: string
  sd_parent_session_id :: "string option"
  sd_role :: "string option"
  sd_status :: session_status
  sd_manifest :: agent_manifest
  sd_state :: agent_state
  sd_metadata :: json_map

definition in_store :: "('s, 'a) store_eff \<Rightarrow> ('s, 'l, 'a) registry_eff" where
  "in_store = zoom rg_store (\<lambda>s rg. rg\<lparr>rg_store := s\<rparr>)"

definition loaded_session :: "string \<Rightarrow> ('s, 'l) registry \<Rightarrow> 'l live_session option" where
  "loaded_session i rg = bt_get (rg_sessions rg) i"

definition put_session :: "string \<Rightarrow> 'l live_session \<Rightarrow> ('s, 'l) registry \<Rightarrow> ('s, 'l) registry" where
  "put_session i l rg = rg\<lparr>rg_sessions := bt_insert i l (rg_sessions rg)\<rparr>"

lemma map_of_bt_insert_same [simp]: "map_of (bt_insert k v m) k = Some v"
  by (induction k v m rule: bt_insert.induct) auto

lemma loaded_put_session [simp]: "loaded_session i (put_session i l rg) = Some l"
  by (simp add: loaded_session_def put_session_def)

definition update_session ::
  "string \<Rightarrow> ('l live_session \<Rightarrow> 'l live_session) \<Rightarrow> ('s, 'l) registry \<Rightarrow> ('s, 'l) registry" where
  "update_session i f rg = (case loaded_session i rg of None \<Rightarrow> rg | Some l \<Rightarrow> put_session i (f l) rg)"

definition modify :: "('w \<Rightarrow> 'w) \<Rightarrow> ('w, 'e, unit) eff" where
  "modify f = (\<lambda>w. (f w, Inr ()))"

definition descriptor_from_record :: "session_record \<Rightarrow> session_descriptor" where
  "descriptor_from_record r =
     \<lparr>sd_session_id = sr_session_id r, sd_profile_id = sr_profile_id r,
      sd_parent_session_id = sr_parent_session_id r, sd_role = sr_role r,
      sd_status = session_status_of (st_status (sr_state r)), sd_manifest = sr_manifest r,
      sd_state = sr_state r, sd_metadata = sr_metadata r\<rparr>"

definition queue_snapshot_from_agent :: "('l, unit) agent_inner \<Rightarrow> session_queues" where
  "queue_snapshot_from_agent a =
     \<lparr>sq_steering = session_queue_from_core (pq_mode (ai_steering_queue a)) (pq_messages (ai_steering_queue a)),
      sq_follow_up = session_queue_from_core (pq_mode (ai_follow_up_queue a)) (pq_messages (ai_follow_up_queue a))\<rparr>"

definition restore_agent_queues :: "session_queues \<Rightarrow> ('l, unit) agent_inner \<Rightarrow> ('l, unit) agent_inner" where
  "restore_agent_queues q a =
     edit_follow_up_queue (\<lambda>_. session_queue_into_core (sq_follow_up q))
       (set_follow_up_mode (sqs_mode (sq_follow_up q))
         (edit_steering_queue (\<lambda>_. session_queue_into_core (sq_steering q))
           (set_steering_mode (sqs_mode (sq_steering q)) a)))"

definition snapshot_record :: "nat \<Rightarrow> 'l live_session \<Rightarrow> session_record" where
  "snapshot_record now l =
     (lv_record l)\<lparr>sr_schema_version := SESSION_RECORD_SCHEMA_VERSION, sr_manifest := lv_manifest l,
       sr_state := ai_state (lv_agent l), sr_queues := queue_snapshot_from_agent (lv_agent l),
       sr_updated_at_ms := now\<rparr>"

definition live_descriptor :: "nat \<Rightarrow> 'l live_session \<Rightarrow> session_descriptor" where
  "live_descriptor now l = descriptor_from_record (snapshot_record now l)"

definition save_snapshot ::
  "('s, 'l) registry_env \<Rightarrow> nat \<Rightarrow> string \<Rightarrow> 'l live_session \<Rightarrow> ('s, 'l, session_descriptor) registry_eff" where
  "save_snapshot env now i l =
     (let record = snapshot_record now l
      in and_then (in_store (rs_save (re_store env) record)) (\<lambda>_.
         and_then (modify (update_session i (\<lambda>l. l\<lparr>lv_record := record\<rparr>))) (\<lambda>_.
         ok (descriptor_from_record record))))"

section \<open>Manifests and metadata of a session\<close>

fun apply_patches ::
  "(manifest_error \<Rightarrow> interaction_error) \<Rightarrow> manifest_patch list \<Rightarrow> agent_manifest
   \<Rightarrow> interaction_error + agent_manifest" where
  "apply_patches f [] m = Inr m"
| "apply_patches f (p # ps) m =
     (case apply_manifest_patch p m of
        (m', Inl e) \<Rightarrow> Inl (f e)
      | (m', Inr _) \<Rightarrow> apply_patches f ps m')"

definition manifest_for_request ::
  "agent_manifest option \<Rightarrow> profile_descriptor \<Rightarrow> manifest_patch list \<Rightarrow> interaction_error + agent_manifest" where
  "manifest_for_request manifest profile patches =
     (case (case manifest of
              Some m \<Rightarrow> Inr m
            | None \<Rightarrow> apply_patches (\<lambda>e. invalid_params (''profile '' @ pd_profile_id profile
                @ '' default manifest patch failed: '' @ show_manifest_error e))
                (pd_default_manifest_patches profile) default_manifest) of
        Inl e \<Rightarrow> Inl e
      | Inr m \<Rightarrow>
          (case apply_patches (\<lambda>e. invalid_params (''session manifest patch failed for profile ''
               @ pd_profile_id profile @ '': '' @ show_manifest_error e)) patches m of
             Inl e \<Rightarrow> Inl e
           | Inr m' \<Rightarrow>
               (case manifest_validate m' of
                  Inl e \<Rightarrow> Inl (invalid_params (show_manifest_error e))
                | Inr _ \<Rightarrow> Inr m')))"

definition SUBAGENT_INHERIT_PROMPT_ADDITIONS_METADATA :: string where
  "SUBAGENT_INHERIT_PROMPT_ADDITIONS_METADATA = ''inheritPromptAdditions''"
definition TRANSIENT_PROMPT_ADDITION_PREFIX :: string where
  "TRANSIENT_PROMPT_ADDITION_PREFIX = ''transient.''"

definition subagent_manifest_from_parent :: "agent_manifest \<Rightarrow> json_map \<Rightarrow> agent_manifest" where
  "subagent_manifest_from_parent m metadata =
     (let inherit = (case map_of metadata SUBAGENT_INHERIT_PROMPT_ADDITIONS_METADATA of
            Some (JBool b) \<Rightarrow> b | _ \<Rightarrow> True)
      in put_additions
           (if inherit
            then filter (\<lambda>a. \<not> prefix TRANSIENT_PROMPT_ADDITION_PREFIX (pa_id a)) (prompt_additions (am_system_prompt m))
            else []) m)"

definition SESSION_WORKDIR_METADATA_KEY :: string where
  "SESSION_WORKDIR_METADATA_KEY = ''workdir''"

definition session_workdir_metadata :: "json_map \<Rightarrow> string option" where
  "session_workdir_metadata metadata =
     Option.bind (Option.bind (map_of metadata SESSION_WORKDIR_METADATA_KEY) json_as_str) trim_non_empty"

fun patch_metadata :: "(string \<times> json) list \<Rightarrow> json_map \<Rightarrow> json_map" where
  "patch_metadata [] m = m"
| "patch_metadata ((k, v) # kvs) m =
     patch_metadata kvs (if v = JNull then bt_remove k m else bt_insert k v m)"

definition apply_session_metadata_patch :: "session_record \<Rightarrow> json_map \<Rightarrow> session_record \<times> bool" where
  "apply_session_metadata_patch r metadata =
     (let r' = r\<lparr>sr_metadata := patch_metadata metadata (sr_metadata r)\<rparr>
      in (r', session_workdir_metadata (sr_metadata r) \<noteq> session_workdir_metadata (sr_metadata r')))"

text \<open>The working directory of the session's environment, when its metadata give one.\<close>

definition workdir_for_record :: "session_record \<Rightarrow> string option" where
  "workdir_for_record r =
     (case Option.bind (map_of (sr_metadata r) SESSION_WORKDIR_METADATA_KEY) json_as_str of
        Some d \<Rightarrow> if is_blank d then None else Some d
      | None \<Rightarrow> None)"

definition subagent_depth_for_record :: "session_record \<Rightarrow> nat" where
  "subagent_depth_for_record r = (if sr_parent_session_id r = None then 0 else 1)"

definition hex16 :: "64 word \<Rightarrow> string" where
  "hex16 w = map (\<lambda>i. hex_digit (unat (drop_bit (4 * i) w AND 15))) (rev [0..<16])"

definition run_id_prefix_for_session :: "string \<Rightarrow> string" where
  "run_id_prefix_for_session i = ''s'' @ hex16 (fold fnv_step i 0xcbf29ce484222325)"

definition new_run_id_prefix_for_session :: "string \<Rightarrow> string \<Rightarrow> string" where
  "new_run_id_prefix_for_session uuid i = run_id_prefix_for_session i @ ''-'' @ uuid"

section \<open>Loading\<close>

definition profile_not_found :: "string \<Rightarrow> interaction_error" where
  "profile_not_found i = not_found (''profile not found: '' @ i)"

definition registered_from_record ::
  "('s, 'l) registry_env \<Rightarrow> session_record \<Rightarrow> ('s, 'l, 'l live_session) registry_eff" where
  "registered_from_record env r =
     and_then (lift_result (case validate_schema_version r of Inl m \<Rightarrow> Inl (internal_error m) | Inr _ \<Rightarrow> Inr ())) (\<lambda>_.
     case bt_get (re_profiles env) (sr_profile_id r) of
       None \<Rightarrow> err (profile_not_found (sr_profile_id r))
     | Some profile \<Rightarrow>
         and_then (in_store (rs_get_goal (re_store env) (sr_session_id r))) (\<lambda>g.
         and_then (lift_result (pf_build_runtime profile r)) (\<lambda>_.
         ok \<lparr>lv_record = r, lv_manifest = sr_manifest r,
             lv_active_goal = (case g of Some g' \<Rightarrow> if is_pursuing g' then Some g' else None | None \<Rightarrow> None),
             lv_agent = restore_agent_queues (sr_queues r) (new_agent_inner (sr_state r) ())\<rparr>)))"

definition INTERRUPTED_RUNNING_SESSION_ERROR :: string where
  "INTERRUPTED_RUNNING_SESSION_ERROR =
     ''agent session was interrupted while running and cannot be resumed automatically''"

definition normalize_record ::
  "('s, 'l) registry_env \<Rightarrow> nat \<Rightarrow> session_record \<Rightarrow> ('s, 'l, session_record) registry_eff" where
  "normalize_record env now r =
     and_then (lift_result (case validate_schema_version r of Inl m \<Rightarrow> Inl (internal_error m) | Inr _ \<Rightarrow> Inr ())) (\<lambda>_.
     if st_status (sr_state r) = Running
     then (let r' = r\<lparr>sr_state := (sr_state r)\<lparr>st_status := RunFailedStatus,
               st_last_error := Some INTERRUPTED_RUNNING_SESSION_ERROR, st_active_phase := None\<rparr>,
               sr_updated_at_ms := now\<rparr>
           in and_then (in_store (rs_save (re_store env) r')) (\<lambda>_. ok r'))
     else ok r)"

text \<open>
  A session that is not loaded is read from the store; while another task has reserved its identifier,
  the reader waits for the notification, and \<open>re_await\<close> is the state it then finds.
\<close>

definition registry_get ::
  "('s, 'l) registry_env \<Rightarrow> nat \<Rightarrow> string \<Rightarrow> ('s, 'l, 'l live_session option) registry_eff" where
  "registry_get env now i rg =
     (let rg = (if loaded_session i rg = None \<and> i \<in> rg_creating_sessions rg then re_await env i rg else rg)
      in case loaded_session i rg of
           Some l \<Rightarrow> (rg, Inr (Some l))
         | None \<Rightarrow>
             and_then (in_store (rs_get (re_store env) i)) (\<lambda>found.
               case found of
                 None \<Rightarrow> ok None
               | Some r \<Rightarrow>
                   and_then (normalize_record env now r) (\<lambda>r'.
                   and_then (registered_from_record env r') (\<lambda>l.
                   and_then (modify (put_session i l)) (\<lambda>_. ok (Some l))))) rg)"

definition get_descriptor ::
  "('s, 'l) registry_env \<Rightarrow> nat \<Rightarrow> string \<Rightarrow> ('s, 'l, session_descriptor option) registry_eff" where
  "get_descriptor env now i rg =
     (case loaded_session i rg of
        Some l \<Rightarrow> (rg, Inr (Some (live_descriptor now l)))
      | None \<Rightarrow>
          and_then (in_store (rs_get (re_store env) i)) (\<lambda>found.
            case found of
              None \<Rightarrow> ok None
            | Some r \<Rightarrow>
                and_then (normalize_record env now r) (\<lambda>r'. ok (Some (descriptor_from_record r')))) rg)"

definition require_session ::
  "('s, 'l) registry_env \<Rightarrow> nat \<Rightarrow> string \<Rightarrow> ('s, 'l, session_descriptor) registry_eff" where
  "require_session env now i =
     and_then (get_descriptor env now i) (\<lambda>d.
       case d of None \<Rightarrow> err (missing_session_error i) | Some d' \<Rightarrow> ok d')"

section \<open>Sessions\<close>

record session_create_request =
  scq_session_id :: "string option"
  scq_profile_id :: "string option"
  scq_manifest :: "agent_manifest option"
  scq_manifest_patches :: "manifest_patch list"
  scq_parent_session_id :: "string option"
  scq_role :: "string option"
  scq_metadata :: json_map

text \<open>\<open>uuid\<close> and \<open>uuid'\<close> are the fresh identifiers of the uuid crate.\<close>

definition next_session_id :: "string \<Rightarrow> string" where
  "next_session_id uuid = ''session-'' @ uuid"

definition reserve_session_id :: "string \<Rightarrow> ('s, 'l, unit) registry_eff" where
  "reserve_session_id i rg =
     (if i \<in> rg_creating_sessions rg then (rg, Inl (duplicate_session_error i))
      else (rg\<lparr>rg_creating_sessions := insert i (rg_creating_sessions rg)\<rparr>, Inr ()))"

definition release_session_id :: "string \<Rightarrow> ('s, 'l) registry \<Rightarrow> ('s, 'l) registry" where
  "release_session_id i rg = rg\<lparr>rg_creating_sessions := rg_creating_sessions rg - {i}\<rparr>"

definition with_reservation :: "string \<Rightarrow> ('s, 'l, 'a) registry_eff \<Rightarrow> ('s, 'l, 'a) registry_eff" where
  "with_reservation i m =
     and_then (reserve_session_id i) (\<lambda>_ rg. let (rg', r) = m rg in (release_session_id i rg', r))"

definition create_session ::
  "('s, 'l) registry_env \<Rightarrow> nat \<Rightarrow> string \<Rightarrow> string \<Rightarrow> session_create_request
   \<Rightarrow> ('s, 'l, session_descriptor) registry_eff" where
  "create_session env now uuid uuid' q =
     (let profile_id = (case scq_profile_id q of Some p \<Rightarrow> p | None \<Rightarrow> re_default_profile_id env)
      in case bt_get (re_profiles env) profile_id of
           None \<Rightarrow> err (profile_not_found profile_id)
         | Some profile \<Rightarrow>
             and_then (lift_result (manifest_for_request (scq_manifest q) (pf_descriptor profile)
                 (scq_manifest_patches q))) (\<lambda>manifest.
             let i = (case scq_session_id q of Some i \<Rightarrow> i | None \<Rightarrow> next_session_id uuid)
             in with_reservation i (\<lambda>rg.
                  if loaded_session i rg \<noteq> None then (rg, Inl (duplicate_session_error i))
                  else
                    (let r = \<lparr>sr_schema_version = SESSION_RECORD_SCHEMA_VERSION, sr_session_id = i,
                        sr_profile_id = profile_id, sr_parent_session_id = scq_parent_session_id q,
                        sr_role = scq_role q, sr_run_id_prefix = new_run_id_prefix_for_session uuid' i,
                        sr_manifest = manifest, sr_state = agent_state_default,
                        sr_queues = session_queues_default, sr_metadata = scq_metadata q,
                        sr_created_at_ms = now, sr_updated_at_ms = now\<rparr>
                     in and_then (registered_from_record env r) (\<lambda>l.
                        and_then (in_store (rs_insert (re_store env) r)) (\<lambda>_.
                        and_then (modify (put_session i l)) (\<lambda>_.
                        ok (live_descriptor now l)))) rg))))"

definition update_session_metadata ::
  "('s, 'l) registry_env \<Rightarrow> nat \<Rightarrow> string \<Rightarrow> json_map \<Rightarrow> ('s, 'l, session_descriptor) registry_eff" where
  "update_session_metadata env now i metadata rg =
     (let loaded = loaded_session i rg
      in and_then (case loaded of
             Some l \<Rightarrow> ok (snapshot_record now l)
           | None \<Rightarrow>
               and_then (in_store (rs_get (re_store env) i)) (\<lambda>found.
                 case found of
                   None \<Rightarrow> err (missing_session_error i)
                 | Some r \<Rightarrow> normalize_record env now r)) (\<lambda>r.
         let (r', workdir_changed) = apply_session_metadata_patch r metadata;
             status = session_status_of (st_status (sr_state r'))
         in if workdir_changed \<and> status \<in> {SessionRunning, SessionPaused}
            then err (busy_error (''session workdir cannot change while session is active: '' @ i))
            else
              (let r'' = r'\<lparr>sr_updated_at_ms := now\<rparr>
               in and_then (in_store (rs_save (re_store env) r'')) (\<lambda>_.
                  and_then (modify (if loaded = None then id else update_session i (\<lambda>l. l\<lparr>lv_record := r''\<rparr>))) (\<lambda>_.
                  and_then (if workdir_changed
                            then and_then (registered_from_record env r'') (\<lambda>l. modify (put_session i l))
                            else ok ()) (\<lambda>_.
                  ok (descriptor_from_record r'')))))) rg)"

record subagent_spawn_request =
  ssr_parent_session_id :: string
  ssr_profile_id :: "string option"
  ssr_manifest :: "agent_manifest option"
  ssr_manifest_patches :: "manifest_patch list"
  ssr_role :: "string option"
  ssr_metadata :: json_map
  ssr_initial_prompt :: "agent_message option"

definition core_prompt ::
  "('s, 'l) registry_env \<Rightarrow> string \<Rightarrow> agent_message \<Rightarrow> ('s, 'l, unit) registry_eff" where
  "core_prompt env i m rg =
     (case re_prompt env i m rg of
        (rg', Inl e) \<Rightarrow> (rg', Inl (interaction_of_core_error e))
      | (rg', Inr _) \<Rightarrow> (rg', Inr ()))"

definition spawn_subagent ::
  "('s, 'l) registry_env \<Rightarrow> nat \<Rightarrow> string \<Rightarrow> string \<Rightarrow> subagent_spawn_request
   \<Rightarrow> ('s, 'l, session_descriptor) registry_eff" where
  "spawn_subagent env now uuid uuid' q =
     and_then (get_descriptor env now (ssr_parent_session_id q)) (\<lambda>found.
     case found of
       None \<Rightarrow> err (not_found (''parent session not found: '' @ ssr_parent_session_id q))
     | Some parent \<Rightarrow>
         and_then (create_session env now uuid uuid'
           \<lparr>scq_session_id = None,
            scq_profile_id = (case ssr_profile_id q of Some p \<Rightarrow> Some p | None \<Rightarrow> Some (sd_profile_id parent)),
            scq_manifest = ssr_manifest q, scq_manifest_patches = ssr_manifest_patches q,
            scq_parent_session_id = Some (ssr_parent_session_id q), scq_role = ssr_role q,
            scq_metadata = ssr_metadata q\<rparr>) (\<lambda>d.
         case ssr_initial_prompt q of
           None \<Rightarrow> ok d
         | Some m \<Rightarrow>
             and_then (registry_get env now (sd_session_id d)) (\<lambda>child.
             case child of
               None \<Rightarrow> ok d
             | Some l \<Rightarrow>
                 and_then (core_prompt env (sd_session_id d) m) (\<lambda>_ rg.
                   (rg, Inr (live_descriptor now
                     (case loaded_session (sd_session_id d) rg of Some l' \<Rightarrow> l' | None \<Rightarrow> l)))))))"

fun list_stored ::
  "('s, 'l) registry_env \<Rightarrow> nat \<Rightarrow> session_list_filter \<Rightarrow> session_record list \<Rightarrow> session_descriptor smap
   \<Rightarrow> ('s, 'l, session_descriptor smap) registry_eff" where
  "list_stored env now f [] ds = ok ds"
| "list_stored env now f (r # rs) ds =
     and_then (normalize_record env now r) (\<lambda>r'.
       list_stored env now f rs
         (if record_matches_filter r' f then bt_insert (sr_session_id r') (descriptor_from_record r') ds else ds))"

definition list_loaded ::
  "nat \<Rightarrow> session_list_filter \<Rightarrow> 'l live_session list \<Rightarrow> session_descriptor smap \<Rightarrow> session_descriptor smap" where
  "list_loaded now f =
     fold (\<lambda>l ds. if record_matches_filter (lv_record l) f
       then bt_insert (sd_session_id (live_descriptor now l)) (live_descriptor now l) ds else ds)"

definition registry_list ::
  "('s, 'l) registry_env \<Rightarrow> nat \<Rightarrow> session_list_filter \<Rightarrow> ('s, 'l, session_descriptor list) registry_eff" where
  "registry_list env now f =
     and_then (lift_result (session_list_filter_validate f)) (\<lambda>_.
     and_then (in_store (rs_list (re_store env) f)) (\<lambda>rs.
     and_then (list_stored env now f rs []) (\<lambda>ds rg.
     (rg, Inr (bt_values (list_loaded now f (bt_values (rg_sessions rg)) ds))))))"

definition delete_session ::
  "('s, 'l) registry_env \<Rightarrow> nat \<Rightarrow> string \<Rightarrow> bool \<Rightarrow> ('s, 'l, session_descriptor) registry_eff" where
  "delete_session env now i force_abort rg =
     (let loaded = loaded_session i rg
      in and_then (case loaded of
             Some l \<Rightarrow> ok (live_descriptor now l)
           | None \<Rightarrow> require_session env now i) (\<lambda>d.
         if sd_status d \<in> {SessionRunning, SessionPaused} \<and> \<not> force_abort
         then err (busy_error (''session is not idle: '' @ i))
         else
           and_then (modify (if sd_status d \<in> {SessionRunning, SessionPaused} \<and> loaded \<noteq> None
                             then re_abort env i else id)) (\<lambda>_.
           and_then (modify (\<lambda>rg. rg\<lparr>rg_sessions := bt_remove i (rg_sessions rg)\<rparr>)) (\<lambda>_.
           and_then (in_store (rs_remove (re_store env) i)) (\<lambda>_. ok d)))) rg)"

end
