(* ===== verification/Registry_Goals.thy ===== *)
theory Registry_Goals
  imports Session_Registry
begin

text \<open>
  The goals of sessions in the registry (\<open>crates/noloong-agent/src/interaction/registry.rs\<close>): setting and
  changing them, the controller of the goal tool, and the audit that a listener asks for at the end of a
  turn; and the controller of the tools over subagents, which are sessions with a parent.
\<close>

section \<open>Operations\<close>

record goal_set_request =
  gsr_session_id :: string
  gsr_objective :: string
  gsr_token_budget :: "nat option"
  gsr_metadata :: json_map

record goal_status_update =
  gsu_session_id :: string
  gsu_status :: goal_status
  gsu_summary :: "string option"
  gsu_evidence :: "string option"

definition missing_goal_error :: "string \<Rightarrow> interaction_error" where
  "missing_goal_error i = not_found (''goal not found for session: '' @ i)"

definition update_loaded_goal :: "string \<Rightarrow> goal_record option \<Rightarrow> ('s, 'l) registry \<Rightarrow> ('s, 'l) registry" where
  "update_loaded_goal i g = update_session i (\<lambda>l. l\<lparr>lv_active_goal := g\<rparr>)"

definition save_goal :: "('s, 'l) registry_env \<Rightarrow> string \<Rightarrow> goal_record \<Rightarrow> ('s, 'l, goal_record) registry_eff" where
  "save_goal env i g =
     and_then (in_store (rs_save_goal (re_store env) g)) (\<lambda>_.
     and_then (modify (update_loaded_goal i (Some g))) (\<lambda>_. ok g))"

definition set_goal ::
  "('s, 'l) registry_env \<Rightarrow> nat \<Rightarrow> goal_set_request \<Rightarrow> ('s, 'l, goal_record) registry_eff" where
  "set_goal env now q =
     (if is_blank (gsr_objective q) then err (invalid_params ''goal objective must not be empty'')
      else
        and_then (require_session env now (gsr_session_id q)) (\<lambda>_.
        save_goal env (gsr_session_id q)
          ((goal_new now (gsr_session_id q) (trim (gsr_objective q)))
           \<lparr>go_token_budget := gsr_token_budget q, go_metadata := gsr_metadata q\<rparr>)))"

definition get_goal :: "('s, 'l) registry_env \<Rightarrow> nat \<Rightarrow> string \<Rightarrow> ('s, 'l, goal_record option) registry_eff" where
  "get_goal env now i =
     and_then (require_session env now i) (\<lambda>_. in_store (rs_get_goal (re_store env) i))"

definition require_goal :: "('s, 'l) registry_env \<Rightarrow> string \<Rightarrow> ('s, 'l, goal_record) registry_eff" where
  "require_goal env i =
     and_then (in_store (rs_get_goal (re_store env) i)) (\<lambda>found.
       case found of None \<Rightarrow> err (missing_goal_error i) | Some g \<Rightarrow> ok g)"

definition with_goal_status :: "nat \<Rightarrow> goal_status \<Rightarrow> goal_record \<Rightarrow> goal_record" where
  "with_goal_status now status g =
     (let g = g\<lparr>go_status := status\<rparr>;
          g = (if \<not> is_pursuing g
               then g\<lparr>go_last_audit := map_option (\<lambda>a. a\<lparr>ga_pending := False\<rparr>) (go_last_audit g)\<rparr> else g)
      in goal_mark_updated now g)"

definition set_goal_status ::
  "('s, 'l) registry_env \<Rightarrow> nat \<Rightarrow> string \<Rightarrow> goal_status \<Rightarrow> ('s, 'l, goal_record) registry_eff" where
  "set_goal_status env now i status =
     and_then (require_session env now i) (\<lambda>_.
     and_then (require_goal env i) (\<lambda>g.
     save_goal env i (with_goal_status now status g)))"

definition pause_goal :: "('s, 'l) registry_env \<Rightarrow> nat \<Rightarrow> string \<Rightarrow> ('s, 'l, goal_record) registry_eff" where
  "pause_goal env now i = set_goal_status env now i GoalPaused"

definition resume_goal :: "('s, 'l) registry_env \<Rightarrow> nat \<Rightarrow> string \<Rightarrow> ('s, 'l, goal_record) registry_eff" where
  "resume_goal env now i = set_goal_status env now i Pursuing"

definition clear_goal :: "('s, 'l) registry_env \<Rightarrow> nat \<Rightarrow> string \<Rightarrow> ('s, 'l, goal_record) registry_eff" where
  "clear_goal env now i = set_goal_status env now i Cleared"

definition update_goal_status ::
  "('s, 'l) registry_env \<Rightarrow> nat \<Rightarrow> goal_status_update \<Rightarrow> string \<Rightarrow> nat \<Rightarrow> ('s, 'l, goal_record) registry_eff" where
  "update_goal_status env now q run_id turn_id =
     (if \<not> is_goal_update_allowed (gsu_status q) then err (invalid_params GOAL_UPDATE_STATUS_ERROR)
      else
        and_then (require_goal env (gsu_session_id q)) (\<lambda>g.
        if \<not> is_pursuing g \<and> gsu_status q \<noteq> Pursuing
        then err (invalid_params (''goal is not pursuing: '' @ gsu_session_id q))
        else
          (let request = \<lparr>gur_status = gsu_status q, gur_summary = Option.bind (gsu_summary q) trim_non_empty,
                 gur_evidence = Option.bind (gsu_evidence q) trim_non_empty\<rparr>;
               updated = update_goal_audit now g request run_id turn_id
           in save_goal env (go_session_id updated) updated)))"

text \<open>\<open>RegistryGoalController\<close>: the goal tool of a session, while the registry exists.\<close>

definition to_core_error :: "interaction_error \<Rightarrow> agent_core_error" where
  "to_core_error e = Provider (ie_message e)"

definition core_eff :: "('s, 'l, 'a) registry_eff \<Rightarrow> (('s, 'l) registry, agent_core_error, 'a) eff" where
  "core_eff m rg = (case m rg of (rg', Inl e) \<Rightarrow> (rg', Inl (to_core_error e)) | (rg', Inr x) \<Rightarrow> (rg', Inr x))"

definition registry_goal_controller ::
  "('s, 'l) registry_env \<Rightarrow> nat \<Rightarrow> string \<Rightarrow> bool \<Rightarrow> ('s, 'l) registry goal_controller" where
  "registry_goal_controller env now i cancelled request run_id turn_id =
     (if cancelled then err Aborted
      else core_eff (update_goal_status env now
        \<lparr>gsu_session_id = i, gsu_status = gur_status request, gsu_summary = gur_summary request,
         gsu_evidence = gur_evidence request\<rparr> run_id turn_id))"

section \<open>The audit at the end of a turn\<close>

text \<open>The audit that the listener leaves, or none when nothing is to be done.\<close>

definition turn_end_audit :: "nat \<Rightarrow> string \<Rightarrow> nat \<Rightarrow> goal_audit" where
  "turn_end_audit now run_id turn_id =
     \<lparr>ga_reason = GOAL_AUDIT_REASON_TURN_END, ga_run_id = run_id, ga_turn_id = turn_id, ga_pending = True,
      ga_summary = None, ga_evidence = None, ga_audited_at_ms = now\<rparr>"

definition save_audited ::
  "('s, 'l) registry_env \<Rightarrow> string \<Rightarrow> goal_record \<Rightarrow> (('s, 'l) registry, agent_core_error, unit) eff" where
  "save_audited env i g =
     core_eff (and_then (save_goal env i g) (\<lambda>_. ok ()))"

definition goal_audit_listener ::
  "('s, 'l) registry_env \<Rightarrow> nat \<Rightarrow> string \<Rightarrow> agent_event \<Rightarrow> (('s, 'l) registry, agent_core_error, unit) eff" where
  "goal_audit_listener env now i event =
     (case (ev_kind event, ev_turn_id event) of
        (TurnCompleted _, Some turn_id) \<Rightarrow>
          and_then (core_eff (in_store (rs_get_goal (re_store env) i))) (\<lambda>found.
          case found of
            None \<Rightarrow> modify (update_loaded_goal i None)
          | Some g \<Rightarrow>
              if \<not> is_pursuing g then modify (update_loaded_goal i (Some g))
              else if audit_pending g
              then save_audited env i (goal_mark_updated now
                (g\<lparr>go_last_audit := map_option (\<lambda>a. a\<lparr>ga_pending := False\<rparr>) (go_last_audit g)\<rparr>))
              else if (case go_last_audit g of
                         Some a \<Rightarrow> ga_run_id a = ev_run_id event \<and> ga_turn_id a = turn_id | None \<Rightarrow> False)
              then ok ()
              else
                (let g' = goal_mark_updated now (g\<lparr>go_last_audit := Some (turn_end_audit now (ev_run_id event) turn_id)\<rparr>)
                 in and_then (save_audited env i g') (\<lambda>_.
                    and_then (modify (update_session i (\<lambda>l. l\<lparr>lv_agent :=
                        steer (goal_audit_message g' (ev_run_id event) turn_id) (lv_agent l)\<rparr>))) (\<lambda>_ rg.
                    case loaded_session i rg of
                      None \<Rightarrow> (rg, Inr ())
                    | Some l \<Rightarrow> core_eff (and_then (save_snapshot env now i l) (\<lambda>_. ok ())) rg))))
      | _ \<Rightarrow> ok ())"

text \<open>The listener that saves a snapshot, and the events for which it does.\<close>

fun event_requires_snapshot :: "agent_event_kind \<Rightarrow> bool" where
  "event_requires_snapshot RunStarted = True"
| "event_requires_snapshot RunCompleted = True"
| "event_requires_snapshot RunAborted = True"
| "event_requires_snapshot (RunFailed _) = True"
| "event_requires_snapshot (RunPaused _) = True"
| "event_requires_snapshot (RunResumed _) = True"
| "event_requires_snapshot (TurnCompleted _) = True"
| "event_requires_snapshot (PhaseStarted _) = True"
| "event_requires_snapshot (PhaseCompleted _) = True"
| "event_requires_snapshot (PhaseFailed _ _) = True"
| "event_requires_snapshot (EffectCommitted _) = True"
| "event_requires_snapshot (ToolApprovalRequested _) = True"
| "event_requires_snapshot (ToolApprovalResolved _ _) = True"
| "event_requires_snapshot (ToolApprovalExpired _ _) = True"
| "event_requires_snapshot _ = False"

definition snapshot_listener ::
  "('s, 'l) registry_env \<Rightarrow> nat \<Rightarrow> string \<Rightarrow> agent_event \<Rightarrow> (('s, 'l) registry, agent_core_error, unit) eff" where
  "snapshot_listener env now i event rg =
     (if \<not> event_requires_snapshot (ev_kind event) then (rg, Inr ())
      else case loaded_session i rg of
             None \<Rightarrow> (rg, Inr ())
           | Some l \<Rightarrow> core_eff (and_then (save_snapshot env now i l) (\<lambda>_. ok ())) rg)"

section \<open>Properties\<close>

text \<open>
  With the in-memory store: a status update of the tool leaves a goal that is pursuing, or takes back to
  pursuing one that is not, with a finished audit of this turn.
\<close>

lemma require_goal_memory:
  assumes "re_store env = memory_registry_store"
  shows "require_goal env i rg = (case map_of (ms_goals (rg_store rg)) i of
    None \<Rightarrow> (rg, Inl (missing_goal_error i)) | Some g \<Rightarrow> (rg, Inr g))"
  by (simp add: require_goal_def and_then_def in_store_def zoom_def assms memory_registry_store_def
      memory_get_goal_def err_def ok_def split: option.split)

lemma save_goal_memory:
  assumes "re_store env = memory_registry_store"
  shows "save_goal env i g rg = (update_loaded_goal i (Some g)
      (rg\<lparr>rg_store := (rg_store rg)\<lparr>ms_goals := bt_insert (go_session_id g) g (ms_goals (rg_store rg))\<rparr>\<rparr>), Inr g)"
  by (simp add: save_goal_def and_then_def in_store_def zoom_def assms memory_registry_store_def
      memory_save_goal_def modify_def ok_def)

lemma rg_store_update_loaded_goal [simp]: "rg_store (update_loaded_goal i g rg) = rg_store rg"
  by (simp add: update_loaded_goal_def update_session_def put_session_def split: option.split)

lemma update_goal_status_memory:
  assumes memory: "re_store env = memory_registry_store" and wf: "memory_wf (rg_store rg)"
    and "update_goal_status env now q run_id turn_id rg = (rg', Inr g')"
  shows "\<exists>g. map_of (ms_goals (rg_store rg)) (gsu_session_id q) = Some g
    \<and> (is_pursuing g \<or> gsu_status q = Pursuing)
    \<and> go_status g' = gsu_status q \<and> is_goal_update_allowed (go_status g') \<and> \<not> audit_pending g'
    \<and> go_objective g' = go_objective g
    \<and> map_of (ms_goals (rg_store rg')) (go_session_id g) = Some g'"
proof -
  from assms(3) have allowed: "is_goal_update_allowed (gsu_status q)"
    by (auto simp: update_goal_status_def err_def split: if_splits)
  with assms(3) obtain g where g: "map_of (ms_goals (rg_store rg)) (gsu_session_id q) = Some g"
    and pursuing: "is_pursuing g \<or> gsu_status q = Pursuing"
    by (auto simp: update_goal_status_def and_then_def require_goal_memory [OF memory] err_def Let_def
        split: option.splits if_splits)
  let ?g = "update_goal_audit now g \<lparr>gur_status = gsu_status q,
    gur_summary = Option.bind (gsu_summary q) trim_non_empty,
    gur_evidence = Option.bind (gsu_evidence q) trim_non_empty\<rparr> run_id turn_id"
  from assms(3) allowed g pursuing have result: "save_goal env (go_session_id ?g) ?g rg = (rg', Inr g')"
    by (auto simp: update_goal_status_def and_then_def require_goal_memory [OF memory] Let_def split: if_splits)
  then have g': "g' = ?g" and store: "rg_store rg' = (rg_store rg)
      \<lparr>ms_goals := bt_insert (go_session_id ?g) ?g (ms_goals (rg_store rg))\<rparr>"
    by (auto simp: save_goal_memory [OF memory])
  have "bt_wf (ms_goals (rg_store rg))" using wf by (simp add: memory_wf_def)
  then have "map_of (ms_goals (rg_store rg')) (go_session_id ?g) = Some ?g"
    by (simp add: store map_of_bt_insert)
  then show ?thesis using g pursuing allowed
    by (auto simp: g' update_goal_audit_def goal_mark_updated_def audit_pending_def)
qed

text \<open>A paused or cleared goal is not left as it is: a call of the tool makes it pursuing again.\<close>

lemma cleared_goal_revived:
  assumes "re_store env = memory_registry_store"
    and "map_of (ms_goals (rg_store rg)) i = Some g" and "go_status g = Cleared"
  shows "\<exists>rg' g'. registry_goal_controller env now i False
      \<lparr>gur_status = Pursuing, gur_summary = None, gur_evidence = None\<rparr> run_id turn_id rg = (rg', Inr g')
    \<and> go_status g' = Pursuing"
  using assms
  by (simp add: registry_goal_controller_def core_eff_def update_goal_status_def and_then_def
      require_goal_memory save_goal_memory is_goal_update_allowed_def Let_def update_goal_audit_def
      goal_mark_updated_def)

text \<open>
  The listener asks for at most one audit at a time: when one is pending, the turn that ends closes it,
  and the agent is not steered again.
\<close>

lemma pending_audit_closed:
  assumes "re_store env = memory_registry_store" and "memory_wf (rg_store rg)"
    and "map_of (ms_goals (rg_store rg)) i = Some g" and "go_session_id g = i"
    and "is_pursuing g" and "audit_pending g"
    and "ev_kind event = TurnCompleted d" and "ev_turn_id event = Some t"
    and "goal_audit_listener env now i event rg = (rg', r)"
  shows "r = Inr () \<and> (\<exists>g'. map_of (ms_goals (rg_store rg')) i = Some g' \<and> \<not> audit_pending g' \<and> is_pursuing g')
    \<and> map_option lv_agent (loaded_session i rg') = map_option lv_agent (loaded_session i rg)"
proof -
  let ?g = "goal_mark_updated now (g\<lparr>go_last_audit := map_option (\<lambda>a. a\<lparr>ga_pending := False\<rparr>) (go_last_audit g)\<rparr>)"
  have id: "go_session_id ?g = i" using assms(4) by (simp add: goal_mark_updated_def)
  have get: "core_eff (in_store (rs_get_goal (re_store env) i)) rg = (rg, Inr (Some g))"
    using assms(1,3) by (simp add: core_eff_def in_store_def zoom_def memory_registry_store_def memory_get_goal_def)
  let ?rg = "rg\<lparr>rg_store := (rg_store rg)\<lparr>ms_goals := bt_insert i ?g (ms_goals (rg_store rg))\<rparr>\<rparr>"
  have saved: "save_audited env i ?g rg = (update_loaded_goal i (Some ?g) ?rg, Inr ())"
    by (simp add: save_audited_def core_eff_def and_then_def save_goal_memory [OF assms(1)] ok_def id)
  from assms(9) have result: "rg' = update_loaded_goal i (Some ?g) ?rg" "r = Inr ()"
    using assms(5-8) saved by (auto simp: goal_audit_listener_def and_then_def get)
  have "map_of (ms_goals (rg_store rg')) i = Some ?g"
    using assms(2) by (simp add: result memory_wf_def map_of_bt_insert)
  moreover have "\<not> audit_pending ?g" by (auto simp: audit_pending_def goal_mark_updated_def split: option.split)
  moreover have "is_pursuing ?g" using assms(5) by (simp add: is_pursuing_def goal_mark_updated_def)
  moreover have "map_option lv_agent (loaded_session i rg') = map_option lv_agent (loaded_session i rg)"
  proof (cases "loaded_session i rg")
    case (Some l)
    with Some show ?thesis
      by (simp add: result update_loaded_goal_def update_session_def loaded_session_def put_session_def)
  qed (simp add: result update_loaded_goal_def update_session_def loaded_session_def)
  ultimately show ?thesis using result(2) by blast
qed

text \<open>
  The controller that the subagent tools of a session use (\<open>RegistrySubagentController\<close> in
  \<open>crates/noloong-agent/src/interaction/registry.rs\<close>), while the registry exists: a session sees its direct
  children only.
\<close>

type_synonym ('s, 'l, 'a) core_registry_eff = "(('s, 'l) registry, agent_core_error, 'a) eff"

definition summary_from_descriptor :: "session_descriptor \<Rightarrow> subagent_summary" where
  "summary_from_descriptor d =
     \<lparr>sas_session_id = sd_session_id d, sas_role = sd_role d, sas_status = session_status_str (sd_status d)\<rparr>"

definition subagent_access_error :: "string \<Rightarrow> string \<Rightarrow> agent_core_error" where
  "subagent_access_error i parent =
     Provider (''subagent `'' @ i @ ''` was not found as a direct child of `'' @ parent @ ''`'')"

definition controller_spawn ::
  "('s, 'l) registry_env \<Rightarrow> nat \<Rightarrow> string \<Rightarrow> string \<Rightarrow> string \<Rightarrow> subagent_spawn_input
   \<Rightarrow> ('s, 'l, subagent_summary) core_registry_eff" where
  "controller_spawn env now uuid uuid' parent_id q =
     and_then (core_eff (get_descriptor env now parent_id)) (\<lambda>found.
     case found of
       None \<Rightarrow> err (Provider (''parent session not found: '' @ parent_id))
     | Some parent \<Rightarrow>
         and_then (core_eff (spawn_subagent env now uuid uuid'
           \<lparr>ssr_parent_session_id = parent_id, ssr_profile_id = Some (sd_profile_id parent),
            ssr_manifest = Some (subagent_manifest_from_parent (sd_manifest parent) (ssi_metadata q)),
            ssr_manifest_patches = [], ssr_role = ssi_role q, ssr_metadata = ssi_metadata q,
            ssr_initial_prompt = Some (user_message (''subagent-initial-'' @ show_nat now) (ssi_prompt q))\<rparr>))
           (\<lambda>d. ok (summary_from_descriptor d)))"

definition subagent_result_for ::
  "('s, 'l) registry_env \<Rightarrow> nat \<Rightarrow> string \<Rightarrow> string \<Rightarrow> ('s, 'l, subagent_result) core_registry_eff" where
  "subagent_result_for env now parent_id i =
     and_then (core_eff (get_descriptor env now i)) (\<lambda>found.
     case found of
       None \<Rightarrow> err (subagent_access_error i parent_id)
     | Some d \<Rightarrow>
         if sd_parent_session_id d \<noteq> Some parent_id then err (subagent_access_error i parent_id)
         else
           (let settled = is_settled (sd_status d)
            in ok \<lparr>sar_summary = summary_from_descriptor d, sar_settled = settled,
                   sar_final_output = (if settled then final_assistant_output (sd_state d) else None)\<rparr>))"

fun subagent_results ::
  "('s, 'l) registry_env \<Rightarrow> nat \<Rightarrow> string \<Rightarrow> string list \<Rightarrow> ('s, 'l, subagent_result list) core_registry_eff" where
  "subagent_results env now parent_id [] = ok []"
| "subagent_results env now parent_id (i # ids) =
     and_then (subagent_result_for env now parent_id i) (\<lambda>r.
     and_then (subagent_results env now parent_id ids) (\<lambda>rs. ok (r # rs)))"

text \<open>
  Waiting looks at the sessions again and again until the deadline. Each poll is what happened to the
  registry before it, or a cancellation; the last poll is the one at which the deadline has passed.
\<close>

fun wait_subagents ::
  "('s, 'l) registry_env \<Rightarrow> nat \<Rightarrow> string \<Rightarrow> string list \<Rightarrow> (('s, 'l) registry \<Rightarrow> ('s, 'l) registry) option list
   \<Rightarrow> ('s, 'l, subagent_wait_outcome) core_registry_eff" where
  "wait_subagents env now parent_id ids [] =
     and_then (subagent_results env now parent_id ids) (\<lambda>rs.
       ok \<lparr>swo_timed_out = (\<not> list_all sar_settled rs), swo_results = rs\<rparr>)"
| "wait_subagents env now parent_id ids (poll # polls) =
     and_then (subagent_results env now parent_id ids) (\<lambda>rs.
       if list_all sar_settled rs then ok \<lparr>swo_timed_out = False, swo_results = rs\<rparr>
       else case poll of
              None \<Rightarrow> err Aborted
            | Some change \<Rightarrow> and_then (modify change) (\<lambda>_. wait_subagents env now parent_id ids polls))"

definition list_subagents ::
  "('s, 'l) registry_env \<Rightarrow> nat \<Rightarrow> string \<Rightarrow> ('s, 'l, subagent_summary list) core_registry_eff" where
  "list_subagents env now parent_id =
     and_then (core_eff (registry_list env now
       (session_list_filter_default\<lparr>slf_parent_session_id := Some parent_id\<rparr>)))
       (\<lambda>ds. ok (map summary_from_descriptor ds))"

definition registry_subagent_controller ::
  "('s, 'l) registry_env \<Rightarrow> nat \<Rightarrow> string \<Rightarrow> string \<Rightarrow> string
   \<Rightarrow> (nat \<Rightarrow> (('s, 'l) registry \<Rightarrow> ('s, 'l) registry) option list) \<Rightarrow> bool \<Rightarrow> ('s, 'l) registry subagent_controller" where
  "registry_subagent_controller env now uuid uuid' parent_id polls cancelled =
     (let guard = (\<lambda>m. if cancelled then err Aborted else m)
      in \<lparr>sc_spawn = (\<lambda>q. if cancelled then err Aborted else controller_spawn env now uuid uuid' parent_id q),
          sc_wait = (\<lambda>ids timeout_ms. if cancelled then err Aborted
            else wait_subagents env now parent_id ids (polls timeout_ms)),
          sc_result = (\<lambda>i. guard (subagent_result_for env now parent_id i)),
          sc_list = (if cancelled then err Aborted else list_subagents env now parent_id)\<rparr>)"

section \<open>Access\<close>

text \<open>A result is given for a direct child only, and an output only when the child is not running.\<close>

lemma subagent_result_for_child:
  assumes "subagent_result_for env now parent_id i rg = (rg', Inr r)"
  shows "\<exists>d. get_descriptor env now i rg = (rg', Inr (Some d)) \<and> sd_parent_session_id d = Some parent_id
    \<and> sar_summary r = summary_from_descriptor d
    \<and> (sar_final_output r \<noteq> None \<longrightarrow> sd_status d \<noteq> SessionRunning)"
  using assms
  by (auto simp: subagent_result_for_def and_then_def core_eff_def err_def ok_def Let_def is_settled_def
      split: prod.splits sum.splits option.splits if_splits)

text \<open>The children a session lists are its own.\<close>

lemma set_bt_insert_values: "set (bt_values (bt_insert k v m)) \<subseteq> insert v (set (bt_values m))"
  by (induction k v m rule: bt_insert.induct) (auto simp: bt_values_def)

lemma normalize_record_parent:
  "normalize_record env now r rg = (rg', Inr r') \<Longrightarrow> sr_parent_session_id r' = sr_parent_session_id r"
  by (auto simp: normalize_record_def and_then_def Let_def ok_def split: prod.splits sum.splits if_splits)

lemma list_stored_children:
  assumes "list_stored env now f rs ds rg = (rg', Inr ds')"
    and "slf_parent_session_id f = Some p"
    and "\<forall>d \<in> set (bt_values ds). sd_parent_session_id d = Some p"
  shows "\<forall>d \<in> set (bt_values ds'). sd_parent_session_id d = Some p"
  using assms
proof (induction rs arbitrary: ds rg)
  case (Cons r rs)
  from Cons.prems(1) obtain rg1 r1 where "normalize_record env now r rg = (rg1, Inr r1)"
    and rest: "list_stored env now f rs (if record_matches_filter r1 f
      then bt_insert (sr_session_id r1) (descriptor_from_record r1) ds else ds) rg1 = (rg', Inr ds')"
    by (auto simp: and_then_def split: prod.splits sum.splits)
  have "\<forall>d \<in> set (bt_values (if record_matches_filter r1 f
      then bt_insert (sr_session_id r1) (descriptor_from_record r1) ds else ds)). sd_parent_session_id d = Some p"
    using Cons.prems(2,3) set_bt_insert_values [of "sr_session_id r1" "descriptor_from_record r1" ds]
    by (auto simp: record_matches_filter_def descriptor_from_record_def)
  from Cons.IH [OF rest Cons.prems(2) this] show ?case .
qed (simp add: ok_def)

lemma list_loaded_children:
  assumes "slf_parent_session_id f = Some p" and "\<forall>d \<in> set (bt_values ds). sd_parent_session_id d = Some p"
  shows "\<forall>d \<in> set (bt_values (list_loaded now f ls ds)). sd_parent_session_id d = Some p"
  using assms(2)
proof (induction ls arbitrary: ds)
  case (Cons l ls)
  let ?ds = "if record_matches_filter (lv_record l) f
    then bt_insert (sd_session_id (live_descriptor now l)) (live_descriptor now l) ds else ds"
  have "\<forall>d \<in> set (bt_values ?ds). sd_parent_session_id d = Some p"
    using Cons.prems assms(1)
      set_bt_insert_values [of "sd_session_id (live_descriptor now l)" "live_descriptor now l" ds]
    by (auto simp: record_matches_filter_def live_descriptor_def descriptor_from_record_def snapshot_record_def)
  from Cons.IH [OF this] show ?case by (simp add: list_loaded_def)
qed (simp add: list_loaded_def)

lemma registry_list_children:
  assumes "registry_list env now f rg = (rg', Inr ds)" and "slf_parent_session_id f = Some p"
  shows "\<forall>d \<in> set ds. sd_parent_session_id d = Some p"
proof -
  from assms(1) obtain rs rg1 ds1 where stored: "list_stored env now f rs [] rg1 = (rg', Inr ds1)"
    and ds: "ds = bt_values (list_loaded now f (bt_values (rg_sessions rg')) ds1)"
    by (auto simp: registry_list_def and_then_def lift_result_def split: prod.splits sum.splits)
  have "\<forall>d \<in> set (bt_values ([] :: session_descriptor smap)). sd_parent_session_id d = Some p"
    by (simp add: bt_values_def)
  from list_loaded_children [OF assms(2) list_stored_children [OF stored assms(2) this]] ds
  show ?thesis by simp
qed

text \<open>A subagent keeps no transient addition of its parent's prompt.\<close>

lemma subagent_manifest_no_transient:
  "a \<in> set (prompt_additions (am_system_prompt (subagent_manifest_from_parent m metadata)))
   \<Longrightarrow> a \<in> set (prompt_additions (am_system_prompt m)) \<and> \<not> prefix TRANSIENT_PROMPT_ADDITION_PREFIX (pa_id a)"
  by (auto simp: subagent_manifest_from_parent_def put_additions_def Let_def split: if_splits)

end
