(* ===== verification/Registry_Automations.thy ===== *)
theory Registry_Automations
  imports Registry_Goals
begin

text \<open>
  Automations in the registry (\<open>crates/noloong-agent/src/interaction/registry.rs\<close>): creating, changing and
  firing them, and one turn of the loop that fires those that are due. The clock is read where the code
  reads it: \<open>now\<close> when an operation starts, \<open>later\<close> when it ends.
\<close>

section \<open>Creating and changing\<close>

record automation_create_request =
  acr_automation_id :: "string option"
  acr_target :: automation_target
  acr_trigger :: automation_trigger
  acr_prompt :: automation_prompt_input
  acr_metadata :: json_map

record automation_update_request =
  aur_automation_id :: string
  aur_status :: "automation_status option"
  aur_target :: "automation_target option"
  aur_trigger :: "automation_trigger option"
  aur_prompt :: "automation_prompt_input option"
  aur_metadata :: "json_map option"

definition next_automation_id :: "string \<Rightarrow> string" where
  "next_automation_id uuid = ''automation-'' @ uuid"

definition require_profile :: "('s, 'l) registry_env \<Rightarrow> string option \<Rightarrow> ('s, 'l, unit) registry_eff" where
  "require_profile env p =
     (let i = (case p of Some i \<Rightarrow> i | None \<Rightarrow> re_default_profile_id env)
      in if bt_contains_key (re_profiles env) i then ok () else err (profile_not_found i))"

fun validate_automation_target ::
  "('s, 'l) registry_env \<Rightarrow> nat \<Rightarrow> automation_target \<Rightarrow> ('s, 'l, unit) registry_eff" where
  "validate_automation_target env now (ExistingSession i) =
     and_then (require_session env now i) (\<lambda>_. ok ())"
| "validate_automation_target env now (NewSession (Some i) p) =
     and_then (get_descriptor env now i) (\<lambda>found. if found \<noteq> None then ok () else require_profile env p)"
| "validate_automation_target env now (NewSession None p) = require_profile env p"

definition create_automation ::
  "('s, 'l) registry_env \<Rightarrow> nat \<Rightarrow> string \<Rightarrow> automation_create_request \<Rightarrow> ('s, 'l, automation_record) registry_eff" where
  "create_automation env now uuid q =
     and_then (lift_result (trigger_validate (acr_trigger q))) (\<lambda>_.
     and_then (validate_automation_target env now (acr_target q)) (\<lambda>_.
     let i = (case acr_automation_id q of
                Some i \<Rightarrow> if is_blank i then next_automation_id uuid else i
              | None \<Rightarrow> next_automation_id uuid)
     in and_then (lift_result (prompt_into_message i (acr_prompt q))) (\<lambda>prompt.
        let a = automation_mark_updated now
              ((automation_new now i (acr_target q) (acr_trigger q) prompt)\<lparr>ar_metadata := acr_metadata q\<rparr>)
        in and_then (in_store (rs_insert_automation (re_store env) a)) (\<lambda>_. ok a))))"

definition get_automation ::
  "('s, 'l) registry_env \<Rightarrow> string \<Rightarrow> ('s, 'l, automation_record option) registry_eff" where
  "get_automation env i = in_store (rs_get_automation (re_store env) i)"

definition require_automation ::
  "('s, 'l) registry_env \<Rightarrow> string \<Rightarrow> ('s, 'l, automation_record) registry_eff" where
  "require_automation env i =
     and_then (get_automation env i) (\<lambda>found.
       case found of None \<Rightarrow> err (missing_automation_error i) | Some a \<Rightarrow> ok a)"

definition insert_automation_by_id :: "automation_record \<Rightarrow> automation_record list \<Rightarrow> automation_record list" where
  "insert_automation_by_id a as =
     takeWhile (\<lambda>b. ar_automation_id b < ar_automation_id a) as @ a
     # dropWhile (\<lambda>b. ar_automation_id b < ar_automation_id a) as"

definition list_automations ::
  "('s, 'l) registry_env \<Rightarrow> automation_status option \<Rightarrow> ('s, 'l, automation_record list) registry_eff" where
  "list_automations env status =
     and_then (in_store (rs_list_automations (re_store env))) (\<lambda>as.
       ok (foldr insert_automation_by_id
         (case status of None \<Rightarrow> as | Some s \<Rightarrow> filter (\<lambda>a. ar_status a = s) as) []))"

definition update_automation ::
  "('s, 'l) registry_env \<Rightarrow> nat \<Rightarrow> automation_update_request \<Rightarrow> ('s, 'l, automation_record) registry_eff" where
  "update_automation env now q =
     and_then (require_automation env (aur_automation_id q)) (\<lambda>a.
     let a = (case aur_status q of Some s \<Rightarrow> a\<lparr>ar_status := s\<rparr> | None \<Rightarrow> a)
     in and_then (case aur_target q of
             Some t \<Rightarrow> and_then (validate_automation_target env now t) (\<lambda>_. ok (a\<lparr>ar_target := t\<rparr>))
           | None \<Rightarrow> ok a) (\<lambda>a.
        and_then (case aur_trigger q of
             Some t \<Rightarrow> and_then (lift_result (trigger_validate t)) (\<lambda>_.
               ok (a\<lparr>ar_next_fire_at_ms := next_fire_after_create t now, ar_trigger := t\<rparr>))
           | None \<Rightarrow> ok a) (\<lambda>a.
        and_then (case aur_prompt q of
             Some p \<Rightarrow> and_then (lift_result (prompt_into_message (ar_automation_id a) p)) (\<lambda>m.
               ok (a\<lparr>ar_prompt := m\<rparr>))
           | None \<Rightarrow> ok a) (\<lambda>a.
        let a = (case aur_metadata q of Some m \<Rightarrow> a\<lparr>ar_metadata := m\<rparr> | None \<Rightarrow> a);
            a = (if ar_status a = Active \<and> ar_next_fire_at_ms a = None
                 then a\<lparr>ar_next_fire_at_ms := next_fire_after_create (ar_trigger a) now\<rparr> else a);
            a = automation_mark_updated now (a\<lparr>ar_last_error := None\<rparr>)
        in and_then (in_store (rs_save_automation (re_store env) a)) (\<lambda>_. ok a)))))"

definition delete_automation ::
  "('s, 'l) registry_env \<Rightarrow> string \<Rightarrow> ('s, 'l, automation_record) registry_eff" where
  "delete_automation env i =
     and_then (require_automation env i) (\<lambda>a.
     and_then (in_store (rs_remove_automation (re_store env) i)) (\<lambda>_. ok a))"

section \<open>Firing\<close>

datatype fire_mode = Manual | Triggered

definition reserve_automation_fire :: "string \<Rightarrow> ('s, 'l, unit) registry_eff" where
  "reserve_automation_fire i rg =
     (if i \<in> rg_firing_automations rg then (rg, Inl (busy_error (''automation is already firing: '' @ i)))
      else (rg\<lparr>rg_firing_automations := insert i (rg_firing_automations rg)\<rparr>, Inr ()))"

definition release_automation_fire :: "string \<Rightarrow> ('s, 'l) registry \<Rightarrow> ('s, 'l) registry" where
  "release_automation_fire i rg = rg\<lparr>rg_firing_automations := rg_firing_automations rg - {i}\<rparr>"

text \<open>A message goes to the agent as a prompt, or is queued when the agent is not ready.\<close>

definition deliver_message ::
  "('s, 'l) registry_env \<Rightarrow> nat \<Rightarrow> string \<Rightarrow> 'l live_session \<Rightarrow> agent_message \<Rightarrow> ('s, 'l, unit) registry_eff" where
  "deliver_message env now i l m =
     (if session_ready_for_direct_prompt (st_status (ai_state (lv_agent l))) then core_prompt env i m
      else
        (let l' = l\<lparr>lv_agent := steer m (lv_agent l)\<rparr>
         in and_then (modify (put_session i l')) (\<lambda>_.
            and_then (save_snapshot env now i l') (\<lambda>_. ok ()))))"

definition automation_create_session_request ::
  "automation_record \<Rightarrow> string option \<Rightarrow> string option \<Rightarrow> session_create_request" where
  "automation_create_session_request a session profile =
     \<lparr>scq_session_id = session, scq_profile_id = profile, scq_manifest = None,
      scq_manifest_patches = [UpsertAddition (prompt_addition_new AUTOMATION_SYSTEM_PROMPT_ADDITION_ID
        (automation_identity_prompt (ar_automation_id a)))],
      scq_parent_session_id = None, scq_role = Some ''automation'',
      scq_metadata = bt_insert ''type'' (JString AUTOMATION_SOURCE_TYPE)
        (bt_insert AUTOMATION_SESSION_METADATA_KEY (automation_session_metadata (ar_automation_id a)) [])\<rparr>"

text \<open>The session of a target that may have to be created; the automation then targets what was created.\<close>

definition automation_target_session ::
  "('s, 'l) registry_env \<Rightarrow> nat \<Rightarrow> string \<Rightarrow> string \<Rightarrow> string option \<Rightarrow> string option \<Rightarrow> automation_record
   \<Rightarrow> ('s, 'l) registry \<Rightarrow> ('s, 'l) registry \<times> automation_record \<times> (interaction_error + string \<times> 'l live_session)" where
  "automation_target_session env now uuid uuid' session profile a rg =
     (case (case session of Some i \<Rightarrow> registry_get env now i rg | None \<Rightarrow> (rg, Inr None)) of
        (rg, Inl e) \<Rightarrow> (rg, a, Inl e)
      | (rg, Inr (Some l)) \<Rightarrow> (rg, a, Inr (the session, l))
      | (rg, Inr None) \<Rightarrow>
          (case create_session env now uuid uuid' (automation_create_session_request a session profile) rg of
             (rg, Inl e) \<Rightarrow> (rg, a, Inl e)
           | (rg, Inr d) \<Rightarrow>
               (let a = a\<lparr>ar_target := NewSession (Some (sd_session_id d)) (Some (sd_profile_id d))\<rparr>
                in case registry_get env now (sd_session_id d) rg of
                     (rg, Inl e) \<Rightarrow> (rg, a, Inl e)
                   | (rg, Inr None) \<Rightarrow> (rg, a, Inl (missing_session_error (sd_session_id d)))
                   | (rg, Inr (Some l)) \<Rightarrow> (rg, a, Inr (sd_session_id d, l)))))"

definition deliver_automation ::
  "('s, 'l) registry_env \<Rightarrow> nat \<Rightarrow> string \<Rightarrow> string \<Rightarrow> automation_record
   \<Rightarrow> ('s, 'l) registry \<Rightarrow> ('s, 'l) registry \<times> automation_record \<times> (interaction_error + unit)" where
  "deliver_automation env fired_at uuid uuid' a rg =
     (case ar_target a of
        ExistingSession i \<Rightarrow>
          (case registry_get env fired_at i rg of
             (rg, Inl e) \<Rightarrow> (rg, a, Inl e)
           | (rg, Inr None) \<Rightarrow> (rg, a, Inl (missing_session_error i))
           | (rg, Inr (Some l)) \<Rightarrow>
               (case deliver_message env fired_at i l
                   (existing_session_automation_message a fired_at (ar_prompt a)) rg of
                  (rg, r) \<Rightarrow> (rg, a, r)))
      | NewSession session profile \<Rightarrow>
          (case automation_target_session env fired_at uuid uuid' session profile a rg of
             (rg, a, Inl e) \<Rightarrow> (rg, a, Inl e)
           | (rg, a, Inr (i, l)) \<Rightarrow>
               (case deliver_message env fired_at i l (automation_message a fired_at (ar_prompt a)) rg of
                  (rg, r) \<Rightarrow> (rg, a, r))))"

definition after_delivery ::
  "fire_mode \<Rightarrow> nat \<Rightarrow> interaction_error + unit \<Rightarrow> automation_record \<Rightarrow> automation_record" where
  "after_delivery mode fired_at r a =
     (case r of
        Inr _ \<Rightarrow>
          (let a = a\<lparr>ar_last_fired_at_ms := Some fired_at, ar_last_error := None\<rparr>
           in if mode = Triggered
              then (let after = trigger_after_fire (ar_trigger a) fired_at
                    in a\<lparr>ar_status := af_status after, ar_next_fire_at_ms := af_next_fire_at_ms after\<rparr>)
              else a)
      | Inl e \<Rightarrow>
          (let a = a\<lparr>ar_last_error := Some (ie_message e)\<rparr>
           in if mode = Triggered then a\<lparr>ar_next_fire_at_ms := retry_after_failure a fired_at\<rparr> else a))"

definition fire_reserved ::
  "('s, 'l) registry_env \<Rightarrow> nat \<Rightarrow> nat \<Rightarrow> string \<Rightarrow> string \<Rightarrow> string \<Rightarrow> fire_mode
   \<Rightarrow> ('s, 'l, automation_record) registry_eff" where
  "fire_reserved env now later uuid uuid' i mode =
     and_then (require_automation env i) (\<lambda>a.
     if ar_status a \<noteq> Active then err (invalid_params (''automation is not active: '' @ i))
     else (\<lambda>rg.
       case deliver_automation env now uuid uuid' a rg of
         (rg, a', r) \<Rightarrow>
           (let a'' = automation_mark_updated later (after_delivery mode now r a')
            in and_then (in_store (rs_save_automation (re_store env) a'')) (\<lambda>_. ok a'') rg)))"

text \<open>The reservation is dropped when the firing ends, with or without an error.\<close>

definition fire_automation_with_reservation ::
  "('s, 'l) registry_env \<Rightarrow> nat \<Rightarrow> nat \<Rightarrow> string \<Rightarrow> string \<Rightarrow> string \<Rightarrow> fire_mode
   \<Rightarrow> ('s, 'l, automation_record) registry_eff" where
  "fire_automation_with_reservation env now later uuid uuid' i mode rg =
     (case fire_reserved env now later uuid uuid' i mode rg of (rg', r) \<Rightarrow> (release_automation_fire i rg', r))"

definition fire_automation_with_mode ::
  "('s, 'l) registry_env \<Rightarrow> nat \<Rightarrow> nat \<Rightarrow> string \<Rightarrow> string \<Rightarrow> string \<Rightarrow> fire_mode
   \<Rightarrow> ('s, 'l, automation_record) registry_eff" where
  "fire_automation_with_mode env now later uuid uuid' i mode =
     and_then (reserve_automation_fire i) (\<lambda>_.
     fire_automation_with_reservation env now later uuid uuid' i mode)"

definition fire_automation ::
  "('s, 'l) registry_env \<Rightarrow> nat \<Rightarrow> nat \<Rightarrow> string \<Rightarrow> string \<Rightarrow> string \<Rightarrow> ('s, 'l, automation_record) registry_eff" where
  "fire_automation env now later uuid uuid' i = fire_automation_with_mode env now later uuid uuid' i Manual"

section \<open>The runner\<close>

text \<open>
  One turn of the loop starts a task for each due automation while there are permits; the tasks run in
  the order of the scan here. The result of a task is dropped. The turn ends with a delay.
\<close>

fun run_due ::
  "('s, 'l) registry_env \<Rightarrow> (string \<Rightarrow> nat \<times> nat \<times> string \<times> string) \<Rightarrow> nat \<Rightarrow> string list
   \<Rightarrow> ('s, 'l) registry \<Rightarrow> ('s, 'l) registry" where
  "run_due env clock permits [] rg = rg"
| "run_due env clock 0 (i # is') rg = rg"
| "run_due env clock (Suc permits) (i # is') rg =
     (case reserve_automation_fire i rg of
        (rg, Inl e) \<Rightarrow> run_due env clock (Suc permits) is' rg
      | (rg, Inr _) \<Rightarrow>
          (let (now, later, uuid, uuid') = clock i
           in run_due env clock permits is'
                (fst (fire_automation_with_reservation env now later uuid uuid' i Triggered rg))))"

definition runner_delay :: "schedule_scan \<Rightarrow> nat \<Rightarrow> nat" where
  "runner_delay scan now =
     (case ss_next_fire_at_ms scan of
        Some fire_at \<Rightarrow> max 10 (min (fire_at - now) 60000)
      | None \<Rightarrow> 60000)"

definition runner_turn ::
  "('s, 'l) registry_env \<Rightarrow> (string \<Rightarrow> nat \<times> nat \<times> string \<times> string) \<Rightarrow> nat \<Rightarrow> nat \<Rightarrow> nat
   \<Rightarrow> ('s, 'l) registry \<Rightarrow> ('s, 'l) registry \<times> nat" where
  "runner_turn env clock permits now later rg =
     (case in_store (rs_scan_automation_schedule (re_store env) now) rg of
        (rg, Inl e) \<Rightarrow> (rg, 1000)
      | (rg, Inr scan) \<Rightarrow> (run_due env clock permits (ss_due_automation_ids scan) rg, runner_delay scan later))"

section \<open>Properties\<close>

lemma runner_delay_bounds: "10 \<le> runner_delay scan now \<and> runner_delay scan now \<le> 60000"
  by (auto simp: runner_delay_def split: option.split)

text \<open>
  What a delivery leaves of an automation that the runner fired: a single firing is over when it was
  delivered and is tried again later when it was not, an interval stays active, and neither is due at the
  time at which it was fired.
\<close>

definition fires_later :: "nat \<Rightarrow> automation_record \<Rightarrow> bool" where
  "fires_later now a \<longleftrightarrow> (\<forall>t. ar_next_fire_at_ms a = Some t \<longrightarrow> now < t)"

fun interval_positive :: "automation_trigger \<Rightarrow> bool" where
  "interval_positive (TimeTrigger (Once _)) = True"
| "interval_positive (TimeTrigger (Interval seconds)) = (0 < seconds)"

lemma after_delivery_not_due:
  assumes "interval_positive (ar_trigger a)" and "now < U64_MAX"
  shows "fires_later now (after_delivery Triggered now r a)"
    and "ar_status (after_delivery Triggered now r a) = (case r of
           Inr _ \<Rightarrow> af_status (trigger_after_fire (ar_trigger a) now) | Inl _ \<Rightarrow> ar_status a)"
proof -
  obtain s where trigger: "ar_trigger a = TimeTrigger s" by (cases "ar_trigger a")
  have later: "now < saturating_add now (saturating_mul n 1000)" if "0 < n" for n
    using assms(2) that by (auto simp: saturating_add_def saturating_mul_def min_def)
  have retry: "now < saturating_add now 60000"
    using assms(2) by (auto simp: saturating_add_def min_def)
  show "fires_later now (after_delivery Triggered now r a)"
    using assms(1) later retry
    by (cases r; cases s) (auto simp: after_delivery_def Let_def fires_later_def trigger retry_after_failure_def)
  show "ar_status (after_delivery Triggered now r a) = (case r of
      Inr _ \<Rightarrow> af_status (trigger_after_fire (ar_trigger a) now) | Inl _ \<Rightarrow> ar_status a)"
    by (cases r) (simp_all add: after_delivery_def Let_def)
qed

text \<open>An automation that is being fired is not fired a second time, and a firing leaves no reservation.\<close>

lemma fire_reserved_busy:
  "i \<in> rg_firing_automations rg \<Longrightarrow> fire_automation_with_mode env now later uuid uuid' i mode rg =
     (rg, Inl (busy_error (''automation is already firing: '' @ i)))"
  by (simp add: fire_automation_with_mode_def reserve_automation_fire_def)

lemma fire_releases:
  "i \<notin> rg_firing_automations (fst (fire_automation_with_reservation env now later uuid uuid' i mode rg))"
  by (simp add: fire_automation_with_reservation_def release_automation_fire_def split: prod.split)

text \<open>What is saved keeps the identifier, the prompt and the trigger.\<close>

lemma automation_target_session_keeps:
  assumes "automation_target_session env now uuid uuid' session profile a rg = (rg', a', r)"
  shows "ar_automation_id a' = ar_automation_id a \<and> ar_trigger a' = ar_trigger a
    \<and> ar_prompt a' = ar_prompt a \<and> ar_status a' = ar_status a"
  using assms
  by (auto simp: automation_target_session_def Let_def split: prod.splits sum.splits option.splits)

lemma deliver_automation_keeps:
  assumes "deliver_automation env now uuid uuid' a rg = (rg', a', r)"
  shows "ar_automation_id a' = ar_automation_id a \<and> ar_trigger a' = ar_trigger a
    \<and> ar_prompt a' = ar_prompt a \<and> ar_status a' = ar_status a"
proof (cases "ar_target a")
  case (ExistingSession i)
  with assms show ?thesis
    by (auto simp: deliver_automation_def split: prod.splits sum.splits option.splits)
next
  case (NewSession session profile)
  obtain rg1 a1 r1 where target:
    "automation_target_session env now uuid uuid' session profile a rg = (rg1, a1, r1)" by (metis prod_cases3)
  with assms NewSession have "a' = a1"
    by (auto simp: deliver_automation_def split: prod.splits sum.splits)
  with automation_target_session_keeps [OF target] show ?thesis by simp
qed

lemma after_delivery_keeps [simp]:
  "ar_automation_id (after_delivery mode now r a) = ar_automation_id a"
  "ar_trigger (after_delivery mode now r a) = ar_trigger a"
  "ar_prompt (after_delivery mode now r a) = ar_prompt a"
  by (simp_all add: after_delivery_def Let_def split: sum.split)

lemma mark_updated_simps [simp]:
  "ar_automation_id (automation_mark_updated now a) = ar_automation_id a"
  "ar_status (automation_mark_updated now a) = ar_status a"
  "ar_trigger (automation_mark_updated now a) = ar_trigger a"
  "ar_next_fire_at_ms (automation_mark_updated now a) = ar_next_fire_at_ms a"
  by (simp_all add: automation_mark_updated_def)

lemma run_loaded_fire:
  assumes "fire_reserved env now later uuid uuid' i mode rg = (rg', Inr a)"
  shows "\<exists>rg1 a0 rg2 a1 r. require_automation env i rg = (rg1, Inr a0) \<and> ar_status a0 = Active
    \<and> deliver_automation env now uuid uuid' a0 rg1 = (rg2, a1, r)
    \<and> a = automation_mark_updated later (after_delivery mode now r a1)
    \<and> in_store (rs_save_automation (re_store env) a) rg2 = (rg', Inr ())"
  using assms
  by (auto simp: fire_reserved_def and_then_def Let_def split: prod.splits sum.splits if_splits)

text \<open>
  A firing ends with what the automation was before its delivery: a change that was made to the stored
  automation while the prompt was running, such as a pause, is overwritten.
\<close>

lemma update_during_delivery_lost:
  assumes "re_store env = memory_registry_store"
    and "require_automation env i rg = (rg1, Inr a0)" and "ar_status a0 = Active"
    and "ar_trigger a0 = TimeTrigger (Interval n)"
    and "deliver_automation env now uuid uuid' a0 rg1 = (rg2, a1, Inr ())"
    and "map_of (ms_automations (rg_store rg2)) (ar_automation_id a0) = Some b" and "ar_status b = AutomationPaused"
  shows "\<exists>rg' a. fire_reserved env now later uuid uuid' i Triggered rg = (rg', Inr a) \<and> ar_status a = Active
    \<and> map_of (ms_automations (rg_store rg')) (ar_automation_id a0) = Some a"
proof -
  from deliver_automation_keeps [OF assms(5)] assms(4)
  have a1: "ar_automation_id a1 = ar_automation_id a0" "ar_trigger a1 = TimeTrigger (Interval n)" by simp_all
  let ?a = "automation_mark_updated later (after_delivery Triggered now (Inr ()) a1)"
  have "in_store (rs_save_automation (re_store env) ?a) rg2 = (rg2\<lparr>rg_store := (rg_store rg2)
      \<lparr>ms_automations := bt_insert (ar_automation_id a0) ?a (ms_automations (rg_store rg2))\<rparr>\<rparr>, Inr ())"
    using assms(6) a1 by (simp add: in_store_def zoom_def assms(1) memory_registry_store_def
        memory_save_automation_def bt_contains_key_def)
  moreover have "ar_status ?a = Active" using a1 by (simp add: after_delivery_def Let_def)
  ultimately show ?thesis using assms(2,3,5) by (simp add: fire_reserved_def and_then_def Let_def ok_def)
qed


section \<open>An instance\<close>

definition sample_session_record :: session_record where
  "sample_session_record =
     \<lparr>sr_schema_version = 1, sr_session_id = ''s'', sr_profile_id = ''p'', sr_parent_session_id = None,
      sr_role = None, sr_run_id_prefix = ''r'', sr_manifest = default_manifest, sr_state = agent_state_default,
      sr_queues = session_queues_default, sr_metadata = [], sr_created_at_ms = 0, sr_updated_at_ms = 0\<rparr>"

definition sample_automation :: automation_record where
  "sample_automation =
     automation_new 0 ''a'' (ExistingSession ''s'') (TimeTrigger (Once 5)) (user_message ''m'' ''go'')"

definition sample_registry :: "(memory_store, unit) registry" where
  "sample_registry =
     \<lparr>rg_store = \<lparr>ms_records = [(''s'', sample_session_record)], ms_goals = [],
        ms_automations = [(''a'', sample_automation)]\<rparr>,
      rg_sessions = [(''s'', \<lparr>lv_record = sample_session_record, lv_manifest = default_manifest,
        lv_active_goal = None, lv_agent = new_agent_inner agent_state_default ()\<rparr>)],
      rg_creating_sessions = {}, rg_firing_automations = {''a''}\<rparr>"

definition sample_registry_env :: "(memory_store, unit) registry_env" where
  "sample_registry_env =
     \<lparr>re_profiles = [], re_default_profile_id = ''p'', re_store = memory_registry_store,
      re_await = (\<lambda>_ rg. rg), re_prompt = (\<lambda>_ _ rg. (rg, Inr ())), re_abort = (\<lambda>_ rg. rg)\<rparr>"

lemmas sample_defs =
  sample_registry_env_def sample_registry_def sample_automation_def automation_new_def
  memory_registry_store_def memory_get_automation_def memory_save_automation_def

lemma sample_fires:
  "\<exists>rg' a. fire_automation_with_reservation sample_registry_env 6 7 ''u'' ''v'' ''a'' Triggered sample_registry = (rg', Inr a)
     \<and> ar_last_error a = None"
  by (simp add: fire_automation_with_reservation_def fire_reserved_def and_then_def require_automation_def
      get_automation_def in_store_def zoom_def sample_defs ok_def deliver_automation_def registry_get_def
      loaded_session_def deliver_message_def session_ready_for_direct_prompt_def new_agent_inner_def
      agent_state_default_def core_prompt_def after_delivery_def Let_def automation_mark_updated_def
      bt_contains_key_def)


end
