(* ===== verification/Rust_Strings.thy ===== *)
theory Rust_Strings
  imports Prelude
begin

text \<open>
  More of Rust's strings, for the modules that cut texts: characters as the units of a valid string,
  counting and cutting by characters, white-space words, lines, and ends trimmed of a set of characters.
\<close>

section \<open>Characters\<close>

text \<open>A list of characters of a valid string: none is empty, and a continuation byte never starts one.\<close>

definition rust_char :: "string \<Rightarrow> bool" where
  "rust_char c = (c \<noteq> [] \<and> \<not> is_continuation (hd c) \<and> (\<forall>x \<in> set (tl c). is_continuation x))"

text \<open>A valid string does not begin inside a character.\<close>

definition rust_str :: "string \<Rightarrow> bool" where
  "rust_str s = (s = [] \<or> \<not> is_continuation (hd s))"

lemma utf8_chars_rust_char: "rust_str s \<Longrightarrow> c \<in> set (utf8_chars s) \<Longrightarrow> rust_char c"
proof (induction s rule: utf8_chars.induct)
  case (2 b bs)
  have "rust_str (dropWhile is_continuation bs)"
    using hd_dropWhile [of is_continuation bs] by (auto simp: rust_str_def)
  note IH = "2.IH" [OF this]
  have "rust_char (b # takeWhile is_continuation bs)"
    using "2.prems"(1) set_takeWhileD [of _ is_continuation bs] by (auto simp: rust_char_def rust_str_def)
  with "2.prems"(2) IH show ?case by auto
qed simp

lemma utf8_chars_Cons_char:
  assumes "rust_char c" and "rust_str s"
  shows "utf8_chars (c @ s) = c # utf8_chars s"
proof -
  obtain b bs where c: "c = b # bs" using assms(1) by (cases c) (auto simp: rust_char_def)
  have all: "\<forall>x \<in> set bs. is_continuation x" using assms(1) by (simp add: rust_char_def c)
  have "takeWhile is_continuation s = []" "dropWhile is_continuation s = s"
    using assms(2) by (cases s; simp add: rust_str_def)+
  then have "takeWhile is_continuation (bs @ s) = bs" "dropWhile is_continuation (bs @ s) = s"
    using all by (simp_all add: takeWhile_append2 dropWhile_append2)
  then show ?thesis by (simp add: c)
qed

lemma rust_str_concat: "\<forall>c \<in> set cs. rust_char c \<Longrightarrow> rust_str (concat cs)"
  by (cases cs) (auto simp: rust_str_def rust_char_def hd_append)

lemma utf8_chars_concat: "\<forall>c \<in> set cs. rust_char c \<Longrightarrow> utf8_chars (concat cs) = cs"
  by (induction cs) (simp_all add: utf8_chars_Cons_char rust_str_concat)

lemma utf8_chars_append:
  assumes "rust_str s" and "rust_str t"
  shows "utf8_chars (s @ t) = utf8_chars s @ utf8_chars t"
proof -
  have "\<forall>c \<in> set (utf8_chars s @ utf8_chars t). rust_char c"
    using assms utf8_chars_rust_char by auto
  from utf8_chars_concat [OF this] show ?thesis by simp
qed

lemma rust_str_append: "rust_str s \<Longrightarrow> rust_str t \<Longrightarrow> rust_str (s @ t)"
  by (auto simp: rust_str_def hd_append)

lemma rust_char_str: "rust_char c \<Longrightarrow> rust_str c"
  by (simp add: rust_char_def rust_str_def)

text \<open>\<open>s.chars().count()\<close>.\<close>

definition char_count :: "string \<Rightarrow> nat" where
  "char_count s = length (utf8_chars s)"

lemma char_count_Nil [simp]: "char_count [] = 0"
  by (simp add: char_count_def)

lemma char_count_0_iff [simp]: "char_count s = 0 \<longleftrightarrow> s = []"
  by (simp add: char_count_def)

lemma char_count_append: "rust_str s \<Longrightarrow> rust_str t \<Longrightarrow> char_count (s @ t) = char_count s + char_count t"
  by (simp add: char_count_def utf8_chars_append)

lemma ascii_not_continuation: "(of_char c :: nat) < 128 \<Longrightarrow> \<not> is_continuation c"
  by (simp add: is_continuation_def)

lemma utf8_chars_ascii:
  "\<forall>c \<in> set s. \<not> is_continuation c \<Longrightarrow> utf8_chars s = map (\<lambda>c. [c]) s"
proof (induction s)
  case (Cons c s)
  then have "takeWhile is_continuation s = []" "dropWhile is_continuation s = s"
    by (cases s; simp)+
  with Cons show ?case by simp
qed simp

lemma char_count_ascii: "\<forall>c \<in> set s. \<not> is_continuation c \<Longrightarrow> char_count s = length s"
  by (simp add: char_count_def utf8_chars_ascii)

lemma show_nat_ascii: "c \<in> set (show_nat n) \<Longrightarrow> \<not> is_continuation c"
  using show_nat_digits [of c n] by (auto simp: is_ascii_digit_def is_continuation_def)

section \<open>Words, lines and trimmed ends\<close>

text \<open>\<open>str::split_whitespace\<close>, on the characters.\<close>

fun words_from :: "string \<Rightarrow> string list \<Rightarrow> string list" where
  "words_from w [] = (if w = [] then [] else [w])"
| "words_from w (c # cs) =
     (if c \<in> set utf8_white_space
      then (if w = [] then words_from [] cs else w # words_from [] cs)
      else words_from (w @ c) cs)"

definition split_whitespace :: "string \<Rightarrow> string list" where
  "split_whitespace s = words_from [] (utf8_chars s)"

text \<open>\<open>str::lines\<close>: the parts between line feeds, without one carriage return at the end, and no last
  empty part.\<close>

definition strip_cr :: "string \<Rightarrow> string" where
  "strip_cr l = (if l \<noteq> [] \<and> List.last l = CHR 0x0D then butlast l else l)"

definition str_lines :: "string \<Rightarrow> string list" where
  "str_lines s =
     (let parts = split_on (CHR 0x0A) s;
          terminated = butlast parts;
          rest = List.last parts
      in map strip_cr terminated @ (if rest = [] then [] else [rest]))"

text \<open>\<open>str::trim_matches\<close> and \<open>str::trim_start_matches\<close> with a predicate on ASCII characters.\<close>

definition trim_start_by :: "(char \<Rightarrow> bool) \<Rightarrow> string \<Rightarrow> string" where
  "trim_start_by P s = dropWhile P s"

definition trim_by :: "(char \<Rightarrow> bool) \<Rightarrow> string \<Rightarrow> string" where
  "trim_by P s = rev (dropWhile P (rev (dropWhile P s)))"

text \<open>\<open>char::is_ascii_punctuation\<close>.\<close>

definition is_ascii_punctuation :: "char \<Rightarrow> bool" where
  "is_ascii_punctuation c =
     (let n = (of_char c :: nat)
      in (33 \<le> n \<and> n \<le> 47) \<or> (58 \<le> n \<and> n \<le> 64) \<or> (91 \<le> n \<and> n \<le> 96) \<or> (123 \<le> n \<and> n \<le> 126))"

text \<open>A one-byte pattern in \<open>str::matches(..).count()\<close>.\<close>

definition count_char :: "char \<Rightarrow> string \<Rightarrow> nat" where
  "count_char c s = length (filter (\<lambda>x. x = c) s)"

section \<open>Signed numbers\<close>

text \<open>\<open>i64\<close>: its decimal text and \<open>str::parse\<close>, an optional sign and digits in range.\<close>

definition i64_range :: "int set" where
  "i64_range = {- (2 ^ 63) ..< 2 ^ 63}"

definition show_int :: "int \<Rightarrow> string" where
  "show_int i = (if i < 0 then CHR ''-'' # show_nat (nat (- i)) else show_nat (nat i))"

definition parse_i64 :: "string \<Rightarrow> int option" where
  "parse_i64 s =
     (let negative = prefix ''-'' s;
          digits = (case s of c # cs \<Rightarrow> if c = CHR ''-'' \<or> c = CHR ''+'' then cs else s | [] \<Rightarrow> []);
          i = (if negative then - int (read_digits digits) else int (read_digits digits))
      in if digits \<noteq> [] \<and> list_all is_ascii_digit digits \<and> i \<in> i64_range then Some i else None)"

lemma parse_digits:
  assumes "digits \<noteq> []" and "list_all is_ascii_digit digits"
  shows "parse_i64 digits = (if int (read_digits digits) \<in> i64_range then Some (int (read_digits digits)) else None)"
    and "parse_i64 (CHR ''-'' # digits) =
      (if - int (read_digits digits) \<in> i64_range then Some (- int (read_digits digits)) else None)"
proof -
  obtain c cs where d: "digits = c # cs" using assms(1) by (cases digits) auto
  have "c \<noteq> CHR ''-''" "c \<noteq> CHR ''+''" using assms(2) by (auto simp: d is_ascii_digit_def)
  then show "parse_i64 digits = (if int (read_digits digits) \<in> i64_range then Some (int (read_digits digits)) else None)"
    using assms by (simp add: parse_i64_def d)
qed (use assms in \<open>simp add: parse_i64_def\<close>)

lemma parse_show_int: "i \<in> i64_range \<Longrightarrow> parse_i64 (show_int i) = Some i"
  using parse_digits [OF show_nat_not_Nil] show_nat_digits
  by (auto simp: show_int_def list_all_iff)

lemma show_int_chars: "c \<in> set (show_int i) \<Longrightarrow> is_ascii_digit c \<or> c = CHR ''-''"
  by (auto simp: show_int_def dest: show_nat_digits split: if_splits)

section \<open>Tables of pipes\<close>

text \<open>Both channels rewrite the tables of a markdown text, each with its own separator of the cells.\<close>

definition is_pipe_row :: "string \<Rightarrow> bool" where
  "is_pipe_row line =
     (let trimmed = trim line
      in trimmed \<noteq> [] \<and> hd trimmed = CHR ''|'' \<and> List.last trimmed = CHR ''|'' \<and> 2 \<le> count_char (CHR ''|'') trimmed)"

definition split_pipe_row :: "string \<Rightarrow> string list" where
  "split_pipe_row line =
     filter (\<lambda>cell. cell \<noteq> []) (map trim (split_on (CHR ''|'') (trim_by (\<lambda>c. c = CHR ''|'') (trim line))))"

definition is_separator :: "string \<Rightarrow> bool" where
  "is_separator line =
     list_all (list_all (\<lambda>c. c \<in> {CHR ''-'', CHR '':'', CHR '' ''})) (split_pipe_row line)"

definition table_item :: "string \<Rightarrow> string list \<Rightarrow> string \<Rightarrow> string" where
  "table_item sep headers row =
     ''- '' @ join_with sep (map (\<lambda>(h, c). h @ '': '' @ c) (zip headers (split_pipe_row row)))"

function rewrite_table_lines :: "string \<Rightarrow> string list \<Rightarrow> string list" where
  "rewrite_table_lines sep [] = []"
| "rewrite_table_lines sep [l] = [l]"
| "rewrite_table_lines sep (l # m # ls) =
     (if is_pipe_row l \<and> is_separator m
      then map (table_item sep (split_pipe_row l)) (takeWhile is_pipe_row ls)
           @ rewrite_table_lines sep (dropWhile is_pipe_row ls)
      else l # rewrite_table_lines sep (m # ls))"
  by pat_completeness auto
termination
  by (relation "measure (\<lambda>(sep, ls). length ls)") (auto simp: less_Suc_eq_le le_SucI length_dropWhile_le)

definition rewrite_pipe_tables :: "string \<Rightarrow> string \<Rightarrow> string" where
  "rewrite_pipe_tables sep s = join_with [CHR 0x0A] (rewrite_table_lines sep (str_lines s))"

text \<open>A line without cells passes for a separator: a row of pipes before an empty line is dropped.\<close>

lemma row_before_empty_line_lost: "rewrite_pipe_tables '', '' (''|a|b|'' @ [CHR 0x0A, CHR 0x0A] @ ''c'') = ''c''"
  by code_simp

end
