(* ===== verification/Telegram_Text.thy ===== *)
theory Telegram_Text
  imports Rust_Strings
begin

text \<open>
  Cutting the texts of the Telegram channel (\<open>crates/noloong-agent-telegram/src/text.rs\<close>): messages within
  the limit of the service, which counts UTF-16 units, and shortened labels.
\<close>

section \<open>Units\<close>

definition DEFAULT_TELEGRAM_TEXT_LIMIT_UTF16_UNITS :: nat where
  "DEFAULT_TELEGRAM_TEXT_LIMIT_UTF16_UNITS = 3900"

text \<open>\<open>char::len_utf16\<close>: the characters beyond the basic plane are those of four bytes.\<close>

definition len_utf16 :: "string \<Rightarrow> nat" where
  "len_utf16 c = (if length c = 4 then 2 else 1)"

definition chars_units :: "string list \<Rightarrow> nat" where
  "chars_units cs = sum_list (map len_utf16 cs)"

definition telegram_utf16_units :: "string \<Rightarrow> nat" where
  "telegram_utf16_units s = chars_units (utf8_chars s)"

lemma len_utf16_bounds: "1 \<le> len_utf16 c \<and> len_utf16 c \<le> 2"
  by (simp add: len_utf16_def)

lemma units_append:
  "rust_str s \<Longrightarrow> rust_str t \<Longrightarrow> telegram_utf16_units (s @ t) = telegram_utf16_units s + telegram_utf16_units t"
  by (simp add: telegram_utf16_units_def chars_units_def utf8_chars_append)

lemma units_char: "rust_char c \<Longrightarrow> telegram_utf16_units c = len_utf16 c"
  using utf8_chars_concat [of "[c]"] by (simp add: telegram_utf16_units_def chars_units_def)

lemma units_Nil [simp]: "telegram_utf16_units [] = 0"
  by (simp add: telegram_utf16_units_def chars_units_def)

section \<open>Labels\<close>

text \<open>\<open>char_boundary_after\<close> and \<open>char_boundary_from_end\<close> as the characters they cut off.\<close>

definition chars_before :: "string \<Rightarrow> nat \<Rightarrow> string" where
  "chars_before s n = concat (take n (utf8_chars s))"

definition chars_at_end :: "string \<Rightarrow> nat \<Rightarrow> string" where
  "chars_at_end s n = concat (drop (char_count s - n) (utf8_chars s))"

definition truncate_end_chars :: "string \<Rightarrow> nat \<Rightarrow> string" where
  "truncate_end_chars s max_chars =
     (if max_chars = 0 then []
      else if char_count s \<le> max_chars then s
      else if max_chars \<le> 3 then replicate max_chars (CHR ''.'')
      else chars_before s (max_chars - 3) @ ''...'')"

definition middle_separator :: string where
  "middle_separator = '' ... ''"

definition truncate_middle_chars :: "string \<Rightarrow> nat \<Rightarrow> string" where
  "truncate_middle_chars s max_chars =
     (if char_count s \<le> max_chars then s
      else if max_chars \<le> 5 then truncate_end_chars s max_chars
      else let keep = max_chars - char_count middle_separator; head = keep div 2; tail = keep - head
           in chars_before s head @ middle_separator @ chars_at_end s tail)"

definition truncate_string_to_chars :: "string \<Rightarrow> nat \<Rightarrow> string" where
  "truncate_string_to_chars s max_chars = chars_before s max_chars"

text \<open>The loop of \<open>whitespace_prefix_summary\<close>: the summary and its length so far.\<close>

fun summary_words :: "nat \<Rightarrow> string \<Rightarrow> nat \<Rightarrow> string list \<Rightarrow> string" where
  "summary_words max_chars summary chars [] = summary"
| "summary_words max_chars summary chars (w # ws) =
     (let sep = (if summary = [] then 0 else 1)
      in if chars + sep + char_count w \<le> max_chars
         then summary_words max_chars (summary @ replicate sep (CHR '' '') @ w) (chars + sep + char_count w) ws
         else let spaced = sep = 1 \<and> chars < max_chars;
                  summary = (if spaced then summary @ '' '' else summary);
                  chars = (if spaced then chars + 1 else chars)
              in summary @ chars_before w (max_chars - chars) @ ''...'')"

definition whitespace_prefix_summary :: "string \<Rightarrow> nat \<Rightarrow> string" where
  "whitespace_prefix_summary s max_chars =
     (if max_chars = 0 then [] else summary_words max_chars [] 0 (split_whitespace s))"

lemma char_count_chars_before:
  assumes "rust_str s"
  shows "char_count (chars_before s n) = min n (char_count s)" and "rust_str (chars_before s n)"
proof -
  have "\<forall>c \<in> set (take n (utf8_chars s)). rust_char c"
    using utf8_chars_rust_char [OF assms] by (auto dest: in_set_takeD)
  from utf8_chars_concat [OF this] rust_str_concat [OF this]
  show "char_count (chars_before s n) = min n (char_count s)" and "rust_str (chars_before s n)"
    by (simp_all add: chars_before_def char_count_def)
qed

lemma char_count_chars_at_end:
  assumes "rust_str s"
  shows "char_count (chars_at_end s n) = min n (char_count s)" and "rust_str (chars_at_end s n)"
proof -
  have "\<forall>c \<in> set (drop (char_count s - n) (utf8_chars s)). rust_char c"
    using utf8_chars_rust_char [OF assms] by (auto dest: in_set_dropD)
  from utf8_chars_concat [OF this] rust_str_concat [OF this]
  show "char_count (chars_at_end s n) = min n (char_count s)" and "rust_str (chars_at_end s n)"
    by (auto simp: chars_at_end_def char_count_def)
qed

lemma count_dots: "char_count (replicate n (CHR ''.'')) = n"
  by (simp add: char_count_ascii is_continuation_def)

lemma dots: "char_count ''...'' = 3" "char_count middle_separator = 5"
  by (simp_all add: middle_separator_def char_count_ascii is_continuation_def)

lemma dots_str: "rust_str ''...''" "rust_str middle_separator"
  by (simp_all add: middle_separator_def rust_str_def is_continuation_def)

lemma truncate_end_chars_bound:
  "rust_str s \<Longrightarrow> char_count (truncate_end_chars s n) \<le> n"
  by (simp add: truncate_end_chars_def count_dots char_count_append char_count_chars_before dots dots_str)

lemma truncate_middle_chars_bound:
  assumes "rust_str s"
  shows "char_count (truncate_middle_chars s n) \<le> n"
  using assms truncate_end_chars_bound [OF assms, of n]
  by (simp add: truncate_middle_chars_def Let_def char_count_append rust_str_append char_count_chars_before
      char_count_chars_at_end dots dots_str)

section \<open>Messages within the limit\<close>

text \<open>\<open>str::split_inclusive\<close> at line feeds, on the characters.\<close>

fun lines_inclusive :: "string list \<Rightarrow> string list list" where
  "lines_inclusive [] = []"
| "lines_inclusive (c # cs) =
     (if c = [CHR 0x0A] then [c] # lines_inclusive cs
      else case lines_inclusive cs of [] \<Rightarrow> [[c]] | l # ls \<Rightarrow> (c # l) # ls)"

text \<open>The message being filled, its units, and the messages that are done.\<close>

record split_state =
  ss_current :: string
  ss_units :: nat
  ss_messages :: "string list"

definition split_flush :: "split_state \<Rightarrow> split_state" where
  "split_flush st = \<lparr>ss_current = [], ss_units = 0, ss_messages = ss_messages st @ [ss_current st]\<rparr>"

fun push_chars :: "nat \<Rightarrow> string list \<Rightarrow> split_state \<Rightarrow> split_state" where
  "push_chars max_units [] st = st"
| "push_chars max_units (c # cs) st =
     (let st = (if ss_units st + len_utf16 c > max_units \<and> ss_current st \<noteq> [] then split_flush st else st)
      in push_chars max_units cs
           (st\<lparr>ss_current := ss_current st @ c, ss_units := ss_units st + len_utf16 c\<rparr>))"

definition push_line_with_limit :: "nat \<Rightarrow> string list \<Rightarrow> split_state \<Rightarrow> split_state" where
  "push_line_with_limit max_units line st =
     (if chars_units line \<le> max_units
      then st\<lparr>ss_current := ss_current st @ concat line, ss_units := ss_units st + chars_units line\<rparr>
      else push_chars max_units line st)"

fun split_lines :: "nat \<Rightarrow> string list list \<Rightarrow> split_state \<Rightarrow> split_state" where
  "split_lines max_units [] st = st"
| "split_lines max_units (line # ls) st =
     (let st = (if ss_units st + chars_units line > max_units \<and> ss_current st \<noteq> [] then split_flush st else st)
      in split_lines max_units ls (push_line_with_limit max_units line st))"

definition split_telegram_text :: "string \<Rightarrow> nat \<Rightarrow> string list" where
  "split_telegram_text s max_units =
     (if s = [] then []
      else let st = split_lines (max max_units 1) (lines_inclusive (utf8_chars s))
                      \<lparr>ss_current = [], ss_units = 0, ss_messages = []\<rparr>
           in if ss_current st \<noteq> [] then ss_messages st @ [ss_current st] else ss_messages st)"

definition continuation_marker :: "nat \<Rightarrow> string" where
  "continuation_marker n = ''['' @ show_nat n @ ''/'' @ show_nat n @ '']'' @ [CHR 0x0A]"

text \<open>The eight rounds that look for a limit that leaves room for the marker.\<close>

fun continuation_rounds :: "nat \<Rightarrow> string \<Rightarrow> nat \<Rightarrow> nat \<Rightarrow> string list \<Rightarrow> nat \<times> string list" where
  "continuation_rounds 0 s max_units body_limit chunks = (body_limit, chunks)"
| "continuation_rounds (Suc n) s max_units body_limit chunks =
     (let next_limit = max (max_units - telegram_utf16_units (continuation_marker (length chunks))) 1
      in if next_limit = body_limit then (body_limit, chunks)
         else continuation_rounds n s max_units next_limit (split_telegram_text s next_limit))"

definition numbered_marker :: "nat \<Rightarrow> nat \<Rightarrow> string" where
  "numbered_marker i n = ''['' @ show_nat i @ ''/'' @ show_nat n @ '']'' @ [CHR 0x0A]"

definition number_chunks :: "string list \<Rightarrow> string list" where
  "number_chunks chunks =
     map (\<lambda>(i, c). numbered_marker (i + 1) (length chunks) @ c) (List.enumerate 0 chunks)"

definition split_telegram_text_with_continuation :: "string \<Rightarrow> nat \<Rightarrow> string list" where
  "split_telegram_text_with_continuation s max_units =
     (let max_units = max max_units 1;
          chunks = split_telegram_text s max_units
      in if length chunks \<le> 1 then chunks
         else number_chunks (snd (continuation_rounds 8 s max_units max_units chunks)))"

section \<open>Nothing is lost, and the limit holds\<close>

text \<open>
  The invariant of the loops, for a limit \<open>m\<close> of at least two units: what is written and the current
  message are the characters read so far, the units are counted, and no message exceeds the limit.
\<close>

definition split_inv :: "nat \<Rightarrow> string \<Rightarrow> split_state \<Rightarrow> bool" where
  "split_inv m s st =
     (concat (ss_messages st) @ ss_current st = s
      \<and> rust_str (ss_current st) \<and> ss_units st = telegram_utf16_units (ss_current st)
      \<and> telegram_utf16_units (ss_current st) \<le> m
      \<and> (\<forall>c \<in> set (ss_messages st). c \<noteq> [] \<and> telegram_utf16_units c \<le> m))"

lemma split_inv_flush:
  "split_inv m s st \<Longrightarrow> ss_current st \<noteq> [] \<Longrightarrow> split_inv m s (split_flush st)"
  by (auto simp: split_inv_def split_flush_def rust_str_def)

lemma split_inv_push:
  assumes "split_inv m s st" and "rust_str t" and "ss_units st + telegram_utf16_units t \<le> m"
  shows "split_inv m (s @ t)
    (st\<lparr>ss_current := ss_current st @ t, ss_units := ss_units st + telegram_utf16_units t\<rparr>)"
  using assms by (auto simp: split_inv_def units_append rust_str_append)

lemma push_chars_inv:
  assumes "2 \<le> m" and "\<forall>c \<in> set cs. rust_char c" and "split_inv m s st"
  shows "split_inv m (s @ concat cs) (push_chars m cs st)"
  using assms(2,3)
proof (induction cs arbitrary: s st)
  case (Cons c cs)
  let ?st = "if ss_units st + len_utf16 c > m \<and> ss_current st \<noteq> [] then split_flush st else st"
  have inv: "split_inv m s ?st" using Cons.prems(2) split_inv_flush by auto
  have "ss_units ?st + len_utf16 c \<le> m"
    using Cons.prems(2) assms(1) len_utf16_bounds [of c]
    by (auto simp: split_flush_def split_inv_def)
  with split_inv_push [OF inv rust_char_str, of c] Cons.prems(1)
  have "split_inv m (s @ c) (?st\<lparr>ss_current := ss_current ?st @ c, ss_units := ss_units ?st + len_utf16 c\<rparr>)"
    by (simp add: units_char)
  from Cons.IH [OF _ this] Cons.prems(1) show ?case by (simp add: Let_def)
qed simp

lemma units_concat:
  assumes "\<forall>c \<in> set cs. rust_char c"
  shows "telegram_utf16_units (concat cs) = chars_units cs" and "rust_str (concat cs)"
  using utf8_chars_concat [OF assms] rust_str_concat [OF assms]
  by (simp_all add: telegram_utf16_units_def)

lemma push_line_inv:
  assumes "2 \<le> m" and "\<forall>c \<in> set line. rust_char c" and "split_inv m s st"
    and "ss_current st \<noteq> [] \<longrightarrow> ss_units st + chars_units line \<le> m"
  shows "split_inv m (s @ concat line) (push_line_with_limit m line st)"
proof (cases "chars_units line \<le> m")
  case True
  have "ss_units st + telegram_utf16_units (concat line) \<le> m"
    using assms(3,4) True units_concat(1) [OF assms(2)] by (cases "ss_current st = []") (auto simp: split_inv_def)
  from split_inv_push [OF assms(3) units_concat(2) [OF assms(2)] this] True show ?thesis
    by (simp add: push_line_with_limit_def units_concat(1) [OF assms(2)])
next
  case False
  with push_chars_inv [OF assms(1-3)] show ?thesis by (simp add: push_line_with_limit_def)
qed

lemma split_lines_inv:
  assumes "2 \<le> m" and "\<forall>l \<in> set ls. \<forall>c \<in> set l. rust_char c" and "split_inv m s st"
  shows "split_inv m (s @ concat (concat ls)) (split_lines m ls st)"
  using assms(2,3)
proof (induction ls arbitrary: s st)
  case (Cons l ls)
  let ?st = "if ss_units st + chars_units l > m \<and> ss_current st \<noteq> [] then split_flush st else st"
  have inv: "split_inv m s ?st" using Cons.prems(2) split_inv_flush by auto
  have "ss_current ?st \<noteq> [] \<longrightarrow> ss_units ?st + chars_units l \<le> m" by (auto simp: split_flush_def)
  from push_line_inv [OF assms(1) _ inv this] Cons.prems(1)
  have "split_inv m (s @ concat l) (push_line_with_limit m l ?st)" by simp
  from Cons.IH [OF _ this] Cons.prems(1) show ?case by (simp add: Let_def)
qed simp

lemma concat_lines_inclusive [simp]: "concat (lines_inclusive cs) = cs"
proof (induction cs)
  case (Cons c cs)
  then show ?case by (cases "lines_inclusive cs") auto
qed simp

text \<open>C38: Cutting a text for Telegram loses nothing and respects the limit: the messages, put together, are the text, none is empty, and for a limit of at least two units (no character has more) none has more units than the limit allows.\<close>
theorem split_telegram_text_complete:
  assumes "rust_str s" and "2 \<le> max_units"
  shows "concat (split_telegram_text s max_units) = s
    \<and> (\<forall>c \<in> set (split_telegram_text s max_units). c \<noteq> [] \<and> telegram_utf16_units c \<le> max_units)"
proof (cases "s = []")
  case False
  let ?start = "\<lparr>ss_current = [], ss_units = 0, ss_messages = []\<rparr>"
  let ?st = "split_lines max_units (lines_inclusive (utf8_chars s)) ?start"
  have start: "split_inv max_units [] ?start" by (simp add: split_inv_def rust_str_def)
  have "set (concat (lines_inclusive (utf8_chars s))) = set (utf8_chars s)" by simp
  then have "\<forall>l \<in> set (lines_inclusive (utf8_chars s)). \<forall>c \<in> set l. rust_char c"
    using utf8_chars_rust_char [OF assms(1)] by (metis UN_I set_concat)
  from split_lines_inv [OF assms(2) this start] have "split_inv max_units s ?st" by simp
  moreover have "max max_units 1 = max_units" using assms(2) by simp
  ultimately show ?thesis using False by (auto simp: split_telegram_text_def split_inv_def Let_def)
qed (simp add: split_telegram_text_def)

lemma split_telegram_text_complete_witness:
  "concat (split_telegram_text ''ab cd'' 4) = ''ab cd''
   \<and> list_all (\<lambda>c. c \<noteq> [] \<and> telegram_utf16_units c \<le> 4) (split_telegram_text ''ab cd'' 4)"
proof -
  have "rust_str ''ab cd''" by code_simp
  from split_telegram_text_complete [OF this, of 4] show ?thesis by (simp add: list_all_iff)
qed

text \<open>With markers, the bodies are still a cut of the whole text, for some limit up to the given one.\<close>

lemma continuation_rounds_split:
  assumes "chunks = split_telegram_text s l" and "1 \<le> l" and "l \<le> m" and "1 \<le> m"
  shows "\<exists>l'. continuation_rounds n s m l chunks = (l', split_telegram_text s l') \<and> 1 \<le> l' \<and> l' \<le> m"
  using assms
proof (induction n arbitrary: l chunks)
  case (Suc n)
  let ?l = "max (m - telegram_utf16_units (continuation_marker (length chunks))) 1"
  have "1 \<le> ?l \<and> ?l \<le> m" using Suc.prems by simp
  then show ?case using Suc.IH [OF refl, of ?l] Suc.prems by (auto simp: Let_def simp del: max.bounded_iff)
qed auto

lemma split_with_continuation_bodies:
  assumes "2 \<le> max_units"
  shows "\<exists>l. 1 \<le> l \<and> l \<le> max_units
    \<and> split_telegram_text_with_continuation s max_units \<in>
        {split_telegram_text s max_units, number_chunks (split_telegram_text s l)}"
proof -
  obtain l where "1 \<le> l" "l \<le> max_units"
    and "continuation_rounds 8 s max_units max_units (split_telegram_text s max_units) = (l, split_telegram_text s l)"
    using continuation_rounds_split [OF refl, of max_units max_units 8 s] assms by auto
  moreover have "max max_units 1 = max_units" using assms by simp
  ultimately show ?thesis
    by (intro exI [of _ l]) (simp add: split_telegram_text_with_continuation_def Let_def)
qed

end
