(* ===== verification/Runtime_Builder.thy ===== *)
theory Runtime_Builder
  imports Providers Plugin
begin

text \<open>
  Building a runtime (\<open>crates/noloong-agent-core/src/runtime/builder.rs\<close>): the registrations, the
  capabilities of an extension process (\<open>types/extension.rs\<close>), and \<open>build\<close>. What a registered
  object does is a parameter, as in \<open>Providers\<close>; a model provider comes with its model name and a
  phase hook with its id, which only the builder reads.
\<close>

section \<open>Capabilities of an extension\<close>

datatype extension_capability =
    ModelProviderCap string
  | ToolCap tool_spec
  | ContextProviderCap string
  | PhaseNodeCap string
  | PhaseHookCap string
  | ToolCallHookCap string
  | CompactionSummarizerCap string
  | ContextCompactorCap string
  | HttpAuthProviderCap string

fun capability_selector_of :: "extension_capability \<Rightarrow> capability_selector" where
  "capability_selector_of (ModelProviderCap i) = ModelProviderSel i"
| "capability_selector_of (ToolCap spec) = ToolSel (ts_name spec)"
| "capability_selector_of (ContextProviderCap i) = ContextProviderSel i"
| "capability_selector_of (PhaseNodeCap i) = PhaseNodeSel i"
| "capability_selector_of (PhaseHookCap i) = PhaseHookSel i"
| "capability_selector_of (ToolCallHookCap i) = ToolCallHookSel i"
| "capability_selector_of (CompactionSummarizerCap i) = CompactionSummarizerSel i"
| "capability_selector_of (ContextCompactorCap i) = ContextCompactorSel i"
| "capability_selector_of (HttpAuthProviderCap i) = HttpAuthProviderSel i"

definition selector_matches :: "extension_capability \<Rightarrow> capability_selector \<Rightarrow> bool" where
  "selector_matches c s = (s = capability_selector_of c)"

definition filter_extension_capabilities ::
  "extension_capability list \<Rightarrow> capability_selector set option \<Rightarrow> extension_capability list" where
  "filter_extension_capabilities cs allowed =
     (case allowed of None \<Rightarrow> cs | Some sel \<Rightarrow> filter (\<lambda>c. \<exists>s \<in> sel. selector_matches c s) cs)"

section \<open>Compaction\<close>

text \<open>\<open>SummaryContextCompactor\<close>: a summarizer as a compactor.\<close>

record compaction_summary_request =
  csr_run_id :: string
  csr_turn_id :: nat
  csr_previous_summary :: "string option"
  csr_messages_to_summarize :: "agent_message list"
  csr_turn_prefix_messages :: "agent_message list"
  csr_token_budget :: nat
  csr_metadata :: json_map

definition into_summary_request :: "context_compaction_request \<Rightarrow> compaction_summary_request" where
  "into_summary_request r =
     \<lparr>csr_run_id = ccr_run_id r, csr_turn_id = ccr_turn_id r, csr_previous_summary = ccr_previous_summary r,
      csr_messages_to_summarize = ccr_messages_to_summarize r,
      csr_turn_prefix_messages = ccr_turn_prefix_messages r,
      csr_token_budget = ccr_token_budget r, csr_metadata = ccr_metadata r\<rparr>"

type_synonym 'w summarizer = "compaction_summary_request \<Rightarrow> ('w, agent_core_error, string \<times> json_map) eff"

type_synonym 'w compactor = "context_compaction_request \<Rightarrow> ('w, agent_core_error, context_compaction_output) eff"

definition summary_compact :: "'w summarizer \<Rightarrow> 'w compactor" where
  "summary_compact summarize r =
     and_then (summarize (into_summary_request r)) (\<lambda>(summary, metadata). ok (CompactionSummary summary metadata))"

datatype 'w compaction_registration =
    DirectCompaction context_compaction_config "'w compactor" "agent_message \<Rightarrow> nat"
  | SummarizerById context_compaction_config string "agent_message \<Rightarrow> nat"
  | CompactorById context_compaction_config string "agent_message \<Rightarrow> nat"

definition compaction_runtime ::
  "context_compaction_config \<Rightarrow> 'w compactor \<Rightarrow> (agent_message \<Rightarrow> nat) \<Rightarrow> 'w context_compaction_runtime" where
  "compaction_runtime config compact estimate =
     \<lparr>cx_config = config, cx_compact = compact, cx_estimate_message_tokens = estimate\<rparr>"

fun resolve_context_compaction ::
  "'w compaction_registration option \<Rightarrow> 'w summarizer smap \<Rightarrow> 'w compactor smap
   \<Rightarrow> 'w context_compaction_runtime option result" where
  "resolve_context_compaction None summarizers compactors = Inr None"
| "resolve_context_compaction (Some (DirectCompaction config compact estimate)) summarizers compactors =
     (case compaction_config_validate config of
        Inl e \<Rightarrow> Inl e
      | Inr _ \<Rightarrow> Inr (Some (compaction_runtime config compact estimate)))"
| "resolve_context_compaction (Some (SummarizerById config i estimate)) summarizers compactors =
     (case compaction_config_validate config of
        Inl e \<Rightarrow> Inl e
      | Inr _ \<Rightarrow>
          (case map_of summarizers i of
             None \<Rightarrow> Inl (PhaseError (''compaction summarizer not found: '' @ i))
           | Some summarize \<Rightarrow> Inr (Some (compaction_runtime config (summary_compact summarize) estimate))))"
| "resolve_context_compaction (Some (CompactorById config i estimate)) summarizers compactors =
     (case compaction_config_validate config of
        Inl e \<Rightarrow> Inl e
      | Inr _ \<Rightarrow>
          (case map_of compactors i of
             None \<Rightarrow> Inl (PhaseError (''context compactor not found: '' @ i))
           | Some compact \<Rightarrow> Inr (Some (compaction_runtime config compact estimate))))"

section \<open>The builder\<close>

record ('s, 'w) runtime_builder =
  rb_event_store :: "'s event_store_ops"
  rb_phases :: "'w phase_node list"
  rb_model_providers :: "(string option \<times> 'w model_provider) smap"
  rb_default_model_provider :: "string option"
  rb_tools :: "'w tool_provider smap"
  rb_tool_execution_mode :: tool_execution_mode
  rb_tool_hooks :: "'w tool_call_hook list"
  rb_phase_hooks :: "(string option \<times> 'w phase_hook) list"
  rb_context_providers :: "'w context_provider list"
  rb_compaction_summarizers :: "'w summarizer smap"
  rb_context_compactors :: "'w compactor smap"
  rb_http_auth_provider_ids :: "string set"
  rb_context_compaction :: "'w compaction_registration option"
  rb_max_turns :: nat
  rb_run_id_prefix :: "string option"

definition default_phases :: "'w phase_node list" where
  "default_phases =
     map StandardPhase [InputIngest, ContextPrepare, ModelRequestPrepare, ModelStream, AssistantCommit,
       ToolCallResolve, ToolExecute, TurnDecision]"

text \<open>The default event store is the in-memory one; here it is the argument of the builder.\<close>

definition runtime_builder_default :: "'s event_store_ops \<Rightarrow> ('s, 'w) runtime_builder" where
  "runtime_builder_default store =
     \<lparr>rb_event_store = store, rb_phases = default_phases, rb_model_providers = [],
      rb_default_model_provider = None, rb_tools = [], rb_tool_execution_mode = Parallel,
      rb_tool_hooks = [], rb_phase_hooks = [], rb_context_providers = [],
      rb_compaction_summarizers = [], rb_context_compactors = [], rb_http_auth_provider_ids = {},
      rb_context_compaction = None, rb_max_turns = 8, rb_run_id_prefix = None\<rparr>"

definition safe_run_id_prefix :: "string \<Rightarrow> string option" where
  "safe_run_id_prefix s =
     (let dashed = concat (map (\<lambda>c. case c of
                [b] \<Rightarrow> if is_ascii_alphanumeric b \<or> b = CHR ''-'' \<or> b = CHR ''_'' then [b] else ''-''
              | _ \<Rightarrow> ''-'') (utf8_chars s));
          trimmed = rev (dropWhile (\<lambda>c. c = CHR ''-'') (rev (dropWhile (\<lambda>c. c = CHR ''-'') dashed)))
      in if trimmed = [] then None else Some trimmed)"

type_synonym ('s, 'w) builder_step = "('s, 'w) runtime_builder \<Rightarrow> ('s, 'w) runtime_builder"

definition with_run_id_prefix :: "string \<Rightarrow> ('s, 'w) builder_step" where
  "with_run_id_prefix p b = b\<lparr>rb_run_id_prefix := safe_run_id_prefix p\<rparr>"

definition with_event_store :: "'s event_store_ops \<Rightarrow> ('s, 'w) builder_step" where
  "with_event_store store b = b\<lparr>rb_event_store := store\<rparr>"

definition default_unless_set :: "string \<Rightarrow> string option \<Rightarrow> string option" where
  "default_unless_set i d = (case d of None \<Rightarrow> Some i | Some j \<Rightarrow> Some j)"

definition with_model_provider :: "string option \<Rightarrow> 'w model_provider \<Rightarrow> ('s, 'w) builder_step" where
  "with_model_provider model_name p b =
     b\<lparr>rb_default_model_provider := default_unless_set (mpv_id p) (rb_default_model_provider b),
       rb_model_providers := bt_insert (mpv_id p) (model_name, p) (rb_model_providers b)\<rparr>"

definition set_default_model_provider :: "string \<Rightarrow> ('s, 'w) builder_step" where
  "set_default_model_provider i b = b\<lparr>rb_default_model_provider := Some i\<rparr>"

definition with_tool :: "'w tool_provider \<Rightarrow> ('s, 'w) builder_step" where
  "with_tool t b = b\<lparr>rb_tools := bt_insert (ts_name (tp_spec t)) t (rb_tools b)\<rparr>"

definition has_tool :: "string \<Rightarrow> ('s, 'w) runtime_builder \<Rightarrow> bool" where
  "has_tool name b = bt_contains_key (rb_tools b) name"

definition without_tool :: "string \<Rightarrow> ('s, 'w) builder_step" where
  "without_tool name b = b\<lparr>rb_tools := bt_remove name (rb_tools b)\<rparr>"

definition with_tool_execution_mode :: "tool_execution_mode \<Rightarrow> ('s, 'w) builder_step" where
  "with_tool_execution_mode mode b = b\<lparr>rb_tool_execution_mode := mode\<rparr>"

definition with_tool_hook :: "'w tool_call_hook \<Rightarrow> ('s, 'w) builder_step" where
  "with_tool_hook h b = b\<lparr>rb_tool_hooks := rb_tool_hooks b @ [h]\<rparr>"

definition with_phase_hook :: "string option \<Rightarrow> 'w phase_hook \<Rightarrow> ('s, 'w) builder_step" where
  "with_phase_hook i h b = b\<lparr>rb_phase_hooks := rb_phase_hooks b @ [(i, h)]\<rparr>"

definition with_context_provider :: "'w context_provider \<Rightarrow> ('s, 'w) builder_step" where
  "with_context_provider p b = b\<lparr>rb_context_providers := rb_context_providers b @ [p]\<rparr>"

text \<open>
  The eight ways to register a compaction differ in the registration; without an estimator it is the
  heuristic one.
\<close>

definition with_context_compaction_registration :: "'w compaction_registration \<Rightarrow> ('s, 'w) builder_step" where
  "with_context_compaction_registration r b = b\<lparr>rb_context_compaction := Some r\<rparr>"

definition summarizer_registration ::
  "context_compaction_config \<Rightarrow> 'w summarizer \<Rightarrow> (agent_message \<Rightarrow> nat) \<Rightarrow> 'w compaction_registration" where
  "summarizer_registration config summarize estimate =
     DirectCompaction config (summary_compact summarize) estimate"

fun replace_first_phase :: "string \<Rightarrow> 'w phase_node \<Rightarrow> 'w phase_node list \<Rightarrow> 'w phase_node list" where
  "replace_first_phase i p [] = [p]"
| "replace_first_phase i p (q # qs) = (if phase_id q = i then p # qs else q # replace_first_phase i p qs)"

definition replace_phase :: "string \<Rightarrow> 'w phase_node \<Rightarrow> ('s, 'w) builder_step" where
  "replace_phase i p b = b\<lparr>rb_phases := replace_first_phase i p (rb_phases b)\<rparr>"

fun insert_after :: "string \<Rightarrow> 'w phase_node \<Rightarrow> 'w phase_node list \<Rightarrow> 'w phase_node list" where
  "insert_after i p [] = [p]"
| "insert_after i p (q # qs) = (if phase_id q = i then q # p # qs else q # insert_after i p qs)"

definition insert_phase_after :: "string \<Rightarrow> 'w phase_node \<Rightarrow> ('s, 'w) builder_step" where
  "insert_phase_after i p b = b\<lparr>rb_phases := insert_after i p (rb_phases b)\<rparr>"

fun insert_before :: "string \<Rightarrow> 'w phase_node \<Rightarrow> 'w phase_node list \<Rightarrow> 'w phase_node list" where
  "insert_before i p [] = [p]"
| "insert_before i p (q # qs) = (if phase_id q = i then p # q # qs else q # insert_before i p qs)"

definition set_max_turns :: "nat \<Rightarrow> ('s, 'w) builder_step" where
  "set_max_turns n b = b\<lparr>rb_max_turns := max n 1\<rparr>"

definition ensure_context_compaction_phase :: "'w phase_node list \<Rightarrow> 'w phase_node list" where
  "ensure_context_compaction_phase ps =
     (if \<exists>p \<in> set ps. phase_id p = ''context.compact'' then ps
      else insert_before ''model.request.prepare'' (StandardPhase ContextCompact) ps)"

text \<open>The environment of a runtime (its token, tasks and clock) is not the builder's; it is given apart.\<close>

record 'w runtime_env =
  re_cancelled :: "'w \<Rightarrow> 'w \<times> bool"
  re_schedule :: "nat \<Rightarrow> 'w \<Rightarrow> 'w \<times> join_event list"
  re_current_unix_ms :: "'w \<Rightarrow> 'w \<times> nat option"

definition build_runtime :: "'w runtime_env \<Rightarrow> ('s, 'w) runtime_builder \<Rightarrow> ('s, 'w) agent_runtime result" where
  "build_runtime env b =
     (case rb_default_model_provider b of
        None \<Rightarrow> Inl (MissingModelProvider ''no default model provider registered'')
      | Some i \<Rightarrow>
          if \<not> bt_contains_key (rb_model_providers b) i then Inl (MissingModelProvider i)
          else case resolve_context_compaction (rb_context_compaction b)
                      (rb_compaction_summarizers b) (rb_context_compactors b) of
            Inl e \<Rightarrow> Inl e
          | Inr compaction \<Rightarrow> Inr
              \<lparr>rt_event_store = rb_event_store b,
               rt_phases = (case compaction of None \<Rightarrow> rb_phases b
                            | Some _ \<Rightarrow> ensure_context_compaction_phase (rb_phases b)),
               rt_model_providers = map (\<lambda>(k, (_, p)). (k, p)) (rb_model_providers b),
               rt_default_model_provider = i, rt_tools = rb_tools b,
               rt_tool_execution_mode = rb_tool_execution_mode b, rt_tool_hooks = rb_tool_hooks b,
               rt_phase_hooks = map snd (rb_phase_hooks b),
               rt_context_providers = rb_context_providers b, rt_context_compaction = compaction,
               rt_max_turns = rb_max_turns b, rt_run_id_prefix = rb_run_id_prefix b,
               rt_cancelled = re_cancelled env, rt_schedule = re_schedule env,
               rt_current_unix_ms = re_current_unix_ms env\<rparr>)"

end
