(* ===== verification/Extension_Adapters.thy ===== *)
theory Extension_Adapters
  imports Runtime_Builder Provider_Utils
begin

text \<open>
  The adapters of an extension process (\<open>crates/noloong-agent-core/src/jsonrpc/adapters.rs\<close>,
  \<open>jsonrpc/wire.rs\<close>): each trait object is one method of the protocol, with its parameters and the
  reading of its answer, and the registration of a process with a builder. The request itself
  (\<open>Extension_Client\<close> has its protocol) and the derived serialization of the types are parameters.
\<close>

section \<open>The process and the serialization\<close>

record phase_hook_output =
  pho_model_request :: "model_request option"
  pho_model_events :: "model_stream_event list option"
  pho_assistant_message :: "agent_message option"

record before_tool_hook_output =
  bto_decision :: "tool_permission_decision option"
  bto_approval :: "tool_approval_request_spec option"

record after_tool_hook_output =
  ato_content :: "content_block list option"
  ato_details :: "json option"
  ato_is_error :: "bool option"

text \<open>\<open>Serialize\<close> of the types sent: a struct that is flattened gives its fields.\<close>

record extension_writers =
  xw_tool_request :: "tool_request \<Rightarrow> json"
  xw_context_request :: "context_request \<Rightarrow> json"
  xw_state :: "agent_state \<Rightarrow> json"
  xw_scratch :: "phase_scratch \<Rightarrow> json"
  xw_model_request :: "model_request \<Rightarrow> json"
  xw_model_events :: "model_stream_event list \<Rightarrow> json"
  xw_message :: "agent_message \<Rightarrow> json"
  xw_tool_call :: "tool_call \<Rightarrow> json"
  xw_tool_spec :: "tool_spec \<Rightarrow> json"
  xw_tool_output :: "tool_output \<Rightarrow> json"
  xw_permissions :: "tool_permission_requirement list \<Rightarrow> json"
  xw_summary_request :: "compaction_summary_request \<Rightarrow> (string \<times> json) list"
  xw_compaction_request :: "context_compaction_request \<Rightarrow> (string \<times> json) list"
  xw_auth_context :: "http_auth_context \<Rightarrow> json"
  xw_auth_reason :: "http_auth_refresh_reason \<Rightarrow> json"

text \<open>\<open>serde_json::from_value\<close> of the types received.\<close>

record extension_readers =
  xr_capabilities :: "json \<Rightarrow> extension_capability list result"
  xr_tool_output :: "json \<Rightarrow> tool_output result"
  xr_effects :: "json \<Rightarrow> agent_effect list result"
  xr_summary :: "json \<Rightarrow> (string \<times> json_map) result"
  xr_compaction_output :: "json \<Rightarrow> context_compaction_output result"
  xr_phase_output :: "json \<Rightarrow> phase_output result"
  xr_phase_hook_output :: "json \<Rightarrow> phase_hook_output result"
  xr_before_tool_hook :: "json \<Rightarrow> before_tool_hook_output result"
  xr_after_tool_hook :: "json \<Rightarrow> after_tool_hook_output result"
  xr_auth_headers :: "json \<Rightarrow> http_auth_headers result"
  xr_auth_refresh :: "json \<Rightarrow> http_auth_refresh_result result"

record 'w stdio_extension =
  sx_request :: "string \<Rightarrow> json \<Rightarrow> ('w, agent_core_error, json) eff"
  sx_cancelled :: "'w \<Rightarrow> 'w \<times> bool"
  sx_write :: extension_writers
  sx_read :: extension_readers
  sx_model_provider :: "string \<Rightarrow> 'w model_provider"

text \<open>A request and the reading of its answer; most check the token first.\<close>

definition extension_request ::
  "'w stdio_extension \<Rightarrow> (json \<Rightarrow> 'a result) \<Rightarrow> string \<Rightarrow> json \<Rightarrow> ('w, agent_core_error, 'a) eff" where
  "extension_request x read_answer method params =
     and_then (sx_request x method params) (\<lambda>v. lift_result (read_answer v))"

definition extension_live :: "'w stdio_extension \<Rightarrow> ('w, agent_core_error, unit) eff" where
  "extension_live x w = (let (w', c) = sx_cancelled x w in (w', if c then Inl Aborted else Inr ()))"

definition checked_request ::
  "'w stdio_extension \<Rightarrow> (json \<Rightarrow> 'a result) \<Rightarrow> string \<Rightarrow> json \<Rightarrow> ('w, agent_core_error, 'a) eff" where
  "checked_request x read_answer method params =
     and_then (extension_live x) (\<lambda>_. extension_request x read_answer method params)"

definition extension_capabilities :: "'w stdio_extension \<Rightarrow> ('w, agent_core_error, extension_capability list) eff" where
  "extension_capabilities x = extension_request x (xr_capabilities (sx_read x)) ''capabilities/list'' (json_object [])"

section \<open>Tools and context\<close>

definition stdio_tool_provider :: "'w stdio_extension \<Rightarrow> tool_spec \<Rightarrow> 'w tool_provider" where
  "stdio_tool_provider x spec =
     \<lparr>tp_spec = spec,
      tp_execute_tool = (\<lambda>r. checked_request x (xr_tool_output (sx_read x)) ''tool/execute''
        (json_object [(''toolName'', JString (ts_name spec)), (''request'', xw_tool_request (sx_write x) r)]))\<rparr>"

definition stdio_context_provider :: "'w stdio_extension \<Rightarrow> string \<Rightarrow> 'w context_provider" where
  "stdio_context_provider x i =
     \<lparr>cp_id = i,
      cp_prepare_context = (\<lambda>r. checked_request x (xr_effects (sx_read x)) ''context/apply''
        (json_object [(''providerId'', JString i), (''request'', xw_context_request (sx_write x) r)]))\<rparr>"

section \<open>Hooks\<close>

text \<open>\<open>HookRequest\<close>: the common fields and the fields of the hook point.\<close>

definition hook_request ::
  "'w stdio_extension \<Rightarrow> string \<Rightarrow> string \<Rightarrow> string \<Rightarrow> nat \<Rightarrow> agent_state \<Rightarrow> (string \<times> json) list \<Rightarrow> json" where
  "hook_request x i point run_id turn_id state payload =
     json_object ([(''hookId'', JString i), (''hookPoint'', JString point), (''runId'', JString run_id),
       (''turnId'', JInt (int turn_id)), (''state'', xw_state (sx_write x) state)] @ payload)"

text \<open>An answer of \<open>before_tool_call\<close> has a decision, an approval request or neither.\<close>

definition before_tool_call_answer :: "before_tool_hook_output \<Rightarrow> before_tool_call_result option result" where
  "before_tool_call_answer a =
     (case (bto_decision a, bto_approval a) of
        (Some _, Some _) \<Rightarrow> Inl (JsonRpc ''before_tool_call returned both decision and approval'')
      | (None, None) \<Rightarrow> Inr None
      | (Some d, None) \<Rightarrow> Inr (Some (Decision d))
      | (None, Some p) \<Rightarrow> Inr (Some (Approval p)))"

definition after_tool_call_answer :: "after_tool_hook_output \<Rightarrow> after_tool_call_result option" where
  "after_tool_call_answer a =
     (if ato_content a = None \<and> ato_details a = None \<and> ato_is_error a = None then None
      else Some \<lparr>atr_content = ato_content a, atr_details = ato_details a, atr_is_error = ato_is_error a\<rparr>)"

definition stdio_tool_call_hook :: "'w stdio_extension \<Rightarrow> string \<Rightarrow> 'w tool_call_hook" where
  "stdio_tool_call_hook x i =
     \<lparr>th_id = Some i,
      th_before_tool_call = (\<lambda>c.
        and_then (checked_request x (xr_before_tool_hook (sx_read x)) ''tool_hook/run''
            (hook_request x i ''before_tool_call'' (btc_run_id c) (btc_turn_id c) (btc_state c)
              [(''toolCall'', xw_tool_call (sx_write x) (btc_tool_call c)),
               (''toolSpec'', xw_tool_spec (sx_write x) (btc_tool_spec c)),
               (''permissions'', xw_permissions (sx_write x) (ts_permissions (btc_tool_spec c)))]))
          (\<lambda>a. lift_result (before_tool_call_answer a))),
      th_after_tool_call = (\<lambda>c.
        and_then (checked_request x (xr_after_tool_hook (sx_read x)) ''tool_hook/run''
            (hook_request x i ''after_tool_call'' (atc_run_id c) (atc_turn_id c) (atc_state c)
              [(''toolCall'', xw_tool_call (sx_write x) (atc_tool_call c)),
               (''output'', xw_tool_output (sx_write x) (atc_output c))]))
          (\<lambda>a. ok (after_tool_call_answer a)))\<rparr>"

definition run_phase_hook ::
  "'w stdio_extension \<Rightarrow> string \<Rightarrow> string \<Rightarrow> hook_scope \<Rightarrow> (string \<times> json) list
   \<Rightarrow> ('w, agent_core_error, phase_hook_output) eff" where
  "run_phase_hook x i point scope payload =
     checked_request x (xr_phase_hook_output (sx_read x)) ''phase_hook/run''
       (hook_request x i point (hs_run_id scope) (hs_turn_id scope) (hs_state scope) payload)"

definition stdio_phase_hook :: "'w stdio_extension \<Rightarrow> string \<Rightarrow> 'w phase_hook" where
  "stdio_phase_hook x i =
     (let w = sx_write x in
      \<lparr>ph_before_model_request = (\<lambda>scope r.
         and_then (run_phase_hook x i ''before_model_request'' scope
           [(''modelRequest'', xw_model_request w r)]) (\<lambda>a. ok (pho_model_request a))),
       ph_after_model_request = (\<lambda>scope r evs.
         and_then (run_phase_hook x i ''after_model_request'' scope
           [(''modelRequest'', xw_model_request w r), (''modelEvents'', xw_model_events w evs)])
           (\<lambda>a. ok (pho_model_events a))),
       ph_before_assistant_commit = (\<lambda>scope evs.
         and_then (run_phase_hook x i ''before_assistant_commit'' scope
           [(''modelEvents'', xw_model_events w evs)]) (\<lambda>a. ok (pho_model_events a))),
       ph_after_assistant_commit = (\<lambda>scope m.
         and_then (run_phase_hook x i ''after_assistant_commit'' scope
           [(''assistantMessage'', xw_message w m)]) (\<lambda>a. ok (pho_assistant_message a)))\<rparr>)"

section \<open>Phases, compaction and authentication\<close>

text \<open>A phase is asked with the token, without a check before it.\<close>

definition stdio_phase_node :: "'w stdio_extension \<Rightarrow> string \<Rightarrow> 'w phase_node" where
  "stdio_phase_node x i =
     CustomPhase i (\<lambda>c. quiet (extension_request x (xr_phase_output (sx_read x)) ''phase/run''
       (json_object [(''phaseId'', JString i),
         (''request'', json_object [(''runId'', JString (pc_run_id c)), (''turnId'', JInt (int (pc_turn_id c))),
           (''state'', xw_state (sx_write x) (pc_state c)), (''scratch'', xw_scratch (sx_write x) (pc_scratch c))])])))"

definition stdio_summarizer :: "'w stdio_extension \<Rightarrow> string \<Rightarrow> 'w summarizer" where
  "stdio_summarizer x i r =
     checked_request x (xr_summary (sx_read x)) ''compaction/summarize''
       (json_object ((''summarizerId'', JString i) # xw_summary_request (sx_write x) r))"

definition stdio_compactor :: "'w stdio_extension \<Rightarrow> string \<Rightarrow> 'w compactor" where
  "stdio_compactor x i r =
     checked_request x (xr_compaction_output (sx_read x)) ''compaction/compact''
       (json_object ((''compactorId'', JString i) # xw_compaction_request (sx_write x) r))"

definition stdio_auth_headers ::
  "'w stdio_extension \<Rightarrow> string \<Rightarrow> http_auth_context \<Rightarrow> ('w, agent_core_error, http_auth_headers) eff" where
  "stdio_auth_headers x i c =
     checked_request x (xr_auth_headers (sx_read x)) ''auth/headers''
       (json_object [(''authProviderId'', JString i), (''context'', xw_auth_context (sx_write x) c)])"

definition stdio_auth_refresh ::
  "'w stdio_extension \<Rightarrow> string \<Rightarrow> http_auth_refresh_context \<Rightarrow> ('w, agent_core_error, http_auth_refresh_result) eff" where
  "stdio_auth_refresh x i c =
     checked_request x (xr_auth_refresh (sx_read x)) ''auth/refresh''
       (json_object ([(''authProviderId'', JString i), (''context'', xw_auth_context (sx_write x) (hrc_context c)),
          (''reason'', xw_auth_reason (sx_write x) (hrc_reason c)), (''metadata'', JObject (hrc_metadata c))]
        @ (case hrc_status c of None \<Rightarrow> [] | Some n \<Rightarrow> [(''status'', JInt (int n))])))"

section \<open>Registration\<close>

text \<open>\<open>validate_extension_capabilities\<close>: the kinds and ids seen so far, and what the builder has.\<close>

fun capability_key :: "extension_capability \<Rightarrow> string \<times> string" where
  "capability_key (ModelProviderCap i) = (''model provider'', i)"
| "capability_key (ToolCap spec) = (''tool'', ts_name spec)"
| "capability_key (ContextProviderCap i) = (''context provider'', i)"
| "capability_key (PhaseNodeCap i) = (''phase'', i)"
| "capability_key (PhaseHookCap i) = (''phase hook'', i)"
| "capability_key (ToolCallHookCap i) = (''tool call hook'', i)"
| "capability_key (CompactionSummarizerCap i) = (''compaction summarizer'', i)"
| "capability_key (ContextCompactorCap i) = (''context compactor'', i)"
| "capability_key (HttpAuthProviderCap i) = (''http auth provider'', i)"

fun capability_exists :: "('s, 'w) runtime_builder \<Rightarrow> extension_capability \<Rightarrow> bool" where
  "capability_exists b (ModelProviderCap i) = bt_contains_key (rb_model_providers b) i"
| "capability_exists b (ToolCap spec) = bt_contains_key (rb_tools b) (ts_name spec)"
| "capability_exists b (ContextProviderCap i) = (i \<in> set (map cp_id (rb_context_providers b)))"
| "capability_exists b (PhaseNodeCap i) = (i \<in> set (map phase_id (rb_phases b)))"
| "capability_exists b (PhaseHookCap i) = (Some i \<in> set (map fst (rb_phase_hooks b)))"
| "capability_exists b (ToolCallHookCap i) = (Some i \<in> set (map th_id (rb_tool_hooks b)))"
| "capability_exists b (CompactionSummarizerCap i) = bt_contains_key (rb_compaction_summarizers b) i"
| "capability_exists b (ContextCompactorCap i) = bt_contains_key (rb_context_compactors b) i"
| "capability_exists b (HttpAuthProviderCap i) = (i \<in> rb_http_auth_provider_ids b)"

definition duplicate_extension_capability :: "string \<Rightarrow> string \<Rightarrow> agent_core_error" where
  "duplicate_extension_capability kind i = JsonRpc (''duplicate extension '' @ kind @ '': '' @ i)"

fun validate_capabilities_from ::
  "('s, 'w) runtime_builder \<Rightarrow> (string \<times> string) set \<Rightarrow> extension_capability list \<Rightarrow> unit result" where
  "validate_capabilities_from b seen [] = Inr ()"
| "validate_capabilities_from b seen (c # cs) =
     (if capability_exists b c \<or> capability_key c \<in> seen
      then Inl (duplicate_extension_capability (fst (capability_key c)) (snd (capability_key c)))
      else validate_capabilities_from b (insert (capability_key c) seen) cs)"

definition validate_extension_capabilities ::
  "('s, 'w) runtime_builder \<Rightarrow> extension_capability list \<Rightarrow> unit result" where
  "validate_extension_capabilities b cs = validate_capabilities_from b {} cs"

fun register_capability :: "'w stdio_extension \<Rightarrow> extension_capability \<Rightarrow> ('s, 'w) builder_step" where
  "register_capability x (ModelProviderCap i) b =
     b\<lparr>rb_default_model_provider := default_unless_set i (rb_default_model_provider b),
       rb_model_providers := bt_insert i (None, sx_model_provider x i) (rb_model_providers b)\<rparr>"
| "register_capability x (ToolCap spec) b =
     b\<lparr>rb_tools := bt_insert (ts_name spec) (stdio_tool_provider x spec) (rb_tools b)\<rparr>"
| "register_capability x (ContextProviderCap i) b =
     b\<lparr>rb_context_providers := rb_context_providers b @ [stdio_context_provider x i]\<rparr>"
| "register_capability x (PhaseNodeCap i) b =
     b\<lparr>rb_phases := insert_before ''turn.decision'' (stdio_phase_node x i) (rb_phases b)\<rparr>"
| "register_capability x (PhaseHookCap i) b =
     b\<lparr>rb_phase_hooks := rb_phase_hooks b @ [(Some i, stdio_phase_hook x i)]\<rparr>"
| "register_capability x (ToolCallHookCap i) b =
     b\<lparr>rb_tool_hooks := rb_tool_hooks b @ [stdio_tool_call_hook x i]\<rparr>"
| "register_capability x (CompactionSummarizerCap i) b =
     b\<lparr>rb_compaction_summarizers := bt_insert i (stdio_summarizer x i) (rb_compaction_summarizers b)\<rparr>"
| "register_capability x (ContextCompactorCap i) b =
     b\<lparr>rb_context_compactors := bt_insert i (stdio_compactor x i) (rb_context_compactors b)\<rparr>"
| "register_capability x (HttpAuthProviderCap i) b =
     b\<lparr>rb_http_auth_provider_ids := insert i (rb_http_auth_provider_ids b)\<rparr>"

text \<open>\<open>connect\<close> starts the process and asks it to initialize; it is a parameter.\<close>

definition add_stdio_extension ::
  "(stdio_extension_config \<Rightarrow> ('w, agent_core_error, 'w stdio_extension) eff)
   \<Rightarrow> stdio_extension_config \<Rightarrow> ('s, 'w) runtime_builder
   \<Rightarrow> ('w, agent_core_error, ('s, 'w) runtime_builder) eff" where
  "add_stdio_extension connect config b =
     and_then (connect config) (\<lambda>x.
     and_then (extension_capabilities x) (\<lambda>all.
     (let cs = filter_extension_capabilities all (sec_allowed_capabilities config)
      in and_then (lift_result (validate_extension_capabilities b cs)) (\<lambda>_.
         ok (fold (register_capability x) cs b)))))"

section \<open>An extension adds, and adds what it may\<close>

lemma validate_capabilities_from_ok:
  "validate_capabilities_from b seen cs = Inr () \<Longrightarrow> c \<in> set cs \<Longrightarrow> \<not> capability_exists b c"
  by (induction b seen cs rule: validate_capabilities_from.induct) (auto split: if_splits)

text \<open>The builder's maps stay ordered.\<close>

definition builder_wf :: "('s, 'w) runtime_builder \<Rightarrow> bool" where
  "builder_wf b = (bt_wf (rb_tools b) \<and> bt_wf (rb_model_providers b))"

lemma register_capability_wf: "builder_wf b \<Longrightarrow> builder_wf (register_capability x c b)"
  by (cases c) (simp_all add: builder_wf_def bt_wf_insert)

text \<open>What a registration does to each part, and so what a list of them does.\<close>

lemma register_tools:
  assumes "builder_wf b"
  shows "map_of (rb_tools (register_capability x c b)) n =
    (if capability_selector_of c = ToolSel n
     then (case c of ToolCap spec \<Rightarrow> Some (stdio_tool_provider x spec) | _ \<Rightarrow> None)
     else map_of (rb_tools b) n)"
  using assms by (cases c) (auto simp: builder_wf_def map_of_bt_insert)

lemma register_providers:
  assumes "builder_wf b"
  shows "map_of (rb_model_providers (register_capability x c b)) n =
    (if capability_selector_of c = ModelProviderSel n then Some (None, sx_model_provider x n)
     else map_of (rb_model_providers b) n)"
  using assms by (cases c) (auto simp: builder_wf_def map_of_bt_insert)

lemma register_all_tools:
  assumes "builder_wf b"
  shows "ToolSel n \<notin> capability_selector_of ` set cs \<Longrightarrow>
    map_of (rb_tools (fold (register_capability x) cs b)) n = map_of (rb_tools b) n"
  using assms by (induction cs arbitrary: b) (auto simp: register_tools register_capability_wf)

lemma register_all_providers:
  assumes "builder_wf b"
  shows "ModelProviderSel n \<notin> capability_selector_of ` set cs \<Longrightarrow>
    map_of (rb_model_providers (fold (register_capability x) cs b)) n = map_of (rb_model_providers b) n"
  using assms by (induction cs arbitrary: b) (auto simp: register_providers register_capability_wf)

lemma register_all_default:
  "rb_default_model_provider b = Some i \<Longrightarrow>
   rb_default_model_provider (fold (register_capability x) cs b) = Some i"
proof (induction cs arbitrary: b)
  case (Cons c cs)
  have "rb_default_model_provider (register_capability x c b) = Some i"
    using Cons.prems by (cases c) (simp_all add: default_unless_set_def)
  then show ?case by (simp add: Cons.IH)
qed simp

lemma subseq_insert_before: "subseq ps (insert_before i p ps)"
  by (induction i p ps rule: insert_before.induct) auto

lemma register_all_phases: "subseq (rb_phases b) (rb_phases (fold (register_capability x) cs b))"
proof (induction cs arbitrary: b)
  case (Cons c cs)
  have "subseq (rb_phases b) (rb_phases (register_capability x c b))"
    by (cases c) (simp_all add: subseq_insert_before)
  then show ?case using Cons.IH subseq_order.order_trans by (fastforce intro: subseq_order.order_trans)
qed simp

lemma register_all_tool_hooks:
  "\<exists>hs. rb_tool_hooks (fold (register_capability x) cs b) = rb_tool_hooks b @ hs
    \<and> (\<forall>h \<in> set hs. \<exists>i. th_id h = Some i \<and> ToolCallHookSel i \<in> capability_selector_of ` set cs)"
proof (induction cs arbitrary: b)
  case (Cons c cs)
  obtain hs where hs: "rb_tool_hooks (fold (register_capability x) cs (register_capability x c b)) =
      rb_tool_hooks (register_capability x c b) @ hs"
    "\<forall>h \<in> set hs. \<exists>i. th_id h = Some i \<and> ToolCallHookSel i \<in> capability_selector_of ` set cs"
    using Cons.IH by blast
  show ?case
  proof (cases "\<exists>i. c = ToolCallHookCap i")
    case True
    then obtain i where c: "c = ToolCallHookCap i" by blast
    show ?thesis
      by (rule exI [of _ "stdio_tool_call_hook x i # hs"])
        (use hs in \<open>auto simp: c stdio_tool_call_hook_def\<close>)
  next
    case False
    then have "rb_tool_hooks (register_capability x c b) = rb_tool_hooks b" by (cases c) simp_all
    with hs show ?thesis by (intro exI [of _ hs]) auto
  qed
qed simp

definition selector_allowed :: "stdio_extension_config \<Rightarrow> capability_selector \<Rightarrow> bool" where
  "selector_allowed config s = (case sec_allowed_capabilities config of None \<Rightarrow> True | Some sel \<Rightarrow> s \<in> sel)"

lemma filtered_allowed:
  "c \<in> set (filter_extension_capabilities cs (sec_allowed_capabilities config)) \<Longrightarrow>
   selector_allowed config (capability_selector_of c)"
  by (auto simp: filter_extension_capabilities_def selector_allowed_def selector_matches_def split: option.splits)

lemma add_stdio_extension_Inr:
  assumes "add_stdio_extension connect config b w = (w', Inr b')"
  obtains x cs where "b' = fold (register_capability x) cs b"
    and "validate_extension_capabilities b cs = Inr ()"
    and "\<forall>c \<in> set cs. selector_allowed config (capability_selector_of c)"
proof -
  from assms obtain x w1 cs0 w2 where
    valid: "validate_extension_capabilities b
        (filter_extension_capabilities cs0 (sec_allowed_capabilities config)) = Inr ()"
    and b': "b' = fold (register_capability x) (filter_extension_capabilities cs0 (sec_allowed_capabilities config)) b"
    by (auto simp: add_stdio_extension_def and_then_Inr_iff Let_def)
  show thesis by (rule that [OF b' valid]) (use filtered_allowed in blast)
qed

lemma validated_new:
  assumes "validate_extension_capabilities b cs = Inr ()"
  shows "ToolSel n \<in> capability_selector_of ` set cs \<Longrightarrow> map_of (rb_tools b) n = None"
    and "ModelProviderSel n \<in> capability_selector_of ` set cs \<Longrightarrow> map_of (rb_model_providers b) n = None"
proof -
  have new: "\<not> capability_exists b c" if "c \<in> set cs" for c
    using validate_capabilities_from_ok assms that by (auto simp: validate_extension_capabilities_def)
  {
    assume "ToolSel n \<in> capability_selector_of ` set cs"
    then obtain c where "c \<in> set cs" "capability_selector_of c = ToolSel n" by auto
    with new [of c] show "map_of (rb_tools b) n = None" by (cases c) (auto simp: bt_contains_key_def)
  next
    assume "ModelProviderSel n \<in> capability_selector_of ` set cs"
    then obtain c where "c \<in> set cs" "capability_selector_of c = ModelProviderSel n" by auto
    with new [of c] show "map_of (rb_model_providers b) n = None"
      by (cases c; cases "map_of (rb_model_providers b) n") (auto simp: bt_contains_key_def)
  }
qed


text \<open>A built runtime has its default model provider, and a compaction phase when it compacts.\<close>

lemma insert_before_mem: "p \<in> set (insert_before i p ps)"
  by (induction i p ps rule: insert_before.induct) auto

lemma map_of_providers: "map_of (map (\<lambda>(k, (_, p)). (k, p)) m) i = map_option snd (map_of m i)"
  by (induction m) auto

lemma ensured_compaction_phase: "\<exists>p \<in> set (ensure_context_compaction_phase ps). phase_id p = ''context.compact''"
  using insert_before_mem [of "StandardPhase ContextCompact"]
  by (force simp: ensure_context_compaction_phase_def)

lemma build_runtime_ok:
  assumes "build_runtime env b = Inr rt"
  shows "\<exists>p. default_model_provider rt = Inr p"
    and "rt_context_compaction rt \<noteq> None \<Longrightarrow> \<exists>p \<in> set (rt_phases rt). phase_id p = ''context.compact''"
  using assms ensured_compaction_phase
  by (auto simp: build_runtime_def default_model_provider_def bt_contains_key_def map_of_providers
      split: option.splits if_splits sum.splits)

section \<open>A process with one tool\<close>

definition sample_tool_spec :: tool_spec where
  "sample_tool_spec = \<lparr>ts_name = ''t'', ts_description = [], ts_input_schema = JNull,
     ts_execution_mode = None, ts_permissions = []\<rparr>"

text \<open>It offers a tool and a model provider; only the tool is allowed.\<close>

definition sample_extension_config :: stdio_extension_config where
  "sample_extension_config = (stdio_extension_config_new ''x'')\<lparr>sec_allowed_capabilities := Some {ToolSel ''t''}\<rparr>"

definition sample_extension :: "unit stdio_extension" where
  "sample_extension =
     \<lparr>sx_request = (\<lambda>method params. ok JNull), sx_cancelled = (\<lambda>w. (w, False)), sx_write = undefined,
      sx_read = \<lparr>xr_capabilities = (\<lambda>_. Inr [ToolCap sample_tool_spec, ModelProviderCap ''m'']),
        xr_tool_output = undefined, xr_effects = undefined, xr_summary = undefined,
        xr_compaction_output = undefined, xr_phase_output = undefined, xr_phase_hook_output = undefined,
        xr_before_tool_hook = undefined, xr_after_tool_hook = undefined, xr_auth_headers = undefined,
        xr_auth_refresh = undefined\<rparr>, sx_model_provider = undefined\<rparr>"

definition sample_builder :: "(memory_store, unit) runtime_builder" where
  "sample_builder = runtime_builder_default memory_store_ops"


end
