(* ===== verification/Extension_Client.thy ===== *)
theory Extension_Client
  imports Core_Types
begin

text \<open>
  The client of an extension process (\<open>crates/noloong-agent-core/src/jsonrpc/mod.rs\<close>, \<open>process.rs\<close> and
  the stream of \<open>adapters.rs\<close>). Requests run concurrently with the task that reads the process: each
  takes locks for single accesses only, so the model has one action for each access, and a theorem
  over all sequences of actions covers every interleaving.
\<close>

section \<open>Requests\<close>

text \<open>
  Where a request is: past the first look at the fatal error, entered into the pending requests, past
  the second look, written and waiting, or returned.
\<close>

datatype request_state =
    Checked
  | Entered
  | Writing
  | Waiting
  | Returned "agent_core_error + json"

text \<open>The reader between two lines, between the two halves of \<open>fail_pending\<close>, or at its end.\<close>

datatype reader_state = Reading | Failing string bool | ReaderEnded

record extension_client =
  xc_counter :: nat
  xc_fatal :: "string option"
  xc_pending :: "nat set"
  xc_answers :: "nat \<Rightarrow> (agent_core_error + json) option"
  xc_requests :: "nat \<Rightarrow> request_state option"
  xc_reader :: reader_state

definition client_start :: extension_client where
  "client_start =
     \<lparr>xc_counter = 0, xc_fatal = None, xc_pending = {}, xc_answers = (\<lambda>_. None), xc_requests = (\<lambda>_. None),
      xc_reader = Reading\<rparr>"

datatype client_action =
    BeginRequest
  | EnterPending nat
  | LookAgain nat
  | WriteDone nat
  | WriteFailed nat agent_core_error
  | Reply nat "agent_core_error + json"
  | ReaderFails string bool
  | FailPending
  | TakeAnswer nat
  | TimedOut nat string
  | CancelRequest nat

definition returns :: "nat \<Rightarrow> agent_core_error + json \<Rightarrow> extension_client \<Rightarrow> extension_client" where
  "returns i r c = c\<lparr>xc_requests := (xc_requests c)(i \<mapsto> Returned r)\<rparr>"

definition moves :: "nat \<Rightarrow> request_state \<Rightarrow> extension_client \<Rightarrow> extension_client" where
  "moves i q c = c\<lparr>xc_requests := (xc_requests c)(i \<mapsto> q)\<rparr>"

definition forget :: "nat \<Rightarrow> extension_client \<Rightarrow> extension_client" where
  "forget i c = c\<lparr>xc_pending := xc_pending c - {i}\<rparr>"

text \<open>The reader: a line with the answer to a request, and the two halves of \<open>fail_pending\<close>.\<close>

definition handle_reply :: "nat \<Rightarrow> agent_core_error + json \<Rightarrow> extension_client \<Rightarrow> extension_client" where
  [simp]: "handle_reply i r c =
     (if i \<in> xc_pending c then forget i (c\<lparr>xc_answers := (xc_answers c)(i \<mapsto> r)\<rparr>) else c)"

definition set_fatal_error :: "string \<Rightarrow> bool \<Rightarrow> extension_client \<Rightarrow> extension_client" where
  [simp]: "set_fatal_error e ends c =
     c\<lparr>xc_fatal := (case xc_fatal c of Some f \<Rightarrow> Some f | None \<Rightarrow> Some e), xc_reader := Failing e ends\<rparr>"

definition fail_all_pending :: "string \<Rightarrow> bool \<Rightarrow> extension_client \<Rightarrow> extension_client" where
  [simp]: "fail_all_pending e ends c =
     c\<lparr>xc_pending := {},
       xc_answers := (\<lambda>i. if i \<in> xc_pending c then Some (Inl (JsonRpc e)) else xc_answers c i),
       xc_reader := (if ends then ReaderEnded else Reading)\<rparr>"

text \<open>
  One action, \<open>None\<close> when it is not possible. A request that finds the fatal error at its first look
  returns it without a number. A reply to a number that is not pending is dropped. \<open>fail_pending\<close> sets
  the fatal error unless there is one, and then takes the pending requests and answers them with its
  own error.
\<close>

fun client_act :: "client_action \<Rightarrow> extension_client \<Rightarrow> extension_client option" where
  "client_act BeginRequest c =
     (case xc_fatal c of
        Some e \<Rightarrow> Some c
      | None \<Rightarrow>
          (let i = xc_counter c + 1 in Some (moves i Checked (c\<lparr>xc_counter := i\<rparr>))))"
| "client_act (EnterPending i) c =
     (if xc_requests c i = Some Checked
      then Some (moves i Entered (c\<lparr>xc_pending := insert i (xc_pending c)\<rparr>)) else None)"
| "client_act (LookAgain i) c =
     (if xc_requests c i = Some Entered
      then (case xc_fatal c of
              Some e \<Rightarrow> Some (returns i (Inl (JsonRpc e)) (forget i c))
            | None \<Rightarrow> Some (moves i Writing c))
      else None)"
| "client_act (WriteDone i) c = (if xc_requests c i = Some Writing then Some (moves i Waiting c) else None)"
| "client_act (WriteFailed i e) c =
     (if xc_requests c i = Some Writing then Some (returns i (Inl e) (forget i c)) else None)"
| "client_act (Reply i r) c =
     (if xc_reader c = Reading then Some (handle_reply i r c) else None)"
| "client_act (ReaderFails e ends) c =
     (if xc_reader c = Reading then Some (set_fatal_error e ends c) else None)"
| "client_act FailPending c =
     (case xc_reader c of
        Failing e ends \<Rightarrow> Some (fail_all_pending e ends c)
      | _ \<Rightarrow> None)"
| "client_act (TakeAnswer i) c =
     (if xc_requests c i = Some Waiting
      then (case xc_answers c i of Some r \<Rightarrow> Some (returns i r c) | None \<Rightarrow> None)
      else None)"
| "client_act (TimedOut i request_method) c =
     (if xc_requests c i = Some Waiting
      then Some (returns i (Inl (JsonRpc (''request timed out: '' @ request_method))) (forget i c)) else None)"
| "client_act (CancelRequest i) c =
     (if xc_requests c i = Some Waiting then Some (returns i (Inl Aborted) (forget i c)) else None)"

text \<open>The clients that can be reached, with the actions so far.\<close>

inductive client_reaches :: "client_action list \<Rightarrow> extension_client \<Rightarrow> bool" where
  start: "client_reaches [] client_start"
| act: "client_reaches as c \<Longrightarrow> client_act a c = Some c' \<Longrightarrow> client_reaches (as @ [a]) c'"

definition is_failing :: "reader_state \<Rightarrow> bool" where
  "is_failing r = (case r of Failing _ _ \<Rightarrow> True | _ \<Rightarrow> False)"

lemma is_failing_simps [simp]:
  "is_failing (Failing e b)" "\<not> is_failing Reading" "\<not> is_failing ReaderEnded"
  by (simp_all add: is_failing_def)

text \<open>
  The invariant: a pending request is entered and has no answer yet; an entered request that is not
  pending has its answer; and once the error of the reader has been handed out, only requests that
  have not looked again are pending.
\<close>

definition request_inv :: "extension_client \<Rightarrow> nat \<Rightarrow> bool" where
  "request_inv c i =
     ((xc_requests c i \<noteq> None \<longrightarrow> i \<le> xc_counter c)
      \<and> (i \<in> xc_pending c \<longrightarrow> xc_answers c i = None \<and> xc_requests c i \<in> {Some Entered, Some Writing, Some Waiting})
      \<and> (xc_requests c i \<in> {Some Entered, Some Writing, Some Waiting} \<longrightarrow> i \<in> xc_pending c \<or> xc_answers c i \<noteq> None)
      \<and> (xc_fatal c \<noteq> None \<and> \<not> is_failing (xc_reader c) \<and> i \<in> xc_pending c \<longrightarrow> xc_requests c i = Some Entered)
      \<and> (xc_answers c i \<noteq> None \<longrightarrow> xc_requests c i \<noteq> None \<and> xc_requests c i \<noteq> Some Checked))"

definition client_inv :: "extension_client \<Rightarrow> bool" where
  "client_inv c = ((\<forall>i. request_inv c i) \<and> (xc_reader c \<noteq> Reading \<longrightarrow> xc_fatal c \<noteq> None))"

lemma client_inv_start: "client_inv client_start"
  by (simp add: client_inv_def request_inv_def client_start_def)

lemmas client_moves = returns_def moves_def forget_def

lemma request_inv_fresh:
  "request_inv c i \<Longrightarrow> xc_counter c < i \<Longrightarrow>
   xc_requests c i = None \<and> i \<notin> xc_pending c \<and> xc_answers c i = None"
  by (auto simp: request_inv_def)

lemma request_inv_returned:
  "request_inv c j \<Longrightarrow> xc_requests c i \<in> {Some Entered, Some Writing, Some Waiting} \<Longrightarrow>
   request_inv (returns i r (forget i c)) j"
  by (auto simp: request_inv_def client_moves)

lemma client_act_request_inv:
  assumes "client_inv c" and "client_act a c = Some c'"
  shows "request_inv c' j"
proof -
  have j: "request_inv c j" and reader: "xc_reader c \<noteq> Reading \<longrightarrow> xc_fatal c \<noteq> None"
    and "request_inv c (Suc (xc_counter c))"
    using assms(1) by (simp_all add: client_inv_def)
  then have free: "xc_requests c (Suc (xc_counter c)) = None" "Suc (xc_counter c) \<notin> xc_pending c"
    "xc_answers c (Suc (xc_counter c)) = None"
    using request_inv_fresh [of c "Suc (xc_counter c)"] by simp_all
  show ?thesis
  proof (cases a)
    case BeginRequest
    show ?thesis
    proof (cases "xc_fatal c")
      case None
      with assms(2) BeginRequest
      have "c' = c\<lparr>xc_counter := Suc (xc_counter c), xc_requests := (xc_requests c)(Suc (xc_counter c) \<mapsto> Checked)\<rparr>"
        by (simp add: moves_def)
      then show ?thesis using j free None by (simp add: request_inv_def le_SucI)
    qed (use assms(2) j BeginRequest in simp)
  next
    case (EnterPending i)
    with assms(2) have i: "xc_requests c i = Some Checked"
      and c': "c' = moves i Entered (c\<lparr>xc_pending := insert i (xc_pending c)\<rparr>)"
      by (simp_all split: if_splits)
    have "request_inv c i" using assms(1) by (simp add: client_inv_def)
    with i have "xc_answers c i = None" "i \<le> xc_counter c" by (auto simp: request_inv_def)
    then show ?thesis using j i unfolding c' by (cases "j = i") (simp_all add: request_inv_def client_moves)
  next
    case (LookAgain i)
    with assms(2) have i: "xc_requests c i = Some Entered" by (simp split: if_splits)
    show ?thesis
    proof (cases "xc_fatal c")
      case None
      with assms(2) LookAgain i have c': "c' = moves i Writing c" by simp
      show ?thesis using j i None unfolding c' by (cases "j = i") (simp_all add: request_inv_def client_moves)
    next
      case (Some e)
      with assms(2) LookAgain i j show ?thesis by (auto intro: request_inv_returned)
    qed
  next
    case (WriteDone i)
    with assms(2) have i: "xc_requests c i = Some Writing" and c': "c' = moves i Waiting c"
      by (simp_all split: if_splits)
    show ?thesis using j i unfolding c' by (cases "j = i") (simp_all add: request_inv_def client_moves)
  next
    case (WriteFailed i e)
    with assms(2) j show ?thesis by (auto intro: request_inv_returned split: if_splits)
  next
    case (Reply i r)
    with assms(2) have c': "c' = (if i \<in> xc_pending c then forget i (c\<lparr>xc_answers := (xc_answers c)(i \<mapsto> r)\<rparr>) else c)"
      by (simp split: if_splits)
    show ?thesis using j unfolding c' by (auto simp: request_inv_def client_moves)
  next
    case (ReaderFails e ends)
    with assms(2) have c': "c' = c\<lparr>xc_fatal := (case xc_fatal c of Some f \<Rightarrow> Some f | None \<Rightarrow> Some e),
        xc_reader := Failing e ends\<rparr>"
      by (simp split: if_splits)
    show ?thesis using j unfolding c' by (simp add: request_inv_def)
  next
    case FailPending
    with assms(2) obtain e ends where c': "c' = c\<lparr>xc_pending := {},
        xc_answers := (\<lambda>i. if i \<in> xc_pending c then Some (Inl (JsonRpc e)) else xc_answers c i),
        xc_reader := (if ends then ReaderEnded else Reading)\<rparr>"
      by (auto split: reader_state.splits)
    show ?thesis using j unfolding c' by (auto simp: request_inv_def)
  next
    case (TakeAnswer i)
    with assms(2) obtain r where i: "xc_requests c i = Some Waiting" and c': "c' = returns i r c"
      and r: "xc_answers c i = Some r"
      by (auto split: if_splits option.splits)
    show ?thesis using j i r unfolding c' by (auto simp: request_inv_def client_moves)
  next
    case (TimedOut i m)
    with assms(2) j show ?thesis by (auto intro: request_inv_returned split: if_splits)
  next
    case (CancelRequest i)
    with assms(2) j show ?thesis by (auto intro: request_inv_returned split: if_splits)
  qed
qed

lemma client_act_inv:
  assumes "client_inv c" and "client_act a c = Some c'"
  shows "client_inv c'"
proof -
  have "xc_reader c' \<noteq> Reading \<longrightarrow> xc_fatal c' \<noteq> None"
    using assms by (cases a) (auto simp: client_inv_def client_moves Let_def split: if_splits option.splits reader_state.splits)
  with client_act_request_inv [OF assms] show ?thesis by (simp add: client_inv_def)
qed

lemma client_reaches_inv: "client_reaches as c \<Longrightarrow> client_inv c"
  by (induction rule: client_reaches.induct) (auto intro: client_inv_start client_act_inv)

text \<open>Answers and results come from the process, or are the errors of this side.\<close>

lemma client_reaches_replies:
  "client_reaches as c \<Longrightarrow>
   (\<forall>i v. xc_answers c i = Some (Inr v) \<longrightarrow> Reply i (Inr v) \<in> set as)
   \<and> (\<forall>i v. xc_requests c i = Some (Returned (Inr v)) \<longrightarrow> Reply i (Inr v) \<in> set as)"
proof (induction rule: client_reaches.induct)
  case (act as c a c')
  then show ?case
    by (cases a) (auto simp: client_moves Let_def split: if_splits option.splits reader_state.splits)
qed (simp add: client_start_def)

text \<open>C36: Whatever the interleaving of requests, replies, timeouts and the failure of an extension process, no request is lost: a waiting request is either still known to the reader or has its answer, after the reader has handed out a failure every waiting request has its answer and need not run into its timeout, and a request returns a value only when the process replied with that value to that request's own number.\<close>
theorem extension_requests_answered:
  assumes "client_reaches as c"
  shows "(xc_requests c i = Some Waiting \<longrightarrow> i \<in> xc_pending c \<or> xc_answers c i \<noteq> None)
    \<and> (xc_requests c i = Some Waiting \<and> xc_fatal c \<noteq> None \<and> \<not> is_failing (xc_reader c)
         \<longrightarrow> (\<exists>r. client_act (TakeAnswer i) c = Some (returns i r c)))
    \<and> (xc_requests c i = Some (Returned (Inr v)) \<longrightarrow> Reply i (Inr v) \<in> set as)"
proof -
  have inv: "request_inv c i" using client_reaches_inv [OF assms] by (simp add: client_inv_def)
  have known: "i \<in> xc_pending c \<or> xc_answers c i \<noteq> None" if "xc_requests c i = Some Waiting"
    using inv that by (simp add: request_inv_def)
  have "xc_answers c i \<noteq> None"
    if "xc_requests c i = Some Waiting" "xc_fatal c \<noteq> None" "\<not> is_failing (xc_reader c)"
    using inv that known [OF that(1)] by (auto simp: request_inv_def)
  then have "\<exists>r. client_act (TakeAnswer i) c = Some (returns i r c)"
    if "xc_requests c i = Some Waiting \<and> xc_fatal c \<noteq> None \<and> \<not> is_failing (xc_reader c)"
    using that by force
  with known client_reaches_replies [OF assms] show ?thesis by blast
qed

text \<open>A request that begins while the process ends: it is entered after the failure is handed out.\<close>

definition sample_actions :: "client_action list" where
  "sample_actions =
     [BeginRequest, EnterPending 1, LookAgain 1, BeginRequest, WriteDone 1, ReaderFails ''closed'' True,
      FailPending, EnterPending 2, LookAgain 2, TakeAnswer 1]"

fun client_run :: "client_action list \<Rightarrow> extension_client \<Rightarrow> extension_client option" where
  "client_run [] c = Some c"
| "client_run (a # as) c = Option.bind (client_act a c) (client_run as)"

lemma client_run_reaches: "client_run as c = Some c' \<Longrightarrow> client_reaches bs c \<Longrightarrow> client_reaches (bs @ as) c'"
proof (induction as arbitrary: bs c)
  case (Cons a as)
  from Cons.prems(1) obtain c1 where "client_act a c = Some c1" "client_run as c1 = Some c'"
    by (auto simp: bind_eq_Some_conv)
  with Cons.IH [of c1 "bs @ [a]"] act [OF Cons.prems(2)] show ?case by simp
qed simp

lemma sample_actions_run:
  "\<exists>c. client_run sample_actions client_start = Some c
     \<and> xc_requests c 1 = Some (Returned (Inl (JsonRpc ''closed'')))
     \<and> xc_requests c 2 = Some (Returned (Inl (JsonRpc ''closed'')))"
  by (simp add: sample_actions_def client_start_def client_moves)

lemma extension_requests_answered_witness:
  "\<exists>c. client_reaches (take 9 sample_actions) c \<and> xc_requests c 1 = Some Waiting
     \<and> (\<exists>r. client_act (TakeAnswer 1) c = Some (returns 1 r c))"
proof -
  obtain c where run: "client_run (take 9 sample_actions) client_start = Some c"
    and at: "xc_requests c 1 = Some Waiting" "xc_fatal c = Some ''closed''" "xc_reader c = ReaderEnded"
    by (simp add: sample_actions_def client_start_def client_moves)
  from client_run_reaches [OF run start] have reach: "client_reaches (take 9 sample_actions) c" by simp
  from extension_requests_answered [OF reach, of 1 JNull] reach at show ?thesis by auto
qed

section \<open>The events of a model stream\<close>

text \<open>
  \<open>collect_model_stream\<close>: the reader gives each event of the stream to the sink and then puts the
  result into a channel; the collector selects between the channel, the answer to the request, the
  timeout and the cancellation. The schedule says what arrives and which ready branch is selected.
\<close>

record stream_response =
  srp_stream_id :: "string option"
  srp_events :: "model_stream_event list"

record stream_collector =
  sco_queue :: "model_stream_event result list"
  sco_response :: "stream_response result option"
  sco_events :: "model_stream_event list"
  sco_response_done :: bool

datatype stream_action =
    EventRead "model_stream_event result"
  | ResponseRead "stream_response result"
  | SelectEvent
  | SelectResponse "unit result list"
  | SelectTimeout
  | SelectCancelled

fun model_stream_event_is_terminal :: "model_stream_event \<Rightarrow> bool" where
  "model_stream_event_is_terminal (Finished _) = True"
| "model_stream_event_is_terminal (Failed _) = True"
| "model_stream_event_is_terminal _ = False"

text \<open>The events of the answer, with what the sink says to each; the events, and whether one ended it.\<close>

fun response_events ::
  "model_stream_event list \<Rightarrow> unit result list \<Rightarrow> model_stream_event list
   \<Rightarrow> agent_core_error + (model_stream_event list \<times> bool)" where
  "response_events [] rs evs = Inr (evs, False)"
| "response_events (e # es) rs evs =
     (case rs of
        Inl x # _ \<Rightarrow> Inl x
      | _ \<Rightarrow> if model_stream_event_is_terminal e then Inr (evs @ [e], True)
             else response_events es (tl rs) (evs @ [e]))"

text \<open>\<open>Inl\<close>: the collector goes on; \<open>Inr\<close>: its result. A branch that is not ready is not selected.\<close>

fun stream_act ::
  "string \<Rightarrow> stream_action \<Rightarrow> stream_collector \<Rightarrow> stream_collector + model_stream_event list result" where
  "stream_act i (EventRead r) s = Inl (s\<lparr>sco_queue := sco_queue s @ [r]\<rparr>)"
| "stream_act i (ResponseRead r) s = Inl (s\<lparr>sco_response := Some r\<rparr>)"
| "stream_act i SelectEvent s =
     (case sco_queue s of
        [] \<Rightarrow> Inl s
      | Inl e # q \<Rightarrow> Inr (Inl e)
      | Inr ev # q \<Rightarrow>
          (let s = s\<lparr>sco_queue := q, sco_events := sco_events s @ [ev]\<rparr>
           in if model_stream_event_is_terminal ev then Inr (Inr (sco_events s)) else Inl s))"
| "stream_act i (SelectResponse rs) s =
     (case (sco_response_done s, sco_response s) of
        (False, Some (Inl e)) \<Rightarrow> Inr (Inl e)
      | (False, Some (Inr r)) \<Rightarrow>
          if (case srp_stream_id r of None \<Rightarrow> False | Some j \<Rightarrow> j \<noteq> i)
          then Inr (Inl (JsonRpc (''model stream id mismatch: expected '' @ i)))
          else (case response_events (srp_events r) rs (sco_events s) of
                  Inl e \<Rightarrow> Inr (Inl e)
                | Inr (evs, terminal) \<Rightarrow>
                    if terminal \<or> evs \<noteq> [] then Inr (Inr evs)
                    else Inl (s\<lparr>sco_response_done := True\<rparr>))
      | _ \<Rightarrow> Inl s)"
| "stream_act i SelectTimeout s = Inr (Inl (JsonRpc (''model stream timed out: '' @ i)))"
| "stream_act i SelectCancelled s = Inr (Inl Aborted)"

definition collector_start :: stream_collector where
  "collector_start = \<lparr>sco_queue = [], sco_response = None, sco_events = [], sco_response_done = False\<rparr>"

text \<open>\<open>None\<close>: the schedule ends and the collector still waits.\<close>

fun collect_model_stream ::
  "string \<Rightarrow> stream_action list \<Rightarrow> stream_collector \<Rightarrow> model_stream_event list result option" where
  "collect_model_stream i [] s = None"
| "collect_model_stream i (a # as) s =
     (case stream_act i a s of Inl s' \<Rightarrow> collect_model_stream i as s' | Inr r \<Rightarrow> Some r)"

text \<open>
  The answer may be selected while events that the reader has already given to the sink are still in
  the channel: the collected events then lack the end of the stream, although the process sent it.
\<close>

lemma events_behind_response_lost:
  "collect_model_stream i
     [EventRead (Inr (TextDelta ''a'')), EventRead (Inr (Finished Stop)),
      ResponseRead (Inr \<lparr>srp_stream_id = Some i, srp_events = []\<rparr>), SelectEvent, SelectResponse []]
     collector_start = Some (Inr [TextDelta ''a''])"
  by (simp add: collector_start_def)

end
