(* ===== verification/Telegram_Render.thy ===== *)
theory Telegram_Render
  imports Rust_Strings Core_Types Telegram_Text Session_Store Process_Manager
begin

text \<open>
  The text of a message for Telegram (\<open>crates/noloong-agent-telegram/src/render.rs\<close>): the blocks of an
  agent message, tables as lists, and the escaping of MarkdownV2; and the views of queued messages
  (\<open>queue.rs\<close>) and of the output of a process (\<open>process.rs\<close>).
\<close>

section \<open>Blocks\<close>

text \<open>The compact text of a JSON value is the argument \<open>js\<close>. \<open>filter_map\<close> over the nested content.\<close>

fun render_content_block_text :: "(json \<Rightarrow> string) \<Rightarrow> content_block \<Rightarrow> string option" where
  "render_content_block_text js (Text t) = Some t"
| "render_content_block_text js (Json v) = Some (js v)"
| "render_content_block_text js (Thinking t) = None"
| "render_content_block_text js (Media m) = Some ''[media]''"
| "render_content_block_text js (ToolCallBlock c) = None"
| "render_content_block_text js (ToolResult i tool_name content is_error) =
     Some ((if is_error then ''Tool failed'' else ''Tool completed'') @ '': '' @ tool_name @ [CHR 0x0A]
       @ join_with [CHR 0x0A] (concat (map (\<lambda>b. case render_content_block_text js b of None \<Rightarrow> [] | Some t \<Rightarrow> [t]) content)))"
| "render_content_block_text js (ProviderPayload p k v) = None"

definition render_agent_message_text :: "(json \<Rightarrow> string) \<Rightarrow> agent_message \<Rightarrow> string" where
  "render_agent_message_text js m =
     join_with [CHR 0x0A] (List.map_filter (render_content_block_text js) (msg_content m))"

section \<open>MarkdownV2\<close>

definition markdown_special :: "char set" where
  "markdown_special =
     {CHR ''_'', CHR ''*'', CHR ''['', CHR '']'', CHR ''('', CHR '')'', CHR ''~'', CHR ''`'', CHR ''>'', CHR ''#'',
      CHR ''+'', CHR ''-'', CHR ''='', CHR ''|'', CHR ''{'', CHR ''}'', CHR ''.'', CHR ''!''}"

definition backslash :: char where
  "backslash = CHR 0x5C"

definition escape_markdown_v2 :: "string \<Rightarrow> string" where
  "escape_markdown_v2 s = concat (map (\<lambda>c. if c \<in> markdown_special then [backslash, c] else [c]) s)"

text \<open>\<open>str::split\<close> with three backticks, left to right.\<close>

function split_fences_from :: "string \<Rightarrow> string \<Rightarrow> string list" where
  "split_fences_from acc s =
     (if s = [] then [acc]
      else if prefix ''```'' s then acc # split_fences_from [] (drop 3 s)
      else split_fences_from (acc @ [hd s]) (tl s))"
  by pat_completeness auto
termination
  by (relation "measure (\<lambda>(acc, s). length s)") (auto simp: length_greater_0_conv [symmetric] simp del: length_greater_0_conv)

declare split_fences_from.simps [simp del]

fun render_segments :: "bool \<Rightarrow> string list \<Rightarrow> string" where
  "render_segments fenced [] = []"
| "render_segments fenced (s # ss) =
     (if fenced then ''```'' @ s @ ''```'' else escape_markdown_v2 s) @ render_segments (\<not> fenced) ss"

definition render_markdown_v2 :: "string \<Rightarrow> string" where
  "render_markdown_v2 s =
     (let s = (if CHR ''|'' \<in> set s then rewrite_pipe_tables '', '' s else s)
      in render_segments False (split_fences_from [] s))"

section \<open>Reading escaped text\<close>

text \<open>
  How the service reads a text outside of code: a backslash takes the next character literally; a
  special character without one is markup, here \<open>None\<close>.
\<close>

fun read_markdown :: "string \<Rightarrow> string option" where
  "read_markdown [] = Some []"
| "read_markdown [c] = (if c \<in> markdown_special then None else Some [c])"
| "read_markdown (c # d # s) =
     (if c = backslash then map_option ((#) d) (read_markdown s)
      else if c \<in> markdown_special then None
      else map_option ((#) c) (read_markdown (d # s)))"

lemma backslash_not_special: "backslash \<notin> markdown_special"
  by (simp add: backslash_def markdown_special_def)

lemma read_escaped: "backslash \<notin> set s \<Longrightarrow> read_markdown (escape_markdown_v2 s) = Some s"
proof (induction s)
  case (Cons c s)
  then have IH: "read_markdown (escape_markdown_v2 s) = Some s" and c: "c \<noteq> backslash" by auto
  show ?case
  proof (cases "c \<in> markdown_special")
    case True
    with IH show ?thesis by (simp add: escape_markdown_v2_def)
  next
    case False
    have "read_markdown (c # t) = map_option ((#) c) (read_markdown t)" for t
      using c False by (cases t) auto
    with IH False show ?thesis by (simp add: escape_markdown_v2_def)
  qed
qed (simp add: escape_markdown_v2_def)

text \<open>
  The backslash is not escaped: a text that contains one before a special character reaches the service
  with the special character as markup.
\<close>

lemma read_special: "c \<in> markdown_special \<Longrightarrow> read_markdown (c # t) = None"
  using backslash_not_special by (cases t) auto

lemma backslash_not_escaped: "read_markdown (escape_markdown_v2 (backslash # CHR ''_'' # s)) = None"
proof -
  have special: "CHR ''_'' \<in> markdown_special" by (simp add: markdown_special_def)
  have "escape_markdown_v2 (backslash # CHR ''_'' # s) = backslash # backslash # CHR ''_'' # escape_markdown_v2 s"
    using special backslash_not_special by (simp add: escape_markdown_v2_def)
  then show ?thesis by (simp add: read_special [OF special])
qed

text \<open>
  Short views for a chat (\<open>crates/noloong-agent-telegram/src/queue.rs\<close>, \<open>process.rs\<close>): the summary of a
  queued message and the output of a process.
\<close>

section \<open>Queued messages\<close>

definition QUEUE_MESSAGE_RENDER_LIMIT :: nat where
  "QUEUE_MESSAGE_RENDER_LIMIT = 120"

record queue_summary_labels =
  qsl_non_text_message :: string
  qsl_json :: string
  qsl_file :: string
  qsl_image :: string
  qsl_audio :: string
  qsl_video :: string

fun media_kind_label :: "queue_summary_labels \<Rightarrow> media_kind \<Rightarrow> string" where
  "media_kind_label labels MK_File = qsl_file labels"
| "media_kind_label labels MK_Image = qsl_image labels"
| "media_kind_label labels MK_Audio = qsl_audio labels"
| "media_kind_label labels MK_Video = qsl_video labels"
| "media_kind_label labels (MK_Custom k) = k"

fun content_summary :: "queue_summary_labels \<Rightarrow> content_block \<Rightarrow> string option" where
  "content_summary labels (Text t) = (if is_blank t then None else Some (trim t))"
| "content_summary labels (Json v) = Some (qsl_json labels)"
| "content_summary labels (Media m) = Some (''['' @ media_kind_label labels (mb_kind m) @ '']'')"
| "content_summary labels _ = None"

definition append_with_limit :: "string \<Rightarrow> string \<Rightarrow> nat \<Rightarrow> string \<times> bool" where
  "append_with_limit target s max_chars =
     (let remaining = max_chars - char_count target
      in (target @ chars_before s remaining, remaining < char_count s))"

fun summarize_blocks :: "queue_summary_labels \<Rightarrow> string \<Rightarrow> content_block list \<Rightarrow> string \<times> bool" where
  "summarize_blocks labels summary [] = (summary, False)"
| "summarize_blocks labels summary (b # bs) =
     (case content_summary labels b of
        None \<Rightarrow> summarize_blocks labels summary bs
      | Some part \<Rightarrow>
          (case (if summary = [] then (summary, False)
                 else append_with_limit summary '' '' QUEUE_MESSAGE_RENDER_LIMIT) of
             (summary, True) \<Rightarrow> (summary, True)
           | (summary, False) \<Rightarrow>
               (case append_with_limit summary part QUEUE_MESSAGE_RENDER_LIMIT of
                  (summary, True) \<Rightarrow> (summary, True)
                | (summary, False) \<Rightarrow> summarize_blocks labels summary bs)))"

definition summarize_queued_message :: "session_queued_message \<Rightarrow> queue_summary_labels \<Rightarrow> string" where
  "summarize_queued_message m labels =
     (case summarize_blocks labels [] (msg_content (sqm_message m)) of
        (summary, truncated) \<Rightarrow>
          (let summary = (if summary = [] then qsl_non_text_message labels else summary)
           in if truncated
              then truncate_string_to_chars summary (QUEUE_MESSAGE_RENDER_LIMIT - 3) @ ''...''
              else summary))"

text \<open>The summary of blocks never has more characters than the limit, so that the shortened one has not either.\<close>

lemma append_with_limit_bound:
  assumes "rust_str target" "rust_str s" "char_count target \<le> n" and "append_with_limit target s n = (t, b)"
  shows "rust_str t \<and> char_count t \<le> n"
  using assms char_count_chars_before [OF assms(2)]
  by (auto simp: append_with_limit_def Let_def char_count_append rust_str_append)

lemma summarize_blocks_bound:
  assumes "\<And>b part. b \<in> set bs \<Longrightarrow> content_summary labels b = Some part \<Longrightarrow> rust_str part"
    and "rust_str summary" and "char_count summary \<le> QUEUE_MESSAGE_RENDER_LIMIT"
  shows "rust_str (fst (summarize_blocks labels summary bs))
    \<and> char_count (fst (summarize_blocks labels summary bs)) \<le> QUEUE_MESSAGE_RENDER_LIMIT"
  using assms
proof (induction bs arbitrary: summary)
  case (Cons b bs)
  show ?case
  proof (cases "content_summary labels b")
    case (Some part)
    have part: "rust_str part" using Cons.prems(1) [of b] Some by simp
    obtain s1 full where one: "(if summary = [] then (summary, False)
        else append_with_limit summary '' '' QUEUE_MESSAGE_RENDER_LIMIT) = (s1, full)" by force
    have "rust_str '' ''" by (simp add: rust_str_def is_continuation_def)
    then have s1: "rust_str s1 \<and> char_count s1 \<le> QUEUE_MESSAGE_RENDER_LIMIT"
      using one Cons.prems(2,3) append_with_limit_bound [of summary "'' ''"]
      by (cases "summary = []") auto
    obtain s2 full2 where two: "append_with_limit s1 part QUEUE_MESSAGE_RENDER_LIMIT = (s2, full2)" by force
    then have s2: "rust_str s2 \<and> char_count s2 \<le> QUEUE_MESSAGE_RENDER_LIMIT"
      using append_with_limit_bound [OF _ part _ two] s1 by simp
    have "rust_str (fst (summarize_blocks labels s2 bs))
        \<and> char_count (fst (summarize_blocks labels s2 bs)) \<le> QUEUE_MESSAGE_RENDER_LIMIT"
      by (rule Cons.IH) (use Cons.prems(1) s2 in auto)
    then show ?thesis
      using Some one two s1 s2 by (cases full; cases full2) (simp_all split: if_splits)
  next
    case None
    have "rust_str (fst (summarize_blocks labels summary bs))
        \<and> char_count (fst (summarize_blocks labels summary bs)) \<le> QUEUE_MESSAGE_RENDER_LIMIT"
      by (rule Cons.IH) (use Cons.prems in auto)
    with None show ?thesis by simp
  qed
qed simp

section \<open>Output of a process\<close>

definition PROCESS_OUTPUT_INLINE_CHAR_LIMIT :: nat where
  "PROCESS_OUTPUT_INLINE_CHAR_LIMIT = 3000"

definition process_output_read_max_bytes :: nat where
  "process_output_read_max_bytes = 8 * 1024"

fun stream_label :: "process_output_stream \<Rightarrow> string" where
  "stream_label Stdout = ''stdout''"
| "stream_label Stderr = ''stderr''"

definition render_output_chunks :: "output_chunk list \<Rightarrow> string" where
  "render_output_chunks cs =
     fold (\<lambda>c s. (if s = [] then [] else s @ [CHR 0x0A])
        @ stream_label (oc_stream c) @ '' #'' @ show_nat (oc_seq c) @ [CHR 0x0A] @ oc_text c) cs []"

definition render_process_output :: "process_output \<Rightarrow> string" where
  "render_process_output out =
     (let s = render_output_chunks (po_chunks out) in if is_blank s then s @ ''[no output]'' else s)"

definition process_output_filename :: "string \<Rightarrow> string" where
  "process_output_filename job_id = ''process-'' @ job_id @ ''.txt''"

definition process_snapshot_label :: "job_snapshot \<Rightarrow> string" where
  "process_snapshot_label j = js_job_id j @ '' '' @ js_command j"

lemma stream_label_not_Nil: "stream_label x \<noteq> []"
  by (cases x) simp_all

lemma join_with_snoc: "join_with sep (xs @ [x]) = (if xs = [] then x else join_with sep xs @ sep @ x)"
proof (induction xs)
  case (Cons y ys)
  then show ?case by (cases ys) simp_all
qed simp

lemma render_output_chunks_join:
  "render_output_chunks cs = join_with [CHR 0x0A]
     (map (\<lambda>c. stream_label (oc_stream c) @ '' #'' @ show_nat (oc_seq c) @ [CHR 0x0A] @ oc_text c) cs)"
proof (induction cs rule: rev_induct)
  case (snoc c cs)
  have "render_output_chunks cs = [] \<longleftrightarrow> cs = []"
    by (cases cs rule: rev_cases) (simp_all add: render_output_chunks_def stream_label_not_Nil)
  with snoc show ?case by (simp add: render_output_chunks_def join_with_snoc)
qed (simp add: render_output_chunks_def)

end
