(* ===== verification/Telegram_Input.thy ===== *)
theory Telegram_Input
  imports Telegram_Text Ordered_Maps "HOL-Library.Product_Lexorder" "HOL-Library.Option_ord" Rust_Strings Host_Files
begin

text \<open>
  What the bot receives (\<open>crates/noloong-agent-telegram/src/input.rs\<close>, the update types of
  \<open>polling.rs\<close>, the file policy of \<open>config.rs\<close>): messages, attachments, commands and the batches of
  texts that arrive shortly after one another; and who may talk to the bot (\<open>access.rs\<close>).
\<close>

text \<open>
  Who may speak to the bot, and when it listens in a group
  (\<open>crates/noloong-agent-telegram/src/access.rs\<close>).
\<close>

section \<open>Mentions\<close>

definition telegram_username_body :: "string \<Rightarrow> string" where
  "telegram_username_body username = trim_start_by (\<lambda>c. c = CHR ''@'') (trim username)"

definition telegram_username_matches :: "string \<Rightarrow> string option \<Rightarrow> bool" where
  "telegram_username_matches username expected =
     (case expected of
        None \<Rightarrow> False
      | Some e \<Rightarrow> ascii_lowercase (telegram_username_body username) = ascii_lowercase (telegram_username_body e))"

definition trim_mention_token :: "string \<Rightarrow> string" where
  "trim_mention_token word =
     trim_by (\<lambda>c. is_ascii_punctuation c \<and> c \<noteq> CHR ''@'' \<and> c \<noteq> CHR ''_'') word"

definition mention_token_matches_username :: "string \<Rightarrow> string \<Rightarrow> bool" where
  "mention_token_matches_username word username =
     (let token = trim_mention_token word
      in prefix ''@'' token \<and> telegram_username_matches token (Some username))"

definition telegram_text_mentions_username :: "string \<Rightarrow> string \<Rightarrow> bool" where
  "telegram_text_mentions_username s username =
     list_ex (\<lambda>w. mention_token_matches_username w username) (split_whitespace s)"

definition telegram_text_without_username_mention :: "string \<Rightarrow> string \<Rightarrow> string" where
  "telegram_text_without_username_mention s username =
     trim (join_with '' '' (filter (\<lambda>w. \<not> mention_token_matches_username w username) (split_whitespace s)))"

section \<open>Inputs\<close>

datatype telegram_reply_media_kind = ReplyPhoto | ReplyDocument | ReplyAudio | ReplyVoice | ReplyVideo

fun reply_media_as_str :: "telegram_reply_media_kind \<Rightarrow> string" where
  "reply_media_as_str ReplyPhoto = ''photo''"
| "reply_media_as_str ReplyDocument = ''document''"
| "reply_media_as_str ReplyAudio = ''audio''"
| "reply_media_as_str ReplyVoice = ''voice''"
| "reply_media_as_str ReplyVideo = ''video''"

record telegram_reply_context =
  trc_message_id :: int
  trc_chat_id :: int
  trc_thread_id :: "int option"
  trc_user_id :: "nat option"
  trc_username :: "string option"
  trc_text_preview :: "string option"
  trc_media_kinds :: "telegram_reply_media_kind list"

datatype telegram_chat_kind = PrivateChat | GroupChat | Supergroup | Channel | UnknownChat string

definition chat_kind_parse :: "string \<Rightarrow> telegram_chat_kind" where
  "chat_kind_parse s =
     (if s = ''private'' then PrivateChat else if s = ''group'' then GroupChat
      else if s = ''supergroup'' then Supergroup else if s = ''channel'' then Channel else UnknownChat s)"

fun chat_kind_as_str :: "telegram_chat_kind \<Rightarrow> string" where
  "chat_kind_as_str PrivateChat = ''private''"
| "chat_kind_as_str GroupChat = ''group''"
| "chat_kind_as_str Supergroup = ''supergroup''"
| "chat_kind_as_str Channel = ''channel''"
| "chat_kind_as_str (UnknownChat s) = s"

definition chat_is_group :: "telegram_chat_kind \<Rightarrow> bool" where
  "chat_is_group k = (k = GroupChat \<or> k = Supergroup)"

lemma chat_kind_roundtrip: "chat_kind_as_str (chat_kind_parse s) = s"
  by (simp add: chat_kind_parse_def)

record telegram_text_input =
  tti_chat_id :: int
  tti_thread_id :: "int option"
  tti_chat_kind :: telegram_chat_kind
  tti_user_id :: "nat option"
  tti_message_id :: int
  tti_text :: string
  tti_is_reply_to_bot :: bool
  tti_reply_to :: "telegram_reply_context option"

definition addresses_bot :: "telegram_text_input \<Rightarrow> string option \<Rightarrow> bool" where
  "addresses_bot i bot_username =
     (tti_is_reply_to_bot i \<or>
      (case bot_username of None \<Rightarrow> False | Some u \<Rightarrow> telegram_text_mentions_username (tti_text i) u))"

definition text_without_bot_mention :: "telegram_text_input \<Rightarrow> string option \<Rightarrow> string" where
  "text_without_bot_mention i bot_username =
     (case bot_username of
        None \<Rightarrow> trim (tti_text i)
      | Some u \<Rightarrow> telegram_text_without_username_mention (tti_text i) u)"

section \<open>The policy\<close>

record telegram_access_policy =
  tap_allow_all :: bool
  tap_allowed_chat_ids :: "int set"
  tap_allowed_user_ids :: "nat set"
  tap_require_mention_in_groups :: bool

definition access_policy_default :: telegram_access_policy where
  "access_policy_default =
     \<lparr>tap_allow_all = False, tap_allowed_chat_ids = {}, tap_allowed_user_ids = {}, tap_require_mention_in_groups = True\<rparr>"

definition access_policy_new :: "int list \<Rightarrow> nat list \<Rightarrow> telegram_access_policy" where
  "access_policy_new chats users =
     access_policy_default\<lparr>tap_allowed_chat_ids := set chats, tap_allowed_user_ids := set users\<rparr>"

definition access_policy_allow_all :: telegram_access_policy where
  "access_policy_allow_all = access_policy_default\<lparr>tap_allow_all := True\<rparr>"

definition policy_is_empty :: "telegram_access_policy \<Rightarrow> bool" where
  "policy_is_empty p = (tap_allowed_chat_ids p = {} \<and> tap_allowed_user_ids p = {})"

datatype telegram_config_error =
    MissingBotToken | InvalidBotUsername | MissingInteractionUrl | MissingAllowlist | InvalidFilePolicy string

definition access_policy_validate :: "telegram_access_policy \<Rightarrow> telegram_config_error + unit" where
  "access_policy_validate p =
     (if tap_allow_all p \<or> \<not> policy_is_empty p then Inr () else Inl MissingAllowlist)"

definition policy_allows :: "telegram_access_policy \<Rightarrow> int \<Rightarrow> nat option \<Rightarrow> bool" where
  "policy_allows p chat_id user_id =
     (tap_allow_all p \<or> chat_id \<in> tap_allowed_chat_ids p
      \<or> (case user_id of None \<Rightarrow> False | Some u \<Rightarrow> u \<in> tap_allowed_user_ids p))"

definition requires_group_gate :: "telegram_access_policy \<Rightarrow> telegram_text_input \<Rightarrow> bool" where
  "requires_group_gate p i = (tap_require_mention_in_groups p \<and> chat_is_group (tti_chat_kind i))"

definition accepts_text :: "telegram_access_policy \<Rightarrow> telegram_text_input \<Rightarrow> string option \<Rightarrow> bool" where
  "accepts_text p i bot_username =
     (policy_allows p (tti_chat_id i) (tti_user_id i)
      \<and> (\<not> requires_group_gate p i \<or> addresses_bot i bot_username) \<and> \<not> is_blank (tti_text i))"

text \<open>
  Without an allow list nobody is let in, and such a policy is not accepted; with one, a text is taken
  from an allowed chat or user only.
\<close>

lemma invalid_policy_accepts_nothing: "access_policy_validate p = Inl e \<Longrightarrow> \<not> accepts_text p i b"
  by (auto simp: access_policy_validate_def policy_is_empty_def accepts_text_def policy_allows_def
      split: if_splits option.splits)

lemma accepted_is_allowed:
  "accepts_text p i b \<Longrightarrow> \<not> tap_allow_all p \<Longrightarrow>
   tti_chat_id i \<in> tap_allowed_chat_ids p \<or> (\<exists>u \<in> tap_allowed_user_ids p. tti_user_id i = Some u)"
  by (auto simp: accepts_text_def policy_allows_def split: option.splits)

lemma group_text_addresses_bot:
  "accepts_text p i b \<Longrightarrow> tap_require_mention_in_groups p \<Longrightarrow> chat_is_group (tti_chat_kind i) \<Longrightarrow>
   tti_is_reply_to_bot i \<or> (\<exists>u. b = Some u \<and> telegram_text_mentions_username (tti_text i) u)"
  by (auto simp: accepts_text_def requires_group_gate_def addresses_bot_def split: option.splits)

section \<open>Updates\<close>

record telegram_chat =
  tch_id :: int
  tch_kind :: string

record telegram_user =
  tus_id :: nat
  tus_username :: "string option"

datatype telegram_entity_kind = BotCommand | UnknownEntity string

fun entity_kind_as_str :: "telegram_entity_kind \<Rightarrow> string" where
  "entity_kind_as_str BotCommand = ''bot_command''"
| "entity_kind_as_str (UnknownEntity s) = s"

definition entity_kind_parse :: "string \<Rightarrow> telegram_entity_kind" where
  "entity_kind_parse s = (if s = ''bot_command'' then BotCommand else UnknownEntity s)"

record telegram_message_entity =
  tme_kind :: telegram_entity_kind
  tme_offset :: nat
  tme_length :: nat

definition is_bot_command_at_start :: "telegram_message_entity \<Rightarrow> bool" where
  "is_bot_command_at_start e = (tme_kind e = BotCommand \<and> tme_offset e = 0)"

record telegram_photo_size =
  tps_file_id :: string
  tps_file_unique_id :: string
  tps_width :: nat
  tps_height :: nat
  tps_file_size :: "nat option"

text \<open>Documents, audio, voice and video have the same file fields, and their own dimensions.\<close>

record telegram_file_fields =
  tff_file_id :: string
  tff_file_unique_id :: string
  tff_file_name :: "string option"
  tff_mime_type :: "string option"
  tff_file_size :: "nat option"

datatype telegram_message = TelegramMessage
  (tm_message_id: int)
  (tm_thread_id: "int option")
  (tm_chat: telegram_chat)
  (tm_from: "telegram_user option")
  (tm_text: "string option")
  (tm_caption: "string option")
  (tm_entities: "telegram_message_entity list")
  (tm_caption_entities: "telegram_message_entity list")
  (tm_photo: "telegram_photo_size list")
  (tm_document: "telegram_file_fields option")
  (tm_audio: "(telegram_file_fields \<times> nat) option")
  (tm_voice: "(telegram_file_fields \<times> nat) option")
  (tm_video: "(telegram_file_fields \<times> nat \<times> nat \<times> nat) option")
  (tm_reply_to: "telegram_message option")

definition has_text_input :: "telegram_message \<Rightarrow> bool" where
  "has_text_input m =
     (case (case tm_text m of None \<Rightarrow> tm_caption m | Some t \<Rightarrow> Some t) of
        None \<Rightarrow> False | Some t \<Rightarrow> \<not> is_blank t)"

definition has_attachment_input :: "telegram_message \<Rightarrow> bool" where
  "has_attachment_input m =
     (tm_photo m \<noteq> [] \<or> tm_document m \<noteq> None \<or> tm_audio m \<noteq> None \<or> tm_voice m \<noteq> None \<or> tm_video m \<noteq> None)"

definition has_user_input :: "telegram_message \<Rightarrow> bool" where
  "has_user_input m = (has_text_input m \<or> has_attachment_input m)"

section \<open>Attachments\<close>

datatype telegram_attachment_kind =
    PhotoAttachment nat nat
  | DocumentAttachment
  | AudioAttachment nat
  | VoiceAttachment nat
  | VideoAttachment nat nat nat

record telegram_attachment =
  tat_file :: telegram_file_fields
  tat_kind :: telegram_attachment_kind

text \<open>\<open>max_by_key\<close> with the size and the area: the last of the greatest.\<close>

definition photo_key :: "telegram_photo_size \<Rightarrow> nat \<times> nat" where
  "photo_key p = ((case tps_file_size p of None \<Rightarrow> 0 | Some n \<Rightarrow> n), tps_width p * tps_height p)"

definition photo_key_le :: "telegram_photo_size \<Rightarrow> telegram_photo_size \<Rightarrow> bool" where
  "photo_key_le p q =
     (fst (photo_key p) < fst (photo_key q)
      \<or> (fst (photo_key p) = fst (photo_key q) \<and> snd (photo_key p) \<le> snd (photo_key q)))"

fun best_photo_size :: "telegram_photo_size list \<Rightarrow> telegram_photo_size option" where
  "best_photo_size [] = None"
| "best_photo_size (p # ps) =
     (case best_photo_size ps of None \<Rightarrow> Some p | Some q \<Rightarrow> Some (if photo_key_le p q then q else p))"

definition attachment_from_photo :: "telegram_photo_size \<Rightarrow> telegram_attachment" where
  "attachment_from_photo p =
     \<lparr>tat_file = \<lparr>tff_file_id = tps_file_id p, tff_file_unique_id = tps_file_unique_id p, tff_file_name = None,
        tff_mime_type = None, tff_file_size = tps_file_size p\<rparr>,
      tat_kind = PhotoAttachment (tps_width p) (tps_height p)\<rparr>"

text \<open>A voice message has no file name.\<close>

definition telegram_attachments :: "telegram_message \<Rightarrow> telegram_attachment list" where
  "telegram_attachments m =
     (case best_photo_size (tm_photo m) of None \<Rightarrow> [] | Some p \<Rightarrow> [attachment_from_photo p])
     @ (case tm_document m of None \<Rightarrow> [] | Some f \<Rightarrow> [\<lparr>tat_file = f, tat_kind = DocumentAttachment\<rparr>])
     @ (case tm_audio m of None \<Rightarrow> [] | Some (f, d) \<Rightarrow> [\<lparr>tat_file = f, tat_kind = AudioAttachment d\<rparr>])
     @ (case tm_voice m of None \<Rightarrow> []
        | Some (f, d) \<Rightarrow> [\<lparr>tat_file = f\<lparr>tff_file_name := None\<rparr>, tat_kind = VoiceAttachment d\<rparr>])
     @ (case tm_video m of None \<Rightarrow> [] | Some (f, w, h, d) \<Rightarrow> [\<lparr>tat_file = f, tat_kind = VideoAttachment w h d\<rparr>])"

fun attachment_width :: "telegram_attachment_kind \<Rightarrow> nat option" where
  "attachment_width (PhotoAttachment w h) = Some w"
| "attachment_width (VideoAttachment w h d) = Some w"
| "attachment_width _ = None"

fun attachment_height :: "telegram_attachment_kind \<Rightarrow> nat option" where
  "attachment_height (PhotoAttachment w h) = Some h"
| "attachment_height (VideoAttachment w h d) = Some h"
| "attachment_height _ = None"

fun attachment_duration :: "telegram_attachment_kind \<Rightarrow> nat option" where
  "attachment_duration (AudioAttachment d) = Some d"
| "attachment_duration (VoiceAttachment d) = Some d"
| "attachment_duration (VideoAttachment w h d) = Some d"
| "attachment_duration _ = None"

lemma best_photo_size_None [simp]: "best_photo_size ps = None \<longleftrightarrow> ps = []"
  by (cases ps) (auto split: option.splits)

lemma attachments_iff: "telegram_attachments m \<noteq> [] \<longleftrightarrow> has_attachment_input m"
  by (cases m) (auto simp: telegram_attachments_def has_attachment_input_def split: option.splits)

section \<open>Replies and texts\<close>

definition TELEGRAM_REPLY_TEXT_PREVIEW_LIMIT_UTF16_UNITS :: nat where
  "TELEGRAM_REPLY_TEXT_PREVIEW_LIMIT_UTF16_UNITS = 512"

fun take_utf16_units :: "nat \<Rightarrow> string list \<Rightarrow> string" where
  "take_utf16_units n [] = []"
| "take_utf16_units n (c # cs) = (if len_utf16 c \<le> n then c @ take_utf16_units (n - len_utf16 c) cs else [])"

definition truncate_utf16_units :: "string \<Rightarrow> nat \<Rightarrow> string" where
  "truncate_utf16_units s max_units = take_utf16_units max_units (utf8_chars s)"

definition trim_owned_text :: "string \<Rightarrow> string option" where
  "trim_owned_text s = (let t = trim s in if t = [] then None else Some t)"

definition message_text :: "string option \<Rightarrow> string option \<Rightarrow> string option" where
  "message_text t caption =
     Option.bind (case t of None \<Rightarrow> caption | Some x \<Rightarrow> Some x) trim_owned_text"

definition telegram_reply_media_kinds :: "telegram_message \<Rightarrow> telegram_reply_media_kind list" where
  "telegram_reply_media_kinds m =
     (if tm_photo m \<noteq> [] then [ReplyPhoto] else []) @ (if tm_document m \<noteq> None then [ReplyDocument] else [])
     @ (if tm_audio m \<noteq> None then [ReplyAudio] else []) @ (if tm_voice m \<noteq> None then [ReplyVoice] else [])
     @ (if tm_video m \<noteq> None then [ReplyVideo] else [])"

definition telegram_reply_context :: "telegram_message \<Rightarrow> telegram_reply_context" where
  "telegram_reply_context m =
     \<lparr>trc_message_id = tm_message_id m, trc_chat_id = tch_id (tm_chat m), trc_thread_id = tm_thread_id m,
      trc_user_id = map_option tus_id (tm_from m), trc_username = Option.bind (tm_from m) tus_username,
      trc_text_preview = map_option (\<lambda>t. truncate_utf16_units t TELEGRAM_REPLY_TEXT_PREVIEW_LIMIT_UTF16_UNITS)
        (message_text (tm_text m) (tm_caption m)),
      trc_media_kinds = telegram_reply_media_kinds m\<rparr>"

definition message_is_reply_to_bot :: "telegram_message \<Rightarrow> string option \<Rightarrow> bool" where
  "message_is_reply_to_bot m bot_username =
     (case Option.bind (Option.bind (tm_reply_to m) tm_from) tus_username of
        None \<Rightarrow> False | Some u \<Rightarrow> telegram_username_matches u bot_username)"

record telegram_inbound_context =
  tic_chat_id :: int
  tic_thread_id :: "int option"
  tic_chat_kind :: telegram_chat_kind
  tic_user_id :: "nat option"
  tic_message_id :: int
  tic_is_reply_to_bot :: bool
  tic_reply_to :: "telegram_reply_context option"

definition context_from_message :: "telegram_message \<Rightarrow> string option \<Rightarrow> telegram_inbound_context" where
  "context_from_message m bot_username =
     \<lparr>tic_chat_id = tch_id (tm_chat m), tic_thread_id = tm_thread_id m,
      tic_chat_kind = chat_kind_parse (tch_kind (tm_chat m)), tic_user_id = map_option tus_id (tm_from m),
      tic_message_id = tm_message_id m, tic_is_reply_to_bot = message_is_reply_to_bot m bot_username,
      tic_reply_to = map_option telegram_reply_context (tm_reply_to m)\<rparr>"

section \<open>Commands\<close>

text \<open>\<open>split_once(char::is_whitespace)\<close>: the token, and the arguments with their ends trimmed.\<close>

fun split_token :: "string list \<Rightarrow> string \<times> string" where
  "split_token [] = ([], [])"
| "split_token (c # cs) =
     (if c \<in> set utf8_white_space then ([], trim (concat cs))
      else case split_token cs of (t, a) \<Rightarrow> (c @ t, a))"

definition split_once_char :: "char \<Rightarrow> string \<Rightarrow> string \<times> string option" where
  "split_once_char c s =
     (takeWhile (\<lambda>x. x \<noteq> c) s, if c \<in> set s then Some (tl (dropWhile (\<lambda>x. x \<noteq> c) s)) else None)"

definition parse_command_token :: "string \<Rightarrow> (string \<times> string option) option" where
  "parse_command_token token =
     (case strip_prefix ''/'' token of
        None \<Rightarrow> None
      | Some command \<Rightarrow>
          (case split_once_char (CHR ''@'') command of
             (name, username) \<Rightarrow>
               if name = [] \<or> \<not> list_all (\<lambda>c. is_ascii_alphanumeric c \<or> c = CHR ''_'') name then None
               else Some (ascii_lowercase name, username)))"

record parsed_command =
  pcm_name :: string
  pcm_bot_username :: "string option"
  pcm_args :: string

definition parse_command_text ::
  "string \<Rightarrow> telegram_message_entity list \<Rightarrow> string option \<Rightarrow> parsed_command option" where
  "parse_command_text s entities bot_username =
     (let trimmed = trim_start s
      in if \<not> list_ex is_bot_command_at_start entities \<and> \<not> prefix ''/'' trimmed then None
         else if \<not> prefix ''/'' trimmed then None
         else case split_token (utf8_chars trimmed) of
           (token, args) \<Rightarrow>
             (case parse_command_token token of
                None \<Rightarrow> None
              | Some (name, username) \<Rightarrow>
                  if (case username of None \<Rightarrow> False | Some u \<Rightarrow> \<not> telegram_username_matches u bot_username)
                  then None
                  else Some \<lparr>pcm_name = name, pcm_bot_username = username, pcm_args = args\<rparr>))"

record telegram_command =
  tcm_context :: telegram_inbound_context
  tcm_name :: string
  tcm_bot_username :: "string option"
  tcm_args :: string
  tcm_raw_text :: string

definition command_from_message :: "telegram_message \<Rightarrow> string option \<Rightarrow> telegram_command option" where
  "command_from_message m bot_username =
     (case tm_text m of
        None \<Rightarrow> None
      | Some t \<Rightarrow> map_option
          (\<lambda>p. \<lparr>tcm_context = context_from_message m bot_username, tcm_name = pcm_name p,
                tcm_bot_username = pcm_bot_username p, tcm_args = pcm_args p, tcm_raw_text = t\<rparr>)
          (parse_command_text t (tm_entities m) bot_username))"

record telegram_inbound_message =
  tim_context :: telegram_inbound_context
  tim_text :: "string option"
  tim_attachments :: "telegram_attachment list"

definition inbound_from_message :: "telegram_message \<Rightarrow> string option \<Rightarrow> telegram_inbound_message option" where
  "inbound_from_message m bot_username =
     (let attachments = telegram_attachments m; t = message_text (tm_text m) (tm_caption m)
      in if t = None \<and> attachments = [] then None
         else Some \<lparr>tim_context = context_from_message m bot_username, tim_text = t, tim_attachments = attachments\<rparr>)"

datatype telegram_inbound_update = InboundMessage telegram_inbound_message | InboundCommand telegram_command

definition inbound_update :: "telegram_message \<Rightarrow> string option \<Rightarrow> telegram_inbound_update option" where
  "inbound_update m bot_username =
     (case command_from_message m bot_username of
        Some c \<Rightarrow> Some (InboundCommand c)
      | None \<Rightarrow> map_option InboundMessage (inbound_from_message m bot_username))"

definition into_text_input :: "telegram_inbound_message \<Rightarrow> telegram_text_input option" where
  "into_text_input m =
     (if tim_attachments m \<noteq> [] then None
      else map_option
        (\<lambda>t. let c = tim_context m in
          \<lparr>tti_chat_id = tic_chat_id c, tti_thread_id = tic_thread_id c, tti_chat_kind = tic_chat_kind c,
           tti_user_id = tic_user_id c, tti_message_id = tic_message_id c, tti_text = t,
           tti_is_reply_to_bot = tic_is_reply_to_bot c, tti_reply_to = tic_reply_to c\<rparr>)
        (tim_text m))"

text \<open>Every message with input of the user is a command or a message, and no other is.\<close>

lemma message_text_None: "message_text t caption = None \<longleftrightarrow>
  (case (case t of None \<Rightarrow> caption | Some x \<Rightarrow> Some x) of None \<Rightarrow> True | Some x \<Rightarrow> is_blank x)"
  by (auto simp: message_text_def trim_owned_text_def is_blank_def Let_def split: option.splits)

lemma inbound_message_iff: "inbound_from_message m b \<noteq> None \<longleftrightarrow> has_user_input m"
  using attachments_iff [of m]
  by (auto simp: inbound_from_message_def has_user_input_def has_text_input_def message_text_None Let_def
      split: option.splits)

section \<open>Batches\<close>

record telegram_batcher_config =
  tbc_message_window_ms :: nat
  tbc_long_split_window_ms :: nat

definition batcher_config_default :: telegram_batcher_config where
  "batcher_config_default = \<lparr>tbc_message_window_ms = 600, tbc_long_split_window_ms = 2000\<rparr>"

type_synonym telegram_batch_key = "int \<times> int option \<times> nat option \<times> int option"

definition batch_key :: "telegram_text_input \<Rightarrow> telegram_batch_key" where
  "batch_key i = (tti_chat_id i, tti_thread_id i, tti_user_id i, map_option trc_message_id (tti_reply_to i))"

record telegram_text_batch =
  ttb_input :: telegram_text_input
  ttb_ready_at_ms :: nat

type_synonym telegram_batches = "(telegram_batch_key, telegram_text_batch) btree_map"

definition join_text :: "string \<Rightarrow> string \<Rightarrow> string" where
  "join_text existing new_text =
     (if existing = [] then new_text else if new_text = [] then existing
      else existing @ [CHR 0x0A] @ new_text)"

definition U64_MAX_MS :: nat where
  "U64_MAX_MS = 2 ^ 64 - 1"

definition batch_ready_at :: "telegram_batcher_config \<Rightarrow> telegram_text_input \<Rightarrow> nat \<Rightarrow> nat" where
  "batch_ready_at config i now =
     min U64_MAX_MS (now + (if DEFAULT_TELEGRAM_TEXT_LIMIT_UTF16_UNITS \<le> telegram_utf16_units (tti_text i)
        then tbc_long_split_window_ms config else tbc_message_window_ms config))"

definition extend_batch :: "telegram_text_input \<Rightarrow> nat \<Rightarrow> telegram_text_batch \<Rightarrow> telegram_text_batch" where
  "extend_batch i ready_at b =
     \<lparr>ttb_input = (ttb_input b)\<lparr>tti_message_id := tti_message_id i,
        tti_text := join_text (tti_text (ttb_input b)) (tti_text i)\<rparr>,
      ttb_ready_at_ms = ready_at\<rparr>"

definition batcher_push ::
  "telegram_batcher_config \<Rightarrow> telegram_text_input \<Rightarrow> nat \<Rightarrow> telegram_batches \<Rightarrow> telegram_batches" where
  "batcher_push config i now bs =
     (let ready_at = batch_ready_at config i now
      in bt_insert (batch_key i)
           (case map_of bs (batch_key i) of
              None \<Rightarrow> \<lparr>ttb_input = i, ttb_ready_at_ms = ready_at\<rparr>
            | Some b \<Rightarrow> extend_batch i ready_at b) bs)"

definition ready_batches :: "nat \<Rightarrow> telegram_batches \<Rightarrow> telegram_text_batch list \<times> telegram_batches" where
  "ready_batches now bs =
     (map snd (filter (\<lambda>(k, b). ttb_ready_at_ms b \<le> now) bs), filter (\<lambda>(k, b). \<not> ttb_ready_at_ms b \<le> now) bs)"

definition flush_all :: "telegram_batches \<Rightarrow> telegram_text_batch list \<times> telegram_batches" where
  "flush_all bs = (map snd bs, [])"

text \<open>The lines of a batch: what was pushed under its key, in order.\<close>

definition pending_text :: "telegram_batches \<Rightarrow> telegram_batch_key \<Rightarrow> string" where
  "pending_text bs k = (case map_of bs k of None \<Rightarrow> [] | Some b \<Rightarrow> tti_text (ttb_input b))"

lemma pending_text_push:
  "bt_wf bs \<Longrightarrow> pending_text (batcher_push config i now bs) k =
     (if k = batch_key i then join_text (pending_text bs k) (tti_text i) else pending_text bs k)"
  by (auto simp: pending_text_def batcher_push_def map_of_bt_insert extend_batch_def join_text_def Let_def
      split: option.splits)

lemma ready_batches_partition:
  assumes "ready_batches now bs = (out, bs')"
  shows "set (map snd bs) = set out \<union> set (map snd bs')"
    and "\<forall>b \<in> set out. ttb_ready_at_ms b \<le> now"
    and "\<forall>(k, b) \<in> set bs'. now < ttb_ready_at_ms b"
proof -
  have split: "set (map snd bs) = set (map snd (filter P bs)) \<union> set (map snd (filter (\<lambda>x. \<not> P x) bs))" for P
    by (induction bs) auto
  show "set (map snd bs) = set out \<union> set (map snd bs')"
    using split [of "\<lambda>(k, b). ttb_ready_at_ms b \<le> now"] assms
    by (auto simp only: ready_batches_def case_prod_unfold prod.inject)
  show "\<forall>b \<in> set out. ttb_ready_at_ms b \<le> now" and "\<forall>(k, b) \<in> set bs'. now < ttb_ready_at_ms b"
    using assms by (auto simp: ready_batches_def)
qed

section \<open>Unsupported media\<close>

datatype native_media_decision = NativeMedia | FileMedia | UnsupportedMedia

datatype native_media_handling =
    HandleNative | HandleFile | HandleUnsupported
  | NativeForMimeTypes "string list"
  | FileForMimeTypes "string list"

definition mime_type_matches :: "string list \<Rightarrow> string \<Rightarrow> bool" where
  "mime_type_matches allowed mime_type =
     list_ex (\<lambda>a. ascii_lowercase a = ascii_lowercase (trim mime_type)) allowed"

fun decision_for_mime_type :: "native_media_handling \<Rightarrow> string \<Rightarrow> native_media_decision" where
  "decision_for_mime_type HandleNative m = NativeMedia"
| "decision_for_mime_type HandleFile m = FileMedia"
| "decision_for_mime_type HandleUnsupported m = UnsupportedMedia"
| "decision_for_mime_type (NativeForMimeTypes ts) m = (if mime_type_matches ts m then NativeMedia else UnsupportedMedia)"
| "decision_for_mime_type (FileForMimeTypes ts) m = (if mime_type_matches ts m then FileMedia else UnsupportedMedia)"

definition mime_list_validate :: "string \<Rightarrow> string list \<Rightarrow> telegram_config_error + unit" where
  "mime_list_validate field ts =
     (if ts = [] \<or> list_ex is_blank ts
      then Inl (InvalidFilePolicy (''unsupportedMediaFallback.'' @ field @
             ''.mimeTypes must not be empty for MIME-filtered modes''))
      else Inr ())"

fun media_handling_validate :: "string \<Rightarrow> native_media_handling \<Rightarrow> telegram_config_error + unit" where
  "media_handling_validate field (NativeForMimeTypes ts) = mime_list_validate field ts"
| "media_handling_validate field (FileForMimeTypes ts) = mime_list_validate field ts"
| "media_handling_validate field _ = Inr ()"

record telegram_file_policy =
  tfp_inline_max_bytes :: nat
  tfp_max_download_bytes :: nat
  tfp_download_dir :: "string option"
  tfp_retention_seconds :: "nat option"
  tfp_audio :: native_media_handling
  tfp_voice :: native_media_handling
  tfp_video :: native_media_handling

definition config_then :: "telegram_config_error + unit \<Rightarrow> telegram_config_error + unit \<Rightarrow> telegram_config_error + unit" where
  "config_then a b = (case a of Inl e \<Rightarrow> Inl e | Inr _ \<Rightarrow> b)"

definition file_policy_validate :: "telegram_file_policy \<Rightarrow> telegram_config_error + unit" where
  "file_policy_validate p =
     (if tfp_max_download_bytes p < tfp_inline_max_bytes p
      then Inl (InvalidFilePolicy ''inlineMaxBytes must be less than or equal to maxDownloadBytes'')
      else if tfp_download_dir p = Some []
      then Inl (InvalidFilePolicy ''downloadDir must not be empty when configured'')
      else config_then (media_handling_validate ''audio'' (tfp_audio p))
        (config_then (media_handling_validate ''voice'' (tfp_voice p)) (media_handling_validate ''video'' (tfp_video p))))"

end
