(* ===== verification/Telegram_Callbacks.thy ===== *)
theory Telegram_Callbacks
  imports Patch_Document Rust_Strings Ordered_Maps
begin

text \<open>
  The short names of Telegram's buttons and sessions
  (\<open>crates/noloong-agent-telegram/src/callback.rs\<close>, \<open>session.rs\<close>): a store of the values behind
  callback data, which must stay short, and the session a chat and thread have.
\<close>

section \<open>Keys in base 36\<close>

definition base36_digit :: "nat \<Rightarrow> char" where
  "base36_digit d = (if d \<le> 9 then char_of (48 + d) else char_of (97 + d - 10))"

function base36_digits :: "nat \<Rightarrow> string" where
  "base36_digits n = (if n = 0 then [] else base36_digits (n div 36) @ [base36_digit (n mod 36)])"
  by pat_completeness auto
termination
  by (relation "measure id") auto

declare base36_digits.simps [simp del]

definition base36 :: "nat \<Rightarrow> string" where
  "base36 n = (if n = 0 then ''0'' else base36_digits n)"

definition read_base36_digit :: "char \<Rightarrow> nat" where
  "read_base36_digit c = (let n = (of_char c :: nat) in if n \<le> 57 then n - 48 else n - 87)"

definition read_base36 :: "string \<Rightarrow> nat" where
  "read_base36 s = foldl (\<lambda>n c. 36 * n + read_base36_digit c) 0 s"

lemma read_base36_digit: "d < 36 \<Longrightarrow> read_base36_digit (base36_digit d) = d"
  by (simp add: base36_digit_def read_base36_digit_def Let_def)

lemma read_base36_digits: "read_base36 (base36_digits n) = n"
proof (induction n rule: base36_digits.induct)
  case (1 n)
  show ?case
  proof (cases "n = 0")
    case False
    with 1 have "read_base36 (base36_digits n) = 36 * (n div 36) + n mod 36"
      by (subst base36_digits.simps) (simp add: read_base36_def read_base36_digit)
    then show ?thesis by simp
  qed (simp add: base36_digits.simps [of 0] read_base36_def)
qed

lemma base36_inject: "0 < m \<Longrightarrow> 0 < n \<Longrightarrow> base36 m = base36 n \<longleftrightarrow> m = n"
  using read_base36_digits by (metis base36_def less_numeral_extra(3))

section \<open>The store\<close>

text \<open>Instants are milliseconds; \<open>now\<close> is the time of the call.\<close>

record 'a short_callback_store =
  scs_next_id :: nat
  scs_entries :: "('a \<times> nat) smap"
  scs_ttl :: nat
  scs_max_entries :: nat

definition callbacks_with_limits :: "nat \<Rightarrow> nat \<Rightarrow> 'a short_callback_store" where
  "callbacks_with_limits ttl n = \<lparr>scs_next_id = 0, scs_entries = [], scs_ttl = ttl, scs_max_entries = n\<rparr>"

definition callbacks_default :: "'a short_callback_store" where
  "callbacks_default = callbacks_with_limits 900000 1024"

definition sweep_expired :: "nat \<Rightarrow> 'a short_callback_store \<Rightarrow> 'a short_callback_store" where
  "sweep_expired now s = s\<lparr>scs_entries := filter (\<lambda>(k, v, created). now - created \<le> scs_ttl s) (scs_entries s)\<rparr>"

text \<open>\<open>min_by_key\<close> with the time: the first of the oldest.\<close>

fun oldest_entry :: "('a \<times> nat) smap \<Rightarrow> (string \<times> nat) option" where
  "oldest_entry [] = None"
| "oldest_entry ((k, v, created) # m) =
     (case oldest_entry m of
        None \<Rightarrow> Some (k, created)
      | Some (k', created') \<Rightarrow> if created' < created then Some (k', created') else Some (k, created))"

lemma oldest_entry_None [simp]: "oldest_entry m = None \<longleftrightarrow> m = []"
  by (cases m) (auto split: option.splits)

lemma oldest_entry_key: "oldest_entry m = Some (k, t) \<Longrightarrow> k \<in> fst ` set m"
  by (induction m arbitrary: k t) (force split: option.splits if_splits)+

lemma length_bt_remove: "k \<in> fst ` set m \<Longrightarrow> length (bt_remove k m) < length m"
  by (auto simp: bt_remove_def intro!: length_filter_less)

function sweep_overflow :: "nat \<Rightarrow> ('a \<times> nat) smap \<Rightarrow> ('a \<times> nat) smap" where
  "sweep_overflow n m =
     (if n < length m
      then (case oldest_entry m of None \<Rightarrow> m | Some (k, t) \<Rightarrow> sweep_overflow n (bt_remove k m))
      else m)"
  by pat_completeness auto
termination
  by (relation "measure (\<lambda>(n, m). length m)") (auto intro!: length_bt_remove oldest_entry_key)

declare sweep_overflow.simps [simp del]

definition reserve_key :: "nat \<Rightarrow> 'a short_callback_store \<Rightarrow> string \<times> 'a short_callback_store" where
  "reserve_key now s =
     (let s = sweep_expired now s; i = scs_next_id s + 1
      in (base36 i, s\<lparr>scs_next_id := i\<rparr>))"

definition insert_reserved :: "nat \<Rightarrow> string \<Rightarrow> 'a \<Rightarrow> 'a short_callback_store \<Rightarrow> 'a short_callback_store" where
  "insert_reserved now k v s =
     (let s = sweep_expired now s
      in s\<lparr>scs_entries := sweep_overflow (scs_max_entries s) (bt_insert k (v, now) (scs_entries s))\<rparr>)"

definition callback_insert :: "nat \<Rightarrow> 'a \<Rightarrow> 'a short_callback_store \<Rightarrow> string \<times> 'a short_callback_store" where
  "callback_insert now v s =
     (case reserve_key now s of (k, s) \<Rightarrow> (k, insert_reserved now k v s))"

definition callback_remove :: "nat \<Rightarrow> string \<Rightarrow> 'a short_callback_store \<Rightarrow> 'a option \<times> 'a short_callback_store" where
  "callback_remove now k s =
     (let s = sweep_expired now s
      in (map_option fst (map_of (scs_entries s) k), s\<lparr>scs_entries := bt_remove k (scs_entries s)\<rparr>))"

definition callback_get :: "nat \<Rightarrow> string \<Rightarrow> 'a short_callback_store \<Rightarrow> 'a option \<times> 'a short_callback_store" where
  "callback_get now k s =
     (let s = sweep_expired now s in (map_option fst (map_of (scs_entries s) k), s))"

definition callback_find :: "nat \<Rightarrow> ('a \<Rightarrow> bool) \<Rightarrow> 'a short_callback_store \<Rightarrow> 'a option \<times> 'a short_callback_store" where
  "callback_find now P s =
     (let s = sweep_expired now s in (List.find P (map fst (bt_values (scs_entries s))), s))"

definition callback_remove_where ::
  "nat \<Rightarrow> ('a \<Rightarrow> bool) \<Rightarrow> 'a short_callback_store \<Rightarrow> 'a option \<times> 'a short_callback_store" where
  "callback_remove_where now P s =
     (let s = sweep_expired now s
      in case List.find (\<lambda>(k, v, t). P v) (scs_entries s) of
           None \<Rightarrow> (None, s)
         | Some (k, v, t) \<Rightarrow>
             (map_option fst (map_of (scs_entries s) k), s\<lparr>scs_entries := bt_remove k (scs_entries s)\<rparr>))"

section \<open>A key names one value\<close>

text \<open>The keys in the store are keys that were handed out, each with an entry from the past.\<close>

definition callbacks_wf :: "'a short_callback_store \<Rightarrow> bool" where
  "callbacks_wf s =
     (bt_wf (scs_entries s) \<and> length (scs_entries s) \<le> scs_max_entries s
      \<and> (\<forall>k \<in> fst ` set (scs_entries s). \<exists>i. 0 < i \<and> i \<le> scs_next_id s \<and> k = base36 i))"

lemma callbacks_wf_start: "callbacks_wf (callbacks_with_limits ttl n)"
  by (simp add: callbacks_wf_def callbacks_with_limits_def)

lemma bt_wf_filter: "bt_wf m \<Longrightarrow> bt_wf (filter P m)"
  by (induction m) (auto simp: bt_wf_def)

lemma sweep_expired_wf: "callbacks_wf s \<Longrightarrow> callbacks_wf (sweep_expired now s)"
  by (auto simp: callbacks_wf_def sweep_expired_def intro: bt_wf_filter le_trans [OF length_filter_le])

lemma sweep_overflow_spec:
  "bt_wf m \<Longrightarrow> length (sweep_overflow n m) \<le> n \<and> bt_wf (sweep_overflow n m)
    \<and> set (sweep_overflow n m) \<subseteq> set m"
proof (induction n m rule: sweep_overflow.induct)
  case (1 n m)
  show ?case
  proof (cases "n < length m")
    case True
    then obtain k t where oldest: "oldest_entry m = Some (k, t)" by (cases "oldest_entry m") auto
    have "sweep_overflow n m = sweep_overflow n (bt_remove k m)"
      using True oldest by (simp add: sweep_overflow.simps [of n m])
    moreover have "set (bt_remove k m) \<subseteq> set m" by (auto simp: bt_remove_def)
    ultimately show ?thesis using "1.IH" [OF True oldest refl] "1.prems" by (simp add: bt_wf_remove) blast
  qed (use "1.prems" in \<open>simp add: sweep_overflow.simps [of n m]\<close>)
qed

lemma reserve_key_wf:
  assumes "callbacks_wf s" and "reserve_key now s = (k, s')"
  shows "callbacks_wf s' \<and> map_of (scs_entries s') k = None \<and> k = base36 (scs_next_id s') \<and> 0 < scs_next_id s'"
proof -
  let ?s = "sweep_expired now s"
  have wf: "callbacks_wf ?s" by (rule sweep_expired_wf [OF assms(1)])
  have s': "s' = ?s\<lparr>scs_next_id := Suc (scs_next_id ?s)\<rparr>" and k: "k = base36 (Suc (scs_next_id ?s))"
    using assms(2) by (auto simp: reserve_key_def Let_def)
  have "k \<notin> fst ` set (scs_entries ?s)"
  proof
    assume "k \<in> fst ` set (scs_entries ?s)"
    with wf obtain i where "0 < i" "i \<le> scs_next_id ?s" "k = base36 i" unfolding callbacks_wf_def by blast
    with k base36_inject [of i "Suc (scs_next_id ?s)"] show False by simp
  qed
  moreover have "callbacks_wf s'" using wf by (force simp: callbacks_wf_def s')
  ultimately show ?thesis by (simp add: s' k map_of_eq_None_iff)
qed

lemma insert_reserved_wf:
  assumes "callbacks_wf s" and "0 < i" "i \<le> scs_next_id s"
  shows "callbacks_wf (insert_reserved now (base36 i) v s)"
proof -
  let ?s = "sweep_expired now s"
  have wf: "callbacks_wf ?s" and same: "scs_next_id ?s = scs_next_id s"
    using sweep_expired_wf [OF assms(1)] by (simp_all add: sweep_expired_def)
  then have "bt_wf (bt_insert (base36 i) (v, now) (scs_entries ?s))" by (simp add: callbacks_wf_def bt_wf_insert)
  note spec = sweep_overflow_spec [OF this, of "scs_max_entries ?s"]
  have "fst ` set (sweep_overflow (scs_max_entries ?s) (bt_insert (base36 i) (v, now) (scs_entries ?s)))
      \<subseteq> insert (base36 i) (fst ` set (scs_entries ?s))"
    using spec fst_set_bt_insert [of "base36 i" "(v, now)" "scs_entries ?s"] by blast
  moreover have "\<exists>j. 0 < j \<and> j \<le> scs_next_id s \<and> k = base36 j"
    if "k \<in> insert (base36 i) (fst ` set (scs_entries ?s))" for k
  proof (cases "k = base36 i")
    case False
    with that have "k \<in> fst ` set (scs_entries ?s)" by simp
    with wf same show ?thesis unfolding callbacks_wf_def by metis
  qed (use assms(2,3) in blast)
  ultimately have "\<forall>k \<in> fst ` set (sweep_overflow (scs_max_entries ?s) (bt_insert (base36 i) (v, now) (scs_entries ?s))).
      \<exists>j. 0 < j \<and> j \<le> scs_next_id s \<and> k = base36 j"
    by (meson subsetD)
  with spec same show ?thesis by (simp add: callbacks_wf_def insert_reserved_def Let_def)
qed

lemma set_bt_remove: "x \<in> set (bt_remove k m) \<Longrightarrow> x \<in> set m" and length_bt_remove_le: "length (bt_remove k m) \<le> length m"
  by (simp_all add: bt_remove_def)

lemma callback_ops_wf:
  assumes "callbacks_wf s"
  shows "callbacks_wf (snd (callback_insert now v s))" and "callbacks_wf (snd (callback_remove now k s))"
    and "callbacks_wf (snd (callback_get now k s))"
proof -
  obtain k' s' where r: "reserve_key now s = (k', s')" by force
  from reserve_key_wf [OF assms r] insert_reserved_wf [of s' "scs_next_id s'"]
  show "callbacks_wf (snd (callback_insert now v s))" by (simp add: callback_insert_def r)
  show "callbacks_wf (snd (callback_remove now k s))" and "callbacks_wf (snd (callback_get now k s))"
    using sweep_expired_wf [OF assms, of now]
    by (auto simp: callback_remove_def callback_get_def Let_def callbacks_wf_def bt_wf_remove set_bt_remove
        intro: le_trans [OF length_bt_remove_le])
qed

text \<open>A value is taken once: after its removal the key names nothing.\<close>

lemma callback_taken_once:
  "callback_remove now k s = (r, s') \<Longrightarrow> fst (callback_remove later k s') = None"
  by (auto simp: callback_remove_def sweep_expired_def Let_def map_of_eq_None_iff bt_remove_def)

section \<open>Sessions of chats\<close>

definition split_at :: "string \<Rightarrow> string \<Rightarrow> string \<times> string option" where
  "split_at pat s = (case split_once pat s of None \<Rightarrow> (s, None) | Some (a, b) \<Rightarrow> (a, Some b))"

record telegram_session_key =
  tsk_chat_id :: int
  tsk_thread_id :: "int option"

definition telegram_session_id :: "telegram_session_key \<Rightarrow> string" where
  "telegram_session_id k =
     ''telegram:'' @ show_int (tsk_chat_id k)
     @ (case tsk_thread_id k of None \<Rightarrow> [] | Some t \<Rightarrow> '':thread:'' @ show_int t)"

definition derived_session_id :: "telegram_session_key \<Rightarrow> int \<Rightarrow> string" where
  "derived_session_id k nonce = telegram_session_id k @ '':session:'' @ show_int nonce"

definition key_from_session_id :: "string \<Rightarrow> telegram_session_key option" where
  "key_from_session_id session_id =
     Option.bind (strip_prefix ''telegram:'' (fst (split_at '':session:'' session_id))) (\<lambda>v.
       case split_at '':thread:'' v of
         (chat, thread) \<Rightarrow>
           Option.bind (case thread of None \<Rightarrow> Some None | Some t \<Rightarrow> map_option Some (parse_i64 t)) (\<lambda>t.
           Option.bind (parse_i64 chat) (\<lambda>c. Some \<lparr>tsk_chat_id = c, tsk_thread_id = t\<rparr>)))"

lemma split_once_absent:
  assumes "c \<in> set pat" and "c \<notin> set s"
  shows "split_once pat s = None"
  using assms(2)
proof (induction s)
  case Nil
  then show ?case using assms(1) by auto
next
  case (Cons d s)
  then have "\<not> prefix pat (d # s)" using assms(1) set_mono_prefix by blast
  with Cons show ?case by (simp add: strip_prefix_def)
qed

text \<open>The first match is the written one when no other can begin before it.\<close>

lemma split_once_at:
  "p \<notin> set a \<or> q \<notin> set a \<and> (a = [] \<or> List.last a \<noteq> p) \<Longrightarrow>
   split_once (p # q # ps) (a @ p # q # ps @ b) = Some (a, b)"
proof (induction a)
  case Nil
  then show ?case by (simp add: strip_prefix_def)
next
  case (Cons c a)
  have "\<not> prefix (p # q # ps) (c # a @ p # q # ps @ b)"
    using Cons.prems by (cases a) auto
  moreover have "split_once (p # q # ps) (a @ p # q # ps @ b) = Some (a, b)"
    using Cons.prems by (intro Cons.IH) (auto split: if_splits)
  ultimately show ?case by (simp add: strip_prefix_def)
qed

definition key_in_range :: "telegram_session_key \<Rightarrow> bool" where
  "key_in_range k = (tsk_chat_id k \<in> i64_range \<and> (\<forall>t. tsk_thread_id k = Some t \<longrightarrow> t \<in> i64_range))"

lemma show_int_no: "\<not> is_ascii_digit c \<Longrightarrow> c \<noteq> CHR ''-'' \<Longrightarrow> c \<notin> set (show_int i)"
  using show_int_chars by blast

lemma session_id_no_s: "CHR ''s'' \<notin> set (telegram_session_id k)"
proof -
  have "CHR ''s'' \<notin> set (show_int i)" for i by (rule show_int_no) (simp_all add: is_ascii_digit_def)
  then show ?thesis by (auto simp: telegram_session_id_def split: option.split)
qed

lemma last_telegram_session_id: "telegram_session_id k \<noteq> [] \<and> List.last (telegram_session_id k) \<noteq> CHR '':''"
proof -
  have "show_int i \<noteq> []" for i by (simp add: show_int_def)
  moreover have "CHR '':'' \<notin> set (show_int i)" for i by (rule show_int_no) (simp_all add: is_ascii_digit_def)
  ultimately have "List.last (show_int i) \<noteq> CHR '':''" for i by (metis last_in_set)
  with \<open>\<And>i. show_int i \<noteq> []\<close> show ?thesis
    by (auto simp: telegram_session_id_def last_append split: option.split)
qed

text \<open>The chat and thread a session id names, whether or not it has a nonce of its own.\<close>

lemma session_id_body:
  "fst (split_at '':session:'' (telegram_session_id k)) = telegram_session_id k"
  "fst (split_at '':session:'' (derived_session_id k nonce)) = telegram_session_id k"
proof -
  have "split_once '':session:'' (telegram_session_id k) = None"
    by (rule split_once_absent [OF _ session_id_no_s]) simp
  then show "fst (split_at '':session:'' (telegram_session_id k)) = telegram_session_id k"
    by (simp add: split_at_def)
  have "split_once '':session:'' (telegram_session_id k @ '':session:'' @ show_int nonce) =
      Some (telegram_session_id k, show_int nonce)"
    using split_once_at [of "CHR '':''" "telegram_session_id k" "CHR ''s''" "''ession:''" "show_int nonce"]
      session_id_no_s last_telegram_session_id by simp
  then show "fst (split_at '':session:'' (derived_session_id k nonce)) = telegram_session_id k"
    by (simp add: split_at_def derived_session_id_def)
qed

definition key_from_body :: "string \<Rightarrow> telegram_session_key option" where
  "key_from_body s =
     Option.bind (strip_prefix ''telegram:'' s) (\<lambda>v.
       case split_at '':thread:'' v of
         (chat, thread) \<Rightarrow>
           Option.bind (case thread of None \<Rightarrow> Some None | Some t \<Rightarrow> map_option Some (parse_i64 t)) (\<lambda>t.
           Option.bind (parse_i64 chat) (\<lambda>c. Some \<lparr>tsk_chat_id = c, tsk_thread_id = t\<rparr>)))"

lemma key_from_body_session_id:
  assumes "key_in_range k"
  shows "key_from_body (telegram_session_id k) = Some k"
proof -
  have colon: "CHR '':'' \<notin> set (show_int i)" for i by (rule show_int_no) (simp_all add: is_ascii_digit_def)
  have chat: "parse_i64 (show_int (tsk_chat_id k)) = Some (tsk_chat_id k)"
    using assms by (simp add: key_in_range_def parse_show_int)
  show ?thesis
  proof (cases "tsk_thread_id k")
    case None
    have "split_once '':thread:'' (show_int (tsk_chat_id k)) = None"
      by (rule split_once_absent [OF _ colon]) simp
    with None chat show ?thesis
      by (simp add: key_from_body_def split_at_def strip_prefix_def telegram_session_id_def)
  next
    case (Some t)
    have "parse_i64 (show_int t) = Some t" using assms Some by (simp add: key_in_range_def parse_show_int)
    moreover have "split_once '':thread:'' (show_int (tsk_chat_id k) @ '':thread:'' @ show_int t) =
        Some (show_int (tsk_chat_id k), show_int t)"
      using split_once_at [of "CHR '':''" "show_int (tsk_chat_id k)" "CHR ''t''" "''hread:''" "show_int t"] colon
      by simp
    ultimately show ?thesis using Some chat
      by (simp add: key_from_body_def split_at_def strip_prefix_def telegram_session_id_def)
  qed
qed

text \<open>The session of a chat and thread can be told from its id, and from the id of a derived session.\<close>

lemma key_from_session_id_roundtrip:
  assumes "key_in_range k"
  shows "key_from_session_id (telegram_session_id k) = Some k"
    and "key_from_session_id (derived_session_id k nonce) = Some k"
  using key_from_body_session_id [OF assms]
  by (simp_all add: key_from_session_id_def key_from_body_def session_id_body)

end
