(* ===== verification/Telegram_Polling.thy ===== *)
theory Telegram_Polling
  imports Telegram_Input Effects Ordered_Maps
begin

text \<open>
  How updates reach the bot (\<open>crates/noloong-agent-telegram/src/polling.rs\<close>, the errors of
  \<open>telegram_api.rs\<close>, the configuration of \<open>config.rs\<close>, the loop of \<open>src/telegram_cli.rs\<close>): long polls,
  the offset that confirms updates and is saved, and the waits after errors. The service, the handler
  and the store of the offset are parameters on an arbitrary world. Before the loop starts, the
  addresses of the service are resolved (\<open>network.rs\<close>).
\<close>

section \<open>Configuration\<close>

datatype startup_update_policy = ProcessPending | SkipPendingWithoutOffset

definition startup_policy_from_str :: "string \<Rightarrow> startup_update_policy option" where
  "startup_policy_from_str s =
     (let t = map (\<lambda>c. if c = CHR ''-'' then CHR ''_'' else c) (ascii_lowercase (trim s))
      in if t = ''process_pending'' then Some ProcessPending
         else if t = ''skip_pending_without_offset'' then Some SkipPendingWithoutOffset
         else None)"

datatype locale_name = LocaleEn | LocaleZh

text \<open>Addresses and durations are kept as their texts and in milliseconds.\<close>

record telegram_network_config =
  tnc_api_base_url :: "string option"
  tnc_proxy_url :: "string option"
  tnc_resolved_addrs :: "string list"
  tnc_fallback_ips :: "string list"
  tnc_disable_fallback_ips :: bool
  tnc_disable_env_proxy :: bool
  tnc_doh_endpoints :: "string list"
  tnc_seed_fallback_ips :: "string list"
  tnc_timeout :: "nat option"

record telegram_bridge_config =
  tcf_bot_token :: string
  tcf_bot_username :: "string option"
  tcf_interaction_ws_url :: string
  tcf_interaction_bearer_token :: "string option"
  tcf_profile_id :: "string option"
  tcf_message_window_ms :: nat
  tcf_long_split_window_ms :: nat
  tcf_edit_throttle_ms :: nat
  tcf_max_outbound_chars :: nat
  tcf_access :: telegram_access_policy
  tcf_network :: telegram_network_config
  tcf_file_policy :: telegram_file_policy
  tcf_startup_update_policy :: startup_update_policy
  tcf_show_tool_status :: bool
  tcf_locale :: locale_name

definition bridge_config_validate :: "telegram_bridge_config \<Rightarrow> telegram_config_error + unit" where
  "bridge_config_validate c =
     (if is_blank (tcf_bot_token c) then Inl MissingBotToken
      else if (case tcf_bot_username c of None \<Rightarrow> False | Some u \<Rightarrow> is_blank u) then Inl InvalidBotUsername
      else if is_blank (tcf_interaction_ws_url c) then Inl MissingInteractionUrl
      else config_then (file_policy_validate (tcf_file_policy c)) (access_policy_validate (tcf_access c)))"

section \<open>Updates and errors\<close>

record telegram_callback_query =
  tcq_id :: string
  tcq_from :: telegram_user
  tcq_message :: "telegram_message option"
  tcq_data :: "string option"

record telegram_update =
  tup_update_id :: int
  tup_message :: "telegram_message option"
  tup_callback_query :: "telegram_callback_query option"

definition is_supported_update :: "telegram_update \<Rightarrow> bool" where
  "is_supported_update u =
     ((case tup_message u of None \<Rightarrow> False | Some m \<Rightarrow> has_user_input m) \<or> tup_callback_query u \<noteq> None)"

datatype telegram_api_error =
    ApiNetwork string
  | ApiError int string "nat option"
  | ApiDecode string
  | ApiFile string
  | FileTooLarge nat "nat option"
  | ApiUnsupported string

fun error_retry_after_seconds :: "telegram_api_error \<Rightarrow> nat option" where
  "error_retry_after_seconds (ApiError code description retry_after) = retry_after"
| "error_retry_after_seconds _ = None"

definition error_is_conflict :: "telegram_api_error \<Rightarrow> bool" where
  "error_is_conflict e = (case e of ApiError code _ _ \<Rightarrow> code = 409 | _ \<Rightarrow> False)"

text \<open>The text of an error that asks for a delay: only errors of the service do.\<close>

fun api_error_text :: "telegram_api_error \<Rightarrow> string" where
  "api_error_text (ApiNetwork m) = ''telegram network error: '' @ m"
| "api_error_text (ApiError code description r) =
     ''telegram api error '' @ show_int code @ '': '' @ description"
| "api_error_text (ApiDecode m) = ''telegram response decode failed: '' @ m"
| "api_error_text (ApiFile m) = ''telegram local file failed: '' @ m"
| "api_error_text (FileTooLarge limit actual) =
     ''telegram file is too large: limit '' @ show_nat limit @ '' bytes, actual ''
     @ (case actual of None \<Rightarrow> ''None'' | Some n \<Rightarrow> ''Some('' @ show_nat n @ '')'') @ '' bytes''"
| "api_error_text (ApiUnsupported m) = ''telegram api method is unsupported by this client: '' @ m"

datatype offset_store_error = OffsetDecode string | OffsetClientState string

datatype telegram_polling_error =
    PollApi telegram_api_error
  | ConflictLimit
  | NetworkLimit string
  | PollHandler string
  | PollOffset offset_store_error

datatype telegram_poll_outcome = Polled | PollRetryAfter nat string

section \<open>The poller\<close>

record 'w telegram_offset_store =
  tos_load :: "'w \<Rightarrow> 'w \<times> (offset_store_error + int option)"
  tos_save :: "int \<Rightarrow> 'w \<Rightarrow> 'w \<times> (offset_store_error + unit)"

record 'w telegram_poller =
  tpo_get_updates :: "int option \<Rightarrow> nat \<Rightarrow> 'w \<Rightarrow> 'w \<times> (telegram_api_error + telegram_update list)"
  tpo_handle_update :: "telegram_update \<Rightarrow> 'w \<Rightarrow> 'w \<times> (telegram_polling_error + unit)"
  tpo_offset_store :: "'w telegram_offset_store option"
  tpo_startup_update_policy :: startup_update_policy
  tpo_offset :: "int option"
  tpo_conflict_retries :: nat
  tpo_network_retries :: nat
  tpo_timeout_seconds :: nat

type_synonym ('w, 'a) polling = "('w telegram_poller \<times> 'w, telegram_polling_error, 'a) eff"

definition save_offset :: "int \<Rightarrow> ('w, unit) polling" where
  "save_offset offset = (\<lambda>(p, w).
     case (case tpo_offset_store p of
             None \<Rightarrow> (w, Inr ())
           | Some store \<Rightarrow> tos_save store offset w) of
       (w, Inl e) \<Rightarrow> ((p, w), Inl (PollOffset e))
     | (w, Inr _) \<Rightarrow> ((p\<lparr>tpo_offset := Some offset\<rparr>, w), Inr ()))"

definition skip_pending_updates :: "('w, unit) polling" where
  "skip_pending_updates = (\<lambda>(p, w).
     case tpo_get_updates p None 0 w of
       (w, Inl e) \<Rightarrow> ((p, w), Inl (PollApi e))
     | (w, Inr updates) \<Rightarrow>
         (if updates = [] then ((p, w), Inr ())
          else save_offset (Max (set (map (\<lambda>u. tup_update_id u + 1) updates))) (p, w)))"

definition poller_initialize :: "('w, unit) polling" where
  "poller_initialize = (\<lambda>(p, w).
     if tpo_offset p \<noteq> None then ((p, w), Inr ())
     else case (case tpo_offset_store p of
                  None \<Rightarrow> (w, Inr None)
                | Some store \<Rightarrow> tos_load store w) of
            (w, Inl e) \<Rightarrow> ((p, w), Inl (PollOffset e))
          | (w, Inr (Some offset)) \<Rightarrow> ((p\<lparr>tpo_offset := Some offset\<rparr>, w), Inr ())
          | (w, Inr None) \<Rightarrow>
              (if tpo_startup_update_policy p = SkipPendingWithoutOffset
               then skip_pending_updates (p, w) else ((p, w), Inr ())))"

text \<open>An error of the handler is logged; the update counts as handled.\<close>

fun handle_updates :: "telegram_update list \<Rightarrow> 'w telegram_poller \<times> 'w \<Rightarrow> 'w telegram_poller \<times> 'w" where
  "handle_updates [] s = s"
| "handle_updates (u # us) (p, w) =
     handle_updates us (p\<lparr>tpo_offset := Some (tup_update_id u + 1)\<rparr>,
       if is_supported_update u then fst (tpo_handle_update p u w) else w)"

definition network_backoff_seconds :: "nat \<Rightarrow> nat" where
  "network_backoff_seconds retries = min (5 * 2 ^ (retries - 1)) 60"

definition poll_failed :: "telegram_api_error \<Rightarrow> ('w, telegram_poll_outcome) polling" where
  "poll_failed e = (\<lambda>(p, w).
     case error_retry_after_seconds e of
       Some delay \<Rightarrow> ((p, w), Inr (PollRetryAfter delay (api_error_text e)))
     | None \<Rightarrow>
         (if error_is_conflict e
          then let n = tpo_conflict_retries p + 1
               in ((p\<lparr>tpo_conflict_retries := n\<rparr>, w),
                   if n > 3 then Inl ConflictLimit else Inr (PollRetryAfter 10 ''telegram getUpdates conflict''))
          else case e of
            ApiNetwork message \<Rightarrow>
              (let n = tpo_network_retries p + 1
               in ((p\<lparr>tpo_network_retries := n\<rparr>, w),
                   if n > 10 then Inl (NetworkLimit message)
                   else Inr (PollRetryAfter (network_backoff_seconds n) message)))
          | _ \<Rightarrow> ((p, w), Inl (PollApi e))))"

definition poll_once :: "('w, telegram_poll_outcome) polling" where
  "poll_once = (\<lambda>(p, w).
     case tpo_get_updates p (tpo_offset p) (tpo_timeout_seconds p) w of
       (w, Inl e) \<Rightarrow> poll_failed e (p, w)
     | (w, Inr updates) \<Rightarrow>
         (let s = handle_updates updates (p\<lparr>tpo_conflict_retries := 0, tpo_network_retries := 0\<rparr>, w)
          in if updates = [] then (s, Inr Polled)
             else and_then (save_offset (tup_update_id (List.last updates) + 1)) (\<lambda>_. ok Polled) s))"

text \<open>The loop never ends but by an error: \<open>n\<close> polls of it, with the sleeps it makes.\<close>

fun run_polling_loop :: "nat \<Rightarrow> (nat \<Rightarrow> 'w \<Rightarrow> 'w) \<Rightarrow> ('w, unit) polling" where
  "run_polling_loop 0 sleep = ok ()"
| "run_polling_loop (Suc n) sleep =
     and_then poll_once (\<lambda>outcome. \<lambda>(p, w).
       run_polling_loop n sleep
         (p, case outcome of Polled \<Rightarrow> w | PollRetryAfter delay reason \<Rightarrow> sleep delay w))"

section \<open>Every update is handled once\<close>

text \<open>
  What is relied on of the code outside: \<open>got\<close> and \<open>seen\<close> read off the world what the service has sent
  and what the handler was given. The service sends updates in the order of their numbers, none below
  the offset of the request; the handler notes its update, and neither notes anything for the other.
\<close>

definition strictly_numbered :: "telegram_update list \<Rightarrow> bool" where
  "strictly_numbered us = sorted_wrt (\<lambda>a b. tup_update_id a < tup_update_id b) us"

definition service_laws ::
  "'w telegram_poller \<Rightarrow> ('w \<Rightarrow> telegram_update list) \<Rightarrow> ('w \<Rightarrow> telegram_update list) \<Rightarrow> bool" where
  "service_laws p got seen =
     ((\<forall>off t w w' r. tpo_get_updates p off t w = (w', r) \<longrightarrow>
         seen w' = seen w \<and>
         (case r of Inl e \<Rightarrow> got w' = got w
          | Inr us \<Rightarrow> got w' = got w @ us \<and> strictly_numbered us
              \<and> (\<forall>k u. off = Some k \<longrightarrow> u \<in> set us \<longrightarrow> k \<le> tup_update_id u)))
      \<and> (\<forall>u w. seen (fst (tpo_handle_update p u w)) = seen w @ [u] \<and> got (fst (tpo_handle_update p u w)) = got w))"

definition store_silent ::
  "'w telegram_poller \<Rightarrow> ('w \<Rightarrow> 'a) \<Rightarrow> bool" where
  "store_silent p f =
     (\<forall>store. tpo_offset_store p = Some store \<longrightarrow> (\<forall>off w. f (fst (tos_save store off w)) = f w))"

text \<open>The parts of a poller that no operation changes.\<close>

definition same_setup :: "'w telegram_poller \<Rightarrow> 'w telegram_poller \<Rightarrow> bool" where
  "same_setup p q =
     (tpo_get_updates q = tpo_get_updates p \<and> tpo_handle_update q = tpo_handle_update p
      \<and> tpo_offset_store q = tpo_offset_store p)"

definition polled_from ::
  "('w \<Rightarrow> telegram_update list) \<Rightarrow> ('w \<Rightarrow> telegram_update list) \<Rightarrow> 'w telegram_poller \<times> 'w \<Rightarrow>
   'w telegram_poller \<times> 'w \<Rightarrow> telegram_update list \<Rightarrow> bool" where
  "polled_from got seen s t news =
     (same_setup (fst s) (fst t) \<and> got (snd t) = got (snd s) @ news
      \<and> seen (snd t) = seen (snd s) @ filter is_supported_update news
      \<and> strictly_numbered news
      \<and> (\<forall>k u. tpo_offset (fst s) = Some k \<longrightarrow> u \<in> set news \<longrightarrow> k \<le> tup_update_id u)
      \<and> tpo_offset (fst t) = (if news = [] then tpo_offset (fst s) else Some (tup_update_id (List.last news) + 1)))"

lemma same_setup_laws:
  "same_setup p q \<Longrightarrow> service_laws q got seen = service_laws p got seen"
  "same_setup p q \<Longrightarrow> store_silent q f = store_silent p f"
  by (simp_all add: same_setup_def service_laws_def store_silent_def)

lemma same_setup_refl [simp]: "same_setup p p"
  by (simp add: same_setup_def)

lemma same_setup_trans: "same_setup p q \<Longrightarrow> same_setup q r \<Longrightarrow> same_setup p r"
  by (simp add: same_setup_def)

lemma strictly_numbered_append:
  "strictly_numbered (us @ vs) \<longleftrightarrow> strictly_numbered us \<and> strictly_numbered vs
     \<and> (\<forall>u \<in> set us. \<forall>v \<in> set vs. tup_update_id u < tup_update_id v)"
  by (simp add: strictly_numbered_def sorted_wrt_append)

lemma strictly_numbered_last:
  "strictly_numbered us \<Longrightarrow> u \<in> set us \<Longrightarrow> tup_update_id u \<le> tup_update_id (List.last us)"
  by (cases us rule: rev_cases) (auto simp: strictly_numbered_append)

lemma polled_from_refl: "polled_from got seen s s []"
  by (simp add: polled_from_def strictly_numbered_def)

lemma polled_from_trans:
  assumes "polled_from got seen s t us" and "polled_from got seen t v vs"
  shows "polled_from got seen s v (us @ vs)"
proof -
  have above: "tup_update_id (List.last us) + 1 \<le> tup_update_id x" if "us \<noteq> []" "x \<in> set vs" for x
    using assms that by (simp add: polled_from_def)
  have between: "\<forall>a \<in> set us. \<forall>x \<in> set vs. tup_update_id a < tup_update_id x"
  proof (intro ballI)
    fix a x assume a: "a \<in> set us" and x: "x \<in> set vs"
    then have "tup_update_id a \<le> tup_update_id (List.last us)"
      using strictly_numbered_last assms(1) by (auto simp: polled_from_def)
    with above [OF _ x] a show "tup_update_id a < tup_update_id x" by force
  qed
  have low: "\<forall>k u. tpo_offset (fst s) = Some k \<longrightarrow> u \<in> set (us @ vs) \<longrightarrow> k \<le> tup_update_id u"
  proof (intro allI impI)
    fix k u assume k: "tpo_offset (fst s) = Some k" and u: "u \<in> set (us @ vs)"
    show "k \<le> tup_update_id u"
    proof (cases "u \<in> set us \<or> us = []")
      case True
      with assms k u show ?thesis by (auto simp: polled_from_def)
    next
      case False
      then have "k \<le> tup_update_id (hd us)" using assms(1) k by (simp add: polled_from_def)
      also have "tup_update_id (hd us) < tup_update_id u" using between False u by simp
      finally show ?thesis by simp
    qed
  qed
  show ?thesis
    using assms between low
    by (auto simp: polled_from_def strictly_numbered_append intro: same_setup_trans)
qed

lemma handle_updates_run:
  assumes "service_laws p got seen"
  shows "fst (handle_updates us (p, w)) = p\<lparr>tpo_offset := (if us = [] then tpo_offset p else Some (tup_update_id (List.last us) + 1))\<rparr>
    \<and> seen (snd (handle_updates us (p, w))) = seen w @ filter is_supported_update us
    \<and> got (snd (handle_updates us (p, w))) = got w"
  using assms
proof (induction us arbitrary: p w)
  case (Cons u us)
  let ?p = "p\<lparr>tpo_offset := Some (tup_update_id u + 1)\<rparr>"
  have "service_laws ?p got seen" using Cons.prems by (simp add: service_laws_def)
  from Cons.IH [OF this, of "if is_supported_update u then fst (tpo_handle_update p u w) else w"] Cons.prems
  show ?case by (auto simp: service_laws_def)
qed simp

lemma save_offset_from:
  assumes "store_silent p got" and "store_silent p seen" and "tpo_offset p = Some off"
    and "save_offset off (p, w) = (t, r)"
  shows "polled_from got seen (p, w) t []"
proof (cases "tpo_offset_store p")
  case None
  with assms(3,4) show ?thesis by (auto simp: save_offset_def polled_from_def strictly_numbered_def same_setup_def)
next
  case (Some store)
  obtain w' q where save: "tos_save store off w = (w', q)" by force
  with assms(1,2) Some have "got w' = got w" "seen w' = seen w"
    by (metis store_silent_def fst_conv)+
  with assms(3,4) Some save show ?thesis
    by (cases q) (auto simp: save_offset_def polled_from_def strictly_numbered_def same_setup_def)
qed

lemma poll_failed_from: "fst (poll_failed e (p, w)) = (p', w') \<Longrightarrow> w' = w \<and> same_setup p p' \<and> tpo_offset p' = tpo_offset p"
  by (auto simp: poll_failed_def same_setup_def Let_def split: option.splits if_splits telegram_api_error.splits)

lemma poll_once_from:
  assumes laws: "service_laws p got seen" and silent: "store_silent p got" "store_silent p seen"
    and run: "poll_once (p, w) = (t, r)"
  shows "\<exists>news. polled_from got seen (p, w) t news"
proof -
  obtain w1 g where get: "tpo_get_updates p (tpo_offset p) (tpo_timeout_seconds p) w = (w1, g)" by force
  show ?thesis
  proof (cases g)
    case (Inl e)
    obtain p' w' where f: "fst (poll_failed e (p, w1)) = (p', w')" by force
    have "t = (p', w')" using run get Inl f by (simp add: poll_once_def)
    moreover have "seen w1 = seen w \<and> got w1 = got w" using laws get Inl by (fastforce simp: service_laws_def)
    ultimately have "polled_from got seen (p, w) t []"
      using poll_failed_from [OF f] by (simp add: polled_from_def strictly_numbered_def)
    then show ?thesis by blast
  next
    case (Inr us)
    let ?p = "p\<lparr>tpo_conflict_retries := 0, tpo_network_retries := 0\<rparr>"
    let ?s = "handle_updates us (?p, w1)"
    have g: "seen w1 = seen w" "got w1 = got w @ us" "strictly_numbered us"
      "\<forall>k u. tpo_offset p = Some k \<longrightarrow> u \<in> set us \<longrightarrow> k \<le> tup_update_id u"
      using laws get Inr by (fastforce simp: service_laws_def)+
    have "service_laws ?p got seen" using laws by (simp add: service_laws_def)
    note h = handle_updates_run [OF this, of us w1]
    have from_s: "polled_from got seen (p, w) ?s us" using g h by (simp add: polled_from_def same_setup_def)
    show ?thesis
    proof (cases "us = []")
      case True
      with run get Inr have "t = ?s" by (simp add: poll_once_def Let_def)
      with from_s show ?thesis by blast
    next
      case False
      obtain q where save: "save_offset (tup_update_id (List.last us) + 1) ?s = (t, q)"
        using run get Inr False
        by (auto simp: poll_once_def Let_def and_then_def split: prod.splits sum.splits)
      obtain p2 w2 where s: "?s = (p2, w2)" by force
      from from_s s have "same_setup p p2" by (simp add: polled_from_def)
      with silent have "store_silent p2 got" "store_silent p2 seen" using same_setup_laws(2) by blast+
      moreover have "tpo_offset p2 = Some (tup_update_id (List.last us) + 1)"
        using from_s s False by (simp add: polled_from_def)
      ultimately have "polled_from got seen (p2, w2) t []" using save s by (auto intro: save_offset_from)
      with from_s s polled_from_trans show ?thesis by fastforce
    qed
  qed
qed

text \<open>C39: While the poller runs, whatever errors the service, the handler and the store of the offset give, every update the service sends is given to the handler exactly once and in the order of its number, unless it has no input of a user: none is handled twice and none is skipped, and the offset is the number behind the last one.\<close>

theorem polled_updates_handled_once:
  assumes laws: "service_laws p got seen" and silent: "store_silent p got" "store_silent p seen"
    and sleep: "\<And>n w. got (sleep n w) = got w \<and> seen (sleep n w) = seen w"
    and run: "run_polling_loop n sleep (p, w) = ((p', w'), r)"
  shows "\<exists>news. got w' = got w @ news \<and> seen w' = seen w @ filter is_supported_update news
    \<and> strictly_numbered news
    \<and> tpo_offset p' = (if news = [] then tpo_offset p else Some (tup_update_id (List.last news) + 1))"
proof -
  have "\<exists>news. polled_from got seen (p, w) (p', w') news"
    using laws silent run
  proof (induction n arbitrary: p w)
    case 0
    then show ?case using polled_from_refl [of got seen "(p, w)"] by (auto simp: ok_def)
  next
    case (Suc n)
    obtain p1 w1 q where once: "poll_once (p, w) = ((p1, w1), q)" by (metis prod.exhaust)
    from poll_once_from [OF Suc.prems(1-3) once] obtain us where us: "polled_from got seen (p, w) (p1, w1) us" by blast
    show ?case
    proof (cases q)
      case (Inl e)
      with Suc.prems(4) once us show ?thesis by (auto simp: and_then_def)
    next
      case (Inr outcome)
      let ?w = "case outcome of Polled \<Rightarrow> w1 | PollRetryAfter delay reason \<Rightarrow> sleep delay w1"
      have same: "got ?w = got w1" "seen ?w = seen w1" using sleep by (simp_all split: telegram_poll_outcome.split)
      have kept: "same_setup p p1" using us by (simp add: polled_from_def)
      have "run_polling_loop n sleep (p1, ?w) = ((p', w'), r)"
        using Suc.prems(4) once Inr by (simp add: and_then_def)
      moreover have "service_laws p1 got seen" "store_silent p1 got" "store_silent p1 seen"
        using Suc.prems(1-3) same_setup_laws(1) [OF kept, of got seen]
          same_setup_laws(2) [OF kept, of got] same_setup_laws(2) [OF kept, of seen] by simp_all
      ultimately obtain vs where vs: "polled_from got seen (p1, ?w) (p', w') vs"
        using Suc.IH [of p1 ?w] by blast
      have "polled_from got seen (p, w) (p1, ?w) us"
        using us same unfolding polled_from_def by simp
      from polled_from_trans [OF this vs] show ?thesis by blast
    qed
  qed
  then obtain news where "polled_from got seen (p, w) (p', w') news" ..
  then show ?thesis unfolding polled_from_def fst_conv snd_conv by (intro exI [of _ news]) simp
qed

text \<open>
  A service with a queue of updates: the world is that queue, what was sent and what was handled. The
  request confirms the updates below its offset.
\<close>

type_synonym sample_service = "telegram_update list \<times> telegram_update list \<times> telegram_update list"

definition sample_updates :: "telegram_update list" where
  "sample_updates =
     (let message = (\<lambda>t. TelegramMessage 1 None \<lparr>tch_id = 5, tch_kind = ''private''\<rparr> None t None [] [] [] None None None None None)
      in [\<lparr>tup_update_id = 7, tup_message = Some (message (Some ''hi'')), tup_callback_query = None\<rparr>,
          \<lparr>tup_update_id = 8, tup_message = Some (message None), tup_callback_query = None\<rparr>,
          \<lparr>tup_update_id = 10, tup_message = Some (message (Some ''go'')), tup_callback_query = None\<rparr>])"

definition sample_get_updates ::
  "int option \<Rightarrow> nat \<Rightarrow> sample_service \<Rightarrow> sample_service \<times> (telegram_api_error + telegram_update list)" where
  "sample_get_updates off t = (\<lambda>(queue, sent, handled).
     let us = filter (\<lambda>u. case off of None \<Rightarrow> True | Some k \<Rightarrow> k \<le> tup_update_id u) queue
     in if strictly_numbered us then ((us, sent @ us, handled), Inr us)
        else ((us, sent, handled), Inl (ApiNetwork ''queue'')))"

definition sample_poller :: "sample_service telegram_poller" where
  "sample_poller =
     \<lparr>tpo_get_updates = sample_get_updates,
      tpo_handle_update = (\<lambda>u (queue, sent, handled). ((queue, sent, handled @ [u]), Inl (PollHandler ''failed''))),
      tpo_offset_store = None, tpo_startup_update_policy = ProcessPending, tpo_offset = Some 7,
      tpo_conflict_retries = 0, tpo_network_retries = 0, tpo_timeout_seconds = 50\<rparr>"

lemma sample_service_laws: "service_laws sample_poller (\<lambda>(queue, sent, handled). sent) (\<lambda>(queue, sent, handled). handled)"
  by (auto simp: service_laws_def sample_poller_def sample_get_updates_def Let_def split: option.splits if_splits)

lemma polled_updates_handled_once_witness:
  "\<exists>news. strictly_numbered news \<and> (case run_polling_loop 2 (\<lambda>n w. w) (sample_poller, (sample_updates, [], [])) of
     ((p', queue, sent, handled), r) \<Rightarrow> sent = news \<and> handled = filter is_supported_update news \<and> length handled = 2)"
proof -
  let ?got = "\<lambda>(queue, sent, handled). sent" and ?seen = "\<lambda>(queue, sent, handled). handled"
  obtain p' w' r where run: "run_polling_loop 2 (\<lambda>n w. w) (sample_poller, (sample_updates, [], [])) = ((p', w'), r)"
    by (metis prod.exhaust)
  have "length (?seen (snd (fst (run_polling_loop 2 (\<lambda>n w. w) (sample_poller, (sample_updates, [], [])))))) = 2"
    by code_simp
  with run have two: "length (?seen w') = 2" by simp
  have "store_silent sample_poller f" for f :: "sample_service \<Rightarrow> telegram_update list"
    by (simp add: store_silent_def sample_poller_def)
  from polled_updates_handled_once [OF sample_service_laws this this _ run] obtain news
    where "?got w' = news" "?seen w' = filter is_supported_update news" "strictly_numbered news" by auto
  with run two show ?thesis by (cases w') auto
qed

text \<open>
  A restart continues where the saved offset says: after a poll that ended well the saved offset is the
  offset of the poller, so that a new poller that loads it asks for exactly what comes next.
\<close>

lemma poll_once_saves:
  assumes run: "poll_once (p, w) = ((p', w'), Inr Polled)" and store: "tpo_offset_store p = Some store"
    and polled: "\<exists>u us w1. tpo_get_updates p (tpo_offset p) (tpo_timeout_seconds p) w = (w1, Inr (u # us))"
  shows "\<exists>off w2. tos_save store off w2 = (w', Inr ()) \<and> tpo_offset p' = Some off"
proof -
  from polled obtain u us w1 where get:
    "tpo_get_updates p (tpo_offset p) (tpo_timeout_seconds p) w = (w1, Inr (u # us))" by blast
  let ?s = "handle_updates (u # us) (p\<lparr>tpo_conflict_retries := 0, tpo_network_retries := 0\<rparr>, w1)"
  let ?off = "tup_update_id (List.last (u # us)) + 1"
  have "tpo_offset_store (fst (handle_updates vs (q, v))) = tpo_offset_store q"
    for vs and q :: "'a telegram_poller" and v by (induction vs arbitrary: q v) simp_all
  then have "tpo_offset_store (fst ?s) = Some store" using store by simp
  moreover obtain p2 w2 where s: "?s = (p2, w2)" by force
  ultimately have keep: "tpo_offset_store p2 = Some store" by simp
  have "save_offset ?off (p2, w2) = ((p', w'), Inr ())"
    using run get s by (auto simp: poll_once_def Let_def and_then_def split: prod.splits sum.splits)
  then show ?thesis using keep by (auto simp: save_offset_def split: prod.splits sum.splits)
qed

text \<open>
  The startup policy skips what is pending, but only one answer of the service is skipped: with more
  pending updates than one answer holds, the rest is processed.
\<close>

lemma skip_pending_one_answer:
  assumes "tpo_offset_store p = None" and "tpo_get_updates p None 0 w = (w1, Inr us)" and "us \<noteq> []"
    and "v \<notin> set us" and "\<forall>u \<in> set us. tup_update_id u < tup_update_id v"
  shows "\<exists>off. skip_pending_updates (p, w) = ((p\<lparr>tpo_offset := Some off\<rparr>, w1), Inr ()) \<and> off \<le> tup_update_id v"
proof -
  have "Max (set (map (\<lambda>u. tup_update_id u + 1) us)) \<le> tup_update_id v" using assms(3,5) by auto
  with assms show ?thesis by (auto simp: skip_pending_updates_def save_offset_def)
qed

text \<open>The waits after network errors grow to a minute and the errors are bounded in number.\<close>

lemma network_backoff_bounds: "5 \<le> network_backoff_seconds n \<and> network_backoff_seconds n \<le> 60"
proof -
  have "(1::nat) \<le> 2 ^ (n - 1)" by simp
  then show ?thesis by (simp add: network_backoff_seconds_def)
qed

lemma poll_failed_bounded:
  assumes "poll_failed e (p, w) = ((p', w'), Inr out)" and "tpo_network_retries p \<le> 10" "tpo_conflict_retries p \<le> 3"
  shows "tpo_network_retries p' \<le> 10 \<and> tpo_conflict_retries p' \<le> 3"
  using assms by (auto simp: poll_failed_def Let_def split: option.splits if_splits telegram_api_error.splits)

text \<open>
  Addresses of the service (\<open>crates/noloong-agent-telegram/src/network.rs\<close>): how a configuration is
  resolved, and the fallback addresses found by configuration and by DNS over HTTPS. The environment
  and the answers of the endpoints are parameters, and the answers come in any order.
\<close>

datatype ipv4 = Ipv4 nat nat nat nat

datatype telegram_network_error = InvalidFallbackIp string | ProxyError string | ClientError string | DohError string

text \<open>\<open>str::parse::<Ipv4Addr>\<close>: four decimal numbers of a byte each, without leading zeros.\<close>

definition parse_octet :: "string \<Rightarrow> nat option" where
  "parse_octet s =
     (if s \<noteq> [] \<and> length s \<le> 3 \<and> list_all is_ascii_digit s \<and> (hd s = CHR ''0'' \<longrightarrow> length s = 1)
         \<and> read_digits s < 256
      then Some (read_digits s) else None)"

definition parse_ipv4 :: "string \<Rightarrow> ipv4 option" where
  "parse_ipv4 s =
     (case map parse_octet (split_on (CHR ''.'') s) of
        [Some a, Some b, Some c, Some d] \<Rightarrow> Some (Ipv4 a b c d)
      | _ \<Rightarrow> None)"

text \<open>The predicates of \<open>Ipv4Addr\<close>: private, loopback, link local, unspecified, broadcast, documentation, multicast.\<close>

fun is_public_ipv4 :: "ipv4 \<Rightarrow> bool" where
  "is_public_ipv4 (Ipv4 a b c d) =
     (\<not> (a = 10 \<or> (a = 172 \<and> 16 \<le> b \<and> b \<le> 31) \<or> (a = 192 \<and> b = 168)
         \<or> a = 127
         \<or> (a = 169 \<and> b = 254)
         \<or> (a, b, c, d) = (0, 0, 0, 0)
         \<or> (a, b, c, d) = (255, 255, 255, 255)
         \<or> (a, b, c) = (192, 0, 2) \<or> (a, b, c) = (198, 51, 100) \<or> (a, b, c) = (203, 0, 113)
         \<or> (224 \<le> a \<and> a \<le> 239)))"

definition parse_public_ipv4 :: "string \<Rightarrow> telegram_network_error + ipv4" where
  "parse_public_ipv4 s =
     (case parse_ipv4 (trim s) of
        None \<Rightarrow> Inl (InvalidFallbackIp s)
      | Some ip \<Rightarrow> if is_public_ipv4 ip then Inr ip else Inl (InvalidFallbackIp s))"

fun parse_fallback_ips :: "string list \<Rightarrow> telegram_network_error + ipv4 list" where
  "parse_fallback_ips [] = Inr []"
| "parse_fallback_ips (s # ss) =
     (case parse_public_ipv4 s of
        Inl e \<Rightarrow> Inl e
      | Inr ip \<Rightarrow> (case parse_fallback_ips ss of Inl e \<Rightarrow> Inl e | Inr ips \<Rightarrow> Inr (ip # ips)))"

definition ambient_proxy_configured :: "(string \<Rightarrow> string option) \<Rightarrow> bool" where
  "ambient_proxy_configured env =
     list_ex (\<lambda>n. case env n of None \<Rightarrow> False | Some v \<Rightarrow> \<not> is_blank v)
       [''HTTPS_PROXY'', ''https_proxy'', ''HTTP_PROXY'', ''http_proxy'', ''ALL_PROXY'', ''all_proxy'']"

definition use_env_proxy :: "(string \<Rightarrow> string option) \<Rightarrow> telegram_network_config \<Rightarrow> bool" where
  "use_env_proxy env c = (\<not> tnc_disable_env_proxy c \<and> ambient_proxy_configured env)"

datatype network_resolution_mode = ModeProxy | ModeEnvProxy | ModeStaticResolve | ModeSystemDns

definition resolution_mode :: "(string \<Rightarrow> string option) \<Rightarrow> telegram_network_config \<Rightarrow> network_resolution_mode" where
  "resolution_mode env c =
     (if tnc_proxy_url c \<noteq> None then ModeProxy
      else if use_env_proxy env c then ModeEnvProxy
      else if tnc_resolved_addrs c \<noteq> [] then ModeStaticResolve
      else ModeSystemDns)"

text \<open>What the client is built with: a proxy, or no proxy and the addresses of the service.\<close>

datatype http_client_setup = WithProxy string | FromEnvironment | WithoutProxy "string list"

definition telegram_http_client :: "(string \<Rightarrow> string option) \<Rightarrow> telegram_network_config \<Rightarrow> http_client_setup" where
  "telegram_http_client env c =
     (case tnc_proxy_url c of
        Some url \<Rightarrow> WithProxy url
      | None \<Rightarrow> if use_env_proxy env c then FromEnvironment else WithoutProxy (tnc_resolved_addrs c))"

text \<open>The answer of an endpoint: records of a type with data; only addresses of type A that are public count.\<close>

definition doh_url :: "string \<Rightarrow> string" where
  "doh_url endpoint =
     endpoint @ [if CHR ''?'' \<in> set endpoint then CHR ''&'' else CHR ''?''] @ ''name=api.telegram.org&type=A''"

definition doh_record :: "nat \<times> string \<Rightarrow> ipv4 list" where
  "doh_record r =
     (if fst r = 1 then (case parse_public_ipv4 (snd r) of Inl e \<Rightarrow> [] | Inr ip \<Rightarrow> [ip]) else [])"

definition doh_addresses :: "(nat \<times> string) list option \<Rightarrow> ipv4 list" where
  "doh_addresses answer = concat (map doh_record (case answer of None \<Rightarrow> [] | Some rs \<Rightarrow> rs))"

definition query_doh_endpoint ::
  "(string \<Rightarrow> telegram_network_error + (nat \<times> string) list option) \<Rightarrow> string \<Rightarrow> telegram_network_error + ipv4 list" where
  "query_doh_endpoint doh endpoint =
     (case doh (doh_url endpoint) of Inl e \<Rightarrow> Inl e | Inr answer \<Rightarrow> Inr (doh_addresses answer))"

text \<open>The queries run at once and end in the order \<open>order\<close> of their indices; the first error is the result.\<close>

fun collect_doh ::
  "(nat \<Rightarrow> telegram_network_error + ipv4 list) \<Rightarrow> nat list \<Rightarrow> (nat, ipv4 list) btree_map \<Rightarrow>
   telegram_network_error + (nat, ipv4 list) btree_map" where
  "collect_doh q [] m = Inr m"
| "collect_doh q (i # is) m = (case q i of Inl e \<Rightarrow> Inl e | Inr ips \<Rightarrow> collect_doh q is (bt_insert i ips m))"

definition push_unique_ip :: "ipv4 \<Rightarrow> ipv4 list \<Rightarrow> ipv4 list" where
  "push_unique_ip ip ips = (if ip \<in> set ips then ips else ips @ [ip])"

definition discover_fallback_addrs ::
  "(string \<Rightarrow> string option) \<Rightarrow> (string \<Rightarrow> telegram_network_error + (nat \<times> string) list option) \<Rightarrow> nat list \<Rightarrow>
   telegram_network_config \<Rightarrow> telegram_network_error + (ipv4 \<times> nat) list" where
  "discover_fallback_addrs env doh order c =
     (if tnc_proxy_url c \<noteq> None \<or> use_env_proxy env c \<or> tnc_disable_fallback_ips c then Inr []
      else case parse_fallback_ips (tnc_fallback_ips c @ tnc_seed_fallback_ips c) of
        Inl e \<Rightarrow> Inl e
      | Inr ips \<Rightarrow>
          (case collect_doh (\<lambda>i. query_doh_endpoint doh (tnc_doh_endpoints c ! i)) order [] of
             Inl e \<Rightarrow> Inl e
           | Inr m \<Rightarrow>
               Inr (map (\<lambda>ip. (ip, 443))
                 (fold push_unique_ip
                   (ips @ concat (map (\<lambda>i. case map_of m i of None \<Rightarrow> [] | Some xs \<Rightarrow> xs)
                     [0 ..< length (tnc_doh_endpoints c)])) []))))"

definition hydrate_fallback_addrs ::
  "(string \<Rightarrow> string option) \<Rightarrow> (string \<Rightarrow> telegram_network_error + (nat \<times> string) list option) \<Rightarrow> nat list \<Rightarrow>
   (ipv4 \<times> nat \<Rightarrow> string) \<Rightarrow> telegram_network_config \<Rightarrow> telegram_network_error + telegram_network_config" where
  "hydrate_fallback_addrs env doh order show_addr c =
     (if tnc_proxy_url c \<noteq> None \<or> tnc_disable_fallback_ips c \<or> tnc_resolved_addrs c \<noteq> [] then Inr c
      else case discover_fallback_addrs env doh order c of
        Inl e \<Rightarrow> Inl e
      | Inr addrs \<Rightarrow> Inr (c\<lparr>tnc_resolved_addrs := map show_addr addrs\<rparr>))"

section \<open>Only public addresses, whatever the order\<close>

declare is_public_ipv4.simps [simp del]

lemma parse_public: "parse_public_ipv4 s = Inr ip \<Longrightarrow> is_public_ipv4 ip"
  by (simp add: parse_public_ipv4_def split: option.splits if_splits)

lemma parse_fallback_ips_public: "parse_fallback_ips ss = Inr ips \<Longrightarrow> ip \<in> set ips \<Longrightarrow> is_public_ipv4 ip"
proof (induction ss arbitrary: ips)
  case (Cons s ss)
  then obtain x xs where "parse_public_ipv4 s = Inr x" "parse_fallback_ips ss = Inr xs" "ips = x # xs"
    by (auto split: sum.splits)
  with Cons.IH [of xs] Cons.prems(2) parse_public show ?case by auto
qed simp

lemma doh_record_public:
  assumes "ip \<in> set (doh_record r)"
  shows "is_public_ipv4 ip"
proof (cases "fst r = 1")
  case True
  with assms have "parse_public_ipv4 (snd r) = Inr ip"
    by (cases "parse_public_ipv4 (snd r)") (simp_all add: doh_record_def)
  then show ?thesis by (rule parse_public)
qed (use assms in \<open>simp add: doh_record_def\<close>)

lemma doh_addresses_public:
  assumes "ip \<in> set (doh_addresses answer)"
  shows "is_public_ipv4 ip"
proof -
  from assms obtain r where "ip \<in> set (doh_record r)"
    unfolding doh_addresses_def set_concat set_map by blast
  then show ?thesis by (rule doh_record_public)
qed

lemma collect_doh_Inr:
  assumes "\<And>i. i \<in> set is \<Longrightarrow> q i = Inr (f i)" and "bt_wf m"
  shows "\<exists>m'. collect_doh q is m = Inr m' \<and> (\<forall>k. map_of m' k = (if k \<in> set is then Some (f k) else map_of m k))"
  using assms
proof (induction "is" arbitrary: m)
  case (Cons i "is")
  from Cons.IH [of "bt_insert i (f i) m"] Cons.prems show ?case
    by (auto simp: map_of_bt_insert bt_wf_insert)
qed simp

lemma set_fold_push_unique: "set (fold push_unique_ip ips acc) = set acc \<union> set ips"
  by (induction ips arbitrary: acc) (auto simp: push_unique_ip_def)

lemma distinct_fold_push_unique: "distinct acc \<Longrightarrow> distinct (fold push_unique_ip ips acc)"
  by (induction ips arbitrary: acc) (auto simp: push_unique_ip_def)

lemma collect_doh_public:
  assumes "collect_doh q is m = Inr m'" and "\<And>i ips ip. q i = Inr ips \<Longrightarrow> ip \<in> set ips \<Longrightarrow> is_public_ipv4 ip"
    and "bt_wf m" and "\<And>k ips ip. map_of m k = Some ips \<Longrightarrow> ip \<in> set ips \<Longrightarrow> is_public_ipv4 ip"
    and "map_of m' k = Some ips" and "ip \<in> set ips"
  shows "is_public_ipv4 ip"
  using assms(1,3-)
proof (induction "is" arbitrary: m)
  case (Cons i "is")
  then obtain xs where q: "q i = Inr xs" and rest: "collect_doh q is (bt_insert i xs m) = Inr m'"
    by (auto split: sum.splits)
  have "is_public_ipv4 x" if "map_of (bt_insert i xs m) j = Some ys" "x \<in> set ys" for j ys x
    using that Cons.prems(2) Cons.prems(3) [of j ys x] assms(2) [OF q, of x]
    by (auto simp: map_of_bt_insert split: if_splits)
  then show ?case
    using Cons.IH [OF rest bt_wf_insert [OF Cons.prems(2)]] Cons.prems(4,5) by blast
qed auto

theorem discovered_addresses_public:
  assumes "discover_fallback_addrs env doh order c = Inr addrs"
  shows "distinct addrs \<and> (\<forall>(ip, port) \<in> set addrs. is_public_ipv4 ip \<and> port = 443)"
proof (cases "tnc_proxy_url c \<noteq> None \<or> use_env_proxy env c \<or> tnc_disable_fallback_ips c")
  case True
  with assms show ?thesis by (auto simp: discover_fallback_addrs_def)
next
  case False
  let ?q = "\<lambda>i. query_doh_endpoint doh (tnc_doh_endpoints c ! i)"
  from assms False obtain ips m where ips: "parse_fallback_ips (tnc_fallback_ips c @ tnc_seed_fallback_ips c) = Inr ips"
    and m: "collect_doh ?q order [] = Inr m"
    and addrs: "addrs = map (\<lambda>ip. (ip, 443)) (fold push_unique_ip
       (ips @ concat (map (\<lambda>i. case map_of m i of None \<Rightarrow> [] | Some xs \<Rightarrow> xs) [0 ..< length (tnc_doh_endpoints c)])) [])"
    by (auto simp: discover_fallback_addrs_def split: sum.splits)
  have "is_public_ipv4 ip" if "map_of m k = Some xs" "ip \<in> set xs" for k xs ip
  proof (rule collect_doh_public [OF m _ _ _ that])
    show "\<And>i ips ip. ?q i = Inr ips \<Longrightarrow> ip \<in> set ips \<Longrightarrow> is_public_ipv4 ip"
      by (auto simp: query_doh_endpoint_def doh_addresses_public split: sum.splits)
  qed (simp_all add: bt_wf_def)
  then have "is_public_ipv4 ip" if "ip \<in> set (case map_of m i of None \<Rightarrow> [] | Some xs \<Rightarrow> xs)" for i ip
    using that by (cases "map_of m i") auto
  with parse_fallback_ips_public [OF ips] show ?thesis
    by (auto simp: addrs set_fold_push_unique distinct_map distinct_fold_push_unique inj_on_def)
qed

lemma discovery_order_irrelevant:
  assumes "\<And>e. e \<in> set (tnc_doh_endpoints c) \<Longrightarrow> \<exists>xs. doh (doh_url e) = Inr xs"
    and "set order = {..< length (tnc_doh_endpoints c)}"
  shows "discover_fallback_addrs env doh order c =
    discover_fallback_addrs env doh [0 ..< length (tnc_doh_endpoints c)] c"
proof -
  let ?q = "\<lambda>i. query_doh_endpoint doh (tnc_doh_endpoints c ! i)"
  let ?f = "\<lambda>i. projr (?q i)"
  have q: "?q i = Inr (?f i)" if "i < length (tnc_doh_endpoints c)" for i
    using assms(1) [of "tnc_doh_endpoints c ! i"] that by (auto simp: query_doh_endpoint_def)
  obtain m where m: "collect_doh ?q order [] = Inr m"
    and m_of: "\<And>k. map_of m k = (if k \<in> set order then Some (?f k) else None)"
    using collect_doh_Inr [of order ?q ?f "[]"] q assms(2) by (auto simp: bt_wf_def)
  obtain m' where m': "collect_doh ?q [0 ..< length (tnc_doh_endpoints c)] [] = Inr m'"
    and m'_of: "\<And>k. map_of m' k = (if k < length (tnc_doh_endpoints c) then Some (?f k) else None)"
    using collect_doh_Inr [of "[0 ..< length (tnc_doh_endpoints c)]" ?q ?f "[]"] q by (auto simp: bt_wf_def)
  have "map_of m = map_of m'" by (rule ext) (use m_of m'_of assms(2) in auto)
  then show ?thesis unfolding discover_fallback_addrs_def m m' by (simp split: sum.split)
qed

end
