(* ===== verification/Telegram_Approvals.thy ===== *)
theory Telegram_Approvals
  imports Telegram_Callbacks Telegram_Text Tool_Inputs Agent
begin

text \<open>
  Approvals and the other buttons of the bot (\<open>crates/noloong-agent-telegram/src/approval.rs\<close>,
  \<open>session.rs\<close>, \<open>commands.rs\<close>): the store behind the buttons of an approval, the actions behind the
  buttons of a session, the commands, and the text that asks for an approval. The texts of the catalog
  are the argument \<open>cat\<close>, the compact text of a JSON value is \<open>js\<close>.
\<close>

section \<open>Buttons of an approval\<close>

definition ALLOW_PREFIX :: string where
  "ALLOW_PREFIX = ''ap:a:''"

definition DENY_PREFIX :: string where
  "DENY_PREFIX = ''ap:d:''"

record telegram_message_handle =
  tmh_chat_id :: int
  tmh_message_id :: int

record telegram_approval_target =
  tgt_session_id :: string
  tgt_approval_id :: string
  tgt_message :: telegram_message_handle

type_synonym telegram_approval_store = "telegram_approval_target short_callback_store"

record telegram_approval_selection =
  tas_outcome :: tool_permission_outcome
  tas_target :: telegram_approval_target

record telegram_button =
  tbt_text :: string
  tbt_callback_data :: string

record telegram_approval_catalog =
  cat_allow_button :: string
  cat_deny_button :: string
  cat_pending_empty :: string
  cat_pending_title :: "nat \<Rightarrow> string"
  cat_pending_item :: "nat \<Rightarrow> string \<Rightarrow> string \<Rightarrow> string"
  cat_pending_more :: "nat \<Rightarrow> string"
  cat_request_title :: "string \<Rightarrow> string"
  cat_arguments :: "string \<Rightarrow> string"
  cat_reason :: "string \<Rightarrow> string"
  cat_permissions :: "string \<Rightarrow> string"
  cat_expires_at :: "nat \<Rightarrow> string"

text \<open>The buttons are the key that was reserved for them.\<close>

definition allocate_buttons :: "nat \<Rightarrow> telegram_approval_store \<Rightarrow> string \<times> telegram_approval_store" where
  "allocate_buttons now s = reserve_key now s"

definition buttons_markup :: "telegram_approval_catalog \<Rightarrow> string \<Rightarrow> telegram_button list list" where
  "buttons_markup cat key =
     [[\<lparr>tbt_text = cat_allow_button cat, tbt_callback_data = ALLOW_PREFIX @ key\<rparr>,
       \<lparr>tbt_text = cat_deny_button cat, tbt_callback_data = DENY_PREFIX @ key\<rparr>]]"

definition insert_target ::
  "nat \<Rightarrow> string \<Rightarrow> string \<Rightarrow> tool_approval_request \<Rightarrow> telegram_message_handle \<Rightarrow>
   telegram_approval_store \<Rightarrow> telegram_approval_store" where
  "insert_target now key session_id approval message s =
     insert_reserved now key
       \<lparr>tgt_session_id = session_id, tgt_approval_id = tar_approval_id approval, tgt_message = message\<rparr> s"

definition callback_outcome :: "string \<Rightarrow> (tool_permission_outcome \<times> string) option" where
  "callback_outcome data =
     (case strip_prefix ALLOW_PREFIX data of
        Some key \<Rightarrow> Some (Allow, key)
      | None \<Rightarrow> map_option (Pair Deny) (strip_prefix DENY_PREFIX data))"

definition select_from ::
  "tool_permission_outcome \<Rightarrow> telegram_approval_target option \<times> 'a \<Rightarrow> telegram_approval_selection option \<times> 'a" where
  "select_from outcome = (\<lambda>(t, s). (map_option (\<lambda>t. \<lparr>tas_outcome = outcome, tas_target = t\<rparr>) t, s))"

definition approval_resolve ::
  "nat \<Rightarrow> string \<Rightarrow> telegram_approval_store \<Rightarrow> telegram_approval_selection option \<times> telegram_approval_store" where
  "approval_resolve now data s =
     (case callback_outcome data of
        None \<Rightarrow> (None, s)
      | Some (outcome, key) \<Rightarrow> select_from outcome (callback_remove now key s))"

definition lookup_callback ::
  "nat \<Rightarrow> string \<Rightarrow> telegram_approval_store \<Rightarrow> telegram_approval_selection option \<times> telegram_approval_store" where
  "lookup_callback now data s =
     (case callback_outcome data of
        None \<Rightarrow> (None, s)
      | Some (outcome, key) \<Rightarrow> select_from outcome (callback_get now key s))"

definition lookup_approval_id ::
  "nat \<Rightarrow> string \<Rightarrow> tool_permission_outcome \<Rightarrow> telegram_approval_store \<Rightarrow>
   telegram_approval_selection option \<times> telegram_approval_store" where
  "lookup_approval_id now approval_id outcome s =
     select_from outcome (callback_find now (\<lambda>t. tgt_approval_id t = approval_id) s)"

definition resolve_approval_id ::
  "nat \<Rightarrow> string \<Rightarrow> tool_permission_outcome \<Rightarrow> telegram_approval_store \<Rightarrow>
   telegram_approval_selection option \<times> telegram_approval_store" where
  "resolve_approval_id now approval_id outcome s =
     select_from outcome (callback_remove_where now (\<lambda>t. tgt_approval_id t = approval_id) s)"

section \<open>A button decides its own request, once\<close>

text \<open>
  What can happen to the store: keys are reserved and a target is put behind a reserved key once, when
  the message with the buttons was sent; a button is pressed, or a request is decided by its id, and
  both may come at any time. The history notes the targets that were shown and the decisions.
\<close>

datatype approval_event =
    Shown string telegram_approval_target
  | Decided string tool_permission_outcome telegram_approval_target

inductive approval_history :: "approval_event list \<Rightarrow> telegram_approval_store \<Rightarrow> bool" where
  start: "approval_history [] callbacks_default"
| allocated: "approval_history h s \<Longrightarrow> allocate_buttons now s = (key, s') \<Longrightarrow> approval_history h s'"
| shown: "approval_history h s \<Longrightarrow> 0 < i \<Longrightarrow> i \<le> scs_next_id s \<Longrightarrow> key = base36 i \<Longrightarrow>
    (\<And>t. Shown key t \<notin> set h) \<Longrightarrow>
    target = \<lparr>tgt_session_id = session_id, tgt_approval_id = tar_approval_id approval, tgt_message = message\<rparr> \<Longrightarrow>
    approval_history (h @ [Shown key target]) (insert_target now key session_id approval message s)"
| pressed: "approval_history h s \<Longrightarrow> approval_resolve now data s = (Some selection, s') \<Longrightarrow>
    callback_outcome data = Some (outcome, key) \<Longrightarrow>
    approval_history (h @ [Decided key (tas_outcome selection) (tas_target selection)]) s'"
| missed: "approval_history h s \<Longrightarrow> approval_resolve now data s = (None, s') \<Longrightarrow> approval_history h s'"
| looked_up: "approval_history h s \<Longrightarrow> lookup_callback now data s = (r, s') \<Longrightarrow> approval_history h s'"
| searched: "approval_history h s \<Longrightarrow> lookup_approval_id now approval_id outcome s = (r, s') \<Longrightarrow> approval_history h s'"
| decided: "approval_history h s \<Longrightarrow> resolve_approval_id now approval_id outcome s = (Some selection, s') \<Longrightarrow>
    map_of (scs_entries (sweep_expired now s)) key \<noteq> None \<Longrightarrow> map_of (scs_entries s') key = None \<Longrightarrow>
    approval_history (h @ [Decided key (tas_outcome selection) (tas_target selection)]) s'"
| not_found: "approval_history h s \<Longrightarrow> resolve_approval_id now approval_id outcome s = (None, s') \<Longrightarrow>
    approval_history h s'"

text \<open>What is behind a key was shown with it and is not decided yet.\<close>

definition entry_open :: "approval_event list \<Rightarrow> string \<Rightarrow> telegram_approval_target \<Rightarrow> bool" where
  "entry_open h k v = (Shown k v \<in> set h \<and> (\<forall>oc t. Decided k oc t \<notin> set h))"

definition history_inv :: "approval_event list \<Rightarrow> telegram_approval_store \<Rightarrow> bool" where
  "history_inv h s = (bt_wf (scs_entries s) \<and> (\<forall>k v t. (k, v, t) \<in> set (scs_entries s) \<longrightarrow> entry_open h k v))"

definition decisions_sound :: "approval_event list \<Rightarrow> bool" where
  "decisions_sound h =
     (\<forall>h1 k oc t h2. h = h1 @ Decided k oc t # h2 \<longrightarrow>
        Shown k t \<in> set h1 \<and> (\<forall>oc' t'. Decided k oc' t' \<notin> set h1 \<union> set h2))"

lemma decisions_sound_Nil: "decisions_sound []"
  by (simp add: decisions_sound_def)

lemma decisions_sound_shown: "decisions_sound h \<Longrightarrow> decisions_sound (h @ [Shown k t])"
  unfolding decisions_sound_def
proof (intro allI impI)
  fix h1 k' oc t' h2
  assume sound: "\<forall>h1 k oc t h2. h = h1 @ Decided k oc t # h2 \<longrightarrow>
        Shown k t \<in> set h1 \<and> (\<forall>oc' t'. Decided k oc' t' \<notin> set h1 \<union> set h2)"
    and split: "h @ [Shown k t] = h1 @ Decided k' oc t' # h2"
  then obtain h3 where "h2 = h3 @ [Shown k t]" and "h = h1 @ Decided k' oc t' # h3"
    by (cases h2 rule: rev_cases) auto
  with sound show "Shown k' t' \<in> set h1 \<and> (\<forall>oc' t''. Decided k' oc' t'' \<notin> set h1 \<union> set h2)" by auto
qed

lemma decisions_sound_decided:
  assumes sound: "decisions_sound h" and entry: "entry_open h k t"
  shows "decisions_sound (h @ [Decided k oc t])"
  unfolding decisions_sound_def
proof (intro allI impI)
  fix h1 k' oc1 t1 h2
  assume split: "h @ [Decided k oc t] = h1 @ Decided k' oc1 t1 # h2"
  show "Shown k' t1 \<in> set h1 \<and> (\<forall>oc' t'. Decided k' oc' t' \<notin> set h1 \<union> set h2)"
  proof (cases h2 rule: rev_cases)
    case Nil
    with split entry show ?thesis by (auto simp: entry_open_def)
  next
    case (snoc h3 x)
    with split have h: "h = h1 @ Decided k' oc1 t1 # h3" and x: "x = Decided k oc t" by simp_all
    from h entry have "k' \<noteq> k" by (auto simp: entry_open_def)
    with sound h snoc x show ?thesis unfolding decisions_sound_def by fastforce
  qed
qed

lemma history_inv_sub:
  assumes "history_inv h s" and "bt_wf (scs_entries s')" and "set (scs_entries s') \<subseteq> set (scs_entries s)"
  shows "history_inv h s'"
  using assms by (auto simp: history_inv_def)

lemma set_sweep_expired: "set (scs_entries (sweep_expired now s)) \<subseteq> set (scs_entries s)"
  by (auto simp: sweep_expired_def)

lemma history_inv_sweep: "history_inv h s \<Longrightarrow> history_inv h (sweep_expired now s)"
  by (rule history_inv_sub [OF _ _ set_sweep_expired]) (auto simp: history_inv_def sweep_expired_def bt_wf_filter)

text \<open>Removing the entry of a key after a decision on it.\<close>

lemma history_inv_decided:
  assumes inv: "history_inv h s" and gone: "\<forall>v t. (k, v, t) \<notin> set (scs_entries s')"
    and sub: "set (scs_entries s') \<subseteq> set (scs_entries s)" and wf: "bt_wf (scs_entries s')"
  shows "history_inv (h @ [Decided k oc target]) s'"
proof -
  have "entry_open (h @ [Decided k oc target]) k' v" if "(k', v, t) \<in> set (scs_entries s')" for k' v t
  proof -
    from that gone have "k' \<noteq> k" by auto
    moreover have "entry_open h k' v" using inv sub that by (auto simp: history_inv_def)
    ultimately show ?thesis by (auto simp: entry_open_def)
  qed
  with wf show ?thesis by (auto simp: history_inv_def)
qed

lemma history_inv_entry: "history_inv h s \<Longrightarrow> map_of (scs_entries s) k = Some (v, t) \<Longrightarrow> entry_open h k v"
  by (auto simp: history_inv_def dest: map_of_SomeD)

text \<open>A removal takes the entry of its key.\<close>

lemma callback_remove_inv:
  assumes inv: "history_inv h s" and run: "callback_remove now k s = (r, s')"
  shows "(r = None \<longrightarrow> history_inv h s')
    \<and> (\<forall>v. r = Some v \<longrightarrow> entry_open h k v \<and> history_inv (h @ [Decided k oc target]) s')"
proof -
  let ?s = "sweep_expired now s"
  note swept = history_inv_sweep [OF inv, of now]
  have s': "s' = ?s\<lparr>scs_entries := bt_remove k (scs_entries ?s)\<rparr>"
    and r: "r = map_option fst (map_of (scs_entries ?s) k)"
    using run by (auto simp: callback_remove_def Let_def)
  have sub: "set (scs_entries s') \<subseteq> set (scs_entries ?s)" using set_bt_remove by (auto simp: s')
  have wf: "bt_wf (scs_entries s')" using swept by (simp add: s' history_inv_def bt_wf_remove)
  have gone: "\<forall>v t. (k, v, t) \<notin> set (scs_entries s')" by (auto simp: s' bt_remove_def)
  from history_inv_sub [OF swept wf sub] history_inv_decided [OF swept gone sub wf] r history_inv_entry [OF swept]
  show ?thesis by (auto simp: map_option_case split: option.splits)
qed

lemma callback_get_state: "callback_get now k s = (r, s') \<Longrightarrow> s' = sweep_expired now s"
  by (simp add: callback_get_def Let_def)

lemma callback_find_state: "callback_find now P s = (r, s') \<Longrightarrow> s' = sweep_expired now s"
  by (simp add: callback_find_def Let_def)

lemma remove_where_cases:
  assumes wf: "bt_wf (scs_entries s)" and run: "callback_remove_where now P s = (r, s')"
  shows "(r = None \<and> s' = sweep_expired now s)
    \<or> (\<exists>k v. r = Some v \<and> callback_remove now k s = (Some v, s'))"
proof (cases "List.find (\<lambda>(k, v, t). P v) (scs_entries (sweep_expired now s))")
  case (Some e)
  obtain k v t where e: "e = (k, v, t)" by (cases e)
  let ?s = "sweep_expired now s"
  have "bt_wf (scs_entries ?s)" using wf by (simp add: sweep_expired_def bt_wf_filter)
  moreover have "(k, v, t) \<in> set (scs_entries ?s)" using find_SomeD [OF Some] e by simp
  ultimately have "map_of (scs_entries ?s) k = Some (v, t)" by (simp add: bt_wf_def strict_sorted_iff)
  with run Some e show ?thesis
    by (intro disjI2 exI [of _ k] exI [of _ v]) (simp add: callback_remove_where_def callback_remove_def Let_def)
qed (use run in \<open>simp add: callback_remove_where_def Let_def\<close>)

lemma set_bt_insert_cases: "x \<in> set (bt_insert k v m) \<Longrightarrow> x = (k, v) \<or> x \<in> set m"
  by (induction k v m rule: bt_insert.induct) (auto split: if_splits)

lemma insert_reserved_inv:
  assumes inv: "history_inv h s" and sound: "decisions_sound h" and fresh: "\<And>t. Shown key t \<notin> set h"
  shows "history_inv (h @ [Shown key v]) (insert_reserved now key v s)"
proof -
  let ?s = "sweep_expired now s"
  note swept = history_inv_sweep [OF inv, of now]
  have undecided: "Decided key oc t \<notin> set h" for oc t
  proof
    assume "Decided key oc t \<in> set h"
    then obtain h1 h2 where "h = h1 @ Decided key oc t # h2" by (meson split_list)
    with sound fresh show False unfolding decisions_sound_def by (metis UnI1 set_append)
  qed
  have "bt_wf (bt_insert key (v, now) (scs_entries ?s))" using swept by (simp add: history_inv_def bt_wf_insert)
  note spec = sweep_overflow_spec [OF this, of "scs_max_entries ?s"]
  have new_or_old: "x = (key, v, now) \<or> x \<in> set (scs_entries ?s)"
    if "x \<in> set (bt_insert key (v, now) (scs_entries ?s))" for x
    using set_bt_insert_cases [OF that] .
  have "entry_open (h @ [Shown key v]) k w" if "(k, w, t) \<in> set (scs_entries (insert_reserved now key v s))" for k w t
  proof (cases "(k, w, t) = (key, v, now)")
    case True
    with undecided show ?thesis by (auto simp: entry_open_def)
  next
    case False
    with that spec new_or_old have "(k, w, t) \<in> set (scs_entries ?s)"
      by (auto simp: insert_reserved_def Let_def)
    with swept have "entry_open h k w" by (auto simp: history_inv_def)
    then show ?thesis by (auto simp: entry_open_def)
  qed
  with spec show ?thesis by (auto simp: history_inv_def insert_reserved_def Let_def)
qed

lemma history_sound: "approval_history h s \<Longrightarrow> history_inv h s \<and> decisions_sound h"
proof (induction rule: approval_history.induct)
  case start
  show ?case by (simp add: history_inv_def callbacks_default_def callbacks_with_limits_def bt_wf_def decisions_sound_Nil)
next
  case (allocated h s now key s')
  then have "scs_entries s' = scs_entries (sweep_expired now s)"
    by (auto simp: allocate_buttons_def reserve_key_def Let_def)
  with history_inv_sweep [of h s now] allocated.IH show ?case by (simp add: history_inv_def)
next
  case (shown h s i key target session_id approval message now)
  with insert_reserved_inv [of h s key] show ?case by (simp add: insert_target_def decisions_sound_shown)
next
  case (pressed h s now data selection s' outcome key)
  then obtain v where "callback_remove now key s = (Some v, s')" and "tas_target selection = v"
    by (auto simp: approval_resolve_def select_from_def split: prod.splits)
  with callback_remove_inv [of h s now key "Some v" s'] pressed.IH show ?case by (auto intro: decisions_sound_decided)
next
  case (missed h s now data s')
  show ?case
  proof (cases "callback_outcome data")
    case (Some x)
    obtain outcome key where "x = (outcome, key)" by (cases x)
    with missed.hyps(2) Some have "callback_remove now key s = (None, s')"
      by (auto simp: approval_resolve_def select_from_def split: prod.splits)
    with callback_remove_inv [of h s now key None s'] missed.IH show ?thesis by simp
  qed (use missed in \<open>simp add: approval_resolve_def\<close>)
next
  case (looked_up h s now data r s')
  then have "s' = s \<or> s' = sweep_expired now s"
    by (auto simp: lookup_callback_def select_from_def split: option.splits prod.splits dest: callback_get_state)
  with looked_up.IH history_inv_sweep show ?case by blast
next
  case (searched h s now approval_id outcome r s')
  then have "s' = sweep_expired now s"
    by (auto simp: lookup_approval_id_def select_from_def split: prod.splits dest: callback_find_state)
  with searched.IH history_inv_sweep show ?case by blast
next
  case (decided h s now approval_id outcome selection s' key)
  then obtain v where run: "callback_remove_where now (\<lambda>t. tgt_approval_id t = approval_id) s = (Some v, s')"
    and target: "tas_target selection = v"
    by (auto simp: resolve_approval_id_def select_from_def split: prod.splits)
  have "bt_wf (scs_entries s)" using decided.IH by (simp add: history_inv_def)
  from remove_where_cases [OF this run] obtain k where k: "callback_remove now k s = (Some v, s')" by auto
  have "key = k"
  proof (rule ccontr)
    assume "key \<noteq> k"
    with k have "map_of (scs_entries s') key = map_of (scs_entries (sweep_expired now s)) key"
      by (auto simp: callback_remove_def Let_def map_of_bt_remove)
    with decided.hyps show False by simp
  qed
  with callback_remove_inv [of h s now k "Some v" s'] k target decided.IH show ?case
    by (auto intro: decisions_sound_decided)
next
  case (not_found h s now approval_id outcome s')
  then have run: "callback_remove_where now (\<lambda>t. tgt_approval_id t = approval_id) s = (None, s')"
    by (auto simp: resolve_approval_id_def select_from_def split: prod.splits)
  have "bt_wf (scs_entries s)" using not_found.IH by (simp add: history_inv_def)
  from remove_where_cases [OF this run] have "s' = sweep_expired now s" by auto
  with not_found.IH history_inv_sweep show ?case by blast
qed


definition sample_approval :: tool_approval_request where
  "sample_approval =
     \<lparr>tar_approval_id = ''a1'', tar_tool_call = \<lparr>tc_id = ''c'', tc_name = ''t'', tc_arguments = JNull\<rparr>,
      tar_permissions = [], tar_hook_id = None,
      tar_request = \<lparr>tas_prompt = None, tas_reason = None, tas_expires_at_ms = None, tas_metadata = JNull\<rparr>\<rparr>"

definition sample_target :: telegram_approval_target where
  "sample_target = \<lparr>tgt_session_id = ''s'', tgt_approval_id = ''a1'', tgt_message = \<lparr>tmh_chat_id = 4, tmh_message_id = 9\<rparr>\<rparr>"


section \<open>Buttons of a session\<close>

definition SESSION_ACTION_PREFIX :: string where
  "SESSION_ACTION_PREFIX = ''sc:''"

datatype interaction_queue_kind = SteeringQueue | FollowUpQueue

datatype telegram_session_action =
    SelectProfile string
  | SwitchSession string
  | RequestDelete string
  | ConfirmDelete string bool
  | ConfirmAbort string
  | ClearQueue string interaction_queue_kind
  | SetQueueMode string interaction_queue_kind queue_mode
  | OpenProcess string string
  | ReadProcess string string "nat option"
  | WaitProcess string string
  | RequestTerminateProcess string string
  | ConfirmTerminateProcess string string
  | RequestWriteProcess string string string
  | ConfirmWriteProcess string string string
  | ApproveManifestProposal string string
  | RequestApplyApprovedManifest string
  | ConfirmApplyApprovedManifest string

type_synonym telegram_session_actions = "telegram_session_action short_callback_store"

definition session_button ::
  "nat \<Rightarrow> string \<Rightarrow> telegram_session_action \<Rightarrow> telegram_session_actions \<Rightarrow> telegram_button \<times> telegram_session_actions" where
  "session_button now label action s =
     (case callback_insert now action s of
        (key, s) \<Rightarrow> (\<lparr>tbt_text = label, tbt_callback_data = SESSION_ACTION_PREFIX @ key\<rparr>, s))"

definition session_action_resolve ::
  "nat \<Rightarrow> string \<Rightarrow> telegram_session_actions \<Rightarrow> telegram_session_action option \<times> telegram_session_actions" where
  "session_action_resolve now data s =
     (case strip_prefix SESSION_ACTION_PREFIX data of None \<Rightarrow> (None, s) | Some key \<Rightarrow> callback_remove now key s)"

definition is_session_action :: "string \<Rightarrow> bool" where
  "is_session_action data = prefix SESSION_ACTION_PREFIX data"

definition telegram_session_metadata :: "int \<Rightarrow> int option \<Rightarrow> string \<Rightarrow> json smap" where
  "telegram_session_metadata chat_id thread_id chat_kind =
     (let m = bt_insert ''chatType'' (JString chat_kind)
                (bt_insert ''chatId'' (JInt chat_id) (bt_insert ''channel'' (JString ''telegram'') []))
      in case thread_id of None \<Rightarrow> m | Some t \<Rightarrow> bt_insert ''threadId'' (JInt t) m)"

section \<open>Commands\<close>

datatype cockpit_command =
    CmdStart | CmdHelp | CmdStatus | CmdNew | CmdSwitch | CmdSessions | CmdProfiles | CmdContinue | CmdAbort
  | CmdQueue | CmdApprovals | CmdApprove | CmdDeny | CmdProcesses | CmdProcess | CmdManifest | CmdSubagent
  | CmdSettings

definition TELEGRAM_COCKPIT_COMMANDS :: "(cockpit_command \<times> string) list" where
  "TELEGRAM_COCKPIT_COMMANDS =
     [(CmdStart, ''start''), (CmdHelp, ''help''), (CmdStatus, ''status''), (CmdNew, ''new''), (CmdSwitch, ''switch''),
      (CmdSessions, ''sessions''), (CmdProfiles, ''profiles''), (CmdContinue, ''continue''), (CmdAbort, ''abort''),
      (CmdQueue, ''queue''), (CmdApprovals, ''approvals''), (CmdApprove, ''approve''), (CmdDeny, ''deny''),
      (CmdProcesses, ''processes''), (CmdProcess, ''process''), (CmdManifest, ''manifest''), (CmdSubagent, ''subagent''),
      (CmdSettings, ''settings'')]"

definition command_from_name :: "string \<Rightarrow> cockpit_command option" where
  "command_from_name s = map_option fst (List.find (\<lambda>(c, n). n = s) TELEGRAM_COCKPIT_COMMANDS)"

text \<open>The \<open>expect\<close> of \<open>name\<close> does not fail: every command has an entry.\<close>

definition command_name :: "cockpit_command \<Rightarrow> string option" where
  "command_name c = map_option snd (List.find (\<lambda>(d, n). d = c) TELEGRAM_COCKPIT_COMMANDS)"

lemma command_name_roundtrip: "\<exists>n. command_name c = Some n \<and> command_from_name n = Some c"
  by (cases c) (simp_all add: command_name_def command_from_name_def TELEGRAM_COCKPIT_COMMANDS_def)

text \<open>\<open>help\<close> and \<open>unknown\<close> are the catalog's texts for a command.\<close>

definition render_command_help :: "string \<Rightarrow> (cockpit_command \<Rightarrow> string) \<Rightarrow> string" where
  "render_command_help title help_item =
     title @ concat (map (\<lambda>(c, n). CHR 0x0A # help_item c) TELEGRAM_COCKPIT_COMMANDS)"

definition render_unknown_command_help :: "string \<Rightarrow> string \<Rightarrow> (cockpit_command \<Rightarrow> string) \<Rightarrow> string" where
  "render_unknown_command_help unknown title help_item =
     unknown @ [CHR 0x0A, CHR 0x0A] @ render_command_help title help_item"

definition select_approval_id :: "tool_approval_request smap \<Rightarrow> string \<Rightarrow> string option" where
  "select_approval_id approvals selector =
     (let keys = map fst approvals; selector = trim selector
      in if approvals = [] then None
         else if selector = [] then (if length approvals = 1 then Some (hd keys) else None)
         else case parse_u64 selector of
           Some i \<Rightarrow> (if 0 < i \<and> i - 1 < length keys then Some (keys ! (i - 1)) else None)
         | None \<Rightarrow> (if bt_contains_key approvals selector then Some selector else None))"

section \<open>The text of an approval\<close>

definition utf8_bytes :: "nat list \<Rightarrow> string" where
  "utf8_bytes ns = map char_of ns"

definition PENDING_APPROVAL_RENDER_LIMIT :: nat where
  "PENDING_APPROVAL_RENDER_LIMIT = 20"

definition APPROVAL_ARGUMENT_RENDER_LIMIT :: nat where
  "APPROVAL_ARGUMENT_RENDER_LIMIT = 600"

definition APPROVAL_ARGUMENT_OBJECT_KEYS :: nat where
  "APPROVAL_ARGUMENT_OBJECT_KEYS = 8"

definition APPROVAL_ARGUMENT_VALUE_LIMIT :: nat where
  "APPROVAL_ARGUMENT_VALUE_LIMIT = 160"

definition pending_items :: "telegram_approval_catalog \<Rightarrow> tool_approval_request smap \<Rightarrow> string" where
  "pending_items cat approvals =
     concat (map (\<lambda>(i, k, a). CHR 0x0A # cat_pending_item cat (i + 1) (tc_name (tar_tool_call a)) k)
       (List.enumerate 0 (take PENDING_APPROVAL_RENDER_LIMIT approvals)))"

definition render_pending_approval_requests ::
  "telegram_approval_catalog \<Rightarrow> tool_approval_request smap \<Rightarrow> string" where
  "render_pending_approval_requests cat approvals =
     (if approvals = [] then cat_pending_empty cat
      else cat_pending_title cat (length approvals) @ pending_items cat approvals
        @ (let remaining = length approvals - PENDING_APPROVAL_RENDER_LIMIT
           in if remaining > 0 then CHR 0x0A # cat_pending_more cat remaining else []))"

definition render_permission :: "tool_permission_requirement \<Rightarrow> string" where
  "render_permission r =
     (case tpr_description r of
        None \<Rightarrow> tpr_capability r
      | Some d \<Rightarrow> if is_blank d then tpr_capability r else tpr_capability r @ '' - '' @ trim d)"

definition render_permissions :: "tool_permission_requirement list \<Rightarrow> string" where
  "render_permissions rs = join_with '', '' (map render_permission rs)"

text \<open>The prompt of the built-in approval repeats the call, which the text shows anyway.\<close>

definition english_review :: string where
  "english_review = ''Review whether this tool call should be allowed.''"

definition chinese_review :: string where
  "chinese_review = utf8_bytes
     [0xE5, 0x88, 0xA4, 0xE6, 0x96, 0xAD, 0xE8, 0xBF, 0x99, 0xE4, 0xB8, 0xAA, 0xE5, 0xB7, 0xA5, 0xE5, 0x85, 0xB7, 0xE8, 0xB0, 0x83, 0xE7, 0x94, 0xA8, 0xE6, 0x98, 0xAF, 0xE5, 0x90, 0xA6, 0xE5, 0xBA, 0x94, 0xE8, 0xAF, 0xA5, 0xE8, 0xA2, 0xAB, 0xE5, 0x85, 0x81, 0xE8, 0xAE, 0xB8, 0xE3, 0x80, 0x82]"

definition english_marker :: "string \<Rightarrow> string" where
  "english_marker n = ''Tool: `'' @ n @ ''`. Arguments:''"

definition chinese_marker :: "string \<Rightarrow> string" where
  "chinese_marker n = utf8_bytes [0xE5, 0xB7, 0xA5, 0xE5, 0x85, 0xB7, 0xEF, 0xBC, 0x9A] @ ''`'' @ n @ ''`''
     @ utf8_bytes [0xE3, 0x80, 0x82, 0xE5, 0x8F, 0x82, 0xE6, 0x95, 0xB0, 0xEF, 0xBC, 0x9A]"

definition prompt_contains_tool_call :: "string \<Rightarrow> tool_call \<Rightarrow> bool" where
  "prompt_contains_tool_call p call =
     (let p = trim p
      in (prefix english_review p \<and> sublist (english_marker (tc_name call)) p)
         \<or> (prefix chinese_review p \<and> sublist (chinese_marker (tc_name call)) p))"

definition should_render_approval_prompt :: "tool_approval_request \<Rightarrow> string \<Rightarrow> bool" where
  "should_render_approval_prompt approval p =
     (\<not> is_blank p \<and> \<not> prompt_contains_tool_call (trim p) (tar_tool_call approval))"

definition render_argument_string :: "(json \<Rightarrow> string) \<Rightarrow> string \<Rightarrow> nat \<Rightarrow> string" where
  "render_argument_string js s limit = js (JString (truncate_end_chars s limit))"

fun render_argument_value_summary :: "(json \<Rightarrow> string) \<Rightarrow> json \<Rightarrow> string" where
  "render_argument_value_summary js (JArray vs) = ''['' @ show_nat (length vs) @ '' items]''"
| "render_argument_value_summary js (JObject m) = ''{'' @ show_nat (length m) @ '' keys}''"
| "render_argument_value_summary js (JString s) = render_argument_string js s APPROVAL_ARGUMENT_VALUE_LIMIT"
| "render_argument_value_summary js v = js v"

definition render_argument_object :: "(json \<Rightarrow> string) \<Rightarrow> (string \<times> json) list \<Rightarrow> string" where
  "render_argument_object js m =
     (if m = [] then ''{}''
      else let remaining = length m - APPROVAL_ARGUMENT_OBJECT_KEYS
           in truncate_middle_chars
                (''{'' @ join_with '', ''
                   (map (\<lambda>(k, v). js (JString k) @ '': '' @ render_argument_value_summary js v)
                     (take APPROVAL_ARGUMENT_OBJECT_KEYS m))
                 @ (if remaining > 0 then '', ... '' @ show_nat remaining @ '' more'' else []) @ ''}'')
                APPROVAL_ARGUMENT_RENDER_LIMIT)"

definition is_host_exec_start_tool :: "string \<Rightarrow> bool" where
  "is_host_exec_start_tool n = (n = built_in_as_str HostExecStart \<or> n = ''host_exec_start'')"

definition or_else_option :: "'a option \<Rightarrow> 'a option \<Rightarrow> 'a option" where
  "or_else_option x y = (case x of None \<Rightarrow> y | Some a \<Rightarrow> Some a)"

fun json_object_get :: "json \<Rightarrow> string \<Rightarrow> json option" where
  "json_object_get (JObject m) k = map_of m k"
| "json_object_get _ k = None"

definition parse_host_exec_start_arguments :: "json \<Rightarrow> start_command_request option" where
  "parse_host_exec_start_arguments v =
     or_else_option (parse_start_command_request v)
       (or_else_option (Option.bind (json_object_get v ''input'') parse_start_command_request)
          (Option.bind (json_object_get v ''arguments'') parse_start_command_request))"

definition start_argument_fields :: "(json \<Rightarrow> string) \<Rightarrow> start_command_request \<Rightarrow> string list" where
  "start_argument_fields js r =
     [''command='' @ render_argument_string js (scr_command r) APPROVAL_ARGUMENT_VALUE_LIMIT]
     @ (case scr_shell r of None \<Rightarrow> []
        | Some shell \<Rightarrow> if is_blank shell then []
            else [''shell='' @ render_argument_string js shell APPROVAL_ARGUMENT_VALUE_LIMIT])
     @ (case scr_cwd r of None \<Rightarrow> []
        | Some cwd \<Rightarrow> [''cwd='' @ render_argument_string js cwd APPROVAL_ARGUMENT_VALUE_LIMIT])
     @ (if scr_env r = [] then [] else [''env='' @ show_nat (length (scr_env r)) @ '' keys''])
     @ (if scr_pipe_stdin r then [''pipeStdin=true''] else [])
     @ (case scr_max_spool_bytes r of None \<Rightarrow> [] | Some n \<Rightarrow> [''maxSpoolBytes='' @ show_nat n])
     @ (case scr_foreground_wait_ms r of None \<Rightarrow> [] | Some n \<Rightarrow> [''foregroundWaitMs='' @ show_nat n])"

definition render_host_exec_start_arguments :: "(json \<Rightarrow> string) \<Rightarrow> json \<Rightarrow> string option" where
  "render_host_exec_start_arguments js v =
     map_option (\<lambda>r. truncate_middle_chars (join_with '', '' (start_argument_fields js r)) APPROVAL_ARGUMENT_RENDER_LIMIT)
       (parse_host_exec_start_arguments v)"

definition render_arguments :: "(json \<Rightarrow> string) \<Rightarrow> string \<Rightarrow> json \<Rightarrow> string" where
  "render_arguments js tool_name v =
     (case (if is_host_exec_start_tool tool_name then render_host_exec_start_arguments js v else None) of
        Some summary \<Rightarrow> summary
      | None \<Rightarrow>
          (case v of
             JObject m \<Rightarrow> render_argument_object js m
           | _ \<Rightarrow> truncate_middle_chars (js v) APPROVAL_ARGUMENT_RENDER_LIMIT))"

definition render_approval_request ::
  "telegram_approval_catalog \<Rightarrow> (json \<Rightarrow> string) \<Rightarrow> tool_approval_request \<Rightarrow> string" where
  "render_approval_request cat js a =
     (let request = tar_request a; call = tar_tool_call a;
          arguments = render_arguments js (tc_name call) (tc_arguments call);
          permissions = render_permissions (tar_permissions a)
      in join_with [CHR 0x0A]
           ([cat_request_title cat (tc_name call)]
            @ (case tas_prompt request of None \<Rightarrow> []
               | Some p \<Rightarrow> if should_render_approval_prompt a p then [trim p] else [])
            @ (if arguments = [] then [] else [cat_arguments cat arguments])
            @ (case tas_reason request of None \<Rightarrow> [] | Some r \<Rightarrow> [cat_reason cat r])
            @ (if permissions = [] then [] else [cat_permissions cat permissions])
            @ (case tas_expires_at_ms request of None \<Rightarrow> [] | Some t \<Rightarrow> [cat_expires_at cat t])))"

text \<open>
  The text shows the beginning of a command only: the rest of a long command, and the values of its
  environment, cannot be seen by the person who allows it.
\<close>

lemma truncate_end_same_start:
  assumes "rust_str s" "rust_str x" "rust_str y" and "char_count s = 157" and "3 < char_count x" "3 < char_count y"
  shows "truncate_end_chars (s @ x) 160 = truncate_end_chars (s @ y) 160"
proof -
  have "take 157 (utf8_chars (s @ z)) = utf8_chars s" if "rust_str z" for z
    using assms(4) by (simp add: utf8_chars_append [OF assms(1) that] char_count_def)
  then show ?thesis
    using assms by (simp add: truncate_end_chars_def char_count_append chars_before_def)
qed

lemma long_commands_look_alike:
  assumes "rust_str s" "rust_str x" "rust_str y" and "char_count s = 157" and "3 < char_count x" "3 < char_count y"
    and "length (scr_env r) = length env" and "scr_env r \<noteq> []"
  shows "start_argument_fields js (r\<lparr>scr_command := s @ x\<rparr>) =
    start_argument_fields js (r\<lparr>scr_command := s @ y, scr_env := env\<rparr>)"
proof -
  have "env \<noteq> []" using assms(7,8) by auto
  then show ?thesis
    using assms(7,8) truncate_end_same_start [OF assms(1-6)]
    by (simp add: start_argument_fields_def render_argument_string_def APPROVAL_ARGUMENT_VALUE_LIMIT_def)
qed

text \<open>Whatever the arguments are, the text of them is bounded.\<close>

lemma render_host_exec_start_bound:
  assumes "render_host_exec_start_arguments js v = Some t" and "\<And>r. rust_str (join_with '', '' (start_argument_fields js r))"
  shows "char_count t \<le> APPROVAL_ARGUMENT_RENDER_LIMIT"
  using assms truncate_middle_chars_bound by (auto simp: render_host_exec_start_arguments_def)

end
