(* ===== verification/Display_Projector.thy ===== *)
theory Display_Projector
  imports Interaction_Access Output_Buffer
begin

text \<open>
  What a channel shows of a run (\<open>crates/noloong-agent/src/interaction/display_projector.rs\<close>,
  \<open>DisplayEvent\<close> of \<open>wire.rs\<close>): the events of the agent are projected to display events for a
  subscription, with thoughts opened and closed, and texts cut to what the channel can take.
\<close>

section \<open>Display events\<close>

datatype display_event =
    ShowRunStarted string
  | ShowRunCompleted string
  | ShowRunAborted string
  | ShowRunFailed string string
  | ShowRunPaused string json
  | ThoughtStarted string string
  | ThoughtDelta string string string string
  | ThoughtCompleted string string nat
  | AssistantMessageDelta string string string
  | AssistantMessageFinal string string agent_message bool
  | ToolStarted string string
  | ToolUpdated string tool_update
  | ToolCompleted string tool_output
  | ApprovalRequested tool_approval_request
  | ApprovalResolved string tool_permission_decision
  | ApprovalExpired string tool_permission_decision
  | RawEvent agent_event

record display_notification =
  dn_session_id :: string
  dn_subscription_id :: string
  dn_event :: display_event

section \<open>Texts for a channel\<close>

definition truncation_marker :: string where
  "truncation_marker = [CHR 0x0A] @ ''...[truncated]...'' @ [CHR 0x0A]"

definition truncate_text_edges :: "string \<Rightarrow> nat \<Rightarrow> string \<times> bool" where
  "truncate_text_edges s max_bytes =
     (if length s \<le> max_bytes then (s, False)
      else if max_bytes \<le> length truncation_marker + 2 then (prefix_to_bytes s max_bytes, True)
      else let content_bytes = max_bytes - length truncation_marker;
               head_bytes = content_bytes div 2;
               tail_bytes = content_bytes - head_bytes
           in (prefix_to_bytes s head_bytes @ truncation_marker @ suffix_to_bytes s tail_bytes, True))"

definition truncate_text_for_ux :: "string \<Rightarrow> ux_capabilities \<Rightarrow> string \<times> bool" where
  "truncate_text_for_ux s ux =
     (case ux_max_message_bytes ux of None \<Rightarrow> (s, False) | Some n \<Rightarrow> truncate_text_edges s n)"

fun truncate_blocks :: "nat \<Rightarrow> content_block list \<Rightarrow> content_block list \<times> bool" where
  "truncate_blocks remaining [] = ([], False)"
| "truncate_blocks remaining (Text s # bs) =
     (case truncate_text_edges s remaining of
        (t, cut1) \<Rightarrow> (case truncate_blocks (remaining - length t) bs of (bs', cut2) \<Rightarrow> (Text t # bs', cut1 \<or> cut2)))"
| "truncate_blocks remaining (b # bs) =
     (case truncate_blocks remaining bs of (bs', c) \<Rightarrow> (b # bs', c))"

definition truncate_message_for_ux :: "agent_message \<Rightarrow> ux_capabilities \<Rightarrow> agent_message \<times> bool" where
  "truncate_message_for_ux m ux =
     (case ux_max_message_bytes ux of
        None \<Rightarrow> (m, False)
      | Some n \<Rightarrow> (case truncate_blocks n (msg_content m) of (bs, c) \<Rightarrow> (m\<lparr>msg_content := bs\<rparr>, c)))"

section \<open>The projector\<close>

record display_projector =
  dp_session_id :: string
  dp_subscription_id :: string
  dp_ux :: ux_capabilities
  dp_thought_started_at :: "nat smap"

definition display_projector_new :: "string \<Rightarrow> string \<Rightarrow> ux_capabilities \<Rightarrow> display_projector" where
  "display_projector_new session_id subscription_id ux =
     \<lparr>dp_session_id = session_id, dp_subscription_id = subscription_id, dp_ux = ux, dp_thought_started_at = []\<rparr>"

definition display_message_id :: "string \<Rightarrow> string" where
  "display_message_id run_id = run_id @ '':assistant''"

definition display_thought_id :: "string \<Rightarrow> string" where
  "display_thought_id run_id = run_id @ '':thought''"

fun display_pause_reason :: "run_pause_reason \<Rightarrow> json" where
  "display_pause_reason (PauseToolApproval c) = JObject [(''type'', JString ''tool_approval'')]"

definition ensure_thought_started ::
  "nat \<Rightarrow> string \<Rightarrow> string \<Rightarrow> display_projector \<Rightarrow> display_event list \<times> display_projector" where
  "ensure_thought_started now run_id thought_id p =
     (if bt_contains_key (dp_thought_started_at p) thought_id then ([], p)
      else ([ThoughtStarted run_id thought_id],
            p\<lparr>dp_thought_started_at := bt_insert thought_id now (dp_thought_started_at p)\<rparr>))"

definition complete_thought :: "nat \<Rightarrow> string \<Rightarrow> display_projector \<Rightarrow> display_event list \<times> display_projector" where
  "complete_thought now run_id p =
     (let thought_id = display_thought_id run_id
      in case map_of (dp_thought_started_at p) thought_id of
           None \<Rightarrow> ([], p)
         | Some started_at \<Rightarrow>
             ([ThoughtCompleted run_id thought_id (now - started_at)],
              p\<lparr>dp_thought_started_at := bt_remove thought_id (dp_thought_started_at p)\<rparr>))"

definition completing ::
  "nat \<Rightarrow> string \<Rightarrow> display_event list \<Rightarrow> display_projector \<Rightarrow> display_event list \<times> display_projector" where
  "completing now run_id es p = (case complete_thought now run_id p of (ds, p) \<Rightarrow> (ds @ es, p))"

definition project_thinking ::
  "nat \<Rightarrow> string \<Rightarrow> thinking_delta \<Rightarrow> display_projector \<Rightarrow> display_event list \<times> display_projector" where
  "project_thinking now run_id delta p =
     (let thought_id = display_thought_id run_id
      in case ensure_thought_started now run_id thought_id p of
           (ds, p) \<Rightarrow>
             (ds @ (case td_text_delta delta of
                      None \<Rightarrow> []
                    | Some t \<Rightarrow> if t = [] then []
                        else [ThoughtDelta run_id thought_id (thinking_kind_as_str (td_kind delta))
                                (fst (truncate_text_for_ux t (dp_ux p)))]), p))"

fun project_kind ::
  "nat \<Rightarrow> string \<Rightarrow> agent_event_kind \<Rightarrow> display_projector \<Rightarrow> display_event list \<times> display_projector" where
  "project_kind now r RunStarted p = ([ShowRunStarted r], p)"
| "project_kind now r RunCompleted p = completing now r [ShowRunCompleted r] p"
| "project_kind now r RunAborted p = completing now r [ShowRunAborted r] p"
| "project_kind now r (RunFailed e) p = completing now r [ShowRunFailed r e] p"
| "project_kind now r (RunPaused reason) p = ([ShowRunPaused r (display_pause_reason reason)], p)"
| "project_kind now r (ModelStreamEvent provider (ThinkingDelta delta)) p = project_thinking now r delta p"
| "project_kind now r (ModelStreamEvent provider (TextDelta t)) p =
     ((if ux_stream_text (dp_ux p)
       then [AssistantMessageDelta r (display_message_id r) (fst (truncate_text_for_ux t (dp_ux p)))] else []), p)"
| "project_kind now r (ModelStreamEvent provider (Finished reason)) p = complete_thought now r p"
| "project_kind now r (EffectCommitted (AppendMessage m)) p =
     ((if msg_role m = Assistant
       then (case truncate_message_for_ux m (dp_ux p) of
               (m', c) \<Rightarrow> [AssistantMessageFinal r (display_message_id r) m' c])
       else []), p)"
| "project_kind now r (ToolExecutionStarted i n) p = ([ToolStarted i n], p)"
| "project_kind now r (ToolExecutionUpdate i u) p = ([ToolUpdated i u], p)"
| "project_kind now r (ToolExecutionCompleted i out) p = ([ToolCompleted i out], p)"
| "project_kind now r (ToolApprovalRequested a) p = ([ApprovalRequested a], p)"
| "project_kind now r (ToolApprovalResolved i d) p = ([ApprovalResolved i d], p)"
| "project_kind now r (ToolApprovalExpired i d) p = ([ApprovalExpired i d], p)"
| "project_kind now r _ p = ([], p)"

definition project :: "nat \<Rightarrow> agent_event \<Rightarrow> display_projector \<Rightarrow> display_event list \<times> display_projector" where
  "project now e p = project_kind now (ev_run_id e) (ev_kind e) p"

definition projector_handle ::
  "nat \<Rightarrow> agent_event \<Rightarrow> display_projector \<Rightarrow> display_notification list \<times> display_projector" where
  "projector_handle now e p =
     (case project now e p of
        (ds, p') \<Rightarrow>
          (map (\<lambda>d. \<lparr>dn_session_id = dp_session_id p, dn_subscription_id = dp_subscription_id p, dn_event = d\<rparr>) ds, p'))"

fun project_all :: "(nat \<times> agent_event) list \<Rightarrow> display_projector \<Rightarrow> display_event list \<times> display_projector" where
  "project_all [] p = ([], p)"
| "project_all ((now, e) # es) p =
     (case project now e p of (ds, p) \<Rightarrow> (case project_all es p of (ds', p) \<Rightarrow> (ds @ ds', p)))"

section \<open>Texts never exceed the channel's limit\<close>

lemma truncate_text_edges_bound: "length (fst (truncate_text_edges s n)) \<le> n"
proof -
  let ?L = "length truncation_marker"
  obtain h where h: "(n - ?L) div 2 = h" by simp
  have "h \<le> n - ?L" using h by simp
  then have "length (prefix_to_bytes s h) + (?L + length (suffix_to_bytes s (n - ?L - h))) \<le> n" if "\<not> n \<le> ?L + 2"
    using length_prefix_to_bytes [of s h] length_suffix_to_bytes [of s "n - ?L - h"] that by linarith
  then show ?thesis using length_prefix_to_bytes [of s n]
    unfolding truncate_text_edges_def Let_def h by (simp split: if_split)
qed

lemma truncate_text_edges_whole: "snd (truncate_text_edges s n) = False \<Longrightarrow> fst (truncate_text_edges s n) = s"
  by (simp add: truncate_text_edges_def Let_def split: if_splits)

definition text_bytes :: "content_block list \<Rightarrow> nat" where
  "text_bytes bs = sum_list (map (\<lambda>b. case b of Text s \<Rightarrow> length s | _ \<Rightarrow> 0) bs)"

lemma truncate_blocks_bound: "text_bytes (fst (truncate_blocks n bs)) \<le> n"
proof (induction n bs rule: truncate_blocks.induct)
  case (2 remaining s bs)
  obtain t c where t: "truncate_text_edges s remaining = (t, c)" by force
  have "length t \<le> remaining" using truncate_text_edges_bound [of s remaining] t by simp
  with "2.IH" [OF t [symmetric]] t show ?case by (simp add: text_bytes_def case_prod_beta)
qed (simp_all add: text_bytes_def case_prod_beta)

lemma truncate_blocks_whole: "snd (truncate_blocks n bs) = False \<Longrightarrow> fst (truncate_blocks n bs) = bs"
proof (induction n bs rule: truncate_blocks.induct)
  case (2 remaining s bs)
  obtain t c where t: "truncate_text_edges s remaining = (t, c)" by force
  from "2.prems" t have "\<not> c" "snd (truncate_blocks (remaining - length t) bs) = False"
    by (auto simp: case_prod_beta)
  with "2.IH" [OF t [symmetric]] t truncate_text_edges_whole [of s remaining] show ?case
    by (simp add: case_prod_beta)
qed (simp_all add: case_prod_beta)

text \<open>The blocks that are not text stay what they are.\<close>

lemma truncate_blocks_others:
  "filter (\<lambda>b. case b of Text s \<Rightarrow> False | _ \<Rightarrow> True) (fst (truncate_blocks n bs)) =
   filter (\<lambda>b. case b of Text s \<Rightarrow> False | _ \<Rightarrow> True) bs"
proof (induction n bs rule: truncate_blocks.induct)
  case (2 remaining s bs)
  obtain t c where t: "truncate_text_edges s remaining = (t, c)" by force
  from "2.IH" [OF t [symmetric]] t show ?case by (simp add: case_prod_beta)
qed (simp_all add: case_prod_beta)

section \<open>Thoughts are opened and closed\<close>

text \<open>
  Reading the display events in order with the set of thoughts that are open: a thought starts when it
  is not open, its texts come while it is open, it completes when it is open, and no thought of a run
  is open when the end of the run is shown.
\<close>

fun read_display :: "string set \<Rightarrow> display_event list \<Rightarrow> string set option" where
  "read_display opened [] = Some opened"
| "read_display opened (ThoughtStarted r t # ds) =
     (if t \<in> opened then None else read_display (insert t opened) ds)"
| "read_display opened (ThoughtDelta r t k s # ds) = (if t \<in> opened then read_display opened ds else None)"
| "read_display opened (ThoughtCompleted r t n # ds) =
     (if t \<in> opened then read_display (opened - {t}) ds else None)"
| "read_display opened (ShowRunCompleted r # ds) =
     (if display_thought_id r \<in> opened then None else read_display opened ds)"
| "read_display opened (ShowRunAborted r # ds) =
     (if display_thought_id r \<in> opened then None else read_display opened ds)"
| "read_display opened (ShowRunFailed r e # ds) =
     (if display_thought_id r \<in> opened then None else read_display opened ds)"
| "read_display opened (d # ds) = read_display opened ds"

lemma read_display_append:
  "read_display opened ds = Some opened' \<Longrightarrow> read_display opened (ds @ es) = read_display opened' es"
  by (induction opened ds rule: read_display.induct) (auto split: if_splits)

definition open_thoughts :: "display_projector \<Rightarrow> string set" where
  "open_thoughts p = fst ` set (dp_thought_started_at p)"

lemma contains_open: "bt_contains_key (dp_thought_started_at p) t \<longleftrightarrow> t \<in> open_thoughts p"
  by (simp add: open_thoughts_def bt_contains_key_def map_of_eq_None_iff)

lemma open_thoughts_insert:
  "open_thoughts (p\<lparr>dp_thought_started_at := bt_insert k v (dp_thought_started_at p)\<rparr>) = insert k (open_thoughts p)"
  by (simp add: open_thoughts_def fst_set_bt_insert)

lemma open_thoughts_remove:
  "open_thoughts (p\<lparr>dp_thought_started_at := bt_remove k (dp_thought_started_at p)\<rparr>) = open_thoughts p - {k}"
  by (auto simp: open_thoughts_def bt_remove_def image_iff)

lemma complete_thought_read:
  "complete_thought now r p = (ds, p') \<Longrightarrow>
   read_display (open_thoughts p) ds = Some (open_thoughts p') \<and> display_thought_id r \<notin> open_thoughts p'"
  by (auto simp: complete_thought_def Let_def open_thoughts_remove map_of_eq_None_iff split: option.splits
      dest!: map_of_SomeD) (auto simp: open_thoughts_def intro: rev_image_eqI)

lemma completing_read:
  assumes "completing now r es p = (ds, p')"
    and "\<And>opened. display_thought_id r \<notin> opened \<Longrightarrow> read_display opened es = Some opened"
  shows "read_display (open_thoughts p) ds = Some (open_thoughts p')"
proof -
  obtain ds' where c: "complete_thought now r p = (ds', p')" and ds: "ds = ds' @ es"
    using assms(1) by (auto simp: completing_def split: prod.splits)
  from complete_thought_read [OF c] assms(2) show ?thesis by (simp add: ds read_display_append)
qed

lemma project_thinking_read:
  "project_thinking now r delta p = (ds, p') \<Longrightarrow> read_display (open_thoughts p) ds = Some (open_thoughts p')"
  by (auto simp: project_thinking_def Let_def ensure_thought_started_def open_thoughts_insert contains_open
      split: if_splits option.splits)

lemma project_kind_read:
  "project_kind now r k p = (ds, p') \<Longrightarrow> read_display (open_thoughts p) ds = Some (open_thoughts p')"
  by (induction now r k p rule: project_kind.induct)
    (auto simp: case_prod_beta complete_thought_read project_thinking_read elim!: completing_read split: if_splits)

lemma project_read:
  "project now e p = (ds, p') \<Longrightarrow> read_display (open_thoughts p) ds = Some (open_thoughts p')"
  unfolding project_def by (rule project_kind_read)

text \<open>C26: What a channel is shown of runs is well bracketed, whatever events the agents emit and in whatever order: a thought is started only when it is not open, its texts and its end come only while it is open, and when the end of a run is shown no thought of it is open.\<close>

theorem thoughts_well_bracketed:
  "read_display {} (fst (project_all es (display_projector_new session_id subscription_id ux))) \<noteq> None"
proof -
  have "read_display (open_thoughts p) (fst (project_all es p)) = Some (open_thoughts (snd (project_all es p)))" for p
  proof (induction es arbitrary: p)
    case (Cons x es)
    obtain now e where x: "x = (now, e)" by (cases x)
    obtain ds p1 where one: "project now e p = (ds, p1)" by force
    from Cons.IH [of p1] project_read [OF one] show ?case by (simp add: x one case_prod_beta read_display_append)
  qed simp
  from this [of "display_projector_new session_id subscription_id ux"]
  show ?thesis by (simp add: open_thoughts_def display_projector_new_def)
qed

text \<open>A message is shown within the limit of the channel, and one that is not marked as cut is shown whole.\<close>

lemma shown_message_bound:
  assumes "truncate_message_for_ux m ux = (m', c)"
  shows "(\<forall>n. ux_max_message_bytes ux = Some n \<longrightarrow> text_bytes (msg_content m') \<le> n) \<and> (\<not> c \<longrightarrow> m' = m)"
proof (cases "ux_max_message_bytes ux")
  case (Some n)
  obtain bs d where bs: "truncate_blocks n (msg_content m) = (bs, d)" by force
  with assms Some have "m' = m\<lparr>msg_content := bs\<rparr>" "c = d" by (simp_all add: truncate_message_for_ux_def)
  with bs Some truncate_blocks_bound [of n "msg_content m"] truncate_blocks_whole [of n "msg_content m"]
  show ?thesis by simp
qed (use assms in \<open>simp add: truncate_message_for_ux_def\<close>)

end
