(* ===== verification/Output_Overflow.thy ===== *)
theory Output_Overflow
  imports Tool_Phase Output_Buffer Host_Files Provider_Utils Rust_Strings
begin

text \<open>
  The hook that keeps a large tool output out of the context
  (\<open>crates/noloong-agent/src/tools/output_overflow.rs\<close>): an output whose serialization is beyond a limit is
  written to a file and replaced by a preview. The serializers of serde are parameters, and the world of
  the hook is the file system.
\<close>

section \<open>Configuration\<close>

definition DEFAULT_MAX_INLINE_TOOL_OUTPUT_BYTES :: nat where
  "DEFAULT_MAX_INLINE_TOOL_OUTPUT_BYTES = 64 * 1024"

definition DEFAULT_TOOL_OUTPUT_PREVIEW_EDGE_BYTES :: nat where
  "DEFAULT_TOOL_OUTPUT_PREVIEW_EDGE_BYTES = 8 * 1024"

record tool_output_overflow_config =
  oo_max_inline_bytes :: nat
  oo_preview_head_bytes :: nat
  oo_preview_tail_bytes :: nat
  oo_temp_dir :: path

definition default_overflow_config :: "path \<Rightarrow> tool_output_overflow_config" where
  "default_overflow_config temp_dir =
     \<lparr>oo_max_inline_bytes = DEFAULT_MAX_INLINE_TOOL_OUTPUT_BYTES,
      oo_preview_head_bytes = DEFAULT_TOOL_OUTPUT_PREVIEW_EDGE_BYTES,
      oo_preview_tail_bytes = DEFAULT_TOOL_OUTPUT_PREVIEW_EDGE_BYTES,
      oo_temp_dir = temp_dir @ [Normal ''noloong-agent'', Normal ''tool-output'']\<rparr>"

text \<open>What serde makes of an output and of a block, and the text of a JSON value.\<close>

record overflow_serde =
  os_output :: "tool_output \<Rightarrow> string + string"
  os_block :: "content_block \<Rightarrow> string option"
  os_json :: "json \<Rightarrow> string"

section \<open>The preview\<close>

record overflow_preview =
  op_head :: string
  op_tail :: string
  op_omitted_bytes :: nat

record preview_builder =
  pv_head :: string
  pv_tail :: string
  pv_full :: "string option"
  pv_total_bytes :: nat
  pv_head_bytes :: nat
  pv_tail_bytes :: nat

definition preview_new :: "nat \<Rightarrow> nat \<Rightarrow> preview_builder" where
  "preview_new head_bytes tail_bytes =
     \<lparr>pv_head = [], pv_tail = [], pv_full = Some [], pv_total_bytes = 0,
      pv_head_bytes = head_bytes, pv_tail_bytes = tail_bytes\<rparr>"

definition push_full :: "string \<Rightarrow> preview_builder \<Rightarrow> preview_builder" where
  "push_full s b =
     (case pv_full b of
        None \<Rightarrow> b
      | Some f \<Rightarrow>
          if length f + length s \<le> pv_head_bytes b + pv_tail_bytes b
          then b\<lparr>pv_full := Some (f @ s)\<rparr> else b\<lparr>pv_full := None\<rparr>)"

definition push_head :: "string \<Rightarrow> preview_builder \<Rightarrow> preview_builder" where
  "push_head s b =
     (let remaining = pv_head_bytes b - length (pv_head b)
      in if remaining = 0 then b else b\<lparr>pv_head := pv_head b @ prefix_to_bytes s remaining\<rparr>)"

definition push_tail :: "string \<Rightarrow> preview_builder \<Rightarrow> preview_builder" where
  "push_tail s b =
     (if pv_tail_bytes b = 0 then b
      else if pv_tail_bytes b \<le> length s then b\<lparr>pv_tail := suffix_to_bytes s (pv_tail_bytes b)\<rparr>
      else b\<lparr>pv_tail := suffix_to_bytes (pv_tail b @ s) (pv_tail_bytes b)\<rparr>)"

definition preview_push :: "string \<Rightarrow> preview_builder \<Rightarrow> preview_builder" where
  "preview_push s b = push_tail s (push_head s (push_full s (b\<lparr>pv_total_bytes := pv_total_bytes b + length s\<rparr>)))"

definition preview_finish :: "preview_builder \<Rightarrow> overflow_preview" where
  "preview_finish b =
     (case pv_full b of
        Some f \<Rightarrow> \<lparr>op_head = f, op_tail = [], op_omitted_bytes = 0\<rparr>
      | None \<Rightarrow>
          \<lparr>op_head = pv_head b, op_tail = pv_tail b,
           op_omitted_bytes = pv_total_bytes b - length (pv_head b) - length (pv_tail b)\<rparr>)"

definition preview_edges :: "tool_output_overflow_config \<Rightarrow> nat \<times> nat" where
  "preview_edges c =
     (let edge_cap = oo_max_inline_bytes c div 4
      in (min (oo_preview_head_bytes c) edge_cap, min (oo_preview_tail_bytes c) edge_cap))"

text \<open>What \<open>push_content_preview\<close> pushes for a block.\<close>

fun content_preview :: "overflow_serde \<Rightarrow> content_block \<Rightarrow> string option" where
  "content_preview sd (Text s) = Some s"
| "content_preview sd (Json v) = Some (os_json sd v)"
| "content_preview sd b = os_block sd b"

definition push_content_preview :: "overflow_serde \<Rightarrow> content_block \<Rightarrow> preview_builder \<Rightarrow> preview_builder" where
  "push_content_preview sd c b = (case content_preview sd c of Some s \<Rightarrow> preview_push s b | None \<Rightarrow> b)"

definition output_preview :: "overflow_serde \<Rightarrow> tool_output \<Rightarrow> string \<Rightarrow> nat \<times> nat \<Rightarrow> overflow_preview" where
  "output_preview sd output serialized edges =
     (let b = preview_new (fst edges) (snd edges)
      in preview_finish
          (case to_content output of
             [] \<Rightarrow> preview_push (from_utf8_lossy serialized) b
           | c # cs \<Rightarrow>
               fold (\<lambda>c b. push_content_preview sd c (preview_push [CHR 0x0A] b)) cs (push_content_preview sd c b)))"

section \<open>Texts and results\<close>

text \<open>The English texts of \<open>i18n.rs\<close>; \<open>failed_to_serialize\<close> and \<open>failed_to_persist\<close> with the error.\<close>

record overflow_render =
  or_path :: string
  or_tool_name :: string
  or_tool_call_id :: string
  or_original_bytes :: nat
  or_inline_limit_bytes :: nat
  or_preview :: overflow_preview

record overflow_catalog =
  ov_overflow :: "overflow_render \<Rightarrow> string"
  ov_failure :: "string \<Rightarrow> string \<Rightarrow> nat \<Rightarrow> string \<Rightarrow> string"
  ov_failed_to_serialize :: "string \<Rightarrow> string"
  ov_failed_to_persist :: "string \<Rightarrow> string"

definition lines_of :: "string list \<Rightarrow> string" where
  "lines_of = join_with [CHR 0x0A]"

definition english_overflow :: "overflow_render \<Rightarrow> string" where
  "english_overflow r =
     lines_of
       [''Tool output was too large to inline and has been written to a temporary JSON file.'',
        ''Path: '' @ or_path r, ''Tool: '' @ or_tool_name r, ''Tool call ID: '' @ or_tool_call_id r,
        ''Original bytes: '' @ show_nat (or_original_bytes r),
        ''Inline limit bytes: '' @ show_nat (or_inline_limit_bytes r),
        ''Omitted preview bytes: '' @ show_nat (op_omitted_bytes (or_preview r)), [],
        ''Output preview head:'', op_head (or_preview r), [],
        ''Output preview tail:'', op_tail (or_preview r), [],
        ''Use host command tooling to read the file when the full result is needed.'']"

definition english_failure :: "string \<Rightarrow> string \<Rightarrow> nat \<Rightarrow> string \<Rightarrow> string" where
  "english_failure tool_name tool_call_id inline_limit_bytes error =
     lines_of
       [''Tool output exceeded the inline limit, but the full output could not be written to a temporary file.'',
        ''Tool: '' @ tool_name, ''Tool call ID: '' @ tool_call_id,
        ''Inline limit bytes: '' @ show_nat inline_limit_bytes, ''Error: '' @ error]"

definition english_overflow_catalog :: overflow_catalog where
  "english_overflow_catalog =
     \<lparr>ov_overflow = english_overflow, ov_failure = english_failure,
      ov_failed_to_serialize = (\<lambda>error. ''failed to serialize tool output: '' @ error),
      ov_failed_to_persist = (\<lambda>error. ''failed to persist oversized tool output: '' @ error)\<rparr>"

definition overflow_result ::
  "overflow_catalog \<Rightarrow> after_tool_call_context \<Rightarrow> path \<Rightarrow> nat \<Rightarrow> nat \<Rightarrow> overflow_preview \<Rightarrow> after_tool_call_result" where
  "overflow_result cat c p original_bytes inline_limit_bytes preview =
     \<lparr>atr_content = Some [Text (ov_overflow cat
        \<lparr>or_path = path_string p, or_tool_name = tc_name (atc_tool_call c),
         or_tool_call_id = tc_id (atc_tool_call c), or_original_bytes = original_bytes,
         or_inline_limit_bytes = inline_limit_bytes, or_preview = preview\<rparr>)],
      atr_details = Some (json_object
        [(''overflow'', JBool True), (''path'', JString (path_string p)),
         (''originalBytes'', JInt (int original_bytes)), (''inlineLimitBytes'', JInt (int inline_limit_bytes)),
         (''toolName'', JString (tc_name (atc_tool_call c))), (''toolCallId'', JString (tc_id (atc_tool_call c))),
         (''previewHead'', JString (op_head preview)), (''previewTail'', JString (op_tail preview)),
         (''previewOmittedBytes'', JInt (int (op_omitted_bytes preview)))]),
      atr_is_error = Some False\<rparr>"

definition overflow_failure ::
  "overflow_catalog \<Rightarrow> after_tool_call_context \<Rightarrow> nat \<Rightarrow> nat option \<Rightarrow> string \<Rightarrow> after_tool_call_result" where
  "overflow_failure cat c inline_limit_bytes original_bytes error =
     \<lparr>atr_content = Some [Text (ov_failure cat (tc_name (atc_tool_call c)) (tc_id (atc_tool_call c))
        inline_limit_bytes error)],
      atr_details = Some (json_object
        [(''overflow'', JBool True), (''persistenceFailed'', JBool True),
         (''originalBytes'', case original_bytes of None \<Rightarrow> JNull | Some n \<Rightarrow> JInt (int n)),
         (''inlineLimitBytes'', JInt (int inline_limit_bytes)),
         (''toolName'', JString (tc_name (atc_tool_call c))), (''toolCallId'', JString (tc_id (atc_tool_call c))),
         (''error'', JString error)]),
      atr_is_error = Some True\<rparr>"

section \<open>The hook\<close>

definition safe_path_component :: "string \<Rightarrow> string" where
  "safe_path_component s =
     map (\<lambda>c. case c of
            [x] \<Rightarrow> if is_ascii_alphanumeric x \<or> x \<in> set ''-_.'' then x else CHR ''_''
          | _ \<Rightarrow> CHR ''_'') (utf8_chars s)"

definition overflow_path :: "path \<Rightarrow> after_tool_call_context \<Rightarrow> path" where
  "overflow_path root c =
     root @ [Normal (safe_path_component (atc_run_id c) @ ''-'' @ show_nat (atc_turn_id c) @ ''-''
       @ safe_path_component (tc_id (atc_tool_call c)) @ ''.json'')]"

definition OVERFLOW_HOOK_ID :: string where
  "OVERFLOW_HOOK_ID = ''noloong.builtin.tool-output-overflow''"

text \<open>\<open>cancelled\<close> gives the state of the token at the start and before the file is written.\<close>

definition overflow_after_tool_call ::
  "tool_output_overflow_config \<Rightarrow> overflow_catalog \<Rightarrow> overflow_serde \<Rightarrow> bool \<times> bool \<Rightarrow> after_tool_call_context
     \<Rightarrow> (file_system, agent_core_error, after_tool_call_result option) eff" where
  "overflow_after_tool_call cfg cat sd cancelled c =
     (if fst cancelled then err Aborted
      else case os_output sd (atc_output c) of
        Inl e \<Rightarrow> ok (Some (overflow_failure cat c (oo_max_inline_bytes cfg) None (ov_failed_to_serialize cat e)))
      | Inr serialized \<Rightarrow>
          if length serialized \<le> oo_max_inline_bytes cfg then ok None
          else if snd cancelled then err Aborted
          else
            let p = overflow_path (oo_temp_dir cfg) c
            in (\<lambda>fs. case and_then (fs_create_dir_all (oo_temp_dir cfg)) (\<lambda>_. fs_write p serialized) fs of
                  (fs', r) \<Rightarrow>
                    (fs', Inr (Some (case r of
                       Inr _ \<Rightarrow> overflow_result cat c p (length serialized) (oo_max_inline_bytes cfg)
                         (output_preview sd (atc_output c) serialized (preview_edges cfg))
                     | Inl e \<Rightarrow> overflow_failure cat c (oo_max_inline_bytes cfg) (Some (length serialized))
                         (ov_failed_to_persist cat (io_message e)))))))"

definition overflow_hook ::
  "tool_output_overflow_config \<Rightarrow> overflow_catalog \<Rightarrow> overflow_serde \<Rightarrow> (file_system \<Rightarrow> bool \<times> bool)
     \<Rightarrow> file_system tool_call_hook" where
  "overflow_hook cfg cat sd cancelled =
     \<lparr>th_id = Some OVERFLOW_HOOK_ID, th_before_tool_call = (\<lambda>c. ok None),
      th_after_tool_call = (\<lambda>c fs. overflow_after_tool_call cfg cat sd (cancelled fs) c fs)\<rparr>"

section \<open>The preview is that of the whole text\<close>

lemma boundary_after_eqI:
  assumes "n \<le> m" and "m < length s \<Longrightarrow> is_char_boundary s m"
    and "\<And>i. n \<le> i \<Longrightarrow> i < m \<Longrightarrow> i < length s \<and> \<not> is_char_boundary s i"
  shows "boundary_after s n = m"
  using assms
proof (induction "m - n" arbitrary: n)
  case 0
  then show ?case by (subst boundary_after.simps) auto
next
  case (Suc d)
  then have "n < m" by simp
  have "boundary_after s (Suc n) = m" using Suc.hyps(2) Suc.prems \<open>n < m\<close> by (intro Suc.hyps(1)) auto
  with Suc.prems(3) [of n] \<open>n < m\<close> show ?case by (subst boundary_after.simps) simp
qed

lemma boundary_after_facts:
  "(boundary_after s n < length s \<longrightarrow> is_char_boundary s (boundary_after s n))
   \<and> (\<forall>i. n \<le> i \<and> i < boundary_after s n \<longrightarrow> i < length s \<and> \<not> is_char_boundary s i)"
proof (induction s n rule: boundary_after.induct)
  case (1 s n)
  show ?case
  proof (cases "n < length s \<and> \<not> is_char_boundary s n")
    case True
    then have "boundary_after s n = boundary_after s (Suc n)" by (subst boundary_after.simps) simp
    moreover have "n \<le> i \<longleftrightarrow> i = n \<or> Suc n \<le> i" for i by auto
    ultimately show ?thesis using 1 True by auto
  next
    case False
    then have "boundary_after s n = n" by (subst boundary_after.simps) auto
    with False show ?thesis by auto
  qed
qed

lemma boundary_after_le: "n \<le> length s \<Longrightarrow> boundary_after s n \<le> length s"
  using boundary_after_facts [of s n] by (metis le_less_linear less_irrefl)

text \<open>The last bytes of a text that ends with a valid string are those of a shorter text.\<close>

lemma is_char_boundary_append:
  assumes "rust_str s"
  shows "i \<le> length a \<Longrightarrow> is_char_boundary (a @ s) i \<longleftrightarrow> is_char_boundary a i"
    and "is_char_boundary (a @ s) (length a + i) \<longleftrightarrow> is_char_boundary s i"
  using assms by (cases s; auto simp: is_char_boundary_def nth_append rust_str_def)+

lemma suffix_to_bytes_last:
  assumes "rust_str s" and "n \<le> length s"
  shows "suffix_to_bytes (a @ s) n = suffix_to_bytes s n"
proof -
  have start: "length (a @ s) - n = length a + (length s - n)" using assms(2) by simp
  let ?k = "boundary_after s (length s - n)"
  have facts: "(?k < length s \<longrightarrow> is_char_boundary s ?k)
      \<and> (\<forall>i. length s - n \<le> i \<and> i < ?k \<longrightarrow> i < length s \<and> \<not> is_char_boundary s i)"
    by (rule boundary_after_facts)
  have "boundary_after (a @ s) (length (a @ s) - n) = length a + ?k"
  proof (rule boundary_after_eqI)
    show "length (a @ s) - n \<le> length a + ?k" unfolding start by (simp add: boundary_after_ge)
    show "is_char_boundary (a @ s) (length a + ?k)" if "length a + ?k < length (a @ s)"
      using that facts by (simp add: is_char_boundary_append [OF assms(1)])
    fix i assume i: "length (a @ s) - n \<le> i" "i < length a + ?k"
    then obtain j where j: "i = length a + j" using start by (metis le_add1 le_trans le_Suc_ex)
    with i start have "length s - n \<le> j" "j < ?k" by auto
    with facts show "i < length (a @ s) \<and> \<not> is_char_boundary (a @ s) i"
      by (simp add: j is_char_boundary_append [OF assms(1)])
  qed
  moreover have "?k = 0" if "length s = n" using that by (subst boundary_after.simps) (simp add: is_char_boundary_def)
  ultimately show ?thesis using assms(2) by (auto simp: suffix_to_bytes_def)
qed

lemma is_char_boundary_drop:
  "0 < i \<Longrightarrow> k \<le> length s \<Longrightarrow> is_char_boundary (drop k s) i \<longleftrightarrow> is_char_boundary s (k + i)"
  by (auto simp: is_char_boundary_def)

lemma suffix_to_bytes_suffix:
  assumes "rust_str s" and "length s \<le> n"
  shows "suffix_to_bytes (suffix_to_bytes a n @ s) n = suffix_to_bytes (a @ s) n"
proof (cases "length a \<le> n")
  case False
  let ?k = "boundary_after a (length a - n)" and ?p = "length a + length s - n"
  let ?j = "boundary_after a ?p"
  have a': "suffix_to_bytes a n = drop ?k a" using False by (simp add: suffix_to_bytes_def)
  have k: "length a - n \<le> ?k" "?k \<le> length a" by (simp_all add: boundary_after_ge boundary_after_le)
  have j: "?p \<le> ?j" "?j \<le> length a" using assms(2) False by (simp_all add: boundary_after_ge boundary_after_le)
  note kf = boundary_after_facts [of a "length a - n"] and jf = boundary_after_facts [of a ?p]
  have bound: "is_char_boundary (a @ s) i \<longleftrightarrow> is_char_boundary a i" if "i \<le> length a" for i
    by (rule is_char_boundary_append(1) [OF assms(1) that])
  have whole: "boundary_after (a @ s) ?p = ?j"
    using j jf by (intro boundary_after_eqI) (auto simp: bound is_char_boundary_def [of a "length a"])
  show ?thesis
  proof (cases "?p \<le> ?k")
    case True
    have "?j = ?k" using True kf by (intro boundary_after_eqI) auto
    moreover have "length a + length s - ?k \<le> n" using True by simp
    ultimately show ?thesis using k whole False by (simp add: a' suffix_to_bytes_def)
  next
    case p: False
    have shift: "is_char_boundary (drop ?k a @ s) i \<longleftrightarrow> is_char_boundary (a @ s) (?k + i)" if "0 < i" for i
    proof -
      have eq: "drop ?k a @ s = drop ?k (a @ s)" using k(2) by simp
      show ?thesis unfolding eq by (rule is_char_boundary_drop) (use that k(2) in simp_all)
    qed
    have start: "length (drop ?k a @ s) - n = ?p - ?k" using k by simp
    have "boundary_after (drop ?k a @ s) (?p - ?k) = ?j - ?k"
    proof (rule boundary_after_eqI)
      show "?p - ?k \<le> ?j - ?k" using j by simp
      show "is_char_boundary (drop ?k a @ s) (?j - ?k)" if "?j - ?k < length (drop ?k a @ s)"
        using that p j jf by (simp add: shift bound) (metis bound is_char_boundary_def le_less)
      fix i assume "?p - ?k \<le> i" "i < ?j - ?k"
      then have i: "?p \<le> ?k + i" "?k + i < ?j" "0 < i" using p by auto
      with jf j(2) have "?k + i < length a \<and> \<not> is_char_boundary a (?k + i)" by simp
      with i(3) show "i < length (drop ?k a @ s) \<and> \<not> is_char_boundary (drop ?k a @ s) i"
        using k(2) by (simp add: shift bound) linarith
    qed
    moreover have "\<not> length a + length s - ?k \<le> n" using p by simp
    ultimately show ?thesis using start whole p k j False by (simp add: a' suffix_to_bytes_def)
  qed
qed (simp add: suffix_to_bytes_def)

text \<open>What the builder holds after the texts \<open>h\<close>.\<close>

definition preview_holds :: "string \<Rightarrow> preview_builder \<Rightarrow> bool" where
  "preview_holds h b =
     (pv_total_bytes b = length h
      \<and> pv_full b = (if length h \<le> pv_head_bytes b + pv_tail_bytes b then Some h else None)
      \<and> length (pv_head b) \<le> pv_head_bytes b
      \<and> pv_tail b = suffix_to_bytes h (pv_tail_bytes b))"

lemma suffix_to_bytes_0 [simp]: "suffix_to_bytes s 0 = []"
  using length_suffix_to_bytes [of s 0] by simp

lemma preview_holds_push:
  assumes b: "preview_holds h b" and s: "rust_str s"
  shows "preview_holds (h @ s) (preview_push s b)"
proof -
  have same: "pv_head_bytes (push_full s b) = pv_head_bytes b" "pv_tail_bytes (push_full s b) = pv_tail_bytes b"
    "pv_head (push_full s b) = pv_head b" "pv_tail (push_full s b) = pv_tail b"
    "pv_total_bytes (push_full s b) = pv_total_bytes b" for b
    by (simp_all add: push_full_def split: option.split)
  have same': "pv_head_bytes (push_head s b) = pv_head_bytes b" "pv_tail_bytes (push_head s b) = pv_tail_bytes b"
    "pv_full (push_head s b) = pv_full b" "pv_tail (push_head s b) = pv_tail b"
    "pv_total_bytes (push_head s b) = pv_total_bytes b" for b
    by (simp_all add: push_head_def Let_def)
  have same'': "pv_head_bytes (push_tail s b) = pv_head_bytes b" "pv_tail_bytes (push_tail s b) = pv_tail_bytes b"
    "pv_full (push_tail s b) = pv_full b" "pv_head (push_tail s b) = pv_head b"
    "pv_total_bytes (push_tail s b) = pv_total_bytes b" for b
    by (simp_all add: push_tail_def)
  have f: "pv_full (push_full s (b\<lparr>pv_total_bytes := n\<rparr>)) =
      (if length (h @ s) \<le> pv_head_bytes b + pv_tail_bytes b then Some (h @ s) else None)" for n
    using b by (auto simp: preview_holds_def push_full_def split: option.split)
  have hd: "length (pv_head (push_head s b)) \<le> pv_head_bytes b" if "length (pv_head b) \<le> pv_head_bytes b" for b
    using that length_prefix_to_bytes [of s "pv_head_bytes b - length (pv_head b)"]
    by (auto simp: push_head_def Let_def)
  have tl: "pv_tail (push_tail s b) = suffix_to_bytes (h @ s) (pv_tail_bytes b)"
    if "pv_tail b = suffix_to_bytes h (pv_tail_bytes b)" for b
    using that suffix_to_bytes_last [OF s, of "pv_tail_bytes b" h] suffix_to_bytes_suffix [OF s, of "pv_tail_bytes b" h]
    by (auto simp: push_tail_def)
  show ?thesis
    using b f hd [of "push_full s (b\<lparr>pv_total_bytes := length h + length s\<rparr>)"]
    unfolding preview_holds_def preview_push_def
    by (simp add: same same' same'' tl)
qed

lemma preview_holds_new: "preview_holds [] (preview_new h t)"
  by (simp add: preview_holds_def preview_new_def suffix_to_bytes_def)

lemma preview_pushes:
  assumes "list_all rust_str ss"
  shows "preview_holds (concat ss) (fold preview_push ss (preview_new h t))"
  using assms
proof (induction ss rule: rev_induct)
  case (snoc s ss)
  then show ?case using preview_holds_push [of "concat ss" _ s] by simp
qed (simp add: preview_holds_new)

lemma preview_finish_holds:
  assumes b: "preview_holds s b"
  shows "if length s \<le> pv_head_bytes b + pv_tail_bytes b
         then preview_finish b = \<lparr>op_head = s, op_tail = [], op_omitted_bytes = 0\<rparr>
         else length (op_head (preview_finish b)) \<le> pv_head_bytes b
            \<and> op_tail (preview_finish b) = suffix_to_bytes s (pv_tail_bytes b)
            \<and> length (op_head (preview_finish b)) + op_omitted_bytes (preview_finish b)
                + length (op_tail (preview_finish b)) = length s"
  using b length_suffix_to_bytes [of s "pv_tail_bytes b"] by (auto simp: preview_holds_def preview_finish_def)

lemma preview_push_limits [simp]:
  "pv_head_bytes (preview_push s b) = pv_head_bytes b" "pv_tail_bytes (preview_push s b) = pv_tail_bytes b"
  by (auto simp: preview_push_def push_tail_def push_head_def push_full_def Let_def split: option.split)

lemma preview_new_limits [simp]:
  "pv_head_bytes (preview_new h t) = h" "pv_tail_bytes (preview_new h t) = t"
  by (simp_all add: preview_new_def)

lemma fold_preview_push_limits [simp]:
  "pv_head_bytes (fold preview_push ss b) = pv_head_bytes b" "pv_tail_bytes (fold preview_push ss b) = pv_tail_bytes b"
  by (induction ss arbitrary: b) simp_all

text \<open>The texts that \<open>output_preview\<close> pushes, in order.\<close>

definition block_texts :: "overflow_serde \<Rightarrow> content_block \<Rightarrow> string list" where
  "block_texts sd c = (case content_preview sd c of Some s \<Rightarrow> [s] | None \<Rightarrow> [])"

definition preview_texts :: "overflow_serde \<Rightarrow> tool_output \<Rightarrow> string \<Rightarrow> string list" where
  "preview_texts sd output serialized =
     (case to_content output of
        [] \<Rightarrow> [from_utf8_lossy serialized]
      | c # cs \<Rightarrow> block_texts sd c @ concat (map (\<lambda>c. [CHR 0x0A] # block_texts sd c) cs))"

lemma push_content_preview_texts: "push_content_preview sd c b = fold preview_push (block_texts sd c) b"
  by (simp add: push_content_preview_def block_texts_def split: option.split)

lemma output_preview_texts:
  "output_preview sd output serialized edges =
   preview_finish (fold preview_push (preview_texts sd output serialized) (preview_new (fst edges) (snd edges)))"
proof -
  have "fold (\<lambda>c b. push_content_preview sd c (preview_push [CHR 0x0A] b)) cs b =
      fold preview_push (concat (map (\<lambda>c. [CHR 0x0A] # block_texts sd c) cs)) b" for cs b
    by (induction cs arbitrary: b) (simp_all add: push_content_preview_texts)
  then show ?thesis
    by (simp add: output_preview_def preview_texts_def Let_def push_content_preview_texts split: list.split)
qed

lemma output_preview_spec:
  assumes "list_all rust_str (preview_texts sd output serialized)"
    and "preview_edges cfg = (h, t)" and "concat (preview_texts sd output serialized) = s"
    and "output_preview sd output serialized (preview_edges cfg) = p"
  shows "if length s \<le> h + t then p = \<lparr>op_head = s, op_tail = [], op_omitted_bytes = 0\<rparr>
         else length (op_head p) \<le> h \<and> op_tail p = suffix_to_bytes s t
            \<and> length (op_head p) + op_omitted_bytes p + length (op_tail p) = length s"
proof -
  let ?b = "fold preview_push (preview_texts sd output serialized) (preview_new h t)"
  have "p = preview_finish ?b" using assms(2,4) by (simp add: output_preview_texts)
  with preview_finish_holds [OF preview_pushes [OF assms(1), of h t]] assms(3) show ?thesis
    by (auto split: if_splits)
qed

text \<open>The head is cut for each text on its own: what follows a character that does not fit may be taken.\<close>

lemma head_skips_character:
  "pv_head (fold preview_push [[CHR 0xC3, CHR 0xA9], [CHR 0x0A], ''rest''] (preview_new 1 1)) = [CHR 0x0A]"
  by (simp add: preview_push_def push_tail_def push_head_def push_full_def preview_new_def Let_def
      prefix_to_bytes_def is_char_boundary_def is_continuation_def numeral_2_eq_2)

section \<open>The output is kept in full\<close>

lemma file_contents_create_dir: "file_contents (fst (create_dir p fs)) = file_contents fs"
  by (auto simp: create_dir_def file_contents_def set_node_def fun_eq_iff split: option.split node.split)

lemma file_contents_create_dir_all: "file_contents (fst (fs_create_dir_all p fs)) = file_contents fs"
proof -
  have "preserves (\<lambda>fs'. file_contents fs' = file_contents fs) (for_each ps create_dir)" for ps
    by (rule preserves_for_each) (rule preservesI, simp add: file_contents_create_dir)
  then show ?thesis unfolding fs_create_dir_all_def by (rule preservesD) simp
qed

lemma persist_files:
  assumes "and_then (fs_create_dir_all d) (\<lambda>_. fs_write p s) fs = (fs', r)"
  shows "file_contents fs' = (case r of Inr _ \<Rightarrow> (file_contents fs)(p \<mapsto> s) | Inl e \<Rightarrow> file_contents fs)"
proof -
  obtain fs1 r1 where one: "fs_create_dir_all d fs = (fs1, r1)" by force
  then have f1: "file_contents fs1 = file_contents fs" using file_contents_create_dir_all [of d fs] by simp
  show ?thesis using assms one f1
    by (cases r1) (auto simp: and_then_def fs_write_def split: option.splits if_splits)
qed

text \<open>C20: The hook for large outputs loses nothing, when the texts of an output are valid strings: an output within the limit is left alone; one beyond it is replaced only together with a file that holds its whole serialization, and when the file cannot be written, or the output cannot be serialized, the replacement is an error; no other file changes. The preview is all of the text when it is short, and otherwise its last bytes, a head within its limit, and the exact number of bytes left out.\<close>

theorem large_output_kept_in_full:
  assumes run: "overflow_after_tool_call cfg cat sd (False, False) c fs = (fs', r)"
    and valid: "\<And>s. os_output sd (atc_output c) = Inr s \<Longrightarrow> list_all rust_str (preview_texts sd (atc_output c) s)"
    and edges: "preview_edges cfg = (h, t)"
  shows "\<exists>rewrite. r = Inr rewrite \<and>
    (case os_output sd (atc_output c) of
       Inl e \<Rightarrow> fs' = fs \<and> map_option atr_is_error rewrite = Some (Some True)
     | Inr s \<Rightarrow>
         if length s \<le> oo_max_inline_bytes cfg then fs' = fs \<and> rewrite = None
         else let p = overflow_path (oo_temp_dir cfg) c; shown = concat (preview_texts sd (atc_output c) s)
              in (file_contents fs' = (file_contents fs)(p \<mapsto> s)
                   \<and> (\<exists>v. rewrite = Some (overflow_result cat c p (length s) (oo_max_inline_bytes cfg) v)
                       \<and> (if length shown \<le> h + t then op_head v = shown \<and> op_omitted_bytes v = 0
                          else length (op_head v) \<le> h \<and> op_tail v = suffix_to_bytes shown t
                             \<and> length (op_head v) + op_omitted_bytes v + length (op_tail v) = length shown)))
                 \<or> (file_contents fs' = file_contents fs \<and> map_option atr_is_error rewrite = Some (Some True)))"
proof (cases "os_output sd (atc_output c)")
  case (Inl e)
  with run show ?thesis by (auto simp: overflow_after_tool_call_def ok_def overflow_failure_def)
next
  case (Inr s)
  show ?thesis
  proof (cases "length s \<le> oo_max_inline_bytes cfg")
    case True
    with run Inr show ?thesis by (auto simp: overflow_after_tool_call_def ok_def)
  next
    case False
    let ?p = "overflow_path (oo_temp_dir cfg) c"
    obtain fs1 q where w: "and_then (fs_create_dir_all (oo_temp_dir cfg)) (\<lambda>_. fs_write ?p s) fs = (fs1, q)" by force
    note files = persist_files [OF w] and spec = output_preview_spec [OF valid [OF Inr] edges refl refl]
    from run Inr False w have "fs' = fs1" and r: "r = Inr (Some (case q of
          Inr _ \<Rightarrow> overflow_result cat c ?p (length s) (oo_max_inline_bytes cfg)
                     (output_preview sd (atc_output c) s (preview_edges cfg))
        | Inl e \<Rightarrow> overflow_failure cat c (oo_max_inline_bytes cfg) (Some (length s)) (ov_failed_to_persist cat (io_message e))))"
      by (simp_all add: overflow_after_tool_call_def Let_def)
    show ?thesis
    proof (cases q)
      case (Inl e)
      with files r \<open>fs' = fs1\<close> Inr False show ?thesis by (simp add: overflow_failure_def Let_def)
    next
      case inr: (Inr u)
      with files r \<open>fs' = fs1\<close> Inr False spec show ?thesis by (auto simp: Let_def split: if_splits)
    qed
  qed
qed

definition sample_overflow_config :: tool_output_overflow_config where
  "sample_overflow_config =
     \<lparr>oo_max_inline_bytes = 8, oo_preview_head_bytes = 2, oo_preview_tail_bytes = 3, oo_temp_dir = [RootDir, Normal ''t'']\<rparr>"

definition sample_serde :: overflow_serde where
  "sample_serde = \<lparr>os_output = (\<lambda>output. Inr ''0123456789''), os_block = (\<lambda>b. None), os_json = (\<lambda>v. [])\<rparr>"

definition large_output_context :: after_tool_call_context where
  "large_output_context =
     \<lparr>atc_run_id = ''run'', atc_turn_id = 1,
      atc_tool_call = \<lparr>tc_id = ''c'', tc_name = ''ls'', tc_arguments = JNull\<rparr>,
      atc_output = \<lparr>to_content = [Text ''abcdef''], to_details = JNull, to_is_error = True, to_updates = []\<rparr>,
      atc_state = agent_state_default\<rparr>"

definition sample_host :: file_system where
  "sample_host =
     \<lparr>fs_nodes = (\<lambda>p. if p = [RootDir] then Some DirNode else None), fs_fault = (\<lambda>call p. None),
      fs_canonical = (\<lambda>p. Some p)\<rparr>"

lemma sample_overflow_persists:
  "\<exists>fs' v. overflow_after_tool_call sample_overflow_config english_overflow_catalog sample_serde (False, False)
     large_output_context sample_host = (fs', Inr (Some v)) \<and> atr_is_error v = Some False"
  by (simp add: overflow_after_tool_call_def sample_overflow_config_def sample_serde_def large_output_context_def
      sample_host_def overflow_path_def fs_create_dir_all_def ancestors_def create_dir_def fs_write_def
      fs_check_def set_node_def overflow_result_def ok_def and_then_def Let_def numeral_2_eq_2 upt_rec)

theorem large_output_kept_in_full_witness:
  "\<exists>fs' v. overflow_after_tool_call sample_overflow_config english_overflow_catalog sample_serde (False, False)
     large_output_context sample_host = (fs', Inr (Some v))
     \<and> file_contents fs' (overflow_path [RootDir, Normal ''t''] large_output_context) = Some ''0123456789''"
proof -
  obtain fs' v where run: "overflow_after_tool_call sample_overflow_config english_overflow_catalog sample_serde
      (False, False) large_output_context sample_host = (fs', Inr (Some v))" and v: "atr_is_error v = Some False"
    using sample_overflow_persists by blast
  have edges: "preview_edges sample_overflow_config = (2, 2)"
    by (simp add: preview_edges_def sample_overflow_config_def Let_def)
  have valid: "list_all rust_str (preview_texts sample_serde (atc_output large_output_context) s)" for s
    by (simp add: preview_texts_def block_texts_def large_output_context_def rust_str_def is_continuation_def)
  have "file_contents fs' (overflow_path [RootDir, Normal ''t''] large_output_context) = Some ''0123456789''"
    using large_output_kept_in_full [OF run valid edges] v
    by (simp add: sample_serde_def sample_overflow_config_def) (auto simp: Let_def)
  with run show ?thesis by blast
qed

text \<open>A failed tool whose output is large is reported to the model as a success.\<close>

lemma large_failure_becomes_success:
  "to_is_error (rewrite_output output (overflow_result cat c p n m v)) = False"
  by (simp add: rewrite_output_def overflow_result_def)

text \<open>Two calls of a turn whose identifiers differ only in what is replaced share one file.\<close>

lemma overflow_paths_collide:
  assumes "atc_run_id c = atc_run_id d" and "atc_turn_id c = atc_turn_id d"
    and "tc_id (atc_tool_call c) = ''a/b''" and "tc_id (atc_tool_call d) = ''a:b''"
  shows "overflow_path root c = overflow_path root d"
proof -
  have "safe_path_component ''a/b'' = safe_path_component ''a:b''"
    by (simp add: safe_path_component_def is_continuation_def is_ascii_alphanumeric_def is_ascii_digit_def)
  with assms show ?thesis by (simp add: overflow_path_def)
qed

end
