(* ===== verification/Skills.thy ===== *)
theory Skills
  imports System_Prompt Patch_Document Rust_Strings
begin

text \<open>
  Skills of plugins (\<open>crates/noloong-agent/src/skills.rs\<close>): the scan of a directory tree for skill
  files, their front matter, the list of skills that is put into the prompt within a budget, and the
  skills that a message asks for. The file system is asked through a record of functions.
\<close>

section \<open>The skills of a session\<close>

definition SKILL_FILE_NAME :: string where
  "SKILL_FILE_NAME = ''SKILL.md''"

definition DEFAULT_MAX_SCAN_DEPTH :: nat where
  "DEFAULT_MAX_SCAN_DEPTH = 6"

definition DEFAULT_MAX_SCAN_DIRS :: nat where
  "DEFAULT_MAX_SCAN_DIRS = 1024"

definition MAX_NAME_CHARS :: nat where
  "MAX_NAME_CHARS = 128"

definition MAX_DESCRIPTION_CHARS :: nat where
  "MAX_DESCRIPTION_CHARS = 1200"

record skill_metadata =
  sk_name :: string
  sk_description :: string
  sk_path :: path
  sk_root :: path
  sk_plugin_id :: string
  sk_scope :: string
  sk_body :: string

record loaded_skills =
  ls_skills :: "skill_metadata list"
  ls_warnings :: "string list"

definition no_skills :: loaded_skills where
  "no_skills = \<lparr>ls_skills = [], ls_warnings = []\<rparr>"

definition skills_empty :: "loaded_skills \<Rightarrow> bool" where
  "skills_empty l = (ls_skills l = [])"

fun retain_new_paths :: "path set \<Rightarrow> skill_metadata list \<Rightarrow> skill_metadata list" where
  "retain_new_paths seen [] = []"
| "retain_new_paths seen (s # ss) =
     (if sk_path s \<in> seen then retain_new_paths seen ss
      else s # retain_new_paths (insert (sk_path s) seen) ss)"

text \<open>The stable sort by name, then path, then plugin, as three stable sorts.\<close>

definition sort_skills :: "skill_metadata list \<Rightarrow> skill_metadata list" where
  "sort_skills ss = sort_key sk_name (sort_key sk_path (sort_key sk_plugin_id ss))"

definition sort_and_dedup :: "loaded_skills \<Rightarrow> loaded_skills" where
  "sort_and_dedup l = l\<lparr>ls_skills := retain_new_paths {} (sort_skills (ls_skills l))\<rparr>"

definition merge_skills :: "loaded_skills \<Rightarrow> loaded_skills \<Rightarrow> loaded_skills" where
  "merge_skills l new =
     sort_and_dedup \<lparr>ls_skills = ls_skills l @ ls_skills new, ls_warnings = ls_warnings l @ ls_warnings new\<rparr>"

datatype skill_load_error =
    RootNotDirectory string
  | ReadRoot string string
  | InvalidSkill string string

fun show_skill_load_error :: "skill_load_error \<Rightarrow> string" where
  "show_skill_load_error (RootNotDirectory p) = ''skills root `'' @ p @ ''` is not a directory''"
| "show_skill_load_error (ReadRoot p m) = ''failed to read skills root `'' @ p @ ''`: '' @ m"
| "show_skill_load_error (InvalidSkill p m) = ''skill `'' @ p @ ''` is invalid: '' @ m"

section \<open>Skill files\<close>

text \<open>What the scan asks of the file system.\<close>

record skills_host =
  sh_is_dir :: "path \<Rightarrow> bool"
  sh_is_file :: "path \<Rightarrow> bool"
  sh_read_dir :: "path \<Rightarrow> string + path list"
  sh_read_to_string :: "path \<Rightarrow> string + string"
  sh_canonicalize :: "path \<Rightarrow> path option"

definition canonical_or_original :: "skills_host \<Rightarrow> path \<Rightarrow> path" where
  "canonical_or_original h p = (case sh_canonicalize h p of Some q \<Rightarrow> q | None \<Rightarrow> p)"

definition absolute_path :: "path \<Rightarrow> string \<Rightarrow> path" where
  "absolute_path cwd s =
     (let p = components s in if is_absolute p then p else cwd @ filter (\<lambda>c. c \<noteq> CurDir) p)"

definition is_hidden_path :: "path \<Rightarrow> bool" where
  "is_hidden_path p = (case file_name p of Some name \<Rightarrow> prefix ''.'' name | None \<Rightarrow> False)"

definition quoted_by :: "char \<Rightarrow> string \<Rightarrow> string option" where
  "quoted_by q s = Option.bind (strip_prefix [q] s) (strip_suffix [q])"

definition strip_yaml_scalar :: "string \<Rightarrow> string" where
  "strip_yaml_scalar s =
     trim (case quoted_by (CHR 0x22) s of
        Some t \<Rightarrow> t
      | None \<Rightarrow> (case quoted_by (CHR 0x27) s of Some t \<Rightarrow> t | None \<Rightarrow> s))"

definition insert_field :: "string \<Rightarrow> string smap \<Rightarrow> string smap" where
  "insert_field line front =
     (case split_once '':'' line of
        None \<Rightarrow> front
      | Some (key, v) \<Rightarrow>
          if trim key = [] then front else bt_insert (trim key) (strip_yaml_scalar (trim v)) front)"

definition parse_frontmatter :: "string \<Rightarrow> string smap option" where
  "parse_frontmatter body =
     Option.bind (strip_prefix (''---'' @ [CHR 0x0A]) body) (\<lambda>rest.
     map_option (\<lambda>(frontmatter, _). fold insert_field (str_lines frontmatter) [])
       (split_once ([CHR 0x0A] @ ''---'') rest))"

definition required_frontmatter_field :: "path \<Rightarrow> string smap \<Rightarrow> string \<Rightarrow> skill_load_error + string" where
  "required_frontmatter_field p front key =
     (case map_of front key of
        Some v \<Rightarrow>
          if trim v = [] then Inl (InvalidSkill (path_string p) (''missing or empty `'' @ key @ ''` frontmatter field''))
          else Inr (trim v)
      | None \<Rightarrow> Inl (InvalidSkill (path_string p) (''missing or empty `'' @ key @ ''` frontmatter field'')))"

definition validate_len :: "path \<Rightarrow> string \<Rightarrow> string \<Rightarrow> nat \<Rightarrow> skill_load_error + unit" where
  "validate_len p field v max_chars =
     (if max_chars < char_count v
      then Inl (InvalidSkill (path_string p) (''`'' @ field @ ''` exceeds '' @ show_nat max_chars @ '' characters''))
      else Inr ())"

definition and_skill :: "skill_load_error + 'a \<Rightarrow> ('a \<Rightarrow> skill_load_error + 'b) \<Rightarrow> skill_load_error + 'b" where
  "and_skill r f = (case r of Inl e \<Rightarrow> Inl e | Inr x \<Rightarrow> f x)"

lemma and_skill_Inr [simp]: "and_skill r f = Inr y \<longleftrightarrow> (\<exists>x. r = Inr x \<and> f x = Inr y)"
  by (cases r) (simp_all add: and_skill_def)

definition parse_skill_file :: "skills_host \<Rightarrow> string \<Rightarrow> path \<Rightarrow> path \<Rightarrow> skill_load_error + skill_metadata" where
  "parse_skill_file h plugin_id root p =
     and_skill (case sh_read_to_string h p of Inl e \<Rightarrow> Inl (ReadRoot (path_string p) e) | Inr s \<Rightarrow> Inr s) (\<lambda>body.
     and_skill (case parse_frontmatter body of
         None \<Rightarrow> Inl (InvalidSkill (path_string p) ''missing YAML frontmatter with name and description'')
       | Some front \<Rightarrow> Inr front) (\<lambda>front.
     and_skill (required_frontmatter_field p front ''name'') (\<lambda>name.
     and_skill (required_frontmatter_field p front ''description'') (\<lambda>description.
     and_skill (validate_len p ''name'' name MAX_NAME_CHARS) (\<lambda>_.
     and_skill (validate_len p ''description'' description MAX_DESCRIPTION_CHARS) (\<lambda>_.
     Inr \<lparr>sk_name = name, sk_description = description, sk_path = canonical_or_original h p,
          sk_root = canonical_or_original h root, sk_plugin_id = plugin_id, sk_scope = ''plugin'',
          sk_body = body\<rparr>))))))"

section \<open>The scan\<close>

record skill_scanner =
  ss_visited_dirs :: nat
  ss_seen_paths :: "path set"
  ss_loaded :: loaded_skills

definition scan_stopped_warning :: "path \<Rightarrow> string" where
  "scan_stopped_warning root =
     ''skills scan stopped at '' @ show_nat DEFAULT_MAX_SCAN_DIRS @ '' directories under `'' @ path_string root @ ''`''"

definition stop_scan :: "path \<Rightarrow> skill_scanner \<Rightarrow> skill_scanner" where
  "stop_scan root st =
     st\<lparr>ss_loaded := (ss_loaded st)\<lparr>ls_warnings := ls_warnings (ss_loaded st) @ [scan_stopped_warning root]\<rparr>\<rparr>"

definition add_skill :: "skill_metadata \<Rightarrow> skill_scanner \<Rightarrow> skill_scanner" where
  "add_skill s st =
     (if sk_path s \<in> ss_seen_paths st then st
      else st\<lparr>ss_seen_paths := insert (sk_path s) (ss_seen_paths st),
              ss_loaded := (ss_loaded st)\<lparr>ls_skills := ls_skills (ss_loaded st) @ [s]\<rparr>\<rparr>)"

definition scan_skill_file ::
  "skills_host \<Rightarrow> string \<Rightarrow> path \<Rightarrow> path \<Rightarrow> skill_scanner \<Rightarrow> skill_load_error + skill_scanner" where
  "scan_skill_file h plugin_id root dir st =
     (let p = dir @ [Normal SKILL_FILE_NAME]
      in if sh_is_file h p then and_skill (parse_skill_file h plugin_id root p) (\<lambda>s. Inr (add_skill s st))
         else Inr st)"

fun scan_entries ::
  "(path \<Rightarrow> bool) \<Rightarrow> (path \<Rightarrow> skill_scanner \<Rightarrow> skill_load_error + skill_scanner) \<Rightarrow> path list
     \<Rightarrow> skill_scanner \<Rightarrow> skill_load_error + skill_scanner" where
  "scan_entries is_dir scan [] st = Inr st"
| "scan_entries is_dir scan (p # ps) st =
     and_skill (if is_dir p then scan p st else Inr st) (scan_entries is_dir scan ps)"

text \<open>The first argument is the number of levels that are left; it is 0 when the depth is beyond its maximum.\<close>

primrec scan_dir ::
  "nat \<Rightarrow> skills_host \<Rightarrow> string \<Rightarrow> path \<Rightarrow> path \<Rightarrow> skill_scanner \<Rightarrow> skill_load_error + skill_scanner" where
  "scan_dir 0 h plugin_id root dir st = Inr st"
| "scan_dir (Suc levels) h plugin_id root dir st =
     (if is_hidden_path dir then Inr st
      else
        let st = st\<lparr>ss_visited_dirs := ss_visited_dirs st + 1\<rparr>
        in if DEFAULT_MAX_SCAN_DIRS < ss_visited_dirs st then Inr (stop_scan root st)
           else
             and_skill (scan_skill_file h plugin_id root dir st) (\<lambda>st.
             and_skill (case sh_read_dir h dir of Inl e \<Rightarrow> Inl (ReadRoot (path_string dir) e) | Inr ps \<Rightarrow> Inr ps)
               (\<lambda>entries.
             scan_entries (sh_is_dir h) (scan_dir levels h plugin_id root) (sort entries) st)))"

definition scan_skills :: "skills_host \<Rightarrow> string \<Rightarrow> path \<Rightarrow> skill_load_error + loaded_skills" where
  "scan_skills h plugin_id root =
     (if \<not> sh_is_dir h root then Inl (RootNotDirectory (path_string root))
      else and_skill (scan_dir (DEFAULT_MAX_SCAN_DEPTH + 1) h plugin_id root root
             \<lparr>ss_visited_dirs = 0, ss_seen_paths = {}, ss_loaded = no_skills\<rparr>)
           (\<lambda>st. Inr (sort_and_dedup (ss_loaded st))))"

fun load_skill_roots ::
  "skills_host \<Rightarrow> string \<Rightarrow> path \<Rightarrow> string list \<Rightarrow> loaded_skills \<Rightarrow> skill_load_error + loaded_skills" where
  "load_skill_roots h plugin_id cwd [] l = Inr l"
| "load_skill_roots h plugin_id cwd (r # rs) l =
     and_skill (scan_skills h plugin_id (canonical_or_original h (absolute_path cwd r))) (\<lambda>new.
     load_skill_roots h plugin_id cwd rs (merge_skills l new))"

definition load_plugin_skills ::
  "skills_host \<Rightarrow> string \<Rightarrow> string list \<Rightarrow> path \<Rightarrow> skill_load_error + loaded_skills" where
  "load_plugin_skills h plugin_id roots cwd = load_skill_roots h plugin_id cwd roots no_skills"

section \<open>The list of skills for the prompt\<close>

record skill_render =
  sr_text :: string
  sr_warnings :: "string list"

datatype path_render_mode = Absolute | Aliased

definition root_aliases :: "loaded_skills \<Rightarrow> path smap" where
  "root_aliases l =
     bt_collect (map (\<lambda>(i, root). (''skill-root-'' @ show_nat (i + 1), root))
       (List.enumerate 0 (bs_collect (map sk_root (ls_skills l)))))"

fun aliased_path :: "path smap \<Rightarrow> path \<Rightarrow> string" where
  "aliased_path [] p = path_string p"
| "aliased_path ((alias, root) # aliases) p =
     (if prefix root p then alias @ ''/'' @ path_string (drop (length root) p) else aliased_path aliases p)"

definition rendered_path :: "skill_metadata \<Rightarrow> path_render_mode \<Rightarrow> path smap \<Rightarrow> string" where
  "rendered_path s mode aliases =
     (if mode = Absolute then path_string (sk_path s) else aliased_path aliases (sk_path s))"

definition truncate_chars :: "string \<Rightarrow> nat \<Rightarrow> string" where
  "truncate_chars s max_chars =
     (if char_count s \<le> max_chars then s else concat (take (max_chars - 1) (utf8_chars s)) @ ''...'')"

definition root_lines :: "path smap \<Rightarrow> string list" where
  "root_lines aliases = map (\<lambda>(alias, root). ''- '' @ alias @ '': '' @ path_string root) aliases"

definition skill_entry :: "path_render_mode \<Rightarrow> nat option \<Rightarrow> path smap \<Rightarrow> skill_metadata \<Rightarrow> string" where
  "skill_entry mode limit aliases s =
     ''- name: '' @ sk_name s @ [CHR 0x0A] @ ''  description: ''
     @ (case limit of Some n \<Rightarrow> truncate_chars (sk_description s) n | None \<Rightarrow> sk_description s)
     @ [CHR 0x0A] @ ''  path: '' @ rendered_path s mode aliases @ [CHR 0x0A] @ ''  pluginId: '' @ sk_plugin_id s"

definition render_metadata :: "loaded_skills \<Rightarrow> path_render_mode \<Rightarrow> nat option \<Rightarrow> string" where
  "render_metadata l mode limit =
     (let aliases = root_aliases l
      in join_with [CHR 0x0A]
           ((if mode = Aliased then ''Skill roots:'' # root_lines aliases @ [''Skills:''] else [''Skills:''])
            @ map (skill_entry mode limit aliases) (ls_skills l)))"

definition metadata_fixed_chars :: "loaded_skills \<Rightarrow> nat" where
  "metadata_fixed_chars l =
     sum_list (map (\<lambda>s. length (sk_name s) + length (path_string (sk_path s)) + 64) (ls_skills l))"

fun push_rows :: "nat \<Rightarrow> string list \<Rightarrow> string \<Rightarrow> string" where
  "push_rows budget [] out = out"
| "push_rows budget (r # rs) out =
     (if budget < length out + length r then out else push_rows budget rs (out @ r))"

definition minimum_header :: "path smap \<Rightarrow> string" where
  "minimum_header aliases =
     ''Skill roots:'' @ [CHR 0x0A] @ concat (map (\<lambda>l. l @ [CHR 0x0A]) (root_lines aliases)) @ ''Skills:'' @ [CHR 0x0A]"

definition minimum_row :: "path smap \<Rightarrow> skill_metadata \<Rightarrow> string" where
  "minimum_row aliases s = ''- '' @ sk_name s @ '': '' @ rendered_path s Aliased aliases @ [CHR 0x0A]"

definition render_minimum_rows :: "loaded_skills \<Rightarrow> nat \<Rightarrow> string" where
  "render_minimum_rows l budget =
     (let aliases = root_aliases l
      in push_rows budget (map (minimum_row aliases) (ls_skills l)) (minimum_header aliases))"

definition wrap_available_skills :: "string \<Rightarrow> string" where
  "wrap_available_skills metadata =
     join_with [CHR 0x0A]
       [''<skills_instructions>'',
        ''Available skills are listed below. Each entry includes a readable path. Use a skill when the user explicitly mentions it or when its metadata clearly matches the task.'',
        ''If you need the full instructions, read the listed SKILL.md path with normal host file/command capabilities. There is no agent.skill.* tool.'',
        ''When a user explicitly mentions $skill, skill://path, or a structured skill selection, the host may inject that SKILL.md body for the current turn only.'',
        [], trim metadata, ''</skills_instructions>'']"

text \<open>The first rendering that fits the budget, with the warning that tells of it.\<close>

definition budget_metadata :: "loaded_skills \<Rightarrow> nat \<Rightarrow> string \<times> string list" where
  "budget_metadata l budget =
     (let full = render_metadata l Absolute None; aliased = render_metadata l Aliased None;
          per_description = max ((budget - metadata_fixed_chars l) div length (ls_skills l)) 24;
          truncated = render_metadata l Aliased (Some per_description)
      in if length full \<le> budget then (full, [])
         else if length aliased \<le> budget
         then (aliased, [''skills metadata used root aliases to fit the 2% input-window budget''])
         else if length truncated \<le> budget
         then (truncated, [''skills metadata descriptions were truncated to fit the 2% input-window budget''])
         else (render_minimum_rows l budget,
               [''skills metadata exceeded the 2% input-window budget; only minimum rows that fit were rendered'']))"

definition render_with_budget :: "loaded_skills \<Rightarrow> nat \<Rightarrow> skill_render" where
  "render_with_budget l budget =
     (case budget_metadata l budget of (metadata, warnings) \<Rightarrow>
        \<lparr>sr_text = wrap_available_skills metadata, sr_warnings = ls_warnings l @ warnings\<rparr>)"

text \<open>
  The budget is two per cent of the input window, at least one token, at four characters a token. The
  product with 0.02 in floating point has the same floor as the division, for windows below \<open>2 ^ 50\<close>.
\<close>

definition skills_budget :: "nat \<Rightarrow> nat" where
  "skills_budget input_limit_tokens = max (max (input_limit_tokens div 50) 1 * 4) 1"

definition render_skills_instructions :: "loaded_skills \<Rightarrow> nat \<Rightarrow> skill_render option" where
  "render_skills_instructions l input_limit_tokens =
     (if ls_skills l = [] then None else Some (render_with_budget l (skills_budget input_limit_tokens)))"

section \<open>Skills that a message asks for\<close>

definition str_contains :: "string \<Rightarrow> string \<Rightarrow> bool" where
  "str_contains s pat = (split_once pat s \<noteq> None)"

definition unique_name :: "skill_metadata list \<Rightarrow> string \<Rightarrow> bool" where
  "unique_name ss name = (count_list (map sk_name ss) name = 1)"

definition text_asks :: "skill_metadata list \<Rightarrow> string \<Rightarrow> skill_metadata \<Rightarrow> bool" where
  "text_asks ss s sk =
     (str_contains s (''skill://'' @ path_string (sk_path sk))
      \<or> (unique_name ss (sk_name sk) \<and> str_contains s (''$'' @ sk_name sk)))"

definition collect_text_matches :: "loaded_skills \<Rightarrow> string \<Rightarrow> skill_metadata list" where
  "collect_text_matches l s = filter (text_asks (ls_skills l) s) (ls_skills l)"

definition collect_path_match :: "loaded_skills \<Rightarrow> string \<Rightarrow> skill_metadata list" where
  "collect_path_match l p = filter (\<lambda>s. sk_path s = components p) (ls_skills l)"

definition collect_name_match :: "loaded_skills \<Rightarrow> string \<Rightarrow> skill_metadata list" where
  "collect_name_match l name =
     (if unique_name (ls_skills l) name then filter (\<lambda>s. sk_name s = name) (ls_skills l) else [])"

definition selection_matches :: "loaded_skills \<Rightarrow> json_map \<Rightarrow> skill_metadata list" where
  "selection_matches l m =
     (if Option.bind (map_of m ''type'') json_as_str \<notin> Some ` {''skill_selection'', ''skill'', ''selected_skill''} then []
      else
        (case Option.bind (map_of m ''path'') json_as_str of Some p \<Rightarrow> collect_path_match l p | None \<Rightarrow> [])
        @ (case Option.bind (case map_of m ''name'' of Some v \<Rightarrow> Some v | None \<Rightarrow> map_of m ''skill'') json_as_str of
             Some name \<Rightarrow> collect_name_match l name | None \<Rightarrow> []))"

lemma map_of_json_size: "map_of m k = Some v \<Longrightarrow> size v < size (JObject m)"
  by (induction m) (auto split: if_splits)

function collect_structured_matches :: "loaded_skills \<Rightarrow> json \<Rightarrow> skill_metadata list" where
  "collect_structured_matches l (JObject m) =
     (case map_of m ''skills'' of
        Some (JArray vs) \<Rightarrow> concat (map (collect_structured_matches l) vs)
      | _ \<Rightarrow> []) @ selection_matches l m"
| "collect_structured_matches l JNull = []"
| "collect_structured_matches l (JBool b) = []"
| "collect_structured_matches l (JInt i) = []"
| "collect_structured_matches l (JFloat f) = []"
| "collect_structured_matches l (JString s) = []"
| "collect_structured_matches l (JArray vs) = []"
  by pat_completeness auto

termination
proof (relation "measure (\<lambda>(l, v). size v)")
  fix l m v vs x
  assume v: "map_of m ''skills'' = Some v" "v = JArray vs" and x: "x \<in> set vs"
  have "size (JArray vs) < size (JObject m)" using map_of_json_size [OF v(1)] v(2) by simp
  moreover have "size x < size (JArray vs)" using x by (simp add: size_list_estimation' less_Suc_eq_le)
  ultimately have "size x < size (JObject m)" by simp
  then show "((l, x), (l, JObject m)) \<in> measure (\<lambda>(l, v). size v)" by simp
qed simp

fun content_matches :: "loaded_skills \<Rightarrow> content_block \<Rightarrow> skill_metadata list" where
  "content_matches l (Text s) = collect_text_matches l s"
| "content_matches l (Json v) = collect_structured_matches l v"
| "content_matches l _ = []"

fun dedup_by_path :: "skill_metadata list \<Rightarrow> skill_metadata list" where
  "dedup_by_path (s # t # ss) =
     (if sk_path s = sk_path t then dedup_by_path (s # ss) else s # dedup_by_path (t # ss))"
| "dedup_by_path ss = ss"

definition explicit_skill_matches :: "loaded_skills \<Rightarrow> agent_message \<Rightarrow> skill_metadata list" where
  "explicit_skill_matches l m =
     dedup_by_path (sort_key sk_path (concat (map (content_matches l) (msg_content m))))"

definition latest_user_message :: "agent_message list \<Rightarrow> agent_message option" where
  "latest_user_message ms = find (\<lambda>m. msg_role m = User) (rev ms)"

definition render_skill_body :: "skill_metadata \<Rightarrow> string" where
  "render_skill_body s =
     ''<skill name='' @ [CHR 0x22] @ escape_xml_attribute (sk_name s) @ [CHR 0x22] @ '' path='' @ [CHR 0x22]
     @ escape_xml_attribute (path_string (sk_path s)) @ [CHR 0x22] @ ''>'' @ [CHR 0x0A]
     @ trim (sk_body s) @ [CHR 0x0A] @ ''</skill>''"

definition render_explicit_skill_instructions :: "loaded_skills \<Rightarrow> agent_message list \<Rightarrow> skill_render option" where
  "render_explicit_skill_instructions l ms =
     (if ls_skills l = [] then None
      else case latest_user_message ms of
        None \<Rightarrow> None
      | Some m \<Rightarrow>
          (case explicit_skill_matches l m of
             [] \<Rightarrow> None
           | ss \<Rightarrow> Some
               \<lparr>sr_text = ''<skill_instructions>'' @ [CHR 0x0A] @ join_with [CHR 0x0A] (map render_skill_body ss)
                   @ [CHR 0x0A] @ ''</skill_instructions>'',
                sr_warnings = []\<rparr>))"

section \<open>What a scan loads\<close>

lemma retain_new_paths_set:
  "set (retain_new_paths seen ss) \<subseteq> set ss \<and> distinct (map sk_path (retain_new_paths seen ss))
   \<and> sk_path ` set (retain_new_paths seen ss) = sk_path ` set ss - seen"
  by (induction seen ss rule: retain_new_paths.induct) auto

lemma set_sort_skills [simp]: "set (sort_skills ss) = set ss"
  by (simp add: sort_skills_def)

lemma sort_and_dedup_paths:
  "set (ls_skills (sort_and_dedup l)) \<subseteq> set (ls_skills l) \<and> distinct (map sk_path (ls_skills (sort_and_dedup l)))
   \<and> sk_path ` set (ls_skills (sort_and_dedup l)) = sk_path ` set (ls_skills l)
   \<and> ls_warnings (sort_and_dedup l) = ls_warnings l"
  using retain_new_paths_set [of "{}" "sort_skills (ls_skills l)"] by (simp add: sort_and_dedup_def)

text \<open>The directories within so many levels that are reached through directories that are not hidden.\<close>

inductive scanned :: "skills_host \<Rightarrow> nat \<Rightarrow> path \<Rightarrow> path \<Rightarrow> bool" for h where
  scanned_here: "\<not> is_hidden_path dir \<Longrightarrow> scanned h (Suc n) dir dir"
| scanned_below: "\<not> is_hidden_path dir \<Longrightarrow> sh_read_dir h dir = Inr ps \<Longrightarrow> p \<in> set ps \<Longrightarrow> sh_is_dir h p \<Longrightarrow>
    scanned h n p d \<Longrightarrow> scanned h (Suc n) dir d"

inductive_simps scanned_0 [simp]: "scanned h 0 dir d"
inductive_simps scanned_Suc: "scanned h (Suc n) dir d"

definition skill_file :: "skills_host \<Rightarrow> path \<Rightarrow> path set" where
  "skill_file h dir =
     (if sh_is_file h (dir @ [Normal SKILL_FILE_NAME])
      then {canonical_or_original h (dir @ [Normal SKILL_FILE_NAME])} else {})"

definition skill_files :: "skills_host \<Rightarrow> nat \<Rightarrow> path \<Rightarrow> path set" where
  "skill_files h n dir = (\<Union>d \<in> {d. scanned h n dir d}. skill_file h d)"

lemma skill_files_0 [simp]: "skill_files h 0 dir = {}"
  by (simp add: skill_files_def)

lemma skill_files_hidden: "is_hidden_path dir \<Longrightarrow> skill_files h n dir = {}"
  by (cases n) (simp_all add: skill_files_def scanned_Suc)

lemma skill_files_Suc:
  assumes "\<not> is_hidden_path dir" and "sh_read_dir h dir = Inr ps"
  shows "skill_files h (Suc n) dir = skill_file h dir \<union> (\<Union>p \<in> {p \<in> set ps. sh_is_dir h p}. skill_files h n p)"
  using assms by (auto simp: skill_files_def scanned_Suc)

text \<open>A skill is what its file says, with a name and a description within their limits.\<close>

definition skill_valid :: "skills_host \<Rightarrow> string \<Rightarrow> path \<Rightarrow> skill_metadata \<Rightarrow> bool" where
  "skill_valid h plugin_id root s =
     (\<exists>p front. sk_path s = canonical_or_original h p \<and> sh_read_to_string h p = Inr (sk_body s)
        \<and> parse_frontmatter (sk_body s) = Some front
        \<and> map_option trim (map_of front ''name'') = Some (sk_name s)
        \<and> map_option trim (map_of front ''description'') = Some (sk_description s)
        \<and> sk_name s \<noteq> [] \<and> char_count (sk_name s) \<le> MAX_NAME_CHARS
        \<and> sk_description s \<noteq> [] \<and> char_count (sk_description s) \<le> MAX_DESCRIPTION_CHARS
        \<and> sk_root s = canonical_or_original h root \<and> sk_plugin_id s = plugin_id)"

lemma required_field_Inr:
  "required_frontmatter_field p front key = Inr v \<longleftrightarrow> map_option trim (map_of front key) = Some v \<and> v \<noteq> []"
  by (auto simp: required_frontmatter_field_def split: option.split)

lemma parse_skill_file_valid:
  assumes "parse_skill_file h plugin_id root p = Inr s"
  shows "skill_valid h plugin_id root s \<and> sk_path s = canonical_or_original h p"
  using assms unfolding parse_skill_file_def skill_valid_def
  by (auto simp: required_field_Inr validate_len_def split: sum.splits option.splits if_splits)

text \<open>What a part of the scan does to the scanner, when the files it meets are \<open>files\<close>.\<close>

definition scan_extends ::
  "skills_host \<Rightarrow> string \<Rightarrow> path \<Rightarrow> path set \<Rightarrow> skill_scanner \<Rightarrow> skill_scanner \<Rightarrow> bool" where
  "scan_extends h plugin_id root files st st' =
     (\<exists>new ws. ls_skills (ss_loaded st') = ls_skills (ss_loaded st) @ new
        \<and> ls_warnings (ss_loaded st') = ls_warnings (ss_loaded st) @ ws
        \<and> list_all (skill_valid h plugin_id root) new
        \<and> sk_path ` set new \<subseteq> files
        \<and> ss_seen_paths st' = ss_seen_paths st \<union> sk_path ` set new
        \<and> (ws = [] \<longrightarrow> files \<subseteq> ss_seen_paths st'))"

lemma scan_extends_refl: "scan_extends h plugin_id root {} st st"
  by (simp add: scan_extends_def)

lemma scan_extends_trans:
  assumes "scan_extends h plugin_id root A st st1" and "scan_extends h plugin_id root B st1 st2"
  shows "scan_extends h plugin_id root (A \<union> B) st st2"
proof -
  obtain new ws where 1: "ls_skills (ss_loaded st1) = ls_skills (ss_loaded st) @ new"
    "ls_warnings (ss_loaded st1) = ls_warnings (ss_loaded st) @ ws" "list_all (skill_valid h plugin_id root) new"
    "sk_path ` set new \<subseteq> A" "ss_seen_paths st1 = ss_seen_paths st \<union> sk_path ` set new"
    "ws = [] \<longrightarrow> A \<subseteq> ss_seen_paths st1"
    using assms(1) unfolding scan_extends_def by blast
  obtain new' ws' where 2: "ls_skills (ss_loaded st2) = ls_skills (ss_loaded st1) @ new'"
    "ls_warnings (ss_loaded st2) = ls_warnings (ss_loaded st1) @ ws'" "list_all (skill_valid h plugin_id root) new'"
    "sk_path ` set new' \<subseteq> B" "ss_seen_paths st2 = ss_seen_paths st1 \<union> sk_path ` set new'"
    "ws' = [] \<longrightarrow> B \<subseteq> ss_seen_paths st2"
    using assms(2) unfolding scan_extends_def by blast
  show ?thesis unfolding scan_extends_def
    by (rule exI [of _ "new @ new'"], rule exI [of _ "ws @ ws'"]) (use 1 2 in \<open>auto simp: image_Un\<close>)
qed

lemma scan_skill_file_extends:
  assumes "scan_skill_file h plugin_id root dir st = Inr st'"
  shows "scan_extends h plugin_id root (skill_file h dir) st st'"
proof (cases "sh_is_file h (dir @ [Normal SKILL_FILE_NAME])")
  case True
  then obtain s where s: "parse_skill_file h plugin_id root (dir @ [Normal SKILL_FILE_NAME]) = Inr s"
    and st': "st' = add_skill s st"
    using assms by (auto simp: scan_skill_file_def Let_def)
  note valid = parse_skill_file_valid [OF s]
  show ?thesis
  proof (cases "sk_path s \<in> ss_seen_paths st")
    case seen: True
    then show ?thesis using valid True unfolding scan_extends_def st' by (auto simp: add_skill_def skill_file_def)
  next
    case False
    then show ?thesis using valid True unfolding scan_extends_def st'
      by (intro exI [of _ "[s]"] exI [of _ "[]"]) (auto simp: add_skill_def skill_file_def)
  qed
next
  case False
  with assms show ?thesis by (simp add: scan_skill_file_def skill_file_def scan_extends_refl)
qed

lemma scan_entries_extends:
  assumes "\<And>p st st'. scan p st = Inr st' \<Longrightarrow> scan_extends h plugin_id root (files p) st st'"
  shows "scan_entries is_dir scan ps st = Inr st' \<Longrightarrow>
    scan_extends h plugin_id root (\<Union>p \<in> {p \<in> set ps. is_dir p}. files p) st st'"
proof (induction ps arbitrary: st)
  case Nil
  then show ?case by (simp add: scan_extends_refl)
next
  case (Cons p ps)
  then obtain st1 where one: "(if is_dir p then scan p st else Inr st) = Inr st1"
    and rest: "scan_entries is_dir scan ps st1 = Inr st'" by auto
  have "scan_extends h plugin_id root (if is_dir p then files p else {}) st st1"
    using one assms by (auto simp: scan_extends_refl split: if_splits)
  from scan_extends_trans [OF this Cons.IH [OF rest]] show ?case
    by (rule arg_cong [THEN iffD1, rotated]) auto
qed

lemma stop_scan_extends: "scan_extends h plugin_id root files st (stop_scan root st)"
  by (auto simp: scan_extends_def stop_scan_def)

lemma visited_extends:
  "scan_extends h plugin_id root files (st\<lparr>ss_visited_dirs := n\<rparr>) st' = scan_extends h plugin_id root files st st'"
  by (simp add: scan_extends_def)

lemma scan_dir_extends:
  "scan_dir n h plugin_id root dir st = Inr st' \<Longrightarrow> scan_extends h plugin_id root (skill_files h n dir) st st'"
proof (induction n arbitrary: dir st st')
  case 0
  then show ?case by (simp add: scan_extends_refl)
next
  case (Suc n)
  show ?case
  proof (cases "is_hidden_path dir")
    case True
    with Suc.prems show ?thesis by (simp add: skill_files_hidden scan_extends_refl)
  next
    case False
    define st0 where "st0 = st\<lparr>ss_visited_dirs := ss_visited_dirs st + 1\<rparr>"
    show ?thesis
    proof (cases "DEFAULT_MAX_SCAN_DIRS < ss_visited_dirs st0")
      case True
      with Suc.prems False have "st' = stop_scan root st0" by (simp add: st0_def)
      then show ?thesis using stop_scan_extends [of h plugin_id root _ st0] by (simp add: st0_def visited_extends)
    next
      case go: False
      have "and_skill (scan_skill_file h plugin_id root dir st0) (\<lambda>st.
          and_skill (case sh_read_dir h dir of Inl e \<Rightarrow> Inl (ReadRoot (path_string dir) e) | Inr ps \<Rightarrow> Inr ps) (\<lambda>ps.
          scan_entries (sh_is_dir h) (scan_dir n h plugin_id root) (sort ps) st)) = Inr st'"
        using Suc.prems False go by (simp add: st0_def Let_def)
      then obtain st1 ps where
        found: "scan_skill_file h plugin_id root dir st0 = Inr st1" and ps: "sh_read_dir h dir = Inr ps"
        and rest: "scan_entries (sh_is_dir h) (scan_dir n h plugin_id root) (sort ps) st1 = Inr st'"
        by (auto split: sum.splits)
      from scan_extends_trans [OF scan_skill_file_extends [OF found]
          scan_entries_extends [OF Suc.IH rest]]
      show ?thesis by (simp add: skill_files_Suc [OF False ps] st0_def visited_extends)
    qed
  qed
qed

text \<open>C27: A scan that succeeds and was not stopped by the limit of directories loads exactly the skill files of the directories within the depth limit that are reached through directories that are not hidden, each once; every loaded skill, also of a stopped scan, has the body, the name and the description of its file, within their limits, and the root and plugin it was loaded for.\<close>

theorem scan_loads_skill_files:
  assumes "scan_skills h plugin_id root = Inr l"
  shows "distinct (map sk_path (ls_skills l)) \<and> list_all (skill_valid h plugin_id root) (ls_skills l)
    \<and> sk_path ` set (ls_skills l) \<subseteq> skill_files h 7 root
    \<and> (ls_warnings l = [] \<longrightarrow> sk_path ` set (ls_skills l) = skill_files h 7 root)"
proof -
  let ?st = "\<lparr>ss_visited_dirs = 0, ss_seen_paths = {}, ss_loaded = no_skills\<rparr> :: skill_scanner"
  obtain st' where scan: "scan_dir 7 h plugin_id root root ?st = Inr st'" and l: "l = sort_and_dedup (ss_loaded st')"
    using assms by (auto simp: scan_skills_def DEFAULT_MAX_SCAN_DEPTH_def split: if_splits)
  from scan_dir_extends [OF scan] have
    ext: "list_all (skill_valid h plugin_id root) (ls_skills (ss_loaded st'))"
      "sk_path ` set (ls_skills (ss_loaded st')) \<subseteq> skill_files h 7 root"
      "ls_warnings (ss_loaded st') = [] \<longrightarrow> skill_files h 7 root \<subseteq> sk_path ` set (ls_skills (ss_loaded st'))"
    by (auto simp: scan_extends_def no_skills_def)
  with sort_and_dedup_paths [of "ss_loaded st'"] show ?thesis
    unfolding l by (auto simp: list_all_iff)
qed

definition sample_skills_root :: path where
  "sample_skills_root = [RootDir, Normal ''skills'']"

definition sample_skill_body :: string where
  "sample_skill_body = join_with [CHR 0x0A] [''---'', ''name: rs'', ''description: Rust'', ''---'', ''Text'']"

definition sample_skills_host :: skills_host where
  "sample_skills_host =
     \<lparr>sh_is_dir = (\<lambda>p. p = sample_skills_root),
      sh_is_file = (\<lambda>p. p = sample_skills_root @ [Normal SKILL_FILE_NAME]),
      sh_read_dir = (\<lambda>p. Inr [sample_skills_root @ [Normal SKILL_FILE_NAME]]),
      sh_read_to_string = (\<lambda>p. Inr sample_skill_body), sh_canonicalize = (\<lambda>p. None)\<rparr>"

definition sample_skill :: skill_metadata where
  "sample_skill =
     \<lparr>sk_name = ''rs'', sk_description = ''Rust'', sk_path = sample_skills_root @ [Normal SKILL_FILE_NAME],
      sk_root = sample_skills_root, sk_plugin_id = ''p'', sk_scope = ''plugin'', sk_body = sample_skill_body\<rparr>"

lemma sample_skill_parsed:
  "parse_skill_file sample_skills_host ''p'' sample_skills_root (sample_skills_root @ [Normal SKILL_FILE_NAME])
   = Inr sample_skill"
  by code_simp

lemma sample_skills_scanned:
  "scan_skills sample_skills_host ''p'' sample_skills_root = Inr \<lparr>ls_skills = [sample_skill], ls_warnings = []\<rparr>"
proof -
  have "sh_is_dir sample_skills_host sample_skills_root" "\<not> is_hidden_path sample_skills_root"
    "sh_is_file sample_skills_host (sample_skills_root @ [Normal SKILL_FILE_NAME])"
    "sh_read_dir sample_skills_host p = Inr [sample_skills_root @ [Normal SKILL_FILE_NAME]]"
    "\<not> sh_is_dir sample_skills_host (sample_skills_root @ [Normal SKILL_FILE_NAME])" for p
    by (simp_all add: sample_skills_host_def sample_skills_root_def is_hidden_path_def file_name_def)
  then show ?thesis
    by (simp add: scan_skills_def scan_skill_file_def sample_skill_parsed add_skill_def no_skills_def and_skill_def
        sort_and_dedup_def sort_skills_def Let_def DEFAULT_MAX_SCAN_DIRS_def)
qed

theorem scan_loads_skill_files_witness:
  "sk_path ` set [sample_skill] = skill_files sample_skills_host 7 sample_skills_root"
  using scan_loads_skill_files [OF sample_skills_scanned] by simp

text \<open>A root whose own name starts with a dot is hidden: nothing in it is loaded, and no warning tells of it.\<close>

lemma hidden_root_loads_nothing:
  "sh_is_dir h root \<Longrightarrow> is_hidden_path root \<Longrightarrow> scan_skills h plugin_id root = Inr no_skills"
  by (simp add: scan_skills_def and_skill_def sort_and_dedup_def sort_skills_def no_skills_def)

section \<open>The budget of the list of skills\<close>

lemma push_rows_bound: "length (push_rows budget rs out) \<le> max budget (length out)"
  by (induction budget rs out rule: push_rows.induct) auto

text \<open>The list is within its budget, but for the lines that name the roots.\<close>

lemma budget_metadata_bound:
  "length (fst (budget_metadata l budget)) \<le> max budget (length (minimum_header (root_aliases l)))"
  using push_rows_bound by (auto simp: budget_metadata_def render_minimum_rows_def Let_def intro: le_max_iff_disj [THEN iffD2])

text \<open>What is shown whole is shown without a warning, and every skill is named in it.\<close>

lemma budget_metadata_whole:
  "snd (budget_metadata l budget) = [] \<Longrightarrow> fst (budget_metadata l budget) = render_metadata l Absolute None"
  by (auto simp: budget_metadata_def Let_def split: if_splits)

section \<open>The skills a message asks for\<close>

lemma dedup_by_path_set:
  "sorted (map sk_path ss) \<Longrightarrow> set (dedup_by_path ss) \<subseteq> set ss \<and> sk_path ` set (dedup_by_path ss) = sk_path ` set ss
   \<and> sorted_wrt (<) (map sk_path (dedup_by_path ss))"
proof (induction ss rule: dedup_by_path.induct)
  case (1 s t ss)
  show ?case
  proof (cases "sk_path s = sk_path t")
    case True
    with 1 show ?thesis by auto
  next
    case False
    have "sorted (map sk_path (t # ss))" using "1.prems" by simp
    note IH = "1.IH"(2) [OF False this]
    have less: "sk_path s < sk_path u" if "u \<in> set (t # ss)" for u
    proof -
      have "sk_path s \<le> sk_path t" "sk_path t \<le> sk_path u" using "1.prems" that by auto
      with False show ?thesis by (metis le_less less_le_trans)
    qed
    have "sk_path s < p" if "p \<in> set (map sk_path (dedup_by_path (t # ss)))" for p
      using that IH less by (metis (no_types, lifting) image_iff imageE image_set subsetD)
    with IH False show ?thesis by auto
  qed
qed simp_all

lemma content_matches_subset: "set (content_matches l b) \<subseteq> set (ls_skills l)"
proof -
  have "set (collect_structured_matches l v) \<subseteq> set (ls_skills l)" for v
  proof (induction l v rule: collect_structured_matches.induct)
    case (1 l m)
    have sel: "set (selection_matches l m) \<subseteq> set (ls_skills l)"
      by (auto simp: selection_matches_def collect_path_match_def collect_name_match_def split: option.splits if_splits)
    have kids: "set (collect_structured_matches l x) \<subseteq> set (ls_skills l)"
      if "map_of m ''skills'' = Some (JArray vs)" "x \<in> set vs" for x vs
      using 1 that by blast
    show ?case
    proof (cases "\<exists>vs. map_of m ''skills'' = Some (JArray vs)")
      case True
      then obtain vs where vs: "map_of m ''skills'' = Some (JArray vs)" by blast
      then have "set (collect_structured_matches l (JObject m)) =
          (\<Union>x \<in> set vs. set (collect_structured_matches l x)) \<union> set (selection_matches l m)" by simp
      with kids [OF vs] sel show ?thesis by blast
    next
      case False
      then have "(case map_of m ''skills'' of
          Some (JArray vs) \<Rightarrow> concat (map (collect_structured_matches l) vs) | _ \<Rightarrow> []) = []"
        by (auto split: option.split json.split)
      with sel show ?thesis by simp
    qed
  qed simp_all
  then show ?thesis by (cases b) (auto simp: collect_text_matches_def)
qed

text \<open>The matches are loaded skills, each once, in the order of their paths, and all that a text block asks for.\<close>

lemma explicit_skill_matches_facts:
  "set (explicit_skill_matches l m) \<subseteq> set (ls_skills l)
   \<and> sorted_wrt (<) (map sk_path (explicit_skill_matches l m))
   \<and> sk_path ` set (explicit_skill_matches l m) = (\<Union>b \<in> set (msg_content m). sk_path ` set (content_matches l b))"
proof -
  let ?ms = "concat (map (content_matches l) (msg_content m))"
  have "set ?ms \<subseteq> set (ls_skills l)" using content_matches_subset by fastforce
  moreover have "sk_path ` set ?ms = (\<Union>b \<in> set (msg_content m). sk_path ` set (content_matches l b))" by auto
  ultimately show ?thesis using dedup_by_path_set [of "sort_key sk_path ?ms"]
    unfolding explicit_skill_matches_def by auto
qed

text \<open>A name is searched as a part of the text: a longer word asks for the skill, too.\<close>

lemma longer_word_asks:
  assumes "ls_skills l = [s]" and "sk_name s = ''test''"
  shows "collect_text_matches l ''costs of $testing'' = [s]"
  using assms by (simp add: collect_text_matches_def text_asks_def unique_name_def str_contains_def strip_prefix_def)

end
