(* ===== verification/Agent_Session.thy ===== *)
theory Agent_Session
  imports Skills Manifest Approval Goals Process_Manager Host_Exec Output_Overflow Extension_Adapters
begin

text \<open>
  A session of the application (\<open>crates/noloong-agent/src/session.rs\<close>, \<open>host.rs\<close>): which built-in tools
  an agent gets, the system prompt that is put before every request, the plugins that are loaded, and
  the runtime that is built. The built-in tools, whose operations other theories model, and the loaders
  of extensions and MCP servers are fields of the environment.
\<close>

section \<open>The host\<close>

datatype path_style = UnixStyle | WindowsStyle

record host_environment =
  he_os :: string
  he_arch :: string
  he_cwd :: path
  he_default_shell :: string
  he_available_shell_hints :: "string list"
  he_path_style :: path_style
  he_locale :: agent_locale

text \<open>Detection on a Unix host; the variables of the environment are a function of the name.\<close>

definition default_shell :: "(string \<Rightarrow> string option) \<Rightarrow> string" where
  "default_shell env = (case env ''SHELL'' of Some s \<Rightarrow> s | None \<Rightarrow> ''sh'')"

definition detect_host ::
  "(string \<Rightarrow> string option) \<Rightarrow> string \<Rightarrow> string \<Rightarrow> path option \<Rightarrow> agent_locale option \<Rightarrow> host_environment" where
  "detect_host env os arch current_dir locale_override =
     \<lparr>he_os = os, he_arch = arch, he_cwd = (case current_dir of Some p \<Rightarrow> p | None \<Rightarrow> [CurDir]),
      he_default_shell = default_shell env, he_available_shell_hints = [''sh'', ''bash'', ''zsh''],
      he_path_style = UnixStyle,
      he_locale = (case locale_override of Some l \<Rightarrow> l | None \<Rightarrow> locale_detect env)\<rparr>"

fun path_style_str :: "path_style \<Rightarrow> string" where
  "path_style_str UnixStyle = ''unix''"
| "path_style_str WindowsStyle = ''windows''"

definition host_environment_json :: "host_environment \<Rightarrow> json" where
  "host_environment_json e =
     json_object [(''os'', JString (he_os e)), (''arch'', JString (he_arch e)),
       (''cwd'', JString (path_string (he_cwd e))), (''defaultShell'', JString (he_default_shell e)),
       (''availableShellHints'', JArray (map JString (he_available_shell_hints e))),
       (''pathStyle'', JString (path_style_str (he_path_style e))),
       (''locale'', JString (locale_code (he_locale e)))]"

text \<open>The English text; its first line is the catalog's.\<close>

definition render_host_environment :: "catalog \<Rightarrow> host_environment \<Rightarrow> string" where
  "render_host_environment cat e =
     join_with [CHR 0x0A]
       [cat ''HostEnvironmentContext'', ''OS: '' @ he_os e, ''Architecture: '' @ he_arch e,
        ''Current directory: '' @ path_string (he_cwd e), ''Default shell: '' @ he_default_shell e,
        ''Available shell hints: '' @ join_with '', '' (he_available_shell_hints e),
        ''Path style: '' @ path_style_str (he_path_style e), ''Locale: '' @ locale_code (he_locale e)]"

text \<open>\<open>cancelled\<close> reads the token of the run.\<close>

definition host_context_provider ::
  "('w \<Rightarrow> bool) \<Rightarrow> catalog \<Rightarrow> host_environment \<Rightarrow> 'w context_provider" where
  "host_context_provider cancelled cat e =
     \<lparr>cp_id = ''noloong.builtin.host-context'',
      cp_prepare_context = (\<lambda>request w. (w,
        if cancelled w then Inl Aborted
        else Inr [PatchContext (SetKey ''noloong.host.environment''
          (json_object [(''text'', JString (render_host_environment cat e)),
             (''environment'', host_environment_json e)]))]))\<rparr>"

section \<open>The session\<close>

record agent_session =
  as_manifest :: agent_manifest
  as_environment :: host_environment
  as_proposal_store :: manifest_proposal_store
  as_has_subagent_controller :: bool
  as_has_goal_controller :: bool
  as_active_goal :: "goal_record option"
  as_subagent_depth :: nat
  as_max_subagent_depth :: nat
  as_overflow_config :: tool_output_overflow_config
  as_approval_cache :: approval_cache
  as_run_id_prefix :: "string option"
  as_model_context :: "prompt_model_context option"

definition session_default :: "host_environment \<Rightarrow> path \<Rightarrow> agent_session" where
  "session_default e temp_dir =
     \<lparr>as_manifest = default_manifest, as_environment = e, as_proposal_store = empty_proposal_store,
      as_has_subagent_controller = False, as_has_goal_controller = False, as_active_goal = None,
      as_subagent_depth = 0, as_max_subagent_depth = 1, as_overflow_config = default_overflow_config temp_dir,
      as_approval_cache = {}, as_run_id_prefix = None, as_model_context = None\<rparr>"

definition set_active_goal_for_tools :: "goal_record option \<Rightarrow> agent_session \<Rightarrow> agent_session" where
  "set_active_goal_for_tools g s = s\<lparr>as_active_goal := g\<rparr>"

text \<open>The approved patches are drained first, then applied in order; an error leaves the rest behind.\<close>

fun apply_proposals ::
  "manifest_patch_proposal list \<Rightarrow> agent_manifest \<Rightarrow> agent_manifest \<times> string list result" where
  "apply_proposals [] m = (m, Inr [])"
| "apply_proposals (p # ps) m =
     (case apply_manifest_patch (mpp_patch p) m of
        (m', Inl e) \<Rightarrow> (m', Inl (Provider (show_manifest_error e)))
      | (m', Inr _) \<Rightarrow>
          (case apply_proposals ps m' of
             (m'', Inl e) \<Rightarrow> (m'', Inl e)
           | (m'', Inr ids) \<Rightarrow> (m'', Inr (mpp_proposal_id p # ids))))"

definition apply_approved_manifest_patches :: "(agent_session, agent_core_error, string list) eff" where
  "apply_approved_manifest_patches s =
     (case drain_approved (as_proposal_store s) of
        (store, proposals) \<Rightarrow>
          (case apply_proposals proposals (as_manifest s) of
             (m, r) \<Rightarrow> (s\<lparr>as_proposal_store := store, as_manifest := m\<rparr>, r)))"

definition session_record_approval ::
  "json_text \<Rightarrow> tool_approval_request \<Rightarrow> tool_permission_decision \<Rightarrow> agent_session \<Rightarrow> agent_session \<times> bool" where
  "session_record_approval js approval decision s =
     (case record_tool_approval_resolution js approval decision (as_approval_cache s) of
        (cache, new) \<Rightarrow> (s\<lparr>as_approval_cache := cache\<rparr>, new))"

definition session_system_prompt :: "prompt_texts \<Rightarrow> prompt_model_context option \<Rightarrow> agent_session \<Rightarrow> resolved_system_prompt" where
  "session_system_prompt tx model s =
     resolve_system_prompt tx (am_locale (as_manifest s)) (am_system_prompt (as_manifest s)) model"

section \<open>Built-in tools\<close>

definition subagent_controller_available :: "agent_session \<Rightarrow> bool" where
  "subagent_controller_available s =
     (as_subagent_depth s < as_max_subagent_depth s \<and> as_has_subagent_controller s)"

fun tool_available :: "agent_session \<Rightarrow> built_in_tool_name \<Rightarrow> bool" where
  "tool_available s SubagentSpawn = subagent_controller_available s"
| "tool_available s SubagentWait = subagent_controller_available s"
| "tool_available s SubagentResult = subagent_controller_available s"
| "tool_available s SubagentList = subagent_controller_available s"
| "tool_available s GoalUpdate = as_has_goal_controller s"
| "tool_available s _ = True"

text \<open>The set of enabled tools is iterated in the order of the names.\<close>

definition tools_for_manifest :: "agent_session \<Rightarrow> agent_manifest \<Rightarrow> built_in_tool_name list" where
  "tools_for_manifest s m =
     filter (tool_available s) (filter (\<lambda>n. n \<in> am_enabled_tools m) built_in_tool_names)"

section \<open>The system prompt of a request\<close>

record runtime_skills =
  rk_loaded :: loaded_skills
  rk_metadata :: "skill_render option"

definition no_runtime_skills :: runtime_skills where
  "no_runtime_skills = \<lparr>rk_loaded = no_skills, rk_metadata = None\<rparr>"

definition goal_update_tool_available :: "agent_session \<Rightarrow> bool" where
  "goal_update_tool_available s = (case as_active_goal s of None \<Rightarrow> False | Some g \<Rightarrow> is_pursuing g)"

definition system_prompt_message :: "resolved_system_prompt \<Rightarrow> string \<Rightarrow> string \<Rightarrow> nat \<Rightarrow> agent_message" where
  "system_prompt_message p body run_id turn_id =
     \<lparr>msg_id = ''noloong-system-prompt-'' @ run_id @ ''-'' @ show_nat turn_id, msg_role = System,
      msg_content = [Text body],
      msg_metadata = bt_collect
        ([(''noloong.kind'', JString ''system_prompt''),
          (''noloong.source'', JString (prompt_source_as_str (rsp_source p)))]
         @ (case rsp_configured_profile p of None \<Rightarrow> []
            | Some f \<Rightarrow> [(''noloong.configuredProfile'', JString (prompt_profile_as_str f))])
         @ (case rsp_resolved_profile p of None \<Rightarrow> []
            | Some f \<Rightarrow> [(''noloong.resolvedProfile'', JString (prompt_profile_as_str f))])
         @ [(''noloong.enabledAdditionIds'', JArray (map JString (rsp_enabled_addition_ids p)))])\<rparr>"

fun approval_policy_label :: "approval_policy \<Rightarrow> string" where
  "approval_policy_label AllowAll = ''allow_all''"
| "approval_policy_label RequireApproval = ''require_approval''"
| "approval_policy_label (AutoReview fallback_to_human) =
     ''auto_review(fallback_to_human='' @ show_bool fallback_to_human @ '')''"

definition render_runtime_policy :: "prompt_model_context option \<Rightarrow> agent_session \<Rightarrow> string" where
  "render_runtime_policy model s =
     (let m = as_manifest s;
          (provider_id, model_name) =
            (case model of Some c \<Rightarrow> (pmc_provider_id c, pmc_model_name c) | None \<Rightarrow> (''unknown'', ''unknown''))
      in join_with [CHR 0x0A]
           [''<runtime_policy>'', ''Provider: '' @ provider_id, ''Model: '' @ model_name,
            ''Locale: '' @ locale_code (am_locale m),
            ''Approval policy: '' @ approval_policy_label (am_approval_policy m),
            ''File edit policy: '' @ file_edit_policy_as_str (am_file_edit_tool_policy m),
            ''Subagent depth: '' @ show_nat (as_subagent_depth s) @ ''/'' @ show_nat (as_max_subagent_depth s),
            ''</runtime_policy>''])"

definition context_texts :: "json_map \<Rightarrow> (string \<times> string) list" where
  "context_texts context =
     sort_key fst (List.map_filter (\<lambda>(key, v).
       case Option.bind (json_get v ''text'') json_as_str of
         None \<Rightarrow> None
       | Some s \<Rightarrow> if trim s = [] then None else Some (key, trim s)) context)"

definition render_runtime_context ::
  "prompt_model_context option \<Rightarrow> json_map \<Rightarrow> agent_session \<Rightarrow> string" where
  "render_runtime_context model context s =
     (let blocks = render_runtime_policy model s # map (\<lambda>(key, body).
            ''<context key='' @ [CHR 0x22] @ escape_xml_attribute key @ [CHR 0x22] @ ''>'' @ [CHR 0x0A]
            @ body @ [CHR 0x0A] @ ''</context>'') (context_texts context)
      in ''<runtime_context>'' @ [CHR 0x0A] @ join_with [CHR 0x0A] blocks @ [CHR 0x0A] @ ''</runtime_context>'')"

definition render_blocks :: "skill_render option \<Rightarrow> string list" where
  "render_blocks r = (case r of None \<Rightarrow> [] | Some x \<Rightarrow> if trim (sr_text x) = [] then [] else [sr_text x])"

definition render_warnings :: "skill_render option \<Rightarrow> string list" where
  "render_warnings r = (case r of None \<Rightarrow> [] | Some x \<Rightarrow> sr_warnings x)"

definition render_skills_context :: "runtime_skills \<Rightarrow> agent_message list \<Rightarrow> string option" where
  "render_skills_context k messages =
     (if skills_empty (rk_loaded k) then None
      else
        let explicit = render_explicit_skill_instructions (rk_loaded k) messages;
            warnings = render_warnings (rk_metadata k) @ render_warnings explicit;
            blocks = render_blocks (rk_metadata k) @ render_blocks explicit
              @ (if warnings = [] then []
                 else [join_with [CHR 0x0A] ([''<skills_warnings>''] @ [join_with [CHR 0x0A] warnings] @ [''</skills_warnings>''])])
        in if blocks = [] then None else Some (join_with [CHR 0x0A, CHR 0x0A] blocks))"

definition render_model_system_prompt ::
  "prompt_model_context option \<Rightarrow> runtime_skills \<Rightarrow> resolved_system_prompt \<Rightarrow> json_map \<Rightarrow> agent_message list
     \<Rightarrow> agent_session \<Rightarrow> string" where
  "render_model_system_prompt model k p context messages s =
     join_with [CHR 0x0A, CHR 0x0A]
       ([trim_end (rsp_effective_text p), render_runtime_context model context s]
        @ (case render_skills_context k messages of None \<Rightarrow> [] | Some t \<Rightarrow> [t]))"

definition prompted_request ::
  "prompt_texts \<Rightarrow> prompt_model_context option \<Rightarrow> runtime_skills \<Rightarrow> hook_scope \<Rightarrow> model_request \<Rightarrow> agent_session
     \<Rightarrow> model_request" where
  "prompted_request tx model k scope request s =
     (let p = session_system_prompt tx model s
      in request
           \<lparr>mr_tools := (if goal_update_tool_available s then mr_tools request
              else filter (\<lambda>t. ts_name t \<noteq> built_in_as_str GoalUpdate) (mr_tools request)),
            mr_messages := system_prompt_message p
                (render_model_system_prompt model k p (mr_context request) (mr_messages request) s)
                (hs_run_id scope) (hs_turn_id scope) # mr_messages request\<rparr>)"

definition BUILT_IN_SYSTEM_PROMPT_HOOK_ID :: string where
  "BUILT_IN_SYSTEM_PROMPT_HOOK_ID = ''noloong.builtin.system-prompt''"

text \<open>The hook reads the session, which other tasks change, from the world.\<close>

definition system_prompt_hook ::
  "('w \<Rightarrow> bool) \<Rightarrow> ('w \<Rightarrow> agent_session) \<Rightarrow> prompt_texts \<Rightarrow> prompt_model_context option \<Rightarrow> runtime_skills \<Rightarrow> 'w phase_hook" where
  "system_prompt_hook cancelled read_session tx model k =
     \<lparr>ph_before_model_request = (\<lambda>scope request w. (w,
        if cancelled w then Inl Aborted else Inr (Some (prompted_request tx model k scope request (read_session w))))),
      ph_after_model_request = (\<lambda>scope request events. ok None),
      ph_before_assistant_commit = (\<lambda>scope events. ok None),
      ph_after_assistant_commit = (\<lambda>scope message. ok None)\<rparr>"

end
