(* ===== verification/Session_Runtime.thy ===== *)
theory Session_Runtime
  imports Agent_Session File_Edit
begin

text \<open>
  The runtime of a session (\<open>AgentSessionRuntimeBuilder\<close> and the completions of background commands in
  \<open>crates/noloong-agent/src/session.rs\<close>): the registrations over the builder of the core, the plugins of
  the manifest, the choice of the file edit tool, and the build.
\<close>

section \<open>The builder\<close>

record plugin_load_warning =
  plw_plugin_id :: string
  plw_message :: string

record ('s, 'w) session_builder =
  sb_core :: "('s, 'w) runtime_builder"
  sb_manifest :: agent_manifest
  sb_model_names_by_id :: "string smap"
  sb_default_model_provider :: "string option"
  sb_input_limit_tokens :: "nat option"
  sb_plugin_load_warnings :: "plugin_load_warning list"
  sb_skills :: runtime_skills

text \<open>
  What a session builds its runtime from: the built-in tools and hooks on the session's own managers, the
  texts of the prompts, and how plugins are reached.
\<close>

record ('s, 'w) session_env =
  se_built_in_tool :: "built_in_tool_name \<Rightarrow> 'w tool_provider"
  se_write_file_tool :: "'w tool_provider"
  se_apply_patch_tool :: "'w tool_provider"
  se_approval_hook :: "agent_manifest \<Rightarrow> 'w tool_call_hook"
  se_overflow_hook :: "tool_output_overflow_config \<Rightarrow> 'w tool_call_hook"
  se_catalog :: "agent_locale \<Rightarrow> catalog"
  se_prompt_texts :: prompt_texts
  se_cancelled :: "'w \<Rightarrow> bool"
  se_read_session :: "'w \<Rightarrow> agent_session"
  se_event_store :: "'s event_store_ops"
  se_env_var :: "string \<Rightarrow> string option"
  se_skills_host :: skills_host
  se_load_mcp_tools :: "string \<Rightarrow> string \<Rightarrow> mcp_plugin_component \<Rightarrow> ('w, string, 'w tool_provider list) eff"
  se_connect :: "stdio_extension_config \<Rightarrow> ('w, agent_core_error, 'w stdio_extension) eff"

text \<open>
  \<open>runtime_builder\<close>. The hook of the system prompt reads what \<open>build\<close> puts into it, so \<open>build\<close> adds it, in
  front of the phase hooks, where it is registered first.
\<close>

definition session_runtime_builder :: "('s, 'w) session_env \<Rightarrow> agent_session \<Rightarrow> ('s, 'w) session_builder" where
  "session_runtime_builder env s =
     (let m = as_manifest s;
          core = with_tool_hook (se_overflow_hook env (as_overflow_config s))
            (with_tool_hook (se_approval_hook env m)
            (with_context_provider
              (host_context_provider (se_cancelled env) (se_catalog env (am_locale m)) (as_environment s))
            (runtime_builder_default (se_event_store env))));
          core = (case as_run_id_prefix s of Some p \<Rightarrow> with_run_id_prefix p core | None \<Rightarrow> core)
      in \<lparr>sb_core = fold (\<lambda>n. with_tool (se_built_in_tool env n)) (tools_for_manifest s m) core,
          sb_manifest = m, sb_model_names_by_id = [], sb_default_model_provider = None,
          sb_input_limit_tokens = None, sb_plugin_load_warnings = [], sb_skills = no_runtime_skills\<rparr>)"

type_synonym ('s, 'w) session_step = "('s, 'w) session_builder \<Rightarrow> ('s, 'w) session_builder"

text \<open>The entry of a provider that is not there yet, and the default when there is none.\<close>

definition or_insert_name :: "string \<times> string option \<times> 'w model_provider \<Rightarrow> string smap \<Rightarrow> string smap" where
  "or_insert_name = (\<lambda>(i, name, p) names.
     if bt_contains_key names i then names
     else bt_insert i (case name of Some n \<Rightarrow> n | None \<Rightarrow> i) names)"

definition sync_model_provider_metadata_from_core :: "('s, 'w) session_step" where
  "sync_model_provider_metadata_from_core b =
     b\<lparr>sb_model_names_by_id := fold or_insert_name (rb_model_providers (sb_core b)) (sb_model_names_by_id b),
       sb_default_model_provider := (case sb_default_model_provider b of
           None \<Rightarrow> rb_default_model_provider (sb_core b) | Some i \<Rightarrow> Some i)\<rparr>"

definition session_with_model_provider :: "string option \<Rightarrow> 'w model_provider \<Rightarrow> ('s, 'w) session_step" where
  "session_with_model_provider model_name p b =
     b\<lparr>sb_default_model_provider := default_unless_set (mpv_id p) (sb_default_model_provider b),
       sb_model_names_by_id := bt_insert (mpv_id p) (case model_name of Some n \<Rightarrow> n | None \<Rightarrow> mpv_id p)
         (sb_model_names_by_id b),
       sb_core := with_model_provider model_name p (sb_core b)\<rparr>"

definition session_default_model_provider :: "string \<Rightarrow> ('s, 'w) session_step" where
  "session_default_model_provider i b =
     b\<lparr>sb_default_model_provider := Some i, sb_core := set_default_model_provider i (sb_core b)\<rparr>"

definition with_model_input_limit_tokens :: "nat \<Rightarrow> ('s, 'w) session_step" where
  "with_model_input_limit_tokens n b = b\<lparr>sb_input_limit_tokens := Some n\<rparr>"

text \<open>The methods that only forward to the core: tools, hooks, phases, compaction, the maximum of turns.\<close>

definition forward_to_core :: "('s, 'w) builder_step \<Rightarrow> ('s, 'w) session_step" where
  "forward_to_core f b = b\<lparr>sb_core := f (sb_core b)\<rparr>"

definition configure_core :: "('s, 'w) builder_step \<Rightarrow> ('s, 'w) session_step" where
  "configure_core f b = sync_model_provider_metadata_from_core (b\<lparr>sb_core := f (sb_core b)\<rparr>)"

section \<open>Plugins\<close>

definition record_plugin_load_error ::
  "string \<Rightarrow> plugin_load_failure_policy \<Rightarrow> string \<Rightarrow> ('s, 'w) session_builder
     \<Rightarrow> agent_core_error + ('s, 'w) session_builder" where
  "record_plugin_load_error plugin_id policy message b =
     (if policy = FailRun then Inl (Provider message)
      else Inr (b\<lparr>sb_plugin_load_warnings := sb_plugin_load_warnings b
                 @ [\<lparr>plw_plugin_id = plugin_id, plw_message = message\<rparr>]\<rparr>))"

definition session_add_extension ::
  "(stdio_extension_config \<Rightarrow> ('w, agent_core_error, 'w stdio_extension) eff) \<Rightarrow> stdio_extension_config
     \<Rightarrow> ('s, 'w) session_builder \<Rightarrow> ('w, agent_core_error, ('s, 'w) session_builder) eff" where
  "session_add_extension connect config b =
     and_then (add_stdio_extension connect config (sb_core b)) (\<lambda>core.
     ok (sync_model_provider_metadata_from_core (b\<lparr>sb_core := core\<rparr>)))"

fun add_mcp_tools ::
  "string \<Rightarrow> plugin_load_failure_policy \<Rightarrow> 'w tool_provider list \<Rightarrow> ('s, 'w) session_builder
     \<Rightarrow> agent_core_error + ('s, 'w) session_builder" where
  "add_mcp_tools plugin_id policy [] b = Inr b"
| "add_mcp_tools plugin_id policy (t # ts) b =
     (if has_tool (ts_name (tp_spec t)) (sb_core b)
      then (case record_plugin_load_error plugin_id policy
              (''plugin MCP tool `'' @ ts_name (tp_spec t) @ ''` conflicts with an existing runtime tool'') b of
              Inl e \<Rightarrow> Inl e | Inr b' \<Rightarrow> add_mcp_tools plugin_id policy ts b')
      else add_mcp_tools plugin_id policy ts (b\<lparr>sb_core := with_tool t (sb_core b)\<rparr>))"

fun load_component ::
  "('s, 'w) session_env \<Rightarrow> path \<Rightarrow> agent_plugin_declaration \<Rightarrow> plugin_component \<Rightarrow> ('s, 'w) session_builder
     \<Rightarrow> ('w, agent_core_error, ('s, 'w) session_builder) eff" where
  "load_component env cwd plugin (SkillsComponent roots) b =
     lift_result
       (case load_plugin_skills (se_skills_host env) (apd_plugin_id plugin) roots cwd of
          Inr skills \<Rightarrow> Inr (b\<lparr>sb_skills := (sb_skills b)\<lparr>rk_loaded := merge_skills (rk_loaded (sb_skills b)) skills\<rparr>\<rparr>)
        | Inl e \<Rightarrow> record_plugin_load_error (apd_plugin_id plugin) (apd_on_load_failure plugin) (show_skill_load_error e) b)"
| "load_component env cwd plugin (McpComponent c) b =
     (\<lambda>w. case se_load_mcp_tools env (apd_plugin_id plugin) (apd_display_name plugin) c w of
        (w', Inr tools) \<Rightarrow> (w', add_mcp_tools (apd_plugin_id plugin) (apd_on_load_failure plugin) tools b)
      | (w', Inl e) \<Rightarrow> (w', record_plugin_load_error (apd_plugin_id plugin) (apd_on_load_failure plugin) e b))"
| "load_component env cwd plugin (ExtensionComponent c) b =
     (case to_stdio_extension_config c (apd_plugin_id plugin) (se_env_var env) of
        Inl e \<Rightarrow> lift_result (record_plugin_load_error (apd_plugin_id plugin) (apd_on_load_failure plugin)
                   (show_plugin_load_error e) b)
      | Inr config \<Rightarrow>
          and_then (try_eff (session_add_extension (se_connect env) config b)) (\<lambda>r.
          lift_result (case r of
            Inr b' \<Rightarrow> Inr b'
          | Inl e \<Rightarrow> record_plugin_load_error (apd_plugin_id plugin) (apd_on_load_failure plugin)
              (show_plugin_load_error (Startup (apd_plugin_id plugin)
                (component_summary (ExtensionComponent c) @ '': '' @ error_to_string e))) b)))"

definition load_plugin ::
  "('s, 'w) session_env \<Rightarrow> path \<Rightarrow> agent_plugin_declaration \<Rightarrow> ('s, 'w) session_builder
     \<Rightarrow> ('w, agent_core_error, ('s, 'w) session_builder) eff" where
  "load_plugin env cwd plugin = for_fold (apd_components plugin) (load_component env cwd plugin)"

definition with_manifest_plugins ::
  "('s, 'w) session_env \<Rightarrow> path \<Rightarrow> ('s, 'w) session_builder \<Rightarrow> ('w, agent_core_error, ('s, 'w) session_builder) eff" where
  "with_manifest_plugins env cwd b =
     for_fold (filter apd_enabled (bt_values (am_plugins (sb_manifest b)))) (load_plugin env cwd)
       (b\<lparr>sb_skills := no_runtime_skills\<rparr>)"

section \<open>The build\<close>

definition session_default_provider_id :: "('s, 'w) session_builder \<Rightarrow> string option" where
  "session_default_provider_id b =
     (case sb_default_model_provider b of
        Some i \<Rightarrow> Some i
      | None \<Rightarrow> (case bt_keys (sb_model_names_by_id b) of [] \<Rightarrow> None | i # _ \<Rightarrow> Some i))"

definition model_name_of :: "('s, 'w) session_builder \<Rightarrow> string \<Rightarrow> string" where
  "model_name_of b i = (case map_of (sb_model_names_by_id b) i of Some n \<Rightarrow> n | None \<Rightarrow> i)"

definition default_model_name :: "('s, 'w) session_builder \<Rightarrow> string option" where
  "default_model_name b = map_option (model_name_of b) (session_default_provider_id b)"

definition default_model_context :: "('s, 'w) session_builder \<Rightarrow> prompt_model_context option" where
  "default_model_context b =
     map_option (\<lambda>i. \<lparr>pmc_provider_id = i, pmc_model_name = model_name_of b i,
       pmc_input_limit_tokens = sb_input_limit_tokens b\<rparr>) (session_default_provider_id b)"

definition auto_file_edit_tool :: "('s, 'w) session_env \<Rightarrow> ('s, 'w) session_builder \<Rightarrow> 'w tool_provider option" where
  "auto_file_edit_tool env b =
     map_option (\<lambda>name. if str_contains (ascii_lowercase name) ''gpt'' then se_apply_patch_tool env
       else se_write_file_tool env) (default_model_name b)"

definition selected_file_edit_tool :: "('s, 'w) session_env \<Rightarrow> ('s, 'w) session_builder \<Rightarrow> 'w tool_provider option" where
  "selected_file_edit_tool env b =
     (case am_file_edit_tool_policy (sb_manifest b) of
        AutoByModel \<Rightarrow> auto_file_edit_tool env b
      | ApplyPatchPolicy \<Rightarrow> Some (se_apply_patch_tool env)
      | WriteFilePolicy \<Rightarrow> Some (se_write_file_tool env)
      | FileEditDisabled \<Rightarrow> None)"

definition missing_input_limit :: agent_core_error where
  "missing_input_limit = Provider ''skills metadata rendering requires model inputLimitTokens; configure profile compaction/input-limit resolution before enabling skills''"

definition rendered_skills :: "nat option \<Rightarrow> runtime_skills \<Rightarrow> agent_core_error + runtime_skills" where
  "rendered_skills limit k =
     (if skills_empty (rk_loaded k) then Inr k
      else case limit of
        None \<Rightarrow> Inl missing_input_limit
      | Some n \<Rightarrow> Inr (k\<lparr>rk_metadata := render_skills_instructions (rk_loaded k) n\<rparr>))"

definition final_core ::
  "('s, 'w) session_env \<Rightarrow> ('s, 'w) session_builder \<Rightarrow> runtime_skills \<Rightarrow> ('s, 'w) runtime_builder" where
  "final_core env b k =
     (let core = without_tool APPLY_PATCH_TOOL_NAME (without_tool WRITE_FILE_TOOL_NAME (sb_core b));
          core = (case selected_file_edit_tool env b of Some t \<Rightarrow> with_tool t core | None \<Rightarrow> core)
      in core\<lparr>rb_phase_hooks := (Some BUILT_IN_SYSTEM_PROMPT_HOOK_ID,
           system_prompt_hook (se_cancelled env) (se_read_session env) (se_prompt_texts env)
             (default_model_context b) k) # rb_phase_hooks core\<rparr>)"

text \<open>The session is told of the model.\<close>

definition session_build ::
  "('s, 'w) session_env \<Rightarrow> 'w runtime_env \<Rightarrow> ('s, 'w) session_builder \<Rightarrow> agent_session
     \<Rightarrow> agent_session \<times> ('s, 'w) agent_runtime result" where
  "session_build env renv b s =
     (let b = sync_model_provider_metadata_from_core b;
          model = default_model_context b
      in case rendered_skills (Option.bind model pmc_input_limit_tokens) (sb_skills b) of
           Inl e \<Rightarrow> (s, Inl e)
         | Inr k \<Rightarrow> (s\<lparr>as_model_context := model\<rparr>, build_runtime renv (final_core env b k)))"

section \<open>Completed background commands\<close>

definition DEFAULT_BACKGROUND_COMPLETION_PREVIEW_BYTES :: nat where
  "DEFAULT_BACKGROUND_COMPLETION_PREVIEW_BYTES = 16 * 1024"

fun stream_text :: "process_output_stream \<Rightarrow> string" where
  "stream_text Stdout = ''stdout''"
| "stream_text Stderr = ''stderr''"

definition chunk_line :: "output_chunk \<Rightarrow> string" where
  "chunk_line c =
     ''['' @ stream_text (oc_stream c) @ ''] '' @ oc_text c
     @ (if oc_text c \<noteq> [] \<and> List.last (oc_text c) = CHR 0x0A then [] else [CHR 0x0A])"

definition output_preview_text :: "string \<Rightarrow> process_output \<Rightarrow> nat \<Rightarrow> string" where
  "output_preview_text no_buffered_output out max_bytes =
     (if po_chunks out = [] then no_buffered_output
      else suffix_to_bytes (concat (map chunk_line (po_chunks out))) (max max_bytes 1))"

fun render_job_status :: "job_status \<Rightarrow> string" where
  "render_job_status Process_Manager.Running = ''running''"
| "render_job_status (Exited code) =
     ''exited(code='' @ (case code of None \<Rightarrow> ''unknown'' | Some n \<Rightarrow> show_int n) @ '')''"
| "render_job_status Terminated = ''terminated''"
| "render_job_status (Failed e) = ''failed('' @ e @ '')''"

text \<open>The English text of a completion.\<close>

definition render_background_completion :: "job_snapshot \<times> process_output \<Rightarrow> string \<Rightarrow> string" where
  "render_background_completion completion preview =
     (let (s, out) = completion
      in join_with [CHR 0x0A]
        [''Background host command completed.'', ''Job ID: '' @ js_job_id s,
         ''Status: '' @ render_job_status (js_status s), ''Command: '' @ js_command s, ''Shell: '' @ js_shell s,
         ''CWD: '' @ js_cwd s, ''Started at ms: '' @ show_nat (js_started_at_ms s),
         ''Ended at ms: '' @ (case js_ended_at_ms s of None \<Rightarrow> ''unknown'' | Some t \<Rightarrow> show_nat t),
         ''Output cursor: '' @ show_nat (po_next_cursor out),
         ''Dropped before seq: '' @ show_nat (po_dropped_before_seq out),
         ''Output preview truncated: '' @ show_bool (po_truncated out), [],
         ''Output preview:'', preview, [],
         ''Use this completion as observed evidence. If the completed command result is needed to satisfy the current user request and the preview is insufficient, call `host.exec.read` with `jobId` `''
         @ js_job_id s @ ''` and `afterSeq` before finalizing.''])"

definition completion_metadata :: "job_snapshot \<times> process_output \<Rightarrow> json_map" where
  "completion_metadata completion =
     (let (s, out) = completion
      in bt_collect [(''noloong.kind'', JString ''host.exec.completed''), (''jobId'', JString (js_job_id s)),
           (''status'', status_json (js_status s)), (''nextCursor'', JInt (int (po_next_cursor out))),
           (''droppedBeforeSeq'', JInt (int (po_dropped_before_seq out)))])"

definition completion_message :: "nat \<Rightarrow> job_snapshot \<times> process_output \<Rightarrow> agent_message" where
  "completion_message max_preview_bytes completion =
     (user_message (''host-exec-completed-'' @ js_job_id (fst completion))
       (render_background_completion completion
         (output_preview_text ''(no buffered output)'' (snd completion) max_preview_bytes)))
     \<lparr>msg_metadata := completion_metadata completion\<rparr>"

section \<open>Plugins only add\<close>

definition core_adds :: "('s, 'w) runtime_builder \<Rightarrow> ('s, 'w) runtime_builder \<Rightarrow> bool" where
  "core_adds b b' =
     (builder_wf b' \<and> map_of (rb_tools b) \<subseteq>\<^sub>m map_of (rb_tools b')
      \<and> map_of (rb_model_providers b) \<subseteq>\<^sub>m map_of (rb_model_providers b')
      \<and> (\<forall>i. rb_default_model_provider b = Some i \<longrightarrow> rb_default_model_provider b' = Some i)
      \<and> subseq (rb_phases b) (rb_phases b') \<and> prefix (rb_tool_hooks b) (rb_tool_hooks b'))"

lemma core_adds_refl: "builder_wf b \<Longrightarrow> core_adds b b"
  by (simp add: core_adds_def)

lemma core_adds_trans: "core_adds a b \<Longrightarrow> core_adds b c \<Longrightarrow> core_adds a c"
  unfolding core_adds_def
  by (meson map_le_trans prefix_order.order_trans subseq_order.order_trans)

lemma register_all_wf: "builder_wf b \<Longrightarrow> builder_wf (fold (register_capability x) cs b)"
  by (induction cs arbitrary: b) (simp_all add: register_capability_wf)

lemma add_extension_adds:
  assumes "add_stdio_extension connect config b w = (w', Inr b')" and "builder_wf b"
  shows "core_adds b b'"
proof -
  from assms(1) obtain x cs where b': "b' = fold (register_capability x) cs b"
    and valid: "validate_extension_capabilities b cs = Inr ()"
    by (rule add_stdio_extension_Inr)
  have "map_of (rb_tools b) \<subseteq>\<^sub>m map_of (rb_tools b')"
    using register_all_tools [OF assms(2)] validated_new(1) [OF valid] by (auto simp: map_le_def b') (metis option.distinct(1))
  moreover have "map_of (rb_model_providers b) \<subseteq>\<^sub>m map_of (rb_model_providers b')"
    using register_all_providers [OF assms(2)] validated_new(2) [OF valid] by (auto simp: map_le_def b') (metis option.distinct(1))
  moreover have "prefix (rb_tool_hooks b) (rb_tool_hooks b')"
    using register_all_tool_hooks [of x cs b] by (auto simp: b')
  ultimately show ?thesis
    by (simp add: core_adds_def b' register_all_default register_all_phases register_all_wf [OF assms(2)])
qed

lemma add_tool_adds:
  assumes "builder_wf b" and "\<not> has_tool (ts_name (tp_spec t)) b"
  shows "core_adds b (with_tool t b)"
  using assms by (auto simp: core_adds_def builder_wf_def with_tool_def has_tool_def bt_contains_key_def
      map_of_bt_insert bt_wf_insert map_le_def)

text \<open>What loading does to a session's builder: it adds to the core, and its warnings are of plugins that may fail.\<close>

definition session_adds ::
  "agent_plugin_declaration set \<Rightarrow> ('s, 'w) session_builder \<Rightarrow> ('s, 'w) session_builder \<Rightarrow> bool" where
  "session_adds plugins b b' =
     (builder_wf (sb_core b) \<longrightarrow> core_adds (sb_core b) (sb_core b')
      \<and> (\<exists>ws. sb_plugin_load_warnings b' = sb_plugin_load_warnings b @ ws
          \<and> (\<forall>x \<in> set ws. \<exists>p \<in> plugins. apd_plugin_id p = plw_plugin_id x \<and> apd_on_load_failure p = DisableForRun)))"

lemma session_adds_refl: "session_adds plugins b b"
  by (simp add: session_adds_def core_adds_refl)

lemma session_adds_trans:
  assumes "session_adds plugins a b" and "session_adds plugins b c"
  shows "session_adds plugins a c"
proof -
  have "builder_wf (sb_core b)" if "builder_wf (sb_core a)"
    using assms(1) that by (simp add: session_adds_def core_adds_def)
  with assms show ?thesis unfolding session_adds_def by (auto intro: core_adds_trans)
qed

text \<open>A step either adds or fails, and fails only for a plugin that must not.\<close>

definition load_ok ::
  "agent_plugin_declaration set \<Rightarrow> ('s, 'w) session_builder \<Rightarrow> agent_core_error + ('s, 'w) session_builder \<Rightarrow> bool" where
  "load_ok plugins b r =
     (case r of Inr b' \<Rightarrow> session_adds plugins b b' | Inl e \<Rightarrow> \<exists>p \<in> plugins. apd_on_load_failure p = FailRun)"

lemma load_ok_record:
  assumes "p \<in> plugins"
  shows "load_ok plugins b (record_plugin_load_error (apd_plugin_id p) (apd_on_load_failure p) message b)"
  using assms
  by (cases "apd_on_load_failure p")
    (auto simp: load_ok_def record_plugin_load_error_def session_adds_def core_adds_refl)

lemma load_ok_trans: "session_adds plugins a b \<Longrightarrow> load_ok plugins b r \<Longrightarrow> load_ok plugins a r"
  by (auto simp: load_ok_def intro: session_adds_trans split: sum.splits)

lemma session_adds_tool:
  "\<not> has_tool (ts_name (tp_spec t)) (sb_core b) \<Longrightarrow> session_adds plugins b (b\<lparr>sb_core := with_tool t (sb_core b)\<rparr>)"
  by (simp add: session_adds_def add_tool_adds)

lemma load_ok_mcp_tools:
  assumes "p \<in> plugins"
  shows "load_ok plugins b (add_mcp_tools (apd_plugin_id p) (apd_on_load_failure p) ts b)"
proof (induction ts arbitrary: b)
  case Nil
  then show ?case by (simp add: load_ok_def session_adds_refl)
next
  case (Cons t ts)
  show ?case
  proof (cases "has_tool (ts_name (tp_spec t)) (sb_core b)")
    case True
    let ?r = "record_plugin_load_error (apd_plugin_id p) (apd_on_load_failure p)
      (''plugin MCP tool `'' @ ts_name (tp_spec t) @ ''` conflicts with an existing runtime tool'') b"
    have one: "load_ok plugins b ?r" by (rule load_ok_record [OF assms])
    show ?thesis
    proof (cases ?r)
      case (Inl e)
      with one True show ?thesis by (simp add: load_ok_def)
    next
      case (Inr b1)
      then have "session_adds plugins b b1" using one by (simp add: load_ok_def)
      from load_ok_trans [OF this Cons.IH] show ?thesis using True Inr by simp
    qed
  next
    case False
    then show ?thesis using load_ok_trans [OF session_adds_tool [OF False] Cons.IH] by simp
  qed
qed

lemma session_adds_sync: "session_adds plugins b (b\<lparr>sb_core := core\<rparr>) \<Longrightarrow>
    session_adds plugins b (sync_model_provider_metadata_from_core (b\<lparr>sb_core := core\<rparr>))"
  by (simp add: session_adds_def sync_model_provider_metadata_from_core_def)

lemma load_ok_extension:
  assumes "p \<in> plugins"
  shows "load_ok plugins b (snd (load_component env cwd p (ExtensionComponent c) b w))"
proof (cases "to_stdio_extension_config c (apd_plugin_id p) (se_env_var env)")
  case (Inl e)
  then show ?thesis using load_ok_record [OF assms] by (simp add: lift_result_run)
next
  case (Inr config)
  obtain w1 r where r: "add_stdio_extension (se_connect env) config (sb_core b) w = (w1, r)" by force
  show ?thesis
  proof (cases r)
    case (Inl e)
    then show ?thesis using load_ok_record [OF assms] Inr r
      by (simp add: and_then_def try_eff_run session_add_extension_def lift_result_run)
  next
    case core: (Inr core)
    have "session_adds plugins b (b\<lparr>sb_core := core\<rparr>)"
      using add_extension_adds [of "se_connect env" config "sb_core b" w w1 core] r core
      by (simp add: session_adds_def)
    from session_adds_sync [OF this] show ?thesis using Inr r core
      by (simp add: and_then_def try_eff_run session_add_extension_def lift_result_run ok_run load_ok_def)
  qed
qed

lemma load_ok_component: "p \<in> plugins \<Longrightarrow> load_ok plugins b (snd (load_component env cwd p c b w))"
proof (cases c)
  case (SkillsComponent roots)
  assume p: "p \<in> plugins"
  show ?thesis
  proof (cases "load_plugin_skills (se_skills_host env) (apd_plugin_id p) roots cwd")
    case (Inl e)
    then show ?thesis using load_ok_record [OF p] by (simp add: SkillsComponent lift_result_run)
  next
    case (Inr skills)
    then show ?thesis by (simp add: SkillsComponent lift_result_run load_ok_def session_adds_def core_adds_refl)
  qed
next
  case (McpComponent m)
  assume p: "p \<in> plugins"
  then show ?thesis using load_ok_record [OF p] load_ok_mcp_tools [OF p]
    by (auto simp: McpComponent split: prod.splits sum.splits)
next
  case (ExtensionComponent x)
  assume p: "p \<in> plugins"
  then show ?thesis using load_ok_extension [OF p] by (simp only: ExtensionComponent)
qed

lemma load_ok_fold:
  assumes "\<And>x b w. x \<in> set xs \<Longrightarrow> load_ok plugins b (snd (f x b w))"
  shows "load_ok plugins b (snd (for_fold xs f b w))"
  using assms
proof (induction xs arbitrary: b w)
  case Nil
  then show ?case by (simp add: ok_run load_ok_def session_adds_refl)
next
  case (Cons x xs)
  obtain w1 r where r: "f x b w = (w1, r)" by force
  have one: "load_ok plugins b r" using Cons.prems [of x b w] r by simp
  show ?case
  proof (cases r)
    case (Inl e)
    with one r show ?thesis by (simp add: and_then_def load_ok_def)
  next
    case (Inr b1)
    have "load_ok plugins b1 (snd (for_fold xs f b1 w1))" by (rule Cons.IH) (simp add: Cons.prems)
    with one Inr r show ?thesis by (auto simp: and_then_def load_ok_def intro: session_adds_trans split: sum.splits)
  qed
qed

lemma session_adds_reset: "session_adds plugins (b\<lparr>sb_skills := k\<rparr>) b' = session_adds plugins b b'"
  by (simp add: session_adds_def)

text \<open>C19: Loading the plugins of the manifest only adds to a session's runtime, whatever the processes, the MCP servers and the skill files are: every tool and model provider that was registered is still the same, also under an MCP tool of its name, the default provider and the order of the phases are kept, and the tool hooks of the plugins come after those of the host; every warning is of an enabled plugin that may fail, and loading fails only when an enabled plugin that must not fail is there.\<close>

theorem plugins_only_add:
  assumes "builder_wf (sb_core b)"
  shows "case snd (with_manifest_plugins env cwd b w) of
    Inr b' \<Rightarrow>
      map_of (rb_tools (sb_core b)) \<subseteq>\<^sub>m map_of (rb_tools (sb_core b'))
      \<and> map_of (rb_model_providers (sb_core b)) \<subseteq>\<^sub>m map_of (rb_model_providers (sb_core b'))
      \<and> (\<forall>i. rb_default_model_provider (sb_core b) = Some i \<longrightarrow> rb_default_model_provider (sb_core b') = Some i)
      \<and> subseq (rb_phases (sb_core b)) (rb_phases (sb_core b'))
      \<and> prefix (rb_tool_hooks (sb_core b)) (rb_tool_hooks (sb_core b'))
      \<and> (\<exists>ws. sb_plugin_load_warnings b' = sb_plugin_load_warnings b @ ws
          \<and> (\<forall>x \<in> set ws. \<exists>p \<in> set (bt_values (am_plugins (sb_manifest b))). apd_enabled p
               \<and> apd_plugin_id p = plw_plugin_id x \<and> apd_on_load_failure p = DisableForRun))
  | Inl e \<Rightarrow> \<exists>p \<in> set (bt_values (am_plugins (sb_manifest b))). apd_enabled p \<and> apd_on_load_failure p = FailRun"
proof -
  let ?plugins = "filter apd_enabled (bt_values (am_plugins (sb_manifest b)))"
  have plugin: "load_ok (set ?plugins) b (snd (load_plugin env cwd p b w))" if "p \<in> set ?plugins" for p b w
    unfolding load_plugin_def using load_ok_component [OF that] by (rule load_ok_fold)
  have "load_ok (set ?plugins) (b\<lparr>sb_skills := no_runtime_skills\<rparr>) (snd (with_manifest_plugins env cwd b w))"
    unfolding with_manifest_plugins_def using plugin by (rule load_ok_fold)
  then have "load_ok (set ?plugins) b (snd (with_manifest_plugins env cwd b w))"
    by (auto simp: load_ok_def session_adds_reset split: sum.splits)
  then show ?thesis
  proof (cases "snd (with_manifest_plugins env cwd b w)")
    case (Inr b')
    with \<open>load_ok (set ?plugins) b (snd (with_manifest_plugins env cwd b w))\<close> assms obtain ws where
      adds: "core_adds (sb_core b) (sb_core b')"
      and ws: "sb_plugin_load_warnings b' = sb_plugin_load_warnings b @ ws"
        "\<forall>x \<in> set ws. \<exists>p \<in> set ?plugins. apd_plugin_id p = plw_plugin_id x \<and> apd_on_load_failure p = DisableForRun"
      by (auto simp: load_ok_def session_adds_def)
    have "\<forall>x \<in> set ws. \<exists>p \<in> set (bt_values (am_plugins (sb_manifest b))). apd_enabled p
        \<and> apd_plugin_id p = plw_plugin_id x \<and> apd_on_load_failure p = DisableForRun"
      using ws(2) by fastforce
    with adds ws(1) Inr show ?thesis by (simp add: core_adds_def)
  qed (auto simp: load_ok_def)
qed

definition host_tool :: "unit tool_provider" where
  "host_tool = \<lparr>tp_spec = sample_tool_spec, tp_execute_tool = (\<lambda>r. err Aborted)\<rparr>"

definition quiet_hook :: "unit tool_call_hook" where
  "quiet_hook = \<lparr>th_id = None, th_before_tool_call = (\<lambda>c. ok None), th_after_tool_call = (\<lambda>c. ok None)\<rparr>"

definition sample_session :: agent_session where
  "sample_session = session_default (detect_host (\<lambda>n. None) ''linux'' ''x86_64'' None None) [RootDir, Normal ''tmp'']"

text \<open>Its MCP server offers a tool under the name of a tool of the host.\<close>

definition sample_session_env :: "(memory_store, unit) session_env" where
  "sample_session_env =
     \<lparr>se_built_in_tool = (\<lambda>n. host_tool), se_write_file_tool = host_tool, se_apply_patch_tool = host_tool,
      se_approval_hook = (\<lambda>m. quiet_hook), se_overflow_hook = (\<lambda>c. quiet_hook), se_catalog = (\<lambda>l k. k),
      se_prompt_texts = \<lparr>ptx_openai_en = [], ptx_openai_zh = [], ptx_general_en = [], ptx_general_zh = []\<rparr>,
      se_cancelled = (\<lambda>w. False), se_read_session = (\<lambda>w. sample_session), se_event_store = memory_store_ops,
      se_env_var = (\<lambda>n. None), se_skills_host = sample_skills_host,
      se_load_mcp_tools = (\<lambda>i n c. ok [host_tool\<lparr>tp_execute_tool := (\<lambda>r. err (Provider ''m''))\<rparr>]),
      se_connect = (\<lambda>c. err Aborted)\<rparr>"

definition sample_mcp_plugin :: agent_plugin_declaration where
  "sample_mcp_plugin =
     \<lparr>apd_plugin_id = ''p'', apd_display_name = ''P'', apd_description = None,
      apd_components = [McpComponent
        \<lparr>mpc_server_id = ''m'',
         mpc_transport = StreamableHttp
           \<lparr>mht_url = ''http://m'', mht_headers = [], mht_connect_timeout_secs = None, mht_request_timeout_secs = None\<rparr>,
         mpc_enabled_tools = [], mpc_disabled_tools = [], mpc_tool_name_prefix = None, mpc_request_timeout_secs = None\<rparr>],
      apd_enabled = True, apd_on_load_failure = DisableForRun\<rparr>"

definition sample_session_builder :: "(memory_store, unit) session_builder" where
  "sample_session_builder =
     (session_runtime_builder sample_session_env sample_session)
       \<lparr>sb_core := with_tool host_tool (runtime_builder_default memory_store_ops),
        sb_manifest := (as_manifest sample_session)\<lparr>am_plugins := [(''p'', sample_mcp_plugin)]\<rparr>\<rparr>"

theorem plugins_only_add_witness:
  "case snd (with_manifest_plugins sample_session_env [RootDir] sample_session_builder ()) of
     Inr b' \<Rightarrow> map_of (rb_tools (sb_core b')) ''t'' = Some host_tool
   | Inl e \<Rightarrow> False"
proof -
  have "builder_wf (sb_core sample_session_builder)"
    by (simp add: sample_session_builder_def builder_wf_def with_tool_def runtime_builder_default_def bt_wf_def)
  note added = plugins_only_add [OF this, of sample_session_env "[RootDir]" "()"]
  have tool: "map_of (rb_tools (sb_core sample_session_builder)) ''t'' = Some host_tool"
    by (simp add: sample_session_builder_def with_tool_def runtime_builder_default_def host_tool_def sample_tool_spec_def)
  show ?thesis
  proof (cases "snd (with_manifest_plugins sample_session_env [RootDir] sample_session_builder ())")
    case (Inl e)
    with added show ?thesis
      by (simp add: sample_session_builder_def bt_values_def sample_mcp_plugin_def)
  next
    case (Inr b')
    with added have "map_of (rb_tools (sb_core sample_session_builder)) \<subseteq>\<^sub>m map_of (rb_tools (sb_core b'))" by simp
    with tool have "map_of (rb_tools (sb_core b')) ''t'' = Some host_tool" by (metis domI map_le_def)
    with Inr show ?thesis by simp
  qed
qed

section \<open>What is built\<close>

text \<open>The session and the core name the same default provider, unless the core is configured on its own.\<close>

definition provider_agrees :: "('s, 'w) session_builder \<Rightarrow> bool" where
  "provider_agrees b = (sb_default_model_provider b = rb_default_model_provider (sb_core b))"

lemma fold_with_tool_default:
  "rb_default_model_provider (fold (\<lambda>n. with_tool (f n)) ns c) = rb_default_model_provider c"
  by (induction ns arbitrary: c) (simp_all add: with_tool_def)

lemma provider_agrees_steps:
  "provider_agrees (session_runtime_builder env s)"
  "provider_agrees b \<Longrightarrow> provider_agrees (sync_model_provider_metadata_from_core b)"
  "provider_agrees b \<Longrightarrow> provider_agrees (session_with_model_provider name p b)"
  "provider_agrees (session_default_model_provider i b)"
proof -
  show "provider_agrees (session_runtime_builder env s)"
    by (simp add: provider_agrees_def session_runtime_builder_def Let_def with_tool_hook_def with_context_provider_def
        runtime_builder_default_def with_run_id_prefix_def fold_with_tool_default split: option.split)
qed (simp_all add: provider_agrees_def sync_model_provider_metadata_from_core_def session_with_model_provider_def
      with_model_provider_def session_default_model_provider_def set_default_model_provider_def split: option.split)

text \<open>A default set through the core is not seen by the session, which then tells the prompt of another model.\<close>

lemma configured_default_ignored:
  assumes "sb_default_model_provider b = Some i" and "i \<noteq> j"
  shows "\<not> provider_agrees (configure_core (set_default_model_provider j) b)"
    and "session_default_provider_id (configure_core (set_default_model_provider j) b) = Some i"
    and "rb_default_model_provider (sb_core (configure_core (set_default_model_provider j) b)) = Some j"
  using assms by (simp_all add: provider_agrees_def configure_core_def sync_model_provider_metadata_from_core_def
      set_default_model_provider_def session_default_provider_id_def)

lemma final_core_default [simp]: "rb_default_model_provider (final_core env b k) = rb_default_model_provider (sb_core b)"
  by (simp add: final_core_def Let_def without_tool_def with_tool_def split: option.split)

lemma build_runtime_parts:
  "build_runtime renv b = Inr rt \<Longrightarrow>
   rb_default_model_provider b = Some (rt_default_model_provider rt) \<and> rt_tools rt = rb_tools b
   \<and> rt_phase_hooks rt = map snd (rb_phase_hooks b)"
  by (auto simp: build_runtime_def split: option.splits if_splits sum.splits)

text \<open>The prompt is told of the provider that the runtime uses.\<close>

lemma built_for_prompted_model:
  assumes "session_build env renv b s = (s', Inr rt)" and "provider_agrees b"
  shows "\<exists>c. as_model_context s' = Some c \<and> pmc_provider_id c = rt_default_model_provider rt"
proof -
  let ?b = "sync_model_provider_metadata_from_core b"
  from assms(1) obtain k where "build_runtime renv (final_core env ?b k) = Inr rt"
    and s': "s' = s\<lparr>as_model_context := default_model_context ?b\<rparr>"
    by (auto simp: session_build_def Let_def split: sum.splits)
  then have "rb_default_model_provider (sb_core ?b) = Some (rt_default_model_provider rt)"
    using build_runtime_parts by fastforce
  with provider_agrees_steps(2) [OF assms(2)]
  have "sb_default_model_provider ?b = Some (rt_default_model_provider rt)" by (simp add: provider_agrees_def)
  then show ?thesis by (simp add: s' default_model_context_def session_default_provider_id_def)
qed

text \<open>The prompt hook comes first, and of the file edit tools only the selected one is there.\<close>

lemma built_tools:
  assumes "session_build env renv b s = (s', Inr rt)" and "bt_wf (rb_tools (sb_core b))"
    and "ts_name (tp_spec (se_write_file_tool env)) = WRITE_FILE_TOOL_NAME"
    and "ts_name (tp_spec (se_apply_patch_tool env)) = APPLY_PATCH_TOOL_NAME"
  shows "n \<notin> {WRITE_FILE_TOOL_NAME, APPLY_PATCH_TOOL_NAME} \<Longrightarrow> map_of (rt_tools rt) n = map_of (rb_tools (sb_core b)) n"
    and "am_file_edit_tool_policy (sb_manifest b) = FileEditDisabled \<Longrightarrow>
      map_of (rt_tools rt) WRITE_FILE_TOOL_NAME = None \<and> map_of (rt_tools rt) APPLY_PATCH_TOOL_NAME = None"
proof -
  let ?b = "sync_model_provider_metadata_from_core b"
  have same: "rb_tools (sb_core ?b) = rb_tools (sb_core b)" "sb_manifest ?b = sb_manifest b"
    by (simp_all add: sync_model_provider_metadata_from_core_def)
  from assms(1) obtain k where rt: "rt_tools rt = rb_tools (final_core env ?b k)"
    using build_runtime_parts by (fastforce simp: session_build_def Let_def split: sum.splits)
  have sel: "t = se_write_file_tool env \<or> t = se_apply_patch_tool env" if "selected_file_edit_tool env ?b = Some t" for t
    using that by (auto simp: selected_file_edit_tool_def auto_file_edit_tool_def split: file_edit_tool_policy.splits if_splits)
  show "map_of (rt_tools rt) n = map_of (rb_tools (sb_core b)) n" if "n \<notin> {WRITE_FILE_TOOL_NAME, APPLY_PATCH_TOOL_NAME}"
    using that assms(2-4) sel
    by (auto simp: rt final_core_def Let_def without_tool_def with_tool_def same map_of_bt_insert bt_wf_remove
        map_of_bt_remove split: option.split)
  show "map_of (rt_tools rt) WRITE_FILE_TOOL_NAME = None \<and> map_of (rt_tools rt) APPLY_PATCH_TOOL_NAME = None"
    if "am_file_edit_tool_policy (sb_manifest b) = FileEditDisabled"
    using that assms(2)
    by (simp add: rt final_core_def Let_def without_tool_def same selected_file_edit_tool_def bt_wf_remove map_of_bt_remove)
qed

text \<open>A proposal that fails takes the approved ones behind it with it: none of them is kept.\<close>

lemma approved_proposals_drained:
  "apply_approved_manifest_patches s = (s', r) \<Longrightarrow> mps_approved (as_proposal_store s') = []"
  by (auto simp: apply_approved_manifest_patches_def drain_approved_def split: prod.splits)

lemma failed_proposal_stops:
  "apply_manifest_patch (mpp_patch p) m = (m', Inl e) \<Longrightarrow>
   apply_proposals (p # ps) m = (m', Inl (Provider (show_manifest_error e)))"
  by simp

text \<open>The preview of a completion can be cut although the message says that the output is not.\<close>

lemma preview_cut_not_told:
  assumes "po_chunks out = [c]" and "oc_text c \<noteq> []"
  shows "length (output_preview_text t out (length (oc_text c))) < length (chunk_line c)"
proof -
  have "length (suffix_to_bytes (chunk_line c) (length (oc_text c))) \<le> length (oc_text c)"
    by (rule length_suffix_to_bytes)
  moreover have "length (oc_text c) < length (chunk_line c)" by (simp add: chunk_line_def)
  moreover have "max (length (oc_text c)) 1 = length (oc_text c)" using assms(2) by (cases "oc_text c") auto
  ultimately show ?thesis using assms(1) by (simp add: output_preview_text_def)
qed

end
