(* ===== verification/Spec2Isabelle.thy ===== *)
theory Spec2Isabelle
  imports Prelude Ordered_Maps Effects Core_Types Reducer Compaction Event_Store Providers
    Assistant Standard_Phases Tool_Phase Recording Run_Loop Approval_Resume Sample_Runtime
    Tool_Safety Run_Properties Run_Outcomes Resume_Properties Agent Agent_Properties Utf8
    Sse_Decoder Sse_Properties Sse_Stream Sse_Handler Tool_Names Provider_Utils Provider_Env
    Chat_Payload Chat_Stream Chat_Provider Chat_Properties Anthropic_Payload Anthropic_Stream
    Anthropic_Provider Responses_Payload Responses_Stream Responses_Provider Host_Files
    Command_Safety Patch_Document Tool_Inputs File_Edit File_Edit_Properties Approval
    Approval_Properties Output_Buffer Process_Manager Host_Exec Plugin System_Prompt Manifest
    Manifest_Properties Interaction_Access Goals Automations Session_Store Subagent_Tools
    Session_Registry Registry_Goals Registry_Automations Rust_Strings Telegram_Text
    Runtime_Builder Extension_Adapters Extension_Client Telegram_Render Telegram_Input
    Telegram_Callbacks Telegram_Polling Telegram_Approvals Display_Projector
    Output_Overflow Skills Agent_Session Session_Runtime
begin

text \<open>
  A verification development of noloong, an agent runtime written in Rust. An agent run is a loop of
  turns; a turn runs a list of phases (take the input, prepare the context and the model request,
  stream the model, commit the assistant message, resolve and execute the tool calls, decide on the
  next turn). Phases do not change the agent's state themselves: they propose effects, every effect
  and every step is an event appended to an event store, and the state is what a reducer makes of
  the events. A tool call can be denied by a hook or wait for an approval; then the run pauses and is
  resumed later from its log.

  \<^bold>\<open>The theories and the code.\<close> All paths are under \<open>src/crates/noloong-agent-core/src\<close> unless
  another crate is named.

  \<^item> \<open>Prelude\<close>: strings as byte lists with the functions of Rust's \<open>str\<close> the code uses, decimal
    numbers, \<open>position\<close>; the collections of hints. \<open>Ordered_Maps\<close>: \<open>BTreeMap\<close> and \<open>BTreeSet\<close> as
    sorted lists, behind a locale of map laws. \<open>Effects\<close>: asynchronous functions that return a
    \<open>Result\<close>, as functions from a state to a state and a sum, with loops, preserved predicates and
    triples. \<open>Rust_Strings\<close>: characters, lines, words and integers for the modules that cut texts.
  \<^item> \<open>Core_Types\<close>: \<open>error.rs\<close>, \<open>types/\<close>: messages, thinking, media, tool calls, permissions,
    approvals, effects, events, the state.
  \<^item> \<open>Reducer\<close>: \<open>reducer.rs\<close>: the validation of effects and the application of events.
  \<^item> \<open>Compaction\<close>: \<open>compaction.rs\<close>: token estimates, the cut point, the compaction plan.
  \<^item> \<open>Event_Store\<close>: \<open>store/\<close>: the interface of an event store as a locale, and the in-memory store
    that interprets it. \<open>Providers\<close>: \<open>providers.rs\<close> and the runtime's fields: models, tools, hooks,
    queues and the event sink, all parameters of the model.
  \<^item> \<open>Assistant\<close>: \<open>phase/assistant.rs\<close>, \<open>types/media.rs\<close>, \<open>types/thinking.rs\<close>: the content blocks
    of the assistant message assembled from the events of the model stream.
  \<^item> \<open>Standard_Phases\<close> and \<open>Tool_Phase\<close>: \<open>phase/\<close>: what each standard phase gives. \<open>Tool_Safety\<close>
    shows what the tool phase guarantees, sequential or parallel, first run or resumed.
  \<^item> \<open>Recording\<close> and \<open>Run_Loop\<close>: \<open>runtime/run_loop.rs\<close>: recording events, committing effects, a
    phase's output, turns, queues and the run. \<open>Approval_Resume\<close>: \<open>runtime/approval.rs\<close>: resuming
    and aborting a paused run.
  \<^item> \<open>Run_Properties\<close>, \<open>Run_Outcomes\<close>, \<open>Resume_Properties\<close>: what a run, a failed run and a resumed
    run leave in the log and in the state. \<open>Sample_Runtime\<close>: a concrete runtime for instances.
  \<^item> \<open>Agent\<close> and \<open>Agent_Properties\<close>: \<open>agent.rs\<close>: the shared state of an agent, its queues of
    messages behind a locale of queue laws, exclusive runs, prompts, resumption and abort.
  \<^item> \<open>Utf8\<close>: the validation of \<open>str::from_utf8\<close>. \<open>Sse_Decoder\<close>, \<open>Sse_Properties\<close> and
    \<open>Sse_Stream\<close>: \<open>sse.rs\<close>: the incremental decoder of server-sent events, shown not to depend on
    how the bytes are split and to agree with the format's line-based definition; attempts, retries
    and reconnect delays.
  \<^item> \<open>Tool_Names\<close>, \<open>Provider_Utils\<close>, \<open>Provider_Env\<close>: \<open>tool_names.rs\<close>, \<open>provider_utils.rs\<close>,
    \<open>http_auth.rs\<close>: the names under which tools are shown to a model, headers, authorization, local
    media, and what the providers run in. \<open>Sse_Handler\<close> and the locale \<open>frame_handling\<close> of
    \<open>Provider_Env\<close> are the contract between a provider and the stream reader; each provider
    interprets it.
  \<^item> \<open>Chat_Payload\<close>, \<open>Chat_Stream\<close>, \<open>Chat_Provider\<close>, \<open>Chat_Properties\<close> (\<open>chat_completions.rs\<close>),
    \<open>Anthropic_Payload\<close>, \<open>Anthropic_Stream\<close>, \<open>Anthropic_Provider\<close> (\<open>anthropic_messages.rs\<close>),
    \<open>Responses_Payload\<close>, \<open>Responses_Stream\<close>, \<open>Responses_Provider\<close> (\<open>responses.rs\<close>): the request a
    provider sends, the decoding of its stream, and the attempts; the shape of every returned stream.
  \<^item> \<open>Runtime_Builder\<close>: \<open>runtime/builder.rs\<close>: registrations, the order of phases, the build.
    \<open>Extension_Adapters\<close> and \<open>Extension_Client\<close>: \<open>jsonrpc/\<close>: the capabilities of an extension
    process, the providers made of it, and its client as steps of requests and replies, of which none
    stays unanswered after the process has failed.

  The next theories model \<open>src/crates/noloong-agent/src\<close>.

  \<^item> \<open>Host_Files\<close>, \<open>Tool_Inputs\<close>: paths and files of the host; what the tools share (\<open>tools/mod.rs\<close>).
    \<open>Command_Safety\<close>, \<open>Approval\<close>, \<open>Approval_Properties\<close>: \<open>approval/\<close>: which commands only read, the
    cache of approvals and the approval hook, and why a call runs without asking.
  \<^item> \<open>Patch_Document\<close>, \<open>File_Edit\<close>, \<open>File_Edit_Properties\<close>: \<open>tools/file_edit.rs\<close>: the patch language
    and the edit tools, whose staged patch is refined to the effect of its operations in order.
  \<^item> \<open>Output_Buffer\<close>, \<open>Process_Manager\<close>, \<open>Host_Exec\<close>: \<open>process/manager.rs\<close>, \<open>text.rs\<close>,
    \<open>tools/host_exec.rs\<close>: spooled output, the jobs of host processes and the tools over them.
    \<open>Output_Overflow\<close>: \<open>tools/output_overflow.rs\<close>: the hook that moves a large output to a file.
  \<^item> \<open>Plugin\<close>, \<open>System_Prompt\<close>, \<open>Manifest\<close>, \<open>Manifest_Properties\<close>: \<open>plugin.rs\<close>,
    \<open>system_prompt.rs\<close>, \<open>manifest.rs\<close>: what an agent is made of and the patches that change it.
  \<^item> \<open>Interaction_Access\<close>, \<open>Goals\<close>, \<open>Automations\<close>, \<open>Session_Store\<close>, \<open>Subagent_Tools\<close>,
    \<open>Session_Registry\<close>, \<open>Registry_Goals\<close>, \<open>Registry_Automations\<close>: \<open>interaction/\<close>, \<open>tools/goal.rs\<close>,
    \<open>tools/subagent.rs\<close>: sessions with their goals, subagents and automations. The store of sessions
    is a locale for each kind of record (\<open>keyed_store\<close>), interpreted on the in-memory store.
  \<^item> \<open>Skills\<close>, \<open>Agent_Session\<close>, \<open>Session_Runtime\<close>: \<open>skills.rs\<close>, \<open>session.rs\<close>, \<open>host.rs\<close>: the scan for
    skills, the session with its tools and system prompt, the plugins of its manifest and the runtime
    it builds; plugins only add to a runtime.
  \<^item> \<open>Display_Projector\<close>: \<open>interaction/display_projector.rs\<close>: what a channel is shown of a run.

  The last ones model \<open>src/crates/noloong-agent-telegram/src\<close> and the loop of \<open>src/src/telegram_cli.rs\<close>.

  \<^item> \<open>Telegram_Text\<close>, \<open>Telegram_Render\<close>: \<open>text.rs\<close>, \<open>render.rs\<close>, \<open>queue.rs\<close>, \<open>process.rs\<close>: texts cut by
    UTF-16 units, MarkdownV2, and the views of queues and processes.
  \<^item> \<open>Telegram_Input\<close>, \<open>Telegram_Callbacks\<close>, \<open>Telegram_Approvals\<close>: \<open>input.rs\<close>, \<open>access.rs\<close>,
    \<open>callback.rs\<close>, \<open>session.rs\<close>, \<open>approval.rs\<close>, \<open>commands.rs\<close>: messages, commands, buttons and the
    approvals decided by them.
  \<^item> \<open>Telegram_Polling\<close>: \<open>polling.rs\<close>, \<open>network.rs\<close>, \<open>config.rs\<close>: how updates reach the bot, each
    handled once.

  \<^bold>\<open>How code is read.\<close> \<open>&mut\<close> arguments are returned updated. A trait object is a record of
  functions on an arbitrary world; a call of it may change that world in any way, so the theorems
  hold for every model, tool, hook, queue and sink. A model stream is a tree of the events it emits.
  The tasks of a \<open>JoinSet\<close> run one after the other, in an order that an oracle of the world
  chooses; a task may also be lost. Counters of events, turns and runs are natural numbers.

  \<^bold>\<open>Fuel.\<close> Queues and custom phases can keep the turn loop going for ever, so the loop takes fuel,
  one unit for each turn, and returns nothing when it is used up. Without queues, and with the
  turn decision as the last phase, the maximum of turns of the runtime is enough fuel
  (\<open>run_within_max_turns\<close>).

  \<^bold>\<open>Not modelled.\<close> In the core: the SQLite event store (the locale of event stores states what is
  needed of it) and the conformance checks of extensions, which drive a real process. HTTP, the JSON
  text format, DNS, the file system below its calls, clocks, random identifiers and started
  processes are parameters. In noloong-agent: the servers and clients of the interaction
  protocol (\<open>control.rs\<close>, \<open>http.rs\<close>, \<open>jsonrpc.rs\<close>, \<open>client.rs\<close>), the stores on SQL and on objects, the
  client of MCP servers, the tool over the manifest, and the catalog of
  texts, whose texts are arguments of what shows them. In the
  telegram crate: the client of the service, media files, and the bridge with its delivery, which join
  the modelled parts by concurrent tasks. The Weixin channel, the desktop application, the
  configuration files, the login to OpenAI and the command line (but for the polling loop) are left
  out: they are mostly input and output around the parts above.
\<close>

end
